(* ===== verification/Prelude.thy ===== *)
theory Prelude
  imports Main "HOL-Library.Finite_Map"
begin

text \<open>
  The prelude: results with errors, the JavaScript string operations the server uses (strings are
  lists of UTF-8 bytes, as Redis and Lua see them), decimal numerals, and the generic lemmas and
  fact collections shared by the components.

  A JavaScript string is represented by its UTF-8 encoding. \<open>length\<close> is therefore the byte
  length (\<^verbatim>\<open>utf8ByteLength\<close>, Lua's \<^verbatim>\<open>string.len\<close>), and the number
  of UTF-16 code units (\<^verbatim>\<open>s.length\<close>) is computed by \<open>js_length\<close>.
\<close>

named_theorems key_simps \<open>distinctness and injectivity of the Redis key families\<close>
named_theorems redis_simps \<open>lookups after Redis commands\<close>
named_theorems json_simps \<open>field lookups in the JSON form of a record\<close>
named_theorems script_defs \<open>definitions of the Lua scripts\<close>

text \<open>The identifiers that travel between the components, all of them strings.\<close>

type_synonym user_id = string
type_synonym ws_id = string
type_synonym job_id = string
type_synonym attempt_id = string
type_synonym target_id = string
type_synonym device_id = string
type_synonym binding_id = string
type_synonym digest = string

section \<open>Results\<close>

text \<open>A computation that may throw: \<open>Inl\<close> carries the error, \<open>Inr\<close> the value.\<close>

definition ebind :: "'e + 'a \<Rightarrow> ('a \<Rightarrow> 'e + 'b) \<Rightarrow> 'e + 'b" where
  "ebind m f = (case m of Inl e \<Rightarrow> Inl e | Inr x \<Rightarrow> f x)"

definition emap_err :: "('e \<Rightarrow> 'f) \<Rightarrow> 'e + 'a \<Rightarrow> 'f + 'a" where
  "emap_err g m = (case m of Inl e \<Rightarrow> Inl (g e) | Inr x \<Rightarrow> Inr x)"

definition eguard :: "bool \<Rightarrow> 'e \<Rightarrow> 'e + unit" where
  "eguard ok e = (if ok then Inr () else Inl e)"

lemma ebind_simps [simp]:
  "ebind (Inl e) f = Inl e"
  "ebind (Inr x) f = f x"
  by (simp_all add: ebind_def)

lemma emap_err_simps [simp]:
  "emap_err g (Inl e) = Inl (g e)"
  "emap_err g (Inr x) = Inr x"
  by (simp_all add: emap_err_def)

lemma ebind_eq_Inr: "ebind m f = Inr y \<longleftrightarrow> (\<exists>x. m = Inr x \<and> f x = Inr y)"
  by (cases m) simp_all

lemma emap_err_eq_Inr [simp]: "emap_err g m = Inr y \<longleftrightarrow> m = Inr y"
  by (cases m) simp_all

lemma eguard_eq_Inr [simp]: "eguard ok e = Inr u \<longleftrightarrow> ok"
  by (simp add: eguard_def)

lemma eguard_True [simp]: "eguard True e = Inr ()"
  by (simp add: eguard_def)

lemma eguard_False [simp]: "eguard False e = Inl e"
  by (simp add: eguard_def)

section \<open>Characters and decimal numerals\<close>

definition digit_chars :: string where
  "digit_chars = ''0123456789''"

definition is_digit :: "char \<Rightarrow> bool" where
  "is_digit c \<longleftrightarrow> c \<in> set digit_chars"

definition digit_val :: "char \<Rightarrow> nat" where
  "digit_val c = length (takeWhile (\<lambda>d. d \<noteq> c) digit_chars)"

text \<open>\<^verbatim>\<open>String(n)\<close> for a non-negative integer.\<close>

fun show_nat :: "nat \<Rightarrow> string" where
  "show_nat n = (if n < 10 then [digit_chars ! n] else show_nat (n div 10) @ [digit_chars ! (n mod 10)])"

declare show_nat.simps [simp del]

definition show_int :: "int \<Rightarrow> string" where
  "show_int i = (if i < 0 then CHR ''-'' # show_nat (nat (- i)) else show_nat (nat i))"

definition read_nat :: "string \<Rightarrow> nat" where
  "read_nat s = foldl (\<lambda>acc c. acc * 10 + digit_val c) 0 s"

text \<open>
  \<^verbatim>\<open>tonumber\<close> (Lua) and \<^verbatim>\<open>Number\<close> (JavaScript) on the numerals the server writes:
  a non-empty run of decimal digits.
\<close>

definition parse_nat :: "string \<Rightarrow> nat option" where
  "parse_nat s = (if s \<noteq> [] \<and> list_all is_digit s then Some (read_nat s) else None)"

lemma lt10_cases:
  assumes "(n::nat) < 10"
  shows "n \<in> {0, 1, 2, 3, 4} \<or> n \<in> {5, 6, 7, 8, 9}"
  using assms by auto

lemma is_digit_nth [simp]: "n < 10 \<Longrightarrow> is_digit (digit_chars ! n)"
  by (simp add: is_digit_def digit_chars_def del: set_simps)

lemma digit_val_nth [simp]: "n < 10 \<Longrightarrow> digit_val (digit_chars ! n) = n"
  by (drule lt10_cases) (auto simp: digit_val_def digit_chars_def)

lemma show_nat_nonempty [simp]: "show_nat n \<noteq> []"
  by (subst show_nat.simps) simp

lemma show_nat_digits [simp]: "list_all is_digit (show_nat n)"
proof (induction n rule: show_nat.induct)
  case (1 n)
  then show ?case by (subst show_nat.simps) auto
qed

lemma read_nat_snoc: "read_nat (s @ [c]) = read_nat s * 10 + digit_val c"
  by (simp add: read_nat_def)

lemma read_show_nat [simp]: "read_nat (show_nat n) = n"
proof (induction n rule: show_nat.induct)
  case (1 n)
  show ?case
  proof (cases "n < 10")
    case True
    then show ?thesis by (subst show_nat.simps) (simp add: read_nat_def)
  next
    case False
    with 1 show ?thesis by (subst show_nat.simps) (simp add: read_nat_snoc)
  qed
qed

lemma parse_show_nat [simp]: "parse_nat (show_nat n) = Some n"
  by (simp add: parse_nat_def)

lemma show_nat_inject [simp]: "show_nat m = show_nat n \<longleftrightarrow> m = n"
  by (metis read_show_nat)

lemma not_digit_notin_show_nat: "\<not> is_digit c \<Longrightarrow> c \<notin> set (show_nat n)"
  using show_nat_digits [of n] by (auto simp: list_all_iff)

section \<open>Splitting at a separator\<close>

text \<open>\<^verbatim>\<open>s.indexOf(c)\<close>, with \<open>None\<close> for -1.\<close>

definition index_of :: "char \<Rightarrow> string \<Rightarrow> nat option" where
  "index_of c s = (if c \<in> set s then Some (length (takeWhile (\<lambda>d. d \<noteq> c) s)) else None)"

lemma takeWhile_sep [simp]: "c \<notin> set s \<Longrightarrow> takeWhile (\<lambda>d. d \<noteq> c) (s @ c # t) = s"
  by (induction s) auto

lemma dropWhile_sep [simp]: "c \<notin> set s \<Longrightarrow> dropWhile (\<lambda>d. d \<noteq> c) (s @ c # t) = c # t"
  by (induction s) auto

lemma index_of_sep [simp]: "c \<notin> set s \<Longrightarrow> index_of c (s @ c # t) = Some (length s)"
  by (simp add: index_of_def)

text \<open>\<^verbatim>\<open>s.includes(part)\<close>.\<close>

fun contains :: "string \<Rightarrow> string \<Rightarrow> bool" where
  "contains p [] \<longleftrightarrow> p = []"
| "contains p (c # cs) \<longleftrightarrow> take (length p) (c # cs) = p \<or> contains p cs"

definition strip_prefix :: "string \<Rightarrow> string \<Rightarrow> string option" where
  "strip_prefix p s = (if take (length p) s = p then Some (drop (length p) s) else None)"

lemma strip_prefix_append [simp]: "strip_prefix p (p @ s) = Some s"
  by (simp add: strip_prefix_def)

lemma strip_prefix_Some: "strip_prefix p s = Some t \<Longrightarrow> s = p @ t"
  by (auto simp: strip_prefix_def split: if_splits) (metis append_take_drop_id)

section \<open>White space, as \<^verbatim>\<open>String.prototype.trim\<close> removes it\<close>

definition ws_seqs :: "string list" where
  "ws_seqs =
    [[CHR 0x09], [CHR 0x0A], [CHR 0x0B], [CHR 0x0C], [CHR 0x0D], [CHR 0x20],
     [CHR 0xC2, CHR 0xA0], [CHR 0xE1, CHR 0x9A, CHR 0x80],
     [CHR 0xE2, CHR 0x80, CHR 0x80], [CHR 0xE2, CHR 0x80, CHR 0x81], [CHR 0xE2, CHR 0x80, CHR 0x82],
     [CHR 0xE2, CHR 0x80, CHR 0x83], [CHR 0xE2, CHR 0x80, CHR 0x84], [CHR 0xE2, CHR 0x80, CHR 0x85],
     [CHR 0xE2, CHR 0x80, CHR 0x86], [CHR 0xE2, CHR 0x80, CHR 0x87], [CHR 0xE2, CHR 0x80, CHR 0x88],
     [CHR 0xE2, CHR 0x80, CHR 0x89], [CHR 0xE2, CHR 0x80, CHR 0x8A], [CHR 0xE2, CHR 0x80, CHR 0xA8],
     [CHR 0xE2, CHR 0x80, CHR 0xA9], [CHR 0xE2, CHR 0x80, CHR 0xAF], [CHR 0xE2, CHR 0x81, CHR 0x9F],
     [CHR 0xE3, CHR 0x80, CHR 0x80], [CHR 0xEF, CHR 0xBB, CHR 0xBF]]"

text \<open>Drop prefixes of the list as long as one matches; every entry of the list is non-empty.\<close>

fun strip_seqs :: "string list \<Rightarrow> nat \<Rightarrow> string \<Rightarrow> string" where
  "strip_seqs ws 0 s = s"
| "strip_seqs ws (Suc n) s =
     (case find (\<lambda>w. w \<noteq> [] \<and> take (length w) s = w) ws of
        None \<Rightarrow> s
      | Some w \<Rightarrow> strip_seqs ws n (drop (length w) s))"

definition js_trim_start :: "string \<Rightarrow> string" where
  "js_trim_start s = strip_seqs ws_seqs (length s) s"

definition js_trim_end :: "string \<Rightarrow> string" where
  "js_trim_end s = rev (strip_seqs (map rev ws_seqs) (length s) (rev s))"

definition js_trim :: "string \<Rightarrow> string" where
  "js_trim s = js_trim_end (js_trim_start s)"

text \<open>UTF-16 length of a UTF-8 encoded string: one unit per lead byte, two for four-byte sequences.\<close>

definition js_length :: "string \<Rightarrow> nat" where
  "js_length s = length (filter (\<lambda>c. of_char c < (0x80::nat) \<or> 0xC0 \<le> (of_char c :: nat)) s)
               + length (filter (\<lambda>c. 0xF0 \<le> (of_char c :: nat)) s)"

lemma js_trim_start_id:
  "s = [] \<or> find (\<lambda>w. w \<noteq> [] \<and> take (length w) s = w) ws_seqs = None \<Longrightarrow> js_trim_start s = s"
  by (cases "length s") (auto simp: js_trim_start_def)

lemma js_trim_end_id:
  "s = [] \<or> find (\<lambda>w. w \<noteq> [] \<and> take (length w) (rev s) = w) (map rev ws_seqs) = None \<Longrightarrow> js_trim_end s = s"
  by (cases "length s") (auto simp: js_trim_end_def)

lemma js_trim_Nil [simp]: "js_trim [] = []"
  by (simp add: js_trim_def js_trim_start_def js_trim_end_def)

text \<open>ASCII part of \<^verbatim>\<open>toLowerCase\<close>.\<close>

definition ascii_lower :: "char \<Rightarrow> char" where
  "ascii_lower c = (if 65 \<le> (of_char c :: nat) \<and> of_char c \<le> (90::nat) then char_of (of_char c + (32::nat)) else c)"

section \<open>Lists\<close>

lemma find_SomeD: "find P xs = Some x \<Longrightarrow> x \<in> set xs \<and> P x"
  by (induction xs) (auto split: if_splits)

end
