(* ===== verification/Json.thy ===== *)
theory Json
  imports Complex_Main Prelude
begin

text \<open>
  JSON values as JavaScript and Lua see them after decoding, and the field accesses both languages
  perform. A number is a rational: every JSON numeral denotes one, and \<^verbatim>\<open>Number.isInteger\<close>
  is a test on it. An object is a finite map, so two objects with the same fields are equal whatever
  the order in which they were written.
\<close>

datatype json =
    JNull
  | JBool bool
  | JNum rat
  | JStr string
  | JArr "json list"
  | JObj "(string, json) fmap"

type_synonym jobject = "(string, json) fmap"

abbreviation jint :: "int \<Rightarrow> json" where
  "jint i \<equiv> JNum (of_int i)"

abbreviation jfield :: "jobject \<Rightarrow> string \<Rightarrow> json option" where
  "jfield \<equiv> fmlookup"

definition jopt :: "('a \<Rightarrow> json) \<Rightarrow> 'a option \<Rightarrow> json" where
  "jopt f x = (case x of None \<Rightarrow> JNull | Some y \<Rightarrow> f y)"

text \<open>
  A text stored under a Redis string key: the serialisation of a JSON value
  (\<^verbatim>\<open>JSON.stringify\<close>, \<^verbatim>\<open>cjson.encode\<close>) or a plain text that is not JSON (a job
  id, a fence value, garbage).
\<close>

datatype payload = Text string | Json json

definition json_decode :: "payload \<Rightarrow> json option" where
  "json_decode p = (case p of Text _ \<Rightarrow> None | Json j \<Rightarrow> Some j)"

lemma json_decode_simps [simp]:
  "json_decode (Text s) = None"
  "json_decode (Json j) = Some j"
  by (simp_all add: json_decode_def)

section \<open>Typed reads of a field\<close>

definition as_str :: "json option \<Rightarrow> string option" where
  "as_str v = (case v of Some (JStr s) \<Rightarrow> Some s | _ \<Rightarrow> None)"

definition as_num :: "json option \<Rightarrow> rat option" where
  "as_num v = (case v of Some (JNum r) \<Rightarrow> Some r | _ \<Rightarrow> None)"

definition as_bool :: "json option \<Rightarrow> bool option" where
  "as_bool v = (case v of Some (JBool b) \<Rightarrow> Some b | _ \<Rightarrow> None)"

text \<open>\<^verbatim>\<open>Number.isInteger\<close> on a number, giving the integer.\<close>

definition as_int :: "json option \<Rightarrow> int option" where
  "as_int v = (case v of Some (JNum r) \<Rightarrow> if r = of_int \<lfloor>r\<rfloor> then Some \<lfloor>r\<rfloor> else None | _ \<Rightarrow> None)"

definition MAX_SAFE_INTEGER :: int where
  "MAX_SAFE_INTEGER = 9007199254740991"

text \<open>\<^verbatim>\<open>=== null\<close> and the nullish test \<^verbatim>\<open>=== null || === undefined\<close>.\<close>

definition is_null :: "json option \<Rightarrow> bool" where
  "is_null v \<longleftrightarrow> v = Some JNull"

definition is_nullish :: "json option \<Rightarrow> bool" where
  "is_nullish v \<longleftrightarrow> v = None \<or> v = Some JNull"

text \<open>JavaScript truthiness of a field.\<close>

definition js_truthy :: "json option \<Rightarrow> bool" where
  "js_truthy v = (case v of
      None \<Rightarrow> False | Some JNull \<Rightarrow> False | Some (JBool b) \<Rightarrow> b
    | Some (JNum r) \<Rightarrow> r \<noteq> 0 | Some (JStr s) \<Rightarrow> s \<noteq> [] | Some _ \<Rightarrow> True)"

text \<open>
  Lua truthiness: only \<open>nil\<close> and \<open>false\<close> are false; \<^verbatim>\<open>cjson.null\<close> is a
  light userdata, hence true.
\<close>

definition lua_truthy :: "json option \<Rightarrow> bool" where
  "lua_truthy v \<longleftrightarrow> v \<noteq> None \<and> v \<noteq> Some (JBool False)"

text \<open>
  The fields Lua reaches when it indexes a decoded value with one of the record field names: a table
  for an object, no such field for an array or for a string (whose metatable only holds the string
  library), and a run-time error for every other value.
\<close>

definition lua_fields :: "json \<Rightarrow> jobject option" where
  "lua_fields j = (case j of JObj m \<Rightarrow> Some m | JArr _ \<Rightarrow> Some fmempty | JStr _ \<Rightarrow> Some fmempty | _ \<Rightarrow> None)"

definition is_table :: "json option \<Rightarrow> bool" where
  "is_table v = (case v of Some (JObj _) \<Rightarrow> True | Some (JArr _) \<Rightarrow> True | _ \<Rightarrow> False)"

lemma as_simps [simp]:
  "as_str (Some (JStr s)) = Some s" "as_str (Some JNull) = None" "as_str None = None"
  "as_str (Some (JNum r)) = None" "as_str (Some (JObj m)) = None" "as_str (Some (JBool b)) = None"
  "as_num (Some (JNum r)) = Some r" "as_num (Some JNull) = None" "as_num None = None"
  "as_num (Some (JStr s)) = None" "as_num (Some (JObj m)) = None"
  "as_bool (Some (JBool b)) = Some b" "as_bool None = None" "as_bool (Some JNull) = None"
  by (simp_all add: as_str_def as_num_def as_bool_def)

lemma as_int_jint [simp]: "as_int (Some (JNum (of_int i))) = Some i"
  by (simp add: as_int_def)

lemma as_int_numeral [simp]:
  "as_int (Some (JNum (numeral n))) = Some (numeral n)"
  "as_int (Some (JNum 0)) = Some 0"
  "as_int (Some (JNum 1)) = Some 1"
  by (simp_all add: as_int_def)

lemma as_int_None [simp]:
  "as_int None = None" "as_int (Some JNull) = None" "as_int (Some (JStr s)) = None"
  "as_int (Some (JObj m)) = None"
  by (simp_all add: as_int_def)

lemma as_str_Some [simp]: "as_str v = Some s \<longleftrightarrow> v = Some (JStr s)"
  by (auto simp: as_str_def split: option.splits json.splits)

lemma as_bool_Some [simp]: "as_bool v = Some b \<longleftrightarrow> v = Some (JBool b)"
  by (auto simp: as_bool_def split: option.splits json.splits)

lemma as_num_Some [simp]: "as_num v = Some r \<longleftrightarrow> v = Some (JNum r)"
  by (auto simp: as_num_def split: option.splits json.splits)

lemma as_int_Some [simp]: "as_int v = Some i \<longleftrightarrow> v = Some (jint i)"
  by (auto simp: as_int_def split: option.splits json.splits if_splits)

lemma jopt_simps [simp]:
  "jopt f None = JNull"
  "jopt f (Some x) = f x"
  by (simp_all add: jopt_def)

lemma jopt_inject [simp]:
  "jopt JStr a = jopt JStr b \<longleftrightarrow> a = b"
  "jopt jint c = jopt jint d \<longleftrightarrow> c = d"
  by (cases a; cases b; simp) (cases c; cases d; simp)

lemma lua_fields_JObj [simp]: "lua_fields (JObj m) = Some m"
  by (simp add: lua_fields_def)

lemma is_table_simps [simp]:
  "is_table (Some (JObj m))" "\<not> is_table None" "\<not> is_table (Some JNull)" "\<not> is_table (Some (JStr s))"
  by (simp_all add: is_table_def)

lemma nullish_simps [simp]:
  "is_null (Some JNull)" "\<not> is_null None" "\<not> is_null (Some (JStr s))" "\<not> is_null (Some (JNum r))"
  "\<not> is_null (Some (JObj m))"
  "is_nullish (Some JNull)" "is_nullish None" "\<not> is_nullish (Some (JStr s))" "\<not> is_nullish (Some (JNum r))"
  "\<not> is_nullish (Some (JObj m))"
  by (simp_all add: is_null_def is_nullish_def)

lemma truthy_simps [simp]:
  "\<not> js_truthy None" "\<not> js_truthy (Some JNull)" "js_truthy (Some (JObj m))"
  "js_truthy (Some (JStr s)) \<longleftrightarrow> s \<noteq> []" "js_truthy (Some (JNum r)) \<longleftrightarrow> r \<noteq> 0"
  "js_truthy (Some (JBool b)) \<longleftrightarrow> b"
  "\<not> lua_truthy None" "lua_truthy (Some JNull)" "lua_truthy (Some (JObj m))" "lua_truthy (Some (JStr s))"
  "lua_truthy (Some (JNum r))" "lua_truthy (Some (JBool b)) \<longleftrightarrow> b"
  by (simp_all add: js_truthy_def lua_truthy_def)

section \<open>Numerals in texts\<close>

text \<open>
  \<^verbatim>\<open>Number(s)\<close> and Lua's \<^verbatim>\<open>tonumber(s)\<close>: a decimal literal with optional fraction
  and exponent, optionally signed, or a literal in another radix; \<open>None\<close> stands for
  \<^verbatim>\<open>NaN\<close> and \<^verbatim>\<open>nil\<close>. JavaScript reads the empty text as 0.
\<close>

definition decimal_literal :: "string \<Rightarrow> rat option" where
  "decimal_literal s =
    (let ip = takeWhile is_digit s;
         r = dropWhile is_digit s;
         fp = (if take 1 r = ''.'' then takeWhile is_digit (drop 1 r) else []);
         r2 = (if take 1 r = ''.'' then dropWhile is_digit (drop 1 r) else r);
         mant = of_nat (read_nat (ip @ fp)) / 10 ^ length fp
     in if ip = [] \<and> fp = [] then None
        else case r2 of
          [] \<Rightarrow> Some mant
        | c # t \<Rightarrow>
            let d = (if take 1 t = ''-'' \<or> take 1 t = ''+'' then drop 1 t else t)
            in if (c = CHR ''e'' \<or> c = CHR ''E'') \<and> d \<noteq> [] \<and> list_all is_digit d
               then Some (if take 1 t = ''-'' then mant / 10 ^ read_nat d else mant * 10 ^ read_nat d)
               else None)"

definition signed_literal :: "string \<Rightarrow> rat option" where
  "signed_literal s =
    (if take 1 s = ''-'' then map_option uminus (decimal_literal (drop 1 s))
     else if take 1 s = ''+'' then decimal_literal (drop 1 s)
     else decimal_literal s)"

definition radix_literal :: "string \<Rightarrow> nat \<Rightarrow> string \<Rightarrow> rat option" where
  "radix_literal ds b s =
    (let t = map ascii_lower s
     in if t \<noteq> [] \<and> list_all (\<lambda>c. c \<in> set ds) t
        then Some (of_nat (foldl (\<lambda>acc c. acc * b + length (takeWhile (\<lambda>d. d \<noteq> c) ds)) 0 t))
        else None)"

definition js_number :: "string \<Rightarrow> rat option" where
  "js_number s =
    (let t = js_trim s; p = map ascii_lower (take 2 t)
     in if t = [] then Some 0
        else if p = ''0x'' then radix_literal ''0123456789abcdef'' 16 (drop 2 t)
        else if p = ''0o'' then radix_literal ''01234567'' 8 (drop 2 t)
        else if p = ''0b'' then radix_literal ''01'' 2 (drop 2 t)
        else signed_literal t)"

definition lua_space :: "char \<Rightarrow> bool" where
  "lua_space c \<longleftrightarrow> c \<in> {CHR 0x09, CHR 0x0A, CHR 0x0B, CHR 0x0C, CHR 0x0D, CHR 0x20}"

definition lua_tonumber :: "string \<Rightarrow> rat option" where
  "lua_tonumber s =
    (let t = rev (dropWhile lua_space (rev (dropWhile lua_space s)))
     in if map ascii_lower (take 2 t) = ''0x'' then radix_literal ''0123456789abcdef'' 16 (drop 2 t)
        else signed_literal t)"

lemma takeWhile_digits [simp]: "list_all is_digit s \<Longrightarrow> takeWhile is_digit s = s"
  by (simp add: list_all_iff takeWhile_eq_all_conv)

lemma dropWhile_digits [simp]: "list_all is_digit s \<Longrightarrow> dropWhile is_digit s = []"
  by (simp add: list_all_iff dropWhile_eq_Nil_conv)

lemma decimal_literal_digits:
  "list_all is_digit s \<Longrightarrow> s \<noteq> [] \<Longrightarrow> decimal_literal s = Some (of_nat (read_nat s))"
  by (simp add: decimal_literal_def)

lemma digits_not_ws:
  "\<forall>c\<in>set digit_chars. c \<notin> set (map hd ws_seqs) \<and> c \<notin> set (map last ws_seqs)"
  by (simp add: digit_chars_def ws_seqs_def)

lemma digits_plain:
  "\<forall>c\<in>set digit_chars. c \<noteq> CHR ''-'' \<and> c \<noteq> CHR ''+'' \<and> \<not> lua_space c \<and> ascii_lower c = c"
  by (simp add: digit_chars_def lua_space_def ascii_lower_def)

lemma find_take_None:
  assumes "c \<notin> set (map hd ws)"
  shows "find (\<lambda>w. w \<noteq> [] \<and> take (length w) (c # s) = w) ws = None"
proof -
  have "hd w = c" if "w \<noteq> []" and "take (length w) (c # s) = w" for w
    using that by (metis hd_take length_greater_0_conv list.sel(1))
  with assms have "\<not> (w \<noteq> [] \<and> take (length w) (c # s) = w)" if "w \<in> set ws" for w
    using that by auto
  then show ?thesis by (simp add: find_None_iff)
qed

lemma digit_not_special:
  assumes "is_digit c"
  shows "c \<noteq> CHR ''-''" "c \<noteq> CHR ''+''" "\<not> lua_space c" "ascii_lower c = c"
    "find (\<lambda>w. w \<noteq> [] \<and> take (length w) (c # s) = w) ws_seqs = None"
    "find (\<lambda>w. w \<noteq> [] \<and> take (length w) (c # s) = w) (map rev ws_seqs) = None"
proof -
  have mem: "c \<in> set digit_chars" using assms by (simp add: is_digit_def)
  then show "c \<noteq> CHR ''-''" "c \<noteq> CHR ''+''" "\<not> lua_space c" "ascii_lower c = c"
    using digits_plain by auto
  have "map hd (map rev ws_seqs) = map last ws_seqs" by (simp add: ws_seqs_def)
  then show "find (\<lambda>w. w \<noteq> [] \<and> take (length w) (c # s) = w) ws_seqs = None"
    "find (\<lambda>w. w \<noteq> [] \<and> take (length w) (c # s) = w) (map rev ws_seqs) = None"
    using bspec [OF digits_not_ws mem] by (auto intro!: find_take_None simp del: map_map)
qed

lemma rev_last: "s \<noteq> [] \<Longrightarrow> rev s = last s # rev (butlast s)"
  by (cases s rule: rev_cases) simp_all

lemma digits_ends:
  assumes "list_all is_digit s" and "s \<noteq> []"
  obtains c t where "s = c # t" and "is_digit c" and "is_digit (last s)"
  using assms by (cases s) (auto simp: list_all_iff)

lemma js_trim_digits:
  assumes "list_all is_digit s"
  shows "js_trim s = s"
proof (cases "s = []")
  case False
  from digits_ends [OF assms False] obtain c t where s: "s = c # t" "is_digit c" "is_digit (last s)" .
  have "js_trim_start s = s"
    using digit_not_special(5) [OF s(2), of t] by (intro js_trim_start_id) (simp add: s(1))
  moreover have "js_trim_end s = s"
    using digit_not_special(6) [OF s(3)] by (intro js_trim_end_id) (simp only: rev_last [OF False] simp_thms)
  ultimately show ?thesis by (simp add: js_trim_def)
qed simp

lemma take2_digits:
  assumes "list_all is_digit s"
  shows "map ascii_lower (take 2 s) = take 2 s"
proof -
  have "\<And>c. c \<in> set (take 2 s) \<Longrightarrow> ascii_lower c = c"
    using assms by (auto simp: list_all_iff dest: in_set_takeD digit_not_special(4))
  then show ?thesis by (simp add: map_idI)
qed

lemma take2_digits_radix:
  assumes "list_all is_digit s" and "\<not> is_digit x"
  shows "take 2 s \<noteq> [CHR ''0'', x]"
  using assms by (auto simp: list_all_iff dest!: arg_cong [where f = set] in_set_takeD)

lemma signed_literal_digits:
  "list_all is_digit s \<Longrightarrow> s \<noteq> [] \<Longrightarrow> signed_literal s = Some (of_nat (read_nat s))"
  by (frule (1) digits_ends)
    (auto simp: signed_literal_def decimal_literal_digits dest: digit_not_special(1,2))

lemma js_number_digits:
  assumes "list_all is_digit s" and "s \<noteq> []"
  shows "js_number s = Some (of_nat (read_nat s))"
  using assms
  by (simp add: js_number_def js_trim_digits take2_digits take2_digits_radix signed_literal_digits
      is_digit_def digit_chars_def Let_def)

lemma lua_tonumber_digits:
  assumes "list_all is_digit s" and "s \<noteq> []"
  shows "lua_tonumber s = Some (of_nat (read_nat s))"
proof -
  from digits_ends [OF assms] obtain c t where s: "s = c # t" "is_digit c" "is_digit (last s)" .
  have "dropWhile lua_space (rev s) = rev s"
    using digit_not_special(3) [OF s(3)] by (simp add: rev_last [OF assms(2)] del: append_butlast_last_id)
  moreover have "dropWhile lua_space s = s" using digit_not_special(3) [OF s(2)] by (simp add: s(1))
  ultimately have "rev (dropWhile lua_space (rev (dropWhile lua_space s))) = s" by simp
  then show ?thesis
    using assms by (simp add: lua_tonumber_def take2_digits take2_digits_radix signed_literal_digits
        is_digit_def digit_chars_def Let_def)
qed

lemma js_number_show_nat [simp]: "js_number (show_nat n) = Some (of_nat n)"
  by (simp add: js_number_digits)

lemma lua_tonumber_show_nat [simp]: "lua_tonumber (show_nat n) = Some (of_nat n)"
  by (simp add: lua_tonumber_digits)

end
