(* ===== verification/Id_Patterns.thy ===== *)
theory Id_Patterns
  imports Json
begin

text \<open>
  The identifier formats of \<^verbatim>\<open>jobs/v2-schema.ts\<close> (the anchored regular expressions
  \<^verbatim>\<open>JOB_ID_V2_RE\<close> to \<^verbatim>\<open>STREAM_ENTRY_ID_RE\<close>) and the string helpers of
  \<^verbatim>\<open>jobs/execution-contract.ts\<close>. Each expression is a boolean function on strings; the
  facts shown are what the key space relies on: an identifier of a fixed format contains no colon,
  so the Redis keys built from it cannot be confused.
\<close>

section \<open>Matching\<close>

fun match_seq :: "(char \<Rightarrow> bool) list \<Rightarrow> string \<Rightarrow> bool" where
  "match_seq [] [] = True"
| "match_seq (p # ps) (c # cs) = (p c \<and> match_seq ps cs)"
| "match_seq _ _ = False"

definition lower_hex :: "char \<Rightarrow> bool" where
  "lower_hex c \<longleftrightarrow> c \<in> set ''0123456789abcdef''"

definition any_hex :: "char \<Rightarrow> bool" where
  "any_hex c \<longleftrightarrow> c \<in> set ''0123456789abcdefABCDEF''"

definition dash :: "char \<Rightarrow> bool" where
  "dash c \<longleftrightarrow> c = CHR ''-''"

definition uuid_re :: "(char \<Rightarrow> bool) \<Rightarrow> string \<Rightarrow> bool" where
  "uuid_re h s = match_seq
     ([h, h, h, h, h, h, h, h, dash, h, h, h, h, dash, h, h, h, h, dash, h, h, h, h, dash]
      @ [h, h, h, h, h, h, h, h, h, h, h, h]) s"

definition after_prefix :: "string \<Rightarrow> (string \<Rightarrow> bool) \<Rightarrow> string \<Rightarrow> bool" where
  "after_prefix p q s = (case strip_prefix p s of None \<Rightarrow> False | Some t \<Rightarrow> q t)"

section \<open>The identifier formats\<close>

definition JOB_ID_V2_RE :: "string \<Rightarrow> bool" where
  "JOB_ID_V2_RE s = after_prefix ''job-'' (uuid_re lower_hex) s"

definition REQUEST_ID_V2_RE :: "string \<Rightarrow> bool" where
  "REQUEST_ID_V2_RE s \<longleftrightarrow> uuid_re lower_hex s \<or> after_prefix ''req-'' (uuid_re lower_hex) s"

definition TARGET_ID_V2_RE :: "string \<Rightarrow> bool" where
  "TARGET_ID_V2_RE s = after_prefix ''tgt_'' (uuid_re lower_hex) s"

definition DEVICE_ID_V2_RE :: "string \<Rightarrow> bool" where
  "DEVICE_ID_V2_RE s = after_prefix ''dev_'' (uuid_re lower_hex) s"

definition TARGET_BINDING_ID_V2_RE :: "string \<Rightarrow> bool" where
  "TARGET_BINDING_ID_V2_RE s = after_prefix ''dtb_'' (uuid_re lower_hex) s"

text \<open>The two expressions with the \<^verbatim>\<open>i\<close> flag: the literal prefix is matched up to ASCII case.\<close>

definition ATTEMPT_ID_V2_RE :: "string \<Rightarrow> bool" where
  "ATTEMPT_ID_V2_RE s \<longleftrightarrow> uuid_re any_hex s
     \<or> (map ascii_lower (take 3 s) = ''att'' \<and> (take 1 (drop 3 s) = ''_'' \<or> take 1 (drop 3 s) = ''-'')
        \<and> uuid_re any_hex (drop 4 s))"

definition RESOURCE_ID_V2_RE :: "string \<Rightarrow> bool" where
  "RESOURCE_ID_V2_RE s \<longleftrightarrow> map ascii_lower (take 4 s) = ''res-'' \<and> uuid_re any_hex (drop 4 s)"

definition HEX_64_RE :: "string \<Rightarrow> bool" where
  "HEX_64_RE s \<longleftrightarrow> length s = 64 \<and> list_all lower_hex s"

definition STREAM_ENTRY_ID_RE :: "string \<Rightarrow> bool" where
  "STREAM_ENTRY_ID_RE s \<longleftrightarrow>
     (let a = takeWhile is_digit s; r = dropWhile is_digit s
      in a \<noteq> [] \<and> r \<noteq> [] \<and> hd r = CHR ''-'' \<and> tl r \<noteq> [] \<and> list_all is_digit (tl r))"

section \<open>String helpers of the execution contract\<close>

definition isWhitespaceOnly :: "string \<Rightarrow> bool" where
  "isWhitespaceOnly s \<longleftrightarrow> js_length (js_trim s) = 0"

definition utf8ByteLength :: "string \<Rightarrow> nat" where
  "utf8ByteLength s = length s"

section \<open>No identifier contains a colon\<close>

definition colon_free :: "string \<Rightarrow> bool" where
  "colon_free s \<longleftrightarrow> CHR '':'' \<notin> set s"

lemma match_seq_mem: "match_seq ps s \<Longrightarrow> c \<in> set s \<Longrightarrow> \<exists>p\<in>set ps. p c"
  by (induction ps s rule: match_seq.induct) auto

lemma match_seq_length: "match_seq ps s \<Longrightarrow> length s = length ps"
  by (induction ps s rule: match_seq.induct) auto

lemma uuid_re_mem: "uuid_re h s \<Longrightarrow> c \<in> set s \<Longrightarrow> h c \<or> c = CHR ''-''"
  by (auto simp: uuid_re_def dash_def dest!: match_seq_mem)

lemma uuid_re_length: "uuid_re h s \<Longrightarrow> length s = 36"
  by (auto simp: uuid_re_def dest!: match_seq_length)

lemma uuid_lower_colon_free: "uuid_re lower_hex s \<Longrightarrow> colon_free s"
  by (auto simp: colon_free_def lower_hex_def dest!: uuid_re_mem)

lemma uuid_any_colon_free: "uuid_re any_hex s \<Longrightarrow> colon_free s"
  by (auto simp: colon_free_def any_hex_def dest!: uuid_re_mem)

lemma after_prefix_colon_free:
  assumes "after_prefix p (uuid_re lower_hex) s" and "colon_free p"
  shows "colon_free s"
proof -
  from assms(1) obtain t where "s = p @ t" and "uuid_re lower_hex t"
    by (auto simp: after_prefix_def split: option.splits dest: strip_prefix_Some)
  with assms(2) show ?thesis
    by (auto simp: colon_free_def dest: uuid_lower_colon_free [unfolded colon_free_def])
qed

lemma job_id_colon_free: "JOB_ID_V2_RE s \<Longrightarrow> colon_free s"
  unfolding JOB_ID_V2_RE_def by (erule after_prefix_colon_free) (simp add: colon_free_def)

lemma target_id_colon_free: "TARGET_ID_V2_RE s \<Longrightarrow> colon_free s"
  unfolding TARGET_ID_V2_RE_def by (erule after_prefix_colon_free) (simp add: colon_free_def)

lemma request_id_colon_free: "REQUEST_ID_V2_RE s \<Longrightarrow> colon_free s"
  unfolding REQUEST_ID_V2_RE_def
  by (elim disjE, erule uuid_lower_colon_free, erule after_prefix_colon_free) (simp add: colon_free_def)

lemma ascii_lower_colon: "ascii_lower (CHR '':'') = CHR '':''"
  by (simp add: ascii_lower_def)

lemma colon_free_split: "colon_free (take n s) \<Longrightarrow> colon_free (drop n s) \<Longrightarrow> colon_free s"
  unfolding colon_free_def by (metis Un_iff append_take_drop_id set_append)

lemma ascii_lower_colon_free: "colon_free (map ascii_lower s) \<Longrightarrow> colon_free s"
  using ascii_lower_colon by (force simp: colon_free_def)

lemma attempt_id_colon_free:
  assumes "ATTEMPT_ID_V2_RE s"
  shows "colon_free s"
proof (cases "uuid_re any_hex s")
  case True
  then show ?thesis by (rule uuid_any_colon_free)
next
  case False
  with assms have pre: "map ascii_lower (take 3 s) = ''att''"
    and sep: "take 1 (drop 3 s) = ''_'' \<or> take 1 (drop 3 s) = ''-''" and u: "uuid_re any_hex (drop 4 s)"
    by (auto simp: ATTEMPT_ID_V2_RE_def)
  have "colon_free (map ascii_lower (take 3 s))" unfolding pre by (simp add: colon_free_def)
  then have "colon_free (take 3 s)" by (rule ascii_lower_colon_free)
  moreover have "colon_free (take 1 (drop 3 s))" using sep by (auto simp: colon_free_def)
  moreover have "colon_free (drop 1 (drop 3 s))" using uuid_any_colon_free [OF u] by simp
  ultimately show ?thesis by (intro colon_free_split [of 3 s] colon_free_split [of 1 "drop 3 s"])
qed

lemma show_nat_colon_free: "colon_free (show_nat n)"
  unfolding colon_free_def
  by (rule not_digit_notin_show_nat) (simp add: is_digit_def digit_chars_def)

section \<open>Stream entry ids\<close>

text \<open>A Redis stream id as it is printed: milliseconds, a dash, a sequence number.\<close>

definition show_entry_id :: "nat \<times> nat \<Rightarrow> string" where
  "show_entry_id i = show_nat (fst i) @ CHR ''-'' # show_nat (snd i)"

definition parse_entry_id :: "string \<Rightarrow> (nat \<times> nat) option" where
  "parse_entry_id s =
     (let a = takeWhile (\<lambda>c. c \<noteq> CHR ''-'') s; r = dropWhile (\<lambda>c. c \<noteq> CHR ''-'') s
      in case (parse_nat a, parse_nat (tl r)) of
           (Some m, Some n) \<Rightarrow> if r = [] then None else Some (m, n)
         | _ \<Rightarrow> None)"

lemma dash_notin_show_nat [simp]: "CHR ''-'' \<notin> set (show_nat n)"
  by (rule not_digit_notin_show_nat) (simp add: is_digit_def digit_chars_def)

lemma digits_takeWhile [simp]:
  "takeWhile is_digit (show_nat n @ CHR ''-'' # t) = show_nat n"
  "dropWhile is_digit (show_nat n @ CHR ''-'' # t) = CHR ''-'' # t"
proof -
  have d: "\<And>x. x \<in> set (show_nat n) \<Longrightarrow> is_digit x"
    using show_nat_digits [of n] by (auto simp: list_all_iff)
  moreover have "\<not> is_digit (CHR ''-'')" by (simp add: is_digit_def digit_chars_def)
  ultimately show "takeWhile is_digit (show_nat n @ CHR ''-'' # t) = show_nat n"
    and "dropWhile is_digit (show_nat n @ CHR ''-'' # t) = CHR ''-'' # t"
    by (simp_all add: takeWhile_append2 dropWhile_append2)
qed

lemma show_entry_id_re [simp]: "STREAM_ENTRY_ID_RE (show_entry_id i)"
  by (simp add: STREAM_ENTRY_ID_RE_def show_entry_id_def Let_def)

lemma parse_show_entry_id [simp]: "parse_entry_id (show_entry_id i) = Some i"
  by (simp add: parse_entry_id_def show_entry_id_def Let_def)

lemma show_entry_id_inject [simp]: "show_entry_id a = show_entry_id b \<longleftrightarrow> a = b"
  by (metis option.inject parse_show_entry_id)

end
