(* ===== verification/Execution_Contract.thy ===== *)
theory Execution_Contract
  imports Id_Patterns "HOL-Library.Monad_Syntax"
begin

text \<open>
  The execution contract (\<^verbatim>\<open>jobs/execution-contract.ts\<close>): terminal reports and managed
  results, and the strict schemas that validate them. A schema is a partial parser from JSON to the
  typed record. The lemmas characterise each schema exactly: it accepts a value iff the value is the
  JSON form of a record that satisfies the contract, and then returns that record.
\<close>

section \<open>Data\<close>

datatype execution_status = ES_COMPLETED | ES_FAILED | ES_TIMED_OUT | ES_CANCELLED | ES_BLOCKED | ES_INTERRUPTED

datatype business_outcome = BO_UNVERIFIED | BO_FAILED | BO_NOT_STARTED

datatype result_target = RT_none | RT_resource

record report_error =
  er_stage :: string
  er_code :: string
  er_message :: string

record executor =
  ex_type :: string
  ex_version :: string

record exec_report =
  r_execution_status :: execution_status
  r_business_outcome :: business_outcome
  r_task_dispatched :: bool
  r_finished_at_ms :: int
  r_duration_ms :: int
  r_executor :: executor
  r_receipt_sha256 :: string
  r_error :: "report_error option"

record persisted_report = exec_report +
  r_received_at_ms :: int

record job_result =
  res_attempt_id :: string
  res_payload_sha256 :: string
  res_resource_id :: string
  res_commit :: string
  res_received_at_ms :: int

section \<open>String forms of the enumerations\<close>

fun status_str :: "execution_status \<Rightarrow> string" where
  "status_str ES_COMPLETED = ''COMPLETED''"
| "status_str ES_FAILED = ''FAILED''"
| "status_str ES_TIMED_OUT = ''TIMED_OUT''"
| "status_str ES_CANCELLED = ''CANCELLED''"
| "status_str ES_BLOCKED = ''BLOCKED''"
| "status_str ES_INTERRUPTED = ''INTERRUPTED''"

definition EXECUTION_STATUSES :: "execution_status list" where
  "EXECUTION_STATUSES = [ES_COMPLETED, ES_FAILED, ES_TIMED_OUT, ES_CANCELLED, ES_BLOCKED, ES_INTERRUPTED]"

fun outcome_str :: "business_outcome \<Rightarrow> string" where
  "outcome_str BO_UNVERIFIED = ''UNVERIFIED''"
| "outcome_str BO_FAILED = ''FAILED''"
| "outcome_str BO_NOT_STARTED = ''NOT_STARTED''"

definition BUSINESS_OUTCOMES :: "business_outcome list" where
  "BUSINESS_OUTCOMES = [BO_UNVERIFIED, BO_FAILED, BO_NOT_STARTED]"

fun target_str :: "result_target \<Rightarrow> string" where
  "target_str RT_none = ''none''"
| "target_str RT_resource = ''resource''"

definition enum_field :: "('a \<Rightarrow> string) \<Rightarrow> 'a list \<Rightarrow> json option \<Rightarrow> 'a option" where
  "enum_field f xs v = (case as_str v of None \<Rightarrow> None | Some s \<Rightarrow> find (\<lambda>x. f x = s) xs)"

definition status_field :: "json option \<Rightarrow> execution_status option" where
  "status_field v = enum_field status_str EXECUTION_STATUSES v"

definition outcome_field :: "json option \<Rightarrow> business_outcome option" where
  "outcome_field v = enum_field outcome_str BUSINESS_OUTCOMES v"

definition target_field :: "json option \<Rightarrow> result_target option" where
  "target_field v = enum_field target_str [RT_none, RT_resource] v"

section \<open>Schemas\<close>

definition oguard :: "bool \<Rightarrow> unit option" where
  "oguard b = (if b then Some () else None)"

definition strict_keys :: "string list \<Rightarrow> jobject \<Rightarrow> unit option" where
  "strict_keys ks m = oguard (fset (fmdom m) \<subseteq> set ks)"

definition MAX_REPORT_ERROR_MESSAGE_BYTES :: nat where
  "MAX_REPORT_ERROR_MESSAGE_BYTES = 2 * 1024"

definition MAX_EXECUTOR_VERSION_BYTES :: nat where
  "MAX_EXECUTOR_VERSION_BYTES = 256"

definition word_chars :: string where
  "word_chars = ''ABCDEFGHIJKLMNOPQRSTUVWXYZ'' @ ''abcdefghijklmnopqrstuvwxyz'' @ ''0123456789_''"

definition upper_word_chars :: string where
  "upper_word_chars = ''ABCDEFGHIJKLMNOPQRSTUVWXYZ'' @ ''0123456789_''"

definition token_ok :: "string \<Rightarrow> string \<Rightarrow> bool" where
  "token_ok cs s \<longleftrightarrow> 1 \<le> js_length s \<and> js_length s \<le> 64 \<and> s \<noteq> [] \<and> list_all (\<lambda>c. c \<in> set cs) s"

definition bounded_text_ok :: "nat \<Rightarrow> string \<Rightarrow> bool" where
  "bounded_text_ok n s \<longleftrightarrow> 1 \<le> js_length s \<and> \<not> isWhitespaceOnly s \<and> utf8ByteLength s \<le> n"

definition safe_nonneg :: "int \<Rightarrow> bool" where
  "safe_nonneg i \<longleftrightarrow> 0 \<le> i \<and> i \<le> MAX_SAFE_INTEGER"

definition error_ok :: "report_error \<Rightarrow> bool" where
  "error_ok e \<longleftrightarrow> token_ok (word_chars @ ''-'') (er_stage e) \<and> token_ok upper_word_chars (er_code e)
     \<and> bounded_text_ok MAX_REPORT_ERROR_MESSAGE_BYTES (er_message e)"

definition reportErrorSchema :: "json \<Rightarrow> report_error option" where
  "reportErrorSchema j = (case j of
     JObj m \<Rightarrow> do {
       _ \<leftarrow> strict_keys [''stage'', ''code'', ''message''] m;
       st \<leftarrow> as_str (jfield m ''stage'');
       co \<leftarrow> as_str (jfield m ''code'');
       me \<leftarrow> as_str (jfield m ''message'');
       let e = \<lparr>er_stage = st, er_code = co, er_message = me\<rparr>;
       _ \<leftarrow> oguard (error_ok e);
       Some e }
   | _ \<Rightarrow> None)"

definition executor_ok :: "executor \<Rightarrow> bool" where
  "executor_ok x \<longleftrightarrow> token_ok (word_chars @ ''.-'') (ex_type x)
     \<and> bounded_text_ok MAX_EXECUTOR_VERSION_BYTES (ex_version x)"

definition executorSchema :: "json \<Rightarrow> executor option" where
  "executorSchema j = (case j of
     JObj m \<Rightarrow> do {
       _ \<leftarrow> strict_keys [''type'', ''version''] m;
       ty \<leftarrow> as_str (jfield m ''type'');
       ve \<leftarrow> as_str (jfield m ''version'');
       let x = \<lparr>ex_type = ty, ex_version = ve\<rparr>;
       _ \<leftarrow> oguard (executor_ok x);
       Some x }
   | _ \<Rightarrow> None)"

text \<open>\<^verbatim>\<open>reportErrorSchema.nullable()\<close>: the field is required and may be null.\<close>

definition nullable_error :: "json option \<Rightarrow> report_error option option" where
  "nullable_error v = (case v of
      None \<Rightarrow> None
    | Some JNull \<Rightarrow> Some None
    | Some j \<Rightarrow> map_option Some (reportErrorSchema j))"

definition report_keys :: "string list" where
  "report_keys = [''schema_version'', ''execution_status'', ''business_outcome'', ''task_dispatched'',
     ''finished_at_ms'', ''duration_ms'', ''executor'', ''receipt_sha256'', ''error'']"

definition report_fields :: "jobject \<Rightarrow> exec_report option" where
  "report_fields m = do {
     _ \<leftarrow> oguard (jfield m ''schema_version'' = Some (JNum 2));
     st \<leftarrow> status_field (jfield m ''execution_status'');
     bo \<leftarrow> outcome_field (jfield m ''business_outcome'');
     td \<leftarrow> as_bool (jfield m ''task_dispatched'');
     fi \<leftarrow> as_int (jfield m ''finished_at_ms'');
     _ \<leftarrow> oguard (safe_nonneg fi);
     du \<leftarrow> as_int (jfield m ''duration_ms'');
     _ \<leftarrow> oguard (safe_nonneg du);
     xj \<leftarrow> jfield m ''executor'';
     ex \<leftarrow> executorSchema xj;
     rc \<leftarrow> as_str (jfield m ''receipt_sha256'');
     _ \<leftarrow> oguard (HEX_64_RE rc);
     er \<leftarrow> nullable_error (jfield m ''error'');
     Some \<lparr>r_execution_status = st, r_business_outcome = bo, r_task_dispatched = td,
           r_finished_at_ms = fi, r_duration_ms = du, r_executor = ex, r_receipt_sha256 = rc,
           r_error = er\<rparr> }"

definition report_refined :: "'a exec_report_scheme \<Rightarrow> bool" where
  "report_refined r \<longleftrightarrow>
     \<not> (r_execution_status r = ES_COMPLETED \<and> r_error r \<noteq> None)
     \<and> \<not> (r_execution_status r \<noteq> ES_COMPLETED \<and> r_error r = None)
     \<and> \<not> (\<not> r_task_dispatched r \<and> r_business_outcome r \<noteq> BO_NOT_STARTED)
     \<and> \<not> (r_business_outcome r = BO_UNVERIFIED \<and> \<not> r_task_dispatched r)"

definition executionReportSchema :: "json \<Rightarrow> exec_report option" where
  "executionReportSchema j = (case j of
     JObj m \<Rightarrow> do {
       _ \<leftarrow> strict_keys report_keys m;
       r \<leftarrow> report_fields m;
       _ \<leftarrow> oguard (report_refined r);
       Some r }
   | _ \<Rightarrow> None)"

definition persistedExecutionReportSchema :: "json \<Rightarrow> persisted_report option" where
  "persistedExecutionReportSchema j = (case j of
     JObj m \<Rightarrow> do {
       _ \<leftarrow> strict_keys (report_keys @ [''received_at_ms'']) m;
       r \<leftarrow> report_fields m;
       rv \<leftarrow> as_int (jfield m ''received_at_ms'');
       _ \<leftarrow> oguard (safe_nonneg rv);
       _ \<leftarrow> oguard (report_refined r);
       Some (exec_report.extend r (persisted_report.fields rv)) }
   | _ \<Rightarrow> None)"

definition commit_ok :: "string \<Rightarrow> bool" where
  "commit_ok s \<longleftrightarrow> 1 \<le> js_length s \<and> \<not> isWhitespaceOnly s"

definition result_keys :: "string list" where
  "result_keys = [''target'', ''attempt_id'', ''payload_sha256'', ''resource_id'', ''commit'', ''received_at_ms'']"

definition persistedJobResultSchema :: "json \<Rightarrow> job_result option" where
  "persistedJobResultSchema j = (case j of
     JObj m \<Rightarrow> do {
       _ \<leftarrow> strict_keys result_keys m;
       _ \<leftarrow> oguard (jfield m ''target'' = Some (JStr ''resource''));
       aid \<leftarrow> as_str (jfield m ''attempt_id'');
       _ \<leftarrow> oguard (ATTEMPT_ID_V2_RE aid);
       ps \<leftarrow> as_str (jfield m ''payload_sha256'');
       _ \<leftarrow> oguard (HEX_64_RE ps);
       ri \<leftarrow> as_str (jfield m ''resource_id'');
       _ \<leftarrow> oguard (RESOURCE_ID_V2_RE ri);
       co \<leftarrow> as_str (jfield m ''commit'');
       _ \<leftarrow> oguard (commit_ok co);
       rv \<leftarrow> as_int (jfield m ''received_at_ms'');
       _ \<leftarrow> oguard (safe_nonneg rv);
       Some \<lparr>res_attempt_id = aid, res_payload_sha256 = ps, res_resource_id = ri, res_commit = co,
             res_received_at_ms = rv\<rparr> }
   | _ \<Rightarrow> None)"

datatype contract_error = ExecutionContractError

definition validatePersistedExecutionReport :: "json \<Rightarrow> contract_error + persisted_report" where
  "validatePersistedExecutionReport raw = (case persistedExecutionReportSchema raw of
     None \<Rightarrow> Inl ExecutionContractError | Some r \<Rightarrow> Inr r)"

definition validatePersistedJobResult :: "json \<Rightarrow> contract_error + job_result" where
  "validatePersistedJobResult raw = (case persistedJobResultSchema raw of
     None \<Rightarrow> Inl ExecutionContractError | Some r \<Rightarrow> Inr r)"

section \<open>JSON forms\<close>

definition error_obj :: "report_error \<Rightarrow> jobject" where
  "error_obj e = fmap_of_list
     [(''stage'', JStr (er_stage e)), (''code'', JStr (er_code e)), (''message'', JStr (er_message e))]"

definition executor_obj :: "executor \<Rightarrow> jobject" where
  "executor_obj x = fmap_of_list [(''type'', JStr (ex_type x)), (''version'', JStr (ex_version x))]"

definition report_obj :: "'a exec_report_scheme \<Rightarrow> jobject" where
  "report_obj r = fmap_of_list
     [(''schema_version'', JNum 2),
      (''execution_status'', JStr (status_str (r_execution_status r))),
      (''business_outcome'', JStr (outcome_str (r_business_outcome r))),
      (''task_dispatched'', JBool (r_task_dispatched r)),
      (''finished_at_ms'', jint (r_finished_at_ms r)),
      (''duration_ms'', jint (r_duration_ms r)),
      (''executor'', JObj (executor_obj (r_executor r))),
      (''receipt_sha256'', JStr (r_receipt_sha256 r)),
      (''error'', jopt (\<lambda>e. JObj (error_obj e)) (r_error r))]"

definition persisted_obj :: "persisted_report \<Rightarrow> jobject" where
  "persisted_obj r = fmupd ''received_at_ms'' (jint (r_received_at_ms r)) (report_obj r)"

definition result_obj :: "job_result \<Rightarrow> jobject" where
  "result_obj r = fmap_of_list
     [(''target'', JStr ''resource''),
      (''attempt_id'', JStr (res_attempt_id r)),
      (''payload_sha256'', JStr (res_payload_sha256 r)),
      (''resource_id'', JStr (res_resource_id r)),
      (''commit'', JStr (res_commit r)),
      (''received_at_ms'', jint (res_received_at_ms r))]"

section \<open>The schemas accept exactly the JSON forms of well-formed records\<close>

lemma oguard_Some [simp]: "oguard b = Some u \<longleftrightarrow> b"
  by (simp add: oguard_def)

lemma oguard_simps [simp]: "oguard True = Some ()" "oguard False = None"
  by (simp_all add: oguard_def)

lemma strict_keys_Some [simp]: "strict_keys ks m = Some u \<longleftrightarrow> fset (fmdom m) \<subseteq> set ks"
  by (simp add: strict_keys_def)

lemma strict_obj_eqI:
  assumes "fset (fmdom m) \<subseteq> set ks" and "fset (fmdom n) \<subseteq> set ks"
    and "\<And>k. k \<in> set ks \<Longrightarrow> fmlookup m k = fmlookup n k"
  shows "m = n"
proof (rule fmap_ext)
  fix k
  show "fmlookup m k = fmlookup n k"
  proof (cases "k \<in> set ks")
    case True
    then show ?thesis by (rule assms(3))
  next
    case False
    with assms(1,2) have "k |\<notin>| fmdom m" and "k |\<notin>| fmdom n" by auto
    then show ?thesis by (simp add: fmdom_notD)
  qed
qed

lemma enum_field_Some:
  assumes "inj_on f (set xs)"
  shows "enum_field f xs v = Some x \<longleftrightarrow> v = Some (JStr (f x)) \<and> x \<in> set xs"
proof -
  have "find (\<lambda>y. f y = f x) xs = Some x" if "x \<in> set xs"
    using that assms by (induction xs) (auto simp: inj_on_def)
  then show ?thesis
    by (auto simp: enum_field_def split: option.splits dest: find_SomeD)
qed

lemma status_field_Some [simp]: "status_field v = Some s \<longleftrightarrow> v = Some (JStr (status_str s))"
proof -
  have "inj_on status_str (set EXECUTION_STATUSES)" and "s \<in> set EXECUTION_STATUSES"
    by (auto simp: EXECUTION_STATUSES_def inj_on_def) (cases s; simp)
  then show ?thesis unfolding status_field_def by (simp add: enum_field_Some)
qed

lemma outcome_field_Some [simp]: "outcome_field v = Some s \<longleftrightarrow> v = Some (JStr (outcome_str s))"
proof -
  have "inj_on outcome_str (set BUSINESS_OUTCOMES)" and "s \<in> set BUSINESS_OUTCOMES"
    by (auto simp: BUSINESS_OUTCOMES_def inj_on_def) (cases s; simp)
  then show ?thesis unfolding outcome_field_def by (simp add: enum_field_Some)
qed

lemma target_field_Some [simp]: "target_field v = Some s \<longleftrightarrow> v = Some (JStr (target_str s))"
proof -
  have "inj_on target_str (set [RT_none, RT_resource])" and "s \<in> set [RT_none, RT_resource]"
    by (auto simp: inj_on_def) (cases s; simp)
  then show ?thesis unfolding target_field_def by (simp add: enum_field_Some)
qed

lemma status_str_inject [simp]: "status_str a = status_str b \<longleftrightarrow> a = b"
  by (cases a; cases b) simp_all

lemma outcome_str_inject [simp]: "outcome_str a = outcome_str b \<longleftrightarrow> a = b"
  by (cases a; cases b) simp_all

lemma target_str_inject [simp]: "target_str a = target_str b \<longleftrightarrow> a = b"
  by (cases a; cases b) simp_all

lemma error_obj_fields [json_simps]:
  "jfield (error_obj e) ''stage'' = Some (JStr (er_stage e))"
  "jfield (error_obj e) ''code'' = Some (JStr (er_code e))"
  "jfield (error_obj e) ''message'' = Some (JStr (er_message e))"
  "fset (fmdom (error_obj e)) = {''stage'', ''code'', ''message''}"
  by (auto simp: error_obj_def)

lemma executor_obj_fields [json_simps]:
  "jfield (executor_obj x) ''type'' = Some (JStr (ex_type x))"
  "jfield (executor_obj x) ''version'' = Some (JStr (ex_version x))"
  "fset (fmdom (executor_obj x)) = {''type'', ''version''}"
  by (auto simp: executor_obj_def)

lemma reportErrorSchema_iff: "reportErrorSchema j = Some e \<longleftrightarrow> j = JObj (error_obj e) \<and> error_ok e"
proof
  assume "reportErrorSchema j = Some e"
  then obtain m where "j = JObj m" "fset (fmdom m) \<subseteq> set [''stage'', ''code'', ''message'']" "error_ok e"
    "jfield m ''stage'' = Some (JStr (er_stage e))" "jfield m ''code'' = Some (JStr (er_code e))"
    "jfield m ''message'' = Some (JStr (er_message e))"
    by (auto simp: reportErrorSchema_def bind_eq_Some_conv Let_def split: json.splits)
  moreover from this have "m = error_obj e"
    by (intro strict_obj_eqI [of m "[''stage'', ''code'', ''message'']"]) (auto simp: json_simps)
  ultimately show "j = JObj (error_obj e) \<and> error_ok e" by simp
next
  assume "j = JObj (error_obj e) \<and> error_ok e"
  then show "reportErrorSchema j = Some e"
    by (cases e) (simp add: reportErrorSchema_def json_simps strict_keys_def Let_def)
qed

lemma executorSchema_iff: "executorSchema j = Some x \<longleftrightarrow> j = JObj (executor_obj x) \<and> executor_ok x"
proof
  assume "executorSchema j = Some x"
  then obtain m where "j = JObj m" "fset (fmdom m) \<subseteq> set [''type'', ''version'']" "executor_ok x"
    "jfield m ''type'' = Some (JStr (ex_type x))" "jfield m ''version'' = Some (JStr (ex_version x))"
    by (auto simp: executorSchema_def bind_eq_Some_conv Let_def split: json.splits)
  moreover from this have "m = executor_obj x"
    by (intro strict_obj_eqI [of m "[''type'', ''version'']"]) (auto simp: json_simps)
  ultimately show "j = JObj (executor_obj x) \<and> executor_ok x" by simp
next
  assume "j = JObj (executor_obj x) \<and> executor_ok x"
  then show "executorSchema j = Some x"
    by (cases x) (simp add: executorSchema_def json_simps strict_keys_def Let_def)
qed

lemma nullable_error_Some:
  "nullable_error v = Some e \<longleftrightarrow> v = Some (jopt (\<lambda>e. JObj (error_obj e)) e) \<and> (\<forall>x. e = Some x \<longrightarrow> error_ok x)"
  by (cases e) (auto simp: nullable_error_def reportErrorSchema_iff split: option.splits json.splits)

definition report_ok :: "'a exec_report_scheme \<Rightarrow> bool" where
  "report_ok r \<longleftrightarrow> safe_nonneg (r_finished_at_ms r) \<and> safe_nonneg (r_duration_ms r)
     \<and> executor_ok (r_executor r) \<and> HEX_64_RE (r_receipt_sha256 r)
     \<and> (\<forall>e. r_error r = Some e \<longrightarrow> error_ok e) \<and> report_refined r"

definition result_ok :: "job_result \<Rightarrow> bool" where
  "result_ok r \<longleftrightarrow> ATTEMPT_ID_V2_RE (res_attempt_id r) \<and> HEX_64_RE (res_payload_sha256 r)
     \<and> RESOURCE_ID_V2_RE (res_resource_id r) \<and> commit_ok (res_commit r)
     \<and> safe_nonneg (res_received_at_ms r)"

lemma report_obj_fields [json_simps]:
  "jfield (report_obj r) ''schema_version'' = Some (JNum 2)"
  "jfield (report_obj r) ''execution_status'' = Some (JStr (status_str (r_execution_status r)))"
  "jfield (report_obj r) ''business_outcome'' = Some (JStr (outcome_str (r_business_outcome r)))"
  "jfield (report_obj r) ''task_dispatched'' = Some (JBool (r_task_dispatched r))"
  "jfield (report_obj r) ''finished_at_ms'' = Some (jint (r_finished_at_ms r))"
  "jfield (report_obj r) ''duration_ms'' = Some (jint (r_duration_ms r))"
  "jfield (report_obj r) ''executor'' = Some (JObj (executor_obj (r_executor r)))"
  "jfield (report_obj r) ''receipt_sha256'' = Some (JStr (r_receipt_sha256 r))"
  "jfield (report_obj r) ''error'' = Some (jopt (\<lambda>e. JObj (error_obj e)) (r_error r))"
  "fset (fmdom (report_obj r)) = set report_keys"
  by (auto simp: report_obj_def report_keys_def)

lemma persisted_obj_fields [json_simps]:
  "k \<noteq> ''received_at_ms'' \<Longrightarrow> jfield (persisted_obj r) k = jfield (report_obj r) k"
  "jfield (persisted_obj r) ''received_at_ms'' = Some (jint (r_received_at_ms r))"
  "fset (fmdom (persisted_obj r)) = set (report_keys @ [''received_at_ms''])"
  by (auto simp: persisted_obj_def json_simps)

lemma result_obj_fields [json_simps]:
  "jfield (result_obj r) ''target'' = Some (JStr ''resource'')"
  "jfield (result_obj r) ''attempt_id'' = Some (JStr (res_attempt_id r))"
  "jfield (result_obj r) ''payload_sha256'' = Some (JStr (res_payload_sha256 r))"
  "jfield (result_obj r) ''resource_id'' = Some (JStr (res_resource_id r))"
  "jfield (result_obj r) ''commit'' = Some (JStr (res_commit r))"
  "jfield (result_obj r) ''received_at_ms'' = Some (jint (res_received_at_ms r))"
  "fset (fmdom (result_obj r)) = set result_keys"
  by (auto simp: result_obj_def result_keys_def)

lemma report_fields_Some:
  "report_fields m = Some r \<longleftrightarrow>
     (\<forall>k\<in>set report_keys. jfield m k = jfield (report_obj r) k)
     \<and> safe_nonneg (r_finished_at_ms r) \<and> safe_nonneg (r_duration_ms r)
     \<and> executor_ok (r_executor r) \<and> HEX_64_RE (r_receipt_sha256 r)
     \<and> (\<forall>e. r_error r = Some e \<longrightarrow> error_ok e)"
  by (cases r)
    (auto simp: report_fields_def bind_eq_Some_conv executorSchema_iff nullable_error_Some
      report_keys_def json_simps)

lemma executionReportSchema_iff:
  "executionReportSchema j = Some r \<longleftrightarrow> j = JObj (report_obj r) \<and> report_ok r"
proof
  assume "executionReportSchema j = Some r"
  then obtain m where m: "j = JObj m" "fset (fmdom m) \<subseteq> set report_keys" "report_fields m = Some r"
    "report_refined r"
    by (auto simp: executionReportSchema_def bind_eq_Some_conv split: json.splits)
  then have "m = report_obj r"
    by (intro strict_obj_eqI [of m report_keys]) (auto simp: report_fields_Some json_simps)
  with m show "j = JObj (report_obj r) \<and> report_ok r"
    by (simp add: report_ok_def report_fields_Some)
next
  assume a: "j = JObj (report_obj r) \<and> report_ok r"
  then have "report_fields (report_obj r) = Some r"
    by (simp add: report_fields_Some report_ok_def)
  with a show "executionReportSchema j = Some r"
    by (simp add: executionReportSchema_def json_simps strict_keys_def report_ok_def)
qed

lemma persisted_extend_truncate:
  "exec_report.extend (exec_report.truncate r) (persisted_report.fields (r_received_at_ms r)) = r"
  by (cases r) (simp add: exec_report.defs persisted_report.defs)

lemma truncate_invariant [simp]:
  "report_obj (exec_report.truncate r) = report_obj r"
  "report_refined (exec_report.truncate r) = report_refined r"
  "report_ok (exec_report.truncate r) = report_ok r"
  by (simp_all add: report_obj_def report_refined_def report_ok_def exec_report.defs)

lemma truncate_extend [simp]:
  "exec_report.truncate (exec_report.extend r (persisted_report.fields rv)) = r"
  "r_received_at_ms (exec_report.extend r (persisted_report.fields rv)) = rv"
  by (cases r; simp add: exec_report.defs persisted_report.defs)+

lemma persistedExecutionReportSchema_iff:
  "persistedExecutionReportSchema j = Some r \<longleftrightarrow>
     j = JObj (persisted_obj r) \<and> report_ok r \<and> safe_nonneg (r_received_at_ms r)"
proof
  assume "persistedExecutionReportSchema j = Some r"
  then obtain m q rv where m: "j = JObj m" "fset (fmdom m) \<subseteq> set (report_keys @ [''received_at_ms''])"
    "report_fields m = Some q" "jfield m ''received_at_ms'' = Some (jint rv)" "safe_nonneg rv"
    "report_refined q" and r: "r = exec_report.extend q (persisted_report.fields rv)"
    by (auto simp: persistedExecutionReportSchema_def bind_eq_Some_conv split: json.splits)
  have q: "report_obj r = report_obj q" "report_ok r = report_ok q"
    using truncate_invariant(1,3) [of r] unfolding r by simp_all
  have rv: "r_received_at_ms r = rv" by (simp add: r)
  have "m = persisted_obj r"
  proof (rule strict_obj_eqI [OF m(2)])
    fix k
    assume "k \<in> set (report_keys @ [''received_at_ms''])"
    then show "fmlookup m k = fmlookup (persisted_obj r) k"
      using m(3,4) by (cases "k = ''received_at_ms''") (auto simp: json_simps q rv report_fields_Some)
  qed (simp add: json_simps)
  moreover have "report_ok q" using m by (simp add: report_ok_def report_fields_Some)
  ultimately show "j = JObj (persisted_obj r) \<and> report_ok r \<and> safe_nonneg (r_received_at_ms r)"
    using m q rv by simp
next
  assume a: "j = JObj (persisted_obj r) \<and> report_ok r \<and> safe_nonneg (r_received_at_ms r)"
  have "report_fields (persisted_obj r) = Some (exec_report.truncate r)"
    using a unfolding report_fields_Some
    by (auto simp: report_ok_def json_simps exec_report.defs report_keys_def report_obj_def)
  then show "persistedExecutionReportSchema j = Some r"
    using a by (simp add: persistedExecutionReportSchema_def strict_keys_def persisted_obj_fields
        report_ok_def persisted_extend_truncate)
qed

lemma persistedJobResultSchema_iff:
  "persistedJobResultSchema j = Some r \<longleftrightarrow> j = JObj (result_obj r) \<and> result_ok r"
proof
  assume "persistedJobResultSchema j = Some r"
  then obtain m where m: "j = JObj m" "fset (fmdom m) \<subseteq> set result_keys" "result_ok r"
    "\<forall>k\<in>set result_keys. jfield m k = jfield (result_obj r) k"
    by (auto simp: persistedJobResultSchema_def bind_eq_Some_conv result_ok_def result_keys_def json_simps
        split: json.splits)
  then have "m = result_obj r"
    by (intro strict_obj_eqI [of m result_keys]) (auto simp: json_simps)
  with m show "j = JObj (result_obj r) \<and> result_ok r" by simp
next
  assume "j = JObj (result_obj r) \<and> result_ok r"
  then show "persistedJobResultSchema j = Some r"
    by (simp add: persistedJobResultSchema_def result_ok_def json_simps strict_keys_def)
qed

end
