(* ===== verification/Job_Schema.thy ===== *)
theory Job_Schema
  imports Execution_Contract
begin

text \<open>
  The durable records of the job queue (\<^verbatim>\<open>jobs/v2-schema.ts\<close>): jobs, attempts, stream
  entries and delete-fence values, the Redis key of each, and the strict parsers every read goes
  through. The lemmas show that a parser returns only well-formed records, that the JSON form of a
  well-formed record parses back to it, and that the key families never collide.
\<close>

section \<open>Constants and keys\<close>

definition JOBS_V2_SCHEMA_VERSION :: int where "JOBS_V2_SCHEMA_VERSION = 6"
definition ATTEMPT_V1_SCHEMA_VERSION :: int where "ATTEMPT_V1_SCHEMA_VERSION = 1"
definition STREAM_V2_SCHEMA_VERSION :: int where "STREAM_V2_SCHEMA_VERSION = 2"
definition MIN_TIMEOUT_SECONDS :: int where "MIN_TIMEOUT_SECONDS = 60"
definition MAX_TIMEOUT_SECONDS :: int where "MAX_TIMEOUT_SECONDS = 7200"
definition MAX_PROMPT_BYTES :: nat where "MAX_PROMPT_BYTES = 64 * 1024"
definition MAX_ACCEPTANCE_BYTES :: nat where "MAX_ACCEPTANCE_BYTES = 8 * 1024"
definition JOB_CLAIM_TTL_MS_V2 :: int where "JOB_CLAIM_TTL_MS_V2 = 7 * 24 * 60 * 60 * 1000"
definition TARGET_DELETE_FENCE_TTL_MS :: int where "TARGET_DELETE_FENCE_TTL_MS = 60000"

definition KEY_STREAM_V2 :: string where
  "KEY_STREAM_V2 = ''ceo:jobs:v2''"

definition jobKeyV2 :: "string \<Rightarrow> string" where
  "jobKeyV2 job_id = ''ceo:job:v2:'' @ job_id"

definition jobAttemptsKeyV1 :: "string \<Rightarrow> string" where
  "jobAttemptsKeyV1 job_id = ''ceo:job:v2:'' @ job_id @ '':attempts''"

definition attemptKeyV1 :: "string \<Rightarrow> string" where
  "attemptKeyV1 attempt_id = ''ceo:attempt:v1:'' @ attempt_id"

definition requestKeyV2 :: "string \<Rightarrow> string \<Rightarrow> string \<Rightarrow> string" where
  "requestKeyV2 user_id workspace_id request_id =
     ''ceo:request:v2:'' @ user_id @ '':'' @ workspace_id @ '':'' @ request_id"

definition targetQueueKeyV1 :: "string \<Rightarrow> string" where
  "targetQueueKeyV1 target_id = ''ceo:target:v1:'' @ target_id @ '':jobs''"

definition targetDeleteFenceKeyV1 :: "string \<Rightarrow> string" where
  "targetDeleteFenceKeyV1 target_id = ''ceo:target:delete-fence:v1:'' @ target_id"

definition parseDeleteFenceStartedMs :: "string \<Rightarrow> rat" where
  "parseDeleteFenceStartedMs v = (case index_of (CHR '':'') v of
      None \<Rightarrow> 0
    | Some sep \<Rightarrow> if sep = 0 then 0 else (case js_number (take sep v) of None \<Rightarrow> 0 | Some r \<Rightarrow> r))"

section \<open>Records\<close>

datatype job_status = JS_preparing | JS_queued | JS_active | JS_terminal

datatype attempt_phase = AP_claimed | AP_running | AP_terminal

record cancel_record =
  c_cancelled_at_ms :: int
  c_requested_by_device_id :: string
  c_reason :: string

record job =
  j_job_id :: string
  j_request_id :: string
  j_user_id :: string
  j_workspace_id :: string
  j_target_id :: string
  j_prompt :: string
  j_acceptance :: string
  j_resource_id :: "string option"
  j_execution_timeout_seconds :: int
  j_result_target :: result_target
  j_request_digest :: string
  j_status :: job_status
  j_stream_entry_id :: "string option"
  j_latest_attempt_id :: "string option"
  j_created_at_ms :: int
  j_claim_deadline_ms :: int
  j_cancel :: "cancel_record option"

record attempt =
  a_attempt_id :: string
  a_job_id :: string
  a_user_id :: string
  a_workspace_id :: string
  a_target_id :: string
  a_device_id :: string
  a_target_binding_id :: string
  a_claim_token_sha256 :: string
  a_phase :: attempt_phase
  a_claimed_at_ms :: int
  a_started_at_ms :: "int option"
  a_report :: "persisted_report option"
  a_result :: "job_result option"

record stream_entry =
  s_job_id :: string
  s_user_id :: string
  s_workspace_id :: string
  s_target_id :: string
  s_created_at_ms :: int

fun job_status_str :: "job_status \<Rightarrow> string" where
  "job_status_str JS_preparing = ''preparing''"
| "job_status_str JS_queued = ''queued''"
| "job_status_str JS_active = ''active''"
| "job_status_str JS_terminal = ''terminal''"

fun phase_str :: "attempt_phase \<Rightarrow> string" where
  "phase_str AP_claimed = ''claimed''"
| "phase_str AP_running = ''running''"
| "phase_str AP_terminal = ''terminal''"

definition job_status_field :: "json option \<Rightarrow> job_status option" where
  "job_status_field v = enum_field job_status_str [JS_preparing, JS_queued, JS_active, JS_terminal] v"

definition phase_field :: "json option \<Rightarrow> attempt_phase option" where
  "phase_field v = enum_field phase_str [AP_claimed, AP_running, AP_terminal] v"

text \<open>A \<^verbatim>\<open>V2SchemaError\<close>, tagged with the field or rule that its message names.\<close>

datatype schema_error = V2SchemaError string

type_synonym 'a parsed = "schema_error + 'a"

definition need :: "string \<Rightarrow> 'a option \<Rightarrow> 'a parsed" where
  "need tag x = (case x of None \<Rightarrow> Inl (V2SchemaError tag) | Some y \<Rightarrow> Inr y)"

definition need_str :: "jobject \<Rightarrow> string \<Rightarrow> (string \<Rightarrow> bool) \<Rightarrow> string parsed" where
  "need_str m k ok = (case as_str (jfield m k) of
      None \<Rightarrow> Inl (V2SchemaError k)
    | Some s \<Rightarrow> if ok s then Inr s else Inl (V2SchemaError k))"

text \<open>\<^verbatim>\<open>x !== null && (typeof x !== "string" || !RE.test(x))\<close> throws.\<close>

definition null_or_str :: "jobject \<Rightarrow> string \<Rightarrow> (string \<Rightarrow> bool) \<Rightarrow> string option parsed" where
  "null_or_str m k ok =
     (if is_null (jfield m k) then Inr None
      else ebind (need_str m k ok) (\<lambda>s. Inr (Some s)))"

definition scope_id_ok :: "string \<Rightarrow> bool" where
  "scope_id_ok s \<longleftrightarrow> \<not> isWhitespaceOnly s \<and> js_length s \<le> 128"

definition brief_ok :: "nat \<Rightarrow> string \<Rightarrow> bool" where
  "brief_ok n s \<longleftrightarrow> \<not> isWhitespaceOnly s \<and> utf8ByteLength s \<le> n"

section \<open>Parsing a job record\<close>

definition ALLOWED_JOB_V2_KEYS :: "string list" where
  "ALLOWED_JOB_V2_KEYS = [''schema_version'', ''job_id'', ''request_id'', ''user_id'', ''workspace_id'',
     ''target_id'', ''prompt'', ''acceptance'', ''resource_id'', ''execution_timeout_seconds'',
     ''result_target'', ''request_digest'', ''status'', ''stream_entry_id'', ''latest_attempt_id'',
     ''created_at_ms'', ''claim_deadline_ms'', ''cancel'']"

definition parse_resource_link :: "jobject \<Rightarrow> (result_target \<times> string option) parsed" where
  "parse_resource_link m =
     ebind (need ''result_target'' (target_field (jfield m ''result_target''))) (\<lambda>rt.
       if rt = RT_resource
       then ebind (need_str m ''resource_id'' RESOURCE_ID_V2_RE) (\<lambda>r. Inr (rt, Some r))
       else if is_nullish (jfield m ''resource_id'') then Inr (rt, None)
       else ebind (need_str m ''resource_id'' RESOURCE_ID_V2_RE) (\<lambda>r. Inr (rt, Some r)))"

definition timeout_ok :: "int \<Rightarrow> bool" where
  "timeout_ok t \<longleftrightarrow> MIN_TIMEOUT_SECONDS \<le> t \<and> t \<le> MAX_TIMEOUT_SECONDS"

definition need_int :: "jobject \<Rightarrow> string \<Rightarrow> (int \<Rightarrow> bool) \<Rightarrow> int parsed" where
  "need_int m k ok = (case as_int (jfield m k) of
      None \<Rightarrow> Inl (V2SchemaError k)
    | Some i \<Rightarrow> if ok i then Inr i else Inl (V2SchemaError k))"

text \<open>The four state invariants; \<^verbatim>\<open>rec.cancel\<close> counts here by its truthiness.\<close>

definition job_state_ok :: "job_status \<Rightarrow> string option \<Rightarrow> string option \<Rightarrow> bool \<Rightarrow> bool" where
  "job_state_ok st stream latest has_cancel = (case st of
      JS_preparing \<Rightarrow> stream = None \<and> latest = None
    | JS_queued \<Rightarrow> stream \<noteq> None \<and> latest = None
    | JS_active \<Rightarrow> stream \<noteq> None \<and> latest \<noteq> None
    | JS_terminal \<Rightarrow> stream \<noteq> None \<and> (latest \<noteq> None \<or> has_cancel))"

definition cancel_reason_ok :: "string \<Rightarrow> bool" where
  "cancel_reason_ok s \<longleftrightarrow> js_length s \<noteq> 0 \<and> js_length s \<le> 256"

definition parse_cancel :: "json option \<Rightarrow> cancel_record option parsed" where
  "parse_cancel v =
     (if is_nullish v then Inr None
      else case v of
        Some (JObj c) \<Rightarrow>
          if \<not> fset (fmdom c) \<subseteq> set [''cancelled_at_ms'', ''requested_by_device_id'', ''reason'']
          then Inl (V2SchemaError ''cancel.unknown'')
          else ebind (need_int c ''cancelled_at_ms'' safe_nonneg) (\<lambda>t.
               ebind (need_str c ''requested_by_device_id'' DEVICE_ID_V2_RE) (\<lambda>d.
               ebind (need_str c ''reason'' cancel_reason_ok) (\<lambda>r.
               Inr (Some \<lparr>c_cancelled_at_ms = t, c_requested_by_device_id = d, c_reason = r\<rparr>))))
      | _ \<Rightarrow> Inl (V2SchemaError ''cancel''))"

definition parse_job_object :: "jobject \<Rightarrow> job parsed" where
  "parse_job_object m =
     ebind (eguard (fset (fmdom m) \<subseteq> set ALLOWED_JOB_V2_KEYS) (V2SchemaError ''unknown field'')) (\<lambda>_.
     ebind (eguard (jfield m ''schema_version'' = Some (jint JOBS_V2_SCHEMA_VERSION)) (V2SchemaError ''schema_version'')) (\<lambda>_.
     ebind (need_str m ''job_id'' JOB_ID_V2_RE) (\<lambda>job_id.
     ebind (need_str m ''request_id'' REQUEST_ID_V2_RE) (\<lambda>request_id.
     ebind (need_str m ''user_id'' scope_id_ok) (\<lambda>user_id.
     ebind (need_str m ''workspace_id'' scope_id_ok) (\<lambda>workspace_id.
     ebind (need_str m ''target_id'' TARGET_ID_V2_RE) (\<lambda>target_id.
     ebind (need_str m ''prompt'' (brief_ok MAX_PROMPT_BYTES)) (\<lambda>prompt.
     ebind (need_str m ''acceptance'' (brief_ok MAX_ACCEPTANCE_BYTES)) (\<lambda>acceptance.
     ebind (parse_resource_link m) (\<lambda>link.
     ebind (need_int m ''execution_timeout_seconds'' timeout_ok) (\<lambda>timeout.
     ebind (need_str m ''request_digest'' HEX_64_RE) (\<lambda>digest.
     ebind (need ''status'' (job_status_field (jfield m ''status''))) (\<lambda>st.
     ebind (need_int m ''created_at_ms'' safe_nonneg) (\<lambda>created.
     ebind (need_int m ''claim_deadline_ms'' (\<lambda>d. created < d \<and> d \<le> MAX_SAFE_INTEGER)) (\<lambda>deadline.
     ebind (null_or_str m ''stream_entry_id'' STREAM_ENTRY_ID_RE) (\<lambda>stream.
     ebind (null_or_str m ''latest_attempt_id'' ATTEMPT_ID_V2_RE) (\<lambda>latest.
     ebind (eguard (job_state_ok st stream latest (js_truthy (jfield m ''cancel''))) (V2SchemaError ''state'')) (\<lambda>_.
     ebind (parse_cancel (jfield m ''cancel'')) (\<lambda>cancel.
     Inr \<lparr>j_job_id = job_id, j_request_id = request_id, j_user_id = user_id, j_workspace_id = workspace_id,
          j_target_id = target_id, j_prompt = prompt, j_acceptance = acceptance, j_resource_id = snd link,
          j_execution_timeout_seconds = timeout, j_result_target = fst link, j_request_digest = digest,
          j_status = st, j_stream_entry_id = stream, j_latest_attempt_id = latest,
          j_created_at_ms = created, j_claim_deadline_ms = deadline, j_cancel = cancel\<rparr>)))))))))))))))))))"

definition parse_job_json :: "json \<Rightarrow> job parsed" where
  "parse_job_json j = (case j of JObj m \<Rightarrow> parse_job_object m | _ \<Rightarrow> Inl (V2SchemaError ''object''))"

definition parseJobRecordV2 :: "payload \<Rightarrow> job parsed" where
  "parseJobRecordV2 raw = (case json_decode raw of
      None \<Rightarrow> Inl (V2SchemaError ''json'')
    | Some j \<Rightarrow> parse_job_json j)"

section \<open>Parsing an attempt record\<close>

definition ALLOWED_ATTEMPT_V1_KEYS :: "string list" where
  "ALLOWED_ATTEMPT_V1_KEYS = [''schema_version'', ''attempt_id'', ''job_id'', ''user_id'', ''workspace_id'',
     ''target_id'', ''device_id'', ''target_binding_id'', ''claim_token_sha256'', ''phase'',
     ''claimed_at_ms'', ''started_at_ms'', ''report'', ''result'']"

definition started_ok :: "int \<Rightarrow> int \<Rightarrow> bool" where
  "started_ok claimed t \<longleftrightarrow> claimed \<le> t \<and> t \<le> MAX_SAFE_INTEGER"

text \<open>An optional result: absent or null, or a valid result of this attempt.\<close>

definition parse_own_result :: "jobject \<Rightarrow> string \<Rightarrow> job_result option parsed" where
  "parse_own_result m attempt_id =
     (case jfield m ''result'' of
        None \<Rightarrow> Inr None
      | Some JNull \<Rightarrow> Inr None
      | Some j \<Rightarrow>
          ebind (emap_err (\<lambda>_. V2SchemaError ''result'') (validatePersistedJobResult j)) (\<lambda>r.
            if res_attempt_id r \<noteq> attempt_id then Inl (V2SchemaError ''result.attempt_id'')
            else Inr (Some r)))"

text \<open>The phase-dependent part: \<^verbatim>\<open>started_at_ms\<close>, report and result.\<close>

definition parse_claimed_tail :: "jobject \<Rightarrow> (int option \<times> persisted_report option \<times> job_result option) parsed" where
  "parse_claimed_tail m =
     (if \<not> is_null (jfield m ''started_at_ms'') then Inl (V2SchemaError ''started_at_ms'')
      else if jfield m ''report'' \<noteq> None then Inl (V2SchemaError ''report'')
      else if jfield m ''result'' \<noteq> None then Inl (V2SchemaError ''result'')
      else Inr (None, None, None))"

definition parse_running_tail :: "jobject \<Rightarrow> string \<Rightarrow> int \<Rightarrow> (int option \<times> persisted_report option \<times> job_result option) parsed" where
  "parse_running_tail m attempt_id claimed =
     ebind (need_int m ''started_at_ms'' (started_ok claimed)) (\<lambda>t.
       if jfield m ''report'' \<noteq> None then Inl (V2SchemaError ''report'')
       else ebind (parse_own_result m attempt_id) (\<lambda>r. Inr (Some t, None, r)))"

definition parse_terminal_tail :: "jobject \<Rightarrow> string \<Rightarrow> int \<Rightarrow> (int option \<times> persisted_report option \<times> job_result option) parsed" where
  "parse_terminal_tail m attempt_id claimed =
     (case jfield m ''report'' of
        None \<Rightarrow> Inl (V2SchemaError ''report'')
      | Some JNull \<Rightarrow> Inl (V2SchemaError ''report'')
      | Some rj \<Rightarrow>
          ebind (emap_err (\<lambda>_. V2SchemaError ''report'') (validatePersistedExecutionReport rj)) (\<lambda>rep.
            if r_task_dispatched rep
            then ebind (need_int m ''started_at_ms'' (started_ok claimed)) (\<lambda>t.
                 ebind (parse_own_result m attempt_id) (\<lambda>r. Inr (Some t, Some rep, r)))
            else ebind (if is_null (jfield m ''started_at_ms'') then Inr None
                        else ebind (need_int m ''started_at_ms'' (started_ok claimed)) (\<lambda>t. Inr (Some t))) (\<lambda>st.
                 if \<not> is_nullish (jfield m ''result'') then Inl (V2SchemaError ''result'')
                 else Inr (st, Some rep, None))))"

definition parse_attempt_object :: "jobject \<Rightarrow> attempt parsed" where
  "parse_attempt_object m =
     ebind (eguard (fset (fmdom m) \<subseteq> set ALLOWED_ATTEMPT_V1_KEYS) (V2SchemaError ''unknown field'')) (\<lambda>_.
     ebind (eguard (jfield m ''schema_version'' = Some (jint ATTEMPT_V1_SCHEMA_VERSION)) (V2SchemaError ''schema_version'')) (\<lambda>_.
     ebind (need_str m ''attempt_id'' ATTEMPT_ID_V2_RE) (\<lambda>attempt_id.
     ebind (need_str m ''job_id'' JOB_ID_V2_RE) (\<lambda>job_id.
     ebind (need_str m ''user_id'' scope_id_ok) (\<lambda>user_id.
     ebind (need_str m ''workspace_id'' scope_id_ok) (\<lambda>workspace_id.
     ebind (need_str m ''target_id'' TARGET_ID_V2_RE) (\<lambda>target_id.
     ebind (need_str m ''device_id'' DEVICE_ID_V2_RE) (\<lambda>device_id.
     ebind (need_str m ''target_binding_id'' TARGET_BINDING_ID_V2_RE) (\<lambda>binding_id.
     ebind (need_str m ''claim_token_sha256'' HEX_64_RE) (\<lambda>token.
     ebind (need ''phase'' (phase_field (jfield m ''phase''))) (\<lambda>phase.
     ebind (need_int m ''claimed_at_ms'' safe_nonneg) (\<lambda>claimed.
     ebind (case phase of
              AP_claimed \<Rightarrow> parse_claimed_tail m
            | AP_running \<Rightarrow> parse_running_tail m attempt_id claimed
            | AP_terminal \<Rightarrow> parse_terminal_tail m attempt_id claimed) (\<lambda>tail.
     Inr \<lparr>a_attempt_id = attempt_id, a_job_id = job_id, a_user_id = user_id, a_workspace_id = workspace_id,
          a_target_id = target_id, a_device_id = device_id, a_target_binding_id = binding_id,
          a_claim_token_sha256 = token, a_phase = phase, a_claimed_at_ms = claimed,
          a_started_at_ms = fst tail, a_report = fst (snd tail), a_result = snd (snd tail)\<rparr>)))))))))))))"

definition parse_attempt_json :: "json \<Rightarrow> attempt parsed" where
  "parse_attempt_json j = (case j of JObj m \<Rightarrow> parse_attempt_object m | _ \<Rightarrow> Inl (V2SchemaError ''object''))"

definition parseAttemptRecordV1 :: "payload \<Rightarrow> attempt parsed" where
  "parseAttemptRecordV1 raw = (case json_decode raw of
      None \<Rightarrow> Inl (V2SchemaError ''json'')
    | Some j \<Rightarrow> parse_attempt_json j)"

section \<open>Stream entries\<close>

definition ALLOWED_STREAM_V2_KEYS :: "string list" where
  "ALLOWED_STREAM_V2_KEYS = [''schema_version'', ''job_id'', ''user_id'', ''workspace_id'', ''target_id'', ''created_at_ms'']"

definition text_or_number :: "json option \<Rightarrow> rat option" where
  "text_or_number v = (case v of
      Some (JStr s) \<Rightarrow> js_number s
    | Some (JNum r) \<Rightarrow> Some r
    | _ \<Rightarrow> None)"

definition validateStreamEntryV2 :: "jobject \<Rightarrow> stream_entry parsed" where
  "validateStreamEntryV2 m =
     ebind (eguard (fset (fmdom m) \<subseteq> set ALLOWED_STREAM_V2_KEYS) (V2SchemaError ''unknown field'')) (\<lambda>_.
     ebind (eguard (text_or_number (jfield m ''schema_version'') = Some (of_int STREAM_V2_SCHEMA_VERSION)) (V2SchemaError ''schema_version'')) (\<lambda>_.
     ebind (need_str m ''job_id'' JOB_ID_V2_RE) (\<lambda>job_id.
     ebind (need_str m ''user_id'' scope_id_ok) (\<lambda>user_id.
     ebind (need_str m ''workspace_id'' scope_id_ok) (\<lambda>workspace_id.
     ebind (need_str m ''target_id'' TARGET_ID_V2_RE) (\<lambda>target_id.
     ebind (need ''created_at_ms'' (as_int (map_option JNum (text_or_number (jfield m ''created_at_ms''))))) (\<lambda>created.
     ebind (eguard (safe_nonneg created) (V2SchemaError ''created_at_ms'')) (\<lambda>_.
     Inr \<lparr>s_job_id = job_id, s_user_id = user_id, s_workspace_id = workspace_id, s_target_id = target_id,
          s_created_at_ms = created\<rparr>))))))))"

section \<open>JSON forms of the records\<close>

definition cancel_obj :: "cancel_record \<Rightarrow> jobject" where
  "cancel_obj c = fmap_of_list
     [(''cancelled_at_ms'', jint (c_cancelled_at_ms c)),
      (''requested_by_device_id'', JStr (c_requested_by_device_id c)),
      (''reason'', JStr (c_reason c))]"

definition job_obj :: "job \<Rightarrow> jobject" where
  "job_obj j = fmap_of_list
     [(''schema_version'', jint JOBS_V2_SCHEMA_VERSION),
      (''job_id'', JStr (j_job_id j)),
      (''request_id'', JStr (j_request_id j)),
      (''user_id'', JStr (j_user_id j)),
      (''workspace_id'', JStr (j_workspace_id j)),
      (''target_id'', JStr (j_target_id j)),
      (''prompt'', JStr (j_prompt j)),
      (''acceptance'', JStr (j_acceptance j)),
      (''resource_id'', jopt JStr (j_resource_id j)),
      (''execution_timeout_seconds'', jint (j_execution_timeout_seconds j)),
      (''result_target'', JStr (target_str (j_result_target j))),
      (''request_digest'', JStr (j_request_digest j)),
      (''status'', JStr (job_status_str (j_status j))),
      (''stream_entry_id'', jopt JStr (j_stream_entry_id j)),
      (''latest_attempt_id'', jopt JStr (j_latest_attempt_id j)),
      (''created_at_ms'', jint (j_created_at_ms j)),
      (''claim_deadline_ms'', jint (j_claim_deadline_ms j)),
      (''cancel'', jopt (\<lambda>c. JObj (cancel_obj c)) (j_cancel j))]"

definition put_opt :: "string \<Rightarrow> json option \<Rightarrow> jobject \<Rightarrow> jobject" where
  "put_opt k v m = (case v of None \<Rightarrow> m | Some x \<Rightarrow> fmupd k x m)"

definition attempt_obj :: "attempt \<Rightarrow> jobject" where
  "attempt_obj a =
     put_opt ''report'' (map_option (\<lambda>r. JObj (persisted_obj r)) (a_report a))
     (put_opt ''result'' (map_option (\<lambda>r. JObj (result_obj r)) (a_result a))
     (fmap_of_list
       [(''schema_version'', jint ATTEMPT_V1_SCHEMA_VERSION),
        (''attempt_id'', JStr (a_attempt_id a)),
        (''job_id'', JStr (a_job_id a)),
        (''user_id'', JStr (a_user_id a)),
        (''workspace_id'', JStr (a_workspace_id a)),
        (''target_id'', JStr (a_target_id a)),
        (''device_id'', JStr (a_device_id a)),
        (''target_binding_id'', JStr (a_target_binding_id a)),
        (''claim_token_sha256'', JStr (a_claim_token_sha256 a)),
        (''phase'', JStr (phase_str (a_phase a))),
        (''claimed_at_ms'', jint (a_claimed_at_ms a)),
        (''started_at_ms'', jopt jint (a_started_at_ms a))]))"

text \<open>\<^verbatim>\<open>serializeJobRecordV2\<close>: validate, then stringify the validated record.\<close>

definition serializeJobRecordV2 :: "job \<Rightarrow> payload parsed" where
  "serializeJobRecordV2 j = ebind (parse_job_object (job_obj j)) (\<lambda>v. Inr (Json (JObj (job_obj v))))"

definition serializeAttemptRecordV1 :: "attempt \<Rightarrow> payload parsed" where
  "serializeAttemptRecordV1 a =
     ebind (parse_attempt_object (attempt_obj a)) (\<lambda>v. Inr (Json (JObj (attempt_obj v))))"

definition stream_fields :: "stream_entry \<Rightarrow> (string \<times> string) list" where
  "stream_fields e =
     [(''schema_version'', show_int STREAM_V2_SCHEMA_VERSION),
      (''job_id'', s_job_id e),
      (''user_id'', s_user_id e),
      (''workspace_id'', s_workspace_id e),
      (''target_id'', s_target_id e),
      (''created_at_ms'', show_int (s_created_at_ms e))]"

text \<open>The object a flat list of stream fields stands for, and \<^verbatim>\<open>serializeStreamEntryV2\<close>.\<close>

definition fields_obj :: "(string \<times> string) list \<Rightarrow> jobject" where
  "fields_obj fs = fmap_of_list (rev (map (\<lambda>kv. (fst kv, JStr (snd kv))) fs))"

definition serializeStreamEntryV2 :: "stream_entry \<Rightarrow> (string \<times> string) list parsed" where
  "serializeStreamEntryV2 e =
     ebind (validateStreamEntryV2 (fmap_of_list
       [(''schema_version'', jint STREAM_V2_SCHEMA_VERSION), (''job_id'', JStr (s_job_id e)),
        (''user_id'', JStr (s_user_id e)), (''workspace_id'', JStr (s_workspace_id e)),
        (''target_id'', JStr (s_target_id e)), (''created_at_ms'', jint (s_created_at_ms e))]))
     (\<lambda>v. Inr (stream_fields v))"

definition parseStreamEntryV2 :: "(string \<times> string) list \<Rightarrow> stream_entry parsed" where
  "parseStreamEntryV2 fs = validateStreamEntryV2 (fields_obj fs)"

section \<open>The key families are disjoint\<close>

lemma key_inject [key_simps, simp]:
  "jobKeyV2 a = jobKeyV2 b \<longleftrightarrow> a = b"
  "jobAttemptsKeyV1 a = jobAttemptsKeyV1 b \<longleftrightarrow> a = b"
  "attemptKeyV1 a = attemptKeyV1 b \<longleftrightarrow> a = b"
  "targetQueueKeyV1 a = targetQueueKeyV1 b \<longleftrightarrow> a = b"
  "targetDeleteFenceKeyV1 a = targetDeleteFenceKeyV1 b \<longleftrightarrow> a = b"
  by (simp_all add: jobKeyV2_def jobAttemptsKeyV1_def attemptKeyV1_def targetQueueKeyV1_def
      targetDeleteFenceKeyV1_def)

lemma key_distinct [key_simps, simp]:
  "jobKeyV2 a \<noteq> attemptKeyV1 b" "jobKeyV2 a \<noteq> targetQueueKeyV1 b" "jobKeyV2 a \<noteq> targetDeleteFenceKeyV1 b"
  "jobKeyV2 a \<noteq> requestKeyV2 u w r" "jobKeyV2 a \<noteq> KEY_STREAM_V2"
  "jobAttemptsKeyV1 a \<noteq> attemptKeyV1 b" "jobAttemptsKeyV1 a \<noteq> targetQueueKeyV1 b"
  "jobAttemptsKeyV1 a \<noteq> targetDeleteFenceKeyV1 b" "jobAttemptsKeyV1 a \<noteq> requestKeyV2 u w r"
  "jobAttemptsKeyV1 a \<noteq> KEY_STREAM_V2"
  "attemptKeyV1 a \<noteq> targetQueueKeyV1 b" "attemptKeyV1 a \<noteq> targetDeleteFenceKeyV1 b"
  "attemptKeyV1 a \<noteq> requestKeyV2 u w r" "attemptKeyV1 a \<noteq> KEY_STREAM_V2"
  "targetQueueKeyV1 a \<noteq> targetDeleteFenceKeyV1 b" "targetQueueKeyV1 a \<noteq> requestKeyV2 u w r"
  "targetQueueKeyV1 a \<noteq> KEY_STREAM_V2"
  "targetDeleteFenceKeyV1 a \<noteq> requestKeyV2 u w r" "targetDeleteFenceKeyV1 a \<noteq> KEY_STREAM_V2"
  "requestKeyV2 u w r \<noteq> KEY_STREAM_V2"
  by (simp_all add: jobKeyV2_def jobAttemptsKeyV1_def attemptKeyV1_def targetQueueKeyV1_def
      targetDeleteFenceKeyV1_def requestKeyV2_def KEY_STREAM_V2_def)

lemmas key_distinct_sym [key_simps, simp] = key_distinct [symmetric]

lemma jobKey_attemptsKey [simp]: "colon_free a \<Longrightarrow> jobKeyV2 a \<noteq> jobAttemptsKeyV1 b"
  by (auto simp: jobKeyV2_def jobAttemptsKeyV1_def colon_free_def)

lemmas jobKey_attemptsKey_sym [simp] = jobKey_attemptsKey [symmetric]

lemma append_sep_inject:
  "c \<notin> set a \<Longrightarrow> c \<notin> set b \<Longrightarrow> a @ c # s = b @ c # t \<longleftrightarrow> a = b \<and> s = t"
  by (metis takeWhile_sep dropWhile_sep list.inject)

lemma requestKey_inject:
  "colon_free u \<Longrightarrow> colon_free u' \<Longrightarrow> colon_free w \<Longrightarrow> colon_free w' \<Longrightarrow>
   requestKeyV2 u w r = requestKeyV2 u' w' r' \<longleftrightarrow> u = u' \<and> w = w' \<and> r = r'"
  by (auto simp: requestKeyV2_def colon_free_def append_sep_inject)

section \<open>Well-formed job records\<close>

definition cancel_ok :: "cancel_record \<Rightarrow> bool" where
  "cancel_ok c \<longleftrightarrow> safe_nonneg (c_cancelled_at_ms c) \<and> DEVICE_ID_V2_RE (c_requested_by_device_id c)
     \<and> cancel_reason_ok (c_reason c)"

definition job_ok :: "job \<Rightarrow> bool" where
  "job_ok j \<longleftrightarrow> JOB_ID_V2_RE (j_job_id j) \<and> REQUEST_ID_V2_RE (j_request_id j)
     \<and> scope_id_ok (j_user_id j) \<and> scope_id_ok (j_workspace_id j) \<and> TARGET_ID_V2_RE (j_target_id j)
     \<and> brief_ok MAX_PROMPT_BYTES (j_prompt j) \<and> brief_ok MAX_ACCEPTANCE_BYTES (j_acceptance j)
     \<and> (j_result_target j = RT_resource \<longrightarrow> j_resource_id j \<noteq> None)
     \<and> (\<forall>r. j_resource_id j = Some r \<longrightarrow> RESOURCE_ID_V2_RE r)
     \<and> timeout_ok (j_execution_timeout_seconds j) \<and> HEX_64_RE (j_request_digest j)
     \<and> safe_nonneg (j_created_at_ms j) \<and> j_created_at_ms j < j_claim_deadline_ms j
     \<and> j_claim_deadline_ms j \<le> MAX_SAFE_INTEGER
     \<and> (\<forall>s. j_stream_entry_id j = Some s \<longrightarrow> STREAM_ENTRY_ID_RE s)
     \<and> (\<forall>a. j_latest_attempt_id j = Some a \<longrightarrow> ATTEMPT_ID_V2_RE a)
     \<and> job_state_ok (j_status j) (j_stream_entry_id j) (j_latest_attempt_id j) (j_cancel j \<noteq> None)
     \<and> (\<forall>c. j_cancel j = Some c \<longrightarrow> cancel_ok c)"

lemma need_Inr [simp]: "need t x = Inr y \<longleftrightarrow> x = Some y"
  by (simp add: need_def split: option.splits)

lemma need_str_Inr [simp]: "need_str m k ok = Inr s \<longleftrightarrow> jfield m k = Some (JStr s) \<and> ok s"
  by (auto simp: need_str_def split: option.splits)

lemma need_int_Inr [simp]: "need_int m k ok = Inr i \<longleftrightarrow> jfield m k = Some (jint i) \<and> ok i"
  by (auto simp: need_int_def split: option.splits)

lemma null_or_str_Inr [simp]:
  "null_or_str m k ok = Inr v \<longleftrightarrow> jfield m k = Some (jopt JStr v) \<and> (\<forall>s. v = Some s \<longrightarrow> ok s)"
  by (cases v) (auto simp: null_or_str_def is_null_def ebind_eq_Inr)

lemma job_status_field_Some [simp]: "job_status_field v = Some s \<longleftrightarrow> v = Some (JStr (job_status_str s))"
proof -
  have "inj_on job_status_str (set [JS_preparing, JS_queued, JS_active, JS_terminal])"
    and "s \<in> set [JS_preparing, JS_queued, JS_active, JS_terminal]"
    by (auto simp: inj_on_def) (cases s; simp)
  then show ?thesis unfolding job_status_field_def by (simp add: enum_field_Some)
qed

lemma phase_field_Some [simp]: "phase_field v = Some s \<longleftrightarrow> v = Some (JStr (phase_str s))"
proof -
  have "inj_on phase_str (set [AP_claimed, AP_running, AP_terminal])"
    and "s \<in> set [AP_claimed, AP_running, AP_terminal]"
    by (auto simp: inj_on_def) (cases s; simp)
  then show ?thesis unfolding phase_field_def by (simp add: enum_field_Some)
qed

lemma job_status_str_inject [simp]: "job_status_str a = job_status_str b \<longleftrightarrow> a = b"
  by (cases a; cases b) simp_all

lemma phase_str_inject [simp]: "phase_str a = phase_str b \<longleftrightarrow> a = b"
  by (cases a; cases b) simp_all

lemma cancel_obj_fields [json_simps]:
  "jfield (cancel_obj c) ''cancelled_at_ms'' = Some (jint (c_cancelled_at_ms c))"
  "jfield (cancel_obj c) ''requested_by_device_id'' = Some (JStr (c_requested_by_device_id c))"
  "jfield (cancel_obj c) ''reason'' = Some (JStr (c_reason c))"
  "fset (fmdom (cancel_obj c)) = {''cancelled_at_ms'', ''requested_by_device_id'', ''reason''}"
  by (auto simp: cancel_obj_def)

lemma job_obj_fields [json_simps]:
  "jfield (job_obj j) ''schema_version'' = Some (jint JOBS_V2_SCHEMA_VERSION)"
  "jfield (job_obj j) ''job_id'' = Some (JStr (j_job_id j))"
  "jfield (job_obj j) ''request_id'' = Some (JStr (j_request_id j))"
  "jfield (job_obj j) ''user_id'' = Some (JStr (j_user_id j))"
  "jfield (job_obj j) ''workspace_id'' = Some (JStr (j_workspace_id j))"
  "jfield (job_obj j) ''target_id'' = Some (JStr (j_target_id j))"
  "jfield (job_obj j) ''prompt'' = Some (JStr (j_prompt j))"
  "jfield (job_obj j) ''acceptance'' = Some (JStr (j_acceptance j))"
  "jfield (job_obj j) ''resource_id'' = Some (jopt JStr (j_resource_id j))"
  "jfield (job_obj j) ''execution_timeout_seconds'' = Some (jint (j_execution_timeout_seconds j))"
  "jfield (job_obj j) ''result_target'' = Some (JStr (target_str (j_result_target j)))"
  "jfield (job_obj j) ''request_digest'' = Some (JStr (j_request_digest j))"
  "jfield (job_obj j) ''status'' = Some (JStr (job_status_str (j_status j)))"
  "jfield (job_obj j) ''stream_entry_id'' = Some (jopt JStr (j_stream_entry_id j))"
  "jfield (job_obj j) ''latest_attempt_id'' = Some (jopt JStr (j_latest_attempt_id j))"
  "jfield (job_obj j) ''created_at_ms'' = Some (jint (j_created_at_ms j))"
  "jfield (job_obj j) ''claim_deadline_ms'' = Some (jint (j_claim_deadline_ms j))"
  "jfield (job_obj j) ''cancel'' = Some (jopt (\<lambda>c. JObj (cancel_obj c)) (j_cancel j))"
  by (simp_all add: job_obj_def)

lemma job_obj_dom [json_simps]: "fset (fmdom (job_obj j)) = set ALLOWED_JOB_V2_KEYS"
  by (auto simp: job_obj_def ALLOWED_JOB_V2_KEYS_def)

lemma parse_cancel_Inr:
  "parse_cancel v = Inr (Some c) \<longleftrightarrow> v = Some (JObj (cancel_obj c)) \<and> cancel_ok c"
  "parse_cancel v = Inr None \<longleftrightarrow> is_nullish v"
proof -
  let ?ks = "[''cancelled_at_ms'', ''requested_by_device_id'', ''reason'']"
  have eq: "m = cancel_obj c"
    if "fset (fmdom m) \<subseteq> set ?ks" "jfield m ''cancelled_at_ms'' = Some (jint (c_cancelled_at_ms c))"
      "jfield m ''requested_by_device_id'' = Some (JStr (c_requested_by_device_id c))"
      "jfield m ''reason'' = Some (JStr (c_reason c))" for m c
    using that by (intro strict_obj_eqI [of m ?ks]) (auto simp: json_simps)
  show "parse_cancel v = Inr (Some c) \<longleftrightarrow> v = Some (JObj (cancel_obj c)) \<and> cancel_ok c"
  proof
    assume p: "parse_cancel v = Inr (Some c)"
    then obtain m where v: "v = Some (JObj m)"
      by (auto simp: parse_cancel_def split: option.splits json.splits if_splits)
    have ks: "fset (fmdom m) \<subseteq> set ?ks"
      using p unfolding v by (simp add: parse_cancel_def split: if_splits)
    from p have "jfield m ''cancelled_at_ms'' = Some (jint (c_cancelled_at_ms c))
        \<and> jfield m ''requested_by_device_id'' = Some (JStr (c_requested_by_device_id c))
        \<and> jfield m ''reason'' = Some (JStr (c_reason c)) \<and> cancel_ok c"
      unfolding v
      by (simp add: parse_cancel_def ebind_eq_Inr split: if_splits) (clarify, simp add: cancel_ok_def)
    with ks show "v = Some (JObj (cancel_obj c)) \<and> cancel_ok c"
      using eq v by simp
  next
    assume "v = Some (JObj (cancel_obj c)) \<and> cancel_ok c"
    then show "parse_cancel v = Inr (Some c)"
      by (simp add: parse_cancel_def cancel_ok_def json_simps ebind_eq_Inr)
  qed
  show "parse_cancel v = Inr None \<longleftrightarrow> is_nullish v"
    by (auto simp: parse_cancel_def ebind_eq_Inr split: option.splits json.splits if_splits)
qed

lemma target_field_str [simp]: "target_field (Some (JStr (target_str t))) = Some t"
  by simp
lemma need_Some [simp]: "need t (Some y) = Inr y"
  by (simp add: need_def)
lemma parse_resource_link_obj:
  "parse_resource_link (job_obj j) = Inr l \<longleftrightarrow> l = (j_result_target j, j_resource_id j)
     \<and> (j_result_target j = RT_resource \<longrightarrow> j_resource_id j \<noteq> None)
     \<and> (\<forall>r. j_resource_id j = Some r \<longrightarrow> RESOURCE_ID_V2_RE r)"
  by (simp add: parse_resource_link_def json_simps del: target_field_Some need_Inr,
      cases "j_result_target j"; cases "j_resource_id j"; simp add: ebind_eq_Inr json_simps)
    auto


lemma parse_resource_link_sound:
  assumes "parse_resource_link m = Inr l"
  shows "(fst l = RT_resource \<longrightarrow> snd l \<noteq> None) \<and> (\<forall>x. snd l = Some x \<longrightarrow> RESOURCE_ID_V2_RE x)"
proof -
  obtain rt where "target_field (jfield m ''result_target'') = Some rt"
    using assms by (auto simp: parse_resource_link_def ebind_eq_Inr)
  with assms show ?thesis
    by (cases rt) (auto simp: parse_resource_link_def ebind_eq_Inr split: if_splits simp del: target_field_Some)
qed

lemma parse_cancel_truthy: "parse_cancel v = Inr c \<Longrightarrow> js_truthy v \<longleftrightarrow> c \<noteq> None"
  by (cases c) (auto simp: parse_cancel_Inr is_nullish_def)

lemma parse_cancel_sound: "parse_cancel v = Inr c \<Longrightarrow> (\<forall>x. c = Some x \<longrightarrow> cancel_ok x)"
  by (auto simp: parse_cancel_Inr)

lemma parse_job_object_sound:
  assumes "parse_job_object m = Inr j"
  shows "job_ok j"
  using assms parse_resource_link_sound parse_cancel_truthy parse_cancel_sound
  by (clarsimp simp: parse_job_object_def ebind_eq_Inr job_ok_def)

lemma cancel_obj_inject [simp]: "cancel_obj a = cancel_obj b \<longleftrightarrow> a = b"
proof
  assume "cancel_obj a = cancel_obj b"
  then have "jfield (cancel_obj a) k = jfield (cancel_obj b) k" for k by simp
  from this [of "''cancelled_at_ms''"] this [of "''requested_by_device_id''"] this [of "''reason''"]
  show "a = b" by (simp add: json_simps)
qed simp
lemma parse_cancel_obj:
  "parse_cancel (Some (jopt (\<lambda>c. JObj (cancel_obj c)) c)) = Inr c' \<longleftrightarrow> c' = c \<and> (\<forall>x. c = Some x \<longrightarrow> cancel_ok x)"
  by (cases c; cases c') (auto simp: parse_cancel_Inr)

lemma parse_job_obj_iff: "parse_job_object (job_obj j) = Inr j' \<longleftrightarrow> j' = j \<and> job_ok j"
proof
  assume p: "parse_job_object (job_obj j) = Inr j'"
  then have "job_ok j'" by (rule parse_job_object_sound)
  moreover have "j' = j"
    using p by (clarsimp simp: parse_job_object_def ebind_eq_Inr json_simps parse_resource_link_obj parse_cancel_obj)
  ultimately show "j' = j \<and> job_ok j" by simp
next
  assume "j' = j \<and> job_ok j"
  moreover have "js_truthy (Some (jopt (\<lambda>c. JObj (cancel_obj c)) c)) \<longleftrightarrow> c \<noteq> None" for c
    by (cases c) simp_all
  ultimately show "parse_job_object (job_obj j) = Inr j'"
    by (simp add: parse_job_object_def ebind_eq_Inr json_simps parse_resource_link_obj parse_cancel_obj job_ok_def)
qed

section \<open>Well-formed attempt records\<close>

definition own_result_ok :: "attempt \<Rightarrow> bool" where
  "own_result_ok a = (case a_result a of
      None \<Rightarrow> True
    | Some r \<Rightarrow> result_ok r \<and> res_attempt_id r = a_attempt_id a)"

definition started_some_ok :: "attempt \<Rightarrow> bool" where
  "started_some_ok a = (case a_started_at_ms a of None \<Rightarrow> False | Some t \<Rightarrow> started_ok (a_claimed_at_ms a) t)"

definition attempt_tail_ok :: "attempt \<Rightarrow> bool" where
  "attempt_tail_ok a = (case a_phase a of
      AP_claimed \<Rightarrow> a_started_at_ms a = None \<and> a_report a = None \<and> a_result a = None
    | AP_running \<Rightarrow> started_some_ok a \<and> a_report a = None \<and> own_result_ok a
    | AP_terminal \<Rightarrow> (case a_report a of
         None \<Rightarrow> False
       | Some r \<Rightarrow> report_ok r \<and> safe_nonneg (r_received_at_ms r)
           \<and> (if r_task_dispatched r then started_some_ok a \<and> own_result_ok a
              else (a_started_at_ms a = None \<or> started_some_ok a) \<and> a_result a = None)))"

definition attempt_ids_ok :: "attempt \<Rightarrow> bool" where
  "attempt_ids_ok a \<longleftrightarrow> ATTEMPT_ID_V2_RE (a_attempt_id a) \<and> JOB_ID_V2_RE (a_job_id a)
     \<and> scope_id_ok (a_user_id a) \<and> scope_id_ok (a_workspace_id a) \<and> TARGET_ID_V2_RE (a_target_id a)
     \<and> DEVICE_ID_V2_RE (a_device_id a) \<and> TARGET_BINDING_ID_V2_RE (a_target_binding_id a)
     \<and> HEX_64_RE (a_claim_token_sha256 a) \<and> safe_nonneg (a_claimed_at_ms a)"

definition attempt_ok :: "attempt \<Rightarrow> bool" where
  "attempt_ok a \<longleftrightarrow> attempt_ids_ok a \<and> attempt_tail_ok a"

lemma put_opt_lookup [simp]: "fmlookup (put_opt k v m) k' = (if k' = k \<and> v \<noteq> None then v else fmlookup m k')"
  by (auto simp: put_opt_def split: option.splits)

lemma attempt_obj_fields [json_simps]:
  "jfield (attempt_obj a) ''schema_version'' = Some (jint ATTEMPT_V1_SCHEMA_VERSION)"
  "jfield (attempt_obj a) ''attempt_id'' = Some (JStr (a_attempt_id a))"
  "jfield (attempt_obj a) ''job_id'' = Some (JStr (a_job_id a))"
  "jfield (attempt_obj a) ''user_id'' = Some (JStr (a_user_id a))"
  "jfield (attempt_obj a) ''workspace_id'' = Some (JStr (a_workspace_id a))"
  "jfield (attempt_obj a) ''target_id'' = Some (JStr (a_target_id a))"
  "jfield (attempt_obj a) ''device_id'' = Some (JStr (a_device_id a))"
  "jfield (attempt_obj a) ''target_binding_id'' = Some (JStr (a_target_binding_id a))"
  "jfield (attempt_obj a) ''claim_token_sha256'' = Some (JStr (a_claim_token_sha256 a))"
  "jfield (attempt_obj a) ''phase'' = Some (JStr (phase_str (a_phase a)))"
  "jfield (attempt_obj a) ''claimed_at_ms'' = Some (jint (a_claimed_at_ms a))"
  "jfield (attempt_obj a) ''started_at_ms'' = Some (jopt jint (a_started_at_ms a))"
  "jfield (attempt_obj a) ''report'' = map_option (\<lambda>r. JObj (persisted_obj r)) (a_report a)"
  "jfield (attempt_obj a) ''result'' = map_option (\<lambda>r. JObj (result_obj r)) (a_result a)"
  by (auto simp: attempt_obj_def)

lemma attempt_obj_dom [json_simps]: "fset (fmdom (attempt_obj a)) \<subseteq> set ALLOWED_ATTEMPT_V1_KEYS"
  by (cases "a_report a"; cases "a_result a")
    (auto simp: attempt_obj_def put_opt_def ALLOWED_ATTEMPT_V1_KEYS_def)

lemma validate_report_obj [simp]:
  "validatePersistedExecutionReport j = Inr r \<longleftrightarrow>
     j = JObj (persisted_obj r) \<and> report_ok r \<and> safe_nonneg (r_received_at_ms r)"
  by (auto simp: validatePersistedExecutionReport_def simp flip: persistedExecutionReportSchema_iff
      split: option.splits)

lemma validate_result_obj [simp]:
  "validatePersistedJobResult j = Inr r \<longleftrightarrow> j = JObj (result_obj r) \<and> result_ok r"
  by (auto simp: validatePersistedJobResult_def simp flip: persistedJobResultSchema_iff split: option.splits)

lemma persisted_obj_inject [simp]: "persisted_obj a = persisted_obj b \<longleftrightarrow> a = b"
proof
  assume eq: "persisted_obj a = persisted_obj b"
  then have "jfield (persisted_obj a) k = jfield (persisted_obj b) k" for k by simp
  note f = this [of "''execution_status''"] this [of "''business_outcome''"] this [of "''task_dispatched''"]
    this [of "''finished_at_ms''"] this [of "''duration_ms''"] this [of "''executor''"]
    this [of "''receipt_sha256''"] this [of "''error''"] this [of "''received_at_ms''"]
  have ex: "executor_obj x = executor_obj y \<longleftrightarrow> x = y" for x y
    by (auto simp: json_simps dest: arg_cong [where f = "\<lambda>m. (jfield m ''type'', jfield m ''version'')"])
  have er: "jopt (\<lambda>e. JObj (error_obj e)) x = jopt (\<lambda>e. JObj (error_obj e)) y \<longleftrightarrow> x = y" for x y
    by (cases x; cases y) (auto simp: json_simps
        dest: arg_cong [where f = "\<lambda>m. (jfield m ''stage'', jfield m ''code'', jfield m ''message'')"])
  show "a = b" using f by (simp add: json_simps ex er)
qed simp

lemma result_obj_inject [simp]: "result_obj a = result_obj b \<longleftrightarrow> a = b"
proof
  assume eq: "result_obj a = result_obj b"
  then have "jfield (result_obj a) k = jfield (result_obj b) k" for k by simp
  from this [of "''attempt_id''"] this [of "''payload_sha256''"] this [of "''resource_id''"]
    this [of "''commit''"] this [of "''received_at_ms''"]
  show "a = b" by (simp add: json_simps)
qed simp

lemma parse_own_result_obj:
  "parse_own_result (attempt_obj a) aid = Inr r \<longleftrightarrow>
     r = a_result a \<and> (\<forall>x. a_result a = Some x \<longrightarrow> result_ok x \<and> res_attempt_id x = aid)"
  by (cases "a_result a")
    (auto simp: parse_own_result_def json_simps ebind_eq_Inr split: if_splits)

lemma parse_own_result_sound:
  "parse_own_result m aid = Inr (Some x) \<Longrightarrow> result_ok x \<and> res_attempt_id x = aid"
  by (auto simp: parse_own_result_def ebind_eq_Inr split: option.splits json.splits if_splits)

definition attempt_tail :: "attempt \<Rightarrow> int option \<times> persisted_report option \<times> job_result option" where
  "attempt_tail a = (a_started_at_ms a, a_report a, a_result a)"

lemma parse_tail_obj:
  "a_phase a = AP_claimed \<Longrightarrow>
     parse_claimed_tail (attempt_obj a) = Inr t \<longleftrightarrow> t = attempt_tail a \<and> attempt_tail_ok a"
  "a_phase a = AP_running \<Longrightarrow>
     parse_running_tail (attempt_obj a) (a_attempt_id a) (a_claimed_at_ms a) = Inr t
       \<longleftrightarrow> t = attempt_tail a \<and> attempt_tail_ok a"
proof -
  show "a_phase a = AP_claimed \<Longrightarrow>
     parse_claimed_tail (attempt_obj a) = Inr t \<longleftrightarrow> t = attempt_tail a \<and> attempt_tail_ok a"
    by (cases "a_started_at_ms a")
      (auto simp: parse_claimed_tail_def attempt_tail_ok_def attempt_tail_def json_simps)
  show "a_phase a = AP_running \<Longrightarrow>
     parse_running_tail (attempt_obj a) (a_attempt_id a) (a_claimed_at_ms a) = Inr t
       \<longleftrightarrow> t = attempt_tail a \<and> attempt_tail_ok a"
    by (cases "a_started_at_ms a"; cases "a_result a")
      (auto simp: parse_running_tail_def attempt_tail_ok_def attempt_tail_def started_some_ok_def
        own_result_ok_def json_simps ebind_eq_Inr parse_own_result_obj)
qed

lemma parse_terminal_tail_obj:
  assumes "a_phase a = AP_terminal"
  shows "parse_terminal_tail (attempt_obj a) (a_attempt_id a) (a_claimed_at_ms a) = Inr t
    \<longleftrightarrow> t = attempt_tail a \<and> attempt_tail_ok a"
proof (cases "a_report a")
  case None
  with assms show ?thesis
    by (simp add: parse_terminal_tail_def json_simps attempt_tail_ok_def)
next
  case (Some r)
  show ?thesis
  proof (cases "r_task_dispatched r")
    case True
    with assms Some show ?thesis
      by (cases "a_started_at_ms a"; cases "a_result a")
        (auto simp: parse_terminal_tail_def json_simps attempt_tail_ok_def attempt_tail_def
          started_some_ok_def own_result_ok_def ebind_eq_Inr parse_own_result_obj)
  next
    case False
    with assms Some show ?thesis
      by (cases "a_started_at_ms a"; cases "a_result a")
        (auto simp: parse_terminal_tail_def json_simps attempt_tail_ok_def attempt_tail_def
          started_some_ok_def ebind_eq_Inr)
  qed
qed

lemma parse_attempt_obj_iff: "parse_attempt_object (attempt_obj a) = Inr a' \<longleftrightarrow> a' = a \<and> attempt_ok a"
proof -
  have tail: "(case a_phase a of
              AP_claimed \<Rightarrow> parse_claimed_tail (attempt_obj a)
            | AP_running \<Rightarrow> parse_running_tail (attempt_obj a) (a_attempt_id a) (a_claimed_at_ms a)
            | AP_terminal \<Rightarrow> parse_terminal_tail (attempt_obj a) (a_attempt_id a) (a_claimed_at_ms a)) = Inr t
       \<longleftrightarrow> t = attempt_tail a \<and> attempt_tail_ok a" for t
    by (cases "a_phase a") (simp_all add: parse_tail_obj parse_terminal_tail_obj)
  then show ?thesis
    by (auto simp: parse_attempt_object_def ebind_eq_Inr json_simps attempt_tail_def attempt_ok_def
        attempt_ids_ok_def)
qed

lemma parse_terminal_tail_inv:
  assumes "parse_terminal_tail m aid claimed = Inr (st, rep, res)"
  shows "\<exists>r. rep = Some r \<and> report_ok r \<and> safe_nonneg (r_received_at_ms r)
    \<and> (\<forall>t. st = Some t \<longrightarrow> started_ok claimed t)
    \<and> (if r_task_dispatched r then st \<noteq> None \<and> parse_own_result m aid = Inr res else res = None)"
proof (cases "jfield m ''report''")
  case None
  with assms show ?thesis by (simp add: parse_terminal_tail_def)
next
  case (Some rj)
  have nn: "rj \<noteq> JNull" using assms Some by (auto simp: parse_terminal_tail_def)
  obtain r where r: "validatePersistedExecutionReport rj = Inr r"
    using assms Some nn by (cases rj) (auto simp: parse_terminal_tail_def ebind_eq_Inr)
  have "parse_terminal_tail m aid claimed =
    (if r_task_dispatched r
     then ebind (need_int m ''started_at_ms'' (started_ok claimed)) (\<lambda>t.
          ebind (parse_own_result m aid) (\<lambda>x. Inr (Some t, Some r, x)))
     else ebind (if is_null (jfield m ''started_at_ms'') then Inr None
                 else ebind (need_int m ''started_at_ms'' (started_ok claimed)) (\<lambda>t. Inr (Some t))) (\<lambda>st.
          if \<not> is_nullish (jfield m ''result'') then Inl (V2SchemaError ''result'')
          else Inr (st, Some r, None)))"
    using Some nn r by (cases rj) (simp_all add: parse_terminal_tail_def del: validate_report_obj)
  with assms r show ?thesis
    by (cases "r_task_dispatched r") (auto simp: ebind_eq_Inr split: if_splits)
qed

lemma parse_terminal_tail_sound:
  assumes "parse_terminal_tail m (a_attempt_id a) (a_claimed_at_ms a) = Inr (attempt_tail a)"
    and "a_phase a = AP_terminal"
  shows "attempt_tail_ok a"
  using parse_terminal_tail_inv [OF assms(1) [unfolded attempt_tail_def]] assms(2)
    parse_own_result_sound [of m "a_attempt_id a"]
  by (cases "a_started_at_ms a"; cases "a_result a")
    (auto simp: attempt_tail_ok_def started_some_ok_def own_result_ok_def split: if_splits)

lemma parse_attempt_object_sound:
  assumes "parse_attempt_object m = Inr a"
  shows "attempt_ok a"
proof -
  have ids: "attempt_ids_ok a"
    using assms by (auto simp: parse_attempt_object_def ebind_eq_Inr attempt_ids_ok_def)
  have "(case a_phase a of
              AP_claimed \<Rightarrow> parse_claimed_tail m
            | AP_running \<Rightarrow> parse_running_tail m (a_attempt_id a) (a_claimed_at_ms a)
            | AP_terminal \<Rightarrow> parse_terminal_tail m (a_attempt_id a) (a_claimed_at_ms a)) = Inr (attempt_tail a)"
    using assms by (auto simp: parse_attempt_object_def ebind_eq_Inr attempt_tail_def
        cong: attempt_phase.case_cong)
  then have "attempt_tail_ok a"
  proof (cases "a_phase a")
    case AP_terminal
    then show ?thesis
      using \<open>_ = Inr (attempt_tail a)\<close> by (intro parse_terminal_tail_sound [of m]) simp_all
  next
    case AP_claimed
    with \<open>_ = Inr (attempt_tail a)\<close> show ?thesis
      by (auto simp: parse_claimed_tail_def attempt_tail_def attempt_tail_ok_def split: if_splits)
  next
    case AP_running
    with \<open>_ = Inr (attempt_tail a)\<close> show ?thesis
      by (cases "a_started_at_ms a"; cases "a_result a")
        (auto simp: parse_running_tail_def attempt_tail_def attempt_tail_ok_def started_some_ok_def
          own_result_ok_def ebind_eq_Inr split: if_splits dest: parse_own_result_sound)
  qed
  with ids show ?thesis by (simp add: attempt_ok_def)
qed

section \<open>Stream entries and fence values\<close>

definition stream_entry_ok :: "stream_entry \<Rightarrow> bool" where
  "stream_entry_ok e \<longleftrightarrow> JOB_ID_V2_RE (s_job_id e) \<and> scope_id_ok (s_user_id e)
     \<and> scope_id_ok (s_workspace_id e) \<and> TARGET_ID_V2_RE (s_target_id e) \<and> safe_nonneg (s_created_at_ms e)"

lemma show_int_nat: "0 \<le> i \<Longrightarrow> show_int i = show_nat (nat i)"
  by (simp add: show_int_def)

lemma js_number_show_int: "0 \<le> i \<Longrightarrow> js_number (show_int i) = Some (of_int i)"
  by (simp add: show_int_nat)

lemma stream_fields_lookup [json_simps]:
  "jfield (fields_obj (stream_fields e)) ''schema_version'' = Some (JStr (show_int STREAM_V2_SCHEMA_VERSION))"
  "jfield (fields_obj (stream_fields e)) ''job_id'' = Some (JStr (s_job_id e))"
  "jfield (fields_obj (stream_fields e)) ''user_id'' = Some (JStr (s_user_id e))"
  "jfield (fields_obj (stream_fields e)) ''workspace_id'' = Some (JStr (s_workspace_id e))"
  "jfield (fields_obj (stream_fields e)) ''target_id'' = Some (JStr (s_target_id e))"
  "jfield (fields_obj (stream_fields e)) ''created_at_ms'' = Some (JStr (show_int (s_created_at_ms e)))"
  "fset (fmdom (fields_obj (stream_fields e))) = set ALLOWED_STREAM_V2_KEYS"
  by (auto simp: fields_obj_def stream_fields_def ALLOWED_STREAM_V2_KEYS_def)

lemma parse_stream_fields:
  assumes "stream_entry_ok e"
  shows "parseStreamEntryV2 (stream_fields e) = Inr e"
proof -
  have "0 \<le> s_created_at_ms e" using assms by (simp add: stream_entry_ok_def safe_nonneg_def)
  then have "js_number (show_int (s_created_at_ms e)) = Some (of_int (s_created_at_ms e))"
    by (rule js_number_show_int)
  moreover have "js_number (show_int STREAM_V2_SCHEMA_VERSION) = Some (of_int STREAM_V2_SCHEMA_VERSION)"
    by (rule js_number_show_int) (simp add: STREAM_V2_SCHEMA_VERSION_def)
  ultimately show ?thesis
    using assms by (simp add: parseStreamEntryV2_def validateStreamEntryV2_def json_simps text_or_number_def
        stream_entry_ok_def need_str_def need_def)
qed

lemma stream_entry_roundtrip_aux:
  "serializeStreamEntryV2 e = Inr fs \<Longrightarrow> stream_entry_ok e \<and> fs = stream_fields e"
  by (cases e) (auto simp: serializeStreamEntryV2_def validateStreamEntryV2_def ebind_eq_Inr stream_entry_ok_def
      text_or_number_def)

lemma colon_notin_show_nat [simp]: "CHR '':'' \<notin> set (show_nat n)"
  using show_nat_colon_free [of n] by (simp add: colon_free_def)

text \<open>A fence value \<^verbatim>\<open><started_ms>:<token>\<close> as the store and the touch script write it.\<close>

definition fence_text :: "int \<Rightarrow> string \<Rightarrow> string" where
  "fence_text started token = show_int started @ '':'' @ token"

lemma fence_text_sep:
  assumes "0 \<le> started"
  shows "index_of (CHR '':'') (fence_text started token) = Some (length (show_nat (nat started)))"
    and "take (length (show_nat (nat started))) (fence_text started token) = show_nat (nat started)"
    and "drop (Suc (length (show_nat (nat started)))) (fence_text started token) = token"
  using assms by (simp_all add: fence_text_def show_int_nat)

lemma parse_fence_text: "0 \<le> started \<Longrightarrow> parseDeleteFenceStartedMs (fence_text started token) = of_int started"
  by (simp add: parseDeleteFenceStartedMs_def fence_text_sep)

end
