(* ===== verification/Lua_Values.thy ===== *)
theory Lua_Values
  imports Job_Schema "HOL-Library.Char_ord" "HOL-Library.List_Lexorder"
begin

text \<open>
  What the Lua scripts do with decoded values: comparison, \<^verbatim>\<open>tostring\<close>, and
  \<^verbatim>\<open>cjson.encode\<close>; and the texts \<^verbatim>\<open>JSON.stringify\<close> produces.

  Lua 5.1 prints a number with the format \<^verbatim>\<open>%.14g\<close>, both in \<^verbatim>\<open>tostring\<close>
  and in \<^verbatim>\<open>cjson.encode\<close>. An integer of up to fourteen digits is printed exactly; a
  larger one is rounded to fourteen significant digits. Every number of a stored record is an
  integer, so only integers are rounded here.
\<close>

section \<open>Printing JSON\<close>

definition hex_digit :: "nat \<Rightarrow> char" where
  "hex_digit n = ''0123456789abcdef'' ! (n mod 16)"

definition json_escape :: "char \<Rightarrow> string" where
  "json_escape c =
     (if c = CHR 0x22 then [CHR 0x5C, CHR 0x22]
      else if c = CHR 0x5C then [CHR 0x5C, CHR 0x5C]
      else if c = CHR 0x08 then [CHR 0x5C, CHR ''b'']
      else if c = CHR 0x0C then [CHR 0x5C, CHR ''f'']
      else if c = CHR 0x0A then [CHR 0x5C, CHR ''n'']
      else if c = CHR 0x0D then [CHR 0x5C, CHR ''r'']
      else if c = CHR 0x09 then [CHR 0x5C, CHR ''t'']
      else if of_char c < (32::nat)
        then [CHR 0x5C, CHR ''u'', CHR ''0'', CHR ''0'', hex_digit (of_char c div 16), hex_digit (of_char c)]
      else [c])"

definition json_quote :: "string \<Rightarrow> string" where
  "json_quote s = CHR 0x22 # concat (map json_escape s) @ [CHR 0x22]"

fun join_with :: "string \<Rightarrow> string list \<Rightarrow> string" where
  "join_with sep [] = []"
| "join_with sep [x] = x"
| "join_with sep (x # y # ys) = x @ sep @ join_with sep (y # ys)"

text \<open>The text of an object literal with its members in the given order.\<close>

definition json_members :: "(string \<times> string) list \<Rightarrow> string" where
  "json_members kvs = ''{'' @ join_with '','' (map (\<lambda>kv. json_quote (fst kv) @ '':'' @ snd kv) kvs) @ ''}''"

text \<open>The text of a JSON value, members sorted by key: the order a text was written in is not kept.\<close>

primrec json_text :: "json \<Rightarrow> string" where
  "json_text JNull = ''null''"
| "json_text (JBool b) = (if b then ''true'' else ''false'')"
| "json_text (JNum r) = (case as_int (Some (JNum r)) of Some i \<Rightarrow> show_int i
     | None \<Rightarrow> show_int (fst (quotient_of r)) @ ''/'' @ show_int (snd (quotient_of r)))"
| "json_text (JStr s) = json_quote s"
| "json_text (JArr js) = ''['' @ join_with '','' (map json_text js) @ '']''"
| "json_text (JObj m) = json_members (map (\<lambda>k. (k, case fmlookup (fmmap json_text m) k of None \<Rightarrow> [] | Some t \<Rightarrow> t))
     (sorted_list_of_fset (fmdom m)))"

definition payload_text :: "payload \<Rightarrow> string" where
  "payload_text p = (case p of Text s \<Rightarrow> s | Json j \<Rightarrow> json_text j)"

section \<open>Lua numbers\<close>

definition round_to :: "nat \<Rightarrow> nat \<Rightarrow> nat" where
  "round_to p n = (let q = n div p; r = n mod p
     in if 2 * r < p \<or> (2 * r = p \<and> even q) then q * p else (q + 1) * p)"

definition sig14 :: "int \<Rightarrow> int" where
  "sig14 i = (let n = nat \<bar>i\<bar>
     in if n < 10 ^ 14 then i
        else let m = int (round_to (10 ^ (length (show_nat n) - 14)) n) in if i < 0 then - m else m)"

definition lua_num :: "rat \<Rightarrow> rat" where
  "lua_num r = (if r = of_int \<lfloor>r\<rfloor> then of_int (sig14 \<lfloor>r\<rfloor>) else r)"

definition lua_tostring :: "int \<Rightarrow> string" where
  "lua_tostring i = (if \<bar>i\<bar> < 10 ^ 14 then show_int i
     else let s = show_nat (nat \<bar>sig14 i\<bar>); e = length s - 1;
              m = rev (dropWhile (\<lambda>c. c = CHR ''0'') (rev (tl s)))
          in (if i < 0 then ''-'' else []) @ [hd s] @ (if m = [] then [] else CHR ''.'' # m)
             @ ''e+'' @ show_nat e)"

text \<open>Decoding a text after \<^verbatim>\<open>cjson.encode\<close>: numbers rounded, the empty array as an object.\<close>

primrec cjson_encode :: "json \<Rightarrow> json" where
  "cjson_encode JNull = JNull"
| "cjson_encode (JBool b) = JBool b"
| "cjson_encode (JNum r) = JNum (lua_num r)"
| "cjson_encode (JStr s) = JStr s"
| "cjson_encode (JArr js) = (if js = [] then JObj fmempty else JArr (map cjson_encode js))"
| "cjson_encode (JObj m) = JObj (fmmap cjson_encode m)"

section \<open>Lua comparisons and tables\<close>

text \<open>Two tables decoded from different texts are different objects, so never equal.\<close>

definition lua_eq :: "json option \<Rightarrow> json option \<Rightarrow> bool" where
  "lua_eq v w \<longleftrightarrow> v = w \<and> \<not> is_table v"

text \<open>A table the script assigns fields to; an array keeps its elements under its numeric keys.\<close>

definition lua_table :: "json \<Rightarrow> jobject option" where
  "lua_table j = (case j of
      JObj m \<Rightarrow> Some m
    | JArr js \<Rightarrow> Some (fmap_of_list (zip (map show_nat [1..<length js + 1]) js))
    | _ \<Rightarrow> None)"

definition is_number :: "json option \<Rightarrow> bool" where
  "is_number v \<longleftrightarrow> as_num v \<noteq> None"

definition is_string :: "json option \<Rightarrow> bool" where
  "is_string v \<longleftrightarrow> as_str v \<noteq> None"

definition is_boolean :: "json option \<Rightarrow> bool" where
  "is_boolean v \<longleftrightarrow> as_bool v \<noteq> None"

text \<open>\<^verbatim>\<open>x == nil or x == cjson.null\<close> is the JavaScript nullish test.\<close>

lemma type_simps [simp]:
  "is_number (Some (JNum r))" "\<not> is_number None" "\<not> is_number (Some JNull)" "\<not> is_number (Some (JStr s))"
  "is_string (Some (JStr s))" "\<not> is_string None" "\<not> is_string (Some JNull)" "\<not> is_string (Some (JNum r))"
  "is_boolean (Some (JBool b))" "\<not> is_boolean None"
  by (simp_all add: is_number_def is_string_def is_boolean_def)

lemma lua_eq_simps [simp]:
  "lua_eq (Some (JStr a)) (Some (JStr b)) \<longleftrightarrow> a = b"
  "lua_eq (Some (JNum x)) (Some (JNum y)) \<longleftrightarrow> x = y"
  "lua_eq (Some (JBool p)) (Some (JBool q)) \<longleftrightarrow> p = q"
  "lua_eq (Some (JStr a)) (Some JNull) \<longleftrightarrow> False"
  "lua_eq (Some JNull) (Some (JStr a)) \<longleftrightarrow> False"
  by (simp_all add: lua_eq_def is_table_def)

lemma lua_eq_str: "lua_eq v (Some (JStr s)) \<longleftrightarrow> v = Some (JStr s)"
  by (auto simp: lua_eq_def is_table_def)

section \<open>Records survive encoding\<close>

definition short :: "int \<Rightarrow> bool" where
  "short i \<longleftrightarrow> \<bar>i\<bar> < 10 ^ 14"

lemma sig14_short [simp]: "short i \<Longrightarrow> sig14 i = i"
  by (simp add: sig14_def short_def Let_def nat_less_iff)

lemma lua_num_int [simp]: "lua_num (of_int i) = of_int (sig14 i)"
  by (simp add: lua_num_def)

lemma cjson_encode_jint [simp]: "short i \<Longrightarrow> cjson_encode (jint i) = jint i"
  by simp

lemma cjson_encode_jopt_str [simp]: "cjson_encode (jopt JStr v) = jopt JStr v"
  by (cases v) simp_all

lemma cjson_encode_jopt_int:
  "(\<And>i. v = Some i \<Longrightarrow> short i) \<Longrightarrow> cjson_encode (jopt jint v) = jopt jint v"
  by (cases v) simp_all

lemma short_consts [simp]:
  "short JOBS_V2_SCHEMA_VERSION" "short ATTEMPT_V1_SCHEMA_VERSION" "short 0" "short 1" "short 2"
  by (simp_all add: short_def JOBS_V2_SCHEMA_VERSION_def ATTEMPT_V1_SCHEMA_VERSION_def)

lemma lua_num_consts [simp]: "lua_num 1 = 1" "lua_num 2 = 2" "lua_num 0 = 0"
  using lua_num_int [of 1] lua_num_int [of 2] lua_num_int [of 0] by simp_all

definition cancel_short :: "cancel_record \<Rightarrow> bool" where
  "cancel_short c = short (c_cancelled_at_ms c)"

definition job_short :: "job \<Rightarrow> bool" where
  "job_short j \<longleftrightarrow> short (j_execution_timeout_seconds j) \<and> short (j_created_at_ms j)
     \<and> short (j_claim_deadline_ms j) \<and> pred_option cancel_short (j_cancel j)"

definition report_short :: "persisted_report \<Rightarrow> bool" where
  "report_short r \<longleftrightarrow> short (r_finished_at_ms r) \<and> short (r_duration_ms r) \<and> short (r_received_at_ms r)"

definition attempt_short :: "attempt \<Rightarrow> bool" where
  "attempt_short a \<longleftrightarrow> short (a_claimed_at_ms a) \<and> pred_option short (a_started_at_ms a)
     \<and> pred_option report_short (a_report a) \<and> pred_option (\<lambda>r. short (res_received_at_ms r)) (a_result a)"

lemma encode_cancel: "cancel_short c \<Longrightarrow> fmmap cjson_encode (cancel_obj c) = cancel_obj c"
  by (simp add: cancel_obj_def fmmap_fmupd cancel_short_def)

lemma encode_job [simp]: "job_short j \<Longrightarrow> cjson_encode (JObj (job_obj j)) = JObj (job_obj j)"
  by (cases "j_cancel j")
    (simp_all add: job_obj_def fmmap_fmupd job_short_def encode_cancel)

lemma encode_executor: "fmmap cjson_encode (executor_obj x) = executor_obj x"
  by (simp add: executor_obj_def fmmap_fmupd)

lemma encode_error: "fmmap cjson_encode (error_obj x) = error_obj x"
  by (simp add: error_obj_def fmmap_fmupd)

lemma encode_persisted: "report_short r \<Longrightarrow> fmmap cjson_encode (persisted_obj r) = persisted_obj r"
  by (cases "r_error r")
    (simp_all add: persisted_obj_def report_obj_def fmmap_fmupd report_short_def encode_executor encode_error)

lemma encode_result: "short (res_received_at_ms r) \<Longrightarrow> fmmap cjson_encode (result_obj r) = result_obj r"
  by (simp add: result_obj_def fmmap_fmupd)

lemma encode_attempt [simp]: "attempt_short a \<Longrightarrow> cjson_encode (JObj (attempt_obj a)) = JObj (attempt_obj a)"
  by (cases "a_report a"; cases "a_result a"; cases "a_started_at_ms a")
    (simp_all add: attempt_obj_def put_opt_def fmmap_fmupd attempt_short_def encode_persisted encode_result)

text \<open>Beyond fourteen digits a time is rounded, possibly out of the range the schema accepts.\<close>

lemma sig14_out_of_range: "safe_nonneg MAX_SAFE_INTEGER \<and> \<not> safe_nonneg (sig14 MAX_SAFE_INTEGER)"
  by (simp add: sig14_def MAX_SAFE_INTEGER_def safe_nonneg_def round_to_def show_nat.simps Let_def)

end
