(* ===== verification/Redis.thy ===== *)
theory Redis
  imports Lua_Values "HOL-Library.Product_Lexorder"
begin

text \<open>
  The key space behind the \<^verbatim>\<open>RedisRunner\<close> interface (\<^verbatim>\<open>jobs/redis-runner.ts\<close>),
  with the commands the server and its scripts issue. A key holds a string, a sorted set or a
  stream, and may carry an expiry time. Commands take the server clock in milliseconds.
  The in-memory runner of the test suite (\<^verbatim>\<open>test/helpers/fake-redis-runner.ts\<close>)
  implements the same interface without expiry.
\<close>

section \<open>Data\<close>

type_synonym rkey = string
type_synonym entry_id = "nat \<times> nat"
type_synonym zset = "(rat \<times> string) list"
type_synonym stream = "(entry_id \<times> (string \<times> string) list) list"

datatype rvalue = RStr payload | RZset zset | RStream stream

type_synonym redis = "rkey \<Rightarrow> (rvalue \<times> int option) option"

text \<open>A RESP error reply; the runner rejects with it.\<close>

datatype redis_error = WRONGTYPE | INVALID_ARGUMENT

section \<open>Commands\<close>

definition live :: "int \<Rightarrow> redis \<Rightarrow> string \<Rightarrow> rvalue option" where
  "live now db k = (case db k of
      None \<Rightarrow> None
    | Some (v, None) \<Rightarrow> Some v
    | Some (v, Some t) \<Rightarrow> if now > t then None else Some v)"

definition redis_TYPE :: "int \<Rightarrow> redis \<Rightarrow> string \<Rightarrow> string" where
  "redis_TYPE now db k = (case live now db k of
      None \<Rightarrow> ''none''
    | Some (RStr _) \<Rightarrow> ''string''
    | Some (RZset _) \<Rightarrow> ''zset''
    | Some (RStream _) \<Rightarrow> ''stream'')"

definition redis_get :: "int \<Rightarrow> redis \<Rightarrow> string \<Rightarrow> redis_error + payload option" where
  "redis_get now db k = (case live now db k of
      None \<Rightarrow> Inr None
    | Some (RStr p) \<Rightarrow> Inr (Some p)
    | Some _ \<Rightarrow> Inl WRONGTYPE)"

definition redis_set :: "string \<Rightarrow> payload \<Rightarrow> redis \<Rightarrow> redis" where
  "redis_set k p db = db(k \<mapsto> (RStr p, None))"

definition redis_set_px :: "int \<Rightarrow> string \<Rightarrow> payload \<Rightarrow> int \<Rightarrow> redis \<Rightarrow> redis" where
  "redis_set_px now k p px db = db(k \<mapsto> (RStr p, Some (now + px)))"

definition redis_setNxPx :: "int \<Rightarrow> string \<Rightarrow> payload \<Rightarrow> int \<Rightarrow> redis \<Rightarrow> redis \<times> bool" where
  "redis_setNxPx now k p px db =
     (if live now db k = None then (redis_set_px now k p px db, True) else (db, False))"

definition redis_setXxPx :: "int \<Rightarrow> string \<Rightarrow> payload \<Rightarrow> int \<Rightarrow> redis \<Rightarrow> redis \<times> bool" where
  "redis_setXxPx now k p px db =
     (if live now db k = None then (db, False) else (redis_set_px now k p px db, True))"

definition redis_del :: "int \<Rightarrow> string \<Rightarrow> redis \<Rightarrow> redis \<times> int" where
  "redis_del now k db = (db(k := None), if live now db k = None then 0 else 1)"

definition zset_at :: "int \<Rightarrow> redis \<Rightarrow> string \<Rightarrow> redis_error + zset" where
  "zset_at now db k = (case live now db k of
      None \<Rightarrow> Inr [] | Some (RZset z) \<Rightarrow> Inr z | Some _ \<Rightarrow> Inl WRONGTYPE)"

definition stream_at :: "int \<Rightarrow> redis \<Rightarrow> string \<Rightarrow> redis_error + stream" where
  "stream_at now db k = (case live now db k of
      None \<Rightarrow> Inr [] | Some (RStream s) \<Rightarrow> Inr s | Some _ \<Rightarrow> Inl WRONGTYPE)"

definition key_ttl :: "int \<Rightarrow> redis \<Rightarrow> string \<Rightarrow> int option" where
  "key_ttl now db k = (if live now db k = None then None else case db k of Some (_, t) \<Rightarrow> t | None \<Rightarrow> None)"

definition zset_without :: "string \<Rightarrow> zset \<Rightarrow> zset" where
  "zset_without m z = filter (\<lambda>e. snd e \<noteq> m) z"

definition redis_zadd :: "int \<Rightarrow> string \<Rightarrow> rat \<Rightarrow> string \<Rightarrow> redis \<Rightarrow> redis_error + redis" where
  "redis_zadd now k score m db = ebind (zset_at now db k) (\<lambda>z.
     Inr (db(k \<mapsto> (RZset (insort (score, m) (zset_without m z)), key_ttl now db k))))"

text \<open>ZREM of the last member removes the key.\<close>

definition redis_zrem :: "int \<Rightarrow> string \<Rightarrow> string list \<Rightarrow> redis \<Rightarrow> redis_error + redis \<times> int" where
  "redis_zrem now k ms db = ebind (zset_at now db k) (\<lambda>z.
     let z' = filter (\<lambda>e. snd e \<notin> set ms) z
     in Inr (if z' = z then db else db(k := if z' = [] then None else Some (RZset z', key_ttl now db k)),
             int (length z - length z')))"

definition redis_zrangeWithScores :: "int \<Rightarrow> redis \<Rightarrow> string \<Rightarrow> nat \<Rightarrow> nat \<Rightarrow> redis_error + (string \<times> rat) list" where
  "redis_zrangeWithScores now db k start stop = ebind (zset_at now db k) (\<lambda>z.
     Inr (map (\<lambda>e. (snd e, fst e)) (take (stop + 1 - start) (drop start z))))"

definition next_entry_id :: "int \<Rightarrow> stream \<Rightarrow> entry_id" where
  "next_entry_id now s =
     (let last_id = (if s = [] then (0, 0) else fst (last s))
      in if fst last_id < nat now then (nat now, 0) else (fst last_id, Suc (snd last_id)))"

definition redis_xadd :: "int \<Rightarrow> string \<Rightarrow> (string \<times> string) list \<Rightarrow> redis \<Rightarrow> redis_error + redis \<times> string" where
  "redis_xadd now k fs db = ebind (stream_at now db k) (\<lambda>s.
     let i = next_entry_id now s
     in Inr (db(k \<mapsto> (RStream (s @ [(i, fs)]), key_ttl now db k)), show_entry_id i))"

definition redis_xlen :: "int \<Rightarrow> redis \<Rightarrow> string \<Rightarrow> redis_error + nat" where
  "redis_xlen now db k = ebind (stream_at now db k) (\<lambda>s. Inr (length s))"

text \<open>XREVRANGE from an exclusive upper bound (or from the end) down, at most \<open>count\<close> entries.\<close>

definition redis_xrevrange :: "int \<Rightarrow> redis \<Rightarrow> string \<Rightarrow> string option \<Rightarrow> nat \<Rightarrow> redis_error + stream" where
  "redis_xrevrange now db k before n = ebind (stream_at now db k) (\<lambda>s. case before of
      None \<Rightarrow> Inr (take n (rev s))
    | Some b \<Rightarrow> if b = [] then Inr (take n (rev s)) else (case parse_entry_id b of
        None \<Rightarrow> Inl INVALID_ARGUMENT
      | Some i \<Rightarrow> Inr (take n (rev (filter (\<lambda>e. fst e < i) s)))))"

section \<open>Read-after-write laws\<close>

lemma live_persistent [redis_simps]: "db k = Some (v, None) \<Longrightarrow> live now db k = Some v"
  by (simp add: live_def)

lemma live_absent [redis_simps]: "db k = None \<Longrightarrow> live now db k = None"
  by (simp add: live_def)

lemma live_upd [redis_simps]:
  "live now (db(k := x)) k' = (if k' = k then (case x of None \<Rightarrow> None | Some (v, None) \<Rightarrow> Some v
      | Some (v, Some t) \<Rightarrow> if now > t then None else Some v) else live now db k')"
  by (simp add: live_def)

lemma live_set [redis_simps]: "live now (redis_set k p db) k' = (if k' = k then Some (RStr p) else live now db k')"
  by (simp add: live_def redis_set_def)

lemma live_set_px [redis_simps]:
  "live now (redis_set_px t0 k p px db) k' =
     (if k' = k then (if now > t0 + px then None else Some (RStr p)) else live now db k')"
  by (simp add: live_def redis_set_px_def)

lemma redis_set_apply [redis_simps]: "redis_set k p db k' = (if k' = k then Some (RStr p, None) else db k')"
  by (simp add: redis_set_def)

lemma redis_set_px_apply [redis_simps]:
  "redis_set_px now k p px db k' = (if k' = k then Some (RStr p, Some (now + px)) else db k')"
  by (simp add: redis_set_px_def)

lemma zset_without_mem [simp]: "e \<in> set (zset_without m z) \<longleftrightarrow> e \<in> set z \<and> snd e \<noteq> m"
  by (auto simp: zset_without_def)

lemma redis_zadd_frame: "redis_zadd now k sc m db = Inr db' \<Longrightarrow> k' \<noteq> k \<Longrightarrow> db' k' = db k'"
  by (auto simp: redis_zadd_def ebind_eq_Inr)

lemma redis_zrem_frame: "redis_zrem now k ms db = Inr (db', n) \<Longrightarrow> k' \<noteq> k \<Longrightarrow> db' k' = db k'"
  by (auto simp: redis_zrem_def ebind_eq_Inr Let_def split: if_splits)

lemma redis_xadd_frame: "redis_xadd now k fs db = Inr (db', i) \<Longrightarrow> k' \<noteq> k \<Longrightarrow> db' k' = db k'"
  by (auto simp: redis_xadd_def ebind_eq_Inr Let_def)

section \<open>Members of a sorted set\<close>

definition zmembers :: "int \<Rightarrow> redis \<Rightarrow> string \<Rightarrow> string set" where
  "zmembers now db k = (case live now db k of Some (RZset z) \<Rightarrow> snd ` set z | _ \<Rightarrow> {})"

lemma snd_zset_without [simp]: "snd ` set (zset_without m z) = snd ` set z - {m}"
  by (auto simp: image_iff)

lemma zmembers_zset_at: "zset_at now db k = Inr z \<Longrightarrow> zmembers now db k = snd ` set z"
  by (auto simp: zset_at_def zmembers_def split: option.splits rvalue.splits)

lemma key_ttl_live: "key_ttl now db k = Some t \<Longrightarrow> \<not> t < now"
  by (auto simp: key_ttl_def live_def split: option.splits prod.splits if_splits)

lemma live_keep_ttl: "live now (db(k \<mapsto> (v, key_ttl now db k))) k = Some v"
  by (auto simp: live_def split: option.splits dest: key_ttl_live)

lemma zmembers_zadd:
  assumes "redis_zadd now k sc m db = Inr db'"
  shows "zmembers now db' k = insert m (zmembers now db k)"
proof -
  obtain z where z: "zset_at now db k = Inr z"
    and db': "db' = db(k \<mapsto> (RZset (insort (sc, m) (zset_without m z)), key_ttl now db k))"
    using assms by (auto simp: redis_zadd_def ebind_eq_Inr)
  have "zmembers now db' k = snd ` set (insort (sc, m) (zset_without m z))"
    unfolding db' zmembers_def live_keep_ttl by simp
  then show ?thesis by (auto simp: set_insort_key zmembers_zset_at [OF z])
qed

lemma zmembers_zrem:
  assumes "redis_zrem now k ms db = Inr (db', n)"
  shows "zmembers now db' k = zmembers now db k - set ms"
proof -
  obtain z where z: "zset_at now db k = Inr z"
    and db': "db' = (let z' = filter (\<lambda>e. snd e \<notin> set ms) z in
       if z' = z then db else db(k := if z' = [] then None else Some (RZset z', key_ttl now db k)))"
    using assms by (auto simp: redis_zrem_def ebind_eq_Inr Let_def)
  let ?z' = "filter (\<lambda>e. snd e \<notin> set ms) z"
  have "zmembers now db' k = snd ` set ?z'"
  proof (cases "?z' = z")
    case True
    then have "db' = db" by (simp add: db' Let_def)
    with True show ?thesis by (simp add: zmembers_zset_at [OF z])
  next
    case False
    then have "db' = db(k := if ?z' = [] then None else Some (RZset ?z', key_ttl now db k))"
      by (simp add: db' Let_def)
    then show ?thesis
      by (cases "?z' = []") (simp_all only: zmembers_def live_keep_ttl if_True if_False,
          simp_all add: live_def)
  qed
  also have "\<dots> = snd ` set z - set ms" by (auto simp: image_iff)
  finally show ?thesis by (simp add: zmembers_zset_at [OF z])
qed

lemma zmembers_frame: "db' k = db k \<Longrightarrow> zmembers now db' k = zmembers now db k"
  by (simp add: zmembers_def live_def)

section \<open>Stream entries keep ascending ids\<close>

definition stream_sorted :: "stream \<Rightarrow> bool" where
  "stream_sorted s = sorted_wrt (<) (map fst s)"

lemma next_entry_id_greater:
  assumes "stream_sorted s" and "e \<in> set s"
  shows "fst e < next_entry_id now s"
proof -
  have "fst e \<le> fst (last s)"
    using assms by (induction s rule: rev_induct)
      (auto simp: stream_sorted_def sorted_wrt_append intro: less_imp_le)
  moreover have "s \<noteq> []" using assms(2) by auto
  moreover have "fst (last s) < next_entry_id now s" if "s \<noteq> []"
    using that by (auto simp: next_entry_id_def Let_def less_prod_def prod_less_def)
  ultimately show ?thesis by (meson order.strict_trans1)
qed

lemma next_entry_id_positive: "\<forall>e \<in> set s. (0, 0) < fst e \<Longrightarrow> (0, 0) < next_entry_id now s"
  by (auto simp: next_entry_id_def Let_def less_prod_def prod_less_def)

lemma stream_sorted_xadd: "stream_sorted s \<Longrightarrow> stream_sorted (s @ [(next_entry_id now s, fs)])"
  using next_entry_id_greater [of s _ now] by (auto simp: stream_sorted_def sorted_wrt_append)

end
