(* ===== verification/Job_Scripts.thy ===== *)
theory Job_Scripts
  imports Redis
begin

text \<open>
  The seven Lua scripts of \<^verbatim>\<open>jobs/v2-assignment-script.ts\<close>, which make every state change
  of the job queue atomic. A script reads the Redis clock once; here it is the argument
  \<open>now_ms\<close>. It returns the new key space and its reply: an encoded table, an error
  reply (\<^verbatim>\<open>redis.error_reply\<close>, or a run-time error, which keeps the writes made before
  it) or an integer.
\<close>

section \<open>Shared parts\<close>

datatype script_reply = JsonReply json | ErrorReply string | IntReply int

type_synonym script_result = "redis \<times> script_reply"

definition badtype :: "int \<Rightarrow> redis \<Rightarrow> string \<Rightarrow> string \<Rightarrow> bool" where
  "badtype now_ms db key ok \<longleftrightarrow> redis_TYPE now_ms db key \<noteq> ''none'' \<and> redis_TYPE now_ms db key \<noteq> ok"

text \<open>\<^verbatim>\<open>redis.call('GET', key)\<close> on a key whose type has been checked.\<close>

definition call_GET :: "int \<Rightarrow> redis \<Rightarrow> string \<Rightarrow> payload option" where
  "call_GET now_ms db key = (case live now_ms db key of Some (RStr p) \<Rightarrow> Some p | _ \<Rightarrow> None)"

text \<open>\<^verbatim>\<open>cjson.encode\<close> of a table constructor; a field whose value is nil is not in the table.\<close>

definition encoded :: "(string \<times> json option) list \<Rightarrow> script_reply" where
  "encoded kvs = JsonReply (cjson_encode (JObj (fold (\<lambda>kv. put_opt (fst kv) (snd kv)) kvs fmempty)))"

definition error_table :: "string \<Rightarrow> script_reply" where
  "error_table code = encoded [(''error'', Some (JStr code))]"

definition index_error :: script_reply where
  "index_error = ErrorReply ''attempt to index a non-table value''"

definition decoded :: "redis \<Rightarrow> payload \<Rightarrow> string \<Rightarrow> (json \<Rightarrow> script_result) \<Rightarrow> script_result" where
  "decoded db raw code k = (case json_decode raw of None \<Rightarrow> (db, error_table code) | Some j \<Rightarrow> k j)"

definition indexed :: "redis \<Rightarrow> json \<Rightarrow> (jobject \<Rightarrow> script_result) \<Rightarrow> script_result" where
  "indexed db j k = (case lua_fields j of None \<Rightarrow> (db, index_error) | Some m \<Rightarrow> k m)"

definition field_is :: "jobject \<Rightarrow> string \<Rightarrow> string \<Rightarrow> bool" where
  "field_is m f s \<longleftrightarrow> jfield m f = Some (JStr s)"

text \<open>The delete fence: \<^verbatim>\<open>fence_sep and tonumber(...) or 0\<close>, fresh for sixty seconds.\<close>

definition fence_started :: "string \<Rightarrow> rat" where
  "fence_started raw = (case index_of (CHR '':'') raw of
      None \<Rightarrow> 0
    | Some sep \<Rightarrow> (case lua_tonumber (take sep raw) of None \<Rightarrow> 0 | Some r \<Rightarrow> r))"

definition fence_fresh :: "int \<Rightarrow> redis \<Rightarrow> string \<Rightarrow> bool" where
  "fence_fresh now_ms db key = (case call_GET now_ms db key of
      None \<Rightarrow> False
    | Some raw \<Rightarrow> of_int now_ms - fence_started (payload_text raw) < 60000)"

definition fenced_reply :: "string \<Rightarrow> script_reply" where
  "fenced_reply target_id = encoded [(''error'', Some (JStr ''TARGET_DELETE_FENCED'')), (''target_id'', Some (JStr target_id))]"

definition server_time :: "int \<Rightarrow> string \<times> json option" where
  "server_time now_ms = (''server_time_ms'', Some (jint now_ms))"

section \<open>Create\<close>

definition create_writes ::
  "int \<Rightarrow> redis \<Rightarrow> rkey \<Rightarrow> rkey \<Rightarrow> rkey \<Rightarrow> rkey \<Rightarrow> job_id \<Rightarrow> user_id \<Rightarrow> ws_id \<Rightarrow> target_id \<Rightarrow> string \<Rightarrow> json \<Rightarrow> script_result" where
  "create_writes now_ms db reqKey jobKey streamKey queueKey jobId userId workspaceId targetId createdAtMs decoded_job =
     (let db1 = redis_set reqKey (Text jobId) db in
      case lua_table decoded_job of
        None \<Rightarrow> (db1, index_error)
      | Some prep \<Rightarrow>
         let prep1 = fmupd ''latest_attempt_id'' JNull (fmupd ''stream_entry_id'' JNull (fmupd ''status'' (JStr ''preparing'') prep));
             db2 = redis_set jobKey (Json (cjson_encode (JObj prep1))) db1
         in case redis_xadd now_ms streamKey
                   [(''schema_version'', ''2''), (''job_id'', jobId), (''user_id'', userId),
                    (''workspace_id'', workspaceId), (''target_id'', targetId), (''created_at_ms'', createdAtMs)] db2 of
              Inl _ \<Rightarrow> (db2, ErrorReply ''WRONGTYPE'')
            | Inr (db3, entry) \<Rightarrow>
               (case lua_tonumber createdAtMs of
                  None \<Rightarrow> (db3, ErrorReply ''ERR value is not a valid float'')
                | Some score \<Rightarrow>
                   (case redis_zadd now_ms queueKey score jobId db3 of
                      Inl _ \<Rightarrow> (db3, ErrorReply ''WRONGTYPE'')
                    | Inr db4 \<Rightarrow>
                       let prep2 = fmupd ''latest_attempt_id'' JNull (fmupd ''stream_entry_id'' (JStr entry) (fmupd ''status'' (JStr ''queued'') prep1))
                       in (redis_set jobKey (Json (cjson_encode (JObj prep2))) db4,
                           encoded [(''status'', Some (JStr ''created'')), (''job_id'', Some (JStr jobId)),
                                    (''stream_entry_id'', Some (JStr entry))]))))"

definition V2_CREATE_JOB_SCRIPT ::
  "int \<Rightarrow> redis \<Rightarrow> rkey \<Rightarrow> rkey \<Rightarrow> rkey \<Rightarrow> rkey \<Rightarrow> rkey \<Rightarrow> job_id \<Rightarrow> user_id \<Rightarrow> ws_id \<Rightarrow> target_id \<Rightarrow> string \<Rightarrow> payload \<Rightarrow> script_result" where
  "V2_CREATE_JOB_SCRIPT now_ms db reqKey jobKey streamKey queueKey fenceKey jobId userId workspaceId targetId createdAtMs serialized =
     (if badtype now_ms db reqKey ''string'' then (db, ErrorReply ''WRONGTYPE_REQ_KEY'')
      else case call_GET now_ms db reqKey of
        Some existing \<Rightarrow> (db, encoded [(''status'', Some (JStr ''existing_request'')), (''job_id'', Some (JStr (payload_text existing)))])
      | None \<Rightarrow>
         if badtype now_ms db fenceKey ''string'' then (db, ErrorReply ''WRONGTYPE_DELETE_FENCE'')
         else if fence_fresh now_ms db fenceKey then (db, fenced_reply targetId)
         else if badtype now_ms db jobKey ''string'' then (db, ErrorReply ''WRONGTYPE_JOB_KEY'')
         else if badtype now_ms db streamKey ''stream'' then (db, ErrorReply ''WRONGTYPE_STREAM_KEY'')
         else if badtype now_ms db queueKey ''zset'' then (db, ErrorReply ''WRONGTYPE_TARGET_QUEUE'')
         else if redis_TYPE now_ms db jobKey \<noteq> ''none'' then (db, error_table ''JOB_ID_COLLISION'')
         else decoded db serialized ''MALFORMED_JOB_RECORD''
           (create_writes now_ms db reqKey jobKey streamKey queueKey jobId userId workspaceId targetId createdAtMs))"

section \<open>Claim\<close>

definition claim_replay ::
  "int \<Rightarrow> redis \<Rightarrow> rkey \<Rightarrow> job_id \<Rightarrow> ws_id \<Rightarrow> target_id \<Rightarrow> device_id \<Rightarrow> attempt_id \<Rightarrow> digest \<Rightarrow> script_result" where
  "claim_replay now_ms db attemptKey jobId workspaceId targetId deviceId attemptId token =
     (case call_GET now_ms db attemptKey of
        None \<Rightarrow> (db, error_table ''CORRUPT_ATTEMPT_RECORD'')
      | Some att_raw \<Rightarrow> decoded db att_raw ''CORRUPT_ATTEMPT_RECORD'' (\<lambda>aj. indexed db aj (\<lambda>attempt.
          if \<not> field_is attempt ''attempt_id'' attemptId \<or> \<not> field_is attempt ''job_id'' jobId
             \<or> \<not> field_is attempt ''workspace_id'' workspaceId \<or> \<not> field_is attempt ''target_id'' targetId
             \<or> \<not> field_is attempt ''device_id'' deviceId \<or> \<not> field_is attempt ''claim_token_sha256'' token
          then (db, error_table ''IDEMPOTENCY_CONFLICT'')
          else if field_is attempt ''phase'' ''claimed'' \<or> field_is attempt ''phase'' ''running''
          then (db, encoded [(''status'', Some (JStr ''replayed'')), (''attempt'', Some (JObj attempt)), server_time now_ms])
          else if field_is attempt ''phase'' ''terminal'' then (db, error_table ''JOB_FINISHED'')
          else (db, error_table ''IDEMPOTENCY_CONFLICT''))))"

definition new_attempt_table :: "int \<Rightarrow> jobject \<Rightarrow> string \<Rightarrow> string \<Rightarrow> string \<Rightarrow> string \<Rightarrow> jobject" where
  "new_attempt_table now_ms job deviceId bindingId attemptId token =
     fold (\<lambda>kv. put_opt (fst kv) (snd kv))
       [(''schema_version'', Some (JNum 1)), (''attempt_id'', Some (JStr attemptId)),
        (''job_id'', jfield job ''job_id''), (''user_id'', jfield job ''user_id''),
        (''workspace_id'', jfield job ''workspace_id''), (''target_id'', jfield job ''target_id''),
        (''device_id'', Some (JStr deviceId)), (''target_binding_id'', Some (JStr bindingId)),
        (''claim_token_sha256'', Some (JStr token)), (''phase'', Some (JStr ''claimed'')),
        (''claimed_at_ms'', Some (jint now_ms)), (''started_at_ms'', Some JNull)] fmempty"

definition claim_writes ::
  "int \<Rightarrow> redis \<Rightarrow> string \<Rightarrow> string \<Rightarrow> string \<Rightarrow> string \<Rightarrow> jobject \<Rightarrow> string \<Rightarrow> string \<Rightarrow> string \<Rightarrow> string \<Rightarrow> string \<Rightarrow> script_result" where
  "claim_writes now_ms db jobKey queueKey attemptsKey attemptKey job jobId deviceId bindingId attemptId token =
     (let attempt = new_attempt_table now_ms job deviceId bindingId attemptId token;
          db1 = redis_set attemptKey (Json (cjson_encode (JObj attempt))) db
      in case redis_zadd now_ms attemptsKey (of_int now_ms) attemptId db1 of
           Inl _ \<Rightarrow> (db1, ErrorReply ''WRONGTYPE'')
         | Inr db2 \<Rightarrow>
            let job1 = fmupd ''latest_attempt_id'' (JStr attemptId) (fmupd ''status'' (JStr ''active'') job);
                db3 = redis_set jobKey (Json (cjson_encode (JObj job1))) db2
            in (case redis_zrem now_ms queueKey [jobId] db3 of
                  Inl _ \<Rightarrow> (db3, ErrorReply ''WRONGTYPE'')
                | Inr (db4, _) \<Rightarrow>
                   (db4, encoded [(''status'', Some (JStr ''claimed'')), (''attempt'', Some (JObj attempt)), server_time now_ms])))"

text \<open>
  \<^verbatim>\<open>job.claim_deadline_ms and job.claim_deadline_ms > 0 and now_ms >= job.claim_deadline_ms\<close>;
  comparing a value that is not a number is a run-time error (\<open>None\<close>).
\<close>

definition deadline_passed :: "int \<Rightarrow> jobject \<Rightarrow> bool option" where
  "deadline_passed now_ms job = (case jfield job ''claim_deadline_ms'' of
      None \<Rightarrow> Some False
    | Some (JBool b) \<Rightarrow> if b then None else Some False
    | Some (JNum d) \<Rightarrow> Some (0 < d \<and> d \<le> of_int now_ms)
    | Some _ \<Rightarrow> None)"

definition claim_new ::
  "int \<Rightarrow> redis \<Rightarrow> string \<Rightarrow> string \<Rightarrow> string \<Rightarrow> string \<Rightarrow> jobject \<Rightarrow> string \<Rightarrow> string \<Rightarrow> string \<Rightarrow> string \<Rightarrow> string \<Rightarrow> bool \<Rightarrow> script_result" where
  "claim_new now_ms db jobKey queueKey attemptsKey attemptKey job jobId deviceId bindingId attemptId token replayOnly =
     (if replayOnly then (db, error_table ''NOT_OWNER_REPLAY'')
      else if \<not> field_is job ''status'' ''queued'' then (db, error_table ''JOB_ALREADY_CLAIMED'')
      else case deadline_passed now_ms job of
        None \<Rightarrow> (db, ErrorReply ''attempt to compare'')
      | Some True \<Rightarrow>
         (case redis_zrem now_ms queueKey [jobId] db of
            Inl _ \<Rightarrow> (db, ErrorReply ''WRONGTYPE'')
          | Inr (db1, _) \<Rightarrow> (db1, error_table ''JOB_EXPIRED''))
      | Some False \<Rightarrow>
         if redis_TYPE now_ms db attemptKey \<noteq> ''none'' then (db, error_table ''ATTEMPT_ID_COLLISION'')
         else claim_writes now_ms db jobKey queueKey attemptsKey attemptKey job jobId deviceId bindingId attemptId token)"

definition claim_job ::
  "int \<Rightarrow> redis \<Rightarrow> rkey \<Rightarrow> rkey \<Rightarrow> rkey \<Rightarrow> rkey \<Rightarrow> job_id \<Rightarrow> ws_id \<Rightarrow> target_id \<Rightarrow> device_id \<Rightarrow> binding_id \<Rightarrow> attempt_id \<Rightarrow> digest \<Rightarrow> bool \<Rightarrow> jobject \<Rightarrow> script_result" where
  "claim_job now_ms db jobKey queueKey attemptsKey attemptKey jobId workspaceId targetId deviceId bindingId attemptId token replayOnly job =
     (if \<not> field_is job ''job_id'' jobId \<or> \<not> field_is job ''workspace_id'' workspaceId \<or> \<not> field_is job ''target_id'' targetId
      then (db, error_table ''JOB_NOT_FOUND'')
      else if field_is job ''latest_attempt_id'' attemptId
      then claim_replay now_ms db attemptKey jobId workspaceId targetId deviceId attemptId token
      else claim_new now_ms db jobKey queueKey attemptsKey attemptKey job jobId deviceId bindingId attemptId token replayOnly)"

definition V2_CLAIM_JOB_SCRIPT ::
  "int \<Rightarrow> redis \<Rightarrow> rkey \<Rightarrow> rkey \<Rightarrow> rkey \<Rightarrow> rkey \<Rightarrow> rkey \<Rightarrow> job_id \<Rightarrow> ws_id \<Rightarrow> target_id \<Rightarrow> device_id \<Rightarrow> binding_id \<Rightarrow> attempt_id \<Rightarrow> digest \<Rightarrow> bool \<Rightarrow> script_result" where
  "V2_CLAIM_JOB_SCRIPT now_ms db jobKey queueKey attemptsKey attemptKey fenceKey jobId workspaceId targetId deviceId bindingId attemptId token replayOnly =
     (if badtype now_ms db jobKey ''string'' then (db, ErrorReply ''WRONGTYPE_JOB_KEY'')
      else if badtype now_ms db queueKey ''zset'' then (db, ErrorReply ''WRONGTYPE_TARGET_QUEUE'')
      else if badtype now_ms db attemptsKey ''zset'' then (db, ErrorReply ''WRONGTYPE_JOB_ATTEMPTS'')
      else if badtype now_ms db attemptKey ''string'' then (db, ErrorReply ''WRONGTYPE_ATTEMPT_KEY'')
      else if badtype now_ms db fenceKey ''string'' then (db, ErrorReply ''WRONGTYPE_DELETE_FENCE'')
      else if fence_fresh now_ms db fenceKey then (db, fenced_reply targetId)
      else case call_GET now_ms db jobKey of
        None \<Rightarrow> (db, error_table ''JOB_NOT_FOUND'')
      | Some job_raw \<Rightarrow> decoded db job_raw ''MALFORMED_JOB_RECORD'' (\<lambda>jj. indexed db jj
          (claim_job now_ms db jobKey queueKey attemptsKey attemptKey jobId workspaceId targetId deviceId bindingId attemptId token replayOnly)))"

section \<open>Start\<close>

definition attempt_corrupt :: "jobject \<Rightarrow> bool" where
  "attempt_corrupt attempt \<longleftrightarrow>
     jfield attempt ''schema_version'' \<noteq> Some (JNum 1)
     \<or> \<not> is_number (jfield attempt ''claimed_at_ms'')
     \<or> \<not> is_string (jfield attempt ''target_binding_id'') \<or> field_is attempt ''target_binding_id'' []
     \<or> \<not> is_string (jfield attempt ''claim_token_sha256'')
     \<or> map_option length (as_str (jfield attempt ''claim_token_sha256'')) \<noteq> Some 64
     \<or> (field_is attempt ''phase'' ''claimed'' \<and> \<not> is_nullish (jfield attempt ''started_at_ms''))
     \<or> (field_is attempt ''phase'' ''running'' \<and> \<not> is_number (jfield attempt ''started_at_ms''))"

definition attempt_identity :: "jobject \<Rightarrow> jobject \<Rightarrow> string \<Rightarrow> string \<Rightarrow> string \<Rightarrow> bool" where
  "attempt_identity attempt job attemptId deviceId token \<longleftrightarrow>
     field_is attempt ''attempt_id'' attemptId
     \<and> lua_eq (jfield attempt ''job_id'') (jfield job ''job_id'')
     \<and> lua_eq (jfield attempt ''workspace_id'') (jfield job ''workspace_id'')
     \<and> lua_eq (jfield attempt ''target_id'') (jfield job ''target_id'')
     \<and> field_is attempt ''device_id'' deviceId \<and> field_is attempt ''claim_token_sha256'' token"

text \<open>The reads common to the start, report and result scripts: both records, decoded.\<close>

definition with_records ::
  "int \<Rightarrow> redis \<Rightarrow> string \<Rightarrow> string \<Rightarrow> string \<Rightarrow> (json \<Rightarrow> json \<Rightarrow> script_result) \<Rightarrow> script_result" where
  "with_records now_ms db jobKey attemptKey badJob k =
     (if badtype now_ms db jobKey ''string'' then (db, ErrorReply ''WRONGTYPE_JOB_KEY'')
      else if badtype now_ms db attemptKey ''string'' then (db, ErrorReply ''WRONGTYPE_ATTEMPT_KEY'')
      else case call_GET now_ms db jobKey of
        None \<Rightarrow> (db, error_table ''JOB_NOT_FOUND'')
      | Some job_raw \<Rightarrow> decoded db job_raw badJob (\<lambda>jj.
          case call_GET now_ms db attemptKey of
            None \<Rightarrow> (db, error_table ''ATTEMPT_NOT_FOUND'')
          | Some att_raw \<Rightarrow> decoded db att_raw ''CORRUPT_ATTEMPT_RECORD'' (k jj)))"

definition invalid_phase :: "jobject \<Rightarrow> script_reply" where
  "invalid_phase attempt = encoded [(''error'', Some (JStr ''INVALID_ATTEMPT_PHASE'')), (''phase'', jfield attempt ''phase'')]"

definition invalid_status :: "jobject \<Rightarrow> script_reply" where
  "invalid_status job = encoded [(''error'', Some (JStr ''INVALID_JOB_STATUS'')), (''status'', jfield job ''status'')]"

definition start_attempt ::
  "int \<Rightarrow> redis \<Rightarrow> string \<Rightarrow> string \<Rightarrow> string \<Rightarrow> string \<Rightarrow> jobject \<Rightarrow> jobject \<Rightarrow> script_result" where
  "start_attempt now_ms db attemptKey attemptId deviceId token job attempt =
     (if \<not> field_is job ''status'' ''active'' \<or> \<not> field_is job ''latest_attempt_id'' attemptId
      then (db, error_table ''JOB_NOT_ACTIVE'')
      else if \<not> attempt_identity attempt job attemptId deviceId token then (db, error_table ''IDENTITY_MISMATCH'')
      else if field_is attempt ''phase'' ''running''
      then (db, encoded [(''status'', Some (JStr ''replayed'')), (''attempt'', Some (JObj attempt)), server_time now_ms])
      else if \<not> field_is attempt ''phase'' ''claimed'' then (db, invalid_phase attempt)
      else let attempt1 = fmupd ''started_at_ms'' (jint now_ms) (fmupd ''phase'' (JStr ''running'') attempt)
           in (redis_set attemptKey (Json (cjson_encode (JObj attempt1))) db,
               encoded [(''status'', Some (JStr ''started'')), (''attempt'', Some (JObj attempt1)), server_time now_ms]))"

definition V2_START_JOB_SCRIPT ::
  "int \<Rightarrow> redis \<Rightarrow> string \<Rightarrow> string \<Rightarrow> string \<Rightarrow> string \<Rightarrow> string \<Rightarrow> script_result" where
  "V2_START_JOB_SCRIPT now_ms db jobKey attemptKey attemptId deviceId token =
     with_records now_ms db jobKey attemptKey ''MALFORMED_JOB_RECORD'' (\<lambda>jj aj. indexed db aj (\<lambda>attempt.
       if attempt_corrupt attempt then (db, error_table ''CORRUPT_ATTEMPT_RECORD'')
       else indexed db jj (\<lambda>job. start_attempt now_ms db attemptKey attemptId deviceId token job attempt)))"

section \<open>Report\<close>

definition is_nonneg_number :: "json option \<Rightarrow> bool" where
  "is_nonneg_number v = (case as_num v of None \<Rightarrow> False | Some r \<Rightarrow> 0 \<le> r)"

definition sub_fields :: "json option \<Rightarrow> jobject" where
  "sub_fields v = (case v of Some j \<Rightarrow> (case lua_fields j of Some m \<Rightarrow> m | None \<Rightarrow> fmempty) | None \<Rightarrow> fmempty)"

text \<open>The report checks of the script, in order; \<open>Some code\<close> is the error returned.\<close>

definition report_fault :: "jobject \<Rightarrow> string option" where
  "report_fault rep =
     (if jfield rep ''schema_version'' \<noteq> Some (JNum 2) then Some ''INVALID_REPORT_SCHEMA_VERSION''
      else if status_field (jfield rep ''execution_status'') = None then Some ''INVALID_EXECUTION_STATUS''
      else if outcome_field (jfield rep ''business_outcome'') = None then Some ''INVALID_BUSINESS_OUTCOME''
      else if \<not> is_boolean (jfield rep ''task_dispatched'') then Some ''INVALID_TASK_DISPATCHED''
      else if \<not> is_nonneg_number (jfield rep ''finished_at_ms'') then Some ''INVALID_REPORT_FINISHED_AT''
      else if \<not> is_nonneg_number (jfield rep ''duration_ms'') then Some ''INVALID_REPORT_DURATION''
      else if map_option length (as_str (jfield rep ''receipt_sha256'')) \<noteq> Some 64 then Some ''INVALID_REPORT_RECEIPT_SHA256''
      else if \<not> is_table (jfield rep ''executor'') \<or> \<not> is_string (jfield (sub_fields (jfield rep ''executor'')) ''type'')
              \<or> \<not> is_string (jfield (sub_fields (jfield rep ''executor'')) ''version'')
      then Some ''INVALID_REPORT_EXECUTOR''
      else if field_is rep ''execution_status'' ''COMPLETED'' \<and> \<not> is_nullish (jfield rep ''error'')
      then Some ''COMPLETED_REPORT_HAS_ERROR''
      else if \<not> field_is rep ''execution_status'' ''COMPLETED''
              \<and> (\<not> is_table (jfield rep ''error'') \<or> \<not> is_string (jfield (sub_fields (jfield rep ''error'')) ''stage'')
                 \<or> \<not> is_string (jfield (sub_fields (jfield rep ''error'')) ''code'')
                 \<or> \<not> is_string (jfield (sub_fields (jfield rep ''error'')) ''message''))
      then Some ''INVALID_REPORT_ERROR_SHAPE''
      else if jfield rep ''task_dispatched'' = Some (JBool False) \<and> \<not> field_is rep ''business_outcome'' ''NOT_STARTED''
      then Some ''UNDISPATCHED_REPORT_OUTCOME_INVALID''
      else if field_is rep ''business_outcome'' ''UNVERIFIED'' \<and> jfield rep ''task_dispatched'' = Some (JBool False)
      then Some ''UNVERIFIED_OUTCOME_REQUIRES_DISPATCHED''
      else None)"

text \<open>\<^verbatim>\<open>error_match\<close> and \<^verbatim>\<open>executor_match\<close>; indexing a scalar is a run-time error (\<open>None\<close>).\<close>

definition opt_fields :: "json option \<Rightarrow> jobject option" where
  "opt_fields v = (case v of None \<Rightarrow> None | Some j \<Rightarrow> lua_fields j)"

definition fields_match :: "string list \<Rightarrow> json option \<Rightarrow> json option \<Rightarrow> bool option" where
  "fields_match ks v w = (case (opt_fields v, opt_fields w) of
      (Some m, Some n) \<Rightarrow> Some (list_all (\<lambda>k. lua_eq (jfield m k) (jfield n k)) ks)
    | _ \<Rightarrow> None)"

definition error_match :: "json option \<Rightarrow> json option \<Rightarrow> bool option" where
  "error_match e1 e2 =
     (if is_nullish e1 \<and> is_nullish e2 then Some True
      else if is_nullish e1 \<or> is_nullish e2 then Some False
      else fields_match [''stage'', ''code'', ''message''] e1 e2)"

definition executor_match :: "json option \<Rightarrow> json option \<Rightarrow> bool option" where
  "executor_match ex1 ex2 =
     (if \<not> lua_truthy ex1 \<or> \<not> lua_truthy ex2 then Some False
      else fields_match [''type'', ''version''] ex1 ex2)"

definition sem_match :: "jobject \<Rightarrow> jobject \<Rightarrow> bool option" where
  "sem_match ar rep =
     (if list_all (\<lambda>k. lua_eq (jfield ar k) (jfield rep k))
           [''schema_version'', ''execution_status'', ''business_outcome'', ''task_dispatched'',
            ''finished_at_ms'', ''duration_ms'', ''receipt_sha256'']
      then (case executor_match (jfield ar ''executor'') (jfield rep ''executor'') of
              Some True \<Rightarrow> error_match (jfield ar ''error'') (jfield rep ''error'')
            | r \<Rightarrow> r)
      else Some False)"

definition report_replay :: "int \<Rightarrow> redis \<Rightarrow> jobject \<Rightarrow> jobject \<Rightarrow> script_result" where
  "report_replay now_ms db attempt rep =
     (if \<not> lua_truthy (jfield attempt ''report'') then (db, error_table ''CORRUPT_ATTEMPT_RECORD'')
      else case opt_fields (jfield attempt ''report'') of
        None \<Rightarrow> (db, index_error)
      | Some ar \<Rightarrow> (case sem_match ar rep of
          None \<Rightarrow> (db, index_error)
        | Some True \<Rightarrow> (db, encoded [(''status'', Some (JStr ''replayed'')), server_time now_ms])
        | Some False \<Rightarrow> (db, error_table ''REPORT_CONFLICT'')))"

definition report_writes ::
  "int \<Rightarrow> redis \<Rightarrow> string \<Rightarrow> string \<Rightarrow> jobject \<Rightarrow> jobject \<Rightarrow> jobject \<Rightarrow> script_result" where
  "report_writes now_ms db jobKey attemptKey job attempt rep =
     (let rep1 = fmupd ''received_at_ms'' (jint now_ms) rep;
          attempt1 = fmupd ''report'' (JObj rep1) (fmupd ''phase'' (JStr ''terminal'') attempt);
          job1 = fmupd ''status'' (JStr ''terminal'') job
      in (redis_set jobKey (Json (cjson_encode (JObj job1)))
            (redis_set attemptKey (Json (cjson_encode (JObj attempt1))) db),
          encoded [(''status'', Some (JStr ''reported'')), server_time now_ms]))"

definition report_transition ::
  "int \<Rightarrow> redis \<Rightarrow> string \<Rightarrow> string \<Rightarrow> jobject \<Rightarrow> jobject \<Rightarrow> jobject \<Rightarrow> script_result" where
  "report_transition now_ms db jobKey attemptKey job attempt rep =
     (if \<not> field_is job ''status'' ''active'' then (db, invalid_status job)
      else if jfield rep ''task_dispatched'' = Some (JBool False)
      then (if \<not> field_is attempt ''phase'' ''claimed'' \<and> \<not> field_is attempt ''phase'' ''running''
            then (db, invalid_phase attempt)
            else report_writes now_ms db jobKey attemptKey job attempt rep)
      else (if \<not> field_is attempt ''phase'' ''running'' \<or> is_nullish (jfield attempt ''started_at_ms'')
            then (db, error_table ''DISPATCHED_REPORT_REQUIRES_RUNNING'')
            else report_writes now_ms db jobKey attemptKey job attempt rep))"

definition report_table :: "payload \<Rightarrow> jobject option" where
  "report_table raw = (case json_decode raw of
      Some (JObj m) \<Rightarrow> Some m | Some (JArr _) \<Rightarrow> Some fmempty | _ \<Rightarrow> None)"

definition report_attempt ::
  "int \<Rightarrow> redis \<Rightarrow> string \<Rightarrow> string \<Rightarrow> string \<Rightarrow> string \<Rightarrow> string \<Rightarrow> payload \<Rightarrow> jobject \<Rightarrow> jobject \<Rightarrow> script_result" where
  "report_attempt now_ms db jobKey attemptKey attemptId deviceId token report job attempt =
     (if \<not> field_is job ''latest_attempt_id'' attemptId then (db, error_table ''ATTEMPT_MISMATCH'')
      else if \<not> field_is job ''status'' ''active'' \<and> \<not> field_is job ''status'' ''terminal'' then (db, invalid_status job)
      else if \<not> attempt_identity attempt job attemptId deviceId token then (db, error_table ''IDENTITY_MISMATCH'')
      else case report_table report of
        None \<Rightarrow> (db, error_table ''MALFORMED_REPORT'')
      | Some rep \<Rightarrow> (case report_fault rep of
          Some code \<Rightarrow> (db, error_table code)
        | None \<Rightarrow>
            if field_is attempt ''phase'' ''terminal'' then report_replay now_ms db attempt rep
            else report_transition now_ms db jobKey attemptKey job attempt rep))"

definition V2_REPORT_JOB_SCRIPT ::
  "int \<Rightarrow> redis \<Rightarrow> string \<Rightarrow> string \<Rightarrow> string \<Rightarrow> string \<Rightarrow> string \<Rightarrow> payload \<Rightarrow> script_result" where
  "V2_REPORT_JOB_SCRIPT now_ms db jobKey attemptKey attemptId deviceId token report =
     with_records now_ms db jobKey attemptKey ''MALFORMED_JOB_RECORD'' (\<lambda>jj aj. indexed db aj (\<lambda>attempt.
       if attempt_corrupt attempt then (db, error_table ''CORRUPT_ATTEMPT_RECORD'')
       else indexed db jj (\<lambda>job. report_attempt now_ms db jobKey attemptKey attemptId deviceId token report job attempt)))"

section \<open>Cancel\<close>

text \<open>A field with \<^verbatim>\<open>cjson.null\<close> normalised to nil.\<close>

definition nil_null :: "json option \<Rightarrow> json option" where
  "nil_null v = (if is_null v then None else v)"

definition cancel_reply ::
  "int \<Rightarrow> string \<Rightarrow> string \<Rightarrow> json option \<Rightarrow> json option \<Rightarrow> json option \<Rightarrow> script_reply" where
  "cancel_reply now_ms status result execution_status business_outcome attempt_id =
     encoded [(''status'', Some (JStr status)), (''result'', Some (JStr result)),
       (''execution_status'', execution_status), (''business_outcome'', business_outcome),
       (''attempt_id'', attempt_id), server_time now_ms]"

definition cancel_terminal :: "int \<Rightarrow> redis \<Rightarrow> string \<Rightarrow> jobject \<Rightarrow> script_result" where
  "cancel_terminal now_ms db attemptKey job =
     (if lua_truthy (nil_null (jfield job ''latest_attempt_id''))
      then (case call_GET now_ms db attemptKey of
          None \<Rightarrow> (db, error_table ''CORRUPT_ATTEMPT_RECORD'')
        | Some att_raw \<Rightarrow> decoded db att_raw ''CORRUPT_ATTEMPT_RECORD'' (\<lambda>aj. indexed db aj (\<lambda>attempt.
            if \<not> field_is attempt ''phase'' ''terminal'' \<or> \<not> lua_truthy (jfield attempt ''report'')
            then (db, error_table ''CORRUPT_ATTEMPT_RECORD'')
            else (case opt_fields (jfield attempt ''report'') of
                None \<Rightarrow> (db, index_error)
              | Some rep \<Rightarrow>
                  if field_is rep ''execution_status'' ''CANCELLED''
                  then (db, cancel_reply now_ms ''replayed'' ''already_cancelled'' (Some (JStr ''CANCELLED''))
                          (jfield rep ''business_outcome'') (jfield attempt ''attempt_id''))
                  else (db, cancel_reply now_ms ''no_change'' ''already_terminal'' (jfield rep ''execution_status'')
                          (jfield rep ''business_outcome'') (jfield attempt ''attempt_id''))))))
      else if lua_truthy (nil_null (jfield job ''cancel''))
      then (db, cancel_reply now_ms ''replayed'' ''already_cancelled'' (Some (JStr ''CANCELLED''))
              (Some (JStr ''NOT_STARTED'')) (Some JNull))
      else (db, error_table ''CORRUPT_JOB_RECORD''))"

definition cancel_table :: "int \<Rightarrow> string \<Rightarrow> string \<Rightarrow> jobject" where
  "cancel_table now_ms deviceId reason = fmap_of_list
     [(''cancelled_at_ms'', jint now_ms), (''requested_by_device_id'', JStr deviceId), (''reason'', JStr reason)]"

definition cancelled_report :: "int \<Rightarrow> bool \<Rightarrow> rat \<Rightarrow> string \<Rightarrow> jobject" where
  "cancelled_report now_ms dispatched duration receipt = fmap_of_list
     [(''schema_version'', JNum 2), (''execution_status'', JStr ''CANCELLED''),
      (''business_outcome'', JStr (if dispatched then ''UNVERIFIED'' else ''NOT_STARTED'')),
      (''task_dispatched'', JBool dispatched), (''finished_at_ms'', jint now_ms),
      (''duration_ms'', JNum duration),
      (''executor'', JObj (fmap_of_list [(''type'', JStr ''operator''), (''version'', JStr ''1.0.0'')])),
      (''receipt_sha256'', JStr receipt),
      (''error'', JObj (fmap_of_list [(''stage'', JStr ''orchestration''), (''code'', JStr ''OPERATOR_CANCELLED''),
         (''message'', JStr ''Job cancelled by operator before completion.'')])),
      (''received_at_ms'', jint now_ms)]"

definition cancel_active_writes ::
  "int \<Rightarrow> redis \<Rightarrow> string \<Rightarrow> string \<Rightarrow> jobject \<Rightarrow> jobject \<Rightarrow> string \<Rightarrow> string \<Rightarrow> string \<Rightarrow> rat \<Rightarrow> script_result" where
  "cancel_active_writes now_ms db jobKey attemptKey job attempt deviceId reason receipt duration =
     (let dispatched = field_is attempt ''phase'' ''running'';
          rep = cancelled_report now_ms dispatched duration receipt;
          attempt1 = fmupd ''report'' (JObj rep) (fmupd ''phase'' (JStr ''terminal'') attempt);
          job1 = fmupd ''cancel'' (JObj (cancel_table now_ms deviceId reason)) (fmupd ''status'' (JStr ''terminal'') job)
      in (redis_set jobKey (Json (cjson_encode (JObj job1)))
            (redis_set attemptKey (Json (cjson_encode (JObj attempt1))) db),
          cancel_reply now_ms ''cancelled'' ''cancelled'' (Some (JStr ''CANCELLED''))
            (jfield rep ''business_outcome'') (jfield attempt ''attempt_id'')))"

definition cancel_active ::
  "int \<Rightarrow> redis \<Rightarrow> string \<Rightarrow> string \<Rightarrow> jobject \<Rightarrow> string \<Rightarrow> string \<Rightarrow> string \<Rightarrow> script_result" where
  "cancel_active now_ms db jobKey attemptKey job deviceId reason receipt =
     (case call_GET now_ms db attemptKey of
        None \<Rightarrow> (db, error_table ''CORRUPT_ATTEMPT_RECORD'')
      | Some att_raw \<Rightarrow> decoded db att_raw ''CORRUPT_ATTEMPT_RECORD'' (\<lambda>aj. indexed db aj (\<lambda>attempt.
          if \<not> lua_eq (jfield attempt ''job_id'') (jfield job ''job_id'')
             \<or> \<not> lua_eq (jfield attempt ''attempt_id'') (jfield job ''latest_attempt_id'')
          then (db, error_table ''CORRUPT_ATTEMPT_RECORD'')
          else if \<not> field_is attempt ''phase'' ''claimed'' \<and> \<not> field_is attempt ''phase'' ''running''
          then (db, invalid_phase attempt)
          else if field_is attempt ''phase'' ''running''
          then (case as_num (jfield attempt ''started_at_ms'') of
                  None \<Rightarrow> (db, error_table ''CORRUPT_ATTEMPT_RECORD'')
                | Some started \<Rightarrow> cancel_active_writes now_ms db jobKey attemptKey job attempt deviceId reason receipt
                    (max 0 (of_int now_ms - started)))
          else cancel_active_writes now_ms db jobKey attemptKey job attempt deviceId reason receipt 0)))"

text \<open>An argument of \<^verbatim>\<open>redis.call\<close> must be a string or a number.\<close>

definition call_arg :: "json option \<Rightarrow> string option" where
  "call_arg v = (case v of
      Some (JStr s) \<Rightarrow> Some s
    | Some (JNum r) \<Rightarrow> map_option show_int (as_int v)
    | _ \<Rightarrow> None)"

definition cancel_queued ::
  "int \<Rightarrow> redis \<Rightarrow> string \<Rightarrow> string \<Rightarrow> jobject \<Rightarrow> string \<Rightarrow> string \<Rightarrow> script_result" where
  "cancel_queued now_ms db jobKey queueKey job deviceId reason =
     (let job1 = fmupd ''cancel'' (JObj (cancel_table now_ms deviceId reason)) (fmupd ''status'' (JStr ''terminal'') job)
      in case call_arg (jfield job ''job_id'') of
           None \<Rightarrow> (db, ErrorReply ''command arguments must be strings or integers'')
         | Some member \<Rightarrow>
            (case redis_zrem now_ms queueKey [member] db of
               Inl _ \<Rightarrow> (db, ErrorReply ''WRONGTYPE'')
             | Inr (db1, _) \<Rightarrow>
                (redis_set jobKey (Json (cjson_encode (JObj job1))) db1,
                 cancel_reply now_ms ''cancelled'' ''cancelled'' (Some (JStr ''CANCELLED''))
                   (Some (JStr ''NOT_STARTED'')) (Some JNull))))"

definition cancel_job ::
  "int \<Rightarrow> redis \<Rightarrow> rkey \<Rightarrow> rkey \<Rightarrow> rkey \<Rightarrow> attempt_id \<Rightarrow> device_id \<Rightarrow> string \<Rightarrow> digest \<Rightarrow> jobject \<Rightarrow> script_result" where
  "cancel_job now_ms db jobKey attemptKey queueKey expectedAttemptId deviceId reason receipt job =
     (let latest = nil_null (jfield job ''latest_attempt_id'') in
      if field_is job ''status'' ''terminal'' then cancel_terminal now_ms db attemptKey job
      else if field_is job ''status'' ''preparing'' then (db, invalid_status job)
      else if (if lua_truthy latest then latest else Some (JStr [])) \<noteq> Some (JStr expectedAttemptId)
      then (db, error_table ''CANCEL_RACE'')
      else if field_is job ''status'' ''active''
      then cancel_active now_ms db jobKey attemptKey job deviceId reason receipt
      else if field_is job ''status'' ''queued''
      then cancel_queued now_ms db jobKey queueKey job deviceId reason
      else (db, invalid_status job))"

definition V2_CANCEL_JOB_SCRIPT ::
  "int \<Rightarrow> redis \<Rightarrow> rkey \<Rightarrow> rkey \<Rightarrow> rkey \<Rightarrow> attempt_id \<Rightarrow> device_id \<Rightarrow> string \<Rightarrow> digest \<Rightarrow> script_result" where
  "V2_CANCEL_JOB_SCRIPT now_ms db jobKey attemptKey queueKey expectedAttemptId deviceId reason receipt =
     (if badtype now_ms db jobKey ''string'' then (db, ErrorReply ''WRONGTYPE_JOB_KEY'')
      else if badtype now_ms db attemptKey ''string'' then (db, ErrorReply ''WRONGTYPE_ATTEMPT_KEY'')
      else if badtype now_ms db queueKey ''zset'' then (db, ErrorReply ''WRONGTYPE_TARGET_QUEUE'')
      else case call_GET now_ms db jobKey of
        None \<Rightarrow> (db, error_table ''JOB_NOT_FOUND'')
      | Some job_raw \<Rightarrow> decoded db job_raw ''CORRUPT_JOB_RECORD'' (\<lambda>jj. indexed db jj
          (cancel_job now_ms db jobKey attemptKey queueKey expectedAttemptId deviceId reason receipt)))"

section \<open>Delete-fence touch\<close>

definition V2_TOUCH_DELETE_FENCE_SCRIPT :: "int \<Rightarrow> redis \<Rightarrow> string \<Rightarrow> string \<Rightarrow> int \<Rightarrow> script_result" where
  "V2_TOUCH_DELETE_FENCE_SCRIPT now_ms db fenceKey token ttlMs =
     (case redis_get now_ms db fenceKey of
        Inl _ \<Rightarrow> (db, ErrorReply ''WRONGTYPE'')
      | Inr None \<Rightarrow> (db, IntReply 0)
      | Inr (Some raw) \<Rightarrow>
         (case index_of (CHR '':'') (payload_text raw) of
            None \<Rightarrow> (db, IntReply 0)
          | Some sep \<Rightarrow>
             if drop (Suc sep) (payload_text raw) \<noteq> token then (db, IntReply 0)
             else (redis_set_px now_ms fenceKey (Text (lua_tostring now_ms @ '':'' @ token)) ttlMs db, IntReply 1)))"

section \<open>Record a result\<close>

definition record_writes :: "int \<Rightarrow> redis \<Rightarrow> string \<Rightarrow> jobject \<Rightarrow> json \<Rightarrow> script_result" where
  "record_writes now_ms db attemptKey attempt incoming = (case lua_table incoming of
      None \<Rightarrow> (db, index_error)
    | Some m \<Rightarrow>
       let incoming1 = fmupd ''received_at_ms'' (jint now_ms) m;
           attempt1 = fmupd ''result'' (JObj incoming1) attempt
       in (redis_set attemptKey (Json (cjson_encode (JObj attempt1))) db,
           encoded [(''status'', Some (JStr ''recorded'')), server_time now_ms,
                    (''commit'', jfield incoming1 ''commit''), (''resource_id'', jfield incoming1 ''resource_id'')]))"

definition record_attempt ::
  "int \<Rightarrow> redis \<Rightarrow> string \<Rightarrow> string \<Rightarrow> string \<Rightarrow> payload \<Rightarrow> string \<Rightarrow> jobject \<Rightarrow> jobject \<Rightarrow> script_result" where
  "record_attempt now_ms db attemptKey deviceId token result deliveryMode job attempt =
     (if \<not> lua_eq (jfield attempt ''job_id'') (jfield job ''job_id'')
         \<or> \<not> lua_eq (jfield job ''latest_attempt_id'') (jfield attempt ''attempt_id'')
      then (db, error_table ''ATTEMPT_MISMATCH'')
      else if \<not> field_is attempt ''device_id'' deviceId \<or> \<not> field_is attempt ''claim_token_sha256'' token
      then (db, error_table ''IDENTITY_MISMATCH'')
      else decoded db result ''MALFORMED_RESULT'' (\<lambda>incoming.
        let mode = (if deliveryMode = [] then ''automatic'' else deliveryMode) in
        if lua_truthy (jfield attempt ''result'') \<and> \<not> is_null (jfield attempt ''result'')
        then (case (opt_fields (jfield attempt ''result''), lua_fields incoming) of
            (Some existing, Some inc) \<Rightarrow>
              if lua_eq (jfield existing ''payload_sha256'') (jfield inc ''payload_sha256'')
                 \<and> lua_eq (jfield existing ''resource_id'') (jfield inc ''resource_id'')
                 \<and> lua_eq (jfield existing ''target'') (jfield inc ''target'')
              then (db, encoded [(''status'', Some (JStr ''replayed'')), server_time now_ms,
                      (''commit'', jfield existing ''commit''), (''resource_id'', jfield existing ''resource_id'')])
              else if mode \<noteq> ''explicit_redelivery'' then (db, error_table ''STALE_RESULT_SUBMISSION'')
              else record_writes now_ms db attemptKey attempt incoming
          | _ \<Rightarrow> (db, index_error))
        else record_writes now_ms db attemptKey attempt incoming))"

definition V2_RECORD_RESULT_SCRIPT ::
  "int \<Rightarrow> redis \<Rightarrow> string \<Rightarrow> string \<Rightarrow> string \<Rightarrow> string \<Rightarrow> payload \<Rightarrow> string \<Rightarrow> script_result" where
  "V2_RECORD_RESULT_SCRIPT now_ms db jobKey attemptKey deviceId token result deliveryMode =
     with_records now_ms db jobKey attemptKey ''CORRUPT_JOB_RECORD'' (\<lambda>jj aj. indexed db aj (\<lambda>attempt.
       indexed db jj (\<lambda>job. record_attempt now_ms db attemptKey deviceId token result deliveryMode job attempt)))"

end
