(* ===== verification/Job_Store.thy ===== *)
theory Job_Store
  imports Job_Scripts
begin

text \<open>
  The job store (\<^verbatim>\<open>jobs/v2-store.ts\<close>, class \<^verbatim>\<open>RedisJobStoreV2\<close>) on a
  connected Redis runner: it computes the keys, runs one script, and turns the reply into a value or
  a typed error. Each operation takes the Redis clock and the key space and returns the new key
  space with its result.
\<close>

section \<open>Errors and outcomes\<close>

datatype store_error =
    V2StoreError string
  | V2JobNotFoundError
  | V2JobAlreadyClaimedError
  | V2JobExpiredError
  | V2JobFinishedError
  | V2IdempotencyConflictError
  | V2AttemptLifecycleError string
  | V2ReportConflictError string
  | V2CancelRaceError
  | V2TargetDeleteFencedError string
  | SchemaFailure schema_error
  | RedisReplyError string

type_synonym 'a store_result = "redis \<times> (store_error + 'a)"

record create_outcome =
  cr_status :: string
  cr_job_id :: string
  cr_stream_entry_id :: "string option"

record attempt_outcome =
  ao_status :: string
  ao_attempt :: attempt
  ao_server_time_ms :: int

record result_outcome =
  ro_status :: string
  ro_server_time_ms :: int
  ro_commit :: string
  ro_resource_id :: string

record cancel_outcome =
  co_status :: string
  co_result :: string
  co_execution_status :: string
  co_business_outcome :: string
  co_attempt_id :: "string option"
  co_server_time_ms :: int

section \<open>Reading a script reply\<close>

text \<open>\<^verbatim>\<open>JSON.parse(raw)\<close>, an error when \<^verbatim>\<open>parsed.error\<close> is truthy.\<close>

definition string_of :: "json option \<Rightarrow> string" where
  "string_of v = (case v of Some (JStr s) \<Rightarrow> s | Some j \<Rightarrow> json_text j | None \<Rightarrow> ''undefined'')"

definition number_of :: "json option \<Rightarrow> int" where
  "number_of v = (case as_int v of Some i \<Rightarrow> i | None \<Rightarrow> 0)"

definition parsed_reply :: "script_reply \<Rightarrow> (string \<Rightarrow> jobject \<Rightarrow> store_error) \<Rightarrow> store_error + jobject" where
  "parsed_reply r on_error = (case r of
      ErrorReply e \<Rightarrow> Inl (RedisReplyError e)
    | IntReply _ \<Rightarrow> Inr fmempty
    | JsonReply (JObj m) \<Rightarrow>
        if js_truthy (jfield m ''error'') then Inl (on_error (string_of (jfield m ''error'')) m) else Inr m
    | JsonReply _ \<Rightarrow> Inr fmempty)"

definition reply_target :: "jobject \<Rightarrow> string \<Rightarrow> string" where
  "reply_target m fallback = (case as_str (jfield m ''target_id'') of Some t \<Rightarrow> t | None \<Rightarrow> fallback)"

definition parsed_attempt :: "jobject \<Rightarrow> store_error + attempt" where
  "parsed_attempt m = (case jfield m ''attempt'' of
      None \<Rightarrow> Inl (SchemaFailure (V2SchemaError ''object''))
    | Some j \<Rightarrow> emap_err SchemaFailure (parse_attempt_json j))"

section \<open>Reads\<close>

definition store_get :: "int \<Rightarrow> redis \<Rightarrow> string \<Rightarrow> store_error + payload option" where
  "store_get now db k = emap_err (\<lambda>_. RedisReplyError ''WRONGTYPE'') (redis_get now db k)"

text \<open>An empty text is falsy in \<^verbatim>\<open>if (!raw)\<close>.\<close>

definition falsy_raw :: "payload option \<Rightarrow> bool" where
  "falsy_raw p \<longleftrightarrow> p = None \<or> p = Some (Text [])"

definition getJob :: "int \<Rightarrow> redis \<Rightarrow> string \<Rightarrow> store_error + job option" where
  "getJob now db jobId = ebind (store_get now db (jobKeyV2 jobId)) (\<lambda>raw.
     if falsy_raw raw then Inr None
     else case raw of None \<Rightarrow> Inr None
       | Some p \<Rightarrow> ebind (emap_err SchemaFailure (parseJobRecordV2 p)) (\<lambda>j. Inr (Some j)))"

definition getAttempt :: "int \<Rightarrow> redis \<Rightarrow> string \<Rightarrow> store_error + attempt option" where
  "getAttempt now db attemptId = ebind (store_get now db (attemptKeyV1 attemptId)) (\<lambda>raw.
     if falsy_raw raw then Inr None
     else case raw of None \<Rightarrow> Inr None
       | Some p \<Rightarrow> ebind (emap_err SchemaFailure (parseAttemptRecordV1 p)) (\<lambda>a. Inr (Some a)))"

definition getRequestJobId :: "int \<Rightarrow> redis \<Rightarrow> string \<Rightarrow> string \<Rightarrow> string \<Rightarrow> store_error + string option" where
  "getRequestJobId now db userId workspaceId requestId =
     ebind (store_get now db (requestKeyV2 userId workspaceId requestId)) (\<lambda>raw. Inr (map_option payload_text raw))"

section \<open>Create\<close>

definition create_error :: "job \<Rightarrow> string \<Rightarrow> jobject \<Rightarrow> store_error" where
  "create_error job err m =
     (if err = ''TARGET_DELETE_FENCED'' then V2TargetDeleteFencedError (reply_target m (j_target_id job))
      else if err = ''IDEMPOTENCY_CONFLICT'' then V2IdempotencyConflictError
      else V2StoreError err)"

text \<open>The request already has a job: compare it with the one submitted.\<close>

definition resolve_existing :: "int \<Rightarrow> redis \<Rightarrow> job \<Rightarrow> string \<Rightarrow> string \<Rightarrow> store_error + create_outcome" where
  "resolve_existing now db job requestId existingJobId =
     ebind (store_get now db (jobKeyV2 existingJobId)) (\<lambda>rawJob.
       case rawJob of
         None \<Rightarrow> Inl (V2StoreError ''CORRUPT_SUBMISSION_REFERENCE'')
       | Some p \<Rightarrow>
          if falsy_raw rawJob then Inl (V2StoreError ''CORRUPT_SUBMISSION_REFERENCE'')
          else case parseJobRecordV2 p of
            Inl _ \<Rightarrow> Inl (V2StoreError ''MALFORMED_JOB_RECORD'')
          | Inr existing \<Rightarrow>
             if j_user_id existing \<noteq> j_user_id job \<or> j_workspace_id existing \<noteq> j_workspace_id job
                \<or> j_request_id existing \<noteq> requestId
             then Inl V2IdempotencyConflictError
             else if j_status existing = JS_preparing then Inl (V2StoreError ''INCOMPLETE_SUBMISSION'')
             else if j_request_digest existing \<noteq> j_request_digest job then Inl V2IdempotencyConflictError
             else Inr \<lparr>cr_status = ''replayed'', cr_job_id = j_job_id existing,
                       cr_stream_entry_id = j_stream_entry_id existing\<rparr>)"

definition createJob :: "int \<Rightarrow> redis \<Rightarrow> job \<Rightarrow> string \<Rightarrow> create_outcome store_result" where
  "createJob now db job requestId = (case serializeJobRecordV2 job of
      Inl e \<Rightarrow> (db, Inl (SchemaFailure e))
    | Inr serialized \<Rightarrow>
       (case V2_CREATE_JOB_SCRIPT now db (requestKeyV2 (j_user_id job) (j_workspace_id job) requestId)
               (jobKeyV2 (j_job_id job)) KEY_STREAM_V2 (targetQueueKeyV1 (j_target_id job))
               (targetDeleteFenceKeyV1 (j_target_id job)) (j_job_id job) (j_user_id job) (j_workspace_id job)
               (j_target_id job) (show_int (j_created_at_ms job)) serialized of
          (db', reply) \<Rightarrow>
            (db', ebind (parsed_reply reply (create_error job)) (\<lambda>parsed.
               if jfield parsed ''status'' = Some (JStr ''existing_request'')
               then resolve_existing now db' job requestId (string_of (jfield parsed ''job_id''))
               else Inr \<lparr>cr_status = string_of (jfield parsed ''status''), cr_job_id = string_of (jfield parsed ''job_id''),
                         cr_stream_entry_id = (if js_truthy (jfield parsed ''stream_entry_id'')
                           then Some (string_of (jfield parsed ''stream_entry_id'')) else None)\<rparr>))))"

section \<open>Claim, start, report, record a result, cancel\<close>

definition claim_error :: "string \<Rightarrow> string \<Rightarrow> jobject \<Rightarrow> store_error" where
  "claim_error expected_target err m =
     (if err = ''JOB_NOT_FOUND'' then V2JobNotFoundError
      else if err = ''TARGET_DELETE_FENCED'' then V2TargetDeleteFencedError (reply_target m expected_target)
      else if err = ''JOB_ALREADY_CLAIMED'' then V2JobAlreadyClaimedError
      else if err = ''JOB_EXPIRED'' then V2JobExpiredError
      else if err = ''JOB_FINISHED'' then V2JobFinishedError
      else if err = ''IDEMPOTENCY_CONFLICT'' \<or> err = ''ATTEMPT_ID_COLLISION'' then V2IdempotencyConflictError
      else if err = ''NOT_OWNER_REPLAY'' then V2JobNotFoundError
      else V2StoreError err)"

definition attempt_reply :: "(string \<Rightarrow> jobject \<Rightarrow> store_error) \<Rightarrow> script_reply \<Rightarrow> store_error + attempt_outcome" where
  "attempt_reply on_error reply = ebind (parsed_reply reply on_error) (\<lambda>parsed.
     ebind (parsed_attempt parsed) (\<lambda>a.
     Inr \<lparr>ao_status = string_of (jfield parsed ''status''), ao_attempt = a,
          ao_server_time_ms = number_of (jfield parsed ''server_time_ms'')\<rparr>))"

definition store_claimJob ::
  "int \<Rightarrow> redis \<Rightarrow> job_id \<Rightarrow> ws_id \<Rightarrow> target_id \<Rightarrow> device_id \<Rightarrow> binding_id \<Rightarrow> attempt_id \<Rightarrow> digest \<Rightarrow> bool \<Rightarrow> attempt_outcome store_result" where
  "store_claimJob now db jobId workspaceId targetId deviceId bindingId attemptId token replayOnly =
     (case V2_CLAIM_JOB_SCRIPT now db (jobKeyV2 jobId) (targetQueueKeyV1 targetId) (jobAttemptsKeyV1 jobId)
             (attemptKeyV1 attemptId) (targetDeleteFenceKeyV1 targetId)
             jobId workspaceId targetId deviceId bindingId attemptId token replayOnly of
        (db', reply) \<Rightarrow> (db', attempt_reply (claim_error targetId) reply))"

definition start_error :: "string \<Rightarrow> jobject \<Rightarrow> store_error" where
  "start_error err m =
     (if err = ''JOB_NOT_FOUND'' then V2JobNotFoundError
      else if err \<in> {''ATTEMPT_NOT_FOUND'', ''JOB_NOT_ACTIVE'', ''IDENTITY_MISMATCH'', ''CORRUPT_ATTEMPT_RECORD'',
                     ''INVALID_ATTEMPT_PHASE''}
      then V2AttemptLifecycleError err
      else V2StoreError err)"

definition store_startJob :: "int \<Rightarrow> redis \<Rightarrow> string \<Rightarrow> string \<Rightarrow> string \<Rightarrow> string \<Rightarrow> attempt_outcome store_result" where
  "store_startJob now db jobId attemptId deviceId token =
     (case V2_START_JOB_SCRIPT now db (jobKeyV2 jobId) (attemptKeyV1 attemptId) attemptId deviceId token of
        (db', reply) \<Rightarrow> (db', attempt_reply start_error reply))"

text \<open>The tests \<^verbatim>\<open>err.startsWith("INVALID_") || err.includes("REPORT")\<close> catch every other report error.\<close>

definition report_error_of :: "string \<Rightarrow> jobject \<Rightarrow> store_error" where
  "report_error_of err m =
     (if err = ''JOB_NOT_FOUND'' then V2JobNotFoundError
      else if err = ''REPORT_CONFLICT'' then V2ReportConflictError err
      else if err \<in> {''ATTEMPT_NOT_FOUND'', ''ATTEMPT_MISMATCH'', ''IDENTITY_MISMATCH'', ''INVALID_JOB_STATUS'',
                     ''INVALID_ATTEMPT_PHASE'', ''CORRUPT_ATTEMPT_RECORD'', ''DISPATCHED_REPORT_REQUIRES_RUNNING''}
              \<or> strip_prefix ''INVALID_'' err \<noteq> None \<or> contains ''REPORT'' err
      then V2AttemptLifecycleError err
      else V2StoreError err)"

definition store_reportJob ::
  "int \<Rightarrow> redis \<Rightarrow> string \<Rightarrow> string \<Rightarrow> string \<Rightarrow> string \<Rightarrow> exec_report \<Rightarrow> (string \<times> int) store_result" where
  "store_reportJob now db jobId attemptId deviceId token report =
     (case V2_REPORT_JOB_SCRIPT now db (jobKeyV2 jobId) (attemptKeyV1 attemptId) attemptId deviceId token
             (Json (JObj (report_obj report))) of
        (db', reply) \<Rightarrow> (db', ebind (parsed_reply reply report_error_of) (\<lambda>parsed.
           Inr (string_of (jfield parsed ''status''), number_of (jfield parsed ''server_time_ms'')))))"

definition record_error :: "string \<Rightarrow> jobject \<Rightarrow> store_error" where
  "record_error err m =
     (if err = ''JOB_NOT_FOUND'' then V2JobNotFoundError
      else if err = ''STALE_RESULT_SUBMISSION'' \<or> err = ''RESULT_CONFLICT'' then V2ReportConflictError err
      else if err \<in> {''ATTEMPT_NOT_FOUND'', ''ATTEMPT_MISMATCH'', ''IDENTITY_MISMATCH'', ''INVALID_JOB_STATUS'',
                     ''INVALID_ATTEMPT_PHASE'', ''CORRUPT_ATTEMPT_RECORD'', ''CORRUPT_JOB_RECORD'', ''MALFORMED_RESULT''}
      then V2AttemptLifecycleError err
      else V2StoreError err)"

definition recordJobResult ::
  "int \<Rightarrow> redis \<Rightarrow> string \<Rightarrow> string \<Rightarrow> string \<Rightarrow> string \<Rightarrow> job_result \<Rightarrow> string option \<Rightarrow> result_outcome store_result" where
  "recordJobResult now db jobId attemptId deviceId token result delivery_mode =
     (case V2_RECORD_RESULT_SCRIPT now db (jobKeyV2 jobId) (attemptKeyV1 attemptId) deviceId token
             (Json (JObj (result_obj result)))
             (case delivery_mode of None \<Rightarrow> ''automatic'' | Some m \<Rightarrow> m) of
        (db', reply) \<Rightarrow> (db', ebind (parsed_reply reply record_error) (\<lambda>parsed.
           Inr \<lparr>ro_status = string_of (jfield parsed ''status''),
                ro_server_time_ms = number_of (jfield parsed ''server_time_ms''),
                ro_commit = string_of (jfield parsed ''commit''),
                ro_resource_id = string_of (jfield parsed ''resource_id'')\<rparr>)))"

definition cancel_error :: "string \<Rightarrow> jobject \<Rightarrow> store_error" where
  "cancel_error err m =
     (if err = ''JOB_NOT_FOUND'' then V2JobNotFoundError
      else if err = ''CANCEL_RACE'' then V2CancelRaceError
      else V2StoreError err)"

definition store_cancelJob ::
  "int \<Rightarrow> redis \<Rightarrow> string \<Rightarrow> string option \<Rightarrow> string \<Rightarrow> string \<Rightarrow> string \<Rightarrow> string \<Rightarrow> cancel_outcome store_result" where
  "store_cancelJob now db jobId expected_attempt_id expected_target_id deviceId reason receipt =
     (let expectedAttemptId = (case expected_attempt_id of None \<Rightarrow> [] | Some a \<Rightarrow> a) in
      case V2_CANCEL_JOB_SCRIPT now db (jobKeyV2 jobId)
             (attemptKeyV1 (if expectedAttemptId = [] then ''none'' else expectedAttemptId))
             (targetQueueKeyV1 expected_target_id) expectedAttemptId deviceId reason receipt of
        (db', reply) \<Rightarrow> (db', ebind (parsed_reply reply cancel_error) (\<lambda>parsed.
           Inr \<lparr>co_status = string_of (jfield parsed ''status''), co_result = string_of (jfield parsed ''result''),
                co_execution_status = string_of (jfield parsed ''execution_status''),
                co_business_outcome = string_of (jfield parsed ''business_outcome''),
                co_attempt_id = (if is_nullish (jfield parsed ''attempt_id'') then None
                                 else Some (string_of (jfield parsed ''attempt_id''))),
                co_server_time_ms = number_of (jfield parsed ''server_time_ms'')\<rparr>)))"

section \<open>Target queue and stream\<close>

definition getQueuedJobIdsForTarget :: "int \<Rightarrow> redis \<Rightarrow> string \<Rightarrow> int \<Rightarrow> store_error + (string \<times> rat) list" where
  "getQueuedJobIdsForTarget now db targetId limit =
     emap_err (\<lambda>_. RedisReplyError ''WRONGTYPE'')
       (redis_zrangeWithScores now db (targetQueueKeyV1 targetId) 0 (nat (max 0 (limit - 1))))"

definition pruneTargetQueue :: "int \<Rightarrow> redis \<Rightarrow> string \<Rightarrow> string list \<Rightarrow> int store_result" where
  "pruneTargetQueue now db targetId jobIds =
     (if jobIds = [] then (db, Inr 0)
      else case redis_zrem now (targetQueueKeyV1 targetId) jobIds db of
        Inl _ \<Rightarrow> (db, Inl (RedisReplyError ''WRONGTYPE''))
      | Inr (db', n) \<Rightarrow> (db', Inr n))"

definition readJobStreamReverse ::
  "int \<Rightarrow> redis \<Rightarrow> string option \<Rightarrow> nat \<Rightarrow> store_error + (string \<times> (string \<times> string) list) list" where
  "readJobStreamReverse now db beforeExclusive count =
     ebind (emap_err (\<lambda>_. RedisReplyError ''ERR'') (redis_xrevrange now db KEY_STREAM_V2 beforeExclusive count))
       (\<lambda>rows. Inr (map (\<lambda>r. (show_entry_id (fst r), snd r)) rows))"

text \<open>XRANGE from an exclusive lower bound, by default \<^verbatim>\<open>0-0\<close>.\<close>

definition scanJobStream ::
  "int \<Rightarrow> redis \<Rightarrow> string option \<Rightarrow> nat \<Rightarrow> store_error + (string \<times> (string \<times> string) list) list" where
  "scanJobStream now db afterExclusive count =
     (case stream_at now db KEY_STREAM_V2 of
        Inl _ \<Rightarrow> Inl (RedisReplyError ''WRONGTYPE'')
      | Inr s \<Rightarrow> (case parse_entry_id (case afterExclusive of None \<Rightarrow> ''0-0'' | Some a \<Rightarrow> a) of
          None \<Rightarrow> Inl (RedisReplyError ''ERR'')
        | Some i \<Rightarrow> Inr (map (\<lambda>r. (show_entry_id (fst r), snd r)) (take count (filter (\<lambda>e. i < fst e) s)))))"

section \<open>The delete fence\<close>

definition acquireTargetDeleteFence :: "int \<Rightarrow> int \<Rightarrow> redis \<Rightarrow> string \<Rightarrow> string \<Rightarrow> redis \<times> bool" where
  "acquireTargetDeleteFence now date_now db targetId token =
     redis_setNxPx now (targetDeleteFenceKeyV1 targetId) (Text (fence_text date_now token)) TARGET_DELETE_FENCE_TTL_MS db"

definition takeoverStaleTargetDeleteFence :: "int \<Rightarrow> int \<Rightarrow> redis \<Rightarrow> string \<Rightarrow> string \<Rightarrow> redis \<times> bool" where
  "takeoverStaleTargetDeleteFence now date_now db targetId token =
     redis_setXxPx now (targetDeleteFenceKeyV1 targetId) (Text (fence_text date_now token)) TARGET_DELETE_FENCE_TTL_MS db"

definition getTargetDeleteFence :: "int \<Rightarrow> redis \<Rightarrow> string \<Rightarrow> store_error + string option" where
  "getTargetDeleteFence now db targetId =
     ebind (store_get now db (targetDeleteFenceKeyV1 targetId)) (\<lambda>v. Inr (map_option payload_text v))"

definition touchTargetDeleteFence :: "int \<Rightarrow> redis \<Rightarrow> string \<Rightarrow> string \<Rightarrow> bool store_result" where
  "touchTargetDeleteFence now db targetId token =
     (case V2_TOUCH_DELETE_FENCE_SCRIPT now db (targetDeleteFenceKeyV1 targetId) token TARGET_DELETE_FENCE_TTL_MS of
        (db', ErrorReply e) \<Rightarrow> (db', Inl (RedisReplyError e))
      | (db', IntReply i) \<Rightarrow> (db', Inr (i = 1))
      | (db', JsonReply _) \<Rightarrow> (db', Inr False))"

text \<open>
  Release is a read followed by a delete, two commands: \<open>env\<close> is what time and other clients do to
  the key space in between.
\<close>

definition releaseTargetDeleteFence ::
  "(int \<times> redis \<Rightarrow> int \<times> redis) \<Rightarrow> int \<times> redis \<Rightarrow> string \<Rightarrow> string \<Rightarrow> (int \<times> redis) \<times> (store_error + bool)" where
  "releaseTargetDeleteFence env m targetId token =
     (case getTargetDeleteFence (fst m) (snd m) targetId of
        Inl e \<Rightarrow> (m, Inl e)
      | Inr None \<Rightarrow> (m, Inr False)
      | Inr (Some v) \<Rightarrow>
         (case index_of (CHR '':'') v of
            None \<Rightarrow> (m, Inr False)
          | Some sep \<Rightarrow>
             if drop (Suc sep) v = token
             then (case env m of (now, db) \<Rightarrow>
                   case redis_del now (targetDeleteFenceKeyV1 targetId) db of (db', n) \<Rightarrow> ((now, db'), Inr (n > 0)))
             else (m, Inr False)))"

end
