(* ===== verification/Job_Machine.thy ===== *)
theory Job_Machine
  imports Job_Store
begin

text \<open>
  The abstract job queue: what the scripts promise, stated on typed records, with no JSON, no key
  layout and no dynamic typing. Jobs and attempts are partial maps, a target queue is a set of job
  ids, and each script is a function on that state. The refinement theorems are in the theory
  \<open>Job_Refinement\<close>; the invariant of the machine and its preservation are here.
\<close>

section \<open>State\<close>

record queue_state =
  q_jobs :: "string \<Rightarrow> job option"
  q_attempts :: "string \<Rightarrow> attempt option"
  q_queue :: "string \<Rightarrow> string set"
  q_requests :: "string \<Rightarrow> string option"
  q_stream :: stream

definition empty_state :: queue_state where
  "empty_state = \<lparr>q_jobs = \<lambda>_. None, q_attempts = \<lambda>_. None, q_queue = \<lambda>_. {}, q_requests = \<lambda>_. None, q_stream = []\<rparr>"

definition set_job :: "string \<Rightarrow> job \<Rightarrow> queue_state \<Rightarrow> queue_state" where
  "set_job jid j S = S\<lparr>q_jobs := (q_jobs S)(jid \<mapsto> j)\<rparr>"

definition set_attempt :: "string \<Rightarrow> attempt \<Rightarrow> queue_state \<Rightarrow> queue_state" where
  "set_attempt aid a S = S\<lparr>q_attempts := (q_attempts S)(aid \<mapsto> a)\<rparr>"

definition dequeue :: "string \<Rightarrow> string \<Rightarrow> queue_state \<Rightarrow> queue_state" where
  "dequeue t jid S = S\<lparr>q_queue := (q_queue S)(t := q_queue S t - {jid})\<rparr>"

definition enqueue :: "string \<Rightarrow> string \<Rightarrow> queue_state \<Rightarrow> queue_state" where
  "enqueue t jid S = S\<lparr>q_queue := (q_queue S)(t := insert jid (q_queue S t))\<rparr>"

section \<open>Operations\<close>

datatype create_out = CreateExisting string | CreateFenced | CreateCollision | Created string

definition stream_row :: "job \<Rightarrow> (string \<times> string) list" where
  "stream_row job = stream_fields \<lparr>s_job_id = j_job_id job, s_user_id = j_user_id job,
     s_workspace_id = j_workspace_id job, s_target_id = j_target_id job, s_created_at_ms = j_created_at_ms job\<rparr>"

definition machine_create :: "int \<Rightarrow> bool \<Rightarrow> job \<Rightarrow> string \<Rightarrow> queue_state \<Rightarrow> queue_state \<times> create_out" where
  "machine_create now fenced job requestId S =
     (let key = requestKeyV2 (j_user_id job) (j_workspace_id job) requestId; jid = j_job_id job in
      case q_requests S key of
        Some existing \<Rightarrow> (S, CreateExisting existing)
      | None \<Rightarrow>
         if fenced then (S, CreateFenced)
         else if q_jobs S jid \<noteq> None then (S, CreateCollision)
         else let i = next_entry_id now (q_stream S); entry = show_entry_id i
              in (enqueue (j_target_id job) jid
                   (set_job jid (job\<lparr>j_status := JS_queued, j_stream_entry_id := Some entry, j_latest_attempt_id := None\<rparr>)
                     (S\<lparr>q_requests := (q_requests S)(key \<mapsto> jid), q_stream := q_stream S @ [(i, stream_row job)]\<rparr>)),
                  Created entry))"

datatype attempt_out = Refused string | FencedOut | Granted string attempt

definition new_attempt :: "int \<Rightarrow> job \<Rightarrow> string \<Rightarrow> string \<Rightarrow> string \<Rightarrow> string \<Rightarrow> attempt" where
  "new_attempt now j deviceId bindingId attemptId token =
     \<lparr>a_attempt_id = attemptId, a_job_id = j_job_id j, a_user_id = j_user_id j, a_workspace_id = j_workspace_id j,
      a_target_id = j_target_id j, a_device_id = deviceId, a_target_binding_id = bindingId,
      a_claim_token_sha256 = token, a_phase = AP_claimed, a_claimed_at_ms = now, a_started_at_ms = None,
      a_report = None, a_result = None\<rparr>"

definition machine_claim ::
  "int \<Rightarrow> bool \<Rightarrow> job_id \<Rightarrow> ws_id \<Rightarrow> target_id \<Rightarrow> device_id \<Rightarrow> binding_id \<Rightarrow> attempt_id \<Rightarrow> digest \<Rightarrow> bool \<Rightarrow> queue_state \<Rightarrow> queue_state \<times> attempt_out" where
  "machine_claim now fenced jobId workspaceId targetId deviceId bindingId attemptId token replayOnly S =
     (if fenced then (S, FencedOut)
      else case q_jobs S jobId of
        None \<Rightarrow> (S, Refused ''JOB_NOT_FOUND'')
      | Some j \<Rightarrow>
         if j_workspace_id j \<noteq> workspaceId \<or> j_target_id j \<noteq> targetId then (S, Refused ''JOB_NOT_FOUND'')
         else if j_latest_attempt_id j = Some attemptId
         then (case q_attempts S attemptId of
                 None \<Rightarrow> (S, Refused ''CORRUPT_ATTEMPT_RECORD'')
               | Some a \<Rightarrow>
                  if a_device_id a \<noteq> deviceId \<or> a_claim_token_sha256 a \<noteq> token then (S, Refused ''IDEMPOTENCY_CONFLICT'')
                  else if a_phase a = AP_terminal then (S, Refused ''JOB_FINISHED'')
                  else (S, Granted ''replayed'' a))
         else if replayOnly then (S, Refused ''NOT_OWNER_REPLAY'')
         else if j_status j \<noteq> JS_queued then (S, Refused ''JOB_ALREADY_CLAIMED'')
         else if j_claim_deadline_ms j \<le> now then (dequeue targetId jobId S, Refused ''JOB_EXPIRED'')
         else if q_attempts S attemptId \<noteq> None then (S, Refused ''ATTEMPT_ID_COLLISION'')
         else let a = new_attempt now j deviceId bindingId attemptId token
              in (dequeue targetId jobId
                   (set_job jobId (j\<lparr>j_status := JS_active, j_latest_attempt_id := Some attemptId\<rparr>)
                     (set_attempt attemptId a S)),
                  Granted ''claimed'' a))"

definition machine_start ::
  "int \<Rightarrow> string \<Rightarrow> string \<Rightarrow> string \<Rightarrow> string \<Rightarrow> queue_state \<Rightarrow> queue_state \<times> attempt_out" where
  "machine_start now jobId attemptId deviceId token S =
     (case q_jobs S jobId of
        None \<Rightarrow> (S, Refused ''JOB_NOT_FOUND'')
      | Some j \<Rightarrow> (case q_attempts S attemptId of
          None \<Rightarrow> (S, Refused ''ATTEMPT_NOT_FOUND'')
        | Some a \<Rightarrow>
           if j_status j \<noteq> JS_active \<or> j_latest_attempt_id j \<noteq> Some attemptId then (S, Refused ''JOB_NOT_ACTIVE'')
           else if a_device_id a \<noteq> deviceId \<or> a_claim_token_sha256 a \<noteq> token then (S, Refused ''IDENTITY_MISMATCH'')
           else if a_phase a = AP_running then (S, Granted ''replayed'' a)
           else let a' = a\<lparr>a_phase := AP_running, a_started_at_ms := Some now\<rparr>
                in (set_attempt attemptId a' S, Granted ''started'' a')))"

datatype report_out = ReportRefused string | Reported string

definition received :: "int \<Rightarrow> exec_report \<Rightarrow> persisted_report" where
  "received now r = exec_report.extend r (persisted_report.fields now)"

definition machine_report ::
  "int \<Rightarrow> string \<Rightarrow> string \<Rightarrow> string \<Rightarrow> string \<Rightarrow> exec_report \<Rightarrow> queue_state \<Rightarrow> queue_state \<times> report_out" where
  "machine_report now jobId attemptId deviceId token rep S =
     (case q_jobs S jobId of
        None \<Rightarrow> (S, ReportRefused ''JOB_NOT_FOUND'')
      | Some j \<Rightarrow> (case q_attempts S attemptId of
          None \<Rightarrow> (S, ReportRefused ''ATTEMPT_NOT_FOUND'')
        | Some a \<Rightarrow>
           if j_latest_attempt_id j \<noteq> Some attemptId then (S, ReportRefused ''ATTEMPT_MISMATCH'')
           else if a_device_id a \<noteq> deviceId \<or> a_claim_token_sha256 a \<noteq> token then (S, ReportRefused ''IDENTITY_MISMATCH'')
           else (case a_report a of
               Some r \<Rightarrow> if exec_report.truncate r = rep then (S, Reported ''replayed'')
                         else (S, ReportRefused ''REPORT_CONFLICT'')
             | None \<Rightarrow>
                if r_task_dispatched rep \<and> a_phase a \<noteq> AP_running
                then (S, ReportRefused ''DISPATCHED_REPORT_REQUIRES_RUNNING'')
                else (set_job jobId (j\<lparr>j_status := JS_terminal\<rparr>)
                        (set_attempt attemptId (a\<lparr>a_phase := AP_terminal, a_report := Some (received now rep)\<rparr>) S),
                      Reported ''reported''))))"

definition machine_record ::
  "int \<Rightarrow> string \<Rightarrow> string \<Rightarrow> string \<Rightarrow> string \<Rightarrow> job_result \<Rightarrow> bool \<Rightarrow> queue_state \<Rightarrow> queue_state \<times> (string + string \<times> job_result)" where
  "machine_record now jobId attemptId deviceId token res redelivery S =
     (case q_jobs S jobId of
        None \<Rightarrow> (S, Inl ''JOB_NOT_FOUND'')
      | Some j \<Rightarrow> (case q_attempts S attemptId of
          None \<Rightarrow> (S, Inl ''ATTEMPT_NOT_FOUND'')
        | Some a \<Rightarrow>
           if a_job_id a \<noteq> jobId then (S, Inl ''ATTEMPT_MISMATCH'')
           else if a_device_id a \<noteq> deviceId \<or> a_claim_token_sha256 a \<noteq> token then (S, Inl ''IDENTITY_MISMATCH'')
           else let fresh = res\<lparr>res_received_at_ms := now\<rparr>;
                    S' = set_attempt attemptId (a\<lparr>a_result := Some fresh\<rparr>) S
                in (case a_result a of
                      Some old \<Rightarrow>
                        if res_payload_sha256 old = res_payload_sha256 res \<and> res_resource_id old = res_resource_id res
                        then (S, Inr (''replayed'', old))
                        else if \<not> redelivery then (S, Inl ''STALE_RESULT_SUBMISSION'')
                        else (S', Inr (''recorded'', fresh))
                    | None \<Rightarrow> (S', Inr (''recorded'', fresh)))))"

datatype cancel_out = CancelRefused string | CancelDone string string execution_status business_outcome "string option"

definition operator_report :: "int \<Rightarrow> attempt \<Rightarrow> string \<Rightarrow> persisted_report" where
  "operator_report now a receipt =
     \<lparr>r_execution_status = ES_CANCELLED,
      r_business_outcome = (if a_phase a = AP_running then BO_UNVERIFIED else BO_NOT_STARTED),
      r_task_dispatched = (a_phase a = AP_running), r_finished_at_ms = now,
      r_duration_ms = (if a_phase a = AP_running
        then max 0 (now - (case a_started_at_ms a of None \<Rightarrow> now | Some t \<Rightarrow> t)) else 0),
      r_executor = \<lparr>ex_type = ''operator'', ex_version = ''1.0.0''\<rparr>, r_receipt_sha256 = receipt,
      r_error = Some \<lparr>er_stage = ''orchestration'', er_code = ''OPERATOR_CANCELLED'',
        er_message = ''Job cancelled by operator before completion.''\<rparr>,
      r_received_at_ms = now\<rparr>"

definition machine_cancel ::
  "int \<Rightarrow> string \<Rightarrow> string option \<Rightarrow> string \<Rightarrow> string \<Rightarrow> string \<Rightarrow> queue_state \<Rightarrow> queue_state \<times> cancel_out" where
  "machine_cancel now jobId expected deviceId reason receipt S =
     (case q_jobs S jobId of
        None \<Rightarrow> (S, CancelRefused ''JOB_NOT_FOUND'')
      | Some j \<Rightarrow>
         let c = \<lparr>c_cancelled_at_ms = now, c_requested_by_device_id = deviceId, c_reason = reason\<rparr> in
         if j_status j = JS_terminal
         then (if j_latest_attempt_id j = None
               then (S, CancelDone ''replayed'' ''already_cancelled'' ES_CANCELLED BO_NOT_STARTED None)
               else (case Option.bind expected (\<lambda>aid. Option.bind (q_attempts S aid) a_report) of
                   None \<Rightarrow> (S, CancelRefused ''CORRUPT_ATTEMPT_RECORD'')
                 | Some r \<Rightarrow>
                     if r_execution_status r = ES_CANCELLED
                     then (S, CancelDone ''replayed'' ''already_cancelled'' ES_CANCELLED (r_business_outcome r) expected)
                     else (S, CancelDone ''no_change'' ''already_terminal'' (r_execution_status r) (r_business_outcome r) expected)))
         else if j_latest_attempt_id j \<noteq> expected then (S, CancelRefused ''CANCEL_RACE'')
         else (case expected of
                 Some aid \<Rightarrow> (case q_attempts S aid of
                     Some a \<Rightarrow>
                       (set_job jobId (j\<lparr>j_status := JS_terminal, j_cancel := Some c\<rparr>)
                          (set_attempt aid (a\<lparr>a_phase := AP_terminal, a_report := Some (operator_report now a receipt)\<rparr>) S),
                        CancelDone ''cancelled'' ''cancelled'' ES_CANCELLED
                          (if a_phase a = AP_running then BO_UNVERIFIED else BO_NOT_STARTED) (Some aid))
                   | None \<Rightarrow> (S, CancelRefused ''CORRUPT_ATTEMPT_RECORD''))
               | None \<Rightarrow>
                   (set_job jobId (j\<lparr>j_status := JS_terminal, j_cancel := Some c\<rparr>) (dequeue (j_target_id j) jobId S),
                    CancelDone ''cancelled'' ''cancelled'' ES_CANCELLED BO_NOT_STARTED None)))"

section \<open>The invariant\<close>

text \<open>
  An attempt without its managed result is well-formed, and the result, if any, is a valid result of
  this attempt. Whether the phase admits a result is a separate question: the result script does
  not ask it.
\<close>

definition attempt_core_ok :: "attempt \<Rightarrow> bool" where
  "attempt_core_ok a \<longleftrightarrow> attempt_ok (a\<lparr>a_result := None\<rparr>) \<and> own_result_ok a"

definition result_allowed :: "attempt \<Rightarrow> bool" where
  "result_allowed a \<longleftrightarrow> a_result a = None \<or> a_phase a = AP_running
     \<or> (\<exists>r. a_report a = Some r \<and> r_task_dispatched r)"

definition job_inv :: "queue_state \<Rightarrow> string \<Rightarrow> job \<Rightarrow> bool" where
  "job_inv S jid j \<longleftrightarrow> job_ok j \<and> job_short j \<and> j_job_id j = jid \<and> j_status j \<noteq> JS_preparing
     \<and> (j_cancel j \<noteq> None \<longrightarrow> j_status j = JS_terminal)
     \<and> (\<forall>aid. j_latest_attempt_id j = Some aid \<longrightarrow> (\<exists>a. q_attempts S aid = Some a \<and> a_job_id a = jid))"

definition attempt_of_job :: "attempt \<Rightarrow> job \<Rightarrow> bool" where
  "attempt_of_job a j \<longleftrightarrow> j_latest_attempt_id j = Some (a_attempt_id a) \<and> a_user_id a = j_user_id j
     \<and> a_workspace_id a = j_workspace_id j \<and> a_target_id a = j_target_id j
     \<and> (j_status j = JS_active \<or> j_status j = JS_terminal) \<and> (a_phase a = AP_terminal \<longleftrightarrow> j_status j = JS_terminal)"

definition attempt_inv :: "int \<Rightarrow> queue_state \<Rightarrow> string \<Rightarrow> attempt \<Rightarrow> bool" where
  "attempt_inv now S aid a \<longleftrightarrow> attempt_core_ok a \<and> attempt_short a \<and> a_attempt_id a = aid
     \<and> a_claimed_at_ms a \<le> now \<and> (\<exists>j. q_jobs S (a_job_id a) = Some j \<and> attempt_of_job a j)"

definition queue_inv :: "queue_state \<Rightarrow> bool" where
  "queue_inv S \<longleftrightarrow> (\<forall>t. \<forall>jid \<in> q_queue S t. \<exists>j. q_jobs S jid = Some j \<and> j_target_id j = t \<and> j_status j = JS_queued)"

definition request_inv :: "queue_state \<Rightarrow> bool" where
  "request_inv S \<longleftrightarrow> (\<forall>k jid. q_requests S k = Some jid \<longrightarrow>
     (\<exists>j. q_jobs S jid = Some j \<and> k = requestKeyV2 (j_user_id j) (j_workspace_id j) (j_request_id j)))"

definition stream_inv :: "queue_state \<Rightarrow> bool" where
  "stream_inv S \<longleftrightarrow> stream_sorted (q_stream S) \<and> (\<forall>e \<in> set (q_stream S). (0, 0) < fst e)
     \<and> (\<forall>e \<in> set (q_stream S). \<exists>jid j. q_jobs S jid = Some j \<and> snd e = stream_row j
          \<and> j_stream_entry_id j = Some (show_entry_id (fst e)))
     \<and> (\<forall>jid j. q_jobs S jid = Some j \<longrightarrow>
          (\<exists>e \<in> set (q_stream S). snd e = stream_row j \<and> j_stream_entry_id j = Some (show_entry_id (fst e))))"

definition machine_inv :: "int \<Rightarrow> queue_state \<Rightarrow> bool" where
  "machine_inv now S \<longleftrightarrow> (\<forall>jid j. q_jobs S jid = Some j \<longrightarrow> job_inv S jid j)
     \<and> (\<forall>aid a. q_attempts S aid = Some a \<longrightarrow> attempt_inv now S aid a)
     \<and> queue_inv S \<and> request_inv S \<and> stream_inv S"

lemmas state_defs = set_job_def set_attempt_def dequeue_def enqueue_def

lemma state_simps [simp]:
  "q_jobs (set_job jid j S) = (q_jobs S)(jid \<mapsto> j)" "q_attempts (set_job jid j S) = q_attempts S"
  "q_queue (set_job jid j S) = q_queue S" "q_requests (set_job jid j S) = q_requests S"
  "q_stream (set_job jid j S) = q_stream S"
  "q_attempts (set_attempt aid a S) = (q_attempts S)(aid \<mapsto> a)" "q_jobs (set_attempt aid a S) = q_jobs S"
  "q_queue (set_attempt aid a S) = q_queue S" "q_requests (set_attempt aid a S) = q_requests S"
  "q_stream (set_attempt aid a S) = q_stream S"
  "q_queue (dequeue t jid S) = (q_queue S)(t := q_queue S t - {jid})" "q_jobs (dequeue t jid S) = q_jobs S"
  "q_attempts (dequeue t jid S) = q_attempts S" "q_requests (dequeue t jid S) = q_requests S"
  "q_stream (dequeue t jid S) = q_stream S"
  "q_queue (enqueue t jid S) = (q_queue S)(t := insert jid (q_queue S t))" "q_jobs (enqueue t jid S) = q_jobs S"
  "q_attempts (enqueue t jid S) = q_attempts S" "q_requests (enqueue t jid S) = q_requests S"
  "q_stream (enqueue t jid S) = q_stream S"
  by (simp_all add: state_defs)

lemma machine_inv_jobD: "machine_inv now S \<Longrightarrow> q_jobs S jid = Some j \<Longrightarrow> job_inv S jid j"
  by (simp add: machine_inv_def)

lemma machine_inv_attemptD: "machine_inv now S \<Longrightarrow> q_attempts S aid = Some a \<Longrightarrow> attempt_inv now S aid a"
  by (simp add: machine_inv_def)

lemma machine_inv_empty: "machine_inv now empty_state"
  by (simp add: machine_inv_def empty_state_def queue_inv_def request_inv_def stream_inv_def stream_sorted_def)

lemma machine_inv_mono: "machine_inv now S \<Longrightarrow> now \<le> now' \<Longrightarrow> machine_inv now' S"
  by (fastforce simp: machine_inv_def attempt_inv_def)

lemma attempt_linked:
  assumes "machine_inv now S" and "q_attempts S aid = Some a"
  obtains j where "q_jobs S (a_job_id a) = Some j" and "attempt_of_job a j" and "a_attempt_id a = aid"
    and "job_inv S (a_job_id a) j"
  using machine_inv_attemptD [OF assms] machine_inv_jobD [OF assms(1)] by (auto simp: attempt_inv_def)

lemma job_linked:
  assumes "machine_inv now S" and "q_jobs S jid = Some j" and "j_latest_attempt_id j = Some aid"
  obtains a where "q_attempts S aid = Some a" and "a_job_id a = jid" and "a_attempt_id a = aid" and "attempt_of_job a j"
    and "attempt_inv now S aid a"
proof -
  obtain a where a: "q_attempts S aid = Some a" "a_job_id a = jid"
    using machine_inv_jobD [OF assms(1,2)] assms(3) by (auto simp: job_inv_def)
  moreover have "attempt_inv now S aid a" by (rule machine_inv_attemptD [OF assms(1) a(1)])
  ultimately show thesis using assms(2) by (intro that [of a]) (auto simp: attempt_inv_def)
qed

text \<open>Identity fields of a job never change; the stream and request invariants depend only on them.\<close>

definition same_identity :: "job \<Rightarrow> job \<Rightarrow> bool" where
  "same_identity j j' \<longleftrightarrow> stream_row j' = stream_row j \<and> j_stream_entry_id j' = j_stream_entry_id j
     \<and> j_user_id j' = j_user_id j \<and> j_workspace_id j' = j_workspace_id j \<and> j_request_id j' = j_request_id j
     \<and> j_target_id j' = j_target_id j"

lemma stream_inv_update:
  assumes "stream_inv S" "q_jobs S jid = Some j" "same_identity j j'" "q_jobs S' = (q_jobs S)(jid \<mapsto> j')"
    "q_stream S' = q_stream S"
  shows "stream_inv S'"
proof -
  have ex: "\<exists>jid2 j2. ((q_jobs S)(jid \<mapsto> j')) jid2 = Some j2 \<and> snd e = stream_row j2
       \<and> j_stream_entry_id j2 = Some (show_entry_id (fst e))" if e: "e \<in> set (q_stream S)" for e
  proof -
    obtain jid1 j1 where j1: "q_jobs S jid1 = Some j1" "snd e = stream_row j1"
      "j_stream_entry_id j1 = Some (show_entry_id (fst e))"
      using assms(1) e unfolding stream_inv_def by blast
    show ?thesis
    proof (cases "jid1 = jid")
      case True
      with j1 assms(2,3) have "((q_jobs S)(jid \<mapsto> j')) jid = Some j' \<and> snd e = stream_row j'
         \<and> j_stream_entry_id j' = Some (show_entry_id (fst e))" by (simp add: same_identity_def)
      then show ?thesis by blast
    next
      case False
      with j1 have "((q_jobs S)(jid \<mapsto> j')) jid1 = Some j1" by simp
      with j1 show ?thesis by blast
    qed
  qed
  then show ?thesis
    using assms by (auto simp: stream_inv_def same_identity_def)
qed

lemma request_inv_update:
  assumes "request_inv S" "q_jobs S jid = Some j" "same_identity j j'" "q_jobs S' = (q_jobs S)(jid \<mapsto> j')"
    "q_requests S' = q_requests S"
  shows "request_inv S'"
proof -
  have "\<exists>j2. ((q_jobs S)(jid \<mapsto> j')) x = Some j2 \<and> k = requestKeyV2 (j_user_id j2) (j_workspace_id j2) (j_request_id j2)"
    if k: "q_requests S k = Some x" for k x
  proof -
    obtain j2 where "q_jobs S x = Some j2" "k = requestKeyV2 (j_user_id j2) (j_workspace_id j2) (j_request_id j2)"
      using assms(1) k unfolding request_inv_def by blast
    then show ?thesis using assms(2,3) by (cases "x = jid") (simp_all add: same_identity_def)
  qed
  then show ?thesis using assms(4,5) by (simp add: request_inv_def)
qed

lemma queue_inv_update:
  assumes "queue_inv S" "q_jobs S' = (q_jobs S)(jid \<mapsto> j')" "\<And>t. q_queue S' t \<subseteq> q_queue S t"
    "(\<forall>t. jid \<notin> q_queue S' t) \<or> q_jobs S jid = Some j'"
  shows "queue_inv S'"
proof -
  have "\<exists>j. ((q_jobs S)(jid \<mapsto> j')) k = Some j \<and> j_target_id j = t \<and> j_status j = JS_queued"
    if "k \<in> q_queue S' t" for t k
  proof -
    have "k \<in> q_queue S t" using assms(3) [of t] that by (rule subsetD)
    then obtain j where "q_jobs S k = Some j" "j_target_id j = t" "j_status j = JS_queued"
      using assms(1) by (auto simp: queue_inv_def)
    then show ?thesis using assms(4) that by (cases "k = jid") auto
  qed
  then show ?thesis using assms(2) by (simp add: queue_inv_def)
qed

text \<open>One job and its attempt change together; nothing else does.\<close>

lemma machine_inv_pair:
  assumes inv: "machine_inv now S" and j: "q_jobs S jid = Some j" and ident: "same_identity j j'"
    and S': "q_jobs S' = (q_jobs S)(jid \<mapsto> j')" "q_attempts S' = (q_attempts S)(aid \<mapsto> a')"
      "q_requests S' = q_requests S" "q_stream S' = q_stream S" "\<And>t. q_queue S' t \<subseteq> q_queue S t"
    and q: "(\<forall>t. jid \<notin> q_queue S' t) \<or> j' = j"
    and latest: "j_latest_attempt_id j = None \<or> j_latest_attempt_id j = Some aid"
    and att: "\<And>a. q_attempts S aid = Some a \<Longrightarrow> a_job_id a = jid"
    and ok: "job_inv S' jid j'" "attempt_inv now S' aid a'"
  shows "machine_inv now S'"
proof -
  have "job_inv S' k jk" if k: "((q_jobs S)(jid \<mapsto> j')) k = Some jk" for k jk
  proof (cases "k = jid")
    case False
    with k have Sk: "q_jobs S k = Some jk" by simp
    have "\<exists>b. ((q_attempts S)(aid \<mapsto> a')) x = Some b \<and> a_job_id b = k" if x: "j_latest_attempt_id jk = Some x" for x
    proof -
      obtain b where b: "q_attempts S x = Some b" "a_job_id b = k"
        using job_linked [OF inv Sk x] by blast
      then have "x \<noteq> aid" using att [of b] False by auto
      with b show ?thesis by simp
    qed
    with machine_inv_jobD [OF inv Sk] show ?thesis by (simp add: job_inv_def S')
  qed (use k ok in simp)
  moreover have "attempt_inv now S' x b" if x: "((q_attempts S)(aid \<mapsto> a')) x = Some b" for x b
  proof (cases "x = aid")
    case False
    with x have Sx: "q_attempts S x = Some b" by simp
    obtain jb where jb: "q_jobs S (a_job_id b) = Some jb" "attempt_of_job b jb" "a_attempt_id b = x"
      by (rule attempt_linked [OF inv Sx])
    have "a_job_id b \<noteq> jid" using jb j latest False by (auto simp: attempt_of_job_def)
    with jb machine_inv_attemptD [OF inv Sx] show ?thesis by (simp add: attempt_inv_def S')
  qed (use x ok in simp)
  moreover have "queue_inv S'"
    by (rule queue_inv_update [OF _ S'(1) S'(5)]) (use inv q j in \<open>auto simp: machine_inv_def\<close>)
  moreover have "request_inv S'"
    by (rule request_inv_update [OF _ j ident S'(1,3)]) (use inv in \<open>simp add: machine_inv_def\<close>)
  moreover have "stream_inv S'"
    by (rule stream_inv_update [OF _ j ident S'(1,4)]) (use inv in \<open>simp add: machine_inv_def\<close>)
  ultimately show ?thesis by (simp add: machine_inv_def S')
qed

text \<open>Only the job changes, and it has no attempt.\<close>

lemma machine_inv_job:
  assumes inv: "machine_inv now S" and j: "q_jobs S jid = Some j" and ident: "same_identity j j'"
    and S': "q_jobs S' = (q_jobs S)(jid \<mapsto> j')" "q_attempts S' = q_attempts S"
      "q_requests S' = q_requests S" "q_stream S' = q_stream S" "\<And>t. q_queue S' t \<subseteq> q_queue S t"
    and q: "\<forall>t. jid \<notin> q_queue S' t" and latest: "j_latest_attempt_id j = None" and ok: "job_inv S' jid j'"
  shows "machine_inv now S'"
proof -
  have "job_inv S' k jk" if k: "((q_jobs S)(jid \<mapsto> j')) k = Some jk" for k jk
  proof (cases "k = jid")
    case False
    with k machine_inv_jobD [OF inv, of k jk] show ?thesis by (simp add: job_inv_def S')
  qed (use k ok in simp)
  moreover have "attempt_inv now S' x b" if Sx: "q_attempts S x = Some b" for x b
  proof -
    obtain jb where jb: "q_jobs S (a_job_id b) = Some jb" "attempt_of_job b jb"
      by (rule attempt_linked [OF inv Sx])
    have "a_job_id b \<noteq> jid" using jb j latest by (auto simp: attempt_of_job_def)
    with jb machine_inv_attemptD [OF inv Sx] show ?thesis by (simp add: attempt_inv_def S')
  qed
  moreover have "queue_inv S'"
    by (rule queue_inv_update [OF _ S'(1) S'(5)]) (use inv q in \<open>auto simp: machine_inv_def\<close>)
  moreover have "request_inv S'"
    by (rule request_inv_update [OF _ j ident S'(1,3)]) (use inv in \<open>simp add: machine_inv_def\<close>)
  moreover have "stream_inv S'"
    by (rule stream_inv_update [OF _ j ident S'(1,4)]) (use inv in \<open>simp add: machine_inv_def\<close>)
  ultimately show ?thesis by (simp add: machine_inv_def S')
qed

lemma machine_inv_dequeue: "machine_inv now S \<Longrightarrow> machine_inv now (dequeue t jid S)"
  by (auto simp: machine_inv_def job_inv_def attempt_inv_def queue_inv_def request_inv_def stream_inv_def)

end
