(* ===== verification/Job_Invariant.thy ===== *)
theory Job_Invariant
  imports Job_Machine
begin

text \<open>
  Every operation of the abstract job queue keeps its invariant: records stay well-formed, a job and
  its attempt agree on identity and status, a job has at most one attempt, queue members are queued,
  request keys and stream entries refer to existing jobs.
\<close>

lemma short_safe: "short i \<Longrightarrow> 0 \<le> i \<Longrightarrow> safe_nonneg i"
  by (simp add: short_def safe_nonneg_def MAX_SAFE_INTEGER_def)

lemma machine_fetch:
  assumes "machine_inv now S" "q_jobs S jid = Some j" "j_latest_attempt_id j = Some aid" "q_attempts S aid = Some a"
  shows "attempt_of_job a j" "a_job_id a = jid" "a_attempt_id a = aid" "attempt_inv now S aid a" "job_inv S jid j"
    "attempt_core_ok a" "attempt_short a"
proof -
  obtain b where b: "q_attempts S aid = Some b" "a_job_id b = jid" "a_attempt_id b = aid" "attempt_of_job b j"
    "attempt_inv now S aid b"
    by (rule job_linked [OF assms(1-3)])
  then have "b = a" using assms(4) by simp
  with b show "attempt_of_job a j" "a_job_id a = jid" "a_attempt_id a = aid" "attempt_inv now S aid a"
    "attempt_core_ok a" "attempt_short a" by (simp_all add: attempt_inv_def)
  show "job_inv S jid j" by (rule machine_inv_jobD [OF assms(1,2)])
qed

lemma queued_member:
  "machine_inv now S \<Longrightarrow> jid \<in> q_queue S t \<Longrightarrow> \<exists>j. q_jobs S jid = Some j \<and> j_target_id j = t \<and> j_status j = JS_queued"
  by (simp add: machine_inv_def queue_inv_def)

lemma queued_memberD:
  "machine_inv now S \<Longrightarrow> jid \<in> q_queue S t \<Longrightarrow> q_jobs S jid = Some j \<Longrightarrow> j_target_id j = t \<and> j_status j = JS_queued"
  by (drule (1) queued_member) auto

lemma request_member:
  "machine_inv now S \<Longrightarrow> q_requests S k = Some x \<Longrightarrow>
     \<exists>y. q_jobs S x = Some y \<and> k = requestKeyV2 (j_user_id y) (j_workspace_id y) (j_request_id y)"
  by (simp add: machine_inv_def request_inv_def)

lemma stream_member:
  "stream_inv S \<Longrightarrow> e \<in> set (q_stream S) \<Longrightarrow>
     \<exists>k x. q_jobs S k = Some x \<and> snd e = stream_row x \<and> j_stream_entry_id x = Some (show_entry_id (fst e))"
  by (simp add: stream_inv_def)

lemma stream_has_job:
  "stream_inv S \<Longrightarrow> q_jobs S k = Some x \<Longrightarrow>
     \<exists>e \<in> set (q_stream S). snd e = stream_row x \<and> j_stream_entry_id x = Some (show_entry_id (fst e))"
  by (simp add: stream_inv_def)

lemma core_ok_report:
  assumes "attempt_core_ok a"
  shows "a_report a \<noteq> None \<longleftrightarrow> a_phase a = AP_terminal"
    and "a_phase a = AP_claimed \<Longrightarrow> a_started_at_ms a = None"
    and "a_phase a = AP_running \<Longrightarrow> started_some_ok a"
  using assms by (cases "a_phase a"; auto simp: attempt_core_ok_def attempt_ok_def attempt_tail_ok_def
      started_some_ok_def split: option.splits)+

lemma core_ok_ids: "attempt_core_ok a \<Longrightarrow> attempt_ids_ok a \<and> own_result_ok a"
  by (simp add: attempt_core_ok_def attempt_ok_def attempt_ids_ok_def)

lemma own_result_upd [simp]:
  "own_result_ok (a\<lparr>a_phase := p\<rparr>) = own_result_ok a"
  "own_result_ok (a\<lparr>a_started_at_ms := s\<rparr>) = own_result_ok a"
  "own_result_ok (a\<lparr>a_report := r\<rparr>) = own_result_ok a"
  "own_result_ok (a\<lparr>a_result := None\<rparr>)"
  by (auto simp: own_result_ok_def split: option.splits)

lemma started_upd [simp]:
  "started_some_ok (a\<lparr>a_phase := p\<rparr>) = started_some_ok a"
  "started_some_ok (a\<lparr>a_report := r\<rparr>) = started_some_ok a"
  "started_some_ok (a\<lparr>a_result := x\<rparr>) = started_some_ok a"
  by (auto simp: started_some_ok_def split: option.splits)

lemma ids_upd [simp]:
  "attempt_ids_ok (a\<lparr>a_phase := p\<rparr>) = attempt_ids_ok a"
  "attempt_ids_ok (a\<lparr>a_started_at_ms := s\<rparr>) = attempt_ids_ok a"
  "attempt_ids_ok (a\<lparr>a_report := r\<rparr>) = attempt_ids_ok a"
  "attempt_ids_ok (a\<lparr>a_result := x\<rparr>) = attempt_ids_ok a"
  by (auto simp: attempt_ids_ok_def)

text \<open>Closing an attempt with a report keeps its core well-formed.\<close>

lemma core_ok_terminal:
  assumes "attempt_core_ok a" "a_phase a \<noteq> AP_terminal" "report_ok r" "safe_nonneg (r_received_at_ms r)"
    and "r_task_dispatched r \<Longrightarrow> a_phase a = AP_running"
  shows "attempt_core_ok (a\<lparr>a_phase := AP_terminal, a_report := Some r\<rparr>)"
proof (cases "a_phase a")
  case AP_claimed
  with assms core_ok_report(2) [OF assms(1)] core_ok_ids [OF assms(1)] show ?thesis
    by (auto simp: attempt_core_ok_def attempt_ok_def attempt_tail_ok_def)
next
  case AP_running
  with assms core_ok_report(3) [OF assms(1)] core_ok_ids [OF assms(1)] show ?thesis
    by (auto simp: attempt_core_ok_def attempt_ok_def attempt_tail_ok_def)
qed (use assms in simp)

section \<open>Start\<close>

lemma machine_start_inv:
  assumes inv: "machine_inv now S" and now: "short now" "0 \<le> now"
  shows "machine_inv now (fst (machine_start now jid aid dev tok S))"
proof (cases "fst (machine_start now jid aid dev tok S) = S")
  case False
  then obtain j a where ja: "q_jobs S jid = Some j" "q_attempts S aid = Some a" "j_status j = JS_active"
      "j_latest_attempt_id j = Some aid" "a_phase a \<noteq> AP_running"
    and S': "fst (machine_start now jid aid dev tok S) = set_attempt aid (a\<lparr>a_phase := AP_running, a_started_at_ms := Some now\<rparr>) S"
    by (auto simp: machine_start_def Let_def split: option.splits if_splits)
  note f = machine_fetch [OF inv ja(1,4,2)]
  let ?a = "a\<lparr>a_phase := AP_running, a_started_at_ms := Some now\<rparr>"
  have claimed: "a_phase a = AP_claimed"
    using f(1) ja(3,5) by (cases "a_phase a") (auto simp: attempt_of_job_def)
  have rep: "a_report a = None" using core_ok_report(1) [OF f(6)] claimed by simp
  have "a_claimed_at_ms a \<le> now" using f(4) by (simp add: attempt_inv_def)
  then have "attempt_core_ok ?a"
    using core_ok_ids [OF f(6)] rep short_safe [OF now]
    by (simp add: attempt_core_ok_def attempt_ok_def attempt_tail_ok_def started_some_ok_def
        started_ok_def safe_nonneg_def)
  moreover have "attempt_of_job ?a j" using f(1) ja(3) by (simp add: attempt_of_job_def)
  ultimately have "attempt_inv now (set_attempt aid ?a S) aid ?a"
    using f ja(1) now by (simp add: attempt_inv_def attempt_short_def)
  moreover have "job_inv (set_attempt aid ?a S) jid j"
    using f(2,5) ja(4) by (simp add: job_inv_def)
  ultimately have "machine_inv now (set_attempt aid ?a S)"
    using ja f by (intro machine_inv_pair [OF inv ja(1), of j _ aid ?a]) (auto simp: same_identity_def)
  then show ?thesis by (simp add: S')
qed (use inv in simp)

section \<open>Closing a job with its attempt\<close>

text \<open>Shared by the report and the cancellation of an active job.\<close>

lemma machine_close_inv:
  assumes inv: "machine_inv now S"
    and ja: "q_jobs S jid = Some j" "j_latest_attempt_id j = Some aid" "q_attempts S aid = Some a" "j_status j = JS_active"
    and r: "report_ok r" "safe_nonneg (r_received_at_ms r)" "report_short r"
      "r_task_dispatched r \<Longrightarrow> a_phase a = AP_running"
    and c: "\<And>c. cancel = Some c \<Longrightarrow> cancel_ok c \<and> cancel_short c"
  shows "machine_inv now (set_job jid (j\<lparr>j_status := JS_terminal, j_cancel := cancel\<rparr>)
           (set_attempt aid (a\<lparr>a_phase := AP_terminal, a_report := Some r\<rparr>) S))"
proof -
  note f = machine_fetch [OF inv ja(1-3)]
  let ?a = "a\<lparr>a_phase := AP_terminal, a_report := Some r\<rparr>" and ?j = "j\<lparr>j_status := JS_terminal, j_cancel := cancel\<rparr>"
  let ?S = "set_job jid ?j (set_attempt aid ?a S)"
  have nt: "a_phase a \<noteq> AP_terminal" using f(1) ja(4) by (simp add: attempt_of_job_def)
  have "attempt_inv now ?S aid ?a"
    using f nt core_ok_terminal [OF f(6) nt r(1,2,4)] r(3)
    by (simp add: attempt_inv_def attempt_short_def attempt_of_job_def)
  moreover have "job_inv ?S jid ?j"
    using f(2,5) ja c by (cases cancel) (auto simp: job_inv_def job_ok_def job_state_ok_def job_short_def)
  moreover have "jid \<notin> q_queue S t" for t
    using queued_memberD [OF inv _ ja(1)] ja(4) by auto
  ultimately show ?thesis
    using ja f(2) by (intro machine_inv_pair [OF inv ja(1), of ?j ?S aid ?a]) (auto simp: same_identity_def stream_row_def)
qed

section \<open>Report\<close>

lemma received_simps [simp]:
  "report_ok (received now r) = report_ok r" "r_received_at_ms (received now r) = now"
  "r_task_dispatched (received now r) = r_task_dispatched r"
  "report_short (received now r) \<longleftrightarrow> short (r_finished_at_ms r) \<and> short (r_duration_ms r) \<and> short now"
  "exec_report.truncate (received now r) = r"
  by (simp_all add: received_def report_ok_def report_refined_def report_short_def exec_report.defs persisted_report.defs)

lemma machine_report_inv:
  assumes inv: "machine_inv now S" and now: "short now" "0 \<le> now"
    and rep: "report_ok rep" "short (r_finished_at_ms rep)" "short (r_duration_ms rep)"
  shows "machine_inv now (fst (machine_report now jid aid dev tok rep S))"
proof (cases "fst (machine_report now jid aid dev tok rep S) = S")
  case False
  then obtain j a where ja: "q_jobs S jid = Some j" "j_latest_attempt_id j = Some aid" "q_attempts S aid = Some a"
      "a_report a = None" "r_task_dispatched rep \<longrightarrow> a_phase a = AP_running"
    and S': "fst (machine_report now jid aid dev tok rep S) = set_job jid (j\<lparr>j_status := JS_terminal\<rparr>)
        (set_attempt aid (a\<lparr>a_phase := AP_terminal, a_report := Some (received now rep)\<rparr>) S)"
    by (auto simp: machine_report_def split: option.splits if_splits)
  note f = machine_fetch [OF inv ja(1-3)]
  have act: "j_status j = JS_active"
    using f(1) core_ok_report(1) [OF f(6)] ja(4) by (auto simp: attempt_of_job_def)
  have "j_cancel j = None" using f(5) act by (auto simp: job_inv_def)
  then have "j\<lparr>j_status := JS_terminal\<rparr> = j\<lparr>j_status := JS_terminal, j_cancel := None\<rparr>" by (cases j) simp
  with machine_close_inv [OF inv ja(1-3) act, of "received now rep" None] rep now ja(5) short_safe [OF now] show ?thesis
    by (simp add: S')
qed (use inv in simp)

section \<open>Record a result\<close>

lemma machine_record_result_inv:
  assumes inv: "machine_inv now S" and now: "short now" "0 \<le> now"
    and a: "q_attempts S aid = Some a" and r: "result_ok res" "res_attempt_id res = aid" "res_received_at_ms res = now"
  shows "machine_inv now (set_attempt aid (a\<lparr>a_result := Some res\<rparr>) S)"
proof -
  let ?a = "a\<lparr>a_result := Some res\<rparr>"
  obtain j where j: "q_jobs S (a_job_id a) = Some j" "attempt_of_job a j" "a_attempt_id a = aid" "job_inv S (a_job_id a) j"
    by (rule attempt_linked [OF inv a])
  have ai: "attempt_inv now S aid a" by (rule machine_inv_attemptD [OF inv a])
  then have "attempt_core_ok ?a" using r j(3) by (simp add: attempt_inv_def attempt_core_ok_def own_result_ok_def)
  then have "attempt_inv now (set_attempt aid ?a S) aid ?a"
    using ai j r now by (simp add: attempt_inv_def attempt_short_def attempt_of_job_def)
  moreover have "job_inv (set_attempt aid ?a S) (a_job_id a) j"
    using j by (simp add: job_inv_def attempt_of_job_def)
  ultimately show ?thesis
    using j a by (intro machine_inv_pair [OF inv j(1), of j _ aid ?a]) (auto simp: same_identity_def attempt_of_job_def)
qed

lemma machine_record_inv:
  assumes inv: "machine_inv now S" and now: "short now" "0 \<le> now" and r: "result_ok res" "res_attempt_id res = aid"
  shows "machine_inv now (fst (machine_record now jid aid dev tok res redelivery S))"
proof (cases "fst (machine_record now jid aid dev tok res redelivery S) = S")
  case False
  then obtain a where a: "q_attempts S aid = Some a"
    and S': "fst (machine_record now jid aid dev tok res redelivery S)
      = set_attempt aid (a\<lparr>a_result := Some (res\<lparr>res_received_at_ms := now\<rparr>)\<rparr>) S"
    by (auto simp: machine_record_def Let_def split: option.splits if_splits)
  with machine_record_result_inv [OF inv now a, of "res\<lparr>res_received_at_ms := now\<rparr>"] r short_safe [OF now] show ?thesis
    by (simp add: S' result_ok_def)
qed (use inv in simp)

section \<open>Cancel\<close>

lemma operator_report_ok:
  assumes "short now" "0 \<le> now" "HEX_64_RE receipt" "\<And>t. a_started_at_ms a = Some t \<Longrightarrow> 0 \<le> t"
  shows "report_ok (operator_report now a receipt)" "report_short (operator_report now a receipt)"
    "safe_nonneg (r_received_at_ms (operator_report now a receipt))"
proof -
  have d: "0 \<le> r_duration_ms (operator_report now a receipt) \<and> r_duration_ms (operator_report now a receipt) \<le> now"
    using assms by (auto simp: operator_report_def split: option.splits)
  have "error_ok \<lparr>er_stage = ''orchestration'', er_code = ''OPERATOR_CANCELLED'',
        er_message = ''Job cancelled by operator before completion.''\<rparr>" by code_simp
  moreover have "executor_ok \<lparr>ex_type = ''operator'', ex_version = ''1.0.0''\<rparr>" by code_simp
  moreover have "safe_nonneg (r_duration_ms (operator_report now a receipt))"
    using d assms by (auto intro!: short_safe simp: short_def)
  ultimately show "report_ok (operator_report now a receipt)"
    using assms short_safe [OF assms(1,2)]
    by (simp add: report_ok_def report_refined_def operator_report_def)
  show "report_short (operator_report now a receipt)" using d assms(1,2)
    by (simp add: report_short_def short_def) (simp add: operator_report_def)
  show "safe_nonneg (r_received_at_ms (operator_report now a receipt))"
    using short_safe [OF assms(1,2)] by (simp add: operator_report_def)
qed

lemma core_started_nonneg: "attempt_core_ok a \<Longrightarrow> a_started_at_ms a = Some t \<Longrightarrow> 0 \<le> t"
  by (cases "a_phase a") (auto simp: attempt_core_ok_def attempt_ok_def attempt_tail_ok_def attempt_ids_ok_def
      started_some_ok_def started_ok_def safe_nonneg_def split: option.splits if_splits)

lemma machine_cancel_inv:
  assumes inv: "machine_inv now S" and now: "short now" "0 \<le> now"
    and args: "DEVICE_ID_V2_RE dev" "cancel_reason_ok reason" "HEX_64_RE receipt"
  shows "machine_inv now (fst (machine_cancel now jid expected dev reason receipt S))"
proof (cases "fst (machine_cancel now jid expected dev reason receipt S) = S")
  case False
  let ?c = "\<lparr>c_cancelled_at_ms = now, c_requested_by_device_id = dev, c_reason = reason\<rparr>"
  have c: "cancel_ok ?c" "cancel_short ?c" using args now short_safe [OF now] by (simp_all add: cancel_ok_def cancel_short_def)
  from False obtain j where j: "q_jobs S jid = Some j" "j_status j \<noteq> JS_terminal" "j_latest_attempt_id j = expected"
    by (auto simp: machine_cancel_def Let_def split: option.splits if_splits)
  note ji = machine_inv_jobD [OF inv j(1)]
  show ?thesis
  proof (cases expected)
    case (Some aid)
    with False j obtain a where a: "q_attempts S aid = Some a"
      and S': "fst (machine_cancel now jid expected dev reason receipt S) =
        set_job jid (j\<lparr>j_status := JS_terminal, j_cancel := Some ?c\<rparr>)
          (set_attempt aid (a\<lparr>a_phase := AP_terminal, a_report := Some (operator_report now a receipt)\<rparr>) S)"
      by (auto simp: machine_cancel_def Let_def split: option.splits)
    note f = machine_fetch [OF inv j(1) j(3) [unfolded Some] a]
    have act: "j_status j = JS_active" using f(1) j(2) by (simp add: attempt_of_job_def)
    have "r_task_dispatched (operator_report now a receipt) \<longleftrightarrow> a_phase a = AP_running" by (simp add: operator_report_def)
    then show ?thesis
      unfolding S' using c j(3) Some operator_report_ok [OF now args(3) core_started_nonneg [OF f(6)]]
      by (intro machine_close_inv [OF inv j(1) _ a act]) auto
  next
    case None
    have qd: "j_status j = JS_queued"
      using ji j(2,3) None by (cases "j_status j") (auto simp: job_inv_def job_ok_def job_state_ok_def)
    let ?j = "j\<lparr>j_status := JS_terminal, j_cancel := Some ?c\<rparr>" and ?D = "dequeue (j_target_id j) jid S"
    have S': "fst (machine_cancel now jid expected dev reason receipt S) = set_job jid ?j ?D"
      using j None by (simp add: machine_cancel_def Let_def)
    have "jid \<notin> q_queue ?D t" for t
      using queued_memberD [OF inv _ j(1)] by auto
    moreover have "job_inv (set_job jid ?j ?D) jid ?j"
      using ji j(3) None c qd by (auto simp: job_inv_def job_ok_def job_state_ok_def job_short_def)
    ultimately show ?thesis
      unfolding S' using j None
      by (intro machine_inv_job [OF inv j(1), of ?j]) (auto simp: same_identity_def stream_row_def)
  qed
qed (use inv in simp)

section \<open>Claim\<close>

lemma new_attempt_ok:
  assumes "job_inv S jid j" "short now" "0 \<le> now"
    and "ATTEMPT_ID_V2_RE aid" "DEVICE_ID_V2_RE dev" "TARGET_BINDING_ID_V2_RE bid" "HEX_64_RE tok"
  shows "attempt_core_ok (new_attempt now j dev bid aid tok)" "attempt_short (new_attempt now j dev bid aid tok)"
  using assms short_safe [OF assms(2,3)]
  by (auto simp: new_attempt_def attempt_core_ok_def attempt_ok_def attempt_ids_ok_def attempt_tail_ok_def
      own_result_ok_def attempt_short_def job_inv_def job_ok_def)

lemma machine_claim_cases:
  fixes now fenced jid ws t dev bid aid tok replayOnly S
  defines "S' \<equiv> fst (machine_claim now fenced jid ws t dev bid aid tok replayOnly S)"
  shows "S' = S \<or> S' = dequeue t jid S
    \<or> (\<exists>j. q_jobs S jid = Some j \<and> j_target_id j = t \<and> j_status j = JS_queued \<and> q_attempts S aid = None
        \<and> S' = dequeue t jid (set_job jid (j\<lparr>j_status := JS_active, j_latest_attempt_id := Some aid\<rparr>)
             (set_attempt aid (new_attempt now j dev bid aid tok) S)))"
  unfolding S'_def machine_claim_def Let_def
  by (cases fenced; cases "q_jobs S jid"; simp split: option.split)

lemma machine_claim_inv:
  assumes inv: "machine_inv now S" and now: "short now" "0 \<le> now"
    and args: "ATTEMPT_ID_V2_RE aid" "DEVICE_ID_V2_RE dev" "TARGET_BINDING_ID_V2_RE bid" "HEX_64_RE tok"
  shows "machine_inv now (fst (machine_claim now fenced jid ws t dev bid aid tok replayOnly S))" (is "machine_inv now ?S'")
proof -
  consider "?S' = S" | "?S' = dequeue t jid S"
    | j where "q_jobs S jid = Some j" "j_target_id j = t" "j_status j = JS_queued" "q_attempts S aid = None"
      "?S' = dequeue t jid (set_job jid (j\<lparr>j_status := JS_active, j_latest_attempt_id := Some aid\<rparr>)
         (set_attempt aid (new_attempt now j dev bid aid tok) S))"
    using machine_claim_cases by metis
  then show ?thesis
  proof cases
    case (3 j)
    let ?a = "new_attempt now j dev bid aid tok" and ?j = "j\<lparr>j_status := JS_active, j_latest_attempt_id := Some aid\<rparr>"
    note ji = machine_inv_jobD [OF inv 3(1)]
    have lat: "j_latest_attempt_id j = None" using ji 3(3) by (auto simp: job_inv_def job_ok_def job_state_ok_def)
    have "attempt_inv now ?S' aid ?a"
      using new_attempt_ok [OF ji now args] ji 3 by (simp add: attempt_inv_def attempt_of_job_def new_attempt_def job_inv_def)
    moreover have "job_inv ?S' jid ?j"
      using ji 3(3,5) args(1) by (auto simp: job_inv_def job_ok_def job_state_ok_def job_short_def new_attempt_def)
    moreover have "jid \<notin> q_queue ?S' t'" for t'
      using queued_memberD [OF inv _ 3(1)] 3(2) by (auto simp: 3(5))
    ultimately show ?thesis
      using 3 lat by (intro machine_inv_pair [OF inv 3(1), of ?j ?S' aid ?a]) (auto simp: same_identity_def stream_row_def)
  qed (use inv machine_inv_dequeue in simp_all)
qed

section \<open>Create\<close>

text \<open>A submission: what the coordinator hands to the store.\<close>

definition submission_ok :: "job \<Rightarrow> bool" where
  "submission_ok job \<longleftrightarrow> job_ok job \<and> job_short job \<and> j_cancel job = None"

lemma machine_create_inv:
  assumes inv: "machine_inv now S" and job: "submission_ok job" "j_request_id job = requestId"
  shows "machine_inv now (fst (machine_create now fenced job requestId S))" (is "machine_inv now ?S'")
proof (cases "?S' = S")
  case False
  let ?jid = "j_job_id job" and ?i = "next_entry_id now (q_stream S)"
  let ?j = "job\<lparr>j_status := JS_queued, j_stream_entry_id := Some (show_entry_id ?i), j_latest_attempt_id := None\<rparr>"
  let ?key = "requestKeyV2 (j_user_id job) (j_workspace_id job) requestId"
  from False have fresh: "q_jobs S ?jid = None"
    and S': "q_jobs ?S' = (q_jobs S)(?jid \<mapsto> ?j)" "q_attempts ?S' = q_attempts S"
      "q_queue ?S' = (q_queue S)(j_target_id job := insert ?jid (q_queue S (j_target_id job)))"
      "q_requests ?S' = (q_requests S)(?key \<mapsto> ?jid)" "q_stream ?S' = q_stream S @ [(?i, stream_row job)]"
    by (auto simp: machine_create_def Let_def split: option.splits if_splits)
  have old: "((q_jobs S)(?jid \<mapsto> ?j)) k = Some x" if "q_jobs S k = Some x" for k x using that fresh by auto
  have "job_inv ?S' k x" if "((q_jobs S)(?jid \<mapsto> ?j)) k = Some x" for k x
    using that machine_inv_jobD [OF inv, of k x] job
    by (cases "k = ?jid") (auto simp: job_inv_def S' submission_ok_def job_ok_def job_short_def job_state_ok_def)
  moreover have "attempt_inv now ?S' aid a" if a: "q_attempts S aid = Some a" for aid a
  proof -
    obtain j where "q_jobs S (a_job_id a) = Some j" "attempt_of_job a j"
      by (rule attempt_linked [OF inv a])
    with old machine_inv_attemptD [OF inv a] show ?thesis unfolding attempt_inv_def S' by blast
  qed
  moreover have "queue_inv ?S'" unfolding queue_inv_def S'
  proof (intro allI ballI)
    fix t k assume k: "k \<in> ((q_queue S)(j_target_id job := insert ?jid (q_queue S (j_target_id job)))) t"
    show "\<exists>x. ((q_jobs S)(?jid \<mapsto> ?j)) k = Some x \<and> j_target_id x = t \<and> j_status x = JS_queued"
    proof (cases "k \<in> q_queue S t")
      case True
      then obtain x where "q_jobs S k = Some x" "j_target_id x = t" "j_status x = JS_queued"
        using queued_member [OF inv] by metis
      then show ?thesis using old [of k x] by blast
    qed (use k in \<open>simp split: if_splits\<close>)
  qed
  moreover have "request_inv ?S'" unfolding request_inv_def S'
  proof (intro allI impI)
    fix k x assume k: "((q_requests S)(?key \<mapsto> ?jid)) k = Some x"
    show "\<exists>y. ((q_jobs S)(?jid \<mapsto> ?j)) x = Some y \<and> k = requestKeyV2 (j_user_id y) (j_workspace_id y) (j_request_id y)"
    proof (cases "k = ?key")
      case False
      with k have "q_requests S k = Some x" by simp
      then obtain y where "q_jobs S x = Some y" "k = requestKeyV2 (j_user_id y) (j_workspace_id y) (j_request_id y)"
        using request_member [OF inv] by metis
      then show ?thesis using old [of x y] by blast
    qed (use k job(2) in simp)
  qed
  moreover have "stream_inv ?S'"
  proof -
    have si: "stream_inv S" using inv by (simp add: machine_inv_def)
    have "\<exists>k x. ((q_jobs S)(?jid \<mapsto> ?j)) k = Some x \<and> snd e = stream_row x \<and> j_stream_entry_id x = Some (show_entry_id (fst e))"
      if e: "e \<in> set (q_stream S)" for e
    proof -
      obtain k x where "q_jobs S k = Some x" "snd e = stream_row x" "j_stream_entry_id x = Some (show_entry_id (fst e))"
        using stream_member [OF si e] by metis
      then show ?thesis using old [of k x] by blast
    qed
    moreover have new: "stream_row ?j = stream_row job" by (simp add: stream_row_def)
    moreover have "((q_jobs S)(?jid \<mapsto> ?j)) ?jid = Some ?j" by simp
    ultimately have "\<forall>e\<in>set (q_stream S @ [(?i, stream_row job)]). \<exists>k x. ((q_jobs S)(?jid \<mapsto> ?j)) k = Some x
        \<and> snd e = stream_row x \<and> j_stream_entry_id x = Some (show_entry_id (fst e))"
      using new by (simp del: fun_upd_apply) (metis job.select_convs(13) job.surjective job.update_convs(12,13,14))
    moreover have "\<exists>e\<in>set (q_stream S @ [(?i, stream_row job)]). snd e = stream_row x \<and> j_stream_entry_id x = Some (show_entry_id (fst e))"
      if "((q_jobs S)(?jid \<mapsto> ?j)) k = Some x" for k x
      using that si new by (cases "k = ?jid") (auto simp: stream_inv_def)
    ultimately show ?thesis
      using stream_sorted_xadd [of "q_stream S" now "stream_row job"] next_entry_id_positive [of "q_stream S" now] si
      by (simp add: stream_inv_def S' del: fun_upd_apply)
  qed
  ultimately show ?thesis by (simp add: machine_inv_def S')
qed (use inv in simp)

end
