(* ===== verification/Job_Refinement.thy ===== *)
theory Job_Refinement
  imports Job_Invariant
begin

text \<open>
  The scripts implement the abstract job queue. \<open>represents\<close> relates a key space to a state of
  the abstract machine: every record sits under its key as the JSON form of the typed record, without
  expiry. For each script, a run on a related key space gives a related key space and the reply that
  encodes the abstract outcome.
\<close>

section \<open>The representation\<close>

definition job_value :: "job \<Rightarrow> rvalue \<times> int option" where
  "job_value j = (RStr (Json (JObj (job_obj j))), None)"

definition attempt_value :: "attempt \<Rightarrow> rvalue \<times> int option" where
  "attempt_value a = (RStr (Json (JObj (attempt_obj a))), None)"

definition zset_value :: "zset \<Rightarrow> (rvalue \<times> int option) option" where
  "zset_value z = (if z = [] then None else Some (RZset z, None))"

definition represents :: "redis \<Rightarrow> queue_state \<Rightarrow> bool" where
  "represents db S \<longleftrightarrow>
     (\<forall>jid. colon_free jid \<longrightarrow> db (jobKeyV2 jid) = map_option job_value (q_jobs S jid))
     \<and> (\<forall>aid. db (attemptKeyV1 aid) = map_option attempt_value (q_attempts S aid))
     \<and> (\<forall>u w r. db (requestKeyV2 u w r) = map_option (\<lambda>jid. (RStr (Text jid), None)) (q_requests S (requestKeyV2 u w r)))
     \<and> (\<forall>t. \<exists>z. db (targetQueueKeyV1 t) = zset_value z \<and> q_queue S t = snd ` set z)
     \<and> (\<forall>jid. \<exists>z. db (jobAttemptsKeyV1 jid) = zset_value z)
     \<and> db KEY_STREAM_V2 = (if q_stream S = [] then None else Some (RStream (q_stream S), None))
     \<and> (\<forall>t p x. db (targetDeleteFenceKeyV1 t) = Some (p, x) \<longrightarrow> (\<exists>v. p = RStr v))"

lemma represents_empty: "represents (\<lambda>_. None) empty_state"
  by (simp add: represents_def empty_state_def zset_value_def)

lemma representsD:
  assumes "represents db S"
  shows "colon_free jid \<Longrightarrow> db (jobKeyV2 jid) = map_option job_value (q_jobs S jid)"
    and "db (attemptKeyV1 aid) = map_option attempt_value (q_attempts S aid)"
    and "db (requestKeyV2 u w r) = map_option (\<lambda>jid. (RStr (Text jid), None)) (q_requests S (requestKeyV2 u w r))"
    and "\<exists>z. db (targetQueueKeyV1 t) = zset_value z \<and> q_queue S t = snd ` set z"
    and "\<exists>z. db (jobAttemptsKeyV1 jid) = zset_value z"
    and "db KEY_STREAM_V2 = (if q_stream S = [] then None else Some (RStream (q_stream S), None))"
    and "db (targetDeleteFenceKeyV1 t) = Some (p, x) \<Longrightarrow> \<exists>v. p = RStr v"
  using assms unfolding represents_def by blast+

section \<open>Reads\<close>

lemma repr_GET:
  assumes "represents db S"
  shows "colon_free jid \<Longrightarrow> call_GET now db (jobKeyV2 jid) = map_option (\<lambda>j. Json (JObj (job_obj j))) (q_jobs S jid)"
    and "call_GET now db (attemptKeyV1 aid) = map_option (\<lambda>a. Json (JObj (attempt_obj a))) (q_attempts S aid)"
    and "call_GET now db (requestKeyV2 u w r) = map_option Text (q_requests S (requestKeyV2 u w r))"
proof -
  show "colon_free jid \<Longrightarrow> call_GET now db (jobKeyV2 jid) = map_option (\<lambda>j. Json (JObj (job_obj j))) (q_jobs S jid)"
    by (cases "q_jobs S jid") (simp_all add: call_GET_def live_def representsD(1) [OF assms] job_value_def)
  show "call_GET now db (attemptKeyV1 aid) = map_option (\<lambda>a. Json (JObj (attempt_obj a))) (q_attempts S aid)"
    by (cases "q_attempts S aid") (simp_all add: call_GET_def live_def representsD(2) [OF assms] attempt_value_def)
  show "call_GET now db (requestKeyV2 u w r) = map_option Text (q_requests S (requestKeyV2 u w r))"
    by (cases "q_requests S (requestKeyV2 u w r)") (simp_all add: call_GET_def live_def representsD(3) [OF assms])
qed

lemma repr_TYPE:
  assumes "represents db S"
  shows "colon_free jid \<Longrightarrow> redis_TYPE now db (jobKeyV2 jid) = (if q_jobs S jid = None then ''none'' else ''string'')"
    and "redis_TYPE now db (attemptKeyV1 aid) = (if q_attempts S aid = None then ''none'' else ''string'')"
proof -
  show "colon_free jid \<Longrightarrow> redis_TYPE now db (jobKeyV2 jid) = (if q_jobs S jid = None then ''none'' else ''string'')"
    by (cases "q_jobs S jid") (simp_all add: redis_TYPE_def live_def representsD(1) [OF assms] job_value_def)
  show "redis_TYPE now db (attemptKeyV1 aid) = (if q_attempts S aid = None then ''none'' else ''string'')"
    by (cases "q_attempts S aid") (simp_all add: redis_TYPE_def live_def representsD(2) [OF assms] attempt_value_def)
qed

lemma zset_value_type: "v = zset_value z \<Longrightarrow> db k = v \<Longrightarrow> \<not> badtype now db k ''zset''"
  by (cases "z = []") (simp_all add: zset_value_def badtype_def redis_TYPE_def live_def)

lemma repr_badtype:
  assumes "represents db S"
  shows "colon_free jid \<Longrightarrow> \<not> badtype now db (jobKeyV2 jid) ''string''"
    and "\<not> badtype now db (attemptKeyV1 aid) ''string''"
    and "\<not> badtype now db (requestKeyV2 u w r) ''string''"
    and "\<not> badtype now db (targetQueueKeyV1 t) ''zset''"
    and "\<not> badtype now db (jobAttemptsKeyV1 jid) ''zset''"
    and "\<not> badtype now db KEY_STREAM_V2 ''stream''"
    and "\<not> badtype now db (targetDeleteFenceKeyV1 t) ''string''"
proof -
  show "colon_free jid \<Longrightarrow> \<not> badtype now db (jobKeyV2 jid) ''string''" "\<not> badtype now db (attemptKeyV1 aid) ''string''"
    by (simp_all add: badtype_def repr_TYPE [OF assms])
  show "\<not> badtype now db (requestKeyV2 u w r) ''string''"
    by (cases "q_requests S (requestKeyV2 u w r)")
      (simp_all add: badtype_def redis_TYPE_def live_def representsD(3) [OF assms])
  show "\<not> badtype now db (targetQueueKeyV1 t) ''zset''" "\<not> badtype now db (jobAttemptsKeyV1 jid) ''zset''"
    using representsD(4) [OF assms, of t] representsD(5) [OF assms, of jid] zset_value_type by blast+
  show "\<not> badtype now db KEY_STREAM_V2 ''stream''"
    by (cases "q_stream S = []") (simp_all add: badtype_def redis_TYPE_def live_def representsD(6) [OF assms])
  show "\<not> badtype now db (targetDeleteFenceKeyV1 t) ''string''"
    using representsD(7) [OF assms, of t]
    by (auto simp: badtype_def redis_TYPE_def live_def split: option.splits prod.splits rvalue.splits if_splits)
qed

section \<open>Writes\<close>

lemma repr_set_job:
  "represents db S \<Longrightarrow> colon_free jid \<Longrightarrow> job_short j \<Longrightarrow>
   represents (redis_set (jobKeyV2 jid) (Json (cjson_encode (JObj (job_obj j)))) db) (set_job jid j S)"
  by (simp only: represents_def redis_set_apply state_simps encode_job) (simp add: job_value_def)

lemma repr_set_attempt:
  "represents db S \<Longrightarrow> attempt_short a \<Longrightarrow>
   represents (redis_set (attemptKeyV1 aid) (Json (cjson_encode (JObj (attempt_obj a)))) db) (set_attempt aid a S)"
  by (simp only: represents_def redis_set_apply state_simps encode_attempt) (simp add: attempt_value_def)

lemma zset_at_value: "db k = zset_value z \<Longrightarrow> zset_at now db k = Inr z"
  by (cases "z = []") (simp_all add: zset_value_def zset_at_def live_def)

lemma key_ttl_value: "db k = zset_value z \<Longrightarrow> key_ttl now db k = None"
  by (cases "z = []") (simp_all add: zset_value_def key_ttl_def live_def)

lemma zrem_value:
  assumes "db k = zset_value z"
  obtains n where "redis_zrem now k ms db = Inr (db(k := zset_value (filter (\<lambda>e. snd e \<notin> set ms) z)), n)"
proof -
  let ?z = "filter (\<lambda>e. snd e \<notin> set ms) z"
  have "?z = z \<Longrightarrow> db = db(k := zset_value ?z)" using assms by auto
  then have "redis_zrem now k ms db = Inr (db(k := zset_value ?z), int (length z - length ?z))"
    using assms
    by (auto simp: redis_zrem_def zset_at_value [of db, OF assms] key_ttl_value [of db, OF assms] Let_def zset_value_def)
  then show thesis by (rule that)
qed

lemma zadd_value:
  assumes "db k = zset_value z"
  shows "redis_zadd now k sc m db = Inr (db(k := zset_value (insort (sc, m) (zset_without m z))))"
proof -
  have "insort (sc, m) (zset_without m z) \<noteq> []" by (metis insort_not_Nil)
  then show ?thesis
    by (simp add: redis_zadd_def zset_at_value [of db, OF assms] key_ttl_value [of db, OF assms] zset_value_def)
qed

lemma repr_queue_upd:
  assumes "represents db S"
  shows "represents (db(targetQueueKeyV1 t := zset_value z)) (S\<lparr>q_queue := (q_queue S)(t := snd ` set z)\<rparr>)"
proof -
  have "\<exists>y. (db(targetQueueKeyV1 t := zset_value z)) (targetQueueKeyV1 t') = zset_value y
     \<and> ((q_queue S)(t := snd ` set z)) t' = snd ` set y" for t'
    using representsD(4) [OF assms, of t'] by (cases "t' = t") auto
  with assms show ?thesis unfolding represents_def by simp
qed

lemma repr_zrem:
  assumes "represents db S"
  shows "\<exists>db' n. redis_zrem now (targetQueueKeyV1 t) [jid] db = Inr (db', n) \<and> represents db' (dequeue t jid S)"
proof -
  obtain z where z: "db (targetQueueKeyV1 t) = zset_value z" "q_queue S t = snd ` set z"
    using representsD(4) [OF assms] by blast
  let ?z = "filter (\<lambda>e. snd e \<notin> set [jid]) z"
  obtain n where n: "redis_zrem now (targetQueueKeyV1 t) [jid] db = Inr (db(targetQueueKeyV1 t := zset_value ?z), n)"
    by (rule zrem_value [of db, OF z(1)])
  have q: "q_queue S t - {jid} = snd ` set ?z" by (auto simp: z(2) image_iff)
  have "represents (db(targetQueueKeyV1 t := zset_value ?z)) (dequeue t jid S)"
    using repr_queue_upd [OF assms, of t ?z] by (simp only: dequeue_def q)
  with n show ?thesis by blast
qed

lemma repr_zadd_queue:
  assumes "represents db S"
  shows "\<exists>db'. redis_zadd now (targetQueueKeyV1 t) sc jid db = Inr db' \<and> represents db' (enqueue t jid S)"
proof -
  obtain z where z: "db (targetQueueKeyV1 t) = zset_value z" "q_queue S t = snd ` set z"
    using representsD(4) [OF assms] by blast
  let ?z = "insort (sc, jid) (zset_without jid z)"
  have q: "insert jid (q_queue S t) = snd ` set ?z"
    by (auto simp: z(2) set_insort_key)
  have "represents (db(targetQueueKeyV1 t := zset_value ?z)) (enqueue t jid S)"
    using repr_queue_upd [OF assms, of t ?z] by (simp only: enqueue_def q)
  then show ?thesis using zadd_value [where db = db, OF z(1)] by blast
qed

lemma repr_zadd_index:
  assumes "represents db S"
  shows "\<exists>db'. redis_zadd now (jobAttemptsKeyV1 jid) sc aid db = Inr db' \<and> represents db' S"
proof -
  obtain z where z: "db (jobAttemptsKeyV1 jid) = zset_value z"
    using representsD(5) [OF assms] by blast
  have "represents (db(jobAttemptsKeyV1 jid := zset_value (insort (sc, aid) (zset_without aid z)))) S"
    using assms unfolding represents_def by (simp add: fun_upd_apply) blast
  then show ?thesis using zadd_value [where db = db, OF z] by blast
qed

lemma repr_set_request:
  "represents db S \<Longrightarrow> represents (redis_set (requestKeyV2 u w r) (Text jid) db)
     (S\<lparr>q_requests := (q_requests S)(requestKeyV2 u w r \<mapsto> jid)\<rparr>)"
  by (simp add: represents_def redis_set_apply)

lemma repr_xadd:
  assumes "represents db S"
  shows "\<exists>db'. redis_xadd now KEY_STREAM_V2 fs db = Inr (db', show_entry_id (next_entry_id now (q_stream S)))
     \<and> represents db' (S\<lparr>q_stream := q_stream S @ [(next_entry_id now (q_stream S), fs)]\<rparr>)"
proof -
  have s: "stream_at now db KEY_STREAM_V2 = Inr (q_stream S)" "key_ttl now db KEY_STREAM_V2 = None"
    by (cases "q_stream S = []"; simp add: stream_at_def key_ttl_def live_def representsD(6) [OF assms])+
  let ?i = "next_entry_id now (q_stream S)"
  have "redis_xadd now KEY_STREAM_V2 fs db =
      Inr (db(KEY_STREAM_V2 \<mapsto> (RStream (q_stream S @ [(?i, fs)]), None)), show_entry_id ?i)"
    by (simp add: redis_xadd_def s Let_def)
  moreover have "represents (db(KEY_STREAM_V2 \<mapsto> (RStream (q_stream S @ [(?i, fs)]), None)))
      (S\<lparr>q_stream := q_stream S @ [(?i, fs)]\<rparr>)"
    using assms unfolding represents_def by (simp add: fun_upd_apply)
  ultimately show ?thesis by blast
qed

section \<open>Fields and field updates of stored records\<close>

lemma job_field_is [simp]:
  "field_is (job_obj j) ''job_id'' s \<longleftrightarrow> j_job_id j = s"
  "field_is (job_obj j) ''workspace_id'' s \<longleftrightarrow> j_workspace_id j = s"
  "field_is (job_obj j) ''target_id'' s \<longleftrightarrow> j_target_id j = s"
  "field_is (job_obj j) ''latest_attempt_id'' s \<longleftrightarrow> j_latest_attempt_id j = Some s"
  "field_is (job_obj j) ''status'' ''preparing'' \<longleftrightarrow> j_status j = JS_preparing"
  "field_is (job_obj j) ''status'' ''queued'' \<longleftrightarrow> j_status j = JS_queued"
  "field_is (job_obj j) ''status'' ''active'' \<longleftrightarrow> j_status j = JS_active"
  "field_is (job_obj j) ''status'' ''terminal'' \<longleftrightarrow> j_status j = JS_terminal"
  by (auto simp: field_is_def json_simps jopt_def split: option.splits) (cases "j_status j"; simp)+

lemma attempt_field_is [simp]:
  "field_is (attempt_obj a) ''attempt_id'' s \<longleftrightarrow> a_attempt_id a = s"
  "field_is (attempt_obj a) ''job_id'' s \<longleftrightarrow> a_job_id a = s"
  "field_is (attempt_obj a) ''workspace_id'' s \<longleftrightarrow> a_workspace_id a = s"
  "field_is (attempt_obj a) ''target_id'' s \<longleftrightarrow> a_target_id a = s"
  "field_is (attempt_obj a) ''device_id'' s \<longleftrightarrow> a_device_id a = s"
  "field_is (attempt_obj a) ''target_binding_id'' s \<longleftrightarrow> a_target_binding_id a = s"
  "field_is (attempt_obj a) ''claim_token_sha256'' s \<longleftrightarrow> a_claim_token_sha256 a = s"
  "field_is (attempt_obj a) ''phase'' ''claimed'' \<longleftrightarrow> a_phase a = AP_claimed"
  "field_is (attempt_obj a) ''phase'' ''running'' \<longleftrightarrow> a_phase a = AP_running"
  "field_is (attempt_obj a) ''phase'' ''terminal'' \<longleftrightarrow> a_phase a = AP_terminal"
  by (auto simp: field_is_def json_simps) (cases "a_phase a"; simp)+

lemma job_obj_eqI:
  assumes "fset (fmdom m) \<subseteq> set ALLOWED_JOB_V2_KEYS"
    and "\<forall>k \<in> set ALLOWED_JOB_V2_KEYS. fmlookup m k = fmlookup (job_obj j) k"
  shows "m = job_obj j"
  using assms by (intro strict_obj_eqI [of m ALLOWED_JOB_V2_KEYS]) (simp_all add: job_obj_dom)

lemma attempt_obj_eqI:
  assumes "fset (fmdom m) \<subseteq> set ALLOWED_ATTEMPT_V1_KEYS"
    and "\<forall>k \<in> set ALLOWED_ATTEMPT_V1_KEYS. fmlookup m k = fmlookup (attempt_obj a) k"
  shows "m = attempt_obj a"
  using assms by (intro strict_obj_eqI [of m ALLOWED_ATTEMPT_V1_KEYS]) (simp_all add: attempt_obj_dom)

lemma upd_dom: "k \<in> set ks \<Longrightarrow> fset (fmdom m) \<subseteq> set ks \<Longrightarrow> fset (fmdom (fmupd k v m)) \<subseteq> set ks"
  by simp

lemma job_obj_upd:
  "fmupd ''status'' (JStr (job_status_str st)) (job_obj j) = job_obj (j\<lparr>j_status := st\<rparr>)"
  "fmupd ''stream_entry_id'' (jopt JStr e) (job_obj j) = job_obj (j\<lparr>j_stream_entry_id := e\<rparr>)"
  "fmupd ''latest_attempt_id'' (jopt JStr e) (job_obj j) = job_obj (j\<lparr>j_latest_attempt_id := e\<rparr>)"
  "fmupd ''cancel'' (jopt (\<lambda>c. JObj (cancel_obj c)) c) (job_obj j) = job_obj (j\<lparr>j_cancel := c\<rparr>)"
  by (rule job_obj_eqI, rule upd_dom, simp add: ALLOWED_JOB_V2_KEYS_def, simp add: job_obj_dom,
      simp add: ALLOWED_JOB_V2_KEYS_def job_obj_fields)+

lemma attempt_obj_upd:
  "fmupd ''phase'' (JStr (phase_str p)) (attempt_obj a) = attempt_obj (a\<lparr>a_phase := p\<rparr>)"
  "fmupd ''started_at_ms'' (jopt jint t) (attempt_obj a) = attempt_obj (a\<lparr>a_started_at_ms := t\<rparr>)"
  "fmupd ''report'' (JObj (persisted_obj r)) (attempt_obj a) = attempt_obj (a\<lparr>a_report := Some r\<rparr>)"
  "fmupd ''result'' (JObj (result_obj x)) (attempt_obj a) = attempt_obj (a\<lparr>a_result := Some x\<rparr>)"
  by (rule attempt_obj_eqI, rule upd_dom, simp add: ALLOWED_ATTEMPT_V1_KEYS_def, rule attempt_obj_dom,
      simp add: ALLOWED_ATTEMPT_V1_KEYS_def attempt_obj_fields)+

lemma job_obj_lit [simp]:
  "fmupd ''status'' (JStr ''preparing'') (job_obj j) = job_obj (j\<lparr>j_status := JS_preparing\<rparr>)"
  "fmupd ''status'' (JStr ''queued'') (job_obj j) = job_obj (j\<lparr>j_status := JS_queued\<rparr>)"
  "fmupd ''status'' (JStr ''active'') (job_obj j) = job_obj (j\<lparr>j_status := JS_active\<rparr>)"
  "fmupd ''status'' (JStr ''terminal'') (job_obj j) = job_obj (j\<lparr>j_status := JS_terminal\<rparr>)"
  "fmupd ''stream_entry_id'' JNull (job_obj j) = job_obj (j\<lparr>j_stream_entry_id := None\<rparr>)"
  "fmupd ''stream_entry_id'' (JStr e) (job_obj j) = job_obj (j\<lparr>j_stream_entry_id := Some e\<rparr>)"
  "fmupd ''latest_attempt_id'' JNull (job_obj j) = job_obj (j\<lparr>j_latest_attempt_id := None\<rparr>)"
  "fmupd ''latest_attempt_id'' (JStr e) (job_obj j) = job_obj (j\<lparr>j_latest_attempt_id := Some e\<rparr>)"
  using job_obj_upd(1) [of JS_preparing j] job_obj_upd(1) [of JS_queued j] job_obj_upd(1) [of JS_active j]
    job_obj_upd(1) [of JS_terminal j] job_obj_upd(2) [of None j] job_obj_upd(2) [of "Some e" j]
    job_obj_upd(3) [of None j] job_obj_upd(3) [of "Some e" j]
  by simp_all

lemma attempt_obj_lit [simp]:
  "fmupd ''phase'' (JStr ''running'') (attempt_obj a) = attempt_obj (a\<lparr>a_phase := AP_running\<rparr>)"
  "fmupd ''phase'' (JStr ''terminal'') (attempt_obj a) = attempt_obj (a\<lparr>a_phase := AP_terminal\<rparr>)"
  "fmupd ''started_at_ms'' (jint t) (attempt_obj a) = attempt_obj (a\<lparr>a_started_at_ms := Some t\<rparr>)"
  using attempt_obj_upd(1) [of AP_running a] attempt_obj_upd(1) [of AP_terminal a] attempt_obj_upd(2) [of "Some t" a]
  by simp_all

lemma new_attempt_table_obj:
  "new_attempt_table now (job_obj j) dev bid aid tok = attempt_obj (new_attempt now j dev bid aid tok)"
  by (rule attempt_obj_eqI)
    (simp_all add: new_attempt_table_def new_attempt_def put_opt_def job_obj_fields attempt_obj_fields
      ATTEMPT_V1_SCHEMA_VERSION_def ALLOWED_ATTEMPT_V1_KEYS_def)

lemma decoded_simps [simp]:
  "decoded db (Json j) code k = k j" "decoded db (Text t) code k = (db, error_table code)"
  by (simp_all add: decoded_def)

lemma indexed_obj [simp]: "indexed db (JObj m) k = k m"
  by (simp add: indexed_def lua_fields_def)

section \<open>Claim refines\<close>

definition attempt_reply_of :: "int \<Rightarrow> string \<Rightarrow> attempt_out \<Rightarrow> script_reply" where
  "attempt_reply_of now t out = (case out of
      Refused code \<Rightarrow> error_table code
    | FencedOut \<Rightarrow> fenced_reply t
    | Granted st a \<Rightarrow> encoded [(''status'', Some (JStr st)), (''attempt'', Some (JObj (attempt_obj a))), server_time now])"

text \<open>A run of a script from \<open>db\<close> ends in a key space for the abstract state, with the given reply.\<close>

definition simulates :: "script_result \<Rightarrow> queue_state \<Rightarrow> script_reply \<Rightarrow> bool" where
  "simulates res S reply \<longleftrightarrow> represents (fst res) S \<and> snd res = reply"

lemma simulatesI: "represents db S \<Longrightarrow> simulates (db, r) S r"
  by (simp add: simulates_def)

lemma deadline_passed_job:
  "job_ok j \<Longrightarrow> deadline_passed now (job_obj j) = Some (j_claim_deadline_ms j \<le> now)"
  by (auto simp: deadline_passed_def json_simps job_ok_def safe_nonneg_def)

lemma claim_writes_refines:
  assumes rep: "represents db S" and jid: "colon_free jid" "j_job_id j = jid" and j: "job_short j" and now: "short now"
  shows "simulates (claim_writes now db (jobKeyV2 jid) (targetQueueKeyV1 t) (jobAttemptsKeyV1 jid) (attemptKeyV1 aid)
      (job_obj j) jid dev bid aid tok)
    (dequeue t jid (set_job jid (j\<lparr>j_status := JS_active, j_latest_attempt_id := Some aid\<rparr>)
      (set_attempt aid (new_attempt now j dev bid aid tok) S)))
    (attempt_reply_of now t (Granted ''claimed'' (new_attempt now j dev bid aid tok)))"
proof -
  let ?a = "new_attempt now j dev bid aid tok" and ?j = "j\<lparr>j_status := JS_active, j_latest_attempt_id := Some aid\<rparr>"
  let ?db1 = "redis_set (attemptKeyV1 aid) (Json (cjson_encode (JObj (attempt_obj ?a)))) db"
  have "attempt_short ?a" using now by (simp add: new_attempt_def attempt_short_def)
  then have r1: "represents ?db1 (set_attempt aid ?a S)" by (rule repr_set_attempt [OF rep])
  obtain db2 where db2: "redis_zadd now (jobAttemptsKeyV1 jid) (of_int now) aid ?db1 = Inr db2"
    "represents db2 (set_attempt aid ?a S)"
    using repr_zadd_index [OF r1] by blast
  have "job_short ?j" using j by (simp add: job_short_def)
  then have r3: "represents (redis_set (jobKeyV2 jid) (Json (cjson_encode (JObj (job_obj ?j)))) db2) (set_job jid ?j (set_attempt aid ?a S))"
    by (rule repr_set_job [OF db2(2) jid(1)])
  obtain db4 n where db4: "redis_zrem now (targetQueueKeyV1 t) [jid] (redis_set (jobKeyV2 jid) (Json (cjson_encode (JObj (job_obj ?j)))) db2) = Inr (db4, n)"
    "represents db4 (dequeue t jid (set_job jid ?j (set_attempt aid ?a S)))"
    using repr_zrem [OF r3] by blast
  have "claim_writes now db (jobKeyV2 jid) (targetQueueKeyV1 t) (jobAttemptsKeyV1 jid) (attemptKeyV1 aid)
      (job_obj j) jid dev bid aid tok = (db4, attempt_reply_of now t (Granted ''claimed'' ?a))"
    using db2(1) db4(1)
    by (simp add: claim_writes_def new_attempt_table_obj Let_def attempt_reply_of_def del: cjson_encode.simps)
  with db4(2) show ?thesis by (simp add: simulates_def)
qed

lemma claim_refines:
  assumes rep: "represents db S" and inv: "machine_inv now S" and jid: "colon_free jid" and now: "short now"
    and m_def: "m = machine_claim now (fence_fresh now db (targetDeleteFenceKeyV1 t)) jid ws t dev bid aid tok replayOnly S"
  shows "simulates (V2_CLAIM_JOB_SCRIPT now db (jobKeyV2 jid) (targetQueueKeyV1 t) (jobAttemptsKeyV1 jid)
      (attemptKeyV1 aid) (targetDeleteFenceKeyV1 t) jid ws t dev bid aid tok replayOnly)
    (fst m) (attempt_reply_of now t (snd m))" (is "simulates ?run _ _")
proof (cases "fence_fresh now db (targetDeleteFenceKeyV1 t)")
  case True
  then show ?thesis
    by (simp add: m_def machine_claim_def V2_CLAIM_JOB_SCRIPT_def repr_badtype [OF rep] jid attempt_reply_of_def
        simulates_def rep)
next
  case unfenced: False
  show ?thesis
  proof (cases "q_jobs S jid")
    case None
    with unfenced show ?thesis
      by (simp add: m_def machine_claim_def V2_CLAIM_JOB_SCRIPT_def repr_badtype [OF rep] repr_GET [OF rep] jid
          attempt_reply_of_def simulates_def rep)
  next
    case (Some j)
    have ji: "job_inv S jid j" by (rule machine_inv_jobD [OF inv Some])
    then have job: "job_ok j" "job_short j" "j_job_id j = jid" by (simp_all add: job_inv_def)
    have run: "?run = claim_job now db (jobKeyV2 jid) (targetQueueKeyV1 t) (jobAttemptsKeyV1 jid) (attemptKeyV1 aid)
        jid ws t dev bid aid tok replayOnly (job_obj j)"
      using unfenced Some by (simp add: V2_CLAIM_JOB_SCRIPT_def repr_badtype [OF rep] repr_GET [OF rep] jid)
    show ?thesis
    proof (cases "j_workspace_id j = ws \<and> j_target_id j = t")
      case False
      with unfenced Some job show ?thesis
        unfolding run by (auto simp: m_def machine_claim_def claim_job_def attempt_reply_of_def simulates_def rep)
    next
      case scope: True
      show ?thesis
      proof (cases "j_latest_attempt_id j = Some aid")
        case True
        then obtain a where a: "q_attempts S aid = Some a" "a_job_id a = jid" "a_attempt_id a = aid" "attempt_of_job a j"
          using job_linked [OF inv Some] by metis
        then have "a_workspace_id a = ws" "a_target_id a = t" using scope by (simp_all add: attempt_of_job_def)
        with unfenced Some job scope True a show ?thesis
          unfolding run
          by (cases "a_phase a") (auto simp: m_def machine_claim_def claim_job_def claim_replay_def repr_GET [OF rep]
              attempt_reply_of_def simulates_def rep)
      next
        case nolatest: False
        have run2: "?run = claim_new now db (jobKeyV2 jid) (targetQueueKeyV1 t) (jobAttemptsKeyV1 jid) (attemptKeyV1 aid)
            (job_obj j) jid dev bid aid tok replayOnly"
          using scope nolatest job unfolding run by (simp add: claim_job_def)
        show ?thesis
        proof (cases "\<not> replayOnly \<and> j_status j = JS_queued \<and> \<not> j_claim_deadline_ms j \<le> now \<and> q_attempts S aid = None")
          case True
          then have "?run = claim_writes now db (jobKeyV2 jid) (targetQueueKeyV1 t) (jobAttemptsKeyV1 jid) (attemptKeyV1 aid)
              (job_obj j) jid dev bid aid tok"
            unfolding run2 by (simp add: claim_new_def deadline_passed_job [OF job(1)] repr_TYPE [OF rep])
          moreover have "m = (dequeue t jid (set_job jid (j\<lparr>j_status := JS_active, j_latest_attempt_id := Some aid\<rparr>)
              (set_attempt aid (new_attempt now j dev bid aid tok) S)), Granted ''claimed'' (new_attempt now j dev bid aid tok))"
            using True unfenced Some scope nolatest by (simp add: m_def machine_claim_def Let_def)
          ultimately show ?thesis using claim_writes_refines [OF rep jid job(3,2) now] by simp
        next
          case False
          obtain db1 n where z: "redis_zrem now (targetQueueKeyV1 t) [jid] db = Inr (db1, n)" "represents db1 (dequeue t jid S)"
            using repr_zrem [OF rep] by blast
          show ?thesis
            using False unfenced Some scope nolatest z unfolding run2
            by (auto simp: m_def machine_claim_def claim_new_def deadline_passed_job [OF job(1)] repr_TYPE [OF rep]
                attempt_reply_of_def simulates_def rep)
        qed
      qed
    qed
  qed
qed

section \<open>Start refines\<close>

lemma attempt_not_corrupt:
  assumes "attempt_core_ok a"
  shows "\<not> attempt_corrupt (attempt_obj a)"
proof -
  have ids: "HEX_64_RE (a_claim_token_sha256 a)" "TARGET_BINDING_ID_V2_RE (a_target_binding_id a)"
    using core_ok_ids [OF assms] by (auto simp: attempt_ids_ok_def)
  then have "a_target_binding_id a \<noteq> []" "length (a_claim_token_sha256 a) = 64"
    by (auto simp: HEX_64_RE_def TARGET_BINDING_ID_V2_RE_def after_prefix_def strip_prefix_def)
  moreover have "a_phase a = AP_running \<Longrightarrow> \<exists>t. a_started_at_ms a = Some t"
    using core_ok_report(3) [OF assms] by (auto simp: started_some_ok_def split: option.splits)
  moreover have "a_phase a = AP_claimed \<Longrightarrow> a_started_at_ms a = None" by (rule core_ok_report(2) [OF assms])
  ultimately show ?thesis
    by (auto simp: attempt_corrupt_def attempt_obj_fields ATTEMPT_V1_SCHEMA_VERSION_def is_nullish_def)
qed

lemma attempt_identity_obj:
  "attempt_identity (attempt_obj a) (job_obj j) aid dev tok \<longleftrightarrow>
     a_attempt_id a = aid \<and> a_job_id a = j_job_id j \<and> a_workspace_id a = j_workspace_id j
     \<and> a_target_id a = j_target_id j \<and> a_device_id a = dev \<and> a_claim_token_sha256 a = tok"
  by (simp add: attempt_identity_def attempt_obj_fields job_obj_fields)

lemma with_records_repr:
  assumes rep: "represents db S" and jid: "colon_free jid"
  shows "with_records now db (jobKeyV2 jid) (attemptKeyV1 aid) code k = (case q_jobs S jid of
      None \<Rightarrow> (db, error_table ''JOB_NOT_FOUND'')
    | Some j \<Rightarrow> (case q_attempts S aid of
        None \<Rightarrow> (db, error_table ''ATTEMPT_NOT_FOUND'')
      | Some a \<Rightarrow> k (JObj (job_obj j)) (JObj (attempt_obj a))))"
  by (simp add: with_records_def repr_badtype [OF rep] repr_GET [OF rep] jid split: option.split)

lemma start_refines:
  assumes rep: "represents db S" and inv: "machine_inv now S" and jid: "colon_free jid" and now: "short now"
    and m_def: "m = machine_start now jid aid dev tok S"
  shows "simulates (V2_START_JOB_SCRIPT now db (jobKeyV2 jid) (attemptKeyV1 aid) aid dev tok)
    (fst m) (attempt_reply_of now t (snd m))" (is "simulates ?run _ _")
proof (cases "q_jobs S jid = None \<or> q_attempts S aid = None")
  case True
  then show ?thesis
    by (auto simp: m_def machine_start_def V2_START_JOB_SCRIPT_def with_records_repr [OF rep jid] attempt_reply_of_def
        simulates_def rep split: option.splits)
next
  case False
  then obtain j a where ja: "q_jobs S jid = Some j" "q_attempts S aid = Some a" by auto
  have a: "attempt_core_ok a" "attempt_short a" "a_attempt_id a = aid"
    using machine_inv_attemptD [OF inv ja(2)] by (simp_all add: attempt_inv_def)
  have jj: "j_job_id j = jid" using machine_inv_jobD [OF inv ja(1)] by (simp add: job_inv_def)
  have run: "?run = start_attempt now db (attemptKeyV1 aid) aid dev tok (job_obj j) (attempt_obj a)"
    using ja by (simp add: V2_START_JOB_SCRIPT_def with_records_repr [OF rep jid] attempt_not_corrupt [OF a(1)])
  show ?thesis
  proof (cases "j_status j = JS_active \<and> j_latest_attempt_id j = Some aid")
    case False
    with ja show ?thesis
      unfolding run by (auto simp: m_def machine_start_def start_attempt_def attempt_reply_of_def simulates_def rep)
  next
    case True
    note f = machine_fetch [OF inv ja(1) True [THEN conjunct2] ja(2)]
    let ?a = "a\<lparr>a_phase := AP_running, a_started_at_ms := Some now\<rparr>"
    have id: "attempt_identity (attempt_obj a) (job_obj j) aid dev tok \<longleftrightarrow> a_device_id a = dev \<and> a_claim_token_sha256 a = tok"
      using f jj by (auto simp: attempt_identity_obj attempt_of_job_def)
    have "attempt_short ?a" using a(2) now by (simp add: attempt_short_def)
    then have "represents (redis_set (attemptKeyV1 aid) (Json (cjson_encode (JObj (attempt_obj ?a)))) db) (set_attempt aid ?a S)"
      by (rule repr_set_attempt [OF rep])
    moreover have "a_phase a = AP_claimed \<or> a_phase a = AP_running"
      using f(1) True by (cases "a_phase a") (auto simp: attempt_of_job_def)
    ultimately show ?thesis
      using True ja unfolding run
      by (auto simp: m_def machine_start_def start_attempt_def id attempt_reply_of_def simulates_def rep Let_def
          simp del: cjson_encode.simps)
  qed
qed

section \<open>Report refines\<close>

definition report_reply_of :: "int \<Rightarrow> report_out \<Rightarrow> script_reply" where
  "report_reply_of now out = (case out of
      ReportRefused code \<Rightarrow> error_table code
    | Reported st \<Rightarrow> encoded [(''status'', Some (JStr st)), server_time now])"

lemma report_field_is:
  "field_is (report_obj r) ''execution_status'' s \<longleftrightarrow> status_str (r_execution_status r) = s"
  "field_is (report_obj r) ''business_outcome'' s \<longleftrightarrow> outcome_str (r_business_outcome r) = s"
  by (auto simp: field_is_def report_obj_fields)

lemma status_lit [simp]:
  "status_str s = ''COMPLETED'' \<longleftrightarrow> s = ES_COMPLETED" "status_str s = ''CANCELLED'' \<longleftrightarrow> s = ES_CANCELLED"
  "outcome_str b = ''NOT_STARTED'' \<longleftrightarrow> b = BO_NOT_STARTED" "outcome_str b = ''UNVERIFIED'' \<longleftrightarrow> b = BO_UNVERIFIED"
  by (cases s; cases b; simp)+

lemma field_Some_simps [simp]:
  "status_field (Some (JStr (status_str s))) = Some s" "outcome_field (Some (JStr (outcome_str b))) = Some b"
  by simp_all

lemma field_known [simp]:
  "status_field (Some (JStr (status_str s))) \<noteq> None" "outcome_field (Some (JStr (outcome_str b))) \<noteq> None"
  by (simp_all only: field_Some_simps option.distinct not_False_eq_True)

lemma report_fault_ok:
  assumes "report_ok r"
  shows "report_fault (report_obj r) = None"
proof -
  have e: "r_execution_status r \<noteq> ES_COMPLETED \<Longrightarrow> \<exists>x. r_error r = Some x"
    and c: "r_execution_status r = ES_COMPLETED \<Longrightarrow> r_error r = None"
    and d: "\<not> r_task_dispatched r \<Longrightarrow> r_business_outcome r = BO_NOT_STARTED"
    using assms by (auto simp: report_ok_def report_refined_def)
  have n: "0 \<le> r_finished_at_ms r" "0 \<le> r_duration_ms r" "length (r_receipt_sha256 r) = 64"
    using assms by (auto simp: report_ok_def safe_nonneg_def HEX_64_RE_def)
  show ?thesis
  proof (cases "r_execution_status r = ES_COMPLETED")
    case True
    with c d n show ?thesis
      by (simp add: report_fault_def report_obj_fields report_field_is is_nonneg_number_def is_table_def sub_fields_def
          lua_fields_def executor_obj_fields is_nullish_def del: status_field_Some outcome_field_Some not_None_eq status_str.simps)
        auto
  next
    case False
    then obtain x where "r_error r = Some x" using e by blast
    with False d n show ?thesis
      by (simp add: report_fault_def report_obj_fields report_field_is is_nonneg_number_def is_table_def sub_fields_def
          lua_fields_def executor_obj_fields error_obj_fields del: status_field_Some outcome_field_Some not_None_eq) auto
  qed
qed

lemma fields_match_obj [simp]:
  "fields_match ks (Some (JObj m)) (Some (JObj n)) = Some (list_all (\<lambda>k. lua_eq (jfield m k) (jfield n k)) ks)"
  by (simp add: fields_match_def opt_fields_def lua_fields_def)

lemma error_match_obj:
  "error_match (Some (jopt (\<lambda>e. JObj (error_obj e)) e1)) (Some (jopt (\<lambda>e. JObj (error_obj e)) e2)) = Some (e1 = e2)"
  by (cases e1; cases e2) (auto simp: error_match_def is_nullish_def error_obj_fields)

lemma executor_match_obj:
  "executor_match (Some (JObj (executor_obj x))) (Some (JObj (executor_obj y))) = Some (x = y)"
  by (auto simp: executor_match_def lua_truthy_def executor_obj_fields)

lemma sem_match_obj: "sem_match (persisted_obj r) (report_obj rep) = Some (exec_report.truncate r = rep)"
proof -
  have eq: "exec_report.truncate r = rep \<longleftrightarrow> r_execution_status r = r_execution_status rep
      \<and> r_business_outcome r = r_business_outcome rep \<and> r_task_dispatched r = r_task_dispatched rep
      \<and> r_finished_at_ms r = r_finished_at_ms rep \<and> r_duration_ms r = r_duration_ms rep
      \<and> r_executor r = r_executor rep \<and> r_receipt_sha256 r = r_receipt_sha256 rep \<and> r_error r = r_error rep"
    by (cases rep) (auto simp: exec_report.defs)
  show ?thesis
    unfolding sem_match_def eq
    by (auto simp: persisted_obj_fields report_obj_fields executor_match_obj error_match_obj split: bool.splits)
qed

lemma received_obj: "fmupd ''received_at_ms'' (jint now) (report_obj rep) = persisted_obj (received now rep)"
proof -
  have "report_obj (received now rep) = report_obj (exec_report.truncate (received now rep))"
    by (rule truncate_invariant(1) [symmetric])
  then show ?thesis by (simp add: persisted_obj_def)
qed

lemma report_table_obj [simp]: "report_table (Json (JObj m)) = Some m"
  by (simp add: report_table_def)

lemma report_writes_refines:
  assumes rep: "represents db S" and jid: "colon_free jid" and short: "job_short j" "attempt_short a" "report_short (received now r)"
  shows "simulates (report_writes now db (jobKeyV2 jid) (attemptKeyV1 aid) (job_obj j) (attempt_obj a) (report_obj r))
    (set_job jid (j\<lparr>j_status := JS_terminal\<rparr>)
      (set_attempt aid (a\<lparr>a_phase := AP_terminal, a_report := Some (received now r)\<rparr>) S))
    (report_reply_of now (Reported ''reported''))"
proof -
  let ?a = "a\<lparr>a_phase := AP_terminal, a_report := Some (received now r)\<rparr>" and ?j = "j\<lparr>j_status := JS_terminal\<rparr>"
  have "attempt_short ?a" "job_short ?j" using short by (simp_all add: attempt_short_def job_short_def)
  then have "represents (redis_set (jobKeyV2 jid) (Json (cjson_encode (JObj (job_obj ?j))))
      (redis_set (attemptKeyV1 aid) (Json (cjson_encode (JObj (attempt_obj ?a)))) db)) (set_job jid ?j (set_attempt aid ?a S))"
    using repr_set_job [OF repr_set_attempt [OF rep] jid] by blast
  then show ?thesis
    by (simp add: report_writes_def received_obj attempt_obj_upd(3) simulates_def report_reply_of_def Let_def
        del: cjson_encode.simps)
qed

lemma report_refines:
  assumes rep: "represents db S" and inv: "machine_inv now S" and jid: "colon_free jid" and now: "short now"
    and r: "report_ok r" "short (r_finished_at_ms r)" "short (r_duration_ms r)"
    and m_def: "m = machine_report now jid aid dev tok r S"
  shows "simulates (V2_REPORT_JOB_SCRIPT now db (jobKeyV2 jid) (attemptKeyV1 aid) aid dev tok (Json (JObj (report_obj r))))
    (fst m) (report_reply_of now (snd m))" (is "simulates ?run _ _")
proof (cases "q_jobs S jid = None \<or> q_attempts S aid = None")
  case True
  then show ?thesis
    by (auto simp: m_def machine_report_def V2_REPORT_JOB_SCRIPT_def with_records_repr [OF rep jid] report_reply_of_def
        simulates_def rep split: option.splits)
next
  case False
  then obtain j a where ja: "q_jobs S jid = Some j" "q_attempts S aid = Some a" by auto
  have a: "attempt_core_ok a" using machine_inv_attemptD [OF inv ja(2)] by (simp add: attempt_inv_def)
  have jj: "j_job_id j = jid" "job_short j" using machine_inv_jobD [OF inv ja(1)] by (simp_all add: job_inv_def)
  have run: "?run = report_attempt now db (jobKeyV2 jid) (attemptKeyV1 aid) aid dev tok (Json (JObj (report_obj r))) (job_obj j) (attempt_obj a)"
    using ja by (simp add: V2_REPORT_JOB_SCRIPT_def with_records_repr [OF rep jid] attempt_not_corrupt [OF a])
  show ?thesis
  proof (cases "j_latest_attempt_id j = Some aid")
    case False
    with ja show ?thesis
      unfolding run by (auto simp: m_def machine_report_def report_attempt_def report_reply_of_def simulates_def rep)
  next
    case True
    note f = machine_fetch [OF inv ja(1) True ja(2)]
    have st: "j_status j = JS_active \<or> j_status j = JS_terminal" using f(1) by (simp add: attempt_of_job_def)
    have id: "attempt_identity (attempt_obj a) (job_obj j) aid dev tok \<longleftrightarrow> a_device_id a = dev \<and> a_claim_token_sha256 a = tok"
      using f jj by (auto simp: attempt_identity_obj attempt_of_job_def)
    show ?thesis
    proof (cases "a_report a")
      case (Some old)
      then have "a_phase a = AP_terminal" using core_ok_report(1) [OF a] by simp
      with Some ja True st show ?thesis
        unfolding run
        by (auto simp: m_def machine_report_def report_attempt_def id report_fault_ok [OF r(1)] report_replay_def
            attempt_obj_fields lua_truthy_def opt_fields_def lua_fields_def sem_match_obj report_reply_of_def simulates_def rep)
    next
      case None
      then have nt: "a_phase a \<noteq> AP_terminal" using core_ok_report(1) [OF a] by simp
      then have act: "j_status j = JS_active" using f(1) st by (auto simp: attempt_of_job_def)
      have started: "a_phase a = AP_running \<Longrightarrow> \<not> is_nullish (Some (jopt jint (a_started_at_ms a)))"
        using core_ok_report(3) [OF a] by (auto simp: started_some_ok_def is_nullish_def split: option.splits)
      have w: "simulates (report_writes now db (jobKeyV2 jid) (attemptKeyV1 aid) (job_obj j) (attempt_obj a) (report_obj r))
        (set_job jid (j\<lparr>j_status := JS_terminal\<rparr>) (set_attempt aid (a\<lparr>a_phase := AP_terminal, a_report := Some (received now r)\<rparr>) S))
        (report_reply_of now (Reported ''reported''))"
        using report_writes_refines [OF rep jid jj(2) f(7)] r now by simp
      have ph: "a_phase a = AP_claimed \<or> a_phase a = AP_running" using nt by (cases "a_phase a") auto
      show ?thesis
        using None ja True st act nt ph started w unfolding run
        by (cases "r_task_dispatched r")
          (auto simp: m_def machine_report_def report_attempt_def id report_fault_ok [OF r(1)] report_transition_def
            report_obj_fields attempt_obj_fields simulates_def rep report_reply_of_def)
    qed
  qed
qed

section \<open>Recording a result refines\<close>

definition record_reply_of :: "int \<Rightarrow> string + string \<times> job_result \<Rightarrow> script_reply" where
  "record_reply_of now out = (case out of
      Inl code \<Rightarrow> error_table code
    | Inr (st, r) \<Rightarrow> encoded [(''status'', Some (JStr st)), server_time now,
        (''commit'', Some (JStr (res_commit r))), (''resource_id'', Some (JStr (res_resource_id r)))])"

lemma result_obj_received: "fmupd ''received_at_ms'' (jint now) (result_obj r) = result_obj (r\<lparr>res_received_at_ms := now\<rparr>)"
  by (rule strict_obj_eqI [of _ result_keys]) (simp_all add: result_obj_fields, auto simp: result_keys_def result_obj_fields)

lemma record_writes_refines:
  assumes rep: "represents db S" and a: "attempt_short a" and now: "short now"
  shows "simulates (record_writes now db (attemptKeyV1 aid) (attempt_obj a) (JObj (result_obj r)))
    (set_attempt aid (a\<lparr>a_result := Some (r\<lparr>res_received_at_ms := now\<rparr>)\<rparr>) S)
    (record_reply_of now (Inr (''recorded'', r\<lparr>res_received_at_ms := now\<rparr>)))"
proof -
  let ?r = "r\<lparr>res_received_at_ms := now\<rparr>"
  have "attempt_short (a\<lparr>a_result := Some ?r\<rparr>)" using a now by (simp add: attempt_short_def)
  then have "represents (redis_set (attemptKeyV1 aid) (Json (cjson_encode (JObj (attempt_obj (a\<lparr>a_result := Some ?r\<rparr>))))) db)
      (set_attempt aid (a\<lparr>a_result := Some ?r\<rparr>) S)"
    by (rule repr_set_attempt [OF rep])
  then show ?thesis
    by (simp add: record_writes_def lua_table_def result_obj_received attempt_obj_upd(4) simulates_def record_reply_of_def
        result_obj_fields Let_def del: cjson_encode.simps)
qed

lemma record_refines:
  assumes rep: "represents db S" and inv: "machine_inv now S" and jid: "colon_free jid" and now: "short now"
    and m_def: "m = machine_record now jid aid dev tok r (mode = ''explicit_redelivery'') S"
  shows "simulates (V2_RECORD_RESULT_SCRIPT now db (jobKeyV2 jid) (attemptKeyV1 aid) dev tok (Json (JObj (result_obj r))) mode)
    (fst m) (record_reply_of now (snd m))" (is "simulates ?run _ _")
proof (cases "q_jobs S jid = None \<or> q_attempts S aid = None")
  case True
  then show ?thesis
    by (auto simp: m_def machine_record_def V2_RECORD_RESULT_SCRIPT_def with_records_repr [OF rep jid] record_reply_of_def
        simulates_def rep split: option.splits)
next
  case False
  then obtain j a where ja: "q_jobs S jid = Some j" "q_attempts S aid = Some a" by auto
  have a: "attempt_short a" "a_attempt_id a = aid" using machine_inv_attemptD [OF inv ja(2)] by (simp_all add: attempt_inv_def)
  have jj: "j_job_id j = jid" using machine_inv_jobD [OF inv ja(1)] by (simp add: job_inv_def)
  have run: "?run = record_attempt now db (attemptKeyV1 aid) dev tok (Json (JObj (result_obj r))) mode (job_obj j) (attempt_obj a)"
    using ja by (simp add: V2_RECORD_RESULT_SCRIPT_def with_records_repr [OF rep jid])
  have link: "a_job_id a = jid \<Longrightarrow> j_latest_attempt_id j = Some aid"
    using attempt_linked [OF inv ja(2)] ja(1) a(2) by (metis attempt_of_job_def option.inject)
  have mis: "lua_eq (jfield (attempt_obj a) ''job_id'') (jfield (job_obj j) ''job_id'')
      \<and> lua_eq (jfield (job_obj j) ''latest_attempt_id'') (jfield (attempt_obj a) ''attempt_id'') \<longleftrightarrow> a_job_id a = jid"
    using link jj a(2) by (auto simp: attempt_obj_fields job_obj_fields)
  note w = record_writes_refines [OF rep a(1) now, of aid r]
  have mode: "(if mode = [] then ''automatic'' else mode) = ''explicit_redelivery'' \<longleftrightarrow> mode = ''explicit_redelivery''" by auto
  show ?thesis
  proof (cases "a_job_id a = jid \<and> a_device_id a = dev \<and> a_claim_token_sha256 a = tok")
    case False
    then show ?thesis
      using ja mis unfolding run
      by (auto simp: m_def machine_record_def record_attempt_def Let_def record_reply_of_def simulates_def rep)
  next
    case True
    with mis have idok: "\<not> (\<not> lua_eq (jfield (attempt_obj a) ''job_id'') (jfield (job_obj j) ''job_id'')
      \<or> \<not> lua_eq (jfield (job_obj j) ''latest_attempt_id'') (jfield (attempt_obj a) ''attempt_id''))" by blast
    show ?thesis
    proof (cases "a_result a")
      case None
      with True ja w idok show ?thesis
        unfolding run by (auto simp: m_def machine_record_def record_attempt_def Let_def attempt_obj_fields lua_truthy_def)
    next
      case (Some old)
      with True ja w idok mode show ?thesis
        unfolding run
        by (auto simp: m_def machine_record_def record_attempt_def Let_def attempt_obj_fields lua_truthy_def is_null_def
            opt_fields_def lua_fields_def result_obj_fields record_reply_of_def simulates_def rep)
    qed
  qed
qed

section \<open>Cancel refines\<close>

definition cancel_reply_of :: "int \<Rightarrow> cancel_out \<Rightarrow> script_reply" where
  "cancel_reply_of now out = (case out of
      CancelRefused code \<Rightarrow> error_table code
    | CancelDone st res es bo aid \<Rightarrow> cancel_reply now st res (Some (JStr (status_str es)))
        (Some (JStr (outcome_str bo))) (Some (jopt JStr aid)))"

lemma cancelled_report_obj:
  assumes "a_phase a \<noteq> AP_terminal" "a_phase a = AP_running \<Longrightarrow> a_started_at_ms a = Some t"
    and "d = (if a_phase a = AP_running then max 0 (of_int now - of_int t) else 0)"
  shows "cancelled_report now (a_phase a = AP_running) d receipt = persisted_obj (operator_report now a receipt)"
proof (rule strict_obj_eqI [of _ "report_keys @ [''received_at_ms'']"])
  have d: "d = of_int (r_duration_ms (operator_report now a receipt))"
    using assms by (simp add: operator_report_def max_def)
  fix k
  assume "k \<in> set (report_keys @ [''received_at_ms''])"
  then have "k = ''schema_version'' \<or> k = ''execution_status'' \<or> k = ''business_outcome'' \<or> k = ''task_dispatched''
      \<or> k = ''finished_at_ms'' \<or> k = ''duration_ms'' \<or> k = ''executor'' \<or> k = ''receipt_sha256'' \<or> k = ''error''
      \<or> k = ''received_at_ms''"
    by (simp add: report_keys_def)
  then show "fmlookup (cancelled_report now (a_phase a = AP_running) d receipt) k = fmlookup (persisted_obj (operator_report now a receipt)) k"
    unfolding d
    by (elim disjE; simp add: cancelled_report_def persisted_obj_fields report_obj_fields;
        simp add: operator_report_def executor_obj_def error_obj_def)
qed (simp_all add: cancelled_report_def persisted_obj_fields, simp_all add: report_keys_def)

definition expected_text :: "string option \<Rightarrow> string" where
  "expected_text expected = (case expected of None \<Rightarrow> [] | Some a \<Rightarrow> a)"

definition expected_key :: "string option \<Rightarrow> string" where
  "expected_key expected = attemptKeyV1 (if expected_text expected = [] then ''none'' else expected_text expected)"

lemma no_attempt_none: "machine_inv now S \<Longrightarrow> \<not> ATTEMPT_ID_V2_RE aid \<Longrightarrow> q_attempts S aid = None"
  using core_ok_ids machine_inv_attemptD
  by (metis attempt_ids_ok_def attempt_inv_def not_None_eq)

lemma none_not_attempt_id: "\<not> ATTEMPT_ID_V2_RE ''none''" "\<not> ATTEMPT_ID_V2_RE []"
  by (simp_all add: ATTEMPT_ID_V2_RE_def uuid_re_def)

lemma expected_attempt:
  assumes "machine_inv now S" "represents db S" "expected \<noteq> Some []"
  shows "call_GET now db (expected_key expected) =
    map_option (\<lambda>a. Json (JObj (attempt_obj a))) (Option.bind expected (q_attempts S))"
proof -
  have "q_attempts S ''none'' = None" by (rule no_attempt_none [OF assms(1) none_not_attempt_id(1)])
  with assms(3) show ?thesis
    by (cases expected) (simp_all add: expected_key_def expected_text_def repr_GET [OF assms(2)])
qed

lemma cancel_obj_table: "cancel_table now dev reason = cancel_obj \<lparr>c_cancelled_at_ms = now, c_requested_by_device_id = dev, c_reason = reason\<rparr>"
  by (simp add: cancel_table_def cancel_obj_def)

lemma job_cancelled_obj:
  "fmupd ''cancel'' (JObj (cancel_obj c)) (job_obj j) = job_obj (j\<lparr>j_cancel := Some c\<rparr>)"
  using job_obj_upd(4) [of "Some c" j] by simp

lemma cancel_active_refines:
  assumes rep: "represents db S" and inv: "machine_inv now S" and jid: "colon_free jid" and now: "short now" "0 \<le> now"
    and receipt: "HEX_64_RE receipt"
    and ja: "q_jobs S jid = Some j" "j_latest_attempt_id j = Some aid" "q_attempts S aid = Some a" "j_status j = JS_active"
    and t: "a_phase a = AP_running \<Longrightarrow> a_started_at_ms a = Some t"
    and d: "d = (if a_phase a = AP_running then max 0 (of_int now - of_int t) else 0)"
    and c: "c = \<lparr>c_cancelled_at_ms = now, c_requested_by_device_id = dev, c_reason = reason\<rparr>"
  shows "simulates (cancel_active_writes now db (jobKeyV2 jid) (attemptKeyV1 aid) (job_obj j) (attempt_obj a) dev reason receipt d)
    (set_job jid (j\<lparr>j_status := JS_terminal, j_cancel := Some c\<rparr>)
      (set_attempt aid (a\<lparr>a_phase := AP_terminal, a_report := Some (operator_report now a receipt)\<rparr>) S))
    (cancel_reply_of now (CancelDone ''cancelled'' ''cancelled'' ES_CANCELLED
      (if a_phase a = AP_running then BO_UNVERIFIED else BO_NOT_STARTED) (Some aid)))"
proof -
  note f = machine_fetch [OF inv ja(1-3)]
  have nt: "a_phase a \<noteq> AP_terminal" using f(1) ja(4) by (simp add: attempt_of_job_def)
  let ?r = "operator_report now a receipt"
  let ?a = "a\<lparr>a_phase := AP_terminal, a_report := Some ?r\<rparr>" and ?j = "j\<lparr>j_status := JS_terminal, j_cancel := Some c\<rparr>"
  have "attempt_short ?a"
    using f(7) operator_report_ok(2) [OF now receipt core_started_nonneg [OF f(6)]] by (simp add: attempt_short_def)
  moreover have "job_short ?j" using f(5) now c by (simp add: job_inv_def job_short_def cancel_short_def)
  ultimately have "represents (redis_set (jobKeyV2 jid) (Json (cjson_encode (JObj (job_obj ?j))))
      (redis_set (attemptKeyV1 aid) (Json (cjson_encode (JObj (attempt_obj ?a)))) db)) (set_job jid ?j (set_attempt aid ?a S))"
    using repr_set_job [OF repr_set_attempt [OF rep] jid] by blast
  moreover have "jfield (persisted_obj ?r) ''business_outcome'' = Some (JStr (outcome_str
      (if a_phase a = AP_running then BO_UNVERIFIED else BO_NOT_STARTED)))"
    by (simp add: persisted_obj_fields report_obj_fields, simp add: operator_report_def)
  ultimately show ?thesis
    using f(3) by (simp add: cancel_active_writes_def cancelled_report_obj [OF nt t d] attempt_obj_upd(3) cancel_obj_table
        job_cancelled_obj simulates_def cancel_reply_of_def attempt_obj_fields Let_def flip: c del: cjson_encode.simps)
qed

lemma cancel_refines:
  assumes rep: "represents db S" and inv: "machine_inv now S" and jid: "colon_free jid" and now: "short now" "0 \<le> now"
    and receipt: "HEX_64_RE receipt" and expected: "expected \<noteq> Some []"
    and target: "\<And>j. q_jobs S jid = Some j \<Longrightarrow> j_target_id j = t"
    and m_def: "m = machine_cancel now jid expected dev reason receipt S"
  shows "simulates (V2_CANCEL_JOB_SCRIPT now db (jobKeyV2 jid) (expected_key expected) (targetQueueKeyV1 t)
      (expected_text expected) dev reason receipt)
    (fst m) (cancel_reply_of now (snd m))" (is "simulates ?run _ _")
proof (cases "q_jobs S jid")
  case None
  then show ?thesis
    by (simp add: m_def machine_cancel_def V2_CANCEL_JOB_SCRIPT_def repr_badtype [OF rep] repr_GET [OF rep] jid
        expected_key_def cancel_reply_of_def simulates_def rep)
next
  case (Some j)
  have ji: "job_inv S jid j" by (rule machine_inv_jobD [OF inv Some])
  have run: "?run = cancel_job now db (jobKeyV2 jid) (expected_key expected) (targetQueueKeyV1 t) (expected_text expected) dev reason receipt (job_obj j)"
    using Some by (simp add: V2_CANCEL_JOB_SCRIPT_def repr_badtype [OF rep] repr_GET [OF rep] jid expected_key_def)
  note get = expected_attempt [OF inv rep expected]
  let ?c = "\<lparr>c_cancelled_at_ms = now, c_requested_by_device_id = dev, c_reason = reason\<rparr>"
  show ?thesis
  proof (cases "j_status j = JS_terminal")
    case True
    then have run2: "?run = cancel_terminal now db (expected_key expected) (job_obj j)"
      unfolding run by (simp add: cancel_job_def Let_def)
    show ?thesis
    proof (cases "j_latest_attempt_id j")
      case None
      then have "j_cancel j \<noteq> None" using ji True by (auto simp: job_inv_def job_ok_def job_state_ok_def)
      with None True Some show ?thesis
        unfolding run2 by (auto simp: m_def machine_cancel_def cancel_terminal_def job_obj_fields nil_null_def is_null_def
            lua_truthy_def cancel_reply_of_def simulates_def rep)
    next
      case (Some l)
      note lt = this
      show ?thesis
      proof (cases "Option.bind expected (q_attempts S)")
        case None
        then have "Option.bind expected (\<lambda>aid. Option.bind (q_attempts S aid) a_report) = None" by (cases expected) auto
        with None lt True \<open>q_jobs S jid = Some j\<close> get show ?thesis
          unfolding run2 by (simp add: m_def machine_cancel_def cancel_terminal_def job_obj_fields nil_null_def is_null_def
              lua_truthy_def cancel_reply_of_def simulates_def rep)
      next
        case (Some a)
        then obtain aid where aid: "expected = Some aid" "q_attempts S aid = Some a" by (cases expected) auto
        have a: "attempt_core_ok a" "a_attempt_id a = aid"
          using machine_inv_attemptD [OF inv aid(2)] by (simp_all add: attempt_inv_def)
        show ?thesis
          using aid lt True \<open>q_jobs S jid = Some j\<close> get core_ok_report(1) [OF a(1)] a(2) unfolding run2
          by (cases "a_report a")
            (auto simp: m_def machine_cancel_def cancel_terminal_def job_obj_fields nil_null_def is_null_def lua_truthy_def
              attempt_obj_fields opt_fields_def lua_fields_def field_is_def persisted_obj_fields report_obj_fields
              cancel_reply_of_def simulates_def rep)
      qed
    qed
  next
    case nt: False
    have np: "j_status j \<noteq> JS_preparing" using ji by (simp add: job_inv_def)
    have lat: "(if lua_truthy (nil_null (jfield (job_obj j) ''latest_attempt_id''))
        then nil_null (jfield (job_obj j) ''latest_attempt_id'') else Some (JStr [])) = Some (JStr (expected_text expected))
        \<longleftrightarrow> j_latest_attempt_id j = expected"
    proof (cases "j_latest_attempt_id j")
      case None
      then show ?thesis using expected
        by (cases expected) (auto simp: job_obj_fields nil_null_def is_null_def lua_truthy_def expected_text_def)
    next
      case (Some l)
      then have "l \<noteq> []" using ji none_not_attempt_id by (auto simp: job_inv_def job_ok_def)
      with Some show ?thesis
        by (cases expected) (auto simp: job_obj_fields nil_null_def is_null_def lua_truthy_def expected_text_def)
    qed
    have run2: "?run = (if j_latest_attempt_id j \<noteq> expected then (db, error_table ''CANCEL_RACE'')
      else if j_status j = JS_active then cancel_active now db (jobKeyV2 jid) (expected_key expected) (job_obj j) dev reason receipt
      else cancel_queued now db (jobKeyV2 jid) (targetQueueKeyV1 t) (job_obj j) dev reason)"
      unfolding run using nt np by (cases "j_status j") (simp_all add: cancel_job_def Let_def lat)
    show ?thesis
    proof (cases "j_latest_attempt_id j = expected")
      case False
      with Some nt show ?thesis
        unfolding run2 by (simp add: m_def machine_cancel_def cancel_reply_of_def simulates_def rep Let_def)
    next
      case lex: True
      show ?thesis
      proof (cases "j_status j = JS_active")
        case True
        then obtain aid where aid: "expected = Some aid" "j_latest_attempt_id j = Some aid"
          using ji lex by (auto simp: job_inv_def job_ok_def job_state_ok_def)
        obtain a where a: "q_attempts S aid = Some a" using job_linked [OF inv Some aid(2)] by metis
        note f = machine_fetch [OF inv Some aid(2) a]
        have ph: "a_phase a = AP_claimed \<or> a_phase a = AP_running"
          using f(1) True by (cases "a_phase a") (auto simp: attempt_of_job_def)
        obtain t' where t': "a_phase a = AP_running \<Longrightarrow> a_started_at_ms a = Some t'"
          using core_ok_report(3) [OF f(6)] by (cases "a_started_at_ms a") (auto simp: started_some_ok_def)
        have g: "call_GET now db (expected_key expected) = Some (Json (JObj (attempt_obj a)))"
          using get aid(1) a by simp
        have key: "expected_key expected = attemptKeyV1 aid"
          using aid(1) expected by (simp add: expected_key_def expected_text_def)
        have idm: "lua_eq (jfield (attempt_obj a) ''job_id'') (jfield (job_obj j) ''job_id'')
          \<and> lua_eq (jfield (attempt_obj a) ''attempt_id'') (jfield (job_obj j) ''latest_attempt_id'')"
          using f(2,3,5) aid(2) by (simp add: attempt_obj_fields job_obj_fields job_inv_def)
        have m: "m = (set_job jid (j\<lparr>j_status := JS_terminal, j_cancel := Some ?c\<rparr>)
              (set_attempt aid (a\<lparr>a_phase := AP_terminal, a_report := Some (operator_report now a receipt)\<rparr>) S),
            CancelDone ''cancelled'' ''cancelled'' ES_CANCELLED (if a_phase a = AP_running then BO_UNVERIFIED else BO_NOT_STARTED) (Some aid))"
          using Some nt aid a by (simp add: m_def machine_cancel_def Let_def)
        have "?run = cancel_active_writes now db (jobKeyV2 jid) (attemptKeyV1 aid) (job_obj j) (attempt_obj a) dev reason receipt
            (if a_phase a = AP_running then max 0 (of_int now - of_int t') else 0)"
          unfolding run2 using True lex g ph t' idm
          by (auto simp: cancel_active_def attempt_obj_fields key)
        with cancel_active_refines [OF rep inv jid now receipt Some aid(2) a True t' refl refl, of dev reason] show ?thesis
          by (simp add: m)
      next
        case False
        then have qd: "j_status j = JS_queued" using nt np by (cases "j_status j") auto
        then have e: "expected = None" using ji lex by (auto simp: job_inv_def job_ok_def job_state_ok_def)
        have t: "t = j_target_id j" using target [OF Some] by simp
        obtain db1 n where z: "redis_zrem now (targetQueueKeyV1 t) [jid] db = Inr (db1, n)" "represents db1 (dequeue t jid S)"
          using repr_zrem [OF rep] by blast
        let ?j = "j\<lparr>j_status := JS_terminal, j_cancel := Some ?c\<rparr>"
        have "job_short ?j" using ji now by (simp add: job_inv_def job_short_def cancel_short_def)
        then have r: "represents (redis_set (jobKeyV2 jid) (Json (cjson_encode (JObj (job_obj ?j)))) db1) (set_job jid ?j (dequeue t jid S))"
          by (rule repr_set_job [OF z(2) jid])
        have "j_job_id j = jid" using ji by (simp add: job_inv_def)
        then have "?run = (redis_set (jobKeyV2 jid) (Json (cjson_encode (JObj (job_obj ?j)))) db1,
            cancel_reply_of now (CancelDone ''cancelled'' ''cancelled'' ES_CANCELLED BO_NOT_STARTED None))"
          unfolding run2 using False lex z(1)
          by (simp add: cancel_queued_def cancel_obj_table job_cancelled_obj job_obj_fields call_arg_def cancel_reply_of_def Let_def
              del: cjson_encode.simps)
        with r Some nt e lex show ?thesis
          by (simp add: m_def machine_cancel_def simulates_def t Let_def)
      qed
    qed
  qed
qed

section \<open>Create refines\<close>

definition create_reply_of :: "job \<Rightarrow> create_out \<Rightarrow> script_reply" where
  "create_reply_of job out = (case out of
      CreateExisting jid \<Rightarrow> encoded [(''status'', Some (JStr ''existing_request'')), (''job_id'', Some (JStr jid))]
    | CreateFenced \<Rightarrow> fenced_reply (j_target_id job)
    | CreateCollision \<Rightarrow> error_table ''JOB_ID_COLLISION''
    | Created entry \<Rightarrow> encoded [(''status'', Some (JStr ''created'')), (''job_id'', Some (JStr (j_job_id job))),
        (''stream_entry_id'', Some (JStr entry))])"

lemma stream_row_literal:
  "stream_row job = [(''schema_version'', ''2''), (''job_id'', j_job_id job), (''user_id'', j_user_id job),
     (''workspace_id'', j_workspace_id job), (''target_id'', j_target_id job), (''created_at_ms'', show_int (j_created_at_ms job))]"
  by (simp add: stream_row_def stream_fields_def STREAM_V2_SCHEMA_VERSION_def show_int_def show_nat.simps digit_chars_def)

lemma create_writes_refines:
  assumes rep: "represents db S" and job: "submission_ok job" "0 \<le> j_created_at_ms job"
    and i: "i = next_entry_id now (q_stream S)"
    and key_def: "key = requestKeyV2 (j_user_id job) (j_workspace_id job) requestId" and jid_def: "jid = j_job_id job"
  shows "simulates (create_writes now db key (jobKeyV2 jid) KEY_STREAM_V2 (targetQueueKeyV1 (j_target_id job))
      jid (j_user_id job) (j_workspace_id job) (j_target_id job) (show_int (j_created_at_ms job)) (JObj (job_obj job)))
    (enqueue (j_target_id job) jid
      (set_job jid (job\<lparr>j_status := JS_queued, j_stream_entry_id := Some (show_entry_id i), j_latest_attempt_id := None\<rparr>)
        (S\<lparr>q_requests := (q_requests S)(key \<mapsto> jid), q_stream := q_stream S @ [(i, stream_row job)]\<rparr>)))
    (create_reply_of job (Created (show_entry_id i)))"
proof -
  have "JOB_ID_V2_RE jid" using job(1) by (simp add: submission_ok_def job_ok_def jid_def)
  then have cf: "colon_free jid" by (rule job_id_colon_free)
  let ?p = "job\<lparr>j_status := JS_preparing, j_stream_entry_id := None, j_latest_attempt_id := None\<rparr>"
  let ?q = "job\<lparr>j_status := JS_queued, j_stream_entry_id := Some (show_entry_id i), j_latest_attempt_id := None\<rparr>"
  let ?S1 = "S\<lparr>q_requests := (q_requests S)(key \<mapsto> jid)\<rparr>"
  have short: "job_short ?p" "job_short ?q" using job(1) by (simp_all add: submission_ok_def job_short_def)
  have "represents (redis_set key (Text jid) db) ?S1" unfolding key_def by (rule repr_set_request [OF rep])
  from repr_set_job [OF this cf short(1)]
  have r2: "represents (redis_set (jobKeyV2 jid) (Json (cjson_encode (JObj (job_obj ?p)))) (redis_set key (Text jid) db)) (set_job jid ?p ?S1)" .
  obtain db3 where db3: "redis_xadd now KEY_STREAM_V2 (stream_row job)
        (redis_set (jobKeyV2 jid) (Json (cjson_encode (JObj (job_obj ?p)))) (redis_set key (Text jid) db)) = Inr (db3, show_entry_id i)"
    "represents db3 ((set_job jid ?p ?S1)\<lparr>q_stream := q_stream S @ [(i, stream_row job)]\<rparr>)"
    using repr_xadd [OF r2, of now "stream_row job"] by (auto simp: i)
  obtain sc where sc: "lua_tonumber (show_int (j_created_at_ms job)) = Some sc"
    using job(2) by (simp add: show_int_nat)
  obtain db4 where db4: "redis_zadd now (targetQueueKeyV1 (j_target_id job)) sc jid db3 = Inr db4"
    "represents db4 (enqueue (j_target_id job) jid ((set_job jid ?p ?S1)\<lparr>q_stream := q_stream S @ [(i, stream_row job)]\<rparr>))"
    using repr_zadd_queue [OF db3(2)] by blast
  have eq: "set_job jid ?q (enqueue (j_target_id job) jid ((set_job jid ?p ?S1)\<lparr>q_stream := q_stream S @ [(i, stream_row job)]\<rparr>))
     = enqueue (j_target_id job) jid (set_job jid ?q (S\<lparr>q_requests := (q_requests S)(key \<mapsto> jid), q_stream := q_stream S @ [(i, stream_row job)]\<rparr>))"
    by (simp add: state_defs)
  have "create_writes now db key (jobKeyV2 jid) KEY_STREAM_V2 (targetQueueKeyV1 (j_target_id job))
      jid (j_user_id job) (j_workspace_id job) (j_target_id job) (show_int (j_created_at_ms job)) (JObj (job_obj job)) =
      (redis_set (jobKeyV2 jid) (Json (cjson_encode (JObj (job_obj ?q)))) db4, create_reply_of job (Created (show_entry_id i)))"
    using db3(1) sc db4(1) unfolding stream_row_literal
    by (simp add: create_writes_def lua_table_def Let_def create_reply_of_def del: cjson_encode.simps flip: jid_def)
  with repr_set_job [OF db4(2) cf short(2)] show ?thesis by (simp add: simulates_def eq)
qed

lemma create_refines:
  assumes rep: "represents db S" and job: "submission_ok job"
    and m_def: "m = machine_create now (fence_fresh now db (targetDeleteFenceKeyV1 (j_target_id job))) job requestId S"
  shows "simulates (V2_CREATE_JOB_SCRIPT now db (requestKeyV2 (j_user_id job) (j_workspace_id job) requestId)
      (jobKeyV2 (j_job_id job)) KEY_STREAM_V2 (targetQueueKeyV1 (j_target_id job)) (targetDeleteFenceKeyV1 (j_target_id job))
      (j_job_id job) (j_user_id job) (j_workspace_id job) (j_target_id job) (show_int (j_created_at_ms job))
      (Json (JObj (job_obj job))))
    (fst m) (create_reply_of job (snd m))"
proof -
  have "JOB_ID_V2_RE (j_job_id job)" "0 \<le> j_created_at_ms job"
    using job by (simp_all add: submission_ok_def job_ok_def safe_nonneg_def)
  note cf = job_id_colon_free [OF this(1)] and c0 = this(2)
  show ?thesis
  proof (cases "q_requests S (requestKeyV2 (j_user_id job) (j_workspace_id job) requestId) = None
      \<and> \<not> fence_fresh now db (targetDeleteFenceKeyV1 (j_target_id job)) \<and> q_jobs S (j_job_id job) = None")
    case True
    with create_writes_refines [OF rep job c0 refl refl refl, of now requestId] show ?thesis
      by (simp add: m_def machine_create_def V2_CREATE_JOB_SCRIPT_def repr_badtype [OF rep] repr_GET [OF rep]
          repr_TYPE [OF rep] cf Let_def)
  next
    case False
    then show ?thesis
      by (auto simp: m_def machine_create_def V2_CREATE_JOB_SCRIPT_def repr_badtype [OF rep] repr_GET [OF rep]
          repr_TYPE [OF rep] cf Let_def create_reply_of_def payload_text_def simulates_def rep split: option.splits)
  qed
qed

end
