(* ===== verification/Store_Refinement.thy ===== *)
theory Store_Refinement
  imports Job_Refinement
begin

text \<open>
  The store operations implement the abstract machine: each returns the typed outcome of the abstract
  operation, or its error mapped to a store error, in a key space that represents the new state.
\<close>

section \<open>Replies as the store reads them\<close>

lemma encoded_simp:
  "encoded kvs = JsonReply (JObj (fmmap cjson_encode (fold (\<lambda>kv. put_opt (fst kv) (snd kv)) kvs fmempty)))"
  by (simp add: encoded_def)

lemma parsed_error [simp]:
  "code \<noteq> [] \<Longrightarrow> parsed_reply (error_table code) f = Inl (f code (fmupd ''error'' (JStr code) fmempty))"
  by (simp add: error_table_def encoded_simp put_opt_def parsed_reply_def fmmap_fmupd js_truthy_def string_of_def)

lemma parsed_fenced [simp]:
  "parsed_reply (fenced_reply t) f =
     Inl (f ''TARGET_DELETE_FENCED'' (fmupd ''target_id'' (JStr t) (fmupd ''error'' (JStr ''TARGET_DELETE_FENCED'') fmempty)))"
  by (simp add: fenced_reply_def encoded_simp put_opt_def parsed_reply_def fmmap_fmupd js_truthy_def string_of_def)

lemma attempt_reply_granted:
  assumes "attempt_short a" "short now"
  shows "attempt_reply f (attempt_reply_of now t (Granted st a)) =
    ebind (emap_err SchemaFailure (parse_attempt_json (JObj (attempt_obj a))))
      (\<lambda>a. Inr \<lparr>ao_status = st, ao_attempt = a, ao_server_time_ms = now\<rparr>)"
proof -
  have e: "fmmap cjson_encode (attempt_obj a) = attempt_obj a"
    using encode_attempt [OF assms(1)] by simp
  show ?thesis
    by (simp add: attempt_reply_def attempt_reply_of_def encoded_simp put_opt_def server_time_def parsed_reply_def fmmap_fmupd
        js_truthy_def string_of_def number_of_def parsed_attempt_def e assms)
qed

lemma attempt_reply_ok:
  assumes "attempt_short a" "short now" "attempt_ok a"
  shows "attempt_reply f (attempt_reply_of now t (Granted st a)) =
    Inr \<lparr>ao_status = st, ao_attempt = a, ao_server_time_ms = now\<rparr>"
  using parse_attempt_obj_iff [of a a] assms by (simp add: attempt_reply_granted parse_attempt_json_def)

text \<open>An attempt whose phase does not admit its result is unreadable.\<close>

lemma attempt_ok_iff: "attempt_core_ok a \<Longrightarrow> attempt_ok a \<longleftrightarrow> result_allowed a"
proof (cases "a_phase a")
  case AP_terminal
  moreover assume "attempt_core_ok a"
  ultimately show ?thesis
    by (cases "a_report a") (auto simp: attempt_core_ok_def attempt_ok_def attempt_tail_ok_def result_allowed_def
        own_result_ok_def split: if_splits option.splits)
qed (auto simp: attempt_core_ok_def attempt_ok_def attempt_tail_ok_def result_allowed_def)

lemma new_attempt_allowed [simp]: "result_allowed (new_attempt now j dev bid aid tok)"
  by (simp add: result_allowed_def new_attempt_def)

section \<open>Operations\<close>

definition attempt_result ::
  "(string \<Rightarrow> jobject \<Rightarrow> store_error) \<Rightarrow> int \<Rightarrow> string \<Rightarrow> attempt_out \<Rightarrow> store_error + attempt_outcome" where
  "attempt_result f now t out = (case out of
      Refused code \<Rightarrow> Inl (f code (fmupd ''error'' (JStr code) fmempty))
    | FencedOut \<Rightarrow> Inl (V2TargetDeleteFencedError t)
    | Granted st a \<Rightarrow> Inr \<lparr>ao_status = st, ao_attempt = a, ao_server_time_ms = now\<rparr>)"

definition readable :: "queue_state \<Rightarrow> bool" where
  "readable S \<longleftrightarrow> (\<forall>aid a. q_attempts S aid = Some a \<longrightarrow> result_allowed a)"

lemma machine_claim_out:
  assumes "machine_inv now S" "snd (machine_claim now fenced jid ws t dev bid aid tok ro S) = out"
  shows "(\<exists>code. out = Refused code \<and> code \<noteq> []) \<or> out = FencedOut
    \<or> (\<exists>st a. out = Granted st a \<and> (q_attempts S aid = Some a
        \<or> (\<exists>j. q_jobs S jid = Some j \<and> a = new_attempt now j dev bid aid tok)))"
  using assms(2) by (cases fenced; cases "q_jobs S jid"; cases "q_attempts S aid")
    (auto simp: machine_claim_def Let_def split: if_splits)

lemma machine_start_out:
  assumes "machine_inv now S" "snd (machine_start now jid aid dev tok S) = out"
  shows "(\<exists>code. out = Refused code \<and> code \<noteq> [])
    \<or> (\<exists>st a. q_attempts S aid = Some a \<and> (out = Granted st a
        \<or> out = Granted st (a\<lparr>a_phase := AP_running, a_started_at_ms := Some now\<rparr>)))"
  using assms(2) by (cases "q_jobs S jid"; cases "q_attempts S aid")
    (auto simp: machine_start_def Let_def split: if_splits)

lemma claim_error_fenced [simp]:
  "claim_error t ''TARGET_DELETE_FENCED'' (fmupd ''target_id'' (JStr t) m) = V2TargetDeleteFencedError t"
  by (simp add: claim_error_def reply_target_def)

lemma granted_ok:
  assumes "machine_inv now S" "readable S" "q_attempts S aid = Some a"
  shows "attempt_short a \<and> attempt_ok a"
  using assms machine_inv_attemptD [OF assms(1,3)] attempt_ok_iff [of a] by (auto simp: attempt_inv_def readable_def)

lemma store_claim_refines:
  assumes rep: "represents db S" and inv: "machine_inv now S" "readable S" and jid: "colon_free jid"
    and now: "short now" "0 \<le> now"
    and args: "ATTEMPT_ID_V2_RE aid" "DEVICE_ID_V2_RE dev" "TARGET_BINDING_ID_V2_RE bid" "HEX_64_RE tok"
    and m: "m = machine_claim now (fence_fresh now db (targetDeleteFenceKeyV1 t)) jid ws t dev bid aid tok ro S"
  shows "represents (fst (store_claimJob now db jid ws t dev bid aid tok ro)) (fst m)
    \<and> snd (store_claimJob now db jid ws t dev bid aid tok ro) = attempt_result (claim_error t) now t (snd m)"
proof -
  have sim: "simulates (V2_CLAIM_JOB_SCRIPT now db (jobKeyV2 jid) (targetQueueKeyV1 t) (jobAttemptsKeyV1 jid)
      (attemptKeyV1 aid) (targetDeleteFenceKeyV1 t) jid ws t dev bid aid tok ro) (fst m) (attempt_reply_of now t (snd m))"
    by (rule claim_refines [OF rep inv(1) jid now(1) m])
  have new: "attempt_short (new_attempt now j dev bid aid tok) \<and> attempt_ok (new_attempt now j dev bid aid tok)"
    if "q_jobs S jid = Some j" for j
    using new_attempt_ok [OF machine_inv_jobD [OF inv(1) that] now args] attempt_ok_iff by simp
  have "attempt_reply (claim_error t) (attempt_reply_of now t (snd m)) = attempt_result (claim_error t) now t (snd m)"
    using machine_claim_out [OF inv(1), of "fence_fresh now db (targetDeleteFenceKeyV1 t)" jid ws t dev bid aid tok ro "snd m"] m
      attempt_reply_ok [OF _ now(1)] new granted_ok [OF inv, of aid]
    by (auto simp: attempt_result_def) (auto simp: attempt_reply_def attempt_reply_of_def)
  then show ?thesis using sim by (simp add: store_claimJob_def simulates_def case_prod_beta)
qed

lemma store_start_refines:
  assumes rep: "represents db S" and inv: "machine_inv now S" "readable S" and jid: "colon_free jid"
    and now: "short now" "0 \<le> now" and m: "m = machine_start now jid aid dev tok S"
  shows "represents (fst (store_startJob now db jid aid dev tok)) (fst m)
    \<and> snd (store_startJob now db jid aid dev tok) = attempt_result start_error now [] (snd m)"
proof -
  have sim: "simulates (V2_START_JOB_SCRIPT now db (jobKeyV2 jid) (attemptKeyV1 aid) aid dev tok)
      (fst m) (attempt_reply_of now [] (snd m))"
    by (rule start_refines [OF rep inv(1) jid now(1) m])
  have inv': "machine_inv now (fst m)" unfolding m by (rule machine_start_inv [OF inv(1) now])
  have g: "attempt_short a \<and> attempt_ok a" if out: "snd m = Granted st a" for st a
  proof -
    have a: "q_attempts (fst m) aid = Some a"
      using out m by (auto simp: machine_start_def Let_def split: option.splits if_splits)
    have "result_allowed a"
      using out m inv(2) by (auto simp: machine_start_def Let_def readable_def split: option.splits if_splits)
        (simp add: result_allowed_def)
    with machine_inv_attemptD [OF inv' a] attempt_ok_iff [of a] show ?thesis by (simp add: attempt_inv_def)
  qed
  have "attempt_reply start_error (attempt_reply_of now [] (snd m)) = attempt_result start_error now [] (snd m)"
    using machine_start_out [OF inv(1), of jid aid dev tok "snd m"] m attempt_reply_ok [OF _ now(1)] g
    by (auto simp: attempt_result_def) (auto simp: attempt_reply_def attempt_reply_of_def)
  then show ?thesis using sim by (simp add: store_startJob_def simulates_def case_prod_beta)
qed

definition report_result :: "int \<Rightarrow> report_out \<Rightarrow> store_error + string \<times> int" where
  "report_result now out = (case out of
      ReportRefused code \<Rightarrow> Inl (report_error_of code (fmupd ''error'' (JStr code) fmempty))
    | Reported st \<Rightarrow> Inr (st, now))"

lemma store_report_refines:
  assumes rep: "represents db S" and inv: "machine_inv now S" and jid: "colon_free jid" and now: "short now" "0 \<le> now"
    and r: "report_ok r" "short (r_finished_at_ms r)" "short (r_duration_ms r)"
    and m: "m = machine_report now jid aid dev tok r S"
  shows "represents (fst (store_reportJob now db jid aid dev tok r)) (fst m)
    \<and> snd (store_reportJob now db jid aid dev tok r) = report_result now (snd m)"
proof -
  have sim: "simulates (V2_REPORT_JOB_SCRIPT now db (jobKeyV2 jid) (attemptKeyV1 aid) aid dev tok (Json (JObj (report_obj r))))
      (fst m) (report_reply_of now (snd m))"
    by (rule report_refines [OF rep inv jid now(1) r m])
  have ne: "code \<noteq> []" if "snd m = ReportRefused code" for code
    using that by (cases "q_jobs S jid"; cases "q_attempts S aid")
      (auto simp: m machine_report_def split: option.splits if_splits)
  have "ebind (parsed_reply (report_reply_of now (snd m)) report_error_of) (\<lambda>parsed.
           Inr (string_of (jfield parsed ''status''), number_of (jfield parsed ''server_time_ms''))) = report_result now (snd m)"
  proof (cases "snd m")
    case (ReportRefused code)
    then show ?thesis using ne by (simp add: report_result_def report_reply_of_def)
  next
    case (Reported st)
    then show ?thesis
      using now by (simp add: report_result_def report_reply_of_def encoded_simp put_opt_def server_time_def parsed_reply_def
          fmmap_fmupd js_truthy_def string_of_def number_of_def)
  qed
  then show ?thesis using sim by (simp add: store_reportJob_def simulates_def case_prod_beta)
qed

definition record_result :: "int \<Rightarrow> string + string \<times> job_result \<Rightarrow> store_error + result_outcome" where
  "record_result now out = (case out of
      Inl code \<Rightarrow> Inl (record_error code (fmupd ''error'' (JStr code) fmempty))
    | Inr (st, r) \<Rightarrow> Inr \<lparr>ro_status = st, ro_server_time_ms = now, ro_commit = res_commit r, ro_resource_id = res_resource_id r\<rparr>)"

lemma store_record_refines:
  assumes rep: "represents db S" and inv: "machine_inv now S" and jid: "colon_free jid" and now: "short now" "0 \<le> now"
    and m: "m = machine_record now jid aid dev tok r (mode = Some ''explicit_redelivery'') S"
  shows "represents (fst (recordJobResult now db jid aid dev tok r mode)) (fst m)
    \<and> snd (recordJobResult now db jid aid dev tok r mode) = record_result now (snd m)"
proof -
  let ?mode = "case mode of None \<Rightarrow> ''automatic'' | Some x \<Rightarrow> x"
  have "m = machine_record now jid aid dev tok r (?mode = ''explicit_redelivery'') S"
    unfolding m by (cases mode) auto
  then have sim: "simulates (V2_RECORD_RESULT_SCRIPT now db (jobKeyV2 jid) (attemptKeyV1 aid) dev tok (Json (JObj (result_obj r))) ?mode)
      (fst m) (record_reply_of now (snd m))"
    by (rule record_refines [OF rep inv jid now(1)])
  have ne: "code \<noteq> []" if "snd m = Inl code" for code
    using that by (cases "q_jobs S jid"; cases "q_attempts S aid")
      (auto simp: m machine_record_def Let_def split: option.splits if_splits)
  have "ebind (parsed_reply (record_reply_of now (snd m)) record_error) (\<lambda>parsed.
           Inr \<lparr>ro_status = string_of (jfield parsed ''status''), ro_server_time_ms = number_of (jfield parsed ''server_time_ms''),
                ro_commit = string_of (jfield parsed ''commit''), ro_resource_id = string_of (jfield parsed ''resource_id'')\<rparr>)
      = record_result now (snd m)"
  proof (cases "snd m")
    case (Inl code)
    then show ?thesis using ne by (simp add: record_result_def record_reply_of_def)
  next
    case (Inr x)
    then show ?thesis
      using now by (cases x) (simp add: record_result_def record_reply_of_def encoded_simp put_opt_def server_time_def
          parsed_reply_def fmmap_fmupd js_truthy_def string_of_def number_of_def)
  qed
  then show ?thesis using sim by (simp add: recordJobResult_def simulates_def case_prod_beta)
qed

definition cancel_result :: "int \<Rightarrow> cancel_out \<Rightarrow> store_error + cancel_outcome" where
  "cancel_result now out = (case out of
      CancelRefused code \<Rightarrow> Inl (cancel_error code (fmupd ''error'' (JStr code) fmempty))
    | CancelDone st res es bo aid \<Rightarrow> Inr \<lparr>co_status = st, co_result = res, co_execution_status = status_str es,
        co_business_outcome = outcome_str bo, co_attempt_id = aid, co_server_time_ms = now\<rparr>)"

lemma store_cancel_refines:
  assumes rep: "represents db S" and inv: "machine_inv now S" and jid: "colon_free jid" and now: "short now" "0 \<le> now"
    and receipt: "HEX_64_RE receipt" and expected: "expected \<noteq> Some []"
    and target: "\<And>j. q_jobs S jid = Some j \<Longrightarrow> j_target_id j = t"
    and m: "m = machine_cancel now jid expected dev reason receipt S"
  shows "represents (fst (store_cancelJob now db jid expected t dev reason receipt)) (fst m)
    \<and> snd (store_cancelJob now db jid expected t dev reason receipt) = cancel_result now (snd m)"
proof -
  have sim: "simulates (V2_CANCEL_JOB_SCRIPT now db (jobKeyV2 jid) (expected_key expected) (targetQueueKeyV1 t)
      (expected_text expected) dev reason receipt) (fst m) (cancel_reply_of now (snd m))"
    by (rule cancel_refines [OF rep inv jid now receipt expected target m])
  have ne: "code \<noteq> []" if "snd m = CancelRefused code" for code
    using that by (cases "q_jobs S jid")
      (auto simp: m machine_cancel_def Let_def split: option.splits if_splits)
  have "ebind (parsed_reply (cancel_reply_of now (snd m)) cancel_error) (\<lambda>parsed.
           Inr \<lparr>co_status = string_of (jfield parsed ''status''), co_result = string_of (jfield parsed ''result''),
                co_execution_status = string_of (jfield parsed ''execution_status''),
                co_business_outcome = string_of (jfield parsed ''business_outcome''),
                co_attempt_id = (if is_nullish (jfield parsed ''attempt_id'') then None
                                 else Some (string_of (jfield parsed ''attempt_id''))),
                co_server_time_ms = number_of (jfield parsed ''server_time_ms'')\<rparr>) = cancel_result now (snd m)"
  proof (cases "snd m")
    case (CancelRefused code)
    then show ?thesis using ne by (simp add: cancel_result_def cancel_reply_of_def)
  next
    case (CancelDone st res es bo aid)
    then show ?thesis
      using now by (cases aid) (simp_all add: cancel_result_def cancel_reply_of_def cancel_reply_def encoded_simp put_opt_def
          server_time_def parsed_reply_def fmmap_fmupd js_truthy_def string_of_def number_of_def is_nullish_def)
  qed
  then show ?thesis
    using sim unfolding store_cancelJob_def Let_def expected_text_def [symmetric] expected_key_def [symmetric]
    by (simp add: simulates_def case_prod_beta)
qed

definition create_result :: "int \<Rightarrow> redis \<Rightarrow> job \<Rightarrow> string \<Rightarrow> create_out \<Rightarrow> store_error + create_outcome" where
  "create_result now db job requestId out = (case out of
      CreateExisting jid \<Rightarrow> resolve_existing now db job requestId jid
    | CreateFenced \<Rightarrow> Inl (V2TargetDeleteFencedError (j_target_id job))
    | CreateCollision \<Rightarrow> Inl (V2StoreError ''JOB_ID_COLLISION'')
    | Created e \<Rightarrow> Inr \<lparr>cr_status = ''created'', cr_job_id = j_job_id job, cr_stream_entry_id = Some e\<rparr>)"

lemma serialize_job_ok: "job_ok j \<Longrightarrow> serializeJobRecordV2 j = Inr (Json (JObj (job_obj j)))"
  using parse_job_obj_iff [of j j] by (simp add: serializeJobRecordV2_def)

lemma show_entry_id_nonempty [simp]: "show_entry_id i \<noteq> []"
  by (simp add: show_entry_id_def)

lemma store_create_refines:
  assumes rep: "represents db S" and job: "submission_ok job"
    and m: "m = machine_create now (fence_fresh now db (targetDeleteFenceKeyV1 (j_target_id job))) job requestId S"
  shows "represents (fst (createJob now db job requestId)) (fst m)
    \<and> snd (createJob now db job requestId) = create_result now (fst (createJob now db job requestId)) job requestId (snd m)"
proof -
  have sim: "simulates (V2_CREATE_JOB_SCRIPT now db (requestKeyV2 (j_user_id job) (j_workspace_id job) requestId)
      (jobKeyV2 (j_job_id job)) KEY_STREAM_V2 (targetQueueKeyV1 (j_target_id job)) (targetDeleteFenceKeyV1 (j_target_id job))
      (j_job_id job) (j_user_id job) (j_workspace_id job) (j_target_id job) (show_int (j_created_at_ms job))
      (Json (JObj (job_obj job)))) (fst m) (create_reply_of job (snd m))" (is "simulates ?run _ _")
    by (rule create_refines [OF rep job m])
  have ser: "serializeJobRecordV2 job = Inr (Json (JObj (job_obj job)))"
    using job by (intro serialize_job_ok) (simp add: submission_ok_def)
  have e: "\<exists>i. x = show_entry_id i" if "snd m = Created x" for x
    using that by (auto simp: m machine_create_def Let_def split: option.splits if_splits)
  have "ebind (parsed_reply (create_reply_of job (snd m)) (create_error job)) (\<lambda>parsed.
               if jfield parsed ''status'' = Some (JStr ''existing_request'')
               then resolve_existing now db' job requestId (string_of (jfield parsed ''job_id''))
               else Inr \<lparr>cr_status = string_of (jfield parsed ''status''), cr_job_id = string_of (jfield parsed ''job_id''),
                         cr_stream_entry_id = (if js_truthy (jfield parsed ''stream_entry_id'')
                           then Some (string_of (jfield parsed ''stream_entry_id'')) else None)\<rparr>)
      = create_result now db' job requestId (snd m)" for db'
  proof (cases "snd m")
    case (Created x)
    then show ?thesis
      using e by (auto simp: create_result_def create_reply_of_def encoded_simp put_opt_def parsed_reply_def fmmap_fmupd
          js_truthy_def string_of_def)
  qed (simp_all add: create_result_def create_reply_of_def encoded_simp put_opt_def parsed_reply_def fmmap_fmupd
      js_truthy_def string_of_def error_table_def fenced_reply_def create_error_def reply_target_def)
  moreover have "createJob now db job requestId = (fst ?run, ebind (parsed_reply (create_reply_of job (snd m)) (create_error job)) (\<lambda>parsed.
               if jfield parsed ''status'' = Some (JStr ''existing_request'')
               then resolve_existing now (fst ?run) job requestId (string_of (jfield parsed ''job_id''))
               else Inr \<lparr>cr_status = string_of (jfield parsed ''status''), cr_job_id = string_of (jfield parsed ''job_id''),
                         cr_stream_entry_id = (if js_truthy (jfield parsed ''stream_entry_id'')
                           then Some (string_of (jfield parsed ''stream_entry_id'')) else None)\<rparr>))"
    using sim by (simp add: createJob_def ser case_prod_beta simulates_def)
  ultimately show ?thesis using sim by (simp add: simulates_def)
qed

section \<open>Reads\<close>

lemma getJob_repr:
  assumes "represents db S" "machine_inv now S" "colon_free jid"
  shows "getJob now' db jid = Inr (q_jobs S jid)"
proof (cases "q_jobs S jid")
  case None
  then show ?thesis
    by (simp add: getJob_def store_get_def redis_get_def live_def representsD(1) [OF assms(1,3)] falsy_raw_def)
next
  case (Some j)
  then have "job_ok j" using machine_inv_jobD [OF assms(2)] by (auto simp: job_inv_def)
  then have "parse_job_object (job_obj j) = Inr j" by (simp add: parse_job_obj_iff)
  with Some show ?thesis
    by (simp add: getJob_def store_get_def redis_get_def live_def representsD(1) [OF assms(1,3)] job_value_def falsy_raw_def
        parseJobRecordV2_def parse_job_json_def)
qed

lemma getAttempt_repr:
  assumes "represents db S" "q_attempts S aid = Some a"
  shows "getAttempt now' db aid = ebind (emap_err SchemaFailure (parse_attempt_object (attempt_obj a))) (\<lambda>x. Inr (Some x))"
  using assms by (simp add: getAttempt_def store_get_def redis_get_def live_def representsD(2) [OF assms(1)] attempt_value_def
      falsy_raw_def parseAttemptRecordV1_def parse_attempt_json_def)

lemma getAttempt_none: "represents db S \<Longrightarrow> q_attempts S aid = None \<Longrightarrow> getAttempt now' db aid = Inr None"
  by (simp add: getAttempt_def store_get_def redis_get_def live_def representsD(2) falsy_raw_def)

lemma getAttempt_readable:
  assumes "represents db S" "machine_inv now S" "q_attempts S aid = Some a" "result_allowed a"
  shows "getAttempt now' db aid = Inr (Some a)"
proof -
  have "attempt_ok a" using machine_inv_attemptD [OF assms(2,3)] attempt_ok_iff [of a] assms(4) by (simp add: attempt_inv_def)
  then have "parse_attempt_object (attempt_obj a) = Inr a" by (simp add: parse_attempt_obj_iff)
  then show ?thesis by (simp add: getAttempt_repr [OF assms(1,3)])
qed

lemma getAttempt_unreadable:
  assumes "represents db S" "machine_inv now S" "q_attempts S aid = Some a" "\<not> result_allowed a"
  shows "\<exists>e. getAttempt now' db aid = Inl (SchemaFailure e)"
proof -
  have "\<not> attempt_ok a" using machine_inv_attemptD [OF assms(2,3)] attempt_ok_iff [of a] assms(4) by (simp add: attempt_inv_def)
  then have "parse_attempt_object (attempt_obj a) \<noteq> Inr x" for x by (simp add: parse_attempt_obj_iff)
  then obtain e where "parse_attempt_object (attempt_obj a) = Inl e" by (cases "parse_attempt_object (attempt_obj a)") auto
  then show ?thesis by (simp add: getAttempt_repr [OF assms(1,3)])
qed

end
