(* ===== verification/Job_Lifecycle.thy ===== *)
theory Job_Lifecycle
  imports Store_Refinement Transition_Systems
begin

text \<open>
  The job store under concurrent use. Every script is atomic, so any interleaving of clients is a
  sequence of script runs, plain commands and clock ticks: the step relation below. The theory shows
  that every reachable key space is consistent and that history is only ever extended.
\<close>

section \<open>Steps\<close>

definition fence_only :: "string \<Rightarrow> redis \<Rightarrow> redis \<Rightarrow> bool" where
  "fence_only t db db' \<longleftrightarrow> (\<forall>k. k \<noteq> targetDeleteFenceKeyV1 t \<longrightarrow> db' k = db k)
     \<and> (\<forall>p x. db' (targetDeleteFenceKeyV1 t) = Some (p, x) \<longrightarrow> (\<exists>v. p = RStr v))"

inductive job_step :: "int \<times> redis \<Rightarrow> int \<times> redis \<Rightarrow> bool" where
  tick: "now \<le> now' \<Longrightarrow> short now' \<Longrightarrow> job_step (now, db) (now', db)"
| create: "submission_ok job \<Longrightarrow> job_step (now, db) (now, fst (createJob now db job (j_request_id job)))"
| claim: "colon_free jid \<Longrightarrow> ATTEMPT_ID_V2_RE aid \<Longrightarrow> DEVICE_ID_V2_RE dev \<Longrightarrow> TARGET_BINDING_ID_V2_RE bid \<Longrightarrow> HEX_64_RE tok \<Longrightarrow>
    job_step (now, db) (now, fst (store_claimJob now db jid ws t dev bid aid tok ro))"
| start: "colon_free jid \<Longrightarrow> job_step (now, db) (now, fst (store_startJob now db jid aid dev tok))"
| report: "colon_free jid \<Longrightarrow> report_ok r \<Longrightarrow> short (r_finished_at_ms r) \<Longrightarrow> short (r_duration_ms r) \<Longrightarrow>
    job_step (now, db) (now, fst (store_reportJob now db jid aid dev tok r))"
| record_result: "colon_free jid \<Longrightarrow> result_ok res \<Longrightarrow> res_attempt_id res = aid \<Longrightarrow>
    job_step (now, db) (now, fst (recordJobResult now db jid aid dev tok res mode))"
| cancel: "colon_free jid \<Longrightarrow> DEVICE_ID_V2_RE dev \<Longrightarrow> cancel_reason_ok reason \<Longrightarrow> HEX_64_RE receipt \<Longrightarrow> expected \<noteq> Some [] \<Longrightarrow>
    (\<And>j. getJob now db jid = Inr (Some j) \<Longrightarrow> j_target_id j = t) \<Longrightarrow>
    job_step (now, db) (now, fst (store_cancelJob now db jid expected t dev reason receipt))"
| prune: "job_step (now, db) (now, fst (pruneTargetQueue now db t jids))"
| acquire: "job_step (now, db) (now, fst (acquireTargetDeleteFence now date_now db t token))"
| takeover: "job_step (now, db) (now, fst (takeoverStaleTargetDeleteFence now date_now db t token))"
| touch: "job_step (now, db) (now, fst (touchTargetDeleteFence now db t token))"
| delete_fence: "job_step (now, db) (now, fst (redis_del now (targetDeleteFenceKeyV1 t) db))"

inductive_cases job_stepE: "job_step s s'"

section \<open>The invariant\<close>

definition store_ok :: "int \<times> redis \<Rightarrow> bool" where
  "store_ok s \<longleftrightarrow> short (fst s) \<and> 0 \<le> fst s \<and> (\<exists>S. represents (snd s) S \<and> machine_inv (fst s) S)"

lemma store_okI: "represents db S \<Longrightarrow> machine_inv now S \<Longrightarrow> short now \<Longrightarrow> 0 \<le> now \<Longrightarrow> store_ok (now, db)"
  by (auto simp: store_ok_def)

text \<open>A step of the store is a step of the abstract machine.\<close>

definition evolves_job :: "job \<Rightarrow> job \<Rightarrow> bool" where
  "evolves_job j j' \<longleftrightarrow> j' = j\<lparr>j_status := j_status j', j_latest_attempt_id := j_latest_attempt_id j', j_cancel := j_cancel j'\<rparr>
     \<and> (j_status j = JS_terminal \<longrightarrow> j' = j) \<and> (j_status j = JS_active \<longrightarrow> j_status j' = JS_active \<or> j_status j' = JS_terminal)
     \<and> (j_latest_attempt_id j \<noteq> None \<longrightarrow> j_latest_attempt_id j' = j_latest_attempt_id j)"

definition evolves_attempt :: "attempt \<Rightarrow> attempt \<Rightarrow> bool" where
  "evolves_attempt a a' \<longleftrightarrow> a' = a\<lparr>a_phase := a_phase a', a_started_at_ms := a_started_at_ms a', a_report := a_report a', a_result := a_result a'\<rparr>
     \<and> (a_phase a = AP_terminal \<longrightarrow> a_phase a' = AP_terminal) \<and> (a_phase a = AP_running \<longrightarrow> a_phase a' \<noteq> AP_claimed)
     \<and> (a_report a \<noteq> None \<longrightarrow> a_report a' = a_report a)
     \<and> (a_started_at_ms a \<noteq> None \<longrightarrow> a_started_at_ms a' = a_started_at_ms a)"

definition evolves :: "queue_state \<Rightarrow> queue_state \<Rightarrow> bool" where
  "evolves S S' \<longleftrightarrow> (\<forall>jid j. q_jobs S jid = Some j \<longrightarrow> (\<exists>j'. q_jobs S' jid = Some j' \<and> evolves_job j j'))
     \<and> (\<forall>aid a. q_attempts S aid = Some a \<longrightarrow> (\<exists>a'. q_attempts S' aid = Some a' \<and> evolves_attempt a a'))
     \<and> (\<forall>k x. q_requests S k = Some x \<longrightarrow> q_requests S' k = Some x)"

lemma evolves_job_refl [simp]: "evolves_job j j"
  by (simp add: evolves_job_def)

lemma evolves_attempt_refl [simp]: "evolves_attempt a a"
  by (simp add: evolves_attempt_def)

lemma evolves_job_trans: "evolves_job i j \<Longrightarrow> evolves_job j k \<Longrightarrow> evolves_job i k"
  unfolding evolves_job_def by (cases i; cases j; cases k; simp) auto

lemma evolves_attempt_trans: "evolves_attempt a b \<Longrightarrow> evolves_attempt b c \<Longrightarrow> evolves_attempt a c"
  unfolding evolves_attempt_def by (cases "a_phase b"; cases a; cases b; cases c; simp; auto)

lemma evolves_refl [simp]: "evolves S S"
  by (auto simp: evolves_def)

lemma evolves_same: "q_jobs S' = q_jobs S \<Longrightarrow> q_attempts S' = q_attempts S \<Longrightarrow> q_requests S' = q_requests S \<Longrightarrow> evolves S S'"
  by (simp add: evolves_def)

lemma evolves_pair:
  assumes "q_jobs S jid = Some j" "evolves_job j j'" "q_jobs S' = (q_jobs S)(jid \<mapsto> j')"
    and "\<And>a. q_attempts S aid = Some a \<Longrightarrow> evolves_attempt a a'" "q_attempts S' = (q_attempts S)(aid \<mapsto> a')"
    and "q_requests S' = q_requests S"
  shows "evolves S S'"
  using assms by (auto simp: evolves_def)

lemma evolves_create: "evolves S (fst (machine_create now fenced job requestId S))"
  by (auto simp: machine_create_def evolves_def Let_def split: option.splits)

lemma evolves_claim:
  assumes inv: "machine_inv now S"
  shows "evolves S (fst (machine_claim now fenced jid ws t dev bid aid tok ro S))"
proof -
  consider "fst (machine_claim now fenced jid ws t dev bid aid tok ro S) = S"
    | "fst (machine_claim now fenced jid ws t dev bid aid tok ro S) = dequeue t jid S"
    | j where "q_jobs S jid = Some j" "j_status j = JS_queued" "q_attempts S aid = None"
      "fst (machine_claim now fenced jid ws t dev bid aid tok ro S) = dequeue t jid (set_job jid
         (j\<lparr>j_status := JS_active, j_latest_attempt_id := Some aid\<rparr>) (set_attempt aid (new_attempt now j dev bid aid tok) S))"
    using machine_claim_cases by metis
  then show ?thesis
  proof cases
    case (3 j)
    then have "j_latest_attempt_id j = None"
      using machine_inv_jobD [OF inv 3(1)] by (auto simp: job_inv_def job_ok_def job_state_ok_def)
    then have "evolves_job j (j\<lparr>j_status := JS_active, j_latest_attempt_id := Some aid\<rparr>)" using 3(2) by (simp add: evolves_job_def)
    then show ?thesis unfolding 3(4) using 3(1,3) by (intro evolves_pair [of S jid j]) auto
  qed (simp_all add: evolves_same)
qed

lemma evolves_start:
  assumes inv: "machine_inv now S"
  shows "evolves S (fst (machine_start now jid aid dev tok S))"
proof (cases "fst (machine_start now jid aid dev tok S) = S")
  case False
  then obtain j a where ja: "q_jobs S jid = Some j" "j_latest_attempt_id j = Some aid" "q_attempts S aid = Some a"
      "a_phase a \<noteq> AP_running" "j_status j = JS_active"
    and S': "fst (machine_start now jid aid dev tok S) = set_attempt aid (a\<lparr>a_phase := AP_running, a_started_at_ms := Some now\<rparr>) S"
    by (auto simp: machine_start_def Let_def split: option.splits if_splits)
  note f = machine_fetch [OF inv ja(1-3)]
  have "a_phase a = AP_claimed" using f(1) ja(4,5) by (cases "a_phase a") (auto simp: attempt_of_job_def)
  then have "evolves_attempt a (a\<lparr>a_phase := AP_running, a_started_at_ms := Some now\<rparr>)"
    using core_ok_report(2) [OF f(6)] by (simp add: evolves_attempt_def)
  then show ?thesis unfolding S' using ja by (auto simp: evolves_def)
qed simp

lemma evolves_close:
  assumes inv: "machine_inv now S" and ja: "q_jobs S jid = Some j" "j_latest_attempt_id j = Some aid" "q_attempts S aid = Some a"
    and nt: "j_status j \<noteq> JS_terminal"
  shows "evolves S (set_job jid (j\<lparr>j_status := JS_terminal, j_cancel := c\<rparr>) (set_attempt aid (a\<lparr>a_phase := AP_terminal, a_report := r\<rparr>) S))"
proof -
  note f = machine_fetch [OF inv ja]
  have "a_phase a \<noteq> AP_terminal" using f(1) nt by (simp add: attempt_of_job_def)
  then have "a_report a = None" using core_ok_report(1) [OF f(6)] by simp
  with \<open>a_phase a \<noteq> AP_terminal\<close> have "evolves_attempt a (a\<lparr>a_phase := AP_terminal, a_report := r\<rparr>)" by (simp add: evolves_attempt_def)
  moreover have "evolves_job j (j\<lparr>j_status := JS_terminal, j_cancel := c\<rparr>)" using nt by (simp add: evolves_job_def)
  ultimately show ?thesis using ja by (intro evolves_pair [of S jid j]) auto
qed

lemma evolves_report:
  assumes inv: "machine_inv now S"
  shows "evolves S (fst (machine_report now jid aid dev tok rep S))"
proof (cases "fst (machine_report now jid aid dev tok rep S) = S")
  case False
  then obtain j a where ja: "q_jobs S jid = Some j" "j_latest_attempt_id j = Some aid" "q_attempts S aid = Some a" "a_report a = None"
    and S': "fst (machine_report now jid aid dev tok rep S) = set_job jid (j\<lparr>j_status := JS_terminal\<rparr>)
        (set_attempt aid (a\<lparr>a_phase := AP_terminal, a_report := Some (received now rep)\<rparr>) S)"
    by (auto simp: machine_report_def split: option.splits if_splits)
  note f = machine_fetch [OF inv ja(1-3)]
  have "j_status j \<noteq> JS_terminal" using f(1) core_ok_report(1) [OF f(6)] ja(4) by (auto simp: attempt_of_job_def)
  moreover have "j\<lparr>j_status := JS_terminal\<rparr> = j\<lparr>j_status := JS_terminal, j_cancel := j_cancel j\<rparr>" by simp
  ultimately show ?thesis unfolding S' using evolves_close [OF inv ja(1-3), of "j_cancel j"] by (metis (full_types))
qed simp

lemma evolves_record:
  assumes inv: "machine_inv now S"
  shows "evolves S (fst (machine_record now jid aid dev tok res redelivery S))"
  by (auto simp: machine_record_def evolves_def evolves_attempt_def Let_def split: option.splits)

lemma evolves_cancel:
  assumes inv: "machine_inv now S"
  shows "evolves S (fst (machine_cancel now jid expected dev reason receipt S))"
proof (cases "fst (machine_cancel now jid expected dev reason receipt S) = S")
  case False
  then obtain j where j: "q_jobs S jid = Some j" "j_status j \<noteq> JS_terminal" "j_latest_attempt_id j = expected"
    by (auto simp: machine_cancel_def Let_def split: option.splits if_splits)
  show ?thesis
  proof (cases expected)
    case None
    have "evolves_job j (j\<lparr>j_status := JS_terminal, j_cancel := Some \<lparr>c_cancelled_at_ms = now, c_requested_by_device_id = dev, c_reason = reason\<rparr>\<rparr>)"
      using j by (simp add: evolves_job_def)
    with j None show ?thesis by (auto simp: machine_cancel_def evolves_def Let_def)
  next
    case (Some aid)
    with False j obtain a where a: "q_attempts S aid = Some a" by (auto simp: machine_cancel_def Let_def split: option.splits)
    show ?thesis
      using evolves_close [OF inv j(1) j(3) [unfolded Some] a j(2)] j Some a by (simp add: machine_cancel_def Let_def)
  qed
qed simp

section \<open>Steps keep the invariant and only extend history\<close>

text \<open>
  The steps of the abstract queue. \<open>F\<close> says for which targets the delete fence is fresh; a prune leaves any part of
  a target queue.
\<close>

inductive machine_step :: "(target_id \<Rightarrow> bool) \<Rightarrow> int \<Rightarrow> queue_state \<Rightarrow> queue_state \<Rightarrow> bool" for F now where
  m_idle: "machine_step F now S S"
| m_create: "submission_ok job \<Longrightarrow> machine_step F now S (fst (machine_create now (F (j_target_id job)) job (j_request_id job) S))"
| m_claim: "ATTEMPT_ID_V2_RE aid \<Longrightarrow> DEVICE_ID_V2_RE dev \<Longrightarrow> TARGET_BINDING_ID_V2_RE bid \<Longrightarrow> HEX_64_RE tok \<Longrightarrow>
    machine_step F now S (fst (machine_claim now (F t) jid ws t dev bid aid tok ro S))"
| m_start: "machine_step F now S (fst (machine_start now jid aid dev tok S))"
| m_report: "report_ok r \<Longrightarrow> short (r_finished_at_ms r) \<Longrightarrow> short (r_duration_ms r) \<Longrightarrow>
    machine_step F now S (fst (machine_report now jid aid dev tok r S))"
| m_record: "result_ok res \<Longrightarrow> res_attempt_id res = aid \<Longrightarrow>
    machine_step F now S (fst (machine_record now jid aid dev tok res redelivery S))"
| m_cancel: "DEVICE_ID_V2_RE dev \<Longrightarrow> cancel_reason_ok reason \<Longrightarrow> HEX_64_RE receipt \<Longrightarrow>
    machine_step F now S (fst (machine_cancel now jid expected dev reason receipt S))"
| m_prune: "Q \<subseteq> q_queue S t \<Longrightarrow> machine_step F now S (S\<lparr>q_queue := (q_queue S)(t := Q)\<rparr>)"

lemma machine_step_evolves: "machine_step F now S S' \<Longrightarrow> machine_inv now S \<Longrightarrow> evolves S S'"
  by (induction rule: machine_step.induct)
    (simp_all add: evolves_create evolves_claim evolves_start evolves_report evolves_record evolves_cancel evolves_same)

lemma machine_step_inv:
  assumes "machine_step F now S S'" "machine_inv now S" "short now" "0 \<le> now"
  shows "machine_inv now S'"
  using assms
proof (induction rule: machine_step.induct)
  case (m_create job S)
  show ?case by (rule machine_create_inv [OF m_create(2,1) refl])
next
  case (m_prune Q S t)
  let ?S = "S\<lparr>q_queue := (q_queue S)(t := Q)\<rparr>"
  have "queue_inv ?S"
    unfolding queue_inv_def
  proof (intro allI ballI)
    fix u k assume "k \<in> q_queue ?S u"
    then have "k \<in> q_queue S u" using m_prune(1) by (auto split: if_splits)
    with queued_member [OF m_prune(2)] show "\<exists>j. q_jobs ?S k = Some j \<and> j_target_id j = u \<and> j_status j = JS_queued" by simp
  qed
  then show ?case using m_prune(2) by (simp add: machine_inv_def job_inv_def attempt_inv_def request_inv_def stream_inv_def)
qed (auto intro: machine_claim_inv machine_start_inv machine_report_inv machine_record_inv machine_cancel_inv)

text \<open>The targets a fence closes in a key space.\<close>

abbreviation closed_targets :: "int \<Rightarrow> redis \<Rightarrow> target_id \<Rightarrow> bool" where
  "closed_targets now db \<equiv> \<lambda>t. fence_fresh now db (targetDeleteFenceKeyV1 t)"

definition simulated :: "int \<Rightarrow> redis \<Rightarrow> queue_state \<Rightarrow> redis \<Rightarrow> bool" where
  "simulated now db S db' \<longleftrightarrow> (\<exists>S'. represents db' S' \<and> machine_step (closed_targets now db) now S S')"

lemma simulatedI: "represents db' S' \<Longrightarrow> machine_step (closed_targets now db) now S S' \<Longrightarrow> simulated now db S db'"
  unfolding simulated_def by blast

lemma repr_fence_only:
  assumes "represents db S" "fence_only t db db'"
  shows "represents db' S"
proof -
  have eq: "db' k = db k" if "k \<noteq> targetDeleteFenceKeyV1 t" for k using assms(2) that by (simp add: fence_only_def)
  have "\<exists>v. p = RStr v" if "db' (targetDeleteFenceKeyV1 t') = Some (p, x)" for t' p x
    using that assms(2) representsD(7) [OF assms(1), of t' p x] eq [of "targetDeleteFenceKeyV1 t'"]
    by (cases "t' = t") (auto simp: fence_only_def)
  then show ?thesis using assms(1) unfolding represents_def by (simp add: eq)
qed

lemma fence_only_steps:
  assumes "represents db S"
  shows "fence_only t db (fst (acquireTargetDeleteFence now d db t token))"
    and "fence_only t db (fst (takeoverStaleTargetDeleteFence now d db t token))"
    and "fence_only t db (fst (touchTargetDeleteFence now db t token))"
    and "fence_only t db (fst (redis_del now (targetDeleteFenceKeyV1 t) db))"
proof -
  have same: "fence_only t db db" using representsD(7) [OF assms] by (simp add: fence_only_def)
  have set: "fence_only t db (redis_set_px now (targetDeleteFenceKeyV1 t) p px db)" for p px
    by (simp add: fence_only_def redis_set_px_apply)
  show "fence_only t db (fst (acquireTargetDeleteFence now d db t token))"
    by (simp add: acquireTargetDeleteFence_def redis_setNxPx_def same set)
  show "fence_only t db (fst (takeoverStaleTargetDeleteFence now d db t token))"
    by (simp add: takeoverStaleTargetDeleteFence_def redis_setXxPx_def same set)
  show "fence_only t db (fst (touchTargetDeleteFence now db t token))"
    by (simp add: touchTargetDeleteFence_def V2_TOUCH_DELETE_FENCE_SCRIPT_def same set
        split: sum.split option.split)
  show "fence_only t db (fst (redis_del now (targetDeleteFenceKeyV1 t) db))"
    by (simp add: redis_del_def fence_only_def)
qed

lemma prune_simulated:
  assumes rep: "represents db S"
  shows "simulated now db S (fst (pruneTargetQueue now db t jids))"
proof -
  obtain z where z: "db (targetQueueKeyV1 t) = zset_value z" "q_queue S t = snd ` set z"
    using representsD(4) [OF rep] by blast
  let ?z = "filter (\<lambda>e. snd e \<notin> set jids) z"
  obtain n where n: "redis_zrem now (targetQueueKeyV1 t) jids db = Inr (db(targetQueueKeyV1 t := zset_value ?z), n)"
    by (rule zrem_value [of db, OF z(1)])
  have "machine_step (closed_targets now db) now S (S\<lparr>q_queue := (q_queue S)(t := snd ` set ?z)\<rparr>)"
    by (rule m_prune) (auto simp: z(2))
  then have "simulated now db S (db(targetQueueKeyV1 t := zset_value ?z))" by (rule simulatedI [OF repr_queue_upd [OF rep]])
  moreover have "simulated now db S db" using rep m_idle by (rule simulatedI)
  ultimately show ?thesis using n by (simp add: pruneTargetQueue_def)
qed

lemma fence_simulated: "represents db S \<Longrightarrow> fence_only t db db' \<Longrightarrow> simulated now db S db'"
  by (rule simulatedI [OF repr_fence_only m_idle])

text \<open>The record script and the store around it, without assuming that attempts are readable.\<close>

lemma claim_db: "fst (store_claimJob now db jid ws t dev bid aid tok ro) =
    fst (V2_CLAIM_JOB_SCRIPT now db (jobKeyV2 jid) (targetQueueKeyV1 t) (jobAttemptsKeyV1 jid)
      (attemptKeyV1 aid) (targetDeleteFenceKeyV1 t) jid ws t dev bid aid tok ro)"
  by (simp add: store_claimJob_def case_prod_beta)

lemma start_db: "fst (store_startJob now db jid aid dev tok) =
    fst (V2_START_JOB_SCRIPT now db (jobKeyV2 jid) (attemptKeyV1 aid) aid dev tok)"
  by (simp add: store_startJob_def case_prod_beta)

text \<open>Every step of the store simulates a step of the abstract queue, with the fences of its own key space.\<close>

lemma job_step_simulated:
  assumes "job_step s s'" "represents (snd s) S" "machine_inv (fst s) S" "short (fst s)" "0 \<le> fst s"
  shows "simulated (fst s) (snd s) S (snd s') \<and> short (fst s') \<and> fst s \<le> fst s'"
  using assms
proof (cases rule: job_step.cases)
  case (tick now now' db)
  then show ?thesis using assms m_idle by (auto intro: simulatedI)
next
  case (create job now db)
  have "represents (fst (createJob now db job (j_request_id job)))
      (fst (machine_create now (closed_targets now db (j_target_id job)) job (j_request_id job) S))"
    using store_create_refines [OF _ create(3) refl, of db S now "j_request_id job"] assms create by simp
  from simulatedI [OF this m_create [OF create(3)]] show ?thesis using assms create by simp
next
  case (claim jid aid dev bid tok now db ws t ro)
  have "represents (fst (store_claimJob now db jid ws t dev bid aid tok ro))
      (fst (machine_claim now (closed_targets now db t) jid ws t dev bid aid tok ro S))"
    using claim_refines [OF _ _ claim(3) _ refl, of db S now] assms claim by (simp add: claim_db simulates_def)
  from simulatedI [OF this m_claim [OF claim(4-7)]] show ?thesis using assms claim by simp
next
  case (start jid now db aid dev tok)
  have "represents (fst (store_startJob now db jid aid dev tok)) (fst (machine_start now jid aid dev tok S))"
    using start_refines [OF _ _ start(3) _ refl, of db S now] assms start by (simp add: start_db simulates_def)
  from simulatedI [OF this m_start] show ?thesis using assms start by simp
next
  case (report jid r now db aid dev tok)
  have "represents (fst (store_reportJob now db jid aid dev tok r)) (fst (machine_report now jid aid dev tok r S))"
    using store_report_refines [OF _ _ report(3) _ _ report(4-6) refl, of db S now] assms report by simp
  from simulatedI [OF this m_report [OF report(4-6)]] show ?thesis using assms report by simp
next
  case (record_result jid res aid now db dev tok mode)
  have "represents (fst (recordJobResult now db jid aid dev tok res mode))
      (fst (machine_record now jid aid dev tok res (mode = Some ''explicit_redelivery'') S))"
    using store_record_refines [OF _ _ record_result(3) _ _ refl, of db S now] assms record_result by simp
  from simulatedI [OF this m_record [OF record_result(4,5)]] show ?thesis using assms record_result by simp
next
  case (cancel jid dev reason receipt expected now db t)
  have "j_target_id j = t" if "q_jobs S jid = Some j" for j
    using cancel(8) getJob_repr [of db S now jid now] assms cancel that by simp
  then have "represents (fst (store_cancelJob now db jid expected t dev reason receipt)) (fst (machine_cancel now jid expected dev reason receipt S))"
    using store_cancel_refines [OF _ _ cancel(3) _ _ cancel(6,7) _ refl, of db S now t] assms cancel by simp
  from simulatedI [OF this m_cancel [OF cancel(4-6)]] show ?thesis using assms cancel by simp
next
  case (prune now db t jids)
  then show ?thesis using assms prune_simulated by auto
next
  case (acquire now db date_now t token)
  then show ?thesis using assms fence_only_steps(1) [of db S t] by (auto intro: fence_simulated)
next
  case (takeover now db date_now t token)
  then show ?thesis using assms fence_only_steps(2) [of db S t] by (auto intro: fence_simulated)
next
  case (touch now db t token)
  then show ?thesis using assms fence_only_steps(3) [of db S t] by (auto intro: fence_simulated)
next
  case (delete_fence now db t)
  then show ?thesis using assms fence_only_steps(4) [of db S t] by (auto intro: fence_simulated)
qed

lemma job_step_successor:
  assumes "job_step s s'" "represents (snd s) S" "machine_inv (fst s) S" "short (fst s)" "0 \<le> fst s"
  shows "(\<exists>S'. represents (snd s') S' \<and> machine_inv (fst s') S' \<and> evolves S S' \<and> machine_step (closed_targets (fst s) (snd s)) (fst s) S S')
    \<and> short (fst s') \<and> 0 \<le> fst s'"
proof -
  obtain S' where S': "represents (snd s') S'" "machine_step (closed_targets (fst s) (snd s)) (fst s) S S'" "short (fst s')" "fst s \<le> fst s'"
    using job_step_simulated [OF assms] by (auto simp: simulated_def)
  have "machine_inv (fst s') S'" using machine_inv_mono [OF machine_step_inv [OF S'(2) assms(3-5)] S'(4)] .
  then show ?thesis using S' machine_step_evolves [OF S'(2) assms(3)] assms(5) by fastforce
qed

section \<open>Records are determined by their stored form\<close>

lemma jopt_jint_inject [simp]: "jopt jint x = jopt jint y \<longleftrightarrow> x = y"
  by (cases x; cases y) auto

lemma jopt_jstr_inject [simp]: "jopt JStr x = jopt JStr y \<longleftrightarrow> x = y"
  by (cases x; cases y) auto

lemma map_opt_inject:
  "map_option (\<lambda>r. JObj (persisted_obj r)) x = map_option (\<lambda>r. JObj (persisted_obj r)) y \<longleftrightarrow> x = y"
  "map_option (\<lambda>r. JObj (result_obj r)) u = map_option (\<lambda>r. JObj (result_obj r)) w \<longleftrightarrow> u = w"
  by (cases x; cases y; simp) (cases u; cases w; simp)

lemma attempt_value_inject [simp]: "attempt_value a = attempt_value b \<longleftrightarrow> a = b"
proof
  assume "attempt_value a = attempt_value b"
  then have "jfield (attempt_obj a) k = jfield (attempt_obj b) k" for k by (simp add: attempt_value_def)
  from this [of "''attempt_id''"] this [of "''job_id''"] this [of "''user_id''"] this [of "''workspace_id''"]
    this [of "''target_id''"] this [of "''device_id''"] this [of "''target_binding_id''"] this [of "''claim_token_sha256''"]
    this [of "''phase''"] this [of "''claimed_at_ms''"] this [of "''started_at_ms''"] this [of "''report''"] this [of "''result''"]
  show "a = b" by (simp add: attempt_obj_fields map_opt_inject)
qed simp

lemma job_value_ok: "job_value i = job_value j \<Longrightarrow> job_ok j \<Longrightarrow> i = j"
  using parse_job_obj_iff [of j j] parse_job_obj_iff [of i j] by (simp add: job_value_def)

section \<open>Reachable key spaces\<close>

definition history_kept :: "int \<times> redis \<Rightarrow> int \<times> redis \<Rightarrow> bool" where
  "history_kept s s' \<longleftrightarrow>
     (\<forall>jid j. colon_free jid \<longrightarrow> snd s (jobKeyV2 jid) = Some (job_value j) \<longrightarrow>
        (\<exists>j'. snd s' (jobKeyV2 jid) = Some (job_value j') \<and> evolves_job j j'))
     \<and> (\<forall>aid a. snd s (attemptKeyV1 aid) = Some (attempt_value a) \<longrightarrow>
        (\<exists>a'. snd s' (attemptKeyV1 aid) = Some (attempt_value a') \<and> evolves_attempt a a'))
     \<and> (\<forall>u w r v. snd s (requestKeyV2 u w r) = Some v \<longrightarrow> snd s' (requestKeyV2 u w r) = Some v)"

lemma store_ok_step: "store_ok s \<Longrightarrow> job_step s s' \<Longrightarrow> store_ok s'"
  by (auto simp: store_ok_def dest!: job_step_successor)

lemma history_step:
  assumes "store_ok s" "job_step s s'"
  shows "history_kept s s'"
proof -
  obtain S where S: "represents (snd s) S" "machine_inv (fst s) S" "short (fst s)" "0 \<le> fst s"
    using assms(1) by (auto simp: store_ok_def)
  obtain S' where S': "represents (snd s') S'" "evolves S S'"
    using job_step_successor [OF assms(2) S] by blast
  have "\<exists>j'. snd s' (jobKeyV2 jid) = Some (job_value j') \<and> evolves_job j j'"
    if cf: "colon_free jid" and v: "snd s (jobKeyV2 jid) = Some (job_value j)" for jid j
  proof -
    obtain i where i: "q_jobs S jid = Some i" "job_value i = job_value j"
      using representsD(1) [OF S(1) cf] v by (cases "q_jobs S jid") simp_all
    then have "j = i" using machine_inv_jobD [OF S(2) i(1)] job_value_ok [of j i] by (simp add: job_inv_def)
    with S'(2) i(1) obtain j' where "q_jobs S' jid = Some j'" "evolves_job j j'" unfolding evolves_def by metis
    then show ?thesis using representsD(1) [OF S'(1) cf] by auto
  qed
  moreover have "\<exists>a'. snd s' (attemptKeyV1 aid) = Some (attempt_value a') \<and> evolves_attempt a a'"
    if v: "snd s (attemptKeyV1 aid) = Some (attempt_value a)" for aid a
  proof -
    have "q_attempts S aid = Some a" using representsD(2) [OF S(1), of aid] v by (cases "q_attempts S aid") simp_all
    with S'(2) obtain a' where "q_attempts S' aid = Some a'" "evolves_attempt a a'" unfolding evolves_def by metis
    then show ?thesis using representsD(2) [OF S'(1), of aid] by auto
  qed
  moreover have "snd s' (requestKeyV2 u w r) = Some v" if v: "snd s (requestKeyV2 u w r) = Some v" for u w r v
  proof -
    obtain x where x: "q_requests S (requestKeyV2 u w r) = Some x" "v = (RStr (Text x), None)"
      using representsD(3) [OF S(1), of u w r] v by (cases "q_requests S (requestKeyV2 u w r)") simp_all
    then have "q_requests S' (requestKeyV2 u w r) = Some x" using S'(2) unfolding evolves_def by metis
    then show ?thesis using representsD(3) [OF S'(1), of u w r] x(2) by simp
  qed
  ultimately show ?thesis by (simp add: history_kept_def)
qed

lemma history_trans: "history_kept s t \<Longrightarrow> history_kept t u \<Longrightarrow> history_kept s u"
  unfolding history_kept_def
proof (intro conjI allI impI; elim conjE)
  fix jid j
  assume cf: "colon_free jid" and v: "snd s (jobKeyV2 jid) = Some (job_value j)"
    and st: "\<forall>jid j. colon_free jid \<longrightarrow> snd s (jobKeyV2 jid) = Some (job_value j) \<longrightarrow>
        (\<exists>j'. snd t (jobKeyV2 jid) = Some (job_value j') \<and> evolves_job j j')"
    and tu: "\<forall>jid j. colon_free jid \<longrightarrow> snd t (jobKeyV2 jid) = Some (job_value j) \<longrightarrow>
        (\<exists>j'. snd u (jobKeyV2 jid) = Some (job_value j') \<and> evolves_job j j')"
  obtain j' where j': "snd t (jobKeyV2 jid) = Some (job_value j')" "evolves_job j j'" using st cf v by blast
  obtain k where "snd u (jobKeyV2 jid) = Some (job_value k)" "evolves_job j' k" using tu cf j'(1) by blast
  with j'(2) show "\<exists>k. snd u (jobKeyV2 jid) = Some (job_value k) \<and> evolves_job j k" by (blast intro: evolves_job_trans)
next
  fix aid a
  assume v: "snd s (attemptKeyV1 aid) = Some (attempt_value a)"
    and st: "\<forall>aid a. snd s (attemptKeyV1 aid) = Some (attempt_value a) \<longrightarrow>
        (\<exists>a'. snd t (attemptKeyV1 aid) = Some (attempt_value a') \<and> evolves_attempt a a')"
    and tu: "\<forall>aid a. snd t (attemptKeyV1 aid) = Some (attempt_value a) \<longrightarrow>
        (\<exists>a'. snd u (attemptKeyV1 aid) = Some (attempt_value a') \<and> evolves_attempt a a')"
  obtain b where b: "snd t (attemptKeyV1 aid) = Some (attempt_value b)" "evolves_attempt a b" using st v by blast
  obtain c where "snd u (attemptKeyV1 aid) = Some (attempt_value c)" "evolves_attempt b c" using tu b(1) by blast
  with b(2) show "\<exists>c. snd u (attemptKeyV1 aid) = Some (attempt_value c) \<and> evolves_attempt a c" by (blast intro: evolves_attempt_trans)
next
  fix x w r v
  assume "\<forall>x w r v. snd s (requestKeyV2 x w r) = Some v \<longrightarrow> snd t (requestKeyV2 x w r) = Some v"
    "\<forall>x w r v. snd t (requestKeyV2 x w r) = Some v \<longrightarrow> snd u (requestKeyV2 x w r) = Some v"
    "snd s (requestKeyV2 x w r) = Some v"
  then show "snd u (requestKeyV2 x w r) = Some v" by blast
qed

interpretation jobs: monotone_by job_step store_ok history_kept
proof
  show "store_ok s \<Longrightarrow> job_step s s' \<Longrightarrow> store_ok s'" for s s' by (rule store_ok_step)
  show "history_kept s s" for s unfolding history_kept_def by (blast intro: evolves_job_refl evolves_attempt_refl)
  show "history_kept s t \<Longrightarrow> history_kept t u \<Longrightarrow> history_kept s u" for s t u by (rule history_trans)
  show "store_ok s \<Longrightarrow> job_step s s' \<Longrightarrow> history_kept s s'" for s s' by (rule history_step)
qed

lemma store_ok_empty: "store_ok (0, \<lambda>_. None)"
  by (rule store_okI [OF represents_empty machine_inv_empty]) simp_all

lemma reachable_ok: "job_step\<^sup>*\<^sup>* (0, \<lambda>_. None) s \<Longrightarrow> store_ok s"
  by (rule jobs.inv_star [OF _ store_ok_empty])

end
