(* ===== verification/Job_Frame.thy ===== *)
theory Job_Frame
  imports Job_Lifecycle
begin

text \<open>
  Which keys an operation may write. A store operation changes only the keys of the job, attempt,
  target queue, request and stream it was called with; every other key keeps its value and its expiry.
  A failing operation changes at most the target queue it cleans up.
\<close>

definition keeps_outside :: "string set \<Rightarrow> redis \<Rightarrow> redis \<Rightarrow> bool" where
  "keeps_outside K db db' \<longleftrightarrow> (\<forall>k. k \<notin> K \<longrightarrow> db' k = db k)"

lemma keeps_refl [simp]: "keeps_outside K db db"
  by (simp add: keeps_outside_def)

lemma keeps_set [simp]: "k \<in> K \<Longrightarrow> keeps_outside K db (redis_set k p db') \<longleftrightarrow> keeps_outside K db db'"
  by (auto simp: keeps_outside_def redis_set_apply)

lemma keeps_zrem: "redis_zrem now k ms db' = Inr (db'', n) \<Longrightarrow> k \<in> K \<Longrightarrow> keeps_outside K db db' \<Longrightarrow> keeps_outside K db db''"
  by (auto simp: keeps_outside_def dest: redis_zrem_frame)

lemma keeps_zadd: "redis_zadd now k sc m db' = Inr db'' \<Longrightarrow> k \<in> K \<Longrightarrow> keeps_outside K db db' \<Longrightarrow> keeps_outside K db db''"
  by (auto simp: keeps_outside_def dest: redis_zadd_frame)

lemma keeps_xadd: "redis_xadd now k fs db' = Inr (db'', i) \<Longrightarrow> k \<in> K \<Longrightarrow> keeps_outside K db db' \<Longrightarrow> keeps_outside K db db''"
  by (auto simp: keeps_outside_def dest: redis_xadd_frame)

text \<open>A command that may fail with an error reply, followed by the rest of the script.\<close>

lemma keeps_after:
  "keeps_outside K db db1 \<Longrightarrow> (\<And>x. r = Inr x \<Longrightarrow> keeps_outside K db (fst (k x))) \<Longrightarrow>
   keeps_outside K db (fst (case r of Inl _ \<Rightarrow> (db1, e) | Inr x \<Rightarrow> k x))"
  by (cases r) simp_all

lemma create_writes_frame:
  assumes "K = {rk, jk, sk, qk}"
  shows "keeps_outside K db (fst (create_writes now db rk jk sk qk a b c d e j))"
proof (cases "lua_table j")
  case None
  then show ?thesis using assms by (simp add: create_writes_def Let_def)
next
  case (Some prep)
  have K: "rk \<in> K" "jk \<in> K" "sk \<in> K" "qk \<in> K" using assms by simp_all
  show ?thesis
    unfolding create_writes_def Let_def Some option.case
  proof (rule keeps_after)
    fix x
    assume x: "redis_xadd now sk [(''schema_version'', ''2''), (''job_id'', a), (''user_id'', b), (''workspace_id'', c),
        (''target_id'', d), (''created_at_ms'', e)]
      (redis_set jk (Json (cjson_encode (JObj (fmupd ''latest_attempt_id'' JNull (fmupd ''stream_entry_id'' JNull
        (fmupd ''status'' (JStr ''preparing'') prep)))))) (redis_set rk (Text a) db)) = Inr x"
    obtain db3 i where xi: "x = (db3, i)" by (cases x)
    have k3: "keeps_outside K db db3" by (rule keeps_xadd [OF x [unfolded xi] K(3)]) (simp add: K)
    have k4: "keeps_outside K db db4" if "redis_zadd now qk sc a db3 = Inr db4" for sc db4
      by (rule keeps_zadd [OF that K(4) k3])
    show "keeps_outside K db (fst (case x of (db3, entry) \<Rightarrow> case lua_tonumber e of
          None \<Rightarrow> (db3, ErrorReply ''ERR value is not a valid float'')
        | Some score \<Rightarrow> (case redis_zadd now qk score a db3 of Inl _ \<Rightarrow> (db3, ErrorReply ''WRONGTYPE'')
          | Inr db4 \<Rightarrow> (redis_set jk (Json (cjson_encode (JObj (fmupd ''latest_attempt_id'' JNull (fmupd ''stream_entry_id'' (JStr entry)
             (fmupd ''status'' (JStr ''queued'') (fmupd ''latest_attempt_id'' JNull (fmupd ''stream_entry_id'' JNull
             (fmupd ''status'' (JStr ''preparing'') prep))))))))) db4,
             encoded [(''status'', Some (JStr ''created'')), (''job_id'', Some (JStr a)), (''stream_entry_id'', Some (JStr entry))]))))"
      using k3 k4 by (simp add: xi K split: option.split sum.split)
  qed (simp add: K)
qed

lemma claim_frame:
  "K = {jk, qk, ik, ak} \<Longrightarrow> keeps_outside K db (fst (V2_CLAIM_JOB_SCRIPT now db jk qk ik ak fk a b c d e f g h))"
proof -
  assume K: "K = {jk, qk, ik, ak}"
  have w: "keeps_outside K db (fst (claim_writes now db jk qk ik ak job a d e f g))" for job
    unfolding claim_writes_def Let_def
  proof (rule keeps_after)
    fix db2
    assume z: "redis_zadd now ik (of_int now) f (redis_set ak (Json (cjson_encode (JObj (new_attempt_table now job d e f g)))) db) = Inr db2"
    have k2: "keeps_outside K db db2" by (rule keeps_zadd [OF z]) (simp_all add: K)
    then show "keeps_outside K db (fst (case redis_zrem now qk [a] (redis_set jk (Json (cjson_encode (JObj
        (fmupd ''latest_attempt_id'' (JStr f) (fmupd ''status'' (JStr ''active'') job))))) db2) of
        Inl _ \<Rightarrow> (redis_set jk (Json (cjson_encode (JObj (fmupd ''latest_attempt_id'' (JStr f) (fmupd ''status'' (JStr ''active'') job))))) db2, ErrorReply ''WRONGTYPE'')
      | Inr (db4, _) \<Rightarrow> (db4, encoded [(''status'', Some (JStr ''claimed'')), (''attempt'', Some (JObj (new_attempt_table now job d e f g))), server_time now])))"
      by (auto simp: K split: sum.split prod.split dest: keeps_zrem [where K = K and db = db])
  qed (simp add: K)
  have n: "keeps_outside K db (fst (claim_new now db jk qk ik ak job a d e f g h))" for job
    using K w by (auto simp: claim_new_def split: option.splits sum.splits bool.splits intro: keeps_zrem [where k = qk])
  have r: "keeps_outside K db (fst (claim_replay now db ak a b c d f g))"
    by (auto simp: claim_replay_def decoded_def indexed_def split: option.splits)
  show ?thesis
    using n r by (simp add: V2_CLAIM_JOB_SCRIPT_def claim_job_def decoded_def indexed_def split: option.split)
qed

lemma with_records_frame:
  "(\<And>j a. keeps_outside K db (fst (k j a))) \<Longrightarrow> keeps_outside K db (fst (with_records now db jk ak code k))"
  by (auto simp: with_records_def decoded_def split: option.splits)

lemma start_frame: "keeps_outside {ak} db (fst (V2_START_JOB_SCRIPT now db jk ak a b c))"
  unfolding V2_START_JOB_SCRIPT_def
  by (rule with_records_frame) (auto simp: start_attempt_def indexed_def Let_def split: option.splits)

lemma report_frame: "keeps_outside {jk, ak} db (fst (V2_REPORT_JOB_SCRIPT now db jk ak a b c r))"
  unfolding V2_REPORT_JOB_SCRIPT_def
  by (rule with_records_frame) (auto simp: report_attempt_def report_replay_def report_transition_def report_writes_def
      indexed_def Let_def split: option.splits bool.splits)

lemma record_frame: "keeps_outside {ak} db (fst (V2_RECORD_RESULT_SCRIPT now db jk ak a b r m))"
  unfolding V2_RECORD_RESULT_SCRIPT_def
  by (rule with_records_frame) (auto simp: record_attempt_def record_writes_def decoded_def indexed_def Let_def
      split: option.splits)

lemma cancel_frame: "K = {jk, ak, qk} \<Longrightarrow> keeps_outside K db (fst (V2_CANCEL_JOB_SCRIPT now db jk ak qk e d r c))"
proof -
  assume K: "K = {jk, ak, qk}"
  have t: "keeps_outside K db (fst (cancel_terminal now db ak job))" for job
    by (auto simp: cancel_terminal_def decoded_def indexed_def split: option.splits)
  have a: "keeps_outside K db (fst (cancel_active now db jk ak job d r c))" for job
    using K by (auto simp: cancel_active_def cancel_active_writes_def decoded_def indexed_def Let_def split: option.splits)
  have q: "keeps_outside K db (fst (cancel_queued now db jk qk job d r))" for job
    using K by (auto simp: cancel_queued_def Let_def split: option.splits sum.splits prod.splits intro: keeps_zrem [where k = qk])
  show ?thesis
    using t a q by (simp add: V2_CANCEL_JOB_SCRIPT_def cancel_job_def decoded_def indexed_def Let_def split: option.split)
qed

lemma create_frame: "K = {rk, jk, sk, qk} \<Longrightarrow> keeps_outside K db (fst (V2_CREATE_JOB_SCRIPT now db rk jk sk qk fk a b c d e p))"
  using create_writes_frame [of K rk jk sk qk db now a b c d e]
  by (simp add: V2_CREATE_JOB_SCRIPT_def decoded_def split: option.split)

lemma createJob_frame:
  "keeps_outside {requestKeyV2 (j_user_id job) (j_workspace_id job) rid, jobKeyV2 (j_job_id job), KEY_STREAM_V2,
     targetQueueKeyV1 (j_target_id job)} db (fst (createJob now db job rid))"
  by (simp add: createJob_def case_prod_beta create_frame split: sum.split)

lemma claimJob_frame:
  "keeps_outside {jobKeyV2 jid, targetQueueKeyV1 t, jobAttemptsKeyV1 jid, attemptKeyV1 aid} db
     (fst (store_claimJob now db jid ws t dev bid aid tok ro))"
  by (simp add: claim_db claim_frame)

lemma startJob_frame: "keeps_outside {attemptKeyV1 aid} db (fst (store_startJob now db jid aid dev tok))"
  by (simp add: start_db start_frame)

lemma reportJob_frame: "keeps_outside {jobKeyV2 jid, attemptKeyV1 aid} db (fst (store_reportJob now db jid aid dev tok r))"
  by (simp add: store_reportJob_def case_prod_beta report_frame)

lemma recordResult_frame: "keeps_outside {attemptKeyV1 aid} db (fst (recordJobResult now db jid aid dev tok r m))"
  by (simp add: recordJobResult_def case_prod_beta record_frame)

lemma fence_fresh_cong: "db' k = db k \<Longrightarrow> fence_fresh now db' k = fence_fresh now db k"
  by (simp add: fence_fresh_def call_GET_def live_def)

lemma keeps_outsideD: "keeps_outside K db db' \<Longrightarrow> k \<notin> K \<Longrightarrow> db' k = db k"
  by (simp add: keeps_outside_def)

text \<open>No operation on jobs touches a delete fence.\<close>

lemma ops_keep_fence [simp]:
  "fst (createJob now db job rid) (targetDeleteFenceKeyV1 t) = db (targetDeleteFenceKeyV1 t)"
  "fst (store_claimJob now db jid ws u dev bid aid tok ro) (targetDeleteFenceKeyV1 t) = db (targetDeleteFenceKeyV1 t)"
  "fst (store_startJob now db jid aid dev tok) (targetDeleteFenceKeyV1 t) = db (targetDeleteFenceKeyV1 t)"
  "fst (store_reportJob now db jid aid dev tok r) (targetDeleteFenceKeyV1 t) = db (targetDeleteFenceKeyV1 t)"
  by (rule keeps_outsideD [OF createJob_frame] keeps_outsideD [OF claimJob_frame] keeps_outsideD [OF startJob_frame]
      keeps_outsideD [OF reportJob_frame]; simp)+

end
