(* ===== verification/Job_Samples.thy ===== *)
theory Job_Samples
  imports Job_Frame
begin

text \<open>A concrete job and its attempt, on which the theorems about the job store are exercised.\<close>

definition sample_uuid :: string where "sample_uuid = ''01234567-89ab-cdef-0123-456789abcdef''"
definition sample_job_id :: string where "sample_job_id = ''job-01234567-89ab-cdef-0123-456789abcdef''"
definition sample_target :: string where "sample_target = ''tgt_01234567-89ab-cdef-0123-456789abcdef''"
definition sample_device :: string where "sample_device = ''dev_01234567-89ab-cdef-0123-456789abcdef''"
definition sample_binding :: string where "sample_binding = ''dtb_01234567-89ab-cdef-0123-456789abcdef''"
definition sample_resource :: string where "sample_resource = ''res-01234567-89ab-cdef-0123-456789abcdef''"
definition sample_sha :: string where
  "sample_sha = ''0123456789abcdef0123456789abcdef0123456789abcdef0123456789abcdef''"

definition sample_job :: job where
  "sample_job = \<lparr>j_job_id = sample_job_id, j_request_id = sample_uuid, j_user_id = ''usr-1'', j_workspace_id = ''ws-1'',
     j_target_id = sample_target, j_prompt = ''do it'', j_acceptance = ''done'', j_resource_id = None,
     j_execution_timeout_seconds = 60, j_result_target = RT_none, j_request_digest = sample_sha,
     j_status = JS_preparing, j_stream_entry_id = None, j_latest_attempt_id = None,
     j_created_at_ms = 1000, j_claim_deadline_ms = 5000, j_cancel = None\<rparr>"

definition sample_report :: exec_report where
  "sample_report = \<lparr>r_execution_status = ES_COMPLETED, r_business_outcome = BO_UNVERIFIED, r_task_dispatched = True,
     r_finished_at_ms = 3000, r_duration_ms = 500, r_executor = \<lparr>ex_type = ''codex'', ex_version = ''1''\<rparr>,
     r_receipt_sha256 = sample_sha, r_error = None\<rparr>"

definition sample_result :: job_result where
  "sample_result = \<lparr>res_attempt_id = sample_uuid, res_payload_sha256 = sample_sha, res_resource_id = sample_resource,
     res_commit = ''c1'', res_received_at_ms = 0\<rparr>"

lemma sample_ids [simp]:
  "JOB_ID_V2_RE sample_job_id" "REQUEST_ID_V2_RE sample_uuid" "ATTEMPT_ID_V2_RE sample_uuid" "TARGET_ID_V2_RE sample_target"
  "DEVICE_ID_V2_RE sample_device" "TARGET_BINDING_ID_V2_RE sample_binding" "HEX_64_RE sample_sha" "RESOURCE_ID_V2_RE sample_resource"
  by code_simp+

lemma sample_texts [simp]:
  "scope_id_ok ''usr-1''" "scope_id_ok ''ws-1''" "executor_ok \<lparr>ex_type = ''codex'', ex_version = ''1''\<rparr>"
  "commit_ok ''c1''" "cancel_reason_ok ''stop''" "\<not> isWhitespaceOnly ''do it''" "\<not> isWhitespaceOnly ''done''"
  by code_simp+

lemma sample_briefs [simp]: "brief_ok MAX_PROMPT_BYTES ''do it''" "brief_ok MAX_ACCEPTANCE_BYTES ''done''"
  by (simp_all add: brief_ok_def utf8ByteLength_def MAX_PROMPT_BYTES_def MAX_ACCEPTANCE_BYTES_def)

lemma sample_job_facts [simp]: "job_ok sample_job" "submission_ok sample_job"
  by (simp_all add: sample_job_def submission_ok_def job_ok_def timeout_ok_def MIN_TIMEOUT_SECONDS_def
      MAX_TIMEOUT_SECONDS_def safe_nonneg_def MAX_SAFE_INTEGER_def job_state_ok_def job_short_def short_def)

lemma sample_report_ok [simp]: "report_ok sample_report" "result_ok sample_result"
  by (simp_all add: report_ok_def sample_report_def report_refined_def safe_nonneg_def MAX_SAFE_INTEGER_def
      result_ok_def sample_result_def)

lemma sample_colon_free [simp]: "colon_free sample_job_id"
  by (rule job_id_colon_free) simp

section \<open>A sample run: submit, claim, start, report\<close>

definition sample_db1 :: redis where
  "sample_db1 = fst (createJob 1000 (\<lambda>_. None) sample_job sample_uuid)"

definition sample_db2 :: redis where
  "sample_db2 = fst (store_claimJob 2000 sample_db1 sample_job_id ''ws-1'' sample_target sample_device sample_binding sample_uuid sample_sha False)"

definition sample_db3 :: redis where
  "sample_db3 = fst (store_startJob 2500 sample_db2 sample_job_id sample_uuid sample_device sample_sha)"

definition sample_db4 :: redis where
  "sample_db4 = fst (store_reportJob 3000 sample_db3 sample_job_id sample_uuid sample_device sample_sha sample_report)"

definition sample_S1 :: queue_state where
  "sample_S1 = fst (machine_create 1000 False sample_job sample_uuid empty_state)"

definition sample_S2 :: queue_state where
  "sample_S2 = fst (machine_claim 2000 False sample_job_id ''ws-1'' sample_target sample_device sample_binding sample_uuid sample_sha False sample_S1)"

definition sample_S3 :: queue_state where
  "sample_S3 = fst (machine_start 2500 sample_job_id sample_uuid sample_device sample_sha sample_S2)"

definition sample_S4 :: queue_state where
  "sample_S4 = fst (machine_report 3000 sample_job_id sample_uuid sample_device sample_sha sample_report sample_S3)"

lemma sample_times [simp]: "short 1000" "short 2000" "short 2500" "short 3000" "short 70000" "short 500"
  by (simp_all add: short_def)

lemma sample_no_fence [simp]:
  "\<not> fence_fresh now (\<lambda>_. None) k"
  "\<not> fence_fresh now sample_db1 (targetDeleteFenceKeyV1 t)" "\<not> fence_fresh now sample_db2 (targetDeleteFenceKeyV1 t)"
  by (simp_all add: fence_fresh_def call_GET_def live_def sample_db1_def sample_db2_def)

lemma sample_selectors [simp]:
  "j_job_id sample_job = sample_job_id" "j_request_id sample_job = sample_uuid" "j_user_id sample_job = ''usr-1''"
  "j_workspace_id sample_job = ''ws-1''" "j_target_id sample_job = sample_target" "j_claim_deadline_ms sample_job = 5000"
  "j_latest_attempt_id sample_job = None"
  "r_task_dispatched sample_report" "r_finished_at_ms sample_report = 3000" "r_duration_ms sample_report = 500"
  by (simp_all add: sample_job_def sample_report_def)

lemma sample_run1: "represents sample_db1 sample_S1" "machine_inv 1000 sample_S1"
proof -
  show "represents sample_db1 sample_S1"
    using store_create_refines [OF represents_empty sample_job_facts(2) refl, of 1000 sample_uuid]
    by (simp add: sample_db1_def sample_S1_def)
  show "machine_inv 1000 sample_S1"
    unfolding sample_S1_def by (rule machine_create_inv [OF machine_inv_empty]) simp_all
qed

lemma sample_run2: "represents sample_db2 sample_S2" "machine_inv 2000 sample_S2"
proof -
  have inv: "machine_inv 2000 sample_S1" by (rule machine_inv_mono [OF sample_run1(2)]) simp
  show "represents sample_db2 sample_S2"
    using claim_refines [OF sample_run1(1) inv sample_colon_free sample_times(2) refl, of sample_target]
    by (simp add: sample_db2_def sample_S2_def claim_db simulates_def)
  show "machine_inv 2000 sample_S2"
    unfolding sample_S2_def by (rule machine_claim_inv [OF inv]) simp_all
qed

lemma sample_run3: "represents sample_db3 sample_S3" "machine_inv 2500 sample_S3"
proof -
  have inv: "machine_inv 2500 sample_S2" by (rule machine_inv_mono [OF sample_run2(2)]) simp
  show "represents sample_db3 sample_S3"
    using start_refines [OF sample_run2(1) inv sample_colon_free sample_times(3) refl]
    by (simp add: sample_db3_def sample_S3_def start_db simulates_def)
  show "machine_inv 2500 sample_S3"
    unfolding sample_S3_def by (rule machine_start_inv [OF inv]) simp_all
qed

lemma sample_run4: "represents sample_db4 sample_S4" "machine_inv 3000 sample_S4"
proof -
  have inv: "machine_inv 3000 sample_S3" by (rule machine_inv_mono [OF sample_run3(2)]) simp
  show "represents sample_db4 sample_S4"
    using store_report_refines [OF sample_run3(1) inv sample_colon_free sample_times(4) _ sample_report_ok(1) _ _ refl]
    by (simp add: sample_db4_def sample_S4_def)
  show "machine_inv 3000 sample_S4"
    unfolding sample_S4_def by (rule machine_report_inv [OF inv]) simp_all
qed

lemma sample_attempt_exists:
  "q_jobs sample_S1 sample_job_id = Some (sample_job\<lparr>j_status := JS_queued, j_stream_entry_id := Some (show_entry_id (1000, 0))\<rparr>)"
  "q_attempts sample_S1 = (\<lambda>_. None)"
  by (simp_all add: sample_S1_def machine_create_def empty_state_def Let_def next_entry_id_def)

abbreviation sample_attempt :: attempt where
  "sample_attempt \<equiv> new_attempt 2000 sample_job sample_device sample_binding sample_uuid sample_sha"

lemma sample_state2:
  "q_jobs sample_S2 sample_job_id = Some (sample_job\<lparr>j_status := JS_active, j_stream_entry_id := Some (show_entry_id (1000, 0)),
      j_latest_attempt_id := Some sample_uuid\<rparr>)"
  "q_attempts sample_S2 sample_uuid = Some sample_attempt"
  by (simp_all add: sample_S2_def machine_claim_def sample_attempt_exists Let_def new_attempt_def)

lemma sample_state3:
  "q_jobs sample_S3 sample_job_id = q_jobs sample_S2 sample_job_id"
  "q_attempts sample_S3 sample_uuid = Some (sample_attempt\<lparr>a_phase := AP_running, a_started_at_ms := Some 2500\<rparr>)"
  by (simp_all add: sample_S3_def machine_start_def sample_state2 Let_def) (simp_all add: new_attempt_def)

lemma sample_state4:
  "q_jobs sample_S4 sample_job_id = Some (sample_job\<lparr>j_status := JS_terminal, j_stream_entry_id := Some (show_entry_id (1000, 0)),
      j_latest_attempt_id := Some sample_uuid\<rparr>)"
  "q_attempts sample_S4 sample_uuid = Some (sample_attempt\<lparr>a_phase := AP_terminal, a_started_at_ms := Some 2500,
      a_report := Some (received 3000 sample_report)\<rparr>)"
  by (simp_all add: sample_S4_def machine_report_def sample_state3 sample_state2) (simp_all add: new_attempt_def)

lemma sample_reach1: "job_step\<^sup>*\<^sup>* (0, \<lambda>_. None) (1000, sample_db1)"
proof -
  have "job_step (0, \<lambda>_. None) (1000, \<lambda>_. None)" by (rule tick) simp_all
  moreover have "job_step (1000, \<lambda>_. None) (1000, sample_db1)"
    using create [of sample_job 1000 "\<lambda>_. None"] by (simp add: sample_db1_def)
  ultimately show ?thesis by (meson converse_rtranclp_into_rtranclp rtranclp.rtrancl_refl)
qed

lemma sample_reach2: "job_step\<^sup>*\<^sup>* (1000, sample_db1) (2000, sample_db2)"
proof -
  have "job_step (1000, sample_db1) (2000, sample_db1)" by (rule tick) simp_all
  moreover have "job_step (2000, sample_db1) (2000, sample_db2)"
    using claim [of sample_job_id sample_uuid sample_device sample_binding sample_sha 2000 sample_db1 "''ws-1''" sample_target False]
    by (simp add: sample_db2_def)
  ultimately show ?thesis by (meson converse_rtranclp_into_rtranclp rtranclp.rtrancl_refl)
qed

lemma sample_reach3: "job_step\<^sup>*\<^sup>* (2000, sample_db2) (2500, sample_db3)"
proof -
  have "job_step (2000, sample_db2) (2500, sample_db2)" by (rule tick) simp_all
  moreover have "job_step (2500, sample_db2) (2500, sample_db3)"
    using start [of sample_job_id 2500 sample_db2 sample_uuid sample_device sample_sha] by (simp add: sample_db3_def)
  ultimately show ?thesis by (meson converse_rtranclp_into_rtranclp rtranclp.rtrancl_refl)
qed

end
