(* ===== verification/Job_Properties.thy ===== *)
theory Job_Properties
  imports Job_Samples
begin

text \<open>
  What the job store guarantees to its clients, on every reachable key space: consistency of the
  records, append-only history, exclusive claims, idempotent submission, and the exact outcome of each
  operation; and the places where the code does less than its comments say.
\<close>

section \<open>Consistency and history\<close>

lemma reachable_repr:
  assumes "job_step\<^sup>*\<^sup>* (0, \<lambda>_. None) (now, db)"
  obtains S where "represents db S" "machine_inv now S" "short now" "0 \<le> now"
  using reachable_ok [OF assms] by (auto simp: store_ok_def)

text \<open>
  C1. However clients interleave, every stored job parses to a record with its own id that is past the
  preparing state, and the attempt it names exists, belongs to it, agrees with it on user, workspace and
  target, and is terminal exactly when the job is.
\<close>

theorem reachable_jobs_consistent:
  assumes "job_step\<^sup>*\<^sup>* (0, \<lambda>_. None) (now, db)" "JOB_ID_V2_RE jid" "db (jobKeyV2 jid) \<noteq> None"
  shows "\<exists>j. getJob now db jid = Inr (Some j) \<and> j_job_id j = jid \<and> j_status j \<noteq> JS_preparing
    \<and> (\<forall>aid. j_latest_attempt_id j = Some aid \<longrightarrow>
        (\<exists>a. db (attemptKeyV1 aid) = Some (attempt_value a) \<and> a_job_id a = jid \<and> attempt_of_job a j \<and> attempt_core_ok a))"
proof -
  obtain S where S: "represents db S" "machine_inv now S" by (rule reachable_repr [OF assms(1)])
  have cf: "colon_free jid" by (rule job_id_colon_free [OF assms(2)])
  then obtain j where j: "q_jobs S jid = Some j" using assms(3) representsD(1) [OF S(1) cf] by (cases "q_jobs S jid") auto
  have ji: "job_inv S jid j" by (rule machine_inv_jobD [OF S(2) j])
  have "\<exists>a. db (attemptKeyV1 aid) = Some (attempt_value a) \<and> a_job_id a = jid \<and> attempt_of_job a j \<and> attempt_core_ok a"
    if lt: "j_latest_attempt_id j = Some aid" for aid
  proof -
    obtain a where "q_attempts S aid = Some a" "a_job_id a = jid" "attempt_of_job a j" "attempt_inv now S aid a"
      by (rule job_linked [OF S(2) j lt])
    then show ?thesis using representsD(2) [OF S(1), of aid] by (simp add: attempt_inv_def)
  qed
  then show ?thesis using ji getJob_repr [OF S cf, of now] j by (simp add: job_inv_def)
qed

theorem reachable_jobs_consistent_witness:
  "\<exists>j. getJob 1000 sample_db1 sample_job_id = Inr (Some j) \<and> j_job_id j = sample_job_id \<and> j_status j \<noteq> JS_preparing
    \<and> (\<forall>aid. j_latest_attempt_id j = Some aid \<longrightarrow>
        (\<exists>a. sample_db1 (attemptKeyV1 aid) = Some (attempt_value a) \<and> a_job_id a = sample_job_id \<and> attempt_of_job a j \<and> attempt_core_ok a))"
  by (rule reachable_jobs_consistent [OF sample_reach1 sample_ids(1)])
    (simp add: representsD(1) [OF sample_run1(1)] sample_attempt_exists)

text \<open>
  C2. History is append-only: from any reachable key space, later steps keep every job with its identity,
  never leave the terminal state or change a terminal job, keep the attempt a job once had, keep an
  attempt's start time and report once set, and keep every request entry.
\<close>

theorem history_is_append_only:
  assumes "job_step\<^sup>*\<^sup>* (0, \<lambda>_. None) s" "job_step\<^sup>*\<^sup>* s s'"
  shows "history_kept s s'"
  by (rule jobs.le_star [OF assms(2) reachable_ok [OF assms(1)]])

theorem history_is_append_only_witness: "history_kept (1000, sample_db1) (2000, sample_db2)"
  by (rule history_is_append_only [OF sample_reach1 sample_reach2])

text \<open>
  Every member of a target queue is a stored job of that target that is still queued.
\<close>

theorem queue_members_are_queued:
  assumes "job_step\<^sup>*\<^sup>* (0, \<lambda>_. None) (now, db)" "getQueuedJobIdsForTarget now db t limit = Inr rows" "(jid, sc) \<in> set rows"
  shows "\<exists>j. db (jobKeyV2 jid) = Some (job_value j) \<and> j_job_id j = jid \<and> j_target_id j = t \<and> j_status j = JS_queued"
proof -
  obtain S where S: "represents db S" "machine_inv now S" by (rule reachable_repr [OF assms(1)])
  obtain z where z: "db (targetQueueKeyV1 t) = zset_value z" "q_queue S t = snd ` set z"
    using representsD(4) [OF S(1)] by blast
  have "rows = map (\<lambda>e. (snd e, fst e)) (take (Suc (nat (max 0 (limit - 1)))) z)"
    using assms(2) by (simp add: getQueuedJobIdsForTarget_def redis_zrangeWithScores_def zset_at_value [of db, OF z(1)])
  then have "jid \<in> q_queue S t" using assms(3) z(2) by (auto dest!: in_set_takeD intro: rev_image_eqI)
  then obtain j where j: "q_jobs S jid = Some j" "j_target_id j = t" "j_status j = JS_queued"
    using queued_member [OF S(2)] by metis
  have ji: "job_inv S jid j" by (rule machine_inv_jobD [OF S(2) j(1)])
  then have "colon_free jid" by (auto simp: job_inv_def job_ok_def intro: job_id_colon_free)
  then show ?thesis using j ji representsD(1) [OF S(1)] by (auto simp: job_inv_def)
qed

theorem queue_members_are_queued_witness:
  "\<exists>rows. getQueuedJobIdsForTarget 1000 sample_db1 sample_target 5 = Inr rows \<and> (\<forall>e \<in> set rows.
     \<exists>j. sample_db1 (jobKeyV2 (fst e)) = Some (job_value j) \<and> j_job_id j = fst e \<and> j_target_id j = sample_target \<and> j_status j = JS_queued)"
proof -
  obtain z where z: "sample_db1 (targetQueueKeyV1 sample_target) = zset_value z"
    using representsD(4) [OF sample_run1(1)] by blast
  then obtain rows where r: "getQueuedJobIdsForTarget 1000 sample_db1 sample_target 5 = Inr rows"
    by (simp add: getQueuedJobIdsForTarget_def redis_zrangeWithScores_def zset_at_value [of sample_db1, OF z])
  with queue_members_are_queued [OF sample_reach1 r] show ?thesis by (metis prod.collapse)
qed

section \<open>Exclusive claims\<close>

lemma evolves_identity:
  "evolves_attempt a a' \<Longrightarrow> a_device_id a' = a_device_id a \<and> a_claim_token_sha256 a' = a_claim_token_sha256 a"
  unfolding evolves_attempt_def by (cases a; cases a'; simp)

lemma history_keptD:
  assumes "history_kept (n1, db1) (n2, db2)"
  shows "colon_free jid \<Longrightarrow> db1 (jobKeyV2 jid) = Some (job_value j) \<Longrightarrow>
      \<exists>j'. db2 (jobKeyV2 jid) = Some (job_value j') \<and> evolves_job j j'"
    and "db1 (attemptKeyV1 aid) = Some (attempt_value a) \<Longrightarrow>
      \<exists>a'. db2 (attemptKeyV1 aid) = Some (attempt_value a') \<and> evolves_attempt a a'"
    and "db1 (requestKeyV2 u w r) = Some v \<Longrightarrow> db2 (requestKeyV2 u w r) = Some v"
  using assms unfolding history_kept_def snd_conv by blast+

text \<open>What append-only history says of the abstract states at both ends.\<close>

lemma kept_records:
  assumes kept: "history_kept (n1, db1) (n2, db2)" and S: "represents db1 S" and T: "represents db2 T" "machine_inv n2 T"
  shows "colon_free jid \<Longrightarrow> q_jobs S jid = Some j \<Longrightarrow> \<exists>j'. q_jobs T jid = Some j' \<and> evolves_job j j'"
    and "q_attempts S aid = Some a \<Longrightarrow> \<exists>a'. q_attempts T aid = Some a' \<and> evolves_attempt a a'"
    and "q_requests S (requestKeyV2 u w r) = Some x \<Longrightarrow> q_requests T (requestKeyV2 u w r) = Some x"
proof -
  assume cf: "colon_free jid" and j: "q_jobs S jid = Some j"
  then have "db1 (jobKeyV2 jid) = Some (job_value j)" using representsD(1) [OF S] by simp
  then obtain j' where j': "db2 (jobKeyV2 jid) = Some (job_value j')" "evolves_job j j'"
    using history_keptD(1) [OF kept cf] by metis
  obtain i where i: "q_jobs T jid = Some i" "job_value i = job_value j'"
    using representsD(1) [OF T(1) cf] j'(1) by (cases "q_jobs T jid") simp_all
  have "j' = i" using job_value_ok [of j' i] i machine_inv_jobD [OF T(2) i(1)] by (simp add: job_inv_def)
  then show "\<exists>j'. q_jobs T jid = Some j' \<and> evolves_job j j'" using i(1) j'(2) by blast
next
  assume "q_attempts S aid = Some a"
  then have "db1 (attemptKeyV1 aid) = Some (attempt_value a)" using representsD(2) [OF S] by simp
  then obtain a' where a': "db2 (attemptKeyV1 aid) = Some (attempt_value a')" "evolves_attempt a a'"
    using history_keptD(2) [OF kept] by metis
  then show "\<exists>a'. q_attempts T aid = Some a' \<and> evolves_attempt a a'"
    using representsD(2) [OF T(1), of aid] by (cases "q_attempts T aid") simp_all
next
  assume "q_requests S (requestKeyV2 u w r) = Some x"
  then have "db1 (requestKeyV2 u w r) = Some (RStr (Text x), None)" using representsD(3) [OF S] by simp
  then have "db2 (requestKeyV2 u w r) = Some (RStr (Text x), None)" by (rule history_keptD(3) [OF kept])
  then show "q_requests T (requestKeyV2 u w r) = Some x"
    using representsD(3) [OF T(1), of u w r] by (cases "q_requests T (requestKeyV2 u w r)") simp_all
qed

lemma claim_success_machine:
  assumes rep: "represents db S" and inv: "machine_inv now S" "short now" "0 \<le> now" and jid: "colon_free jid"
    and ok: "store_claimJob now db jid ws t dev bid aid tok ro = (db', Inr out)"
  shows "\<exists>a. machine_claim now (fence_fresh now db (targetDeleteFenceKeyV1 t)) jid ws t dev bid aid tok ro S
      = (fst (machine_claim now (fence_fresh now db (targetDeleteFenceKeyV1 t)) jid ws t dev bid aid tok ro S), Granted (ao_status out) a)"
proof -
  let ?m = "machine_claim now (fence_fresh now db (targetDeleteFenceKeyV1 t)) jid ws t dev bid aid tok ro S"
  have sim: "simulates (V2_CLAIM_JOB_SCRIPT now db (jobKeyV2 jid) (targetQueueKeyV1 t) (jobAttemptsKeyV1 jid)
      (attemptKeyV1 aid) (targetDeleteFenceKeyV1 t) jid ws t dev bid aid tok ro) (fst ?m) (attempt_reply_of now t (snd ?m))"
    by (rule claim_refines [OF rep inv(1) jid inv(2) refl])
  then have out: "attempt_reply (claim_error t) (attempt_reply_of now t (snd ?m)) = Inr out"
    using ok by (simp add: store_claimJob_def simulates_def case_prod_beta)
  consider code where "snd ?m = Refused code" "code \<noteq> []" | "snd ?m = FencedOut" | st a where "snd ?m = Granted st a"
    using machine_claim_out [OF inv(1) refl, of "fence_fresh now db (targetDeleteFenceKeyV1 t)" jid ws t dev bid aid tok ro] by metis
  then show ?thesis
  proof cases
    case (3 st a)
    have "ao_status out = st"
      using out 3 by (auto simp: attempt_reply_def attempt_reply_of_def encoded_simp put_opt_def server_time_def parsed_reply_def
          fmmap_fmupd js_truthy_def string_of_def ebind_eq_Inr)
    then show ?thesis using 3 by (metis prod.collapse)
  qed (use out in \<open>simp_all add: attempt_reply_def attempt_reply_of_def\<close>)
qed

lemma claimed_machine:
  assumes "machine_claim now fenced jid ws t dev bid aid tok ro S = (S', Granted st a)" "st = ''claimed''"
  shows "\<not> fenced" "\<exists>j. q_jobs S jid = Some j \<and> j_status j = JS_queued \<and> now < j_claim_deadline_ms j \<and> j_workspace_id j = ws
    \<and> j_target_id j = t \<and> a = new_attempt now j dev bid aid tok
    \<and> q_jobs S' jid = Some (j\<lparr>j_status := JS_active, j_latest_attempt_id := Some aid\<rparr>) \<and> q_attempts S' aid = Some a"
  using assms by (auto simp: machine_claim_def Let_def split: if_splits option.splits)

lemma regranted_machine:
  assumes "machine_claim now fenced jid ws t dev bid aid tok ro S = (S', Granted st a)" "q_jobs S jid = Some j" "j_status j \<noteq> JS_queued"
  shows "S' = S \<and> st = ''replayed'' \<and> j_latest_attempt_id j = Some aid \<and> q_attempts S aid = Some a
    \<and> a_device_id a = dev \<and> a_claim_token_sha256 a = tok"
  using assms by (auto simp: machine_claim_def Let_def split: if_splits option.splits)

text \<open>
  C3. A claim is exclusive. Once a claim of a job has succeeded, every later claim of the same job that
  succeeds, whatever happened in between, is a replay by the same device with the same attempt id and
  token, and changes nothing that the store represents.
\<close>

theorem claim_is_exclusive:
  assumes reach: "job_step\<^sup>*\<^sup>* (0, \<lambda>_. None) (now1, db1)" and jid: "colon_free jid"
    and args: "ATTEMPT_ID_V2_RE aid" "DEVICE_ID_V2_RE dev" "TARGET_BINDING_ID_V2_RE bid" "HEX_64_RE tok"
    and first: "store_claimJob now1 db1 jid ws t dev bid aid tok ro = (db1', Inr o1)" "ao_status o1 = ''claimed''"
    and run: "job_step\<^sup>*\<^sup>* (now1, db1') (now2, db2)"
    and again: "store_claimJob now2 db2 jid ws' t' dev' bid' aid' tok' ro' = (db2', Inr o2)"
  shows "aid' = aid \<and> dev' = dev \<and> tok' = tok \<and> ao_status o2 = ''replayed''"
proof -
  obtain S where S: "represents db1 S" "machine_inv now1 S" "short now1" "0 \<le> now1" by (rule reachable_repr [OF reach])
  let ?m = "machine_claim now1 (fence_fresh now1 db1 (targetDeleteFenceKeyV1 t)) jid ws t dev bid aid tok ro S"
  obtain a where m: "?m = (fst ?m, Granted ''claimed'' a)"
    using claim_success_machine [OF S jid first(1)] first(2) by auto
  obtain j where j: "q_jobs (fst ?m) jid = Some (j\<lparr>j_status := JS_active, j_latest_attempt_id := Some aid\<rparr>)"
    "q_attempts (fst ?m) aid = Some a" "a = new_attempt now1 j dev bid aid tok"
    using claimed_machine(2) [OF m refl] by blast
  have r1: "represents db1' (fst ?m)"
    using claim_refines [OF S(1,2) jid S(3) refl] first(1) by (simp add: simulates_def claim_db [symmetric]) (metis fst_conv)
  have step1: "job_step (now1, db1) (now1, db1')" using claim [OF jid args, of now1 db1 ws t ro] first(1) by simp
  have reach1: "job_step\<^sup>*\<^sup>* (0, \<lambda>_. None) (now1, db1')" using reach step1 by (rule rtranclp.rtrancl_into_rtrancl)
  have kept: "history_kept (now1, db1') (now2, db2)" by (rule jobs.le_star [OF run reachable_ok [OF reach1]])
  have reach2: "job_step\<^sup>*\<^sup>* (0, \<lambda>_. None) (now2, db2)" using reach1 run by (rule rtranclp_trans)
  obtain T where T: "represents db2 T" "machine_inv now2 T" "short now2" "0 \<le> now2" by (rule reachable_repr [OF reach2])
  obtain j2 where j2: "q_jobs T jid = Some j2" "evolves_job (j\<lparr>j_status := JS_active, j_latest_attempt_id := Some aid\<rparr>) j2"
    using kept_records(1) [OF kept r1 T(1,2) jid j(1)] by blast
  obtain a2 where a2: "q_attempts T aid = Some a2" "evolves_attempt a a2"
    using kept_records(2) [OF kept r1 T(1,2) j(2)] by blast
  have st: "j_status j2 \<noteq> JS_queued" "j_latest_attempt_id j2 = Some aid" using j2(2) by (auto simp: evolves_job_def)
  let ?n = "machine_claim now2 (fence_fresh now2 db2 (targetDeleteFenceKeyV1 t')) jid ws' t' dev' bid' aid' tok' ro' T"
  obtain b where n: "?n = (fst ?n, Granted (ao_status o2) b)" using claim_success_machine [OF T jid again] by blast
  note g = regranted_machine [OF n j2(1) st(1)]
  have "aid' = aid" using g st(2) by simp
  moreover have "b = a2" using g a2(1) calculation by simp
  moreover have "a_device_id a2 = dev \<and> a_claim_token_sha256 a2 = tok"
    using evolves_identity [OF a2(2)] by (simp add: j(3) new_attempt_def)
  ultimately show ?thesis using g by simp
qed

lemma sample_readable [simp]: "readable sample_S1" "readable sample_S2"
  by (auto simp: readable_def sample_attempt_exists sample_S2_def machine_claim_def Let_def)

lemma sample_claimed:
  "store_claimJob 2000 sample_db1 sample_job_id ''ws-1'' sample_target sample_device sample_binding sample_uuid sample_sha False
     = (sample_db2, Inr \<lparr>ao_status = ''claimed'', ao_attempt = sample_attempt, ao_server_time_ms = 2000\<rparr>)"
proof -
  have inv: "machine_inv 2000 sample_S1" by (rule machine_inv_mono [OF sample_run1(2)]) simp
  have m: "snd (machine_claim 2000 False sample_job_id ''ws-1'' sample_target sample_device sample_binding sample_uuid sample_sha False sample_S1)
      = Granted ''claimed'' sample_attempt"
    by (simp add: machine_claim_def sample_attempt_exists Let_def new_attempt_def)
  show ?thesis
    using store_claim_refines [OF sample_run1(1) inv sample_readable(1) sample_colon_free sample_times(2) _ sample_ids(3,5,6,7) refl,
        where t = sample_target and ws = "''ws-1''" and ro = False] m
    by (simp add: attempt_result_def sample_db2_def prod_eq_iff)
qed

lemma sample_replayed:
  "\<exists>db out. store_claimJob 2000 sample_db2 sample_job_id ''ws-1'' sample_target sample_device sample_binding sample_uuid sample_sha False = (db, Inr out)"
proof -
  have m: "snd (machine_claim 2000 False sample_job_id ''ws-1'' sample_target sample_device sample_binding sample_uuid sample_sha False sample_S2)
      = Granted ''replayed'' sample_attempt"
    by (simp add: machine_claim_def sample_state2 Let_def) (simp add: new_attempt_def)
  show ?thesis
    using store_claim_refines [OF sample_run2 sample_readable(2) sample_colon_free sample_times(2) _ sample_ids(3,5,6,7) refl,
        where t = sample_target and ws = "''ws-1''" and ro = False] m
    by (cases "store_claimJob 2000 sample_db2 sample_job_id ''ws-1'' sample_target sample_device sample_binding sample_uuid sample_sha False")
      (simp add: attempt_result_def)
qed

theorem claim_is_exclusive_witness:
  "\<exists>db out. store_claimJob 2000 sample_db2 sample_job_id ''ws-1'' sample_target sample_device sample_binding sample_uuid sample_sha False = (db, Inr out)
     \<and> ao_status out = ''replayed''"
proof -
  obtain db out where o: "store_claimJob 2000 sample_db2 sample_job_id ''ws-1'' sample_target sample_device sample_binding sample_uuid sample_sha False = (db, Inr out)"
    using sample_replayed by blast
  have reach: "job_step\<^sup>*\<^sup>* (0, \<lambda>_. None) (2000, sample_db1)"
    using sample_reach1 by (rule rtranclp.rtrancl_into_rtrancl) (rule tick, simp_all)
  have "ao_status out = ''replayed''"
    using claim_is_exclusive [OF reach sample_colon_free sample_ids(3,5,6,7) sample_claimed _ rtranclp.rtrancl_refl o] by simp
  with o show ?thesis by blast
qed

section \<open>The outcome of each operation\<close>

text \<open>
  C4. Claiming implements the abstract claim. On a key space that represents a state of the abstract queue
  whose attempts are readable, \<^verbatim>\<open>claimJob\<close> ends in a key space for the abstract successor and
  returns exactly the abstract outcome: the granted attempt, the fence refusal, or the mapped error.
\<close>

theorem claimJob_implements_machine:
  assumes "represents db S" "machine_inv now S" "readable S" "colon_free jid" "short now" "0 \<le> now"
    and "ATTEMPT_ID_V2_RE aid" "DEVICE_ID_V2_RE dev" "TARGET_BINDING_ID_V2_RE bid" "HEX_64_RE tok"
  shows "let m = machine_claim now (fence_fresh now db (targetDeleteFenceKeyV1 t)) jid ws t dev bid aid tok ro S;
             r = store_claimJob now db jid ws t dev bid aid tok ro
         in represents (fst r) (fst m) \<and> machine_inv now (fst m) \<and> snd r = attempt_result (claim_error t) now t (snd m)"
  using store_claim_refines [OF assms refl, where t = t and ws = ws and ro = ro] machine_claim_inv [OF assms(2,5-10)] by (simp add: Let_def)

theorem claimJob_implements_machine_witness:
  "let m = machine_claim 2000 (fence_fresh 2000 sample_db1 (targetDeleteFenceKeyV1 sample_target)) sample_job_id ''ws-1'' sample_target
             sample_device sample_binding sample_uuid sample_sha False sample_S1;
       r = store_claimJob 2000 sample_db1 sample_job_id ''ws-1'' sample_target sample_device sample_binding sample_uuid sample_sha False
   in represents (fst r) (fst m) \<and> machine_inv 2000 (fst m) \<and> snd r = attempt_result (claim_error sample_target) 2000 sample_target (snd m)"
  by (rule claimJob_implements_machine [OF sample_run1(1) machine_inv_mono [OF sample_run1(2)] sample_readable(1) sample_colon_free
        sample_times(2) _ sample_ids(3,5,6,7)]) simp_all

text \<open>
  C5. Submitting implements the abstract submission: a new job is stored as queued with the entry id of its
  stream row, put in its target's queue and entered under its request; a known request changes nothing
  and resolves to the existing job; a fresh delete fence and a job id collision change nothing.
\<close>

theorem createJob_implements_machine:
  assumes "represents db S" "machine_inv now S" "submission_ok job"
  shows "let m = machine_create now (fence_fresh now db (targetDeleteFenceKeyV1 (j_target_id job))) job (j_request_id job) S;
             r = createJob now db job (j_request_id job)
         in represents (fst r) (fst m) \<and> machine_inv now (fst m)
            \<and> snd r = create_result now (fst r) job (j_request_id job) (snd m)"
  using store_create_refines [OF assms(1,3) refl, of now "j_request_id job"] machine_create_inv [OF assms(2,3) refl]
  by (simp add: Let_def)

theorem createJob_implements_machine_witness:
  "let m = machine_create 1000 (fence_fresh 1000 (\<lambda>_. None) (targetDeleteFenceKeyV1 (j_target_id sample_job))) sample_job (j_request_id sample_job) empty_state;
       r = createJob 1000 (\<lambda>_. None) sample_job (j_request_id sample_job)
   in represents (fst r) (fst m) \<and> machine_inv 1000 (fst m)
      \<and> snd r = create_result 1000 (fst r) sample_job (j_request_id sample_job) (snd m)"
  by (rule createJob_implements_machine [OF represents_empty machine_inv_empty sample_job_facts(2)])

text \<open>
  Starting implements the abstract start: the owner of the current claim moves the attempt to running
  with the Redis time; a repeated start is a replay; everybody else is refused without a write.
\<close>

theorem startJob_implements_machine:
  assumes "represents db S" "machine_inv now S" "readable S" "colon_free jid" "short now" "0 \<le> now"
  shows "let m = machine_start now jid aid dev tok S; r = store_startJob now db jid aid dev tok
         in represents (fst r) (fst m) \<and> machine_inv now (fst m) \<and> snd r = attempt_result start_error now [] (snd m)"
  using store_start_refines [OF assms refl, of aid dev tok] machine_start_inv [OF assms(2,5,6)] by (simp add: Let_def)

theorem startJob_implements_machine_witness:
  "let m = machine_start 2000 sample_job_id sample_uuid sample_device sample_sha sample_S2;
       r = store_startJob 2000 sample_db2 sample_job_id sample_uuid sample_device sample_sha
   in represents (fst r) (fst m) \<and> machine_inv 2000 (fst m) \<and> snd r = attempt_result start_error 2000 [] (snd m)"
  by (rule startJob_implements_machine [OF sample_run2 sample_readable(2) sample_colon_free sample_times(2)]) simp

text \<open>
  Reporting implements the abstract report: the first valid report of the claim owner closes the attempt
  and the job together; an identical report is a replay, a different one a conflict; a dispatched report
  needs a running attempt.
\<close>

theorem reportJob_implements_machine:
  assumes "represents db S" "machine_inv now S" "colon_free jid" "short now" "0 \<le> now"
    and "report_ok r" "short (r_finished_at_ms r)" "short (r_duration_ms r)"
  shows "let m = machine_report now jid aid dev tok r S; q = store_reportJob now db jid aid dev tok r
         in represents (fst q) (fst m) \<and> machine_inv now (fst m) \<and> snd q = report_result now (snd m)"
  using store_report_refines [OF assms refl, of aid dev tok] machine_report_inv [OF assms(2,4-8)] by (simp add: Let_def)

theorem reportJob_implements_machine_witness:
  "let m = machine_report 2500 sample_job_id sample_uuid sample_device sample_sha sample_report sample_S3;
       q = store_reportJob 2500 sample_db3 sample_job_id sample_uuid sample_device sample_sha sample_report
   in represents (fst q) (fst m) \<and> machine_inv 2500 (fst m) \<and> snd q = report_result 2500 (snd m)"
  by (rule reportJob_implements_machine [OF sample_run3 sample_colon_free sample_times(3) _ sample_report_ok(1)]) simp_all

text \<open>
  Recording a managed result implements the abstract operation: the claim owner stores the result on the
  attempt, the same payload and resource replay the stored one, and a different payload needs an explicit
  redelivery.
\<close>

theorem recordJobResult_implements_machine:
  assumes "represents db S" "machine_inv now S" "colon_free jid" "short now" "0 \<le> now" "result_ok res"
  shows "let m = machine_record now jid (res_attempt_id res) dev tok res (mode = Some ''explicit_redelivery'') S;
             q = recordJobResult now db jid (res_attempt_id res) dev tok res mode
         in represents (fst q) (fst m) \<and> machine_inv now (fst m) \<and> snd q = record_result now (snd m)"
  using store_record_refines [OF assms(1-5) refl, of "res_attempt_id res" dev tok res mode]
    machine_record_inv [OF assms(2,4-6) refl, of jid dev tok] by (simp add: Let_def)

theorem recordJobResult_implements_machine_witness:
  "let m = machine_record 2500 sample_job_id (res_attempt_id sample_result) sample_device sample_sha sample_result (None = Some ''explicit_redelivery'') sample_S3;
       q = recordJobResult 2500 sample_db3 sample_job_id (res_attempt_id sample_result) sample_device sample_sha sample_result None
   in represents (fst q) (fst m) \<and> machine_inv 2500 (fst m) \<and> snd q = record_result 2500 (snd m)"
  by (rule recordJobResult_implements_machine [OF sample_run3 sample_colon_free sample_times(3) _ sample_report_ok(2)]) simp

text \<open>
  Cancelling implements the abstract cancel: a queued job is closed and leaves its queue, an active one is
  closed together with its attempt by a synthetic CANCELLED report, and a terminal job is left as it is.
\<close>

theorem cancelJob_implements_machine:
  assumes "represents db S" "machine_inv now S" "colon_free jid" "short now" "0 \<le> now" "HEX_64_RE receipt" "expected \<noteq> Some []"
    and "DEVICE_ID_V2_RE dev" "cancel_reason_ok reason" "\<And>j. q_jobs S jid = Some j \<Longrightarrow> j_target_id j = t"
  shows "let m = machine_cancel now jid expected dev reason receipt S; q = store_cancelJob now db jid expected t dev reason receipt
         in represents (fst q) (fst m) \<and> machine_inv now (fst m) \<and> snd q = cancel_result now (snd m)"
  using store_cancel_refines [OF assms(1-7,10) refl, of dev reason] machine_cancel_inv [OF assms(2,4,5,8,9,6), of jid expected]
  by (simp add: Let_def)

theorem cancelJob_implements_machine_witness:
  "let m = machine_cancel 2500 sample_job_id (Some sample_uuid) sample_device ''stop'' sample_sha sample_S3;
       q = store_cancelJob 2500 sample_db3 sample_job_id (Some sample_uuid) sample_target sample_device ''stop'' sample_sha
   in represents (fst q) (fst m) \<and> machine_inv 2500 (fst m) \<and> snd q = cancel_result 2500 (snd m)"
  by (rule cancelJob_implements_machine [OF sample_run3 sample_colon_free sample_times(3) _ sample_ids(7) _ sample_ids(5)])
    (simp_all add: sample_state3 sample_state2 sample_uuid_def)

end
