(* ===== verification/Job_Guarantees.thy ===== *)
theory Job_Guarantees
  imports Job_Properties
begin

text \<open>
  Guarantees that span several operations of the job store: idempotent submission, reports that arrive
  after a cancellation, and the places where the store does less than its comments say.
\<close>

section \<open>Idempotent submission\<close>

text \<open>A request that is already entered runs no write, and is resolved against the stored job.\<close>

lemma create_existing:
  assumes rep: "represents db S" "machine_inv now S" and job: "submission_ok job"
    and req: "q_requests S (requestKeyV2 (j_user_id job) (j_workspace_id job) (j_request_id job)) = Some jid"
    and j: "q_jobs S jid = Some j" "colon_free jid" "j_user_id j = j_user_id job" "j_workspace_id j = j_workspace_id job"
      "j_request_id j = j_request_id job"
  shows "createJob now' db job (j_request_id job) = (db, if j_request_digest j = j_request_digest job
    then Inr \<lparr>cr_status = ''replayed'', cr_job_id = jid, cr_stream_entry_id = j_stream_entry_id j\<rparr>
    else Inl V2IdempotencyConflictError)"
proof -
  let ?rk = "requestKeyV2 (j_user_id job) (j_workspace_id job) (j_request_id job)"
  have ji: "job_inv S jid j" by (rule machine_inv_jobD [OF rep(2) j(1)])
  have k: "db ?rk = Some (RStr (Text jid), None)" using representsD(3) [OF rep(1)] req by simp
  have same: "fst (createJob now' db job (j_request_id job)) = db"
    using k job by (simp add: createJob_def serialize_job_ok submission_ok_def V2_CREATE_JOB_SCRIPT_def badtype_def redis_TYPE_def
        call_GET_def live_def)
  have m: "machine_create now' (fence_fresh now' db (targetDeleteFenceKeyV1 (j_target_id job))) job (j_request_id job) S = (S, CreateExisting jid)"
    using req by (simp add: machine_create_def Let_def)
  have "parseJobRecordV2 (Json (JObj (job_obj j))) = Inr j"
    using ji parse_job_obj_iff [of j j] by (simp add: parseJobRecordV2_def parse_job_json_def job_inv_def)
  moreover have "store_get now' db (jobKeyV2 jid) = Inr (Some (Json (JObj (job_obj j))))"
    using representsD(1) [OF rep(1) j(2)] j(1) by (simp add: store_get_def redis_get_def live_def job_value_def)
  ultimately have "resolve_existing now' db job (j_request_id job) jid = (if j_request_digest j = j_request_digest job
    then Inr \<lparr>cr_status = ''replayed'', cr_job_id = jid, cr_stream_entry_id = j_stream_entry_id j\<rparr>
    else Inl V2IdempotencyConflictError)"
    using ji j by (simp add: resolve_existing_def falsy_raw_def job_inv_def)
  then show ?thesis
    using store_create_refines [OF rep(1) job refl, of now' "j_request_id job"] same
    by (simp add: m create_result_def prod_eq_iff)
qed

lemma created_machine:
  assumes "machine_create now fenced job rid S = (S', Created e)"
  shows "q_requests S' (requestKeyV2 (j_user_id job) (j_workspace_id job) rid) = Some (j_job_id job)
    \<and> q_jobs S' (j_job_id job) = Some (job\<lparr>j_status := JS_queued, j_stream_entry_id := Some e, j_latest_attempt_id := None\<rparr>)"
  using assms by (auto simp: machine_create_def Let_def split: option.splits if_splits)

lemma resolve_existing_status: "resolve_existing now db job rid x = Inr out \<Longrightarrow> cr_status out = ''replayed''"
  by (cases "store_get now db (jobKeyV2 x)")
    (auto simp: resolve_existing_def ebind_eq_Inr Let_def split: option.splits if_splits sum.splits)

lemma create_success_machine:
  assumes "represents db S" "submission_ok job" "createJob now db job rid = (db', Inr out)" "cr_status out = ''created''"
    and m: "m = machine_create now (fence_fresh now db (targetDeleteFenceKeyV1 (j_target_id job))) job rid S"
  shows "\<exists>e. snd m = Created e \<and> represents db' (fst m)
    \<and> out = \<lparr>cr_status = ''created'', cr_job_id = j_job_id job, cr_stream_entry_id = Some e\<rparr>"
proof -
  have r: "represents db' (fst m)" "Inr out = create_result now db' job rid (snd m)"
    using store_create_refines [OF assms(1,2) m] assms(3) by simp_all
  then show ?thesis
    using assms(4) resolve_existing_status [of now db' job rid] by (cases "snd m") (auto simp: create_result_def)
qed

text \<open>
  C6. Submission is idempotent. Once a request of a user in a workspace has created a job, submitting the
  same request again, at any later time and after any interleaving, writes nothing: with the same content
  digest it returns the job created first, with another digest it is refused as a conflict.
\<close>

theorem submission_is_idempotent:
  assumes reach: "job_step\<^sup>*\<^sup>* (0, \<lambda>_. None) (now1, db1)" and job: "submission_ok job" "submission_ok job'"
    and first: "createJob now1 db1 job (j_request_id job) = (db1', Inr out)" "cr_status out = ''created''"
    and run: "job_step\<^sup>*\<^sup>* (now1, db1') (now2, db2)"
    and again: "j_user_id job' = j_user_id job" "j_workspace_id job' = j_workspace_id job" "j_request_id job' = j_request_id job"
  shows "createJob now2 db2 job' (j_request_id job') = (db2, if j_request_digest job = j_request_digest job'
    then Inr (out\<lparr>cr_status := ''replayed''\<rparr>) else Inl V2IdempotencyConflictError)"
proof -
  obtain S where S: "represents db1 S" "machine_inv now1 S" by (rule reachable_repr [OF reach])
  let ?m = "machine_create now1 (fence_fresh now1 db1 (targetDeleteFenceKeyV1 (j_target_id job))) job (j_request_id job) S"
  obtain e where m: "snd ?m = Created e" and r1: "represents db1' (fst ?m)"
    and out: "out = \<lparr>cr_status = ''created'', cr_job_id = j_job_id job, cr_stream_entry_id = Some e\<rparr>"
    using create_success_machine [OF S(1) job(1) first refl] by blast
  have cm: "q_requests (fst ?m) (requestKeyV2 (j_user_id job) (j_workspace_id job) (j_request_id job)) = Some (j_job_id job)"
    "q_jobs (fst ?m) (j_job_id job) = Some (job\<lparr>j_status := JS_queued, j_stream_entry_id := Some e, j_latest_attempt_id := None\<rparr>)"
    using created_machine [of now1 _ job "j_request_id job" S "fst ?m" e] m by (metis prod.collapse)+
  have step1: "job_step (now1, db1) (now1, db1')" using create [OF job(1), of now1 db1] first(1) by simp
  have reach1: "job_step\<^sup>*\<^sup>* (0, \<lambda>_. None) (now1, db1')" using reach step1 by (rule rtranclp.rtrancl_into_rtrancl)
  have kept: "history_kept (now1, db1') (now2, db2)" by (rule jobs.le_star [OF run reachable_ok [OF reach1]])
  obtain T where T: "represents db2 T" "machine_inv now2 T" by (rule reachable_repr [OF rtranclp_trans [OF reach1 run]])
  have cf: "colon_free (j_job_id job)" using job(1) by (auto simp: submission_ok_def job_ok_def intro: job_id_colon_free)
  obtain j2 where j2: "q_jobs T (j_job_id job) = Some j2"
    "evolves_job (job\<lparr>j_status := JS_queued, j_stream_entry_id := Some e, j_latest_attempt_id := None\<rparr>) j2"
    using kept_records(1) [OF kept r1 T cf cm(2)] by blast
  have req: "q_requests T (requestKeyV2 (j_user_id job') (j_workspace_id job') (j_request_id job')) = Some (j_job_id job)"
    using kept_records(3) [OF kept r1 T cm(1)] again by simp
  have f: "j_user_id j2 = j_user_id job \<and> j_workspace_id j2 = j_workspace_id job \<and> j_request_id j2 = j_request_id job
      \<and> j_request_digest j2 = j_request_digest job \<and> j_stream_entry_id j2 = Some e"
    using j2(2) unfolding evolves_job_def by (cases job; cases j2; simp)
  show ?thesis
    using create_existing [OF T job(2) req j2(1) cf, of now2] f again by (simp add: out)
qed

lemma sample_created:
  "createJob 1000 (\<lambda>_. None) sample_job sample_uuid
     = (sample_db1, Inr \<lparr>cr_status = ''created'', cr_job_id = sample_job_id, cr_stream_entry_id = Some (show_entry_id (1000, 0))\<rparr>)"
  using store_create_refines [OF represents_empty sample_job_facts(2) refl, of 1000 sample_uuid]
  by (simp add: prod_eq_iff sample_db1_def machine_create_def empty_state_def Let_def create_result_def next_entry_id_def)

lemma sample_reach0: "job_step\<^sup>*\<^sup>* (0, \<lambda>_. None) (1000, \<lambda>_. None)"
  by (rule r_into_rtranclp) (rule tick; simp)

theorem submission_is_idempotent_witness:
  "createJob 2000 sample_db2 sample_job sample_uuid
     = (sample_db2, Inr \<lparr>cr_status = ''replayed'', cr_job_id = sample_job_id, cr_stream_entry_id = Some (show_entry_id (1000, 0))\<rparr>)
   \<and> createJob 2000 sample_db2 (sample_job\<lparr>j_request_digest := replicate 64 CHR ''0''\<rparr>) sample_uuid = (sample_db2, Inl V2IdempotencyConflictError)"
proof -
  have hex: "HEX_64_RE (replicate 64 CHR ''0'')" "sample_sha \<noteq> replicate 64 CHR ''0''" by code_simp+
  have ok: "submission_ok (sample_job\<lparr>j_request_digest := replicate 64 CHR ''0''\<rparr>)"
    using sample_job_facts hex(1) by (simp add: submission_ok_def job_ok_def job_short_def)
  show ?thesis
    using submission_is_idempotent [OF sample_reach0 sample_job_facts(2) sample_job_facts(2) _ _ sample_reach2]
      submission_is_idempotent [OF sample_reach0 sample_job_facts(2) ok _ _ sample_reach2] hex(2)
    by (simp add: sample_created) (simp add: sample_job_def)
qed

section \<open>Reports after a cancellation\<close>

lemma cancelled_machine:
  assumes "machine_cancel now jid expected dev reason receipt S = (S', CancelDone ''cancelled'' res es bo (Some aid))"
  shows "\<exists>j a. q_jobs S' jid = Some j \<and> j_status j = JS_terminal \<and> j_latest_attempt_id j = Some aid
    \<and> q_attempts S' aid = Some a \<and> (\<exists>b. a_report a = Some (operator_report now b receipt))"
  using assms by (auto simp: machine_cancel_def Let_def split: option.splits if_splits)

lemma cancel_success_machine:
  assumes "represents db S" "machine_inv now S" "colon_free jid" "short now" "0 \<le> now" "HEX_64_RE receipt" "expected \<noteq> Some []"
    and "\<And>j. q_jobs S jid = Some j \<Longrightarrow> j_target_id j = t"
    and "store_cancelJob now db jid expected t dev reason receipt = (db', Inr out)"
    and m: "m = machine_cancel now jid expected dev reason receipt S"
  shows "represents db' (fst m) \<and> (\<exists>res es bo. snd m = CancelDone (co_status out) res es bo (co_attempt_id out))"
  using store_cancel_refines [OF assms(1-8) m] assms(9) by (cases "snd m") (auto simp: cancel_result_def)

text \<open>
  A cancellation wins over a late report. Once an active job has been cancelled, a report of a runner for
  its attempt is refused as a conflict, whatever happened in between, and the job stays cancelled.
\<close>

theorem cancel_wins_over_late_report:
  assumes reach: "job_step\<^sup>*\<^sup>* (0, \<lambda>_. None) (now1, db1)" and jid: "colon_free jid"
    and args: "HEX_64_RE receipt" "DEVICE_ID_V2_RE dev" "cancel_reason_ok reason" "expected \<noteq> Some []"
    and target: "\<And>j. getJob now1 db1 jid = Inr (Some j) \<Longrightarrow> j_target_id j = t"
    and cancel: "store_cancelJob now1 db1 jid expected t dev reason receipt = (db1', Inr out)"
      "co_status out = ''cancelled''" "co_attempt_id out = Some aid"
    and run: "job_step\<^sup>*\<^sup>* (now1, db1') (now2, db2)"
    and late: "report_ok r" "short (r_finished_at_ms r)" "short (r_duration_ms r)" "ex_type (r_executor r) \<noteq> ''operator''"
    and owner: "getAttempt now2 db2 aid = Inr (Some a)" "a_device_id a = dev'" "a_claim_token_sha256 a = tok"
  shows "snd (store_reportJob now2 db2 jid aid dev' tok r) = Inl (V2ReportConflictError ''REPORT_CONFLICT'')
    \<and> (\<exists>rep. a_report a = Some rep \<and> r_execution_status rep = ES_CANCELLED)"
proof -
  obtain S where S: "represents db1 S" "machine_inv now1 S" "short now1" "0 \<le> now1" by (rule reachable_repr [OF reach])
  let ?m = "machine_cancel now1 jid expected dev reason receipt S"
  have t: "q_jobs S jid = Some j \<Longrightarrow> j_target_id j = t" for j using target getJob_repr [OF S(1,2) jid] by simp
  obtain res es bo where m: "represents db1' (fst ?m)" "snd ?m = CancelDone ''cancelled'' res es bo (Some aid)"
    using cancel_success_machine [OF S(1,2) jid S(3,4) args(1,4) t cancel(1) refl] cancel(2,3) by auto
  obtain j b c where j: "q_jobs (fst ?m) jid = Some j" "j_status j = JS_terminal" "j_latest_attempt_id j = Some aid"
    "q_attempts (fst ?m) aid = Some b" "a_report b = Some (operator_report now1 c receipt)"
    using cancelled_machine [of now1 jid expected dev reason receipt S "fst ?m" res es bo aid] m(2) by (metis prod.collapse)
  have step1: "job_step (now1, db1) (now1, db1')"
    using job_step.cancel [OF jid args(2,3,1,4), of now1 db1 t] target cancel(1) by (metis fst_conv)
  have reach1: "job_step\<^sup>*\<^sup>* (0, \<lambda>_. None) (now1, db1')" using reach step1 by (rule rtranclp.rtrancl_into_rtrancl)
  have kept: "history_kept (now1, db1') (now2, db2)" by (rule jobs.le_star [OF run reachable_ok [OF reach1]])
  obtain T where T: "represents db2 T" "machine_inv now2 T" "short now2" "0 \<le> now2"
    by (rule reachable_repr [OF rtranclp_trans [OF reach1 run]])
  obtain j2 where j2: "q_jobs T jid = Some j2" "evolves_job j j2" using kept_records(1) [OF kept m(1) T(1,2) jid j(1)] by blast
  obtain a2 where a2: "q_attempts T aid = Some a2" "evolves_attempt b a2" using kept_records(2) [OF kept m(1) T(1,2) j(4)] by blast
  have lt: "j_latest_attempt_id j2 = Some aid" using j2(2) j(2,3) by (simp add: evolves_job_def)
  have rp: "a_report a2 = Some (operator_report now1 c receipt)" using a2(2) j(5) by (simp add: evolves_attempt_def)
  have "a = a2"
    using owner(1) a2(1) getAttempt_repr [OF T(1) a2(1), of now2] by (auto simp: ebind_eq_Inr emap_err_def parse_attempt_obj_iff split: sum.splits)
  moreover have "exec_report.truncate (operator_report now1 c receipt) \<noteq> r"
    using late(4) by (auto simp: exec_report.truncate_def operator_report_def)
  ultimately have "snd (machine_report now2 jid aid dev' tok r T) = ReportRefused ''REPORT_CONFLICT''"
    using owner by (simp add: machine_report_def j2(1) a2(1) lt rp)
  then show ?thesis
    using store_report_refines [OF T(1,2) jid T(3,4) late(1-3) refl, of aid dev' tok] \<open>a = a2\<close> rp
    by (simp add: report_result_def report_error_of_def operator_report_def)
qed

text \<open>The sample job, cancelled while it runs.\<close>

definition sample_db5 :: redis where
  "sample_db5 = fst (store_cancelJob 2500 sample_db3 sample_job_id (Some sample_uuid) sample_target sample_device ''stop'' sample_sha)"

definition sample_S5 :: queue_state where
  "sample_S5 = fst (machine_cancel 2500 sample_job_id (Some sample_uuid) sample_device ''stop'' sample_sha sample_S3)"

lemma sample_run5:
  "represents sample_db5 sample_S5" "machine_inv 2500 sample_S5"
  "store_cancelJob 2500 sample_db3 sample_job_id (Some sample_uuid) sample_target sample_device ''stop'' sample_sha
     = (sample_db5, Inr \<lparr>co_status = ''cancelled'', co_result = ''cancelled'', co_execution_status = ''CANCELLED'',
          co_business_outcome = ''UNVERIFIED'', co_attempt_id = Some sample_uuid, co_server_time_ms = 2500\<rparr>)"
proof -
  have t: "q_jobs sample_S3 sample_job_id = Some j \<Longrightarrow> j_target_id j = sample_target" for j
    by (auto simp: sample_state3 sample_state2)
  note r = store_cancel_refines [OF sample_run3 sample_colon_free sample_times(3) _ sample_ids(7) _ t refl, of "Some sample_uuid" sample_device "''stop''"]
  show "represents sample_db5 sample_S5" using r by (simp add: sample_db5_def sample_S5_def sample_uuid_def)
  show "machine_inv 2500 sample_S5"
    unfolding sample_S5_def by (rule machine_cancel_inv [OF sample_run3(2)]) simp_all
  show "store_cancelJob 2500 sample_db3 sample_job_id (Some sample_uuid) sample_target sample_device ''stop'' sample_sha
     = (sample_db5, Inr \<lparr>co_status = ''cancelled'', co_result = ''cancelled'', co_execution_status = ''CANCELLED'',
          co_business_outcome = ''UNVERIFIED'', co_attempt_id = Some sample_uuid, co_server_time_ms = 2500\<rparr>)"
    using r by (simp add: prod_eq_iff sample_db5_def machine_cancel_def sample_state3 sample_state2 cancel_result_def)
      (simp add: sample_uuid_def)
qed

lemma sample_state5:
  "q_attempts sample_S5 sample_uuid = Some (sample_attempt\<lparr>a_phase := AP_terminal, a_started_at_ms := Some 2500,
      a_report := Some (operator_report 2500 (sample_attempt\<lparr>a_phase := AP_running, a_started_at_ms := Some 2500\<rparr>) sample_sha)\<rparr>)"
  by (simp add: sample_S5_def machine_cancel_def sample_state3 sample_state2)

lemma sample_reach123: "job_step\<^sup>*\<^sup>* (0, \<lambda>_. None) (2500, sample_db3)"
  by (rule rtranclp_trans [OF rtranclp_trans [OF sample_reach1 sample_reach2] sample_reach3])

theorem cancel_wins_over_late_report_witness:
  "snd (store_reportJob 2500 sample_db5 sample_job_id sample_uuid sample_device sample_sha sample_report)
     = Inl (V2ReportConflictError ''REPORT_CONFLICT'')"
proof -
  have t: "getJob 2500 sample_db3 sample_job_id = Inr (Some j) \<Longrightarrow> j_target_id j = sample_target" for j
    using getJob_repr [OF sample_run3 sample_colon_free] by (auto simp: sample_state3 sample_state2)
  have a: "getAttempt 2500 sample_db5 sample_uuid = Inr (q_attempts sample_S5 sample_uuid)"
    using getAttempt_readable [OF sample_run5(1,2) sample_state5] by (simp add: sample_state5 result_allowed_def new_attempt_def)
  show ?thesis
    using cancel_wins_over_late_report [OF sample_reach123 sample_colon_free sample_ids(7,5) sample_texts(5) _ t sample_run5(3)
        _ _ rtranclp.rtrancl_refl sample_report_ok(1) _ _ _ a [unfolded sample_state5]]
    by (simp add: sample_uuid_def [symmetric]) (simp add: sample_report_def new_attempt_def sample_uuid_def)
qed

section \<open>Where the store does less than intended\<close>

lemma reachable_attempt:
  assumes "represents db S" "machine_inv now S" "getAttempt now' db aid = Inr (Some a)"
  shows "q_attempts S aid = Some a"
proof (cases "q_attempts S aid")
  case None
  then show ?thesis using getAttempt_none [OF assms(1)] assms(3) by simp
next
  case (Some b)
  then show ?thesis
    using assms(3) getAttempt_repr [OF assms(1) Some, of now'] by (auto simp: ebind_eq_Inr emap_err_def parse_attempt_obj_iff split: sum.splits)
qed

text \<open>
  The result script does not look at the phase of the attempt: the owner of a claim can deliver a managed
  result before the attempt has started, the store confirms it, and from then on the attempt record is
  rejected by its own parser, so every read of it fails.
\<close>

theorem early_result_makes_attempt_unreadable:
  assumes reach: "job_step\<^sup>*\<^sup>* (0, \<lambda>_. None) (now, db)" and a: "getAttempt now db (res_attempt_id res) = Inr (Some a)"
    and "a_phase a = AP_claimed" "result_ok res"
  shows "let q = recordJobResult now db (a_job_id a) (res_attempt_id res) (a_device_id a) (a_claim_token_sha256 a) res mode
         in (\<exists>out. snd q = Inr out \<and> ro_status out = ''recorded'') \<and> (\<exists>e. getAttempt now (fst q) (res_attempt_id res) = Inl (SchemaFailure e))"
proof -
  obtain S where S: "represents db S" "machine_inv now S" "short now" "0 \<le> now" by (rule reachable_repr [OF reach])
  note qa = reachable_attempt [OF S(1,2) a]
  have ai: "attempt_inv now S (res_attempt_id res) a" by (rule machine_inv_attemptD [OF S(2) qa])
  then obtain j where j: "q_jobs S (a_job_id a) = Some j" by (auto simp: attempt_inv_def)
  have cf: "colon_free (a_job_id a)"
    using machine_inv_jobD [OF S(2) j] by (auto simp: job_inv_def job_ok_def intro: job_id_colon_free)
  have "attempt_ok a" using a getAttempt_repr [OF S(1) qa, of now]
    by (auto simp: ebind_eq_Inr emap_err_def parse_attempt_obj_iff split: sum.splits)
  then have nr: "a_result a = None \<and> a_report a = None" using assms(3) by (simp add: attempt_ok_def attempt_tail_ok_def)
  let ?m = "machine_record now (a_job_id a) (res_attempt_id res) (a_device_id a) (a_claim_token_sha256 a) res (mode = Some ''explicit_redelivery'') S"
  let ?f = "res\<lparr>res_received_at_ms := now\<rparr>"
  have m: "?m = (set_attempt (res_attempt_id res) (a\<lparr>a_result := Some ?f\<rparr>) S, Inr (''recorded'', ?f))"
    using nr by (simp add: machine_record_def j qa Let_def)
  have inv: "machine_inv now (fst ?m)" by (rule machine_record_inv [OF S(2-4) assms(4) refl])
  note q = store_record_refines [OF S(1,2) cf S(3,4) refl, of "res_attempt_id res" "a_device_id a" "a_claim_token_sha256 a" res mode]
  have "\<exists>e. getAttempt now (fst (recordJobResult now db (a_job_id a) (res_attempt_id res) (a_device_id a) (a_claim_token_sha256 a) res mode))
      (res_attempt_id res) = Inl (SchemaFailure e)"
    by (rule getAttempt_unreadable [of _ "fst ?m" now _ "a\<lparr>a_result := Some ?f\<rparr>"])
      (use q inv in \<open>simp_all add: m result_allowed_def assms(3) nr\<close>)
  then show ?thesis using q by (simp add: m record_result_def Let_def)
qed

theorem early_result_makes_attempt_unreadable_witness:
  "let q = recordJobResult 2000 sample_db2 sample_job_id sample_uuid sample_device sample_sha sample_result None
   in (\<exists>out. snd q = Inr out \<and> ro_status out = ''recorded'') \<and> (\<exists>e. getAttempt 2000 (fst q) sample_uuid = Inl (SchemaFailure e))"
proof -
  have a: "getAttempt 2000 sample_db2 (res_attempt_id sample_result) = Inr (Some sample_attempt)"
    using getAttempt_readable [OF sample_run2 sample_state2(2)] by (simp add: sample_result_def)
  show ?thesis
    using early_result_makes_attempt_unreadable [OF rtranclp_trans [OF sample_reach1 sample_reach2] a _ sample_report_ok(2), of None]
    by (simp add: new_attempt_def) (simp add: sample_result_def)
qed

text \<open>
  A cancellation that read the job while it was queued, and reaches the store after the job has been
  claimed and finished, is answered with a corrupt-record error and not with the race error that makes the
  coordinator read the job again: the linkage check comes after the check for a terminal job.
\<close>

theorem stale_cancel_reports_corruption:
  assumes reach: "job_step\<^sup>*\<^sup>* (0, \<lambda>_. None) (now1, db1)" and run: "job_step\<^sup>*\<^sup>* (now1, db1) (now2, db2)" and jid: "colon_free jid"
    and before: "getJob now1 db1 jid = Inr (Some j1)" "j_status j1 = JS_queued"
    and after: "getJob now2 db2 jid = Inr (Some j2)" "j_status j2 = JS_terminal" "j_latest_attempt_id j2 = Some aid"
    and receipt: "HEX_64_RE receipt"
  shows "snd (store_cancelJob now2 db2 jid (j_latest_attempt_id j1) (j_target_id j1) dev reason receipt)
    = Inl (V2StoreError ''CORRUPT_ATTEMPT_RECORD'')"
proof -
  obtain S where S: "represents db1 S" "machine_inv now1 S" by (rule reachable_repr [OF reach])
  obtain T where T: "represents db2 T" "machine_inv now2 T" "short now2" "0 \<le> now2"
    by (rule reachable_repr [OF rtranclp_trans [OF reach run]])
  have j1: "q_jobs S jid = Some j1" using before(1) getJob_repr [OF S jid] by simp
  have j2: "q_jobs T jid = Some j2" using after(1) getJob_repr [OF T(1,2) jid] by simp
  have none: "j_latest_attempt_id j1 = None"
    using machine_inv_jobD [OF S(2) j1] before(2) by (auto simp: job_inv_def job_ok_def job_state_ok_def)
  have "history_kept (now1, db1) (now2, db2)" by (rule jobs.le_star [OF run reachable_ok [OF reach]])
  then obtain j' where "q_jobs T jid = Some j'" "evolves_job j1 j'" using kept_records(1) [OF _ S(1) T(1,2) jid j1] by blast
  then have tgt: "j_target_id j2 = j_target_id j1" using j2 unfolding evolves_job_def by (cases j1; cases j'; simp)
  have "snd (machine_cancel now2 jid None dev reason receipt T) = CancelRefused ''CORRUPT_ATTEMPT_RECORD''"
    by (simp add: machine_cancel_def j2 after(2,3) Let_def)
  moreover have "q_jobs T jid = Some j \<Longrightarrow> j_target_id j = j_target_id j1" for j using j2 tgt by simp
  ultimately show ?thesis
    using store_cancel_refines [OF T(1,2) jid T(3,4) receipt _ _ refl, of None "j_target_id j1" dev reason]
    by (simp add: none cancel_result_def cancel_error_def)
qed

theorem stale_cancel_reports_corruption_witness:
  "snd (store_cancelJob 3000 sample_db4 sample_job_id None sample_target sample_device ''stop'' sample_sha)
    = Inl (V2StoreError ''CORRUPT_ATTEMPT_RECORD'')"
proof -
  have "job_step (2500, sample_db3) (3000, sample_db3)" by (rule tick) simp_all
  moreover have "job_step (3000, sample_db3) (3000, sample_db4)"
    using report [of sample_job_id sample_report 3000 sample_db3 sample_uuid sample_device sample_sha] by (simp add: sample_db4_def)
  ultimately have run: "job_step\<^sup>*\<^sup>* (1000, sample_db1) (3000, sample_db4)"
    using rtranclp_trans [OF sample_reach2 sample_reach3] by (meson rtranclp.rtrancl_into_rtrancl)
  have g1: "getJob 1000 sample_db1 sample_job_id = Inr (q_jobs sample_S1 sample_job_id)"
    and g4: "getJob 3000 sample_db4 sample_job_id = Inr (q_jobs sample_S4 sample_job_id)"
    by (rule getJob_repr [OF sample_run1 sample_colon_free] getJob_repr [OF sample_run4 sample_colon_free])+
  show ?thesis
    using stale_cancel_reports_corruption [OF sample_reach1 run sample_colon_free g1 [unfolded sample_attempt_exists] _
        g4 [unfolded sample_state4] _ _ sample_ids(7), of sample_uuid sample_device "''stop''"] by simp
qed

end
