(* ===== verification/Fence_Properties.thy ===== *)
theory Fence_Properties
  imports Job_Guarantees
begin

text \<open>
  The target delete fence: a key with the text \<^verbatim>\<open>started:token\<close> and a time to live. While it is
  fresh, no job is created for the target and none is claimed. The theory shows that the fence keeps the
  runners out for its whole window, that only its owner renews it, and what a release under interference does.
\<close>

section \<open>A live fence\<close>

definition fence_held :: "int \<Rightarrow> redis \<Rightarrow> target_id \<Rightarrow> int \<Rightarrow> string \<Rightarrow> bool" where
  "fence_held now db t started token \<longleftrightarrow>
     live now db (targetDeleteFenceKeyV1 t) = Some (RStr (Text (fence_text started token)))"

lemma fence_text_started: "0 \<le> started \<Longrightarrow> fence_started (fence_text started token) = of_int started"
  by (simp add: fence_started_def fence_text_sep)

lemma held_fresh:
  assumes "fence_held now db t started token" "0 \<le> started"
  shows "fence_fresh now db (targetDeleteFenceKeyV1 t) \<longleftrightarrow> now - started < 60000"
proof -
  have "fence_fresh now db (targetDeleteFenceKeyV1 t) \<longleftrightarrow> (of_int now - of_int started :: rat) < 60000"
    using assms by (simp add: fence_fresh_def call_GET_def fence_held_def fence_text_started payload_text_def)
  also have "\<dots> \<longleftrightarrow> (of_int (now - started) :: rat) < of_int 60000" by simp
  also have "\<dots> \<longleftrightarrow> now - started < 60000" by (simp only: of_int_less_iff)
  finally show ?thesis .
qed

section \<open>A fresh fence keeps runners out\<close>

lemma fresh_claim_refused:
  assumes "fence_fresh now db (targetDeleteFenceKeyV1 t)"
  shows "\<exists>e. store_claimJob now db jid ws t dev bid aid tok ro = (db, Inl e)"
  using assms by (simp add: store_claimJob_def V2_CLAIM_JOB_SCRIPT_def attempt_reply_def parsed_reply_def case_prod_beta
      fenced_reply_def encoded_simp put_opt_def fmmap_fmupd js_truthy_def)

lemma fresh_create_unchanged:
  assumes "fence_fresh now db (targetDeleteFenceKeyV1 (j_target_id job))"
  shows "fst (createJob now db job rid) = db"
  using assms by (simp add: createJob_def V2_CREATE_JOB_SCRIPT_def case_prod_beta split: sum.split option.split)

text \<open>
  On a well-typed key space a fresh delete fence refuses every claim for the target, replays included,
  and every submission of a new request, with the fence error and without a write.
\<close>

theorem fresh_fence_refuses:
  assumes "represents db S" "fence_fresh now db (targetDeleteFenceKeyV1 t)" "colon_free jid"
    and "submission_ok job" "j_target_id job = t" "getRequestJobId now db (j_user_id job) (j_workspace_id job) (j_request_id job) = Inr None"
  shows "store_claimJob now db jid ws t dev bid aid tok ro = (db, Inl (V2TargetDeleteFencedError t))
    \<and> createJob now db job (j_request_id job) = (db, Inl (V2TargetDeleteFencedError t))"
proof
  show "store_claimJob now db jid ws t dev bid aid tok ro = (db, Inl (V2TargetDeleteFencedError t))"
    using assms(2,3) by (simp add: store_claimJob_def V2_CLAIM_JOB_SCRIPT_def attempt_reply_def repr_badtype [OF assms(1)])
  have "q_requests S (requestKeyV2 (j_user_id job) (j_workspace_id job) (j_request_id job)) = None"
    using assms(6) representsD(3) [OF assms(1), of "j_user_id job" "j_workspace_id job" "j_request_id job"]
    by (cases "q_requests S (requestKeyV2 (j_user_id job) (j_workspace_id job) (j_request_id job))")
      (simp_all add: getRequestJobId_def store_get_def redis_get_def live_def)
  then have "snd (machine_create now True job (j_request_id job) S) = CreateFenced" by (simp add: machine_create_def Let_def)
  then show "createJob now db job (j_request_id job) = (db, Inl (V2TargetDeleteFencedError t))"
    using store_create_refines [OF assms(1,4) refl, of now "j_request_id job"] fresh_create_unchanged [of now db job] assms(2,5)
    by (simp add: create_result_def prod_eq_iff)
qed

text \<open>What the clients that do not hold the fence do: submit, run and prune jobs while time passes.\<close>

inductive worker_step :: "int \<times> redis \<Rightarrow> int \<times> redis \<Rightarrow> bool" where
  work_tick: "now \<le> now' \<Longrightarrow> worker_step (now, db) (now', db)"
| work_create: "worker_step (now, db) (now, fst (createJob now db job rid))"
| work_claim: "worker_step (now, db) (now, fst (store_claimJob now db jid ws t dev bid aid tok ro))"
| work_start: "worker_step (now, db) (now, fst (store_startJob now db jid aid dev tok))"
| work_report: "worker_step (now, db) (now, fst (store_reportJob now db jid aid dev tok r))"
| work_record: "worker_step (now, db) (now, fst (recordJobResult now db jid aid dev tok res mode))"
| work_cancel: "worker_step (now, db) (now, fst (store_cancelJob now db jid expected t dev reason receipt))"
| work_prune: "worker_step (now, db) (now, fst (pruneTargetQueue now db t jids))"

lemma cancelJob_frame:
  "keeps_outside {jobKeyV2 jid, attemptKeyV1 (if (case expected of None \<Rightarrow> [] | Some a \<Rightarrow> a) = [] then ''none''
     else (case expected of None \<Rightarrow> [] | Some a \<Rightarrow> a)), targetQueueKeyV1 t} db
     (fst (store_cancelJob now db jid expected t dev reason receipt))"
  by (simp add: store_cancelJob_def Let_def case_prod_beta cancel_frame)

lemma prune_frame: "keeps_outside {targetQueueKeyV1 t} db (fst (pruneTargetQueue now db t jids))"
  by (auto simp: pruneTargetQueue_def split: sum.split prod.split intro: keeps_zrem [where k = "targetQueueKeyV1 t"])

lemma worker_keeps_fence: "worker_step s s' \<Longrightarrow> snd s' (targetDeleteFenceKeyV1 t) = snd s (targetDeleteFenceKeyV1 t)"
proof (induction rule: worker_step.induct)
  case (work_record now db jid aid dev tok res mode)
  show ?case using keeps_outsideD [OF recordResult_frame] by simp
next
  case (work_cancel now db jid expected t dev reason receipt)
  show ?case using keeps_outsideD [OF cancelJob_frame] by simp
next
  case (work_prune now db t jids)
  show ?case using keeps_outsideD [OF prune_frame] by simp
qed simp_all

lemma workers_keep_fence: "worker_step\<^sup>*\<^sup>* s s' \<Longrightarrow> snd s' (targetDeleteFenceKeyV1 t) = snd s (targetDeleteFenceKeyV1 t)"
  by (induction rule: rtranclp_induct) (simp_all add: worker_keeps_fence)

lemma acquired_held:
  assumes "acquireTargetDeleteFence now d db t token = (db', True)"
  shows "db' = db(targetDeleteFenceKeyV1 t \<mapsto> (RStr (Text (fence_text d token)), Some (now + 60000)))"
  using assms by (simp add: acquireTargetDeleteFence_def redis_setNxPx_def redis_set_px_def TARGET_DELETE_FENCE_TTL_MS_def split: if_splits)


definition sample_fenced :: redis where
  "sample_fenced = fst (acquireTargetDeleteFence 2000 2000 sample_db1 sample_target ''tok'')"

lemma sample_acquired: "acquireTargetDeleteFence 2000 2000 sample_db1 sample_target ''tok'' = (sample_fenced, True)"
proof -
  have "sample_db1 (targetDeleteFenceKeyV1 sample_target) = None" by (simp add: sample_db1_def)
  then show ?thesis
    by (simp add: sample_fenced_def acquireTargetDeleteFence_def redis_setNxPx_def live_def)
qed

lemma sample_fence_held: "fence_held 2000 sample_fenced sample_target 2000 ''tok''"
  by (simp add: acquired_held [OF sample_acquired] fence_held_def live_def)

lemma represents_fence: "represents db S \<Longrightarrow> represents (db(targetDeleteFenceKeyV1 t \<mapsto> (RStr v, x))) S"
  by (simp add: represents_def)

theorem fresh_fence_refuses_witness:
  "createJob 2000 sample_fenced (sample_job\<lparr>j_request_id := ''01234567-89ab-4def-8123-456789abcdef''\<rparr>) ''01234567-89ab-4def-8123-456789abcdef''
     = (sample_fenced, Inl (V2TargetDeleteFencedError sample_target))"
proof -
  let ?r = "''01234567-89ab-4def-8123-456789abcdef''"
  have re: "REQUEST_ID_V2_RE ?r" by code_simp
  have ok: "submission_ok (sample_job\<lparr>j_request_id := ?r\<rparr>)"
    using sample_job_facts re by (simp add: submission_ok_def job_ok_def job_short_def)
  have rep: "represents sample_fenced sample_S1"
    using represents_fence [OF sample_run1(1)] by (simp add: acquired_held [OF sample_acquired])
  have ne: "requestKeyV2 ''usr-1'' ''ws-1'' ?r \<noteq> requestKeyV2 ''usr-1'' ''ws-1'' sample_uuid" by code_simp
  then have "q_requests sample_S1 (requestKeyV2 ''usr-1'' ''ws-1'' ?r) = None"
    by (simp add: sample_S1_def machine_create_def empty_state_def Let_def)
  then have none: "getRequestJobId 2000 sample_fenced ''usr-1'' ''ws-1'' ?r = Inr None"
    using representsD(3) [OF rep] by (simp add: getRequestJobId_def store_get_def redis_get_def live_def)
  have "fence_fresh 2000 sample_fenced (targetDeleteFenceKeyV1 sample_target)" using held_fresh [OF sample_fence_held] by simp
  from fresh_fence_refuses [OF rep this sample_colon_free ok _ _] none show ?thesis by simp
qed


section \<open>Renewing and releasing\<close>

lemma touch_effect:
  assumes "fence_held now db t started owner" "0 \<le> started" "short now" "0 \<le> now"
  shows "touchTargetDeleteFence now db t token = (if token = owner
      then (db(targetDeleteFenceKeyV1 t \<mapsto> (RStr (Text (fence_text now owner)), Some (now + TARGET_DELETE_FENCE_TTL_MS))), Inr True)
      else (db, Inr False))"
proof -
  have "lua_tostring now @ '':'' @ owner = fence_text now owner"
    using assms(3,4) by (simp add: fence_text_def lua_tostring_def short_def)
  then show ?thesis
    using assms(1,2) by (simp add: touchTargetDeleteFence_def V2_TOUCH_DELETE_FENCE_SCRIPT_def redis_get_def fence_held_def
        payload_text_def fence_text_sep redis_set_px_def)
qed

text \<open>
  Only the owner of a fence renews it, and renewing restarts its window: the touch of the owner writes the
  Redis time as the new start and a new time to live, so the fence is fresh again for sixty seconds; the
  touch of another token, or of a missing fence, changes nothing and says so.
\<close>

theorem touch_renews_only_for_owner:
  assumes "fence_held now db t started owner" "0 \<le> started" "short now" "0 \<le> now"
  shows "touchTargetDeleteFence now db t token = (if token = owner
      then (db(targetDeleteFenceKeyV1 t \<mapsto> (RStr (Text (fence_text now owner)), Some (now + TARGET_DELETE_FENCE_TTL_MS))), Inr True)
      else (db, Inr False))
    \<and> fence_held now (fst (touchTargetDeleteFence now db t owner)) t now owner"
  using touch_effect [OF assms, of token] touch_effect [OF assms, of owner]
  by (simp add: fence_held_def live_def TARGET_DELETE_FENCE_TTL_MS_def)

theorem touch_renews_only_for_owner_witness:
  "touchTargetDeleteFence 2000 sample_fenced sample_target ''thief'' = (sample_fenced, Inr False)
   \<and> fence_held 2000 (fst (touchTargetDeleteFence 2000 sample_fenced sample_target ''tok'')) sample_target 2000 ''tok''"
  using touch_renews_only_for_owner [OF sample_fence_held, of "''thief''"] by simp

lemma getTargetDeleteFence_held: "fence_held now db t started owner \<Longrightarrow> getTargetDeleteFence now db t = Inr (Some (fence_text started owner))"
  by (simp add: getTargetDeleteFence_def store_get_def redis_get_def fence_held_def payload_text_def)

text \<open>
  Releasing is not atomic. With no interference it deletes the fence of its owner and nothing else; but when
  another deletion takes the fence over between the read and the delete, the release of the old owner
  removes the fence of the new one.
\<close>

theorem release_drops_fence_taken_over_meanwhile:
  assumes "fence_held now db t started owner" "0 \<le> started"
  shows "releaseTargetDeleteFence id (now, db) t token
      = (if token = owner then ((now, db(targetDeleteFenceKeyV1 t := None)), Inr True) else ((now, db), Inr False))
    \<and> releaseTargetDeleteFence (\<lambda>m. (fst m, fst (takeoverStaleTargetDeleteFence (fst m) d (snd m) t other))) (now, db) t owner
      = ((now, db(targetDeleteFenceKeyV1 t := None)), Inr True)"
proof -
  have l: "live now db (targetDeleteFenceKeyV1 t) = Some (RStr (Text (fence_text started owner)))" using assms(1) by (simp add: fence_held_def)
  have "releaseTargetDeleteFence id (now, db) t token
      = (if token = owner then ((now, db(targetDeleteFenceKeyV1 t := None)), Inr True) else ((now, db), Inr False))"
    using assms(2) l by (simp add: releaseTargetDeleteFence_def getTargetDeleteFence_held [OF assms(1)] fence_text_sep redis_del_def)
  moreover have "releaseTargetDeleteFence (\<lambda>m. (fst m, fst (takeoverStaleTargetDeleteFence (fst m) d (snd m) t other))) (now, db) t owner
      = ((now, db(targetDeleteFenceKeyV1 t := None)), Inr True)"
    using assms(2) l by (simp add: releaseTargetDeleteFence_def getTargetDeleteFence_held [OF assms(1)] fence_text_sep redis_del_def
        takeoverStaleTargetDeleteFence_def redis_setXxPx_def redis_set_px_def TARGET_DELETE_FENCE_TTL_MS_def live_def)
  ultimately show ?thesis by blast
qed

theorem release_drops_fence_taken_over_meanwhile_witness:
  "releaseTargetDeleteFence (\<lambda>m. (fst m, fst (takeoverStaleTargetDeleteFence (fst m) 2000 (snd m) sample_target ''other''))) (2000, sample_fenced)
      sample_target ''tok'' = ((2000, sample_fenced(targetDeleteFenceKeyV1 sample_target := None)), Inr True)"
  using release_drops_fence_taken_over_meanwhile [OF sample_fence_held] by simp

end
