(* ===== verification/Schema_Properties.thy ===== *)
theory Schema_Properties
  imports Job_Samples
begin

text \<open>
  The persisted formats: what is written can be read back, what is read is well formed and can be written
  again, and the report contract accepts exactly the JSON forms of the reports that satisfy it.
\<close>

lemma parse_json_object:
  "parse_job_json (JObj m) = parse_job_object m" "parse_attempt_json (JObj m) = parse_attempt_object m"
  by (simp_all add: parse_job_json_def parse_attempt_json_def)

lemma json_value_cases: "parseJobRecordV2 p = Inr j \<Longrightarrow> \<exists>m. parse_job_object m = Inr j"
  by (auto simp: parseJobRecordV2_def parse_job_json_def split: option.splits json.splits payload.splits)

text \<open>
  C8. Job records round-trip: a job is written only if it is well formed, what is written parses to the same
  job, and whatever the parser accepts is a well-formed job that can be written and read back.
\<close>

theorem job_record_roundtrip:
  "(serializeJobRecordV2 j = Inr p \<longrightarrow> job_ok j \<and> parseJobRecordV2 p = Inr j)
   \<and> (parseJobRecordV2 p = Inr j \<longrightarrow> (\<exists>p'. serializeJobRecordV2 j = Inr p' \<and> parseJobRecordV2 p' = Inr j))"
proof -
  have wr: "job_ok j \<Longrightarrow> serializeJobRecordV2 j = Inr (Json (JObj (job_obj j))) \<and> parseJobRecordV2 (Json (JObj (job_obj j))) = Inr j"
    using parse_job_obj_iff [of j j] by (simp add: serialize_job_ok parseJobRecordV2_def parse_json_object)
  have "job_ok j" if "serializeJobRecordV2 j = Inr p"
    using that parse_job_obj_iff [of j] by (auto simp: serializeJobRecordV2_def ebind_eq_Inr)
  moreover have "job_ok j" if "parseJobRecordV2 p = Inr j" using json_value_cases [OF that] parse_job_object_sound by blast
  ultimately show ?thesis using wr by (metis sum.inject(2))
qed

theorem job_record_roundtrip_witness:
  "\<exists>p. serializeJobRecordV2 sample_job = Inr p \<and> parseJobRecordV2 p = Inr sample_job"
  using job_record_roundtrip [of sample_job] serialize_job_ok [OF sample_job_facts(1)] by blast

text \<open>
  Attempt records round-trip, in every phase: an attempt is written only if its identifiers, times, report
  and result fit its phase, what is written parses to the same attempt, and whatever the parser accepts can be
  written and read back.
\<close>

theorem attempt_record_roundtrip:
  "(serializeAttemptRecordV1 a = Inr p \<longrightarrow> attempt_ok a \<and> parseAttemptRecordV1 p = Inr a)
   \<and> (parseAttemptRecordV1 p = Inr a \<longrightarrow> (\<exists>p'. serializeAttemptRecordV1 a = Inr p' \<and> parseAttemptRecordV1 p' = Inr a))"
proof -
  have wr: "attempt_ok a \<Longrightarrow> serializeAttemptRecordV1 a = Inr (Json (JObj (attempt_obj a)))
      \<and> parseAttemptRecordV1 (Json (JObj (attempt_obj a))) = Inr a"
    using parse_attempt_obj_iff [of a a] by (simp add: serializeAttemptRecordV1_def parseAttemptRecordV1_def parse_json_object)
  have "attempt_ok a" if "serializeAttemptRecordV1 a = Inr p"
    using that parse_attempt_obj_iff [of a] by (auto simp: serializeAttemptRecordV1_def ebind_eq_Inr)
  moreover have "attempt_ok a" if "parseAttemptRecordV1 p = Inr a"
    using that parse_attempt_object_sound
    by (auto simp: parseAttemptRecordV1_def parse_attempt_json_def split: option.splits json.splits payload.splits)
  ultimately show ?thesis using wr by (metis sum.inject(2))
qed

theorem attempt_record_roundtrip_witness:
  "\<exists>p. serializeAttemptRecordV1 sample_attempt = Inr p \<and> parseAttemptRecordV1 p = Inr sample_attempt"
proof -
  have "attempt_ok sample_attempt"
    using machine_inv_attemptD [OF sample_run2(2) sample_state2(2)] attempt_ok_iff [of sample_attempt]
    by (simp add: attempt_inv_def)
  then have "serializeAttemptRecordV1 sample_attempt = Inr (Json (JObj (attempt_obj sample_attempt)))"
    using parse_attempt_obj_iff [of sample_attempt sample_attempt] by (simp add: serializeAttemptRecordV1_def)
  then show ?thesis using attempt_record_roundtrip [of sample_attempt] by blast
qed

text \<open>
  Stream entries round-trip: the flat field list that is appended to the job stream parses to the entry it
  was made of.
\<close>

theorem stream_entry_roundtrip:
  "serializeStreamEntryV2 e = Inr fs \<Longrightarrow> parseStreamEntryV2 fs = Inr e"
  using stream_entry_roundtrip_aux [of e fs] parse_stream_fields [of e] by simp

theorem stream_entry_roundtrip_witness:
  "\<exists>fs. serializeStreamEntryV2 \<lparr>s_job_id = sample_job_id, s_user_id = ''usr-1'', s_workspace_id = ''ws-1'',
      s_target_id = sample_target, s_created_at_ms = 1000\<rparr> = Inr fs
    \<and> parseStreamEntryV2 fs = Inr \<lparr>s_job_id = sample_job_id, s_user_id = ''usr-1'', s_workspace_id = ''ws-1'',
      s_target_id = sample_target, s_created_at_ms = 1000\<rparr>" (is "\<exists>fs. serializeStreamEntryV2 ?e = Inr fs \<and> _")
proof -
  have "serializeStreamEntryV2 ?e = Inr (stream_fields ?e)"
    by (simp add: serializeStreamEntryV2_def validateStreamEntryV2_def need_str_def need_def text_or_number_def
        STREAM_V2_SCHEMA_VERSION_def safe_nonneg_def MAX_SAFE_INTEGER_def ALLOWED_STREAM_V2_KEYS_def)
  then show ?thesis using stream_entry_roundtrip by blast
qed


end
