(* ===== verification/Control_Store.thy ===== *)
theory Control_Store
  imports Id_Patterns "HOL-Library.Char_ord" "HOL-Library.List_Lexorder" "HOL-Library.Product_Lexorder"
begin

text \<open>
  The connector control store (\<^verbatim>\<open>connector/control-store.ts\<close>): devices and their credentials,
  execution targets, device-target bindings and workspace defaults, kept in the SQLite database of
  \<^verbatim>\<open>identity/store.ts\<close>. A table is the list of its rows in insertion order, a statement is a function
  on these lists, and an operation returns either an error, in which case nothing was committed, or the
  new database with its result.

  \<^verbatim>\<open>toLowerCase\<close> needs the Unicode case table of the JavaScript runtime; it is the argument
  \<open>lc\<close> of the definitions that use it.
\<close>

section \<open>Tables\<close>

record user_row =
  u_id :: user_id
  u_disabled_at :: "int option"

record membership_row =
  m_workspace_id :: ws_id
  m_user_id :: user_id
  m_role :: string

record repo_binding_row =
  g_workspace_id :: ws_id
  g_repository_id :: string
  g_full_name :: string

record device_row =
  d_id :: device_id
  d_user_id :: user_id
  d_display_name :: string
  d_platform :: string
  d_created_at_ms :: int
  d_updated_at_ms :: int
  d_revoked_at_ms :: "int option"

record credential_row =
  k_id :: string
  k_device_id :: device_id
  k_secret_digest :: digest
  k_issued_at_ms :: int
  k_expires_at_ms :: int
  k_revoked_at_ms :: "int option"

record target_row =
  t_id :: target_id
  t_workspace_id :: ws_id
  t_alias :: string
  t_display_name :: string
  t_kind :: string
  t_repository_provider :: "string option"
  t_repository_external_id :: "string option"
  t_repository_full_name :: "string option"
  t_created_at_ms :: int
  t_updated_at_ms :: int
  t_disabled_at_ms :: "int option"

record binding_row =
  b_id :: binding_id
  b_device_id :: device_id
  b_target_id :: target_id
  b_created_at_ms :: int
  b_updated_at_ms :: int
  b_disabled_at_ms :: "int option"

record default_row =
  df_workspace_id :: ws_id
  df_target_id :: target_id
  df_created_at_ms :: int
  df_updated_at_ms :: int

record control_db =
  users :: "user_row list"
  workspaces :: "ws_id list"
  memberships :: "membership_row list"
  repo_bindings :: "repo_binding_row list"
  devices :: "device_row list"
  credentials :: "credential_row list"
  targets :: "target_row list"
  bindings :: "binding_row list"
  defaults :: "default_row list"

section \<open>Errors\<close>

datatype connector_error =
    ConnectorControlError string
  | ConnectorTargetConflictError
  | ConnectorNotFoundError
  | ConnectorValidationError
  | ConnectorPermissionError
  | ConnectorTargetDisabledError
  | ConnectorTargetRepositoryNotFoundError
  | ConnectorDeviceRevokedError
  | SqliteConstraintError

type_synonym 'a control_result = "connector_error + control_db \<times> 'a"

section \<open>Statements\<close>

text \<open>\<^verbatim>\<open>SELECT ... LIMIT 1\<close>, \<^verbatim>\<open>UPDATE ... WHERE\<close> and the number of changed rows.\<close>

definition update_rows :: "('r \<Rightarrow> bool) \<Rightarrow> ('r \<Rightarrow> 'r) \<Rightarrow> 'r list \<Rightarrow> 'r list" where
  "update_rows p f rows = map (\<lambda>r. if p r then f r else r) rows"

definition row_changes :: "('r \<Rightarrow> bool) \<Rightarrow> 'r list \<Rightarrow> nat" where
  "row_changes p rows = length (filter p rows)"

definition user_of :: "control_db \<Rightarrow> user_id \<Rightarrow> user_row option" where
  "user_of db u = find (\<lambda>r. u_id r = u) (users db)"

definition active_user :: "control_db \<Rightarrow> user_id \<Rightarrow> bool" where
  "active_user db u = (case user_of db u of None \<Rightarrow> False | Some r \<Rightarrow> u_disabled_at r = None)"

definition membership_of :: "control_db \<Rightarrow> ws_id \<Rightarrow> user_id \<Rightarrow> membership_row option" where
  "membership_of db w u = find (\<lambda>r. m_workspace_id r = w \<and> m_user_id r = u) (memberships db)"

definition repo_binding_of :: "control_db \<Rightarrow> ws_id \<Rightarrow> repo_binding_row option" where
  "repo_binding_of db w = find (\<lambda>r. g_workspace_id r = w) (repo_bindings db)"

definition binding_of :: "control_db \<Rightarrow> device_id \<Rightarrow> target_id \<Rightarrow> binding_row option" where
  "binding_of db d t = find (\<lambda>r. b_device_id r = d \<and> b_target_id r = t) (bindings db)"

text \<open>Inserts fail on a primary key, a unique constraint or a missing parent row.\<close>

definition insert_device :: "device_row \<Rightarrow> control_db \<Rightarrow> connector_error + control_db" where
  "insert_device r db =
     (if d_id r \<in> d_id ` set (devices db) \<or> d_user_id r \<notin> u_id ` set (users db) then Inl SqliteConstraintError
      else Inr (db\<lparr>devices := devices db @ [r]\<rparr>))"

definition insert_credential :: "credential_row \<Rightarrow> control_db \<Rightarrow> connector_error + control_db" where
  "insert_credential r db =
     (if k_id r \<in> k_id ` set (credentials db) \<or> k_secret_digest r \<in> k_secret_digest ` set (credentials db)
         \<or> k_device_id r \<notin> d_id ` set (devices db) then Inl SqliteConstraintError
      else Inr (db\<lparr>credentials := credentials db @ [r]\<rparr>))"

definition repository_complete :: "target_row \<Rightarrow> bool" where
  "repository_complete r \<longleftrightarrow>
     (t_repository_provider r = None \<and> t_repository_external_id r = None \<and> t_repository_full_name r = None)
     \<or> (t_repository_provider r \<noteq> None \<and> t_repository_external_id r \<noteq> None \<and> t_repository_full_name r \<noteq> None)"

definition insert_target :: "target_row \<Rightarrow> control_db \<Rightarrow> connector_error + control_db" where
  "insert_target r db =
     (if t_id r \<in> t_id ` set (targets db)
         \<or> list_ex (\<lambda>x. t_workspace_id x = t_workspace_id r \<and> t_alias x = t_alias r) (targets db)
         \<or> t_workspace_id r \<notin> set (workspaces db) \<or> \<not> repository_complete r then Inl SqliteConstraintError
      else Inr (db\<lparr>targets := targets db @ [r]\<rparr>))"

definition insert_binding :: "binding_row \<Rightarrow> control_db \<Rightarrow> connector_error + control_db" where
  "insert_binding r db =
     (if b_id r \<in> b_id ` set (bindings db)
         \<or> list_ex (\<lambda>x. b_device_id x = b_device_id r \<and> b_target_id x = b_target_id r) (bindings db)
         \<or> b_device_id r \<notin> d_id ` set (devices db) \<or> b_target_id r \<notin> t_id ` set (targets db) then Inl SqliteConstraintError
      else Inr (db\<lparr>bindings := bindings db @ [r]\<rparr>))"

definition insert_default :: "default_row \<Rightarrow> control_db \<Rightarrow> connector_error + control_db" where
  "insert_default r db =
     (if df_workspace_id r \<in> df_workspace_id ` set (defaults db) \<or> df_workspace_id r \<notin> set (workspaces db)
         \<or> df_target_id r \<notin> t_id ` set (targets db) then Inl SqliteConstraintError
      else Inr (db\<lparr>defaults := defaults db @ [r]\<rparr>))"

section \<open>Names\<close>

definition alias_head :: string where "alias_head = ''abcdefghijklmnopqrstuvwxyz0123456789''"

definition TARGET_ALIAS_RE :: "string \<Rightarrow> bool" where
  "TARGET_ALIAS_RE s = (case s of
      [] \<Rightarrow> False
    | c # cs \<Rightarrow> c \<in> set alias_head \<and> list_all (\<lambda>x. x \<in> set (alias_head @ ''_-'')) cs \<and> length cs \<le> 63)"

definition V1_VALID_TARGET_KINDS :: "string list" where
  "V1_VALID_TARGET_KINDS = [''general_automation'', ''coding'']"

definition normalizeTargetAlias :: "(string \<Rightarrow> string) \<Rightarrow> string \<Rightarrow> connector_error + string" where
  "normalizeTargetAlias lc alias =
     (let normalized = lc (js_trim alias)
      in if TARGET_ALIAS_RE normalized then Inr normalized else Inl ConnectorValidationError)"

text \<open>The replacements of \<^verbatim>\<open>normalizeRemoteFullName\<close>.\<close>

definition drop_git :: "string \<Rightarrow> string" where
  "drop_git s = (let n = length s - 4 in
     if 4 \<le> length s \<and> map ascii_lower (drop n s) = ''.git'' then take n s else s)"

definition drop_slashes :: "string \<Rightarrow> string" where
  "drop_slashes s = dropWhile (\<lambda>c. c = CHR ''/'') (rev (dropWhile (\<lambda>c. c = CHR ''/'') (rev s)))"

definition name_chars :: string where "name_chars = alias_head @ ''._-''"

text \<open>\<^verbatim>\<open>^[a-z0-9._-]+(?:/[a-z0-9._-]+)+$\<close>: non-empty segments, at least two, separated by slashes.\<close>

fun segments :: "string \<Rightarrow> string list" where
  "segments [] = [[]]"
| "segments (c # cs) = (if c = CHR ''/'' then [] # segments cs
     else case segments cs of [] \<Rightarrow> [[c]] | s # ss \<Rightarrow> (c # s) # ss)"

definition full_name_re :: "string \<Rightarrow> bool" where
  "full_name_re s \<longleftrightarrow> 2 \<le> length (segments s)
     \<and> list_all (\<lambda>g. g \<noteq> [] \<and> list_all (\<lambda>c. c \<in> set name_chars) g) (segments s)"

definition normalizeRemoteFullName :: "(string \<Rightarrow> string) \<Rightarrow> string \<Rightarrow> string \<Rightarrow> string option" where
  "normalizeRemoteFullName lc provider raw =
     (if js_trim provider = [] then None
      else let name = js_trim raw in
        if contains ''://'' name \<or> contains ''@'' name \<or> list_ex (\<lambda>w. contains w name) ws_seqs then None
        else let name = drop_slashes (drop_git name)
             in if full_name_re (lc name) then Some (lc name) else None)"

section \<open>Devices and credentials\<close>

definition createDevice ::
  "(string \<Rightarrow> string) \<Rightarrow> int \<Rightarrow> device_id \<Rightarrow> user_id \<Rightarrow> string \<Rightarrow> string \<Rightarrow> control_db \<Rightarrow> device_row control_result" where
  "createDevice lc now newId userId displayName platform db =
     (let trimmedName = js_trim displayName; trimmedPlatform = lc (js_trim platform) in
      if trimmedName = [] then Inl ConnectorValidationError
      else if trimmedPlatform = [] then Inl ConnectorValidationError
      else if \<not> active_user db userId then Inl ConnectorNotFoundError
      else let r = \<lparr>d_id = newId, d_user_id = userId, d_display_name = trimmedName, d_platform = trimmedPlatform,
                    d_created_at_ms = now, d_updated_at_ms = now, d_revoked_at_ms = None\<rparr>
           in ebind (insert_device r db) (\<lambda>db'. Inr (db', r)))"

definition getDevice :: "control_db \<Rightarrow> device_id \<Rightarrow> device_row option" where
  "getDevice db d = find (\<lambda>r. d_id r = d) (devices db)"

definition listDevicesForUser :: "control_db \<Rightarrow> user_id \<Rightarrow> bool \<Rightarrow> device_row list" where
  "listDevicesForUser db u includeRevoked =
     sort_key d_created_at_ms (filter (\<lambda>r. d_user_id r = u \<and> (includeRevoked \<or> d_revoked_at_ms r = None)) (devices db))"

definition revokeDevice :: "int \<Rightarrow> device_id \<Rightarrow> control_db \<Rightarrow> control_db \<times> bool" where
  "revokeDevice now d db =
     (let p = (\<lambda>r. d_id r = d \<and> d_revoked_at_ms r = None)
      in (db\<lparr>devices := update_rows p (\<lambda>r. r\<lparr>d_revoked_at_ms := Some now, d_updated_at_ms := now\<rparr>) (devices db)\<rparr>,
          row_changes p (devices db) > 0))"

definition createDeviceCredential ::
  "int \<Rightarrow> string \<Rightarrow> device_id \<Rightarrow> digest \<Rightarrow> int \<Rightarrow> control_db \<Rightarrow> credential_row control_result" where
  "createDeviceCredential issuedAt newId deviceId secretDigest expiresAt db =
     (if \<not> HEX_64_RE secretDigest then Inl ConnectorValidationError
      else if expiresAt \<le> issuedAt then Inl ConnectorValidationError
      else case getDevice db deviceId of
        None \<Rightarrow> Inl ConnectorNotFoundError
      | Some d \<Rightarrow>
          if d_revoked_at_ms d \<noteq> None then Inl ConnectorValidationError
          else let r = \<lparr>k_id = newId, k_device_id = deviceId, k_secret_digest = secretDigest, k_issued_at_ms = issuedAt,
                        k_expires_at_ms = expiresAt, k_revoked_at_ms = None\<rparr>
               in ebind (insert_credential r db) (\<lambda>db'. Inr (db', r)))"

definition getDeviceCredential :: "control_db \<Rightarrow> string \<Rightarrow> credential_row option" where
  "getDeviceCredential db k = find (\<lambda>r. k_id r = k) (credentials db)"

definition revokeDeviceCredential :: "int \<Rightarrow> string \<Rightarrow> control_db \<Rightarrow> control_db \<times> bool" where
  "revokeDeviceCredential now k db =
     (let p = (\<lambda>r. k_id r = k \<and> k_revoked_at_ms r = None)
      in (db\<lparr>credentials := update_rows p (\<lambda>r. r\<lparr>k_revoked_at_ms := Some now\<rparr>) (credentials db)\<rparr>,
          row_changes p (credentials db) > 0))"

record enrollment_input =
  ei_device_id :: device_id
  ei_credential_id :: string
  ei_user_id :: user_id
  ei_display_name :: string
  ei_platform :: string
  ei_secret_digest :: digest
  ei_issued_at_ms :: int
  ei_expires_at_ms :: int

definition enrollment_rows :: "(string \<Rightarrow> string) \<Rightarrow> enrollment_input \<Rightarrow> device_row \<times> credential_row" where
  "enrollment_rows lc i =
     (\<lparr>d_id = ei_device_id i, d_user_id = ei_user_id i, d_display_name = js_trim (ei_display_name i),
       d_platform = lc (js_trim (ei_platform i)), d_created_at_ms = ei_issued_at_ms i,
       d_updated_at_ms = ei_issued_at_ms i, d_revoked_at_ms = None\<rparr>,
      \<lparr>k_id = ei_credential_id i, k_device_id = ei_device_id i, k_secret_digest = ei_secret_digest i,
       k_issued_at_ms = ei_issued_at_ms i, k_expires_at_ms = ei_expires_at_ms i, k_revoked_at_ms = None\<rparr>)"

definition enrollment_matches :: "(string \<Rightarrow> string) \<Rightarrow> enrollment_input \<Rightarrow> device_row \<Rightarrow> credential_row \<Rightarrow> bool" where
  "enrollment_matches lc i d k \<longleftrightarrow> d_user_id d = ei_user_id i \<and> d_display_name d = js_trim (ei_display_name i)
     \<and> d_platform d = lc (js_trim (ei_platform i)) \<and> k_device_id k = ei_device_id i \<and> k_secret_digest k = ei_secret_digest i"

definition finalizeDeviceEnrollment ::
  "(string \<Rightarrow> string) \<Rightarrow> enrollment_input \<Rightarrow> control_db \<Rightarrow> (device_row \<times> credential_row \<times> bool) control_result" where
  "finalizeDeviceEnrollment lc i db =
     (let name = js_trim (ei_display_name i); platform = lc (js_trim (ei_platform i)) in
      if name = [] \<or> js_length name > 128 then Inl ConnectorValidationError
      else if platform = [] \<or> js_length platform > 32 then Inl ConnectorValidationError
      else if \<not> HEX_64_RE (ei_secret_digest i) then Inl ConnectorValidationError
      else if ei_expires_at_ms i \<le> ei_issued_at_ms i then Inl ConnectorValidationError
      else if \<not> active_user db (ei_user_id i) then Inl ConnectorNotFoundError
      else case (getDevice db (ei_device_id i), getDeviceCredential db (ei_credential_id i)) of
        (Some d, Some k) \<Rightarrow>
          if enrollment_matches lc i d k then Inr (db, d, k, True) else Inl (ConnectorControlError ''INTERNAL_CONFLICT'')
      | (None, None) \<Rightarrow>
          (case enrollment_rows lc i of (d, k) \<Rightarrow>
             ebind (insert_device d db) (\<lambda>db1. ebind (insert_credential k db1) (\<lambda>db2. Inr (db2, d, k, False))))
      | _ \<Rightarrow> Inl (ConnectorControlError ''INTERNAL_CONFLICT''))"

section \<open>Execution targets\<close>

text \<open>\<^verbatim>\<open>input?.trim() || null\<close>.\<close>

definition trim_or_null :: "string option \<Rightarrow> string option" where
  "trim_or_null s = (case s of None \<Rightarrow> None | Some x \<Rightarrow> if js_trim x = [] then None else Some (js_trim x))"

record target_input =
  ti_workspace_id :: ws_id
  ti_alias :: string
  ti_display_name :: string
  ti_kind :: string
  ti_repository_provider :: "string option"
  ti_repository_external_id :: "string option"
  ti_repository_full_name :: "string option"

definition target_by_alias :: "control_db \<Rightarrow> ws_id \<Rightarrow> string \<Rightarrow> target_row option" where
  "target_by_alias db w alias = find (\<lambda>r. t_workspace_id r = w \<and> t_alias r = alias) (targets db)"

definition createExecutionTarget ::
  "(string \<Rightarrow> string) \<Rightarrow> int \<Rightarrow> target_id \<Rightarrow> target_input \<Rightarrow> control_db \<Rightarrow> target_row control_result" where
  "createExecutionTarget lc now newId i db =
     ebind (normalizeTargetAlias lc (ti_alias i)) (\<lambda>alias.
       let name = js_trim (ti_display_name i); kind = js_trim (ti_kind i);
           provider = trim_or_null (ti_repository_provider i); externalId = trim_or_null (ti_repository_external_id i);
           fullName = trim_or_null (ti_repository_full_name i) in
       if name = [] then Inl ConnectorValidationError
       else if kind \<notin> set V1_VALID_TARGET_KINDS then Inl ConnectorValidationError
       else if \<not> ((provider \<noteq> None \<and> externalId \<noteq> None \<and> fullName \<noteq> None) \<or> (provider = None \<and> externalId = None \<and> fullName = None))
       then Inl ConnectorValidationError
       else if ti_workspace_id i \<notin> set (workspaces db) then Inl ConnectorNotFoundError
       else if target_by_alias db (ti_workspace_id i) alias \<noteq> None then Inl ConnectorTargetConflictError
       else let r = \<lparr>t_id = newId, t_workspace_id = ti_workspace_id i, t_alias = alias, t_display_name = name, t_kind = kind,
                     t_repository_provider = provider, t_repository_external_id = externalId, t_repository_full_name = fullName,
                     t_created_at_ms = now, t_updated_at_ms = now, t_disabled_at_ms = None\<rparr>
            in ebind (insert_target r db) (\<lambda>db'. Inr (db', r)))"

definition getExecutionTarget :: "control_db \<Rightarrow> target_id \<Rightarrow> target_row option" where
  "getExecutionTarget db t = find (\<lambda>r. t_id r = t) (targets db)"

definition getExecutionTargetByAlias :: "(string \<Rightarrow> string) \<Rightarrow> control_db \<Rightarrow> ws_id \<Rightarrow> string \<Rightarrow> connector_error + target_row option" where
  "getExecutionTargetByAlias lc db w alias = ebind (normalizeTargetAlias lc alias) (\<lambda>n. Inr (target_by_alias db w n))"

definition listExecutionTargetsForWorkspace :: "control_db \<Rightarrow> ws_id \<Rightarrow> bool \<Rightarrow> target_row list" where
  "listExecutionTargetsForWorkspace db w includeDisabled =
     sort_key t_alias (filter (\<lambda>r. t_workspace_id r = w \<and> (includeDisabled \<or> t_disabled_at_ms r = None)) (targets db))"

definition disableExecutionTarget :: "int \<Rightarrow> target_id \<Rightarrow> control_db \<Rightarrow> control_db \<times> bool" where
  "disableExecutionTarget now t db =
     (let p = (\<lambda>r. t_id r = t \<and> t_disabled_at_ms r = None)
      in (db\<lparr>targets := update_rows p (\<lambda>r. r\<lparr>t_disabled_at_ms := Some now, t_updated_at_ms := now\<rparr>) (targets db)\<rparr>,
          row_changes p (targets db) > 0))"

definition enableExecutionTarget :: "int \<Rightarrow> target_id \<Rightarrow> control_db \<Rightarrow> control_db \<times> bool" where
  "enableExecutionTarget now t db =
     (let p = (\<lambda>r. t_id r = t \<and> t_disabled_at_ms r \<noteq> None)
      in (db\<lparr>targets := update_rows p (\<lambda>r. r\<lparr>t_disabled_at_ms := None, t_updated_at_ms := now\<rparr>) (targets db)\<rparr>,
          row_changes p (targets db) > 0))"

text \<open>The foreign keys cascade to bindings and workspace defaults.\<close>

definition deleteExecutionTargetRow :: "target_id \<Rightarrow> control_db \<Rightarrow> control_db \<times> bool" where
  "deleteExecutionTargetRow t db =
     (db\<lparr>targets := filter (\<lambda>r. t_id r \<noteq> t) (targets db), bindings := filter (\<lambda>r. b_target_id r \<noteq> t) (bindings db),
         defaults := filter (\<lambda>r. df_target_id r \<noteq> t) (defaults db)\<rparr>,
      row_changes (\<lambda>r. t_id r = t) (targets db) > 0)"

definition renameExecutionTarget ::
  "(string \<Rightarrow> string) \<Rightarrow> int \<Rightarrow> target_id \<Rightarrow> string \<Rightarrow> user_id \<Rightarrow> control_db \<Rightarrow> (target_row \<times> string \<times> bool) control_result" where
  "renameExecutionTarget lc now targetId newAlias actor db =
     ebind (normalizeTargetAlias lc newAlias) (\<lambda>alias.
       case getExecutionTarget db targetId of
         None \<Rightarrow> Inl ConnectorNotFoundError
       | Some r \<Rightarrow> (case membership_of db (t_workspace_id r) actor of
           None \<Rightarrow> Inl ConnectorNotFoundError
         | Some m \<Rightarrow>
            if m_role m \<noteq> ''owner'' then Inl ConnectorPermissionError
            else if alias = t_alias r then Inr (db, r, t_alias r, True)
            else if list_ex (\<lambda>x. t_workspace_id x = t_workspace_id r \<and> t_alias x = alias \<and> t_id x \<noteq> targetId) (targets db)
            then Inl ConnectorTargetConflictError
            else Inr (db\<lparr>targets := update_rows (\<lambda>x. t_id x = targetId) (\<lambda>x. x\<lparr>t_alias := alias, t_updated_at_ms := now\<rparr>) (targets db)\<rparr>,
                      r\<lparr>t_alias := alias, t_updated_at_ms := now\<rparr>, t_alias r, False)))"

definition reconcileExecutionTargetRepositoryMetadata ::
  "int \<Rightarrow> string \<Rightarrow> string \<Rightarrow> string \<Rightarrow> control_db \<Rightarrow> control_db \<times> nat" where
  "reconcileExecutionTargetRepositoryMetadata now provider externalId fullName db =
     (let p = (\<lambda>r. t_repository_provider r = Some provider \<and> t_repository_external_id r = Some externalId)
      in (db\<lparr>targets := update_rows p (\<lambda>r. r\<lparr>t_repository_full_name := Some fullName, t_updated_at_ms := now\<rparr>) (targets db)\<rparr>,
          row_changes p (targets db)))"

text \<open>
  The persisted external id of a repository: the numeric id of the workspace's GitHub binding when
  that names the same repository, its normalized full name otherwise.
\<close>

definition repo_external_id :: "(string \<Rightarrow> string) \<Rightarrow> control_db \<Rightarrow> ws_id \<Rightarrow> string \<Rightarrow> string" where
  "repo_external_id lc db w fullName = (case repo_binding_of db w of
      Some g \<Rightarrow> if lc (g_full_name g) = fullName then g_repository_id g else fullName
    | None \<Rightarrow> fullName)"

text \<open>What every operation on behalf of a device checks first: it exists, is not revoked, and its user is active.\<close>

definition device_actor :: "control_db \<Rightarrow> device_id \<Rightarrow> connector_error + device_row" where
  "device_actor db deviceId = (case getDevice db deviceId of
      None \<Rightarrow> Inl ConnectorNotFoundError
    | Some d \<Rightarrow> if d_revoked_at_ms d \<noteq> None then Inl ConnectorDeviceRevokedError
               else if \<not> active_user db (d_user_id d) then Inl ConnectorPermissionError else Inr d)"

definition workspace_role :: "control_db \<Rightarrow> ws_id \<Rightarrow> user_id \<Rightarrow> connector_error + string" where
  "workspace_role db w u =
     (if w \<notin> set (workspaces db) then Inl ConnectorNotFoundError
      else case membership_of db w u of None \<Rightarrow> Inl ConnectorPermissionError | Some m \<Rightarrow> Inr (m_role m))"

definition attach_identity ::
  "int \<Rightarrow> ws_id \<Rightarrow> string \<Rightarrow> string \<Rightarrow> string \<Rightarrow> target_row \<Rightarrow> control_db \<Rightarrow> (target_row \<times> bool) control_result" where
  "attach_identity now w provider fullName externalId r db =
     (if t_repository_provider r \<noteq> None \<and> t_repository_external_id r \<noteq> None \<and> t_repository_full_name r \<noteq> None
      then (if t_repository_provider r = Some provider \<and> t_repository_external_id r = Some externalId
               \<and> t_repository_full_name r = Some fullName
            then Inr (db, r, True) else Inl ConnectorTargetConflictError)
      else if list_ex (\<lambda>x. t_workspace_id x = w \<and> t_id x \<noteq> t_id r \<and> t_disabled_at_ms x = None
                  \<and> t_repository_provider x = Some provider
                  \<and> (t_repository_external_id x \<in> {Some externalId, Some fullName} \<or> t_repository_full_name x = Some fullName))
                (targets db)
      then Inl ConnectorTargetConflictError
      else let f = (\<lambda>x. x\<lparr>t_repository_provider := Some provider, t_repository_external_id := Some externalId,
                        t_repository_full_name := Some fullName, t_updated_at_ms := now\<rparr>)
           in Inr (db\<lparr>targets := update_rows (\<lambda>x. t_id x = t_id r) f (targets db)\<rparr>, f r, False))"

definition attachRepositoryIdentityToTarget ::
  "(string \<Rightarrow> string) \<Rightarrow> int \<Rightarrow> device_id \<Rightarrow> ws_id \<Rightarrow> target_id \<Rightarrow> string \<Rightarrow> string \<Rightarrow> control_db \<Rightarrow> (target_row \<times> bool) control_result" where
  "attachRepositoryIdentityToTarget lc now deviceId w targetId provider fullName db =
     (let p = lc (js_trim provider) in
      case normalizeRemoteFullName lc p fullName of
        None \<Rightarrow> Inl ConnectorValidationError
      | Some name \<Rightarrow>
         if p = [] then Inl ConnectorValidationError
         else ebind (device_actor db deviceId) (\<lambda>d. ebind (workspace_role db w (d_user_id d)) (\<lambda>role.
           case getExecutionTarget db targetId of
             None \<Rightarrow> Inl ConnectorNotFoundError
           | Some r \<Rightarrow>
              if t_workspace_id r \<noteq> w then Inl ConnectorNotFoundError
              else if t_disabled_at_ms r \<noteq> None then Inl ConnectorTargetDisabledError
              else if t_kind r \<noteq> ''coding'' then Inl ConnectorTargetConflictError
              else if \<not> list_ex (\<lambda>b. b_device_id b = deviceId \<and> b_target_id b = targetId \<and> b_disabled_at_ms b = None) (bindings db)
              then Inl ConnectorTargetConflictError
              else attach_identity now w p name (repo_external_id lc db w name) r db)))"

section \<open>The default runtime target of a workspace\<close>

definition getDefaultAgentRuntimeTarget :: "control_db \<Rightarrow> ws_id \<Rightarrow> default_row option" where
  "getDefaultAgentRuntimeTarget db w = find (\<lambda>r. df_workspace_id r = w) (defaults db)"

datatype default_resolution = NotConfigured | Unavailable string | DefaultOk target_row

definition resolveDefaultAgentRuntimeTarget :: "control_db \<Rightarrow> ws_id \<Rightarrow> default_resolution" where
  "resolveDefaultAgentRuntimeTarget db w = (case getDefaultAgentRuntimeTarget db w of
      None \<Rightarrow> NotConfigured
    | Some df \<Rightarrow> (case getExecutionTarget db (df_target_id df) of
        None \<Rightarrow> Unavailable ''The configured default Agent Runtime target no longer exists.''
      | Some r \<Rightarrow>
          if t_workspace_id r \<noteq> w then Unavailable ''The configured default Agent Runtime target belongs to another workspace.''
          else if t_disabled_at_ms r \<noteq> None then Unavailable ''The configured default Agent Runtime target is disabled.''
          else DefaultOk r))"

definition setDefaultAgentRuntimeTarget ::
  "int \<Rightarrow> ws_id \<Rightarrow> target_id \<Rightarrow> user_id \<Rightarrow> control_db \<Rightarrow> (default_row \<times> bool) control_result" where
  "setDefaultAgentRuntimeTarget now w targetId actor db =
     (if w \<notin> set (workspaces db) then Inl ConnectorNotFoundError
      else case getExecutionTarget db targetId of
        None \<Rightarrow> Inl ConnectorNotFoundError
      | Some r \<Rightarrow>
         if t_workspace_id r \<noteq> w then Inl ConnectorNotFoundError
         else if t_disabled_at_ms r \<noteq> None then Inl ConnectorTargetDisabledError
         else (case membership_of db w actor of
             None \<Rightarrow> Inl ConnectorPermissionError
           | Some m \<Rightarrow>
              if m_role m \<noteq> ''owner'' then Inl ConnectorPermissionError
              else (case getDefaultAgentRuntimeTarget db w of
                  Some e \<Rightarrow>
                    let replayed = (df_target_id e = targetId);
                        db' = (if replayed then db
                               else db\<lparr>defaults := update_rows (\<lambda>x. df_workspace_id x = w)
                                          (\<lambda>x. x\<lparr>df_target_id := targetId, df_updated_at_ms := now\<rparr>) (defaults db)\<rparr>)
                    in Inr (db', \<lparr>df_workspace_id = w, df_target_id = targetId, df_created_at_ms = df_created_at_ms e,
                                  df_updated_at_ms = now\<rparr>, replayed)
                | None \<Rightarrow>
                    let d = \<lparr>df_workspace_id = w, df_target_id = targetId, df_created_at_ms = now, df_updated_at_ms = now\<rparr>
                    in ebind (insert_default d db) (\<lambda>db'. Inr (db', d, False)))))"

section \<open>Bindings\<close>

definition fresh_binding :: "int \<Rightarrow> binding_id \<Rightarrow> device_id \<Rightarrow> target_id \<Rightarrow> binding_row" where
  "fresh_binding now newId deviceId targetId =
     \<lparr>b_id = newId, b_device_id = deviceId, b_target_id = targetId, b_created_at_ms = now, b_updated_at_ms = now,
      b_disabled_at_ms = None\<rparr>"

text \<open>
  The upsert shared by all three binding operations: the live binding as it is, a disabled one enabled again,
  or a new row. The flag says whether a live binding was found.
\<close>

definition ensure_binding :: "int \<Rightarrow> binding_id \<Rightarrow> device_id \<Rightarrow> target_id \<Rightarrow> control_db \<Rightarrow> (binding_row \<times> bool) control_result" where
  "ensure_binding now newId deviceId targetId db = (case binding_of db deviceId targetId of
      Some e \<Rightarrow>
        if b_disabled_at_ms e \<noteq> None
        then let f = (\<lambda>x. x\<lparr>b_disabled_at_ms := None, b_updated_at_ms := now\<rparr>)
             in Inr (db\<lparr>bindings := update_rows (\<lambda>x. b_id x = b_id e) f (bindings db)\<rparr>, f e, False)
        else Inr (db, e, True)
    | None \<Rightarrow>
        let b = fresh_binding now newId deviceId targetId
        in ebind (insert_binding b db) (\<lambda>db'. Inr (db', b, False)))"

definition upsertDeviceTargetBinding ::
  "int \<Rightarrow> binding_id \<Rightarrow> device_id \<Rightarrow> target_id \<Rightarrow> control_db \<Rightarrow> binding_row control_result" where
  "upsertDeviceTargetBinding now newId deviceId targetId db = (case getDevice db deviceId of
      None \<Rightarrow> Inl ConnectorNotFoundError
    | Some d \<Rightarrow>
       if d_revoked_at_ms d \<noteq> None then Inl ConnectorValidationError
       else (case getExecutionTarget db targetId of
           None \<Rightarrow> Inl ConnectorNotFoundError
         | Some r \<Rightarrow>
            if t_disabled_at_ms r \<noteq> None then Inl ConnectorValidationError
            else ebind (ensure_binding now newId deviceId targetId db) (\<lambda>(db', b, _). Inr (db', b))))"

definition disableDeviceTargetBinding :: "int \<Rightarrow> device_id \<Rightarrow> target_id \<Rightarrow> control_db \<Rightarrow> control_db \<times> bool" where
  "disableDeviceTargetBinding now deviceId targetId db =
     (let p = (\<lambda>r. b_device_id r = deviceId \<and> b_target_id r = targetId \<and> b_disabled_at_ms r = None)
      in (db\<lparr>bindings := update_rows p (\<lambda>r. r\<lparr>b_disabled_at_ms := Some now, b_updated_at_ms := now\<rparr>) (bindings db)\<rparr>,
          row_changes p (bindings db) > 0))"

definition listBindingsForDevice :: "control_db \<Rightarrow> device_id \<Rightarrow> bool \<Rightarrow> binding_row list" where
  "listBindingsForDevice db deviceId includeDisabled =
     sort_key b_created_at_ms (filter (\<lambda>r. b_device_id r = deviceId \<and> (includeDisabled \<or> b_disabled_at_ms r = None)) (bindings db))"

section \<open>Eligibility\<close>

datatype eligibility = Ineligible string | Eligible binding_row device_row target_row

definition resolveEligibleBinding :: "control_db \<Rightarrow> device_id \<Rightarrow> target_id \<Rightarrow> eligibility" where
  "resolveEligibleBinding db deviceId targetId = (case getDevice db deviceId of
      None \<Rightarrow> Ineligible ''Device not found.''
    | Some d \<Rightarrow>
       if d_revoked_at_ms d \<noteq> None then Ineligible ''Device has been revoked.''
       else (case user_of db (d_user_id d) of
           None \<Rightarrow> Ineligible ''Device owner user not found.''
         | Some u \<Rightarrow>
            if u_disabled_at u \<noteq> None then Ineligible ''Device owner user is disabled.''
            else (case getExecutionTarget db targetId of
                None \<Rightarrow> Ineligible ''Execution target not found.''
              | Some r \<Rightarrow>
                 if t_disabled_at_ms r \<noteq> None then Ineligible ''Execution target is disabled.''
                 else (case binding_of db deviceId targetId of
                     None \<Rightarrow> Ineligible ''DeviceTargetBinding does not exist.''
                   | Some b \<Rightarrow>
                      if b_disabled_at_ms b \<noteq> None then Ineligible ''DeviceTargetBinding is disabled.''
                      else if membership_of db (t_workspace_id r) (d_user_id d) = None
                      then Ineligible ''Device owner is not a member of the target workspace.''
                      else Eligible b d r))))"

definition is_eligible :: "eligibility \<Rightarrow> bool" where
  "is_eligible e = (case e of Eligible _ _ _ \<Rightarrow> True | Ineligible _ \<Rightarrow> False)"

text \<open>The five-way join: one output row per matching combination, ordered by the age of the binding.\<close>

definition listEligibleTargetIdsForDevice :: "control_db \<Rightarrow> device_id \<Rightarrow> target_id list" where
  "listEligibleTargetIdsForDevice db deviceId =
     map (\<lambda>b. b_target_id b) (sort_key b_created_at_ms
       (concat (map (\<lambda>b. concat (map (\<lambda>d. concat (map (\<lambda>u. concat (map (\<lambda>r. concat (map (\<lambda>m.
          if d_id d = b_device_id b \<and> u_id u = d_user_id d \<and> t_id r = b_target_id b
             \<and> m_workspace_id m = t_workspace_id r \<and> m_user_id m = d_user_id d
             \<and> b_device_id b = deviceId \<and> b_disabled_at_ms b = None \<and> d_revoked_at_ms d = None
             \<and> u_disabled_at u = None \<and> t_disabled_at_ms r = None
          then [b] else []) (memberships db))) (targets db))) (users db))) (devices db))) (bindings db))))"

section \<open>Registration by a device\<close>

datatype repo_source = WorkspaceRepository | RemoteUrl

record register_input =
  rg_device_id :: device_id
  rg_workspace_id :: ws_id
  rg_alias :: string
  rg_display_name :: string
  rg_kind :: string
  rg_source :: "repo_source option"
  rg_provider :: "string option"
  rg_full_name :: "string option"

record registration =
  rr_target :: target_row
  rr_binding :: binding_row
  rr_target_created :: bool
  rr_binding_created :: bool
  rr_replayed :: bool

text \<open>The repository triple of the request: provider, external id and full name.\<close>

definition register_repository ::
  "(string \<Rightarrow> string) \<Rightarrow> register_input \<Rightarrow> control_db \<Rightarrow> connector_error + (string \<times> string \<times> string) option" where
  "register_repository lc i db = (case rg_source i of
      None \<Rightarrow> Inr None
    | Some WorkspaceRepository \<Rightarrow> (case repo_binding_of db (rg_workspace_id i) of
        None \<Rightarrow> Inl ConnectorTargetRepositoryNotFoundError
      | Some g \<Rightarrow> Inr (Some (''github'', g_repository_id g, g_full_name g)))
    | Some RemoteUrl \<Rightarrow> (case (rg_provider i, rg_full_name i) of
        (Some p, Some n) \<Rightarrow>
          let provider = lc (js_trim p) in
          (case normalizeRemoteFullName lc provider n of
             None \<Rightarrow> Inl ConnectorValidationError
           | Some name \<Rightarrow> if provider = [] then Inl ConnectorValidationError
                          else Inr (Some (provider, repo_external_id lc db (rg_workspace_id i) name, name)))
      | _ \<Rightarrow> Inl ConnectorValidationError))"

definition ensureDeviceBindingAndReturn ::
  "int \<Rightarrow> binding_id \<Rightarrow> device_id \<Rightarrow> bool \<Rightarrow> target_row \<Rightarrow> control_db \<Rightarrow> registration control_result" where
  "ensureDeviceBindingAndReturn now newId deviceId targetCreated r db =
     ebind (ensure_binding now newId deviceId (t_id r) db) (\<lambda>(db', b, live).
       Inr (db', \<lparr>rr_target = r, rr_binding = b, rr_target_created = targetCreated,
                  rr_binding_created = (binding_of db deviceId (t_id r) = None), rr_replayed = live\<rparr>))"

definition register_create ::
  "int \<Rightarrow> target_id \<Rightarrow> binding_id \<Rightarrow> register_input \<Rightarrow> string \<Rightarrow> (string \<times> string \<times> string) option \<Rightarrow> control_db \<Rightarrow> registration control_result" where
  "register_create now newTarget newBinding i alias repo db =
     (let r = \<lparr>t_id = newTarget, t_workspace_id = rg_workspace_id i, t_alias = alias, t_display_name = js_trim (rg_display_name i),
               t_kind = js_trim (rg_kind i), t_repository_provider = map_option fst repo,
               t_repository_external_id = map_option (fst \<circ> snd) repo, t_repository_full_name = map_option (snd \<circ> snd) repo,
               t_created_at_ms = now, t_updated_at_ms = now, t_disabled_at_ms = None\<rparr>;
          b = fresh_binding now newBinding (rg_device_id i) newTarget
      in ebind (insert_target r db) (\<lambda>db1. ebind (insert_binding b db1) (\<lambda>db2.
           Inr (db2, \<lparr>rr_target = r, rr_binding = b, rr_target_created = True, rr_binding_created = True, rr_replayed = False\<rparr>))))"

text \<open>The alias names an existing target: it must agree with the request, and takes over a changed full name.\<close>

definition register_existing ::
  "int \<Rightarrow> binding_id \<Rightarrow> register_input \<Rightarrow> (string \<times> string \<times> string) option \<Rightarrow> target_row \<Rightarrow> control_db \<Rightarrow> registration control_result" where
  "register_existing now newBinding i repo e db =
     (if t_disabled_at_ms e \<noteq> None then Inl ConnectorTargetDisabledError
      else if t_kind e \<noteq> js_trim (rg_kind i) \<or> t_display_name e \<noteq> js_trim (rg_display_name i)
              \<or> t_repository_provider e \<noteq> map_option fst repo \<or> t_repository_external_id e \<noteq> map_option (fst \<circ> snd) repo
      then Inl ConnectorTargetConflictError
      else let fullName = map_option (snd \<circ> snd) repo in
        if fullName \<noteq> None \<and> t_repository_full_name e \<noteq> fullName
        then let f = (\<lambda>x. x\<lparr>t_repository_full_name := fullName, t_updated_at_ms := now\<rparr>)
             in ensureDeviceBindingAndReturn now newBinding (rg_device_id i) False (f e)
                  (db\<lparr>targets := update_rows (\<lambda>x. t_id x = t_id e) f (targets db)\<rparr>)
        else ensureDeviceBindingAndReturn now newBinding (rg_device_id i) False e db)"

text \<open>The active targets of the workspace with the same repository identity.\<close>

definition repo_rows :: "control_db \<Rightarrow> ws_id \<Rightarrow> string \<Rightarrow> string \<Rightarrow> target_row list" where
  "repo_rows db w provider externalId =
     sort_key (\<lambda>r. (t_created_at_ms r, t_id r))
       (filter (\<lambda>r. t_workspace_id r = w \<and> t_repository_provider r = Some provider
          \<and> t_repository_external_id r = Some externalId \<and> t_disabled_at_ms r = None) (targets db))"

definition register_by_alias ::
  "int \<Rightarrow> target_id \<Rightarrow> binding_id \<Rightarrow> register_input \<Rightarrow> string \<Rightarrow> string \<Rightarrow> (string \<times> string \<times> string) option \<Rightarrow> control_db \<Rightarrow> registration control_result" where
  "register_by_alias now newTarget newBinding i alias role repo db =
     (case target_by_alias db (rg_workspace_id i) alias of
        None \<Rightarrow> if role \<noteq> ''owner'' then Inl ConnectorPermissionError
                else register_create now newTarget newBinding i alias repo db
      | Some e \<Rightarrow> register_existing now newBinding i repo e db)"

definition register_resolved ::
  "int \<Rightarrow> target_id \<Rightarrow> binding_id \<Rightarrow> register_input \<Rightarrow> string \<Rightarrow> string \<Rightarrow> (string \<times> string \<times> string) option \<Rightarrow> control_db \<Rightarrow> registration control_result" where
  "register_resolved now newTarget newBinding i alias role repo db =
     (case repo of
        Some (provider, externalId, _) \<Rightarrow>
          if rg_source i = Some RemoteUrl
          then (case repo_rows db (rg_workspace_id i) provider externalId of
                  [] \<Rightarrow> register_by_alias now newTarget newBinding i alias role repo db
                | [r] \<Rightarrow> if t_kind r \<noteq> js_trim (rg_kind i) then Inl ConnectorTargetConflictError
                         else ensureDeviceBindingAndReturn now newBinding (rg_device_id i) False r db
                | _ \<Rightarrow> Inl ConnectorTargetConflictError)
          else register_by_alias now newTarget newBinding i alias role repo db
      | None \<Rightarrow> register_by_alias now newTarget newBinding i alias role repo db)"

definition registerExecutionTargetForDevice ::
  "(string \<Rightarrow> string) \<Rightarrow> int \<Rightarrow> target_id \<Rightarrow> binding_id \<Rightarrow> register_input \<Rightarrow> control_db \<Rightarrow> registration control_result" where
  "registerExecutionTargetForDevice lc now newTarget newBinding i db =
     ebind (normalizeTargetAlias lc (rg_alias i)) (\<lambda>alias.
       if js_length (js_trim (rg_display_name i)) < 1 \<or> js_length (js_trim (rg_display_name i)) > 128 then Inl ConnectorValidationError
       else if js_trim (rg_kind i) \<notin> set V1_VALID_TARGET_KINDS then Inl ConnectorValidationError
       else ebind (device_actor db (rg_device_id i)) (\<lambda>d. ebind (workspace_role db (rg_workspace_id i) (d_user_id d)) (\<lambda>role.
         ebind (register_repository lc i db) (\<lambda>repo. register_resolved now newTarget newBinding i alias role repo db))))"

section \<open>Binding by a device\<close>

text \<open>A target of a workspace the user is not a member of is reported as not found.\<close>

definition visible_target :: "control_db \<Rightarrow> user_id \<Rightarrow> target_id \<Rightarrow> connector_error + target_row" where
  "visible_target db u targetId = (case getExecutionTarget db targetId of
      None \<Rightarrow> Inl ConnectorNotFoundError
    | Some r \<Rightarrow> if membership_of db (t_workspace_id r) u = None then Inl ConnectorNotFoundError else Inr r)"

definition bindTargetForDevice ::
  "int \<Rightarrow> binding_id \<Rightarrow> device_id \<Rightarrow> target_id \<Rightarrow> control_db \<Rightarrow> (binding_row \<times> bool) control_result" where
  "bindTargetForDevice now newId deviceId targetId db =
     ebind (device_actor db deviceId) (\<lambda>d. ebind (visible_target db (d_user_id d) targetId) (\<lambda>r.
       if t_disabled_at_ms r \<noteq> None then Inl ConnectorTargetDisabledError
       else ensure_binding now newId deviceId targetId db))"

definition unbindTargetForDevice :: "int \<Rightarrow> device_id \<Rightarrow> target_id \<Rightarrow> control_db \<Rightarrow> unit control_result" where
  "unbindTargetForDevice now deviceId targetId db = (case getDevice db deviceId of
      None \<Rightarrow> Inl ConnectorNotFoundError
    | Some d \<Rightarrow>
       if d_revoked_at_ms d \<noteq> None then Inl ConnectorDeviceRevokedError
       else ebind (visible_target db (d_user_id d) targetId) (\<lambda>r.
         Inr (fst (disableDeviceTargetBinding now deviceId targetId db), ())))"

section \<open>Listings\<close>

record target_view =
  tv_target :: target_row
  tv_binding :: "binding_row option"
  tv_role :: "string option"
  tv_active_bindings :: nat
  tv_default :: bool

text \<open>\<^verbatim>\<open>COUNT(*)\<close> over the join of live bindings, unrevoked devices, active users and members.\<close>

definition active_binding_count :: "control_db \<Rightarrow> ws_id \<Rightarrow> target_id \<Rightarrow> nat" where
  "active_binding_count db w targetId =
     length (concat (map (\<lambda>b. concat (map (\<lambda>d. concat (map (\<lambda>u. concat (map (\<lambda>m.
        if d_id d = b_device_id b \<and> u_id u = d_user_id d \<and> m_workspace_id m = w \<and> m_user_id m = d_user_id d
           \<and> b_target_id b = targetId \<and> b_disabled_at_ms b = None \<and> d_revoked_at_ms d = None \<and> u_disabled_at u = None
        then [()] else []) (memberships db))) (users db))) (devices db))) (bindings db)))"

definition view_of :: "control_db \<Rightarrow> device_id option \<Rightarrow> string option \<Rightarrow> target_row \<Rightarrow> target_view" where
  "view_of db dev role r =
     \<lparr>tv_target = r, tv_binding = (case dev of None \<Rightarrow> None | Some d \<Rightarrow> binding_of db d (t_id r)), tv_role = role,
      tv_active_bindings = (if t_disabled_at_ms r = None then active_binding_count db (t_workspace_id r) (t_id r) else 0),
      tv_default = (map_option df_target_id (getDefaultAgentRuntimeTarget db (t_workspace_id r)) = Some (t_id r))\<rparr>"

text \<open>The targets of the user's workspaces, with the role of the membership that shows them.\<close>

definition member_targets :: "control_db \<Rightarrow> user_id \<Rightarrow> ws_id option \<Rightarrow> (target_row \<times> string) list" where
  "member_targets db u w =
     sort_key (\<lambda>x. t_created_at_ms (fst x))
       (concat (map (\<lambda>r. concat (map (\<lambda>m.
          if m_workspace_id m = t_workspace_id r \<and> m_user_id m = u \<and> (case w of None \<Rightarrow> True | Some x \<Rightarrow> x = [] \<or> t_workspace_id r = x)
          then [(r, m_role m)] else []) (memberships db))) (targets db)))"

definition listTargetsVisibleToDevice :: "control_db \<Rightarrow> device_id \<Rightarrow> ws_id option \<Rightarrow> connector_error + target_view list" where
  "listTargetsVisibleToDevice db deviceId w =
     ebind (device_actor db deviceId) (\<lambda>d.
       Inr (map (\<lambda>(r, role). view_of db (Some deviceId) None r) (member_targets db (d_user_id d) w)))"

definition listTargetsForUser :: "control_db \<Rightarrow> user_id \<Rightarrow> ws_id option \<Rightarrow> connector_error + target_view list" where
  "listTargetsForUser db u w =
     (if \<not> active_user db u then Inl ConnectorPermissionError
      else Inr (map (\<lambda>(r, role). view_of db None (Some role) r) (member_targets db u w)))"

end
