(* ===== verification/Control_Invariant.thy ===== *)
theory Control_Invariant
  imports Control_Store Transition_Systems
begin

text \<open>
  The constraints of the control database: keys, uniqueness, foreign keys, the repository check, and the
  formats that only the code enforces. Every operation of the store keeps them, so they hold of every
  database that its operations can reach.
\<close>

section \<open>The constraints\<close>

definition devices_ok :: "user_row list \<Rightarrow> device_row list \<Rightarrow> bool" where
  "devices_ok us ds \<longleftrightarrow> distinct (map u_id us) \<and> distinct (map d_id ds) \<and> d_user_id ` set ds \<subseteq> u_id ` set us"

definition credentials_ok :: "device_row list \<Rightarrow> credential_row list \<Rightarrow> bool" where
  "credentials_ok ds ks \<longleftrightarrow> distinct (map k_id ks) \<and> distinct (map k_secret_digest ks) \<and> k_device_id ` set ks \<subseteq> d_id ` set ds
     \<and> (\<forall>r \<in> set ks. HEX_64_RE (k_secret_digest r) \<and> k_issued_at_ms r < k_expires_at_ms r)"

definition target_row_ok :: "target_row \<Rightarrow> bool" where
  "target_row_ok r \<longleftrightarrow> TARGET_ALIAS_RE (t_alias r) \<and> t_kind r \<in> set V1_VALID_TARGET_KINDS \<and> repository_complete r"

definition alias_key :: "target_row \<Rightarrow> ws_id \<times> string" where
  "alias_key r = (t_workspace_id r, t_alias r)"

definition targets_ok :: "ws_id list \<Rightarrow> target_row list \<Rightarrow> bool" where
  "targets_ok ws ts \<longleftrightarrow> distinct (map t_id ts) \<and> distinct (map alias_key ts) \<and> t_workspace_id ` set ts \<subseteq> set ws
     \<and> (\<forall>r \<in> set ts. target_row_ok r)"

definition binding_key :: "binding_row \<Rightarrow> device_id \<times> target_id" where
  "binding_key b = (b_device_id b, b_target_id b)"

definition bindings_ok :: "device_row list \<Rightarrow> target_row list \<Rightarrow> binding_row list \<Rightarrow> bool" where
  "bindings_ok ds ts bs \<longleftrightarrow> distinct (map b_id bs) \<and> distinct (map binding_key bs)
     \<and> b_device_id ` set bs \<subseteq> d_id ` set ds \<and> b_target_id ` set bs \<subseteq> t_id ` set ts"

text \<open>A default names a target of its own workspace.\<close>

definition defaults_ok :: "target_row list \<Rightarrow> default_row list \<Rightarrow> bool" where
  "defaults_ok ts fs \<longleftrightarrow> distinct (map df_workspace_id fs)
     \<and> (\<lambda>f. (df_target_id f, df_workspace_id f)) ` set fs \<subseteq> (\<lambda>r. (t_id r, t_workspace_id r)) ` set ts"

definition member_key :: "membership_row \<Rightarrow> ws_id \<times> user_id" where
  "member_key m = (m_workspace_id m, m_user_id m)"

definition control_ok :: "control_db \<Rightarrow> bool" where
  "control_ok db \<longleftrightarrow> devices_ok (users db) (devices db) \<and> credentials_ok (devices db) (credentials db)
     \<and> targets_ok (workspaces db) (targets db) \<and> bindings_ok (devices db) (targets db) (bindings db)
     \<and> defaults_ok (targets db) (defaults db) \<and> distinct (map member_key (memberships db))"

lemmas table_defs = devices_ok_def credentials_ok_def targets_ok_def bindings_ok_def defaults_ok_def

section \<open>New rows\<close>

lemma snoc_ok:
  "devices_ok us (ds @ [r]) \<longleftrightarrow> devices_ok us ds \<and> d_id r \<notin> d_id ` set ds \<and> d_user_id r \<in> u_id ` set us"
  "credentials_ok ds (ks @ [k]) \<longleftrightarrow> credentials_ok ds ks \<and> k_id k \<notin> k_id ` set ks \<and> k_secret_digest k \<notin> k_secret_digest ` set ks
     \<and> k_device_id k \<in> d_id ` set ds \<and> HEX_64_RE (k_secret_digest k) \<and> k_issued_at_ms k < k_expires_at_ms k"
  "targets_ok ws (ts @ [t]) \<longleftrightarrow> targets_ok ws ts \<and> t_id t \<notin> t_id ` set ts \<and> alias_key t \<notin> alias_key ` set ts
     \<and> t_workspace_id t \<in> set ws \<and> target_row_ok t"
  "bindings_ok ds ts (bs @ [b]) \<longleftrightarrow> bindings_ok ds ts bs \<and> b_id b \<notin> b_id ` set bs \<and> binding_key b \<notin> binding_key ` set bs
     \<and> b_device_id b \<in> d_id ` set ds \<and> b_target_id b \<in> t_id ` set ts"
  "defaults_ok ts (fs @ [f]) \<longleftrightarrow> defaults_ok ts fs \<and> df_workspace_id f \<notin> df_workspace_id ` set fs
     \<and> (df_target_id f, df_workspace_id f) \<in> (\<lambda>r. (t_id r, t_workspace_id r)) ` set ts"
  unfolding table_defs by (simp only: map_append set_append distinct_append list.map list.set image_Un Un_subset_iff; safe; simp)+

lemma parent_snoc:
  "credentials_ok ds ks \<Longrightarrow> credentials_ok (ds @ [d]) ks" "bindings_ok ds ts bs \<Longrightarrow> bindings_ok (ds @ [d]) ts bs"
  "bindings_ok ds ts bs \<Longrightarrow> bindings_ok ds (ts @ [t]) bs" "defaults_ok ts fs \<Longrightarrow> defaults_ok (ts @ [t]) fs"
  by (simp_all add: table_defs subset_insertI2)

lemma alias_ex: "list_ex (\<lambda>x. t_workspace_id x = t_workspace_id r \<and> t_alias x = t_alias r) ts \<longleftrightarrow> alias_key r \<in> alias_key ` set ts"
  unfolding list_ex_iff alias_key_def image_iff by (metis prod.inject)

lemma binding_ex: "list_ex (\<lambda>x. b_device_id x = b_device_id b \<and> b_target_id x = b_target_id b) bs \<longleftrightarrow> binding_key b \<in> binding_key ` set bs"
  unfolding list_ex_iff binding_key_def image_iff by (metis prod.inject)

lemma insert_Inr:
  "insert_device d db = Inr db' \<longleftrightarrow> d_id d \<notin> d_id ` set (devices db) \<and> d_user_id d \<in> u_id ` set (users db)
     \<and> db' = db\<lparr>devices := devices db @ [d]\<rparr>"
  "insert_credential k db = Inr db' \<longleftrightarrow> k_id k \<notin> k_id ` set (credentials db) \<and> k_secret_digest k \<notin> k_secret_digest ` set (credentials db)
     \<and> k_device_id k \<in> d_id ` set (devices db) \<and> db' = db\<lparr>credentials := credentials db @ [k]\<rparr>"
  "insert_target r db = Inr db' \<longleftrightarrow> t_id r \<notin> t_id ` set (targets db) \<and> alias_key r \<notin> alias_key ` set (targets db)
     \<and> t_workspace_id r \<in> set (workspaces db) \<and> repository_complete r \<and> db' = db\<lparr>targets := targets db @ [r]\<rparr>"
  "insert_binding b db = Inr db' \<longleftrightarrow> b_id b \<notin> b_id ` set (bindings db) \<and> binding_key b \<notin> binding_key ` set (bindings db)
     \<and> b_device_id b \<in> d_id ` set (devices db) \<and> b_target_id b \<in> t_id ` set (targets db) \<and> db' = db\<lparr>bindings := bindings db @ [b]\<rparr>"
  "insert_default f db = Inr db' \<longleftrightarrow> df_workspace_id f \<notin> df_workspace_id ` set (defaults db) \<and> df_workspace_id f \<in> set (workspaces db)
     \<and> df_target_id f \<in> t_id ` set (targets db) \<and> db' = db\<lparr>defaults := defaults db @ [f]\<rparr>"
  unfolding insert_device_def insert_credential_def insert_target_def insert_binding_def insert_default_def alias_ex binding_ex
  by (simp_all split: if_split) metis+

lemma insert_ok:
  "insert_device d db = Inr db' \<Longrightarrow> control_ok db \<Longrightarrow> control_ok db'"
  "insert_credential k db = Inr db' \<Longrightarrow> HEX_64_RE (k_secret_digest k) \<Longrightarrow> k_issued_at_ms k < k_expires_at_ms k \<Longrightarrow> control_ok db \<Longrightarrow> control_ok db'"
  "insert_target r db = Inr db' \<Longrightarrow> TARGET_ALIAS_RE (t_alias r) \<Longrightarrow> t_kind r \<in> set V1_VALID_TARGET_KINDS \<Longrightarrow> control_ok db \<Longrightarrow> control_ok db'"
  "insert_binding b db = Inr db' \<Longrightarrow> control_ok db \<Longrightarrow> control_ok db'"
  "insert_default f db = Inr db' \<Longrightarrow> (df_target_id f, df_workspace_id f) \<in> (\<lambda>r. (t_id r, t_workspace_id r)) ` set (targets db) \<Longrightarrow>
   control_ok db \<Longrightarrow> control_ok db'"
  unfolding insert_Inr control_ok_def by (clarify; simp add: snoc_ok parent_snoc target_row_ok_def)+

section \<open>Changed rows\<close>

lemma update_rows_map [simp]: "(\<And>r. g (f r) = g r) \<Longrightarrow> map g (update_rows p f rows) = map g rows"
  by (simp add: update_rows_def)

lemma update_rows_image [simp]: "(\<And>r. g (f r) = g r) \<Longrightarrow> g ` set (update_rows p f rows) = g ` set rows"
  using update_rows_map [of g f p rows] by (metis list.set_map)

lemma update_rows_all: "\<forall>r \<in> set rows. Q r \<Longrightarrow> (\<And>r. Q r \<Longrightarrow> p r \<Longrightarrow> Q (f r)) \<Longrightarrow> \<forall>r \<in> set (update_rows p f rows). Q r"
  by (auto simp: update_rows_def)

lemma update_devices_ok:
  assumes "control_ok db" "\<And>r. d_id (f r) = d_id r" "\<And>r. d_user_id (f r) = d_user_id r"
  shows "control_ok (db\<lparr>devices := update_rows p f (devices db)\<rparr>)"
  using assms by (simp add: control_ok_def table_defs)

lemma update_credentials_ok:
  assumes "control_ok db" "\<And>r. k_id (f r) = k_id r" "\<And>r. k_secret_digest (f r) = k_secret_digest r" "\<And>r. k_device_id (f r) = k_device_id r"
    "\<And>r. k_issued_at_ms (f r) = k_issued_at_ms r" "\<And>r. k_expires_at_ms (f r) = k_expires_at_ms r"
  shows "control_ok (db\<lparr>credentials := update_rows p f (credentials db)\<rparr>)"
proof -
  have "\<forall>r \<in> set (update_rows p f (credentials db)). HEX_64_RE (k_secret_digest r) \<and> k_issued_at_ms r < k_expires_at_ms r"
    by (rule update_rows_all) (use assms in \<open>auto simp: control_ok_def credentials_ok_def\<close>)
  then show ?thesis using assms(1-4) by (simp add: control_ok_def credentials_ok_def)
qed

lemma update_bindings_ok:
  assumes "control_ok db" "\<And>r. b_id (f r) = b_id r" "\<And>r. b_device_id (f r) = b_device_id r" "\<And>r. b_target_id (f r) = b_target_id r"
  shows "control_ok (db\<lparr>bindings := update_rows p f (bindings db)\<rparr>)"
  using assms by (simp add: control_ok_def table_defs binding_key_def)

lemma update_targets_ok:
  assumes ok: "control_ok db" and f: "\<And>r. t_id (f r) = t_id r" "\<And>r. t_workspace_id (f r) = t_workspace_id r"
    and keys: "distinct (map alias_key (update_rows p f (targets db)))"
    and rows: "\<And>r. target_row_ok r \<Longrightarrow> p r \<Longrightarrow> target_row_ok (f r)"
  shows "control_ok (db\<lparr>targets := update_rows p f (targets db)\<rparr>)"
  using assms update_rows_all [of "targets db" target_row_ok p f] by (simp add: control_ok_def table_defs)

lemma keep_alias: "targets_ok ws ts \<Longrightarrow> (\<And>r. alias_key (f r) = alias_key r) \<Longrightarrow> distinct (map alias_key (update_rows p f ts))"
  by (simp add: targets_ok_def)

text \<open>A new alias for one target that no other target of its workspace has.\<close>

lemma rename_keys:
  assumes "distinct (map t_id ts)" "distinct (map alias_key ts)" "r \<in> set ts"
    and "\<not> list_ex (\<lambda>x. t_workspace_id x = t_workspace_id r \<and> t_alias x = a \<and> t_id x \<noteq> t_id r) ts"
  shows "distinct (map alias_key (update_rows (\<lambda>x. t_id x = t_id r) (\<lambda>x. x\<lparr>t_alias := a, t_updated_at_ms := now\<rparr>) ts))"
proof -
  have uniq: "x = r" if "x \<in> set ts" "t_id x = t_id r" for x
    using assms(1,3) that by (auto simp: distinct_map dest: inj_onD)
  have old: "x = y" if "x \<in> set ts" "y \<in> set ts" "alias_key x = alias_key y" for x y
    using assms(2) that by (auto simp: distinct_map dest: inj_onD)
  let ?g = "\<lambda>x. if t_id x = t_id r then x\<lparr>t_alias := a, t_updated_at_ms := now\<rparr> else x"
  have "inj_on (\<lambda>x. alias_key (?g x)) (set ts)"
  proof (rule inj_onI)
    fix x y assume x: "x \<in> set ts" "y \<in> set ts" "alias_key (?g x) = alias_key (?g y)"
    show "x = y"
    proof (cases "t_id x = t_id r"; cases "t_id y = t_id r")
      assume "t_id x = t_id r" "t_id y = t_id r"
      then show ?thesis using uniq x by blast
    next
      assume h: "t_id x = t_id r" "t_id y \<noteq> t_id r"
      then have "t_workspace_id y = t_workspace_id r \<and> t_alias y = a" using uniq [OF x(1) h(1)] x(3) by (simp add: alias_key_def)
      then show ?thesis using assms(4) x(2) h(2) by (auto simp: list_ex_iff)
    next
      assume h: "t_id x \<noteq> t_id r" "t_id y = t_id r"
      then have "t_workspace_id x = t_workspace_id r \<and> t_alias x = a" using uniq [OF x(2) h(2)] x(3) by (simp add: alias_key_def)
      then show ?thesis using assms(4) x(1) h(1) by (auto simp: list_ex_iff)
    next
      assume "t_id x \<noteq> t_id r" "t_id y \<noteq> t_id r"
      then show ?thesis using old x by simp
    qed
  qed
  moreover have "distinct ts" using assms(1) by (simp add: distinct_map)
  ultimately show ?thesis by (simp add: update_rows_def distinct_map comp_def inj_on_def)
qed

section \<open>Operations keep the constraints\<close>

lemma find_key:
  assumes "distinct (map key xs)" "x \<in> set xs"
  shows "find (\<lambda>y. key y = key x) xs = Some x"
  using assms by (induction xs) (auto simp: image_iff)

lemma find_update_rows:
  assumes "\<And>r. P (f r) = P r"
  shows "find P (update_rows p f rows) = map_option (\<lambda>r. if p r then f r else r) (find P rows)"
  using assms by (induction rows) (auto simp: update_rows_def)

lemma find_filter: "(\<And>x. P x \<Longrightarrow> Q x) \<Longrightarrow> find P (filter Q xs) = find P xs"
  by (induction xs) auto

lemma find_filter_none: "(\<And>x. P x \<Longrightarrow> \<not> Q x) \<Longrightarrow> find P (filter Q xs) = None"
  by (auto simp: find_None_iff)

lemma find_snoc: "find P (xs @ [x]) = (case find P xs of Some y \<Rightarrow> Some y | None \<Rightarrow> if P x then Some x else None)"
  by (induction xs) auto

lemma found:
  "getDevice db i = Some d \<Longrightarrow> d \<in> set (devices db) \<and> d_id d = i"
  "getExecutionTarget db i = Some r \<Longrightarrow> r \<in> set (targets db) \<and> t_id r = i"
  "target_by_alias db w a = Some r \<Longrightarrow> r \<in> set (targets db) \<and> t_workspace_id r = w \<and> t_alias r = a"
  "binding_of db x i = Some b \<Longrightarrow> b \<in> set (bindings db) \<and> b_device_id b = x \<and> b_target_id b = i"
  "membership_of db w u = Some m \<Longrightarrow> m \<in> set (memberships db) \<and> m_workspace_id m = w \<and> m_user_id m = u"
  "getDefaultAgentRuntimeTarget db w = Some f \<Longrightarrow> f \<in> set (defaults db) \<and> df_workspace_id f = w"
  by (auto simp: getDevice_def getExecutionTarget_def target_by_alias_def binding_of_def membership_of_def
      getDefaultAgentRuntimeTarget_def dest: find_SomeD)

lemma normalized_alias: "normalizeTargetAlias lc a = Inr n \<Longrightarrow> TARGET_ALIAS_RE n"
  by (auto simp: normalizeTargetAlias_def Let_def split: if_splits)

lemma createDevice_ok: "createDevice lc now i u n p db = Inr (db', r) \<Longrightarrow> control_ok db \<Longrightarrow> control_ok db'"
  by (auto simp: createDevice_def Let_def ebind_eq_Inr split: if_splits intro: insert_ok(1))

lemma revokeDevice_ok: "control_ok db \<Longrightarrow> control_ok (fst (revokeDevice now d db))"
  by (simp add: revokeDevice_def Let_def update_devices_ok)

lemma createDeviceCredential_ok: "createDeviceCredential iss i d s e db = Inr (db', r) \<Longrightarrow> control_ok db \<Longrightarrow> control_ok db'"
  by (auto simp: createDeviceCredential_def Let_def ebind_eq_Inr split: if_splits option.splits elim!: insert_ok(2))

lemma revokeDeviceCredential_ok: "control_ok db \<Longrightarrow> control_ok (fst (revokeDeviceCredential now k db))"
  by (simp add: revokeDeviceCredential_def Let_def update_credentials_ok)

lemma finalizeDeviceEnrollment_ok: "finalizeDeviceEnrollment lc i db = Inr (db', r) \<Longrightarrow> control_ok db \<Longrightarrow> control_ok db'"
  by (auto simp: finalizeDeviceEnrollment_def enrollment_rows_def Let_def ebind_eq_Inr split: if_splits option.splits
      intro: insert_ok(1) elim!: insert_ok(2))

lemma createExecutionTarget_ok: "createExecutionTarget lc now n i db = Inr (db', r) \<Longrightarrow> control_ok db \<Longrightarrow> control_ok db'"
  by (auto simp: createExecutionTarget_def Let_def ebind_eq_Inr split: if_splits elim!: insert_ok(3) dest: normalized_alias)

lemma keep_alias_ok: "control_ok db \<Longrightarrow> (\<And>r. alias_key (f r) = alias_key r) \<Longrightarrow> distinct (map alias_key (update_rows p f (targets db)))"
  by (simp add: control_ok_def targets_ok_def)

lemma disableExecutionTarget_ok: "control_ok db \<Longrightarrow> control_ok (fst (disableExecutionTarget now t db))"
  by (auto simp: disableExecutionTarget_def Let_def alias_key_def target_row_ok_def repository_complete_def
      intro!: update_targets_ok keep_alias_ok)

lemma enableExecutionTarget_ok: "control_ok db \<Longrightarrow> control_ok (fst (enableExecutionTarget now t db))"
  by (auto simp: enableExecutionTarget_def Let_def alias_key_def target_row_ok_def repository_complete_def
      intro!: update_targets_ok keep_alias_ok)

lemma reconcile_ok: "control_ok db \<Longrightarrow> control_ok (fst (reconcileExecutionTargetRepositoryMetadata now p e n db))"
  by (auto simp: reconcileExecutionTargetRepositoryMetadata_def Let_def alias_key_def target_row_ok_def repository_complete_def
      intro!: update_targets_ok keep_alias_ok)

lemma filter_both:
  assumes "h ` set xs \<subseteq> k ` set ys"
  shows "h ` set (filter (\<lambda>x. P (h x)) xs) \<subseteq> k ` set (filter (\<lambda>y. P (k y)) ys)"
proof
  fix z assume "z \<in> h ` set (filter (\<lambda>x. P (h x)) xs)"
  then have "P z" "z \<in> k ` set ys" using assms by auto
  then show "z \<in> k ` set (filter (\<lambda>y. P (k y)) ys)" by auto
qed

lemma filter_refs: "f ` set xs \<subseteq> A \<Longrightarrow> f ` set (filter P xs) \<subseteq> A"
  by auto

lemma filter_keys: "distinct (map g xs) \<Longrightarrow> distinct (map g (filter P xs))"
  by (simp add: distinct_map_filter)

lemma delete_targets_ok:
  assumes "targets_ok ws ts"
  shows "targets_ok ws (filter (\<lambda>r. t_id r \<noteq> t) ts)"
  unfolding targets_ok_def
proof (intro conjI)
  show "t_workspace_id ` set (filter (\<lambda>r. t_id r \<noteq> t) ts) \<subseteq> set ws" by (rule filter_refs) (use assms in \<open>simp add: targets_ok_def\<close>)
qed (use assms in \<open>simp_all add: targets_ok_def filter_keys\<close>)

lemma delete_bindings_ok:
  assumes "bindings_ok ds ts bs"
  shows "bindings_ok ds (filter (\<lambda>r. t_id r \<noteq> t) ts) (filter (\<lambda>r. b_target_id r \<noteq> t) bs)"
  unfolding bindings_ok_def
proof (intro conjI)
  show "b_target_id ` set (filter (\<lambda>r. b_target_id r \<noteq> t) bs) \<subseteq> t_id ` set (filter (\<lambda>r. t_id r \<noteq> t) ts)"
    by (rule filter_both [where P = "\<lambda>y. y \<noteq> t"]) (use assms in \<open>simp add: bindings_ok_def\<close>)
  show "b_device_id ` set (filter (\<lambda>r. b_target_id r \<noteq> t) bs) \<subseteq> d_id ` set ds"
    by (rule filter_refs) (use assms in \<open>simp add: bindings_ok_def\<close>)
qed (use assms in \<open>simp_all add: bindings_ok_def filter_keys\<close>)

lemma delete_defaults_ok:
  assumes "defaults_ok ts fs"
  shows "defaults_ok (filter (\<lambda>r. t_id r \<noteq> t) ts) (filter (\<lambda>r. df_target_id r \<noteq> t) fs)"
  unfolding defaults_ok_def
proof (intro conjI)
  show "(\<lambda>f. (df_target_id f, df_workspace_id f)) ` set (filter (\<lambda>r. df_target_id r \<noteq> t) fs)
      \<subseteq> (\<lambda>r. (t_id r, t_workspace_id r)) ` set (filter (\<lambda>r. t_id r \<noteq> t) ts)"
    using filter_both [of "\<lambda>f. (df_target_id f, df_workspace_id f)" fs "\<lambda>r. (t_id r, t_workspace_id r)" ts "\<lambda>y. fst y \<noteq> t"] assms
    unfolding defaults_ok_def fst_conv by simp
qed (use assms in \<open>simp add: defaults_ok_def filter_keys\<close>)

lemma deleteExecutionTargetRow_ok: "control_ok db \<Longrightarrow> control_ok (fst (deleteExecutionTargetRow t db))"
  by (simp add: deleteExecutionTargetRow_def control_ok_def delete_targets_ok delete_bindings_ok delete_defaults_ok)

lemma renameExecutionTarget_ok:
  assumes "renameExecutionTarget lc now t a u db = Inr (db', x)" "control_ok db"
  shows "control_ok db'"
proof -
  obtain n r m where n: "normalizeTargetAlias lc a = Inr n" "getExecutionTarget db t = Some r" "membership_of db (t_workspace_id r) u = Some m"
    using assms(1) by (auto simp: renameExecutionTarget_def ebind_eq_Inr split: option.splits if_splits)
  have r: "r \<in> set (targets db)" "t_id r = t" using found(2) [OF n(2)] by auto
  let ?db = "db\<lparr>targets := update_rows (\<lambda>x. t_id x = t) (\<lambda>x. x\<lparr>t_alias := n, t_updated_at_ms := now\<rparr>) (targets db)\<rparr>"
  have "control_ok ?db"
    if "\<not> list_ex (\<lambda>x. t_workspace_id x = t_workspace_id r \<and> t_alias x = n \<and> t_id x \<noteq> t) (targets db)"
  proof (rule update_targets_ok [OF assms(2)])
    show "distinct (map alias_key (update_rows (\<lambda>x. t_id x = t) (\<lambda>x. x\<lparr>t_alias := n, t_updated_at_ms := now\<rparr>) (targets db)))"
      using rename_keys [of "targets db" r n now] assms(2) r that by (simp add: control_ok_def targets_ok_def)
  qed (use normalized_alias [OF n(1)] in \<open>simp_all add: target_row_ok_def repository_complete_def\<close>)
  then show ?thesis using assms n by (auto simp: renameExecutionTarget_def split: if_splits)
qed

lemma attachRepositoryIdentityToTarget_ok:
  "attachRepositoryIdentityToTarget lc now d w t p n db = Inr (db', x) \<Longrightarrow> control_ok db \<Longrightarrow> control_ok db'"
  by (auto simp: attachRepositoryIdentityToTarget_def attach_identity_def Let_def ebind_eq_Inr alias_key_def target_row_ok_def
      repository_complete_def split: option.splits if_splits intro!: update_targets_ok keep_alias_ok)

lemma setDefaultAgentRuntimeTarget_ok:
  assumes "setDefaultAgentRuntimeTarget now w t u db = Inr (db', x)" "control_ok db"
  shows "control_ok db'"
proof -
  obtain r where r: "getExecutionTarget db t = Some r" "t_workspace_id r = w"
    using assms(1) by (auto simp: setDefaultAgentRuntimeTarget_def split: option.splits if_splits)
  have ref: "(t, w) \<in> (\<lambda>r. (t_id r, t_workspace_id r)) ` set (targets db)" using found(2) [OF r(1)] r(2) by force
  have "control_ok (db\<lparr>defaults := update_rows (\<lambda>x. df_workspace_id x = w) (\<lambda>x. x\<lparr>df_target_id := t, df_updated_at_ms := now\<rparr>) (defaults db)\<rparr>)"
    using assms(2) ref by (auto simp: control_ok_def defaults_ok_def update_rows_def comp_def if_distrib [of df_workspace_id] cong: if_cong)
  then show ?thesis
    using assms r ref insert_ok(5)
    by (auto simp: setDefaultAgentRuntimeTarget_def Let_def ebind_eq_Inr split: option.splits if_splits)
qed

lemma ensure_binding_ok: "ensure_binding now n d t db = Inr (db', x) \<Longrightarrow> control_ok db \<Longrightarrow> control_ok db'"
  by (auto simp: ensure_binding_def Let_def ebind_eq_Inr split: option.splits if_splits intro: insert_ok(4) update_bindings_ok)

lemma disableDeviceTargetBinding_ok: "control_ok db \<Longrightarrow> control_ok (fst (disableDeviceTargetBinding now d t db))"
  by (simp add: disableDeviceTargetBinding_def Let_def update_bindings_ok)

lemma upsertDeviceTargetBinding_ok: "upsertDeviceTargetBinding now n d t db = Inr (db', x) \<Longrightarrow> control_ok db \<Longrightarrow> control_ok db'"
  by (auto simp: upsertDeviceTargetBinding_def ebind_eq_Inr split: option.splits if_splits intro: ensure_binding_ok)

lemma bindTargetForDevice_ok: "bindTargetForDevice now n d t db = Inr (db', x) \<Longrightarrow> control_ok db \<Longrightarrow> control_ok db'"
  by (auto simp: bindTargetForDevice_def ebind_eq_Inr split: if_splits intro: ensure_binding_ok)

lemma unbindTargetForDevice_ok: "unbindTargetForDevice now d t db = Inr (db', x) \<Longrightarrow> control_ok db \<Longrightarrow> control_ok db'"
  by (auto simp: unbindTargetForDevice_def ebind_eq_Inr split: option.splits if_splits intro: disableDeviceTargetBinding_ok)

lemma ensureDeviceBindingAndReturn_ok:
  "ensureDeviceBindingAndReturn now n d c r db = Inr (db', x) \<Longrightarrow> control_ok db \<Longrightarrow> control_ok db'"
  by (auto simp: ensureDeviceBindingAndReturn_def ebind_eq_Inr intro: ensure_binding_ok)

lemma register_create_ok:
  assumes "register_create now n m i a repo db = Inr (db', x)" "TARGET_ALIAS_RE a" "js_trim (rg_kind i) \<in> set V1_VALID_TARGET_KINDS"
    and "control_ok db"
  shows "control_ok db'"
proof -
  obtain r db1 where "insert_target r db = Inr db1" "t_alias r = a" "t_kind r = js_trim (rg_kind i)"
    "insert_binding (fresh_binding now m (rg_device_id i) n) db1 = Inr db'"
    using assms(1) by (fastforce simp: register_create_def Let_def ebind_eq_Inr)
  then show ?thesis using insert_ok(3) [of r db db1] insert_ok(4) assms by metis
qed

lemma register_existing_ok:
  assumes "register_existing now n i repo e db = Inr (db', x)" "e \<in> set (targets db)" "control_ok db"
  shows "control_ok db'"
proof -
  let ?f = "\<lambda>x. x\<lparr>t_repository_full_name := map_option (snd \<circ> snd) repo, t_updated_at_ms := now\<rparr>"
  have "control_ok (db\<lparr>targets := update_rows (\<lambda>x. t_id x = t_id e) ?f (targets db)\<rparr>)"
    if r: "repo \<noteq> None" "t_repository_provider e = map_option fst repo" "t_repository_external_id e = map_option (fst \<circ> snd) repo"
  proof -
    have e: "x = e" if "x \<in> set (targets db)" "t_id x = t_id e" for x
      using assms(2,3) that by (auto simp: control_ok_def targets_ok_def distinct_map dest: inj_onD)
    have rows: "\<forall>x \<in> set (update_rows (\<lambda>x. t_id x = t_id e) ?f (targets db)). target_row_ok x"
      using assms(3) r e by (fastforce simp: update_rows_def control_ok_def targets_ok_def target_row_ok_def repository_complete_def)
    show ?thesis
      using assms(3) rows keep_alias_ok [OF assms(3), of ?f "\<lambda>x. t_id x = t_id e"]
      by (simp add: control_ok_def table_defs alias_key_def)
  qed
  then show ?thesis
    using assms by (auto simp: register_existing_def Let_def split: if_splits intro: ensureDeviceBindingAndReturn_ok)
qed

lemma registerExecutionTargetForDevice_ok:
  assumes "registerExecutionTargetForDevice lc now n m i db = Inr (db', x)" "control_ok db"
  shows "control_ok db'"
proof -
  obtain a role repo where a: "normalizeTargetAlias lc (rg_alias i) = Inr a" "js_trim (rg_kind i) \<in> set V1_VALID_TARGET_KINDS"
    "register_resolved now n m i a role repo db = Inr (db', x)"
    using assms(1) by (auto simp: registerExecutionTargetForDevice_def ebind_eq_Inr split: if_splits)
  have "control_ok db'" if "register_by_alias now n m i a role repo db = Inr (db', x)"
    using that a assms(2) normalized_alias [OF a(1)] register_create_ok register_existing_ok found(3)
    by (auto simp: register_by_alias_def split: option.splits if_splits)
  then show ?thesis
    using a(3) ensureDeviceBindingAndReturn_ok assms(2)
    by (auto simp: register_resolved_def split: option.splits prod.splits if_splits list.splits)
qed

end
