(* ===== verification/Control_Lifecycle.thy ===== *)
theory Control_Lifecycle
  imports Control_Invariant
begin

text \<open>
  The control store as a transition system: one step per operation that changes the database, and one for the
  identity tables that another component owns. The constraints are an invariant of it.
\<close>

section \<open>Reachable databases\<close>

definition empty_control :: control_db where
  "empty_control = \<lparr>users = [], workspaces = [], memberships = [], repo_bindings = [], devices = [], credentials = [],
     targets = [], bindings = [], defaults = []\<rparr>"

text \<open>
  One operation of the store, or a change of the identity tables by the identity store, which keeps their keys
  and deletes no user and no workspace.
\<close>

inductive control_step :: "control_db \<Rightarrow> control_db \<Rightarrow> bool" where
  identity: "distinct (map u_id us) \<Longrightarrow> u_id ` set (users db) \<subseteq> u_id ` set us \<Longrightarrow> set (workspaces db) \<subseteq> set ws \<Longrightarrow>
    distinct (map member_key ms) \<Longrightarrow> control_step db (db\<lparr>users := us, workspaces := ws, memberships := ms, repo_bindings := gs\<rparr>)"
| create_device: "createDevice lc now i u n p db = Inr (db', d) \<Longrightarrow> control_step db db'"
| revoke_device: "control_step db (fst (revokeDevice now i db))"
| create_credential: "createDeviceCredential now i d s e db = Inr (db', k) \<Longrightarrow> control_step db db'"
| revoke_credential: "control_step db (fst (revokeDeviceCredential now k db))"
| enroll: "finalizeDeviceEnrollment lc e db = Inr (db', out) \<Longrightarrow> control_step db db'"
| create_target: "createExecutionTarget lc now i ti db = Inr (db', r) \<Longrightarrow> control_step db db'"
| disable_target: "control_step db (fst (disableExecutionTarget now t db))"
| enable_target: "control_step db (fst (enableExecutionTarget now t db))"
| delete_target: "control_step db (fst (deleteExecutionTargetRow t db))"
| rename_target: "renameExecutionTarget lc now t a u db = Inr (db', out) \<Longrightarrow> control_step db db'"
| reconcile: "control_step db (fst (reconcileExecutionTargetRepositoryMetadata now p e n db))"
| attach: "attachRepositoryIdentityToTarget lc now d w t p n db = Inr (db', out) \<Longrightarrow> control_step db db'"
| set_default: "setDefaultAgentRuntimeTarget now w t u db = Inr (db', out) \<Longrightarrow> control_step db db'"
| upsert: "upsertDeviceTargetBinding now i d t db = Inr (db', b) \<Longrightarrow> control_step db db'"
| disable_binding: "control_step db (fst (disableDeviceTargetBinding now d t db))"
| register: "registerExecutionTargetForDevice lc now i j ri db = Inr (db', out) \<Longrightarrow> control_step db db'"
| bind_target: "bindTargetForDevice now i d t db = Inr (db', out) \<Longrightarrow> control_step db db'"
| unbind: "unbindTargetForDevice now d t db = Inr (db', out) \<Longrightarrow> control_step db db'"

lemma control_step_ok: "control_step db db' \<Longrightarrow> control_ok db \<Longrightarrow> control_ok db'"
proof (induction rule: control_step.induct)
  case (identity us db ws ms gs)
  then have "devices_ok us (devices db)" "targets_ok ws (targets db)"
    by (simp_all only: control_ok_def devices_ok_def targets_ok_def) (meson order_trans)+
  then show ?case using identity by (simp add: control_ok_def)
qed (simp_all add: createDevice_ok revokeDevice_ok createDeviceCredential_ok revokeDeviceCredential_ok finalizeDeviceEnrollment_ok
    createExecutionTarget_ok disableExecutionTarget_ok enableExecutionTarget_ok deleteExecutionTargetRow_ok renameExecutionTarget_ok
    reconcile_ok attachRepositoryIdentityToTarget_ok setDefaultAgentRuntimeTarget_ok upsertDeviceTargetBinding_ok
    disableDeviceTargetBinding_ok registerExecutionTargetForDevice_ok bindTargetForDevice_ok unbindTargetForDevice_ok)

interpretation control: preserved_by control_step control_ok
  by unfold_locales (rule control_step_ok)

end
