(* ===== verification/Control_Samples.thy ===== *)
theory Control_Samples
  imports Control_Lifecycle
begin

text \<open>
  A small control database built by the operations themselves: one owner, one workspace, one enrolled device
  and targets registered from it. The theorems of the control store are exercised on it.
\<close>

definition ascii_lc :: "string \<Rightarrow> string" where "ascii_lc = map ascii_lower"

definition sample_enrollment :: enrollment_input where
  "sample_enrollment = \<lparr>ei_device_id = ''dev_1'', ei_credential_id = ''dcr_1'', ei_user_id = ''usr_1'', ei_display_name = '' Laptop '',
     ei_platform = ''Darwin'', ei_secret_digest = replicate 64 CHR ''a'', ei_issued_at_ms = 1000, ei_expires_at_ms = 9000\<rparr>"

definition sample_identity :: control_db where
  "sample_identity = empty_control\<lparr>users := [\<lparr>u_id = ''usr_1'', u_disabled_at = None\<rparr>], workspaces := [''ws_1''],
     memberships := [\<lparr>m_workspace_id = ''ws_1'', m_user_id = ''usr_1'', m_role = ''owner''\<rparr>], repo_bindings := []\<rparr>"

definition sample_device_row :: device_row where
  "sample_device_row = \<lparr>d_id = ''dev_1'', d_user_id = ''usr_1'', d_display_name = ''Laptop'', d_platform = ''darwin'', d_created_at_ms = 1000,
     d_updated_at_ms = 1000, d_revoked_at_ms = None\<rparr>"

definition sample_credential_row :: credential_row where
  "sample_credential_row = \<lparr>k_id = ''dcr_1'', k_device_id = ''dev_1'', k_secret_digest = replicate 64 CHR ''a'', k_issued_at_ms = 1000,
     k_expires_at_ms = 9000, k_revoked_at_ms = None\<rparr>"

definition sample_control1 :: control_db where
  "sample_control1 = sample_identity\<lparr>devices := [sample_device_row], credentials := [sample_credential_row]\<rparr>"

lemma sample_enrolled:
  "finalizeDeviceEnrollment ascii_lc sample_enrollment sample_identity = Inr (sample_control1, sample_device_row, sample_credential_row, False)"
  by code_simp

definition sample_register :: "string \<Rightarrow> register_input" where
  "sample_register alias = \<lparr>rg_device_id = ''dev_1'', rg_workspace_id = ''ws_1'', rg_alias = alias, rg_display_name = ''App'', rg_kind = ''coding'',
     rg_source = Some RemoteUrl, rg_provider = Some ''GitHub'', rg_full_name = Some ''Octo/App.git''\<rparr>"

definition sample_target_row :: "target_id \<Rightarrow> string \<Rightarrow> string \<Rightarrow> int \<Rightarrow> target_row" where
  "sample_target_row i alias ext now = \<lparr>t_id = i, t_workspace_id = ''ws_1'', t_alias = alias, t_display_name = ''App'', t_kind = ''coding'',
     t_repository_provider = Some ''github'', t_repository_external_id = Some ext, t_repository_full_name = Some ''octo/app'',
     t_created_at_ms = now, t_updated_at_ms = now, t_disabled_at_ms = None\<rparr>"

definition sample_registration :: "target_row \<Rightarrow> binding_id \<Rightarrow> int \<Rightarrow> registration" where
  "sample_registration r b now = \<lparr>rr_target = r, rr_binding = fresh_binding now b ''dev_1'' (t_id r), rr_target_created = True,
     rr_binding_created = True, rr_replayed = False\<rparr>"

definition sample_target1 :: target_row where "sample_target1 = sample_target_row ''tgt_1'' ''app'' ''octo/app'' 2000"

definition sample_control2 :: control_db where
  "sample_control2 = sample_control1\<lparr>targets := [sample_target1], bindings := [fresh_binding 2000 ''dtb_1'' ''dev_1'' ''tgt_1'']\<rparr>"

lemma sample_registered:
  "registerExecutionTargetForDevice ascii_lc 2000 ''tgt_1'' ''dtb_1'' (sample_register ''app'') sample_control1
     = Inr (sample_control2, sample_registration sample_target1 ''dtb_1'' 2000)"
  by code_simp

text \<open>The workspace gets a GitHub binding for the same repository.\<close>

definition sample_control3 :: control_db where
  "sample_control3 = sample_control2\<lparr>users := users sample_control2, workspaces := workspaces sample_control2,
     memberships := memberships sample_control2,
     repo_bindings := [\<lparr>g_workspace_id = ''ws_1'', g_repository_id = ''42'', g_full_name = ''Octo/App''\<rparr>]\<rparr>"

definition sample_target2 :: target_row where "sample_target2 = sample_target_row ''tgt_2'' ''app-2'' ''42'' 3000"

definition sample_control4 :: control_db where
  "sample_control4 = sample_control3\<lparr>targets := [sample_target1, sample_target2],
     bindings := [fresh_binding 2000 ''dtb_1'' ''dev_1'' ''tgt_1'', fresh_binding 3000 ''dtb_2'' ''dev_1'' ''tgt_2'']\<rparr>"

lemma sample_registered_again:
  "registerExecutionTargetForDevice ascii_lc 3000 ''tgt_2'' ''dtb_2'' (sample_register ''app-2'') sample_control3
     = Inr (sample_control4, sample_registration sample_target2 ''dtb_2'' 3000)"
  by code_simp

lemma sample_control_reach:
  "control_step\<^sup>*\<^sup>* empty_control sample_control1" "control_step\<^sup>*\<^sup>* empty_control sample_control2" "control_step\<^sup>*\<^sup>* empty_control sample_control4"
  "control_step\<^sup>*\<^sup>* empty_control sample_control3"
proof -
  have "control_step empty_control sample_identity" unfolding sample_identity_def by (rule identity) (simp_all add: empty_control_def)
  then have "control_step\<^sup>*\<^sup>* empty_control sample_identity" by (rule r_into_rtranclp)
  then show 1: "control_step\<^sup>*\<^sup>* empty_control sample_control1" using enroll [OF sample_enrolled] by (rule rtranclp.rtrancl_into_rtrancl)
  then show 2: "control_step\<^sup>*\<^sup>* empty_control sample_control2" using register [OF sample_registered] by (rule rtranclp.rtrancl_into_rtrancl)
  have "control_step sample_control2 sample_control3" unfolding sample_control3_def
    by (rule identity) (simp_all add: sample_control2_def sample_control1_def sample_identity_def)
  with 2 show "control_step\<^sup>*\<^sup>* empty_control sample_control3" by (rule rtranclp.rtrancl_into_rtrancl)
  then show "control_step\<^sup>*\<^sup>* empty_control sample_control4" using register [OF sample_registered_again] by (rule rtranclp.rtrancl_into_rtrancl)
qed

lemma sample_control_ok: "control_ok sample_control1" "control_ok sample_control2"
  by (rule control.inv_star [OF sample_control_reach(1)] control.inv_star [OF sample_control_reach(2)];
      simp add: control_ok_def table_defs empty_control_def)+

end
