(* ===== verification/Control_Eligibility.thy ===== *)
theory Control_Eligibility
  imports Control_Samples
begin

text \<open>
  Which device may work on which target. The store answers this twice, row by row
  (\<^verbatim>\<open>resolveEligibleBinding\<close>, used when a job is claimed) and with one join
  (\<^verbatim>\<open>listEligibleTargetIdsForDevice\<close>, used when a device asks for work). The two agree on every database
  that satisfies the constraints, and every revocation takes effect at once.
\<close>

section \<open>A join on a key is a lookup\<close>

lemma join_none: "(\<And>x. x \<in> set xs \<Longrightarrow> \<not> P x) \<Longrightarrow> concat (map (\<lambda>x. if P x then g x else []) xs) = []"
  by (induction xs) auto

lemma join_key:
  assumes "distinct (map key xs)"
  shows "concat (map (\<lambda>x. if key x = k \<and> P x then g x else []) xs)
    = (case find (\<lambda>x. key x = k) xs of None \<Rightarrow> [] | Some x \<Rightarrow> if P x then g x else [])"
  using assms
proof (induction xs)
  case (Cons a xs)
  show ?case
  proof (cases "key a = k")
    case True
    then have "concat (map (\<lambda>x. if key x = k \<and> P x then g x else []) xs) = []"
      using Cons.prems by (intro join_none) (auto simp: image_iff)
    then show ?thesis using True by simp
  next
    case False
    then show ?thesis using Cons by simp
  qed
qed simp

text \<open>The same for a condition that does not name the joined row.\<close>

lemma join_exists:
  assumes "distinct (map key xs)"
  shows "concat (map (\<lambda>x. if key x = k \<and> C then g else []) xs) = (if C \<and> find (\<lambda>x. key x = k) xs \<noteq> None then g else [])"
  using join_key [OF assms, of k "\<lambda>_. C" "\<lambda>_. g"] by (auto split: option.splits)

definition eligible_binding :: "control_db \<Rightarrow> device_id \<Rightarrow> binding_row \<Rightarrow> bool" where
  "eligible_binding db dev b \<longleftrightarrow> b_device_id b = dev \<and> b_disabled_at_ms b = None
     \<and> (case getDevice db (b_device_id b) of None \<Rightarrow> False | Some d \<Rightarrow> d_revoked_at_ms d = None
        \<and> (case user_of db (d_user_id d) of None \<Rightarrow> False | Some u \<Rightarrow> u_disabled_at u = None
           \<and> (case getExecutionTarget db (b_target_id b) of None \<Rightarrow> False | Some r \<Rightarrow> t_disabled_at_ms r = None
              \<and> membership_of db (t_workspace_id r) (d_user_id d) \<noteq> None)))"

lemma membership_key: "membership_of db w u = find (\<lambda>m. member_key m = (w, u)) (memberships db)"
  by (simp add: membership_of_def member_key_def)

lemma concat_if: "concat (map (\<lambda>x. if P x then [x] else []) xs) = filter P xs"
  by (induction xs) simp_all

lemma join_is_filter:
  assumes "control_ok db"
  shows "listEligibleTargetIdsForDevice db dev = map b_target_id (sort_key b_created_at_ms (filter (eligible_binding db dev) (bindings db)))"
proof -
  have keys: "distinct (map member_key (memberships db))" "distinct (map t_id (targets db))" "distinct (map u_id (users db))"
    "distinct (map d_id (devices db))"
    using assms by (simp_all add: control_ok_def table_defs)
  have m: "concat (map (\<lambda>m. if d_id d = b_device_id b \<and> u_id u = d_user_id d \<and> t_id r = b_target_id b
             \<and> m_workspace_id m = t_workspace_id r \<and> m_user_id m = d_user_id d
             \<and> b_device_id b = dev \<and> b_disabled_at_ms b = None \<and> d_revoked_at_ms d = None
             \<and> u_disabled_at u = None \<and> t_disabled_at_ms r = None then [b] else []) (memberships db))
      = (if t_id r = b_target_id b \<and> (d_id d = b_device_id b \<and> u_id u = d_user_id d \<and> b_device_id b = dev \<and> b_disabled_at_ms b = None
             \<and> d_revoked_at_ms d = None \<and> u_disabled_at u = None) \<and> t_disabled_at_ms r = None
             \<and> membership_of db (t_workspace_id r) (d_user_id d) \<noteq> None then [b] else [])" for b d u r
    using join_exists [OF keys(1), of "(t_workspace_id r, d_user_id d)" "d_id d = b_device_id b \<and> u_id u = d_user_id d \<and> t_id r = b_target_id b
             \<and> b_device_id b = dev \<and> b_disabled_at_ms b = None \<and> d_revoked_at_ms d = None \<and> u_disabled_at u = None \<and> t_disabled_at_ms r = None" "[b]"]
    by (simp add: membership_key member_key_def conj_ac cong: if_cong)
  have t: "concat (map (\<lambda>r. if t_id r = b_target_id b \<and> (d_id d = b_device_id b \<and> u_id u = d_user_id d \<and> b_device_id b = dev \<and> b_disabled_at_ms b = None
             \<and> d_revoked_at_ms d = None \<and> u_disabled_at u = None) \<and> t_disabled_at_ms r = None
             \<and> membership_of db (t_workspace_id r) (d_user_id d) \<noteq> None then [b] else []) (targets db))
      = (if u_id u = d_user_id d \<and> (d_id d = b_device_id b \<and> b_device_id b = dev \<and> b_disabled_at_ms b = None \<and> d_revoked_at_ms d = None)
           \<and> u_disabled_at u = None \<and> (case getExecutionTarget db (b_target_id b) of None \<Rightarrow> False | Some r \<Rightarrow> t_disabled_at_ms r = None
              \<and> membership_of db (t_workspace_id r) (d_user_id d) \<noteq> None) then [b] else [])" for b d u
    by (subst join_key [OF keys(2)]) (auto simp: getExecutionTarget_def split: option.splits)
  have u: "concat (map (\<lambda>u. if u_id u = d_user_id d \<and> (d_id d = b_device_id b \<and> b_device_id b = dev \<and> b_disabled_at_ms b = None \<and> d_revoked_at_ms d = None)
           \<and> u_disabled_at u = None \<and> (case getExecutionTarget db (b_target_id b) of None \<Rightarrow> False | Some r \<Rightarrow> t_disabled_at_ms r = None
              \<and> membership_of db (t_workspace_id r) (d_user_id d) \<noteq> None) then [b] else []) (users db))
      = (if d_id d = b_device_id b \<and> (b_device_id b = dev \<and> b_disabled_at_ms b = None \<and> d_revoked_at_ms d = None)
           \<and> (case user_of db (d_user_id d) of None \<Rightarrow> False | Some u \<Rightarrow> u_disabled_at u = None
              \<and> (case getExecutionTarget db (b_target_id b) of None \<Rightarrow> False | Some r \<Rightarrow> t_disabled_at_ms r = None
                 \<and> membership_of db (t_workspace_id r) (d_user_id d) \<noteq> None)) then [b] else [])" for b d
    by (subst join_key [OF keys(3)]) (auto simp: user_of_def split: option.splits)
  have d: "concat (map (\<lambda>d. if d_id d = b_device_id b \<and> (b_device_id b = dev \<and> b_disabled_at_ms b = None \<and> d_revoked_at_ms d = None)
           \<and> (case user_of db (d_user_id d) of None \<Rightarrow> False | Some u \<Rightarrow> u_disabled_at u = None
              \<and> (case getExecutionTarget db (b_target_id b) of None \<Rightarrow> False | Some r \<Rightarrow> t_disabled_at_ms r = None
                 \<and> membership_of db (t_workspace_id r) (d_user_id d) \<noteq> None)) then [b] else []) (devices db))
      = (if eligible_binding db dev b then [b] else [])" for b
    by (subst join_key [OF keys(4)]) (auto simp: getDevice_def eligible_binding_def split: option.splits)
  show ?thesis unfolding listEligibleTargetIdsForDevice_def m t u d concat_if ..
qed

lemma resolve_eligible_iff:
  "is_eligible (resolveEligibleBinding db dev t) \<longleftrightarrow> (\<exists>b. binding_of db dev t = Some b \<and> eligible_binding db dev b)"
  by (auto simp: resolveEligibleBinding_def is_eligible_def eligible_binding_def dest: found(4) split: option.splits if_splits)

lemma binding_unique:
  assumes "control_ok db" "b \<in> set (bindings db)"
  shows "binding_of db (b_device_id b) (b_target_id b) = Some b"
  using find_key [of binding_key "bindings db" b] assms
  by (simp add: binding_of_def binding_key_def control_ok_def bindings_ok_def)

text \<open>
  The two answers to the same question agree: a target is listed as eligible for a device precisely when
  the claim check would accept the pair, and it is listed once.
\<close>

theorem eligible_list_agrees_with_check:
  assumes "control_ok db"
  shows "(t \<in> set (listEligibleTargetIdsForDevice db dev) \<longleftrightarrow> is_eligible (resolveEligibleBinding db dev t))
    \<and> distinct (listEligibleTargetIdsForDevice db dev)"
proof
  show "t \<in> set (listEligibleTargetIdsForDevice db dev) \<longleftrightarrow> is_eligible (resolveEligibleBinding db dev t)"
  proof
    assume "t \<in> set (listEligibleTargetIdsForDevice db dev)"
    then obtain b where "b \<in> set (bindings db)" "eligible_binding db dev b" "b_target_id b = t" by (auto simp: join_is_filter [OF assms])
    then show "is_eligible (resolveEligibleBinding db dev t)"
      using binding_unique [OF assms] by (auto simp: resolve_eligible_iff eligible_binding_def)
  next
    assume "is_eligible (resolveEligibleBinding db dev t)"
    then show "t \<in> set (listEligibleTargetIdsForDevice db dev)"
      by (auto simp: resolve_eligible_iff join_is_filter [OF assms] dest: found(4))
  qed
  have "inj_on binding_key (set (bindings db))" "distinct (bindings db)"
    using assms by (simp_all add: control_ok_def bindings_ok_def distinct_map)
  then have "inj_on b_target_id (set (filter (eligible_binding db dev) (bindings db)))"
    unfolding inj_on_def by (simp add: eligible_binding_def binding_key_def)
  then show "distinct (listEligibleTargetIdsForDevice db dev)"
    using \<open>distinct (bindings db)\<close> by (simp add: join_is_filter [OF assms] distinct_map)
qed

lemma sample_listed: "listEligibleTargetIdsForDevice sample_control2 ''dev_1'' = [''tgt_1'']"
  by code_simp

theorem eligible_list_agrees_with_check_witness:
  "''tgt_1'' \<in> set (listEligibleTargetIdsForDevice sample_control2 ''dev_1'')
   \<and> is_eligible (resolveEligibleBinding sample_control2 ''dev_1'' ''tgt_1'') \<and> \<not> is_eligible (resolveEligibleBinding sample_control2 ''dev_1'' ''tgt_2'')"
  using eligible_list_agrees_with_check [OF sample_control_ok(2), of "''tgt_1''" "''dev_1''"]
    eligible_list_agrees_with_check [OF sample_control_ok(2), of "''tgt_2''" "''dev_1''"] by (simp add: sample_listed)

section \<open>Revocation\<close>

lemmas lookup_defs = getDevice_def user_of_def getExecutionTarget_def binding_of_def membership_of_def

lemma after_revokeDevice:
  "getDevice (fst (revokeDevice now d db)) i
     = map_option (\<lambda>r. if i = d \<and> d_revoked_at_ms r = None then r\<lparr>d_revoked_at_ms := Some now, d_updated_at_ms := now\<rparr> else r) (getDevice db i)"
  "user_of (fst (revokeDevice now d db)) = user_of db" "getExecutionTarget (fst (revokeDevice now d db)) = getExecutionTarget db"
  "binding_of (fst (revokeDevice now d db)) = binding_of db" "membership_of (fst (revokeDevice now d db)) = membership_of db"
  by (auto simp: lookup_defs revokeDevice_def Let_def find_update_rows fun_eq_iff dest: find_SomeD intro!: option.map_cong0 map_option_cong)

lemma after_disableExecutionTarget:
  "getExecutionTarget (fst (disableExecutionTarget now t db)) i
     = map_option (\<lambda>r. if i = t \<and> t_disabled_at_ms r = None then r\<lparr>t_disabled_at_ms := Some now, t_updated_at_ms := now\<rparr> else r) (getExecutionTarget db i)"
  "user_of (fst (disableExecutionTarget now t db)) = user_of db" "getDevice (fst (disableExecutionTarget now t db)) = getDevice db"
  "binding_of (fst (disableExecutionTarget now t db)) = binding_of db" "membership_of (fst (disableExecutionTarget now t db)) = membership_of db"
  by (auto simp: lookup_defs disableExecutionTarget_def Let_def find_update_rows fun_eq_iff dest: find_SomeD intro!: map_option_cong)

lemma after_disableBinding:
  "binding_of (fst (disableDeviceTargetBinding now d t db)) i j
     = map_option (\<lambda>r. if i = d \<and> j = t \<and> b_disabled_at_ms r = None then r\<lparr>b_disabled_at_ms := Some now, b_updated_at_ms := now\<rparr> else r) (binding_of db i j)"
  "user_of (fst (disableDeviceTargetBinding now d t db)) = user_of db" "getDevice (fst (disableDeviceTargetBinding now d t db)) = getDevice db"
  "getExecutionTarget (fst (disableDeviceTargetBinding now d t db)) = getExecutionTarget db"
  "membership_of (fst (disableDeviceTargetBinding now d t db)) = membership_of db"
  by (auto simp: lookup_defs disableDeviceTargetBinding_def Let_def find_update_rows fun_eq_iff dest: find_SomeD intro!: map_option_cong)

lemma after_deleteTarget:
  "getExecutionTarget (fst (deleteExecutionTargetRow t db)) i = (if i = t then None else getExecutionTarget db i)"
  "binding_of (fst (deleteExecutionTargetRow t db)) d i = (if i = t then None else binding_of db d i)"
  "user_of (fst (deleteExecutionTargetRow t db)) = user_of db" "getDevice (fst (deleteExecutionTargetRow t db)) = getDevice db"
  "membership_of (fst (deleteExecutionTargetRow t db)) = membership_of db"
  by (auto simp: lookup_defs deleteExecutionTargetRow_def fun_eq_iff intro!: find_filter find_filter_none)

lemma resolve_cong:
  assumes "getDevice db' d = getDevice db d" "user_of db' = user_of db" "getExecutionTarget db' t = getExecutionTarget db t"
    "binding_of db' d t = binding_of db d t" "membership_of db' = membership_of db"
  shows "resolveEligibleBinding db' d t = resolveEligibleBinding db d t"
  unfolding resolveEligibleBinding_def assms ..

text \<open>
  C17. Revocation takes effect at once and only where it should. After a device is revoked, a target is disabled or
  deleted, or a binding is disabled, the device is not eligible for the target; every pair that does not
  involve the revoked object keeps its eligibility.
\<close>

theorem revocation_takes_effect:
  "\<not> is_eligible (resolveEligibleBinding (fst (revokeDevice now d db)) d t)
   \<and> \<not> is_eligible (resolveEligibleBinding (fst (disableExecutionTarget now t db)) d t)
   \<and> \<not> is_eligible (resolveEligibleBinding (fst (deleteExecutionTargetRow t db)) d t)
   \<and> \<not> is_eligible (resolveEligibleBinding (fst (disableDeviceTargetBinding now d t db)) d t)
   \<and> (d' = d \<or> resolveEligibleBinding (fst (revokeDevice now d db)) d' t' = resolveEligibleBinding db d' t')
   \<and> (t' = t \<or> resolveEligibleBinding (fst (disableExecutionTarget now t db)) d' t' = resolveEligibleBinding db d' t'
            \<and> resolveEligibleBinding (fst (deleteExecutionTargetRow t db)) d' t' = resolveEligibleBinding db d' t')
   \<and> ((d', t') = (d, t) \<or> resolveEligibleBinding (fst (disableDeviceTargetBinding now d t db)) d' t' = resolveEligibleBinding db d' t')"
proof (intro conjI)
  note e = resolveEligibleBinding_def is_eligible_def
  show "\<not> is_eligible (resolveEligibleBinding (fst (revokeDevice now d db)) d t)"
    by (cases "getDevice db d"; cases "map_option d_revoked_at_ms (getDevice db d)") (auto simp: e after_revokeDevice)
  show "\<not> is_eligible (resolveEligibleBinding (fst (disableExecutionTarget now t db)) d t)"
    by (cases "getExecutionTarget db t") (simp_all add: e after_disableExecutionTarget split: option.split)
  show "\<not> is_eligible (resolveEligibleBinding (fst (deleteExecutionTargetRow t db)) d t)"
    by (simp add: e after_deleteTarget split: option.split)
  show "\<not> is_eligible (resolveEligibleBinding (fst (disableDeviceTargetBinding now d t db)) d t)"
    by (cases "binding_of db d t") (simp_all add: e after_disableBinding split: option.split)
  show "d' = d \<or> resolveEligibleBinding (fst (revokeDevice now d db)) d' t' = resolveEligibleBinding db d' t'"
    by (cases "d' = d") (simp, intro disjI2 resolve_cong, simp_all add: after_revokeDevice option.map_ident)
  show "t' = t \<or> resolveEligibleBinding (fst (disableExecutionTarget now t db)) d' t' = resolveEligibleBinding db d' t'
            \<and> resolveEligibleBinding (fst (deleteExecutionTargetRow t db)) d' t' = resolveEligibleBinding db d' t'"
    by (cases "t' = t") (simp, intro disjI2 conjI resolve_cong, simp_all add: after_disableExecutionTarget after_deleteTarget option.map_ident)
  show "(d', t') = (d, t) \<or> resolveEligibleBinding (fst (disableDeviceTargetBinding now d t db)) d' t' = resolveEligibleBinding db d' t'"
    by (cases "d' = d \<and> t' = t") (simp, intro disjI2 resolve_cong, auto simp: after_disableBinding option.map_ident)
qed

end
