(* ===== verification/Control_Properties.thy ===== *)
theory Control_Properties
  imports Control_Eligibility
begin

text \<open>
  What the control store guarantees: its constraints on every reachable database, registration and enrollment
  that can be repeated safely, renaming that keeps the identity of a target, workspace defaults that never
  dangle, and the one place where the repository identity of targets is not unique.
\<close>

section \<open>Constraints\<close>

text \<open>
  C16. The constraints hold on every database the operations can reach: identifiers, alias names per workspace,
  secrets and device-target pairs are unique, every reference has its row, repository data is complete or
  absent, aliases and kinds are well formed, credentials expire after they are issued, and a workspace default
  names a target of that workspace.
\<close>

theorem control_constraints_hold:
  assumes "control_step\<^sup>*\<^sup>* empty_control db"
  shows "control_ok db"
  by (rule control.inv_star [OF assms]) (simp add: control_ok_def table_defs empty_control_def)

theorem control_constraints_hold_witness: "control_ok sample_control4"
  by (rule control_constraints_hold [OF sample_control_reach(3)])

section \<open>Registration\<close>

lemma ensured_binding:
  assumes "ensure_binding now n d t db = Inr (db', b, live)"
  shows "db' = db\<lparr>bindings := bindings db'\<rparr> \<and> binding_of db' d t = Some b \<and> b_disabled_at_ms b = None"
proof (cases "binding_of db d t")
  case None
  then have "binding_of (db\<lparr>bindings := bindings db @ [fresh_binding now n d t]\<rparr>) d t = Some (fresh_binding now n d t)"
    by (simp add: binding_of_def find_snoc) (simp add: fresh_binding_def)
  then show ?thesis
    using None assms by (auto simp: ensure_binding_def Let_def ebind_eq_Inr insert_Inr) (simp add: fresh_binding_def)
next
  case (Some e)
  let ?f = "\<lambda>x. x\<lparr>b_disabled_at_ms := None, b_updated_at_ms := now\<rparr>"
  have "binding_of (db\<lparr>bindings := update_rows (\<lambda>x. b_id x = b_id e) ?f (bindings db)\<rparr>) d t = Some (?f e)"
    using Some by (simp add: binding_of_def find_update_rows)
  then show ?thesis using Some assms by (auto simp: ensure_binding_def Let_def split: if_splits)
qed

lemma ensure_again: "binding_of db d t = Some b \<Longrightarrow> b_disabled_at_ms b = None \<Longrightarrow> ensure_binding now n d t db = Inr (db, b, True)"
  by (simp add: ensure_binding_def)

lemma ensured_lookups:
  assumes "db' = db\<lparr>bindings := bindings db'\<rparr>"
  shows "users db' = users db" "workspaces db' = workspaces db" "memberships db' = memberships db" "repo_bindings db' = repo_bindings db"
    "devices db' = devices db" "targets db' = targets db"
  by (subst assms, simp)+

definition as_replay :: "registration \<Rightarrow> registration" where
  "as_replay x = x\<lparr>rr_target_created := False, rr_binding_created := False, rr_replayed := True\<rparr>"

lemma returned_again:
  assumes "ensureDeviceBindingAndReturn now n d c r db = Inr (db', x)"
  shows "db' = db\<lparr>bindings := bindings db'\<rparr>" "rr_target x = r" "ensureDeviceBindingAndReturn now' n' d False r db' = Inr (db', as_replay x)"
    "binding_of db' d (t_id r) = Some (rr_binding x)" "b_disabled_at_ms (rr_binding x) = None"
proof -
  obtain b live where e: "ensure_binding now n d (t_id r) db = Inr (db', b, live)" "rr_target x = r" "rr_binding x = b"
    using assms by (auto simp: ensureDeviceBindingAndReturn_def ebind_eq_Inr)
  note b = ensured_binding [OF e(1)]
  show "db' = db\<lparr>bindings := bindings db'\<rparr>" "rr_target x = r" using b e by simp_all
  show "binding_of db' d (t_id r) = Some (rr_binding x)" "b_disabled_at_ms (rr_binding x) = None" using b e(3) by simp_all
  show "ensureDeviceBindingAndReturn now' n' d False r db' = Inr (db', as_replay x)"
    using b e ensure_again [of db' d "t_id r" b now' n'] by (cases x) (simp add: ensureDeviceBindingAndReturn_def as_replay_def)
qed

lemma created_again:
  assumes "register_create now n m i a repo db = Inr (db', x)" "target_by_alias db (rg_workspace_id i) a = None"
  shows "target_by_alias db' (rg_workspace_id i) a = Some (rr_target x)"
    and "ensureDeviceBindingAndReturn now' m' (rg_device_id i) False (rr_target x) db' = Inr (db', as_replay x)"
    and "register_existing now' m' i repo (rr_target x) db' = Inr (db', as_replay x)"
    and "targets db' = targets db @ [rr_target x]" "t_workspace_id (rr_target x) = rg_workspace_id i" "t_disabled_at_ms (rr_target x) = None"
    and "t_kind (rr_target x) = js_trim (rg_kind i)" "t_repository_provider (rr_target x) = map_option fst repo"
    and "t_repository_external_id (rr_target x) = map_option (fst \<circ> snd) repo"
proof -
  obtain r where x: "x = \<lparr>rr_target = r, rr_binding = fresh_binding now m (rg_device_id i) n, rr_target_created = True, rr_binding_created = True, rr_replayed = False\<rparr>"
    and r: "r = \<lparr>t_id = n, t_workspace_id = rg_workspace_id i, t_alias = a, t_display_name = js_trim (rg_display_name i),
               t_kind = js_trim (rg_kind i), t_repository_provider = map_option fst repo,
               t_repository_external_id = map_option (fst \<circ> snd) repo, t_repository_full_name = map_option (snd \<circ> snd) repo,
               t_created_at_ms = now, t_updated_at_ms = now, t_disabled_at_ms = None\<rparr>"
    and db': "db' = db\<lparr>targets := targets db @ [r], bindings := bindings db @ [fresh_binding now m (rg_device_id i) n]\<rparr>"
    and fresh: "binding_key (fresh_binding now m (rg_device_id i) n) \<notin> binding_key ` set (bindings db)"
    using assms(1) by (auto simp: register_create_def Let_def ebind_eq_Inr insert_Inr)
  show "targets db' = targets db @ [rr_target x]" "t_workspace_id (rr_target x) = rg_workspace_id i" "t_disabled_at_ms (rr_target x) = None"
    "t_kind (rr_target x) = js_trim (rg_kind i)" "t_repository_provider (rr_target x) = map_option fst repo"
    "t_repository_external_id (rr_target x) = map_option (fst \<circ> snd) repo"
    by (simp_all add: x r db')
  show "target_by_alias db' (rg_workspace_id i) a = Some (rr_target x)"
    using assms(2) by (simp add: target_by_alias_def db' find_snoc x) (simp add: r)
  have "find (\<lambda>b. b_device_id b = rg_device_id i \<and> b_target_id b = n) (bindings db) = None"
    using fresh by (force simp: find_None_iff binding_key_def fresh_binding_def image_iff)
  then have "binding_of db' (rg_device_id i) n = Some (fresh_binding now m (rg_device_id i) n)"
    by (simp add: binding_of_def db' find_snoc) (simp add: fresh_binding_def)
  then show e: "ensureDeviceBindingAndReturn now' m' (rg_device_id i) False (rr_target x) db' = Inr (db', as_replay x)"
    using ensure_again [of db' "rg_device_id i" n "fresh_binding now m (rg_device_id i) n" now' m']
    by (simp add: ensureDeviceBindingAndReturn_def as_replay_def x r) (simp add: fresh_binding_def)
  show "register_existing now' m' i repo (rr_target x) db' = Inr (db', as_replay x)"
    using e by (simp add: register_existing_def Let_def x r)
qed

lemma existing_again:
  assumes "register_existing now m i repo e db = Inr (db', x)" "target_by_alias db (rg_workspace_id i) a = Some e"
  shows "target_by_alias db' (rg_workspace_id i) a = Some (rr_target x)"
    and "register_existing now' m' i repo (rr_target x) db' = Inr (db', as_replay x)"
    and "t_disabled_at_ms e = None" "t_repository_provider e = map_option fst repo" "t_repository_external_id e = map_option (fst \<circ> snd) repo"
proof -
  let ?full = "map_option (snd \<circ> snd) repo"
  let ?f = "\<lambda>x. x\<lparr>t_repository_full_name := ?full, t_updated_at_ms := now\<rparr>"
  show e: "t_disabled_at_ms e = None" "t_repository_provider e = map_option fst repo" "t_repository_external_id e = map_option (fst \<circ> snd) repo"
    using assms(1) by (auto simp: register_existing_def split: if_splits)
  have same: "t_kind e = js_trim (rg_kind i)" "t_display_name e = js_trim (rg_display_name i)"
    using assms(1) by (auto simp: register_existing_def split: if_splits)
  let ?c = "?full \<noteq> None \<and> t_repository_full_name e \<noteq> ?full"
  let ?db = "db\<lparr>targets := update_rows (\<lambda>x. t_id x = t_id e) ?f (targets db)\<rparr>"
  have ex: "(if ?c then ensureDeviceBindingAndReturn now m (rg_device_id i) False (?f e) ?db
      else ensureDeviceBindingAndReturn now m (rg_device_id i) False e db) = Inr (db', x)"
    using assms(1) e same unfolding register_existing_def Let_def by (simp only: if_False simp_thms)
  obtain e' db1 where s: "ensureDeviceBindingAndReturn now m (rg_device_id i) False e' db1 = Inr (db', x)"
    "target_by_alias db1 (rg_workspace_id i) a = Some e'"
    "?full = None \<or> t_repository_full_name e' = ?full" "t_disabled_at_ms e' = None" "t_kind e' = t_kind e" "t_display_name e' = t_display_name e"
    "t_repository_provider e' = t_repository_provider e" "t_repository_external_id e' = t_repository_external_id e"
  proof (cases ?c)
    case True
    have "target_by_alias ?db (rg_workspace_id i) a = Some (?f e)" using assms(2) by (simp add: target_by_alias_def find_update_rows)
    then show ?thesis using that [of "?f e" ?db] ex e unfolding if_P [OF True] by simp
  next
    case False
    then have "?full = None \<or> t_repository_full_name e = ?full" by (rule contrapos_np) (simp only: de_Morgan_disj not_False_eq_True simp_thms)
    then show ?thesis using that [of e db] ex e assms(2) unfolding if_not_P [OF False] by (simp only: simp_thms)
  qed
  note q = returned_again [OF s(1)]
  show "target_by_alias db' (rg_workspace_id i) a = Some (rr_target x)"
    using s(2) by (simp add: target_by_alias_def ensured_lookups [OF q(1)] q(2))
  show "register_existing now' m' i repo (rr_target x) db' = Inr (db', as_replay x)"
    using q(3) [of now' m'] s(3-) e same by (auto simp: register_existing_def Let_def q(2))
qed

lemma sort_key_Nil_iff [simp]: "sort_key f xs = [] \<longleftrightarrow> xs = []"
  by (metis length_0_conv length_sort)

lemma repo_rows_nil: "repo_rows db w p e = [] \<Longrightarrow> r \<in> set (targets db) \<Longrightarrow> t_workspace_id r = w \<Longrightarrow> t_repository_provider r = Some p \<Longrightarrow>
    t_repository_external_id r = Some e \<Longrightarrow> t_disabled_at_ms r \<noteq> None"
  by (simp add: repo_rows_def filter_empty_conv)

lemma repo_rows_snoc:
  assumes "repo_rows db w p e = []" "targets db' = targets db @ [r]" "t_workspace_id r = w" "t_repository_provider r = Some p"
    "t_repository_external_id r = Some e" "t_disabled_at_ms r = None"
  shows "repo_rows db' w p e = [r]"
  using assms by (simp add: repo_rows_def)

lemma resolved_again:
  assumes "register_resolved now n m i a role repo db = Inr (db', x)"
  shows "register_resolved now' n' m' i a role repo db' = Inr (db', as_replay x)"
proof -
  have plain: "register_by_alias now' n' m' i a role repo db' = Inr (db', as_replay x)"
    if "register_by_alias now n m i a role repo db = Inr (db', x)"
    using that created_again existing_again by (auto simp: register_by_alias_def split: option.splits if_splits)
  show ?thesis
  proof (cases "repo \<noteq> None \<and> rg_source i = Some RemoteUrl")
    case False
    then show ?thesis using assms plain by (auto simp: register_resolved_def split: option.splits prod.splits)
  next
    case True
    then obtain p e nm where repo: "repo = Some (p, e, nm)" by auto
    consider "repo_rows db (rg_workspace_id i) p e = []" "register_by_alias now n m i a role repo db = Inr (db', x)"
      | r where "repo_rows db (rg_workspace_id i) p e = [r]" "t_kind r = js_trim (rg_kind i)"
        "ensureDeviceBindingAndReturn now m (rg_device_id i) False r db = Inr (db', x)"
      using assms True by (auto simp: register_resolved_def repo split: list.splits if_splits)
    then show ?thesis
    proof cases
      case 1
      show ?thesis
      proof (cases "target_by_alias db (rg_workspace_id i) a")
        case None
        then have c: "register_create now n m i a repo db = Inr (db', x)" using 1(2) by (simp add: register_by_alias_def split: if_splits)
        note q = created_again [OF c None]
        have "repo_rows db' (rg_workspace_id i) p e = [rr_target x]"
          using repo_rows_snoc [OF 1(1) q(4,5)] q(6,8,9) by (simp add: repo)
        then show ?thesis using True q(2) [of now' m'] q(7) by (simp add: register_resolved_def repo)
      next
        case (Some r)
        then have "register_existing now m i repo r db = Inr (db', x)" using 1(2) by (simp add: register_by_alias_def)
        note e = existing_again(3-5) [OF this Some]
        have "t_disabled_at_ms r \<noteq> None"
          by (rule repo_rows_nil [OF 1(1)]) (use found(3) [OF Some] e in \<open>simp_all add: repo\<close>)
        then show ?thesis using e(1) by simp
      qed
    next
      case (2 r)
      note q = returned_again [OF 2(3)]
      have "repo_rows db' (rg_workspace_id i) p e = [r]" using 2(1) by (simp add: repo_rows_def ensured_lookups [OF q(1)])
      then show ?thesis using True q(3) [of now' m'] 2(2) by (simp add: register_resolved_def repo)
    qed
  qed
qed

lemma resolved_keeps_identity:
  assumes "register_resolved now n m i a role repo db = Inr (db', x)"
  shows "users db' = users db \<and> workspaces db' = workspaces db \<and> memberships db' = memberships db \<and> repo_bindings db' = repo_bindings db
    \<and> devices db' = devices db"
proof -
  have r: "ensureDeviceBindingAndReturn now m d c r dbx = Inr (db', x) \<Longrightarrow> users db' = users dbx \<and> workspaces db' = workspaces dbx
      \<and> memberships db' = memberships dbx \<and> repo_bindings db' = repo_bindings dbx \<and> devices db' = devices dbx" for d c r dbx
    using ensured_lookups [OF returned_again(1), of now m d c r dbx db' x] by simp
  show ?thesis
    using assms by (auto simp: register_resolved_def register_by_alias_def register_existing_def register_create_def Let_def ebind_eq_Inr
        insert_Inr split: option.splits prod.splits list.splits if_splits dest!: r)
qed

lemma actor_cong: "users db' = users db \<Longrightarrow> devices db' = devices db \<Longrightarrow> device_actor db' = device_actor db"
proof -
  assume "users db' = users db" "devices db' = devices db"
  then have "getDevice db' = getDevice db" "active_user db' = active_user db"
    by (simp_all add: getDevice_def active_user_def user_of_def fun_eq_iff)
  then show ?thesis by (intro ext) (simp only: device_actor_def)
qed

lemma role_cong: "workspaces db' = workspaces db \<Longrightarrow> memberships db' = memberships db \<Longrightarrow> workspace_role db' = workspace_role db"
  by (simp add: workspace_role_def membership_of_def fun_eq_iff)

text \<open>
  Registration is idempotent: when a device has registered a target, the same request repeated at any later
  time finds the target and the live binding, changes nothing and returns them as a replay.
\<close>

theorem registration_can_be_repeated:
  assumes "registerExecutionTargetForDevice lc now n m i db = Inr (db', x)"
  shows "registerExecutionTargetForDevice lc now' n' m' i db' = Inr (db', as_replay x)"
proof -
  obtain a d role repo where s: "normalizeTargetAlias lc (rg_alias i) = Inr a" "device_actor db (rg_device_id i) = Inr d"
    "workspace_role db (rg_workspace_id i) (d_user_id d) = Inr role" "register_repository lc i db = Inr repo"
    "register_resolved now n m i a role repo db = Inr (db', x)"
    using assms by (auto simp: registerExecutionTargetForDevice_def ebind_eq_Inr split: if_splits)
  note k = resolved_keeps_identity [OF s(5)]
  have eqs: "repo_binding_of db' = repo_binding_of db" "repo_external_id lc db' = repo_external_id lc db"
    using k by (simp_all add: repo_binding_of_def repo_external_id_def fun_eq_iff)
  have "device_actor db' (rg_device_id i) = Inr d" "workspace_role db' (rg_workspace_id i) (d_user_id d) = Inr role"
    using s(2,3) actor_cong [of db' db] role_cong [of db' db] k by simp_all
  moreover have "register_repository lc i db' = Inr repo" using s(4) unfolding register_repository_def eqs .
  ultimately show ?thesis
    using assms s(1) resolved_again [OF s(5)] by (simp add: registerExecutionTargetForDevice_def split: if_splits)
qed

theorem registration_can_be_repeated_witness:
  "registerExecutionTargetForDevice ascii_lc 5000 ''tgt_9'' ''dtb_9'' (sample_register ''app'') sample_control2
     = Inr (sample_control2, as_replay (sample_registration sample_target1 ''dtb_1'' 2000))"
  by (rule registration_can_be_repeated [OF sample_registered])

text \<open>What a registration leaves behind: an active target of the workspace with a live binding to the device.\<close>

definition registered :: "control_db \<Rightarrow> register_input \<Rightarrow> registration \<Rightarrow> bool" where
  "registered db i x \<longleftrightarrow> rr_target x \<in> set (targets db) \<and> t_workspace_id (rr_target x) = rg_workspace_id i
     \<and> t_disabled_at_ms (rr_target x) = None \<and> binding_of db (rg_device_id i) (t_id (rr_target x)) = Some (rr_binding x)
     \<and> b_disabled_at_ms (rr_binding x) = None"

lemma returned_binding:
  assumes "ensureDeviceBindingAndReturn now n d c r db = Inr (db', x)"
  shows "binding_of db' d (t_id (rr_target x)) = Some (rr_binding x) \<and> b_disabled_at_ms (rr_binding x) = None"
  using returned_again [OF assms] by simp

lemma resolved_registered:
  assumes "register_resolved now n m i a role repo db = Inr (db', x)"
  shows "registered db' i x"
proof -
  have by_alias: "registered db' i x" if r: "register_by_alias now n m i a role repo db = Inr (db', x)"
  proof (cases "target_by_alias db (rg_workspace_id i) a")
    case None
    then have c: "register_create now n m i a repo db = Inr (db', x)" using r by (simp add: register_by_alias_def split: if_splits)
    note q = created_again [OF c None]
    show ?thesis using q(4-6) returned_binding [OF q(2)] by (simp add: registered_def as_replay_def)
  next
    case (Some e)
    then have c: "register_existing now m i repo e db = Inr (db', x)" using r by (simp add: register_by_alias_def)
    note q = existing_again [OF c Some]
    have "binding_of db' (rg_device_id i) (t_id (rr_target x)) = Some (rr_binding x) \<and> b_disabled_at_ms (rr_binding x) = None"
      using c returned_binding unfolding register_existing_def Let_def by (metis (no_types, lifting) Inl_Inr_False)
    then show ?thesis using found(3) [OF q(1)] existing_again(3) [OF q(2) q(1)] by (simp add: registered_def)
  qed
  have rows: "registered db' i x" if "repo_rows db (rg_workspace_id i) p e = [r]" "ensureDeviceBindingAndReturn now m (rg_device_id i) False r db = Inr (db', x)" for p e r
  proof -
    have "r \<in> set (repo_rows db (rg_workspace_id i) p e)" using that(1) by simp
    then have "r \<in> set (targets db) \<and> t_workspace_id r = rg_workspace_id i \<and> t_disabled_at_ms r = None" by (simp add: repo_rows_def)
    then show ?thesis
      using returned_again(2) [OF that(2)] returned_binding [OF that(2)] ensured_lookups [OF returned_again(1) [OF that(2)]] by (simp add: registered_def)
  qed
  show ?thesis
    using assms by_alias rows by (auto simp: register_resolved_def split: option.splits prod.splits list.splits if_splits)
qed

text \<open>
  Registration does what the device needs: after it, the device may claim work for the returned target.
\<close>

theorem registration_makes_eligible:
  assumes "registerExecutionTargetForDevice lc now n m i db = Inr (db', x)" "control_ok db"
  shows "resolveEligibleBinding db' (rg_device_id i) (t_id (rr_target x))
    = Eligible (rr_binding x) (the (getDevice db' (rg_device_id i))) (rr_target x)"
proof -
  obtain a d role repo where s: "device_actor db (rg_device_id i) = Inr d"
    "workspace_role db (rg_workspace_id i) (d_user_id d) = Inr role" "register_resolved now n m i a role repo db = Inr (db', x)"
    using assms by (auto simp: registerExecutionTargetForDevice_def ebind_eq_Inr split: if_splits)
  note k = resolved_keeps_identity [OF s(3)]
  have d: "device_actor db' (rg_device_id i) = Inr d" "workspace_role db' (rg_workspace_id i) (d_user_id d) = Inr role"
    using s(1,2) actor_cong [of db' db] role_cong [of db' db] k by simp_all
  have r: "registered db' i x" by (rule resolved_registered [OF s(3)])
  have "control_ok db'" by (rule registerExecutionTargetForDevice_ok [OF assms])
  then have "getExecutionTarget db' (t_id (rr_target x)) = Some (rr_target x)"
    using find_key [of t_id "targets db'" "rr_target x"] r by (simp add: getExecutionTarget_def registered_def control_ok_def targets_ok_def)
  then show ?thesis
    using d r by (auto simp: resolveEligibleBinding_def device_actor_def active_user_def workspace_role_def registered_def
        split: option.splits if_splits)
qed

theorem registration_makes_eligible_witness: "is_eligible (resolveEligibleBinding sample_control2 ''dev_1'' ''tgt_1'')"
  using registration_makes_eligible [OF sample_registered sample_control_ok(1)]
  by (simp add: is_eligible_def sample_register_def sample_registration_def) (simp add: sample_target1_def sample_target_row_def)

text \<open>
  Registration takes effect and can be repeated. After it the device is eligible for the returned target with the returned
  binding; the same request at any later time finds both, changes nothing and returns them as a replay.
\<close>

theorem registration_takes_effect:
  assumes "registerExecutionTargetForDevice lc now n m i db = Inr (db', x)" "control_ok db"
  shows "resolveEligibleBinding db' (rg_device_id i) (t_id (rr_target x))
      = Eligible (rr_binding x) (the (getDevice db' (rg_device_id i))) (rr_target x)
    \<and> (\<forall>now' n' m'. registerExecutionTargetForDevice lc now' n' m' i db' = Inr (db', as_replay x))"
  using registration_makes_eligible [OF assms] registration_can_be_repeated [OF assms(1)] by blast

theorem registration_takes_effect_witness:
  "resolveEligibleBinding sample_control2 ''dev_1'' ''tgt_1'' = Eligible (fresh_binding 2000 ''dtb_1'' ''dev_1'' ''tgt_1'') sample_device_row sample_target1
   \<and> registerExecutionTargetForDevice ascii_lc 7000 ''tgt_8'' ''dtb_8'' (sample_register ''app'') sample_control2
     = Inr (sample_control2, as_replay (sample_registration sample_target1 ''dtb_1'' 2000))"
proof -
  have "getDevice sample_control2 ''dev_1'' = Some sample_device_row" by code_simp
  moreover have "t_id sample_target1 = ''tgt_1''" by (simp add: sample_target1_def sample_target_row_def)
  ultimately show ?thesis using registration_takes_effect [OF sample_registered sample_control_ok(1)]
    by (simp add: sample_register_def sample_registration_def)
qed

section \<open>Enrollment\<close>

text \<open>
  Enrollment of a device is atomic and idempotent: it stores the device together with its credential, or
  nothing; repeated with the same input it returns the stored pair and changes nothing; and the same identifiers
  with another name, platform, user or secret are refused.
\<close>

theorem enrollment_can_be_repeated:
  assumes "finalizeDeviceEnrollment lc i db = Inr (db', d, k, replayed)"
  shows "finalizeDeviceEnrollment lc i db' = Inr (db', d, k, True)
    \<and> getDevice db' (ei_device_id i) = Some d \<and> getDeviceCredential db' (ei_credential_id i) = Some k
    \<and> (enrollment_matches lc j d k \<or> ei_device_id j \<noteq> ei_device_id i \<or> ei_credential_id j \<noteq> ei_credential_id i
       \<or> (\<exists>e. finalizeDeviceEnrollment lc j db' = Inl e))"
proof -
  have stored: "getDevice db' (ei_device_id i) = Some d \<and> getDeviceCredential db' (ei_credential_id i) = Some k \<and> enrollment_matches lc i d k
      \<and> active_user db' (ei_user_id i)"
  proof (cases "getDevice db (ei_device_id i)")
    case None
    then have n: "getDeviceCredential db (ei_credential_id i) = None" "active_user db (ei_user_id i)"
      and r: "enrollment_rows lc i = (d, k)" "db' = db\<lparr>devices := devices db @ [d], credentials := credentials db @ [k]\<rparr>"
      using assms by (auto simp: finalizeDeviceEnrollment_def Let_def ebind_eq_Inr insert_Inr split: if_splits option.splits prod.splits)
    then show ?thesis
      using None by (auto simp: getDevice_def getDeviceCredential_def find_snoc enrollment_rows_def enrollment_matches_def active_user_def user_of_def)
  next
    case (Some d')
    then show ?thesis using assms by (auto simp: finalizeDeviceEnrollment_def Let_def split: if_splits option.splits)
  qed
  moreover have "finalizeDeviceEnrollment lc i db' = Inr (db', d, k, True)"
    using assms stored by (simp add: finalizeDeviceEnrollment_def Let_def split: if_splits)
  moreover have "\<exists>e. finalizeDeviceEnrollment lc j db' = Inl e"
    if "\<not> enrollment_matches lc j d k" "ei_device_id j = ei_device_id i" "ei_credential_id j = ei_credential_id i"
    using that stored by (auto simp: finalizeDeviceEnrollment_def Let_def)
  ultimately show ?thesis by blast
qed

theorem enrollment_can_be_repeated_witness:
  "finalizeDeviceEnrollment ascii_lc sample_enrollment sample_control1 = Inr (sample_control1, sample_device_row, sample_credential_row, True)"
  using enrollment_can_be_repeated [OF sample_enrolled] by blast

section \<open>Renaming\<close>

text \<open>
  Renaming keeps the identity of a target. Only an owner of its workspace can rename it; afterwards the new
  alias finds the same target, with its id, kind, repository and state, the old alias is free, and
  bindings, defaults and all other targets are untouched.
\<close>

theorem rename_keeps_identity:
  assumes "renameExecutionTarget lc now t newAlias actor db = Inr (db', r', old, replayed)" "control_ok db"
  shows "\<exists>r m. getExecutionTarget db t = Some r \<and> membership_of db (t_workspace_id r) actor = Some m \<and> m_role m = ''owner''
    \<and> old = t_alias r \<and> r' = r\<lparr>t_alias := t_alias r', t_updated_at_ms := t_updated_at_ms r'\<rparr>
    \<and> target_by_alias db' (t_workspace_id r) (t_alias r') = Some r' \<and> (replayed \<or> target_by_alias db' (t_workspace_id r) old = None)
    \<and> db' = db\<lparr>targets := targets db'\<rparr> \<and> (\<forall>u. u = t \<or> getExecutionTarget db' u = getExecutionTarget db u)"
proof -
  obtain n r m where nrm: "normalizeTargetAlias lc newAlias = Inr n" "getExecutionTarget db t = Some r" "membership_of db (t_workspace_id r) actor = Some m"
    using assms(1) by (auto simp: renameExecutionTarget_def ebind_eq_Inr split: option.splits if_splits)
  moreover have "m_role m = ''owner''" using assms(1) nrm by (simp add: renameExecutionTarget_def split: if_splits)
  ultimately have n: "normalizeTargetAlias lc newAlias = Inr n" "getExecutionTarget db t = Some r" "membership_of db (t_workspace_id r) actor = Some m"
    "m_role m = ''owner''" by simp_all
  have r: "r \<in> set (targets db)" "t_id r = t" using found(2) [OF n(2)] by auto
  have keys: "distinct (map t_id (targets db))" "distinct (map alias_key (targets db))"
    using assms(2) by (simp_all add: control_ok_def targets_ok_def)
  show ?thesis
  proof (cases "n = t_alias r")
    case True
    then have "target_by_alias db (t_workspace_id r) n = Some r"
      using find_key [OF keys(2) r(1)] by (simp add: target_by_alias_def alias_key_def)
    then show ?thesis using True assms(1) n by (auto simp: renameExecutionTarget_def)
  next
    case False
    let ?f = "\<lambda>x. x\<lparr>t_alias := n, t_updated_at_ms := now\<rparr>"
    have q: "db' = db\<lparr>targets := update_rows (\<lambda>x. t_id x = t) ?f (targets db)\<rparr>" "r' = ?f r" "old = t_alias r" "\<not> replayed"
      using False assms(1) n by (auto simp: renameExecutionTarget_def split: if_splits)
    have ok: "distinct (map alias_key (targets db'))" using renameExecutionTarget_ok [OF assms(1,2)] by (simp add: control_ok_def targets_ok_def)
    have in': "r' \<in> set (targets db')" using r by (auto simp: q update_rows_def)
    have new: "target_by_alias db' (t_workspace_id r) n = Some r'"
      using find_key [OF ok in'] by (simp add: target_by_alias_def alias_key_def q)
    have "x = r" if "x \<in> set (targets db)" "alias_key x = alias_key r" for x
      using keys(2) that r(1) by (auto simp: distinct_map dest: inj_onD)
    then have "target_by_alias db' (t_workspace_id r) (t_alias r) = None"
      using False r by (auto simp: target_by_alias_def q update_rows_def find_None_iff alias_key_def)
    moreover have "getExecutionTarget db' u = getExecutionTarget db u" if "u \<noteq> t" for u
      using that by (auto simp: getExecutionTarget_def q find_update_rows option.map_ident dest: find_SomeD intro!: option.map_ident_strong)
    ultimately show ?thesis using n new q by auto
  qed
qed

lemma sample_renamed:
  "renameExecutionTarget ascii_lc 4000 ''tgt_1'' ''Main'' ''usr_1'' sample_control2
     = Inr (sample_control2\<lparr>targets := [sample_target1\<lparr>t_alias := ''main'', t_updated_at_ms := 4000\<rparr>]\<rparr>,
            sample_target1\<lparr>t_alias := ''main'', t_updated_at_ms := 4000\<rparr>, ''app'', False)"
  by code_simp

theorem rename_keeps_identity_witness:
  "target_by_alias (sample_control2\<lparr>targets := [sample_target1\<lparr>t_alias := ''main'', t_updated_at_ms := 4000\<rparr>]\<rparr>) ''ws_1'' ''app'' = None"
proof -
  have "t_workspace_id r = ''ws_1''" if "getExecutionTarget sample_control2 ''tgt_1'' = Some r" for r
    using that by (auto simp: getExecutionTarget_def sample_control2_def sample_target1_def sample_target_row_def split: if_splits)
  then show ?thesis using rename_keeps_identity [OF sample_renamed sample_control_ok(2)] by auto
qed

section \<open>Workspace defaults\<close>

lemma default_target:
  assumes "control_ok db" "getDefaultAgentRuntimeTarget db w = Some f"
  shows "\<exists>r. getExecutionTarget db (df_target_id f) = Some r \<and> t_workspace_id r = w"
proof -
  have f: "f \<in> set (defaults db)" "df_workspace_id f = w" using found(6) [OF assms(2)] by auto
  then have "(df_target_id f, w) \<in> (\<lambda>r. (t_id r, t_workspace_id r)) ` set (targets db)"
    using assms(1) by (auto simp: control_ok_def defaults_ok_def)
  then obtain r where r: "r \<in> set (targets db)" "t_id r = df_target_id f" "t_workspace_id r = w" by auto
  then show ?thesis
    using find_key [of t_id "targets db" r] assms(1) by (auto simp: getExecutionTarget_def control_ok_def targets_ok_def)
qed

lemma default_after_delete:
  "getDefaultAgentRuntimeTarget (fst (deleteExecutionTargetRow t db)) w
     = find (\<lambda>r. df_workspace_id r = w) (filter (\<lambda>r. df_target_id r \<noteq> t) (defaults db))"
  by (simp add: getDefaultAgentRuntimeTarget_def deleteExecutionTargetRow_def)

text \<open>
  The default runtime target of a workspace never dangles: whatever is configured is a target of the same
  workspace, so the only reason it can be unavailable is that it is disabled. Setting it as an owner makes
  it resolve to that target, and deleting the target takes the setting away.
\<close>

theorem default_target_never_dangles:
  assumes "control_ok db"
  shows "(resolveDefaultAgentRuntimeTarget db w = NotConfigured
     \<or> resolveDefaultAgentRuntimeTarget db w = Unavailable ''The configured default Agent Runtime target is disabled.''
     \<or> (\<exists>r. resolveDefaultAgentRuntimeTarget db w = DefaultOk r \<and> t_workspace_id r = w \<and> t_disabled_at_ms r = None))
   \<and> (\<forall>db' out. setDefaultAgentRuntimeTarget now w t u db = Inr (db', out) \<longrightarrow> (\<exists>r. resolveDefaultAgentRuntimeTarget db' w = DefaultOk r \<and> t_id r = t))
   \<and> (\<forall>r. resolveDefaultAgentRuntimeTarget (fst (deleteExecutionTargetRow t db)) w = DefaultOk r \<longrightarrow> t_id r \<noteq> t)"
proof (intro conjI allI impI)
  show "resolveDefaultAgentRuntimeTarget db w = NotConfigured
     \<or> resolveDefaultAgentRuntimeTarget db w = Unavailable ''The configured default Agent Runtime target is disabled.''
     \<or> (\<exists>r. resolveDefaultAgentRuntimeTarget db w = DefaultOk r \<and> t_workspace_id r = w \<and> t_disabled_at_ms r = None)"
  proof (cases "getDefaultAgentRuntimeTarget db w")
    case (Some f)
    obtain r where "getExecutionTarget db (df_target_id f) = Some r" "t_workspace_id r = w" using default_target [OF assms Some] by auto
    then show ?thesis using Some by (cases "t_disabled_at_ms r") (simp_all add: resolveDefaultAgentRuntimeTarget_def)
  qed (simp add: resolveDefaultAgentRuntimeTarget_def)
next
  fix db' out
  assume s: "setDefaultAgentRuntimeTarget now w t u db = Inr (db', out)"
  obtain r where r: "getExecutionTarget db t = Some r" "t_workspace_id r = w" "t_disabled_at_ms r = None"
    using s by (auto simp: setDefaultAgentRuntimeTarget_def split: option.splits if_splits)
  have "map_option df_target_id (getDefaultAgentRuntimeTarget db' w) = Some t \<and> targets db' = targets db"
    using s r by (auto simp: setDefaultAgentRuntimeTarget_def Let_def ebind_eq_Inr insert_Inr getDefaultAgentRuntimeTarget_def
        find_update_rows find_snoc dest: find_SomeD split: option.splits if_splits)
  then show "\<exists>r. resolveDefaultAgentRuntimeTarget db' w = DefaultOk r \<and> t_id r = t"
    using r found(2) [OF r(1)] by (auto simp: resolveDefaultAgentRuntimeTarget_def getExecutionTarget_def)
next
  fix r
  assume "resolveDefaultAgentRuntimeTarget (fst (deleteExecutionTargetRow t db)) w = DefaultOk r"
  then have "r \<in> set (targets (fst (deleteExecutionTargetRow t db)))"
    by (auto simp: resolveDefaultAgentRuntimeTarget_def dest: found(2) split: option.splits if_splits)
  then show "t_id r \<noteq> t" by (simp add: deleteExecutionTargetRow_def)
qed

theorem default_target_never_dangles_witness:
  "\<exists>db out r. setDefaultAgentRuntimeTarget 4000 ''ws_1'' ''tgt_1'' ''usr_1'' sample_control2 = Inr (db, out)
     \<and> resolveDefaultAgentRuntimeTarget db ''ws_1'' = DefaultOk r \<and> t_id r = ''tgt_1''"
proof -
  have "\<exists>db out. setDefaultAgentRuntimeTarget 4000 ''ws_1'' ''tgt_1'' ''usr_1'' sample_control2 = Inr (db, out)"
  proof -
    have "\<not> isl (setDefaultAgentRuntimeTarget 4000 ''ws_1'' ''tgt_1'' ''usr_1'' sample_control2)" by code_simp
    then show ?thesis by (cases "setDefaultAgentRuntimeTarget 4000 ''ws_1'' ''tgt_1'' ''usr_1'' sample_control2") auto
  qed
  then show ?thesis
    using default_target_never_dangles [OF sample_control_ok(2), of "''ws_1''" 4000 "''tgt_1''" "''usr_1''"] by blast
qed

section \<open>Repository identity\<close>

lemma update_rows_elem:
  "x \<in> set (update_rows P f xs) \<Longrightarrow> x \<in> set xs \<or> (\<exists>y \<in> set xs. P y \<and> x = f y)"
  by (auto simp: update_rows_def split: if_splits)

text \<open>
  Attaching a repository to a target never replaces another identity and never shares one: it succeeds only for
  an active coding target with a live binding to the calling device, either as a replay of exactly the same
  identity or on a target without repository, and then no other active target of the workspace has that
  repository.
\<close>

theorem attach_keeps_identity_unique:
  assumes "attachRepositoryIdentityToTarget lc now d w t p n db = Inr (db', r', replayed)" "control_ok db"
  shows "\<exists>r. getExecutionTarget db t = Some r \<and> t_workspace_id r = w \<and> t_disabled_at_ms r = None \<and> t_kind r = ''coding''
    \<and> (\<exists>b \<in> set (bindings db). b_device_id b = d \<and> b_target_id b = t \<and> b_disabled_at_ms b = None)
    \<and> t_repository_full_name r' = normalizeRemoteFullName lc (lc (js_trim p)) n
    \<and> (if replayed then db' = db \<and> r' = r
       else t_repository_provider r = None \<and> getExecutionTarget db' t = Some r'
            \<and> (\<forall>x \<in> set (targets db'). t_workspace_id x = w \<and> t_id x \<noteq> t \<and> t_disabled_at_ms x = None \<longrightarrow>
                 t_repository_provider x \<noteq> t_repository_provider r' \<or> t_repository_full_name x \<noteq> t_repository_full_name r'))"
proof -
  obtain name r where s: "normalizeRemoteFullName lc (lc (js_trim p)) n = Some name" "getExecutionTarget db t = Some r"
    using assms(1) by (auto simp: attachRepositoryIdentityToTarget_def Let_def ebind_eq_Inr split: option.splits if_splits)
  let ?e = "repo_external_id lc db w name"
  have g: "t_workspace_id r = w" "t_disabled_at_ms r = None" "t_kind r = ''coding''"
    "list_ex (\<lambda>b. b_device_id b = d \<and> b_target_id b = t \<and> b_disabled_at_ms b = None) (bindings db)"
    "attach_identity now w (lc (js_trim p)) name ?e r db = Inr (db', r', replayed)"
    using assms(1) s by (auto simp: attachRepositoryIdentityToTarget_def Let_def ebind_eq_Inr split: if_splits)
  have r: "r \<in> set (targets db)" "t_id r = t" using found(2) [OF s(2)] by auto
  have rc: "repository_complete r" using assms(2) r by (simp add: control_ok_def targets_ok_def target_row_ok_def)
  let ?f = "\<lambda>x. x\<lparr>t_repository_provider := Some (lc (js_trim p)), t_repository_external_id := Some ?e,
                        t_repository_full_name := Some name, t_updated_at_ms := now\<rparr>"
  have cases: "replayed \<and> db' = db \<and> r' = r \<and> t_repository_full_name r = Some name
    \<or> \<not> replayed \<and> t_repository_provider r = None \<and> r' = ?f r \<and> db' = db\<lparr>targets := update_rows (\<lambda>x. t_id x = t) ?f (targets db)\<rparr>
      \<and> (\<forall>x \<in> set (targets db). t_workspace_id x = w \<and> t_id x \<noteq> t \<and> t_disabled_at_ms x = None \<longrightarrow>
           t_repository_provider x \<noteq> Some (lc (js_trim p)) \<or> t_repository_full_name x \<noteq> Some name)"
    using g(5) rc r(2) by (auto simp: attach_identity_def Let_def repository_complete_def list_ex_iff split: if_splits)
  then show ?thesis
  proof
    assume "replayed \<and> db' = db \<and> r' = r \<and> t_repository_full_name r = Some name"
    then show ?thesis using s g by (auto simp: list_ex_iff)
  next
    assume q: "\<not> replayed \<and> t_repository_provider r = None \<and> r' = ?f r \<and> db' = db\<lparr>targets := update_rows (\<lambda>x. t_id x = t) ?f (targets db)\<rparr>
      \<and> (\<forall>x \<in> set (targets db). t_workspace_id x = w \<and> t_id x \<noteq> t \<and> t_disabled_at_ms x = None \<longrightarrow>
           t_repository_provider x \<noteq> Some (lc (js_trim p)) \<or> t_repository_full_name x \<noteq> Some name)"
    then have "getExecutionTarget db' t = Some r'" using s(2) r(2) by (simp add: getExecutionTarget_def find_update_rows)
    moreover have same: "x \<in> set (targets db)" if "x \<in> set (targets db')" "t_id x \<noteq> t" for x
      using that q r(2) update_rows_elem [of x "\<lambda>x. t_id x = t" ?f "targets db"] by auto
    moreover have "\<forall>x \<in> set (targets db'). t_workspace_id x = w \<and> t_id x \<noteq> t \<and> t_disabled_at_ms x = None \<longrightarrow>
        t_repository_provider x \<noteq> t_repository_provider r' \<or> t_repository_full_name x \<noteq> t_repository_full_name r'"
      using q same by auto
    ultimately show ?thesis using s g q by (auto simp: list_ex_iff)
  qed
qed

definition sample_bare_target :: target_row where
  "sample_bare_target = (sample_target_row ''tgt_3'' ''bare'' [] 2000)\<lparr>t_repository_provider := None, t_repository_external_id := None,
     t_repository_full_name := None\<rparr>"

definition sample_bare :: control_db where
  "sample_bare = sample_control1\<lparr>targets := [sample_bare_target], bindings := [fresh_binding 2000 ''dtb_3'' ''dev_1'' ''tgt_3'']\<rparr>"

lemma sample_bare_ok: "control_ok sample_bare"
proof (rule control.inv_star [of empty_control])
  have "registerExecutionTargetForDevice ascii_lc 2000 ''tgt_3'' ''dtb_3''
      ((sample_register ''bare'')\<lparr>rg_source := None, rg_provider := None, rg_full_name := None\<rparr>) sample_control1
    = Inr (sample_bare, sample_registration sample_bare_target ''dtb_3'' 2000)" by code_simp
  then show "control_step\<^sup>*\<^sup>* empty_control sample_bare"
    using sample_control_reach(1) register by (blast intro: rtranclp.rtrancl_into_rtrancl)
qed (simp add: control_ok_def table_defs empty_control_def)

lemma sample_attached:
  "attachRepositoryIdentityToTarget ascii_lc 4000 ''dev_1'' ''ws_1'' ''tgt_3'' ''GitHub'' ''Octo/App.git'' sample_bare
     = Inr (sample_bare\<lparr>targets := [(sample_target_row ''tgt_3'' ''bare'' ''octo/app'' 2000)\<lparr>t_updated_at_ms := 4000\<rparr>]\<rparr>,
            (sample_target_row ''tgt_3'' ''bare'' ''octo/app'' 2000)\<lparr>t_updated_at_ms := 4000\<rparr>, False)"
  by code_simp

theorem attach_keeps_identity_unique_witness:
  "getExecutionTarget (sample_bare\<lparr>targets := [(sample_target_row ''tgt_3'' ''bare'' ''octo/app'' 2000)\<lparr>t_updated_at_ms := 4000\<rparr>]\<rparr>) ''tgt_3''
     = Some ((sample_target_row ''tgt_3'' ''bare'' ''octo/app'' 2000)\<lparr>t_updated_at_ms := 4000\<rparr>)"
  using attach_keeps_identity_unique [OF sample_attached sample_bare_ok] by auto

text \<open>
  Registration does not keep the repository identity of active targets unique. A target registered before the
  workspace had a GitHub binding keeps the repository name as its external id; after the binding exists the
  same repository is looked up under its numeric id, is not found, and is registered a second time.
\<close>

theorem registration_can_duplicate_repository:
  "\<exists>db r i db' x. control_step\<^sup>*\<^sup>* empty_control db \<and> r \<in> set (targets db)
     \<and> registerExecutionTargetForDevice ascii_lc 3000 ''tgt_2'' ''dtb_2'' i db = Inr (db', x) \<and> rr_target_created x
     \<and> {r, rr_target x} \<subseteq> set (targets db') \<and> t_id r \<noteq> t_id (rr_target x)
     \<and> t_workspace_id r = t_workspace_id (rr_target x) \<and> t_kind r = t_kind (rr_target x)
     \<and> t_disabled_at_ms r = None \<and> t_disabled_at_ms (rr_target x) = None
     \<and> t_repository_provider r = Some ''github'' \<and> t_repository_provider (rr_target x) = Some ''github''
     \<and> t_repository_full_name r = Some ''octo/app'' \<and> t_repository_full_name (rr_target x) = Some ''octo/app''"
proof (intro exI conjI)
  show "control_step\<^sup>*\<^sup>* empty_control sample_control3" by (rule sample_control_reach(4))
  show "registerExecutionTargetForDevice ascii_lc 3000 ''tgt_2'' ''dtb_2'' (sample_register ''app-2'') sample_control3
    = Inr (sample_control4, sample_registration sample_target2 ''dtb_2'' 3000)" by (rule sample_registered_again)
  show "sample_target1 \<in> set (targets sample_control3)" by (simp add: sample_control3_def sample_control2_def)
qed (simp_all add: sample_control4_def sample_registration_def sample_target1_def sample_target2_def sample_target_row_def)

end
