(* ===== verification/Business_Digest.thy ===== *)
theory Business_Digest
  imports Job_Schema
begin

text \<open>
  The digest that decides whether two submissions with one request id are the same
  (\<^verbatim>\<open>businessDigestV2\<close> of \<^verbatim>\<open>jobs/v2-schema.ts\<close>): the SHA-256 of a canonical JSON
  text. The hash is the argument \<open>sha\<close>; the text is written out, and shown to determine the business
  parameters, so that two different requests can only share a digest through a collision of the hash.
\<close>

section \<open>JSON strings\<close>

abbreviation dquote :: char where "dquote \<equiv> CHR 0x22"
abbreviation backslash :: char where "backslash \<equiv> CHR 0x5C"

definition hex_digit :: "nat \<Rightarrow> char" where "hex_digit n = ''0123456789abcdef'' ! n"

text \<open>What \<^verbatim>\<open>JSON.stringify\<close> writes for one byte of a string.\<close>

definition json_escape :: "char \<Rightarrow> string" where
  "json_escape c =
     (if c = dquote then [backslash, dquote]
      else if c = backslash then [backslash, backslash]
      else if c = CHR 0x08 then [backslash, CHR ''b'']
      else if c = CHR 0x09 then [backslash, CHR ''t'']
      else if c = CHR 0x0A then [backslash, CHR ''n'']
      else if c = CHR 0x0C then [backslash, CHR ''f'']
      else if c = CHR 0x0D then [backslash, CHR ''r'']
      else if of_char c < (32 :: nat)
      then [backslash, CHR ''u'', CHR ''0'', CHR ''0'', hex_digit (of_char c div 16), hex_digit (of_char c mod 16)]
      else [c])"

definition json_quote :: "string \<Rightarrow> string" where
  "json_quote s = dquote # concat (map json_escape s) @ [dquote]"

definition json_key :: "string \<Rightarrow> string" where
  "json_key k = json_quote k @ '':''"

section \<open>The digest\<close>

record business =
  bz_target_id :: target_id
  bz_prompt :: string
  bz_acceptance :: string
  bz_resource_id :: "string option"
  bz_execution_timeout_seconds :: int
  bz_result_target :: result_target

definition business_text :: "business \<Rightarrow> string" where
  "business_text p =
     ''{'' @ json_key ''acceptance'' @ json_quote (bz_acceptance p)
     @ '','' @ json_key ''execution_timeout_seconds'' @ show_int (bz_execution_timeout_seconds p)
     @ '','' @ json_key ''prompt'' @ json_quote (bz_prompt p)
     @ '','' @ json_key ''resource_id'' @ (case bz_resource_id p of None \<Rightarrow> ''null'' | Some r \<Rightarrow> json_quote r)
     @ '','' @ json_key ''result_target'' @ json_quote (target_str (bz_result_target p))
     @ '','' @ json_key ''target_id'' @ json_quote (bz_target_id p) @ ''}''"

definition businessDigestV2 :: "(string \<Rightarrow> digest) \<Rightarrow> business \<Rightarrow> digest" where
  "businessDigestV2 sha p = sha (business_text p)"

section \<open>The text determines the parameters\<close>

lemma hex_digit_inject: "m < 16 \<Longrightarrow> n < 16 \<Longrightarrow> hex_digit m = hex_digit n \<longleftrightarrow> m = n"
  unfolding hex_digit_def by (rule nth_eq_iff_index_eq) simp_all

lemma control_inject:
  assumes "of_char c < (32 :: nat)" "of_char d < (32 :: nat)"
    and "hex_digit (of_char c div 16) = hex_digit (of_char d div 16)" "hex_digit (of_char c mod 16) = hex_digit (of_char d mod 16)"
  shows "c = d"
proof -
  have "of_char c div 16 = (of_char d div 16 :: nat)" "of_char c mod 16 = (of_char d mod 16 :: nat)"
    using assms hex_digit_inject by simp_all
  then have "of_char c = (of_char d :: nat)" by (metis div_mult_mod_eq)
  then show ?thesis by simp
qed

lemma json_escape_inj: "inj json_escape"
proof (rule injI)
  fix c d
  assume "json_escape c = json_escape d"
  then show "c = d" using control_inject [of c d] by (simp add: json_escape_def split: if_splits)
qed

text \<open>The length of an escape sequence can be read off its first two characters.\<close>

definition escape_length :: "string \<Rightarrow> nat" where
  "escape_length s = (if hd s \<noteq> backslash then 1 else if s ! 1 = CHR ''u'' then 6 else 2)"

lemma escape_length: "escape_length (json_escape c @ x) = length (json_escape c)" "json_escape c \<noteq> []" "hd (json_escape c) \<noteq> dquote"
  by (simp_all add: json_escape_def escape_length_def)

lemma json_escape_append:
  assumes "json_escape c @ x = json_escape d @ y"
  shows "c = d \<and> x = y"
proof -
  have "length (json_escape c) = length (json_escape d)" using escape_length(1) [of c x] escape_length(1) [of d y] assms by simp
  then have "json_escape c = json_escape d" "x = y" using assms by simp_all
  then show ?thesis using json_escape_inj by (simp add: inj_eq)
qed

lemma escaped_append:
  "concat (map json_escape s) @ dquote # x = concat (map json_escape t) @ dquote # y \<Longrightarrow> s = t \<and> x = y"
proof (induction s arbitrary: t)
  case Nil
  then show ?case using escape_length(2,3) [of "hd t"] by (cases t; cases "json_escape (hd t)") auto
next
  case (Cons c s)
  show ?case
  proof (cases t)
    case Nil
    then show ?thesis using Cons.prems escape_length(2,3) [of c] by (cases "json_escape c") auto
  next
    case (Cons d t')
    then show ?thesis using Cons.prems json_escape_append [of c _ d] Cons.IH [of t'] by auto
  qed
qed

lemma json_quote_append:
  assumes "json_quote s @ x = json_quote t @ y"
  shows "s = t \<and> x = y"
proof (rule escaped_append)
  show "concat (map json_escape s) @ dquote # x = concat (map json_escape t) @ dquote # y" using assms by (simp add: json_quote_def)
qed

lemma show_int_inject: "show_int i = show_int j \<longleftrightarrow> i = j"
proof
  have hd_digit: "show_nat n \<noteq> CHR ''-'' # s" for n s
  proof
    assume "show_nat n = CHR ''-'' # s"
    then show False using not_digit_notin_show_nat [of "CHR ''-''" n] by (simp add: is_digit_def digit_chars_def)
  qed
  assume "show_int i = show_int j"
  then show "i = j" using hd_digit hd_digit [THEN not_sym] by (auto simp: show_int_def split: if_splits)
qed simp

lemma comma_notin_show_int: "CHR '','' \<notin> set (show_int i)"
  using not_digit_notin_show_nat [of "CHR '',''"] by (simp add: show_int_def is_digit_def digit_chars_def)

lemma show_int_append: "show_int i @ CHR '','' # x = show_int j @ CHR '','' # y \<Longrightarrow> i = j \<and> x = y"
  using append_sep_inject [of "CHR '',''" "show_int i" "show_int j" x y] comma_notin_show_int by (simp add: show_int_inject)

lemma optional_quote_append:
  assumes "(case r of None \<Rightarrow> ''null'' | Some s \<Rightarrow> json_quote s) @ x = (case r' of None \<Rightarrow> ''null'' | Some s \<Rightarrow> json_quote s) @ y"
  shows "r = r' \<and> x = y"
proof (cases r)
  case None
  then show ?thesis using assms by (cases r') (simp_all add: json_quote_def)
next
  case (Some s)
  then show ?thesis
  proof (cases r')
    case None
    then show ?thesis using assms Some by (simp add: json_quote_def)
  next
    case (Some s')
    then show ?thesis using assms \<open>r = Some s\<close> json_quote_append [of s x s' y] by simp
  qed
qed

lemma target_str_inj: "target_str a = target_str b \<longleftrightarrow> a = b"
  by (cases a; cases b) simp_all

text \<open>A field whose text tells where it ends, whatever follows it.\<close>

definition self_delimiting :: "('a \<Rightarrow> string) \<Rightarrow> bool" where
  "self_delimiting f \<longleftrightarrow> (\<forall>a b x y. f a @ x = f b @ y \<longleftrightarrow> a = b \<and> x = y)"

lemma self_delimitingI: "(\<And>a b x y. f a @ x = f b @ y \<Longrightarrow> a = b \<and> x = y) \<Longrightarrow> self_delimiting f"
  unfolding self_delimiting_def by blast

lemma self_delimiting_prefix: "self_delimiting f \<Longrightarrow> self_delimiting (\<lambda>a. pre @ f a)"
  by (simp add: self_delimiting_def)

lemma business_fields:
  "self_delimiting (\<lambda>s. pre @ json_key k @ json_quote s)"
  "self_delimiting (\<lambda>i. pre @ json_key k @ show_int i @ '','')"
  "self_delimiting (\<lambda>r. pre @ json_key k @ (case r of None \<Rightarrow> ''null'' | Some s \<Rightarrow> json_quote s))"
proof -
  show "self_delimiting (\<lambda>s. pre @ json_key k @ json_quote s)"
    by (intro self_delimiting_prefix self_delimitingI) (rule json_quote_append)
  show "self_delimiting (\<lambda>i. pre @ json_key k @ show_int i @ '','')"
    by (intro self_delimiting_prefix self_delimitingI) (simp add: show_int_append)
  show "self_delimiting (\<lambda>r. pre @ json_key k @ (case r of None \<Rightarrow> ''null'' | Some s \<Rightarrow> json_quote s))"
    by (intro self_delimiting_prefix self_delimitingI) (rule optional_quote_append)
qed

lemma six_fields:
  assumes "self_delimiting f1" "self_delimiting f2" "self_delimiting f3" "self_delimiting f4" "self_delimiting f5" "self_delimiting f6"
  shows "f1 a @ f2 b @ f3 c @ f4 d @ f5 e @ f6 g @ x = f1 a' @ f2 b' @ f3 c' @ f4 d' @ f5 e' @ f6 g' @ x
    \<longleftrightarrow> a = a' \<and> b = b' \<and> c = c' \<and> d = d' \<and> e = e' \<and> g = g'"
  using assms unfolding self_delimiting_def append_assoc by (simp del: append_same_eq)

text \<open>
  The canonical text of a submission determines its business parameters: two submissions with the same text
  agree on target, prompt, acceptance, resource, timeout and result target. A replay that is recognised by
  its digest is therefore the same request, up to a collision of the hash.
\<close>

theorem business_text_determines_request:
  "business_text p = business_text q \<longleftrightarrow> p = q"
proof -
  let ?q = "\<lambda>pre k s. pre @ json_key k @ json_quote s"
  have as_fields: "business_text r = ?q ''{'' ''acceptance'' (bz_acceptance r)
      @ ('','' @ json_key ''execution_timeout_seconds'' @ show_int (bz_execution_timeout_seconds r) @ '','')
      @ ?q [] ''prompt'' (bz_prompt r)
      @ ('','' @ json_key ''resource_id'' @ (case bz_resource_id r of None \<Rightarrow> ''null'' | Some s \<Rightarrow> json_quote s))
      @ ?q '','' ''result_target'' (target_str (bz_result_target r)) @ ?q '','' ''target_id'' (bz_target_id r) @ ''}''" for r
    by (simp add: business_text_def)
  show ?thesis
    unfolding as_fields six_fields [OF business_fields(1,2,1,3,1,1), where x = "''}''"]
    by (cases p; cases q) (auto simp: target_str_inj)
qed

end
