(* ===== verification/Iso_Date.thy ===== *)
theory Iso_Date
  imports Prelude
begin

text \<open>
  \<^verbatim>\<open>new Date(ms).toISOString()\<close> of the JavaScript runtime, which every view of a job uses for its
  times: the proleptic Gregorian date of a time in milliseconds, and a \<^verbatim>\<open>RangeError\<close> outside the
  range of JavaScript dates.
\<close>

section \<open>The civil date of a day\<close>

text \<open>
  Days are counted from 1 January 1970; years of the computation begin in March, so that the leap day is the last
  day of its year, and run in eras of 400 years.
\<close>

definition civil_of_days :: "int \<Rightarrow> int \<times> int \<times> int" where
  "civil_of_days days =
     (let z = days + 719468; era = z div 146097; doe = z mod 146097;
          yoe = (doe - doe div 1460 + doe div 36524 - doe div 146096) div 365;
          doy = doe - (365 * yoe + yoe div 4 - yoe div 100);
          mp = (5 * doy + 2) div 153;
          d = doy - (153 * mp + 2) div 5 + 1;
          m = (if mp < 10 then mp + 3 else mp - 9)
      in (yoe + era * 400 + (if m \<le> 2 then 1 else 0), m, d))"

section \<open>The text\<close>

text \<open>A field with its leading zeros; every field of a date in range fits its width.\<close>

fun pad :: "nat \<Rightarrow> int \<Rightarrow> string" where
  "pad 0 i = []"
| "pad (Suc n) i = pad n (i div 10) @ [digit_chars ! nat (i mod 10)]"

definition year_text :: "int \<Rightarrow> string" where
  "year_text y = (if 0 \<le> y \<and> y \<le> 9999 then pad 4 y else if y < 0 then CHR ''-'' # pad 6 (- y) else CHR ''+'' # pad 6 y)"

definition MAX_DATE_MS :: int where "MAX_DATE_MS = 8640000000000000"

definition toISOString :: "int \<Rightarrow> string option" where
  "toISOString t =
     (if \<bar>t\<bar> > MAX_DATE_MS then None
      else let day = t div 86400000; ms = t mod 86400000; (y, m, d) = civil_of_days day in
        Some (year_text y @ ''-'' @ pad 2 m @ ''-'' @ pad 2 d @ ''T'' @ pad 2 (ms div 3600000) @ '':''
          @ pad 2 (ms div 60000 mod 60) @ '':'' @ pad 2 (ms div 1000 mod 60) @ ''.'' @ pad 3 (ms mod 1000) @ ''Z''))"

lemma toISOString_range: "toISOString t \<noteq> None \<longleftrightarrow> \<bar>t\<bar> \<le> MAX_DATE_MS"
  by (simp add: toISOString_def Let_def case_prod_beta)

lemma toISOString_examples:
  "toISOString 0 = Some ''1970-01-01T00:00:00.000Z''"
  "toISOString 951827696789 = Some ''2000-02-29T12:34:56.789Z''"
  "toISOString 253402300799999 = Some ''9999-12-31T23:59:59.999Z''"
  "toISOString 253402300800000 = Some ''+010000-01-01T00:00:00.000Z''"
  "toISOString (- 62198755200000) = Some ''-000001-01-01T00:00:00.000Z''"
  by code_simp+

end
