(* ===== verification/Job_Coordinator.thy ===== *)
theory Job_Coordinator
  imports Job_Store Control_Store Business_Digest Iso_Date
begin

text \<open>
  The job coordinator (\<^verbatim>\<open>jobs/v2-service.ts\<close>, class \<^verbatim>\<open>JobCoordinatorV2\<close>): it
  authorises every request against the control store, validates it, runs the commands of the job store, and
  builds the views hosts and devices see.

  A \<^emph>\<open>moment\<close> is the Redis clock with the key space. An operation that awaits Redis between two commands
  takes what other clients do meanwhile as an argument \<open>env\<close>, a function on moments; the control
  database is read synchronously. SHA-256 (\<^verbatim>\<open>node:crypto\<close>) is the argument \<open>sha\<close>, the
  clock of the server process (\<^verbatim>\<open>Date.now\<close>) the argument \<open>date\<close>.
\<close>

type_synonym moment = "int \<times> redis"

section \<open>Errors and access\<close>

datatype coord_error =
    StoreFailure store_error
  | JobValidationError
  | TargetNotFoundError
  | TargetDisabledError
  | UserInactiveError
  | WorkspaceMembershipError
  | ResourceNotFoundError
  | WorkspaceAccessDeniedError
  | ReportSchemaError
  | RangeError
  | ResourceFailure string

type_synonym 'a coord = "coord_error + 'a"

abbreviation queue_unavailable :: "string \<Rightarrow> coord_error" where
  "queue_unavailable detail \<equiv> StoreFailure (V2StoreError detail)"

abbreviation from_store :: "store_error + 'a \<Rightarrow> 'a coord" where
  "from_store \<equiv> emap_err StoreFailure"

record scope =
  sc_user_id :: user_id
  sc_workspace_id :: ws_id

definition assertHostWorkspaceAccess :: "control_db \<Rightarrow> scope \<Rightarrow> unit coord" where
  "assertHostWorkspaceAccess cdb s =
     (if sc_user_id s = [] \<or> sc_workspace_id s = [] then Inl WorkspaceAccessDeniedError
      else if \<not> active_user cdb (sc_user_id s) then Inl WorkspaceAccessDeniedError
      else if membership_of cdb (sc_workspace_id s) (sc_user_id s) = None then Inl WorkspaceAccessDeniedError
      else Inr ())"

definition iso :: "int \<Rightarrow> string coord" where
  "iso t = (case toISOString t of None \<Rightarrow> Inl RangeError | Some s \<Rightarrow> Inr s)"

section \<open>The state a host sees\<close>

datatype host_state = HS_queued | HS_expired | HS_claimed | HS_running | HS_terminal

definition deriveHostJobState :: "job \<Rightarrow> attempt option \<Rightarrow> int \<Rightarrow> host_state coord" where
  "deriveHostJobState job att date = (case j_status job of
      JS_preparing \<Rightarrow> Inl (queue_unavailable ''CORRUPT_JOB_STATE'')
    | JS_queued \<Rightarrow> Inr (if date < j_claim_deadline_ms job then HS_queued else HS_expired)
    | JS_active \<Rightarrow> (case att of
        None \<Rightarrow> Inl (queue_unavailable ''CORRUPT_JOB_STATE'')
      | Some a \<Rightarrow> (case a_phase a of
          AP_claimed \<Rightarrow> Inr HS_claimed
        | AP_running \<Rightarrow> Inr HS_running
        | AP_terminal \<Rightarrow> Inl (queue_unavailable ''CORRUPT_JOB_STATE'')))
    | JS_terminal \<Rightarrow> (case att of
        None \<Rightarrow> if j_cancel job \<noteq> None then Inr HS_terminal else Inl (queue_unavailable ''CORRUPT_JOB_STATE'')
      | Some a \<Rightarrow> if a_phase a = AP_terminal then Inr HS_terminal else Inl (queue_unavailable ''CORRUPT_JOB_STATE'')))"

definition attempt_report :: "attempt option \<Rightarrow> persisted_report option" where
  "attempt_report att = (case att of None \<Rightarrow> None | Some a \<Rightarrow> a_report a)"

definition jobExecutionStatusView :: "job \<Rightarrow> attempt option \<Rightarrow> execution_status option" where
  "jobExecutionStatusView job att = (case attempt_report att of
      Some r \<Rightarrow> Some (r_execution_status r)
    | None \<Rightarrow> if j_cancel job \<noteq> None then Some ES_CANCELLED else None)"

definition jobBusinessOutcomeView :: "job \<Rightarrow> attempt option \<Rightarrow> business_outcome option" where
  "jobBusinessOutcomeView job att = (case attempt_report att of
      Some r \<Rightarrow> Some (r_business_outcome r)
    | None \<Rightarrow> if j_cancel job \<noteq> None then Some BO_NOT_STARTED else None)"

definition resolveHostJobTargetAlias :: "control_db \<Rightarrow> job \<Rightarrow> string coord" where
  "resolveHostJobTargetAlias cdb job = (case getExecutionTarget cdb (j_target_id job) of
      None \<Rightarrow> Inr (j_target_id job)
    | Some t \<Rightarrow>
       if t_id t \<noteq> j_target_id job \<or> t_workspace_id t \<noteq> j_workspace_id job
       then Inl (queue_unavailable ''CORRUPT_TARGET_STATE'')
       else Inr (t_alias t))"

text \<open>The attempt a job names, with the check that the two belong together.\<close>

definition linked_attempt :: "moment \<Rightarrow> job \<Rightarrow> attempt option coord" where
  "linked_attempt m job = (case j_latest_attempt_id job of
      None \<Rightarrow> Inr None
    | Some aid \<Rightarrow>
       if aid = [] then Inr None
       else ebind (from_store (getAttempt (fst m) (snd m) aid)) (\<lambda>r. case r of
          None \<Rightarrow> Inl (queue_unavailable ''CORRUPT_ATTEMPT_LINKAGE'')
        | Some a \<Rightarrow>
           if a_job_id a \<noteq> j_job_id job \<or> a_workspace_id a \<noteq> j_workspace_id job
              \<or> a_target_id a \<noteq> j_target_id job \<or> a_user_id a \<noteq> j_user_id job
           then Inl (queue_unavailable ''CORRUPT_ATTEMPT_LINKAGE'')
           else Inr (Some a)))"

section \<open>Submission\<close>

record submit_input =
  in_request_id :: string
  in_target_id :: target_id
  in_prompt :: string
  in_acceptance :: string
  in_resource_id :: "string option"
  in_execution_timeout_seconds :: int
  in_result_target :: result_target

text \<open>
  The run-time type tests of the code (\<^verbatim>\<open>typeof\<close>, \<^verbatim>\<open>Number.isInteger\<close>, the two literals of
  \<^verbatim>\<open>result_target\<close>) are what the types of the record say.
\<close>

definition brief_invalid :: "nat \<Rightarrow> string \<Rightarrow> bool" where
  "brief_invalid limit s \<longleftrightarrow> isWhitespaceOnly s \<or> utf8ByteLength s > limit"

definition timeout_invalid :: "int \<Rightarrow> bool" where
  "timeout_invalid t \<longleftrightarrow> t < MIN_TIMEOUT_SECONDS \<or> t > MAX_TIMEOUT_SECONDS"

definition resource_link_invalid :: "result_target \<Rightarrow> string option \<Rightarrow> bool" where
  "resource_link_invalid t r = (case t of
      RT_resource \<Rightarrow> (case r of None \<Rightarrow> True | Some x \<Rightarrow> \<not> RESOURCE_ID_V2_RE x)
    | RT_none \<Rightarrow> (case r of None \<Rightarrow> False | Some x \<Rightarrow> \<not> RESOURCE_ID_V2_RE x))"

definition validate_submission :: "submit_input \<Rightarrow> unit coord" where
  "validate_submission i =
     (if \<not> REQUEST_ID_V2_RE (in_request_id i) then Inl JobValidationError
      else if \<not> TARGET_ID_V2_RE (in_target_id i) then Inl JobValidationError
      else if brief_invalid MAX_PROMPT_BYTES (in_prompt i) then Inl JobValidationError
      else if brief_invalid MAX_ACCEPTANCE_BYTES (in_acceptance i) then Inl JobValidationError
      else if timeout_invalid (in_execution_timeout_seconds i) then Inl JobValidationError
      else if resource_link_invalid (in_result_target i) (in_resource_id i) then Inl JobValidationError
      else Inr ())"

definition business_of :: "submit_input \<Rightarrow> business" where
  "business_of i = \<lparr>bz_target_id = in_target_id i, bz_prompt = in_prompt i, bz_acceptance = in_acceptance i,
     bz_resource_id = in_resource_id i, bz_execution_timeout_seconds = in_execution_timeout_seconds i,
     bz_result_target = in_result_target i\<rparr>"

text \<open>The job a request id already has, when it is the same request; the request and the job are two reads.\<close>

definition existing_job :: "(moment \<Rightarrow> moment) \<Rightarrow> (job \<Rightarrow> bool) \<Rightarrow> moment \<Rightarrow> scope \<Rightarrow> string \<Rightarrow> job option coord" where
  "existing_job env same m s rid =
     ebind (from_store (getRequestJobId (fst m) (snd m) (sc_user_id s) (sc_workspace_id s) rid)) (\<lambda>r. case r of
        None \<Rightarrow> Inr None
      | Some jid \<Rightarrow>
         if jid = [] then Inr None
         else ebind (from_store (getJob (fst (env m)) (snd (env m)) jid)) (\<lambda>x. case x of
            None \<Rightarrow> Inl (queue_unavailable ''CORRUPT_SUBMISSION_REFERENCE'')
          | Some job \<Rightarrow>
             if j_user_id job \<noteq> sc_user_id s \<or> j_workspace_id job \<noteq> sc_workspace_id s \<or> j_request_id job \<noteq> rid
             then Inl (StoreFailure V2IdempotencyConflictError)
             else if j_status job = JS_preparing then Inl (queue_unavailable ''INCOMPLETE_SUBMISSION'')
             else if same job then Inr (Some job)
             else Inl (StoreFailure V2IdempotencyConflictError)))"

definition checkExistingSubmission ::
  "(string \<Rightarrow> digest) \<Rightarrow> (moment \<Rightarrow> moment) \<Rightarrow> control_db \<Rightarrow> moment \<Rightarrow> scope \<Rightarrow> submit_input \<Rightarrow> job option coord" where
  "checkExistingSubmission sha env cdb m s i =
     ebind (assertHostWorkspaceAccess cdb s) (\<lambda>_.
     ebind (validate_submission i) (\<lambda>_.
     existing_job env (\<lambda>job. j_request_digest job = businessDigestV2 sha (business_of i)) m s (in_request_id i)))"

record acquisition_input =
  ac_request_id :: string
  ac_prompt :: string
  ac_acceptance :: string
  ac_resource_id :: string
  ac_execution_timeout_seconds :: int

text \<open>The target is not compared: the one the existing job was submitted for stays.\<close>

definition checkExistingResourceAcquisitionSubmission ::
  "(moment \<Rightarrow> moment) \<Rightarrow> control_db \<Rightarrow> moment \<Rightarrow> scope \<Rightarrow> acquisition_input \<Rightarrow> job option coord" where
  "checkExistingResourceAcquisitionSubmission env cdb m s i =
     ebind (assertHostWorkspaceAccess cdb s) (\<lambda>_.
       if \<not> REQUEST_ID_V2_RE (ac_request_id i) then Inl JobValidationError
       else if isWhitespaceOnly (ac_prompt i) then Inl JobValidationError
       else if isWhitespaceOnly (ac_acceptance i) then Inl JobValidationError
       else if timeout_invalid (ac_execution_timeout_seconds i) then Inl JobValidationError
       else if \<not> RESOURCE_ID_V2_RE (ac_resource_id i) then Inl JobValidationError
       else existing_job env (\<lambda>job. j_result_target job = RT_resource \<and> j_resource_id job = Some (ac_resource_id i)
              \<and> j_execution_timeout_seconds job = ac_execution_timeout_seconds i
              \<and> j_prompt job = ac_prompt i \<and> j_acceptance job = ac_acceptance i) m s (ac_request_id i))"

definition authorize_submission ::
  "control_db \<Rightarrow> (user_id \<Rightarrow> ws_id \<Rightarrow> string \<Rightarrow> bool) option \<Rightarrow> scope \<Rightarrow> submit_input \<Rightarrow> unit coord" where
  "authorize_submission cdb resourceExists s i = (case getExecutionTarget cdb (in_target_id i) of
      None \<Rightarrow> Inl TargetNotFoundError
    | Some t \<Rightarrow>
       if t_workspace_id t \<noteq> sc_workspace_id s then Inl TargetNotFoundError
       else if t_disabled_at_ms t \<noteq> None then Inl TargetDisabledError
       else if \<not> active_user cdb (sc_user_id s) then Inl UserInactiveError
       else if membership_of cdb (sc_workspace_id s) (sc_user_id s) = None then Inl WorkspaceMembershipError
       else (case (in_resource_id i, resourceExists) of
          (Some r, Some ex) \<Rightarrow> if r \<noteq> [] \<and> \<not> ex (sc_user_id s) (sc_workspace_id s) r then Inl ResourceNotFoundError else Inr ()
        | _ \<Rightarrow> Inr ()))"

definition new_job :: "(string \<Rightarrow> digest) \<Rightarrow> int \<Rightarrow> string \<Rightarrow> scope \<Rightarrow> submit_input \<Rightarrow> job" where
  "new_job sha date uuid s i =
     \<lparr>j_job_id = ''job-'' @ uuid, j_request_id = in_request_id i, j_user_id = sc_user_id s, j_workspace_id = sc_workspace_id s,
      j_target_id = in_target_id i, j_prompt = in_prompt i, j_acceptance = in_acceptance i, j_resource_id = in_resource_id i,
      j_execution_timeout_seconds = in_execution_timeout_seconds i, j_result_target = in_result_target i,
      j_request_digest = businessDigestV2 sha (business_of i), j_status = JS_preparing, j_stream_entry_id = None,
      j_latest_attempt_id = None, j_created_at_ms = date, j_claim_deadline_ms = date + JOB_CLAIM_TTL_MS_V2, j_cancel = None\<rparr>"

text \<open>The awaits of \<^verbatim>\<open>submit\<close>: between the two reads, before the script and before the final read.\<close>

record submit_env =
  se_read :: "moment \<Rightarrow> moment"
  se_create :: "moment \<Rightarrow> moment"
  se_fetch :: "moment \<Rightarrow> moment"

definition submit ::
  "(string \<Rightarrow> digest) \<Rightarrow> (user_id \<Rightarrow> ws_id \<Rightarrow> string \<Rightarrow> bool) option \<Rightarrow> submit_env \<Rightarrow> int \<Rightarrow> string \<Rightarrow> control_db \<Rightarrow> control_db
   \<Rightarrow> moment \<Rightarrow> scope \<Rightarrow> submit_input \<Rightarrow> moment \<times> (string \<times> job) coord" where
  "submit sha resourceExists env date uuid cdb cdb' m s i =
     (case checkExistingSubmission sha (se_read env) cdb m s i of
        Inl e \<Rightarrow> (m, Inl e)
      | Inr (Some job) \<Rightarrow> (m, Inr (''replayed'', job))
      | Inr None \<Rightarrow>
         (case authorize_submission cdb' resourceExists s i of
            Inl e \<Rightarrow> (m, Inl e)
          | Inr _ \<Rightarrow>
             (case se_create env m of (now, db) \<Rightarrow>
              case createJob now db (new_job sha date uuid s i) (in_request_id i) of
                (db', Inl e) \<Rightarrow> ((now, db'), Inl (StoreFailure e))
              | (db', Inr res) \<Rightarrow>
                 (case se_fetch env (now, db') of (now', db'') \<Rightarrow>
                   ((now', db''), ebind (from_store (getJob now' db'' (cr_job_id res))) (\<lambda>x. case x of
                      None \<Rightarrow> Inl (queue_unavailable ''JOB_RETRIEVAL_FAILED'')
                    | Some job \<Rightarrow> Inr (cr_status res, job)))))))"

section \<open>Pending jobs of a device\<close>

record pending_job =
  pj_job_id :: job_id
  pj_workspace_id :: ws_id
  pj_target_id :: target_id
  pj_resource_id :: "string option"
  pj_created_at :: string
  pj_expires_at :: "string option"

definition bounded :: "int \<Rightarrow> int \<Rightarrow> int" where
  "bounded cap limit = min (max 1 limit) cap"

fun pending_candidates :: "moment \<Rightarrow> int \<Rightarrow> target_id list \<Rightarrow> (job_id \<times> rat \<times> target_id) list coord" where
  "pending_candidates m limit [] = Inr []"
| "pending_candidates m limit (t # ts) =
     ebind (from_store (getQueuedJobIdsForTarget (fst m) (snd m) t limit)) (\<lambda>rows.
     ebind (pending_candidates m limit ts) (\<lambda>rest.
     Inr (map (\<lambda>(jid, score). (jid, score, t)) rows @ rest)))"

definition pending_summary :: "job \<Rightarrow> pending_job coord" where
  "pending_summary job =
     ebind (iso (j_created_at_ms job)) (\<lambda>created.
     ebind (if j_claim_deadline_ms job > 0 then ebind (iso (j_claim_deadline_ms job)) (\<lambda>x. Inr (Some x)) else Inr None) (\<lambda>expires.
     Inr \<lparr>pj_job_id = j_job_id job, pj_workspace_id = j_workspace_id job, pj_target_id = j_target_id job,
          pj_resource_id = j_resource_id job, pj_created_at = created, pj_expires_at = expires\<rparr>))"

definition claimable :: "int \<Rightarrow> target_id \<Rightarrow> job option \<Rightarrow> bool" where
  "claimable date t x = (case x of None \<Rightarrow> False | Some job \<Rightarrow> j_status job = JS_queued
     \<and> \<not> (j_claim_deadline_ms job > 0 \<and> date \<ge> j_claim_deadline_ms job) \<and> j_target_id job = t)"

text \<open>Entries that cannot be claimed are pruned from their queue; a failing prune is ignored.\<close>

fun pending_collect ::
  "int \<Rightarrow> int \<Rightarrow> (job_id \<times> rat \<times> target_id) list \<Rightarrow> pending_job list \<Rightarrow> moment \<Rightarrow> moment \<times> pending_job list coord" where
  "pending_collect date limit [] acc m = (m, Inr acc)"
| "pending_collect date limit ((jid, score, t) # cs) acc m =
     (if int (length acc) \<ge> limit then (m, Inr acc)
      else case getJob (fst m) (snd m) jid of
        Inl e \<Rightarrow> (m, Inl (StoreFailure e))
      | Inr x \<Rightarrow>
         if \<not> claimable date t x
         then pending_collect date limit cs acc (fst m, fst (pruneTargetQueue (fst m) (snd m) t [jid]))
         else (case pending_summary (the x) of
            Inl e \<Rightarrow> (m, Inl e)
          | Inr p \<Rightarrow> pending_collect date limit cs (acc @ [p]) m))"

definition getPendingJobs :: "control_db \<Rightarrow> int \<Rightarrow> moment \<Rightarrow> device_id \<Rightarrow> int \<Rightarrow> moment \<times> pending_job list coord" where
  "getPendingJobs cdb date m deviceId limit =
     (let boundedLimit = bounded 50 limit; ids = listEligibleTargetIdsForDevice cdb deviceId in
      if ids = [] then (m, Inr [])
      else case pending_candidates m boundedLimit ids of
        Inl e \<Rightarrow> (m, Inl e)
      | Inr cands \<Rightarrow> pending_collect date boundedLimit (sort_key (\<lambda>c. fst (snd c)) cands) [] m)"

section \<open>Claim, start, report and result\<close>

record claim_view =
  cv_replayed :: bool
  cv_server_time :: string
  cv_attempt_id :: attempt_id
  cv_phase :: attempt_phase
  cv_claimed_at :: string
  cv_started_at :: "string option"
  cv_job :: job

text \<open>\<^verbatim>\<open>x ? new Date(x).toISOString() : null\<close>, where zero counts as absent.\<close>

definition iso_or_null :: "int option \<Rightarrow> string option coord" where
  "iso_or_null t = (case t of None \<Rightarrow> Inr None | Some x \<Rightarrow> if x = 0 then Inr None else ebind (iso x) (\<lambda>s. Inr (Some s)))"

definition claimed_view :: "job \<Rightarrow> attempt_outcome \<Rightarrow> claim_view coord" where
  "claimed_view job out =
     ebind (iso (ao_server_time_ms out)) (\<lambda>time.
     ebind (iso (a_claimed_at_ms (ao_attempt out))) (\<lambda>claimed.
     ebind (iso_or_null (a_started_at_ms (ao_attempt out))) (\<lambda>started.
     Inr \<lparr>cv_replayed = (ao_status out = ''replayed''), cv_server_time = time, cv_attempt_id = a_attempt_id (ao_attempt out),
          cv_phase = a_phase (ao_attempt out), cv_claimed_at = claimed, cv_started_at = started, cv_job = job\<rparr>)))"

text \<open>
  The binding and the replay flag the claim script is called with: the attempt the job already has is only
  replayed, whatever became of the binding; any other claim needs a device that is eligible now.
\<close>

definition claim_ticket :: "control_db \<Rightarrow> job \<Rightarrow> device_id \<Rightarrow> attempt_id \<Rightarrow> (binding_id \<times> bool) coord" where
  "claim_ticket cdb job deviceId attemptId =
     (if j_latest_attempt_id job = Some attemptId then Inr ([], True)
      else case resolveEligibleBinding cdb deviceId (j_target_id job) of
        Ineligible _ \<Rightarrow> Inl (StoreFailure V2JobNotFoundError)
      | Eligible b d t \<Rightarrow>
         if t_workspace_id t \<noteq> j_workspace_id job then Inl (StoreFailure V2JobNotFoundError) else Inr (b_id b, False))"

definition claimJob ::
  "(string \<Rightarrow> digest) \<Rightarrow> (moment \<Rightarrow> moment) \<Rightarrow> control_db \<Rightarrow> moment \<Rightarrow> device_id \<Rightarrow> job_id \<Rightarrow> attempt_id \<Rightarrow> string \<Rightarrow> moment \<times> claim_view coord" where
  "claimJob sha env cdb m deviceId jobId attemptId claimToken =
     (if \<not> ATTEMPT_ID_V2_RE attemptId then (m, Inl JobValidationError)
      else if \<not> HEX_64_RE claimToken then (m, Inl JobValidationError)
      else case getJob (fst m) (snd m) jobId of
        Inl e \<Rightarrow> (m, Inl (StoreFailure e))
      | Inr None \<Rightarrow> (m, Inl (StoreFailure V2JobNotFoundError))
      | Inr (Some job) \<Rightarrow>
         (case claim_ticket cdb job deviceId attemptId of
            Inl e \<Rightarrow> (m, Inl e)
          | Inr (bindingId, replayOnly) \<Rightarrow>
             (case env m of (now, db) \<Rightarrow>
              case store_claimJob now db jobId (j_workspace_id job) (j_target_id job) deviceId bindingId attemptId (sha claimToken) replayOnly of
                (db', r) \<Rightarrow> ((now, db'), ebind (from_store r) (claimed_view job)))))"

definition startJob ::
  "(string \<Rightarrow> digest) \<Rightarrow> moment \<Rightarrow> device_id \<Rightarrow> job_id \<Rightarrow> attempt_id \<Rightarrow> string \<Rightarrow> moment \<times> (bool \<times> string) coord" where
  "startJob sha m deviceId jobId attemptId claimToken =
     (if \<not> ATTEMPT_ID_V2_RE attemptId then (m, Inl JobValidationError)
      else if \<not> HEX_64_RE claimToken then (m, Inl JobValidationError)
      else case store_startJob (fst m) (snd m) jobId attemptId deviceId (sha claimToken) of
        (db', r) \<Rightarrow> ((fst m, db'), ebind (from_store r) (\<lambda>out.
          ebind (iso (ao_server_time_ms out)) (\<lambda>time. Inr (ao_status out = ''replayed'', time)))))"

text \<open>
  A managed result: its canonical digest (\<^verbatim>\<open>canonicalize\<close> with SHA-256) is the argument \<open>jcs\<close>, and
  what the resource service does with it, a git transaction that returns a commit, the argument \<open>apply_result\<close>.
\<close>

record managed_result =
  mr_schema_version :: int
  mr_job_id :: job_id
  mr_attempt_id :: attempt_id
  mr_resource_id :: string
  mr_summary :: string
  mr_operations :: "json list"

record result_ack =
  ra_replayed :: bool
  ra_server_time :: string
  ra_resource_id :: string
  ra_commit :: string

text \<open>The checks on job, attempt and owner before anything is applied.\<close>

definition result_owner ::
  "(string \<Rightarrow> digest) \<Rightarrow> job option \<Rightarrow> attempt option \<Rightarrow> device_id \<Rightarrow> job_id \<Rightarrow> string \<Rightarrow> managed_result \<Rightarrow> (job \<times> attempt) coord" where
  "result_owner sha j a deviceId jobId claimToken res = (case j of
      None \<Rightarrow> Inl (StoreFailure V2JobNotFoundError)
    | Some job \<Rightarrow>
       if j_result_target job \<noteq> RT_resource then Inl JobValidationError
       else if j_resource_id job \<noteq> Some (mr_resource_id res) then Inl JobValidationError
       else (case a of
          None \<Rightarrow> Inl (StoreFailure (V2AttemptLifecycleError ''ATTEMPT_NOT_FOUND''))
        | Some att \<Rightarrow>
           if a_job_id att \<noteq> jobId then Inl (StoreFailure (V2AttemptLifecycleError ''ATTEMPT_NOT_FOUND''))
           else if a_device_id att \<noteq> deviceId then Inl (StoreFailure (V2AttemptLifecycleError ''IDENTITY_MISMATCH''))
           else if a_claim_token_sha256 att \<noteq> sha claimToken then Inl (StoreFailure (V2AttemptLifecycleError ''IDENTITY_MISMATCH''))
           else Inr (job, att)))"

definition deliver_result ::
  "(string \<Rightarrow> digest) \<Rightarrow> (moment \<Rightarrow> moment) \<Rightarrow> (job_id \<Rightarrow> attempt_id \<Rightarrow> managed_result \<Rightarrow> digest \<Rightarrow> string + string \<times> bool) \<Rightarrow> int \<Rightarrow> moment
   \<Rightarrow> device_id \<Rightarrow> job_id \<Rightarrow> attempt_id \<Rightarrow> string \<Rightarrow> managed_result \<Rightarrow> digest \<Rightarrow> string \<Rightarrow> moment \<times> result_ack coord" where
  "deliver_result sha env apply_result date m deviceId jobId attemptId claimToken res payload mode =
     (case apply_result jobId attemptId res payload of
        Inl e \<Rightarrow> (m, Inl (ResourceFailure e))
      | Inr (commit, replayed) \<Rightarrow>
         (case env m of (now, db) \<Rightarrow>
          case recordJobResult now db jobId attemptId deviceId (sha claimToken)
                 \<lparr>res_attempt_id = attemptId, res_payload_sha256 = payload,
                  res_resource_id = mr_resource_id res, res_commit = commit, res_received_at_ms = date\<rparr> (Some mode) of
            (db', r) \<Rightarrow> ((now, db'), ebind (from_store r) (\<lambda>out.
              ebind (iso (ro_server_time_ms out)) (\<lambda>time.
              Inr \<lparr>ra_replayed = (replayed \<or> ro_status out = ''replayed''), ra_server_time = time,
                   ra_resource_id = ro_resource_id out, ra_commit = ro_commit out\<rparr>)))))"

definition submitJobResult ::
  "(string \<Rightarrow> digest) \<Rightarrow> (managed_result \<Rightarrow> digest) \<Rightarrow> (moment \<Rightarrow> moment) \<Rightarrow> (moment \<Rightarrow> moment)
   \<Rightarrow> (ws_id \<Rightarrow> job_id \<Rightarrow> attempt_id \<Rightarrow> managed_result \<Rightarrow> digest \<Rightarrow> string + string \<times> bool) option \<Rightarrow> int \<Rightarrow> moment
   \<Rightarrow> device_id \<Rightarrow> job_id \<Rightarrow> attempt_id \<Rightarrow> string \<Rightarrow> managed_result \<Rightarrow> digest \<Rightarrow> string \<Rightarrow> moment \<times> result_ack coord" where
  "submitJobResult sha jcs env1 env2 resourceService date m deviceId jobId attemptId claimToken res payload mode =
     (if \<not> JOB_ID_V2_RE jobId then (m, Inl JobValidationError)
      else if \<not> ATTEMPT_ID_V2_RE attemptId then (m, Inl JobValidationError)
      else if claimToken = [] then (m, Inl JobValidationError)
      else case resourceService of
        None \<Rightarrow> (m, Inl JobValidationError)
      | Some apply_result \<Rightarrow>
         if jcs res \<noteq> payload then (m, Inl JobValidationError)
         else case getJob (fst m) (snd m) jobId of
           Inl e \<Rightarrow> (m, Inl (StoreFailure e))
         | Inr j \<Rightarrow>
            let wanted = (case j of None \<Rightarrow> False
                  | Some job \<Rightarrow> j_result_target job = RT_resource \<and> j_resource_id job = Some (mr_resource_id res));
                m1 = (if wanted then env1 m else m) in
            (case (if wanted then getAttempt (fst m1) (snd m1) attemptId else Inr None) of
               Inl e \<Rightarrow> (m1, Inl (StoreFailure e))
             | Inr a \<Rightarrow>
                (case result_owner sha j a deviceId jobId claimToken res of
                   Inl e \<Rightarrow> (m1, Inl e)
                 | Inr (job, att) \<Rightarrow>
                    let deliver = deliver_result sha env2 (apply_result (j_workspace_id job)) date m1 deviceId jobId attemptId
                          claimToken res payload mode in
                    (case a_result att of
                       None \<Rightarrow> deliver
                     | Some r \<Rightarrow>
                         if res_payload_sha256 r = payload
                         then (m1, ebind (iso date) (\<lambda>time. Inr \<lparr>ra_replayed = True, ra_server_time = time,
                                ra_resource_id = res_resource_id r, ra_commit = res_commit r\<rparr>))
                         else if mode \<noteq> ''explicit_redelivery''
                         then (m1, Inl (StoreFailure (V2ReportConflictError ''STALE_RESULT_SUBMISSION'')))
                         else deliver))))"

text \<open>A completed report of a job with a managed result needs that result first.\<close>

definition reportJob ::
  "(string \<Rightarrow> digest) \<Rightarrow> (moment \<Rightarrow> moment) \<Rightarrow> (moment \<Rightarrow> moment) \<Rightarrow> moment \<Rightarrow> device_id \<Rightarrow> job_id \<Rightarrow> attempt_id \<Rightarrow> string \<Rightarrow> json
   \<Rightarrow> moment \<times> (bool \<times> string) coord" where
  "reportJob sha env1 env2 m deviceId jobId attemptId claimToken rawReport =
     (if \<not> ATTEMPT_ID_V2_RE attemptId then (m, Inl JobValidationError)
      else if \<not> HEX_64_RE claimToken then (m, Inl JobValidationError)
      else case getJob (fst m) (snd m) jobId of
        Inl e \<Rightarrow> (m, Inl (StoreFailure e))
      | Inr None \<Rightarrow> (m, Inl (StoreFailure V2JobNotFoundError))
      | Inr (Some job) \<Rightarrow>
         (case executionReportSchema rawReport of
            None \<Rightarrow> (m, Inl ReportSchemaError)
          | Some report \<Rightarrow>
             let needs = j_result_target job = RT_resource \<and> r_execution_status report = ES_COMPLETED;
                 m1 = (if needs then env1 m else m) in
             case (if needs then getAttempt (fst m1) (snd m1) attemptId else Inr None) of
               Inl e \<Rightarrow> (m1, Inl (StoreFailure e))
             | Inr a \<Rightarrow>
                if needs \<and> (case a of None \<Rightarrow> True | Some att \<Rightarrow> a_result att = None)
                then (m1, Inl (StoreFailure (V2ReportConflictError ''RESULT_REQUIRED'')))
                else (case env2 m1 of (now, db) \<Rightarrow>
                  case store_reportJob now db jobId attemptId deviceId (sha claimToken) report of
                    (db', r) \<Rightarrow> ((now, db'), ebind (from_store r) (\<lambda>(status, time).
                      ebind (iso time) (\<lambda>t. Inr (status = ''replayed'', t)))))))"

section \<open>Cancellation by a device\<close>

definition JOB_CANCEL_MAX_RACE_RETRIES :: nat where "JOB_CANCEL_MAX_RACE_RETRIES = 3"

record cancel_view =
  xv_job_id :: job_id
  xv_previous_state :: host_state
  xv_execution_status :: string
  xv_business_outcome :: string
  xv_action :: string
  xv_attempt_id :: "attempt_id option"
  xv_message :: string

definition assertDeviceTargetAccess :: "control_db \<Rightarrow> device_id \<Rightarrow> target_id \<Rightarrow> unit coord" where
  "assertDeviceTargetAccess cdb deviceId targetId =
     (if list_ex (\<lambda>b. b_target_id b = targetId) (listBindingsForDevice cdb deviceId True) then Inr ()
      else Inl (StoreFailure V2JobNotFoundError))"

definition terminal_view :: "job \<Rightarrow> attempt option \<Rightarrow> cancel_view" where
  "terminal_view job att =
     (let status = (case jobExecutionStatusView job att of None \<Rightarrow> ES_CANCELLED | Some s \<Rightarrow> s);
          outcome = (case jobBusinessOutcomeView job att of None \<Rightarrow> BO_NOT_STARTED | Some b \<Rightarrow> b) in
      \<lparr>xv_job_id = j_job_id job, xv_previous_state = HS_terminal, xv_execution_status = status_str status,
       xv_business_outcome = outcome_str outcome,
       xv_action = (if status = ES_CANCELLED then ''already_cancelled'' else ''already_terminal''),
       xv_attempt_id = map_option a_attempt_id att,
       xv_message = (if status = ES_CANCELLED then ''Job was already cancelled by operator. No change.''
         else ''Job already finished with execution status '' @ [CHR 0x27] @ status_str status
              @ [CHR 0x27] @ ''. History preserved; not rewritten to CANCELLED.'')\<rparr>)"

definition cancel_view_of :: "job \<Rightarrow> host_state \<Rightarrow> cancel_outcome \<Rightarrow> cancel_view" where
  "cancel_view_of job previous out =
     \<lparr>xv_job_id = j_job_id job, xv_previous_state = previous, xv_execution_status = co_execution_status out,
      xv_business_outcome = co_business_outcome out,
      xv_action = (if co_result out = ''cancelled'' then ''cancelled'' else ''already_cancelled''),
      xv_attempt_id = co_attempt_id out,
      xv_message = (if co_result out \<noteq> ''cancelled'' then ''Job was already cancelled by operator. No change.''
        else if previous = HS_running
        then ''Running job terminalized by operator cancel. The owning Connector will observe the cancellation and stop.''
        else if previous = HS_claimed then ''Claimed job cancelled by operator before execution started.''
        else ''Job cancelled before claim. No attempt was created.'')\<rparr>"

definition cancel_receipt :: "(string \<Rightarrow> digest) \<Rightarrow> job \<Rightarrow> device_id \<Rightarrow> digest" where
  "cancel_receipt sha job deviceId =
     sha (''ceo:operator-cancel'' @ [CHR 0x00] @ j_job_id job @ [CHR 0x00]
          @ (case j_latest_attempt_id job of None \<Rightarrow> [] | Some a \<Rightarrow> a) @ [CHR 0x00] @ deviceId)"

definition cancel_reason :: "user_id \<Rightarrow> string" where
  "cancel_reason userId = ''operator cancel by user '' @ userId @ '' via ceo-connector CLI''"

text \<open>The script of a round; \<open>None\<close> is a lost race, which starts the next round.\<close>

definition cancel_apply ::
  "(string \<Rightarrow> digest) \<Rightarrow> (moment \<Rightarrow> moment) \<Rightarrow> device_id \<Rightarrow> user_id \<Rightarrow> job \<Rightarrow> host_state \<Rightarrow> moment \<Rightarrow> moment \<times> cancel_view coord option" where
  "cancel_apply sha env deviceId userId job previous m = (case env m of (now, db) \<Rightarrow>
     case store_cancelJob now db (j_job_id job) (j_latest_attempt_id job) (j_target_id job) deviceId
            (cancel_reason userId) (cancel_receipt sha job deviceId) of
       (db', r) \<Rightarrow> ((now, db'), if r = Inl V2CancelRaceError then None
         else Some (ebind (from_store r) (\<lambda>out. Inr (cancel_view_of job previous out)))))"

text \<open>\<^verbatim>\<open>job.latest_attempt_id ? await this.store.getAttempt(...) : null\<close>.\<close>

definition has_attempt :: "job \<Rightarrow> bool" where
  "has_attempt job \<longleftrightarrow> j_latest_attempt_id job \<noteq> None \<and> j_latest_attempt_id job \<noteq> Some []"

definition latest_attempt :: "moment \<Rightarrow> job \<Rightarrow> attempt option coord" where
  "latest_attempt m job = (if has_attempt job then from_store (getAttempt (fst m) (snd m) (the (j_latest_attempt_id job))) else Inr None)"

text \<open>One round: read the job and its attempt, decide, run the script.\<close>

definition cancel_round ::
  "(string \<Rightarrow> digest) \<Rightarrow> (moment \<Rightarrow> moment) \<Rightarrow> (moment \<Rightarrow> moment) \<Rightarrow> control_db \<Rightarrow> int \<Rightarrow> device_id \<Rightarrow> user_id \<Rightarrow> job_id
   \<Rightarrow> moment \<Rightarrow> moment \<times> cancel_view coord option" where
  "cancel_round sha env1 env2 cdb date deviceId userId jobId m = (case getJob (fst m) (snd m) jobId of
      Inl e \<Rightarrow> (m, Some (Inl (StoreFailure e)))
    | Inr None \<Rightarrow> (m, Some (Inl (StoreFailure V2JobNotFoundError)))
    | Inr (Some job) \<Rightarrow>
       (case assertDeviceTargetAccess cdb deviceId (j_target_id job) of
          Inl e \<Rightarrow> (m, Some (Inl e))
        | Inr _ \<Rightarrow>
           let m1 = (if has_attempt job then env1 m else m) in
           case ebind (latest_attempt m1 job) (\<lambda>att. ebind (deriveHostJobState job att date) (\<lambda>state. Inr (att, state))) of
             Inl e \<Rightarrow> (m1, Some (Inl e))
           | Inr (att, previous) \<Rightarrow>
               if previous = HS_terminal then (m1, Some (Inr (terminal_view job att)))
               else cancel_apply sha env2 deviceId userId job previous m1))"

record cancel_env =
  xe_read :: "moment \<Rightarrow> moment"
  xe_attempt :: "moment \<Rightarrow> moment"
  xe_script :: "moment \<Rightarrow> moment"
  xe_control :: control_db
  xe_date :: int

text \<open>The rounds still allowed; each has its own interference, control database and clock.\<close>

fun cancel_rounds ::
  "(string \<Rightarrow> digest) \<Rightarrow> (nat \<Rightarrow> cancel_env) \<Rightarrow> device_id \<Rightarrow> user_id \<Rightarrow> job_id \<Rightarrow> nat \<Rightarrow> moment \<Rightarrow> moment \<times> cancel_view coord" where
  "cancel_rounds sha env deviceId userId jobId 0 m = (m, Inl (queue_unavailable ''CANCEL_RACE_EXHAUSTED''))"
| "cancel_rounds sha env deviceId userId jobId (Suc n) m =
     (case cancel_round sha (xe_attempt (env n)) (xe_script (env n)) (xe_control (env n)) (xe_date (env n)) deviceId userId jobId
             (xe_read (env n) m) of
        (m', Some r) \<Rightarrow> (m', r)
      | (m', None) \<Rightarrow> cancel_rounds sha env deviceId userId jobId n m')"

definition cancelJobForDevice ::
  "(string \<Rightarrow> digest) \<Rightarrow> (nat \<Rightarrow> cancel_env) \<Rightarrow> moment \<Rightarrow> device_id \<Rightarrow> user_id \<Rightarrow> job_id \<Rightarrow> moment \<times> cancel_view coord" where
  "cancelJobForDevice sha env m deviceId userId jobId =
     (if \<not> JOB_ID_V2_RE jobId then (m, Inl JobValidationError)
      else cancel_rounds sha env deviceId userId jobId JOB_CANCEL_MAX_RACE_RETRIES m)"

section \<open>Views for hosts\<close>

definition getJobIdByRequestId :: "control_db \<Rightarrow> moment \<Rightarrow> scope \<Rightarrow> string \<Rightarrow> string option coord" where
  "getJobIdByRequestId cdb m s rid =
     ebind (assertHostWorkspaceAccess cdb s) (\<lambda>_.
       if \<not> REQUEST_ID_V2_RE rid then Inl JobValidationError
       else from_store (getRequestJobId (fst m) (snd m) (sc_user_id s) (sc_workspace_id s) rid))"

record host_summary =
  hs_job_id :: job_id
  hs_request_id :: string
  hs_target_id :: target_id
  hs_target_alias :: string
  hs_state :: host_state
  hs_execution_status :: "execution_status option"
  hs_business_outcome :: "business_outcome option"
  hs_created_at :: string
  hs_expires_at :: "string option"
  hs_resource_id :: "string option"
  hs_result_target :: result_target

definition expires_view :: "job \<Rightarrow> host_state \<Rightarrow> string option coord" where
  "expires_view job state = (if state = HS_queued \<or> state = HS_expired
     then ebind (iso (j_claim_deadline_ms job)) (\<lambda>s. Inr (Some s)) else Inr None)"

definition host_summary_of :: "control_db \<Rightarrow> job \<Rightarrow> attempt option \<Rightarrow> host_state \<Rightarrow> host_summary coord" where
  "host_summary_of cdb job att state =
     ebind (resolveHostJobTargetAlias cdb job) (\<lambda>alias.
     ebind (expires_view job state) (\<lambda>expires.
     ebind (iso (j_created_at_ms job)) (\<lambda>created.
     Inr \<lparr>hs_job_id = j_job_id job, hs_request_id = j_request_id job, hs_target_id = j_target_id job, hs_target_alias = alias,
          hs_state = state, hs_execution_status = jobExecutionStatusView job att,
          hs_business_outcome = jobBusinessOutcomeView job att, hs_created_at = created, hs_expires_at = expires,
          hs_resource_id = j_resource_id job, hs_result_target = j_result_target job\<rparr>)))"

record execution_view =
  ev_attempt_id :: attempt_id
  ev_phase :: attempt_phase
  ev_claimed_at :: string
  ev_started_at :: "string option"

record report_view =
  rv_report :: persisted_report
  rv_finished_at :: string
  rv_received_at :: string

record result_view =
  wv_result :: job_result
  wv_received_at :: string

record host_detail =
  hd_summary :: host_summary
  hd_execution_timeout_seconds :: int
  hd_execution :: "execution_view option"
  hd_report :: "report_view option"
  hd_result :: "result_view option"
  hd_task :: "(string \<times> string \<times> int) option"

definition optional :: "('a \<Rightarrow> 'b coord) \<Rightarrow> 'a option \<Rightarrow> 'b option coord" where
  "optional f x = (case x of None \<Rightarrow> Inr None | Some y \<Rightarrow> ebind (f y) (\<lambda>z. Inr (Some z)))"

definition execution_view_of :: "attempt \<Rightarrow> execution_view coord" where
  "execution_view_of a =
     ebind (iso (a_claimed_at_ms a)) (\<lambda>claimed.
     ebind (iso_or_null (a_started_at_ms a)) (\<lambda>started.
     Inr \<lparr>ev_attempt_id = a_attempt_id a, ev_phase = a_phase a, ev_claimed_at = claimed, ev_started_at = started\<rparr>))"

definition report_view_of :: "persisted_report \<Rightarrow> report_view coord" where
  "report_view_of r =
     ebind (iso (r_finished_at_ms r)) (\<lambda>finished.
     ebind (iso (r_received_at_ms r)) (\<lambda>received.
     Inr \<lparr>rv_report = r, rv_finished_at = finished, rv_received_at = received\<rparr>))"

definition result_view_of :: "job_result \<Rightarrow> result_view coord" where
  "result_view_of r = ebind (iso (res_received_at_ms r)) (\<lambda>received. Inr \<lparr>wv_result = r, wv_received_at = received\<rparr>)"

definition host_detail_of :: "control_db \<Rightarrow> job \<Rightarrow> attempt option \<Rightarrow> host_state \<Rightarrow> bool \<Rightarrow> host_detail coord" where
  "host_detail_of cdb job att state include_task =
     ebind (host_summary_of cdb job att state) (\<lambda>summary.
     ebind (optional execution_view_of att) (\<lambda>execution.
     ebind (optional report_view_of (attempt_report att)) (\<lambda>report.
     ebind (optional result_view_of (case att of None \<Rightarrow> None | Some a \<Rightarrow> a_result a)) (\<lambda>res.
     Inr \<lparr>hd_summary = summary, hd_execution_timeout_seconds = j_execution_timeout_seconds job, hd_execution = execution,
          hd_report = report, hd_result = res,
          hd_task = (if include_task then Some (j_prompt job, j_acceptance job, j_execution_timeout_seconds job) else None)\<rparr>))))"

definition getJobForHost :: "control_db \<Rightarrow> int \<Rightarrow> moment \<Rightarrow> scope \<Rightarrow> job_id \<Rightarrow> bool \<Rightarrow> host_detail coord" where
  "getJobForHost cdb date m s jobId include_task =
     ebind (assertHostWorkspaceAccess cdb s) (\<lambda>_.
       if \<not> JOB_ID_V2_RE jobId then Inl JobValidationError
       else ebind (from_store (getJob (fst m) (snd m) jobId)) (\<lambda>x. case x of
          None \<Rightarrow> Inl (StoreFailure V2JobNotFoundError)
        | Some job \<Rightarrow>
           if j_workspace_id job \<noteq> sc_workspace_id s then Inl (StoreFailure V2JobNotFoundError)
           else ebind (linked_attempt m job) (\<lambda>att.
             ebind (deriveHostJobState job att date) (\<lambda>state.
             host_detail_of cdb job att state include_task))))"

section \<open>Listing\<close>

definition JOB_LIST_DEFAULT_LIMIT :: int where "JOB_LIST_DEFAULT_LIMIT = 20"
definition JOB_LIST_MAX_LIMIT :: int where "JOB_LIST_MAX_LIMIT = 50"
definition JOB_LIST_SCAN_BATCH :: nat where "JOB_LIST_SCAN_BATCH = 64"
definition JOB_LIST_MAX_SCANNED :: nat where "JOB_LIST_MAX_SCANNED = 256"

record list_query =
  lq_target_id :: "target_id option"
  lq_state :: "host_state option"
  lq_execution_status :: "execution_status option"
  lq_limit :: "int option"
  lq_cursor :: "string option"

type_synonym stream_item = "string \<times> (string \<times> string) list"

text \<open>A job of the workspace: loaded, compared with its stream entry and filtered. \<open>None\<close> is a job that is skipped.\<close>

definition list_job :: "control_db \<Rightarrow> int \<Rightarrow> moment \<Rightarrow> list_query \<Rightarrow> stream_entry \<Rightarrow> host_summary option coord" where
  "list_job cdb date m q e =
     ebind (from_store (getJob (fst m) (snd m) (s_job_id e))) (\<lambda>x. case x of
        None \<Rightarrow> Inl (queue_unavailable ''CORRUPT_JOB_INDEX'')
      | Some job \<Rightarrow>
         if j_job_id job \<noteq> s_job_id e \<or> j_user_id job \<noteq> s_user_id e \<or> j_workspace_id job \<noteq> s_workspace_id e
            \<or> j_target_id job \<noteq> s_target_id e \<or> j_created_at_ms job \<noteq> s_created_at_ms e
         then Inl (queue_unavailable ''CORRUPT_JOB_INDEX'')
         else if (case lq_target_id q of None \<Rightarrow> False | Some t \<Rightarrow> t \<noteq> [] \<and> j_target_id job \<noteq> t) then Inr None
         else ebind (linked_attempt m job) (\<lambda>att.
           ebind (deriveHostJobState job att date) (\<lambda>state.
             if lq_state q \<noteq> None \<and> lq_state q \<noteq> Some state then Inr None
             else if lq_execution_status q \<noteq> None \<and> map_option r_execution_status (attempt_report att) \<noteq> lq_execution_status q
             then Inr None
             else ebind (host_summary_of cdb job att state) (\<lambda>s. Inr (Some s)))))"

text \<open>One stream entry: entries of other workspaces are skipped before anything else of them is read.\<close>

definition list_item :: "control_db \<Rightarrow> int \<Rightarrow> moment \<Rightarrow> scope \<Rightarrow> list_query \<Rightarrow> stream_item \<Rightarrow> host_summary option coord" where
  "list_item cdb date m s q item = (case jfield (fields_obj (snd item)) ''workspace_id'' of
      Some (JStr rawWs) \<Rightarrow>
        if isWhitespaceOnly rawWs \<or> js_length rawWs > 128 then Inl (queue_unavailable ''CORRUPT_JOB_INDEX'')
        else if rawWs \<noteq> sc_workspace_id s then Inr None
        else (case validateStreamEntryV2 (fields_obj (snd item)) of
            Inl _ \<Rightarrow> Inl (queue_unavailable ''CORRUPT_JOB_INDEX'')
          | Inr e \<Rightarrow> list_job cdb date m q e)
    | _ \<Rightarrow> Inl (queue_unavailable ''CORRUPT_JOB_INDEX''))"

record list_state =
  ls_jobs :: "host_summary list"
  ls_scanned :: nat
  ls_cursor :: "string option"
  ls_next :: "string option"

text \<open>The loop over one batch; it stops at the page limit and at the scan limit.\<close>

fun scan_batch :: "(stream_item \<Rightarrow> host_summary option coord) \<Rightarrow> nat \<Rightarrow> stream_item list \<Rightarrow> list_state \<Rightarrow> list_state coord" where
  "scan_batch view limit [] st = Inr st"
| "scan_batch view limit (item # items) st =
     ebind (view item) (\<lambda>r.
       let st1 = st\<lparr>ls_scanned := Suc (ls_scanned st), ls_cursor := Some (fst item),
                    ls_jobs := (case r of None \<Rightarrow> ls_jobs st | Some s \<Rightarrow> ls_jobs st @ [s])\<rparr> in
       if (r \<noteq> None \<and> limit \<le> length (ls_jobs st1)) \<or> JOB_LIST_MAX_SCANNED \<le> ls_scanned st1
       then Inr (st1\<lparr>ls_next := Some (fst item)\<rparr>)
       else scan_batch view limit items st1)"

lemma scan_batch_progress:
  "scan_batch view limit items st = Inr st' \<Longrightarrow> ls_scanned st \<le> ls_scanned st' \<and> (items \<noteq> [] \<longrightarrow> ls_scanned st < ls_scanned st')"
  by (induction items arbitrary: st) (fastforce simp: ebind_eq_Inr Let_def split: if_splits)+

function list_loop ::
  "(stream_item \<Rightarrow> host_summary option coord) \<Rightarrow> (string option \<Rightarrow> nat \<Rightarrow> stream_item list coord) \<Rightarrow> nat \<Rightarrow> list_state \<Rightarrow> list_state coord" where
  "list_loop view fetch limit st =
     (if length (ls_jobs st) < limit \<and> ls_scanned st < JOB_LIST_MAX_SCANNED
      then let batch = min JOB_LIST_SCAN_BATCH (JOB_LIST_MAX_SCANNED - ls_scanned st) in
        (case fetch (ls_cursor st) batch of
           Inl e \<Rightarrow> Inl e
         | Inr [] \<Rightarrow> Inr (st\<lparr>ls_next := None\<rparr>)
         | Inr (item # items) \<Rightarrow>
            (case scan_batch view limit (item # items) st of
               Inl e \<Rightarrow> Inl e
             | Inr st' \<Rightarrow>
                if length (item # items) < batch \<and> length (ls_jobs st') < limit \<and> ls_scanned st' < JOB_LIST_MAX_SCANNED
                then Inr (st'\<lparr>ls_next := None\<rparr>)
                else list_loop view fetch limit st'))
      else Inr st)"
  by pat_completeness auto

termination
proof (relation "measure (\<lambda>(view, fetch, limit, st). JOB_LIST_MAX_SCANNED - ls_scanned st)")
  fix view fetch limit and st st' :: list_state and item :: stream_item and items
  assume "length (ls_jobs st) < limit \<and> ls_scanned st < JOB_LIST_MAX_SCANNED" "scan_batch view limit (item # items) st = Inr st'"
  then show "((view, fetch, limit, st'), (view, fetch, limit, st)) \<in> measure (\<lambda>(view, fetch, limit, st). JOB_LIST_MAX_SCANNED - ls_scanned st)"
    using scan_batch_progress [of view limit "item # items" st st'] by auto
qed simp

declare list_loop.simps [simp del]

definition page_limit :: "int option \<Rightarrow> nat" where
  "page_limit limit = nat (bounded JOB_LIST_MAX_LIMIT (case limit of None \<Rightarrow> JOB_LIST_DEFAULT_LIMIT | Some l \<Rightarrow> l))"

definition listJobsForHost :: "control_db \<Rightarrow> int \<Rightarrow> moment \<Rightarrow> scope \<Rightarrow> list_query \<Rightarrow> (host_summary list \<times> string option) coord" where
  "listJobsForHost cdb date m s q =
     ebind (assertHostWorkspaceAccess cdb s) (\<lambda>_.
       if (case lq_target_id q of None \<Rightarrow> False | Some t \<Rightarrow> \<not> TARGET_ID_V2_RE t) then Inl JobValidationError
       else if (case lq_target_id q of None \<Rightarrow> False | Some t \<Rightarrow> (case getExecutionTarget cdb t of None \<Rightarrow> False
                 | Some r \<Rightarrow> t_workspace_id r \<noteq> sc_workspace_id s)) then Inl TargetNotFoundError
       else if (case lq_cursor q of None \<Rightarrow> False | Some c \<Rightarrow> \<not> STREAM_ENTRY_ID_RE c) then Inl JobValidationError
       else ebind (list_loop (list_item cdb date m s q)
               (\<lambda>cursor n. from_store (readJobStreamReverse (fst m) (snd m) cursor n)) (page_limit (lq_limit q))
               \<lparr>ls_jobs = [], ls_scanned = 0, ls_cursor = lq_cursor q, ls_next = None\<rparr>)
         (\<lambda>st. Inr (ls_jobs st, ls_next st)))"

section \<open>Views for devices\<close>

definition getJobForDevice :: "control_db \<Rightarrow> int \<Rightarrow> moment \<Rightarrow> device_id \<Rightarrow> user_id \<Rightarrow> job_id \<Rightarrow> bool \<Rightarrow> host_detail coord" where
  "getJobForDevice cdb date m deviceId userId jobId include_task =
     (if \<not> JOB_ID_V2_RE jobId then Inl JobValidationError
      else ebind (from_store (getJob (fst m) (snd m) jobId)) (\<lambda>x. case x of
         None \<Rightarrow> Inl (StoreFailure V2JobNotFoundError)
       | Some job \<Rightarrow> ebind (assertDeviceTargetAccess cdb deviceId (j_target_id job)) (\<lambda>_.
           getJobForHost cdb date m \<lparr>sc_user_id = userId, sc_workspace_id = j_workspace_id job\<rparr> jobId include_task)))"

text \<open>A JavaScript set keeps the first occurrence of each element, in insertion order.\<close>

definition js_set :: "'a list \<Rightarrow> 'a list" where
  "js_set xs = rev (remdups (rev xs))"

definition device_targets :: "control_db \<Rightarrow> device_id \<Rightarrow> target_id list" where
  "device_targets cdb deviceId = js_set (map b_target_id (listBindingsForDevice cdb deviceId True))"

definition device_workspaces :: "control_db \<Rightarrow> device_id \<Rightarrow> ws_id list" where
  "device_workspaces cdb deviceId =
     js_set (map t_workspace_id (List.map_filter (getExecutionTarget cdb) (device_targets cdb deviceId)))"

fun merged_jobs :: "(ws_id \<Rightarrow> (host_summary list \<times> string option) coord) \<Rightarrow> ws_id list \<Rightarrow> host_summary list coord" where
  "merged_jobs lst [] = Inr []"
| "merged_jobs lst (w # ws) = ebind (lst w) (\<lambda>r. ebind (merged_jobs lst ws) (\<lambda>rest. Inr (fst r @ rest)))"

text \<open>A stable sort, newest creation text first.\<close>

definition newest_first :: "host_summary list \<Rightarrow> host_summary list" where
  "newest_first xs = rev (sort_key hs_created_at (rev xs))"

definition list_workspaces ::
  "control_db \<Rightarrow> int \<Rightarrow> moment \<Rightarrow> user_id \<Rightarrow> list_query \<Rightarrow> ws_id list \<Rightarrow> (host_summary list \<times> string option) coord" where
  "list_workspaces cdb date m userId q ws = (case ws of
      [] \<Rightarrow> Inr ([], None)
    | [w] \<Rightarrow> listJobsForHost cdb date m \<lparr>sc_user_id = userId, sc_workspace_id = w\<rparr> q
    | _ \<Rightarrow> ebind (merged_jobs (\<lambda>w. listJobsForHost cdb date m \<lparr>sc_user_id = userId, sc_workspace_id = w\<rparr>
             (q\<lparr>lq_limit := Some (int (page_limit (lq_limit q))), lq_cursor := None\<rparr>)) ws)
           (\<lambda>jobs. Inr (take (page_limit (lq_limit q)) (newest_first jobs), None)))"

definition listJobsForDevice ::
  "control_db \<Rightarrow> int \<Rightarrow> moment \<Rightarrow> device_id \<Rightarrow> user_id \<Rightarrow> list_query \<Rightarrow> (host_summary list \<times> string option) coord" where
  "listJobsForDevice cdb date m deviceId userId q =
     (if (case lq_target_id q of None \<Rightarrow> True | Some t \<Rightarrow> t = [])
      then list_workspaces cdb date m userId q (device_workspaces cdb deviceId)
      else let t = the (lq_target_id q) in
        if t \<notin> set (device_targets cdb deviceId) then Inr ([], None)
        else case getExecutionTarget cdb t of
          None \<Rightarrow> Inr ([], None)
        | Some r \<Rightarrow> list_workspaces cdb date m userId q [t_workspace_id r])"

end
