(* ===== verification/Coordinator_Listing.thy ===== *)
theory Coordinator_Listing
  imports Job_Coordinator Job_Properties
begin

text \<open>
  The paged listing of jobs. What it relies on is the interface \<open>backward_stream\<close>: a stream that is read from
  a cursor towards its beginning, where the entries before a returned entry are the rest of what was read.
  Over it, one page is shown to be the visible jobs of a prefix of the older entries.
\<close>

section \<open>Reading a stream backwards\<close>

definition valid_cursor :: "string option \<Rightarrow> bool" where
  "valid_cursor c = (case c of None \<Rightarrow> True | Some t \<Rightarrow> STREAM_ENTRY_ID_RE t)"

text \<open>What a listing shows of a list of entries, and that none of them is corrupt.\<close>

definition shown :: "('i \<Rightarrow> 'e + 'v option) \<Rightarrow> 'i list \<Rightarrow> 'v list" where
  "shown view items = concat (map (\<lambda>i. case view i of Inr (Some v) \<Rightarrow> [v] | _ \<Rightarrow> []) items)"

definition intact :: "('i \<Rightarrow> 'e + 'v option) \<Rightarrow> 'i list \<Rightarrow> bool" where
  "intact view items = list_all (\<lambda>i. \<not> isl (view i)) items"

lemma shown_simps [simp]:
  "shown view [] = []" "shown view (xs @ ys) = shown view xs @ shown view ys"
  "view i = Inr r \<Longrightarrow> shown view [i] = (case r of None \<Rightarrow> [] | Some v \<Rightarrow> [v])"
  by (auto simp: shown_def split: option.splits)

lemma intact_simps [simp]:
  "intact view []" "intact view (xs @ ys) \<longleftrightarrow> intact view xs \<and> intact view ys" "intact view [i] \<longleftrightarrow> (\<exists>r. view i = Inr r)"
  by (auto simp: intact_def isl_def split: sum.splits) (metis sum.exhaust)

lemma scan_batch_cursor:
  assumes "scan_batch view limit (i # items) st = Inr st'" "take n L = i # items"
  shows "\<exists>k < length L. ls_cursor st' = Some (fst (L ! k))"
proof -
  have "items' = [] \<and> st' = st \<or> (\<exists>x \<in> set items'. ls_cursor st' = Some (fst x))" if "scan_batch view limit items' st = Inr st'" for items' st
    using that
  proof (induction items' arbitrary: st)
    case (Cons j js)
    then obtain r where r: "view j = Inr r" by (auto simp: ebind_eq_Inr)
    let ?st1 = "st\<lparr>ls_scanned := Suc (ls_scanned st), ls_cursor := Some (fst j), ls_jobs := (case r of None \<Rightarrow> ls_jobs st | Some v \<Rightarrow> ls_jobs st @ [v])\<rparr>"
    have "st' = ?st1\<lparr>ls_next := Some (fst j)\<rparr> \<or> scan_batch view limit js ?st1 = Inr st'"
      using Cons.prems r by (cases r) (auto simp: Let_def split: if_splits)
    then show ?case using Cons.IH [of ?st1] by auto
  qed simp
  then have "\<exists>x \<in> set (i # items). ls_cursor st' = Some (fst x)" using assms(1) by blast
  then obtain x where "x \<in> set (take n L)" "ls_cursor st' = Some (fst x)" using assms(2) by metis
  then show ?thesis by (metis in_set_conv_nth in_set_takeD)
qed

locale backward_stream =
  fixes ok :: "'s \<Rightarrow> bool"
    and fetch :: "'s \<Rightarrow> string option \<Rightarrow> nat \<Rightarrow> stream_item list coord"
    and older :: "'s \<Rightarrow> string option \<Rightarrow> stream_item list"
  assumes fetch_older: "ok s \<Longrightarrow> valid_cursor c \<Longrightarrow> fetch s c n = Inr (take n (older s c))"
    and older_item: "ok s \<Longrightarrow> valid_cursor c \<Longrightarrow> k < length (older s c) \<Longrightarrow>
      older s (Some (fst (older s c ! k))) = drop (Suc k) (older s c)"
    and item_cursor: "ok s \<Longrightarrow> valid_cursor c \<Longrightarrow> i \<in> set (older s c) \<Longrightarrow> valid_cursor (Some (fst i))"
begin

text \<open>Where a listing stands after the first \<open>k\<close> entries.\<close>

definition standing :: "'s \<Rightarrow> string option \<Rightarrow> (stream_item \<Rightarrow> host_summary option coord) \<Rightarrow> nat \<Rightarrow> list_state \<Rightarrow> bool" where
  "standing s c view k st \<longleftrightarrow> k \<le> length (older s c) \<and> ls_scanned st = k
     \<and> ls_cursor st = (if k = 0 then c else Some (fst (older s c ! (k - 1))))
     \<and> intact view (take k (older s c)) \<and> ls_jobs st = shown view (take k (older s c))"

lemma standing_rest:
  assumes "standing s c view k st" "ok s" "valid_cursor c"
  shows "valid_cursor (ls_cursor st) \<and> older s (ls_cursor st) = drop k (older s c)"
proof (cases k)
  case (Suc j)
  then have "j < length (older s c)" "ls_cursor st = Some (fst (older s c ! j))" using assms(1) by (simp_all add: standing_def)
  then show ?thesis using Suc older_item [OF assms(2,3)] item_cursor [OF assms(2,3)] by simp
qed (use assms in \<open>simp add: standing_def\<close>)

text \<open>The loop over a batch either consumes it or stops at an entry, with the cursor there.\<close>

lemma scan_batch_standing:
  assumes "standing s c view k st" "drop k (older s c) = items @ rest" "scan_batch view limit items st = Inr st'"
    "ls_next st = None" "length (ls_jobs st) < limit" "ls_scanned st < JOB_LIST_MAX_SCANNED"
  shows "\<exists>k'. standing s c view k' st' \<and> k \<le> k' \<and> length (ls_jobs st') \<le> limit \<and> k' \<le> JOB_LIST_MAX_SCANNED
    \<and> (if length (ls_jobs st') < limit \<and> k' < JOB_LIST_MAX_SCANNED then ls_next st' = None \<and> k' = k + length items
       else 0 < k' \<and> ls_next st' = ls_cursor st')"
  using assms
proof (induction items arbitrary: k st)
  case Nil
  then show ?case by (auto simp: standing_def)
next
  case (Cons i items)
  let ?L = "older s c"
  obtain r where r: "view i = Inr r" using Cons.prems(3) by (auto simp: ebind_eq_Inr)
  let ?st1 = "st\<lparr>ls_scanned := Suc (ls_scanned st), ls_cursor := Some (fst i), ls_jobs := (case r of None \<Rightarrow> ls_jobs st | Some v \<Rightarrow> ls_jobs st @ [v])\<rparr>"
  have k: "k < length ?L" using Cons.prems(2) by (metis append_Cons drop_eq_Nil2 linorder_not_le list.discI)
  have i: "?L ! k = i" "drop (Suc k) ?L = items @ rest" using Cons.prems(2) k by (simp_all add: Cons_nth_drop_Suc [symmetric])
  have st1: "standing s c view (Suc k) ?st1"
    using Cons.prems(1) k i(1) r by (auto simp: standing_def take_Suc_conv_app_nth split: option.splits)
  have scanned: "ls_scanned st = k" using Cons.prems(1) by (simp add: standing_def)
  show ?case
  proof (cases "r \<noteq> None \<and> limit \<le> length (ls_jobs ?st1) \<or> JOB_LIST_MAX_SCANNED \<le> ls_scanned ?st1")
    case True
    then have st': "st' = ?st1\<lparr>ls_next := Some (fst i)\<rparr>" using Cons.prems(3) r by (simp add: Let_def)
    have "standing s c view (Suc k) st'" using st1 unfolding st' by (simp add: standing_def)
    moreover have "length (ls_jobs st') \<le> limit" unfolding st' using Cons.prems(5) by (cases r) auto
    moreover have "limit \<le> length (ls_jobs st') \<or> JOB_LIST_MAX_SCANNED \<le> Suc k" using True scanned unfolding st' by auto
    ultimately show ?thesis using Cons.prems(6) scanned unfolding st' by (intro exI [of _ "Suc k"]) (auto simp: not_less)
  next
    case False
    then have next1: "scan_batch view limit items ?st1 = Inr st'" using Cons.prems(3) r by (cases r) (simp_all add: Let_def)
    have "length (ls_jobs ?st1) < limit" using False Cons.prems(5) by (cases r) auto
    moreover have "ls_scanned ?st1 < JOB_LIST_MAX_SCANNED" using False by auto
    moreover have "ls_next ?st1 = None" using Cons.prems(4) by simp
    ultimately obtain k' where "standing s c view k' st'" "Suc k \<le> k'" "length (ls_jobs st') \<le> limit" "k' \<le> JOB_LIST_MAX_SCANNED"
      "if length (ls_jobs st') < limit \<and> k' < JOB_LIST_MAX_SCANNED then ls_next st' = None \<and> k' = Suc k + length items
       else 0 < k' \<and> ls_next st' = ls_cursor st'"
      using Cons.IH [OF st1 i(2) next1] by blast
    then show ?thesis by (intro exI [of _ k']) (auto split: if_splits)
  qed
qed

text \<open>The outcome of a page: everything was read, or the cursor is the last entry read.\<close>

definition page_of :: "'s \<Rightarrow> string option \<Rightarrow> (stream_item \<Rightarrow> host_summary option coord) \<Rightarrow> nat \<Rightarrow> list_state \<Rightarrow> bool" where
  "page_of s c view limit st \<longleftrightarrow> (\<exists>k. standing s c view k st \<and> k \<le> JOB_LIST_MAX_SCANNED \<and> length (ls_jobs st) \<le> limit
     \<and> (if ls_next st = None then k = length (older s c) else 0 < k \<and> ls_next st = ls_cursor st))"

lemma list_loop_page:
  assumes "list_loop view (fetch s) limit st = Inr st'" "standing s c view k st" "ok s" "valid_cursor c"
    "length (ls_jobs st) \<le> limit" "k \<le> JOB_LIST_MAX_SCANNED"
    "if length (ls_jobs st) < limit \<and> k < JOB_LIST_MAX_SCANNED then ls_next st = None else 0 < k \<and> ls_next st = ls_cursor st"
  shows "page_of s c view limit st'"
  using assms
proof (induction view "fetch s" limit st arbitrary: k rule: list_loop.induct)
  case (1 view limit st)
  let ?L = "older s c"
  note step = 1(2) [unfolded list_loop.simps [of view "fetch s" limit st]]
  have scanned: "ls_scanned st = k" using 1(3) by (simp add: standing_def)
  note rest = standing_rest [OF 1(3,4,5)]
  show ?case
  proof (cases "length (ls_jobs st) < limit \<and> ls_scanned st < JOB_LIST_MAX_SCANNED")
    case False
    then have "st' = st" using step by auto
    then show ?thesis using 1(3,6,7,8) False scanned
      by (auto simp: page_of_def standing_def split: if_splits intro!: exI [of _ k])
  next
    case True
    let ?b = "min JOB_LIST_SCAN_BATCH (JOB_LIST_MAX_SCANNED - ls_scanned st)"
    have b: "0 < ?b" using True by (simp add: JOB_LIST_SCAN_BATCH_def)
    have f: "fetch s (ls_cursor st) ?b = Inr (take ?b (drop k ?L))" using fetch_older [OF 1(4)] rest by simp
    have nxt: "ls_next st = None" using 1(8) True scanned by simp
    show ?thesis
    proof (cases "take ?b (drop k ?L)")
      case Nil
      then have "k = length ?L" using b 1(3) by (auto simp: standing_def)
      moreover have "st' = st\<lparr>ls_next := None\<rparr>" using step True f Nil by (simp add: Let_def)
      ultimately show ?thesis using 1(3,6,7) by (auto simp: page_of_def standing_def intro!: exI [of _ k])
    next
      case (Cons i items)
      then obtain st1 where st1: "scan_batch view limit (i # items) st = Inr st1"
        using step True f by (auto simp: Let_def split: sum.splits)
      have split: "drop k ?L = (i # items) @ drop ?b (drop k ?L)" by (metis Cons append_take_drop_id)
      obtain k' where k': "standing s c view k' st1" "k \<le> k'" "length (ls_jobs st1) \<le> limit" "k' \<le> JOB_LIST_MAX_SCANNED"
        "if length (ls_jobs st1) < limit \<and> k' < JOB_LIST_MAX_SCANNED then ls_next st1 = None \<and> k' = k + length (i # items)
         else 0 < k' \<and> ls_next st1 = ls_cursor st1"
        using scan_batch_standing [OF 1(3) split st1 nxt] True by auto
      have scanned1: "ls_scanned st1 = k'" using k'(1) by (simp add: standing_def)
      let ?short = "length (i # items) < ?b \<and> length (ls_jobs st1) < limit \<and> ls_scanned st1 < JOB_LIST_MAX_SCANNED"
      show ?thesis
      proof (cases ?short)
        case short: True
        have "length (i # items) = length (drop k ?L)" using Cons short by (metis length_take min.absorb2 min_def nat_neq_iff)
        then have "k' = length ?L" using k'(5) short scanned1 1(3) by (simp add: standing_def)
        moreover have "st' = st1\<lparr>ls_next := None\<rparr>" using step True f Cons st1 short by (simp add: Let_def)
        ultimately show ?thesis using k'(1,3,4) by (auto simp: page_of_def standing_def intro!: exI [of _ k'])
      next
        case long: False
        have "list_loop view (fetch s) limit st1 = Inr st'" using step True f Cons st1 long by (auto simp: Let_def simp del: scan_batch.simps split: if_splits)
        then show ?thesis
          by (rule 1(1) [OF True refl f [unfolded Cons] refl st1 long _ k'(1) 1(4,5) k'(3,4)]) (use k'(5) in \<open>auto split: if_splits\<close>)
      qed
    qed
  qed
qed

lemma scan_batch_answers: "intact view items \<Longrightarrow> \<exists>st'. scan_batch view limit items st = Inr st'"
proof (induction items arbitrary: st)
  case (Cons i items)
  then obtain r where "view i = Inr r" "intact view items" by (auto simp: intact_def isl_def) (metis sum.exhaust)
  then show ?case using Cons.IH by (simp add: Let_def)
qed simp

text \<open>A page is answered when no entry before the cursor is corrupt.\<close>

lemma list_loop_answers:
  assumes "ok s" "valid_cursor (ls_cursor st)" "intact view (older s (ls_cursor st))"
  shows "\<exists>st'. list_loop view (fetch s) limit st = Inr st'"
  using assms
proof (induction view "fetch s" limit st rule: list_loop.induct)
  case (1 view limit st)
  let ?L = "older s (ls_cursor st)" and ?b = "min JOB_LIST_SCAN_BATCH (JOB_LIST_MAX_SCANNED - ls_scanned st)"
  have f: "fetch s (ls_cursor st) ?b = Inr (take ?b ?L)" by (rule fetch_older [OF 1(2,3)])
  show ?case
  proof (cases "(length (ls_jobs st) < limit \<and> ls_scanned st < JOB_LIST_MAX_SCANNED) \<and> take ?b ?L \<noteq> []")
    case True
    then obtain i items where it: "take ?b ?L = i # items" by (cases "take ?b ?L") auto
    have "intact view (take ?b ?L)" using 1(4) by (auto simp: intact_def list_all_iff dest: in_set_takeD)
    then obtain st1 where st1: "scan_batch view limit (i # items) st = Inr st1" using scan_batch_answers it by metis
    let ?short = "length (i # items) < ?b \<and> length (ls_jobs st1) < limit \<and> ls_scanned st1 < JOB_LIST_MAX_SCANNED"
    have rest: "valid_cursor (ls_cursor st1) \<and> intact view (older s (ls_cursor st1))"
    proof -
      obtain k where "k < length ?L" "ls_cursor st1 = Some (fst (?L ! k))" using scan_batch_cursor [OF st1 it] by auto
      moreover have "intact view (drop (Suc k) ?L)" using 1(4) by (auto simp: intact_def list_all_iff dest: in_set_dropD)
      ultimately show ?thesis using older_item [OF 1(2,3)] item_cursor [OF 1(2,3)] by simp
    qed
    show ?thesis
    proof (cases ?short)
      case short: True
      then show ?thesis using True f it st1 by (simp add: list_loop.simps [of view "fetch s" limit st] Let_def del: scan_batch.simps)
    next
      case long: False
      obtain st' where "list_loop view (fetch s) limit st1 = Inr st'"
        using 1(1) [OF _ refl f [unfolded it] refl st1 long 1(2)] True rest by blast
      then show ?thesis using True f it st1 long
        by (auto simp: list_loop.simps [of view "fetch s" limit st] Let_def simp del: scan_batch.simps)
    qed
  qed (use f in \<open>auto simp: list_loop.simps [of view "fetch s" limit st] Let_def\<close>)
qed

end

section \<open>The job stream\<close>

text \<open>The entries before a cursor, newest first.\<close>

definition older_entries :: "moment \<Rightarrow> string option \<Rightarrow> stream_item list" where
  "older_entries m c = (case stream_at (fst m) (snd m) KEY_STREAM_V2 of
      Inl _ \<Rightarrow> []
    | Inr s \<Rightarrow> map (\<lambda>e. (show_entry_id (fst e), snd e)) (rev (case c of None \<Rightarrow> s
        | Some t \<Rightarrow> (case parse_entry_id t of None \<Rightarrow> [] | Some i \<Rightarrow> filter (\<lambda>e. fst e < i) s))))"

lemma parse_valid_cursor: "STREAM_ENTRY_ID_RE t \<Longrightarrow> t \<noteq> [] \<and> (\<exists>i. parse_entry_id t = Some i)"
proof -
  assume t: "STREAM_ENTRY_ID_RE t"
  let ?a = "takeWhile is_digit t" and ?r = "dropWhile is_digit t"
  have r: "?a \<noteq> []" "?r \<noteq> []" "hd ?r = CHR ''-''" "tl ?r \<noteq> []" "list_all is_digit (tl ?r)"
    using t by (simp_all add: STREAM_ENTRY_ID_RE_def Let_def)
  then have split: "t = ?a @ CHR ''-'' # tl ?r" by (metis list.collapse takeWhile_dropWhile_id)
  have nd: "CHR ''-'' \<notin> set ?a" using set_takeWhileD [of "CHR ''-''" is_digit t] by (auto simp: is_digit_def digit_chars_def)
  have "takeWhile (\<lambda>c. c \<noteq> CHR ''-'') t = ?a" "dropWhile (\<lambda>c. c \<noteq> CHR ''-'') t = CHR ''-'' # tl ?r"
    using takeWhile_sep [OF nd, of "tl ?r"] dropWhile_sep [OF nd, of "tl ?r"] split by simp_all
  moreover have "list_all is_digit ?a" using set_takeWhileD by (fastforce simp: list_all_iff)
  ultimately show ?thesis using r split by (auto simp: parse_entry_id_def Let_def parse_nat_def)
qed

lemma sorted_below:
  assumes "stream_sorted s"
  shows "filter (\<lambda>e. fst e < i) s = takeWhile (\<lambda>e. fst e < i) s"
  using assms
proof (induction s)
  case (Cons e s)
  have tail: "stream_sorted s" and head: "\<forall>x \<in> set s. fst e < fst x" using Cons.prems by (simp_all add: stream_sorted_def)
  show ?case
  proof (cases "fst e < i")
    case False
    then have "\<forall>x \<in> set s. \<not> fst x < i" using head by (meson less_trans)
    then show ?thesis using False by (simp add: filter_empty_conv)
  qed (use Cons.IH [OF tail] in simp)
qed simp

lemma sorted_before_nth:
  assumes "stream_sorted s" "j < length s"
  shows "filter (\<lambda>e. fst e < fst (s ! j)) s = take j s"
proof -
  have lt: "fst (s ! a) < fst (s ! b)" if "a < b" "b < length s" for a b
    using assms(1) that by (simp add: stream_sorted_def sorted_wrt_iff_nth_less)
  have "s = take j s @ s ! j # drop (Suc j) s" using assms(2) by (rule id_take_nth_drop)
  moreover have "\<forall>x \<in> set (take j s). fst x < fst (s ! j)"
  proof
    fix x
    assume "x \<in> set (take j s)"
    then obtain a where "a < length (take j s)" "x = take j s ! a" by (metis in_set_conv_nth)
    then show "fst x < fst (s ! j)" using lt [of a j] assms(2) by simp
  qed
  then have "filter (\<lambda>e. fst e < fst (s ! j)) (take j s) = take j s" by (simp add: filter_id_conv)
  moreover have "\<forall>x \<in> set (drop (Suc j) s). \<not> fst x < fst (s ! j)"
  proof
    fix x
    assume "x \<in> set (drop (Suc j) s)"
    then obtain a where "a < length s - Suc j" "x = s ! (Suc j + a)" by (auto simp: in_set_conv_nth)
    then show "\<not> fst x < fst (s ! j)" using lt [of j "Suc j + a"] by (simp add: less_imp_not_less)
  qed
  then have "filter (\<lambda>e. fst e < fst (s ! j)) (drop (Suc j) s) = []" by (simp add: filter_empty_conv)
  ultimately show ?thesis by (metis (no_types, lifting) append_Nil2 filter.simps(2) filter_append order.irrefl)
qed

lemma store_stream:
  assumes "store_ok m"
  shows "\<exists>S. represents (snd m) S \<and> machine_inv (fst m) S \<and> stream_at (fst m) (snd m) KEY_STREAM_V2 = Inr (q_stream S) \<and> stream_sorted (q_stream S)"
proof -
  obtain S where S: "represents (snd m) S" "machine_inv (fst m) S" using assms by (auto simp: store_ok_def)
  have "stream_at (fst m) (snd m) KEY_STREAM_V2 = Inr (q_stream S)"
    by (cases "q_stream S = []") (simp_all add: stream_at_def live_def representsD(6) [OF S(1)])
  then show ?thesis using S by (auto simp: machine_inv_def stream_inv_def)
qed

text \<open>The entries before a cursor are a prefix of the stream.\<close>

lemma older_prefix:
  assumes "store_ok m" "valid_cursor c"
  shows "\<exists>s n. stream_at (fst m) (snd m) KEY_STREAM_V2 = Inr s \<and> stream_sorted s \<and> n \<le> length s
    \<and> older_entries m c = map (\<lambda>e. (show_entry_id (fst e), snd e)) (rev (take n s))"
proof -
  obtain s where s: "stream_at (fst m) (snd m) KEY_STREAM_V2 = Inr s" "stream_sorted s" using store_stream [OF assms(1)] by blast
  show ?thesis
  proof (cases c)
    case None
    then show ?thesis using s by (intro exI [of _ s] exI [of _ "length s"]) (simp add: older_entries_def)
  next
    case (Some t)
    then have "STREAM_ENTRY_ID_RE t" using assms(2) by (simp add: valid_cursor_def)
    then obtain i where i: "parse_entry_id t = Some i" using parse_valid_cursor by blast
    have "filter (\<lambda>e. fst e < i) s = take (length (takeWhile (\<lambda>e. fst e < i) s)) s"
      using sorted_below [OF s(2)] by (simp add: takeWhile_eq_take [symmetric])
    then show ?thesis using s Some i
      by (intro exI [of _ s] exI [of _ "length (takeWhile (\<lambda>e. fst e < i) s)"]) (simp add: older_entries_def length_takeWhile_le)
  qed
qed

lemma older_after:
  assumes "store_ok m" "valid_cursor c" "k < length (older_entries m c)"
  shows "older_entries m (Some (fst (older_entries m c ! k))) = drop (Suc k) (older_entries m c)"
proof -
  obtain s n where s: "stream_at (fst m) (snd m) KEY_STREAM_V2 = Inr s" "stream_sorted s" "n \<le> length s"
    "older_entries m c = map (\<lambda>e. (show_entry_id (fst e), snd e)) (rev (take n s))" using older_prefix [OF assms(1,2)] by blast
  have k: "k < n" using assms(3) s(3,4) by simp
  have "rev (take n s) ! k = s ! (n - Suc k)" using k s(3) by (simp add: rev_nth)
  then have "fst (older_entries m c ! k) = show_entry_id (fst (s ! (n - Suc k)))" using k s(3,4) by simp
  then have "older_entries m (Some (fst (older_entries m c ! k))) = map (\<lambda>e. (show_entry_id (fst e), snd e)) (rev (take (n - Suc k) s))"
    using sorted_before_nth [OF s(2), of "n - Suc k"] k s(1,3) by (simp add: older_entries_def)
  moreover have "drop (Suc k) (rev (take n s)) = rev (take (n - Suc k) s)" using k s(3) by (simp add: drop_rev min_def)
  ultimately show ?thesis using s(4) by (simp add: drop_map)
qed

interpretation job_stream: backward_stream store_ok
  "\<lambda>m c n. from_store (readJobStreamReverse (fst m) (snd m) c n)" older_entries
proof
  fix m c n
  assume m: "store_ok m" "valid_cursor c"
  obtain s where s: "stream_at (fst m) (snd m) KEY_STREAM_V2 = Inr s" using store_stream [OF m(1)] by blast
  show "from_store (readJobStreamReverse (fst m) (snd m) c n) = Inr (take n (older_entries m c))"
    using m(2) s parse_valid_cursor
    by (cases c) (fastforce simp: readJobStreamReverse_def redis_xrevrange_def older_entries_def valid_cursor_def take_map)+
next
  fix m c k
  assume "store_ok m" "valid_cursor c" "k < length (older_entries m c)"
  then show "older_entries m (Some (fst (older_entries m c ! k))) = drop (Suc k) (older_entries m c)" by (rule older_after)
next
  fix m c i
  assume "store_ok m" "valid_cursor c" "i \<in> set (older_entries m c)"
  then show "valid_cursor (Some (fst i))" using older_prefix [of m c] by (auto simp: valid_cursor_def)
qed

end
