(* ===== verification/Coordinator_Views.thy ===== *)
theory Coordinator_Views
  imports Coordinator_Listing Control_Properties
begin

text \<open>
  What hosts and devices see of the job store through the coordinator: pages of the listing, isolation of
  workspaces, and single jobs.
\<close>

section \<open>Access\<close>

lemma access_granted:
  "assertHostWorkspaceAccess cdb s = Inr u \<longleftrightarrow> sc_user_id s \<noteq> [] \<and> sc_workspace_id s \<noteq> [] \<and> active_user cdb (sc_user_id s)
     \<and> membership_of cdb (sc_workspace_id s) (sc_user_id s) \<noteq> None"
  by (simp add: assertHostWorkspaceAccess_def)

lemma access_cases: "assertHostWorkspaceAccess cdb s = Inr () \<or> assertHostWorkspaceAccess cdb s = Inl WorkspaceAccessDeniedError"
  by (simp add: assertHostWorkspaceAccess_def)

section \<open>Pages\<close>

lemma page_limit_bounds: "0 < page_limit l" "page_limit l \<le> 50"
  by (simp_all add: page_limit_def bounded_def JOB_LIST_MAX_LIMIT_def)

lemma listed:
  assumes "listJobsForHost cdb date m s q = Inr (jobs, nxt)"
  shows "assertHostWorkspaceAccess cdb s = Inr ()" "valid_cursor (lq_cursor q)"
    and "\<exists>st. list_loop (list_item cdb date m s q) (\<lambda>c n. from_store (readJobStreamReverse (fst m) (snd m) c n)) (page_limit (lq_limit q))
        \<lparr>ls_jobs = [], ls_scanned = 0, ls_cursor = lq_cursor q, ls_next = None\<rparr> = Inr st \<and> jobs = ls_jobs st \<and> nxt = ls_next st"
  using assms by (auto simp: listJobsForHost_def ebind_eq_Inr valid_cursor_def split: if_splits option.splits)

text \<open>
  C13. A page of the listing is exact. It shows precisely the visible jobs of the first entries before the cursor,
  newest first, at most fifty of them from at most 256 entries; without a next cursor these are all entries
  there are, and with one, the next page starts behind the last entry read. Following the cursors therefore
  shows every visible job once.
\<close>

theorem listing_pages_cover_the_stream:
  assumes "job_step\<^sup>*\<^sup>* (0, \<lambda>_. None) m" "listJobsForHost cdb date m s q = Inr (jobs, nxt)"
  shows "\<exists>k \<le> length (older_entries m (lq_cursor q)). k \<le> 256 \<and> length jobs \<le> 50
    \<and> intact (list_item cdb date m s q) (take k (older_entries m (lq_cursor q)))
    \<and> jobs = shown (list_item cdb date m s q) (take k (older_entries m (lq_cursor q)))
    \<and> (case nxt of None \<Rightarrow> k = length (older_entries m (lq_cursor q))
       | Some c \<Rightarrow> 0 < k \<and> older_entries m (Some c) = drop k (older_entries m (lq_cursor q)))"
proof -
  note l = listed [OF assms(2)]
  have ok: "store_ok m" using reachable_ok assms(1) by (cases m) blast
  let ?view = "list_item cdb date m s q" and ?L = "older_entries m (lq_cursor q)"
  obtain st where st: "list_loop ?view (\<lambda>c n. from_store (readJobStreamReverse (fst m) (snd m) c n)) (page_limit (lq_limit q))
      \<lparr>ls_jobs = [], ls_scanned = 0, ls_cursor = lq_cursor q, ls_next = None\<rparr> = Inr st" "jobs = ls_jobs st" "nxt = ls_next st"
    using l(3) by blast
  have "job_stream.page_of m (lq_cursor q) ?view (page_limit (lq_limit q)) st"
    by (rule job_stream.list_loop_page [OF st(1) _ ok l(2), of 0])
      (use page_limit_bounds in \<open>simp_all add: job_stream.standing_def JOB_LIST_MAX_SCANNED_def\<close>)
  then obtain k where k: "job_stream.standing m (lq_cursor q) ?view k st" "k \<le> 256" "length jobs \<le> page_limit (lq_limit q)"
    "if nxt = None then k = length ?L else 0 < k \<and> nxt = ls_cursor st"
    unfolding job_stream.page_of_def st(2,3) by (auto simp: JOB_LIST_MAX_SCANNED_def)
  have "older_entries m (ls_cursor st) = drop k ?L" using job_stream.standing_rest [OF k(1) ok l(2)] by simp
  then show ?thesis using k page_limit_bounds(2) [of "lq_limit q"] unfolding job_stream.standing_def st(2)
    by (intro exI [of _ k]) (auto split: option.splits if_splits)
qed

section \<open>Isolation\<close>

lemma scan_batch_source:
  assumes "scan_batch view limit items st = Inr st'" "x \<in> set (ls_jobs st')"
  shows "x \<in> set (ls_jobs st) \<or> (\<exists>i. view i = Inr (Some x))"
  using assms
proof (induction items arbitrary: st)
  case (Cons i items)
  then obtain r where r: "view i = Inr r" by (auto simp: ebind_eq_Inr)
  let ?st1 = "st\<lparr>ls_scanned := Suc (ls_scanned st), ls_cursor := Some (fst i), ls_jobs := (case r of None \<Rightarrow> ls_jobs st | Some v \<Rightarrow> ls_jobs st @ [v])\<rparr>"
  have "x \<in> set (ls_jobs ?st1) \<or> (\<exists>i. view i = Inr (Some x))"
    using Cons.prems r Cons.IH [of ?st1] by (auto simp: Let_def simp del: list_state.update_convs split: if_splits)
  then show ?case using r by (auto split: option.splits simp del: split_paired_Ex)
qed simp

lemma list_loop_source:
  assumes "list_loop view fetch limit st = Inr st'" "x \<in> set (ls_jobs st')"
  shows "x \<in> set (ls_jobs st) \<or> (\<exists>i. view i = Inr (Some x))"
  using assms
proof (induction view fetch limit st rule: list_loop.induct)
  case (1 view fetch limit st)
  show ?case
  proof (cases "length (ls_jobs st) < limit \<and> ls_scanned st < JOB_LIST_MAX_SCANNED")
    case True
    let ?b = "min JOB_LIST_SCAN_BATCH (JOB_LIST_MAX_SCANNED - ls_scanned st)"
    consider "st' = st\<lparr>ls_next := None\<rparr>"
      | i items st1 where "fetch (ls_cursor st) ?b = Inr (i # items)" "scan_batch view limit (i # items) st = Inr st1"
        "st' = st1\<lparr>ls_next := None\<rparr> \<or> \<not> (length (i # items) < ?b \<and> length (ls_jobs st1) < limit \<and> ls_scanned st1 < JOB_LIST_MAX_SCANNED)
           \<and> list_loop view fetch limit st1 = Inr st'"
      using 1(2) True by (auto simp: list_loop.simps [of view fetch limit st] Let_def simp del: scan_batch.simps
          split: sum.splits list.splits if_splits)
    then show ?thesis
    proof cases
      case 1
      then show ?thesis using \<open>x \<in> set (ls_jobs st')\<close> by simp
    next
      case (2 i items st1)
      have "x \<in> set (ls_jobs st1) \<or> (\<exists>i. view i = Inr (Some x))"
        using 2(3) \<open>x \<in> set (ls_jobs st')\<close> 1(1) [OF True refl 2(1) refl 2(2)] by auto
      then show ?thesis using scan_batch_source [OF 2(2)] by blast
    qed
  qed (use 1(2,3) in \<open>auto simp: list_loop.simps [of view fetch limit st]\<close>)
qed

lemma listed_item:
  assumes "list_item cdb date m s q i = Inr (Some x)"
  shows "\<exists>job att. getJob (fst m) (snd m) (hs_job_id x) = Inr (Some job) \<and> j_job_id job = hs_job_id x
    \<and> j_workspace_id job = sc_workspace_id s \<and> j_target_id job = hs_target_id x
    \<and> linked_attempt m job = Inr att \<and> deriveHostJobState job att date = Inr (hs_state x)
    \<and> (lq_target_id q = None \<or> lq_target_id q = Some [] \<or> lq_target_id q = Some (hs_target_id x))
    \<and> (lq_state q = None \<or> lq_state q = Some (hs_state x))"
proof -
  obtain ws e where e: "jfield (fields_obj (snd i)) ''workspace_id'' = Some (JStr ws)" "ws = sc_workspace_id s"
    "validateStreamEntryV2 (fields_obj (snd i)) = Inr e" "list_job cdb date m q e = Inr (Some x)"
    using assms by (auto simp: list_item_def split: option.splits json.splits if_splits sum.splits)
  have ws: "s_workspace_id e = sc_workspace_id s"
    using e(1-3) by (auto simp: validateStreamEntryV2_def ebind_eq_Inr need_str_Inr)
  obtain job where job: "getJob (fst m) (snd m) (s_job_id e) = Inr (Some job)"
    using e(4) by (auto simp: list_job_def ebind_eq_Inr split: option.splits)
  then obtain att state where j:
    "j_job_id job = s_job_id e" "j_workspace_id job = s_workspace_id e" "linked_attempt m job = Inr att"
    "deriveHostJobState job att date = Inr state" "host_summary_of cdb job att state = Inr x"
    "\<not> (case lq_target_id q of None \<Rightarrow> False | Some t \<Rightarrow> t \<noteq> [] \<and> j_target_id job \<noteq> t)" "lq_state q = None \<or> lq_state q = Some state"
    using e(4) by (auto simp: list_job_def ebind_eq_Inr split: if_splits)
  have "hs_job_id x = j_job_id job" "hs_target_id x = j_target_id job" "hs_state x = state"
    using j(5) by (auto simp: host_summary_of_def ebind_eq_Inr)
  then show ?thesis using job j ws by (cases "lq_target_id q") auto
qed


section \<open>Single jobs\<close>

lemma iso_short: "short t \<Longrightarrow> \<exists>x. iso t = Inr x"
proof -
  assume "short t"
  then have "\<bar>t\<bar> \<le> MAX_DATE_MS" by (simp add: short_def MAX_DATE_MS_def)
  then have "toISOString t \<noteq> None" by (simp only: toISOString_range)
  then show ?thesis by (auto simp: iso_def)
qed

text \<open>A target row of a job's target is a row of the job's workspace.\<close>

definition target_consistent :: "control_db \<Rightarrow> job \<Rightarrow> bool" where
  "target_consistent cdb j = (case getExecutionTarget cdb (j_target_id j) of None \<Rightarrow> True | Some t \<Rightarrow> t_workspace_id t = j_workspace_id j)"

text \<open>The attempt a job names parses; only a result delivered before the start can prevent that.\<close>

definition attempt_readable :: "moment \<Rightarrow> job \<Rightarrow> bool" where
  "attempt_readable m j = (case j_latest_attempt_id j of None \<Rightarrow> True | Some aid \<Rightarrow> \<not> isl (getAttempt (fst m) (snd m) aid))"

lemma alias_view:
  assumes "target_consistent cdb j"
  shows "\<exists>x. resolveHostJobTargetAlias cdb j = Inr x"
  using assms found(2) [of cdb "j_target_id j"]
  by (auto simp: resolveHostJobTargetAlias_def target_consistent_def split: option.splits)

lemma summary_view:
  assumes "job_short j" "target_consistent cdb j"
  shows "\<exists>x. host_summary_of cdb j att state = Inr x \<and> hs_job_id x = j_job_id j \<and> hs_state x = state \<and> hs_target_id x = j_target_id j"
proof -
  obtain a where a: "resolveHostJobTargetAlias cdb j = Inr a" using alias_view [OF assms(2)] by blast
  obtain c where c: "iso (j_created_at_ms j) = Inr c" using iso_short assms(1) by (auto simp: job_short_def)
  obtain d where d: "iso (j_claim_deadline_ms j) = Inr d" using iso_short assms(1) by (auto simp: job_short_def)
  show ?thesis by (simp add: host_summary_of_def expires_view_def a c d)
qed

text \<open>The attempt a host sees of a job, as the abstract queue has it.\<close>

definition host_attempt :: "queue_state \<Rightarrow> job \<Rightarrow> attempt option" where
  "host_attempt S j = (case j_latest_attempt_id j of None \<Rightarrow> None | Some aid \<Rightarrow> q_attempts S aid)"

lemma attempt_view:
  assumes S: "represents (snd m) S" "machine_inv (fst m) S" and j: "q_jobs S jid = Some j" and r: "attempt_readable m j"
  shows "linked_attempt m j = Inr (host_attempt S j)"
    and "\<exists>st. deriveHostJobState j (host_attempt S j) date = Inr st \<and> (st = HS_terminal \<longleftrightarrow> j_status j = JS_terminal)
      \<and> (st = HS_queued \<or> st = HS_expired \<longleftrightarrow> j_status j = JS_queued)"
proof -
  have ji: "job_inv S jid j" by (rule machine_inv_jobD [OF S(2) j])
  have "linked_attempt m j = Inr (host_attempt S j) \<and>
    (\<exists>st. deriveHostJobState j (host_attempt S j) date = Inr st \<and> (st = HS_terminal \<longleftrightarrow> j_status j = JS_terminal)
      \<and> (st = HS_queued \<or> st = HS_expired \<longleftrightarrow> j_status j = JS_queued))"
  proof (cases "j_latest_attempt_id j")
    case None
    then have "j_status j = JS_queued \<or> j_status j = JS_terminal \<and> j_cancel j \<noteq> None"
      using ji by (cases "j_status j") (auto simp: job_inv_def job_ok_def job_state_ok_def)
    then show ?thesis using None by (auto simp: linked_attempt_def host_attempt_def deriveHostJobState_def)
  next
    case (Some aid)
    obtain a where a: "q_attempts S aid = Some a" "a_job_id a = jid" "attempt_of_job a j" "attempt_inv (fst m) S aid a"
      by (rule job_linked [OF S(2) j Some])
    have "aid \<noteq> []" using ji Some by (auto simp: job_inv_def job_ok_def ATTEMPT_ID_V2_RE_def uuid_re_def)
    moreover have "getAttempt (fst m) (snd m) aid = Inr (Some a)"
    proof -
      have "\<not> isl (getAttempt (fst m) (snd m) aid)" using r Some by (simp add: attempt_readable_def)
      then show ?thesis using getAttempt_readable [OF S a(1)] getAttempt_unreadable [OF S a(1)] by (metis isl_def)
    qed
    ultimately have "linked_attempt m j = Inr (Some a)"
      using Some a(2,3) ji by (simp add: linked_attempt_def attempt_of_job_def job_inv_def)
    moreover have "\<exists>st. deriveHostJobState j (Some a) date = Inr st \<and> (st = HS_terminal \<longleftrightarrow> j_status j = JS_terminal)
      \<and> (st = HS_queued \<or> st = HS_expired \<longleftrightarrow> j_status j = JS_queued)"
      using a(3) by (cases "a_phase a") (auto simp: attempt_of_job_def deriveHostJobState_def)
    ultimately show ?thesis using Some a(1) by (simp add: host_attempt_def)
  qed
  then show "linked_attempt m j = Inr (host_attempt S j)"
    and "\<exists>st. deriveHostJobState j (host_attempt S j) date = Inr st \<and> (st = HS_terminal \<longleftrightarrow> j_status j = JS_terminal)
      \<and> (st = HS_queued \<or> st = HS_expired \<longleftrightarrow> j_status j = JS_queued)" by blast+
qed

lemma job_inv_ids: "job_inv S jid j \<Longrightarrow> JOB_ID_V2_RE jid \<and> colon_free jid \<and> j_job_id j = jid \<and> job_short j"
  using job_id_colon_free by (auto simp: job_inv_def job_ok_def)

lemma detail_view:
  assumes S: "represents (snd m) S" "machine_inv (fst m) S" and j: "q_jobs S jid = Some j" and t: "target_consistent cdb j"
  shows "\<exists>d. host_detail_of cdb j (host_attempt S j) st b = Inr d \<and> hs_job_id (hd_summary d) = jid \<and> hs_state (hd_summary d) = st
    \<and> (hd_execution d = None \<longleftrightarrow> j_latest_attempt_id j = None)"
proof -
  have ji: "job_inv S jid j" by (rule machine_inv_jobD [OF S(2) j])
  then have jid: "j_job_id j = jid" by (simp add: job_inv_def)
  obtain x where x: "host_summary_of cdb j (host_attempt S j) st = Inr x" "hs_job_id x = jid" "hs_state x = st"
    using summary_view [OF _ t, of "host_attempt S j" st] job_inv_ids [OF ji] jid by blast
  show ?thesis
  proof (cases "j_latest_attempt_id j")
    case None
    then show ?thesis using x by (simp add: host_detail_of_def host_attempt_def optional_def attempt_report_def)
  next
    case (Some aid)
    obtain a where a: "q_attempts S aid = Some a" "attempt_inv (fst m) S aid a" by (rule job_linked [OF S(2) j Some])
    then have sh: "attempt_short a" by (simp add: attempt_inv_def)
    have "\<exists>v. optional report_view_of (a_report a) = Inr v"
    proof (cases "a_report a")
      case (Some r)
      then obtain f g where "iso (r_finished_at_ms r) = Inr f" "iso (r_received_at_ms r) = Inr g"
        using sh iso_short by (auto simp: attempt_short_def report_short_def) blast
      then show ?thesis using Some by (simp add: optional_def report_view_of_def)
    qed (simp add: optional_def)
    moreover have "\<exists>v. optional result_view_of (a_result a) = Inr v"
    proof (cases "a_result a")
      case (Some r)
      then obtain g where "iso (res_received_at_ms r) = Inr g" using sh iso_short by (auto simp: attempt_short_def)
      then show ?thesis using Some by (simp add: optional_def result_view_of_def)
    qed (simp add: optional_def)
    moreover have "\<exists>v. execution_view_of a = Inr v"
    proof -
      obtain c where c: "iso (a_claimed_at_ms a) = Inr c" using sh iso_short by (auto simp: attempt_short_def)
      have "\<exists>v. iso_or_null (a_started_at_ms a) = Inr v"
      proof (cases "a_started_at_ms a")
        case (Some t)
        then obtain g where "iso t = Inr g" using sh iso_short by (auto simp: attempt_short_def)
        then show ?thesis using Some by (simp add: iso_or_null_def)
      qed (simp add: iso_or_null_def)
      then show ?thesis using c by (auto simp: execution_view_of_def)
    qed
    ultimately show ?thesis using x Some a(1) by (auto simp: host_detail_of_def host_attempt_def attempt_report_def optional_def)
  qed
qed

text \<open>An entry of the stream is never corrupt when the jobs of the workspace can be read.\<close>

lemma list_item_answers:
  assumes S: "represents (snd m) S" "machine_inv (fst m) S" and e: "e \<in> set (q_stream S)"
    and jobs: "\<And>jid j. q_jobs S jid = Some j \<Longrightarrow> j_workspace_id j = sc_workspace_id s \<Longrightarrow> attempt_readable m j \<and> target_consistent cdb j"
  shows "\<exists>r. list_item cdb date m s q (i, snd e) = Inr r"
proof -
  obtain jid j where j: "q_jobs S jid = Some j" "snd e = stream_row j"
    using S(2) e by (auto simp: machine_inv_def stream_inv_def)
  have ji: "job_inv S jid j" by (rule machine_inv_jobD [OF S(2) j(1)])
  let ?e = "\<lparr>s_job_id = j_job_id j, s_user_id = j_user_id j, s_workspace_id = j_workspace_id j, s_target_id = j_target_id j, s_created_at_ms = j_created_at_ms j\<rparr>"
  have row: "stream_row j = stream_fields ?e" by (simp add: stream_row_def)
  have eok: "stream_entry_ok ?e" using ji by (auto simp: job_inv_def job_ok_def stream_entry_ok_def)
  have v: "validateStreamEntryV2 (fields_obj (snd e)) = Inr ?e"
    using parse_stream_fields [OF eok] j(2) row by (simp add: parseStreamEntryV2_def)
  have ws: "jfield (fields_obj (snd e)) ''workspace_id'' = Some (JStr (j_workspace_id j))" "\<not> isWhitespaceOnly (j_workspace_id j)" "js_length (j_workspace_id j) \<le> 128"
    using eok by (simp_all add: j(2) row stream_fields_lookup stream_entry_ok_def scope_id_ok_def)
  show ?thesis
  proof (cases "j_workspace_id j = sc_workspace_id s")
    case True
    note r = jobs [OF j(1) True]
    have id: "j_job_id j = jid" "colon_free jid" using job_inv_ids [OF ji] by blast+
    obtain st where st: "deriveHostJobState j (host_attempt S j) date = Inr st" using attempt_view(2) [OF S j(1)] r by blast
    obtain x where x: "host_summary_of cdb j (host_attempt S j) st = Inr x" using summary_view ji r by (metis job_inv_def)
    show ?thesis
      using v ws True st x attempt_view(1) [OF S j(1)] r getJob_repr [OF S id(2)] j(1) id(1) by (auto simp: list_item_def list_job_def)
  qed (use ws in \<open>simp add: list_item_def\<close>)
qed

text \<open>
  Every job of a workspace can be read. On a reachable key space whose attempt records parse, an active member of
  the workspace gets every stored job of it, terminal exactly when the record is and waiting exactly when
  it is queued, and gets an answer to every well-formed listing: no read of a host reports corruption.
\<close>

theorem host_can_read_every_job:
  assumes reach: "job_step\<^sup>*\<^sup>* (0, \<lambda>_. None) m" and member: "assertHostWorkspaceAccess cdb s = Inr ()"
    and jobs: "\<And>jid j. JOB_ID_V2_RE jid \<Longrightarrow> getJob (fst m) (snd m) jid = Inr (Some j) \<Longrightarrow> j_workspace_id j = sc_workspace_id s \<Longrightarrow>
      attempt_readable m j \<and> target_consistent cdb j"
    and query: "valid_cursor (lq_cursor q)" "pred_option (\<lambda>t. TARGET_ID_V2_RE t
      \<and> pred_option (\<lambda>r. t_workspace_id r = sc_workspace_id s) (getExecutionTarget cdb t)) (lq_target_id q)"
  shows "(\<forall>jid j. JOB_ID_V2_RE jid \<and> getJob (fst m) (snd m) jid = Inr (Some j) \<and> j_workspace_id j = sc_workspace_id s \<longrightarrow>
      (\<exists>d. getJobForHost cdb date m s jid b = Inr d \<and> hs_job_id (hd_summary d) = jid
        \<and> (hs_state (hd_summary d) = HS_terminal \<longleftrightarrow> j_status j = JS_terminal)
        \<and> (hs_state (hd_summary d) = HS_queued \<or> hs_state (hd_summary d) = HS_expired \<longleftrightarrow> j_status j = JS_queued)
        \<and> (hd_execution d = None \<longleftrightarrow> j_latest_attempt_id j = None)))
    \<and> (\<exists>page. listJobsForHost cdb date m s q = Inr page)"
proof -
  have ok: "store_ok m" using reachable_ok reach by (cases m) blast
  then obtain S where S: "represents (snd m) S" "machine_inv (fst m) S" "stream_at (fst m) (snd m) KEY_STREAM_V2 = Inr (q_stream S)"
    using store_stream by blast
  have get: "getJob (fst m) (snd m) jid = Inr (q_jobs S jid)" if "colon_free jid" for jid by (rule getJob_repr [OF S(1,2) that])
  have jobs': "attempt_readable m j \<and> target_consistent cdb j" if "q_jobs S jid = Some j" "j_workspace_id j = sc_workspace_id s" for jid j
  proof -
    have "JOB_ID_V2_RE jid" using job_inv_ids [OF machine_inv_jobD [OF S(2) that(1)]] by blast
    then show ?thesis using jobs [of jid j] get [of jid] that job_id_colon_free by simp
  qed
  have read: "\<exists>d. getJobForHost cdb date m s jid b = Inr d \<and> hs_job_id (hd_summary d) = jid
        \<and> (hs_state (hd_summary d) = HS_terminal \<longleftrightarrow> j_status j = JS_terminal)
        \<and> (hs_state (hd_summary d) = HS_queued \<or> hs_state (hd_summary d) = HS_expired \<longleftrightarrow> j_status j = JS_queued)
        \<and> (hd_execution d = None \<longleftrightarrow> j_latest_attempt_id j = None)"
    if jid: "JOB_ID_V2_RE jid" and g: "getJob (fst m) (snd m) jid = Inr (Some j)" and w: "j_workspace_id j = sc_workspace_id s" for jid j
  proof -
    have j: "q_jobs S jid = Some j" using get [OF job_id_colon_free [OF jid]] g by simp
    obtain st where st: "deriveHostJobState j (host_attempt S j) date = Inr st" "st = HS_terminal \<longleftrightarrow> j_status j = JS_terminal"
      "st = HS_queued \<or> st = HS_expired \<longleftrightarrow> j_status j = JS_queued" using attempt_view(2) [OF S(1,2) j] jobs' [OF j w] by blast
    obtain d where d: "host_detail_of cdb j (host_attempt S j) st b = Inr d \<and> hs_job_id (hd_summary d) = jid \<and> hs_state (hd_summary d) = st
      \<and> (hd_execution d = None \<longleftrightarrow> j_latest_attempt_id j = None)"
      using detail_view [OF S(1,2) j conjunct2 [OF jobs' [OF j w]], of st b] by (rule exE)
    have "getJobForHost cdb date m s jid b = Inr d"
      using member jid g w st(1) d attempt_view(1) [OF S(1,2) j] jobs' [OF j w] by (simp add: getJobForHost_def)
    then show ?thesis using d st(2,3) by simp
  qed
  have "\<exists>st. list_loop (list_item cdb date m s q) (\<lambda>c n. from_store (readJobStreamReverse (fst m) (snd m) c n)) (page_limit (lq_limit q))
      \<lparr>ls_jobs = [], ls_scanned = 0, ls_cursor = lq_cursor q, ls_next = None\<rparr> = Inr st"
  proof (rule job_stream.list_loop_answers [OF ok])
    have "\<exists>e \<in> set (q_stream S). snd i = snd e" if "i \<in> set (older_entries m (lq_cursor q))" for i
      using that S(3) by (force simp: older_entries_def split: option.splits)
    then have "\<exists>r. list_item cdb date m s q i = Inr r" if "i \<in> set (older_entries m (lq_cursor q))" for i
      using list_item_answers [OF S(1,2), of _ s cdb date q "fst i"] jobs' that by (metis prod.collapse)
    then show "intact (list_item cdb date m s q) (older_entries m (ls_cursor \<lparr>ls_jobs = [], ls_scanned = 0, ls_cursor = lq_cursor q, ls_next = None\<rparr>))"
      by (fastforce simp: intact_def list_all_iff)
  qed (simp add: query(1))
  then show ?thesis using read member query
    by (auto simp: listJobsForHost_def valid_cursor_def split: option.splits)
qed

section \<open>Listings of a device\<close>

lemma no_device_access:
  assumes "t \<notin> set (device_targets cdb dev)"
  shows "assertDeviceTargetAccess cdb dev t = Inl (StoreFailure V2JobNotFoundError)"
  using assms by (auto simp: assertDeviceTargetAccess_def device_targets_def js_set_def list_ex_iff)

text \<open>
  The listing of a device is not limited to its targets. Without a target filter, a device whose targets lie in one
  workspace gets the whole listing of that workspace, including jobs of targets it was never bound to, for
  which reading the single job is refused as not found.
\<close>

theorem device_listing_shows_foreign_targets:
  assumes "device_workspaces cdb dev = [w]" "lq_target_id q = None"
    and "listJobsForHost cdb date m \<lparr>sc_user_id = u, sc_workspace_id = w\<rparr> q = Inr (jobs, nxt)"
    and "x \<in> set jobs" "hs_target_id x \<notin> set (device_targets cdb dev)" "JOB_ID_V2_RE (hs_job_id x)"
  shows "listJobsForDevice cdb date m dev u q = Inr (jobs, nxt)
    \<and> getJobForDevice cdb date m dev u (hs_job_id x) b = Inl (StoreFailure V2JobNotFoundError)"
proof -
  have "\<exists>i. list_item cdb date m \<lparr>sc_user_id = u, sc_workspace_id = w\<rparr> q i = Inr (Some x)"
    using listed(3) [OF assms(3)] assms(4) list_loop_source by fastforce
  then obtain job where "getJob (fst m) (snd m) (hs_job_id x) = Inr (Some job)" "j_target_id job = hs_target_id x"
    using listed_item by blast
  then show ?thesis using assms(1-3,6) no_device_access [OF assms(5)]
    by (simp add: listJobsForDevice_def list_workspaces_def getJobForDevice_def)
qed

section \<open>A sample workspace\<close>

definition sample_host_target :: "target_id \<Rightarrow> string \<Rightarrow> target_row" where
  "sample_host_target i alias = \<lparr>t_id = i, t_workspace_id = ''ws-1'', t_alias = alias, t_display_name = ''App'', t_kind = ''coding'',
     t_repository_provider = None, t_repository_external_id = None, t_repository_full_name = None,
     t_created_at_ms = 100, t_updated_at_ms = 100, t_disabled_at_ms = None\<rparr>"

text \<open>One member, the target of the sample job bound to the sample device, and another target bound to another device.\<close>

definition sample_host_control :: control_db where
  "sample_host_control = empty_control\<lparr>users := [\<lparr>u_id = ''usr-1'', u_disabled_at = None\<rparr>], workspaces := [''ws-1''],
     memberships := [\<lparr>m_workspace_id = ''ws-1'', m_user_id = ''usr-1'', m_role = ''owner''\<rparr>],
     devices := map (\<lambda>d. sample_device_row\<lparr>d_id := d, d_user_id := ''usr-1''\<rparr>) [sample_device, ''dev_2''],
     targets := [sample_host_target sample_target ''app'', sample_host_target ''tgt_2'' ''other''],
     bindings := [fresh_binding 200 sample_binding sample_device sample_target, fresh_binding 200 ''dtb_2'' ''dev_2'' ''tgt_2'']\<rparr>"

definition sample_scope :: scope where "sample_scope = \<lparr>sc_user_id = ''usr-1'', sc_workspace_id = ''ws-1''\<rparr>"

definition sample_query :: list_query where
  "sample_query = \<lparr>lq_target_id = None, lq_state = None, lq_execution_status = None, lq_limit = None, lq_cursor = None\<rparr>"

definition sample_summary :: host_summary where
  "sample_summary = \<lparr>hs_job_id = sample_job_id, hs_request_id = sample_uuid, hs_target_id = sample_target, hs_target_alias = ''app'',
     hs_state = HS_queued, hs_execution_status = None, hs_business_outcome = None, hs_created_at = ''1970-01-01T00:00:01.000Z'',
     hs_expires_at = Some ''1970-01-01T00:00:05.000Z'', hs_resource_id = None, hs_result_target = RT_none\<rparr>"

lemma sample_host_facts:
  "assertHostWorkspaceAccess sample_host_control sample_scope = Inr ()"
  "getExecutionTarget sample_host_control sample_target = Some (sample_host_target sample_target ''app'')"
  "device_workspaces sample_host_control ''dev_2'' = [''ws-1'']" "sample_target \<notin> set (device_targets sample_host_control ''dev_2'')"
  "toISOString 1000 = Some ''1970-01-01T00:00:01.000Z''" "toISOString 5000 = Some ''1970-01-01T00:00:05.000Z''"
  by code_simp+

abbreviation sample_queued :: job where
  "sample_queued \<equiv> sample_job\<lparr>j_status := JS_queued, j_stream_entry_id := Some (show_entry_id (1000, 0))\<rparr>"

lemma sample_stored: "q_jobs sample_S1 = [sample_job_id \<mapsto> sample_queued]" "q_stream sample_S1 = [((1000, 0), stream_row sample_job)]"
  by (auto simp: sample_S1_def machine_create_def empty_state_def Let_def next_entry_id_def)

lemma sample_older: "older_entries (1000, sample_db1) None = [(show_entry_id (1000, 0), stream_row sample_job)]"
proof -
  have "stream_at 1000 sample_db1 KEY_STREAM_V2 = Inr (q_stream sample_S1)"
    using representsD(6) [OF sample_run1(1)] by (simp add: stream_at_def live_def sample_stored)
  then show ?thesis by (simp add: older_entries_def sample_stored)
qed

lemma sample_item:
  "list_item sample_host_control 1500 (1000, sample_db1) sample_scope sample_query (i, stream_row sample_job) = Inr (Some sample_summary)"
proof -
  let ?e = "\<lparr>s_job_id = sample_job_id, s_user_id = ''usr-1'', s_workspace_id = ''ws-1'', s_target_id = sample_target, s_created_at_ms = 1000\<rparr>"
  have row: "stream_row sample_job = stream_fields ?e" by (simp add: stream_row_def sample_job_def)
  have "stream_entry_ok ?e" by (simp add: stream_entry_ok_def safe_nonneg_def MAX_SAFE_INTEGER_def)
  then have v: "validateStreamEntryV2 (fields_obj (stream_row sample_job)) = Inr ?e"
    using parse_stream_fields row by (simp add: parseStreamEntryV2_def)
  have ws: "jfield (fields_obj (stream_row sample_job)) ''workspace_id'' = Some (JStr ''ws-1'')" by (simp add: row stream_fields_lookup)
  have ok: "\<not> isWhitespaceOnly ''ws-1''" "js_length ''ws-1'' \<le> 128" using sample_texts(2) by (simp_all add: scope_id_ok_def)
  have j: "getJob 1000 sample_db1 sample_job_id = Inr (Some sample_queued)"
    using getJob_repr [OF sample_run1 sample_colon_free] by (simp add: sample_stored)
  show ?thesis
    using v ws ok j sample_host_facts(2,5,6)
    by (simp add: list_item_def list_job_def sample_scope_def sample_query_def sample_job_def linked_attempt_def deriveHostJobState_def
        host_summary_of_def resolveHostJobTargetAlias_def sample_host_target_def expires_view_def iso_def sample_summary_def
        jobExecutionStatusView_def jobBusinessOutcomeView_def attempt_report_def)
qed

lemma sample_listing:
  "listJobsForHost sample_host_control 1500 (1000, sample_db1) sample_scope sample_query = Inr ([sample_summary], None)"
proof -
  have ok: "store_ok (1000, sample_db1)" using reachable_ok [OF sample_reach1] .
  have f: "from_store (readJobStreamReverse 1000 sample_db1 None n) = Inr (take n [(show_entry_id (1000, 0), stream_row sample_job)])" for n
    using job_stream.fetch_older [OF ok, of None n] by (simp add: sample_older valid_cursor_def)
  have q: "lq_cursor sample_query = None" "lq_target_id sample_query = None" "page_limit (lq_limit sample_query) = 20"
    by (simp_all add: sample_query_def page_limit_def bounded_def JOB_LIST_DEFAULT_LIMIT_def JOB_LIST_MAX_LIMIT_def)
  have "list_loop (list_item sample_host_control 1500 (1000, sample_db1) sample_scope sample_query)
      (\<lambda>c n. from_store (readJobStreamReverse 1000 sample_db1 c n)) 20 \<lparr>ls_jobs = [], ls_scanned = 0, ls_cursor = None, ls_next = None\<rparr>
    = Inr \<lparr>ls_jobs = [sample_summary], ls_scanned = 1, ls_cursor = Some (show_entry_id (1000, 0)), ls_next = None\<rparr>"
    by (simp add: list_loop.simps [of _ _ 20] f sample_item JOB_LIST_MAX_SCANNED_def JOB_LIST_SCAN_BATCH_def)
  then show ?thesis using sample_host_facts(1) by (simp add: listJobsForHost_def q)
qed

theorem listing_pages_cover_the_stream_witness:
  "\<exists>k. [sample_summary] = shown (list_item sample_host_control 1500 (1000, sample_db1) sample_scope sample_query)
     (take k (older_entries (1000, sample_db1) (lq_cursor sample_query))) \<and> k = length (older_entries (1000, sample_db1) (lq_cursor sample_query))"
  using listing_pages_cover_the_stream [OF sample_reach1 sample_listing] by auto


theorem device_listing_shows_foreign_targets_witness:
  "listJobsForDevice sample_host_control 1500 (1000, sample_db1) ''dev_2'' ''usr-1'' sample_query = Inr ([sample_summary], None)
   \<and> getJobForDevice sample_host_control 1500 (1000, sample_db1) ''dev_2'' ''usr-1'' sample_job_id False = Inl (StoreFailure V2JobNotFoundError)"
proof -
  have "hs_job_id sample_summary = sample_job_id" "hs_target_id sample_summary = sample_target" "lq_target_id sample_query = None"
    by (simp_all add: sample_summary_def sample_query_def)
  then show ?thesis
    using device_listing_shows_foreign_targets [OF sample_host_facts(3) _ sample_listing [unfolded sample_scope_def], of sample_summary False]
      sample_host_facts(4) by simp
qed

theorem host_can_read_every_job_witness:
  "\<exists>d. getJobForHost sample_host_control 1500 (1000, sample_db1) sample_scope sample_job_id True = Inr d
     \<and> (hs_state (hd_summary d) = HS_queued \<or> hs_state (hd_summary d) = HS_expired)"
proof -
  have get: "getJob 1000 sample_db1 jid = Inr (q_jobs sample_S1 jid)" if "JOB_ID_V2_RE jid" for jid
    by (rule getJob_repr [OF sample_run1 job_id_colon_free [OF that]])
  have "attempt_readable (1000, sample_db1) j \<and> target_consistent sample_host_control j"
    if "JOB_ID_V2_RE jid" "getJob 1000 sample_db1 jid = Inr (Some j)" for jid j
  proof -
    have "j = sample_queued" using get [OF that(1)] that(2) by (auto simp: sample_stored split: if_splits)
    then show ?thesis using sample_host_facts(2) by (simp add: attempt_readable_def target_consistent_def sample_host_target_def)
  qed
  then have "\<forall>jid j. JOB_ID_V2_RE jid \<and> getJob 1000 sample_db1 jid = Inr (Some j) \<and> j_workspace_id j = ''ws-1'' \<longrightarrow>
      (\<exists>d. getJobForHost sample_host_control 1500 (1000, sample_db1) sample_scope jid True = Inr d
        \<and> (hs_state (hd_summary d) = HS_queued \<or> hs_state (hd_summary d) = HS_expired \<longleftrightarrow> j_status j = JS_queued))"
    using host_can_read_every_job [OF sample_reach1 sample_host_facts(1), of sample_query 1500 True]
    unfolding fst_conv snd_conv by (simp add: sample_query_def valid_cursor_def sample_scope_def) blast
  from this [rule_format, of sample_job_id sample_queued] show ?thesis using get [of sample_job_id] by (simp add: sample_stored)
qed

end
