(* ===== verification/Coordinator_Operations.thy ===== *)
theory Coordinator_Operations
  imports Coordinator_Views Job_Guarantees
begin

text \<open>
  What the coordinator guarantees of the operations it authorises: claims, submissions and cancellations, with
  other clients of the store running between its reads and its scripts.
\<close>

section \<open>Claims\<close>

lemma granted_machine:
  assumes "machine_claim now fenced jid ws t dev bid aid tok ro S = (S', Granted st a)" "machine_inv now S"
  shows "q_attempts S' aid = Some a \<and> a_device_id a = dev \<and> a_claim_token_sha256 a = tok \<and> a_job_id a = jid
    \<and> (st = ''replayed'' \<or> st = ''claimed'' \<and> \<not> ro \<and> a_target_binding_id a = bid)"
proof -
  obtain j where j: "q_jobs S jid = Some j" "j_latest_attempt_id j = Some aid \<and> q_attempts S aid = Some a \<and> S' = S \<and> st = ''replayed''
      \<and> a_device_id a = dev \<and> a_claim_token_sha256 a = tok
    \<or> \<not> ro \<and> st = ''claimed'' \<and> a = new_attempt now j dev bid aid tok \<and> q_attempts S' aid = Some a"
    using assms(1) by (auto simp: machine_claim_def Let_def split: if_splits option.splits)
  have "j_job_id j = jid" using machine_inv_jobD [OF assms(2) j(1)] by (simp add: job_inv_def)
  moreover have "a_job_id a = jid" if "j_latest_attempt_id j = Some aid" "q_attempts S aid = Some a"
    using job_linked [OF assms(2) j(1) that(1)] that(2) by (metis option.inject)
  ultimately show ?thesis using j(2) by (auto simp: new_attempt_def)
qed

text \<open>
  C9. A claim through the coordinator is authorised. When it succeeds, the store holds the attempt, for this job,
  device and claim token; and unless it is a replay of a claim made before, the device was eligible for the
  target of the job in the control store, in the workspace of the job, and the attempt names that binding.
\<close>

theorem claim_is_authorized:
  assumes reach: "job_step\<^sup>*\<^sup>* (0, \<lambda>_. None) m" and env: "job_step\<^sup>*\<^sup>* m (env m)" and jid: "JOB_ID_V2_RE jid"
    and ok: "claimJob sha env cdb m dev jid aid token = (m', Inr v)"
  shows "\<exists>a. snd m' (attemptKeyV1 aid) = Some (attempt_value a) \<and> a_job_id a = jid \<and> a_device_id a = dev \<and> a_claim_token_sha256 a = sha token
    \<and> (cv_replayed v \<or> (\<exists>b d t. resolveEligibleBinding cdb dev (j_target_id (cv_job v)) = Eligible b d t
        \<and> t_workspace_id t = j_workspace_id (cv_job v) \<and> a_target_binding_id a = b_id b))"
proof -
  obtain now db where e: "env m = (now, db)" by (cases "env m")
  have reach': "job_step\<^sup>*\<^sup>* (0, \<lambda>_. None) (now, db)" using reach env e by (metis rtranclp_trans)
  obtain S where S: "represents db S" "machine_inv now S" "short now" "0 \<le> now" by (rule reachable_repr [OF reach'])
  obtain job bid ro where t: "claim_ticket cdb job dev aid = Inr (bid, ro)"
    and m': "m' = (now, fst (store_claimJob now db jid (j_workspace_id job) (j_target_id job) dev bid aid (sha token) ro))"
      "ebind (from_store (snd (store_claimJob now db jid (j_workspace_id job) (j_target_id job) dev bid aid (sha token) ro))) (claimed_view job) = Inr v"
    using ok e by (auto simp: claimJob_def case_prod_beta split: if_splits sum.splits option.splits)
  let ?r = "store_claimJob now db jid (j_workspace_id job) (j_target_id job) dev bid aid (sha token) ro"
  let ?m = "machine_claim now (fence_fresh now db (targetDeleteFenceKeyV1 (j_target_id job))) jid (j_workspace_id job) (j_target_id job) dev bid aid (sha token) ro S"
  obtain out where out: "snd ?r = Inr out" "claimed_view job out = Inr v" using m'(2) by (auto simp: ebind_eq_Inr)
  have v: "cv_job v = job" "cv_replayed v = (ao_status out = ''replayed'')" using out(2) by (auto simp: claimed_view_def ebind_eq_Inr)
  have cf: "colon_free jid" by (rule job_id_colon_free [OF jid])
  obtain a where a: "?m = (fst ?m, Granted (ao_status out) a)"
    using claim_success_machine [OF S cf, of "j_workspace_id job" "j_target_id job" dev bid aid "sha token" ro "fst ?r" out] out(1) by (metis prod.collapse)
  have rep: "represents (fst ?r) (fst ?m)"
    using claim_refines [OF S(1,2) cf S(3) refl] by (simp add: claim_db simulates_def)
  have "snd m' (attemptKeyV1 aid) = Some (attempt_value a)"
    using granted_machine [OF a S(2)] representsD(2) [OF rep] m'(1) by simp
  moreover have "\<not> ro \<Longrightarrow> \<exists>b d t. resolveEligibleBinding cdb dev (j_target_id job) = Eligible b d t \<and> t_workspace_id t = j_workspace_id job \<and> bid = b_id b"
    using t by (auto simp: claim_ticket_def split: if_splits eligibility.splits)
  ultimately show ?thesis using granted_machine [OF a S(2)] v by auto
qed

lemma sample_eligible:
  "resolveEligibleBinding sample_host_control sample_device sample_target
     = Eligible (fresh_binding 200 sample_binding sample_device sample_target)
         (sample_device_row\<lparr>d_id := sample_device, d_user_id := ''usr-1''\<rparr>) (sample_host_target sample_target ''app'')"
  "toISOString 2000 = Some ''1970-01-01T00:00:02.000Z''"
  by code_simp+

lemma sample_job_at: "getJob now sample_db1 sample_job_id = Inr (Some sample_queued)"
  using getJob_repr [OF sample_run1 sample_colon_free] by (simp add: sample_stored)

theorem claim_is_authorized_witness:
  "\<exists>m v a. claimJob (\<lambda>_. sample_sha) id sample_host_control (2000, sample_db1) sample_device sample_job_id sample_uuid sample_sha = (m, Inr v)
     \<and> \<not> cv_replayed v \<and> snd m (attemptKeyV1 sample_uuid) = Some (attempt_value a) \<and> a_target_binding_id a = sample_binding"
proof -
  have fields: "j_workspace_id sample_queued = ''ws-1''" "j_target_id sample_queued = sample_target" "j_latest_attempt_id sample_queued = None"
    by (simp_all add: sample_job_def)
  have "claim_ticket sample_host_control sample_queued sample_device sample_uuid = Inr (sample_binding, False)"
    by (simp add: claim_ticket_def sample_eligible(1) fields) (simp add: sample_host_target_def fresh_binding_def)
  then have "claimJob (\<lambda>_. sample_sha) id sample_host_control (2000, sample_db1) sample_device sample_job_id sample_uuid sample_sha
      = ((2000, sample_db2), claimed_view sample_queued \<lparr>ao_status = ''claimed'', ao_attempt = sample_attempt, ao_server_time_ms = 2000\<rparr>)"
    by (simp add: claimJob_def sample_job_at sample_claimed fields)
  moreover obtain v where v: "claimed_view sample_queued \<lparr>ao_status = ''claimed'', ao_attempt = sample_attempt, ao_server_time_ms = 2000\<rparr> = Inr v"
      "\<not> cv_replayed v" "cv_job v = sample_queued"
    by (simp add: claimed_view_def iso_def sample_eligible(2) iso_or_null_def new_attempt_def)
  ultimately have ok: "claimJob (\<lambda>_. sample_sha) id sample_host_control (2000, sample_db1) sample_device sample_job_id sample_uuid sample_sha
      = ((2000, sample_db2), Inr v)" by simp
  have reach: "job_step\<^sup>*\<^sup>* (0, \<lambda>_. None) (2000, sample_db1)"
    using sample_reach1 by (rule rtranclp.rtrancl_into_rtrancl) (rule tick, simp_all)
  have "\<exists>a. sample_db2 (attemptKeyV1 sample_uuid) = Some (attempt_value a) \<and> a_target_binding_id a = sample_binding"
    using claim_is_authorized [OF reach _ sample_ids(1) ok] v(2,3) sample_eligible(1) fields by (auto simp: fresh_binding_def)
  then show ?thesis using ok v(2) by auto
qed

section \<open>Submission\<close>

lemma validated_submission:
  assumes "validate_submission i = Inr u"
  shows "REQUEST_ID_V2_RE (in_request_id i) \<and> TARGET_ID_V2_RE (in_target_id i) \<and> brief_ok MAX_PROMPT_BYTES (in_prompt i)
    \<and> brief_ok MAX_ACCEPTANCE_BYTES (in_acceptance i) \<and> timeout_ok (in_execution_timeout_seconds i)
    \<and> (in_result_target i = RT_resource \<longrightarrow> in_resource_id i \<noteq> None) \<and> (\<forall>r. in_resource_id i = Some r \<longrightarrow> RESOURCE_ID_V2_RE r)"
  using assms by (cases "in_result_target i"; cases "in_resource_id i")
    (auto simp: validate_submission_def brief_invalid_def brief_ok_def timeout_invalid_def timeout_ok_def resource_link_invalid_def split: if_splits)

lemma new_job_ok:
  assumes "validate_submission i = Inr u" "scope_id_ok (sc_user_id s)" "scope_id_ok (sc_workspace_id s)" "\<And>x. HEX_64_RE (sha x)"
    "JOB_ID_V2_RE (''job-'' @ uuid)" "0 \<le> date" "short (date + JOB_CLAIM_TTL_MS_V2)"
  shows "submission_ok (new_job sha date uuid s i)"
proof -
  have d: "short date" "date + JOB_CLAIM_TTL_MS_V2 \<le> MAX_SAFE_INTEGER" "date \<le> MAX_SAFE_INTEGER"
    using assms(6,7) by (simp_all add: short_def JOB_CLAIM_TTL_MS_V2_def MAX_SAFE_INTEGER_def)
  have t: "short (in_execution_timeout_seconds i)"
    using validated_submission [OF assms(1)] by (simp add: timeout_ok_def MIN_TIMEOUT_SECONDS_def MAX_TIMEOUT_SECONDS_def short_def)
  show ?thesis using validated_submission [OF assms(1)] assms(2-7) d t
    by (simp add: submission_ok_def job_ok_def new_job_def job_short_def job_state_ok_def safe_nonneg_def businessDigestV2_def
        JOB_CLAIM_TTL_MS_V2_def)
qed

lemma resolve_found:
  assumes S: "represents db S" "machine_inv now S" and j: "q_jobs S jid = Some j"
    and ok: "resolve_existing now' db job rid jid = Inr out"
  shows "j_user_id j = j_user_id job \<and> j_workspace_id j = j_workspace_id job \<and> j_request_id j = rid
    \<and> j_request_digest j = j_request_digest job \<and> cr_job_id out = jid \<and> cr_status out = ''replayed''"
proof -
  have ji: "job_inv S jid j" by (rule machine_inv_jobD [OF S(2) j])
  have "parseJobRecordV2 (Json (JObj (job_obj j))) = Inr j"
    using ji parse_job_obj_iff [of j j] by (simp add: parseJobRecordV2_def parse_job_json_def job_inv_def)
  moreover have "store_get now' db (jobKeyV2 jid) = Inr (Some (Json (JObj (job_obj j))))"
    using representsD(1) [OF S(1), of jid] job_inv_ids [OF ji] j by (simp add: store_get_def redis_get_def live_def job_value_def)
  ultimately show ?thesis
    using ok job_inv_ids [OF ji] by (auto simp: resolve_existing_def falsy_raw_def split: if_splits)
qed

text \<open>A successful submission of the store, from a consistent key space.\<close>

lemma created_or_found:
  assumes S: "represents db S" "machine_inv now S" and job: "submission_ok job"
    and ok: "createJob now db job (j_request_id job) = (db', Inr out)"
  shows "\<exists>S' j. represents db' S' \<and> machine_inv now S' \<and> q_jobs S' (cr_job_id out) = Some j \<and> colon_free (cr_job_id out)
    \<and> j_user_id j = j_user_id job \<and> j_workspace_id j = j_workspace_id job \<and> j_request_id j = j_request_id job
    \<and> j_request_digest j = j_request_digest job \<and> (cr_status out = ''replayed'' \<or> cr_status out = ''created''
      \<and> (\<exists>e. j = job\<lparr>j_status := JS_queued, j_stream_entry_id := Some e, j_latest_attempt_id := None\<rparr>))"
proof -
  let ?m = "machine_create now (fence_fresh now db (targetDeleteFenceKeyV1 (j_target_id job))) job (j_request_id job) S"
  let ?rk = "requestKeyV2 (j_user_id job) (j_workspace_id job) (j_request_id job)"
  have r: "represents db' (fst ?m)" "Inr out = create_result now db' job (j_request_id job) (snd ?m)"
    using store_create_refines [OF S(1) job refl, of now "j_request_id job"] ok by simp_all
  have inv: "machine_inv now (fst ?m)" by (rule machine_create_inv [OF S(2) job refl])
  show ?thesis
  proof (cases "q_requests S ?rk")
    case None
    then obtain e where e: "snd ?m = Created e" using r(2) by (auto simp: machine_create_def Let_def create_result_def split: if_splits)
    then have m: "?m = (fst ?m, Created e)" by (metis prod.collapse)
    have "out = \<lparr>cr_status = ''created'', cr_job_id = j_job_id job, cr_stream_entry_id = Some e\<rparr>" using r(2) e by (simp add: create_result_def)
    then show ?thesis using created_machine [OF m] r(1) inv job_id_colon_free job
      by (intro exI [of _ "fst ?m"] exI [of _ "job\<lparr>j_status := JS_queued, j_stream_entry_id := Some e, j_latest_attempt_id := None\<rparr>"])
        (auto simp: submission_ok_def job_ok_def)
  next
    case (Some jid)
    then have m: "?m = (S, CreateExisting jid)" by (simp add: machine_create_def Let_def)
    obtain j where j: "q_jobs S jid = Some j" using request_member [OF S(2) Some] by blast
    have "resolve_existing now db' job (j_request_id job) jid = Inr out" using r(2) m by (simp add: create_result_def)
    then show ?thesis using resolve_found [of db' S now jid j] r(1) m j S(2) job_inv_ids [OF machine_inv_jobD [OF S(2) j]] by auto
  qed
qed

lemma existing_found:
  assumes "existing_job env same m s rid = Inr (Some job)"
  shows "j_user_id job = sc_user_id s \<and> j_workspace_id job = sc_workspace_id s \<and> j_request_id job = rid \<and> j_status job \<noteq> JS_preparing \<and> same job"
proof -
  obtain jid where r: "getRequestJobId (fst m) (snd m) (sc_user_id s) (sc_workspace_id s) rid = Inr (Some jid)" "jid \<noteq> []"
    using assms by (fastforce simp: existing_job_def ebind_eq_Inr split: option.splits if_splits)
  obtain j where "getJob (fst (env m)) (snd (env m)) jid = Inr (Some j)"
    using assms r by (fastforce simp: existing_job_def ebind_eq_Inr split: option.splits)
  then show ?thesis using assms r by (simp add: existing_job_def split: if_splits)
qed

lemma evolves_job_fields:
  assumes "evolves_job j j'"
  shows "j_job_id j' = j_job_id j \<and> j_user_id j' = j_user_id j \<and> j_workspace_id j' = j_workspace_id j \<and> j_request_id j' = j_request_id j
    \<and> j_target_id j' = j_target_id j \<and> j_request_digest j' = j_request_digest j \<and> j_prompt j' = j_prompt j \<and> j_acceptance j' = j_acceptance j"
proof -
  obtain a b c where "j' = j\<lparr>j_status := a, j_latest_attempt_id := b, j_cancel := c\<rparr>" using assms unfolding evolves_job_def by blast
  then show ?thesis by simp
qed

text \<open>What the final read of a submission returns, whatever ran since the script.\<close>

lemma fetched_job:
  assumes reach: "job_step\<^sup>*\<^sup>* (0, \<lambda>_. None) (now, db)" and run: "job_step\<^sup>*\<^sup>* (now, db) (now', db')"
    and S: "represents db S" "q_jobs S jid = Some j" and jid: "colon_free jid" and get: "getJob now' db' jid = Inr (Some job)"
  shows "evolves_job j job \<and> j_status job \<noteq> JS_preparing"
proof -
  have reach': "job_step\<^sup>*\<^sup>* (0, \<lambda>_. None) (now', db')" using reach run by (rule rtranclp_trans)
  obtain T where T: "represents db' T" "machine_inv now' T" by (rule reachable_repr [OF reach'])
  have "history_kept (now, db) (now', db')" by (rule jobs.le_star [OF run reachable_ok [OF reach]])
  then obtain j' where "q_jobs T jid = Some j'" "evolves_job j j'" using kept_records(1) [OF _ S(1) T jid S(2)] by blast
  moreover have "q_jobs T jid = Some job" using get getJob_repr [OF T jid] by simp
  ultimately show ?thesis using machine_inv_jobD [OF T(2), of jid job] by (auto simp: job_inv_def)
qed


definition sample_input :: submit_input where
  "sample_input = \<lparr>in_request_id = sample_uuid, in_target_id = sample_target, in_prompt = ''do it'', in_acceptance = ''done'',
     in_resource_id = None, in_execution_timeout_seconds = 60, in_result_target = RT_none\<rparr>"

definition calm_submit :: submit_env where "calm_submit = \<lparr>se_read = id, se_create = id, se_fetch = id\<rparr>"

lemma sample_valid: "validate_submission sample_input = Inr ()" "JOB_ID_V2_RE (''job-'' @ sample_uuid)" "short (1000 + JOB_CLAIM_TTL_MS_V2)"
proof -
  show "validate_submission sample_input = Inr ()"
    using sample_briefs by (simp add: validate_submission_def sample_input_def brief_invalid_def brief_ok_def timeout_invalid_def
        MIN_TIMEOUT_SECONDS_def MAX_TIMEOUT_SECONDS_def resource_link_invalid_def not_less)
  show "JOB_ID_V2_RE (''job-'' @ sample_uuid)" by code_simp
  show "short (1000 + JOB_CLAIM_TTL_MS_V2)" by (simp add: short_def JOB_CLAIM_TTL_MS_V2_def)
qed

lemma sample_submitted:
  "\<exists>m job. submit (\<lambda>_. sample_sha) None calm_submit 1000 sample_uuid sample_host_control sample_host_control (1000, \<lambda>_. None) sample_scope sample_input
     = (m, Inr (''created'', job))"
proof -
  let ?job = "new_job (\<lambda>_. sample_sha) 1000 sample_uuid sample_scope sample_input"
  have sub: "submission_ok ?job" by (rule new_job_ok [OF sample_valid(1)]) (use sample_valid in \<open>simp_all add: sample_scope_def\<close>)
  have rid: "j_request_id ?job = sample_uuid" "in_request_id sample_input = sample_uuid" by (simp_all add: new_job_def sample_input_def)
  let ?m = "machine_create 1000 False ?job sample_uuid empty_state"
  have m: "snd ?m = Created (show_entry_id (1000, 0))" by (simp add: machine_create_def empty_state_def Let_def next_entry_id_def)
  have r: "represents (fst (createJob 1000 (\<lambda>_. None) ?job sample_uuid)) (fst ?m)"
    "snd (createJob 1000 (\<lambda>_. None) ?job sample_uuid) = create_result 1000 (fst (createJob 1000 (\<lambda>_. None) ?job sample_uuid)) ?job sample_uuid (snd ?m)"
    using store_create_refines [OF represents_empty sub refl, of 1000 sample_uuid] by simp_all
  have cf: "colon_free (j_job_id ?job)" using job_id_colon_free sub by (simp add: submission_ok_def job_ok_def)
  have inv: "machine_inv 1000 (fst ?m)" by (rule machine_create_inv [OF machine_inv_empty sub rid(1)])
  have "q_jobs (fst ?m) (j_job_id ?job) \<noteq> None" using created_machine [of 1000 False ?job sample_uuid empty_state "fst ?m"] m by (metis option.discI prod.collapse)
  then have "\<exists>j. getJob 1000 (fst (createJob 1000 (\<lambda>_. None) ?job sample_uuid)) (j_job_id ?job) = Inr (Some j)"
    using getJob_repr [OF r(1) inv cf] by auto
  moreover have "authorize_submission sample_host_control None sample_scope sample_input = Inr ()" by code_simp
  moreover have "checkExistingSubmission (\<lambda>_. sample_sha) id sample_host_control (1000, \<lambda>_. None) sample_scope sample_input = Inr None"
    using sample_host_facts(1) sample_valid(1)
    by (simp add: checkExistingSubmission_def existing_job_def getRequestJobId_def store_get_def redis_get_def live_def)
  ultimately show ?thesis using r(2) m
    by (cases "createJob 1000 (\<lambda>_. None) ?job sample_uuid") (auto simp: submit_def calm_submit_def rid create_result_def)
qed


section \<open>Cancellation\<close>

lemma cancelled_now:
  assumes S: "machine_inv now S" and j: "q_jobs S jid = Some j" "j_status j \<noteq> JS_terminal" and x: "e = j_latest_attempt_id j"
  shows "\<exists>st bo aid. snd (machine_cancel now jid e dev reason receipt S) = CancelDone st ''cancelled'' ES_CANCELLED bo aid"
    and "\<exists>j'. q_jobs (fst (machine_cancel now jid e dev reason receipt S)) jid = Some j' \<and> j_status j' = JS_terminal"
proof -
  have "(\<exists>st bo aid. snd (machine_cancel now jid e dev reason receipt S) = CancelDone st ''cancelled'' ES_CANCELLED bo aid)
    \<and> (\<exists>j'. q_jobs (fst (machine_cancel now jid e dev reason receipt S)) jid = Some j' \<and> j_status j' = JS_terminal)"
  proof (cases "j_latest_attempt_id j")
    case None
    then show ?thesis using j x by (simp add: machine_cancel_def Let_def)
  next
    case (Some aid)
    obtain a where "q_attempts S aid = Some a" by (rule job_linked [OF S j(1) Some])
    then show ?thesis using Some j x by (simp add: machine_cancel_def Let_def)
  qed
  then show "\<exists>st bo aid. snd (machine_cancel now jid e dev reason receipt S) = CancelDone st ''cancelled'' ES_CANCELLED bo aid"
    and "\<exists>j'. q_jobs (fst (machine_cancel now jid e dev reason receipt S)) jid = Some j' \<and> j_status j' = JS_terminal" by blast+
qed

lemma three_rounds: "JOB_CANCEL_MAX_RACE_RETRIES = Suc 2"
  by (simp add: JOB_CANCEL_MAX_RACE_RETRIES_def)

text \<open>
  An undisturbed cancellation ends the job. From any reachable key space in which the attempt record parses, a device
  that is or was bound to the target of the job gets an answer in the first round, and the job is terminal
  afterwards; the answer says cancelled exactly when the job was not terminal before.
\<close>

theorem undisturbed_cancel_ends_job:
  assumes reach: "job_step\<^sup>*\<^sup>* (0, \<lambda>_. None) m" and jid: "JOB_ID_V2_RE jid"
    and job: "getJob (fst m) (snd m) jid = Inr (Some j)" "attempt_readable m j"
    and bound: "j_target_id j \<in> set (device_targets (xe_control (env 2)) dev)" "DEVICE_ID_V2_RE dev" "cancel_reason_ok (cancel_reason u)"
    and calm: "xe_read (env 2) = id" "xe_attempt (env 2) = id" "xe_script (env 2) = id" and sha: "\<And>x. HEX_64_RE (sha x)"
  shows "\<exists>m' v. cancelJobForDevice sha env m dev u jid = (m', Inr v)
    \<and> (\<exists>j'. getJob (fst m') (snd m') jid = Inr (Some j') \<and> j_status j' = JS_terminal)
    \<and> (xv_action v = ''cancelled'' \<longleftrightarrow> j_status j \<noteq> JS_terminal)"
proof -
  obtain now db where m: "m = (now, db)" by (cases m)
  obtain S where S: "represents db S" "machine_inv now S" "short now" "0 \<le> now" by (rule reachable_repr [OF reach [unfolded m]])
  have cf: "colon_free jid" by (rule job_id_colon_free [OF jid])
  have j: "q_jobs S jid = Some j" using job(1) getJob_repr [OF S(1,2) cf] m by simp
  have ji: "job_inv S jid j" by (rule machine_inv_jobD [OF S(2) j])
  have latest: "j_latest_attempt_id j \<noteq> Some []" using ji by (auto simp: job_inv_def job_ok_def ATTEMPT_ID_V2_RE_def uuid_re_def)
  let ?date = "xe_date (env 2)" and ?att = "host_attempt S j" and ?x = "j_latest_attempt_id j"
  have S': "represents (snd m) S" "machine_inv (fst m) S" using S m by simp_all
  obtain st where st: "deriveHostJobState j ?att ?date = Inr st" "st = HS_terminal \<longleftrightarrow> j_status j = JS_terminal"
    using attempt_view(2) [OF S' j job(2)] by blast
  have att: "latest_attempt m j = Inr ?att"
    using attempt_view(1) [OF S' j job(2)] latest
    by (cases ?x) (auto simp: latest_attempt_def has_attempt_def linked_attempt_def host_attempt_def ebind_eq_Inr split: option.splits if_splits)
  have acc: "assertDeviceTargetAccess (xe_control (env 2)) dev (j_target_id j) = Inr ()"
    using bound(1) by (auto simp: assertDeviceTargetAccess_def device_targets_def js_set_def list_ex_iff)
  have jj: "j_job_id j = jid" using job_inv_ids [OF ji] by blast
  let ?r = "store_cancelJob now db jid ?x (j_target_id j) dev (cancel_reason u) (cancel_receipt sha j dev)"
  have rounds: "cancelJobForDevice sha env m dev u jid = (case cancel_round sha id id (xe_control (env 2)) ?date dev u jid m of
      (m', Some r) \<Rightarrow> (m', r) | (m', None) \<Rightarrow> cancel_rounds sha env dev u jid 2 m')"
    unfolding cancelJobForDevice_def three_rounds cancel_rounds.simps calm using jid by simp
  show ?thesis
  proof (cases "j_status j = JS_terminal")
    case True
    then have "cancel_round sha id id (xe_control (env 2)) ?date dev u jid m = (m, Some (Inr (terminal_view j ?att)))"
      using job(1) acc att st by (simp add: cancel_round_def Let_def)
    then show ?thesis using rounds job(1) True by (simp add: terminal_view_def Let_def)
  next
    case False
    let ?mc = "machine_cancel now jid ?x dev (cancel_reason u) (cancel_receipt sha j dev) S"
    have hex: "HEX_64_RE (cancel_receipt sha j dev)" using sha by (simp add: cancel_receipt_def)
    have c: "represents (fst ?r) (fst ?mc)" "snd ?r = cancel_result now (snd ?mc)"
      using store_cancel_refines [OF S(1,2) cf S(3,4) hex latest _ refl, of "j_target_id j" dev "cancel_reason u"] j by auto
    obtain s bo aid where fin: "snd ?mc = CancelDone s ''cancelled'' ES_CANCELLED bo aid" using cancelled_now(1) [OF S(2) j False refl] by blast
    have "machine_inv now (fst ?mc)" by (rule machine_cancel_inv [OF S(2,3,4) bound(2,3) hex])
    then have "\<exists>j'. getJob now (fst ?r) jid = Inr (Some j') \<and> j_status j' = JS_terminal"
      using getJob_repr [OF c(1) _ cf] cancelled_now(2) [OF S(2) j False refl] by metis
    moreover obtain out where out: "snd ?r = Inr out" "co_result out = ''cancelled''" using c(2) fin by (simp add: cancel_result_def)
    moreover have "cancel_round sha id id (xe_control (env 2)) ?date dev u jid m = ((now, fst ?r), Some (Inr (cancel_view_of j st out)))"
      using job(1) acc att st False m jj out(1) by (cases ?r) (simp add: cancel_round_def cancel_apply_def Let_def)
    ultimately show ?thesis using rounds False by (simp add: cancel_view_of_def)
  qed
qed

text \<open>
  Devices cannot probe for jobs. For a device without a binding to the target of a job, reading and cancelling the job are
  answered exactly as if the job did not exist, and nothing is written.
\<close>

theorem devices_cannot_probe_jobs:
  assumes "JOB_ID_V2_RE jid" "m0 = xe_read (env 2) m" "getJob (fst m0) (snd m0) jid = Inr x"
    and "pred_option (\<lambda>j. j_target_id j \<notin> set (device_targets (xe_control (env 2)) dev)) x"
  shows "cancelJobForDevice sha env m dev u jid = (m0, Inl (StoreFailure V2JobNotFoundError))
    \<and> getJobForDevice (xe_control (env 2)) date m0 dev u jid b = Inl (StoreFailure V2JobNotFoundError)"
proof -
  have "cancel_round sha (xe_attempt (env 2)) (xe_script (env 2)) (xe_control (env 2)) (xe_date (env 2)) dev u jid m0
      = (m0, Some (Inl (StoreFailure V2JobNotFoundError)))"
    using assms(3,4) no_device_access by (cases x) (simp_all add: cancel_round_def)
  moreover have "getJobForDevice (xe_control (env 2)) date m0 dev u jid b = Inl (StoreFailure V2JobNotFoundError)"
    using assms(1,3,4) no_device_access by (cases x) (simp_all add: getJobForDevice_def)
  ultimately show ?thesis using assms(1,2) unfolding cancelJobForDevice_def three_rounds cancel_rounds.simps by simp
qed

definition calm_cancel :: cancel_env where
  "calm_cancel = \<lparr>xe_read = id, xe_attempt = id, xe_script = id, xe_control = sample_host_control, xe_date = 1500\<rparr>"

lemma sample_cancel_facts:
  "sample_target \<in> set (device_targets sample_host_control sample_device)" "cancel_reason_ok (cancel_reason ''usr-1'')"
  by code_simp+

theorem undisturbed_cancel_ends_job_witness:
  "\<exists>m v. cancelJobForDevice (\<lambda>_. sample_sha) (\<lambda>_. calm_cancel) (1000, sample_db1) sample_device ''usr-1'' sample_job_id = (m, Inr v)
     \<and> xv_action v = ''cancelled''"
proof -
  have "j_target_id sample_queued = sample_target" "j_status sample_queued = JS_queued" "attempt_readable (1000, sample_db1) sample_queued"
    by (simp_all add: sample_job_def attempt_readable_def)
  then show ?thesis
    using undisturbed_cancel_ends_job [OF sample_reach1 sample_ids(1), of sample_queued "\<lambda>_. calm_cancel" sample_device "''usr-1''" "\<lambda>_. sample_sha"]
      sample_job_at sample_cancel_facts by (auto simp: calm_cancel_def)
qed

theorem devices_cannot_probe_jobs_witness:
  "cancelJobForDevice (\<lambda>_. sample_sha) (\<lambda>_. calm_cancel) (1000, sample_db1) ''dev_2'' ''usr-1'' sample_job_id
     = ((1000, sample_db1), Inl (StoreFailure V2JobNotFoundError))
   \<and> getJob 1000 sample_db1 sample_job_id = Inr (Some sample_queued)"
proof -
  have "pred_option (\<lambda>j. j_target_id j \<notin> set (device_targets sample_host_control ''dev_2'')) (Some sample_queued)"
    using sample_host_facts(4) by (simp add: sample_job_def)
  then show ?thesis
    using devices_cannot_probe_jobs [OF sample_ids(1), of "(1000, sample_db1)" "\<lambda>_. calm_cancel" "(1000, sample_db1)" "Some sample_queued" "''dev_2''"]
      sample_job_at by (simp add: calm_cancel_def)
qed

end
