(* ===== verification/Target_Deletion.thy ===== *)
theory Target_Deletion
  imports Job_Coordinator
begin

text \<open>
  The deletion of a project: \<^verbatim>\<open>jobs/target-delete.ts\<close>. A deletion takes the delete fence of the target, reads
  the whole job stream to see whether any job of the target may still run, deletes the target row and
  releases the fence. Every call of the store is awaited: the environment says what time and other clients
  do before each call, and what happens to the control database meanwhile.
\<close>

section \<open>The world of a deletion\<close>

text \<open>The number of calls so far, the job store with the Redis clock, and the control database.\<close>

record world =
  w_calls :: nat
  w_store :: moment
  w_control :: control_db

text \<open>\<open>de_clock\<close> is what \<^verbatim>\<open>Date.now()\<close> of the server returns at a Redis time.\<close>

record delete_env =
  de_store :: "nat \<Rightarrow> moment \<Rightarrow> moment"
  de_control :: "nat \<Rightarrow> control_db \<Rightarrow> control_db"
  de_clock :: "int \<Rightarrow> int"

definition await :: "delete_env \<Rightarrow> world \<Rightarrow> world" where
  "await E w = \<lparr>w_calls = Suc (w_calls w), w_store = de_store E (w_calls w) (w_store w),
     w_control = de_control E (w_calls w) (w_control w)\<rparr>"

abbreviation w_now :: "world \<Rightarrow> int" where "w_now w \<equiv> fst (w_store w)"
abbreviation w_db :: "world \<Rightarrow> redis" where "w_db w \<equiv> snd (w_store w)"

definition date_now :: "delete_env \<Rightarrow> world \<Rightarrow> int" where
  "date_now E w = de_clock E (w_now w)"

section \<open>Quiescence\<close>

definition TARGET_DELETE_STREAM_SCAN_BATCH :: nat where "TARGET_DELETE_STREAM_SCAN_BATCH = 128"

record evidence =
  ev_preparing :: "job_id list"
  ev_queued :: "job_id list"
  ev_claimed :: "job_id list"
  ev_running :: "job_id list"

datatype delete_error =
    ControlFailure connector_error
  | JobStoreFailure store_error
  | TargetDeleteBlockedError target_id evidence
  | TargetDeleteInProgressError target_id

record delete_outcome =
  dl_outcome :: string
  dl_target_id :: target_id
  dl_terminal_job_count :: nat

text \<open>What a scan has found so far.\<close>

record quiescence =
  q_evidence :: evidence
  q_terminal :: nat
  q_expired :: "job_id list"

definition nothing_found :: quiescence where
  "nothing_found = \<lparr>q_evidence = \<lparr>ev_preparing = [], ev_queued = [], ev_claimed = [], ev_running = []\<rparr>, q_terminal = 0, q_expired = []\<rparr>"

definition blocked :: "evidence \<Rightarrow> bool" where
  "blocked e \<longleftrightarrow> length (ev_preparing e) + length (ev_queued e) + length (ev_claimed e) + length (ev_running e) \<noteq> 0"

text \<open>Queued past its deadline by the clock of the server: it can never be claimed.\<close>

definition expired_unclaimed :: "int \<Rightarrow> job \<Rightarrow> bool" where
  "expired_unclaimed nowMs j \<longleftrightarrow> 0 < j_claim_deadline_ms j \<and> j_claim_deadline_ms j \<le> nowMs"

definition scan_job :: "delete_env \<Rightarrow> int \<Rightarrow> job \<Rightarrow> world \<Rightarrow> quiescence \<Rightarrow> world \<times> (store_error + quiescence)" where
  "scan_job E nowMs job w q = (let e = q_evidence q; jid = j_job_id job in case j_status job of
      JS_preparing \<Rightarrow> (w, Inr (q\<lparr>q_evidence := e\<lparr>ev_preparing := ev_preparing e @ [jid]\<rparr>\<rparr>))
    | JS_queued \<Rightarrow>
        if expired_unclaimed nowMs job then (w, Inr (q\<lparr>q_expired := q_expired q @ [jid]\<rparr>))
        else (w, Inr (q\<lparr>q_evidence := e\<lparr>ev_queued := ev_queued e @ [jid]\<rparr>\<rparr>))
    | JS_active \<Rightarrow>
        (let w' = (if has_attempt job then await E w else w) in
         (w', ebind (if has_attempt job then getAttempt (w_now w') (w_db w') (the (j_latest_attempt_id job)) else Inr None)
            (\<lambda>a. Inr (if (case a of None \<Rightarrow> False | Some a \<Rightarrow> a_phase a = AP_running)
               then q\<lparr>q_evidence := e\<lparr>ev_running := ev_running e @ [jid]\<rparr>\<rparr>
               else q\<lparr>q_evidence := e\<lparr>ev_claimed := ev_claimed e @ [jid]\<rparr>\<rparr>))))
    | JS_terminal \<Rightarrow> (w, Inr (q\<lparr>q_terminal := Suc (q_terminal q)\<rparr>)))"

text \<open>The fields of a stream entry, read as strings.\<close>

definition field_text :: "stream_item \<Rightarrow> string \<Rightarrow> string option" where
  "field_text item k = (case jfield (fields_obj (snd item)) k of Some (JStr s) \<Rightarrow> Some s | _ \<Rightarrow> None)"

definition scan_entry ::
  "delete_env \<Rightarrow> target_id \<Rightarrow> int \<Rightarrow> stream_item \<Rightarrow> world \<Rightarrow> quiescence \<Rightarrow> world \<times> (store_error + quiescence)" where
  "scan_entry E targetId nowMs item w q =
     (if field_text item ''target_id'' \<noteq> Some targetId then (w, Inr q)
      else case field_text item ''job_id'' of
        None \<Rightarrow> (w, Inr q)
      | Some jobId \<Rightarrow>
         if jobId = [] then (w, Inr q)
         else let w' = await E w in
           (case getJob (w_now w') (w_db w') jobId of
              Inl err \<Rightarrow> (w', Inl err)
            | Inr None \<Rightarrow> (w', Inr q)
            | Inr (Some job) \<Rightarrow> scan_job E nowMs job w' q))"

fun scan_entries ::
  "delete_env \<Rightarrow> target_id \<Rightarrow> int \<Rightarrow> stream_item list \<Rightarrow> world \<Rightarrow> quiescence \<Rightarrow> world \<times> (store_error + quiescence)" where
  "scan_entries E targetId nowMs [] w q = (w, Inr q)"
| "scan_entries E targetId nowMs (item # items) w q = (case scan_entry E targetId nowMs item w q of
      (w', Inl err) \<Rightarrow> (w', Inl err)
    | (w', Inr q') \<Rightarrow> scan_entries E targetId nowMs items w' q')"

text \<open>
  The loop over the stream. Others may append to the stream for ever, so the loop may not end: it is a partial
  function, \<open>None\<close> when it does not return. The fence is touched after every batch.
\<close>

partial_function (option) scan_stream ::
  "delete_env \<Rightarrow> target_id \<Rightarrow> string \<Rightarrow> int \<Rightarrow> string option \<Rightarrow> world \<Rightarrow> quiescence \<Rightarrow> (world \<times> (store_error + quiescence)) option" where
  "scan_stream E targetId token nowMs cursor w q =
     (let w1 = await E w in
      case scanJobStream (w_now w1) (w_db w1) cursor TARGET_DELETE_STREAM_SCAN_BATCH of
        Inl err \<Rightarrow> Some (w1, Inl err)
      | Inr batch \<Rightarrow>
         if batch = [] then Some (w1, Inr q)
         else (case scan_entries E targetId nowMs batch w1 q of (w2, r) \<Rightarrow>
           (case r of
              Inl err \<Rightarrow> Some (w2, Inl err)
            | Inr q2 \<Rightarrow>
               (let w3 = await E w2 in
                case touchTargetDeleteFence (w_now w3) (w_db w3) targetId token of (db, touched) \<Rightarrow>
                  (let w4 = w3\<lparr>w_store := (w_now w3, db)\<rparr> in
                   case touched of
                     Inl err \<Rightarrow> Some (w4, Inl err)
                   | Inr _ \<Rightarrow>
                      if length batch < TARGET_DELETE_STREAM_SCAN_BATCH then Some (w4, Inr q2)
                      else scan_stream E targetId token nowMs (Some (fst (last batch))) w4 q2)))))"

definition verifyTargetQuiescence ::
  "delete_env \<Rightarrow> target_id \<Rightarrow> string \<Rightarrow> world \<Rightarrow> (world \<times> (store_error + quiescence)) option" where
  "verifyTargetQuiescence E targetId token w =
     (case scan_stream E targetId token (date_now E w) None w nothing_found of
        None \<Rightarrow> None
      | Some (w1, Inl err) \<Rightarrow> Some (w1, Inl err)
      | Some (w1, Inr q) \<Rightarrow>
         if q_expired q = [] then Some (w1, Inr q)
         else let w2 = await E w1 in
           Some (w2\<lparr>w_store := (w_now w2, fst (pruneTargetQueue (w_now w2) (w_db w2) targetId (q_expired q)))\<rparr>, Inr q))"

section \<open>Deletion\<close>

definition release_fence :: "delete_env \<Rightarrow> target_id \<Rightarrow> string \<Rightarrow> world \<Rightarrow> world" where
  "release_fence E targetId token w =
     (let w1 = await E w in
      \<lparr>w_calls = Suc (w_calls w1),
       w_store = fst (releaseTargetDeleteFence (de_store E (w_calls w1)) (w_store w1) targetId token),
       w_control = de_control E (w_calls w1) (w_control w1)\<rparr>)"

text \<open>The \<^verbatim>\<open>try\<close> part: verify, then delete the row.\<close>

definition delete_if_quiet ::
  "target_id \<Rightarrow> world \<Rightarrow> store_error + quiescence \<Rightarrow> world \<times> (delete_error + delete_outcome)" where
  "delete_if_quiet targetId w r = (case r of
      Inl err \<Rightarrow> (w, Inl (JobStoreFailure err))
    | Inr q \<Rightarrow>
       if blocked (q_evidence q) then (w, Inl (TargetDeleteBlockedError targetId (q_evidence q)))
       else (case deleteExecutionTargetRow targetId (w_control w) of (c, deleted) \<Rightarrow>
         (w\<lparr>w_control := c\<rparr>, Inr \<lparr>dl_outcome = (if deleted then ''deleted'' else ''already_deleted''),
            dl_target_id = targetId, dl_terminal_job_count = q_terminal q\<rparr>)))"

definition runFencedDelete ::
  "delete_env \<Rightarrow> target_id \<Rightarrow> string \<Rightarrow> world \<Rightarrow> (world \<times> (delete_error + delete_outcome)) option" where
  "runFencedDelete E targetId token w =
     (case verifyTargetQuiescence E targetId token w of
        None \<Rightarrow> None
      | Some (w1, r) \<Rightarrow> (case delete_if_quiet targetId w1 r of (w2, out) \<Rightarrow> Some (release_fence E targetId token w2, out)))"

definition acquire_fence :: "delete_env \<Rightarrow> target_id \<Rightarrow> string \<Rightarrow> world \<Rightarrow> world \<times> bool" where
  "acquire_fence E targetId token w =
     (let w1 = await E w in
      case acquireTargetDeleteFence (w_now w1) (date_now E w) (w_db w1) targetId token of
        (db, ok) \<Rightarrow> (w1\<lparr>w_store := (w_now w1, db)\<rparr>, ok))"

definition takeover_fence :: "delete_env \<Rightarrow> target_id \<Rightarrow> string \<Rightarrow> world \<Rightarrow> world \<times> bool" where
  "takeover_fence E targetId token w =
     (let w1 = await E w in
      case takeoverStaleTargetDeleteFence (w_now w1) (date_now E w) (w_db w1) targetId token of
        (db, ok) \<Rightarrow> (w1\<lparr>w_store := (w_now w1, db)\<rparr>, ok))"

text \<open>A fence that started less than its time to live ago, and not in the future, belongs to a running deletion.\<close>

definition fence_in_progress :: "int \<Rightarrow> string option \<Rightarrow> bool" where
  "fence_in_progress date v = (case v of
      None \<Rightarrow> False
    | Some text \<Rightarrow> (let age = of_int date - parseDeleteFenceStartedMs text
        in 0 \<le> age \<and> age < of_int TARGET_DELETE_FENCE_TTL_MS))"

definition handleContendedFence ::
  "delete_env \<Rightarrow> target_id \<Rightarrow> string \<Rightarrow> world \<Rightarrow> (world \<times> (delete_error + delete_outcome)) option" where
  "handleContendedFence E targetId token w =
     (if getExecutionTarget (w_control w) targetId = None
      then Some (w, Inr \<lparr>dl_outcome = ''already_deleted'', dl_target_id = targetId, dl_terminal_job_count = 0\<rparr>)
      else let w1 = await E w in
        (case getTargetDeleteFence (w_now w1) (w_db w1) targetId of
           Inl err \<Rightarrow> Some (w1, Inl (JobStoreFailure err))
         | Inr v \<Rightarrow>
            if fence_in_progress (date_now E w1) v then Some (w1, Inl (TargetDeleteInProgressError targetId))
            else (case takeover_fence E targetId token w1 of (w2, tookOver) \<Rightarrow>
              if tookOver then runFencedDelete E targetId token w2
              else (case acquire_fence E targetId token w2 of (w3, acquired) \<Rightarrow>
                if acquired then runFencedDelete E targetId token w3
                else Some (w3, Inl (TargetDeleteInProgressError targetId))))))"

definition deleteTargetInternal ::
  "delete_env \<Rightarrow> target_id \<Rightarrow> string \<Rightarrow> world \<Rightarrow> (world \<times> (delete_error + delete_outcome)) option" where
  "deleteTargetInternal E targetId token w =
     (case acquire_fence E targetId token w of (w1, acquired) \<Rightarrow>
        if acquired then runFencedDelete E targetId token w1 else handleContendedFence E targetId token w1)"

definition deleteTargetForDevice ::
  "delete_env \<Rightarrow> target_id \<Rightarrow> user_id \<Rightarrow> string \<Rightarrow> world \<Rightarrow> (world \<times> (delete_error + delete_outcome)) option" where
  "deleteTargetForDevice E targetId actorUserId token w =
     (case getExecutionTarget (w_control w) targetId of
        None \<Rightarrow> Some (w, Inl (ControlFailure ConnectorNotFoundError))
      | Some target \<Rightarrow>
         (case membership_of (w_control w) (t_workspace_id target) actorUserId of
            None \<Rightarrow> Some (w, Inl (ControlFailure ConnectorNotFoundError))
          | Some m \<Rightarrow>
             if m_role m \<noteq> ''owner'' then Some (w, Inl (ControlFailure ConnectorPermissionError))
             else deleteTargetInternal E (t_id target) token w))"

end
