(* ===== verification/Deletion_Fence.thy ===== *)
theory Deletion_Fence
  imports Target_Deletion Coordinator_Views Fence_Properties
begin

text \<open>
  What a deletion relies on: while its fence is fresh, no job of the target appears and none becomes active,
  whatever other clients do. The fence is kept fresh by bounds on the time a call takes and on the clock of
  the server, and by the touch after every batch.
\<close>

section \<open>A closed target\<close>

text \<open>How the jobs of a closed target may change: they can only end.\<close>

definition quiet :: "job \<Rightarrow> job \<Rightarrow> bool" where
  "quiet j j' \<longleftrightarrow> evolves_job j j' \<and> (j_status j = JS_queued \<longrightarrow> j_status j' \<noteq> JS_active)"

lemma quiet_refl [simp]: "quiet j j"
  by (simp add: quiet_def)

lemma quiet_trans: "quiet i j \<Longrightarrow> quiet j k \<Longrightarrow> j_status j \<noteq> JS_preparing \<Longrightarrow> quiet i k"
  unfolding quiet_def by (cases "j_status j") (auto intro: evolves_job_trans simp: evolves_job_def [of j k])

lemma evolved_fields:
  assumes "evolves_job j j'"
  shows "j_target_id j' = j_target_id j \<and> j_stream_entry_id j' = j_stream_entry_id j \<and> j_claim_deadline_ms j' = j_claim_deadline_ms j
    \<and> j_job_id j' = j_job_id j \<and> stream_row j' = stream_row j"
proof -
  have "j' = j\<lparr>j_status := j_status j', j_latest_attempt_id := j_latest_attempt_id j', j_cancel := j_cancel j'\<rparr>"
    using assms by (simp add: evolves_job_def)
  then obtain st a c where "j' = j\<lparr>j_status := st, j_latest_attempt_id := a, j_cancel := c\<rparr>" by blast
  then show ?thesis by (simp add: stream_row_def)
qed

lemmas quiet_fields = evolved_fields [OF quiet_def [THEN iffD1, THEN conjunct1]]

text \<open>The stored job of an identifier.\<close>

definition holds :: "moment \<Rightarrow> job_id \<Rightarrow> job \<Rightarrow> bool" where
  "holds m jid j \<longleftrightarrow> colon_free jid \<and> getJob (fst m) (snd m) jid = Inr (Some j)"

lemma holds_repr:
  assumes "represents (snd m) S" "machine_inv (fst m) S"
  shows "holds m jid j \<longleftrightarrow> q_jobs S jid = Some j"
  using getJob_repr [OF assms] job_inv_ids [OF machine_inv_jobD [OF assms(2)]] by (auto simp: holds_def)

lemma holds_fun: "holds m jid i \<Longrightarrow> holds m jid j \<Longrightarrow> i = j"
  by (simp add: holds_def)

lemma holds_fields: "store_ok m \<Longrightarrow> holds m jid j \<Longrightarrow> JOB_ID_V2_RE jid \<and> j_job_id j = jid \<and> j_status j \<noteq> JS_preparing"
proof -
  assume "store_ok m" "holds m jid j"
  then obtain S where S: "machine_inv (fst m) S" "q_jobs S jid = Some j" using holds_repr [of m _ jid j] by (auto simp: store_ok_def)
  have ji: "job_inv S jid j" by (rule machine_inv_jobD [OF S])
  then have "j_status j \<noteq> JS_preparing" unfolding job_inv_def by blast
  then show ?thesis using job_inv_ids [OF ji] by blast
qed

definition still :: "target_id \<Rightarrow> moment \<Rightarrow> moment \<Rightarrow> bool" where
  "still t m m' \<longleftrightarrow> (store_ok m \<longrightarrow> store_ok m' \<and> fst m \<le> fst m'
     \<and> (\<forall>jid j. holds m jid j \<longrightarrow> (\<exists>j'. holds m' jid j' \<and> evolves_job j j'))
     \<and> (\<forall>jid j'. holds m' jid j' \<longrightarrow> j_target_id j' = t \<longrightarrow> (\<exists>j. holds m jid j \<and> quiet j j')))"

lemma still_refl: "still t m m"
  unfolding still_def using quiet_refl evolves_job_refl by blast

lemma still_ok: "still t m m' \<Longrightarrow> store_ok m \<Longrightarrow> store_ok m'"
  by (simp add: still_def)

lemma still_time: "still t m m' \<Longrightarrow> store_ok m \<Longrightarrow> fst m \<le> fst m'"
  by (simp add: still_def)

lemma still_fwd: "still t m m' \<Longrightarrow> store_ok m \<Longrightarrow> holds m jid j \<Longrightarrow> \<exists>j'. holds m' jid j' \<and> evolves_job j j'"
  by (simp add: still_def)

lemma still_bwd: "still t m m' \<Longrightarrow> store_ok m \<Longrightarrow> holds m' jid j' \<Longrightarrow> j_target_id j' = t \<Longrightarrow> \<exists>j. holds m jid j \<and> quiet j j'"
  by (simp add: still_def)

lemma still_trans:
  assumes "still t m m'" "still t m' m''"
  shows "still t m m''"
  unfolding still_def
proof (intro conjI impI allI)
  assume ok: "store_ok m"
  note ok' = still_ok [OF assms(1) ok]
  show "store_ok m''" by (rule still_ok [OF assms(2) ok'])
  show "fst m \<le> fst m''" using still_time [OF assms(1) ok] still_time [OF assms(2) ok'] by simp
  show "\<exists>j''. holds m'' jid j'' \<and> evolves_job j j''" if "holds m jid j" for jid j
    using still_fwd [OF assms(1) ok that] still_fwd [OF assms(2) ok'] evolves_job_trans by metis
  fix jid j''
  assume j'': "holds m'' jid j''" "j_target_id j'' = t"
  obtain j' where j': "holds m' jid j'" "quiet j' j''" using still_bwd [OF assms(2) ok' j''] by blast
  then have "j_target_id j' = t" using j''(2) quiet_fields by metis
  then obtain j where "holds m jid j" "quiet j j'" using still_bwd [OF assms(1) ok j'(1)] by blast
  then show "\<exists>j. holds m jid j \<and> quiet j j''" using quiet_trans [OF _ j'(2)] holds_fields [OF ok' j'(1)] by blast
qed

lemma stillD: "still t m m' \<Longrightarrow> store_ok m \<Longrightarrow> holds m' jid j' \<Longrightarrow> j_target_id j' = t \<Longrightarrow> \<exists>j. holds m jid j \<and> quiet j j' \<and> j_target_id j = t"
  using still_bwd quiet_fields by metis

text \<open>No step of the abstract queue creates or activates a job of a closed target.\<close>

lemma machine_step_closed:
  assumes "machine_step F now S S'" "machine_inv now S" "F t" "q_jobs S' jid = Some j'" "j_target_id j' = t"
  shows "\<exists>j. q_jobs S jid = Some j \<and> (j_status j = JS_queued \<longrightarrow> j_status j' \<noteq> JS_active)"
  using assms
proof (induction rule: machine_step.induct)
  case (m_create job S)
  then show ?case by (auto simp: machine_create_def Let_def split: option.splits if_splits)
next
  case (m_claim aid dev bid tok S u jid' ws ro)
  then show ?case by (auto simp: machine_claim_def Let_def split: option.splits if_splits)
next
  case (m_start S jid' aid dev tok)
  then show ?case by (auto simp: machine_start_def Let_def split: option.splits if_splits)
next
  case (m_report r S jid' aid dev tok)
  then show ?case by (auto simp: machine_report_def Let_def split: option.splits if_splits)
next
  case (m_record res aid S jid' dev tok redelivery)
  then show ?case by (auto simp: machine_record_def Let_def split: option.splits if_splits)
next
  case (m_cancel dev reason receipt S jid' expected)
  then show ?case by (auto simp: machine_cancel_def Let_def split: option.splits if_splits)
qed auto

lemma job_step_time: "store_ok m \<Longrightarrow> job_step m m' \<Longrightarrow> fst m \<le> fst m'"
  using job_step_simulated by (fastforce simp: store_ok_def)

lemma closed_step_still:
  assumes "job_step m m'" "closed_targets (fst m) (snd m) t"
  shows "still t m m'"
  unfolding still_def
proof (intro conjI impI allI)
  assume ok: "store_ok m"
  then show "store_ok m'" using assms(1) by (rule store_ok_step)
  show "fst m \<le> fst m'" by (rule job_step_time [OF ok assms(1)])
  obtain S where S: "represents (snd m) S" "machine_inv (fst m) S" "short (fst m)" "0 \<le> fst m" using ok by (auto simp: store_ok_def)
  obtain S' where S': "represents (snd m') S'" "machine_inv (fst m') S'" "evolves S S'"
    "machine_step (closed_targets (fst m) (snd m)) (fst m) S S'"
    using job_step_successor [OF assms(1) S] by blast
  show "\<exists>j'. holds m' jid j' \<and> evolves_job j j'" if "holds m jid j" for jid j
    using that S'(3) holds_repr [OF S(1,2)] holds_repr [OF S'(1,2)] by (simp add: evolves_def)
  fix jid j'
  assume j': "holds m' jid j'" "j_target_id j' = t"
  have j: "q_jobs S' jid = Some j'" using j'(1) holds_repr [OF S'(1,2)] by simp
  obtain j0 where "q_jobs S jid = Some j0" "j_status j0 = JS_queued \<longrightarrow> j_status j' \<noteq> JS_active"
    using machine_step_closed [OF S'(4) S(2) assms(2) j j'(2)] by blast
  moreover from this(1) have "evolves_job j0 j'" using S'(3) j unfolding evolves_def by (metis option.inject)
  ultimately show "\<exists>j. holds m jid j \<and> quiet j j'" using holds_repr [OF S(1,2)] by (auto simp: quiet_def)
qed

section \<open>Other clients while the fence is held\<close>

abbreviation fence_entry :: "redis \<Rightarrow> target_id \<Rightarrow> string \<Rightarrow> int \<Rightarrow> int \<Rightarrow> bool" where
  "fence_entry db t token started x \<equiv> db (targetDeleteFenceKeyV1 t) = Some (RStr (Text (fence_text started token)), Some x)"

text \<open>
  Other clients use the store as they like, deletions of other targets included; the fence of this deletion
  they leave alone, as \<^verbatim>\<open>SET NX\<close>, the owner check of the touch and the age check before a takeover make them.
\<close>

definition peer_step :: "target_id \<Rightarrow> string \<Rightarrow> moment \<Rightarrow> moment \<Rightarrow> bool" where
  "peer_step t token m m' \<longleftrightarrow> job_step m m' \<and>
     (\<forall>s x. fence_entry (snd m) t token s x \<longrightarrow> fence_entry (snd m') t token s x)"

text \<open>Up to a time \<open>T\<close> the fence is fresh.\<close>

definition closed_until :: "target_id \<Rightarrow> string \<Rightarrow> int \<Rightarrow> moment \<Rightarrow> bool" where
  "closed_until t token T m \<longleftrightarrow> store_ok m \<and> fst m \<le> T \<and> (\<exists>s x. fence_entry (snd m) t token s x \<and> 0 \<le> s \<and> T < s + 60000 \<and> T \<le> x)"

lemma closed_until_closed:
  assumes "closed_until t token T m"
  shows "closed_targets (fst m) (snd m) t"
proof -
  obtain s x where f: "fence_entry (snd m) t token s x" "0 \<le> s" "T < s + 60000" "T \<le> x" and T: "fst m \<le> T"
    using assms by (auto simp: closed_until_def)
  then have "fence_held (fst m) (snd m) t s token" by (simp add: fence_held_def live_def)
  then show ?thesis using held_fresh [OF _ f(2)] f(3) T by simp
qed

definition timely_step :: "target_id \<Rightarrow> string \<Rightarrow> int \<Rightarrow> moment \<Rightarrow> moment \<Rightarrow> bool" where
  "timely_step t token T m m' \<longleftrightarrow> peer_step t token m m' \<and> fst m' \<le> T"

interpretation fenced: monotone_by "timely_step t token T" "closed_until t token T" "still t" for t token T
proof
  show "closed_until t token T m \<Longrightarrow> timely_step t token T m m' \<Longrightarrow> closed_until t token T m'" for m m'
    using store_ok_step by (fastforce simp: closed_until_def timely_step_def peer_step_def)
  show "closed_until t token T m \<Longrightarrow> timely_step t token T m m' \<Longrightarrow> still t m m'" for m m'
    using closed_step_still closed_until_closed by (auto simp: timely_step_def peer_step_def)
qed (auto intro: still_refl still_trans)

lemma peers_time: "(peer_step t token)\<^sup>*\<^sup>* m m' \<Longrightarrow> store_ok m \<Longrightarrow> store_ok m' \<and> fst m \<le> fst m'"
  by (induction rule: rtranclp_induct) (auto simp: peer_step_def intro: store_ok_step dest: job_step_time order_trans)

lemma peers_timely:
  assumes "(peer_step t token)\<^sup>*\<^sup>* m m'" "store_ok m" "fst m' \<le> T"
  shows "(timely_step t token T)\<^sup>*\<^sup>* m m'"
  using assms(1,3)
proof (induction rule: rtranclp_induct)
  case (step m1 m2)
  have "store_ok m1" using peers_time [OF step(1) assms(2)] by simp
  then have "fst m1 \<le> fst m2" using job_step_time step(2) by (simp add: peer_step_def)
  then show ?case using step by (auto simp: timely_step_def intro: rtranclp.rtrancl_into_rtrancl)
qed simp

lemma peers_fence: "(peer_step t token)\<^sup>*\<^sup>* m m' \<Longrightarrow> fence_entry (snd m) t token s x \<Longrightarrow> fence_entry (snd m') t token s x"
  by (induction rule: rtranclp_induct) (simp_all add: peer_step_def)

section \<open>Time\<close>

text \<open>
  A call takes at most 200 milliseconds, and the clock of the server is at most 4.8 seconds behind that of Redis.
  A batch has at most 258 calls between two touches: one read of the stream, two per entry and the touch.
\<close>

definition prompt :: "delete_env \<Rightarrow> target_id \<Rightarrow> string \<Rightarrow> bool" where
  "prompt E t token \<longleftrightarrow> (\<forall>n m. (peer_step t token)\<^sup>*\<^sup>* m (de_store E n m) \<and> fst (de_store E n m) \<le> fst m + 200)
     \<and> (\<forall>x. x \<le> de_clock E x + 4800) \<and> (\<forall>x \<ge> 0. 0 \<le> de_clock E x)"

text \<open>The fence was set or touched at most \<open>k\<close> calls ago.\<close>

definition guarded :: "target_id \<Rightarrow> string \<Rightarrow> nat \<Rightarrow> moment \<Rightarrow> bool" where
  "guarded t token k m \<longleftrightarrow> store_ok m \<and> (\<exists>s x. fence_entry (snd m) t token s x \<and> 0 \<le> s
     \<and> fst m \<le> s + 5000 + 200 * int k \<and> fst m + 60000 \<le> x + 200 * int k)"

lemma guarded_closed_until:
  assumes "guarded t token k m" "k \<le> 273" "fst m \<le> T" "T \<le> fst m + 200"
  shows "closed_until t token T m"
proof -
  obtain s x where f: "store_ok m" "fence_entry (snd m) t token s x" "0 \<le> s" "fst m \<le> s + 5000 + 200 * int k" "fst m + 60000 \<le> x + 200 * int k"
    using assms(1) by (auto simp: guarded_def)
  have "int k \<le> 273" using assms(2) by simp
  then have "T < s + 60000" "T \<le> x" using f(4,5) assms(4) by linarith+
  then show ?thesis using f assms(3) by (auto simp: closed_until_def)
qed

lemma guarded_mono: "guarded t token k m \<Longrightarrow> k \<le> k' \<Longrightarrow> guarded t token k' m"
  unfolding guarded_def by (fastforce simp: algebra_simps)

lemma guarded_ok: "guarded t token k m \<Longrightarrow> store_ok m"
  by (simp add: guarded_def)

lemma guarded_closed: "guarded t token k m \<Longrightarrow> k \<le> 273 \<Longrightarrow> closed_targets (fst m) (snd m) t"
  by (rule closed_until_closed [OF guarded_closed_until [of _ _ _ _ "fst m"]]) simp_all

lemma prompt_await:
  assumes "prompt E t token"
  shows "(peer_step t token)\<^sup>*\<^sup>* (w_store w) (w_store (await E w))" "w_now (await E w) \<le> w_now w + 200"
  using assms [unfolded prompt_def, THEN conjunct1, THEN spec, of "w_calls w", THEN spec, of "w_store w"] by (simp_all add: await_def)

lemma peers_guarded:
  assumes "(peer_step t token)\<^sup>*\<^sup>* m m'" "fst m' \<le> fst m + 200" "guarded t token k m" "k \<le> 273"
  shows "guarded t token (Suc k) m'" "still t m m'"
proof -
  note ok = guarded_ok [OF assms(3)] and later = peers_time [OF assms(1) guarded_ok [OF assms(3)]]
  obtain s x where f: "fence_entry (snd m) t token s x" "0 \<le> s" "fst m \<le> s + 5000 + 200 * int k" "fst m + 60000 \<le> x + 200 * int k"
    using assms(3) by (auto simp: guarded_def)
  have "fst m' \<le> s + 5000 + 200 * int (Suc k)" "fst m' + 60000 \<le> x + 200 * int (Suc k)" using f(3,4) assms(2) by simp_all
  then show "guarded t token (Suc k) m'" using peers_fence [OF assms(1) f(1)] f(2) later by (auto simp: guarded_def)
  have "(timely_step t token (fst m'))\<^sup>*\<^sup>* m m'" by (rule peers_timely [OF assms(1) ok order_refl])
  then show "still t m m'" by (rule fenced.le_star) (use guarded_closed_until [OF assms(3,4), of "fst m'"] later assms(2) in simp)
qed

lemmas await_guarded = peers_guarded [OF prompt_await]

text \<open>Acquiring, taking over and touching set the fence anew.\<close>

lemma fence_set:
  assumes "db = redis_set_px now (targetDeleteFenceKeyV1 t) (Text (fence_text s token)) TARGET_DELETE_FENCE_TTL_MS db0"
    "store_ok (now, db)" "0 \<le> s" "now \<le> s + 5000"
  shows "guarded t token 0 (now, db)"
  using assms by (auto simp: guarded_def redis_set_px_def TARGET_DELETE_FENCE_TTL_MS_def)

lemma clock_bounds:
  assumes "prompt E t token" "store_ok (w_store w)"
  shows "0 \<le> date_now E w" "w_now (await E w) \<le> date_now E w + 5000"
proof -
  have "0 \<le> w_now w" using assms(2) by (simp add: store_ok_def)
  then show "0 \<le> date_now E w" using assms(1) by (simp add: prompt_def date_now_def)
  have "w_now w \<le> date_now E w + 4800" using assms(1) by (simp add: prompt_def date_now_def)
  then show "w_now (await E w) \<le> date_now E w + 5000" using prompt_await(2) [OF assms(1), of w] by linarith
qed

lemma acquired_guarded:
  assumes "acquire_fence E t token w = (w', True)" "prompt E t token" "store_ok (w_store w)"
  shows "guarded t token 0 (w_store w')"
proof -
  let ?w = "await E w"
  have ok: "store_ok (w_now ?w, w_db ?w)" using peers_time [OF prompt_await(1) [OF assms(2)] assms(3)] by simp
  let ?db = "redis_set_px (w_now ?w) (targetDeleteFenceKeyV1 t) (Text (fence_text (date_now E w) token)) TARGET_DELETE_FENCE_TTL_MS (w_db ?w)"
  have a: "acquireTargetDeleteFence (w_now ?w) (date_now E w) (w_db ?w) t token = (?db, True)" "w_store w' = (w_now ?w, ?db)"
    using assms(1) by (auto simp: acquire_fence_def acquireTargetDeleteFence_def redis_setNxPx_def Let_def split: if_splits)
  have "store_ok (w_now ?w, ?db)" using store_ok_step [OF ok acquire [of "w_now ?w" "w_db ?w" "date_now E w" t token]] a(1) by simp
  then show ?thesis unfolding a(2) by (rule fence_set [OF refl]) (rule clock_bounds [OF assms(2,3)])+
qed

lemma took_over_guarded:
  assumes "takeover_fence E t token w = (w', True)" "prompt E t token" "store_ok (w_store w)"
  shows "guarded t token 0 (w_store w')"
proof -
  let ?w = "await E w"
  have ok: "store_ok (w_now ?w, w_db ?w)" using peers_time [OF prompt_await(1) [OF assms(2)] assms(3)] by simp
  let ?db = "redis_set_px (w_now ?w) (targetDeleteFenceKeyV1 t) (Text (fence_text (date_now E w) token)) TARGET_DELETE_FENCE_TTL_MS (w_db ?w)"
  have a: "takeoverStaleTargetDeleteFence (w_now ?w) (date_now E w) (w_db ?w) t token = (?db, True)" "w_store w' = (w_now ?w, ?db)"
    using assms(1) by (auto simp: takeover_fence_def takeoverStaleTargetDeleteFence_def redis_setXxPx_def Let_def split: if_splits)
  have "store_ok (w_now ?w, ?db)" using store_ok_step [OF ok takeover [of "w_now ?w" "w_db ?w" "date_now E w" t token]] a(1) by simp
  then show ?thesis unfolding a(2) by (rule fence_set [OF refl]) (rule clock_bounds [OF assms(2,3)])+
qed

lemma touched_guarded:
  assumes "guarded t token k m" "k \<le> 273"
  shows "\<exists>db. touchTargetDeleteFence (fst m) (snd m) t token = (db, Inr True) \<and> guarded t token 0 (fst m, db) \<and> still t m (fst m, db)"
proof -
  obtain s x where f: "fence_entry (snd m) t token s x" "0 \<le> s" using assms(1) by (auto simp: guarded_def)
  obtain T where "closed_until t token (fst m) m" using guarded_closed_until [OF assms, of "fst m"] by simp
  then have "fst m \<le> x" using f by (auto simp: closed_until_def)
  then have held: "fence_held (fst m) (snd m) t s token" using f by (simp add: fence_held_def live_def)
  have m: "short (fst m)" "0 \<le> fst m" using assms(1) by (simp_all add: guarded_def store_ok_def)
  let ?db = "redis_set_px (fst m) (targetDeleteFenceKeyV1 t) (Text (fence_text (fst m) token)) TARGET_DELETE_FENCE_TTL_MS (snd m)"
  have t: "touchTargetDeleteFence (fst m) (snd m) t token = (?db, Inr True)"
    using touch_effect [OF held f(2) m, of token] by (simp add: redis_set_px_def)
  have step: "job_step m (fst m, ?db)" using touch [of "fst m" "snd m" t token] t by simp
  have "guarded t token 0 (fst m, ?db)" by (rule fence_set [OF refl store_ok_step [OF guarded_ok [OF assms(1)] step] m(2)]) simp
  then show ?thesis using t closed_step_still [OF step guarded_closed [OF assms]] by blast
qed

end
