(* ===== verification/Deletion_Scan.thy ===== *)
theory Deletion_Scan
  imports Deletion_Fence
begin

text \<open>
  The quiescence scan of a deletion under interference: every job of the target is seen, and a scan that finds
  nothing blocking has seen all of them settled, that is ended or past their deadline without a claim.
\<close>

section \<open>Settled jobs\<close>

definition settled :: "int \<Rightarrow> job \<Rightarrow> bool" where
  "settled nowMs j \<longleftrightarrow> j_status j = JS_terminal \<or> j_status j = JS_queued \<and> expired_unclaimed nowMs j"

lemma settled_quiet: "settled nowMs j \<Longrightarrow> quiet j j' \<Longrightarrow> j_status j' \<noteq> JS_preparing \<Longrightarrow> settled nowMs j'"
proof -
  assume s: "settled nowMs j" and q: "quiet j j'" and p: "j_status j' \<noteq> JS_preparing"
  have d: "expired_unclaimed nowMs j' = expired_unclaimed nowMs j" using quiet_fields [OF q] by (simp add: expired_unclaimed_def)
  have t: "j_status j = JS_terminal \<Longrightarrow> j' = j" "j_status j = JS_queued \<Longrightarrow> j_status j' \<noteq> JS_active"
    using q by (simp_all add: quiet_def evolves_job_def)
  show ?thesis
  proof (cases "j_status j = JS_terminal")
    case True
    then show ?thesis using t(1) s by simp
  next
    case False
    then have "j_status j = JS_queued" "expired_unclaimed nowMs j" using s by (simp_all add: settled_def)
    then show ?thesis using t(2) d p by (cases "j_status j'") (simp_all add: settled_def)
  qed
qed

abbreviation blocks :: "quiescence \<Rightarrow> bool" where "blocks q \<equiv> blocked (q_evidence q)"

text \<open>The jobs of the target whose stream entry is among \<open>P\<close> are settled, or the scan is blocked.\<close>

definition covered :: "target_id \<Rightarrow> int \<Rightarrow> entry_id set \<Rightarrow> quiescence \<Rightarrow> moment \<Rightarrow> bool" where
  "covered t nowMs P q m \<longleftrightarrow> blocks q \<or> (\<forall>jid j i. holds m jid j \<longrightarrow> j_target_id j = t \<longrightarrow>
     j_stream_entry_id j = Some (show_entry_id i) \<longrightarrow> i \<in> P \<longrightarrow> settled nowMs j)"

text \<open>Every job of the target is settled, and so was what the scan has found.\<close>

definition all_settled :: "target_id \<Rightarrow> int \<Rightarrow> moment \<Rightarrow> bool" where
  "all_settled t nowMs m \<longleftrightarrow> (\<forall>jid j. holds m jid j \<longrightarrow> j_target_id j = t \<longrightarrow> settled nowMs j)"

lemma still_settled:
  assumes "still t m m'" "store_ok m" "holds m' jid j'" "j_target_id j' = t"
    and "\<And>j. holds m jid j \<Longrightarrow> j_target_id j = t \<Longrightarrow> j_stream_entry_id j' = j_stream_entry_id j \<Longrightarrow> settled nowMs j"
  shows "settled nowMs j'"
proof -
  obtain j where j: "holds m jid j" "quiet j j'" "j_target_id j = t" using stillD [OF assms(1-4)] by blast
  have "store_ok m'" using assms(1,2) by (simp add: still_def)
  then have "j_status j' \<noteq> JS_preparing" using holds_fields assms(3) by blast
  then show ?thesis using settled_quiet [OF assms(5) [OF j(1,3)] j(2)] quiet_fields [OF j(2)] by simp
qed

lemma still_covered: "still t m m' \<Longrightarrow> store_ok m \<Longrightarrow> covered t nowMs P q m \<Longrightarrow> covered t nowMs P q m'"
  unfolding covered_def using still_settled by metis

lemma still_all_settled: "still t m m' \<Longrightarrow> store_ok m \<Longrightarrow> all_settled t nowMs m \<Longrightarrow> all_settled t nowMs m'"
  unfolding all_settled_def using still_settled by metis

lemma covered_mono: "covered t nowMs P q m \<Longrightarrow> (blocks q \<Longrightarrow> blocks q') \<Longrightarrow> covered t nowMs P q' m"
  unfolding covered_def by blast

section \<open>One job\<close>

lemma scan_job_result:
  assumes "scan_job E nowMs job w q = (w', Inr q')"
  shows "w' = w \<or> w' = await E w" "blocks q \<Longrightarrow> blocks q'" "settled nowMs job \<or> blocks q'"
    and "settled nowMs job \<Longrightarrow> blocks q' = blocks q"
  using assms
  by (cases "j_status job"; auto simp: scan_job_def Let_def blocked_def settled_def ebind_eq_Inr split: if_splits)+

section \<open>One entry\<close>

text \<open>An entry with this identifier is the row of the job that names it.\<close>

definition row_of :: "target_id \<Rightarrow> moment \<Rightarrow> entry_id \<Rightarrow> (string \<times> string) list \<Rightarrow> bool" where
  "row_of t m i row \<longleftrightarrow> (\<exists>jid j. holds m jid j \<and> row = stream_row j)
     \<and> (\<forall>jid j. holds m jid j \<longrightarrow> j_target_id j = t \<longrightarrow> j_stream_entry_id j = Some (show_entry_id i) \<longrightarrow> row = stream_row j)"

lemma still_row_of:
  assumes "still t m m'" "store_ok m" "row_of t m i row"
  shows "row_of t m' i row"
  unfolding row_of_def
proof (intro conjI allI impI)
  obtain jid j where j: "holds m jid j" "row = stream_row j" using assms(3) by (auto simp: row_of_def)
  show "\<exists>jid j. holds m' jid j \<and> row = stream_row j" using still_fwd [OF assms(1,2) j(1)] evolved_fields j(2) by metis
  fix jid j'
  assume j': "holds m' jid j'" "j_target_id j' = t" "j_stream_entry_id j' = Some (show_entry_id i)"
  obtain j where "holds m jid j" "quiet j j'" "j_target_id j = t" using stillD [OF assms(1,2) j'(1,2)] by blast
  then show "row = stream_row j'" using assms(3) j'(3) quiet_fields unfolding row_of_def by metis
qed

lemma stream_row_of:
  assumes "represents (snd m) S" "machine_inv (fst m) S" "(i, row) \<in> set (q_stream S)"
  shows "row_of t m i row"
proof -
  have inv: "stream_inv S" using assms(2) by (simp add: machine_inv_def)
  have d: "x = y" if "x \<in> set (q_stream S)" "y \<in> set (q_stream S)" "fst x = fst y" for x y
    using inv that by (auto simp: stream_inv_def stream_sorted_def in_set_conv_nth sorted_wrt_iff_nth_less)
      (metis linorder_neqE_nat order.strict_iff_not)
  have "row = stream_row j" if sj: "q_jobs S jid = Some j" "j_stream_entry_id j = Some (show_entry_id i)" for jid j
  proof -
    obtain e where "e \<in> set (q_stream S)" "snd e = stream_row j" "j_stream_entry_id j = Some (show_entry_id (fst e))"
      using stream_has_job [OF inv sj(1)] by blast
    moreover from this have "fst e = i" using sj(2) by simp
    ultimately show ?thesis using d [of e "(i, row)"] assms(3) by simp
  qed
  moreover obtain jid j where "q_jobs S jid = Some j" "row = stream_row j" using stream_member [OF inv assms(3)] by auto
  ultimately show ?thesis unfolding row_of_def holds_repr [OF assms(1,2)] by blast
qed

lemma row_fields:
  "field_text (i, stream_row j) ''target_id'' = Some (j_target_id j)" "field_text (i, stream_row j) ''job_id'' = Some (j_job_id j)"
  by (simp_all add: field_text_def stream_row_def stream_fields_lookup)

text \<open>A step of the scan: the guard gets at most two calls older and the jobs of the target stay closed.\<close>

definition scanned :: "target_id \<Rightarrow> string \<Rightarrow> nat \<Rightarrow> world \<Rightarrow> world \<Rightarrow> bool" where
  "scanned t token k w w' \<longleftrightarrow> guarded t token k (w_store w') \<and> still t (w_store w) (w_store w')"

lemma scanned_refl: "guarded t token k (w_store w) \<Longrightarrow> scanned t token k w w"
  by (simp add: scanned_def still_refl)

lemma scanned_trans: "scanned t token k w w' \<Longrightarrow> scanned t token k' w' w'' \<Longrightarrow> scanned t token k' w w''"
  unfolding scanned_def using still_trans by blast

lemma scanned_mono: "scanned t token k w w' \<Longrightarrow> k \<le> k' \<Longrightarrow> scanned t token k' w w'"
  unfolding scanned_def using guarded_mono by blast

lemma await_scanned: "prompt E t token \<Longrightarrow> guarded t token k (w_store w) \<Longrightarrow> k \<le> 273 \<Longrightarrow> scanned t token (Suc k) w (await E w)"
  unfolding scanned_def using await_guarded by blast

lemma scan_entry_scanned:
  assumes "scan_entry E t nowMs item w q = (w', r)" "prompt E t token" "guarded t token k (w_store w)" "k \<le> 272"
  shows "scanned t token (k + 2) w w'"
proof -
  have 0: "scanned t token (k + 2) w w" by (rule scanned_refl [OF guarded_mono [OF assms(3)]]) simp
  have 1: "scanned t token (Suc k) w (await E w)" by (rule await_scanned [OF assms(2,3)]) (use assms(4) in simp)
  then have g: "guarded t token (Suc k) (w_store (await E w))" by (simp add: scanned_def)
  have 2: "scanned t token (k + 2) w (await E (await E w))"
    using scanned_trans [OF 1 await_scanned [OF assms(2) g]] assms(4) by simp
  have "w' = w \<or> w' = await E w \<or> w' = await E (await E w)"
    using assms(1) by (auto simp: scan_entry_def scan_job_def Let_def split: if_splits option.splits sum.splits job_status.splits)
  then show ?thesis using 0 2 scanned_mono [OF 1, of "k + 2"] by auto
qed

lemma scan_entry_covers:
  assumes "scan_entry E t nowMs (x, row) w q = (w', Inr q')" "prompt E t token" "guarded t token k (w_store w)" "k \<le> 272"
    and row: "row_of t (w_store w) i row" and cov: "covered t nowMs P q (w_store w)"
  shows "covered t nowMs (insert i P) q' (w_store w') \<and> (blocks q \<longrightarrow> blocks q')"
proof -
  have sc: "scanned t token (k + 2) w w'" by (rule scan_entry_scanned [OF assms(1-4)])
  have ok: "store_ok (w_store w)" by (rule guarded_ok [OF assms(3)])
  have cov': "covered t nowMs P q (w_store w')" using still_covered [OF _ ok cov] sc by (simp add: scanned_def)
  have mono: "blocks q \<longrightarrow> blocks q'"
    using assms(1) scan_job_result(2) by (auto simp: scan_entry_def Let_def split: if_splits option.splits sum.splits)
  have new: "settled nowMs j'" if j': "holds (w_store w') jid j'" "j_target_id j' = t" "j_stream_entry_id j' = Some (show_entry_id i)"
      and nb: "\<not> blocks q'" for jid j'
  proof -
    obtain j where j: "holds (w_store w) jid j" "quiet j j'" "j_target_id j = t"
      using stillD [OF _ ok j'(1,2)] sc by (auto simp: scanned_def)
    then have r: "row = stream_row j" using row j'(3) quiet_fields [OF j(2)] by (auto simp: row_of_def)
    have id: "j_job_id j = jid" "jid \<noteq> []"
      using holds_fields [OF ok j(1)] by (auto simp: JOB_ID_V2_RE_def after_prefix_def strip_prefix_def)
    have one: "scanned t token (Suc k) w (await E w)" by (rule await_scanned [OF assms(2,3)]) (use assms(4) in simp)
    then have ok1: "store_ok (w_store (await E w))" by (auto simp: scanned_def intro: guarded_ok)
    have two: "still t (w_store (await E w)) (w_store (await E (await E w)))"
      using await_scanned [OF assms(2), of "Suc k" "await E w"] one assms(4) by (simp add: scanned_def)
    let ?g = "getJob (w_now (await E w)) (w_db (await E w)) jid"
    have e: "scan_entry E t nowMs (x, row) w q = (case ?g of Inl err \<Rightarrow> (await E w, Inl err)
        | Inr None \<Rightarrow> (await E w, Inr q) | Inr (Some job) \<Rightarrow> scan_job E nowMs job (await E w) q)"
      using id j(3) by (simp add: scan_entry_def r row_fields Let_def)
    have cf: "colon_free jid" using j(1) by (simp add: holds_def)
    show ?thesis
    proof (cases ?g)
      case (Inr y)
      show ?thesis
      proof (cases y)
        case None
        then have "w' = await E w" using assms(1) e Inr by simp
        then show ?thesis using j'(1) Inr None by (simp add: holds_def)
      next
        case (Some job)
        then have s: "scan_job E nowMs job (await E w) q = (w', Inr q')" using assms(1) e Inr by simp
        have h: "holds (w_store (await E w)) jid job" using Inr Some cf by (simp add: holds_def)
        have st: "still t (w_store (await E w)) (w_store w')" using scan_job_result(1) [OF s] two still_refl by metis
        have "settled nowMs job" using scan_job_result(3) [OF s] nb by blast
        then show ?thesis using still_settled [OF st ok1 j'(1,2)] holds_fun [OF h] by blast
      qed
    qed (use assms(1) e in simp)
  qed
  have "covered t nowMs (insert i P) q' (w_store w')"
    using cov' new mono unfolding covered_def by (metis insert_iff)
  then show ?thesis using mono by blast
qed

text \<open>When every job of the target is settled, no entry blocks the scan.\<close>

lemma scan_entry_settled:
  assumes "scan_entry E t nowMs (x, row) w q = (w', Inr q')" "prompt E t token" "guarded t token k (w_store w)" "k \<le> 272"
    and row: "row_of t (w_store w) i row" and all: "all_settled t nowMs (w_store w)"
  shows "blocks q' = blocks q"
proof -
  have ok: "store_ok (w_store w)" by (rule guarded_ok [OF assms(3)])
  obtain jid j where j: "holds (w_store w) jid j" "row = stream_row j" using row by (auto simp: row_of_def)
  show ?thesis
  proof (cases "j_target_id j = t")
    case False
    then show ?thesis using assms(1) by (simp add: scan_entry_def j(2) row_fields)
  next
    case True
    let ?w = "await E w"
    have id: "j_job_id j = jid" using holds_fields [OF ok j(1)] by blast
    have one: "scanned t token (Suc k) w ?w" by (rule await_scanned [OF assms(2,3)]) (use assms(4) in simp)
    have all': "all_settled t nowMs (w_store ?w)" using still_all_settled [OF _ ok all] one by (simp add: scanned_def)
    have "q' = q \<or> (\<exists>job. getJob (w_now ?w) (w_db ?w) jid = Inr (Some job) \<and> scan_job E nowMs job ?w q = (w', Inr q'))"
      using assms(1) id True by (auto simp: scan_entry_def j(2) row_fields Let_def split: if_splits sum.splits option.splits)
    then show ?thesis
    proof
      assume "\<exists>job. getJob (w_now ?w) (w_db ?w) jid = Inr (Some job) \<and> scan_job E nowMs job ?w q = (w', Inr q')"
      then obtain job where g: "getJob (w_now ?w) (w_db ?w) jid = Inr (Some job)" "scan_job E nowMs job ?w q = (w', Inr q')" by blast
      have h: "holds (w_store ?w) jid job" using g(1) j(1) by (simp add: holds_def)
      have ok1: "store_ok (w_store ?w)" using one by (auto simp: scanned_def intro: guarded_ok)
      obtain j1 where "holds (w_store ?w) jid j1" "evolves_job j j1"
        using still_fwd [OF _ ok j(1), of t "w_store ?w"] one by (auto simp: scanned_def)
      then have "j_target_id job = t" using holds_fun [OF h] evolved_fields True by metis
      then show ?thesis using scan_job_result(4) [OF g(2)] all' h unfolding all_settled_def by blast
    qed simp
  qed
qed

section \<open>A batch\<close>

abbreviation shown_entries :: "stream \<Rightarrow> stream_item list" where
  "shown_entries es \<equiv> map (\<lambda>e. (show_entry_id (fst e), snd e)) es"

lemma scan_entries_scanned:
  assumes "scan_entries E t nowMs items w q = (w', r)" "prompt E t token" "guarded t token k (w_store w)" "k + 2 * length items \<le> 274"
  shows "scanned t token (k + 2 * length items) w w'"
  using assms
proof (induction items arbitrary: k w q)
  case Nil
  then show ?case by (simp add: scanned_refl)
next
  case (Cons i items)
  obtain w1 r1 where e: "scan_entry E t nowMs i w q = (w1, r1)" by (cases "scan_entry E t nowMs i w q")
  have s: "scanned t token (k + 2) w w1" by (rule scan_entry_scanned [OF e Cons.prems(2,3)]) (use Cons.prems(4) in simp)
  show ?case
  proof (cases r1)
    case (Inl err)
    then show ?thesis using Cons.prems(1) e scanned_mono [OF s] by simp
  next
    case (Inr q1)
    have "scanned t token (k + 2 + 2 * length items) w1 w'"
      by (rule Cons.IH [of w1 q1 "k + 2"]) (use Cons.prems e Inr s in \<open>simp_all add: scanned_def\<close>)
    then show ?thesis using scanned_trans [OF s] by (simp add: algebra_simps)
  qed
qed

lemma scan_entries_covers:
  assumes "scan_entries E t nowMs (shown_entries es) w q = (w', Inr q')" "prompt E t token" "guarded t token k (w_store w)"
    "k + 2 * length es \<le> 274" "\<forall>e \<in> set es. row_of t (w_store w) (fst e) (snd e)" "covered t nowMs P q (w_store w)"
  shows "covered t nowMs (P \<union> fst ` set es) q' (w_store w') \<and> (all_settled t nowMs (w_store w) \<longrightarrow> blocks q' = blocks q)"
  using assms
proof (induction es arbitrary: k w q P)
  case Nil
  then show ?case by simp
next
  case (Cons e es)
  obtain w1 r1 where e: "scan_entry E t nowMs (show_entry_id (fst e), snd e) w q = (w1, r1)"
    by (cases "scan_entry E t nowMs (show_entry_id (fst e), snd e) w q")
  obtain q1 where q1: "r1 = Inr q1" "scan_entries E t nowMs (shown_entries es) w1 q1 = (w', Inr q')"
    using Cons.prems(1) e by (cases r1) simp_all
  note e1 = e [unfolded q1(1)]
  have k: "k \<le> 272" using Cons.prems(4) by simp
  have row: "row_of t (w_store w) (fst e) (snd e)" using Cons.prems(5) by simp
  note ok = guarded_ok [OF Cons.prems(3)]
  have s: "scanned t token (k + 2) w w1" by (rule scan_entry_scanned [OF e Cons.prems(2,3) k])
  then have st: "still t (w_store w) (w_store w1)" by (simp add: scanned_def)
  have c: "covered t nowMs (insert (fst e) P) q1 (w_store w1)"
    using scan_entry_covers [OF e1 Cons.prems(2,3) k row Cons.prems(6)] by blast
  have rows: "\<forall>e \<in> set es. row_of t (w_store w1) (fst e) (snd e)" using Cons.prems(5) still_row_of [OF st ok] by simp
  have "covered t nowMs (insert (fst e) P \<union> fst ` set es) q' (w_store w') \<and> (all_settled t nowMs (w_store w1) \<longrightarrow> blocks q' = blocks q1)"
    by (rule Cons.IH [OF q1(2) Cons.prems(2) _ _ rows c, of "k + 2"]) (use s Cons.prems(4) in \<open>simp_all add: scanned_def\<close>)
  moreover have "all_settled t nowMs (w_store w) \<Longrightarrow> blocks q1 = blocks q \<and> all_settled t nowMs (w_store w1)"
    using scan_entry_settled [OF e1 Cons.prems(2,3) k row] still_all_settled [OF st ok] by blast
  ultimately show ?case by auto
qed

section \<open>The loop over the stream\<close>

definition cursor_at :: "string option \<Rightarrow> entry_id \<Rightarrow> bool" where
  "cursor_at cursor c \<longleftrightarrow> parse_entry_id (case cursor of None \<Rightarrow> ''0-0'' | Some a \<Rightarrow> a) = Some c"

lemma cursor_start: "cursor_at None (0, 0)"
  unfolding cursor_at_def by code_simp

lemma cursor_entry: "cursor_at (Some (show_entry_id i)) i"
  by (simp add: cursor_at_def)

lemma scanned_batch:
  assumes "store_ok m" "cursor_at cursor c" "scanJobStream (fst m) (snd m) cursor n = Inr batch"
  shows "\<exists>s. batch = shown_entries (take n (filter (\<lambda>e. c < fst e) s)) \<and> stream_sorted s
    \<and> (\<forall>e \<in> set s. row_of t m (fst e) (snd e)) \<and> (\<forall>jid j. holds m jid j \<longrightarrow> (\<exists>i \<in> fst ` set s. j_stream_entry_id j = Some (show_entry_id i)))"
proof -
  obtain S where S: "represents (snd m) S" "machine_inv (fst m) S" "stream_at (fst m) (snd m) KEY_STREAM_V2 = Inr (q_stream S)"
    "stream_sorted (q_stream S)"
    using store_stream [OF assms(1)] by blast
  have inv: "stream_inv S" using S(2) by (simp add: machine_inv_def)
  have "batch = shown_entries (take n (filter (\<lambda>e. c < fst e) (q_stream S)))"
    using assms(2,3) S(3) by (simp add: scanJobStream_def cursor_at_def)
  moreover have "\<forall>e \<in> set (q_stream S). row_of t m (fst e) (snd e)" using stream_row_of [OF S(1,2)] by simp
  moreover have "\<exists>i \<in> fst ` set (q_stream S). j_stream_entry_id j = Some (show_entry_id i)" if "holds m jid j" for jid j
    using that stream_has_job [OF inv] holds_repr [OF S(1,2)] by blast
  ultimately show ?thesis using S(4) by blast
qed

lemma sorted_taken:
  assumes "stream_sorted s" "e \<in> set (filter (\<lambda>e. c < fst e) s)" "fst e \<le> fst (last (take n (filter (\<lambda>e. c < fst e) s)))"
    "take n (filter (\<lambda>e. c < fst e) s) \<noteq> []"
  shows "e \<in> set (take n (filter (\<lambda>e. c < fst e) s))"
proof (rule ccontr)
  let ?f = "filter (\<lambda>e. c < fst e) s"
  assume "e \<notin> set (take n ?f)"
  then have d: "e \<in> set (drop n ?f)" using assms(2) by (metis Un_iff append_take_drop_id set_append)
  have "sorted_wrt (\<lambda>x y. fst x < fst y) (take n ?f @ drop n ?f)"
    using assms(1) sorted_wrt_filter by (simp add: stream_sorted_def sorted_wrt_map)
  then have "fst (last (take n ?f)) < fst e" using d assms(4) by (simp only: sorted_wrt_append) auto
  then show False using assms(3) by simp
qed

text \<open>
  What a finished scan has established: every job of the target is settled unless the scan is blocked; and it is not
  blocked when all were settled before.
\<close>

definition scan_result :: "target_id \<Rightarrow> string \<Rightarrow> int \<Rightarrow> world \<Rightarrow> quiescence \<Rightarrow> world \<Rightarrow> quiescence \<Rightarrow> bool" where
  "scan_result t token nowMs w q w' q' \<longleftrightarrow> scanned t token 1 w w' \<and> covered t nowMs UNIV q' (w_store w')
     \<and> (all_settled t nowMs (w_store w) \<longrightarrow> blocks q' = blocks q)"

definition scan_meets :: "delete_env \<Rightarrow> target_id \<Rightarrow> string \<Rightarrow> int \<Rightarrow> string option \<Rightarrow> world \<Rightarrow> quiescence \<Rightarrow> world \<times> (store_error + quiescence) \<Rightarrow> bool" where
  "scan_meets E t token nowMs cursor w q r \<longleftrightarrow> (prompt E t token \<longrightarrow> guarded t token 0 (w_store w) \<longrightarrow>
     (\<forall>c q'. cursor_at cursor c \<longrightarrow> covered t nowMs {i. i \<le> c} q (w_store w) \<longrightarrow> snd r = Inr q'
        \<longrightarrow> scan_result t token nowMs w q (fst r) q'))"

text \<open>One round: read a batch, look at its entries and touch the fence.\<close>

lemma scan_round:
  assumes E: "prompt E t token" and g: "guarded t token 0 (w_store w)" and c: "cursor_at cursor c" "covered t nowMs {i. i \<le> c} q (w_store w)"
    and batch: "scanJobStream (w_now (await E w)) (w_db (await E w)) cursor TARGET_DELETE_STREAM_SCAN_BATCH = Inr batch" "batch \<noteq> []"
    and items: "scan_entries E t nowMs batch (await E w) q = (w2, Inr q2)"
    and w3: "w3 = await E w2" "w4 = w3\<lparr>w_store := (w_now w3, fst (touchTargetDeleteFence (w_now w3) (w_db w3) t token))\<rparr>"
  shows "(\<exists>c'. cursor_at (Some (fst (last batch))) c' \<and> covered t nowMs {i. i \<le> c'} q2 (w_store w4)) \<and> scanned t token 0 w w4
    \<and> (length batch < TARGET_DELETE_STREAM_SCAN_BATCH \<longrightarrow> covered t nowMs UNIV q2 (w_store w4))
    \<and> (all_settled t nowMs (w_store w) \<longrightarrow> blocks q2 = blocks q)"
proof -
  let ?w = "await E w"
  have one: "scanned t token 1 w ?w" using await_scanned [OF E g] by simp
  then have g1: "guarded t token 1 (w_store ?w)" and st1: "still t (w_store w) (w_store ?w)" by (simp_all add: scanned_def)
  obtain s where s: "batch = shown_entries (take 128 (filter (\<lambda>e. c < fst e) s))" "stream_sorted s"
    "\<forall>e \<in> set s. row_of t (w_store ?w) (fst e) (snd e)"
    "\<forall>jid j. holds (w_store ?w) jid j \<longrightarrow> (\<exists>i \<in> fst ` set s. j_stream_entry_id j = Some (show_entry_id i))"
    using scanned_batch [OF guarded_ok [OF g1] c(1) batch(1), of t] by (auto simp: TARGET_DELETE_STREAM_SCAN_BATCH_def)
  let ?es = "take 128 (filter (\<lambda>e. c < fst e) s)"
  have rows: "\<forall>e \<in> set ?es. row_of t (w_store ?w) (fst e) (snd e)" using s(3) by (meson filter_is_subset in_set_takeD subsetD)
  have len: "1 + 2 * length ?es \<le> 274" "length batch = length ?es" using s(1) by simp_all
  have c1: "covered t nowMs {i. i \<le> c} q (w_store ?w)" by (rule still_covered [OF st1 guarded_ok [OF g] c(2)])
  have two: "scanned t token (1 + 2 * length ?es) ?w w2"
    using scan_entries_scanned [OF items E g1] len by simp
  have c2: "covered t nowMs ({i. i \<le> c} \<union> fst ` set ?es) q2 (w_store w2)" "all_settled t nowMs (w_store ?w) \<longrightarrow> blocks q2 = blocks q"
    using scan_entries_covers [OF items [unfolded s(1)] E g1 len(1) rows c1] by blast+
  have k: "length ?es \<le> 128" by simp
  have three: "scanned t token (2 + 2 * length ?es) w2 w3"
    using await_scanned [OF E, of "1 + 2 * length ?es" w2] two k unfolding w3 by (simp add: scanned_def)
  have "2 + 2 * length ?es \<le> 273" using k by linarith
  then have "\<exists>db. touchTargetDeleteFence (w_now w3) (w_db w3) t token = (db, Inr True) \<and> guarded t token 0 (w_now w3, db)
      \<and> still t (w_store w3) (w_now w3, db)"
    using touched_guarded three unfolding scanned_def by blast
  then have four: "guarded t token 0 (w_store w4)" "still t (w_store w3) (w_store w4)" unfolding w3(2) by auto
  have st: "still t (w_store w2) (w_store w4)" "still t (w_store ?w) (w_store w4)"
    using two three four(2) still_trans unfolding scanned_def by blast+
  have c4: "covered t nowMs ({i. i \<le> c} \<union> fst ` set ?es) q2 (w_store w4)"
    by (rule still_covered [OF st(1) _ c2(1)]) (use two in \<open>auto simp: scanned_def intro: guarded_ok\<close>)
  have seen: "\<exists>i \<in> fst ` set s. j_stream_entry_id j = Some (show_entry_id i)" if j: "holds (w_store w4) jid j" "j_target_id j = t" for jid j
  proof -
    obtain j1 where j1: "holds (w_store ?w) jid j1" "quiet j1 j" using stillD [OF st(2) guarded_ok [OF g1] j] by blast
    then show ?thesis using s(4) [rule_format, OF j1(1)] quiet_fields [OF j1(2)] by simp
  qed
  let ?c = "fst (last ?es)"
  have ne: "?es \<noteq> []" using batch(2) s(1) by auto
  have "covered t nowMs {i. i \<le> ?c} q2 (w_store w4)"
  proof -
    have "i \<in> {i. i \<le> c} \<union> fst ` set ?es" if i: "i \<le> ?c" "i \<in> fst ` set s" for i
    proof (cases "i \<le> c")
      case False
      obtain e where "e \<in> set s" "fst e = i" using i(2) by blast
      then have "e \<in> set (filter (\<lambda>e. c < fst e) s)" "fst e = i" using False by (simp_all add: not_le)
      then show ?thesis using sorted_taken [OF s(2) _ _ ne, of e] i(1) by blast
    qed simp
    then show ?thesis using c4 seen unfolding covered_def by (metis mem_Collect_eq option.inject show_entry_id_inject)
  qed
  moreover have "cursor_at (Some (fst (last batch))) ?c" using ne s(1) by (simp add: last_map cursor_entry)
  moreover have "covered t nowMs UNIV q2 (w_store w4)" if short: "length batch < TARGET_DELETE_STREAM_SCAN_BATCH"
  proof -
    have "?es = filter (\<lambda>e. c < fst e) s" using short len(2) by (simp add: TARGET_DELETE_STREAM_SCAN_BATCH_def min_def split: if_splits)
    then have "i \<in> {i. i \<le> c} \<union> fst ` set ?es" if "i \<in> fst ` set s" for i using that by (auto simp: not_le)
    then show ?thesis using c4 seen unfolding covered_def by (metis option.inject show_entry_id_inject)
  qed
  moreover have "scanned t token 0 w w4" using four(1) still_trans [OF st1 st(2)] by (simp add: scanned_def)
  moreover have "all_settled t nowMs (w_store w) \<longrightarrow> blocks q2 = blocks q"
    using c2(2) still_all_settled [OF st1 guarded_ok [OF g]] by blast
  ultimately show ?thesis by blast
qed

lemma scan_end:
  assumes E: "prompt E t token" and g: "guarded t token 0 (w_store w)" and c: "cursor_at cursor c" "covered t nowMs {i. i \<le> c} q (w_store w)"
    and batch: "scanJobStream (w_now (await E w)) (w_db (await E w)) cursor TARGET_DELETE_STREAM_SCAN_BATCH = Inr []"
  shows "scan_result t token nowMs w q (await E w) q"
proof -
  let ?w = "await E w"
  have one: "scanned t token 1 w ?w" using await_scanned [OF E g] by simp
  then have g1: "guarded t token 1 (w_store ?w)" and st1: "still t (w_store w) (w_store ?w)" by (simp_all add: scanned_def)
  obtain s where s: "[] = shown_entries (take 128 (filter (\<lambda>e. c < fst e) s))"
    "\<forall>jid j. holds (w_store ?w) jid j \<longrightarrow> (\<exists>i \<in> fst ` set s. j_stream_entry_id j = Some (show_entry_id i))"
    using scanned_batch [OF guarded_ok [OF g1] c(1) batch, of t] by (auto simp: TARGET_DELETE_STREAM_SCAN_BATCH_def)
  have "filter (\<lambda>e. c < fst e) s = []" using s(1) by auto
  then have "i \<le> c" if "i \<in> fst ` set s" for i using that by (auto simp: filter_empty_conv not_less)
  moreover have "covered t nowMs {i. i \<le> c} q (w_store ?w)" by (rule still_covered [OF st1 guarded_ok [OF g] c(2)])
  ultimately have "covered t nowMs UNIV q (w_store ?w)" using s(2) unfolding covered_def by (metis mem_Collect_eq option.inject show_entry_id_inject)
  then show ?thesis using one by (simp add: scan_result_def)
qed

lemma scan_result_step:
  assumes "scanned t token 0 w w4" "all_settled t nowMs (w_store w) \<longrightarrow> blocks q2 = blocks q" "store_ok (w_store w)"
    "scan_result t token nowMs w4 q2 w' q'"
  shows "scan_result t token nowMs w q w' q'"
  using assms scanned_trans [of t token 0 w w4 1 w'] still_all_settled [of t "w_store w" "w_store w4" nowMs]
  by (auto simp: scan_result_def scanned_def)

lemma scan_stream_meets: "scan_stream E t token nowMs cursor w q = Some r \<Longrightarrow> scan_meets E t token nowMs cursor w q r"
proof (rule scan_stream.raw_induct [where P = scan_meets], goal_cases)
  case (1 rec E t token nowMs cursor w q r)
  note IH = 1(2) and body = 1(3)
  show ?case
    unfolding scan_meets_def
  proof (intro impI allI)
    fix c q'
    assume E: "prompt E t token" and g: "guarded t token 0 (w_store w)"
      and c: "cursor_at cursor c" "covered t nowMs {i. i \<le> c} q (w_store w)" and r: "snd r = Inr q'"
    let ?w = "await E w"
    show "scan_result t token nowMs w q (fst r) q'"
    proof (cases "scanJobStream (w_now ?w) (w_db ?w) cursor TARGET_DELETE_STREAM_SCAN_BATCH")
      case (Inr batch)
      show ?thesis
      proof (cases "batch = []")
        case True
        then show ?thesis using scan_end [OF E g c] Inr body r by (auto simp: Let_def)
      next
        case False
        obtain w2 r2 where items: "scan_entries E t nowMs batch ?w q = (w2, r2)" by (cases "scan_entries E t nowMs batch ?w q")
        have "\<exists>q2. r2 = Inr q2" using body Inr False r by (cases r2) (auto simp: Let_def items)
        then obtain q2 where q2: "r2 = Inr q2" by blast
        let ?w3 = "await E w2"
        obtain db touched where t: "touchTargetDeleteFence (w_now ?w3) (w_db ?w3) t token = (db, touched)"
          by (cases "touchTargetDeleteFence (w_now ?w3) (w_db ?w3) t token")
        let ?w4 = "?w3\<lparr>w_store := (w_now ?w3, db)\<rparr>"
        note round = scan_round [OF E g c Inr False items [unfolded q2] refl refl, unfolded t fst_conv]
        have body': "(case touched of Inl err \<Rightarrow> Some (?w4, Inl err)
            | Inr x \<Rightarrow> if length batch < TARGET_DELETE_STREAM_SCAN_BATCH then Some (?w4, Inr q2)
                else rec E t token nowMs (Some (fst (last batch))) ?w4 q2) = Some r"
          using body Inr False items q2 t by (simp add: Let_def)
        show ?thesis
        proof (cases "length batch < TARGET_DELETE_STREAM_SCAN_BATCH")
          case True
          then have "r = (?w4, Inr q2)" using body' r by (auto split: sum.splits)
          then show ?thesis using round True r scanned_mono [of t token 0 w ?w4 1] by (auto simp: scan_result_def)
        next
          case long: False
          then have "rec E t token nowMs (Some (fst (last batch))) ?w4 q2 = Some r" using body' r by (auto split: sum.splits)
          then have "scan_meets E t token nowMs (Some (fst (last batch))) ?w4 q2 r" by (rule IH)
          then have "scan_result t token nowMs ?w4 q2 (fst r) q'"
            using round E r unfolding scan_meets_def scanned_def by blast
          then show ?thesis using scan_result_step round guarded_ok [OF g] by blast
        qed
      qed
    qed (use body r in \<open>auto simp: Let_def\<close>)
  qed
qed

lemma scanned_entry:
  assumes "store_ok m" "holds m jid j"
  shows "\<exists>i. (0, 0) < i \<and> j_stream_entry_id j = Some (show_entry_id i)"
proof -
  obtain S where S: "represents (snd m) S" "machine_inv (fst m) S" using assms by (auto simp: store_ok_def)
  have inv: "stream_inv S" using S(2) by (simp add: machine_inv_def)
  obtain e where "e \<in> set (q_stream S)" "j_stream_entry_id j = Some (show_entry_id (fst e))"
    using stream_has_job [OF inv] assms(2) holds_repr [OF S] by blast
  moreover have "\<forall>e \<in> set (q_stream S). (0, 0) < fst e" using inv unfolding stream_inv_def by blast
  ultimately show ?thesis by blast
qed

lemma scan_start: "store_ok m \<Longrightarrow> covered t nowMs {i. i \<le> (0, 0)} q m"
  unfolding covered_def by (metis leD mem_Collect_eq option.inject scanned_entry show_entry_id_inject)

text \<open>The whole verification, with the pruning of expired queue entries.\<close>

lemma verified:
  assumes "verifyTargetQuiescence E t token w = Some (w', Inr q)" "prompt E t token" "guarded t token 0 (w_store w)"
  shows "scanned t token 2 w w' \<and> (blocks q \<or> all_settled t (date_now E w) (w_store w'))
    \<and> (all_settled t (date_now E w) (w_store w) \<longrightarrow> \<not> blocks q)"
proof -
  obtain w1 where s: "scan_stream E t token (date_now E w) None w nothing_found = Some (w1, Inr q)"
    and w': "w' = (if q_expired q = [] then w1 else (await E w1)\<lparr>w_store := (w_now (await E w1),
        fst (pruneTargetQueue (w_now (await E w1)) (w_db (await E w1)) t (q_expired q)))\<rparr>)"
    using assms(1) by (auto simp: verifyTargetQuiescence_def Let_def split: option.splits sum.splits if_splits)
  have "scan_result t token (date_now E w) w nothing_found w1 q"
    using scan_stream_meets [OF s] assms(2,3) cursor_start scan_start [OF guarded_ok [OF assms(3)]]
    by (auto simp: scan_meets_def)
  then have r: "scanned t token 1 w w1" "covered t (date_now E w) UNIV q (w_store w1)"
    "all_settled t (date_now E w) (w_store w) \<longrightarrow> \<not> blocks q"
    by (simp_all add: scan_result_def nothing_found_def blocked_def)
  then have g1: "guarded t token 1 (w_store w1)" by (simp add: scanned_def)
  let ?w2 = "await E w1"
  have two: "scanned t token 2 w1 ?w2" using await_scanned [OF assms(2) g1] by (simp add: numeral_2_eq_2)
  have p: "guarded t token 2 (w_now ?w2, fst (pruneTargetQueue (w_now ?w2) (w_db ?w2) t (q_expired q)))
    \<and> still t (w_store ?w2) (w_now ?w2, fst (pruneTargetQueue (w_now ?w2) (w_db ?w2) t (q_expired q)))"
  proof -
    let ?db = "fst (pruneTargetQueue (w_now ?w2) (w_db ?w2) t (q_expired q))"
    have g2: "guarded t token 2 (w_store ?w2)" using two by (simp add: scanned_def)
    have step: "job_step (w_store ?w2) (w_now ?w2, ?db)" using prune [of "w_now ?w2" "w_db ?w2" t "q_expired q"] by simp
    have "still t (w_store ?w2) (w_now ?w2, ?db)" by (rule closed_step_still [OF step guarded_closed [OF g2]]) simp
    moreover have "?db (targetDeleteFenceKeyV1 t) = w_db ?w2 (targetDeleteFenceKeyV1 t)" using keeps_outsideD [OF prune_frame] by simp
    ultimately show ?thesis using g2 still_ok guarded_ok [OF g2] by (auto simp: guarded_def)
  qed
  have "scanned t token 2 w1 w'"
  proof (cases "q_expired q = []")
    case True
    then show ?thesis using scanned_mono [OF scanned_refl [OF g1], of 2] w' by simp
  next
    case False
    then show ?thesis using two p still_trans [of t "w_store w1" "w_store ?w2" "w_store w'"] w' by (simp add: scanned_def)
  qed
  then have "scanned t token 2 w w'" "covered t (date_now E w) UNIV q (w_store w')"
    using scanned_trans [OF r(1)] still_covered [OF _ guarded_ok [OF g1] r(2)] by (auto simp: scanned_def)
  moreover have "covered t (date_now E w) UNIV q (w_store w') \<Longrightarrow> store_ok (w_store w') \<Longrightarrow> blocks q \<or> all_settled t (date_now E w) (w_store w')"
    unfolding covered_def all_settled_def using scanned_entry by (metis UNIV_I)
  moreover have "store_ok (w_store w')" using calculation(1) guarded_ok unfolding scanned_def by blast
  ultimately show ?thesis using r(3) by blast
qed

end
