(* ===== verification/Deletion_Properties.thy ===== *)
theory Deletion_Properties
  imports Deletion_Scan
begin

text \<open>
  What a project deletion guarantees: under interference, a deletion that reports success has left no job of the
  target that could still run; undisturbed, it ends, releases its fence and deletes exactly when nothing blocks it.
\<close>

section \<open>Releasing the fence\<close>

lemma release_still:
  assumes E: "prompt E t token" and g: "guarded t token 2 (w_store w)"
  shows "still t (w_store w) (w_store (release_fence E t token w))"
proof -
  let ?w = "await E w" and ?e = "de_store E (w_calls (await E w)) (w_store (await E w))"
  have one: "guarded t token 3 (w_store ?w)" "still t (w_store w) (w_store ?w)"
    using await_guarded [OF E E g] by (simp_all add: numeral_3_eq_3)
  have r: "(peer_step t token)\<^sup>*\<^sup>* (w_store ?w) ?e" "fst ?e \<le> w_now ?w + 200"
    using E [unfolded prompt_def, THEN conjunct1, THEN spec, of "w_calls ?w", THEN spec, of "w_store ?w"] by simp_all
  have two: "guarded t token (Suc 3) ?e" "still t (w_store ?w) ?e" using peers_guarded [OF r one(1)] by simp_all
  have step: "job_step ?e (fst ?e, fst (redis_del (fst ?e) (targetDeleteFenceKeyV1 t) (snd ?e)))"
    using delete_fence [of "fst ?e" "snd ?e" t] by simp
  have three: "still t ?e (fst ?e, fst (redis_del (fst ?e) (targetDeleteFenceKeyV1 t) (snd ?e)))"
    by (rule closed_step_still [OF step guarded_closed [OF two(1)]]) simp
  have "fst (releaseTargetDeleteFence (de_store E (w_calls ?w)) (w_store ?w) t token) \<in>
      {w_store ?w, (fst ?e, fst (redis_del (fst ?e) (targetDeleteFenceKeyV1 t) (snd ?e)))}"
    by (auto simp: releaseTargetDeleteFence_def case_prod_beta split: sum.split option.split)
  then have "still t (w_store ?w) (fst (releaseTargetDeleteFence (de_store E (w_calls ?w)) (w_store ?w) t token))"
    using still_trans [OF two(2) three] still_refl [of t "w_store ?w"] by (metis insertE singletonD)
  then show ?thesis using still_trans [OF one(2)] by (simp add: release_fence_def Let_def)
qed

section \<open>A successful deletion\<close>

text \<open>Target identifiers are never used again.\<close>

definition targets_stay_gone :: "delete_env \<Rightarrow> target_id \<Rightarrow> bool" where
  "targets_stay_gone E t \<longleftrightarrow> (\<forall>n c. getExecutionTarget c t = None \<longrightarrow> getExecutionTarget (de_control E n c) t = None)"

lemma row_deleted: "getExecutionTarget (fst (deleteExecutionTargetRow t c)) t = None"
  by (simp add: deleteExecutionTargetRow_def getExecutionTarget_def find_None_iff)

lemma fenced_delete_safe:
  assumes "runFencedDelete E t token w = Some (w', Inr out)" "prompt E t token" "guarded t token 0 (w_store w)" "targets_stay_gone E t"
  shows "all_settled t (date_now E w) (w_store w') \<and> getExecutionTarget (w_control w') t = None \<and> still t (w_store w) (w_store w')"
proof -
  obtain w1 q where v: "verifyTargetQuiescence E t token w = Some (w1, Inr q)" "\<not> blocks q"
    and w': "w' = release_fence E t token (w1\<lparr>w_control := fst (deleteExecutionTargetRow t (w_control w1))\<rparr>)"
    using assms(1) by (auto simp: runFencedDelete_def delete_if_quiet_def case_prod_beta split: option.splits sum.splits if_splits)
  have s: "scanned t token 2 w w1" "all_settled t (date_now E w) (w_store w1)" using verified [OF v(1) assms(2,3)] v(2) by blast+
  let ?w2 = "w1\<lparr>w_control := fst (deleteExecutionTargetRow t (w_control w1))\<rparr>"
  have g: "guarded t token 2 (w_store ?w2)" using s(1) by (simp add: scanned_def)
  have st: "still t (w_store w1) (w_store w')" using release_still [OF assms(2) g] w' by simp
  have "getExecutionTarget (w_control w') t = None"
    using assms(4) row_deleted [of t "w_control w1"] by (simp add: w' release_fence_def await_def targets_stay_gone_def)
  moreover have "all_settled t (date_now E w) (w_store w')"
    by (rule still_all_settled [OF st _ s(2)]) (use s(1) in \<open>auto simp: scanned_def intro: guarded_ok\<close>)
  ultimately show ?thesis using st s(1) still_trans unfolding scanned_def by blast
qed

lemma await_ok: "prompt E t token \<Longrightarrow> store_ok (w_store w) \<Longrightarrow> store_ok (w_store (await E w)) \<and> w_now w \<le> w_now (await E w)"
  using peers_time prompt_await(1) by blast

lemma acquire_ok:
  assumes "acquire_fence E t token w = (w', b)" "prompt E t token" "store_ok (w_store w)"
  shows "store_ok (w_store w') \<and> w_now w \<le> w_now w'"
proof -
  let ?w = "await E w"
  have "store_ok (w_now ?w, fst (acquireTargetDeleteFence (w_now ?w) (date_now E w) (w_db ?w) t token))"
    by (rule store_ok_step [OF _ acquire]) (use await_ok [OF assms(2,3)] in simp)
  then show ?thesis using assms(1) await_ok [OF assms(2,3)] by (auto simp: acquire_fence_def Let_def split: prod.splits)
qed

lemma takeover_ok:
  assumes "takeover_fence E t token w = (w', b)" "prompt E t token" "store_ok (w_store w)"
  shows "store_ok (w_store w') \<and> w_now w \<le> w_now w'"
proof -
  let ?w = "await E w"
  have "store_ok (w_now ?w, fst (takeoverStaleTargetDeleteFence (w_now ?w) (date_now E w) (w_db ?w) t token))"
    by (rule store_ok_step [OF _ takeover]) (use await_ok [OF assms(2,3)] in simp)
  then show ?thesis using assms(1) await_ok [OF assms(2,3)] by (auto simp: takeover_fence_def Let_def split: prod.splits)
qed

text \<open>Whoever reports a deletion held a fence when the fenced part began.\<close>

lemma deleted_under_fence:
  assumes "deleteTargetInternal E t token w = Some (w', Inr out)" "dl_outcome out = ''deleted''" "prompt E t token" "store_ok (w_store w)"
  shows "\<exists>w1. runFencedDelete E t token w1 = Some (w', Inr out) \<and> guarded t token 0 (w_store w1) \<and> w_now w \<le> w_now w1"
proof -
  obtain w1 a where a: "acquire_fence E t token w = (w1, a)" by (cases "acquire_fence E t token w")
  note ok1 = acquire_ok [OF a assms(3,4)]
  show ?thesis
  proof (cases a)
    case True
    then show ?thesis using assms(1) a acquired_guarded [OF _ assms(3,4)] ok1 by (auto simp: deleteTargetInternal_def)
  next
    case False
    then have c: "handleContendedFence E t token w1 = Some (w', Inr out)" using assms(1) a by (simp add: deleteTargetInternal_def)
    let ?w = "await E w1"
    have ok: "store_ok (w_store ?w)" "w_now w \<le> w_now ?w" using await_ok [OF assms(3), of w1] ok1 by auto
    obtain w2 b where b: "takeover_fence E t token ?w = (w2, b)" by (cases "takeover_fence E t token ?w")
    note ok2 = takeover_ok [OF b assms(3) ok(1)]
    obtain w3 d where d: "acquire_fence E t token w2 = (w3, d)" by (cases "acquire_fence E t token w2")
    note ok3 = acquire_ok [OF d assms(3)]
    have "b \<and> runFencedDelete E t token w2 = Some (w', Inr out) \<or> \<not> b \<and> d \<and> runFencedDelete E t token w3 = Some (w', Inr out)"
      using c assms(2) b d by (auto simp: handleContendedFence_def Let_def split: if_splits sum.splits)
    then show ?thesis
    proof (elim disjE conjE)
      assume "b" "runFencedDelete E t token w2 = Some (w', Inr out)"
      then show ?thesis using took_over_guarded [OF _ assms(3) ok(1), of w2] b ok ok2 by (intro exI [of _ w2]) auto
    next
      assume "d" "runFencedDelete E t token w3 = Some (w', Inr out)"
      then show ?thesis using acquired_guarded [OF _ assms(3), of w2 w3] d ok ok2 ok3 by (intro exI [of _ w3]) auto
    qed
  qed
qed


section \<open>An undisturbed deletion\<close>

definition calm :: "delete_env \<Rightarrow> bool" where
  "calm E \<longleftrightarrow> (\<forall>n. de_store E n = id) \<and> (\<forall>n. de_control E n = id) \<and> (\<forall>x. de_clock E x = x)"

lemma calm_prompt: "calm E \<Longrightarrow> prompt E t token"
  by (simp add: calm_def prompt_def)

lemma calm_await: "calm E \<Longrightarrow> w_store (await E w) = w_store w \<and> w_control (await E w) = w_control w"
  by (simp add: calm_def await_def)

definition readable :: "target_id \<Rightarrow> moment \<Rightarrow> bool" where
  "readable t m \<longleftrightarrow> (\<forall>jid j. holds m jid j \<longrightarrow> j_target_id j = t \<longrightarrow> attempt_readable m j)"

text \<open>A world that differs only in the fence, in the queue of the target and in the number of calls.\<close>

definition undisturbed :: "target_id \<Rightarrow> world \<Rightarrow> world \<Rightarrow> bool" where
  "undisturbed t w w' \<longleftrightarrow> w_now w' = w_now w \<and> w_control w' = w_control w
     \<and> keeps_outside {targetDeleteFenceKeyV1 t, targetQueueKeyV1 t} (w_db w) (w_db w')"

lemma undisturbed_refl: "undisturbed t w w"
  by (simp add: undisturbed_def keeps_outside_def)

lemma undisturbed_trans: "undisturbed t w w' \<Longrightarrow> undisturbed t w' w'' \<Longrightarrow> undisturbed t w w''"
  by (simp add: undisturbed_def keeps_outside_def)

lemma undisturbed_same: "w_store w' = w_store w \<Longrightarrow> w_control w' = w_control w \<Longrightarrow> undisturbed t w w'"
  by (simp add: undisturbed_def keeps_outside_def)

lemma undisturbed_reads:
  assumes "undisturbed t w w'"
  shows "getJob (w_now w') (w_db w') jid = getJob (w_now w) (w_db w) jid"
    and "getAttempt (w_now w') (w_db w') aid = getAttempt (w_now w) (w_db w) aid"
    and "stream_at (w_now w') (w_db w') KEY_STREAM_V2 = stream_at (w_now w) (w_db w) KEY_STREAM_V2"
proof -
  have k: "w_db w' k = w_db w k" if "k \<notin> {targetDeleteFenceKeyV1 t, targetQueueKeyV1 t}" for k
    using assms keeps_outsideD that unfolding undisturbed_def by blast
  have n: "w_now w' = w_now w" using assms by (simp add: undisturbed_def)
  show "getJob (w_now w') (w_db w') jid = getJob (w_now w) (w_db w) jid"
    "getAttempt (w_now w') (w_db w') aid = getAttempt (w_now w) (w_db w) aid"
    "stream_at (w_now w') (w_db w') KEY_STREAM_V2 = stream_at (w_now w) (w_db w) KEY_STREAM_V2"
    by (simp_all add: getJob_def getAttempt_def store_get_def redis_get_def live_def stream_at_def n k)
qed

lemma undisturbed_jobs:
  assumes "undisturbed t w w'"
  shows "holds (w_store w') jid j = holds (w_store w) jid j" "readable t (w_store w') = readable t (w_store w)"
    "all_settled t x (w_store w') = all_settled t x (w_store w)"
  using undisturbed_reads(2) [OF assms]
  by (simp_all add: holds_def readable_def all_settled_def attempt_readable_def undisturbed_reads(1) [OF assms] cong: option.case_cong)

lemma scan_entry_calm:
  assumes "calm E" "store_ok (w_store w)" "readable t (w_store w)" "row_of t (w_store w) i row"
  shows "\<exists>w' q'. scan_entry E t nowMs (x, row) w q = (w', Inr q') \<and> w_store w' = w_store w \<and> w_control w' = w_control w"
proof -
  obtain jid j where j: "holds (w_store w) jid j" "row = stream_row j" using assms(4) by (auto simp: row_of_def)
  have id: "j_job_id j = jid" using holds_fields [OF assms(2) j(1)] by blast
  show ?thesis
  proof (cases "j_target_id j = t \<and> jid \<noteq> []")
    case False
    then show ?thesis using id by (auto simp: scan_entry_def j(2) row_fields)
  next
    case True
    let ?w = "await E w"
    have w: "w_store ?w = w_store w" "w_store (await E ?w) = w_store w" "w_control (await E ?w) = w_control w" "w_control ?w = w_control w"
      using calm_await [OF assms(1)] by simp_all
    have g: "getJob (w_now ?w) (w_db ?w) jid = Inr (Some j)" using j(1) w(1) by (simp add: holds_def)
    have "\<exists>r. (if has_attempt j then getAttempt (w_now w) (w_db w) (the (j_latest_attempt_id j)) else Inr None) = Inr r"
      using assms(3) j(1) True by (auto simp: readable_def attempt_readable_def has_attempt_def isl_def split: option.splits)
        (metis sum.exhaust)
    then obtain r where r: "(if has_attempt j then getAttempt (w_now w) (w_db w) (the (j_latest_attempt_id j)) else Inr None) = Inr r" by blast
    have s: "scan_entry E t nowMs (x, row) w q = scan_job E nowMs j ?w q"
      using True id g by (simp add: scan_entry_def j(2) row_fields Let_def)
    have "\<exists>w' q'. scan_job E nowMs j ?w q = (w', Inr q') \<and> (w' = ?w \<or> w' = await E ?w)"
      using r w by (cases "j_status j") (auto simp: scan_job_def Let_def)
    then show ?thesis using s w by metis
  qed
qed

lemma scan_entries_calm:
  assumes "calm E" "store_ok (w_store w)" "readable t (w_store w)" "\<forall>e \<in> set es. row_of t (w_store w) (fst e) (snd e)"
  shows "\<exists>w' q'. scan_entries E t nowMs (shown_entries es) w q = (w', Inr q') \<and> w_store w' = w_store w \<and> w_control w' = w_control w"
  using assms
proof (induction es arbitrary: w q)
  case (Cons e es)
  obtain w1 q1 where e: "scan_entry E t nowMs (show_entry_id (fst e), snd e) w q = (w1, Inr q1)" "w_store w1 = w_store w" "w_control w1 = w_control w"
    using scan_entry_calm [OF Cons.prems(1-3), of "fst e" "snd e"] Cons.prems(4) by fastforce
  have "\<exists>w' q'. scan_entries E t nowMs (shown_entries es) w1 q1 = (w', Inr q') \<and> w_store w' = w_store w1 \<and> w_control w' = w_control w1"
    by (rule Cons.IH [OF Cons.prems(1)]) (use Cons.prems(2-4) e(2) in simp_all)
  then show ?case using e by auto
qed simp

lemma later_rest:
  fixes c d :: entry_id
  assumes "c < d"
  shows "filter (\<lambda>e. d < fst e) s = filter (\<lambda>e. d < fst e) (filter (\<lambda>e. c < fst e) s)"
proof (induction s)
  case (Cons e s)
  have "d < fst e \<Longrightarrow> c < fst e" using assms by (rule order.strict_trans)
  with Cons show ?case by simp
qed simp

lemma shorter_rest:
  fixes c :: entry_id
  assumes "take n (filter (\<lambda>e. c < fst e) s) \<noteq> []"
  shows "length (filter (\<lambda>e. fst (last (take n (filter (\<lambda>e. c < fst e) s))) < fst e) s) < length (filter (\<lambda>e. c < fst e) s)"
proof -
  let ?f = "filter (\<lambda>e. c < fst e) s" and ?l = "last (take n (filter (\<lambda>e. c < fst e) s))"
  have l: "?l \<in> set ?f" using last_in_set [OF assms] by (rule in_set_takeD)
  then have "c < fst ?l" by simp
  from later_rest [OF this, of s] have "filter (\<lambda>e. fst ?l < fst e) s = filter (\<lambda>e. fst ?l < fst e) ?f" .
  then show ?thesis using length_filter_less [OF l, of "\<lambda>e. fst ?l < fst e"] by simp
qed

lemma touch_undisturbed: "keeps_outside {targetDeleteFenceKeyV1 t, targetQueueKeyV1 t} db (fst (touchTargetDeleteFence now db t token))"
  by (auto simp: keeps_outside_def touchTargetDeleteFence_def V2_TOUCH_DELETE_FENCE_SCRIPT_def redis_set_px_def split: sum.split option.split)

lemma scan_stream_calm:
  assumes "calm E" "guarded t token 0 (w_store w)" "readable t (w_store w)" "stream_at (w_now w) (w_db w) KEY_STREAM_V2 = Inr s" "cursor_at cursor c"
  shows "\<exists>w' q'. scan_stream E t token nowMs cursor w q = Some (w', Inr q') \<and> undisturbed t w w'"
  using assms(2-5)
proof (induction "length (filter (\<lambda>e. c < fst e) s)" arbitrary: w cursor c q rule: less_induct)
  case less
  let ?w = "await E w" and ?es = "take 128 (filter (\<lambda>e. c < fst e) s)"
  note ok = guarded_ok [OF less(2)] and E = calm_prompt [OF assms(1), of t token]
  have w: "w_store ?w = w_store w" "w_control ?w = w_control w" using calm_await [OF assms(1)] by simp_all
  have batch: "scanJobStream (w_now ?w) (w_db ?w) cursor TARGET_DELETE_STREAM_SCAN_BATCH = Inr (shown_entries ?es)"
    using less(4,5) w by (simp add: scanJobStream_def cursor_at_def TARGET_DELETE_STREAM_SCAN_BATCH_def)
  show ?case
  proof (cases "?es = []")
    case True
    then have "scan_stream E t token nowMs cursor w q = Some (?w, Inr q)" using batch by (simp add: scan_stream.simps [of E t] Let_def)
    then show ?thesis using undisturbed_same [OF w] by blast
  next
    case False
    have rows: "\<forall>e \<in> set ?es. row_of t (w_store ?w) (fst e) (snd e)"
    proof -
      obtain S where "represents (w_db w) S" "machine_inv (w_now w) S" "q_stream S = s"
        using store_stream [OF ok] less(4) by auto
      then have "row_of t (w_store w) (fst e) (snd e)" if "e \<in> set s" for e using stream_row_of [of "w_store w" S "fst e" "snd e"] that by simp
      then show ?thesis using w(1) by (auto dest!: in_set_takeD)
    qed
    obtain w2 q2 where items: "scan_entries E t nowMs (shown_entries ?es) ?w q = (w2, Inr q2)" "w_store w2 = w_store w" "w_control w2 = w_control w"
      using scan_entries_calm [OF assms(1) _ _ rows] ok less(3) w by fastforce
    let ?w3 = "await E w2"
    have w3: "w_store ?w3 = w_store w" "w_control ?w3 = w_control w" using calm_await [OF assms(1)] items by simp_all
    obtain db where t: "touchTargetDeleteFence (w_now ?w3) (w_db ?w3) t token = (db, Inr True)" "guarded t token 0 (w_now w, db)"
      using touched_guarded [OF less(2)] w3(1) by auto
    let ?w4 = "?w3\<lparr>w_store := (w_now ?w3, db)\<rparr>"
    have u: "undisturbed t w ?w4" using touch_undisturbed [of t "w_db ?w3" "w_now ?w3" token] t(1) w3 by (simp add: undisturbed_def)
    have body: "scan_stream E t token nowMs cursor w q =
        (if length ?es < 128 then Some (?w4, Inr q2)
         else scan_stream E t token nowMs (Some (show_entry_id (fst (last ?es)))) ?w4 q2)"
      using batch items(1) t(1) False unfolding scan_stream.simps [of E t token nowMs cursor w q]
      by (simp add: Let_def TARGET_DELETE_STREAM_SCAN_BATCH_def last_map)
    show ?thesis
    proof (cases "length ?es < 128")
      case True
      then show ?thesis using body u by auto
    next
      case long: False
      have "\<exists>w' q'. scan_stream E t token nowMs (Some (show_entry_id (fst (last ?es)))) ?w4 q2 = Some (w', Inr q') \<and> undisturbed t ?w4 w'"
      proof (rule less(1) [OF shorter_rest [OF False] _ _ _ cursor_entry])
        show "guarded t token 0 (w_store ?w4)" using t(2) w3(1) by simp
        show "readable t (w_store ?w4)" using undisturbed_jobs(2) [OF u] less(3) by simp
        show "stream_at (w_now ?w4) (w_db ?w4) KEY_STREAM_V2 = Inr s" using undisturbed_reads(3) [OF u] less(4) by simp
      qed
      then show ?thesis using body long undisturbed_trans [OF u] by auto
    qed
  qed
qed

lemma verify_calm:
  assumes "calm E" "guarded t token 0 (w_store w)" "readable t (w_store w)"
  shows "\<exists>w' q. verifyTargetQuiescence E t token w = Some (w', Inr q) \<and> undisturbed t w w' \<and> guarded t token 2 (w_store w')
    \<and> (blocks q \<longleftrightarrow> \<not> all_settled t (w_now w) (w_store w))"
proof -
  obtain s where "stream_at (w_now w) (w_db w) KEY_STREAM_V2 = Inr s" using store_stream [OF guarded_ok [OF assms(2)]] by blast
  then obtain w1 q where s: "scan_stream E t token (date_now E w) None w nothing_found = Some (w1, Inr q)" "undisturbed t w w1"
    using scan_stream_calm [OF assms _ cursor_start] by metis
  let ?w2 = "await E w1"
  let ?w3 = "?w2\<lparr>w_store := (w_now ?w2, fst (pruneTargetQueue (w_now ?w2) (w_db ?w2) t (q_expired q)))\<rparr>"
  define w' where "w' = (if q_expired q = [] then w1 else ?w3)"
  have v: "verifyTargetQuiescence E t token w = Some (w', Inr q)" using s(1) by (simp add: verifyTargetQuiescence_def Let_def w'_def)
  have "keeps_outside {targetDeleteFenceKeyV1 t, targetQueueKeyV1 t} (w_db ?w2) (fst (pruneTargetQueue (w_now ?w2) (w_db ?w2) t (q_expired q)))"
    using prune_frame [of t "w_db ?w2" "w_now ?w2" "q_expired q"] by (auto simp: keeps_outside_def)
  then have u: "undisturbed t w w'"
    using s(2) calm_await [OF assms(1), of w1] by (auto simp: w'_def intro: undisturbed_trans simp: undisturbed_def keeps_outside_def)
  note r = verified [OF v calm_prompt [OF assms(1)] assms(2)]
  have "date_now E w = w_now w" using assms(1) by (simp add: calm_def date_now_def)
  then show ?thesis using v u r undisturbed_jobs(3) [OF u] by (auto simp: scanned_def)
qed

lemma calm_deletion:
  assumes reach: "job_step\<^sup>*\<^sup>* (0, \<lambda>_. None) (w_store w)" and E: "calm E" and free: "live (w_now w) (w_db w) (targetDeleteFenceKeyV1 t) = None"
    and readable: "readable t (w_store w)" and row: "getExecutionTarget (w_control w) t \<noteq> None"
  shows "\<exists>w' r. deleteTargetInternal E t token w = Some (w', r) \<and> live (w_now w') (w_db w') (targetDeleteFenceKeyV1 t) = None
    \<and> (\<forall>jid. getJob (w_now w') (w_db w') jid = getJob (w_now w) (w_db w) jid)
    \<and> (if all_settled t (w_now w) (w_store w)
       then w_control w' = fst (deleteExecutionTargetRow t (w_control w)) \<and> (\<exists>out. r = Inr out \<and> dl_outcome out = ''deleted'')
       else w_control w' = w_control w \<and> (\<exists>e. r = Inl (TargetDeleteBlockedError t e) \<and> blocked e))"
proof -
  note P = calm_prompt [OF E, of t token]
  have store: "store_ok (w_store w)" using reachable_ok reach by (cases "w_store w") blast
  obtain w1 where a: "acquire_fence E t token w = (w1, True)" "undisturbed t w w1"
  proof -
    have "w_store (await E w) = w_store w" "w_control (await E w) = w_control w" using calm_await [OF E] by simp_all
    then show ?thesis using free that
      by (auto simp: acquire_fence_def acquireTargetDeleteFence_def redis_setNxPx_def redis_set_px_def undisturbed_def keeps_outside_def Let_def)
  qed
  have g: "guarded t token 0 (w_store w1)" by (rule acquired_guarded [OF a(1) P store])
  obtain w2 q where v: "verifyTargetQuiescence E t token w1 = Some (w2, Inr q)" "undisturbed t w1 w2" "guarded t token 2 (w_store w2)"
    "blocks q \<longleftrightarrow> \<not> all_settled t (w_now w1) (w_store w1)"
    using verify_calm [OF E g] readable undisturbed_jobs(2) [OF a(2)] by blast
  have u: "undisturbed t w w2" by (rule undisturbed_trans [OF a(2) v(2)])
  have blk: "blocks q \<longleftrightarrow> \<not> all_settled t (w_now w) (w_store w)" using v(4) a(2) undisturbed_jobs(3) [OF a(2)] by (simp add: undisturbed_def)
  obtain s x where f: "fence_entry (w_db w2) t token s x" "0 \<le> s" using v(3) by (auto simp: guarded_def)
  have "w_now w2 \<le> x" using guarded_closed_until [OF v(3), of "w_now w2"] f by (auto simp: closed_until_def)
  then have held: "fence_held (w_now w2) (w_db w2) t s token" using f by (simp add: fence_held_def live_def)
  have rel: "w_store (release_fence E t token w3) = (w_now w3, (w_db w3)(targetDeleteFenceKeyV1 t := None)) \<and> w_control (release_fence E t token w3) = w_control w3"
    if "w_store w3 = w_store w2" for w3
    using E held that f(2)
    by (simp add: release_fence_def await_def calm_def releaseTargetDeleteFence_def getTargetDeleteFence_held fence_text_sep redis_del_def Let_def case_prod_beta)
  define w3 where "w3 = fst (delete_if_quiet t w2 (Inr q))"
  define w' where "w' = release_fence E t token w3"
  have w3: "w_store w3 = w_store w2" by (simp add: w3_def delete_if_quiet_def case_prod_beta)
  have res: "deleteTargetInternal E t token w = Some (w', snd (delete_if_quiet t w2 (Inr q)))"
    using a(1) v(1) by (simp add: deleteTargetInternal_def runFencedDelete_def case_prod_beta w'_def w3_def)
  have w': "w_store w' = (w_now w2, (w_db w2)(targetDeleteFenceKeyV1 t := None))" "w_control w' = w_control w3" using rel [OF w3] w3 by (simp_all add: w'_def)
  have "undisturbed t w2 (w'\<lparr>w_control := w_control w2\<rparr>)" using w' by (simp add: undisturbed_def keeps_outside_def)
  then have jobs: "getJob (w_now w') (w_db w') jid = getJob (w_now w) (w_db w) jid" for jid
    using undisturbed_reads(1) [OF undisturbed_trans [OF u]] by fastforce
  have c2: "w_control w2 = w_control w" using u by (simp add: undisturbed_def)
  have "row_changes (\<lambda>r. t_id r = t) (targets (w_control w)) > 0"
    using row by (auto simp: getExecutionTarget_def row_changes_def find_None_iff length_greater_0_conv filter_empty_conv)
  then have "if all_settled t (w_now w) (w_store w)
       then w_control w3 = fst (deleteExecutionTargetRow t (w_control w)) \<and> (\<exists>out. snd (delete_if_quiet t w2 (Inr q)) = Inr out \<and> dl_outcome out = ''deleted'')
       else w_control w3 = w_control w \<and> (\<exists>e. snd (delete_if_quiet t w2 (Inr q)) = Inl (TargetDeleteBlockedError t e) \<and> blocked e)"
    using blk c2 by (auto simp: w3_def delete_if_quiet_def deleteExecutionTargetRow_def)
  then show ?thesis using res jobs w' by (intro exI [of _ w'] exI [of _ "snd (delete_if_quiet t w2 (Inr q))"]) (simp add: live_def)
qed


section \<open>Witnesses\<close>

definition calm_env :: delete_env where "calm_env = \<lparr>de_store = \<lambda>_. id, de_control = \<lambda>_. id, de_clock = \<lambda>x. x\<rparr>"

definition sample_world :: "int \<Rightarrow> world" where
  "sample_world now = \<lparr>w_calls = 0, w_store = (now, sample_db1), w_control = sample_host_control\<rparr>"

lemma calm_env: "calm calm_env" "prompt calm_env t token" "targets_stay_gone calm_env t"
proof -
  show c: "calm calm_env" by (simp add: calm_def calm_env_def)
  show "prompt calm_env t token" by (rule calm_prompt [OF c])
  show "targets_stay_gone calm_env t" by (simp add: targets_stay_gone_def calm_env_def)
qed

lemma sample_world_reach: "1000 \<le> now \<Longrightarrow> short now \<Longrightarrow> job_step\<^sup>*\<^sup>* (0, \<lambda>_. None) (w_store (sample_world now))"
  using rtranclp.rtrancl_into_rtrancl [OF sample_reach1 tick [of 1000 now sample_db1]] by (simp add: sample_world_def)

lemma sample_world_jobs: "holds (w_store (sample_world now)) jid j \<longleftrightarrow> jid = sample_job_id \<and> j = sample_queued"
  using getJob_repr [OF sample_run1, of jid now] sample_stored(1) by (auto simp: holds_def sample_world_def split: if_splits)

lemma sample_world_facts:
  "live now sample_db1 (targetDeleteFenceKeyV1 sample_target) = None" "readable t (w_store (sample_world now))"
  "getExecutionTarget (w_control (sample_world now)) sample_target \<noteq> None"
  "all_settled sample_target now (w_store (sample_world now)) \<longleftrightarrow> 5000 \<le> now"
proof -
  show "live now sample_db1 (targetDeleteFenceKeyV1 sample_target) = None" by (simp add: live_def sample_db1_def)
  show "readable t (w_store (sample_world now))"
    unfolding readable_def sample_world_jobs by (simp add: attempt_readable_def sample_job_def)
  show "getExecutionTarget (w_control (sample_world now)) sample_target \<noteq> None" using sample_host_facts(2) by (simp add: sample_world_def)
  show "all_settled sample_target now (w_store (sample_world now)) \<longleftrightarrow> 5000 \<le> now"
    unfolding all_settled_def sample_world_jobs by (simp add: settled_def expired_unclaimed_def sample_job_def)
qed


lemma sample_deletion:
  "\<exists>w out. deleteTargetInternal calm_env sample_target ''tok'' (sample_world 6000) = Some (w, Inr out) \<and> dl_outcome out = ''deleted''"
proof -
  have "short 6000" by (simp add: short_def)
  moreover have "w_now (sample_world 6000) = 6000" "w_db (sample_world 6000) = sample_db1" by (simp_all add: sample_world_def)
  ultimately show ?thesis
    using calm_deletion [OF sample_world_reach [of 6000] calm_env(1), of sample_target "''tok''"]
      sample_world_facts(2,3) sample_world_facts(4) [of 6000] sample_world_facts(1) by fastforce
qed


end
