(* ===== verification/Control_Owners.thy ===== *)
theory Control_Owners
  imports Control_Lifecycle
begin

text \<open>
  What no operation of the control store ever changes: the owner of a device, the device and the secret of a
  credential, and a revocation.
\<close>

definition device_kept :: "device_row \<Rightarrow> device_row \<Rightarrow> bool" where
  "device_kept d d' \<longleftrightarrow> d_id d' = d_id d \<and> d_user_id d' = d_user_id d \<and> (d_revoked_at_ms d \<noteq> None \<longrightarrow> d_revoked_at_ms d' \<noteq> None)"

definition credential_kept :: "credential_row \<Rightarrow> credential_row \<Rightarrow> bool" where
  "credential_kept k k' \<longleftrightarrow> k_id k' = k_id k \<and> k_device_id k' = k_device_id k \<and> k_secret_digest k' = k_secret_digest k
     \<and> k_expires_at_ms k' = k_expires_at_ms k \<and> (k_revoked_at_ms k \<noteq> None \<longrightarrow> k_revoked_at_ms k' \<noteq> None)"

text \<open>One table after another: every row found before is found after, and kept.\<close>

definition rows_kept :: "('r \<Rightarrow> 'k) \<Rightarrow> ('r \<Rightarrow> 'r \<Rightarrow> bool) \<Rightarrow> 'r list \<Rightarrow> 'r list \<Rightarrow> bool" where
  "rows_kept key kept rs rs' \<longleftrightarrow> (\<forall>i r. find (\<lambda>r. key r = i) rs = Some r \<longrightarrow> (\<exists>r'. find (\<lambda>r. key r = i) rs' = Some r' \<and> kept r r'))"

definition keeps_devices :: "control_db \<Rightarrow> control_db \<Rightarrow> bool" where
  "keeps_devices db db' \<longleftrightarrow> rows_kept d_id device_kept (devices db) (devices db') \<and> rows_kept k_id credential_kept (credentials db) (credentials db')"

lemma kept_refl [simp]: "device_kept d d" "credential_kept k k"
  by (simp_all add: device_kept_def credential_kept_def)

lemma kept_trans: "device_kept d e \<Longrightarrow> device_kept e f \<Longrightarrow> device_kept d f" "credential_kept k l \<Longrightarrow> credential_kept l m \<Longrightarrow> credential_kept k m"
  by (simp_all add: device_kept_def credential_kept_def)

lemma rows_kept_refl: "(\<And>r. kept r r) \<Longrightarrow> rows_kept key kept rs rs"
  by (simp add: rows_kept_def)

lemma rows_kept_trans: "(\<And>a b c. kept a b \<Longrightarrow> kept b c \<Longrightarrow> kept a c) \<Longrightarrow> rows_kept key kept xs ys \<Longrightarrow> rows_kept key kept ys zs \<Longrightarrow> rows_kept key kept xs zs"
  unfolding rows_kept_def by meson

lemma rows_kept_snoc: "(\<And>r. kept r r) \<Longrightarrow> rows_kept key kept rs (rs @ [r])"
  by (simp add: rows_kept_def find_snoc)

lemma rows_kept_update:
  "(\<And>r. kept r r) \<Longrightarrow> (\<And>r. p r \<Longrightarrow> kept r (f r)) \<Longrightarrow> (\<And>r. key (f r) = key r) \<Longrightarrow> rows_kept key kept rs (update_rows p f rs)"
  by (simp add: rows_kept_def find_update_rows)

lemma keeps_same: "devices db' = devices db \<Longrightarrow> credentials db' = credentials db \<Longrightarrow> keeps_devices db db'"
  by (simp add: keeps_devices_def rows_kept_refl)

lemma keeps_cong [simp]:
  "keeps_devices (db\<lparr>targets := x\<rparr>) db' = keeps_devices db db'" "keeps_devices db (db'\<lparr>targets := x\<rparr>) = keeps_devices db db'"
  "keeps_devices db (db'\<lparr>bindings := y\<rparr>) = keeps_devices db db'" "keeps_devices db (db'\<lparr>defaults := z\<rparr>) = keeps_devices db db'"
  by (simp_all add: keeps_devices_def)

lemma devices_kept_refl [simp]: "keeps_devices db db"
  by (simp add: keeps_same)

lemma keeps_trans:
  assumes "keeps_devices a b" "keeps_devices b c"
  shows "keeps_devices a c"
proof -
  have "rows_kept d_id device_kept (devices a) (devices c)"
    by (rule rows_kept_trans [where kept = device_kept]) (use assms kept_trans in \<open>auto simp: keeps_devices_def\<close>)
  moreover have "rows_kept k_id credential_kept (credentials a) (credentials c)"
    by (rule rows_kept_trans [where kept = credential_kept]) (use assms kept_trans in \<open>auto simp: keeps_devices_def\<close>)
  ultimately show ?thesis by (simp add: keeps_devices_def)
qed

lemma insert_keeps:
  "insert_device d db = Inr db' \<Longrightarrow> keeps_devices db db'" "insert_credential k db = Inr db' \<Longrightarrow> keeps_devices db db'"
  "insert_target t db = Inr db' \<Longrightarrow> keeps_devices db db'" "insert_binding b db = Inr db' \<Longrightarrow> keeps_devices db db'"
  "insert_default f db = Inr db' \<Longrightarrow> keeps_devices db db'"
  by (auto simp: insert_Inr keeps_devices_def rows_kept_refl rows_kept_snoc)

lemma revoke_keeps: "keeps_devices db (fst (revokeDevice now i db))" "keeps_devices db (fst (revokeDeviceCredential now k db))"
  by (simp_all add: revokeDevice_def revokeDeviceCredential_def Let_def keeps_devices_def rows_kept_refl)
    (rule rows_kept_update; simp add: device_kept_def credential_kept_def)+

lemma finalize_keeps: "finalizeDeviceEnrollment lc i db = Inr (db', out) \<Longrightarrow> keeps_devices db db'"
  by (auto simp: finalizeDeviceEnrollment_def enrollment_rows_def Let_def ebind_eq_Inr keeps_same split: if_splits option.splits
      dest!: insert_keeps(1,2) intro: keeps_trans)

lemma ensure_keeps: "ensure_binding now n d t db = Inr (db', x) \<Longrightarrow> keeps_devices db db'"
  by (auto simp: ensure_binding_def Let_def ebind_eq_Inr keeps_same split: option.splits if_splits dest!: insert_keeps(4))

lemma upsert_keeps: "upsertDeviceTargetBinding now i d t db = Inr (db', b) \<Longrightarrow> keeps_devices db db'"
  by (auto simp: upsertDeviceTargetBinding_def ebind_eq_Inr split: option.splits if_splits dest!: ensure_keeps)

lemma bind_keeps: "bindTargetForDevice now i d t db = Inr (db', out) \<Longrightarrow> keeps_devices db db'"
  by (auto simp: bindTargetForDevice_def ebind_eq_Inr split: option.splits if_splits dest!: ensure_keeps)

lemma ensure_return_keeps: "ensureDeviceBindingAndReturn now i d c r db = Inr (db', out) \<Longrightarrow> keeps_devices db db'"
  by (auto simp: ensureDeviceBindingAndReturn_def ebind_eq_Inr split: option.splits if_splits dest!: ensure_keeps)

lemma register_create_keeps: "register_create now n m i a repo db = Inr (db', x) \<Longrightarrow> keeps_devices db db'"
  by (auto simp: register_create_def Let_def ebind_eq_Inr dest!: insert_keeps(3,4) intro: keeps_trans)

lemma register_existing_keeps: "register_existing now n i repo e db = Inr (db', x) \<Longrightarrow> keeps_devices db db'"
  by (auto simp: register_existing_def Let_def split: if_splits dest!: ensure_return_keeps)

lemma register_keeps:
  assumes "registerExecutionTargetForDevice lc now i j ri db = Inr (db', out)"
  shows "keeps_devices db db'"
proof -
  obtain a role repo where r: "register_resolved now i j ri a role repo db = Inr (db', out)"
    using assms by (auto simp: registerExecutionTargetForDevice_def ebind_eq_Inr split: if_splits)
  have "keeps_devices db db'" if "register_by_alias now i j ri a role repo db = Inr (db', out)"
    using that register_create_keeps register_existing_keeps by (auto simp: register_by_alias_def split: option.splits if_splits)
  then show ?thesis using r ensure_return_keeps
    by (auto simp: register_resolved_def split: option.splits prod.splits if_splits list.splits)
qed

lemma target_ops_keep:
  "createExecutionTarget lc now i ti db = Inr (db', r) \<Longrightarrow> keeps_devices db db'"
  "renameExecutionTarget lc now t a u db = Inr (db', out) \<Longrightarrow> keeps_devices db db'"
  "attachRepositoryIdentityToTarget lc now d w t p n db = Inr (db', out') \<Longrightarrow> keeps_devices db db'"
  "setDefaultAgentRuntimeTarget now w t u db = Inr (db', out'') \<Longrightarrow> keeps_devices db db'"
  "unbindTargetForDevice now d t db = Inr (db', b) \<Longrightarrow> keeps_devices db db'"
proof -
  show "createExecutionTarget lc now i ti db = Inr (db', r) \<Longrightarrow> keeps_devices db db'"
    by (auto simp: createExecutionTarget_def Let_def ebind_eq_Inr split: if_splits dest!: insert_keeps(3))
  show "keeps_devices db db'" if ren: "renameExecutionTarget lc now t a u db = Inr (db', out)"
  proof -
    obtain n r m where n: "normalizeTargetAlias lc a = Inr n" "getExecutionTarget db t = Some r" "membership_of db (t_workspace_id r) u = Some m"
      using ren by (auto simp: renameExecutionTarget_def ebind_eq_Inr split: option.splits if_splits)
    show ?thesis using ren by (auto simp: renameExecutionTarget_def n split: if_splits)
  qed
  show "attachRepositoryIdentityToTarget lc now d w t p n db = Inr (db', out') \<Longrightarrow> keeps_devices db db'"
    by (auto simp: attachRepositoryIdentityToTarget_def attach_identity_def Let_def ebind_eq_Inr split: option.splits if_splits intro!: keeps_same)
  show "setDefaultAgentRuntimeTarget now w t u db = Inr (db', out'') \<Longrightarrow> keeps_devices db db'"
    by (auto simp: setDefaultAgentRuntimeTarget_def Let_def ebind_eq_Inr split: option.splits if_splits dest: insert_keeps(5))
  show "unbindTargetForDevice now d t db = Inr (db', b) \<Longrightarrow> keeps_devices db db'"
    by (auto simp: unbindTargetForDevice_def disableDeviceTargetBinding_def Let_def ebind_eq_Inr split: option.splits if_splits)
qed

lemma control_step_keeps: "control_step db db' \<Longrightarrow> keeps_devices db db'"
proof (induction rule: control_step.induct)
  case (create_device lc now i u n p db db' d)
  then show ?case by (auto simp: createDevice_def Let_def ebind_eq_Inr split: if_splits dest!: insert_keeps(1))
next
  case (create_credential now i d s e db db' k)
  then show ?case by (auto simp: createDeviceCredential_def Let_def ebind_eq_Inr split: if_splits option.splits dest!: insert_keeps(2))
qed (auto intro: finalize_keeps revoke_keeps upsert_keeps bind_keeps register_keeps target_ops_keep keeps_same
    simp: disableExecutionTarget_def enableExecutionTarget_def deleteExecutionTargetRow_def reconcileExecutionTargetRepositoryMetadata_def
      disableDeviceTargetBinding_def Let_def keeps_same)

interpretation kept: monotone_by control_step control_ok keeps_devices
  by unfold_locales (auto simp: keeps_same intro: keeps_trans control_step_keeps)

end
