(* ===== verification/Js_Words.thy ===== *)
theory Js_Words
  imports Prelude
begin

text \<open>
  Splitting at white space: \<^verbatim>\<open>s.split(/\s+/)\<close>, the words it yields once empty pieces are dropped, and the
  way back with \<^verbatim>\<open>join(" ")\<close>. The white space of the pattern is the one \<^verbatim>\<open>trim\<close> removes.
\<close>

definition starts_with :: "string \<Rightarrow> string \<Rightarrow> bool" where
  "starts_with p s \<longleftrightarrow> take (length p) s = p"

definition ws_prefix :: "string \<Rightarrow> string option" where
  "ws_prefix s = find (\<lambda>w. w \<noteq> [] \<and> take (length w) s = w) ws_seqs"

lemma strip_shorter: "length (strip_seqs ws n s) \<le> length s"
proof (induction n arbitrary: s)
  case (Suc n)
  have "length (strip_seqs ws n (drop (length w) s)) \<le> length s" for w
    by (rule order_trans [OF Suc]) simp
  then show ?case by (auto split: option.split)
qed simp

lemma trim_start_shorter:
  assumes "ws_prefix s = Some w"
  shows "length (js_trim_start s) < length s"
proof -
  have w: "w \<noteq> []" "take (length w) s = w" using find_SomeD assms by (fastforce simp: ws_prefix_def)+
  then obtain n where n: "length s = Suc n" by (cases s) auto
  have "length (strip_seqs ws_seqs n (drop (length w) s)) \<le> length s - length w"
    using strip_shorter [of ws_seqs n "drop (length w) s"] by simp
  also have "\<dots> < length s" using w(1) n by simp
  finally show ?thesis using assms by (simp add: js_trim_start_def n ws_prefix_def)
qed

function js_split_ws :: "string \<Rightarrow> string list" where
  "js_split_ws s = (case ws_prefix s of
      Some _ \<Rightarrow> [] # js_split_ws (js_trim_start s)
    | None \<Rightarrow> (case s of
        [] \<Rightarrow> [[]]
      | c # cs \<Rightarrow> (case js_split_ws cs of [] \<Rightarrow> [[c]] | f # fs \<Rightarrow> (c # f) # fs)))"
  by pat_completeness auto
termination by (relation "measure length") (auto simp: trim_start_shorter)

declare js_split_ws.simps [simp del]

definition js_words :: "string \<Rightarrow> string list" where
  "js_words s = filter (\<lambda>w. w \<noteq> []) (js_split_ws s)"

fun join_words :: "string list \<Rightarrow> string" where
  "join_words [] = []"
| "join_words [w] = w"
| "join_words (w # ws) = w @ '' '' @ join_words ws"

section \<open>Texts without white space at their ends\<close>

definition graphic :: "char \<Rightarrow> bool" where
  "graphic c \<longleftrightarrow> 33 \<le> (of_char c :: nat) \<and> (of_char c :: nat) \<le> 126"

lemma space_not_graphic: "w \<in> set ws_seqs \<Longrightarrow> w \<noteq> [] \<and> \<not> graphic (hd w) \<and> \<not> graphic (last w)"
  by (auto simp: ws_seqs_def graphic_def)

lemma no_space_prefix:
  assumes "s \<noteq> []" "graphic (hd s)" "w \<in> set ws_seqs"
  shows "take (length w) s \<noteq> w"
  using assms space_not_graphic [OF assms(3)] by (cases w; cases s) auto

lemma no_space_suffix:
  assumes "s \<noteq> []" "graphic (last s)" "w \<in> set ws_seqs"
  shows "take (length w) (rev s) \<noteq> rev w"
proof
  assume h: "take (length w) (rev s) = rev w"
  have "w \<noteq> []" using space_not_graphic [OF assms(3)] by simp
  then have "hd (take (length w) (rev s)) = hd (rev s)" by simp
  then have "last w = last s" using h \<open>w \<noteq> []\<close> assms(1) by (simp add: hd_rev)
  then show False using assms(2) space_not_graphic [OF assms(3)] by simp
qed

lemma trim_graphic:
  assumes "s \<noteq> []" "graphic (hd s)" "graphic (last s)"
  shows "js_trim s = s"
proof -
  have "js_trim_start s = s" by (rule js_trim_start_id) (use no_space_prefix [OF assms(1,2)] in \<open>auto simp: find_None_iff\<close>)
  moreover have "js_trim_end s = s" by (rule js_trim_end_id) (use no_space_suffix [OF assms(1,3)] in \<open>auto simp: find_None_iff\<close>)
  ultimately show ?thesis by (simp add: js_trim_def)
qed

section \<open>Words hold no white space\<close>

fun spaceless :: "string \<Rightarrow> bool" where
  "spaceless [] = True"
| "spaceless (c # cs) \<longleftrightarrow> ws_prefix (c # cs) = None \<and> spaceless cs"

lemma split_nonempty: "js_split_ws s \<noteq> []"
  by (subst js_split_ws.simps) (simp split: option.split list.split)

lemma ws_prefix_None: "ws_prefix s = None \<longleftrightarrow> (\<forall>w \<in> set ws_seqs. w \<noteq> [] \<longrightarrow> take (length w) s \<noteq> w)"
  by (auto simp: ws_prefix_def find_None_iff)

lemma ws_prefix_mono: "ws_prefix (s @ t) = None \<Longrightarrow> ws_prefix s = None"
proof -
  assume h: "ws_prefix (s @ t) = None"
  have "take (length w) (s @ t) = w" if "take (length w) s = w" for w
  proof -
    have "length w \<le> length s" using that by (metis length_take min.cobounded1 min_def order_refl)
    then show ?thesis using that by simp
  qed
  then show ?thesis using h by (auto simp: ws_prefix_None)
qed

lemma split_head_prefix: "js_split_ws s = f # fs \<Longrightarrow> \<exists>t. s = f @ t"
proof (induction s arbitrary: f fs rule: js_split_ws.induct)
  case (1 s)
  show ?case
  proof (cases "ws_prefix s")
    case None
    show ?thesis
    proof (cases s)
      case (Cons c cs)
      obtain g gs where g: "js_split_ws cs = g # gs" using split_nonempty [of cs] by (cases "js_split_ws cs") auto
      then have "f = c # g" using 1(3) None Cons by (subst (asm) js_split_ws.simps) simp
      then show ?thesis using 1(1) [OF None Cons g] Cons by auto
    qed (use 1(3) None in \<open>subst (asm) js_split_ws.simps, simp\<close>)
  next
    case (Some w)
    then show ?thesis using 1(3) by (subst (asm) js_split_ws.simps) simp
  qed
qed

lemma split_spaceless: "w \<in> set (js_split_ws s) \<Longrightarrow> spaceless w"
proof (induction s arbitrary: w rule: js_split_ws.induct)
  case (1 s)
  show ?case
  proof (cases "ws_prefix s")
    case None
    show ?thesis
    proof (cases s)
      case (Cons c cs)
      obtain g gs where g: "js_split_ws cs = g # gs" using split_nonempty [of cs] by (cases "js_split_ws cs") auto
      then have "w = c # g \<or> w \<in> set gs" using 1(3) None Cons by (subst (asm) js_split_ws.simps) simp
      moreover have "spaceless g" "v \<in> set gs \<Longrightarrow> spaceless v" for v using 1(1) [OF None Cons] g by simp_all
      moreover have "ws_prefix (c # g) = None"
      proof -
        obtain t where "cs = g @ t" using split_head_prefix [OF g] by blast
        then show ?thesis using None Cons ws_prefix_mono [of "c # g" t] by simp
      qed
      ultimately show ?thesis by auto
    qed (use 1(3) None in \<open>subst (asm) js_split_ws.simps, simp\<close>)
  next
    case (Some v)
    then have "w = [] \<or> w \<in> set (js_split_ws (js_trim_start s))" using 1(3) by (subst (asm) js_split_ws.simps) simp
    then show ?thesis using 1(2) [OF Some] by auto
  qed
qed

lemma words_spaceless: "w \<in> set (js_words s) \<Longrightarrow> w \<noteq> [] \<and> spaceless w"
  by (auto simp: js_words_def split_spaceless)

section \<open>Joining and splitting again\<close>

lemma space_only: "w \<in> set ws_seqs \<Longrightarrow> CHR '' '' \<in> set w \<Longrightarrow> w = '' ''"
  by (simp add: ws_seqs_def del: set_simps) (auto)

lemma space_prefix: "ws_prefix ('' '' @ s) = Some '' ''"
  by (simp add: ws_prefix_def ws_seqs_def)

lemma spaceless_append:
  assumes "spaceless (c # cs)"
  shows "ws_prefix ((c # cs) @ '' '' @ s) = None"
  unfolding ws_prefix_None
proof (intro ballI impI notI)
  fix w assume w: "w \<in> set ws_seqs" "w \<noteq> []" and h: "take (length w) ((c # cs) @ '' '' @ s) = w"
  have none: "ws_prefix (c # cs) = None" using assms by simp
  show False
  proof (cases "length w \<le> length (c # cs)")
    case True
    then have "take (length w) (c # cs) = w" using h by (simp only: take_append) simp
    then show False using none w by (auto simp: ws_prefix_None)
  next
    case False
    have "w = (c # cs) @ take (length w - length (c # cs)) ('' '' @ s)" using h False by (simp only: take_append) simp
    moreover have "CHR '' '' \<in> set (take (length w - length (c # cs)) ('' '' @ s))" using False by (cases "length w - length (c # cs)") auto
    ultimately have "CHR '' '' \<in> set w" by (metis UnCI set_append)
    then have "w = '' ''" using space_only [OF w(1)] by simp
    then show False using False by simp
  qed
qed

lemma split_word: "spaceless w \<Longrightarrow> js_split_ws w = [w]"
proof (induction w)
  case Nil
  have "ws_prefix [] = None" by (simp add: ws_prefix_None)
  then show ?case by (subst js_split_ws.simps) simp
next
  case (Cons c cs)
  then show ?case by (subst js_split_ws.simps) simp
qed

lemma split_sep:
  assumes "spaceless w" "js_trim_start ('' '' @ s) = s"
  shows "js_split_ws (w @ '' '' @ s) = w # js_split_ws s"
  using assms(1)
proof (induction w)
  case Nil
  show ?case using space_prefix [of s] assms(2) by (subst js_split_ws.simps) simp
next
  case (Cons c cs)
  have "ws_prefix (c # cs @ '' '' @ s) = None" using spaceless_append [OF Cons(2), of s] by simp
  then show ?case using Cons by (subst js_split_ws.simps) simp
qed

lemma trim_one_space:
  assumes "s = [] \<or> ws_prefix s = None"
  shows "js_trim_start ('' '' @ s) = s"
proof -
  have "ws_prefix s = None" using assms by (auto simp: ws_prefix_None)
  then have stop: "strip_seqs ws_seqs n s = s" for n by (cases n) (simp_all add: ws_prefix_def)
  show ?thesis using space_prefix [of s] stop by (simp add: js_trim_start_def ws_prefix_def)
qed

text \<open>Words joined by single spaces split into the same words.\<close>

lemma split_join:
  assumes "ws \<noteq> []" "\<forall>w \<in> set ws. w \<noteq> [] \<and> spaceless w"
  shows "js_split_ws (join_words ws) = ws"
  using assms
proof (induction ws rule: join_words.induct)
  case (2 w)
  then show ?case by (simp add: split_word)
next
  case (3 w v vs)
  let ?s = "join_words (v # vs)"
  obtain c cs where v: "v = c # cs" using 3(3) by (cases v) auto
  have "ws_prefix ?s = None"
    using 3(3) spaceless_append [of c cs] unfolding v by (cases vs) auto
  then have "js_split_ws (w @ '' '' @ ?s) = w # js_split_ws ?s" using 3(3) by (intro split_sep trim_one_space) auto
  then show ?case using 3 by simp
qed simp

lemma words_join:
  assumes "\<forall>w \<in> set ws. w \<noteq> [] \<and> spaceless w"
  shows "js_words (join_words ws) = ws"
proof (cases "ws = []")
  case False
  then show ?thesis using assms by (simp add: js_words_def split_join)
next
  case True
  then show ?thesis by (simp add: js_words_def split_word)
qed

section \<open>Trimmed texts\<close>

lemma strip_done: "length s \<le> n \<Longrightarrow> find (\<lambda>w. w \<noteq> [] \<and> take (length w) (strip_seqs ws n s) = w) ws = None"
proof (induction n arbitrary: s)
  case 0
  then show ?case by (auto simp: find_None_iff)
next
  case (Suc n)
  show ?case
  proof (cases "find (\<lambda>w. w \<noteq> [] \<and> take (length w) s = w) ws")
    case (Some w)
    then have "w \<noteq> []" using find_SomeD [OF Some] by simp
    then have "length (drop (length w) s) \<le> n" using Suc(2) by (cases w) auto
    then show ?thesis using Suc(1) Some by simp
  qed simp
qed

lemma strip_drop: "\<exists>k. strip_seqs ws n s = drop k s"
proof (induction n arbitrary: s)
  case 0
  show ?case by (rule exI [of _ 0]) simp
next
  case (Suc n)
  have "\<exists>k. s = drop k s" by (rule exI [of _ 0]) simp
  moreover have "\<exists>k. strip_seqs ws n (drop m s) = drop k s" for m
    using Suc [of "drop m s"] by (auto simp: add.commute)
  ultimately show ?case by (simp split: option.split)
qed

lemma strip_keeps: "c \<in> set s \<Longrightarrow> \<forall>w \<in> set ws. c \<notin> set w \<Longrightarrow> c \<in> set (strip_seqs ws n s)"
proof (induction n arbitrary: s)
  case (Suc n)
  have "c \<in> set (drop (length w) s)" if "find (\<lambda>w. w \<noteq> [] \<and> take (length w) s = w) ws = Some w" for w
  proof -
    have "take (length w) s = w" "w \<in> set ws" using find_SomeD [OF that] by auto
    then have "c \<notin> set (take (length w) s)" using Suc(3) by simp
    then show ?thesis using Suc(2) by (metis UnE append_take_drop_id set_append)
  qed
  then show ?case using Suc by (simp split: option.split)
qed simp

lemma trim_end_prefix: "\<exists>k. js_trim_end s = take k s"
proof -
  obtain k where "strip_seqs (map rev ws_seqs) (length s) (rev s) = drop k (rev s)" using strip_drop by blast
  then have "js_trim_end s = take (length s - k) s" by (simp add: js_trim_end_def rev_drop)
  then show ?thesis by blast
qed

lemma trim_trim [simp]: "js_trim (js_trim s) = js_trim s"
proof -
  define t where "t = js_trim_start s"
  obtain k where k: "js_trim_end t = take k t" using trim_end_prefix by blast
  have "ws_prefix t = None" using strip_done [OF order_refl] by (simp add: t_def ws_prefix_def js_trim_start_def)
  then have "ws_prefix (take k t) = None" using ws_prefix_mono [of "take k t" "drop k t"] by simp
  then have s: "js_trim_start (js_trim_end t) = js_trim_end t" unfolding k by (intro js_trim_start_id) (simp add: ws_prefix_def)
  have "js_trim_end (js_trim_end t) = js_trim_end t"
    by (rule js_trim_end_id) (use strip_done [of "rev t" "length t" "map rev ws_seqs"] in \<open>simp add: js_trim_end_def\<close>)
  then show ?thesis using s by (simp add: js_trim_def t_def)
qed

lemma set_trim: "set (js_trim s) \<subseteq> set s"
proof -
  have "set (js_trim_end t) \<subseteq> set t" for t using trim_end_prefix [of t] set_take_subset by fastforce
  moreover have "set (js_trim_start s) \<subseteq> set s" using strip_drop [of ws_seqs "length s" s] set_drop_subset by (fastforce simp: js_trim_start_def)
  ultimately show ?thesis unfolding js_trim_def by blast
qed

lemma graphic_not_space: "w \<in> set ws_seqs \<Longrightarrow> c \<in> set w \<Longrightarrow> \<not> graphic c"
proof -
  have "list_all (list_all (\<lambda>c. \<not> graphic c)) ws_seqs" by (simp add: ws_seqs_def graphic_def)
  then show "w \<in> set ws_seqs \<Longrightarrow> c \<in> set w \<Longrightarrow> \<not> graphic c" by (simp add: list_all_iff)
qed

lemma graphic_kept:
  assumes "c \<in> set s" "graphic c"
  shows "js_trim s \<noteq> []"
proof -
  have "c \<in> set (js_trim_start s)" unfolding js_trim_start_def using strip_keeps [OF assms(1)] graphic_not_space assms(2) by blast
  then have "c \<in> set (strip_seqs (map rev ws_seqs) (length (js_trim_start s)) (rev (js_trim_start s)))"
    by (intro strip_keeps) (use graphic_not_space assms(2) in auto)
  then show ?thesis by (auto simp: js_trim_def js_trim_end_def)
qed

end
