(* ===== verification/Device_Auth.thy ===== *)
theory Device_Auth
  imports Control_Owners Js_Words
begin

text \<open>
  Authentication of devices: \<^verbatim>\<open>connector/device-auth.ts\<close>. A device presents a bearer token that names its credential and
  carries the secret; \<open>sha\<close> is the SHA-256 of a text in hexadecimal. Failures of the database file are not modelled.
\<close>

definition DEVICE_CREDENTIAL_PREFIX :: string where "DEVICE_CREDENTIAL_PREFIX = ''ceo_dev1.''"

definition CREDENTIAL_ID_RE :: "string \<Rightarrow> bool" where
  "CREDENTIAL_ID_RE s = after_prefix ''dcr_'' (uuid_re lower_hex) s"

record device_identity =
  di_user_id :: user_id
  di_device_id :: device_id
  di_credential_id :: string

definition parseDeviceBearerToken :: "string \<Rightarrow> (string \<times> string) option" where
  "parseDeviceBearerToken raw = (case strip_prefix DEVICE_CREDENTIAL_PREFIX raw of
      None \<Rightarrow> None
    | Some rest \<Rightarrow>
       (case index_of CHR ''.'' rest of
          None \<Rightarrow> None
        | Some dotIndex \<Rightarrow>
           let credentialId = take dotIndex rest; secret = drop (Suc dotIndex) rest
           in if \<not> CREDENTIAL_ID_RE credentialId \<or> secret = [] then None else Some (credentialId, secret)))"

text \<open>
  The match with \<^verbatim>\<open>^Bearer\s+(.+)$\<close> and the \<^verbatim>\<open>trim\<close> of what it captures. A header holds no line
  terminator, so the capture is everything behind the white space.
\<close>

definition starts_with_space :: "string \<Rightarrow> bool" where
  "starts_with_space s = list_ex (\<lambda>w. take (length w) s = w) ws_seqs"

definition bearer_token :: "string \<Rightarrow> string option" where
  "bearer_token h =
     (if map ascii_lower (take 6 h) = ''bearer'' \<and> starts_with_space (drop 6 h) \<and> js_trim (drop 6 h) \<noteq> []
      then Some (js_trim (drop 6 h)) else None)"

definition authenticate :: "(string \<Rightarrow> digest) \<Rightarrow> int \<Rightarrow> string option \<Rightarrow> control_db \<Rightarrow> device_identity option" where
  "authenticate sha now header db = (case header of
      None \<Rightarrow> None
    | Some h \<Rightarrow> (case bearer_token h of
        None \<Rightarrow> None
      | Some t \<Rightarrow> (case parseDeviceBearerToken t of
          None \<Rightarrow> None
        | Some (credentialId, secret) \<Rightarrow> (case getDeviceCredential db credentialId of
            None \<Rightarrow> None
          | Some k \<Rightarrow>
             if k_revoked_at_ms k \<noteq> None \<or> k_expires_at_ms k \<le> now then None
             else (case getDevice db (k_device_id k) of
                None \<Rightarrow> None
              | Some d \<Rightarrow>
                 if d_revoked_at_ms d \<noteq> None then None
                 else if \<not> active_user db (d_user_id d) then None
                 else if sha secret \<noteq> k_secret_digest k then None
                 else Some \<lparr>di_user_id = d_user_id d, di_device_id = d_id d, di_credential_id = k_id k\<rparr>)))))"

section \<open>What authentication means\<close>

lemma authenticate_Some:
  assumes "authenticate sha now header db = Some a"
  obtains h t secret k d where "header = Some h" "bearer_token h = Some t" "parseDeviceBearerToken t = Some (di_credential_id a, secret)"
    "getDeviceCredential db (di_credential_id a) = Some k" "k_device_id k = di_device_id a" "k_revoked_at_ms k = None" "now < k_expires_at_ms k"
    "k_secret_digest k = sha secret" "getDevice db (di_device_id a) = Some d" "d_revoked_at_ms d = None" "d_user_id d = di_user_id a"
    "active_user db (di_user_id a)"
proof -
  obtain h t c secret k d where h: "header = Some h" "bearer_token h = Some t" "parseDeviceBearerToken t = Some (c, secret)"
    "getDeviceCredential db c = Some k" "getDevice db (k_device_id k) = Some d" "k_revoked_at_ms k = None" "now < k_expires_at_ms k"
    "d_revoked_at_ms d = None" "active_user db (d_user_id d)" "sha secret = k_secret_digest k"
    "a = \<lparr>di_user_id = d_user_id d, di_device_id = d_id d, di_credential_id = k_id k\<rparr>"
    using assms by (auto simp: authenticate_def split: option.splits if_splits)
  have "k_id k = c" "d_id d = k_device_id k"
    using h(4,5) by (auto simp: getDeviceCredential_def getDevice_def dest: find_SomeD)
  then have a: "di_credential_id a = c" "di_device_id a = k_device_id k" "di_user_id a = d_user_id d" unfolding h(11) by simp_all
  show ?thesis by (rule that [of h t secret k d]; (unfold a)?) (rule h h(10) [symmetric] refl)+
qed

lemma authenticated_actor:
  assumes "authenticate sha now header db = Some a"
  shows "\<exists>d. device_actor db (di_device_id a) = Inr d \<and> d_user_id d = di_user_id a"
  using assms by (rule authenticate_Some) (simp add: device_actor_def)

text \<open>Nobody authenticates as a revoked device.\<close>

lemma revoked_no_auth:
  assumes "getDevice db i = Some d" "d_revoked_at_ms d \<noteq> None" "authenticate sha now header db = Some a"
  shows "di_device_id a \<noteq> i"
proof
  assume "di_device_id a = i"
  from assms(3) show False by (rule authenticate_Some) (use assms(1,2) \<open>di_device_id a = i\<close> in simp)
qed

section \<open>The header a device sends\<close>

lemma trim_header:
  assumes "s \<noteq> []" "list_all graphic s"
  shows "js_trim ('' '' @ s) = s"
proof -
  have g: "graphic (hd s)" "graphic (last s)" using assms by (auto simp: list_all_iff)
  have none: "find (\<lambda>w. w \<noteq> [] \<and> take (length w) s = w) ws_seqs = None" using no_space_prefix [OF assms(1) g(1)] by (auto simp: find_None_iff)
  have stop: "strip_seqs ws_seqs n s = s" for n using none by (cases n) simp_all
  have first: "find (\<lambda>w. w \<noteq> [] \<and> take (length w) ('' '' @ s) = w) ws_seqs = Some '' ''" by (simp add: ws_seqs_def)
  have "js_trim_start ('' '' @ s) = s" using first stop by (simp add: js_trim_start_def)
  moreover have "js_trim_end s = s"
    by (rule js_trim_end_id) (use no_space_suffix [OF assms(1) g(2)] in \<open>auto simp: find_None_iff\<close>)
  ultimately show ?thesis by (simp add: js_trim_def)
qed

lemma credential_id_chars:
  assumes "CREDENTIAL_ID_RE i"
  shows "CHR ''.'' \<notin> set i \<and> list_all graphic i"
proof -
  obtain u where s: "strip_prefix ''dcr_'' i = Some u" "uuid_re lower_hex u"
    using assms by (auto simp: CREDENTIAL_ID_RE_def after_prefix_def split: option.splits)
  note u = strip_prefix_Some [OF s(1)] s(2)
  have "lower_hex c \<or> dash c" if "c \<in> set u" for c using match_seq_mem [OF u(2) [unfolded uuid_re_def] that] by auto
  then have "graphic c \<and> c \<noteq> CHR ''.''" if "c \<in> set u" for c using that by (force simp: lower_hex_def dash_def graphic_def)
  then show ?thesis by (auto simp: u(1) list_all_iff graphic_def)
qed

definition device_header :: "string \<Rightarrow> string \<Rightarrow> string" where
  "device_header credentialId secret = ''Bearer '' @ DEVICE_CREDENTIAL_PREFIX @ credentialId @ ''.'' @ secret"

lemma header_parsed:
  assumes "CREDENTIAL_ID_RE i" "secret \<noteq> []" "list_all graphic secret"
  shows "\<exists>t. bearer_token (device_header i secret) = Some t \<and> parseDeviceBearerToken t = Some (i, secret)"
proof -
  note c = credential_id_chars [OF assms(1)]
  let ?t = "DEVICE_CREDENTIAL_PREFIX @ i @ ''.'' @ secret"
  have "list_all graphic ?t" using c assms(3) by (simp add: DEVICE_CREDENTIAL_PREFIX_def graphic_def)
  then have "js_trim ('' '' @ ?t) = ?t" by (rule trim_header [rotated]) (simp add: DEVICE_CREDENTIAL_PREFIX_def)
  moreover have "starts_with_space ('' '' @ ?t)" by (simp add: starts_with_space_def ws_seqs_def)
  moreover have "map ascii_lower ''Bearer'' = ''bearer''" by code_simp
  ultimately have "bearer_token (device_header i secret) = Some ?t"
    by (simp add: bearer_token_def device_header_def DEVICE_CREDENTIAL_PREFIX_def)
  moreover have "parseDeviceBearerToken ?t = Some (i, secret)"
    using c assms(1,2) index_of_sep [of "CHR ''.''" i secret] by (simp add: parseDeviceBearerToken_def Let_def)
  ultimately show ?thesis by blast
qed

end
