(* ===== verification/Target_Schema.thy ===== *)
theory Target_Schema
  imports Control_Owners
begin

text \<open>
  Request bodies of devices: \<^verbatim>\<open>connector/target-schema.ts\<close>. The parsers have one error class with one code,
  so a refusal is \<open>None\<close>; \<open>lc\<close> is \<^verbatim>\<open>toLowerCase\<close>.
\<close>

definition ALLOWED_REGISTER_TARGET_KEYS :: "string list" where
  "ALLOWED_REGISTER_TARGET_KEYS = [''workspace_id'', ''alias'', ''display_name'', ''kind'', ''repository'']"

definition ALLOWED_REPOSITORY_KEYS :: "string list" where
  "ALLOWED_REPOSITORY_KEYS = [''source'', ''provider'', ''full_name'']"

definition only_keys :: "string list \<Rightarrow> jobject \<Rightarrow> bool" where
  "only_keys ks m \<longleftrightarrow> fset (fmdom m) \<subseteq> set ks"

text \<open>A field that is a text, trimmed, with a length in the bounds.\<close>

definition trimmed_field :: "nat \<Rightarrow> nat option \<Rightarrow> jobject \<Rightarrow> string \<Rightarrow> string option" where
  "trimmed_field lo hi m key = (case as_str (jfield m key) of
      None \<Rightarrow> None
    | Some s \<Rightarrow> if js_length (js_trim s) < lo \<or> (case hi of None \<Rightarrow> False | Some n \<Rightarrow> js_length (js_trim s) > n) then None else Some (js_trim s))"

text \<open>The repository of a Git origin: provider and full name, the latter normalised.\<close>

definition remote_fields :: "(string \<Rightarrow> string) \<Rightarrow> jobject \<Rightarrow> (string \<times> string) option" where
  "remote_fields lc m = (case trimmed_field 1 (Some 64) m ''provider'' of
      None \<Rightarrow> None
    | Some provider \<Rightarrow> (case trimmed_field 1 (Some 256) m ''full_name'' of
        None \<Rightarrow> None
      | Some name \<Rightarrow> (case normalizeRemoteFullName lc (lc provider) name of
          None \<Rightarrow> None
        | Some full \<Rightarrow> Some (lc provider, full))))"

record parsed_register =
  pr_workspace_id :: ws_id
  pr_alias :: string
  pr_display_name :: string
  pr_kind :: string
  pr_source :: "repo_source option"
  pr_provider :: "string option"
  pr_full_name :: "string option"

definition parse_repository :: "(string \<Rightarrow> string) \<Rightarrow> string \<Rightarrow> json option \<Rightarrow> (repo_source option \<times> string option \<times> string option) option" where
  "parse_repository lc kind v =
     (if is_nullish v then Some (None, None, None)
      else case v of
        Some (JObj m) \<Rightarrow>
          if \<not> only_keys ALLOWED_REPOSITORY_KEYS m then None
          else if as_str (jfield m ''source'') \<noteq> Some ''workspace_repository'' \<and> as_str (jfield m ''source'') \<noteq> Some ''remote_url'' then None
          else if kind = ''general_automation'' then None
          else if as_str (jfield m ''source'') = Some ''remote_url''
          then (case remote_fields lc m of None \<Rightarrow> None | Some (p, n) \<Rightarrow> Some (Some RemoteUrl, Some p, Some n))
          else Some (Some WorkspaceRepository, None, None)
      | _ \<Rightarrow> None)"

definition parseRegisterTargetInput :: "(string \<Rightarrow> string) \<Rightarrow> json option \<Rightarrow> parsed_register option" where
  "parseRegisterTargetInput lc raw = (case raw of
      Some (JObj m) \<Rightarrow>
        if \<not> only_keys ALLOWED_REGISTER_TARGET_KEYS m then None
        else (case trimmed_field 1 None m ''workspace_id'' of None \<Rightarrow> None | Some workspaceId \<Rightarrow>
         (case as_str (jfield m ''alias'') of None \<Rightarrow> None | Some aliasRaw \<Rightarrow>
          if js_trim aliasRaw = [] then None
          else (case normalizeTargetAlias lc aliasRaw of Inl _ \<Rightarrow> None | Inr alias \<Rightarrow>
           (case trimmed_field 1 (Some 128) m ''display_name'' of None \<Rightarrow> None | Some displayName \<Rightarrow>
            (case trimmed_field 0 None m ''kind'' of None \<Rightarrow> None | Some kind \<Rightarrow>
               if kind \<notin> set V1_VALID_TARGET_KINDS then None
               else (case parse_repository lc kind (jfield m ''repository'') of None \<Rightarrow> None | Some (source, provider, fullName) \<Rightarrow>
                 Some \<lparr>pr_workspace_id = workspaceId, pr_alias = alias, pr_display_name = displayName, pr_kind = kind,
                       pr_source = source, pr_provider = provider, pr_full_name = fullName\<rparr>))))))
    | _ \<Rightarrow> None)"

record parsed_attach =
  pa_workspace_id :: ws_id
  pa_target_id :: target_id
  pa_provider :: string
  pa_full_name :: string

definition parseAttachTargetRepositoryInput :: "(string \<Rightarrow> string) \<Rightarrow> target_id \<Rightarrow> json option \<Rightarrow> parsed_attach option" where
  "parseAttachTargetRepositoryInput lc targetId raw =
     (if js_trim targetId = [] then None
      else case raw of
        Some (JObj m) \<Rightarrow>
          if fmdom m \<noteq> {|''workspace_id'', ''repository''|} then None
          else (case trimmed_field 1 None m ''workspace_id'' of None \<Rightarrow> None | Some workspaceId \<Rightarrow>
           (case jfield m ''repository'' of
              Some (JObj q) \<Rightarrow>
                if \<not> only_keys ALLOWED_REPOSITORY_KEYS q then None
                else if as_str (jfield q ''source'') \<noteq> Some ''remote_url'' then None
                else (case remote_fields lc q of None \<Rightarrow> None | Some (p, n) \<Rightarrow>
                  if p = [] then None
                  else Some \<lparr>pa_workspace_id = workspaceId, pa_target_id = js_trim targetId, pa_provider = p, pa_full_name = n\<rparr>)
            | _ \<Rightarrow> None))
      | _ \<Rightarrow> None)"

section \<open>Answers\<close>

definition jstr_or_null :: "string option \<Rightarrow> json" where "jstr_or_null s = jopt JStr s"

definition repository_json :: "target_row \<Rightarrow> json" where
  "repository_json r = JObj (fmap_of_list [(''provider'', jstr_or_null (t_repository_provider r)),
     (''external_id'', jstr_or_null (t_repository_external_id r)), (''full_name'', jstr_or_null (t_repository_full_name r))])"

definition toConnectorTargetProjection :: "target_view \<Rightarrow> json" where
  "toConnectorTargetProjection v =
     (let r = tv_target v;
          hasRepo = (t_repository_provider r \<noteq> None \<and> t_repository_external_id r \<noteq> None \<and> t_repository_full_name r \<noteq> None)
      in JObj (fmap_of_list
        [(''target'', JObj (fmap_of_list
            [(''id'', JStr (t_id r)), (''workspace_id'', JStr (t_workspace_id r)), (''alias'', JStr (t_alias r)),
             (''display_name'', JStr (t_display_name r)), (''kind'', JStr (t_kind r)),
             (''repository'', if hasRepo then repository_json r else JNull),
             (''disabled'', JBool (t_disabled_at_ms r \<noteq> None)), (''is_default_agent_runtime'', JBool (tv_default v))])),
         (''this_device_binding'', jopt (\<lambda>b. JObj (fmap_of_list [(''id'', JStr (b_id b)), (''enabled'', JBool (b_disabled_at_ms b = None))])) (tv_binding v)),
         (''active_binding_count'', jint (int (tv_active_bindings v)))]))"

end
