(* ===== verification/Device_Routes.thy ===== *)
theory Device_Routes
  imports Device_Auth Target_Schema Target_Deletion
begin

text \<open>
  The routes of \<^verbatim>\<open>connector/router.ts\<close> for authenticated devices. An answer is a JSON body with a status,
  an error code with a status (messages and the evidence of a blocked deletion are left out), or an exception that the handler throws again.
  \<open>clock 0\<close> is the time of the authentication, \<open>clock 1\<close> that of the operation; new identifiers are arguments.
\<close>

datatype api_response =
    Reply nat json
  | Failure nat string
  | Rethrown connector_error

abbreviation obj :: "(string \<times> json) list \<Rightarrow> json" where "obj fs \<equiv> JObj (fmap_of_list fs)"

definition with_device ::
  "(string \<Rightarrow> digest) \<Rightarrow> int \<Rightarrow> string option \<Rightarrow> control_db \<Rightarrow> (device_identity \<Rightarrow> control_db \<times> api_response) \<Rightarrow> control_db \<times> api_response" where
  "with_device sha now header db k = (case authenticate sha now header db of None \<Rightarrow> (db, Failure 401 ''unauthorized'') | Some a \<Rightarrow> k a)"

text \<open>The result of an operation of the store: the new database and a body, or the answer for the error.\<close>

definition answer ::
  "control_db \<Rightarrow> (connector_error \<Rightarrow> api_response) \<Rightarrow> ('a \<Rightarrow> api_response) \<Rightarrow> 'a control_result \<Rightarrow> control_db \<times> api_response" where
  "answer db err ok r = (case r of Inl e \<Rightarrow> (db, err e) | Inr (db', x) \<Rightarrow> (db', ok x))"

text \<open>Bodies that must be empty: the number of their keys.\<close>

definition body_keys :: "json option \<Rightarrow> nat" where
  "body_keys b = (case b of Some (JObj m) \<Rightarrow> fcard (fmdom m) | Some (JArr xs) \<Rightarrow> length xs | _ \<Rightarrow> 0)"

section \<open>Identity and revocation\<close>

definition identity_route :: "(string \<Rightarrow> digest) \<Rightarrow> (nat \<Rightarrow> int) \<Rightarrow> string option \<Rightarrow> control_db \<Rightarrow> control_db \<times> api_response" where
  "identity_route sha clock header db = with_device sha (clock 0) header db (\<lambda>a.
     (db, case (getDevice db (di_device_id a), getDeviceCredential db (di_credential_id a)) of
        (Some d, Some k) \<Rightarrow> Reply 200 (obj
          [(''user_id'', JStr (di_user_id a)),
           (''device'', obj [(''id'', JStr (d_id d)), (''display_name'', JStr (d_display_name d)), (''platform'', JStr (d_platform d))]),
           (''credential'', obj [(''id'', JStr (k_id k)), (''expires_at_ms'', jint (k_expires_at_ms k))])])
      | _ \<Rightarrow> Failure 401 ''unauthorized''))"

definition revoke_route :: "(string \<Rightarrow> digest) \<Rightarrow> (nat \<Rightarrow> int) \<Rightarrow> string option \<Rightarrow> control_db \<Rightarrow> control_db \<times> api_response" where
  "revoke_route sha clock header db = with_device sha (clock 0) header db (\<lambda>a.
     (fst (revokeDevice (clock 1) (di_device_id a) db), Reply 200 (obj [(''ok'', JBool True)])))"

section \<open>Targets\<close>

definition catalogue_error :: "connector_error \<Rightarrow> api_response" where
  "catalogue_error e = (case e of
      ConnectorNotFoundError \<Rightarrow> Failure 404 ''TARGET_NOT_FOUND''
    | ConnectorDeviceRevokedError \<Rightarrow> Failure 403 ''DEVICE_NOT_ELIGIBLE''
    | ConnectorPermissionError \<Rightarrow> Failure 403 ''DEVICE_NOT_ELIGIBLE''
    | _ \<Rightarrow> Rethrown e)"

definition targets_route ::
  "(string \<Rightarrow> digest) \<Rightarrow> (nat \<Rightarrow> int) \<Rightarrow> string option \<Rightarrow> string option \<Rightarrow> control_db \<Rightarrow> control_db \<times> api_response" where
  "targets_route sha clock header workspace db = with_device sha (clock 0) header db (\<lambda>a.
     (db, case listTargetsVisibleToDevice db (di_device_id a) (map_option js_trim workspace) of
        Inl e \<Rightarrow> catalogue_error e
      | Inr vs \<Rightarrow> Reply 200 (obj [(''targets'', JArr (map toConnectorTargetProjection vs))])))"

text \<open>The target in the answers of the register and attach routes; an empty provider counts as none.\<close>

definition target_body :: "target_row \<Rightarrow> json" where
  "target_body r = obj
     [(''id'', JStr (t_id r)), (''workspace_id'', JStr (t_workspace_id r)), (''alias'', JStr (t_alias r)),
      (''display_name'', JStr (t_display_name r)), (''kind'', JStr (t_kind r)),
      (''repository'', if t_repository_provider r = None \<or> t_repository_provider r = Some [] then JNull else repository_json r),
      (''disabled'', JBool (t_disabled_at_ms r \<noteq> None))]"

definition register_error :: "connector_error \<Rightarrow> api_response" where
  "register_error e = (case e of
      ConnectorPermissionError \<Rightarrow> Failure 403 ''TARGET_CREATE_FORBIDDEN''
    | ConnectorTargetConflictError \<Rightarrow> Failure 409 ''TARGET_ALIAS_CONFLICT''
    | ConnectorTargetDisabledError \<Rightarrow> Failure 409 ''TARGET_DISABLED''
    | ConnectorTargetRepositoryNotFoundError \<Rightarrow> Failure 409 ''TARGET_REPOSITORY_NOT_FOUND''
    | ConnectorNotFoundError \<Rightarrow> Failure 404 ''WORKSPACE_NOT_FOUND''
    | ConnectorValidationError \<Rightarrow> Failure 400 ''INVALID_REQUEST''
    | ConnectorDeviceRevokedError \<Rightarrow> Failure 403 ''DEVICE_NOT_ELIGIBLE''
    | _ \<Rightarrow> Rethrown e)"

definition registration_of :: "device_id \<Rightarrow> parsed_register \<Rightarrow> register_input" where
  "registration_of d p = \<lparr>rg_device_id = d, rg_workspace_id = pr_workspace_id p, rg_alias = pr_alias p, rg_display_name = pr_display_name p,
     rg_kind = pr_kind p, rg_source = pr_source p, rg_provider = pr_provider p, rg_full_name = pr_full_name p\<rparr>"

definition register_body :: "registration \<Rightarrow> api_response" where
  "register_body x = Reply (if rr_target_created x then 201 else 200) (obj
     [(''target'', target_body (rr_target x)),
      (''binding'', obj [(''id'', JStr (b_id (rr_binding x))), (''enabled'', JBool (b_disabled_at_ms (rr_binding x) = None))]),
      (''target_created'', JBool (rr_target_created x)), (''binding_created'', JBool (rr_binding_created x)), (''replayed'', JBool (rr_replayed x))])"

definition register_route ::
  "(string \<Rightarrow> digest) \<Rightarrow> (string \<Rightarrow> string) \<Rightarrow> (nat \<Rightarrow> int) \<Rightarrow> string option \<Rightarrow> target_id \<Rightarrow> binding_id \<Rightarrow> json option \<Rightarrow> control_db \<Rightarrow> control_db \<times> api_response" where
  "register_route sha lc clock header newTarget newBinding body db = with_device sha (clock 0) header db (\<lambda>a.
     case parseRegisterTargetInput lc body of
       None \<Rightarrow> (db, Failure 400 ''INVALID_REQUEST'')
     | Some p \<Rightarrow> answer db register_error register_body
         (registerExecutionTargetForDevice lc (clock 1) newTarget newBinding (registration_of (di_device_id a) p) db))"

definition attach_error :: "connector_error \<Rightarrow> api_response" where
  "attach_error e = (case e of
      ConnectorPermissionError \<Rightarrow> Failure 403 ''DEVICE_NOT_ELIGIBLE''
    | ConnectorTargetConflictError \<Rightarrow> Failure 409 ''TARGET_REPOSITORY_CONFLICT''
    | ConnectorTargetDisabledError \<Rightarrow> Failure 409 ''TARGET_DISABLED''
    | ConnectorNotFoundError \<Rightarrow> Failure 404 ''TARGET_NOT_FOUND''
    | ConnectorValidationError \<Rightarrow> Failure 400 ''INVALID_REQUEST''
    | ConnectorDeviceRevokedError \<Rightarrow> Failure 403 ''DEVICE_NOT_ELIGIBLE''
    | _ \<Rightarrow> Rethrown e)"

definition attach_route ::
  "(string \<Rightarrow> digest) \<Rightarrow> (string \<Rightarrow> string) \<Rightarrow> (nat \<Rightarrow> int) \<Rightarrow> string option \<Rightarrow> target_id \<Rightarrow> json option \<Rightarrow> control_db \<Rightarrow> control_db \<times> api_response" where
  "attach_route sha lc clock header targetId body db = with_device sha (clock 0) header db (\<lambda>a.
     case parseAttachTargetRepositoryInput lc targetId body of
       None \<Rightarrow> (db, Failure 400 ''INVALID_REQUEST'')
     | Some p \<Rightarrow> answer db attach_error (\<lambda>(r, replayed). Reply 200 (obj [(''ok'', JBool True), (''target'', target_body r), (''replayed'', JBool replayed)]))
         (attachRepositoryIdentityToTarget lc (clock 1) (di_device_id a) (pa_workspace_id p) (pa_target_id p) (pa_provider p) (pa_full_name p) db))"

section \<open>Bindings, defaults and aliases\<close>

definition bind_error :: "connector_error \<Rightarrow> api_response" where
  "bind_error e = (case e of
      ConnectorNotFoundError \<Rightarrow> Failure 404 ''TARGET_NOT_FOUND''
    | ConnectorTargetDisabledError \<Rightarrow> Failure 409 ''TARGET_DISABLED''
    | ConnectorDeviceRevokedError \<Rightarrow> Failure 403 ''DEVICE_NOT_ELIGIBLE''
    | ConnectorPermissionError \<Rightarrow> Failure 403 ''DEVICE_NOT_ELIGIBLE''
    | _ \<Rightarrow> Rethrown e)"

definition bind_route ::
  "(string \<Rightarrow> digest) \<Rightarrow> (nat \<Rightarrow> int) \<Rightarrow> string option \<Rightarrow> binding_id \<Rightarrow> target_id \<Rightarrow> json option \<Rightarrow> control_db \<Rightarrow> control_db \<times> api_response" where
  "bind_route sha clock header newId targetId body db = with_device sha (clock 0) header db (\<lambda>a.
     if targetId = [] then (db, Failure 404 ''TARGET_NOT_FOUND'')
     else if body_keys body > 0 then (db, Failure 400 ''INVALID_REQUEST'')
     else answer db bind_error (\<lambda>(b, replayed). Reply 200 (obj
            [(''target_id'', JStr targetId), (''binding_id'', JStr (b_id b)), (''enabled'', JBool (b_disabled_at_ms b = None)), (''replayed'', JBool replayed)]))
          (bindTargetForDevice (clock 1) newId (di_device_id a) targetId db))"

definition unbind_route ::
  "(string \<Rightarrow> digest) \<Rightarrow> (nat \<Rightarrow> int) \<Rightarrow> string option \<Rightarrow> target_id \<Rightarrow> json option \<Rightarrow> control_db \<Rightarrow> control_db \<times> api_response" where
  "unbind_route sha clock header targetId body db = with_device sha (clock 0) header db (\<lambda>a.
     if targetId = [] then (db, Failure 404 ''TARGET_NOT_FOUND'')
     else if body_keys body > 0 then (db, Failure 400 ''INVALID_REQUEST'')
     else answer db catalogue_error (\<lambda>_. Reply 200 (obj [(''ok'', JBool True)])) (unbindTargetForDevice (clock 1) (di_device_id a) targetId db))"

definition default_runtime_route ::
  "(string \<Rightarrow> digest) \<Rightarrow> (nat \<Rightarrow> int) \<Rightarrow> string option \<Rightarrow> target_id \<Rightarrow> json option \<Rightarrow> control_db \<Rightarrow> control_db \<times> api_response" where
  "default_runtime_route sha clock header targetId body db = with_device sha (clock 0) header db (\<lambda>a.
     if targetId = [] then (db, Failure 404 ''TARGET_NOT_FOUND'')
     else if body_keys body > 0 then (db, Failure 400 ''INVALID_REQUEST'')
     else case getExecutionTarget db targetId of
         None \<Rightarrow> (db, Failure 404 ''TARGET_NOT_FOUND'')
       | Some r \<Rightarrow>
          if membership_of db (t_workspace_id r) (di_user_id a) = None then (db, Failure 404 ''TARGET_NOT_FOUND'')
          else answer db bind_error (\<lambda>(d, replayed). Reply 200 (obj
                 [(''ok'', JBool True), (''workspace_id'', JStr (df_workspace_id d)), (''target_id'', JStr (df_target_id d)),
                  (''is_default_agent_runtime'', JBool True), (''replayed'', JBool replayed), (''updated_at_ms'', jint (df_updated_at_ms d))]))
               (setDefaultAgentRuntimeTarget (clock 1) (t_workspace_id r) targetId (di_user_id a) db))"

definition rename_error :: "connector_error \<Rightarrow> api_response" where
  "rename_error e = (case e of
      ConnectorNotFoundError \<Rightarrow> Failure 404 ''TARGET_NOT_FOUND''
    | ConnectorTargetConflictError \<Rightarrow> Failure 409 ''TARGET_ALIAS_CONFLICT''
    | ConnectorDeviceRevokedError \<Rightarrow> Failure 403 ''DEVICE_NOT_ELIGIBLE''
    | ConnectorPermissionError \<Rightarrow> Failure 403 ''DEVICE_NOT_ELIGIBLE''
    | ConnectorValidationError \<Rightarrow> Failure 400 ''INVALID_REQUEST''
    | _ \<Rightarrow> Rethrown e)"

text \<open>The body \<^verbatim>\<open>{ "alias": text }\<close> and nothing else.\<close>

definition rename_alias :: "json option \<Rightarrow> string option" where
  "rename_alias body = (case body of
      Some (JObj m) \<Rightarrow> if fmdom m \<noteq> {|''alias''|} then None
        else (case as_str (jfield m ''alias'') of None \<Rightarrow> None | Some s \<Rightarrow> if js_trim s = [] then None else Some s)
    | _ \<Rightarrow> None)"

definition rename_route ::
  "(string \<Rightarrow> digest) \<Rightarrow> (string \<Rightarrow> string) \<Rightarrow> (nat \<Rightarrow> int) \<Rightarrow> string option \<Rightarrow> target_id \<Rightarrow> json option \<Rightarrow> control_db \<Rightarrow> control_db \<times> api_response" where
  "rename_route sha lc clock header targetId body db = with_device sha (clock 0) header db (\<lambda>a.
     if targetId = [] then (db, Failure 404 ''TARGET_NOT_FOUND'')
     else case rename_alias body of
         None \<Rightarrow> (db, Failure 400 ''INVALID_REQUEST'')
       | Some alias \<Rightarrow> answer db rename_error (\<lambda>(r, previous, replayed). Reply 200 (obj
             [(''ok'', JBool True), (''target_id'', JStr (t_id r)), (''previous_alias'', JStr previous), (''alias'', JStr (t_alias r)),
              (''replayed'', JBool replayed), (''updated_at_ms'', jint (t_updated_at_ms r))]))
           (renameExecutionTarget lc (clock 1) targetId alias (di_user_id a) db))"

section \<open>Deletion\<close>

text \<open>
  The answers of the delete route; \<open>None\<close> when the deletion does not return. \<open>queue\<close> says whether a job queue is configured.
\<close>

definition delete_answer :: "delete_error + delete_outcome \<Rightarrow> api_response" where
  "delete_answer r = (case r of
      Inr o' \<Rightarrow> Reply 200 (obj [(''ok'', JBool True), (''target_id'', JStr (dl_target_id o')), (''outcome'', JStr (dl_outcome o')),
         (''terminal_job_count'', jint (int (dl_terminal_job_count o')))])
    | Inl (TargetDeleteInProgressError _) \<Rightarrow> Failure 409 ''TARGET_DELETE_IN_PROGRESS''
    | Inl (TargetDeleteBlockedError _ _) \<Rightarrow> Failure 409 ''TARGET_DELETE_BLOCKED''
    | Inl (JobStoreFailure _) \<Rightarrow> Failure 503 ''QUEUE_UNAVAILABLE''
    | Inl (ControlFailure e) \<Rightarrow> catalogue_error e)"

definition delete_confirmed :: "json option \<Rightarrow> bool" where
  "delete_confirmed body = (case body of Some (JObj m) \<Rightarrow> fcard (fmdom m) = 1 \<and> jfield m ''confirm'' = Some (JBool True) | _ \<Rightarrow> False)"

definition delete_route ::
  "(string \<Rightarrow> digest) \<Rightarrow> delete_env \<Rightarrow> bool \<Rightarrow> string option \<Rightarrow> target_id \<Rightarrow> json option \<Rightarrow> string \<Rightarrow> world \<Rightarrow> (world \<times> api_response) option" where
  "delete_route sha E queue header targetId body token w = (case authenticate sha (date_now E w) header (w_control w) of
      None \<Rightarrow> Some (w, Failure 401 ''unauthorized'')
    | Some a \<Rightarrow>
       if targetId = [] then Some (w, Failure 404 ''TARGET_NOT_FOUND'')
       else if \<not> delete_confirmed body then Some (w, Failure 400 ''INVALID_REQUEST'')
       else if \<not> queue then Some (w, Failure 503 ''QUEUE_UNAVAILABLE'')
       else map_option (\<lambda>(w', r). (w', delete_answer r)) (deleteTargetForDevice E targetId (di_user_id a) token w))"

end
