(* ===== verification/Enrollment_Store.thy ===== *)
theory Enrollment_Store
  imports Control_Store "HOL-Library.AList"
begin

text \<open>
  Enrollment sessions of devices: \<^verbatim>\<open>connector/enrollment-store.ts\<close>, a store in the memory of the server. A JavaScript
  \<^verbatim>\<open>Map\<close> is an association list in insertion order; the two indexes map user codes and digests of device codes
  to enrollment ids. Random bytes and identifiers are arguments.
\<close>

section \<open>User codes\<close>

definition CROCKFORD_BASE32_ALPHABET :: string where "CROCKFORD_BASE32_ALPHABET = ''23456789ABCDEFGHJKMNPQRSTVWXYZ''"
definition MAX_ACTIVE_ENROLLMENTS :: nat where "MAX_ACTIVE_ENROLLMENTS = 1024"
definition DEVICE_ENROLLMENT_TTL_MS :: int where "DEVICE_ENROLLMENT_TTL_MS = 10 * 60 * 1000"
definition DEVICE_CREDENTIAL_TTL_MS :: int where "DEVICE_CREDENTIAL_TTL_MS = 365 * 24 * 60 * 60 * 1000"
definition POLL_INTERVAL_MS :: int where "POLL_INTERVAL_MS = 2000"

definition code_chars :: "string \<Rightarrow> bool" where
  "code_chars s = list_all (\<lambda>c. c \<in> set CROCKFORD_BASE32_ALPHABET) s"

definition USER_CODE_RE :: "string \<Rightarrow> bool" where
  "USER_CODE_RE s \<longleftrightarrow> length s = 9 \<and> code_chars (take 4 s) \<and> s ! 4 = CHR ''-'' \<and> code_chars (drop 5 s)"

datatype enrollment_error = DeviceEnrollmentCapacityError | DeviceEnrollmentValidationError

text \<open>
  \<^verbatim>\<open>uc\<close> is \<^verbatim>\<open>toUpperCase\<close>. Cutting after four bytes differs from cutting after four UTF-16 units only for
  texts that the pattern refuses anyway.
\<close>

definition normalizeDeviceUserCode :: "(string \<Rightarrow> string) \<Rightarrow> string \<Rightarrow> enrollment_error + string" where
  "normalizeDeviceUserCode uc raw =
     (let s = uc (js_trim raw);
          s' = (if js_length s = 8 \<and> CHR ''-'' \<notin> set s then take 4 s @ ''-'' @ drop 4 s else s)
      in if USER_CODE_RE s' then Inr s' else Inl DeviceEnrollmentValidationError)"

text \<open>Eight random bytes to a code.\<close>

definition generateUserCode :: "nat list \<Rightarrow> string" where
  "generateUserCode bytes =
     (let cs = map (\<lambda>b. CROCKFORD_BASE32_ALPHABET ! (b mod length CROCKFORD_BASE32_ALPHABET)) bytes
      in take 4 cs @ ''-'' @ drop 4 cs)"

section \<open>Enrollments\<close>

datatype enrollment_state = EN_pending | EN_approved | EN_denied | EN_consumed

record enrollment =
  en_enrollment_id :: string
  en_device_code_digest :: digest
  en_user_code :: string
  en_reserved_device_id :: device_id
  en_reserved_credential_id :: string
  en_display_name :: string
  en_platform :: string
  en_credential_secret_digest :: digest
  en_state :: enrollment_state
  en_approved_user_id :: "user_id option"
  en_consent_nonce_digest :: "digest option"
  en_created_at_ms :: int
  en_expires_at_ms :: int
  en_approved_at_ms :: "int option"
  en_consumed_at_ms :: "int option"
  en_last_poll_at_ms :: "int option"

record enrollment_store =
  es_max_active :: nat
  es_default_ttl_ms :: int
  es_enrollments :: "(string \<times> enrollment) list"
  es_user_codes :: "(string \<times> string) list"
  es_device_codes :: "(digest \<times> string) list"

definition purgeExpired :: "int \<Rightarrow> enrollment_store \<Rightarrow> enrollment_store \<times> nat" where
  "purgeExpired now s =
     (let old = filter (\<lambda>e. now > en_expires_at_ms (snd e)) (es_enrollments s) in
      (s\<lparr>es_enrollments := filter (\<lambda>e. \<not> now > en_expires_at_ms (snd e)) (es_enrollments s),
         es_user_codes := filter (\<lambda>c. fst c \<notin> set (map (\<lambda>e. en_user_code (snd e)) old)) (es_user_codes s),
         es_device_codes := filter (\<lambda>c. fst c \<notin> set (map (\<lambda>e. en_device_code_digest (snd e)) old)) (es_device_codes s)\<rparr>,
       length old))"

record begin_input =
  bi_display_name :: string
  bi_platform :: string
  bi_credential_secret_digest :: string
  bi_ttl_ms :: "int option"

text \<open>What is drawn at random: a sequence of user codes, the device code and three UUIDs.\<close>

record draws =
  dr_bytes :: "nat \<Rightarrow> nat list"
  dr_device_code :: string
  dr_enrollment_uuid :: string
  dr_device_uuid :: string
  dr_credential_uuid :: string

text \<open>Codes are drawn until one is free; \<open>None\<close> when none ever is.\<close>

partial_function (option) fresh_user_code :: "(nat \<Rightarrow> nat list) \<Rightarrow> (string \<times> string) list \<Rightarrow> nat \<Rightarrow> string option" where
  "fresh_user_code bytes taken n =
     (if map_of taken (generateUserCode (bytes n)) = None then Some (generateUserCode (bytes n))
      else fresh_user_code bytes taken (Suc n))"

definition VALID_PLATFORMS :: "string list" where "VALID_PLATFORMS = [''linux'', ''windows'', ''macos'']"

definition new_enrollment :: "(string \<Rightarrow> digest) \<Rightarrow> (string \<Rightarrow> string) \<Rightarrow> int \<Rightarrow> int \<Rightarrow> begin_input \<Rightarrow> draws \<Rightarrow> string \<Rightarrow> enrollment" where
  "new_enrollment sha lc now ttl i dr userCode =
     \<lparr>en_enrollment_id = ''enr_'' @ dr_enrollment_uuid dr, en_device_code_digest = sha (dr_device_code dr), en_user_code = userCode,
      en_reserved_device_id = ''dev_'' @ dr_device_uuid dr, en_reserved_credential_id = ''dcr_'' @ dr_credential_uuid dr,
      en_display_name = js_trim (bi_display_name i), en_platform = lc (js_trim (bi_platform i)),
      en_credential_secret_digest = bi_credential_secret_digest i, en_state = EN_pending, en_approved_user_id = None,
      en_consent_nonce_digest = None, en_created_at_ms = now, en_expires_at_ms = now + ttl,
      en_approved_at_ms = None, en_consumed_at_ms = None, en_last_poll_at_ms = None\<rparr>"

definition add_enrollment :: "enrollment \<Rightarrow> enrollment_store \<Rightarrow> enrollment_store" where
  "add_enrollment e s = s\<lparr>es_enrollments := AList.update (en_enrollment_id e) e (es_enrollments s),
     es_user_codes := AList.update (en_user_code e) (en_enrollment_id e) (es_user_codes s),
     es_device_codes := AList.update (en_device_code_digest e) (en_enrollment_id e) (es_device_codes s)\<rparr>"

definition createEnrollment ::
  "(string \<Rightarrow> digest) \<Rightarrow> (string \<Rightarrow> string) \<Rightarrow> int \<Rightarrow> begin_input \<Rightarrow> draws \<Rightarrow> enrollment_store \<Rightarrow> (enrollment_store \<times> (enrollment_error + enrollment)) option" where
  "createEnrollment sha lc now i dr s =
     (if js_trim (bi_display_name i) = [] \<or> js_length (js_trim (bi_display_name i)) > 128 then Some (s, Inl DeviceEnrollmentValidationError)
      else if lc (js_trim (bi_platform i)) \<notin> set VALID_PLATFORMS then Some (s, Inl DeviceEnrollmentValidationError)
      else if \<not> HEX_64_RE (bi_credential_secret_digest i) then Some (s, Inl DeviceEnrollmentValidationError)
      else let s1 = fst (purgeExpired now s) in
        if es_max_active s1 \<le> length (es_enrollments s1) then Some (s1, Inl DeviceEnrollmentCapacityError)
        else (case fresh_user_code (dr_bytes dr) (es_user_codes s1) 0 of
            None \<Rightarrow> None
          | Some userCode \<Rightarrow>
             let e = new_enrollment sha lc now (case bi_ttl_ms i of None \<Rightarrow> es_default_ttl_ms s | Some t \<Rightarrow> t) i dr userCode
             in Some (add_enrollment e s1, Inr e)))"

section \<open>Lookups\<close>

definition getEnrollment :: "enrollment_store \<Rightarrow> string \<Rightarrow> enrollment option" where
  "getEnrollment s i = map_of (es_enrollments s) i"

text \<open>An index lookup; an empty id counts as absent.\<close>

definition indexed_enrollment :: "enrollment_store \<Rightarrow> string option \<Rightarrow> enrollment option" where
  "indexed_enrollment s i = (case i of None \<Rightarrow> None | Some i \<Rightarrow> if i = [] then None else getEnrollment s i)"

definition unexpired :: "int \<Rightarrow> enrollment option \<Rightarrow> enrollment option" where
  "unexpired now e = (case e of None \<Rightarrow> None | Some e \<Rightarrow> if now > en_expires_at_ms e then None else Some e)"

definition findByUserCode :: "(string \<Rightarrow> string) \<Rightarrow> int \<Rightarrow> enrollment_store \<Rightarrow> string \<Rightarrow> enrollment_error + enrollment option" where
  "findByUserCode uc now s code = ebind (normalizeDeviceUserCode uc code) (\<lambda>n.
     Inr (unexpired now (indexed_enrollment s (map_of (es_user_codes s) n))))"

definition findByDeviceCodeDigest :: "int \<Rightarrow> enrollment_store \<Rightarrow> digest \<Rightarrow> enrollment option" where
  "findByDeviceCodeDigest now s d = unexpired now (indexed_enrollment s (map_of (es_device_codes s) d))"

definition lookupByDeviceCodeDigest :: "enrollment_store \<Rightarrow> digest \<Rightarrow> enrollment option" where
  "lookupByDeviceCodeDigest s d = indexed_enrollment s (map_of (es_device_codes s) d)"

section \<open>Changes of an enrollment\<close>

definition modify_enrollment :: "string \<Rightarrow> (enrollment \<Rightarrow> enrollment) \<Rightarrow> enrollment_store \<Rightarrow> enrollment_store" where
  "modify_enrollment i f s = s\<lparr>es_enrollments := map (\<lambda>(k, e). (k, if k = i then f e else e)) (es_enrollments s)\<rparr>"

definition setConsentNonce :: "string \<Rightarrow> digest \<Rightarrow> enrollment_store \<Rightarrow> enrollment_store \<times> bool" where
  "setConsentNonce i nonceDigest s =
     (if getEnrollment s i = None then (s, False)
      else (modify_enrollment i (\<lambda>e. e\<lparr>en_consent_nonce_digest := Some nonceDigest\<rparr>) s, True))"

definition approve :: "string \<Rightarrow> user_id \<Rightarrow> int \<Rightarrow> enrollment_store \<Rightarrow> enrollment_store \<times> bool" where
  "approve i userId now s = (case getEnrollment s i of
      None \<Rightarrow> (s, False)
    | Some e \<Rightarrow>
       if en_state e \<noteq> EN_pending then (s, False)
       else if now > en_expires_at_ms e then (s, False)
       else (modify_enrollment i (\<lambda>e. e\<lparr>en_state := EN_approved, en_approved_user_id := Some userId, en_approved_at_ms := Some now\<rparr>) s, True))"

definition deny :: "string \<Rightarrow> enrollment_store \<Rightarrow> enrollment_store \<times> bool" where
  "deny i s = (case getEnrollment s i of
      None \<Rightarrow> (s, False)
    | Some e \<Rightarrow>
       if en_state e \<noteq> EN_pending then (s, False)
       else (modify_enrollment i (\<lambda>e. e\<lparr>en_state := EN_denied\<rparr>) s, True))"

definition markConsumed :: "string \<Rightarrow> int \<Rightarrow> enrollment_store \<Rightarrow> enrollment_store \<times> bool" where
  "markConsumed i now s = (case getEnrollment s i of
      None \<Rightarrow> (s, False)
    | Some e \<Rightarrow>
       if en_state e = EN_consumed then (s, True)
       else if en_state e \<noteq> EN_approved then (s, False)
       else (modify_enrollment i (\<lambda>e. e\<lparr>en_state := EN_consumed, en_consumed_at_ms := Some now\<rparr>) s, True))"

text \<open>Polling: a poll at time 0 does not count, since 0 is falsy.\<close>

definition polled_too_soon :: "int \<Rightarrow> enrollment \<Rightarrow> bool" where
  "polled_too_soon now e = (case en_last_poll_at_ms e of None \<Rightarrow> False | Some t \<Rightarrow> t \<noteq> 0 \<and> now - t < POLL_INTERVAL_MS)"

definition checkAndRecordPoll :: "string \<Rightarrow> int \<Rightarrow> enrollment_store \<Rightarrow> enrollment_store \<times> bool" where
  "checkAndRecordPoll i now s = (case getEnrollment s i of
      None \<Rightarrow> (s, False)
    | Some e \<Rightarrow> (modify_enrollment i (\<lambda>e. e\<lparr>en_last_poll_at_ms := Some now\<rparr>) s, polled_too_soon now e))"

definition enrollment_count :: "enrollment_store \<Rightarrow> nat" where
  "enrollment_count s = length (es_enrollments s)"

definition clear_enrollments :: "enrollment_store \<Rightarrow> enrollment_store" where
  "clear_enrollments s = s\<lparr>es_enrollments := [], es_user_codes := [], es_device_codes := []\<rparr>"

end
