(* ===== verification/Enrollment_Flow.thy ===== *)
theory Enrollment_Flow
  imports Enrollment_Store
begin

text \<open>
  The enrollment of a device over HTTP: sessions of users (\<^verbatim>\<open>auth/user-session.ts\<close>) and the four enrollment routes
  of \<^verbatim>\<open>connector/router.ts\<close>. The handlers are synchronous. One that reads the clock several times takes the readings as
  a function: \<open>clock 0\<close> is the first.
\<close>

section \<open>Sessions\<close>

record user_session =
  us_session_id :: string
  us_user_id :: user_id
  us_provider :: string
  us_provider_subject :: string
  us_provider_login :: "string option"
  us_expires_at :: int

record session_manager =
  sm_ttl_ms :: int
  sm_sessions :: "(string \<times> user_session) list"

definition DEFAULT_TTL_MS :: int where "DEFAULT_TTL_MS = 12 * 60 * 60 * 1000"

definition createSession ::
  "string \<Rightarrow> (nat \<Rightarrow> int) \<Rightarrow> user_id \<Rightarrow> string \<Rightarrow> string \<Rightarrow> string option \<Rightarrow> session_manager \<Rightarrow> session_manager \<times> user_session" where
  "createSession sessionId clock userId provider subject login m =
     (let s = \<lparr>us_session_id = sessionId, us_user_id = userId, us_provider = provider, us_provider_subject = subject,
                us_provider_login = login, us_expires_at = clock 0 + sm_ttl_ms m\<rparr>;
          all = AList.update sessionId s (sm_sessions m)
      in (m\<lparr>sm_sessions := (if length all > 1000 then filter (\<lambda>x. \<not> clock 1 > us_expires_at (snd x)) all else all)\<rparr>, s))"

definition getSessionFromToken :: "int \<Rightarrow> string option \<Rightarrow> session_manager \<Rightarrow> session_manager \<times> user_session option" where
  "getSessionFromToken now token m = (case token of
      None \<Rightarrow> (m, None)
    | Some t \<Rightarrow>
       if t = [] then (m, None)
       else (case map_of (sm_sessions m) t of
           None \<Rightarrow> (m, None)
         | Some s \<Rightarrow>
            if now > us_expires_at s then (m\<lparr>sm_sessions := AList.delete t (sm_sessions m)\<rparr>, None)
            else (m, Some s)))"

definition destroySession :: "string \<Rightarrow> session_manager \<Rightarrow> session_manager" where
  "destroySession t m = m\<lparr>sm_sessions := AList.delete t (sm_sessions m)\<rparr>"

section \<open>The state behind the routes\<close>

record flow =
  fl_enrollments :: enrollment_store
  fl_control :: control_db
  fl_sessions :: session_manager

text \<open>A session of an active user.\<close>

definition session_user :: "int \<Rightarrow> string option \<Rightarrow> flow \<Rightarrow> flow \<times> user_id option" where
  "session_user now token f = (case getSessionFromToken now token (fl_sessions f) of (m, s) \<Rightarrow>
     (f\<lparr>fl_sessions := m\<rparr>, case s of None \<Rightarrow> None | Some s \<Rightarrow> if active_user (fl_control f) (us_user_id s) then Some (us_user_id s) else None))"

section \<open>Begin\<close>

datatype begin_response =
    BeginOk string string device_id string int
  | BeginUnavailable
  | BeginInvalid

definition begin_route ::
  "(string \<Rightarrow> digest) \<Rightarrow> (string \<Rightarrow> string) \<Rightarrow> int \<Rightarrow> begin_input \<Rightarrow> draws \<Rightarrow> flow \<Rightarrow> (flow \<times> begin_response) option" where
  "begin_route sha lc now i dr f = (case createEnrollment sha lc now (i\<lparr>bi_ttl_ms := None\<rparr>) dr (fl_enrollments f) of
      None \<Rightarrow> None
    | Some (s, r) \<Rightarrow> Some (f\<lparr>fl_enrollments := s\<rparr>, case r of
        Inl DeviceEnrollmentCapacityError \<Rightarrow> BeginUnavailable
      | Inl DeviceEnrollmentValidationError \<Rightarrow> BeginInvalid
      | Inr e \<Rightarrow> BeginOk (dr_device_code dr) (en_user_code e) (en_reserved_device_id e) (en_reserved_credential_id e)
          ((en_expires_at_ms e - en_created_at_ms e) div 1000)))"

section \<open>Poll\<close>

text \<open>The answers with status 400 carry a code; an issued token shows the device and the credential.\<close>

datatype token_response =
    TokenError string
  | TokenIssued device_row credential_row bool
  | TokenInternalError

definition enrollment_finalization :: "int \<Rightarrow> enrollment \<Rightarrow> enrollment_input" where
  "enrollment_finalization now e =
     \<lparr>ei_device_id = en_reserved_device_id e, ei_credential_id = en_reserved_credential_id e,
      ei_user_id = the (en_approved_user_id e), ei_display_name = en_display_name e, ei_platform = en_platform e,
      ei_secret_digest = en_credential_secret_digest e, ei_issued_at_ms = now, ei_expires_at_ms = now + DEVICE_CREDENTIAL_TTL_MS\<rparr>"

definition answer_poll :: "(string \<Rightarrow> string) \<Rightarrow> (nat \<Rightarrow> int) \<Rightarrow> enrollment \<Rightarrow> flow \<Rightarrow> flow \<times> token_response" where
  "answer_poll lc clock e f = (case en_state e of
      EN_pending \<Rightarrow> (f, TokenError ''authorization_pending'')
    | EN_denied \<Rightarrow> (f, TokenError ''access_denied'')
    | EN_approved \<Rightarrow>
        (case finalizeDeviceEnrollment lc (enrollment_finalization (clock 2) e) (fl_control f) of
           Inl _ \<Rightarrow> (f, TokenInternalError)
         | Inr (c, device, credential, replayed) \<Rightarrow>
            (f\<lparr>fl_control := c, fl_enrollments := fst (markConsumed (en_enrollment_id e) (clock 3) (fl_enrollments f))\<rparr>,
             TokenIssued device credential replayed))
    | EN_consumed \<Rightarrow>
        (case (getDevice (fl_control f) (en_reserved_device_id e), getDeviceCredential (fl_control f) (en_reserved_credential_id e)) of
           (Some device, Some credential) \<Rightarrow> (f, TokenIssued device credential True)
         | _ \<Rightarrow> (f, TokenError ''invalid_grant'')))"

definition token_route :: "(string \<Rightarrow> digest) \<Rightarrow> (string \<Rightarrow> string) \<Rightarrow> (nat \<Rightarrow> int) \<Rightarrow> string \<Rightarrow> flow \<Rightarrow> flow \<times> token_response" where
  "token_route sha lc clock deviceCode f =
     (if deviceCode = [] then (f, TokenError ''invalid_request'')
      else case lookupByDeviceCodeDigest (fl_enrollments f) (sha (js_trim deviceCode)) of
        None \<Rightarrow> (f, TokenError ''enrollment_not_found'')
      | Some e \<Rightarrow>
         if clock 0 > en_expires_at_ms e then (f, TokenError ''expired_token'')
         else (case checkAndRecordPoll (en_enrollment_id e) (clock 1) (fl_enrollments f) of (s, slowDown) \<Rightarrow>
           let f1 = f\<lparr>fl_enrollments := s\<rparr> in
           if slowDown then (f1, TokenError ''slow_down'') else answer_poll lc clock e f1))"

section \<open>The approval page\<close>

datatype page_response =
    PageBadRequest
  | PageLogin string
  | PageNotFound
  | PageDenied
  | PageAuthorized
  | PageConflict
  | PageConsent string string string

definition page_route ::
  "(string \<Rightarrow> digest) \<Rightarrow> (string \<Rightarrow> string) \<Rightarrow> (nat \<Rightarrow> int) \<Rightarrow> string option \<Rightarrow> string \<Rightarrow> string option \<Rightarrow> flow \<Rightarrow> flow \<times> page_response" where
  "page_route sha uc clock sessionToken nonce rawCode f = (case rawCode of
      None \<Rightarrow> (f, PageBadRequest)
    | Some raw \<Rightarrow>
       if raw = [] then (f, PageBadRequest)
       else (case normalizeDeviceUserCode uc raw of
          Inl _ \<Rightarrow> (f, PageBadRequest)
        | Inr userCode \<Rightarrow>
           (case session_user (clock 0) sessionToken f of
              (f1, None) \<Rightarrow> (f1, PageLogin userCode)
            | (f1, Some user) \<Rightarrow>
               (case findByUserCode uc (clock 1) (fl_enrollments f1) userCode of
                  Inl _ \<Rightarrow> (f1, PageNotFound)
                | Inr None \<Rightarrow> (f1, PageNotFound)
                | Inr (Some e) \<Rightarrow>
                   (case en_state e of
                      EN_denied \<Rightarrow> (f1, PageDenied)
                    | EN_pending \<Rightarrow>
                       (f1\<lparr>fl_enrollments := fst (setConsentNonce (en_enrollment_id e) (sha nonce) (fl_enrollments f1))\<rparr>,
                        PageConsent (en_enrollment_id e) (en_user_code e) nonce)
                    | _ \<Rightarrow> (f1, if en_approved_user_id e = Some user then PageAuthorized else PageConflict))))))"

section \<open>The decision\<close>

datatype decision_response =
    DecisionUnauthorized
  | DecisionBadRequest
  | DecisionNotFound
  | DecisionAuthorized
  | DecisionNotPending
  | DecisionNonceFailed
  | DecisionApproved string user_id
  | DecisionDenied string

text \<open>
  The digests of the nonces are compared as texts: \<^verbatim>\<open>Buffer.from(_, "hex")\<close> is injective on the 64 hexadecimal digits a
  digest has.
\<close>

definition decision_route ::
  "(string \<Rightarrow> digest) \<Rightarrow> (string \<Rightarrow> string) \<Rightarrow> (nat \<Rightarrow> int) \<Rightarrow> string option \<Rightarrow> string option \<Rightarrow> string option \<Rightarrow> string option \<Rightarrow> flow \<Rightarrow> flow \<times> decision_response" where
  "decision_route sha uc clock sessionToken rawUserCode consentNonce decision f = (case session_user (clock 0) sessionToken f of
      (f1, None) \<Rightarrow> (f1, DecisionUnauthorized)
    | (f1, Some user) \<Rightarrow>
       (case (rawUserCode, consentNonce) of
          (Some raw, Some nonce) \<Rightarrow>
            if raw = [] \<or> nonce = [] then (f1, DecisionBadRequest)
            else (case normalizeDeviceUserCode uc raw of
               Inl _ \<Rightarrow> (f1, DecisionBadRequest)
             | Inr userCode \<Rightarrow>
                (case findByUserCode uc (clock 1) (fl_enrollments f1) userCode of
                   Inl _ \<Rightarrow> (f1, DecisionNotFound)
                 | Inr None \<Rightarrow> (f1, DecisionNotFound)
                 | Inr (Some e) \<Rightarrow>
                    if en_state e \<noteq> EN_pending
                    then (f1, if en_state e = EN_approved \<and> en_approved_user_id e = Some user then DecisionAuthorized else DecisionNotPending)
                    else (case en_consent_nonce_digest e of
                       None \<Rightarrow> (f1, DecisionBadRequest)
                     | Some stored \<Rightarrow>
                        if stored = [] then (f1, DecisionBadRequest)
                        else if sha nonce \<noteq> stored then (f1, DecisionNonceFailed)
                        else if decision = Some ''approve''
                        then (f1\<lparr>fl_enrollments := fst (approve (en_enrollment_id e) user (clock 2) (fl_enrollments f1))\<rparr>,
                              DecisionApproved (en_enrollment_id e) user)
                        else if decision = Some ''deny''
                        then (f1\<lparr>fl_enrollments := fst (deny (en_enrollment_id e) (fl_enrollments f1))\<rparr>, DecisionDenied (en_enrollment_id e))
                        else (f1, DecisionBadRequest))))
        | _ \<Rightarrow> (f1, DecisionBadRequest)))"

end
