(* ===== verification/Enrollment_Invariant.thy ===== *)
theory Enrollment_Invariant
  imports Enrollment_Flow
begin

text \<open>
  The invariant of the enrollment store: both indexes agree with the enrollments, user codes have the format
  and are unique, and the store never holds more enrollments than allowed. Every operation keeps it.
\<close>

section \<open>Indexes\<close>

text \<open>An index maps the key of every entry to the id of the entry, and nothing else.\<close>

definition index_agrees :: "('e \<Rightarrow> 'k) \<Rightarrow> (string \<rightharpoonup> 'e) \<Rightarrow> ('k \<rightharpoonup> string) \<Rightarrow> bool" where
  "index_agrees key E I \<longleftrightarrow> (\<forall>k i. I k = Some i \<longleftrightarrow> (\<exists>e. E i = Some e \<and> key e = k))"

lemma index_agreesD:
  "index_agrees key E I \<Longrightarrow> E i = Some e \<Longrightarrow> I (key e) = Some i"
  "index_agrees key E I \<Longrightarrow> I k = Some i \<Longrightarrow> \<exists>e. E i = Some e \<and> key e = k"
  by (auto simp: index_agrees_def)

lemma index_agrees_empty: "index_agrees key Map.empty Map.empty"
  by (simp add: index_agrees_def)

lemma index_agrees_add:
  assumes "index_agrees key E I" "E i = None" "I (key e) = None"
  shows "index_agrees key (E(i \<mapsto> e)) (I(key e \<mapsto> i))"
  unfolding index_agrees_def
proof (intro allI)
  fix k j
  have "E j = Some e' \<Longrightarrow> key e' \<noteq> key e" for e' using index_agreesD(1) [OF assms(1)] assms(3) by fastforce
  then show "(I(key e \<mapsto> i)) k = Some j \<longleftrightarrow> (\<exists>e'. (E(i \<mapsto> e)) j = Some e' \<and> key e' = k)"
    using assms by (cases "k = key e"; cases "j = i") (auto simp: index_agrees_def)
qed

lemma index_agrees_modify:
  "index_agrees key E I \<Longrightarrow> (\<And>e. key (f e) = key e) \<Longrightarrow> index_agrees key (\<lambda>j. if j = i then map_option f (E j) else E j) I"
  unfolding index_agrees_def by (auto simp: ex_simps)

lemma index_agrees_restrict:
  assumes "index_agrees key E I"
  shows "index_agrees key (\<lambda>i. case E i of Some e \<Rightarrow> if P e then Some e else None | None \<Rightarrow> None)
    (\<lambda>k. if \<exists>i e. E i = Some e \<and> \<not> P e \<and> key e = k then None else I k)"
  unfolding index_agrees_def
proof (intro allI)
  fix k j
  have one: "i = i' \<and> e = e'" if "E i = Some e" "E i' = Some e'" "key e = key e'" for i i' e e'
    using index_agreesD(1) [OF assms that(1)] index_agreesD(1) [OF assms that(2)] that by simp
  show "(if \<exists>i e. E i = Some e \<and> \<not> P e \<and> key e = k then None else I k) = Some j
      \<longleftrightarrow> (\<exists>e. (case E j of Some e \<Rightarrow> if P e then Some e else None | None \<Rightarrow> None) = Some e \<and> key e = k)"
  proof (cases "\<exists>i e. E i = Some e \<and> \<not> P e \<and> key e = k")
    case True
    then have "\<not> (\<exists>e. E j = Some e \<and> P e \<and> key e = k)" using one by metis
    then show ?thesis using True by (auto split: option.splits if_splits)
  next
    case False
    then have "I k = Some j \<longleftrightarrow> (\<exists>e. E j = Some e \<and> P e \<and> key e = k)" using assms by (auto simp: index_agrees_def)
    then show ?thesis using False by (auto split: option.splits if_splits)
  qed
qed

section \<open>The invariant\<close>

definition enrollment_map :: "enrollment_store \<Rightarrow> string \<rightharpoonup> enrollment" where
  "enrollment_map s = map_of (es_enrollments s)"

definition enrollment_ok :: "string \<Rightarrow> enrollment \<Rightarrow> bool" where
  "enrollment_ok i e \<longleftrightarrow> en_enrollment_id e = i \<and> i \<noteq> [] \<and> USER_CODE_RE (en_user_code e)
     \<and> (en_state e \<in> {EN_approved, EN_consumed} \<longrightarrow> en_approved_user_id e \<noteq> None)"

definition enrollments_ok :: "enrollment_store \<Rightarrow> bool" where
  "enrollments_ok s \<longleftrightarrow> distinct (map fst (es_enrollments s)) \<and> distinct (map fst (es_user_codes s)) \<and> distinct (map fst (es_device_codes s))
     \<and> index_agrees en_user_code (enrollment_map s) (map_of (es_user_codes s))
     \<and> index_agrees en_device_code_digest (enrollment_map s) (map_of (es_device_codes s))
     \<and> (\<forall>i e. enrollment_map s i = Some e \<longrightarrow> enrollment_ok i e)
     \<and> length (es_enrollments s) \<le> es_max_active s"

lemma getEnrollment_map: "getEnrollment s = enrollment_map s"
  by (simp add: fun_eq_iff getEnrollment_def enrollment_map_def)

text \<open>The empty store.\<close>

definition new_store :: "nat \<Rightarrow> int \<Rightarrow> enrollment_store" where
  "new_store m ttl = \<lparr>es_max_active = m, es_default_ttl_ms = ttl, es_enrollments = [], es_user_codes = [], es_device_codes = []\<rparr>"

lemma new_store_ok: "enrollments_ok (new_store m ttl)"
  by (simp add: enrollments_ok_def enrollment_map_def new_store_def index_agrees_empty)

lemma clear_ok: "enrollments_ok s \<Longrightarrow> enrollments_ok (clear_enrollments s)"
  using new_store_ok by (simp add: enrollments_ok_def enrollment_map_def new_store_def clear_enrollments_def)

section \<open>Purging\<close>

lemma map_of_filter_values:
  "distinct (map fst xs) \<Longrightarrow> map_of (filter (\<lambda>x. P (snd x)) xs) k = (case map_of xs k of Some v \<Rightarrow> if P v then Some v else None | None \<Rightarrow> None)"
proof (induction xs)
  case (Cons x xs)
  have "map_of (filter (\<lambda>x. P (snd x)) xs) k = None" if "k \<notin> fst ` set xs"
    using that by (auto simp: map_of_eq_None_iff)
  then show ?case using Cons by (cases "k = fst x") auto
qed simp

lemma map_of_filter_keys: "map_of (filter (\<lambda>x. P (fst x)) xs) k = (if P k then map_of xs k else None)"
  by (induction xs) auto

lemma purge_parts:
  assumes "enrollments_ok s" "s' = fst (purgeExpired now s)"
  shows "enrollment_map s' = (\<lambda>i. case enrollment_map s i of Some e \<Rightarrow> if \<not> now > en_expires_at_ms e then Some e else None | None \<Rightarrow> None)"
    and "map_of (es_user_codes s') =
      (\<lambda>k. if \<exists>i e. enrollment_map s i = Some e \<and> \<not> \<not> now > en_expires_at_ms e \<and> en_user_code e = k then None else map_of (es_user_codes s) k)"
    and "map_of (es_device_codes s') =
      (\<lambda>k. if \<exists>i e. enrollment_map s i = Some e \<and> \<not> \<not> now > en_expires_at_ms e \<and> en_device_code_digest e = k then None else map_of (es_device_codes s) k)"
    and "length (es_enrollments s') \<le> length (es_enrollments s)" "es_max_active s' = es_max_active s" "es_default_ttl_ms s' = es_default_ttl_ms s"
    and "set (es_enrollments s') \<subseteq> set (es_enrollments s)"
proof -
  have d: "distinct (map fst (es_enrollments s))" using assms(1) by (simp add: enrollments_ok_def)
  have old: "k \<in> set (map (\<lambda>e. g (snd e)) (filter (\<lambda>e. now > en_expires_at_ms (snd e)) (es_enrollments s)))
      \<longleftrightarrow> (\<exists>i e. enrollment_map s i = Some e \<and> \<not> \<not> now > en_expires_at_ms e \<and> g e = k)" for g :: "enrollment \<Rightarrow> 'k" and k
    using d by (force simp: enrollment_map_def dest: map_of_SomeD)
  show "enrollment_map s' = (\<lambda>i. case enrollment_map s i of Some e \<Rightarrow> if \<not> now > en_expires_at_ms e then Some e else None | None \<Rightarrow> None)"
    using map_of_filter_values [OF d, of "\<lambda>e. \<not> now > en_expires_at_ms e"] by (simp add: assms(2) purgeExpired_def Let_def enrollment_map_def fun_eq_iff)
  show "map_of (es_user_codes s') =
      (\<lambda>k. if \<exists>i e. enrollment_map s i = Some e \<and> \<not> \<not> now > en_expires_at_ms e \<and> en_user_code e = k then None else map_of (es_user_codes s) k)"
    unfolding old [of _ en_user_code, symmetric] assms(2) purgeExpired_def Let_def fst_conv
    by (rule ext) (simp add: map_of_filter_keys [where P = "\<lambda>k. k \<notin> A" for A])
  show "map_of (es_device_codes s') =
      (\<lambda>k. if \<exists>i e. enrollment_map s i = Some e \<and> \<not> \<not> now > en_expires_at_ms e \<and> en_device_code_digest e = k then None else map_of (es_device_codes s) k)"
    unfolding old [of _ en_device_code_digest, symmetric] assms(2) purgeExpired_def Let_def fst_conv
    by (rule ext) (simp add: map_of_filter_keys [where P = "\<lambda>k. k \<notin> A" for A])
  show "length (es_enrollments s') \<le> length (es_enrollments s)" "es_max_active s' = es_max_active s" "es_default_ttl_ms s' = es_default_ttl_ms s"
    "set (es_enrollments s') \<subseteq> set (es_enrollments s)"
    by (auto simp: assms(2) purgeExpired_def Let_def)
qed

lemma purge_ok:
  assumes "enrollments_ok s"
  shows "enrollments_ok (fst (purgeExpired now s))"
proof -
  let ?s = "fst (purgeExpired now s)"
  note p = purge_parts [OF assms refl, of now]
  have d: "distinct (map fst (es_enrollments ?s))" "distinct (map fst (es_user_codes ?s))" "distinct (map fst (es_device_codes ?s))"
    using assms by (simp_all add: enrollments_ok_def purgeExpired_def Let_def distinct_map_filter)
  have i: "index_agrees en_user_code (enrollment_map ?s) (map_of (es_user_codes ?s))"
    "index_agrees en_device_code_digest (enrollment_map ?s) (map_of (es_device_codes ?s))"
    unfolding p(1-3) by (rule index_agrees_restrict; use assms in \<open>simp add: enrollments_ok_def\<close>)+
  have "enrollment_ok j e" if "enrollment_map ?s j = Some e" for j e
    using assms that unfolding p(1) by (simp add: enrollments_ok_def split: option.splits if_splits)
  then show ?thesis using assms p(4,5) d i by (simp add: enrollments_ok_def)
qed

section \<open>Changes of one enrollment\<close>

lemma modify_map: "enrollment_map (modify_enrollment i f s) = (\<lambda>j. if j = i then map_option f (enrollment_map s j) else enrollment_map s j)"
proof -
  have "map_of (map (\<lambda>(k, e). (k, if k = i then f e else e)) xs) j = (if j = i then map_option f (map_of xs j) else map_of xs j)" for xs j
    by (induction xs) auto
  then show ?thesis by (simp add: fun_eq_iff enrollment_map_def modify_enrollment_def)
qed

lemma modify_ok:
  assumes "enrollments_ok s" "\<And>e. en_user_code (f e) = en_user_code e" "\<And>e. en_device_code_digest (f e) = en_device_code_digest e"
    "\<And>e. enrollment_map s i = Some e \<Longrightarrow> enrollment_ok i e \<Longrightarrow> enrollment_ok i (f e)"
  shows "enrollments_ok (modify_enrollment i f s)"
proof -
  have keys: "map fst (es_enrollments (modify_enrollment i f s)) = map fst (es_enrollments s)"
    by (simp add: modify_enrollment_def comp_def case_prod_beta)
  have same: "es_user_codes (modify_enrollment i f s) = es_user_codes s" "es_device_codes (modify_enrollment i f s) = es_device_codes s"
    "es_max_active (modify_enrollment i f s) = es_max_active s" "length (es_enrollments (modify_enrollment i f s)) = length (es_enrollments s)"
    by (simp_all add: modify_enrollment_def)
  show ?thesis
    unfolding enrollments_ok_def keys same modify_map
    using assms by (auto simp: enrollments_ok_def intro!: index_agrees_modify)
qed

lemma operations_ok:
  assumes "enrollments_ok s"
  shows "enrollments_ok (fst (setConsentNonce i n s))" "enrollments_ok (fst (approve i u now s))" "enrollments_ok (fst (deny i s))"
    "enrollments_ok (fst (markConsumed i now s))" "enrollments_ok (fst (checkAndRecordPoll i now s))"
  using assms unfolding setConsentNonce_def approve_def deny_def markConsumed_def checkAndRecordPoll_def getEnrollment_map
  by (auto split: option.splits intro!: modify_ok simp: enrollment_ok_def)

section \<open>User codes\<close>

lemma fresh_user_code_free:
  assumes "fresh_user_code bytes taken n = Some c"
  shows "map_of taken c = None \<and> (\<exists>m. c = generateUserCode (bytes m))"
  by (rule fresh_user_code.raw_induct [OF _ assms]) (auto split: if_splits)

lemma fresh_user_code_found:
  assumes "map_of taken (generateUserCode (bytes m)) = None" "n \<le> m"
  shows "\<exists>c. fresh_user_code bytes taken n = Some c"
  using assms(2)
proof (induction "m - n" arbitrary: n)
  case 0
  then show ?case using assms(1) by (simp add: fresh_user_code.simps)
next
  case (Suc d)
  then show ?case using Suc(1) [of "Suc n"] by (subst fresh_user_code.simps) auto
qed

text \<open>Among more different codes than are taken one is free.\<close>

lemma fresh_user_code_ends:
  assumes "length taken < card ((\<lambda>m. generateUserCode (bytes m)) ` {..<N})"
  shows "\<exists>c. fresh_user_code bytes taken 0 = Some c"
proof -
  have "card (fst ` set taken) \<le> length taken" by (metis card_length length_map list.set_map)
  then have "\<not> (\<lambda>m. generateUserCode (bytes m)) ` {..<N} \<subseteq> fst ` set taken"
    using assms card_mono [of "fst ` set taken" "(\<lambda>m. generateUserCode (bytes m)) ` {..<N}"] by auto
  then obtain m where "generateUserCode (bytes m) \<notin> fst ` set taken" by blast
  then show ?thesis using fresh_user_code_found [of taken bytes m 0] by (simp add: map_of_eq_None_iff)
qed

lemma generated_code:
  assumes "length bytes = 8"
  shows "USER_CODE_RE (generateUserCode bytes)"
proof -
  have c: "CROCKFORD_BASE32_ALPHABET ! (b mod length CROCKFORD_BASE32_ALPHABET) \<in> set CROCKFORD_BASE32_ALPHABET" for b
    by (rule nth_mem) (simp add: CROCKFORD_BASE32_ALPHABET_def)
  have "list_all (\<lambda>c. c \<in> set CROCKFORD_BASE32_ALPHABET) (map (\<lambda>b. CROCKFORD_BASE32_ALPHABET ! (b mod length CROCKFORD_BASE32_ALPHABET)) bs)" for bs
    using c by (simp add: list_all_iff)
  then show ?thesis
    using assms by (simp add: generateUserCode_def USER_CODE_RE_def code_chars_def Let_def take_map drop_map nth_append)
qed

lemma card_dom_map_of: "distinct (map fst xs) \<Longrightarrow> card (dom (map_of xs)) = length xs"
  by (metis distinct_card dom_map_of_conv_image_fst length_map list.set_map)

lemma taken_codes: "enrollments_ok s \<Longrightarrow> length (es_user_codes s) \<le> length (es_enrollments s)"
proof -
  assume ok: "enrollments_ok s"
  let ?U = "map_of (es_user_codes s)"
  note i = index_agreesD(2) [of en_user_code "enrollment_map s" ?U]
  have "(the \<circ> ?U) ` dom ?U \<subseteq> dom (enrollment_map s)" using i ok by (fastforce simp: enrollments_ok_def)
  moreover have "inj_on (the \<circ> ?U) (dom ?U)" using i ok by (auto simp: enrollments_ok_def inj_on_def) (metis option.inject)
  ultimately have "card (dom ?U) \<le> card (dom (enrollment_map s))"
    by (metis card_inj_on_le enrollment_map_def finite_dom_map_of)
  then show ?thesis using ok by (simp add: enrollments_ok_def enrollment_map_def card_dom_map_of)
qed

section \<open>Creation\<close>

lemma update_fresh: "map_of xs k = None \<Longrightarrow> AList.update k v xs = xs @ [(k, v)]"
  by (induction xs) (auto split: if_splits)

lemma add_ok:
  assumes "enrollments_ok s" "enrollment_ok (en_enrollment_id e) e" "length (es_enrollments s) < es_max_active s"
    "enrollment_map s (en_enrollment_id e) = None" "map_of (es_user_codes s) (en_user_code e) = None"
    "map_of (es_device_codes s) (en_device_code_digest e) = None"
  shows "enrollments_ok (add_enrollment e s)" "enrollment_map (add_enrollment e s) = (enrollment_map s)(en_enrollment_id e \<mapsto> e)"
proof -
  show m: "enrollment_map (add_enrollment e s) = (enrollment_map s)(en_enrollment_id e \<mapsto> e)"
    by (simp add: enrollment_map_def add_enrollment_def update_conv')
  show "enrollments_ok (add_enrollment e s)"
    unfolding enrollments_ok_def m
  proof (intro conjI)
    show "index_agrees en_user_code ((enrollment_map s)(en_enrollment_id e \<mapsto> e)) (map_of (es_user_codes (add_enrollment e s)))"
      "index_agrees en_device_code_digest ((enrollment_map s)(en_enrollment_id e \<mapsto> e)) (map_of (es_device_codes (add_enrollment e s)))"
      using assms by (simp_all add: enrollments_ok_def add_enrollment_def update_conv' index_agrees_add)
    show "length (es_enrollments (add_enrollment e s)) \<le> es_max_active (add_enrollment e s)"
      using assms(3) update_fresh [OF assms(4) [unfolded enrollment_map_def]] by (simp add: add_enrollment_def)
  qed (use assms in \<open>auto simp: enrollments_ok_def add_enrollment_def distinct_update\<close>)
qed

text \<open>What is drawn at random is new: neither the id nor the device code is that of a live enrollment.\<close>

definition draws_ok :: "(string \<Rightarrow> digest) \<Rightarrow> enrollment_store \<Rightarrow> draws \<Rightarrow> bool" where
  "draws_ok sha s dr \<longleftrightarrow> (\<forall>n. length (dr_bytes dr n) = 8)
     \<and> (\<forall>i e. enrollment_map s i = Some e \<longrightarrow> i \<noteq> ''enr_'' @ dr_enrollment_uuid dr \<and> en_device_code_digest e \<noteq> sha (dr_device_code dr))"

lemma create_cases:
  assumes "createEnrollment sha lc now i dr s = Some (s', r)"
  shows "(\<exists>x. s' = s \<and> r = Inl x) \<or> (\<exists>x. s' = fst (purgeExpired now s) \<and> r = Inl x)
    \<or> (\<exists>e c ttl. s' = add_enrollment e (fst (purgeExpired now s)) \<and> r = Inr e \<and> e = new_enrollment sha lc now ttl i dr c
         \<and> fresh_user_code (dr_bytes dr) (es_user_codes (fst (purgeExpired now s))) 0 = Some c
         \<and> length (es_enrollments (fst (purgeExpired now s))) < es_max_active s)"
proof -
  have "es_max_active (fst (purgeExpired now s)) = es_max_active s" by (simp add: purgeExpired_def Let_def)
  then show ?thesis using assms by (fastforce simp: createEnrollment_def Let_def split: if_splits option.splits)
qed

lemma create_ok:
  assumes "createEnrollment sha lc now i dr s = Some (s', r)" "enrollments_ok s" "draws_ok sha s dr"
  shows "enrollments_ok s'"
    and "enrollment_map s' = (case r of Inl _ \<Rightarrow> id | Inr e \<Rightarrow> (\<lambda>m. m(en_enrollment_id e \<mapsto> e)))
      (if s' = s then enrollment_map s else enrollment_map (fst (purgeExpired now s)))"
proof -
  let ?s = "fst (purgeExpired now s)"
  note p = purge_parts [OF assms(2) refl, of now] and ok = purge_ok [OF assms(2), of now]
  have "enrollments_ok s' \<and> enrollment_map s' = (case r of Inl _ \<Rightarrow> id | Inr e \<Rightarrow> (\<lambda>m. m(en_enrollment_id e \<mapsto> e)))
      (if s' = s then enrollment_map s else enrollment_map ?s)"
    using create_cases [OF assms(1)]
  proof (elim disjE exE conjE)
    fix e c ttl assume h: "s' = add_enrollment e ?s" "r = Inr e" "e = new_enrollment sha lc now ttl i dr c"
      "fresh_user_code (dr_bytes dr) (es_user_codes ?s) 0 = Some c" "length (es_enrollments ?s) < es_max_active s"
    obtain m where c: "map_of (es_user_codes ?s) c = None" "c = generateUserCode (dr_bytes dr m)" using fresh_user_code_free [OF h(4)] by blast
    have sub: "enrollment_map s j = Some e'" if "enrollment_map ?s j = Some e'" for j e' using that p(1) by (simp split: option.splits if_splits)
    have new: "enrollment_map ?s (en_enrollment_id e) = None" "map_of (es_device_codes ?s) (en_device_code_digest e) = None"
    proof -
      show "enrollment_map ?s (en_enrollment_id e) = None"
        using assms(3) sub by (cases "enrollment_map ?s (en_enrollment_id e)") (simp_all add: draws_ok_def h(3) new_enrollment_def, blast)
      show "map_of (es_device_codes ?s) (en_device_code_digest e) = None"
      proof (cases "map_of (es_device_codes ?s) (en_device_code_digest e)")
        case (Some j)
        then obtain e' where "enrollment_map ?s j = Some e'" "en_device_code_digest e' = en_device_code_digest e"
          using index_agreesD(2) [OF conjunct1 [OF conjunct2 [OF conjunct2 [OF conjunct2 [OF conjunct2 [OF ok [unfolded enrollments_ok_def]]]]]]] by blast
        moreover have "en_device_code_digest e = sha (dr_device_code dr)" by (simp add: h(3) new_enrollment_def)
        ultimately show ?thesis using assms(3) sub unfolding draws_ok_def by metis
      qed
    qed
    have "enrollment_ok (en_enrollment_id e) e"
      using generated_code assms(3) c(2) by (simp add: enrollment_ok_def h(3) new_enrollment_def draws_ok_def)
    note a = add_ok [OF ok this _ new(1) _ new(2)]
    have "en_user_code e = c" by (simp add: h(3) new_enrollment_def)
    then have a': "enrollments_ok s'" "enrollment_map s' = (enrollment_map ?s)(en_enrollment_id e \<mapsto> e)"
      using a h(1,5) p(5) c(1) by simp_all
    have "s' \<noteq> s"
    proof
      assume "s' = s"
      then have "enrollment_map s (en_enrollment_id e) = Some e" using a'(2) by simp
      moreover have "en_enrollment_id e = ''enr_'' @ dr_enrollment_uuid dr" by (simp add: h(3) new_enrollment_def)
      ultimately show False using assms(3) unfolding draws_ok_def by metis
    qed
    then show ?thesis using a' h(2) by simp
  qed (use ok assms(2) in \<open>auto\<close>)
  then show "enrollments_ok s'" "enrollment_map s' = (case r of Inl _ \<Rightarrow> id | Inr e \<Rightarrow> (\<lambda>m. m(en_enrollment_id e \<mapsto> e)))
      (if s' = s then enrollment_map s else enrollment_map ?s)" by blast+
qed

end
