(* ===== verification/Enrollment_Protocol.thy ===== *)
theory Enrollment_Protocol
  imports Enrollment_Invariant Control_Owners
begin

text \<open>
  The enrollment of devices as a protocol: devices, users and other clients interleave calls of the routes, and
  a history records who logged in, what was begun, which pages were shown and what was decided.
\<close>

section \<open>Histories and steps\<close>

datatype flow_event =
    LoggedIn user_id int
  | Began enrollment
  | Shown string string
  | Approved string user_id int string
  | Denied string

type_synonym flow_state = "int \<times> flow_event list \<times> flow"

text \<open>A handler reads the clock at most four times; the clock never runs backwards.\<close>

definition reads :: "int \<Rightarrow> (nat \<Rightarrow> int) \<Rightarrow> bool" where
  "reads now clock \<longleftrightarrow> now \<le> clock 0 \<and> clock 0 \<le> clock 1 \<and> clock 1 \<le> clock 2 \<and> clock 2 \<le> clock 3"

text \<open>Random codes and identifiers are never drawn again.\<close>

definition fresh_draws :: "(string \<Rightarrow> digest) \<Rightarrow> flow_event list \<Rightarrow> draws \<Rightarrow> bool" where
  "fresh_draws sha h dr \<longleftrightarrow> (\<forall>n. length (dr_bytes dr n) = 8)
     \<and> (\<forall>b. Began b \<in> set h \<longrightarrow> en_enrollment_id b \<noteq> ''enr_'' @ dr_enrollment_uuid dr \<and> en_device_code_digest b \<noteq> sha (dr_device_code dr))"

definition began_event :: "draws \<Rightarrow> flow \<Rightarrow> flow_event list" where
  "began_event dr f = (case enrollment_map (fl_enrollments f) (''enr_'' @ dr_enrollment_uuid dr) of None \<Rightarrow> [] | Some e \<Rightarrow> [Began e])"

definition page_event :: "page_response \<Rightarrow> flow_event list" where
  "page_event r = (case r of PageConsent i _ nonce \<Rightarrow> [Shown i nonce] | _ \<Rightarrow> [])"

definition decision_event :: "int \<Rightarrow> string option \<Rightarrow> decision_response \<Rightarrow> flow_event list" where
  "decision_event now nonce r = (case r of
      DecisionApproved i u \<Rightarrow> [Approved i u now (the nonce)]
    | DecisionDenied i \<Rightarrow> [Denied i]
    | _ \<Rightarrow> [])"

inductive flow_step :: "(string \<Rightarrow> digest) \<Rightarrow> (string \<Rightarrow> string) \<Rightarrow> (string \<Rightarrow> string) \<Rightarrow> flow_state \<Rightarrow> flow_state \<Rightarrow> bool"
  for sha lc uc where
  tick: "now \<le> now' \<Longrightarrow> flow_step sha lc uc (now, h, f) (now', h, f)"
| login: "reads now clock \<Longrightarrow> createSession sid clock u p sub l (fl_sessions f) = (m, s) \<Longrightarrow>
    flow_step sha lc uc (now, h, f) (clock 3, LoggedIn u (clock 0) # h, f\<lparr>fl_sessions := m\<rparr>)"
| logout: "flow_step sha lc uc (now, h, f) (now, h, f\<lparr>fl_sessions := destroySession t (fl_sessions f)\<rparr>)"
| begin_enrollment: "begin_route sha lc now i dr f = Some (f', r) \<Longrightarrow> fresh_draws sha h dr \<Longrightarrow>
    flow_step sha lc uc (now, h, f) (now, began_event dr f' @ h, f')"
| poll: "reads now clock \<Longrightarrow> token_route sha lc clock code f = (f', r) \<Longrightarrow> flow_step sha lc uc (now, h, f) (clock 3, h, f')"
| page: "reads now clock \<Longrightarrow> page_route sha uc clock token nonce code f = (f', r) \<Longrightarrow>
    flow_step sha lc uc (now, h, f) (clock 3, page_event r @ h, f')"
| decide: "reads now clock \<Longrightarrow> decision_route sha uc clock token code nonce decision f = (f', r) \<Longrightarrow>
    flow_step sha lc uc (now, h, f) (clock 3, decision_event (clock 0) nonce r @ h, f')"
| control: "control_step (fl_control f) c \<Longrightarrow> flow_step sha lc uc (now, h, f) (now, h, f\<lparr>fl_control := c\<rparr>)"
| restart: "flow_step sha lc uc (now, h, f)
    (now, h, f\<lparr>fl_enrollments := clear_enrollments (fl_enrollments f), fl_sessions := (fl_sessions f)\<lparr>sm_sessions := []\<rparr>\<rparr>)"

inductive_cases flow_stepE: "flow_step sha lc uc (now, h, f) s'"

definition flow_start :: "nat \<Rightarrow> int \<Rightarrow> int \<Rightarrow> control_db \<Rightarrow> flow" where
  "flow_start m ttl session_ttl c =
     \<lparr>fl_enrollments = new_store m ttl, fl_control = c, fl_sessions = \<lparr>sm_ttl_ms = session_ttl, sm_sessions = []\<rparr>\<rparr>"

section \<open>The invariant\<close>

text \<open>An enrollment as it was when it began.\<close>

definition request_of :: "enrollment \<Rightarrow> enrollment" where
  "request_of e = e\<lparr>en_state := EN_pending, en_approved_user_id := None, en_consent_nonce_digest := None,
     en_approved_at_ms := None, en_consumed_at_ms := None, en_last_poll_at_ms := None\<rparr>"

lemma request_of_simps [simp]:
  "en_enrollment_id (request_of e) = en_enrollment_id e" "en_device_code_digest (request_of e) = en_device_code_digest e"
  "en_expires_at_ms (request_of e) = en_expires_at_ms e" "en_reserved_device_id (request_of e) = en_reserved_device_id e"
  "en_reserved_credential_id (request_of e) = en_reserved_credential_id e"
  "en_credential_secret_digest (request_of e) = en_credential_secret_digest e"
  by (simp_all add: request_of_def)

definition issued :: "control_db \<Rightarrow> enrollment \<Rightarrow> user_id \<Rightarrow> bool" where
  "issued c e u \<longleftrightarrow> (\<exists>d k. getDevice c (en_reserved_device_id e) = Some d \<and> getDeviceCredential c (en_reserved_credential_id e) = Some k
     \<and> d_user_id d = u \<and> k_device_id k = en_reserved_device_id e \<and> k_secret_digest k = en_credential_secret_digest e)"

text \<open>What the history says of an enrollment in the store.\<close>

definition backed :: "(string \<Rightarrow> digest) \<Rightarrow> flow_event list \<Rightarrow> control_db \<Rightarrow> enrollment \<Rightarrow> bool" where
  "backed sha h c e \<longleftrightarrow> Began (request_of e) \<in> set h
     \<and> (\<forall>x. en_consent_nonce_digest e = Some x \<longrightarrow> (\<exists>n. Shown (en_enrollment_id e) n \<in> set h \<and> sha n = x))
     \<and> (en_state e \<in> {EN_approved, EN_consumed} \<longrightarrow> (\<exists>u t n. en_approved_user_id e = Some u
          \<and> Approved (en_enrollment_id e) u t n \<in> set h \<and> t \<le> en_expires_at_ms e \<and> (en_state e = EN_consumed \<longrightarrow> issued c e u)))
     \<and> (Denied (en_enrollment_id e) \<in> set h \<longrightarrow> en_state e = EN_denied)"

text \<open>Approval was given on a page shown for this enrollment, by a user who had logged in.\<close>

definition approval_ok :: "(string \<Rightarrow> digest) \<Rightarrow> int \<Rightarrow> flow_event list \<Rightarrow> string \<Rightarrow> user_id \<Rightarrow> int \<Rightarrow> string \<Rightarrow> bool" where
  "approval_ok sha ttl h i u t n \<longleftrightarrow> (\<exists>n'. Shown i n' \<in> set h \<and> sha n' = sha n)
     \<and> (\<exists>t0. LoggedIn u t0 \<in> set h \<and> t0 \<le> t \<and> t \<le> t0 + ttl)"

definition history_ok :: "(string \<Rightarrow> digest) \<Rightarrow> int \<Rightarrow> int \<Rightarrow> flow_event list \<Rightarrow> bool" where
  "history_ok sha ttl now h \<longleftrightarrow>
     (\<forall>b b'. Began b \<in> set h \<longrightarrow> Began b' \<in> set h \<longrightarrow>
        en_enrollment_id b = en_enrollment_id b' \<or> en_device_code_digest b = en_device_code_digest b' \<longrightarrow> b = b')
     \<and> (\<forall>i u t n. Approved i u t n \<in> set h \<longrightarrow> t \<le> now \<and> approval_ok sha ttl h i u t n)
     \<and> (\<forall>i. Denied i \<in> set h \<longrightarrow> (\<exists>b. Began b \<in> set h \<and> en_enrollment_id b = i))"

definition sessions_ok :: "int \<Rightarrow> int \<Rightarrow> flow_event list \<Rightarrow> session_manager \<Rightarrow> bool" where
  "sessions_ok ttl now h m \<longleftrightarrow> sm_ttl_ms m = ttl
     \<and> (\<forall>x \<in> set (sm_sessions m). \<exists>t0. LoggedIn (us_user_id (snd x)) t0 \<in> set h \<and> us_expires_at (snd x) = t0 + ttl \<and> t0 \<le> now)"

definition flow_ok :: "(string \<Rightarrow> digest) \<Rightarrow> int \<Rightarrow> flow_state \<Rightarrow> bool" where
  "flow_ok sha ttl s \<longleftrightarrow> (case s of (now, h, f) \<Rightarrow>
     enrollments_ok (fl_enrollments f) \<and> control_ok (fl_control f) \<and> sessions_ok ttl now h (fl_sessions f) \<and> history_ok sha ttl now h
     \<and> (\<forall>i e. enrollment_map (fl_enrollments f) i = Some e \<longrightarrow> backed sha h (fl_control f) e))"

lemma flow_start_ok: "control_ok c \<Longrightarrow> flow_ok sha session_ttl (now, [], flow_start m ttl session_ttl c)"
  by (simp add: flow_ok_def flow_start_def new_store_ok sessions_ok_def history_ok_def) (simp add: new_store_def enrollment_map_def)

section \<open>Growing histories\<close>

lemma approval_grows: "approval_ok sha ttl h i u t n \<Longrightarrow> set h \<subseteq> set h' \<Longrightarrow> approval_ok sha ttl h' i u t n"
  unfolding approval_ok_def by blast

lemma sessions_grow: "sessions_ok ttl now h m \<Longrightarrow> set h \<subseteq> set h' \<Longrightarrow> now \<le> now' \<Longrightarrow> sessions_ok ttl now' h' m"
  unfolding sessions_ok_def by fastforce

lemma issued_kept:
  assumes "issued c e u" "keeps_devices c c'" "request_of e' = request_of e"
  shows "issued c' e' u"
proof -
  have same: "en_reserved_device_id e' = en_reserved_device_id e" "en_reserved_credential_id e' = en_reserved_credential_id e"
    "en_credential_secret_digest e' = en_credential_secret_digest e"
    using assms(3) by (metis request_of_simps)+
  show ?thesis
    using assms(1,2) unfolding issued_def same keeps_devices_def rows_kept_def getDevice_def getDeviceCredential_def device_kept_def credential_kept_def
    by metis
qed

lemma backed_grows:
  "backed sha h c e \<Longrightarrow> set h \<subseteq> set h' \<Longrightarrow> (Denied (en_enrollment_id e) \<in> set h' \<Longrightarrow> Denied (en_enrollment_id e) \<in> set h) \<Longrightarrow>
   keeps_devices c c' \<Longrightarrow> backed sha h' c' e"
  unfolding backed_def using issued_kept [of c e _ c' e] by blast

text \<open>Events that only report a login or a shown page.\<close>

lemma history_harmless:
  assumes "history_ok sha ttl now h" "now \<le> now'" "\<forall>x \<in> set evs. (\<exists>u t. x = LoggedIn u t) \<or> (\<exists>i n. x = Shown i n)"
  shows "history_ok sha ttl now' (evs @ h)"
proof -
  have "Began b \<in> set (evs @ h) \<longleftrightarrow> Began b \<in> set h" "Approved i u t n \<in> set (evs @ h) \<longleftrightarrow> Approved i u t n \<in> set h"
    "Denied i \<in> set (evs @ h) \<longleftrightarrow> Denied i \<in> set h" for b i u t n
    using assms(3) by auto
  moreover have "approval_ok sha ttl (evs @ h) i u t n" if "approval_ok sha ttl h i u t n" for i u t n
    by (rule approval_grows [OF that]) simp
  ultimately show ?thesis using assms(1,2) unfolding history_ok_def by (meson order_trans)
qed

section \<open>Sessions and lookups\<close>

lemma session_token:
  assumes "getSessionFromToken now token m = (m', s)"
  shows "set (sm_sessions m') \<subseteq> set (sm_sessions m) \<and> sm_ttl_ms m' = sm_ttl_ms m
    \<and> (\<forall>x. s = Some x \<longrightarrow> now \<le> us_expires_at x \<and> (\<exists>k. (k, x) \<in> set (sm_sessions m)))"
  using assms by (auto simp: getSessionFromToken_def AList.delete_eq split: option.splits if_splits dest: map_of_SomeD)

lemma session_user_parts:
  assumes "session_user now token f = (f1, r)"
  shows "fl_enrollments f1 = fl_enrollments f" "fl_control f1 = fl_control f" "set (sm_sessions (fl_sessions f1)) \<subseteq> set (sm_sessions (fl_sessions f))"
    "sm_ttl_ms (fl_sessions f1) = sm_ttl_ms (fl_sessions f)"
    "r = Some u \<Longrightarrow> active_user (fl_control f) u \<and> (\<exists>x \<in> set (sm_sessions (fl_sessions f)). us_user_id (snd x) = u \<and> now \<le> us_expires_at (snd x))"
proof -
  obtain m s where g: "getSessionFromToken now token (fl_sessions f) = (m, s)" by fastforce
  note tok = session_token [OF g]
  have f1: "f1 = f\<lparr>fl_sessions := m\<rparr>" using assms g by (simp add: session_user_def)
  then show "fl_enrollments f1 = fl_enrollments f" "fl_control f1 = fl_control f" by simp_all
  show "set (sm_sessions (fl_sessions f1)) \<subseteq> set (sm_sessions (fl_sessions f))" "sm_ttl_ms (fl_sessions f1) = sm_ttl_ms (fl_sessions f)"
    using tok f1 by simp_all
  show "active_user (fl_control f) u \<and> (\<exists>x \<in> set (sm_sessions (fl_sessions f)). us_user_id (snd x) = u \<and> now \<le> us_expires_at (snd x))"
    if r: "r = Some u"
  proof -
    obtain x where "s = Some x" "us_user_id x = u" "active_user (fl_control f) u"
      using assms g r by (auto simp: session_user_def split: option.splits if_splits)
    moreover then obtain k where "(k, x) \<in> set (sm_sessions (fl_sessions f))" "now \<le> us_expires_at x" using tok by blast
    ultimately show ?thesis by (auto intro!: bexI [of _ "(k, x)"])
  qed
qed

lemma sessions_subset: "sessions_ok ttl now h m \<Longrightarrow> set (sm_sessions m') \<subseteq> set (sm_sessions m) \<Longrightarrow> sm_ttl_ms m' = sm_ttl_ms m \<Longrightarrow> sessions_ok ttl now h m'"
  unfolding sessions_ok_def by auto

lemma indexed_found:
  assumes "index_agrees key (enrollment_map s) I" "\<forall>i e. enrollment_map s i = Some e \<longrightarrow> enrollment_ok i e"
    and "indexed_enrollment s (I k) = Some e"
  shows "enrollment_map s (en_enrollment_id e) = Some e \<and> key e = k"
proof -
  obtain i where "I k = Some i" "enrollment_map s i = Some e"
    using assms(3) by (auto simp: indexed_enrollment_def getEnrollment_map split: option.splits if_splits)
  then show ?thesis using index_agreesD(2) [OF assms(1)] assms(2) by (fastforce simp: enrollment_ok_def)
qed

lemma enrollments_okD:
  assumes "enrollments_ok s"
  shows "index_agrees en_user_code (enrollment_map s) (map_of (es_user_codes s))"
    "index_agrees en_device_code_digest (enrollment_map s) (map_of (es_device_codes s))"
    "\<forall>i e. enrollment_map s i = Some e \<longrightarrow> enrollment_ok i e"
  using assms by (simp_all add: enrollments_ok_def)

lemma found_by_user_code:
  assumes "enrollments_ok s" "findByUserCode uc now s code = Inr (Some e)"
  shows "enrollment_map s (en_enrollment_id e) = Some e \<and> now \<le> en_expires_at_ms e"
proof -
  obtain n where "unexpired now (indexed_enrollment s (map_of (es_user_codes s) n)) = Some e"
    using assms(2) by (auto simp: findByUserCode_def ebind_eq_Inr)
  then have "indexed_enrollment s (map_of (es_user_codes s) n) = Some e" "now \<le> en_expires_at_ms e"
    by (auto simp: unexpired_def split: option.splits if_splits)
  then show ?thesis using indexed_found [OF enrollments_okD(1) [OF assms(1)] enrollments_okD(3) [OF assms(1)]] by simp
qed

lemma found_by_device_code:
  assumes "enrollments_ok s" "lookupByDeviceCodeDigest s d = Some e"
  shows "enrollment_map s (en_enrollment_id e) = Some e \<and> en_device_code_digest e = d"
  using indexed_found [OF enrollments_okD(2) [OF assms(1)] enrollments_okD(3) [OF assms(1)]] assms(2) by (simp add: lookupByDeviceCodeDigest_def)

section \<open>What the routes do\<close>

text \<open>
  A page that shows a consent form, and a decision that is recorded, are about a pending enrollment and come
  from a logged-in user; a recorded decision repeats the nonce of the form.
\<close>

lemma page_cases:
  assumes "page_route sha uc clock token nonce code f = (f', r)" "enrollments_ok (fl_enrollments f)"
  obtains f1 u where "session_user (clock 0) token f = (f1, u)" "f' = f1" "page_event r = []"
  | "f' = f" "page_event r = []"
  | f1 u e where "session_user (clock 0) token f = (f1, Some u)" "enrollment_map (fl_enrollments f) (en_enrollment_id e) = Some e"
      "page_event r = [Shown (en_enrollment_id e) nonce]"
      "f' = f1\<lparr>fl_enrollments := fst (setConsentNonce (en_enrollment_id e) (sha nonce) (fl_enrollments f))\<rparr>"
proof -
  obtain f1 u where s: "session_user (clock 0) token f = (f1, u)" by fastforce
  have e: "fl_enrollments f1 = fl_enrollments f" using session_user_parts(1) [OF s] .
  show ?thesis
  proof (cases "f' = f1 \<and> page_event r = [] \<or> f' = f \<and> page_event r = []")
    case True
    then show ?thesis using that(1,2) s by blast
  next
    case False
    then obtain raw c v w where h: "u = Some w" "code = Some raw" "raw \<noteq> []" "normalizeDeviceUserCode uc raw = Inr c"
      "findByUserCode uc (clock 1) (fl_enrollments f) c = Inr (Some v)"
      using assms(1) s e by (auto simp: page_route_def page_event_def split: option.splits if_splits sum.splits)
    have "f' = f1\<lparr>fl_enrollments := fst (setConsentNonce (en_enrollment_id v) (sha nonce) (fl_enrollments f))\<rparr>"
      "page_event r = [Shown (en_enrollment_id v) nonce]"
      using assms(1) s e False h by (auto simp: page_route_def page_event_def split: enrollment_state.splits if_splits)
    then show ?thesis using that(3) s h(1) found_by_user_code [OF assms(2) h(5)] by blast
  qed
qed

lemma decision_cases:
  assumes "decision_route sha uc clock token code nonce decision f = (f', r)" "enrollments_ok (fl_enrollments f)"
  obtains f1 u where "session_user (clock 0) token f = (f1, u)" "f' = f1" "decision_event now nonce r = []"
  | f1 u e n where "session_user (clock 0) token f = (f1, Some u)" "enrollment_map (fl_enrollments f) (en_enrollment_id e) = Some e"
      "en_state e = EN_pending" "en_consent_nonce_digest e = Some (sha n)"
      "decision_event now nonce r = [Approved (en_enrollment_id e) u now n]"
      "f' = f1\<lparr>fl_enrollments := fst (approve (en_enrollment_id e) u (clock 2) (fl_enrollments f))\<rparr>"
  | f1 u e where "session_user (clock 0) token f = (f1, Some u)" "enrollment_map (fl_enrollments f) (en_enrollment_id e) = Some e"
      "en_state e = EN_pending" "decision_event now nonce r = [Denied (en_enrollment_id e)]"
      "f' = f1\<lparr>fl_enrollments := fst (deny (en_enrollment_id e) (fl_enrollments f))\<rparr>"
proof -
  obtain f1 u where s: "session_user (clock 0) token f = (f1, u)" by fastforce
  have e: "fl_enrollments f1 = fl_enrollments f" using session_user_parts(1) [OF s] .
  show ?thesis
  proof (cases "f' = f1 \<and> decision_event now nonce r = []")
    case True
    then show ?thesis using that(1) s by blast
  next
    case False
    obtain raw n c v w where h: "u = Some w" "nonce = Some n" "code = Some raw" "raw \<noteq> []" "n \<noteq> []" "normalizeDeviceUserCode uc raw = Inr c"
      "findByUserCode uc (clock 1) (fl_enrollments f) c = Inr (Some v)"
      using assms(1) s e False by (auto simp: decision_route_def decision_event_def split: option.splits if_splits sum.splits)
    have h': "en_state v = EN_pending" "en_consent_nonce_digest v = Some (sha n)" "(r = DecisionApproved (en_enrollment_id v) w
       \<and> f' = f1\<lparr>fl_enrollments := fst (approve (en_enrollment_id v) w (clock 2) (fl_enrollments f))\<rparr>)
       \<or> (r = DecisionDenied (en_enrollment_id v) \<and> f' = f1\<lparr>fl_enrollments := fst (deny (en_enrollment_id v) (fl_enrollments f))\<rparr>)"
      using assms(1) s e False h by (auto simp: decision_route_def decision_event_def split: option.splits if_splits)
    show ?thesis using that(2,3) s h h' found_by_user_code [OF assms(2) h(7)] by (fastforce simp: decision_event_def)
  qed
qed

section \<open>Changes of the store as changes of a map\<close>

definition at_key :: "string \<Rightarrow> ('e \<Rightarrow> 'e) \<Rightarrow> (string \<rightharpoonup> 'e) \<Rightarrow> string \<rightharpoonup> 'e" where
  "at_key i f E = (\<lambda>j. if j = i then map_option f (E j) else E j)"

lemma at_key_id: "at_key i (\<lambda>e. e) E = E"
  by (simp add: at_key_def fun_eq_iff option.map_ident)

lemma operation_maps:
  "enrollment_map (fst (setConsentNonce i n s)) = at_key i (\<lambda>e. e\<lparr>en_consent_nonce_digest := Some n\<rparr>) (enrollment_map s)"
  "enrollment_map (fst (approve i u now s)) = at_key i (\<lambda>e. if en_state e \<noteq> EN_pending \<or> now > en_expires_at_ms e then e
     else e\<lparr>en_state := EN_approved, en_approved_user_id := Some u, en_approved_at_ms := Some now\<rparr>) (enrollment_map s)"
  "enrollment_map (fst (deny i s)) = at_key i (\<lambda>e. if en_state e \<noteq> EN_pending then e else e\<lparr>en_state := EN_denied\<rparr>) (enrollment_map s)"
  "enrollment_map (fst (markConsumed i now s)) = at_key i (\<lambda>e. if en_state e \<noteq> EN_approved then e
     else e\<lparr>en_state := EN_consumed, en_consumed_at_ms := Some now\<rparr>) (enrollment_map s)"
  "enrollment_map (fst (checkAndRecordPoll i now s)) = at_key i (\<lambda>e. e\<lparr>en_last_poll_at_ms := Some now\<rparr>) (enrollment_map s)"
  by (auto simp: fun_eq_iff setConsentNonce_def approve_def deny_def markConsumed_def checkAndRecordPoll_def getEnrollment_map modify_map at_key_def
      split: option.splits)

definition all_backed :: "(string \<Rightarrow> digest) \<Rightarrow> flow_event list \<Rightarrow> control_db \<Rightarrow> (string \<rightharpoonup> enrollment) \<Rightarrow> bool" where
  "all_backed sha h c E \<longleftrightarrow> (\<forall>i e. E i = Some e \<longrightarrow> en_enrollment_id e = i \<and> backed sha h c e)"

lemma all_backed_grows:
  "all_backed sha h c E \<Longrightarrow> set h \<subseteq> set h' \<Longrightarrow> (\<And>j. Denied j \<in> set h' \<Longrightarrow> Denied j \<in> set h) \<Longrightarrow> keeps_devices c c' \<Longrightarrow> all_backed sha h' c' E"
  unfolding all_backed_def using backed_grows [of sha h c _ h' c'] by blast

lemma all_backed_at:
  assumes "all_backed sha h c E" "set h \<subseteq> set h'" "\<And>j. j \<noteq> i \<Longrightarrow> Denied j \<in> set h' \<Longrightarrow> Denied j \<in> set h" "keeps_devices c c'"
    and "\<And>e. E i = Some e \<Longrightarrow> en_enrollment_id e = i \<Longrightarrow> backed sha h c e \<Longrightarrow> backed sha h' c' (f e) \<and> en_enrollment_id (f e) = i"
  shows "all_backed sha h' c' (at_key i f E)"
  unfolding all_backed_def
proof (intro allI impI)
  fix j e' assume j: "at_key i f E j = Some e'"
  show "en_enrollment_id e' = j \<and> backed sha h' c' e'"
  proof (cases "j = i")
    case True
    then show ?thesis using j assms(1,5) by (auto simp: at_key_def all_backed_def)
  next
    case False
    then have "E j = Some e'" using j by (simp add: at_key_def)
    then have "en_enrollment_id e' = j" "backed sha h c e'" using assms(1) by (simp_all add: all_backed_def)
    then show ?thesis using backed_grows [OF _ assms(2) _ assms(4)] assms(3) False by blast
  qed
qed

lemma all_backed_add: "all_backed sha h c E \<Longrightarrow> backed sha h c e \<Longrightarrow> all_backed sha h c (E(en_enrollment_id e \<mapsto> e))"
  by (auto simp: all_backed_def)

lemma backed_change:
  assumes "backed sha h c e" "request_of e' = request_of e" "en_state e' = en_state e" "en_approved_user_id e' = en_approved_user_id e"
    and "\<And>x. en_consent_nonce_digest e' = Some x \<Longrightarrow> en_consent_nonce_digest e = Some x \<or> (\<exists>n. Shown (en_enrollment_id e) n \<in> set h \<and> sha n = x)"
  shows "backed sha h c e'"
proof -
  have same: "en_enrollment_id e' = en_enrollment_id e" "en_expires_at_ms e' = en_expires_at_ms e" using assms(2) by (metis request_of_simps)+
  have "issued c e' u" if "issued c e u" for u using issued_kept [OF that devices_kept_refl assms(2)] .
  then show ?thesis using assms unfolding backed_def same by auto
qed

lemma request_of_change:
  "request_of (e\<lparr>en_last_poll_at_ms := x\<rparr>) = request_of e" "request_of (e\<lparr>en_consent_nonce_digest := y\<rparr>) = request_of e"
  "request_of (e\<lparr>en_state := z, en_approved_user_id := v, en_approved_at_ms := x\<rparr>) = request_of e"
  "request_of (e\<lparr>en_state := z\<rparr>) = request_of e" "request_of (e\<lparr>en_state := z, en_consumed_at_ms := x\<rparr>) = request_of e"
  by (simp_all add: request_of_def)

lemma flow_ok_iff: "flow_ok sha ttl (now, h, f) \<longleftrightarrow> enrollments_ok (fl_enrollments f) \<and> control_ok (fl_control f)
    \<and> sessions_ok ttl now h (fl_sessions f) \<and> history_ok sha ttl now h \<and> all_backed sha h (fl_control f) (enrollment_map (fl_enrollments f))"
  unfolding flow_ok_def all_backed_def enrollments_ok_def enrollment_ok_def by auto

section \<open>The poll\<close>

lemma token_cases:
  assumes "token_route sha lc clock code f = (f', r)" "enrollments_ok (fl_enrollments f)"
  obtains "f' = f" "\<And>d k b. r \<noteq> TokenIssued d k b"
  | e where "enrollment_map (fl_enrollments f) (en_enrollment_id e) = Some e" "en_device_code_digest e = sha (js_trim code)" "clock 0 \<le> en_expires_at_ms e"
      "f' = f\<lparr>fl_enrollments := fst (checkAndRecordPoll (en_enrollment_id e) (clock 1) (fl_enrollments f))\<rparr>"
      "(\<forall>d k b. r \<noteq> TokenIssued d k b) \<or> (\<exists>d k. en_state e = EN_consumed \<and> r = TokenIssued d k True
         \<and> getDevice (fl_control f) (en_reserved_device_id e) = Some d \<and> getDeviceCredential (fl_control f) (en_reserved_credential_id e) = Some k)"
  | e c d k b where "enrollment_map (fl_enrollments f) (en_enrollment_id e) = Some e" "en_device_code_digest e = sha (js_trim code)" "clock 0 \<le> en_expires_at_ms e"
      "en_state e = EN_approved" "finalizeDeviceEnrollment lc (enrollment_finalization (clock 2) e) (fl_control f) = Inr (c, d, k, b)" "r = TokenIssued d k b"
      "f' = f\<lparr>fl_control := c, fl_enrollments := fst (markConsumed (en_enrollment_id e) (clock 3)
         (fst (checkAndRecordPoll (en_enrollment_id e) (clock 1) (fl_enrollments f))))\<rparr>"
proof (cases "f' = f \<and> (\<forall>d k b. r \<noteq> TokenIssued d k b)")
  case True
  then show ?thesis using that(1) by blast
next
  case False
  then obtain e where e: "lookupByDeviceCodeDigest (fl_enrollments f) (sha (js_trim code)) = Some e" "\<not> clock 0 > en_expires_at_ms e" "code \<noteq> []"
    using assms(1) by (auto simp: token_route_def split: if_splits option.splits)
  note m = found_by_device_code [OF assms(2) e(1)]
  let ?f = "f\<lparr>fl_enrollments := fst (checkAndRecordPoll (en_enrollment_id e) (clock 1) (fl_enrollments f))\<rparr>"
  consider "(f', r) = (?f, TokenError ''slow_down'')" | "answer_poll lc clock e ?f = (f', r)"
    using assms(1) e by (cases "snd (checkAndRecordPoll (en_enrollment_id e) (clock 1) (fl_enrollments f))")
      (simp_all add: token_route_def Let_def case_prod_beta)
  then show ?thesis
  proof cases
    case 1
    then show ?thesis using that(2) m e by auto
  next
    case 2
    show ?thesis
    proof (cases "en_state e = EN_approved")
      case True
      let ?x = "finalizeDeviceEnrollment lc (enrollment_finalization (clock 2) e) (fl_control f)"
      show ?thesis
      proof (cases ?x)
        case (Inl a)
        then have "f' = ?f" "r = TokenInternalError" using 2 True by (simp_all add: answer_poll_def)
        then show ?thesis using that(2) m e(2) by auto
      next
        case (Inr q)
        obtain c d k b where q: "q = (c, d, k, b)" by (cases q)
        have fin: "?x = Inr (c, d, k, b)" using Inr q by simp
        have "r = TokenIssued d k b" "f' = f\<lparr>fl_control := c, fl_enrollments := fst (markConsumed (en_enrollment_id e) (clock 3)
           (fst (checkAndRecordPoll (en_enrollment_id e) (clock 1) (fl_enrollments f))))\<rparr>"
          using 2 True fin by (simp_all add: answer_poll_def)
        then show ?thesis using that(3) [OF conjunct1 [OF m] conjunct2 [OF m] _ True fin] e(2) by simp
      qed
    next
      case False
      then have "f' = ?f" "(\<forall>d k b. r \<noteq> TokenIssued d k b) \<or> (\<exists>d k. en_state e = EN_consumed \<and> r = TokenIssued d k True
         \<and> getDevice (fl_control f) (en_reserved_device_id e) = Some d \<and> getDeviceCredential (fl_control f) (en_reserved_credential_id e) = Some k)"
        using 2 by (auto simp: answer_poll_def split: enrollment_state.splits option.splits)
      then show ?thesis using that(2) m e(2) by auto
    qed
  qed
qed

lemma finalize_issued:
  assumes "finalizeDeviceEnrollment lc i db = Inr (db', d, k, b)"
  shows "getDevice db' (ei_device_id i) = Some d" "getDeviceCredential db' (ei_credential_id i) = Some k" "d_user_id d = ei_user_id i"
    "k_device_id k = ei_device_id i" "k_secret_digest k = ei_secret_digest i" "active_user db (ei_user_id i)"
proof -
  have "active_user db (ei_user_id i)"
    and c: "(db' = db \<and> getDevice db (ei_device_id i) = Some d \<and> getDeviceCredential db (ei_credential_id i) = Some k \<and> enrollment_matches lc i d k)
    \<or> (getDevice db (ei_device_id i) = None \<and> getDeviceCredential db (ei_credential_id i) = None \<and> enrollment_rows lc i = (d, k)
       \<and> devices db' = devices db @ [d] \<and> credentials db' = credentials db @ [k])"
    using assms by (auto simp: finalizeDeviceEnrollment_def Let_def ebind_eq_Inr insert_Inr split: if_splits option.splits prod.splits)
  then show "active_user db (ei_user_id i)" by blast
  show "getDevice db' (ei_device_id i) = Some d" "getDeviceCredential db' (ei_credential_id i) = Some k" "d_user_id d = ei_user_id i"
    "k_device_id k = ei_device_id i" "k_secret_digest k = ei_secret_digest i"
    using c by (auto simp: enrollment_matches_def enrollment_rows_def getDevice_def getDeviceCredential_def find_snoc)
qed

section \<open>Every step keeps the invariant\<close>

lemma began_unique:
  "history_ok sha ttl now h \<Longrightarrow> fresh_draws sha h dr \<Longrightarrow> en_enrollment_id e = ''enr_'' @ dr_enrollment_uuid dr \<Longrightarrow>
   en_device_code_digest e = sha (dr_device_code dr) \<Longrightarrow> history_ok sha ttl now (Began e # h)"
  unfolding history_ok_def fresh_draws_def approval_ok_def by (simp; metis)

lemma begin_ok:
  assumes "begin_route sha lc now i dr f = Some (f', r)" "fresh_draws sha h dr" "flow_ok sha ttl (now, h, f)"
  shows "flow_ok sha ttl (now, began_event dr f' @ h, f')"
proof -
  let ?i = "''enr_'' @ dr_enrollment_uuid dr"
  note ok = assms(3) [unfolded flow_ok_iff]
  obtain s q where c: "createEnrollment sha lc now (i\<lparr>bi_ttl_ms := None\<rparr>) dr (fl_enrollments f) = Some (s, q)" "f' = f\<lparr>fl_enrollments := s\<rparr>"
    using assms(1) by (auto simp: begin_route_def split: option.splits)
  have b: "Began (request_of e) \<in> set h \<and> en_enrollment_id e = j" if "enrollment_map (fl_enrollments f) j = Some e" for j e
    using ok that by (auto simp: all_backed_def backed_def)
  have d: "draws_ok sha (fl_enrollments f) dr"
    unfolding draws_ok_def
  proof (intro conjI allI impI)
    fix j e assume "enrollment_map (fl_enrollments f) j = Some e"
    note b [OF this]
    then show "j \<noteq> ?i" "en_device_code_digest e \<noteq> sha (dr_device_code dr)" using assms(2) unfolding fresh_draws_def by fastforce+
  qed (use assms(2) in \<open>simp add: fresh_draws_def\<close>)
  note cr = create_ok [OF c(1) conjunct1 [OF ok] d]
  let ?E = "if s = fl_enrollments f then enrollment_map (fl_enrollments f) else enrollment_map (fst (purgeExpired now (fl_enrollments f)))"
  have sub: "enrollment_map (fl_enrollments f) j = Some e" if "?E j = Some e" for j e
    using that purge_parts(1) [OF conjunct1 [OF ok] refl, of now] by (simp split: if_splits option.splits)
  then have old: "all_backed sha h (fl_control f) ?E" using ok unfolding all_backed_def by blast
  have gone: "?E ?i = None"
    using sub [of ?i] d unfolding draws_ok_def by (metis not_Some_eq)
  show ?thesis
  proof (cases q)
    case (Inl x)
    then have E: "enrollment_map s = ?E" using cr(2) by simp
    then have "began_event dr f' = []" using gone by (simp add: began_event_def c(2))
    then show ?thesis using ok cr(1) old E by (simp add: flow_ok_iff c(2))
  next
    case (Inr e)
    then have E: "enrollment_map s = ?E(en_enrollment_id e \<mapsto> e)" using cr(2) by simp
    obtain code t where e: "e = new_enrollment sha lc now t (i\<lparr>bi_ttl_ms := None\<rparr>) dr code" using create_cases [OF c(1)] Inr by auto
    have e': "en_enrollment_id e = ?i" "en_device_code_digest e = sha (dr_device_code dr)" "request_of e = e" "en_state e = EN_pending"
      "en_consent_nonce_digest e = None" by (simp_all add: e new_enrollment_def request_of_def)
    have ev: "began_event dr f' = [Began e]" using E e'(1) by (simp add: began_event_def c(2))
    have h: "history_ok sha ttl now (Began e # h)" using began_unique [OF _ assms(2) e'(1,2)] ok by blast
    have "Denied ?i \<notin> set h" using ok assms(2) unfolding history_ok_def fresh_draws_def by metis
    then have "backed sha (Began e # h) (fl_control f) e" by (simp add: backed_def e')
    then have "all_backed sha (Began e # h) (fl_control f) (enrollment_map s)"
      unfolding E by (intro all_backed_add all_backed_grows [OF old]) auto
    moreover have "sessions_ok ttl now (Began e # h) (fl_sessions f)" using sessions_grow [of ttl now h "fl_sessions f" "Began e # h" now] ok by auto
    ultimately show ?thesis using ok cr(1) h ev by (simp add: flow_ok_iff c(2))
  qed
qed

lemma poll_ok:
  assumes "reads now clock" "token_route sha lc clock code f = (f', r)" "flow_ok sha ttl (now, h, f)"
  shows "flow_ok sha ttl (clock 3, h, f')"
proof -
  note ok = assms(3) [unfolded flow_ok_iff]
  have le: "now \<le> clock 3" using assms(1) by (simp add: reads_def)
  have s: "sessions_ok ttl (clock 3) h (fl_sessions f)" using sessions_grow [of ttl now h _ h "clock 3"] ok le by blast
  have h: "history_ok sha ttl (clock 3) h" using history_harmless [of sha ttl now h "clock 3" "[]"] ok le by simp
  let ?P = "\<lambda>i. fst (checkAndRecordPoll i (clock 1) (fl_enrollments f))"
  have polled: "all_backed sha h (fl_control f) (enrollment_map (?P i))" for i
  proof -
    have "backed sha h (fl_control f) (e\<lparr>en_last_poll_at_ms := Some (clock 1)\<rparr>)" if "backed sha h (fl_control f) e" for e
      by (rule backed_change [OF that request_of_change(1)]) simp_all
    then show ?thesis unfolding operation_maps using ok by (intro all_backed_at [where h = h and c = "fl_control f"]) simp_all
  qed
  from assms(2) conjunct1 [OF ok] show ?thesis
  proof (cases rule: token_cases)
    case 1
    then show ?thesis using ok s h by (simp add: flow_ok_iff)
  next
    case (2 e)
    then show ?thesis using ok s h polled operations_ok(5) by (simp add: flow_ok_iff)
  next
    case (3 e c d k b)
    let ?i = "en_enrollment_id e"
    note fin = finalize_issued [OF 3(5)]
    have step: "control_ok c" "keeps_devices (fl_control f) c" using finalizeDeviceEnrollment_ok [OF 3(5)] finalize_keeps [OF 3(5)] ok by blast+
    have "all_backed sha h c (at_key ?i (\<lambda>e. if en_state e \<noteq> EN_approved then e
       else e\<lparr>en_state := EN_consumed, en_consumed_at_ms := Some (clock 3)\<rparr>) (enrollment_map (?P ?i)))"
    proof (rule all_backed_at [OF polled _ _ step(2)])
      fix v assume v: "enrollment_map (?P ?i) ?i = Some v" "backed sha h (fl_control f) v"
      have v': "v = e\<lparr>en_last_poll_at_ms := Some (clock 1)\<rparr>" using v(1) 3(1) by (simp add: operation_maps at_key_def)
      obtain u t n where u: "en_approved_user_id e = Some u" "Approved ?i u t n \<in> set h" "t \<le> en_expires_at_ms e" using v(2) 3(4) by (auto simp: backed_def v')
      have "issued c e u" using fin u(1) by (simp add: issued_def enrollment_finalization_def)
      then have i: "issued c (v\<lparr>en_state := EN_consumed, en_consumed_at_ms := Some (clock 3)\<rparr>) u"
        by (rule issued_kept [OF _ devices_kept_refl]) (simp add: v' request_of_change)
      show "backed sha h c (if en_state v \<noteq> EN_approved then v else v\<lparr>en_state := EN_consumed, en_consumed_at_ms := Some (clock 3)\<rparr>)
        \<and> en_enrollment_id (if en_state v \<noteq> EN_approved then v else v\<lparr>en_state := EN_consumed, en_consumed_at_ms := Some (clock 3)\<rparr>) = ?i"
        using v(2) 3(4) u i unfolding backed_def by (auto simp: v' request_of_change)
    qed simp_all
    then show ?thesis using ok s h step(1) operations_ok(4) [OF operations_ok(5) [OF conjunct1 [OF ok]]]
      by (simp add: flow_ok_iff 3(7) operation_maps(4))
  qed
qed

lemma page_ok:
  assumes "reads now clock" "page_route sha uc clock token nonce code f = (f', r)" "flow_ok sha ttl (now, h, f)"
  shows "flow_ok sha ttl (clock 3, page_event r @ h, f')"
proof -
  note ok = assms(3) [unfolded flow_ok_iff]
  have le: "now \<le> clock 3" using assms(1) by (simp add: reads_def)
  have s: "sessions_ok ttl (clock 3) (page_event r @ h) (fl_sessions f)"
    using sessions_grow [of ttl now h _ "page_event r @ h" "clock 3"] ok le by auto
  have h: "history_ok sha ttl (clock 3) (page_event r @ h)"
    using history_harmless [OF _ le, of sha ttl h "page_event r"] ok by (cases r) (simp_all add: page_event_def)
  from assms(2) conjunct1 [OF ok] show ?thesis
  proof (cases rule: page_cases)
    case (1 f1 u)
    then show ?thesis using ok s h session_user_parts(1-4) [OF 1(1)] sessions_subset by (auto simp: flow_ok_iff)
  next
    case 2
    then show ?thesis using ok s h by (simp add: flow_ok_iff)
  next
    case (3 f1 u e)
    note p = session_user_parts(1-4) [OF 3(1)]
    let ?i = "en_enrollment_id e"
    have "all_backed sha (Shown ?i nonce # h) (fl_control f) (at_key ?i (\<lambda>e. e\<lparr>en_consent_nonce_digest := Some (sha nonce)\<rparr>) (enrollment_map (fl_enrollments f)))"
    proof (rule all_backed_at [where h = h and c = "fl_control f"])
      fix v assume v: "en_enrollment_id v = ?i" "backed sha h (fl_control f) v"
      have g: "backed sha (Shown ?i nonce # h) (fl_control f) v" by (rule backed_grows [OF v(2)]) auto
      have "backed sha (Shown ?i nonce # h) (fl_control f) (v\<lparr>en_consent_nonce_digest := Some (sha nonce)\<rparr>)"
        by (rule backed_change [OF g request_of_change(2)]) (use v(1) in auto)
      then show "backed sha (Shown ?i nonce # h) (fl_control f) (v\<lparr>en_consent_nonce_digest := Some (sha nonce)\<rparr>)
        \<and> en_enrollment_id (v\<lparr>en_consent_nonce_digest := Some (sha nonce)\<rparr>) = ?i" using v(1) by simp
    qed (use ok in auto)
    then show ?thesis using ok s h p operations_ok(1) sessions_subset by (auto simp: flow_ok_iff 3(3,4) operation_maps(1))
  qed
qed

lemma decision_history:
  assumes "history_ok sha ttl now h" "now \<le> t" "t \<le> now'" "approval_ok sha ttl h i u t n"
  shows "history_ok sha ttl now' (Approved i u t n # h)"
proof -
  have "approval_ok sha ttl (Approved i u t n # h) j v x m" if "approval_ok sha ttl h j v x m" for j v x m
    by (rule approval_grows [OF that]) auto
  then show ?thesis using assms unfolding history_ok_def by (simp, fastforce)
qed

lemma denial_history:
  assumes "history_ok sha ttl now h" "now \<le> now'" "Began b \<in> set h" "en_enrollment_id b = i"
  shows "history_ok sha ttl now' (Denied i # h)"
proof -
  have "approval_ok sha ttl (Denied i # h) j v x m" if "approval_ok sha ttl h j v x m" for j v x m
    by (rule approval_grows [OF that]) auto
  then show ?thesis using assms unfolding history_ok_def by (simp, fastforce)
qed

lemma session_approval:
  assumes "session_user t token f = (f1, Some u)" "sessions_ok ttl now h (fl_sessions f)" "now \<le> t" "Shown i n' \<in> set h" "sha n' = sha n"
  shows "approval_ok sha ttl h i u t n"
proof -
  obtain x where x: "x \<in> set (sm_sessions (fl_sessions f))" "us_user_id (snd x) = u" "t \<le> us_expires_at (snd x)"
    using session_user_parts(5) [OF assms(1) refl] by blast
  then obtain t0 where "LoggedIn u t0 \<in> set h" "us_expires_at (snd x) = t0 + ttl" "t0 \<le> now" using assms(2) unfolding sessions_ok_def by blast
  then show ?thesis using x assms(3-5) unfolding approval_ok_def by fastforce
qed

lemma decide_ok:
  assumes "reads now clock" "decision_route sha uc clock token code nonce decision f = (f', r)" "flow_ok sha ttl (now, h, f)"
  shows "flow_ok sha ttl (clock 3, decision_event (clock 0) nonce r @ h, f')"
proof -
  note ok = assms(3) [unfolded flow_ok_iff]
  have le: "now \<le> clock 0" "clock 0 \<le> clock 3" "clock 0 \<le> clock 2" "now \<le> clock 3" using assms(1) by (simp_all add: reads_def)
  have s: "sessions_ok ttl (clock 3) (evs @ h) (fl_sessions f)" for evs
    using sessions_grow [of ttl now h _ "evs @ h" "clock 3"] ok le(4) by auto
  have b: "en_enrollment_id e = i \<and> backed sha h (fl_control f) e" if "enrollment_map (fl_enrollments f) i = Some e" for i e
    using ok that by (simp add: all_backed_def)
  from assms(2) conjunct1 [OF ok] show ?thesis
  proof (cases rule: decision_cases [where now = "clock 0"])
    case (1 f1 u)
    then show ?thesis using ok s [of "[]"] history_harmless [of sha ttl now h "clock 3" "[]"] le session_user_parts(1-4) [OF 1(1)] sessions_subset
      by (auto simp: flow_ok_iff)
  next
    case (2 f1 u e n)
    let ?i = "en_enrollment_id e" and ?h = "Approved (en_enrollment_id e) u (clock 0) n # h"
    note p = session_user_parts(1-4) [OF 2(1)] and be = conjunct2 [OF b [OF 2(2)]]
    obtain n' where "Shown ?i n' \<in> set h" "sha n' = sha n" using be 2(4) by (auto simp: backed_def)
    then have h: "history_ok sha ttl (clock 3) ?h"
      using session_approval [OF 2(1)] decision_history [of sha ttl now h "clock 0"] ok le by blast
    let ?f = "\<lambda>e. if en_state e \<noteq> EN_pending \<or> clock 2 > en_expires_at_ms e then e
       else e\<lparr>en_state := EN_approved, en_approved_user_id := Some u, en_approved_at_ms := Some (clock 2)\<rparr>"
    have "all_backed sha ?h (fl_control f) (at_key ?i ?f (enrollment_map (fl_enrollments f)))"
    proof (rule all_backed_at [where h = h and c = "fl_control f"])
      fix v assume v: "enrollment_map (fl_enrollments f) ?i = Some v" "backed sha h (fl_control f) v"
      have g: "backed sha ?h (fl_control f) v" by (rule backed_grows [OF v(2)]) auto
      have "v = e" using v(1) 2(2) by simp
      then show "backed sha ?h (fl_control f) (?f v) \<and> en_enrollment_id (?f v) = ?i"
        using g le(3) 2(3) unfolding backed_def by (auto simp: request_of_change)
    qed (use ok in auto)
    then show ?thesis using ok s [of "[Approved ?i u (clock 0) n]"] h p operations_ok(2) sessions_subset
      by (auto simp: flow_ok_iff 2(5,6) operation_maps(2))
  next
    case (3 f1 u e)
    let ?i = "en_enrollment_id e" and ?h = "Denied (en_enrollment_id e) # h"
    note p = session_user_parts(1-4) [OF 3(1)] and be = conjunct2 [OF b [OF 3(2)]]
    have h: "history_ok sha ttl (clock 3) ?h"
      using denial_history [of sha ttl now h "clock 3" "request_of e"] be ok le by (simp add: backed_def)
    let ?f = "\<lambda>e. if en_state e \<noteq> EN_pending then e else e\<lparr>en_state := EN_denied\<rparr>"
    have "all_backed sha ?h (fl_control f) (at_key ?i ?f (enrollment_map (fl_enrollments f)))"
    proof (rule all_backed_at [where h = h and c = "fl_control f"])
      fix v assume v: "enrollment_map (fl_enrollments f) ?i = Some v" "backed sha h (fl_control f) v"
      have "v = e" using v(1) 3(2) by simp
      then show "backed sha ?h (fl_control f) (?f v) \<and> en_enrollment_id (?f v) = ?i"
        using v(2) 3(3) unfolding backed_def by (auto simp: request_of_change)
    qed (use ok in auto)
    then show ?thesis using ok s [of "[Denied ?i]"] h p operations_ok(3) sessions_subset
      by (auto simp: flow_ok_iff 3(4,5) operation_maps(3))
  qed
qed

lemma login_ok:
  assumes "reads now clock" "createSession sid clock u p sub l (fl_sessions f) = (m, x)" "flow_ok sha ttl (now, h, f)"
  shows "flow_ok sha ttl (clock 3, LoggedIn u (clock 0) # h, f\<lparr>fl_sessions := m\<rparr>)"
proof -
  note ok = assms(3) [unfolded flow_ok_iff]
  have le: "now \<le> clock 3" "clock 0 \<le> clock 3" using assms(1) by (simp_all add: reads_def)
  have s: "sessions_ok ttl (clock 3) (LoggedIn u (clock 0) # h) (fl_sessions f)"
    using sessions_grow [of ttl now h _ "LoggedIn u (clock 0) # h" "clock 3"] ok le(1) by auto
  let ?x = "\<lparr>us_session_id = sid, us_user_id = u, us_provider = p, us_provider_subject = sub, us_provider_login = l,
    us_expires_at = clock 0 + sm_ttl_ms (fl_sessions f)\<rparr>"
  have upd: "set (AList.update sid v xs) \<subseteq> insert (sid, v) (set xs)" for v :: user_session and xs
    by (induction xs) auto
  have "m = fst (createSession sid clock u p sub l (fl_sessions f))" using assms(2) by simp
  then have "set (sm_sessions m) \<subseteq> set (AList.update sid ?x (sm_sessions (fl_sessions f)))" "sm_ttl_ms m = sm_ttl_ms (fl_sessions f)"
    by (simp_all add: createSession_def Let_def)
  then have "set (sm_sessions m) \<subseteq> insert (sid, ?x) (set (sm_sessions (fl_sessions f)))" "sm_ttl_ms m = sm_ttl_ms (fl_sessions f)"
    using upd [of ?x "sm_sessions (fl_sessions f)"] by blast+
  then have "sessions_ok ttl (clock 3) (LoggedIn u (clock 0) # h) m" using s le(2) unfolding sessions_ok_def by fastforce
  moreover have "history_ok sha ttl (clock 3) (LoggedIn u (clock 0) # h)"
    using history_harmless [OF _ le(1), of sha ttl h "[LoggedIn u (clock 0)]"] ok by simp
  moreover have "all_backed sha (LoggedIn u (clock 0) # h) (fl_control f) (enrollment_map (fl_enrollments f))"
    by (rule all_backed_grows [of sha h "fl_control f"]) (use ok in auto)
  ultimately show ?thesis using ok by (simp add: flow_ok_iff)
qed

lemma flow_step_ok: "flow_step sha lc uc s s' \<Longrightarrow> flow_ok sha ttl s \<Longrightarrow> flow_ok sha ttl s'"
proof (induction rule: flow_step.induct)
  case (tick now now' h f)
  then show ?case using sessions_grow [of ttl now h _ h now'] history_harmless [of sha ttl now h now' "[]"] by (simp add: flow_ok_iff)
next
  case (logout now h f t)
  have "set (sm_sessions (destroySession t (fl_sessions f))) \<subseteq> set (sm_sessions (fl_sessions f))"
    by (auto simp: destroySession_def AList.delete_eq)
  then show ?case using logout sessions_subset [of ttl now h "fl_sessions f"] by (simp add: flow_ok_iff destroySession_def)
next
  case (control f c now h)
  then show ?case using control_step_ok control_step_keeps all_backed_grows [of sha h "fl_control f" _ h c] by (simp add: flow_ok_iff)
next
  case (restart now h f)
  have "enrollment_map (clear_enrollments (fl_enrollments f)) = Map.empty" by (simp add: clear_enrollments_def enrollment_map_def)
  then show ?case using restart by (simp add: flow_ok_iff clear_ok sessions_ok_def all_backed_def)
qed (simp_all add: login_ok begin_ok poll_ok page_ok decide_ok)

text \<open>Time moves forward, the history only grows, and the limits stay as configured.\<close>

definition limits :: "flow_state \<Rightarrow> nat \<times> int" where
  "limits s = (es_max_active (fl_enrollments (snd (snd s))), es_default_ttl_ms (fl_enrollments (snd (snd s))))"

definition later :: "flow_state \<Rightarrow> flow_state \<Rightarrow> bool" where
  "later s s' \<longleftrightarrow> fst s \<le> fst s' \<and> set (fst (snd s)) \<subseteq> set (fst (snd s')) \<and> limits s' = limits s"

lemma operation_limits [simp]:
  "es_max_active (fst (setConsentNonce i n s)) = es_max_active s" "es_default_ttl_ms (fst (setConsentNonce i n s)) = es_default_ttl_ms s"
  "es_max_active (fst (approve i u now s)) = es_max_active s" "es_default_ttl_ms (fst (approve i u now s)) = es_default_ttl_ms s"
  "es_max_active (fst (deny i s)) = es_max_active s" "es_default_ttl_ms (fst (deny i s)) = es_default_ttl_ms s"
  "es_max_active (fst (markConsumed i now s)) = es_max_active s" "es_default_ttl_ms (fst (markConsumed i now s)) = es_default_ttl_ms s"
  "es_max_active (fst (checkAndRecordPoll i now s)) = es_max_active s" "es_default_ttl_ms (fst (checkAndRecordPoll i now s)) = es_default_ttl_ms s"
  "es_max_active (fst (purgeExpired now s)) = es_max_active s" "es_default_ttl_ms (fst (purgeExpired now s)) = es_default_ttl_ms s"
  "es_max_active (add_enrollment e s) = es_max_active s" "es_default_ttl_ms (add_enrollment e s) = es_default_ttl_ms s"
  by (simp_all add: setConsentNonce_def approve_def deny_def markConsumed_def checkAndRecordPoll_def modify_enrollment_def purgeExpired_def
      add_enrollment_def Let_def split: option.split)

lemma flow_step_limits: "flow_step sha lc uc s s' \<Longrightarrow> flow_ok sha ttl s \<Longrightarrow> limits s' = limits s"
proof (induction rule: flow_step.induct)
  case (begin_enrollment now i dr f f' r h)
  obtain s q where "createEnrollment sha lc now (i\<lparr>bi_ttl_ms := None\<rparr>) dr (fl_enrollments f) = Some (s, q)" "f' = f\<lparr>fl_enrollments := s\<rparr>"
    using begin_enrollment(1) by (auto simp: begin_route_def split: option.splits)
  then show ?case using create_cases by (fastforce simp: limits_def)
next
  case (poll now clock code f f' r h)
  have "enrollments_ok (fl_enrollments f)" using poll(3) by (simp add: flow_ok_iff)
  with poll(2) show ?case by (cases rule: token_cases) (simp_all add: limits_def)
next
  case (page now clock token nonce code f f' r h)
  have "enrollments_ok (fl_enrollments f)" using page(3) by (simp add: flow_ok_iff)
  with page(2) show ?case by (cases rule: page_cases) (simp_all add: limits_def session_user_parts(1))
next
  case (decide now clock token code nonce decision f f' r h)
  have "enrollments_ok (fl_enrollments f)" using decide(3) by (simp add: flow_ok_iff)
  with decide(2) show ?case by (cases rule: decision_cases [where now = 0]) (simp_all add: limits_def session_user_parts(1))
qed (simp_all add: limits_def clear_enrollments_def)

lemma flow_step_later: "flow_step sha lc uc s s' \<Longrightarrow> flow_ok sha ttl s \<Longrightarrow> later s s'"
proof -
  assume "flow_step sha lc uc s s'" "flow_ok sha ttl s"
  moreover have "fst s \<le> fst s' \<and> set (fst (snd s)) \<subseteq> set (fst (snd s'))"
    using \<open>flow_step sha lc uc s s'\<close> by (induction rule: flow_step.induct) (auto simp: reads_def)
  ultimately show ?thesis using flow_step_limits unfolding later_def by blast
qed

interpretation enrollment: monotone_by "flow_step sha lc uc" "flow_ok sha ttl" later
proof unfold_locales
  show "later s s'" if "flow_ok sha ttl s" "flow_step sha lc uc s s'" for s s' by (rule flow_step_later [OF that(2,1)])
qed (auto intro: flow_step_ok simp: later_def)

lemmas flow_reachable_ok = enrollment.inv_star [OF _ flow_start_ok]

lemma flow_reachable_limits:
  assumes "(flow_step sha lc uc)\<^sup>*\<^sup>* (start, [], flow_start m ttl session_ttl c) (now, h, f)" "control_ok c"
  shows "es_max_active (fl_enrollments f) = m" "es_default_ttl_ms (fl_enrollments f) = ttl"
  using enrollment.le_star [OF assms(1) flow_start_ok [OF assms(2)]] by (simp_all add: later_def limits_def flow_start_def new_store_def)

end
