(* ===== verification/Enrollment_Properties.thy ===== *)
theory Enrollment_Properties
  imports Enrollment_Protocol Control_Properties
begin

text \<open>
  What the enrollment of devices guarantees: a token is the end of an approval chain, a denial is final,
  enrollments are found by every spelling of their code, and beginning one always gets an answer. The device
  rows it leaves behind keep their owner.
\<close>

section \<open>Spellings of a user code\<close>

text \<open>The characters of all spellings.\<close>

definition plain_chars :: string where
  "plain_chars = CROCKFORD_BASE32_ALPHABET @ ''abcdefghjkmnpqrstvwxyz-''"

definition ascii_upper :: "char \<Rightarrow> char" where
  "ascii_upper c = (if 97 \<le> (of_char c :: nat) \<and> of_char c \<le> (122::nat) then char_of (of_char c - (32::nat)) else c)"

text \<open>With or without the hyphen, in capitals or not.\<close>

definition spellings :: "string \<Rightarrow> string list" where
  "spellings code = (let bare = take 4 code @ drop 5 code in [code, bare, map ascii_lower code, map ascii_lower bare])"

text \<open>What is used of \<^verbatim>\<open>toUpperCase\<close>.\<close>

definition upper_of_plain :: "(string \<Rightarrow> string) \<Rightarrow> bool" where
  "upper_of_plain uc \<longleftrightarrow> (\<forall>s. set s \<subseteq> set plain_chars \<longrightarrow> uc s = map ascii_upper s)"

lemma space_not_plain: "\<forall>w \<in> set ws_seqs. w \<noteq> [] \<and> hd w \<notin> set plain_chars \<and> last w \<notin> set plain_chars"
  by (simp add: ws_seqs_def plain_chars_def CROCKFORD_BASE32_ALPHABET_def)

lemma plain_code_units: "\<forall>c \<in> set plain_chars. of_char c < (0x80::nat)"
  by (simp add: plain_chars_def CROCKFORD_BASE32_ALPHABET_def)

lemma plain_trim:
  assumes "set s \<subseteq> set plain_chars"
  shows "js_trim s = s"
proof -
  have hd: "take (length w) s' = w \<Longrightarrow> w \<noteq> [] \<Longrightarrow> hd w \<in> set s'" for w s' :: string
    by (cases w; cases s') auto
  have "\<not> (w \<noteq> [] \<and> take (length w) s = w)" if "w \<in> set ws_seqs" for w
    using hd [of w s] space_not_plain assms that by blast
  then have "find (\<lambda>w. w \<noteq> [] \<and> take (length w) s = w) ws_seqs = None" unfolding find_None_iff by blast
  moreover have "\<not> (w \<noteq> [] \<and> take (length w) (rev s) = w)" if w: "w \<in> set (map rev ws_seqs)" for w
  proof -
    obtain v where v: "v \<in> set ws_seqs" "w = rev v" using w by auto
    then have "hd w \<notin> set plain_chars" using space_not_plain by (simp add: hd_rev)
    then show ?thesis using hd [of w "rev s"] assms by auto
  qed
  then have "find (\<lambda>w. w \<noteq> [] \<and> take (length w) (rev s) = w) (map rev ws_seqs) = None" unfolding find_None_iff by blast
  ultimately show ?thesis by (simp add: js_trim_def js_trim_start_id js_trim_end_id)
qed

lemma plain_length: "set s \<subseteq> set plain_chars \<Longrightarrow> js_length s = length s"
proof (induction s)
  case (Cons c s)
  have "of_char c < (0x80::nat)" using Cons(2) plain_code_units by auto
  then show ?case using Cons by (simp add: js_length_def)
qed (simp add: js_length_def)

lemma code_letters:
  "map ascii_lower (CROCKFORD_BASE32_ALPHABET @ ''-'') = ''23456789abcdefghjkmnpqrstvwxyz-''"
  "map ascii_upper ''23456789abcdefghjkmnpqrstvwxyz-'' = CROCKFORD_BASE32_ALPHABET @ ''-''"
  "map ascii_upper (CROCKFORD_BASE32_ALPHABET @ ''-'') = CROCKFORD_BASE32_ALPHABET @ ''-''"
  by code_simp+

lemma code_plain: "set ''23456789abcdefghjkmnpqrstvwxyz-'' \<subseteq> set plain_chars" "set (CROCKFORD_BASE32_ALPHABET @ ''-'') \<subseteq> set plain_chars"
  by (simp_all add: plain_chars_def CROCKFORD_BASE32_ALPHABET_def)

lemma upper_code:
  assumes "c \<in> set (CROCKFORD_BASE32_ALPHABET @ ''-'')"
  shows "ascii_upper c = c" "ascii_upper (ascii_lower c) = c" "ascii_lower c \<in> set plain_chars"
proof -
  have same: "f x = x" if "map f xs = xs" "x \<in> set xs" for f :: "char \<Rightarrow> char" and x xs
    using that map_eq_conv [of f xs id] by simp
  show "ascii_upper c = c" by (rule same [OF code_letters(3) assms])
  have "map (ascii_upper \<circ> ascii_lower) (CROCKFORD_BASE32_ALPHABET @ ''-'') = CROCKFORD_BASE32_ALPHABET @ ''-''"
    using code_letters(2) unfolding code_letters(1) [symmetric] map_map .
  then show "ascii_upper (ascii_lower c) = c" using same [OF _ assms] by fastforce
  have "ascii_lower c \<in> set (map ascii_lower (CROCKFORD_BASE32_ALPHABET @ ''-''))" unfolding set_map using assms by (rule imageI)
  then show "ascii_lower c \<in> set plain_chars" using code_plain(1) unfolding code_letters(1) by blast
qed

lemma hyphen_not_code: "CHR ''-'' \<notin> set CROCKFORD_BASE32_ALPHABET"
  by (simp add: CROCKFORD_BASE32_ALPHABET_def)

lemma code_shape:
  assumes "USER_CODE_RE code"
  obtains a b where "code = a @ ''-'' @ b" "length a = 4" "length b = 4" "set a \<subseteq> set CROCKFORD_BASE32_ALPHABET" "set b \<subseteq> set CROCKFORD_BASE32_ALPHABET"
proof
  have len: "length code = 9" "code ! 4 = CHR ''-''" using assms by (simp_all add: USER_CODE_RE_def)
  show "code = take 4 code @ ''-'' @ drop 5 code"
    using id_take_nth_drop [of 4 code] len by simp
qed (use assms in \<open>auto simp: USER_CODE_RE_def code_chars_def list_all_iff\<close>)

lemma normalize_spelling:
  assumes uc: "upper_of_plain uc" and code: "USER_CODE_RE code" and typed: "typed \<in> set (spellings code)"
  shows "normalizeDeviceUserCode uc typed = Inr code"
proof -
  obtain a b where c: "code = a @ ''-'' @ b" "length a = 4" "length b = 4" "set a \<subseteq> set CROCKFORD_BASE32_ALPHABET" "set b \<subseteq> set CROCKFORD_BASE32_ALPHABET"
    using code_shape [OF code] .
  have spell: "spellings code = [code, a @ b, map ascii_lower code, map ascii_lower (a @ b)]"
    using c(2) by (simp add: spellings_def c(1))
  have typed_back: "uc (js_trim s) = s \<and> uc (js_trim (map ascii_lower s)) = s" if "set s \<subseteq> set (CROCKFORD_BASE32_ALPHABET @ ''-'')" for s
  proof -
    have p: "set s \<subseteq> set plain_chars" "set (map ascii_lower s) \<subseteq> set plain_chars"
      using that code_plain(2) upper_code(3) unfolding set_map by blast+
    have "map ascii_upper s = s" "map ascii_upper (map ascii_lower s) = s"
      using that upper_code(1,2) by (auto simp only: map_map comp_apply intro!: map_idI)
    then show ?thesis using uc p by (simp add: upper_of_plain_def plain_trim)
  qed
  have sub: "set code \<subseteq> set (CROCKFORD_BASE32_ALPHABET @ ''-'')" "set (a @ b) \<subseteq> set (CROCKFORD_BASE32_ALPHABET @ ''-'')"
    using c by auto
  consider "typed = code" | "typed = a @ b" | "typed = map ascii_lower code" | "typed = map ascii_lower (a @ b)"
    using typed unfolding spell by fastforce
  then have "uc (js_trim typed) \<in> {code, a @ b}" by cases (use typed_back [OF sub(1)] typed_back [OF sub(2)] in simp_all)
  moreover have "CHR ''-'' \<notin> set (a @ b)" "js_length (a @ b) = 8"
    using hyphen_not_code c plain_length [of "a @ b"] by (auto simp: plain_chars_def)
  ultimately show ?thesis using code c by (auto simp: normalizeDeviceUserCode_def Let_def)
qed

lemma found_by_spelling:
  assumes "enrollments_ok s" "getEnrollment s i = Some e" "upper_of_plain uc" "typed \<in> set (spellings (en_user_code e))"
  shows "findByUserCode uc now s typed = Inr (unexpired now (Some e))"
proof -
  have e: "enrollment_map s i = Some e" using assms(2) by (simp add: getEnrollment_map)
  then have "enrollment_ok i e" "map_of (es_user_codes s) (en_user_code e) = Some i"
    using enrollments_okD(3) [OF assms(1)] index_agreesD(1) [OF enrollments_okD(1) [OF assms(1)]] by blast+
  then show ?thesis using normalize_spelling [OF assms(3) _ assms(4)] assms(2) by (simp add: findByUserCode_def enrollment_ok_def indexed_enrollment_def)
qed

section \<open>The properties\<close>

text \<open>
  C18. A token ends an approval chain. If a poll hands out a device credential after any interleaving, then the
  enrollment of this device code was begun; a user who had logged in within the session time approved it before it expired,
  repeating the nonce of a consent page shown for this very enrollment; nobody denied it; and the device and the credential
  are those reserved for it, with the secret digest given at its beginning, and the device belongs to the approving
  user, who is still active when the token is first issued.
\<close>

theorem token_needs_approval:
  assumes "(flow_step sha lc uc)\<^sup>*\<^sup>* (start, [], flow_start m ttl session_ttl c) (now, h, f)" "control_ok c"
    and "token_route sha lc clock code f = (f', TokenIssued d k replayed)"
  shows "\<exists>b u t n t0 n'. Began b \<in> set h \<and> en_device_code_digest b = sha (js_trim code) \<and> clock 0 \<le> en_expires_at_ms b
    \<and> Approved (en_enrollment_id b) u t n \<in> set h \<and> t \<le> en_expires_at_ms b
    \<and> LoggedIn u t0 \<in> set h \<and> t0 \<le> t \<and> t \<le> t0 + session_ttl
    \<and> Shown (en_enrollment_id b) n' \<in> set h \<and> sha n' = sha n \<and> Denied (en_enrollment_id b) \<notin> set h
    \<and> d_id d = en_reserved_device_id b \<and> d_user_id d = u \<and> k_id k = en_reserved_credential_id b
    \<and> k_device_id k = d_id d \<and> k_secret_digest k = en_credential_secret_digest b
    \<and> (\<not> replayed \<longrightarrow> active_user (fl_control f) u)"
proof -
  have ok: "flow_ok sha session_ttl (now, h, f)" by (rule flow_reachable_ok [OF assms(1,2)])
  note parts = ok [unfolded flow_ok_iff]
  have row: "d_id d = i" if "getDevice x i = Some d" for x i using found(1) [OF that] by simp
  have key: "k_id k = i" if "getDeviceCredential x i = Some k" for x i using find_SomeD that by (fastforce simp: getDeviceCredential_def)
  from assms(3) conjunct1 [OF parts]
  obtain e where e: "enrollment_map (fl_enrollments f) (en_enrollment_id e) = Some e" "en_device_code_digest e = sha (js_trim code)"
    "clock 0 \<le> en_expires_at_ms e" "en_state e \<in> {EN_approved, EN_consumed}"
    and out: "\<And>u. en_approved_user_id e = Some u \<Longrightarrow> (en_state e = EN_consumed \<Longrightarrow> issued (fl_control f) e u) \<Longrightarrow>
       d_id d = en_reserved_device_id e \<and> d_user_id d = u \<and> k_id k = en_reserved_credential_id e
       \<and> k_device_id k = en_reserved_device_id e \<and> k_secret_digest k = en_credential_secret_digest e \<and> (\<not> replayed \<longrightarrow> active_user (fl_control f) u)"
  proof (cases rule: token_cases)
    case (2 e)
    then have r: "en_state e = EN_consumed" "getDevice (fl_control f) (en_reserved_device_id e) = Some d" "replayed"
      "getDeviceCredential (fl_control f) (en_reserved_credential_id e) = Some k" by auto
    show ?thesis by (rule that [of e]) (use 2 r row key in \<open>auto simp: issued_def\<close>)
  next
    case (3 e x d' k' b)
    note fin = finalize_issued [OF 3(5)]
    show ?thesis
      by (rule that [of e]) (use 3(1-4,6) row key fin in \<open>auto simp: enrollment_finalization_def\<close>)
  qed blast
  have b: "backed sha h (fl_control f) e" using parts e(1) by (simp add: all_backed_def)
  then obtain u t n where u: "en_approved_user_id e = Some u" "Approved (en_enrollment_id e) u t n \<in> set h" "t \<le> en_expires_at_ms e"
    "en_state e = EN_consumed \<longrightarrow> issued (fl_control f) e u" using e(4) unfolding backed_def by blast
  have "approval_ok sha session_ttl h (en_enrollment_id e) u t n" using parts u(2) unfolding history_ok_def by blast
  then obtain n' t0 where a: "Shown (en_enrollment_id e) n' \<in> set h" "sha n' = sha n" "LoggedIn u t0 \<in> set h" "t0 \<le> t" "t \<le> t0 + session_ttl"
    unfolding approval_ok_def by blast
  have d: "Denied (en_enrollment_id e) \<notin> set h" "Began (request_of e) \<in> set h" using b e(4) by (auto simp: backed_def)
  note o = out [OF u(1) u(4) [rule_format]]
  show ?thesis
    by (rule exI [of _ "request_of e"], rule exI [of _ u], rule exI [of _ t], rule exI [of _ n], rule exI [of _ t0], rule exI [of _ n'])
      (use o a d u(2,3) e(2,3) in simp)
qed

text \<open>
  A denial is final. Once a user has denied an enrollment, no later poll with its device code hands out a
  credential, whatever happens in between.
\<close>

theorem denied_is_final:
  assumes "(flow_step sha lc uc)\<^sup>*\<^sup>* (start, [], flow_start m ttl session_ttl c) (now, h, f)" "control_ok c"
    and "reads now clock" "decision_route sha uc clock token code nonce decision f = (f', DecisionDenied i)"
    and "(flow_step sha lc uc)\<^sup>*\<^sup>* (clock 3, Denied i # h, f') (now', h', g)"
    and "Began b \<in> set h'" "en_enrollment_id b = i" "en_device_code_digest b = sha (js_trim device_code)"
  shows "snd (token_route sha lc clock' device_code g) \<noteq> TokenIssued d k replayed"
proof
  assume r: "snd (token_route sha lc clock' device_code g) = TokenIssued d k replayed"
  have ok1: "flow_ok sha session_ttl (now, h, f)" by (rule flow_reachable_ok [OF assms(1,2)])
  have ev: "decision_event (clock 0) nonce (DecisionDenied i) = [Denied i]" by (simp add: decision_event_def)
  have ok2: "flow_ok sha session_ttl (clock 3, Denied i # h, f')" using decide_ok [OF assms(3,4) ok1] unfolding ev by simp
  have ok: "flow_ok sha session_ttl (now', h', g)" by (rule enrollment.inv_star [OF assms(5) ok2])
  note parts = ok [unfolded flow_ok_iff]
  have "Denied i \<in> set h'" using enrollment.le_star [OF assms(5) ok2] by (simp add: later_def)
  obtain g' where "token_route sha lc clock' device_code g = (g', TokenIssued d k replayed)" using r by (metis prod.collapse)
  from this conjunct1 [OF parts]
  obtain e where e: "enrollment_map (fl_enrollments g) (en_enrollment_id e) = Some e" "en_device_code_digest e = sha (js_trim device_code)"
    "en_state e \<noteq> EN_denied" by (cases rule: token_cases) auto
  have bk: "backed sha h' (fl_control g) e" using parts e(1) by (simp add: all_backed_def)
  then have "request_of e = b" using parts assms(6,8) e(2) unfolding history_ok_def backed_def by (metis request_of_simps(2))
  then have "en_enrollment_id e = i" using assms(7) by (metis request_of_simps(1))
  then show False using bk e(3) \<open>Denied i \<in> set h'\<close> by (simp add: backed_def)
qed

text \<open>
  Every enrollment in the store is found, and no other. After any interleaving the store holds at most as many
  enrollments as configured; each is found by the digest of its device code and, until it expires, by every
  spelling of its user code; an approved or consumed one names who approved it.
\<close>

theorem enrollments_are_found:
  assumes "(flow_step sha lc uc)\<^sup>*\<^sup>* (start, [], flow_start m ttl session_ttl c) (now, h, f)" "control_ok c"
    and "upper_of_plain uc'"
  shows "enrollment_count (fl_enrollments f) \<le> m
    \<and> (\<forall>i e. getEnrollment (fl_enrollments f) i = Some e \<longrightarrow> en_enrollment_id e = i
        \<and> lookupByDeviceCodeDigest (fl_enrollments f) (en_device_code_digest e) = Some e
        \<and> (\<forall>typed \<in> set (spellings (en_user_code e)). \<forall>t. findByUserCode uc' t (fl_enrollments f) typed = Inr (unexpired t (Some e)))
        \<and> (en_state e \<in> {EN_approved, EN_consumed} \<longrightarrow> en_approved_user_id e \<noteq> None))"
proof -
  have ok: "enrollments_ok (fl_enrollments f)"
    using enrollment.inv_star [OF assms(1) flow_start_ok [OF assms(2)]] unfolding flow_ok_iff by blast
  have "enrollment_count (fl_enrollments f) \<le> m"
    using ok flow_reachable_limits(1) [OF assms(1,2)] by (simp add: enrollments_ok_def enrollment_count_def)
  moreover have "en_enrollment_id e = i \<and> lookupByDeviceCodeDigest (fl_enrollments f) (en_device_code_digest e) = Some e
      \<and> (en_state e \<in> {EN_approved, EN_consumed} \<longrightarrow> en_approved_user_id e \<noteq> None)" if e: "getEnrollment (fl_enrollments f) i = Some e" for i e
  proof -
    have "enrollment_map (fl_enrollments f) i = Some e" using e by (simp add: getEnrollment_map)
    then have "enrollment_ok i e" "map_of (es_device_codes (fl_enrollments f)) (en_device_code_digest e) = Some i"
      using enrollments_okD(3) [OF ok] index_agreesD(1) [OF enrollments_okD(2) [OF ok]] by blast+
    then show ?thesis using e by (simp add: enrollment_ok_def lookupByDeviceCodeDigest_def indexed_enrollment_def)
  qed
  ultimately show ?thesis using found_by_spelling [OF ok _ assms(3)] by blast
qed

text \<open>What a begin request must contain, and how many enrollments it finds alive.\<close>

definition begin_valid :: "(string \<Rightarrow> string) \<Rightarrow> begin_input \<Rightarrow> bool" where
  "begin_valid lc i \<longleftrightarrow> js_trim (bi_display_name i) \<noteq> [] \<and> js_length (js_trim (bi_display_name i)) \<le> 128
     \<and> lc (js_trim (bi_platform i)) \<in> set VALID_PLATFORMS \<and> HEX_64_RE (bi_credential_secret_digest i)"

definition live_enrollments :: "int \<Rightarrow> enrollment_store \<Rightarrow> nat" where
  "live_enrollments now s = length (filter (\<lambda>x. now \<le> en_expires_at_ms (snd x)) (es_enrollments s))"

lemma purge_live: "length (es_enrollments (fst (purgeExpired now s))) = live_enrollments now s"
  by (simp add: purgeExpired_def Let_def live_enrollments_def linorder_not_less)

lemma begin_outcome:
  assumes "fresh_user_code (dr_bytes dr) (es_user_codes (fst (purgeExpired now (fl_enrollments f)))) 0 = Some code"
  shows "begin_route sha lc now i dr f = Some (
     if \<not> begin_valid lc i then (f, BeginInvalid)
     else let s = fst (purgeExpired now (fl_enrollments f)) in
       if es_max_active (fl_enrollments f) \<le> live_enrollments now (fl_enrollments f) then (f\<lparr>fl_enrollments := s\<rparr>, BeginUnavailable)
       else (f\<lparr>fl_enrollments := add_enrollment (new_enrollment sha lc now (es_default_ttl_ms (fl_enrollments f)) i dr code) s\<rparr>,
         BeginOk (dr_device_code dr) code (''dev_'' @ dr_device_uuid dr) (''dcr_'' @ dr_credential_uuid dr) (es_default_ttl_ms (fl_enrollments f) div 1000)))"
  using assms purge_live [of now "fl_enrollments f"]
  by (auto simp: begin_route_def createEnrollment_def begin_valid_def Let_def new_enrollment_def)

text \<open>
  Beginning an enrollment always gets an answer: as soon as the random source yields more different codes than the store
  may hold, the loop that looks for an unused code ends. A malformed request is refused, a full store of unexpired
  enrollments answers that it is unavailable, and otherwise a pending enrollment is stored under a code that
  no unexpired enrollment has.
\<close>

theorem begin_is_answered:
  assumes "(flow_step sha lc uc)\<^sup>*\<^sup>* (start, [], flow_start m ttl session_ttl c) (now, h, f)" "control_ok c"
    and codes: "m < card ((\<lambda>n. generateUserCode (dr_bytes dr n)) ` {..<N})"
  shows "\<exists>f' r. begin_route sha lc t i dr f = Some (f', r)
    \<and> (r = BeginInvalid \<longleftrightarrow> \<not> begin_valid lc i)
    \<and> (r = BeginUnavailable \<longleftrightarrow> begin_valid lc i \<and> m \<le> live_enrollments t (fl_enrollments f))
    \<and> (begin_valid lc i \<and> live_enrollments t (fl_enrollments f) < m \<longrightarrow> (\<exists>code e.
        r = BeginOk (dr_device_code dr) code (''dev_'' @ dr_device_uuid dr) (''dcr_'' @ dr_credential_uuid dr) (ttl div 1000)
        \<and> getEnrollment (fl_enrollments f') (''enr_'' @ dr_enrollment_uuid dr) = Some e \<and> en_state e = EN_pending
        \<and> en_user_code e = code \<and> en_device_code_digest e = sha (dr_device_code dr) \<and> en_expires_at_ms e = t + ttl
        \<and> (\<forall>j e'. getEnrollment (fl_enrollments f) j = Some e' \<and> t \<le> en_expires_at_ms e' \<longrightarrow> en_user_code e' \<noteq> code)))"
proof -
  have ok: "enrollments_ok (fl_enrollments f)"
    using enrollment.inv_star [OF assms(1) flow_start_ok [OF assms(2)]] unfolding flow_ok_iff by blast
  note lim = flow_reachable_limits [OF assms(1,2)]
  let ?s = "fst (purgeExpired t (fl_enrollments f))"
  have p: "enrollments_ok ?s" by (rule purge_ok [OF ok])
  have "length (es_user_codes ?s) \<le> m" using taken_codes [OF p] p lim by (simp add: enrollments_ok_def)
  then obtain code where code: "fresh_user_code (dr_bytes dr) (es_user_codes ?s) 0 = Some code"
    using fresh_user_code_ends codes by (meson order_le_less_trans)
  have unused: "en_user_code e' \<noteq> code" if "getEnrollment (fl_enrollments f) j = Some e'" "t \<le> en_expires_at_ms e'" for j e'
  proof -
    have "enrollment_map ?s j = Some e'" using that unfolding purge_parts(1) [OF ok refl, of t] by (simp add: getEnrollment_map)
    then show ?thesis using index_agreesD(1) [OF enrollments_okD(1) [OF p]] fresh_user_code_free [OF code] by fastforce
  qed
  let ?e = "new_enrollment sha lc t ttl i dr code"
  have "getEnrollment (add_enrollment ?e ?s) (''enr_'' @ dr_enrollment_uuid dr) = Some ?e"
    by (simp add: getEnrollment_def add_enrollment_def update_conv' new_enrollment_def)
  then show ?thesis
    using unused begin_outcome [OF code, of sha lc i] lim
    by (cases "begin_valid lc i"; cases "m \<le> live_enrollments t (fl_enrollments f)") (auto simp: Let_def new_enrollment_def)
qed

text \<open>
  What a device or a credential is never changes: after any further operations of the control store a device still belongs
  to the same user and a credential to the same device with the same secret and expiry, and a revoked one stays revoked.
\<close>

theorem device_identity_is_permanent:
  assumes "control_step\<^sup>*\<^sup>* empty_control db" "control_step\<^sup>*\<^sup>* db db'"
  shows "(getDevice db i = Some d \<longrightarrow> (\<exists>d'. getDevice db' i = Some d' \<and> d_user_id d' = d_user_id d
      \<and> (d_revoked_at_ms d \<noteq> None \<longrightarrow> d_revoked_at_ms d' \<noteq> None)))
    \<and> (getDeviceCredential db j = Some k \<longrightarrow> (\<exists>k'. getDeviceCredential db' j = Some k' \<and> k_device_id k' = k_device_id k
      \<and> k_secret_digest k' = k_secret_digest k \<and> k_expires_at_ms k' = k_expires_at_ms k
      \<and> (k_revoked_at_ms k \<noteq> None \<longrightarrow> k_revoked_at_ms k' \<noteq> None)))"
proof -
  have "control_ok db" by (rule control.inv_star [OF assms(1)]) (simp add: control_ok_def table_defs empty_control_def)
  then have "keeps_devices db db'" by (rule kept.le_star [OF assms(2)])
  then show ?thesis
    unfolding keeps_devices_def rows_kept_def device_kept_def credential_kept_def getDevice_def getDeviceCredential_def by blast
qed

section \<open>A run of the protocol\<close>

text \<open>One user logs in, a device begins an enrollment, the consent page is shown and the user decides.\<close>

abbreviation sample_step :: "flow_state \<Rightarrow> flow_state \<Rightarrow> bool" where
  "sample_step \<equiv> flow_step (\<lambda>s. s) ascii_lc (map ascii_upper)"

definition sample_begin :: begin_input where
  "sample_begin = \<lparr>bi_display_name = '' Laptop'', bi_platform = ''Linux'', bi_credential_secret_digest = replicate 64 CHR ''a'', bi_ttl_ms = None\<rparr>"

definition sample_draws :: draws where
  "sample_draws = \<lparr>dr_bytes = \<lambda>n. replicate 8 n, dr_device_code = ''secret'', dr_enrollment_uuid = ''1'', dr_device_uuid = ''2'', dr_credential_uuid = ''00000000-0000-4000-8000-000000000003''\<rparr>"

definition sample_start :: flow where "sample_start = flow_start 2 600000 43200000 sample_identity"

definition sample_login :: flow where
  "sample_login = sample_start\<lparr>fl_sessions := fst (createSession ''sid'' (\<lambda>_. 1000) ''usr_1'' ''github'' ''42'' None (fl_sessions sample_start))\<rparr>"

definition sample_begun :: flow where
  "sample_begun = sample_login\<lparr>fl_enrollments := add_enrollment
     (new_enrollment (\<lambda>s. s) ascii_lc 1000 600000 sample_begin sample_draws ''2222-2222'') (fl_enrollments sample_login)\<rparr>"

definition sample_page :: "flow \<times> page_response" where
  "sample_page = page_route (\<lambda>s. s) (map ascii_upper) (\<lambda>_. 2000) (Some ''sid'') ''nonce'' (Some ''22222222'') sample_begun"

definition sample_decision :: "string \<Rightarrow> flow \<times> decision_response" where
  "sample_decision answer =
     decision_route (\<lambda>s. s) (map ascii_upper) (\<lambda>_. 3000) (Some ''sid'') (Some ''2222-2222'') (Some ''nonce'') (Some answer) (fst sample_page)"

definition sample_history :: "flow_event list" where
  "sample_history = page_event (snd sample_page) @ began_event sample_draws sample_begun @ [LoggedIn ''usr_1'' 1000]"

lemma sample_begins:
  "begin_route (\<lambda>s. s) ascii_lc 1000 sample_begin sample_draws sample_login
     = Some (sample_begun, BeginOk ''secret'' ''2222-2222'' ''dev_2'' ''dcr_00000000-0000-4000-8000-000000000003'' 600)"
proof -
  have "fresh_user_code (dr_bytes sample_draws) (es_user_codes (fst (purgeExpired 1000 (fl_enrollments sample_login)))) 0 = Some ''2222-2222''"
  proof -
    have "es_user_codes (fst (purgeExpired 1000 (fl_enrollments sample_login))) = []" "generateUserCode (dr_bytes sample_draws 0) = ''2222-2222''"
      by code_simp+
    then show ?thesis by (subst fresh_user_code.simps) simp
  qed
  moreover have "begin_valid ascii_lc sample_begin" by code_simp
  ultimately show ?thesis
    by (simp add: begin_outcome Let_def sample_begun_def sample_login_def sample_start_def flow_start_def new_store_def purgeExpired_def
        live_enrollments_def sample_draws_def)
qed

lemma sample_answers:
  "snd sample_page = PageConsent ''enr_1'' ''2222-2222'' ''nonce''"
  "snd (sample_decision ''approve'') = DecisionApproved ''enr_1'' ''usr_1''"
  "snd (sample_decision ''deny'') = DecisionDenied ''enr_1''"
  by code_simp+

lemma sample_began: "began_event sample_draws sample_begun = [Began (new_enrollment (\<lambda>s. s) ascii_lc 1000 600000 sample_begin sample_draws ''2222-2222'')]"
  by (simp add: began_event_def enrollment_map_def sample_begun_def add_enrollment_def new_enrollment_def update_conv' sample_draws_def)

lemma sample_run:
  "sample_step\<^sup>*\<^sup>* (0, [], sample_start) (2000, sample_history, fst sample_page)"
  "sample_step (2000, sample_history, fst sample_page) (3000, Approved ''enr_1'' ''usr_1'' 3000 ''nonce'' # sample_history, fst (sample_decision ''approve''))"
proof -
  let ?h = "[LoggedIn ''usr_1'' 1000]"
  have r: "reads 0 (\<lambda>_. 1000)" "reads 1000 (\<lambda>_. 2000)" "reads 2000 (\<lambda>_. 3000)" by (simp_all add: reads_def)
  have s1: "sample_step (0, [], sample_start) (1000, ?h, sample_login)"
    using login [OF r(1), of "''sid''" "''usr_1''" "''github''" "''42''" None sample_start] unfolding sample_login_def by (metis prod.collapse)
  have "fresh_draws (\<lambda>s. s) ?h sample_draws" by (simp add: fresh_draws_def sample_draws_def)
  note s2 = begin_enrollment [OF sample_begins this]
  have s3: "sample_step (1000, began_event sample_draws sample_begun @ ?h, sample_begun) (2000, sample_history, fst sample_page)"
    using page [OF r(2), of "\<lambda>s. s" "map ascii_upper" "Some ''sid''" "''nonce''" "Some ''22222222''" sample_begun] unfolding sample_history_def sample_page_def
    by (metis prod.collapse)
  show "sample_step\<^sup>*\<^sup>* (0, [], sample_start) (2000, sample_history, fst sample_page)"
    using s1 s2 s3 by (meson rtranclp.rtrancl_into_rtrancl rtranclp.rtrancl_refl)
  have "sample_decision ''approve'' = (fst (sample_decision ''approve''), DecisionApproved ''enr_1'' ''usr_1'')"
    using sample_answers(2) by (metis prod.collapse)
  from decide [OF r(3) this [unfolded sample_decision_def], of ascii_lc sample_history]
  show "sample_step (2000, sample_history, fst sample_page) (3000, Approved ''enr_1'' ''usr_1'' 3000 ''nonce'' # sample_history, fst (sample_decision ''approve''))"
    by (simp add: decision_event_def sample_decision_def)
qed

lemma sample_start_ok: "control_ok sample_identity"
  by (simp add: control_ok_def table_defs sample_identity_def empty_control_def)

lemma sample_token:
  "\<exists>f' d k. token_route (\<lambda>s. s) ascii_lc (\<lambda>_. 4000) ''secret'' (fst (sample_decision ''approve'')) = (f', TokenIssued d k False)"
proof -
  have "case snd (token_route (\<lambda>s. s) ascii_lc (\<lambda>_. 4000) ''secret'' (fst (sample_decision ''approve''))) of TokenIssued d k r \<Rightarrow> \<not> r | _ \<Rightarrow> False"
    by code_simp
  then show ?thesis by (cases "token_route (\<lambda>s. s) ascii_lc (\<lambda>_. 4000) ''secret'' (fst (sample_decision ''approve''))") (auto split: token_response.splits)
qed

theorem token_needs_approval_witness:
  "\<exists>f' d k. token_route (\<lambda>s. s) ascii_lc (\<lambda>_. 4000) ''secret'' (fst (sample_decision ''approve'')) = (f', TokenIssued d k False)
     \<and> d_user_id d = ''usr_1''"
proof -
  obtain f' d k where r: "token_route (\<lambda>s. s) ascii_lc (\<lambda>_. 4000) ''secret'' (fst (sample_decision ''approve'')) = (f', TokenIssued d k False)"
    using sample_token by blast
  have run: "sample_step\<^sup>*\<^sup>* (0, [], sample_start) (3000, Approved ''enr_1'' ''usr_1'' 3000 ''nonce'' # sample_history, fst (sample_decision ''approve''))"
    using sample_run by (meson rtranclp.rtrancl_into_rtrancl)
  obtain i u t n where "Approved i u t n \<in> set (Approved ''enr_1'' ''usr_1'' 3000 ''nonce'' # sample_history)" "d_user_id d = u"
    using token_needs_approval [OF run [unfolded sample_start_def] sample_start_ok r] by blast
  then have "d_user_id d = ''usr_1''" by (auto simp: sample_history_def sample_began sample_answers(1) page_event_def)
  then show ?thesis using r by blast
qed

theorem denied_is_final_witness:
  "snd (sample_decision ''deny'') = DecisionDenied ''enr_1''
   \<and> (\<forall>d k r. snd (token_route (\<lambda>s. s) ascii_lc (\<lambda>_. 4000) ''secret'' (fst (sample_decision ''deny''))) \<noteq> TokenIssued d k r)"
proof -
  let ?b = "new_enrollment (\<lambda>s. s) ascii_lc 1000 600000 sample_begin sample_draws ''2222-2222''"
  have d: "decision_route (\<lambda>s. s) (map ascii_upper) (\<lambda>_. 3000) (Some ''sid'') (Some ''2222-2222'') (Some ''nonce'') (Some ''deny'') (fst sample_page)
      = (fst (sample_decision ''deny''), DecisionDenied ''enr_1'')"
    using sample_answers(3) unfolding sample_decision_def by (metis prod.collapse)
  have rd: "reads 2000 (\<lambda>_. 3000)" by (simp add: reads_def)
  have b: "Began ?b \<in> set (Denied ''enr_1'' # sample_history)" by (simp add: sample_history_def sample_began)
  have e: "en_enrollment_id ?b = ''enr_1''" "en_device_code_digest ?b = js_trim ''secret''" by code_simp+
  have "snd (token_route (\<lambda>s. s) ascii_lc (\<lambda>_. 4000) ''secret'' (fst (sample_decision ''deny''))) \<noteq> TokenIssued d k r" for d k r
    by (rule denied_is_final [OF sample_run(1) [unfolded sample_start_def] sample_start_ok rd d rtranclp.rtrancl_refl b e])
  then show ?thesis using sample_answers(3) by blast
qed

lemma ascii_upper_plain: "upper_of_plain (map ascii_upper)"
  by (simp add: upper_of_plain_def)

theorem enrollments_are_found_witness:
  "enrollment_count (fl_enrollments (fst sample_page)) \<le> 2
   \<and> (\<exists>e. findByUserCode (map ascii_upper) 5000 (fl_enrollments (fst sample_page)) ''22222222'' = Inr (Some e) \<and> en_enrollment_id e = ''enr_1'')"
proof -
  note w = enrollments_are_found [OF sample_run(1) [unfolded sample_start_def] sample_start_ok ascii_upper_plain]
  obtain e where e: "getEnrollment (fl_enrollments (fst sample_page)) ''enr_1'' = Some e" "en_user_code e = ''2222-2222''" "5000 \<le> en_expires_at_ms e"
  proof -
    have "case getEnrollment (fl_enrollments (fst sample_page)) ''enr_1'' of None \<Rightarrow> False
        | Some e \<Rightarrow> en_user_code e = ''2222-2222'' \<and> 5000 \<le> en_expires_at_ms e" by code_simp
    then show ?thesis using that by (auto split: option.splits)
  qed
  have "''22222222'' \<in> set (spellings ''2222-2222'')" by code_simp
  then show ?thesis using w e by (auto simp: unexpired_def)
qed

theorem begin_is_answered_witness:
  "(\<exists>f' r. begin_route (\<lambda>s. s) ascii_lc 5000 sample_begin sample_draws (fst sample_page) = Some (f', r))
   \<and> 2 < card ((\<lambda>n. generateUserCode (dr_bytes sample_draws n)) ` {..<3})"
proof -
  have codes: "map (\<lambda>n. generateUserCode (dr_bytes sample_draws n)) [0, 1, 2] = [''2222-2222'', ''3333-3333'', ''4444-4444'']" by code_simp
  have "{..<3} = set [0, 1, 2 :: nat]" by auto
  then have "(\<lambda>n. generateUserCode (dr_bytes sample_draws n)) ` {..<3} = set [''2222-2222'', ''3333-3333'', ''4444-4444'']"
    unfolding codes [symmetric] set_map by (rule arg_cong)
  then have c: "2 < card ((\<lambda>n. generateUserCode (dr_bytes sample_draws n)) ` {..<3})" by simp
  show ?thesis
    using begin_is_answered [OF sample_run(1) [unfolded sample_start_def] sample_start_ok c, of 5000 sample_begin] c by blast
qed

theorem device_identity_is_permanent_witness:
  "\<exists>k. getDeviceCredential (fst (revokeDevice 5000 ''dev_1'' sample_control1)) ''dcr_1'' = Some k \<and> k_device_id k = ''dev_1''
     \<and> k_secret_digest k = replicate 64 CHR ''a''"
proof -
  have "control_step sample_control1 (fst (revokeDevice 5000 ''dev_1'' sample_control1))" by (rule revoke_device)
  moreover have "getDeviceCredential sample_control1 ''dcr_1'' = Some sample_credential_row" by code_simp
  ultimately obtain k where "getDeviceCredential (fst (revokeDevice 5000 ''dev_1'' sample_control1)) ''dcr_1'' = Some k"
    "k_device_id k = k_device_id sample_credential_row" "k_secret_digest k = k_secret_digest sample_credential_row"
    using device_identity_is_permanent [OF sample_control_reach(1), of "fst (revokeDevice 5000 ''dev_1'' sample_control1)" "[]" undefined "''dcr_1''" sample_credential_row]
    by blast
  then show ?thesis by (simp add: sample_credential_row_def)
qed

end
