(* ===== verification/Device_Properties.thy ===== *)
theory Device_Properties
  imports Device_Routes Enrollment_Properties
begin

text \<open>
  What the routes of the connector guarantee to and against devices: a request changes only what belongs to
  the device or to the workspaces of its user, the credential of an enrollment authenticates its device as
  long as it should, and a device that revoked itself is locked out for good.
\<close>

section \<open>The reach of a request\<close>

definition owns :: "control_db \<Rightarrow> user_id \<Rightarrow> ws_id \<Rightarrow> bool" where
  "owns db u w \<longleftrightarrow> (\<exists>m. membership_of db w u = Some m \<and> m_role m = ''owner'')"

definition same_rows :: "('r \<Rightarrow> bool) \<Rightarrow> 'r list \<Rightarrow> 'r list \<Rightarrow> bool" where
  "same_rows Q rs rs' \<longleftrightarrow> (\<forall>r. Q r \<longrightarrow> (r \<in> set rs' \<longleftrightarrow> r \<in> set rs))"

text \<open>
  Beyond its reach a request of a device changes nothing: no identity, no credential, no other device, no binding
  of another device, no target of a workspace its user is not a member of, no default of one the user does not own.
\<close>

definition within_reach :: "user_id \<Rightarrow> device_id \<Rightarrow> control_db \<Rightarrow> control_db \<Rightarrow> bool" where
  "within_reach u d db db' \<longleftrightarrow> users db' = users db \<and> workspaces db' = workspaces db \<and> memberships db' = memberships db
     \<and> repo_bindings db' = repo_bindings db \<and> credentials db' = credentials db
     \<and> same_rows (\<lambda>r. d_id r \<noteq> d) (devices db) (devices db')
     \<and> same_rows (\<lambda>b. b_device_id b \<noteq> d) (bindings db) (bindings db')
     \<and> same_rows (\<lambda>r. membership_of db (t_workspace_id r) u = None) (targets db) (targets db')
     \<and> same_rows (\<lambda>r. \<not> owns db u (df_workspace_id r)) (defaults db) (defaults db')"

lemma same_rows_refl [simp]: "same_rows Q rs rs"
  by (simp add: same_rows_def)

lemma same_rows_trans: "same_rows Q a b \<Longrightarrow> same_rows Q b c \<Longrightarrow> same_rows Q a c"
  by (simp add: same_rows_def)

lemma same_rows_snoc: "\<not> Q r \<Longrightarrow> same_rows Q rs (rs @ [r])"
  by (auto simp: same_rows_def)

lemma same_rows_update:
  assumes "\<And>x. x \<in> set rs \<Longrightarrow> p x \<Longrightarrow> \<not> Q x \<and> \<not> Q (f x)"
  shows "same_rows Q rs (update_rows p f rs)"
  using assms by (auto simp: same_rows_def update_rows_def image_iff)

lemma within_refl [simp]: "within_reach u d db db"
  by (simp add: within_reach_def)

lemma within_trans:
  assumes "within_reach u d a b" "within_reach u d b c"
  shows "within_reach u d a c"
proof -
  have m: "membership_of b w u = membership_of a w u" for w using assms(1) by (simp add: within_reach_def membership_of_def)
  then have "owns b u w = owns a u w" for w by (simp add: owns_def)
  then show ?thesis using assms m unfolding within_reach_def by (auto intro: same_rows_trans)
qed

section \<open>The reach of each operation\<close>

lemma within_binding:
  "insert_binding b db = Inr db' \<Longrightarrow> b_device_id b = d \<Longrightarrow> within_reach u d db db'"
  by (auto simp: insert_Inr within_reach_def same_rows_snoc)

lemma within_binding_update:
  assumes "distinct (map b_id (bindings db))" "e \<in> set (bindings db)" "b_device_id e = d" "\<And>x. b_device_id (f x) = b_device_id x"
  shows "within_reach u d db (db\<lparr>bindings := update_rows (\<lambda>x. b_id x = b_id e) f (bindings db)\<rparr>)"
proof -
  have "x = e" if "x \<in> set (bindings db)" "b_id x = b_id e" for x
    using that assms(1,2) by (auto simp: distinct_map dest: inj_onD)
  then have "same_rows (\<lambda>b. b_device_id b \<noteq> d) (bindings db) (update_rows (\<lambda>x. b_id x = b_id e) f (bindings db))"
    using assms(3,4) by (intro same_rows_update) metis
  then show ?thesis by (simp add: within_reach_def)
qed

lemma within_ensure:
  assumes "ensure_binding now n d t db = Inr (db', x)" "distinct (map b_id (bindings db))"
  shows "within_reach u d db db'"
proof (cases "binding_of db d t")
  case None
  then show ?thesis using assms(1) within_binding by (auto simp: ensure_binding_def Let_def ebind_eq_Inr fresh_binding_def)
next
  case (Some e)
  then show ?thesis using assms found(4) [OF Some] within_binding_update [OF assms(2), of e d]
    by (auto simp: ensure_binding_def Let_def split: if_splits)
qed

lemma binding_ids: "control_ok db \<Longrightarrow> distinct (map b_id (bindings db))"
  by (simp add: control_ok_def bindings_ok_def)

lemma one_target: "control_ok db \<Longrightarrow> r \<in> set (targets db) \<Longrightarrow> x \<in> set (targets db) \<Longrightarrow> t_id x = t_id r \<Longrightarrow> x = r"
  by (auto simp: control_ok_def targets_ok_def distinct_map dest: inj_onD)

lemma within_target_update:
  assumes "control_ok db" "r \<in> set (targets db)" "membership_of db (t_workspace_id r) u \<noteq> None" "\<And>x. t_workspace_id (f x) = t_workspace_id x"
  shows "within_reach u d db (db\<lparr>targets := update_rows (\<lambda>x. t_id x = t_id r) f (targets db)\<rparr>)"
proof -
  have "same_rows (\<lambda>r. membership_of db (t_workspace_id r) u = None) (targets db) (update_rows (\<lambda>x. t_id x = t_id r) f (targets db))"
    using one_target [OF assms(1,2)] assms(3,4) by (intro same_rows_update) auto
  then show ?thesis by (simp add: within_reach_def)
qed

lemma within_return:
  "ensureDeviceBindingAndReturn now n d c r db = Inr (db', x) \<Longrightarrow> control_ok db \<Longrightarrow> within_reach u d db db'"
  by (auto simp: ensureDeviceBindingAndReturn_def ebind_eq_Inr intro: within_ensure binding_ids)

lemma role_member: "workspace_role db w u = Inr role \<Longrightarrow> membership_of db w u \<noteq> None"
  by (auto simp: workspace_role_def split: if_splits option.splits)

lemma within_register_create:
  assumes "register_create now n m i a repo db = Inr (db', x)" "membership_of db (rg_workspace_id i) u \<noteq> None"
  shows "within_reach u (rg_device_id i) db db'"
proof -
  obtain r db1 where r: "insert_target r db = Inr db1" "t_workspace_id r = rg_workspace_id i"
    "insert_binding (fresh_binding now m (rg_device_id i) n) db1 = Inr db'"
    using assms(1) by (fastforce simp: register_create_def Let_def ebind_eq_Inr)
  have "within_reach u (rg_device_id i) db db1" using r(1,2) assms(2) by (auto simp: insert_Inr within_reach_def same_rows_snoc)
  moreover have "within_reach u (rg_device_id i) db1 db'" by (rule within_binding [OF r(3)]) (simp add: fresh_binding_def)
  ultimately show ?thesis by (rule within_trans)
qed

lemma within_register_existing:
  assumes "register_existing now n i repo e db = Inr (db', x)" "control_ok db" "e \<in> set (targets db)" "membership_of db (t_workspace_id e) u \<noteq> None"
  shows "within_reach u (rg_device_id i) db db'"
proof -
  let ?f = "\<lambda>x. x\<lparr>t_repository_full_name := map_option (snd \<circ> snd) repo, t_updated_at_ms := now\<rparr>"
  let ?db = "db\<lparr>targets := update_rows (\<lambda>x. t_id x = t_id e) ?f (targets db)\<rparr>"
  have one: "within_reach u (rg_device_id i) db ?db" by (rule within_target_update [OF assms(2-4)]) simp
  have "distinct (map b_id (bindings ?db))" using binding_ids [OF assms(2)] by simp
  note two = within_ensure [OF _ this]
  show ?thesis
    using assms(1) within_trans [OF one two] within_return [OF _ assms(2)]
    by (auto simp: register_existing_def ensureDeviceBindingAndReturn_def Let_def ebind_eq_Inr split: if_splits)
qed

lemma within_register:
  assumes "registerExecutionTargetForDevice lc now n m i db = Inr (db', x)" "control_ok db" "device_actor db (rg_device_id i) = Inr d"
  shows "within_reach (d_user_id d) (rg_device_id i) db db'"
proof -
  obtain a role repo where r: "workspace_role db (rg_workspace_id i) (d_user_id d) = Inr role" "register_resolved now n m i a role repo db = Inr (db', x)"
    using assms(1,3) by (auto simp: registerExecutionTargetForDevice_def ebind_eq_Inr split: if_splits)
  note mem = role_member [OF r(1)]
  have "within_reach (d_user_id d) (rg_device_id i) db db'" if b: "register_by_alias now n m i a role repo db = Inr (db', x)"
  proof (cases "target_by_alias db (rg_workspace_id i) a")
    case None
    then show ?thesis using b within_register_create mem by (auto simp: register_by_alias_def split: if_splits)
  next
    case (Some e)
    then show ?thesis using b found(3) [OF Some] within_register_existing [OF _ assms(2)] mem by (auto simp: register_by_alias_def)
  qed
  then show ?thesis using r(2) within_return [OF _ assms(2)]
    by (auto simp: register_resolved_def split: option.splits prod.splits if_splits list.splits)
qed

lemma within_attach:
  assumes "attachRepositoryIdentityToTarget lc now i w t p n db = Inr (db', x)" "control_ok db" "device_actor db i = Inr d"
  shows "within_reach (d_user_id d) i db db'"
proof -
  obtain name r role where r: "getExecutionTarget db t = Some r" "t_workspace_id r = w" "workspace_role db w (d_user_id d) = Inr role"
    "attach_identity now w (lc (js_trim p)) name (repo_external_id lc db w name) r db = Inr (db', x)"
    using assms(1,3) by (auto simp: attachRepositoryIdentityToTarget_def Let_def ebind_eq_Inr split: option.splits if_splits)
  show ?thesis
    using r(4) within_target_update [OF assms(2) conjunct1 [OF found(2) [OF r(1)]]] role_member [OF r(3)] r(2)
    by (auto simp: attach_identity_def Let_def split: if_splits)
qed

lemma within_rename:
  assumes "renameExecutionTarget lc now t a u db = Inr (db', x)" "control_ok db"
  shows "within_reach u d db db'"
proof -
  obtain n r m where n: "normalizeTargetAlias lc a = Inr n" "getExecutionTarget db t = Some r" "membership_of db (t_workspace_id r) u = Some m"
    using assms(1) by (auto simp: renameExecutionTarget_def ebind_eq_Inr split: option.splits if_splits)
  show ?thesis
    using assms(1) within_target_update [OF assms(2) conjunct1 [OF found(2) [OF n(2)]]] found(2) [OF n(2)] n(3)
    by (auto simp: renameExecutionTarget_def n split: if_splits)
qed

lemma within_default:
  assumes "setDefaultAgentRuntimeTarget now w t u db = Inr (db', x)"
  shows "within_reach u d db db'"
proof -
  obtain r m where o: "getExecutionTarget db t = Some r" "membership_of db w u = Some m" "m_role m = ''owner''" "w \<in> set (workspaces db)"
    using assms by (auto simp: setDefaultAgentRuntimeTarget_def split: option.splits if_splits)
  then have own: "owns db u w" by (simp add: owns_def)
  show ?thesis
  proof (cases "getDefaultAgentRuntimeTarget db w")
    case None
    then show ?thesis using assms own by (auto simp: setDefaultAgentRuntimeTarget_def Let_def ebind_eq_Inr insert_Inr within_reach_def same_rows_snoc split: option.splits if_splits)
  next
    case (Some e)
    have "same_rows (\<lambda>r. \<not> owns db u (df_workspace_id r)) (defaults db)
        (update_rows (\<lambda>x. df_workspace_id x = w) (\<lambda>x. x\<lparr>df_target_id := t, df_updated_at_ms := now\<rparr>) (defaults db))"
      using own by (intro same_rows_update) auto
    then show ?thesis using Some assms by (auto simp: setDefaultAgentRuntimeTarget_def Let_def within_reach_def split: option.splits if_splits)
  qed
qed

lemma within_bind: "bindTargetForDevice now n i t db = Inr (db', x) \<Longrightarrow> control_ok db \<Longrightarrow> within_reach u i db db'"
  by (auto simp: bindTargetForDevice_def ebind_eq_Inr split: if_splits intro: within_ensure binding_ids)

lemma within_unbind: "unbindTargetForDevice now i t db = Inr (db', x) \<Longrightarrow> within_reach u i db db'"
  by (auto simp: unbindTargetForDevice_def disableDeviceTargetBinding_def Let_def ebind_eq_Inr within_reach_def split: option.splits if_splits
      intro!: same_rows_update)

lemma within_revoke: "within_reach u i db (fst (revokeDevice now i db))"
  by (auto simp: revokeDevice_def Let_def within_reach_def intro!: same_rows_update)

section \<open>The properties\<close>

text \<open>One request of a device to a route that answers from the control store.\<close>

inductive device_request ::
  "(string \<Rightarrow> digest) \<Rightarrow> (string \<Rightarrow> string) \<Rightarrow> (nat \<Rightarrow> int) \<Rightarrow> string option \<Rightarrow> control_db \<Rightarrow> control_db \<times> api_response \<Rightarrow> bool"
  for sha lc clock header db where
  req_identity: "device_request sha lc clock header db (identity_route sha clock header db)"
| req_revoke: "device_request sha lc clock header db (revoke_route sha clock header db)"
| req_targets: "device_request sha lc clock header db (targets_route sha clock header w db)"
| req_register: "device_request sha lc clock header db (register_route sha lc clock header n m body db)"
| req_attach: "device_request sha lc clock header db (attach_route sha lc clock header t body db)"
| req_bind: "device_request sha lc clock header db (bind_route sha clock header n t body db)"
| req_unbind: "device_request sha lc clock header db (unbind_route sha clock header t body db)"
| req_default: "device_request sha lc clock header db (default_runtime_route sha clock header t body db)"
| req_rename: "device_request sha lc clock header db (rename_route sha lc clock header t body db)"

lemmas route_defs = identity_route_def revoke_route_def targets_route_def register_route_def attach_route_def bind_route_def
  unbind_route_def default_runtime_route_def rename_route_def with_device_def answer_def

lemma request_cases:
  assumes "device_request sha lc clock header db (db', r)" "authenticate sha (clock 0) header db = Some a"
  shows "db' = db \<or> db' = fst (revokeDevice (clock 1) (di_device_id a) db)
    \<or> (\<exists>n m i x. registerExecutionTargetForDevice lc (clock 1) n m i db = Inr (db', x) \<and> rg_device_id i = di_device_id a)
    \<or> (\<exists>w t p n x. attachRepositoryIdentityToTarget lc (clock 1) (di_device_id a) w t p n db = Inr (db', x))
    \<or> (\<exists>n t x. bindTargetForDevice (clock 1) n (di_device_id a) t db = Inr (db', x))
    \<or> (\<exists>t x. unbindTargetForDevice (clock 1) (di_device_id a) t db = Inr (db', x))
    \<or> (\<exists>w t x. setDefaultAgentRuntimeTarget (clock 1) w t (di_user_id a) db = Inr (db', x))
    \<or> (\<exists>t n x. renameExecutionTarget lc (clock 1) t n (di_user_id a) db = Inr (db', x))"
  using assms(1)
proof (cases rule: device_request.cases)
  case (req_register n m body)
  then show ?thesis using assms(2) by (fastforce simp: route_defs registration_of_def split: option.splits sum.splits)
qed (use assms(2) in \<open>auto simp: route_defs split: option.splits sum.splits if_splits\<close>)


text \<open>
  A device that revokes itself is locked out for good: whatever the operations of the control store do
  afterwards, no header ever authenticates as this device again.
\<close>

theorem revoked_device_is_locked_out:
  assumes "control_step\<^sup>*\<^sup>* empty_control db" "authenticate sha (clock 0) header db = Some a"
    and "revoke_route sha clock header db = (db', r)" "control_step\<^sup>*\<^sup>* db' db''"
  shows "r = Reply 200 (obj [(''ok'', JBool True)])
    \<and> (\<forall>sha' now header' b. authenticate sha' now header' db'' = Some b \<longrightarrow> di_device_id b \<noteq> di_device_id a)"
proof -
  have ok: "control_ok db" by (rule control.inv_star [OF assms(1)]) (simp add: control_ok_def table_defs empty_control_def)
  have db': "db' = fst (revokeDevice (clock 1) (di_device_id a) db)" "r = Reply 200 (obj [(''ok'', JBool True)])"
    using assms(2,3) by (auto simp: revoke_route_def with_device_def)
  have step: "control_step\<^sup>*\<^sup>* db' db''" "control_ok db'" using assms(4) revokeDevice_ok [OF ok] db'(1) by simp_all
  obtain d where d: "getDevice db (di_device_id a) = Some d" using assms(2) by (rule authenticate_Some)
  then obtain d' where d': "getDevice db' (di_device_id a) = Some d'" "d_revoked_at_ms d' \<noteq> None"
    by (auto simp: db'(1) revokeDevice_def Let_def getDevice_def find_update_rows dest: find_SomeD)
  have "keeps_devices db' db''" by (rule kept.le_star [OF step])
  then obtain d'' where "getDevice db'' (di_device_id a) = Some d''" "d_revoked_at_ms d'' \<noteq> None"
    using d' unfolding keeps_devices_def rows_kept_def device_kept_def getDevice_def by blast
  then show ?thesis using db'(2) revoked_no_auth by blast
qed

text \<open>
  C20. The credential of an enrollment works. After a poll has handed out a credential, and after any further operations of the
  control store, the header made of the credential id and the secret whose digest the device gave at the beginning
  authenticates exactly this device and the user who approved it, as long as the credential has not expired, neither it
  nor the device is revoked, and the user is active; otherwise it authenticates nobody.
\<close>

theorem issued_credential_authenticates:
  assumes "(flow_step sha lc uc)\<^sup>*\<^sup>* (start, [], flow_start m ttl session_ttl c) (now, h, f)" "control_ok c" "reads now clock"
    and "token_route sha lc clock code f = (f', TokenIssued d k replayed)" "control_step\<^sup>*\<^sup>* (fl_control f') db"
    and "sha secret = k_secret_digest k" "secret \<noteq> []" "list_all graphic secret" "CREDENTIAL_ID_RE (k_id k)"
  shows "\<exists>d' k'. getDevice db (d_id d) = Some d' \<and> getDeviceCredential db (k_id k) = Some k'
    \<and> authenticate sha t (Some (device_header (k_id k) secret)) db =
       (if k_revoked_at_ms k' = None \<and> t < k_expires_at_ms k \<and> d_revoked_at_ms d' = None \<and> active_user db (d_user_id d)
        then Some \<lparr>di_user_id = d_user_id d, di_device_id = d_id d, di_credential_id = k_id k\<rparr> else None)"
proof -
  have ok: "flow_ok sha session_ttl (now, h, f)" by (rule flow_reachable_ok [OF assms(1,2)])
  have c': "control_ok (fl_control f')" using poll_ok [OF assms(3,4) ok] by (simp add: flow_ok_iff)
  note parts = ok [unfolded flow_ok_iff]
  have row: "d_id x = i" if "getDevice y i = Some x" for x y i using found(1) [OF that] by simp
  have key: "k_id x = i" if "getDeviceCredential y i = Some x" for x y i using find_SomeD that by (fastforce simp: getDeviceCredential_def)
  have rows: "getDevice (fl_control f') (d_id d) = Some d \<and> getDeviceCredential (fl_control f') (k_id k) = Some k \<and> k_device_id k = d_id d"
    using assms(4) conjunct1 [OF parts]
  proof (cases rule: token_cases)
    case (2 e)
    then have r: "getDevice (fl_control f) (en_reserved_device_id e) = Some d" "getDeviceCredential (fl_control f) (en_reserved_credential_id e) = Some k"
      "en_state e = EN_consumed" by auto
    have "backed sha h (fl_control f) e" using parts 2(1) by (simp add: all_backed_def)
    then obtain u where "issued (fl_control f) e u" using r(3) by (auto simp: backed_def)
    then have "k_device_id k = en_reserved_device_id e" using r by (auto simp: issued_def)
    then show ?thesis using r row key 2(4) by simp
  next
    case (3 e x d' k' b)
    note fin = finalize_issued [OF 3(5)]
    show ?thesis using fin(1,2,4) row [OF fin(1)] key [OF fin(2)] 3(6,7) by simp
  qed blast
  have "keeps_devices (fl_control f') db" by (rule kept.le_star [OF assms(5) c'])
  then obtain d' k' where r: "getDevice db (d_id d) = Some d'" "getDeviceCredential db (k_id k) = Some k'" "d_user_id d' = d_user_id d"
    "k_device_id k' = d_id d" "k_secret_digest k' = k_secret_digest k" "k_expires_at_ms k' = k_expires_at_ms k"
    using rows unfolding keeps_devices_def rows_kept_def device_kept_def credential_kept_def getDevice_def getDeviceCredential_def by metis
  obtain tk where "bearer_token (device_header (k_id k) secret) = Some tk" "parseDeviceBearerToken tk = Some (k_id k, secret)"
    using header_parsed [OF assms(9,7,8)] by blast
  then have "authenticate sha t (Some (device_header (k_id k) secret)) db =
      (if k_revoked_at_ms k' = None \<and> t < k_expires_at_ms k \<and> d_revoked_at_ms d' = None \<and> active_user db (d_user_id d)
       then Some \<lparr>di_user_id = d_user_id d, di_device_id = d_id d, di_credential_id = k_id k\<rparr> else None)"
    using r assms(6) row [OF r(1)] key [OF r(2)] by (auto simp: authenticate_def)
  then show ?thesis using r(1,2) by blast
qed

section \<open>Witnesses\<close>

definition sample_credential :: string where "sample_credential = ''dcr_00000000-0000-4000-8000-000000000003''"

definition sample_secret :: string where "sample_secret = replicate 64 CHR ''a''"

definition sample_device_db :: control_db where
  "sample_device_db = (case finalizeDeviceEnrollment ascii_lc (sample_enrollment\<lparr>ei_credential_id := sample_credential\<rparr>) sample_identity of
     Inr (db, _) \<Rightarrow> db | Inl _ \<Rightarrow> sample_identity)"

abbreviation sample_header :: "string option" where
  "sample_header \<equiv> Some (device_header sample_credential sample_secret)"

abbreviation sample_actor :: device_identity where
  "sample_actor \<equiv> \<lparr>di_user_id = ''usr_1'', di_device_id = ''dev_1'', di_credential_id = sample_credential\<rparr>"

lemma sample_device_reach: "control_step\<^sup>*\<^sup>* empty_control sample_device_db"
proof -
  have "control_step empty_control sample_identity" unfolding sample_identity_def by (rule identity) (simp_all add: empty_control_def)
  moreover have "case finalizeDeviceEnrollment ascii_lc (sample_enrollment\<lparr>ei_credential_id := sample_credential\<rparr>) sample_identity of Inr _ \<Rightarrow> True | Inl _ \<Rightarrow> False"
    by code_simp
  then have "control_step sample_identity sample_device_db"
    by (auto simp: sample_device_db_def split: sum.splits intro: enroll)
  ultimately show ?thesis by simp
qed

lemma sample_auth: "authenticate (\<lambda>s. s) 2000 sample_header sample_device_db = Some sample_actor"
proof -
  have "CREDENTIAL_ID_RE sample_credential" by code_simp
  moreover have "list_all graphic sample_secret" "sample_secret \<noteq> []" by (simp_all add: sample_secret_def list_all_iff graphic_def)
  ultimately obtain tk where t: "bearer_token (device_header sample_credential sample_secret) = Some tk"
    "parseDeviceBearerToken tk = Some (sample_credential, sample_secret)" using header_parsed by blast
  have "(case getDeviceCredential sample_device_db sample_credential of None \<Rightarrow> False | Some k \<Rightarrow>
      k_revoked_at_ms k = None \<and> 2000 < k_expires_at_ms k \<and> k_secret_digest k = sample_secret \<and> k_id k = sample_credential
      \<and> (case getDevice sample_device_db (k_device_id k) of None \<Rightarrow> False | Some d \<Rightarrow> d_revoked_at_ms d = None \<and> d_user_id d = ''usr_1'' \<and> d_id d = ''dev_1''))"
    "active_user sample_device_db ''usr_1''"
    by code_simp+
  then show ?thesis using t by (auto simp: authenticate_def split: option.splits)
qed

theorem revoked_device_is_locked_out_witness:
  "snd (revoke_route (\<lambda>s. s) (\<lambda>_. 2000) sample_header sample_device_db) = Reply 200 (obj [(''ok'', JBool True)])
   \<and> authenticate (\<lambda>s. s) 3000 sample_header (fst (revoke_route (\<lambda>s. s) (\<lambda>_. 2000) sample_header sample_device_db)) \<noteq> Some sample_actor"
  using revoked_device_is_locked_out [where clock = "\<lambda>_. 2000", OF sample_device_reach sample_auth prod.collapse [symmetric] rtranclp.rtrancl_refl]
  by fastforce


theorem issued_credential_authenticates_witness:
  "\<exists>f' d k db. token_route (\<lambda>s. s) ascii_lc (\<lambda>_. 4000) ''secret'' (fst (sample_decision ''approve'')) = (f', TokenIssued d k False)
     \<and> authenticate (\<lambda>s. s) 5000 (Some (device_header (k_id k) sample_secret)) (fl_control f')
         = Some \<lparr>di_user_id = d_user_id d, di_device_id = d_id d, di_credential_id = k_id k\<rparr>"
proof -
  let ?t = "token_route (\<lambda>s. s) ascii_lc (\<lambda>_. 4000) ''secret'' (fst (sample_decision ''approve''))"
  have "case ?t of (f', TokenIssued d k r) \<Rightarrow> \<not> r \<and> k_secret_digest k = sample_secret \<and> k_id k = sample_credential \<and> 5000 < k_expires_at_ms k
      \<and> active_user (fl_control f') (d_user_id d) \<and> (case getDevice (fl_control f') (d_id d) of Some d' \<Rightarrow> d_revoked_at_ms d' = None | None \<Rightarrow> False)
      \<and> (case getDeviceCredential (fl_control f') (k_id k) of Some k' \<Rightarrow> k_revoked_at_ms k' = None | None \<Rightarrow> False) | _ \<Rightarrow> False"
    by code_simp
  then obtain f' d k where r: "?t = (f', TokenIssued d k False)" "k_secret_digest k = sample_secret" "k_id k = sample_credential" "5000 < k_expires_at_ms k"
    "active_user (fl_control f') (d_user_id d)" "\<And>d'. getDevice (fl_control f') (d_id d) = Some d' \<Longrightarrow> d_revoked_at_ms d' = None"
    "\<And>k'. getDeviceCredential (fl_control f') (k_id k) = Some k' \<Longrightarrow> k_revoked_at_ms k' = None"
    by (auto split: prod.splits token_response.splits option.splits)
  have run: "sample_step\<^sup>*\<^sup>* (0, [], sample_start) (3000, Approved ''enr_1'' ''usr_1'' 3000 ''nonce'' # sample_history, fst (sample_decision ''approve''))"
    using sample_run by (meson rtranclp.rtrancl_into_rtrancl)
  have s: "(\<lambda>s. s) sample_secret = k_secret_digest k" "sample_secret \<noteq> []" "list_all graphic sample_secret" "CREDENTIAL_ID_RE (k_id k)" "reads 3000 (\<lambda>_. 4000)"
  proof -
    show "CREDENTIAL_ID_RE (k_id k)" unfolding r(3) by code_simp
  qed (simp_all add: r(2) sample_secret_def list_all_iff graphic_def reads_def)
  show ?thesis
    using issued_credential_authenticates [OF run [unfolded sample_start_def] sample_start_ok s(5) r(1) rtranclp.rtrancl_refl s(1,2,3,4), of 5000] r
    by fastforce
qed

section \<open>Two oddities\<close>

text \<open>The request parser and the store normalise a repository name one after the other, and the second pass can change it again.\<close>

lemma full_name_normalised_twice:
  "normalizeRemoteFullName ascii_lc ''github'' ''Octo/App.git.git'' = Some ''octo/app.git''"
  "normalizeRemoteFullName ascii_lc ''github'' ''octo/app.git'' = Some ''octo/app''"
  by code_simp+

text \<open>A decision that crosses the expiry between two readings of the clock is answered as approved, and the enrollment stays pending.\<close>

lemma approval_shown_although_refused:
  "case decision_route (\<lambda>s. s) (map ascii_upper) (\<lambda>i. if i = 2 then 601001 else 601000) (Some ''sid'') (Some ''2222-2222'') (Some ''nonce'')
      (Some ''approve'') (fst sample_page) of (f, r) \<Rightarrow> r = DecisionApproved ''enr_1'' ''usr_1''
    \<and> map_option en_state (getEnrollment (fl_enrollments f) ''enr_1'') = Some EN_pending"
  by code_simp

end
