(* ===== verification/OAuth_Store.thy ===== *)
theory OAuth_Store
  imports Control_Owners
begin

text \<open>
  The OAuth database: \<^verbatim>\<open>oauth/store.ts\<close>. Four tables, each the list of its rows in insertion order. An operation
  returns the database it leaves, with an error or a result; an exception inside a transaction rolls it back and
  reaches the caller as \<^verbatim>\<open>OAuthStoreUnavailable\<close>. \<open>sha64\<close> is the SHA-256 of a text in base64url.
\<close>

section \<open>Tables\<close>

datatype oauth_decision = OD_approved | OD_denied

record oauth_request =
  oq_id :: string
  oq_client_id :: string
  oq_client_name :: string
  oq_redirect_uri :: string
  oq_resource :: string
  oq_scope :: string
  oq_state :: "string option"
  oq_code_challenge :: string
  oq_code_challenge_method :: string
  oq_created_at_ms :: int
  oq_expires_at_ms :: int
  oq_decision :: "oauth_decision option"
  oq_user_id :: "user_id option"
  oq_workspace_id :: "ws_id option"
  oq_consent_nonce_digest :: "digest option"

record oauth_code =
  oc_id :: string
  oc_code_digest :: digest
  oc_client_id :: string
  oc_redirect_uri :: string
  oc_user_id :: user_id
  oc_workspace_id :: ws_id
  oc_resource :: string
  oc_scope :: string
  oc_code_challenge :: string
  oc_issued_at_ms :: int
  oc_expires_at_ms :: int
  oc_consumed_at_ms :: "int option"

record access_token =
  at_id :: string
  at_token_digest :: digest
  at_client_id :: string
  at_user_id :: user_id
  at_workspace_id :: ws_id
  at_resource :: string
  at_scope :: string
  at_issued_at_ms :: int
  at_expires_at_ms :: int
  at_revoked_at_ms :: "int option"

record refresh_token =
  rt_id :: string
  rt_token_digest :: digest
  rt_family_id :: string
  rt_client_id :: string
  rt_user_id :: user_id
  rt_workspace_id :: ws_id
  rt_resource :: string
  rt_scope :: string
  rt_issued_at_ms :: int
  rt_expires_at_ms :: int
  rt_consumed_at_ms :: "int option"
  rt_revoked_at_ms :: "int option"

record oauth_db =
  od_requests :: "oauth_request list"
  od_codes :: "oauth_code list"
  od_access :: "access_token list"
  od_refresh :: "refresh_token list"

definition empty_oauth_db :: oauth_db where
  "empty_oauth_db = \<lparr>od_requests = [], od_codes = [], od_access = [], od_refresh = []\<rparr>"

text \<open>The answers of the store that refuse a grant, and the exception of a failed statement.\<close>

datatype grant_error = Invalid_grant | Invalid_target
datatype store_failure = OAuthStoreUnavailable

section \<open>Inserts\<close>

definition insert_request :: "oauth_request \<Rightarrow> oauth_db \<Rightarrow> oauth_db option" where
  "insert_request r db =
     (if oq_id r \<in> oq_id ` set (od_requests db) then None else Some (db\<lparr>od_requests := od_requests db @ [r]\<rparr>))"

definition insert_code :: "oauth_code \<Rightarrow> oauth_db \<Rightarrow> oauth_db option" where
  "insert_code r db =
     (if oc_id r \<in> oc_id ` set (od_codes db) \<or> oc_code_digest r \<in> oc_code_digest ` set (od_codes db) then None
      else Some (db\<lparr>od_codes := od_codes db @ [r]\<rparr>))"

definition insert_access :: "access_token \<Rightarrow> oauth_db \<Rightarrow> oauth_db option" where
  "insert_access r db =
     (if at_id r \<in> at_id ` set (od_access db) \<or> at_token_digest r \<in> at_token_digest ` set (od_access db) then None
      else Some (db\<lparr>od_access := od_access db @ [r]\<rparr>))"

definition insert_refresh :: "refresh_token \<Rightarrow> oauth_db \<Rightarrow> oauth_db option" where
  "insert_refresh r db =
     (if rt_id r \<in> rt_id ` set (od_refresh db) \<or> rt_token_digest r \<in> rt_token_digest ` set (od_refresh db) then None
      else Some (db\<lparr>od_refresh := od_refresh db @ [r]\<rparr>))"

text \<open>A refresh token and its access token are inserted together or not at all.\<close>

definition insert_tokens :: "access_token \<Rightarrow> refresh_token \<Rightarrow> oauth_db \<Rightarrow> oauth_db option" where
  "insert_tokens a r db = (case insert_access a db of None \<Rightarrow> None | Some db1 \<Rightarrow> insert_refresh r db1)"

section \<open>Authorization requests\<close>

record request_input =
  ri_id :: string
  ri_client_id :: string
  ri_client_name :: string
  ri_redirect_uri :: string
  ri_resource :: string
  ri_scope :: string
  ri_state :: "string option"
  ri_code_challenge :: string
  ri_code_challenge_method :: string
  ri_created_at_ms :: int
  ri_expires_at_ms :: int

definition pending_request :: "request_input \<Rightarrow> oauth_request" where
  "pending_request i =
     \<lparr>oq_id = ri_id i, oq_client_id = ri_client_id i, oq_client_name = ri_client_name i, oq_redirect_uri = ri_redirect_uri i,
      oq_resource = ri_resource i, oq_scope = ri_scope i, oq_state = ri_state i, oq_code_challenge = ri_code_challenge i,
      oq_code_challenge_method = ri_code_challenge_method i, oq_created_at_ms = ri_created_at_ms i, oq_expires_at_ms = ri_expires_at_ms i,
      oq_decision = None, oq_user_id = None, oq_workspace_id = None, oq_consent_nonce_digest = None\<rparr>"

definition createAuthorizationRequest :: "request_input \<Rightarrow> oauth_db \<Rightarrow> oauth_db \<times> (store_failure + unit)" where
  "createAuthorizationRequest i db = (case insert_request (pending_request i) db of
      None \<Rightarrow> (db, Inl OAuthStoreUnavailable)
    | Some db' \<Rightarrow> (db', Inr ()))"

definition getAuthorizationRequest :: "oauth_db \<Rightarrow> string \<Rightarrow> oauth_request option" where
  "getAuthorizationRequest db i = find (\<lambda>r. oq_id r = i) (od_requests db)"

definition setConsentNonceDigest :: "string \<Rightarrow> digest \<Rightarrow> int \<Rightarrow> oauth_db \<Rightarrow> oauth_db \<times> bool" where
  "setConsentNonceDigest i nonceDigest now db =
     (let p = (\<lambda>r. oq_id r = i \<and> oq_decision r = None \<and> oq_expires_at_ms r > now)
      in (db\<lparr>od_requests := update_rows p (\<lambda>r. r\<lparr>oq_consent_nonce_digest := Some nonceDigest\<rparr>) (od_requests db)\<rparr>,
          row_changes p (od_requests db) = 1))"

definition undecided_request :: "oauth_db \<Rightarrow> string \<Rightarrow> int \<Rightarrow> oauth_request option" where
  "undecided_request db i now = find (\<lambda>r. oq_id r = i \<and> oq_decision r = None \<and> oq_expires_at_ms r > now) (od_requests db)"

record approve_input =
  ai_request_id :: string
  ai_nonce_digest :: digest
  ai_user_id :: user_id
  ai_workspace_id :: ws_id
  ai_code_id :: string
  ai_code_digest :: digest
  ai_now_ms :: int
  ai_code_expires_at_ms :: int

definition issued_code :: "approve_input \<Rightarrow> oauth_request \<Rightarrow> oauth_code" where
  "issued_code i r =
     \<lparr>oc_id = ai_code_id i, oc_code_digest = ai_code_digest i, oc_client_id = oq_client_id r, oc_redirect_uri = oq_redirect_uri r,
      oc_user_id = ai_user_id i, oc_workspace_id = ai_workspace_id i, oc_resource = oq_resource r, oc_scope = oq_scope r,
      oc_code_challenge = oq_code_challenge r, oc_issued_at_ms = ai_now_ms i, oc_expires_at_ms = ai_code_expires_at_ms i,
      oc_consumed_at_ms = None\<rparr>"

definition approveConsentAndIssueCode :: "approve_input \<Rightarrow> oauth_db \<Rightarrow> oauth_db \<times> (store_failure + oauth_code option)" where
  "approveConsentAndIssueCode i db = (case undecided_request db (ai_request_id i) (ai_now_ms i) of
      None \<Rightarrow> (db, Inr None)
    | Some req \<Rightarrow>
       if oq_consent_nonce_digest req = None \<or> oq_consent_nonce_digest req = Some [] \<or> oq_consent_nonce_digest req \<noteq> Some (ai_nonce_digest i)
       then (db, Inr None)
       else let p = (\<lambda>r. oq_id r = ai_request_id i \<and> oq_decision r = None);
                db1 = db\<lparr>od_requests := update_rows p (\<lambda>r. r\<lparr>oq_decision := Some OD_approved, oq_user_id := Some (ai_user_id i),
                         oq_workspace_id := Some (ai_workspace_id i)\<rparr>) (od_requests db)\<rparr>
            in if row_changes p (od_requests db) \<noteq> 1 then (db, Inr None)
               else (case insert_code (issued_code i req) db1 of
                   None \<Rightarrow> (db, Inl OAuthStoreUnavailable)
                 | Some db2 \<Rightarrow> (db2, Inr (Some (issued_code i req)))))"

definition denyConsent :: "string \<Rightarrow> digest \<Rightarrow> int \<Rightarrow> oauth_db \<Rightarrow> oauth_db \<times> bool" where
  "denyConsent i nonceDigest now db = (case undecided_request db i now of
      None \<Rightarrow> (db, False)
    | Some req \<Rightarrow>
       if oq_consent_nonce_digest req \<noteq> Some nonceDigest then (db, False)
       else let p = (\<lambda>r. oq_id r = i \<and> oq_decision r = None)
            in (db\<lparr>od_requests := update_rows p (\<lambda>r. r\<lparr>oq_decision := Some OD_denied\<rparr>) (od_requests db)\<rparr>,
                row_changes p (od_requests db) = 1))"

section \<open>Exchange of a code\<close>

record consume_input =
  ci_code_digest :: digest
  ci_client_id :: string
  ci_redirect_uri :: string
  ci_resource :: string
  ci_code_verifier :: string
  ci_access_token_id :: string
  ci_access_token_digest :: digest
  ci_access_token_expires_at_ms :: int
  ci_refresh_token_id :: string
  ci_refresh_token_digest :: digest
  ci_refresh_token_family_id :: string
  ci_refresh_token_expires_at_ms :: int
  ci_now_ms :: int

definition code_access_token :: "consume_input \<Rightarrow> oauth_code \<Rightarrow> access_token" where
  "code_access_token i c =
     \<lparr>at_id = ci_access_token_id i, at_token_digest = ci_access_token_digest i, at_client_id = oc_client_id c, at_user_id = oc_user_id c,
      at_workspace_id = oc_workspace_id c, at_resource = oc_resource c, at_scope = oc_scope c, at_issued_at_ms = ci_now_ms i,
      at_expires_at_ms = ci_access_token_expires_at_ms i, at_revoked_at_ms = None\<rparr>"

definition code_refresh_token :: "consume_input \<Rightarrow> oauth_code \<Rightarrow> refresh_token" where
  "code_refresh_token i c =
     \<lparr>rt_id = ci_refresh_token_id i, rt_token_digest = ci_refresh_token_digest i, rt_family_id = ci_refresh_token_family_id i,
      rt_client_id = oc_client_id c, rt_user_id = oc_user_id c, rt_workspace_id = oc_workspace_id c, rt_resource = oc_resource c,
      rt_scope = oc_scope c, rt_issued_at_ms = ci_now_ms i, rt_expires_at_ms = ci_refresh_token_expires_at_ms i,
      rt_consumed_at_ms = None, rt_revoked_at_ms = None\<rparr>"

definition find_code :: "oauth_db \<Rightarrow> digest \<Rightarrow> oauth_code option" where
  "find_code db d = find (\<lambda>r. oc_code_digest r = d) (od_codes db)"

text \<open>The checks of a presented code, in their order.\<close>

definition code_refusal :: "(string \<Rightarrow> string) \<Rightarrow> consume_input \<Rightarrow> oauth_code \<Rightarrow> grant_error option" where
  "code_refusal sha64 i c =
     (if oc_consumed_at_ms c \<noteq> None \<or> oc_expires_at_ms c \<le> ci_now_ms i then Some Invalid_grant
      else if oc_client_id c \<noteq> ci_client_id i \<or> oc_redirect_uri c \<noteq> ci_redirect_uri i then Some Invalid_grant
      else if oc_resource c \<noteq> ci_resource i then Some Invalid_target
      else if sha64 (ci_code_verifier i) \<noteq> oc_code_challenge c then Some Invalid_grant
      else None)"

definition consumeCodeAndIssueTokens ::
  "(string \<Rightarrow> string) \<Rightarrow> consume_input \<Rightarrow> oauth_db \<Rightarrow> oauth_db \<times> (store_failure + (grant_error + oauth_code \<times> access_token \<times> refresh_token))" where
  "consumeCodeAndIssueTokens sha64 i db = (case find_code db (ci_code_digest i) of
      None \<Rightarrow> (db, Inr (Inl Invalid_grant))
    | Some c \<Rightarrow> (case code_refusal sha64 i c of
        Some e \<Rightarrow> (db, Inr (Inl e))
      | None \<Rightarrow>
         let p = (\<lambda>r. oc_id r = oc_id c \<and> oc_consumed_at_ms r = None);
             db1 = db\<lparr>od_codes := update_rows p (\<lambda>r. r\<lparr>oc_consumed_at_ms := Some (ci_now_ms i)\<rparr>) (od_codes db)\<rparr>
         in if row_changes p (od_codes db) \<noteq> 1 then (db, Inr (Inl Invalid_grant))
            else (case insert_tokens (code_access_token i c) (code_refresh_token i c) db1 of
                None \<Rightarrow> (db, Inl OAuthStoreUnavailable)
              | Some db2 \<Rightarrow> (db2, Inr (Inr (c, code_access_token i c, code_refresh_token i c))))))"

section \<open>Refresh tokens\<close>

definition findRefreshTokenByDigest :: "oauth_db \<Rightarrow> digest \<Rightarrow> refresh_token option" where
  "findRefreshTokenByDigest db d = find (\<lambda>r. rt_token_digest r = d) (od_refresh db)"

record rotate_input =
  xi_old_token_digest :: digest
  xi_client_id :: string
  xi_resource :: string
  xi_new_scope :: string
  xi_access_token_id :: string
  xi_access_token_digest :: digest
  xi_access_token_expires_at_ms :: int
  xi_new_refresh_token_id :: string
  xi_new_refresh_token_digest :: digest
  xi_new_refresh_token_expires_at_ms :: int
  xi_now_ms :: int

definition rotated_access_token :: "rotate_input \<Rightarrow> refresh_token \<Rightarrow> access_token" where
  "rotated_access_token i t =
     \<lparr>at_id = xi_access_token_id i, at_token_digest = xi_access_token_digest i, at_client_id = rt_client_id t, at_user_id = rt_user_id t,
      at_workspace_id = rt_workspace_id t, at_resource = rt_resource t, at_scope = xi_new_scope i, at_issued_at_ms = xi_now_ms i,
      at_expires_at_ms = xi_access_token_expires_at_ms i, at_revoked_at_ms = None\<rparr>"

definition rotated_refresh_token :: "rotate_input \<Rightarrow> refresh_token \<Rightarrow> refresh_token" where
  "rotated_refresh_token i t =
     \<lparr>rt_id = xi_new_refresh_token_id i, rt_token_digest = xi_new_refresh_token_digest i, rt_family_id = rt_family_id t,
      rt_client_id = rt_client_id t, rt_user_id = rt_user_id t, rt_workspace_id = rt_workspace_id t, rt_resource = rt_resource t,
      rt_scope = xi_new_scope i, rt_issued_at_ms = xi_now_ms i, rt_expires_at_ms = xi_new_refresh_token_expires_at_ms i,
      rt_consumed_at_ms = None, rt_revoked_at_ms = None\<rparr>"

definition rotation_refusal :: "rotate_input \<Rightarrow> refresh_token \<Rightarrow> grant_error option" where
  "rotation_refusal i t =
     (if rt_consumed_at_ms t \<noteq> None \<or> rt_revoked_at_ms t \<noteq> None \<or> rt_expires_at_ms t \<le> xi_now_ms i then Some Invalid_grant
      else if rt_client_id t \<noteq> xi_client_id i then Some Invalid_grant
      else if rt_resource t \<noteq> xi_resource i then Some Invalid_target
      else None)"

definition rotateRefreshTokenAndIssueTokens ::
  "rotate_input \<Rightarrow> oauth_db \<Rightarrow> oauth_db \<times> (store_failure + (grant_error + refresh_token \<times> access_token \<times> refresh_token))" where
  "rotateRefreshTokenAndIssueTokens i db = (case findRefreshTokenByDigest db (xi_old_token_digest i) of
      None \<Rightarrow> (db, Inr (Inl Invalid_grant))
    | Some t \<Rightarrow> (case rotation_refusal i t of
        Some e \<Rightarrow> (db, Inr (Inl e))
      | None \<Rightarrow>
         let p = (\<lambda>r. rt_id r = rt_id t \<and> rt_consumed_at_ms r = None);
             db1 = db\<lparr>od_refresh := update_rows p (\<lambda>r. r\<lparr>rt_consumed_at_ms := Some (xi_now_ms i)\<rparr>) (od_refresh db)\<rparr>
         in if row_changes p (od_refresh db) \<noteq> 1 then (db, Inr (Inl Invalid_grant))
            else (case insert_tokens (rotated_access_token i t) (rotated_refresh_token i t) db1 of
                None \<Rightarrow> (db, Inl OAuthStoreUnavailable)
              | Some db2 \<Rightarrow> (db2, Inr (Inr (t, rotated_access_token i t, rotated_refresh_token i t))))))"

definition revokeRefreshTokenFamily :: "string \<Rightarrow> int \<Rightarrow> oauth_db \<Rightarrow> oauth_db" where
  "revokeRefreshTokenFamily fam now db =
     db\<lparr>od_refresh := update_rows (\<lambda>r. rt_family_id r = fam \<and> rt_revoked_at_ms r = None) (\<lambda>r. r\<lparr>rt_revoked_at_ms := Some now\<rparr>) (od_refresh db)\<rparr>"

definition findAccessTokenByDigest :: "oauth_db \<Rightarrow> digest \<Rightarrow> access_token option" where
  "findAccessTokenByDigest db d = find (\<lambda>r. at_token_digest r = d) (od_access db)"

end
