(* ===== verification/Client_Metadata.thy ===== *)
theory Client_Metadata
  imports Json Js_Words "HOL-Library.AList"
begin

text \<open>
  Metadata of OAuth clients fetched from their own URL: \<^verbatim>\<open>oauth/client-metadata.ts\<close>. The network is an argument:
  \<open>dns\<close> resolves a host name and \<open>http\<close> answers a request that is pinned to given addresses. \<open>url\<close> is the parser of
  absolute URLs and \<open>is_v6\<close> the recogniser of IPv6 addresses of the runtime.
\<close>

section \<open>Texts\<close>

text \<open>\<^verbatim>\<open>s.split(c)\<close>.\<close>

fun split_char :: "char \<Rightarrow> string \<Rightarrow> string list" where
  "split_char c [] = [[]]"
| "split_char c (x # xs) = (if x = c then [] # split_char c xs else case split_char c xs of [] \<Rightarrow> [[x]] | f # fs \<Rightarrow> (x # f) # fs)"

section \<open>Addresses\<close>

text \<open>\<^verbatim>\<open>net.isIPv4\<close>: four decimal numerals up to 255 without leading zeros.\<close>

definition v4_segment :: "string \<Rightarrow> bool" where
  "v4_segment s \<longleftrightarrow> s \<noteq> [] \<and> list_all is_digit s \<and> length s \<le> 3 \<and> (length s = 1 \<or> hd s \<noteq> CHR ''0'') \<and> read_nat s \<le> 255"

definition isIPv4 :: "string \<Rightarrow> bool" where
  "isIPv4 ip \<longleftrightarrow> length (split_char CHR ''.'' ip) = 4 \<and> list_all v4_segment (split_char CHR ''.'' ip)"

definition special_octets :: "nat \<Rightarrow> nat \<Rightarrow> nat \<Rightarrow> nat \<Rightarrow> bool" where
  "special_octets o0 o1 o2 o3 =
     (if o0 = 0 then True
      else if o0 = 10 then True
      else if o0 = 100 \<and> o1 \<ge> 64 \<and> o1 \<le> 127 then True
      else if o0 = 127 then True
      else if o0 = 169 \<and> o1 = 254 then True
      else if o0 = 172 \<and> o1 \<ge> 16 \<and> o1 \<le> 31 then True
      else if o0 = 192 \<and> o1 = 0 \<and> o2 = 0 then True
      else if o0 = 192 \<and> o1 = 0 \<and> o2 = 2 then True
      else if o0 = 192 \<and> o1 = 88 \<and> o2 = 99 then True
      else if o0 = 192 \<and> o1 = 168 then True
      else if o0 = 198 \<and> o1 \<ge> 18 \<and> o1 \<le> 19 then True
      else if o0 = 198 \<and> o1 = 51 \<and> o2 = 100 then True
      else if o0 = 203 \<and> o1 = 0 \<and> o2 = 113 then True
      else o0 \<ge> 224)"

definition special_v4 :: "string \<Rightarrow> bool" where
  "special_v4 ip = (case map read_nat (split_char CHR ''.'' ip) of [o0, o1, o2, o3] \<Rightarrow> special_octets o0 o1 o2 o3 | _ \<Rightarrow> True)"

definition isPrivateOrSpecialIp :: "(string \<Rightarrow> bool) \<Rightarrow> string \<Rightarrow> bool" where
  "isPrivateOrSpecialIp is_v6 ip =
     (if isIPv4 ip then special_v4 ip
      else if \<not> is_v6 ip then True
      else let n = map ascii_lower ip in
        if starts_with ''::ffff:'' n \<and> isIPv4 (drop 7 n) then special_v4 (drop 7 n)
        else if n = ''::1'' \<or> n = ''0:0:0:0:0:0:0:1'' then True
        else if n = ''::'' \<or> n = ''0:0:0:0:0:0:0:0'' then True
        else if starts_with ''fe8'' n \<or> starts_with ''fe9'' n \<or> starts_with ''fea'' n \<or> starts_with ''feb'' n then True
        else if starts_with ''fc'' n \<or> starts_with ''fd'' n then True
        else if starts_with ''ff'' n then True
        else if starts_with ''2001:db8'' n \<or> starts_with ''2001:0db8'' n then True
        else False)"

section \<open>URLs\<close>

record url_parts =
  up_protocol :: string
  up_origin :: string
  up_hostname :: string
  up_pathname :: string
  up_search :: string
  up_hash :: string
  up_username :: string
  up_password :: string

text \<open>\<^verbatim>\<open>clientId.replace(/^[a-zA-Z][a-zA-Z0-9+.-]*:\/\/[^/?#]+/, "")\<close>.\<close>

definition letters :: string where "letters = ''abcdefghijklmnopqrstuvwxyzABCDEFGHIJKLMNOPQRSTUVWXYZ''"

definition strip_authority :: "string \<Rightarrow> string" where
  "strip_authority s =
     (let scheme = takeWhile (\<lambda>c. c \<in> set (letters @ ''0123456789+.-'')) s;
          rest = drop (length scheme) s;
          authority = takeWhile (\<lambda>c. c \<notin> set ''/?#'') (drop 3 rest)
      in if scheme \<noteq> [] \<and> hd scheme \<in> set letters \<and> starts_with ''://'' rest \<and> authority \<noteq> []
         then drop (3 + length authority) rest else s)"

definition dot_segment :: "string \<Rightarrow> bool" where
  "dot_segment s \<longleftrightarrow> s = ''.'' \<or> s = ''..''"

text \<open>\<^verbatim>\<open>/\/\.\.?(?=\/|$)/\<close>: a segment behind a slash is one or two dots.\<close>

definition has_dot_segment :: "string \<Rightarrow> bool" where
  "has_dot_segment s = list_ex dot_segment (tl (split_char CHR ''/'' s))"

definition validateClientIdUrl :: "(string \<Rightarrow> url_parts option) \<Rightarrow> (string \<Rightarrow> bool) \<Rightarrow> bool \<Rightarrow> string \<Rightarrow> string + url_parts" where
  "validateClientIdUrl url is_v6 allowHttp clientId =
     (if has_dot_segment (strip_authority clientId) then Inl ''invalid_client_id_dot_segments''
      else case url clientId of
        None \<Rightarrow> Inl ''invalid_client_id_url''
      | Some p \<Rightarrow>
         if up_protocol p \<noteq> ''https:'' \<and> \<not> (allowHttp \<and> up_protocol p = ''http:'') then Inl ''invalid_client_id_scheme''
         else if up_username p \<noteq> [] \<or> up_password p \<noteq> [] then Inl ''invalid_client_id_credentials''
         else if up_search p \<noteq> [] then Inl ''invalid_client_id_query''
         else if up_hash p \<noteq> [] then Inl ''invalid_client_id_fragment''
         else if up_hostname p = [] then Inl ''invalid_client_id_hostname''
         else if \<not> allowHttp \<and> (isIPv4 (up_hostname p) \<or> is_v6 (up_hostname p)) then Inl ''invalid_client_id_ip_literal''
         else if up_pathname p = [] \<or> up_pathname p = ''/'' then Inl ''invalid_client_id_path''
         else if list_ex dot_segment (split_char CHR ''/'' (up_pathname p)) then Inl ''invalid_client_id_dot_segments''
         else Inr p)"

section \<open>Documents\<close>

record client_metadata =
  cm_client_id :: string
  cm_client_name :: string
  cm_redirect_uris :: "string list"
  cm_grant_types :: "json option"
  cm_response_types :: "json option"
  cm_token_endpoint_auth_method :: "json option"
  cm_auth_methods_supported :: "json list"
  cm_jwks_uri :: "string option"
  cm_scope :: "string option"
  cm_logo_uri :: "string option"
  cm_client_uri :: "string option"

definition loopback_host :: "string \<Rightarrow> bool" where
  "loopback_host h \<longleftrightarrow> h = ''localhost'' \<or> h = ''127.0.0.1'' \<or> h = ''[::1]''"

definition redirect_uri_ok :: "(string \<Rightarrow> url_parts option) \<Rightarrow> bool \<Rightarrow> json \<Rightarrow> bool" where
  "redirect_uri_ok url allowHttp v = (case v of
      JStr uri \<Rightarrow> uri \<noteq> [] \<and> (case url uri of
          None \<Rightarrow> False
        | Some p \<Rightarrow> up_hash p = [] \<and> \<not> (up_protocol p = ''http:'' \<and> \<not> loopback_host (up_hostname p) \<and> \<not> allowHttp))
    | _ \<Rightarrow> False)"

definition jtext :: "json \<Rightarrow> string" where
  "jtext v = (case v of JStr s \<Rightarrow> s | _ \<Rightarrow> [])"

text \<open>A list field that is absent or contains a text.\<close>

definition absent_or_includes :: "json option \<Rightarrow> string \<Rightarrow> bool" where
  "absent_or_includes v s = (case v of None \<Rightarrow> True | Some (JArr xs) \<Rightarrow> JStr s \<in> set xs | _ \<Rightarrow> False)"

definition allowed_auth_method :: "json \<Rightarrow> bool" where
  "allowed_auth_method v \<longleftrightarrow> v = JStr ''none'' \<or> v = JStr ''private_key_jwt''"

definition json_array :: "json option \<Rightarrow> json list" where
  "json_array v = (case v of Some (JArr xs) \<Rightarrow> xs | _ \<Rightarrow> [])"

definition validate_document :: "(string \<Rightarrow> url_parts option) \<Rightarrow> bool \<Rightarrow> string \<Rightarrow> string \<Rightarrow> payload \<Rightarrow> string + client_metadata" where
  "validate_document url allowHttp clientId hostname body = (case json_decode body of
      None \<Rightarrow> Inl ''invalid_json''
    | Some (JObj m) \<Rightarrow>
       (let methods = json_array (jfield m ''token_endpoint_auth_methods_supported'') in
        if jfield m ''client_id'' \<noteq> Some (JStr clientId) then Inl ''client_id_mismatch''
        else if json_array (jfield m ''redirect_uris'') = [] then Inl ''invalid_redirect_uris''
        else if \<not> list_all (redirect_uri_ok url allowHttp) (json_array (jfield m ''redirect_uris'')) then Inl ''invalid_redirect_uri''
        else if \<not> absent_or_includes (jfield m ''grant_types'') ''authorization_code'' then Inl ''unsupported_grant_type''
        else if \<not> absent_or_includes (jfield m ''response_types'') ''code'' then Inl ''unsupported_response_type''
        else if \<not> (jfield m ''token_endpoint_auth_method'' = None
                   \<or> (\<exists>v \<in> set_option (jfield m ''token_endpoint_auth_method''). allowed_auth_method v)
                   \<or> list_ex allowed_auth_method methods) then Inl ''unsupported_auth_method''
        else Inr \<lparr>cm_client_id = clientId,
                  cm_client_name = (case as_str (jfield m ''client_name'') of None \<Rightarrow> hostname
                     | Some n \<Rightarrow> if js_trim n \<noteq> [] then js_trim n else hostname),
                  cm_redirect_uris = map jtext (json_array (jfield m ''redirect_uris'')),
                  cm_grant_types = jfield m ''grant_types'', cm_response_types = jfield m ''response_types'',
                  cm_token_endpoint_auth_method = jfield m ''token_endpoint_auth_method'', cm_auth_methods_supported = methods,
                  cm_jwks_uri = as_str (jfield m ''jwks_uri''), cm_scope = as_str (jfield m ''scope''),
                  cm_logo_uri = as_str (jfield m ''logo_uri''), cm_client_uri = as_str (jfield m ''client_uri'')\<rparr>)
    | Some _ \<Rightarrow> Inl ''invalid_schema'')"

section \<open>Fetching\<close>

text \<open>An answer has a status, a content type (empty when absent), a number of bytes and a body.\<close>

datatype http_reply = NetworkError | TimedOut | HttpReply nat string nat payload

definition accept_reply :: "nat \<Rightarrow> http_reply \<Rightarrow> string + payload" where
  "accept_reply maxBytes r = (case r of
      NetworkError \<Rightarrow> Inl ''network_error''
    | TimedOut \<Rightarrow> Inl ''timeout''
    | HttpReply status ctype bytes body \<Rightarrow>
       if 300 \<le> status \<and> status < 400 then Inl ''redirect_prohibited''
       else if status \<noteq> 200 then Inl ''http_error''
       else if \<not> contains ''application/json'' (map ascii_lower ctype) then Inl ''invalid_content_type''
       else if bytes > maxBytes then Inl ''payload_too_large''
       else Inr body)"

record cimd_options =
  co_allow_private :: bool
  co_allow_http :: bool
  co_cache_ttl_ms :: int
  co_max_bytes :: nat

definition default_cimd_options :: cimd_options where
  "default_cimd_options = \<lparr>co_allow_private = False, co_allow_http = False, co_cache_ttl_ms = 10 * 60 * 1000, co_max_bytes = 32 * 1024\<rparr>"

datatype resolution_error = Resolution_invalid_client | Resolution_unavailable | Resolution_unexpected

type_synonym metadata_cache = "(string \<times> client_metadata \<times> int) list"

text \<open>The lookup of a host and the check of all its addresses.\<close>

definition checked_addresses :: "(string \<Rightarrow> bool) \<Rightarrow> cimd_options \<Rightarrow> string list option \<Rightarrow> string + string list" where
  "checked_addresses is_v6 opts found = (case found of
      None \<Rightarrow> Inl ''dns_resolution_failed''
    | Some as \<Rightarrow>
       if as = [] then Inl ''dns_no_records''
       else if \<not> co_allow_private opts \<and> list_ex (isPrivateOrSpecialIp is_v6) as then Inl ''ssrf_disallowed_address''
       else Inr as)"

definition resolveClientMetadata ::
  "(string \<Rightarrow> url_parts option) \<Rightarrow> (string \<Rightarrow> bool) \<Rightarrow> (string \<Rightarrow> string list option) \<Rightarrow> (url_parts \<Rightarrow> string list \<Rightarrow> http_reply) \<Rightarrow> cimd_options \<Rightarrow> int \<Rightarrow>
   string \<Rightarrow> metadata_cache \<Rightarrow> metadata_cache \<times> (string + client_metadata)" where
  "resolveClientMetadata url is_v6 dns http opts now clientId cache =
     (let fresh = ebind (validateClientIdUrl url is_v6 (co_allow_http opts) clientId) (\<lambda>p.
          ebind (checked_addresses is_v6 opts (dns (up_hostname p))) (\<lambda>as.
          ebind (accept_reply (co_max_bytes opts) (http p as)) (\<lambda>body.
            validate_document url (co_allow_http opts) clientId (up_hostname p) body)));
          miss = (case fresh of
            Inl e \<Rightarrow> (cache, Inl e)
          | Inr m \<Rightarrow> (AList.update clientId (m, now + co_cache_ttl_ms opts) cache, Inr m))
      in case map_of cache clientId of
        None \<Rightarrow> miss
      | Some (m, expires) \<Rightarrow> if expires > now then (cache, Inr m) else miss)"

section \<open>The addresses that are refused\<close>

text \<open>The blocks the code names, in CIDR notation, and membership of an address as a number.\<close>

definition v4_address :: "nat \<Rightarrow> nat \<Rightarrow> nat \<Rightarrow> nat \<Rightarrow> nat" where
  "v4_address a b c d = ((a * 256 + b) * 256 + c) * 256 + d"

definition in_block :: "nat \<Rightarrow> nat \<times> nat \<Rightarrow> bool" where
  "in_block x blk \<longleftrightarrow> x div 2 ^ (32 - snd blk) = fst blk div 2 ^ (32 - snd blk)"

definition special_blocks :: "(nat \<times> nat) list" where
  "special_blocks =
     [(v4_address 0 0 0 0, 8), (v4_address 10 0 0 0, 8), (v4_address 100 64 0 0, 10), (v4_address 127 0 0 0, 8), (v4_address 169 254 0 0, 16),
      (v4_address 172 16 0 0, 12), (v4_address 192 0 0 0, 24), (v4_address 192 0 2 0, 24), (v4_address 192 88 99 0, 24), (v4_address 192 168 0 0, 16),
      (v4_address 198 18 0 0, 15), (v4_address 198 51 100 0, 24), (v4_address 203 0 113 0, 24), (v4_address 224 0 0 0, 4), (v4_address 240 0 0 0, 4)]"

definition dotted :: "nat \<Rightarrow> nat \<Rightarrow> nat \<Rightarrow> nat \<Rightarrow> string" where
  "dotted a b c d = show_nat a @ ''.'' @ show_nat b @ ''.'' @ show_nat c @ ''.'' @ show_nat d"

lemma octets_div:
  assumes "b < 256" "c < 256" "d < 256"
  shows "v4_address a b c d div 2 ^ 8 = (a * 256 + b) * 256 + c" "v4_address a b c d div 2 ^ 16 = a * 256 + b" "v4_address a b c d div 2 ^ 24 = a"
    "v4_address a b c d div 2 ^ 22 = a * 4 + b div 64" "v4_address a b c d div 2 ^ 20 = a * 16 + b div 16"
    "v4_address a b c d div 2 ^ 17 = a * 128 + b div 2" "v4_address a b c d div 2 ^ 28 = a div 16"
proof -
  let ?n = "v4_address a b c d"
  have split: "?n div 2 ^ (i + j) = ?n div 2 ^ i div 2 ^ j" for i j by (simp add: power_add div_mult2_eq)
  show 8: "?n div 2 ^ 8 = (a * 256 + b) * 256 + c" using assms(3) by (simp add: v4_address_def)
  show 16: "?n div 2 ^ 16 = a * 256 + b" using split [of 8 8] 8 assms(2) by simp
  show 24: "?n div 2 ^ 24 = a" using split [of 16 8] 16 assms(1) by simp
  show "?n div 2 ^ 22 = a * 4 + b div 64" using split [of 16 6] 16 by (simp; presburger)
  show "?n div 2 ^ 20 = a * 16 + b div 16" using split [of 16 4] 16 by (simp; presburger)
  show "?n div 2 ^ 17 = a * 128 + b div 2" using split [of 16 1] 16 by (simp; presburger)
  show "?n div 2 ^ 28 = a div 16" using split [of 24 4] 24 by simp
qed

lemma split_char_sep: "c \<notin> set s \<Longrightarrow> split_char c (s @ c # t) = s # split_char c t"
  by (induction s) auto

lemma split_char_last: "c \<notin> set s \<Longrightarrow> split_char c s = [s]"
  by (induction s) auto

lemma dotted_split: "split_char CHR ''.'' (dotted a b c d) = [show_nat a, show_nat b, show_nat c, show_nat d]"
proof -
  have no: "CHR ''.'' \<notin> set (show_nat n)" for n by (rule not_digit_notin_show_nat) code_simp
  then show ?thesis by (simp add: dotted_def split_char_sep split_char_last)
qed

lemma show_nat_head: "n \<noteq> 0 \<Longrightarrow> hd (show_nat n) \<noteq> CHR ''0''"
proof (induction n rule: show_nat.induct)
  case (1 n)
  show ?case
  proof (cases "n < 10")
    case True
    then have "digit_val (digit_chars ! n) = n" by simp
    moreover have "digit_val CHR ''0'' = 0" by code_simp
    ultimately have "digit_chars ! n \<noteq> CHR ''0''" using 1(2) by metis
    then show ?thesis using True by (subst show_nat.simps) simp
  next
    case False
    then show ?thesis using 1 by (subst show_nat.simps) simp
  qed
qed

lemma show_nat_short: "n < 10 ^ Suc k \<Longrightarrow> length (show_nat n) \<le> Suc k"
proof (induction k arbitrary: n)
  case 0
  then show ?case by (subst show_nat.simps) simp
next
  case (Suc k)
  have "length (show_nat (n div 10)) \<le> Suc k" using Suc by simp
  then show ?case by (subst show_nat.simps) simp
qed

lemma octet_segment: "n < 256 \<Longrightarrow> v4_segment (show_nat n)"
proof -
  assume n: "n < 256"
  have "length (show_nat n) = 1 \<or> hd (show_nat n) \<noteq> CHR ''0''"
    by (cases "n = 0") (simp_all add: show_nat_head, subst show_nat.simps, simp)
  moreover have "length (show_nat n) \<le> 3" using show_nat_short [of n 2] n by simp
  ultimately show ?thesis using n by (simp add: v4_segment_def)
qed

lemma dotted_v4: "a < 256 \<Longrightarrow> b < 256 \<Longrightarrow> c < 256 \<Longrightarrow> d < 256 \<Longrightarrow> isIPv4 (dotted a b c d)"
  using octet_segment by (simp add: isIPv4_def dotted_split)

lemma div_is: "0 < k \<Longrightarrow> b div k = q \<longleftrightarrow> q * k \<le> b \<and> b < Suc q * k" for b k q :: nat
  using less_eq_div_iff_mult_less_eq [of k q b] div_less_iff_less_mult [of k b "Suc q"] by linarith

lemma digits_eq:
  assumes "(b::nat) < m" "y < m"
  shows "a * m + b = x * m + y \<longleftrightarrow> a = x \<and> b = y"
proof
  assume h: "a * m + b = x * m + y"
  have "(a * m + b) div m = a" "(x * m + y) div m = x" using assms by simp_all
  then show "a = x \<and> b = y" using h by simp
qed simp

lemma special_octets_blocks:
  assumes "a < 256" "b < 256" "c < 256" "d < 256"
  shows "special_octets a b c d \<longleftrightarrow> list_ex (in_block (v4_address a b c d)) special_blocks"
proof -
  note o = octets_div [OF assms(2-4)]
  have p8: "in_block (v4_address a b c d) (n, 8) \<longleftrightarrow> a = n div 2 ^ 24" and p16: "in_block (v4_address a b c d) (n, 16) \<longleftrightarrow> a * 256 + b = n div 2 ^ 16"
    and p24: "in_block (v4_address a b c d) (n, 24) \<longleftrightarrow> (a * 256 + b) * 256 + c = n div 2 ^ 8"
    and p10: "in_block (v4_address a b c d) (n, 10) \<longleftrightarrow> a * 4 + b div 64 = n div 2 ^ 22"
    and p12: "in_block (v4_address a b c d) (n, 12) \<longleftrightarrow> a * 16 + b div 16 = n div 2 ^ 20"
    and p15: "in_block (v4_address a b c d) (n, 15) \<longleftrightarrow> a * 128 + b div 2 = n div 2 ^ 17"
    and p4: "in_block (v4_address a b c d) (n, 4) \<longleftrightarrow> a div 16 = n div 2 ^ 28" for n
    using o by (simp_all add: in_block_def)
  have three: "(a * 256 + b) * 256 + c = (x * 256 + y) * 256 + z \<longleftrightarrow> a = x \<and> b = y \<and> c = z" if "y < 256" "z < 256" for y z x
    using digits_eq [of c 256 z "a * 256 + b" "x * 256 + y"] digits_eq [of b 256 y a x] that assms(2,3) by auto
  have r: "b div 64 < 4" "b div 16 < 16" "b div 2 < 128" using assms(2) by simp_all
  have "b div 64 = 1 \<longleftrightarrow> 64 \<le> b \<and> b \<le> 127" by (auto simp: div_is)
  then have b1: "a * 4 + b div 64 = 401 \<longleftrightarrow> a = 100 \<and> 64 \<le> b \<and> b \<le> 127" using digits_eq [OF r(1), of 1 a 100] by simp
  have "b div 16 = 1 \<longleftrightarrow> 16 \<le> b \<and> b \<le> 31" by (auto simp: div_is)
  then have b2: "a * 16 + b div 16 = 2753 \<longleftrightarrow> a = 172 \<and> 16 \<le> b \<and> b \<le> 31" using digits_eq [OF r(2), of 1 a 172] by simp
  have "b div 2 = 9 \<longleftrightarrow> 18 \<le> b \<and> b \<le> 19" by (auto simp: div_is)
  then have b3: "a * 128 + b div 2 = 25353 \<longleftrightarrow> a = 198 \<and> 18 \<le> b \<and> b \<le> 19" using digits_eq [OF r(3), of 9 a 198] by simp
  have b4: "a * 256 + b = 43518 \<longleftrightarrow> a = 169 \<and> b = 254" using digits_eq [OF assms(2), of 254 a 169] by simp
  have b5: "a * 256 + b = 49320 \<longleftrightarrow> a = 192 \<and> b = 168" using digits_eq [OF assms(2), of 168 a 192] by simp
  have b6: "(a * 256 + b) * 256 + c = 12582912 \<longleftrightarrow> a = 192 \<and> b = 0 \<and> c = 0" using three [of 0 0 192] by simp
  have b7: "(a * 256 + b) * 256 + c = 12582914 \<longleftrightarrow> a = 192 \<and> b = 0 \<and> c = 2" using three [of 0 2 192] by simp
  have b8: "(a * 256 + b) * 256 + c = 12605539 \<longleftrightarrow> a = 192 \<and> b = 88 \<and> c = 99" using three [of 88 99 192] by simp
  have b9: "(a * 256 + b) * 256 + c = 12989284 \<longleftrightarrow> a = 198 \<and> b = 51 \<and> c = 100" using three [of 51 100 198] by simp
  have b10: "(a * 256 + b) * 256 + c = 13303921 \<longleftrightarrow> a = 203 \<and> b = 0 \<and> c = 113" using three [of 0 113 203] by simp
  have b11: "a div 16 = 14 \<or> a div 16 = 15 \<longleftrightarrow> 224 \<le> a" using assms(1) by (auto simp: div_is)
  have divs: "v4_address 0 0 0 0 div 2 ^ 24 = 0" "v4_address 10 0 0 0 div 2 ^ 24 = 10" "v4_address 127 0 0 0 div 2 ^ 24 = 127"
    "v4_address 100 64 0 0 div 2 ^ 22 = 401" "v4_address 172 16 0 0 div 2 ^ 20 = 2753" "v4_address 198 18 0 0 div 2 ^ 17 = 25353"
    "v4_address 169 254 0 0 div 2 ^ 16 = 43518" "v4_address 192 168 0 0 div 2 ^ 16 = 49320" "v4_address 192 0 0 0 div 2 ^ 8 = 12582912"
    "v4_address 192 0 2 0 div 2 ^ 8 = 12582914" "v4_address 192 88 99 0 div 2 ^ 8 = 12605539" "v4_address 198 51 100 0 div 2 ^ 8 = 12989284"
    "v4_address 203 0 113 0 div 2 ^ 8 = 13303921" "v4_address 224 0 0 0 div 2 ^ 28 = 14" "v4_address 240 0 0 0 div 2 ^ 28 = 15"
    by (simp_all add: v4_address_def)
  have "list_ex (in_block (v4_address a b c d)) special_blocks \<longleftrightarrow> a = 0 \<or> a = 10 \<or> a = 100 \<and> 64 \<le> b \<and> b \<le> 127 \<or> a = 127 \<or> a = 169 \<and> b = 254
      \<or> a = 172 \<and> 16 \<le> b \<and> b \<le> 31 \<or> a = 192 \<and> b = 0 \<and> c = 0 \<or> a = 192 \<and> b = 0 \<and> c = 2 \<or> a = 192 \<and> b = 88 \<and> c = 99 \<or> a = 192 \<and> b = 168
      \<or> a = 198 \<and> 18 \<le> b \<and> b \<le> 19 \<or> a = 198 \<and> b = 51 \<and> c = 100 \<or> a = 203 \<and> b = 0 \<and> c = 113 \<or> 224 \<le> a"
    unfolding special_blocks_def list_ex_Nil_iff list_ex_Cons_iff p8 p16 p24 p10 p12 p15 p4 divs b1 b2 b3 b4 b5 b6 b7 b8 b9 b10 b11 [symmetric] simp_thms disj_assoc by (rule TrueI)
  moreover have "(if p then True else q) \<longleftrightarrow> p \<or> q" for p q by simp
  ultimately show ?thesis by (simp only: special_octets_def)
qed

lemma special_dotted:
  assumes "a < 256" "b < 256" "c < 256" "d < 256"
  shows "isPrivateOrSpecialIp is_v6 (dotted a b c d) \<longleftrightarrow> special_octets a b c d"
  by (simp add: isPrivateOrSpecialIp_def dotted_v4 [OF assms] special_v4_def dotted_split)

section \<open>What a resolved client is\<close>

text \<open>A redirect URI is an absolute URL without a fragment and, unless test options allow it, not plain HTTP to another host.\<close>

definition safe_redirect :: "(string \<Rightarrow> url_parts option) \<Rightarrow> bool \<Rightarrow> string \<Rightarrow> bool" where
  "safe_redirect url allowHttp uri \<longleftrightarrow> (\<exists>p. url uri = Some p \<and> up_hash p = []
     \<and> (up_protocol p = ''http:'' \<longrightarrow> allowHttp \<or> loopback_host (map ascii_lower (up_hostname p)) \<or> map ascii_lower (up_hostname p) = ''::1''))"

definition client_ok :: "(string \<Rightarrow> url_parts option) \<Rightarrow> bool \<Rightarrow> string \<Rightarrow> client_metadata \<Rightarrow> bool" where
  "client_ok url allowHttp clientId m \<longleftrightarrow> cm_client_id m = clientId \<and> cm_redirect_uris m \<noteq> [] \<and> list_all (safe_redirect url allowHttp) (cm_redirect_uris m)"

definition cache_ok :: "(string \<Rightarrow> url_parts option) \<Rightarrow> bool \<Rightarrow> metadata_cache \<Rightarrow> bool" where
  "cache_ok url allowHttp cache \<longleftrightarrow> (\<forall>c m t. map_of cache c = Some (m, t) \<longrightarrow> client_ok url allowHttp c m)"

lemma loopback_lower: "loopback_host h \<Longrightarrow> loopback_host (map ascii_lower h)"
proof -
  have "map ascii_lower ''localhost'' = ''localhost''" "map ascii_lower ''127.0.0.1'' = ''127.0.0.1''" "map ascii_lower ''[::1]'' = ''[::1]''" by code_simp+
  then show "loopback_host h \<Longrightarrow> loopback_host (map ascii_lower h)" unfolding loopback_host_def by metis
qed

lemma redirect_uri_safe: "redirect_uri_ok url allowHttp v \<Longrightarrow> safe_redirect url allowHttp (jtext v)"
  by (auto simp: redirect_uri_ok_def safe_redirect_def jtext_def dest: loopback_lower split: json.splits option.splits)

lemma document_ok:
  assumes "validate_document url allowHttp clientId hostname body = Inr m"
  shows "client_ok url allowHttp clientId m"
proof -
  obtain j where j: "json_decode body = Some (JObj j)" using assms by (auto simp: validate_document_def split: option.splits json.splits)
  then have d: "json_array (jfield j ''redirect_uris'') \<noteq> []" "list_all (redirect_uri_ok url allowHttp) (json_array (jfield j ''redirect_uris''))"
    "cm_client_id m = clientId" "cm_redirect_uris m = map jtext (json_array (jfield j ''redirect_uris''))"
    using assms by (auto simp: validate_document_def Let_def split: if_splits)
  then show ?thesis using redirect_uri_safe by (auto simp: client_ok_def list_all_iff)
qed

lemma resolve_cases:
  assumes "resolveClientMetadata url is_v6 dns http opts now clientId cache = (cache', r)"
  obtains e where "r = Inl e" "cache' = cache"
  | m t where "r = Inr m" "cache' = cache" "map_of cache clientId = Some (m, t)" "now < t"
  | p as body m where "r = Inr m" "cache' = AList.update clientId (m, now + co_cache_ttl_ms opts) cache"
      "validateClientIdUrl url is_v6 (co_allow_http opts) clientId = Inr p" "checked_addresses is_v6 opts (dns (up_hostname p)) = Inr as"
      "accept_reply (co_max_bytes opts) (http p as) = Inr body"
      "validate_document url (co_allow_http opts) clientId (up_hostname p) body = Inr m"
proof -
  let ?fresh = "ebind (validateClientIdUrl url is_v6 (co_allow_http opts) clientId) (\<lambda>p.
          ebind (checked_addresses is_v6 opts (dns (up_hostname p))) (\<lambda>as.
          ebind (accept_reply (co_max_bytes opts) (http p as)) (\<lambda>body.
            validate_document url (co_allow_http opts) clientId (up_hostname p) body)))"
  consider (hit) m t where "map_of cache clientId = Some (m, t)" "t > now" | (miss) "\<nexists>m t. map_of cache clientId = Some (m, t) \<and> t > now" by blast
  then show ?thesis
  proof cases
    case hit
    then show ?thesis using assms by (intro that(2)) (auto simp: resolveClientMetadata_def Let_def)
  next
    case miss
    then have r: "(cache', r) = (case ?fresh of Inl e \<Rightarrow> (cache, Inl e) | Inr m \<Rightarrow> (AList.update clientId (m, now + co_cache_ttl_ms opts) cache, Inr m))"
      using assms by (auto simp: resolveClientMetadata_def Let_def split: option.splits)
    show ?thesis
    proof (cases ?fresh)
      case (Inl e)
      then show ?thesis using r that(1) by simp
    next
      case (Inr m)
      then show ?thesis using r that(3) by (auto simp: ebind_eq_Inr)
    qed
  qed
qed

lemma resolve_cache_ok:
  assumes "resolveClientMetadata url is_v6 dns http opts now clientId cache = (cache', r)" "cache_ok url (co_allow_http opts) cache"
  shows "cache_ok url (co_allow_http opts) cache' \<and> (\<forall>m. r = Inr m \<longrightarrow> client_ok url (co_allow_http opts) clientId m)"
  using assms(1)
proof (cases rule: resolve_cases)
  case (3 p as body m)
  then have "client_ok url (co_allow_http opts) clientId m" by (intro document_ok)
  then show ?thesis using 3 assms(2) by (auto simp: cache_ok_def update_conv')
qed (use assms(2) in \<open>auto simp: cache_ok_def\<close>)

text \<open>
  The comment of \<^verbatim>\<open>isPrivateOrSpecialIp\<close> names both spellings of an IPv4-mapped address. Only the dotted one is recognised.
\<close>

theorem mapped_loopback_in_hex_passes:
  assumes "is_v6 ''::ffff:7f00:1''" "is_v6 ''::ffff:127.0.0.1''"
  shows "\<not> isPrivateOrSpecialIp is_v6 ''::ffff:7f00:1'' \<and> isPrivateOrSpecialIp is_v6 ''::ffff:127.0.0.1''"
proof -
  have "\<not> isIPv4 ''::ffff:7f00:1''" "\<not> isIPv4 ''::ffff:127.0.0.1''" "map ascii_lower ''::ffff:7f00:1'' = ''::ffff:7f00:1''"
    "map ascii_lower ''::ffff:127.0.0.1'' = ''::ffff:127.0.0.1''" "\<not> isIPv4 ''7f00:1''" "isIPv4 ''127.0.0.1''" "special_v4 ''127.0.0.1''"
    by code_simp+
  then show ?thesis using assms by (simp add: isPrivateOrSpecialIp_def Let_def starts_with_def)
qed

end
