(* ===== verification/OAuth_Service.thy ===== *)
theory OAuth_Service
  imports OAuth_Store Enrollment_Flow Js_Words Client_Metadata
begin

text \<open>
  The OAuth service (\<^verbatim>\<open>oauth/service.ts\<close>) and its token and decision routes (\<^verbatim>\<open>oauth/router.ts\<close>). Arguments stand for
  what the runtime provides: \<open>url\<close> parses an absolute URL, \<open>sha\<close> and \<open>sha64\<close> are SHA-256 in hexadecimal and in
  base64url, and the random parts of identifiers and secrets come with each call. An operation returns the state it
  leaves also when it throws. Texts of error descriptions are not modelled.
\<close>

section \<open>What the service reads of the identity store\<close>

text \<open>
  \<open>ib_scope_verified\<close> lists the workspaces whose repository binding has the column \<^verbatim>\<open>access_scope_verified_at_ms\<close> set,
  with its value; \<open>ib_bootstraps\<close> is the state of the bootstrap row of a workspace.
\<close>

record identity_db =
  ib_control :: control_db
  ib_scope_verified :: "(ws_id \<times> int) list"
  ib_bootstraps :: "(ws_id \<times> string) list"

definition isUserActive :: "identity_db \<Rightarrow> user_id \<Rightarrow> bool" where
  "isUserActive b u = active_user (ib_control b) u"

definition hasWorkspaceAccess :: "identity_db \<Rightarrow> ws_id \<Rightarrow> user_id \<Rightarrow> bool" where
  "hasWorkspaceAccess b w u =
     list_ex (\<lambda>m. m_workspace_id m = w \<and> m_user_id m = u \<and> m_role m = ''owner'') (memberships (ib_control b))"

text \<open>The order of the listing is left out: the service only asks whether it has exactly one entry.\<close>

definition membershipsForUser :: "identity_db \<Rightarrow> user_id \<Rightarrow> membership_row list" where
  "membershipsForUser b u = filter (\<lambda>m. m_user_id m = u) (memberships (ib_control b))"

definition isWorkspaceReadyForHost :: "identity_db \<Rightarrow> ws_id \<Rightarrow> bool" where
  "isWorkspaceReadyForHost b w =
     (let bound = repo_binding_of (ib_control b) w \<noteq> None; boot = map_of (ib_bootstraps b) w
      in if bound \<and> map_of (ib_scope_verified b) w = None then False
         else if bound \<or> boot \<noteq> None then boot = Some ''READY''
         else w \<in> set (workspaces (ib_control b)))"

section \<open>Options and errors\<close>

record oauth_service =
  sv_public_origin :: string
  sv_auth_code_ttl_ms :: int
  sv_auth_request_ttl_ms :: int
  sv_access_token_ttl_ms :: int
  sv_refresh_token_ttl_ms :: int

definition DEFAULT_AUTH_CODE_TTL_MS :: int where "DEFAULT_AUTH_CODE_TTL_MS = 5 * 60 * 1000"
definition DEFAULT_AUTH_REQUEST_TTL_MS :: int where "DEFAULT_AUTH_REQUEST_TTL_MS = 10 * 60 * 1000"
definition DEFAULT_ACCESS_TOKEN_TTL_MS :: int where "DEFAULT_ACCESS_TOKEN_TTL_MS = 60 * 60 * 1000"
definition DEFAULT_REFRESH_TOKEN_TTL_MS :: int where "DEFAULT_REFRESH_TOKEN_TTL_MS = 30 * 24 * 60 * 60 * 1000"

definition or_default :: "'a \<Rightarrow> 'a option \<Rightarrow> 'a" where
  "or_default d x = (case x of None \<Rightarrow> d | Some v \<Rightarrow> v)"

definition newOAuthService :: "string \<Rightarrow> int option \<Rightarrow> int option \<Rightarrow> int option \<Rightarrow> int option \<Rightarrow> oauth_service" where
  "newOAuthService publicOrigin code request access refresh =
     \<lparr>sv_public_origin = rev (dropWhile (\<lambda>c. c = CHR ''/'') (rev publicOrigin)),
      sv_auth_code_ttl_ms = or_default DEFAULT_AUTH_CODE_TTL_MS code,
      sv_auth_request_ttl_ms = or_default DEFAULT_AUTH_REQUEST_TTL_MS request,
      sv_access_token_ttl_ms = or_default DEFAULT_ACCESS_TOKEN_TTL_MS access,
      sv_refresh_token_ttl_ms = or_default DEFAULT_REFRESH_TOKEN_TTL_MS refresh\<rparr>"

definition canonicalResource :: "oauth_service \<Rightarrow> string" where
  "canonicalResource sv = sv_public_origin sv @ ''/mcp''"

text \<open>\<^verbatim>\<open>OAuthServerError\<close> with its code and status, or any other exception.\<close>

datatype oauth_error = OAuthServerError string nat | UnexpectedError

section \<open>Resources\<close>

definition invalid_target :: oauth_error where "invalid_target = OAuthServerError ''invalid_target'' 400"

definition validateCanonicalResource ::
  "(string \<Rightarrow> url_parts option) \<Rightarrow> string option \<Rightarrow> string \<Rightarrow> oauth_error + string" where
  "validateCanonicalResource url uri canonical = (case uri of
      None \<Rightarrow> Inl invalid_target
    | Some u \<Rightarrow>
       if js_trim u = [] then Inl invalid_target
       else (case url u of
           None \<Rightarrow> Inl invalid_target
         | Some p \<Rightarrow>
            if up_search p \<noteq> [] then Inl invalid_target
            else if up_hash p \<noteq> [] then Inl invalid_target
            else if up_username p \<noteq> [] \<or> up_password p \<noteq> [] then Inl invalid_target
            else (case url canonical of
                None \<Rightarrow> Inl UnexpectedError
              | Some c \<Rightarrow>
                 if up_origin p \<noteq> up_origin c \<or> up_pathname p \<noteq> up_pathname c then Inl invalid_target
                 else Inr canonical)))"

section \<open>Authorization requests\<close>

record authorize_input =
  zi_client_id :: string
  zi_redirect_uri :: string
  zi_response_type :: string
  zi_scope :: "string option"
  zi_state :: "string option"
  zi_code_challenge :: string
  zi_code_challenge_method :: string
  zi_resource :: "string option"

definition allowed_scopes :: "string list" where "allowed_scopes = [''mcp'', ''offline_access'']"

definition requested_scopes :: "string option \<Rightarrow> string list" where
  "requested_scopes scope = (case scope of
      None \<Rightarrow> js_words ''mcp''
    | Some s \<Rightarrow> if s = [] then js_words ''mcp'' else js_words (js_trim s))"

definition resolution_failure :: "resolution_error \<Rightarrow> oauth_error" where
  "resolution_failure e = (case e of
      Resolution_unavailable \<Rightarrow> OAuthServerError ''server_error'' 503
    | Resolution_invalid_client \<Rightarrow> OAuthServerError ''invalid_client'' 400
    | Resolution_unexpected \<Rightarrow> UnexpectedError)"

text \<open>Everything that is checked before the request is stored; the result is what is stored of it.\<close>

definition check_authorize ::
  "(string \<Rightarrow> url_parts option) \<Rightarrow> (string \<Rightarrow> resolution_error + client_metadata) \<Rightarrow> oauth_service \<Rightarrow> int \<Rightarrow> string \<Rightarrow> authorize_input \<Rightarrow>
   oauth_error + request_input \<times> client_metadata" where
  "check_authorize url resolve sv now uuid i =
     (if zi_response_type i \<noteq> ''code'' then Inl (OAuthServerError ''unsupported_response_type'' 400)
      else if zi_code_challenge i = [] \<or> zi_code_challenge_method i \<noteq> ''S256'' then Inl (OAuthServerError ''invalid_request'' 400)
      else ebind (validateCanonicalResource url (zi_resource i) (canonicalResource sv)) (\<lambda>targetResource.
       ebind (case resolve (zi_client_id i) of Inl e \<Rightarrow> Inl (resolution_failure e) | Inr m \<Rightarrow> Inr m) (\<lambda>m.
        let requested = requested_scopes (zi_scope i) in
        if zi_redirect_uri i \<notin> set (cm_redirect_uris m) then Inl (OAuthServerError ''invalid_request'' 400)
        else if \<not> list_all (\<lambda>t. t \<in> set allowed_scopes) requested then Inl (OAuthServerError ''invalid_scope'' 400)
        else if ''mcp'' \<notin> set requested then Inl (OAuthServerError ''invalid_scope'' 400)
        else Inr (\<lparr>ri_id = ''oar_'' @ uuid, ri_client_id = zi_client_id i, ri_client_name = cm_client_name m,
                   ri_redirect_uri = zi_redirect_uri i, ri_resource = targetResource, ri_scope = join_words requested,
                   ri_state = zi_state i, ri_code_challenge = zi_code_challenge i,
                   ri_code_challenge_method = zi_code_challenge_method i, ri_created_at_ms = now,
                   ri_expires_at_ms = now + sv_auth_request_ttl_ms sv\<rparr>, m))))"

definition initiateAuthorizationRequest ::
  "(string \<Rightarrow> url_parts option) \<Rightarrow> (string \<Rightarrow> resolution_error + client_metadata) \<Rightarrow> oauth_service \<Rightarrow> int \<Rightarrow> string \<Rightarrow> authorize_input \<Rightarrow>
   oauth_db \<Rightarrow> oauth_db \<times> (oauth_error + oauth_request \<times> client_metadata)" where
  "initiateAuthorizationRequest url resolve sv now uuid i db = (case check_authorize url resolve sv now uuid i of
      Inl e \<Rightarrow> (db, Inl e)
    | Inr (q, m) \<Rightarrow> (case createAuthorizationRequest q db of
        (db1, Inl _) \<Rightarrow> (db1, Inl UnexpectedError)
      | (db1, Inr _) \<Rightarrow> (case OAuth_Store.getAuthorizationRequest db1 (ri_id q) of
          None \<Rightarrow> (db1, Inl (OAuthServerError ''server_error'' 500))
        | Some r \<Rightarrow> (db1, Inr (r, m)))))"

definition unexpiredRequest :: "int \<Rightarrow> oauth_db \<Rightarrow> string \<Rightarrow> oauth_request option" where
  "unexpiredRequest now db i = (case getAuthorizationRequest db i of
      None \<Rightarrow> None
    | Some r \<Rightarrow> if oq_expires_at_ms r \<le> now then None else Some r)"

section \<open>Consent\<close>

definition createConsentNonce :: "(string \<Rightarrow> digest) \<Rightarrow> int \<Rightarrow> string \<Rightarrow> string \<Rightarrow> oauth_db \<Rightarrow> oauth_db \<times> (oauth_error + string)" where
  "createConsentNonce sha now nonce requestId db = (case setConsentNonceDigest requestId (sha nonce) now db of
      (db1, updated) \<Rightarrow> (db1, if updated then Inr nonce else Inl (OAuthServerError ''invalid_request'' 400)))"

text \<open>The workspace a user can grant access to: the only one the user is a member of, once it is ready.\<close>

definition consent_workspace :: "identity_db \<Rightarrow> user_id \<Rightarrow> oauth_error + ws_id" where
  "consent_workspace b u =
     (if \<not> isUserActive b u then Inl (OAuthServerError ''access_denied'' 403)
      else case membershipsForUser b u of
        [m] \<Rightarrow> if isWorkspaceReadyForHost b (m_workspace_id m) then Inr (m_workspace_id m) else Inl (OAuthServerError ''access_denied'' 403)
      | _ \<Rightarrow> Inl (OAuthServerError ''access_denied'' 403))"

record code_draw =
  cd_secret :: string
  cd_uuid :: string

definition raw_code :: "code_draw \<Rightarrow> string" where "raw_code d = ''oac_'' @ cd_secret d"

definition approval_of :: "(string \<Rightarrow> digest) \<Rightarrow> oauth_service \<Rightarrow> int \<Rightarrow> code_draw \<Rightarrow> string \<Rightarrow> string \<Rightarrow> user_id \<Rightarrow> ws_id \<Rightarrow> approve_input" where
  "approval_of sha sv now d requestId nonce u w =
     \<lparr>ai_request_id = requestId, ai_nonce_digest = sha nonce, ai_user_id = u, ai_workspace_id = w, ai_code_id = ''cd_'' @ cd_uuid d,
      ai_code_digest = sha (raw_code d), ai_now_ms = now, ai_code_expires_at_ms = now + sv_auth_code_ttl_ms sv\<rparr>"

record consent_answer =
  ca_code :: string
  ca_redirect_uri :: string
  ca_state :: "string option"

definition request_state :: "oauth_db \<Rightarrow> string \<Rightarrow> string option" where
  "request_state db i = (case getAuthorizationRequest db i of None \<Rightarrow> None | Some r \<Rightarrow> oq_state r)"

definition approveConsent ::
  "(string \<Rightarrow> digest) \<Rightarrow> oauth_service \<Rightarrow> int \<Rightarrow> code_draw \<Rightarrow> identity_db \<Rightarrow> string \<Rightarrow> string \<Rightarrow> user_id \<Rightarrow>
   oauth_db \<Rightarrow> oauth_db \<times> (oauth_error + consent_answer)" where
  "approveConsent sha sv now d b requestId nonce u db = (case consent_workspace b u of
      Inl e \<Rightarrow> (db, Inl e)
    | Inr w \<Rightarrow> (case approveConsentAndIssueCode (approval_of sha sv now d requestId nonce u w) db of
        (db1, Inl _) \<Rightarrow> (db1, Inl UnexpectedError)
      | (db1, Inr None) \<Rightarrow> (db1, Inl (OAuthServerError ''invalid_request'' 400))
      | (db1, Inr (Some c)) \<Rightarrow>
          (db1, Inr \<lparr>ca_code = raw_code d, ca_redirect_uri = oc_redirect_uri c, ca_state = request_state db1 requestId\<rparr>)))"

definition denyConsentRequest :: "(string \<Rightarrow> digest) \<Rightarrow> int \<Rightarrow> string \<Rightarrow> string \<Rightarrow> oauth_db \<Rightarrow> oauth_db \<times> (oauth_error + string \<times> string option)" where
  "denyConsentRequest sha now requestId nonce db = (case getAuthorizationRequest db requestId of
      None \<Rightarrow> (db, Inl (OAuthServerError ''invalid_request'' 400))
    | Some r \<Rightarrow> (case denyConsent requestId (sha nonce) now db of
        (db1, denied) \<Rightarrow> (db1, if denied then Inr (oq_redirect_uri r, oq_state r) else Inl (OAuthServerError ''invalid_request'' 400))))"

section \<open>Tokens\<close>

record token_draw =
  td_access_secret :: string
  td_access_uuid :: string
  td_refresh_secret :: string
  td_refresh_uuid :: string
  td_family_uuid :: string

definition raw_access :: "token_draw \<Rightarrow> string" where "raw_access d = ''ceo_at_'' @ td_access_secret d"
definition raw_refresh :: "token_draw \<Rightarrow> string" where "raw_refresh d = ''ceo_rt_'' @ td_refresh_secret d"
definition family_of :: "token_draw \<Rightarrow> string" where "family_of d = ''fam_'' @ td_family_uuid d"

record token_answer =
  ta_access_token :: string
  ta_expires_in :: int
  ta_refresh_token :: string
  ta_scope :: string

definition token_answer_of :: "oauth_service \<Rightarrow> token_draw \<Rightarrow> string \<Rightarrow> token_answer" where
  "token_answer_of sv d scope =
     \<lparr>ta_access_token = raw_access d, ta_expires_in = sv_access_token_ttl_ms sv div 1000, ta_refresh_token = raw_refresh d, ta_scope = scope\<rparr>"

definition grant_refused :: "grant_error \<Rightarrow> oauth_error" where
  "grant_refused e = (case e of Invalid_target \<Rightarrow> invalid_target | Invalid_grant \<Rightarrow> OAuthServerError ''invalid_grant'' 400)"

record exchange_input =
  gi_client_id :: "string option"
  gi_redirect_uri :: "string option"
  gi_code :: "string option"
  gi_code_verifier :: "string option"
  gi_resource :: "string option"

text \<open>A missing field and an empty one are both falsy.\<close>

definition given :: "string option \<Rightarrow> bool" where
  "given x = (case x of None \<Rightarrow> False | Some s \<Rightarrow> s \<noteq> [])"

definition consumption_of ::
  "(string \<Rightarrow> digest) \<Rightarrow> oauth_service \<Rightarrow> int \<Rightarrow> token_draw \<Rightarrow> string \<Rightarrow> exchange_input \<Rightarrow> consume_input" where
  "consumption_of sha sv now d targetResource i =
     \<lparr>ci_code_digest = sha (the (gi_code i)), ci_client_id = the (gi_client_id i), ci_redirect_uri = the (gi_redirect_uri i),
      ci_resource = targetResource, ci_code_verifier = the (gi_code_verifier i),
      ci_access_token_id = ''at_'' @ td_access_uuid d, ci_access_token_digest = sha (raw_access d),
      ci_access_token_expires_at_ms = now + sv_access_token_ttl_ms sv,
      ci_refresh_token_id = ''rt_'' @ td_refresh_uuid d, ci_refresh_token_digest = sha (raw_refresh d),
      ci_refresh_token_family_id = family_of d, ci_refresh_token_expires_at_ms = now + sv_refresh_token_ttl_ms sv, ci_now_ms = now\<rparr>"

definition exchangeAuthorizationCode ::
  "(string \<Rightarrow> digest) \<Rightarrow> (string \<Rightarrow> string) \<Rightarrow> (string \<Rightarrow> url_parts option) \<Rightarrow> oauth_service \<Rightarrow> int \<Rightarrow> token_draw \<Rightarrow> exchange_input \<Rightarrow>
   oauth_db \<Rightarrow> oauth_db \<times> (oauth_error + token_answer)" where
  "exchangeAuthorizationCode sha sha64 url sv now d i db =
     (if \<not> given (gi_code i) \<or> \<not> given (gi_code_verifier i) \<or> \<not> given (gi_client_id i) \<or> \<not> given (gi_redirect_uri i)
      then (db, Inl (OAuthServerError ''invalid_request'' 400))
      else case validateCanonicalResource url (gi_resource i) (canonicalResource sv) of
        Inl e \<Rightarrow> (db, Inl e)
      | Inr targetResource \<Rightarrow> (case consumeCodeAndIssueTokens sha64 (consumption_of sha sv now d targetResource i) db of
          (db1, Inl _) \<Rightarrow> (db1, Inl UnexpectedError)
        | (db1, Inr (Inl e)) \<Rightarrow> (db1, Inl (grant_refused e))
        | (db1, Inr (Inr (c, _, _))) \<Rightarrow> (db1, Inr (token_answer_of sv d (oc_scope c)))))"

record refresh_input =
  fi_client_id :: "string option"
  fi_refresh_token :: "string option"
  fi_scope :: "string option"
  fi_resource :: "string option"

text \<open>The scope of the new tokens, or the refusal to extend the old one.\<close>

definition narrowed_scope :: "string option \<Rightarrow> string \<Rightarrow> oauth_error + string" where
  "narrowed_scope scope old =
     (if \<not> given scope then Inr old
      else let requested = js_words (js_trim (the scope))
           in if list_all (\<lambda>s. s \<in> set (js_split_ws old)) requested then Inr (join_words requested)
              else Inl (OAuthServerError ''invalid_scope'' 400))"

definition rotation_of ::
  "(string \<Rightarrow> digest) \<Rightarrow> oauth_service \<Rightarrow> int \<Rightarrow> token_draw \<Rightarrow> string \<Rightarrow> string \<Rightarrow> refresh_input \<Rightarrow> rotate_input" where
  "rotation_of sha sv now d targetResource scope i =
     \<lparr>xi_old_token_digest = sha (the (fi_refresh_token i)), xi_client_id = the (fi_client_id i), xi_resource = targetResource,
      xi_new_scope = scope, xi_access_token_id = ''at_'' @ td_access_uuid d, xi_access_token_digest = sha (raw_access d),
      xi_access_token_expires_at_ms = now + sv_access_token_ttl_ms sv,
      xi_new_refresh_token_id = ''rt_'' @ td_refresh_uuid d, xi_new_refresh_token_digest = sha (raw_refresh d),
      xi_new_refresh_token_expires_at_ms = now + sv_refresh_token_ttl_ms sv, xi_now_ms = now\<rparr>"

definition invalid_grant :: oauth_error where "invalid_grant = OAuthServerError ''invalid_grant'' 400"

definition refreshTokens ::
  "(string \<Rightarrow> digest) \<Rightarrow> (string \<Rightarrow> url_parts option) \<Rightarrow> oauth_service \<Rightarrow> int \<Rightarrow> token_draw \<Rightarrow> identity_db \<Rightarrow> refresh_input \<Rightarrow>
   oauth_db \<Rightarrow> oauth_db \<times> (oauth_error + token_answer)" where
  "refreshTokens sha url sv now d b i db =
     (if \<not> given (fi_refresh_token i) \<or> \<not> given (fi_client_id i) then (db, Inl (OAuthServerError ''invalid_request'' 400))
      else case findRefreshTokenByDigest db (sha (the (fi_refresh_token i))) of
        None \<Rightarrow> (db, Inl invalid_grant)
      | Some t \<Rightarrow>
         if rt_consumed_at_ms t \<noteq> None then (revokeRefreshTokenFamily (rt_family_id t) now db, Inl invalid_grant)
         else if rt_revoked_at_ms t \<noteq> None \<or> rt_expires_at_ms t \<le> now then (db, Inl invalid_grant)
         else if rt_client_id t \<noteq> the (fi_client_id i) then (db, Inl invalid_grant)
         else (case validateCanonicalResource url (fi_resource i) (rt_resource t) of
             Inl e \<Rightarrow> (db, Inl e)
           | Inr targetResource \<Rightarrow>
              if \<not> isUserActive b (rt_user_id t) \<or> \<not> hasWorkspaceAccess b (rt_workspace_id t) (rt_user_id t)
              then (revokeRefreshTokenFamily (rt_family_id t) now db, Inl invalid_grant)
              else (case narrowed_scope (fi_scope i) (rt_scope t) of
                  Inl e \<Rightarrow> (db, Inl e)
                | Inr newScope \<Rightarrow> (case rotateRefreshTokenAndIssueTokens (rotation_of sha sv now d targetResource newScope i) db of
                    (db1, Inl _) \<Rightarrow> (db1, Inl UnexpectedError)
                  | (db1, Inr (Inl e)) \<Rightarrow> (db1, Inl (grant_refused e))
                  | (db1, Inr (Inr _)) \<Rightarrow> (db1, Inr (token_answer_of sv d newScope))))))"

section \<open>Validation of access tokens\<close>

record grant_view =
  gv_user_id :: user_id
  gv_workspace_id :: ws_id
  gv_scope :: string
  gv_resource :: string

datatype validation_error = Invalid_token | Insufficient_scope | Token_target_mismatch

definition validateAccessToken ::
  "(string \<Rightarrow> digest) \<Rightarrow> oauth_service \<Rightarrow> int \<Rightarrow> identity_db \<Rightarrow> string \<Rightarrow> oauth_db \<Rightarrow> validation_error + grant_view" where
  "validateAccessToken sha sv now b token db = (case findAccessTokenByDigest db (sha token) of
      None \<Rightarrow> Inl Invalid_token
    | Some r \<Rightarrow>
       if at_revoked_at_ms r \<noteq> None then Inl Invalid_token
       else if at_expires_at_ms r \<le> now then Inl Invalid_token
       else if at_resource r \<noteq> canonicalResource sv then Inl Token_target_mismatch
       else if ''mcp'' \<notin> set (js_split_ws (at_scope r)) then Inl Insufficient_scope
       else if \<not> isUserActive b (at_user_id r) then Inl Invalid_token
       else if \<not> hasWorkspaceAccess b (at_workspace_id r) (at_user_id r) then Inl Invalid_token
       else Inr \<lparr>gv_user_id = at_user_id r, gv_workspace_id = at_workspace_id r, gv_scope = at_scope r, gv_resource = at_resource r\<rparr>)"

section \<open>Routes\<close>

record oauth_state =
  ot_service :: oauth_service
  ot_db :: oauth_db
  ot_identity :: identity_db
  ot_sessions :: session_manager

text \<open>
  \<^verbatim>\<open>POST /token\<close>. A form is a map from its fields; a field given twice (an array) is outside the model, as is
  the log. The status of a success is 200, of an unexpected error 500.
\<close>

datatype oauth_token_response = TokenGranted token_answer | TokenRefused string nat

definition refused :: "oauth_error \<Rightarrow> oauth_token_response" where
  "refused e = (case e of OAuthServerError c st \<Rightarrow> TokenRefused c st | UnexpectedError \<Rightarrow> TokenRefused ''server_error'' 500)"

definition token_response_of :: "oauth_error + token_answer \<Rightarrow> oauth_token_response" where
  "token_response_of r = (case r of Inl e \<Rightarrow> refused e | Inr a \<Rightarrow> TokenGranted a)"

definition oauth_token_route ::
  "(string \<Rightarrow> digest) \<Rightarrow> (string \<Rightarrow> string) \<Rightarrow> (string \<Rightarrow> url_parts option) \<Rightarrow> int \<Rightarrow> token_draw \<Rightarrow> (string \<rightharpoonup> string) \<Rightarrow>
   oauth_state \<Rightarrow> oauth_state \<times> oauth_token_response" where
  "oauth_token_route sha sha64 url now d form s =
     (if form ''grant_type'' = Some ''authorization_code''
      then (case exchangeAuthorizationCode sha sha64 url (ot_service s) now d
              \<lparr>gi_client_id = form ''client_id'', gi_redirect_uri = form ''redirect_uri'', gi_code = form ''code'',
               gi_code_verifier = form ''code_verifier'', gi_resource = form ''resource''\<rparr> (ot_db s) of
            (db, r) \<Rightarrow> (s\<lparr>ot_db := db\<rparr>, token_response_of r))
      else if form ''grant_type'' = Some ''refresh_token''
      then (case refreshTokens sha url (ot_service s) now d (ot_identity s)
              \<lparr>fi_client_id = form ''client_id'', fi_refresh_token = form ''refresh_token'', fi_scope = form ''scope'',
               fi_resource = form ''resource''\<rparr> (ot_db s) of
            (db, r) \<Rightarrow> (s\<lparr>ot_db := db\<rparr>, token_response_of r))
      else (s, TokenRefused ''unsupported_grant_type'' 400))"

text \<open>
  \<^verbatim>\<open>POST /authorize/decision\<close>. \<open>clock 0\<close> is read for the session, \<open>clock 1\<close> for the decision. A redirect carries
  the parameters it sets; when the redirect URI does not parse, the decision is kept and the answer is status 500.
\<close>

datatype consent_response = ConsentRedirect string "(string \<times> string) list" | ConsentRefused nat

definition state_param :: "string option \<Rightarrow> (string \<times> string) list" where
  "state_param st = (if given st then [(''state'', the st)] else [])"

definition redirect_response :: "(string \<Rightarrow> url_parts option) \<Rightarrow> string \<Rightarrow> (string \<times> string) list \<Rightarrow> consent_response" where
  "redirect_response url uri params = (if url uri = None then ConsentRefused 500 else ConsentRedirect uri params)"

definition decision_failure :: "oauth_error \<Rightarrow> consent_response" where
  "decision_failure e = (case e of OAuthServerError _ st \<Rightarrow> ConsentRefused st | UnexpectedError \<Rightarrow> ConsentRefused 500)"

definition denial_params :: "oauth_service \<Rightarrow> string option \<Rightarrow> (string \<times> string) list" where
  "denial_params sv st = [(''error'', ''access_denied''), (''error_description'', ''The user denied the authorization request''),
     (''iss'', sv_public_origin sv)] @ state_param st"

definition oauth_decision_route ::
  "(string \<Rightarrow> digest) \<Rightarrow> (string \<Rightarrow> url_parts option) \<Rightarrow> (nat \<Rightarrow> int) \<Rightarrow> code_draw \<Rightarrow> string option \<Rightarrow> string option \<Rightarrow> string option \<Rightarrow> string option \<Rightarrow>
   oauth_state \<Rightarrow> oauth_state \<times> consent_response" where
  "oauth_decision_route sha url clock d sessionToken requestId nonce decision s =
     (case getSessionFromToken (clock 0) sessionToken (ot_sessions s) of (m, session) \<Rightarrow>
       let s1 = s\<lparr>ot_sessions := m\<rparr> in
       (case session of
          None \<Rightarrow> (s1, ConsentRefused 401)
        | Some us \<Rightarrow>
           if \<not> given requestId \<or> \<not> given nonce \<or> \<not> given decision then (s1, ConsentRefused 400)
           else if decision = Some ''approve''
           then (case approveConsent sha (ot_service s) (clock 1) d (ot_identity s) (the requestId) (the nonce) (us_user_id us) (ot_db s) of
               (db, Inl e) \<Rightarrow> (s1\<lparr>ot_db := db\<rparr>, decision_failure e)
             | (db, Inr a) \<Rightarrow> (s1\<lparr>ot_db := db\<rparr>, redirect_response url (ca_redirect_uri a)
                 ([(''code'', ca_code a), (''iss'', sv_public_origin (ot_service s))] @ state_param (ca_state a))))
           else (case denyConsentRequest sha (clock 1) (the requestId) (the nonce) (ot_db s) of
               (db, Inl e) \<Rightarrow> (s1\<lparr>ot_db := db\<rparr>, decision_failure e)
             | (db, Inr (uri, st)) \<Rightarrow> (s1\<lparr>ot_db := db\<rparr>, redirect_response url uri (denial_params (ot_service s) st)))))"

end
