(* ===== verification/OAuth_Effects.thy ===== *)
theory OAuth_Effects
  imports OAuth_Service
begin

text \<open>
  What one operation does to the OAuth database, and what a history records of it. Every operation either leaves
  the database as it was or has one of the effects below; the invariants of \<open>OAuth_Protocol\<close> are proved over effects.
\<close>

section \<open>Histories\<close>

text \<open>
  \<open>O_approved i u w d s t x b\<close>: the session of user \<open>u\<close> was checked at \<open>s\<close>, and at \<open>t\<close> the request \<open>i\<close> was approved for the
  workspace \<open>w\<close> with a nonce of digest \<open>x\<close> and a code of digest \<open>d\<close>, while \<open>b\<close> was the identity store. \<open>O_exchanged d v f t\<close>:
  the code of digest \<open>d\<close> was exchanged with the verifier \<open>v\<close> for tokens of the family \<open>f\<close>. \<open>O_rotated d t\<close>: so was the
  refresh token of digest \<open>d\<close>.
\<close>

datatype oauth_event =
    O_login user_id int
  | O_requested oauth_request
  | O_page string digest
  | O_approved string user_id ws_id digest int int digest identity_db
  | O_denied string
  | O_exchanged digest string string int
  | O_rotated digest int

text \<open>One row replaced.\<close>

definition replace_row :: "'a \<Rightarrow> 'a \<Rightarrow> 'a list \<Rightarrow> 'a list" where
  "replace_row r r' xs = map (\<lambda>x. if x = r then r' else x) xs"

lemma set_replace_row [simp]: "r \<in> set xs \<Longrightarrow> set (replace_row r r' xs) = insert r' (set xs - {r})"
  by (auto simp: replace_row_def)

lemma map_replace_row [simp]: "k r' = k r \<Longrightarrow> map k (replace_row r r' xs) = map k xs"
  by (induction xs) (auto simp: replace_row_def)

lemma update_unique_row:
  assumes "distinct (map k xs)" "r \<in> set xs" "p r" "\<And>x. p x \<Longrightarrow> k x = k r"
  shows "update_rows p f xs = replace_row r (f r) xs" "row_changes p xs = 1"
proof -
  have only: "x \<in> set xs \<Longrightarrow> p x \<longleftrightarrow> x = r" for x
    using assms by (metis distinct_map inj_onD)
  show "update_rows p f xs = replace_row r (f r) xs" using only by (auto simp: update_rows_def replace_row_def)
  have "filter p xs = filter (\<lambda>x. x = r) xs" by (rule filter_cong) (auto simp: only)
  also have "length \<dots> = 1" using assms(1,2) by (induction xs) (auto simp: filter_empty_conv)
  finally show "row_changes p xs = 1" by (simp add: row_changes_def)
qed

lemma find_unique_row: "distinct (map k xs) \<Longrightarrow> r \<in> set xs \<Longrightarrow> find (\<lambda>x. k x = k r) xs = Some r"
  by (induction xs) (auto split: if_splits)

section \<open>Effects\<close>

definition unapproved :: "oauth_request \<Rightarrow> oauth_request" where
  "unapproved r = r\<lparr>oq_decision := None, oq_user_id := None, oq_workspace_id := None, oq_consent_nonce_digest := None\<rparr>"

text \<open>A code that was issued on a request, tokens that were issued on a code or on a refresh token.\<close>

definition code_on :: "oauth_request \<Rightarrow> oauth_code \<Rightarrow> bool" where
  "code_on r c \<longleftrightarrow> oc_client_id c = oq_client_id r \<and> oc_redirect_uri c = oq_redirect_uri r \<and> oc_resource c = oq_resource r
     \<and> oc_scope c = oq_scope r \<and> oc_code_challenge c = oq_code_challenge r \<and> oc_consumed_at_ms c = None"

definition access_on :: "string \<Rightarrow> user_id \<Rightarrow> ws_id \<Rightarrow> string \<Rightarrow> string \<Rightarrow> access_token \<Rightarrow> bool" where
  "access_on client u w resource scope a \<longleftrightarrow> at_client_id a = client \<and> at_user_id a = u \<and> at_workspace_id a = w \<and> at_resource a = resource
     \<and> set (js_words (at_scope a)) \<subseteq> set (js_words scope) \<and> at_revoked_at_ms a = None"

definition refresh_on :: "string \<Rightarrow> user_id \<Rightarrow> ws_id \<Rightarrow> string \<Rightarrow> string \<Rightarrow> string \<Rightarrow> refresh_token \<Rightarrow> bool" where
  "refresh_on fam client u w resource scope t \<longleftrightarrow> rt_family_id t = fam \<and> rt_client_id t = client \<and> rt_user_id t = u \<and> rt_workspace_id t = w
     \<and> rt_resource t = resource \<and> set (js_words (rt_scope t)) \<subseteq> set (js_words scope) \<and> rt_consumed_at_ms t = None \<and> rt_revoked_at_ms t = None"

definition new_access :: "access_token \<Rightarrow> oauth_db \<Rightarrow> bool" where
  "new_access a db \<longleftrightarrow> at_id a \<notin> at_id ` set (od_access db) \<and> at_token_digest a \<notin> at_token_digest ` set (od_access db)"

definition new_refresh :: "refresh_token \<Rightarrow> oauth_db \<Rightarrow> bool" where
  "new_refresh t db \<longleftrightarrow> rt_id t \<notin> rt_id ` set (od_refresh db) \<and> rt_token_digest t \<notin> rt_token_digest ` set (od_refresh db)"

definition unused_family :: "string \<Rightarrow> oauth_db \<Rightarrow> bool" where
  "unused_family fam db \<longleftrightarrow> fam \<notin> rt_family_id ` set (od_refresh db)"

inductive effect :: "(string \<Rightarrow> string) \<Rightarrow> oauth_service \<Rightarrow> int \<Rightarrow> oauth_db \<Rightarrow> oauth_event list \<Rightarrow> oauth_db \<Rightarrow> bool"
  for sha64 sv now db where
  e_none: "effect sha64 sv now db [] db"
| e_request: "oq_id r \<notin> oq_id ` set (od_requests db) \<Longrightarrow> unapproved r = r \<Longrightarrow> set (js_words (oq_scope r)) \<subseteq> set allowed_scopes \<Longrightarrow>
    oq_resource r = canonicalResource sv \<Longrightarrow>
    effect sha64 sv now db [O_requested r] (db\<lparr>od_requests := od_requests db @ [r]\<rparr>)"
| e_page: "r \<in> set (od_requests db) \<Longrightarrow> oq_decision r = None \<Longrightarrow>
    effect sha64 sv now db [O_page (oq_id r) x] (db\<lparr>od_requests := replace_row r (r\<lparr>oq_consent_nonce_digest := Some x\<rparr>) (od_requests db)\<rparr>)"
| e_approve: "r \<in> set (od_requests db) \<Longrightarrow> oq_decision r = None \<Longrightarrow> now < oq_expires_at_ms r \<Longrightarrow> oq_consent_nonce_digest r = Some x \<Longrightarrow>
    code_on r c \<Longrightarrow> oc_issued_at_ms c = now \<Longrightarrow> oc_expires_at_ms c = now + sv_auth_code_ttl_ms sv \<Longrightarrow>
    oc_id c \<notin> oc_id ` set (od_codes db) \<Longrightarrow> oc_code_digest c \<notin> oc_code_digest ` set (od_codes db) \<Longrightarrow>
    effect sha64 sv now db [O_approved (oq_id r) (oc_user_id c) (oc_workspace_id c) (oc_code_digest c) st now x b]
      (db\<lparr>od_requests := replace_row r (r\<lparr>oq_decision := Some OD_approved, oq_user_id := Some (oc_user_id c),
           oq_workspace_id := Some (oc_workspace_id c)\<rparr>) (od_requests db), od_codes := od_codes db @ [c]\<rparr>)"
| e_deny: "r \<in> set (od_requests db) \<Longrightarrow> oq_decision r = None \<Longrightarrow>
    effect sha64 sv now db [O_denied (oq_id r)] (db\<lparr>od_requests := replace_row r (r\<lparr>oq_decision := Some OD_denied\<rparr>) (od_requests db)\<rparr>)"
| e_exchange: "c \<in> set (od_codes db) \<Longrightarrow> oc_consumed_at_ms c = None \<Longrightarrow> now < oc_expires_at_ms c \<Longrightarrow> sha64 v = oc_code_challenge c \<Longrightarrow>
    access_on (oc_client_id c) (oc_user_id c) (oc_workspace_id c) (oc_resource c) (oc_scope c) a \<Longrightarrow>
    refresh_on fam (oc_client_id c) (oc_user_id c) (oc_workspace_id c) (oc_resource c) (oc_scope c) t \<Longrightarrow>
    new_access a db \<Longrightarrow> new_refresh t db \<Longrightarrow> unused_family fam db \<Longrightarrow>
    effect sha64 sv now db [O_exchanged (oc_code_digest c) v fam now]
      (db\<lparr>od_codes := replace_row c (c\<lparr>oc_consumed_at_ms := Some now\<rparr>) (od_codes db), od_access := od_access db @ [a],
          od_refresh := od_refresh db @ [t]\<rparr>)"
| e_rotate: "old \<in> set (od_refresh db) \<Longrightarrow> rt_consumed_at_ms old = None \<Longrightarrow> rt_revoked_at_ms old = None \<Longrightarrow> now < rt_expires_at_ms old \<Longrightarrow>
    access_on (rt_client_id old) (rt_user_id old) (rt_workspace_id old) (rt_resource old) (rt_scope old) a \<Longrightarrow>
    refresh_on (rt_family_id old) (rt_client_id old) (rt_user_id old) (rt_workspace_id old) (rt_resource old) (rt_scope old) t \<Longrightarrow>
    new_access a db \<Longrightarrow> new_refresh t db \<Longrightarrow>
    effect sha64 sv now db [O_rotated (rt_token_digest old) now]
      (db\<lparr>od_access := od_access db @ [a],
          od_refresh := replace_row old (old\<lparr>rt_consumed_at_ms := Some now\<rparr>) (od_refresh db) @ [t]\<rparr>)"
| e_revoke: "effect sha64 sv now db [] (revokeRefreshTokenFamily fam now db)"

section \<open>The tables\<close>

definition tables_ok :: "oauth_db \<Rightarrow> bool" where
  "tables_ok db \<longleftrightarrow> distinct (map oq_id (od_requests db)) \<and> distinct (map oc_id (od_codes db)) \<and> distinct (map oc_code_digest (od_codes db))
     \<and> distinct (map at_id (od_access db)) \<and> distinct (map at_token_digest (od_access db))
     \<and> distinct (map rt_id (od_refresh db)) \<and> distinct (map rt_token_digest (od_refresh db))"

lemma map_revoke [simp]: "(\<And>r. k (r\<lparr>rt_revoked_at_ms := Some now\<rparr>) = k r) \<Longrightarrow>
  map k (od_refresh (revokeRefreshTokenFamily fam now db)) = map k (od_refresh db)"
  by (simp add: revokeRefreshTokenFamily_def update_rows_def)

lemma revoke_tables [simp]:
  "od_requests (revokeRefreshTokenFamily fam now db) = od_requests db"
  "od_codes (revokeRefreshTokenFamily fam now db) = od_codes db"
  "od_access (revokeRefreshTokenFamily fam now db) = od_access db"
  by (simp_all add: revokeRefreshTokenFamily_def)

lemma effect_tables_ok: "effect sha64 sv now db evs db' \<Longrightarrow> tables_ok db \<Longrightarrow> tables_ok db'"
  by (induction rule: effect.induct) (simp_all add: tables_ok_def new_access_def new_refresh_def)

section \<open>Operations of the store and their effects\<close>

lemma undecided_requestD:
  "undecided_request db i now = Some r \<Longrightarrow> r \<in> set (od_requests db) \<and> oq_id r = i \<and> oq_decision r = None \<and> now < oq_expires_at_ms r"
  by (auto simp: undecided_request_def dest: find_SomeD)

lemma request_update:
  assumes "tables_ok db" "r \<in> set (od_requests db)" "p r" "\<And>x. p x \<Longrightarrow> oq_id x = oq_id r"
  shows "update_rows p f (od_requests db) = replace_row r (f r) (od_requests db)" "row_changes p (od_requests db) = 1"
  using update_unique_row [where k = oq_id and p = p, OF _ assms(2,3)] assms(1,4) by (simp_all add: tables_ok_def)

lemma no_row_changes: "row_changes p xs \<noteq> 1 \<Longrightarrow> distinct (map k xs) \<Longrightarrow> (\<And>x y. p x \<Longrightarrow> p y \<Longrightarrow> k x = k y) \<Longrightarrow> update_rows p f xs = xs"
proof -
  assume h: "row_changes p xs \<noteq> 1" "distinct (map k xs)" "\<And>x y. p x \<Longrightarrow> p y \<Longrightarrow> k x = k y"
  have "\<not> p x" if "x \<in> set xs" for x
    using update_unique_row(2) [where k = k and p = p, OF h(2) that] h(1,3) by blast
  then show ?thesis by (simp add: update_rows_def map_idI)
qed

lemma create_effect:
  assumes "createAuthorizationRequest q db = (db', res)"
  shows "res = Inl OAuthStoreUnavailable \<and> db' = db
    \<or> res = Inr () \<and> ri_id q \<notin> oq_id ` set (od_requests db) \<and> db' = db\<lparr>od_requests := od_requests db @ [pending_request q]\<rparr>"
  using assms by (auto simp: createAuthorizationRequest_def insert_request_def pending_request_def split: if_splits)

lemma page_effect:
  assumes "tables_ok db" "setConsentNonceDigest i x now db = (db', updated)"
  shows "\<not> updated \<and> db' = db \<or> updated \<and> effect sha64 sv now db [O_page i x] db'"
proof -
  let ?p = "\<lambda>r. oq_id r = i \<and> oq_decision r = None \<and> oq_expires_at_ms r > now"
  let ?f = "\<lambda>r. r\<lparr>oq_consent_nonce_digest := Some x\<rparr>"
  have d: "distinct (map oq_id (od_requests db))" using assms(1) by (simp add: tables_ok_def)
  have db': "db' = db\<lparr>od_requests := update_rows ?p ?f (od_requests db)\<rparr>" "updated \<longleftrightarrow> row_changes ?p (od_requests db) = 1"
    using assms(2) by (auto simp: setConsentNonceDigest_def Let_def)
  show ?thesis
  proof (cases "\<exists>r \<in> set (od_requests db). ?p r")
    case True
    then obtain r where r: "r \<in> set (od_requests db)" "?p r" by blast
    have u': "update_rows ?p ?f (od_requests db) = replace_row r (?f r) (od_requests db)" "row_changes ?p (od_requests db) = 1"
      by (rule request_update [OF assms(1), of r]; use r in auto)+
    have "effect sha64 sv now db [O_page (oq_id r) x] (db\<lparr>od_requests := replace_row r (?f r) (od_requests db)\<rparr>)"
      by (rule e_page) (use r in auto)
    then show ?thesis using u' db' r(2) by simp
  next
    case False
    then have "update_rows ?p ?f (od_requests db) = od_requests db" by (auto simp: update_rows_def intro!: map_idI)
    moreover have "row_changes ?p (od_requests db) = 0" using False by (auto simp: row_changes_def filter_empty_conv)
    ultimately show ?thesis using db' by simp
  qed
qed

lemma approve_effect:
  assumes "tables_ok db" "approveConsentAndIssueCode i db = (db', res)"
    and "ai_now_ms i = now" "ai_code_expires_at_ms i = now + sv_auth_code_ttl_ms sv"
  shows "(\<forall>c. res \<noteq> Inr (Some c)) \<and> db' = db
    \<or> (\<exists>c. res = Inr (Some c) \<and> effect sha64 sv now db
         [O_approved (ai_request_id i) (ai_user_id i) (ai_workspace_id i) (ai_code_digest i) st now (ai_nonce_digest i) b] db')"
proof (cases "\<exists>c. res = Inr (Some c)")
  case True
  then obtain c where c: "res = Inr (Some c)" by blast
  let ?p = "\<lambda>r. oq_id r = ai_request_id i \<and> oq_decision r = None"
  let ?f = "\<lambda>r. r\<lparr>oq_decision := Some OD_approved, oq_user_id := Some (ai_user_id i), oq_workspace_id := Some (ai_workspace_id i)\<rparr>"
  obtain r where r: "undecided_request db (ai_request_id i) (ai_now_ms i) = Some r" "oq_consent_nonce_digest r = Some (ai_nonce_digest i)"
    "c = issued_code i r" "insert_code c (db\<lparr>od_requests := update_rows ?p ?f (od_requests db)\<rparr>) = Some db'"
    using assms(2) c by (auto simp: approveConsentAndIssueCode_def Let_def split: option.splits if_splits)
  note rd = undecided_requestD [OF r(1)]
  have u: "update_rows ?p ?f (od_requests db) = replace_row r (?f r) (od_requests db)"
    by (rule request_update [OF assms(1)]) (use rd in auto)
  have ins: "oc_id c \<notin> oc_id ` set (od_codes db)" "oc_code_digest c \<notin> oc_code_digest ` set (od_codes db)"
    "db' = db\<lparr>od_requests := replace_row r (?f r) (od_requests db), od_codes := od_codes db @ [c]\<rparr>"
    using r(4) u by (auto simp: insert_code_def split: if_splits)
  have cs: "oc_user_id c = ai_user_id i" "oc_workspace_id c = ai_workspace_id i" "oc_code_digest c = ai_code_digest i" "oq_id r = ai_request_id i"
    using r(3) rd by (simp_all add: issued_code_def)
  have "effect sha64 sv now db [O_approved (oq_id r) (oc_user_id c) (oc_workspace_id c) (oc_code_digest c) st now (ai_nonce_digest i) b]
    (db\<lparr>od_requests := replace_row r (r\<lparr>oq_decision := Some OD_approved, oq_user_id := Some (oc_user_id c), oq_workspace_id := Some (oc_workspace_id c)\<rparr>) (od_requests db),
      od_codes := od_codes db @ [c]\<rparr>)"
    by (rule e_approve) (use rd r(2,3) ins(1,2) assms(3,4) in \<open>auto simp: issued_code_def code_on_def\<close>)
  then show ?thesis using c ins(3) unfolding cs by simp
next
  case False
  then have "db' = db" using assms(2) by (auto simp: approveConsentAndIssueCode_def Let_def split: option.splits if_splits)
  then show ?thesis using False by blast
qed

lemma deny_effect:
  assumes "tables_ok db" "denyConsent i x now db = (db', denied)"
  shows "\<not> denied \<and> db' = db \<or> denied \<and> effect sha64 sv now db [O_denied i] db'"
proof (cases "undecided_request db i now")
  case None
  then show ?thesis using assms(2) by (simp add: denyConsent_def)
next
  case (Some r)
  note rd = undecided_requestD [OF Some]
  let ?p = "\<lambda>r. oq_id r = i \<and> oq_decision r = None"
  have u: "update_rows ?p f (od_requests db) = replace_row r (f r) (od_requests db)" "row_changes ?p (od_requests db) = 1" for f
    by (rule request_update [OF assms(1), of r]; use rd in auto)+
  have "effect sha64 sv now db [O_denied (oq_id r)] (db\<lparr>od_requests := replace_row r (r\<lparr>oq_decision := Some OD_denied\<rparr>) (od_requests db)\<rparr>)"
    by (rule e_deny) (use rd in auto)
  then show ?thesis using assms(2) Some rd u by (auto simp: denyConsent_def Let_def split: if_splits)
qed

lemma insert_tokensD:
  "insert_tokens a t db = Some db' \<Longrightarrow>
   new_access a db \<and> new_refresh t db \<and> db' = db\<lparr>od_access := od_access db @ [a], od_refresh := od_refresh db @ [t]\<rparr>"
  by (auto simp: insert_tokens_def insert_access_def insert_refresh_def new_access_def new_refresh_def split: option.splits if_splits)

lemma exchange_effect:
  assumes "tables_ok db" "consumeCodeAndIssueTokens sha64 i db = (db', res)" "ci_now_ms i = now"
    and fresh: "unused_family (ci_refresh_token_family_id i) db"
  shows "(\<forall>x. res \<noteq> Inr (Inr x)) \<and> db' = db
    \<or> (\<exists>c a t. res = Inr (Inr (c, a, t)) \<and> c \<in> set (od_codes db) \<and> oc_client_id c = ci_client_id i \<and> oc_redirect_uri c = ci_redirect_uri i
       \<and> effect sha64 sv now db [O_exchanged (ci_code_digest i) (ci_code_verifier i) (ci_refresh_token_family_id i) now] db')"
proof (cases "\<exists>x. res = Inr (Inr x)")
  case True
  let ?f = "\<lambda>r. r\<lparr>oc_consumed_at_ms := Some (ci_now_ms i)\<rparr>"
  obtain c where c: "find_code db (ci_code_digest i) = Some c" "code_refusal sha64 i c = None"
    "res = Inr (Inr (c, code_access_token i c, code_refresh_token i c))"
    "insert_tokens (code_access_token i c) (code_refresh_token i c)
       (db\<lparr>od_codes := update_rows (\<lambda>r. oc_id r = oc_id c \<and> oc_consumed_at_ms r = None) ?f (od_codes db)\<rparr>) = Some db'"
    using assms(2) True by (auto simp: consumeCodeAndIssueTokens_def Let_def split: option.splits if_splits)
  have m: "c \<in> set (od_codes db)" "oc_code_digest c = ci_code_digest i" using find_SomeD [OF c(1) [unfolded find_code_def]] by auto
  have k: "oc_consumed_at_ms c = None" "now < oc_expires_at_ms c" "oc_client_id c = ci_client_id i" "oc_redirect_uri c = ci_redirect_uri i"
    "sha64 (ci_code_verifier i) = oc_code_challenge c"
    using c(2) assms(3) by (auto simp: code_refusal_def split: if_splits)
  have u: "update_rows (\<lambda>r. oc_id r = oc_id c \<and> oc_consumed_at_ms r = None) ?f (od_codes db) = replace_row c (?f c) (od_codes db)"
    by (rule update_unique_row [where k = oc_id]) (use assms(1) m k in \<open>auto simp: tables_ok_def\<close>)
  note ins = insert_tokensD [OF c(4) [unfolded u]]
  have "effect sha64 sv now db [O_exchanged (oc_code_digest c) (ci_code_verifier i) (ci_refresh_token_family_id i) now]
    (db\<lparr>od_codes := replace_row c (c\<lparr>oc_consumed_at_ms := Some now\<rparr>) (od_codes db), od_access := od_access db @ [code_access_token i c],
        od_refresh := od_refresh db @ [code_refresh_token i c]\<rparr>)"
    by (rule e_exchange [OF m(1) k(1,2) _ _ _ _ _ fresh])
      (use ins k(5) in \<open>simp_all add: code_access_token_def code_refresh_token_def access_on_def refresh_on_def new_access_def new_refresh_def\<close>)
  moreover have "db' = db\<lparr>od_codes := replace_row c (c\<lparr>oc_consumed_at_ms := Some now\<rparr>) (od_codes db), od_access := od_access db @ [code_access_token i c],
        od_refresh := od_refresh db @ [code_refresh_token i c]\<rparr>"
    using ins assms(3) by simp
  ultimately show ?thesis using c(3) m k by simp
next
  case False
  then have "db' = db" using assms(2) by (auto simp: consumeCodeAndIssueTokens_def Let_def split: option.splits if_splits)
  then show ?thesis using False by blast
qed

lemma rotate_effect:
  assumes "tables_ok db" "rotateRefreshTokenAndIssueTokens i db = (db', res)" "xi_now_ms i = now"
    and scope: "\<And>t. findRefreshTokenByDigest db (xi_old_token_digest i) = Some t \<Longrightarrow> set (js_words (xi_new_scope i)) \<subseteq> set (js_words (rt_scope t))"
  shows "(\<forall>x. res \<noteq> Inr (Inr x)) \<and> db' = db
    \<or> (\<exists>x. res = Inr (Inr x) \<and> effect sha64 sv now db [O_rotated (xi_old_token_digest i) now] db')"
proof (cases "\<exists>x. res = Inr (Inr x)")
  case True
  let ?f = "\<lambda>r. r\<lparr>rt_consumed_at_ms := Some (xi_now_ms i)\<rparr>"
  obtain t where t: "findRefreshTokenByDigest db (xi_old_token_digest i) = Some t" "rotation_refusal i t = None"
    "insert_tokens (rotated_access_token i t) (rotated_refresh_token i t)
       (db\<lparr>od_refresh := update_rows (\<lambda>r. rt_id r = rt_id t \<and> rt_consumed_at_ms r = None) ?f (od_refresh db)\<rparr>) = Some db'"
    using assms(2) True by (auto simp: rotateRefreshTokenAndIssueTokens_def Let_def split: option.splits if_splits)
  have m: "t \<in> set (od_refresh db)" "rt_token_digest t = xi_old_token_digest i"
    using find_SomeD [OF t(1) [unfolded findRefreshTokenByDigest_def]] by auto
  have k: "rt_consumed_at_ms t = None" "rt_revoked_at_ms t = None" "now < rt_expires_at_ms t"
    using t(2) assms(3) by (auto simp: rotation_refusal_def split: if_splits)
  have u: "update_rows (\<lambda>r. rt_id r = rt_id t \<and> rt_consumed_at_ms r = None) ?f (od_refresh db) = replace_row t (?f t) (od_refresh db)"
    by (rule update_unique_row [where k = rt_id]) (use assms(1) m k in \<open>auto simp: tables_ok_def\<close>)
  note ins = insert_tokensD [OF t(3) [unfolded u]]
  have new: "new_refresh (rotated_refresh_token i t) db"
  proof -
    have "rt_id ` insert (?f t) (set (od_refresh db) - {t}) = rt_id ` set (od_refresh db)"
      "rt_token_digest ` insert (?f t) (set (od_refresh db) - {t}) = rt_token_digest ` set (od_refresh db)"
      using m(1) by force+
    then show ?thesis using ins m(1) by (simp add: new_refresh_def)
  qed
  have "effect sha64 sv now db [O_rotated (rt_token_digest t) now]
    (db\<lparr>od_access := od_access db @ [rotated_access_token i t],
        od_refresh := replace_row t (t\<lparr>rt_consumed_at_ms := Some now\<rparr>) (od_refresh db) @ [rotated_refresh_token i t]\<rparr>)"
    by (rule e_rotate [OF m(1) k _ _ _ new])
      (use ins scope [OF t(1)] in \<open>simp_all add: rotated_access_token_def rotated_refresh_token_def access_on_def refresh_on_def new_access_def\<close>)
  moreover have "db' = db\<lparr>od_access := od_access db @ [rotated_access_token i t],
        od_refresh := replace_row t (t\<lparr>rt_consumed_at_ms := Some now\<rparr>) (od_refresh db) @ [rotated_refresh_token i t]\<rparr>"
    using ins assms(3) by simp
  ultimately show ?thesis using True m by simp
next
  case False
  then have "db' = db" using assms(2) by (auto simp: rotateRefreshTokenAndIssueTokens_def Let_def split: option.splits if_splits)
  then show ?thesis using False by blast
qed

end
