(* ===== verification/OAuth_Protocol.thy ===== *)
theory OAuth_Protocol
  imports OAuth_Effects Enrollment_Protocol
begin

text \<open>
  OAuth as a protocol: clients, browsers and attackers interleave calls of the service in any order, while users log
  in and out and the identity store changes at will. A history records what was granted; the invariant ties every row
  of the database to it.
\<close>

section \<open>Steps\<close>

type_synonym oauth_flow = "int \<times> oauth_event list \<times> oauth_state"

definition requested_event :: "oauth_error + oauth_request \<times> client_metadata \<Rightarrow> oauth_event list" where
  "requested_event r = (case r of Inl _ \<Rightarrow> [] | Inr (q, _) \<Rightarrow> [O_requested q])"

definition nonce_event :: "(string \<Rightarrow> digest) \<Rightarrow> string \<Rightarrow> oauth_error + string \<Rightarrow> oauth_event list" where
  "nonce_event sha i r = (case r of Inl _ \<Rightarrow> [] | Inr nonce \<Rightarrow> [O_page i (sha nonce)])"

text \<open>What a decision of a user with a session did.\<close>

definition consent_event ::
  "(string \<Rightarrow> digest) \<Rightarrow> (nat \<Rightarrow> int) \<Rightarrow> code_draw \<Rightarrow> string option \<Rightarrow> string option \<Rightarrow> string option \<Rightarrow> string option \<Rightarrow> oauth_state \<Rightarrow> oauth_event list" where
  "consent_event sha clock d token requestId nonce decision s =
     (case snd (getSessionFromToken (clock 0) token (ot_sessions s)) of
        None \<Rightarrow> []
      | Some us \<Rightarrow>
         if \<not> given requestId \<or> \<not> given nonce \<or> \<not> given decision then []
         else if decision = Some ''approve''
         then (case (consent_workspace (ot_identity s) (us_user_id us),
                     snd (approveConsent sha (ot_service s) (clock 1) d (ot_identity s) (the requestId) (the nonce) (us_user_id us) (ot_db s))) of
             (Inr w, Inr _) \<Rightarrow> [O_approved (the requestId) (us_user_id us) w (sha (raw_code d)) (clock 0) (clock 1) (sha (the nonce)) (ot_identity s)]
           | _ \<Rightarrow> [])
         else (case snd (denyConsentRequest sha (clock 1) (the requestId) (the nonce) (ot_db s)) of
             Inr _ \<Rightarrow> [O_denied (the requestId)] | Inl _ \<Rightarrow> []))"

definition grant_event :: "(string \<Rightarrow> digest) \<Rightarrow> int \<Rightarrow> token_draw \<Rightarrow> (string \<rightharpoonup> string) \<Rightarrow> oauth_token_response \<Rightarrow> oauth_event list" where
  "grant_event sha now d form r = (case r of
      TokenRefused _ _ \<Rightarrow> []
    | TokenGranted _ \<Rightarrow>
       if form ''grant_type'' = Some ''authorization_code''
       then [O_exchanged (sha (the (form ''code''))) (the (form ''code_verifier'')) (family_of d) now]
       else [O_rotated (sha (the (form ''refresh_token''))) now])"

text \<open>The only thing assumed of the random source: the identifier of a new family was not drawn before.\<close>

inductive oauth_step ::
  "(string \<Rightarrow> digest) \<Rightarrow> (string \<Rightarrow> string) \<Rightarrow> (string \<Rightarrow> url_parts option) \<Rightarrow> oauth_flow \<Rightarrow> oauth_flow \<Rightarrow> bool"
  for sha sha64 url where
  o_tick: "now \<le> now' \<Longrightarrow> oauth_step sha sha64 url (now, h, s) (now', h, s)"
| o_login: "reads now clock \<Longrightarrow> createSession sid clock u p sub l (ot_sessions s) = (m, x) \<Longrightarrow>
    oauth_step sha sha64 url (now, h, s) (clock 3, O_login u (clock 0) # h, s\<lparr>ot_sessions := m\<rparr>)"
| o_logout: "oauth_step sha sha64 url (now, h, s) (now, h, s\<lparr>ot_sessions := destroySession t (ot_sessions s)\<rparr>)"
| o_authorize: "initiateAuthorizationRequest url resolve (ot_service s) now uuid i (ot_db s) = (db, r) \<Longrightarrow>
    oauth_step sha sha64 url (now, h, s) (now, requested_event r @ h, s\<lparr>ot_db := db\<rparr>)"
| o_page: "createConsentNonce sha now nonce i (ot_db s) = (db, r) \<Longrightarrow>
    oauth_step sha sha64 url (now, h, s) (now, nonce_event sha i r @ h, s\<lparr>ot_db := db\<rparr>)"
| o_decide: "reads now clock \<Longrightarrow> oauth_decision_route sha url clock d token i nonce decision s = (s', r) \<Longrightarrow>
    oauth_step sha sha64 url (now, h, s) (clock 1, consent_event sha clock d token i nonce decision s @ h, s')"
| o_token: "oauth_token_route sha sha64 url now d form s = (s', r) \<Longrightarrow> unused_family (family_of d) (ot_db s) \<Longrightarrow>
    oauth_step sha sha64 url (now, h, s) (now, grant_event sha now d form r @ h, s')"
| o_identity: "oauth_step sha sha64 url (now, h, s) (now, h, s\<lparr>ot_identity := b\<rparr>)"
| o_restart: "oauth_step sha sha64 url (now, h, s) (now, h, s\<lparr>ot_sessions := (ot_sessions s)\<lparr>sm_sessions := []\<rparr>\<rparr>)"

inductive_cases oauth_stepE: "oauth_step sha sha64 url (now, h, s) s'"

definition oauth_start :: "oauth_service \<Rightarrow> int \<Rightarrow> identity_db \<Rightarrow> oauth_state" where
  "oauth_start sv ttl b = \<lparr>ot_service = sv, ot_db = empty_oauth_db, ot_identity = b, ot_sessions = \<lparr>sm_ttl_ms = ttl, sm_sessions = []\<rparr>\<rparr>"

section \<open>What the rows say\<close>

definition code_chain :: "oauth_service \<Rightarrow> oauth_event list \<Rightarrow> oauth_code \<Rightarrow> bool" where
  "code_chain sv h c \<longleftrightarrow> (\<exists>r s x b. O_requested r \<in> set h \<and> O_page (oq_id r) x \<in> set h
     \<and> O_approved (oq_id r) (oc_user_id c) (oc_workspace_id c) (oc_code_digest c) s (oc_issued_at_ms c) x b \<in> set h
     \<and> code_on r (c\<lparr>oc_consumed_at_ms := None\<rparr>)
     \<and> oc_issued_at_ms c < oq_expires_at_ms r \<and> oc_expires_at_ms c = oc_issued_at_ms c + sv_auth_code_ttl_ms sv)"

text \<open>A grant of a scope over a resource to a client, for a user and a workspace, by tokens of a family.\<close>

definition grant_chain ::
  "(string \<Rightarrow> string) \<Rightarrow> oauth_service \<Rightarrow> oauth_event list \<Rightarrow> string \<Rightarrow> user_id \<Rightarrow> ws_id \<Rightarrow> string \<Rightarrow> string \<Rightarrow> string \<Rightarrow> bool" where
  "grant_chain sha64 sv h client u w resource scope fam \<longleftrightarrow> (\<exists>r d s t x b v t'. O_requested r \<in> set h \<and> O_page (oq_id r) x \<in> set h
     \<and> O_approved (oq_id r) u w d s t x b \<in> set h \<and> O_exchanged d v fam t' \<in> set h
     \<and> client = oq_client_id r \<and> resource = oq_resource r \<and> set (js_words scope) \<subseteq> set (js_words (oq_scope r))
     \<and> sha64 v = oq_code_challenge r \<and> t < oq_expires_at_ms r \<and> t' < t + sv_auth_code_ttl_ms sv)"

definition request_backed :: "oauth_event list \<Rightarrow> oauth_request \<Rightarrow> bool" where
  "request_backed h r \<longleftrightarrow> O_requested (unapproved r) \<in> set h \<and> (\<forall>x. oq_consent_nonce_digest r = Some x \<longrightarrow> O_page (oq_id r) x \<in> set h)"

definition access_backed :: "(string \<Rightarrow> string) \<Rightarrow> oauth_service \<Rightarrow> oauth_event list \<Rightarrow> access_token \<Rightarrow> bool" where
  "access_backed sha64 sv h a \<longleftrightarrow> at_revoked_at_ms a = None
     \<and> (\<exists>fam. grant_chain sha64 sv h (at_client_id a) (at_user_id a) (at_workspace_id a) (at_resource a) (at_scope a) fam)"

definition refresh_backed :: "(string \<Rightarrow> string) \<Rightarrow> oauth_service \<Rightarrow> oauth_event list \<Rightarrow> refresh_token \<Rightarrow> bool" where
  "refresh_backed sha64 sv h t \<longleftrightarrow>
     grant_chain sha64 sv h (rt_client_id t) (rt_user_id t) (rt_workspace_id t) (rt_resource t) (rt_scope t) (rt_family_id t)"

definition rows_backed :: "(string \<Rightarrow> string) \<Rightarrow> oauth_service \<Rightarrow> oauth_event list \<Rightarrow> oauth_db \<Rightarrow> bool" where
  "rows_backed sha64 sv h db \<longleftrightarrow> (\<forall>r \<in> set (od_requests db). request_backed h r) \<and> (\<forall>c \<in> set (od_codes db). code_chain sv h c)
     \<and> (\<forall>a \<in> set (od_access db). access_backed sha64 sv h a) \<and> (\<forall>t \<in> set (od_refresh db). refresh_backed sha64 sv h t)"

text \<open>How often a request was decided, a code exchanged and a refresh token rotated.\<close>

definition decides :: "string \<Rightarrow> oauth_event \<Rightarrow> bool" where
  "decides i e = (case e of O_approved j _ _ _ _ _ _ _ \<Rightarrow> j = i | O_denied j \<Rightarrow> j = i | _ \<Rightarrow> False)"
definition exchanges :: "digest \<Rightarrow> oauth_event \<Rightarrow> bool" where
  "exchanges d e = (case e of O_exchanged d' _ _ _ \<Rightarrow> d' = d | _ \<Rightarrow> False)"
definition rotates :: "digest \<Rightarrow> oauth_event \<Rightarrow> bool" where
  "rotates d e = (case e of O_rotated d' _ \<Rightarrow> d' = d | _ \<Rightarrow> False)"
definition uses_of :: "('a \<Rightarrow> bool) \<Rightarrow> 'a list \<Rightarrow> nat" where
  "uses_of p xs = length (filter p xs)"

definition uses_counted :: "oauth_event list \<Rightarrow> oauth_db \<Rightarrow> bool" where
  "uses_counted h db \<longleftrightarrow>
     (\<forall>i. uses_of (decides i) h = uses_of (\<lambda>r. oq_id r = i \<and> oq_decision r \<noteq> None) (od_requests db))
     \<and> (\<forall>d. uses_of (exchanges d) h = uses_of (\<lambda>c. oc_code_digest c = d \<and> oc_consumed_at_ms c \<noteq> None) (od_codes db))
     \<and> (\<forall>d. uses_of (rotates d) h = uses_of (\<lambda>t. rt_token_digest t = d \<and> rt_consumed_at_ms t \<noteq> None) (od_refresh db))"

definition live :: "refresh_token \<Rightarrow> bool" where
  "live t \<longleftrightarrow> rt_consumed_at_ms t = None \<and> rt_revoked_at_ms t = None"

definition one_live_each :: "oauth_db \<Rightarrow> bool" where
  "one_live_each db \<longleftrightarrow> (\<forall>t \<in> set (od_refresh db). \<forall>t' \<in> set (od_refresh db). live t \<longrightarrow> live t' \<longrightarrow> rt_family_id t = rt_family_id t' \<longrightarrow> t = t')"

definition requests_allowed :: "oauth_service \<Rightarrow> oauth_event list \<Rightarrow> bool" where
  "requests_allowed sv h \<longleftrightarrow> (\<forall>r. O_requested r \<in> set h \<longrightarrow> set (js_words (oq_scope r)) \<subseteq> set allowed_scopes \<and> oq_resource r = canonicalResource sv)"

section \<open>Effects preserve it\<close>

lemma fresh_key: "v \<notin> k ` S \<Longrightarrow> y \<in> S \<Longrightarrow> k y \<noteq> v"
  by auto

lemma chains_grow:
  "set h \<subseteq> set h' \<Longrightarrow> code_chain sv h c \<Longrightarrow> code_chain sv h' c"
  "set h \<subseteq> set h' \<Longrightarrow> grant_chain sha64 sv h client u w resource scope fam \<Longrightarrow> grant_chain sha64 sv h' client u w resource scope fam"
  unfolding code_chain_def grant_chain_def by blast+

lemma rows_grow:
  assumes "set h \<subseteq> set h'" "rows_backed sha64 sv h db"
  shows "rows_backed sha64 sv h' db"
proof -
  note grow = chains_grow [OF assms(1)]
  have "request_backed h r \<Longrightarrow> request_backed h' r" for r using assms(1) unfolding request_backed_def by blast
  moreover have "access_backed sha64 sv h a \<Longrightarrow> access_backed sha64 sv h' a" for a using grow(2) unfolding access_backed_def by blast
  moreover have "refresh_backed sha64 sv h t \<Longrightarrow> refresh_backed sha64 sv h' t" for t using grow(2) unfolding refresh_backed_def by blast
  ultimately show ?thesis using assms(2) grow(1) unfolding rows_backed_def by blast
qed

lemma grant_narrows:
  "grant_chain sha64 sv h client u w resource scope fam \<Longrightarrow> set (js_words scope') \<subseteq> set (js_words scope) \<Longrightarrow>
   grant_chain sha64 sv h client u w resource scope' fam"
  unfolding grant_chain_def by blast

lemma code_grants:
  assumes "code_chain sv h c" "sha64 v = oc_code_challenge c" "now < oc_expires_at_ms c"
  shows "grant_chain sha64 sv (O_exchanged (oc_code_digest c) v fam now # h) (oc_client_id c) (oc_user_id c) (oc_workspace_id c) (oc_resource c) (oc_scope c) fam"
proof -
  obtain r s x b where r: "O_requested r \<in> set h" "O_page (oq_id r) x \<in> set h"
    "O_approved (oq_id r) (oc_user_id c) (oc_workspace_id c) (oc_code_digest c) s (oc_issued_at_ms c) x b \<in> set h"
    "code_on r (c\<lparr>oc_consumed_at_ms := None\<rparr>)" "oc_issued_at_ms c < oq_expires_at_ms r" "oc_expires_at_ms c = oc_issued_at_ms c + sv_auth_code_ttl_ms sv"
    using assms(1) unfolding code_chain_def by blast
  show ?thesis unfolding grant_chain_def
    by (rule exI [of _ r], rule exI [of _ "oc_code_digest c"], rule exI [of _ s], rule exI [of _ "oc_issued_at_ms c"], rule exI [of _ x],
        rule exI [of _ b], rule exI [of _ v], rule exI [of _ now]) (use r assms(2,3) in \<open>simp add: code_on_def\<close>)
qed

lemma code_chain_consumed [simp]: "code_chain sv h (c\<lparr>oc_consumed_at_ms := x\<rparr>) \<longleftrightarrow> code_chain sv h c"
  by (simp add: code_chain_def)

lemma revoked_rows:
  assumes "t \<in> set (od_refresh (revokeRefreshTokenFamily fam now db))"
  obtains t0 where "t0 \<in> set (od_refresh db)" "t = t0 \<or> t = t0\<lparr>rt_revoked_at_ms := Some now\<rparr>" "rt_family_id t = fam \<longrightarrow> rt_revoked_at_ms t \<noteq> None"
  using assms by (auto simp: revokeRefreshTokenFamily_def update_rows_def split: if_splits)

lemma backed_changes [simp]:
  "unapproved (r\<lparr>oq_consent_nonce_digest := x\<rparr>) = unapproved r" "unapproved (r\<lparr>oq_decision := y\<rparr>) = unapproved r"
  "unapproved (r\<lparr>oq_decision := y, oq_user_id := u, oq_workspace_id := w\<rparr>) = unapproved r"
  "refresh_backed sha64 sv h (t\<lparr>rt_consumed_at_ms := z\<rparr>) = refresh_backed sha64 sv h t"
  "refresh_backed sha64 sv h (t\<lparr>rt_revoked_at_ms := z\<rparr>) = refresh_backed sha64 sv h t"
  by (simp_all add: unapproved_def refresh_backed_def)

lemma issued_backed:
  assumes "grant_chain sha64 sv h client u w resource scope fam"
  shows "access_on client u w resource scope a \<Longrightarrow> access_backed sha64 sv h a"
    and "refresh_on fam client u w resource scope t \<Longrightarrow> refresh_backed sha64 sv h t"
  using grant_narrows [OF assms] by (auto simp: access_on_def refresh_on_def access_backed_def refresh_backed_def)

lemma effect_rows_backed:
  assumes "effect sha64 sv now db evs db'" "rows_backed sha64 sv h db"
  shows "rows_backed sha64 sv (evs @ h) db'"
proof -
  have old: "rows_backed sha64 sv (evs @ h) db" by (rule rows_grow [OF _ assms(2)]) simp
  note rows = old [unfolded rows_backed_def]
  from assms(1) show ?thesis
  proof (cases rule: effect.cases)
    case (e_request r)
    then have "oq_consent_nonce_digest r = None" by (auto simp: unapproved_def dest: arg_cong [where f = oq_consent_nonce_digest])
    then have "request_backed (evs @ h) r" using e_request by (simp add: request_backed_def)
    then show ?thesis using rows e_request by (simp add: rows_backed_def)
  next
    case (e_page r x)
    then have "request_backed (evs @ h) (r\<lparr>oq_consent_nonce_digest := Some x\<rparr>)" using rows by (simp add: request_backed_def)
    then show ?thesis using rows e_page by (simp add: rows_backed_def)
  next
    case (e_approve r x c st b)
    have r: "O_requested (unapproved r) \<in> set (evs @ h)" "O_page (oq_id r) x \<in> set (evs @ h)"
      using rows e_approve(3,6) by (auto simp: request_backed_def)
    then have "code_chain sv (evs @ h) c" unfolding code_chain_def
      by (intro exI [of _ "unapproved r"] exI [of _ st] exI [of _ x] exI [of _ b]) (use e_approve in \<open>simp add: unapproved_def code_on_def\<close>)
    moreover have "request_backed (evs @ h) (r\<lparr>oq_decision := Some OD_approved, oq_user_id := Some (oc_user_id c), oq_workspace_id := Some (oc_workspace_id c)\<rparr>)"
      using r e_approve(6) by (simp add: request_backed_def)
    ultimately show ?thesis using rows e_approve(2,3) by (simp add: rows_backed_def)
  next
    case (e_deny r)
    then have "request_backed (evs @ h) (r\<lparr>oq_decision := Some OD_denied\<rparr>)" using rows by (simp add: request_backed_def)
    then show ?thesis using rows e_deny by (simp add: rows_backed_def)
  next
    case (e_exchange c v a fam t)
    have "code_chain sv h c" using assms(2) e_exchange(3) by (simp add: rows_backed_def)
    then have g: "grant_chain sha64 sv (evs @ h) (oc_client_id c) (oc_user_id c) (oc_workspace_id c) (oc_resource c) (oc_scope c) fam"
      using code_grants e_exchange by simp
    show ?thesis using rows issued_backed [OF g] e_exchange by (simp add: rows_backed_def)
  next
    case (e_rotate old a t)
    have g: "grant_chain sha64 sv (evs @ h) (rt_client_id old) (rt_user_id old) (rt_workspace_id old) (rt_resource old) (rt_scope old) (rt_family_id old)"
      using rows e_rotate(3) by (simp add: refresh_backed_def)
    show ?thesis using rows issued_backed [OF g] e_rotate by (simp add: rows_backed_def)
  next
    case (e_revoke fam)
    have "refresh_backed sha64 sv (evs @ h) t" if t: "t \<in> set (od_refresh db')" for t
      by (rule revoked_rows [OF t [unfolded e_revoke(2)]]) (use rows in auto)
    then show ?thesis using rows e_revoke by (simp add: rows_backed_def)
  qed (use old in simp)
qed

text \<open>Every decision, exchange and rotation is counted by the row it used up.\<close>

lemma times_simps [simp]: "uses_of p (xs @ ys) = uses_of p xs + uses_of p ys" "uses_of p [] = 0" "uses_of p (x # xs) = (if p x then Suc (uses_of p xs) else uses_of p xs)"
  by (simp_all add: uses_of_def)

lemma times_replace_same: "p r' = p r \<Longrightarrow> uses_of p (replace_row r r' xs) = uses_of p xs"
  by (induction xs) (auto simp: replace_row_def)

lemma times_replace_more: "distinct xs \<Longrightarrow> r \<in> set xs \<Longrightarrow> \<not> p r \<Longrightarrow> p r' \<Longrightarrow> uses_of p (replace_row r r' xs) = Suc (uses_of p xs)"
proof (induction xs)
  case (Cons x xs)
  have no: "map (\<lambda>y. if y = r then r' else y) xs = xs" if "r \<notin> set xs" using that by (induction xs) auto
  show ?case using Cons no by (cases "x = r") (auto simp: replace_row_def)
qed simp

lemma times_key_unique: "distinct (map k xs) \<Longrightarrow> uses_of (\<lambda>x. k x = v \<and> p x) xs \<le> 1"
proof (induction xs)
  case (Cons x xs)
  have "uses_of (\<lambda>y. k y = v \<and> p y) xs = 0" if "k x = v" proof -
    have "k y \<noteq> v" if "y \<in> set xs" for y using fresh_key [OF _ that, of v k] Cons(2) \<open>k x = v\<close> by simp
    then show ?thesis by (auto simp: uses_of_def filter_empty_conv)
  qed
  then show ?case using Cons by simp
qed simp

lemma times_revoke:
  "uses_of (\<lambda>t. rt_token_digest t = d \<and> rt_consumed_at_ms t \<noteq> None) (od_refresh (revokeRefreshTokenFamily fam now db))
     = uses_of (\<lambda>t. rt_token_digest t = d \<and> rt_consumed_at_ms t \<noteq> None) (od_refresh db)"
proof -
  have "uses_of p (update_rows q f xs) = uses_of p xs" if "\<And>t. p (f t) = p t" for p q and f :: "refresh_token \<Rightarrow> refresh_token" and xs
    using that by (induction xs) (simp_all add: update_rows_def)
  then show ?thesis by (simp add: revokeRefreshTokenFamily_def)
qed

lemma effect_uses_counted:
  assumes "effect sha64 sv now db evs db'" "tables_ok db" "uses_counted h db"
  shows "uses_counted (evs @ h) db'"
proof -
  have d: "distinct (od_requests db)" "distinct (od_codes db)" "distinct (od_refresh db)"
    using assms(2) by (simp_all add: tables_ok_def distinct_map)
  note events = decides_def exchanges_def rotates_def
  note same = times_replace_same and more = times_replace_more
  from assms(1) show ?thesis
  proof (cases rule: effect.cases)
    case (e_request r)
    have "oq_decision r = None" using e_request(4) by (auto simp: unapproved_def dest: arg_cong [where f = oq_decision])
    then show ?thesis using assms(3) e_request by (simp add: uses_counted_def events)
  next
    case (e_page r x)
    then show ?thesis using assms(3) by (simp add: uses_counted_def events same)
  next
    case (e_approve r x c st b)
    have "oc_consumed_at_ms c = None" using e_approve(7) by (simp add: code_on_def)
    then show ?thesis using assms(3) e_approve same [where r = r] more [OF d(1) e_approve(3)] by (auto simp: uses_counted_def events)
  next
    case (e_deny r)
    then show ?thesis using assms(3) same [where r = r] more [OF d(1) e_deny(3)] by (auto simp: uses_counted_def events)
  next
    case (e_exchange c v a fam t)
    have "rt_consumed_at_ms t = None" using e_exchange(8) by (simp add: refresh_on_def)
    then show ?thesis using assms(3) e_exchange same [where r = c] more [OF d(2) e_exchange(3)] by (auto simp: uses_counted_def events)
  next
    case (e_rotate old a t)
    have "rt_consumed_at_ms t = None" using e_rotate(8) by (simp add: refresh_on_def)
    then show ?thesis using assms(3) e_rotate same [where r = old] more [OF d(3) e_rotate(3)] by (auto simp: uses_counted_def events)
  next
    case (e_revoke fam)
    then show ?thesis using assms(3) by (simp add: uses_counted_def times_revoke [simplified])
  qed (use assms(3) in simp)
qed

text \<open>At most one refresh token of a family can be used, and a dead family stays dead.\<close>

definition family_dead :: "string \<Rightarrow> oauth_db \<Rightarrow> bool" where
  "family_dead fam db \<longleftrightarrow> (\<exists>t \<in> set (od_refresh db). rt_family_id t = fam)
     \<and> (\<forall>t \<in> set (od_refresh db). rt_family_id t = fam \<longrightarrow> rt_revoked_at_ms t \<noteq> None)"

lemma effect_one_live:
  assumes "effect sha64 sv now db evs db'" "one_live_each db"
  shows "one_live_each db'"
  using assms(1)
proof (cases rule: effect.cases)
  case (e_exchange c v a fam t)
  have "x = t \<or> x \<in> set (od_refresh db) \<and> rt_family_id x \<noteq> rt_family_id t" if "x \<in> set (od_refresh db')" for x
    using that e_exchange(2,8,11) fresh_key [of fam rt_family_id "set (od_refresh db)" x] by (auto simp: unused_family_def refresh_on_def)
  then show ?thesis using assms(2) unfolding one_live_each_def by metis
next
  case (e_rotate old a t)
  have "live old" using e_rotate by (simp add: live_def)
  then have other: "\<not> live x" if "x \<in> set (od_refresh db) - {old}" "rt_family_id x = rt_family_id old" for x
    using assms(2) e_rotate(3) that by (auto simp: one_live_each_def)
  have "x = t \<or> x \<in> set (od_refresh db) \<and> rt_family_id x \<noteq> rt_family_id t" if x: "x \<in> set (od_refresh db')" "live x" for x
  proof -
    have "x \<noteq> old\<lparr>rt_consumed_at_ms := Some now\<rparr>" using x(2) by (auto simp: live_def)
    then have "x = t \<or> x \<in> set (od_refresh db) - {old}" using x(1) e_rotate(2,3) by auto
    then show ?thesis using other x(2) e_rotate(8) by (auto simp: refresh_on_def)
  qed
  then show ?thesis using assms(2) unfolding one_live_each_def by metis
next
  case (e_revoke fam)
  have "x \<in> set (od_refresh db)" if x: "x \<in> set (od_refresh db')" "live x" for x
    by (rule revoked_rows [OF x(1) [unfolded e_revoke(2)]]) (use x(2) in \<open>auto simp: live_def\<close>)
  then show ?thesis using assms(2) unfolding one_live_each_def by blast
qed (use assms(2) in \<open>auto simp: one_live_each_def\<close>)

lemma revoke_families: "rt_family_id ` set (od_refresh (revokeRefreshTokenFamily fam now db)) = rt_family_id ` set (od_refresh db)"
  by (simp add: image_set del: set_map)

lemma effect_dead:
  assumes "effect sha64 sv now db evs db'" "family_dead f db"
  shows "family_dead f db'"
  using assms(1)
proof (cases rule: effect.cases)
  case (e_exchange c v a fam t)
  then show ?thesis using assms(2) by (auto simp: family_dead_def unused_family_def refresh_on_def)
next
  case (e_rotate old a t)
  then show ?thesis using assms(2) by (auto simp: family_dead_def refresh_on_def)
next
  case (e_revoke fam)
  have "f \<in> rt_family_id ` set (od_refresh db')" using assms(2) e_revoke revoke_families by (auto simp: family_dead_def)
  moreover have "rt_revoked_at_ms x \<noteq> None" if x: "x \<in> set (od_refresh db')" "rt_family_id x = f" for x
    by (rule revoked_rows [OF x(1) [unfolded e_revoke(2)]]) (use assms(2) x(2) in \<open>auto simp: family_dead_def\<close>)
  ultimately show ?thesis unfolding family_dead_def by blast
qed (use assms(2) in \<open>auto simp: family_dead_def\<close>)

lemma revoked_dead:
  assumes "t \<in> set (od_refresh db)"
  shows "family_dead (rt_family_id t) (revokeRefreshTokenFamily (rt_family_id t) now db)"
proof -
  have "rt_family_id t \<in> rt_family_id ` set (od_refresh (revokeRefreshTokenFamily (rt_family_id t) now db))"
    using assms by (simp add: revoke_families)
  moreover have "rt_revoked_at_ms x \<noteq> None"
    if x: "x \<in> set (od_refresh (revokeRefreshTokenFamily (rt_family_id t) now db))" "rt_family_id x = rt_family_id t" for x
    by (rule revoked_rows [OF x(1)]) (use x(2) in auto)
  ultimately show ?thesis unfolding family_dead_def by fastforce
qed

lemma effect_access_kept: "effect sha64 sv now db evs db' \<Longrightarrow> set (od_access db) \<subseteq> set (od_access db')"
  by (induction rule: effect.induct) auto

lemma effect_requests_allowed: "effect sha64 sv now db evs db' \<Longrightarrow> requests_allowed sv h \<Longrightarrow> requests_allowed sv (evs @ h)"
  by (induction rule: effect.induct) (auto simp: requests_allowed_def)

section \<open>Calls of the service and their effects\<close>

lemma allowed_spaceless: "\<forall>w \<in> set (js_words s). w \<noteq> [] \<and> spaceless w"
  using words_spaceless by blast

lemma requested_words: "js_words (join_words (requested_scopes sc)) = requested_scopes sc"
  using allowed_spaceless by (auto simp: requested_scopes_def words_join split: option.split)

lemma narrowed_words:
  assumes "narrowed_scope sc old = Inr new"
  shows "set (js_words new) \<subseteq> set (js_words old)"
proof (cases "given sc")
  case True
  let ?req = "js_words (js_trim (the sc))"
  have "new = join_words ?req" "\<forall>w \<in> set ?req. w \<in> set (js_split_ws old)"
    using assms True by (auto simp: narrowed_scope_def Let_def list_all_iff split: if_splits)
  then show ?thesis using allowed_spaceless [of "js_trim (the sc)"] by (auto simp: words_join js_words_def [of old])
qed (use assms in \<open>auto simp: narrowed_scope_def\<close>)

lemma check_authorizeD:
  assumes "check_authorize url resolve sv now uuid i = Inr (q, m)"
  shows "set (js_words (ri_scope q)) \<subseteq> set allowed_scopes" "ri_resource q = canonicalResource sv"
proof -
  obtain res where r: "validateCanonicalResource url (zi_resource i) (canonicalResource sv) = Inr res" "ri_resource q = res"
    "list_all (\<lambda>t. t \<in> set allowed_scopes) (requested_scopes (zi_scope i))" "ri_scope q = join_words (requested_scopes (zi_scope i))"
    using assms by (auto simp: check_authorize_def ebind_eq_Inr Let_def split: if_splits)
  show "set (js_words (ri_scope q)) \<subseteq> set allowed_scopes" using r(3,4) by (auto simp: requested_words list_all_iff)
  show "ri_resource q = canonicalResource sv" using r(1,2) by (auto simp: validateCanonicalResource_def split: option.splits if_splits)
qed

lemma pending_unapproved [simp]: "unapproved (pending_request q) = pending_request q" "oq_id (pending_request q) = ri_id q"
  "oq_scope (pending_request q) = ri_scope q" "oq_resource (pending_request q) = ri_resource q"
  by (simp_all add: unapproved_def pending_request_def)

lemma find_appended:
  "\<forall>x \<in> set xs. \<not> p x \<Longrightarrow> p y \<Longrightarrow> find p (xs @ [y]) = Some y"
  by (induction xs) auto

lemma authorize_effect:
  assumes "initiateAuthorizationRequest url resolve sv now uuid i db = (db', r)"
  shows "effect sha64 sv now db (requested_event r) db'"
proof (cases "check_authorize url resolve sv now uuid i")
  case (Inl e)
  then show ?thesis using assms by (auto simp: initiateAuthorizationRequest_def requested_event_def intro: e_none)
next
  case (Inr qm)
  obtain q m where q: "qm = (q, m)" by fastforce
  note c = check_authorizeD [OF Inr [unfolded q]]
  obtain db1 res where cr: "createAuthorizationRequest q db = (db1, res)" by fastforce
  show ?thesis
  proof (cases res)
    case (Inl e)
    then have "db1 = db" using create_effect [OF cr] by auto
    then show ?thesis using assms Inr q cr Inl by (auto simp: initiateAuthorizationRequest_def requested_event_def intro: e_none)
  next
    case (Inr u)
    then have new: "ri_id q \<notin> oq_id ` set (od_requests db)" "db1 = db\<lparr>od_requests := od_requests db @ [pending_request q]\<rparr>"
      using create_effect [OF cr] by auto
    have "OAuth_Store.getAuthorizationRequest db1 (ri_id q) = Some (pending_request q)"
      unfolding getAuthorizationRequest_def new(2) using fresh_key [OF new(1)] by (auto intro!: find_appended)
    then have "db' = db1" "r = Inr (pending_request q, m)" using assms \<open>check_authorize url resolve sv now uuid i = Inr qm\<close> q cr Inr
      by (auto simp: initiateAuthorizationRequest_def)
    moreover have "effect sha64 sv now db [O_requested (pending_request q)] db1"
      unfolding new(2) by (rule e_request) (use new(1) c in simp_all)
    ultimately show ?thesis by (simp add: requested_event_def)
  qed
qed

lemma nonce_effect:
  assumes "tables_ok db" "createConsentNonce sha now nonce i db = (db', r)"
  shows "effect sha64 sv now db (nonce_event sha i r) db'"
proof -
  obtain d u where p: "setConsentNonceDigest i (sha nonce) now db = (d, u)" by fastforce
  then have "db' = d" "r = (if u then Inr nonce else Inl (OAuthServerError ''invalid_request'' 400))"
    using assms(2) by (simp_all add: createConsentNonce_def)
  then show ?thesis using page_effect [OF assms(1) p] e_none by (auto simp: nonce_event_def)
qed

lemma approval_effect:
  assumes "tables_ok db" "approveConsent sha sv now d b i nonce u db = (db', r)"
  shows "(\<exists>e. r = Inl e) \<and> db' = db \<or> (\<exists>a w. r = Inr a \<and> consent_workspace b u = Inr w
    \<and> effect sha64 sv now db [O_approved i u w (sha (raw_code d)) st now (sha nonce) b] db')"
proof (cases "consent_workspace b u")
  case (Inl e)
  then show ?thesis using assms(2) by (auto simp: approveConsent_def)
next
  case (Inr w)
  let ?i = "approval_of sha sv now d i nonce u w"
  obtain db1 res where c: "approveConsentAndIssueCode ?i db = (db1, res)" by fastforce
  have db1: "db' = db1" "(\<exists>a. r = Inr a) \<longleftrightarrow> (\<exists>c. res = Inr (Some c))"
    using assms(2) Inr c by (auto simp: approveConsent_def split: sum.splits option.splits)
  have "(\<forall>c. res \<noteq> Inr (Some c)) \<and> db1 = db \<or> (\<exists>c. res = Inr (Some c) \<and> effect sha64 sv now db
      [O_approved (ai_request_id ?i) (ai_user_id ?i) (ai_workspace_id ?i) (ai_code_digest ?i) st now (ai_nonce_digest ?i) b] db1)"
    by (rule approve_effect [OF assms(1) c]) (simp_all add: approval_of_def)
  then show ?thesis using db1 Inr by (cases r) (auto simp: approval_of_def)
qed

lemma denial_effect:
  assumes "tables_ok db" "denyConsentRequest sha now i nonce db = (db', r)"
  shows "(\<exists>e. r = Inl e) \<and> db' = db \<or> (\<exists>x. r = Inr x) \<and> effect sha64 sv now db [O_denied i] db'"
proof (cases "OAuth_Store.getAuthorizationRequest db i")
  case None
  then show ?thesis using assms(2) by (auto simp: denyConsentRequest_def)
next
  case (Some q)
  obtain db1 den where d: "denyConsent i (sha nonce) now db = (db1, den)" by fastforce
  then show ?thesis using deny_effect [OF assms(1) d, of sha64 sv] assms(2) Some by (auto simp: denyConsentRequest_def split: if_splits)
qed

lemma exchange_call:
  assumes "tables_ok db" "unused_family (family_of d) db" "exchangeAuthorizationCode sha sha64 url sv now d i db = (db', r)"
  shows "(\<exists>e. r = Inl e) \<and> db' = db
    \<or> (\<exists>a. r = Inr a \<and> effect sha64 sv now db [O_exchanged (sha (the (gi_code i))) (the (gi_code_verifier i)) (family_of d) now] db')"
proof (cases "\<exists>a. r = Inr a")
  case True
  then obtain a target where a: "r = Inr a" "validateCanonicalResource url (gi_resource i) (canonicalResource sv) = Inr target"
    using assms(3) by (auto simp: exchangeAuthorizationCode_def split: if_splits sum.splits)
  let ?i = "consumption_of sha sv now d target i"
  obtain db1 res where c: "consumeCodeAndIssueTokens sha64 ?i db = (db1, res)" by fastforce
  have "db' = db1" "\<exists>x. res = Inr (Inr x)"
    using assms(3) a c by (auto simp: exchangeAuthorizationCode_def split: if_splits sum.splits)
  moreover have "(\<forall>x. res \<noteq> Inr (Inr x)) \<and> db1 = db \<or> (\<exists>c a t. res = Inr (Inr (c, a, t)) \<and> c \<in> set (od_codes db) \<and> oc_client_id c = ci_client_id ?i
      \<and> oc_redirect_uri c = ci_redirect_uri ?i
      \<and> effect sha64 sv now db [O_exchanged (ci_code_digest ?i) (ci_code_verifier ?i) (ci_refresh_token_family_id ?i) now] db1)"
    by (rule exchange_effect [OF assms(1) c]) (use assms(2) in \<open>simp_all add: consumption_of_def\<close>)
  ultimately show ?thesis using a(1) by (auto simp: consumption_of_def)
next
  case False
  then obtain e where e: "r = Inl e" by (cases r) auto
  have "db' = db"
  proof (cases "validateCanonicalResource url (gi_resource i) (canonicalResource sv)")
    case (Inr target)
    let ?i = "consumption_of sha sv now d target i"
    obtain db1 res where c: "consumeCodeAndIssueTokens sha64 ?i db = (db1, res)" by fastforce
    have "(\<nexists>x. res = Inr (Inr x)) \<and> db' = db1 \<or> db' = db"
      using assms(3) e Inr c by (auto simp: exchangeAuthorizationCode_def split: if_splits sum.splits)
    moreover have "(\<forall>x. res \<noteq> Inr (Inr x)) \<and> db1 = db \<or> (\<exists>x. res = Inr (Inr x))"
      using exchange_effect [OF assms(1) c, of now sv] assms(2) by (auto simp: consumption_of_def)
    ultimately show ?thesis by blast
  qed (use assms(3) in \<open>auto simp: exchangeAuthorizationCode_def split: if_splits\<close>)
  then show ?thesis using e by auto
qed

lemma refresh_call:
  assumes "tables_ok db" "refreshTokens sha url sv now d b i db = (db', r)"
  shows "(\<exists>e. r = Inl e) \<and> (db' = db \<or> (\<exists>t \<in> set (od_refresh db). rt_token_digest t = sha (the (fi_refresh_token i))
       \<and> db' = revokeRefreshTokenFamily (rt_family_id t) now db))
    \<or> (\<exists>a. r = Inr a \<and> effect sha64 sv now db [O_rotated (sha (the (fi_refresh_token i))) now] db')"
proof (cases "given (fi_refresh_token i) \<and> given (fi_client_id i)")
  case False
  then show ?thesis using assms(2) by (auto simp: refreshTokens_def)
next
  case g: True
  let ?old = "sha (the (fi_refresh_token i))"
  show ?thesis
  proof (cases "findRefreshTokenByDigest db ?old")
    case None
    then show ?thesis using assms(2) g by (auto simp: refreshTokens_def)
  next
    case (Some t)
    have t: "t \<in> set (od_refresh db)" "rt_token_digest t = ?old" using find_SomeD [OF Some [unfolded findRefreshTokenByDigest_def]] by auto
    show ?thesis
    proof (cases "\<exists>target scope. rt_consumed_at_ms t = None \<and> \<not> (rt_revoked_at_ms t \<noteq> None \<or> rt_expires_at_ms t \<le> now) \<and> rt_client_id t = the (fi_client_id i)
        \<and> validateCanonicalResource url (fi_resource i) (rt_resource t) = Inr target
        \<and> isUserActive b (rt_user_id t) \<and> hasWorkspaceAccess b (rt_workspace_id t) (rt_user_id t) \<and> narrowed_scope (fi_scope i) (rt_scope t) = Inr scope")
      case True
      then obtain target scope where c: "rt_consumed_at_ms t = None" "\<not> (rt_revoked_at_ms t \<noteq> None \<or> rt_expires_at_ms t \<le> now)" "rt_client_id t = the (fi_client_id i)"
        "validateCanonicalResource url (fi_resource i) (rt_resource t) = Inr target"
        "isUserActive b (rt_user_id t)" "hasWorkspaceAccess b (rt_workspace_id t) (rt_user_id t)" "narrowed_scope (fi_scope i) (rt_scope t) = Inr scope" by blast
      let ?i = "rotation_of sha sv now d target scope i"
      obtain db1 res where x: "rotateRefreshTokenAndIssueTokens ?i db = (db1, res)" by fastforce
      have "db' = db1" "(\<exists>a. r = Inr a) \<longleftrightarrow> (\<exists>y. res = Inr (Inr y))"
        using assms(2) g Some c x by (auto simp: refreshTokens_def split: sum.splits)
      moreover have "(\<forall>y. res \<noteq> Inr (Inr y)) \<and> db1 = db \<or> (\<exists>y. res = Inr (Inr y) \<and> effect sha64 sv now db [O_rotated (xi_old_token_digest ?i) now] db1)"
        by (rule rotate_effect [OF assms(1) x]) (use Some narrowed_words [OF c(7)] in \<open>simp_all add: rotation_of_def\<close>)
      ultimately show ?thesis by (cases r) (auto simp: rotation_of_def)
    next
      case False
      then have "(\<exists>e. r = Inl e) \<and> (db' = db \<or> db' = revokeRefreshTokenFamily (rt_family_id t) now db)"
        using assms(2) g Some by (simp add: refreshTokens_def split: sum.splits if_splits) blast+
      then show ?thesis using t by blast
    qed
  qed
qed

section \<open>The invariant\<close>

definition db_ok :: "(string \<Rightarrow> string) \<Rightarrow> oauth_service \<Rightarrow> oauth_event list \<Rightarrow> oauth_db \<Rightarrow> bool" where
  "db_ok sha64 sv h db \<longleftrightarrow> tables_ok db \<and> rows_backed sha64 sv h db \<and> uses_counted h db \<and> one_live_each db \<and> requests_allowed sv h"

text \<open>Who approves is the active owner of a session, and grants the only workspace of theirs, which is ready.\<close>

definition approvals_ok :: "int \<Rightarrow> oauth_event list \<Rightarrow> bool" where
  "approvals_ok ttl h \<longleftrightarrow> (\<forall>i u w d s t x b. O_approved i u w d s t x b \<in> set h \<longrightarrow> consent_workspace b u = Inr w \<and> s \<le> t
     \<and> (\<exists>t0. O_login u t0 \<in> set h \<and> t0 \<le> s \<and> s \<le> t0 + ttl))"

definition logins_back :: "int \<Rightarrow> int \<Rightarrow> oauth_event list \<Rightarrow> session_manager \<Rightarrow> bool" where
  "logins_back ttl now h m \<longleftrightarrow> sm_ttl_ms m = ttl
     \<and> (\<forall>x \<in> set (sm_sessions m). \<exists>t0. O_login (us_user_id (snd x)) t0 \<in> set h \<and> us_expires_at (snd x) = t0 + ttl \<and> t0 \<le> now)"

definition oauth_ok :: "(string \<Rightarrow> string) \<Rightarrow> oauth_service \<Rightarrow> int \<Rightarrow> oauth_flow \<Rightarrow> bool" where
  "oauth_ok sha64 sv ttl f \<longleftrightarrow> (case f of (now, h, s) \<Rightarrow>
     ot_service s = sv \<and> db_ok sha64 sv h (ot_db s) \<and> approvals_ok ttl h \<and> logins_back ttl now h (ot_sessions s))"

lemma start_ok: "oauth_ok sha64 sv ttl (now, [], oauth_start sv ttl b)"
  by (simp add: oauth_ok_def oauth_start_def db_ok_def approvals_ok_def logins_back_def empty_oauth_db_def tables_ok_def rows_backed_def
      uses_counted_def one_live_each_def requests_allowed_def)

lemma effect_db_ok: "effect sha64 sv now db evs db' \<Longrightarrow> db_ok sha64 sv h db \<Longrightarrow> db_ok sha64 sv (evs @ h) db'"
  by (simp add: db_ok_def effect_tables_ok effect_rows_backed effect_uses_counted effect_one_live effect_requests_allowed)

lemma logins_grow:
  "logins_back ttl now h m \<Longrightarrow> set h \<subseteq> set h' \<Longrightarrow> now \<le> now' \<Longrightarrow> set (sm_sessions m') \<subseteq> set (sm_sessions m) \<Longrightarrow> sm_ttl_ms m' = sm_ttl_ms m \<Longrightarrow>
   logins_back ttl now' h' m'"
  unfolding logins_back_def by fastforce

lemma approvals_grow:
  assumes "approvals_ok ttl h" "\<And>i u w d s t x b. O_approved i u w d s t x b \<notin> set evs"
  shows "approvals_ok ttl (evs @ h)"
  unfolding approvals_ok_def
proof (intro allI impI)
  fix i u w d s t x b assume "O_approved i u w d s t x b \<in> set (evs @ h)"
  then have "O_approved i u w d s t x b \<in> set h" using assms(2) by auto
  then show "consent_workspace b u = Inr w \<and> s \<le> t \<and> (\<exists>t0. O_login u t0 \<in> set (evs @ h) \<and> t0 \<le> s \<and> s \<le> t0 + ttl)"
    using assms(1) unfolding approvals_ok_def by (metis UnCI set_append)
qed

text \<open>A step that changes the database by an effect that approves nothing.\<close>

lemma plain_step_ok:
  assumes "oauth_ok sha64 sv ttl (now, h, s)" "effect sha64 sv t0 (ot_db s) evs db'" "\<And>i u w d s t x b. O_approved i u w d s t x b \<notin> set evs"
    and "now \<le> now'" "set (sm_sessions m) \<subseteq> set (sm_sessions (ot_sessions s))" "sm_ttl_ms m = sm_ttl_ms (ot_sessions s)"
  shows "oauth_ok sha64 sv ttl (now', evs @ h, s\<lparr>ot_sessions := m, ot_db := db'\<rparr>)"
  using assms(1) effect_db_ok [OF assms(2)] approvals_grow [OF _ assms(3)] logins_grow [OF _ _ assms(4,5,6), of ttl h "evs @ h"]
  by (simp add: oauth_ok_def)

lemma decide_cases:
  assumes "oauth_decision_route sha url clock d token i nonce decision s = (s', r)" "tables_ok (ot_db s)"
  obtains m where "s' = s\<lparr>ot_sessions := m, ot_db := ot_db s\<rparr>" "consent_event sha clock d token i nonce decision s = []"
      "set (sm_sessions m) \<subseteq> set (sm_sessions (ot_sessions s))" "sm_ttl_ms m = sm_ttl_ms (ot_sessions s)"
  | m us w db where "s' = s\<lparr>ot_sessions := m, ot_db := db\<rparr>" "consent_workspace (ot_identity s) (us_user_id us) = Inr w"
      "getSessionFromToken (clock 0) token (ot_sessions s) = (m, Some us)"
      "consent_event sha clock d token i nonce decision s
        = [O_approved (the i) (us_user_id us) w (sha (raw_code d)) (clock 0) (clock 1) (sha (the nonce)) (ot_identity s)]"
      "effect sha64 (ot_service s) (clock 1) (ot_db s) (consent_event sha clock d token i nonce decision s) db"
      "set (sm_sessions m) \<subseteq> set (sm_sessions (ot_sessions s))" "sm_ttl_ms m = sm_ttl_ms (ot_sessions s)"
  | m db where "s' = s\<lparr>ot_sessions := m, ot_db := db\<rparr>" "consent_event sha clock d token i nonce decision s = [O_denied (the i)]"
      "effect sha64 (ot_service s) (clock 1) (ot_db s) [O_denied (the i)] db"
      "set (sm_sessions m) \<subseteq> set (sm_sessions (ot_sessions s))" "sm_ttl_ms m = sm_ttl_ms (ot_sessions s)"
proof -
  obtain m us where g: "getSessionFromToken (clock 0) token (ot_sessions s) = (m, us)" by fastforce
  note tok = session_token [OF g]
  consider (no) "us = None \<or> \<not> (given i \<and> given nonce \<and> given decision)"
    | (yes) u where "us = Some u" "given i \<and> given nonce \<and> given decision" "decision = Some ''approve''"
    | (deny) u where "us = Some u" "given i \<and> given nonce \<and> given decision" "decision \<noteq> Some ''approve''" by (cases us) auto
  then show ?thesis
  proof cases
    case no
    have "s' = s\<lparr>ot_sessions := m\<rparr>" "consent_event sha clock d token i nonce decision s = []"
      using assms(1) g no by (auto simp: oauth_decision_route_def consent_event_def Let_def split: option.splits if_splits)
    then show ?thesis using tok that(1) [of m] by simp
  next
    case yes
    obtain db q where a: "approveConsent sha (ot_service s) (clock 1) d (ot_identity s) (the i) (the nonce) (us_user_id u) (ot_db s) = (db, q)" by fastforce
    have s': "s' = s\<lparr>ot_sessions := m, ot_db := db\<rparr>" using assms(1) g yes a by (auto simp: oauth_decision_route_def Let_def split: sum.splits)
    show ?thesis using approval_effect [OF assms(2) a, of sha64 "clock 0"]
    proof (elim disjE conjE exE)
      fix e assume "q = Inl e" "db = ot_db s"
      then show ?thesis using s' g yes a tok by (intro that(1) [of m]) (auto simp: consent_event_def split: sum.splits)
    next
      fix x w assume x: "q = Inr x" "consent_workspace (ot_identity s) (us_user_id u) = Inr w"
        "effect sha64 (ot_service s) (clock 1) (ot_db s)
           [O_approved (the i) (us_user_id u) w (sha (raw_code d)) (clock 0) (clock 1) (sha (the nonce)) (ot_identity s)] db"
      have "consent_event sha clock d token i nonce decision s
        = [O_approved (the i) (us_user_id u) w (sha (raw_code d)) (clock 0) (clock 1) (sha (the nonce)) (ot_identity s)]"
        using g yes a x by (simp add: consent_event_def)
      then show ?thesis using s' g yes x tok by (intro that(2) [of db m u w]) auto
    qed
  next
    case deny
    obtain db q where a: "denyConsentRequest sha (clock 1) (the i) (the nonce) (ot_db s) = (db, q)" by fastforce
    have s': "s' = s\<lparr>ot_sessions := m, ot_db := db\<rparr>" using assms(1) g deny a by (auto simp: oauth_decision_route_def Let_def split: sum.splits)
    show ?thesis using denial_effect [OF assms(2) a, of sha64 "ot_service s"]
    proof (elim disjE conjE exE)
      fix e assume "q = Inl e" "db = ot_db s"
      then show ?thesis using s' g deny a tok by (intro that(1) [of m]) (auto simp: consent_event_def)
    next
      fix x assume "q = Inr x" "effect sha64 (ot_service s) (clock 1) (ot_db s) [O_denied (the i)] db"
      then show ?thesis using s' g deny a tok by (intro that(3) [of db m]) (auto simp: consent_event_def)
    qed
  qed
qed

lemma token_cases_oauth:
  assumes "oauth_token_route sha sha64 url now d form s = (s', r)" "tables_ok (ot_db s)" "unused_family (family_of d) (ot_db s)"
  obtains db c st where "s' = s\<lparr>ot_db := db\<rparr>" "r = TokenRefused c st" "grant_event sha now d form r = []"
      "db = ot_db s \<or> (\<exists>t \<in> set (od_refresh (ot_db s)). rt_token_digest t = sha (the (form ''refresh_token'')) \<and> db = revokeRefreshTokenFamily (rt_family_id t) now (ot_db s))"
      "effect sha64 (ot_service s) now (ot_db s) (grant_event sha now d form r) db"
  | db a where "s' = s\<lparr>ot_db := db\<rparr>" "r = TokenGranted a"
      "effect sha64 (ot_service s) now (ot_db s) (grant_event sha now d form r) db"
proof -
  have refusal: "\<exists>c st. refused e = TokenRefused c st" for e by (cases e) (simp_all add: refused_def)
  consider "form ''grant_type'' = Some ''authorization_code''" | "form ''grant_type'' = Some ''refresh_token''"
    | "form ''grant_type'' \<noteq> Some ''authorization_code''" "form ''grant_type'' \<noteq> Some ''refresh_token''" by blast
  then show ?thesis
  proof cases
    case 1
    let ?i = "\<lparr>gi_client_id = form ''client_id'', gi_redirect_uri = form ''redirect_uri'', gi_code = form ''code'',
               gi_code_verifier = form ''code_verifier'', gi_resource = form ''resource''\<rparr>"
    obtain db q where x: "exchangeAuthorizationCode sha sha64 url (ot_service s) now d ?i (ot_db s) = (db, q)" by fastforce
    have s': "s' = s\<lparr>ot_db := db\<rparr>" "r = token_response_of q" using assms(1) 1 x by (auto simp: oauth_token_route_def)
    show ?thesis using exchange_call [OF assms(2,3) x]
    proof (elim disjE conjE exE)
      fix e assume e: "q = Inl e" "db = ot_db s"
      obtain c st where "refused e = TokenRefused c st" using refusal by blast
      then show ?thesis using s' e by (intro that(1) [of db c st]) (auto simp: token_response_of_def grant_event_def intro: e_none)
    next
      fix a assume "q = Inr a" "effect sha64 (ot_service s) now (ot_db s) [O_exchanged (sha (the (gi_code ?i))) (the (gi_code_verifier ?i)) (family_of d) now] db"
      then show ?thesis using s' 1 by (intro that(2) [of db a]) (auto simp: token_response_of_def grant_event_def)
    qed
  next
    case 2
    let ?i = "\<lparr>fi_client_id = form ''client_id'', fi_refresh_token = form ''refresh_token'', fi_scope = form ''scope'', fi_resource = form ''resource''\<rparr>"
    obtain db q where x: "refreshTokens sha url (ot_service s) now d (ot_identity s) ?i (ot_db s) = (db, q)" by fastforce
    have s': "s' = s\<lparr>ot_db := db\<rparr>" "r = token_response_of q" using assms(1) 2 x by (auto simp: oauth_token_route_def)
    have no: "form ''grant_type'' \<noteq> Some ''authorization_code''" using 2 by simp
    show ?thesis using refresh_call [OF assms(2) x, of sha64]
    proof (elim disjE conjE exE)
      fix e assume e: "q = Inl e" "db = ot_db s"
      obtain c st where "refused e = TokenRefused c st" using refusal by blast
      then show ?thesis using s' e by (intro that(1) [of db c st]) (auto simp: token_response_of_def grant_event_def intro: e_none)
    next
      fix e assume e: "q = Inl e" "\<exists>t \<in> set (od_refresh (ot_db s)). rt_token_digest t = sha (the (fi_refresh_token ?i)) \<and> db = revokeRefreshTokenFamily (rt_family_id t) now (ot_db s)"
      obtain c st where "refused e = TokenRefused c st" using refusal by blast
      then show ?thesis using s' e by (intro that(1) [of db c st]) (auto simp: token_response_of_def grant_event_def intro: e_revoke)
    next
      fix a assume "q = Inr a" "effect sha64 (ot_service s) now (ot_db s) [O_rotated (sha (the (fi_refresh_token ?i))) now] db"
      then show ?thesis using s' no by (intro that(2) [of db a]) (auto simp: token_response_of_def grant_event_def)
    qed
  next
    case 3
    then show ?thesis using assms(1) by (intro that(1) [of "ot_db s"]) (auto simp: oauth_token_route_def grant_event_def intro: e_none)
  qed
qed

lemma consent_session:
  assumes "getSessionFromToken (c) token m = (m', Some us)" "logins_back ttl now h m" "now \<le> c"
  shows "\<exists>t0. O_login (us_user_id us) t0 \<in> set h \<and> t0 \<le> c \<and> c \<le> t0 + ttl"
proof -
  obtain k where k: "(k, us) \<in> set (sm_sessions m)" "c \<le> us_expires_at us" using session_token [OF assms(1)] by auto
  then obtain t0 where "O_login (us_user_id us) t0 \<in> set h" "us_expires_at us = t0 + ttl" "t0 \<le> now"
    using assms(2) by (fastforce simp: logins_back_def)
  then show ?thesis using k(2) assms(3) by auto
qed

lemma created_session:
  assumes "createSession sid clock u p sub l m = (m', x)" "logins_back ttl now h m" "now \<le> clock 0" "clock 0 \<le> now'"
  shows "logins_back ttl now' (O_login u (clock 0) # h) m'"
proof -
  let ?x = "\<lparr>us_session_id = sid, us_user_id = u, us_provider = p, us_provider_subject = sub, us_provider_login = l, us_expires_at = clock 0 + sm_ttl_ms m\<rparr>"
  have upd: "set (AList.update sid v xs) \<subseteq> insert (sid, v) (set xs)" for v :: user_session and xs by (induction xs) auto
  have "m' = fst (createSession sid clock u p sub l m)" using assms(1) by simp
  then have "set (sm_sessions m') \<subseteq> insert (sid, ?x) (set (sm_sessions m))" "sm_ttl_ms m' = sm_ttl_ms m"
    using upd [of ?x "sm_sessions m"] by (auto simp: createSession_def Let_def split: if_splits)
  then show ?thesis using assms(2,3,4) unfolding logins_back_def by fastforce
qed

lemma oauth_step_ok: "oauth_step sha sha64 url f f' \<Longrightarrow> oauth_ok sha64 sv ttl f \<Longrightarrow> oauth_ok sha64 sv ttl f'"
proof (induction rule: oauth_step.induct)
  case (o_tick now now' h s)
  then show ?case using logins_grow [of ttl now h "ot_sessions s" h now' "ot_sessions s"] by (simp add: oauth_ok_def)
next
  case (o_login now clock sid u p sub l s m x h)
  have c: "now \<le> clock 0" "clock 0 \<le> clock 3" using o_login(1) by (simp_all add: reads_def)
  have d: "effect sha64 sv 0 (ot_db s) [] (ot_db s)" by (rule e_none)
  have g: "requests_allowed sv (O_login u (clock 0) # h)" "uses_counted (O_login u (clock 0) # h) (ot_db s)"
    using o_login(3) by (simp_all add: oauth_ok_def db_ok_def requests_allowed_def uses_counted_def decides_def exchanges_def rotates_def)
  moreover have "rows_backed sha64 sv (O_login u (clock 0) # h) (ot_db s)"
    by (rule rows_grow [of h]) (use o_login(3) in \<open>auto simp: oauth_ok_def db_ok_def\<close>)
  moreover have "approvals_ok ttl (O_login u (clock 0) # h)" using approvals_grow [of ttl h "[O_login u (clock 0)]"] o_login(3) by (simp add: oauth_ok_def)
  moreover have "logins_back ttl (clock 3) (O_login u (clock 0) # h) m"
    using created_session [OF o_login(2) _ c(1,2)] o_login(3) by (simp add: oauth_ok_def)
  ultimately show ?case using o_login(3) by (simp add: oauth_ok_def db_ok_def)
next
  case (o_logout now h s t)
  have "set (sm_sessions (destroySession t (ot_sessions s))) \<subseteq> set (sm_sessions (ot_sessions s))" by (auto simp: destroySession_def AList.delete_eq)
  then show ?case using o_logout logins_grow [of ttl now h "ot_sessions s" h now] by (simp add: oauth_ok_def destroySession_def)
next
  case (o_authorize resolve s now uuid i db r h)
  have "effect sha64 sv now (ot_db s) (requested_event r) db" using authorize_effect [OF o_authorize(1)] o_authorize(2) by (simp add: oauth_ok_def)
  from plain_step_ok [OF o_authorize(2) this, of now "ot_sessions s"] show ?case by (simp add: requested_event_def split: sum.split)
next
  case (o_page now nonce i s db r h)
  have "effect sha64 sv now (ot_db s) (nonce_event sha i r) db" using nonce_effect [OF _ o_page(1)] o_page(2) by (simp add: oauth_ok_def db_ok_def)
  from plain_step_ok [OF o_page(2) this, of now "ot_sessions s"] show ?case by (simp add: nonce_event_def split: sum.split)
next
  case (o_decide now clock d token i nonce decision s s' r h)
  have c: "now \<le> clock 0" "clock 0 \<le> clock 1" "now \<le> clock 1" using o_decide(1) by (simp_all add: reads_def)
  have sv: "ot_service s = sv" and t: "tables_ok (ot_db s)" using o_decide(3) by (simp_all add: oauth_ok_def db_ok_def)
  show ?case using o_decide(2) t
  proof (cases rule: decide_cases [where ?sha64.0 = sha64])
    case (1 m)
    show ?thesis using plain_step_ok [OF o_decide(3) e_none _ c(3) 1(3,4)] unfolding 1(1,2) by simp
  next
    case (2 m us w db)
    let ?e = "O_approved (the i) (us_user_id us) w (sha (raw_code d)) (clock 0) (clock 1) (sha (the nonce)) (ot_identity s)"
    have ok: "db_ok sha64 sv h (ot_db s)" "approvals_ok ttl h" "logins_back ttl now h (ot_sessions s)" using o_decide(3) by (simp_all add: oauth_ok_def)
    have "db_ok sha64 sv (?e # h) db" using effect_db_ok [OF 2(5) [unfolded sv] ok(1)] unfolding 2(4) by simp
    moreover have "approvals_ok ttl (?e # h)"
    proof -
      have "\<exists>t0. O_login (us_user_id us) t0 \<in> set h \<and> t0 \<le> clock 0 \<and> clock 0 \<le> t0 + ttl" by (rule consent_session [OF 2(3) ok(3) c(1)])
      then show ?thesis using ok(2) 2(2) c(2) unfolding approvals_ok_def by (auto; blast)
    qed
    moreover have "logins_back ttl (clock 1) (?e # h) m" using logins_grow [OF ok(3) _ c(3) 2(6,7), of "?e # h"] by auto
    ultimately show ?thesis using sv unfolding 2(1,4) by (simp add: oauth_ok_def)
  next
    case (3 m db)
    show ?thesis using plain_step_ok [OF o_decide(3) 3(3) [unfolded sv] _ c(3) 3(4,5)] unfolding 3(1,2) by simp
  qed
next
  case (o_token now d form s s' r h)
  have sv: "ot_service s = sv" and t: "tables_ok (ot_db s)" using o_token(3) by (simp_all add: oauth_ok_def db_ok_def)
  have none: "O_approved i u w dg st t x b \<notin> set (grant_event sha now d form r)" for i u w dg st t x b by (simp add: grant_event_def split: oauth_token_response.split)
  show ?case using o_token(1) t o_token(2)
  proof (cases rule: token_cases_oauth [where ?sha64.0 = sha64])
    case (1 db c st)
    show ?thesis using plain_step_ok [OF o_token(3) 1(5) [unfolded sv] none order_refl order_refl refl] unfolding 1(1) by simp
  next
    case (2 db a)
    show ?thesis using plain_step_ok [OF o_token(3) 2(3) [unfolded sv] none order_refl order_refl refl] unfolding 2(1) by simp
  qed
qed (simp_all add: oauth_ok_def logins_back_def)

section \<open>What never comes back\<close>

text \<open>Time moves forward, the history grows, access tokens are kept and dead families stay dead.\<close>

definition oauth_later :: "oauth_flow \<Rightarrow> oauth_flow \<Rightarrow> bool" where
  "oauth_later f f' \<longleftrightarrow> fst f \<le> fst f' \<and> set (fst (snd f)) \<subseteq> set (fst (snd f'))
     \<and> set (od_access (ot_db (snd (snd f)))) \<subseteq> set (od_access (ot_db (snd (snd f'))))
     \<and> (\<forall>fam. family_dead fam (ot_db (snd (snd f))) \<longrightarrow> family_dead fam (ot_db (snd (snd f'))))"

lemma effect_later:
  "effect sha64 sv t0 (ot_db s) evs (ot_db s') \<Longrightarrow> now \<le> now' \<Longrightarrow> oauth_later (now, h, s) (now', evs @ h, s')"
  by (auto simp: oauth_later_def effect_dead dest: effect_access_kept)

lemma oauth_step_later: "oauth_step sha sha64 url f f' \<Longrightarrow> oauth_ok sha64 sv ttl f \<Longrightarrow> oauth_later f f'"
proof (induction rule: oauth_step.induct)
  case (o_authorize resolve s now uuid i db r h)
  show ?case using authorize_effect [OF o_authorize(1), of sha64] effect_later [of sha64 "ot_service s" now s _ "s\<lparr>ot_db := db\<rparr>"] by simp
next
  case (o_page now nonce i s db r h)
  have "effect sha64 sv now (ot_db s) (nonce_event sha i r) db" using nonce_effect [OF _ o_page(1)] o_page(2) by (simp add: oauth_ok_def db_ok_def)
  then show ?case using effect_later [of sha64 sv now s _ "s\<lparr>ot_db := db\<rparr>"] by simp
next
  case (o_decide now clock d token i nonce decision s s' r h)
  have c: "now \<le> clock 1" using o_decide(1) by (simp add: reads_def)
  have t: "tables_ok (ot_db s)" using o_decide(3) by (simp add: oauth_ok_def db_ok_def)
  have "effect sha64 (ot_service s) (clock 1) (ot_db s) (consent_event sha clock d token i nonce decision s) (ot_db s')"
    using o_decide(2) t by (cases rule: decide_cases [where ?sha64.0 = sha64]) (simp_all add: e_none)
  then show ?case using c by (rule effect_later)
next
  case (o_token now d form s s' r h)
  have t: "tables_ok (ot_db s)" using o_token(3) by (simp add: oauth_ok_def db_ok_def)
  have "effect sha64 (ot_service s) now (ot_db s) (grant_event sha now d form r) (ot_db s')"
    using o_token(1) t o_token(2) by (cases rule: token_cases_oauth [where ?sha64.0 = sha64]) simp_all
  then show ?case by (rule effect_later) simp
qed (auto simp: oauth_later_def reads_def)

interpretation oauth: monotone_by "oauth_step sha sha64 url" "oauth_ok sha64 sv ttl" oauth_later
proof unfold_locales
  show "oauth_later f f'" if "oauth_ok sha64 sv ttl f" "oauth_step sha sha64 url f f'" for f f' by (rule oauth_step_later [OF that(2,1)])
qed (auto intro: oauth_step_ok simp: oauth_later_def)

lemmas oauth_reachable_ok = oauth.inv_star [OF _ start_ok]

end
