(* ===== verification/OAuth_Properties.thy ===== *)
theory OAuth_Properties
  imports OAuth_Protocol
begin

text \<open>
  What the OAuth protocol promises: tokens rest on consent, every grant is used once, a replay ends its family, an
  access token lasts until it expires, and an undisturbed flow ends with a valid token. A sample run shows that the
  hypotheses can hold.
\<close>

section \<open>A sample run\<close>

text \<open>A server, a client with one redirect URI, and a user who owns one workspace; the digests are the identity.\<close>

definition sample_sv :: oauth_service where "sample_sv = newOAuthService ''https://ceo/'' None None None None"

definition sample_url :: "string \<Rightarrow> url_parts option" where
  "sample_url u = (if u = ''https://ceo/mcp''
     then Some \<lparr>up_protocol = ''https:'', up_origin = ''https://ceo'', up_hostname = ''ceo'', up_pathname = ''/mcp'', up_search = [], up_hash = [], up_username = [], up_password = []\<rparr>
     else if u = ''https://app/cb''
     then Some \<lparr>up_protocol = ''https:'', up_origin = ''https://app'', up_hostname = ''app'', up_pathname = ''/cb'', up_search = [], up_hash = [], up_username = [], up_password = []\<rparr>
     else None)"

definition sample_client :: client_metadata where
  "sample_client = \<lparr>cm_client_id = ''https://app/client'', cm_client_name = ''App'', cm_redirect_uris = [''https://app/cb''], cm_grant_types = None,
     cm_response_types = None, cm_token_endpoint_auth_method = None, cm_auth_methods_supported = [], cm_jwks_uri = None, cm_scope = None,
     cm_logo_uri = None, cm_client_uri = None\<rparr>"

definition sample_resolve :: "string \<Rightarrow> resolution_error + client_metadata" where
  "sample_resolve c = (if c = ''https://app/client'' then Inr sample_client
     else Inl Resolution_invalid_client)"

definition sample_identity :: identity_db where
  "sample_identity = \<lparr>ib_control = \<lparr>users = [\<lparr>u_id = ''u1'', u_disabled_at = None\<rparr>], workspaces = [''w1''],
       memberships = [\<lparr>m_workspace_id = ''w1'', m_user_id = ''u1'', m_role = ''owner''\<rparr>], repo_bindings = [], devices = [],
       credentials = [], targets = [], bindings = [], defaults = []\<rparr>,
     ib_scope_verified = [], ib_bootstraps = []\<rparr>"

definition sample_request :: authorize_input where
  "sample_request = \<lparr>zi_client_id = ''https://app/client'', zi_redirect_uri = ''https://app/cb'', zi_response_type = ''code'',
     zi_scope = Some ''mcp  offline_access'', zi_state = Some ''st'', zi_code_challenge = ''secret'', zi_code_challenge_method = ''S256'',
     zi_resource = Some ''https://ceo/mcp''\<rparr>"

definition sample_code_draw :: code_draw where "sample_code_draw = \<lparr>cd_secret = ''c1'', cd_uuid = ''c1''\<rparr>"

definition sample_draw :: "string \<Rightarrow> token_draw" where
  "sample_draw n = \<lparr>td_access_secret = n, td_access_uuid = n, td_refresh_secret = n, td_refresh_uuid = n, td_family_uuid = n\<rparr>"

definition code_form :: "string \<rightharpoonup> string" where
  "code_form = [''grant_type'' \<mapsto> ''authorization_code'', ''client_id'' \<mapsto> ''https://app/client'', ''redirect_uri'' \<mapsto> ''https://app/cb'',
     ''code'' \<mapsto> ''oac_c1'', ''code_verifier'' \<mapsto> ''secret'', ''resource'' \<mapsto> ''https://ceo/mcp'']"

definition refresh_form :: "string \<rightharpoonup> string" where
  "refresh_form = [''grant_type'' \<mapsto> ''refresh_token'', ''client_id'' \<mapsto> ''https://app/client'', ''refresh_token'' \<mapsto> ''ceo_rt_1'',
     ''scope'' \<mapsto> ''mcp'', ''resource'' \<mapsto> ''https://ceo/mcp'']"

definition sample_start :: oauth_state where "sample_start = oauth_start sample_sv 1000 sample_identity"
definition sample_login :: oauth_state where
  "sample_login = sample_start\<lparr>ot_sessions := fst (createSession ''sid'' (\<lambda>_. 10) ''u1'' ''github'' ''1'' None (ot_sessions sample_start))\<rparr>"
definition sample_asked :: oauth_state where
  "sample_asked = sample_login\<lparr>ot_db := fst (initiateAuthorizationRequest sample_url sample_resolve (ot_service sample_login) 10 ''r1'' sample_request (ot_db sample_login))\<rparr>"
definition sample_shown :: oauth_state where
  "sample_shown = sample_asked\<lparr>ot_db := fst (createConsentNonce (\<lambda>x. x) 10 ''n1'' ''oar_r1'' (ot_db sample_asked))\<rparr>"
definition sample_approved :: oauth_state where
  "sample_approved = fst (oauth_decision_route (\<lambda>x. x) sample_url (\<lambda>_. 20) sample_code_draw (Some ''sid'') (Some ''oar_r1'') (Some ''n1'') (Some ''approve'') sample_shown)"
definition sample_granted :: oauth_state where
  "sample_granted = fst (oauth_token_route (\<lambda>x. x) (\<lambda>x. x) sample_url 20 (sample_draw ''1'') code_form sample_approved)"
definition sample_rotated :: oauth_state where
  "sample_rotated = fst (oauth_token_route (\<lambda>x. x) (\<lambda>x. x) sample_url 20 (sample_draw ''2'') refresh_form sample_granted)"

definition sample_history :: "oauth_event list" where
  "sample_history =
     grant_event (\<lambda>x. x) 20 (sample_draw ''1'') code_form (snd (oauth_token_route (\<lambda>x. x) (\<lambda>x. x) sample_url 20 (sample_draw ''1'') code_form sample_approved))
     @ consent_event (\<lambda>x. x) (\<lambda>_. 20) sample_code_draw (Some ''sid'') (Some ''oar_r1'') (Some ''n1'') (Some ''approve'') sample_shown
     @ nonce_event (\<lambda>x. x) ''oar_r1'' (snd (createConsentNonce (\<lambda>x. x) 10 ''n1'' ''oar_r1'' (ot_db sample_asked)))
     @ requested_event (snd (initiateAuthorizationRequest sample_url sample_resolve (ot_service sample_login) 10 ''r1'' sample_request (ot_db sample_login)))
     @ [O_login ''u1'' 10]"

definition rotated_history :: "oauth_event list" where
  "rotated_history = grant_event (\<lambda>x. x) 20 (sample_draw ''2'') refresh_form
     (snd (oauth_token_route (\<lambda>x. x) (\<lambda>x. x) sample_url 20 (sample_draw ''2'') refresh_form sample_granted)) @ sample_history"

abbreviation sample_step :: "oauth_flow \<Rightarrow> oauth_flow \<Rightarrow> bool" where
  "sample_step \<equiv> oauth_step (\<lambda>x. x) (\<lambda>x. x) sample_url"

lemma sample_reach_granted: "sample_step\<^sup>*\<^sup>* (0, [], sample_start) (20, sample_history, sample_granted)"
proof -
  have s0: "sample_step (0, [], sample_start) (10, [O_login ''u1'' 10], sample_login)"
    unfolding sample_login_def using o_login [OF _ prod.collapse [symmetric], where clock = "\<lambda>_. 10" and h = "[]" and now = 0 and sid = "''sid''" and u = "''u1''"
      and p = "''github''" and sub = "''1''" and l = None and s = sample_start] by (simp add: reads_def)
  have s1: "sample_step (10, h, sample_login) (10, requested_event (snd (initiateAuthorizationRequest sample_url sample_resolve (ot_service sample_login) 10 ''r1''
      sample_request (ot_db sample_login))) @ h, sample_asked)" for h
    unfolding sample_asked_def by (rule o_authorize [OF prod.collapse [symmetric]])
  have s2: "sample_step (10, h, sample_asked) (10, nonce_event (\<lambda>x. x) ''oar_r1'' (snd (createConsentNonce (\<lambda>x. x) 10 ''n1'' ''oar_r1'' (ot_db sample_asked))) @ h,
      sample_shown)" for h
    unfolding sample_shown_def by (rule o_page [OF prod.collapse [symmetric]])
  have s3: "sample_step (10, h, sample_shown) (20, consent_event (\<lambda>x. x) (\<lambda>_. 20) sample_code_draw (Some ''sid'') (Some ''oar_r1'') (Some ''n1'') (Some ''approve'') sample_shown @ h,
      sample_approved)" for h
    unfolding sample_approved_def using o_decide [OF _ prod.collapse [symmetric], where clock = "\<lambda>_. 20" and now = 10] by (simp add: reads_def)
  have "unused_family (family_of (sample_draw ''1'')) (ot_db sample_approved)" by code_simp
  from o_token [OF prod.collapse [symmetric] this]
  have s4: "sample_step (20, h, sample_approved) (20, grant_event (\<lambda>x. x) 20 (sample_draw ''1'') code_form (snd (oauth_token_route (\<lambda>x. x) (\<lambda>x. x) sample_url 20
      (sample_draw ''1'') code_form sample_approved)) @ h, sample_granted)" for h
    unfolding sample_granted_def .
  note run = rtranclp.rtrancl_into_rtrancl [where r = sample_step]
  show ?thesis unfolding sample_history_def
    by (rule run [OF run [OF run [OF run [OF run [OF rtranclp.rtrancl_refl s0] s1] s2] s3] s4])
qed

lemma sample_reach_rotated: "sample_step\<^sup>*\<^sup>* (0, [], sample_start) (20, rotated_history, sample_rotated)"
proof -
  have "unused_family (family_of (sample_draw ''2'')) (ot_db sample_granted)" by code_simp
  from o_token [OF prod.collapse [symmetric] this]
  have "sample_step (20, sample_history, sample_granted) (20, rotated_history, sample_rotated)" unfolding rotated_history_def sample_rotated_def .
  then show ?thesis using sample_reach_granted by (rule rtranclp.rtrancl_into_rtrancl [rotated])
qed

lemma sample_accepted:
  "validateAccessToken (\<lambda>x. x) sample_sv 20 (ot_identity sample_rotated) ''ceo_at_1'' (ot_db sample_rotated)
     = Inr \<lparr>gv_user_id = ''u1'', gv_workspace_id = ''w1'', gv_scope = ''mcp offline_access'', gv_resource = ''https://ceo/mcp''\<rparr>"
  by code_simp

section \<open>Tokens rest on consent\<close>

lemma stored_access:
  assumes "db_ok sha64 sv h db" "findAccessTokenByDigest db d = Some a"
  shows "access_backed sha64 sv h a"
  using assms find_SomeD [of _ "od_access db" a] by (fastforce simp: db_ok_def rows_backed_def findAccessTokenByDigest_def)

lemma mcp_word: "''mcp'' \<in> set (js_split_ws s) \<Longrightarrow> ''mcp'' \<in> set (js_words s)"
  by (simp add: js_words_def)

lemma validateD:
  assumes "validateAccessToken sha sv now b token db = Inr g"
  obtains a where "findAccessTokenByDigest db (sha token) = Some a" "at_expires_at_ms a > now" "at_resource a = canonicalResource sv"
    "''mcp'' \<in> set (js_words (at_scope a))" "isUserActive b (at_user_id a)" "hasWorkspaceAccess b (at_workspace_id a) (at_user_id a)"
    "g = \<lparr>gv_user_id = at_user_id a, gv_workspace_id = at_workspace_id a, gv_scope = at_scope a, gv_resource = at_resource a\<rparr>"
  using assms mcp_word by (auto simp: validateAccessToken_def split: option.splits if_splits)

text \<open>C21. An access token is accepted only for an active owner of its workspace, and only if that user, in a live session and with the
  workspace being their only one and ready, approved an unexpired request that was shown to somebody with a nonce, and if the code of that
  approval was exchanged in time with a verifier of the PKCE challenge of the request. The scope was never extended and contains mcp.\<close>

theorem access_needs_consent:
  assumes run: "(oauth_step sha sha64 url)\<^sup>*\<^sup>* (start, [], oauth_start sv ttl b0) (now, h, s)"
    and valid: "validateAccessToken sha sv now (ot_identity s) token (ot_db s) = Inr g"
  shows "isUserActive (ot_identity s) (gv_user_id g) \<and> hasWorkspaceAccess (ot_identity s) (gv_workspace_id g) (gv_user_id g)
    \<and> gv_resource g = canonicalResource sv \<and> ''mcp'' \<in> set (js_words (gv_scope g))
    \<and> (\<exists>r d st t x b v fam t' t0.
         O_requested r \<in> set h \<and> O_page (oq_id r) x \<in> set h
         \<and> O_approved (oq_id r) (gv_user_id g) (gv_workspace_id g) d st t x b \<in> set h \<and> O_exchanged d v fam t' \<in> set h
         \<and> O_login (gv_user_id g) t0 \<in> set h \<and> t0 \<le> st \<and> st \<le> t0 + ttl \<and> consent_workspace b (gv_user_id g) = Inr (gv_workspace_id g)
         \<and> sha64 v = oq_code_challenge r \<and> oq_resource r = canonicalResource sv
         \<and> set (js_words (gv_scope g)) \<subseteq> set (js_words (oq_scope r)) \<and> set (js_words (oq_scope r)) \<subseteq> set allowed_scopes
         \<and> t < oq_expires_at_ms r \<and> t' < t + sv_auth_code_ttl_ms sv)"
proof -
  have "oauth_ok sha64 sv ttl (now, h, s)" by (rule oauth_reachable_ok [OF run])
  then have ok: "db_ok sha64 sv h (ot_db s)" "approvals_ok ttl h" by (simp_all add: oauth_ok_def)
  from valid obtain a where a: "findAccessTokenByDigest (ot_db s) (sha token) = Some a" "at_resource a = canonicalResource sv"
    "''mcp'' \<in> set (js_words (at_scope a))" "isUserActive (ot_identity s) (at_user_id a)"
    "hasWorkspaceAccess (ot_identity s) (at_workspace_id a) (at_user_id a)"
    "g = \<lparr>gv_user_id = at_user_id a, gv_workspace_id = at_workspace_id a, gv_scope = at_scope a, gv_resource = at_resource a\<rparr>"
    by (rule validateD)
  obtain fam where "grant_chain sha64 sv h (at_client_id a) (at_user_id a) (at_workspace_id a) (at_resource a) (at_scope a) fam"
    using stored_access [OF ok(1) a(1)] by (auto simp: access_backed_def)
  then obtain r d st t x b v t' where c: "O_requested r \<in> set h" "O_page (oq_id r) x \<in> set h"
    "O_approved (oq_id r) (at_user_id a) (at_workspace_id a) d st t x b \<in> set h" "O_exchanged d v fam t' \<in> set h"
    "set (js_words (at_scope a)) \<subseteq> set (js_words (oq_scope r))" "sha64 v = oq_code_challenge r" "t < oq_expires_at_ms r"
    "t' < t + sv_auth_code_ttl_ms sv"
    unfolding grant_chain_def by blast
  moreover obtain t0 where "O_login (at_user_id a) t0 \<in> set h" "t0 \<le> st" "st \<le> t0 + ttl" "consent_workspace b (at_user_id a) = Inr (at_workspace_id a)"
    using ok(2) c(3) unfolding approvals_ok_def by blast
  moreover have "set (js_words (oq_scope r)) \<subseteq> set allowed_scopes" "oq_resource r = canonicalResource sv"
    using ok(1) c(1) by (auto simp: db_ok_def requests_allowed_def)
  ultimately show ?thesis using a(2,3,4,5) unfolding a(6) grant_view.select_convs by blast
qed

theorem access_needs_consent_witness:
  "''mcp'' \<in> set (js_words ''mcp offline_access'') \<and> (\<exists>r. O_requested r \<in> set rotated_history)"
  using access_needs_consent [OF sample_reach_rotated [unfolded sample_start_def] sample_accepted] by auto

text \<open>C23. Whatever clients do, a request is decided at most once, a code is exchanged at most once, a refresh token is rotated at most
  once, and of the refresh tokens of a family at most one can still be used.\<close>

theorem grants_are_used_once:
  assumes run: "(oauth_step sha sha64 url)\<^sup>*\<^sup>* (start, [], oauth_start sv ttl b0) (now, h, s)"
  shows "uses_of (decides i) h \<le> 1 \<and> uses_of (exchanges d) h \<le> 1 \<and> uses_of (rotates d) h \<le> 1
    \<and> (\<forall>t \<in> set (od_refresh (ot_db s)). \<forall>t' \<in> set (od_refresh (ot_db s)). live t \<longrightarrow> live t' \<longrightarrow> rt_family_id t = rt_family_id t' \<longrightarrow> t = t')"
proof -
  have "oauth_ok sha64 sv ttl (now, h, s)" by (rule oauth_reachable_ok [OF run])
  then have ok: "tables_ok (ot_db s)" "uses_counted h (ot_db s)" "one_live_each (ot_db s)" by (simp_all add: oauth_ok_def db_ok_def)
  note u = ok(2) [unfolded uses_counted_def]
  have "uses_of (decides i) h \<le> 1" unfolding u [THEN conjunct1, rule_format]
    by (rule times_key_unique [of oq_id]) (use ok(1) in \<open>simp add: tables_ok_def\<close>)
  moreover have "uses_of (exchanges d) h \<le> 1" unfolding u [THEN conjunct2, THEN conjunct1, rule_format]
    by (rule times_key_unique [of oc_code_digest]) (use ok(1) in \<open>simp add: tables_ok_def\<close>)
  moreover have "uses_of (rotates d) h \<le> 1" unfolding u [THEN conjunct2, THEN conjunct2, rule_format]
    by (rule times_key_unique [of rt_token_digest]) (use ok(1) in \<open>simp add: tables_ok_def\<close>)
  ultimately show ?thesis using ok(3) unfolding one_live_each_def by blast
qed

lemma sample_rotates: "O_rotated ''ceo_rt_1'' 20 \<in> set rotated_history"
  by code_simp

theorem grants_are_used_once_witness:
  "uses_of (rotates ''ceo_rt_1'') rotated_history \<le> 1 \<and> O_rotated ''ceo_rt_1'' 20 \<in> set rotated_history"
  using grants_are_used_once [OF sample_reach_rotated [unfolded sample_start_def], of _ "''ceo_rt_1''"] sample_rotates by blast

section \<open>A replay ends its family\<close>

definition refresh_of :: "(string \<rightharpoonup> string) \<Rightarrow> string \<Rightarrow> bool" where
  "refresh_of form token \<longleftrightarrow> form ''grant_type'' = Some ''refresh_token'' \<and> form ''refresh_token'' = Some token"

lemma refresh_route:
  assumes "refresh_of form token" "oauth_token_route sha sha64 url now d form s = (s', r)"
  obtains db q where "refreshTokens sha url (ot_service s) now d (ot_identity s) \<lparr>fi_client_id = form ''client_id'', fi_refresh_token = Some token,
      fi_scope = form ''scope'', fi_resource = form ''resource''\<rparr> (ot_db s) = (db, q)" "s' = s\<lparr>ot_db := db\<rparr>" "r = token_response_of q"
  using assms by (auto simp: refresh_of_def oauth_token_route_def split: prod.splits)

lemma dead_refused:
  assumes "refresh_of form token" "findRefreshTokenByDigest (ot_db s) (sha token) = Some t" "rt_revoked_at_ms t \<noteq> None"
    and "oauth_token_route sha sha64 url now d form s = (s', r)"
  shows "\<exists>c. r = TokenRefused c 400"
proof -
  obtain db q where q: "refreshTokens sha url (ot_service s) now d (ot_identity s) \<lparr>fi_client_id = form ''client_id'', fi_refresh_token = Some token,
      fi_scope = form ''scope'', fi_resource = form ''resource''\<rparr> (ot_db s) = (db, q)" "r = token_response_of q"
    using assms(1,4) by (rule refresh_route)
  have "\<exists>c. q = Inl (OAuthServerError c 400)" using q(1) assms(2,3)
    by (auto simp: refreshTokens_def invalid_grant_def split: if_splits)
  then show ?thesis using q(2) by (auto simp: token_response_of_def refused_def)
qed

text \<open>C22. Presenting a refresh token that was already used is refused and ends its family: from then on no refresh token of the family,
  however it came to be, is accepted again, whatever happens in between.\<close>

theorem replay_ends_family:
  assumes run: "(oauth_step sha sha64 url)\<^sup>*\<^sup>* (start, [], oauth_start sv ttl b0) (now, h, s)"
    and used: "findRefreshTokenByDigest (ot_db s) (sha token) = Some t" "rt_consumed_at_ms t \<noteq> None"
    and replay: "refresh_of form token" "token \<noteq> []" "given (form ''client_id'')" "oauth_token_route sha sha64 url now d form s = (s1, r)"
    and later: "(oauth_step sha sha64 url)\<^sup>*\<^sup>* (now, h, s1) (now2, h2, s2)"
    and next_use: "findRefreshTokenByDigest (ot_db s2) (sha token2) = Some t2" "rt_family_id t2 = rt_family_id t"
      "refresh_of form2 token2" "oauth_token_route sha sha64 url now2 d2 form2 s2 = (s3, r2)"
  shows "r = TokenRefused ''invalid_grant'' 400 \<and> (\<exists>c. r2 = TokenRefused c 400)"
proof -
  have ok: "oauth_ok sha64 sv ttl (now, h, s)" by (rule oauth_reachable_ok [OF run])
  let ?db = "revokeRefreshTokenFamily (rt_family_id t) now (ot_db s)"
  obtain db q where q: "refreshTokens sha url (ot_service s) now d (ot_identity s) \<lparr>fi_client_id = form ''client_id'', fi_refresh_token = Some token,
      fi_scope = form ''scope'', fi_resource = form ''resource''\<rparr> (ot_db s) = (db, q)" "s1 = s\<lparr>ot_db := db\<rparr>" "r = token_response_of q"
    using replay(1,4) by (rule refresh_route)
  have "given (Some token)" using replay(2) by (simp add: given_def)
  then have "db = ?db \<and> q = Inl invalid_grant" using q(1) used replay(3) by (simp add: refreshTokens_def)
  then have s1: "s1 = s\<lparr>ot_db := ?db\<rparr>" "r = TokenRefused ''invalid_grant'' 400"
    using q(2,3) by (simp_all add: token_response_of_def refused_def invalid_grant_def)
  have ok1: "oauth_ok sha64 sv ttl (now, h, s1)"
    using plain_step_ok [OF ok e_revoke, of now "ot_sessions s"] by (simp add: s1(1))
  have "t \<in> set (od_refresh (ot_db s))" using find_SomeD used(1) by (fastforce simp: findRefreshTokenByDigest_def)
  then have "family_dead (rt_family_id t) (ot_db s1)" using revoked_dead by (simp add: s1(1))
  then have "family_dead (rt_family_id t) (ot_db s2)" using oauth.le_star [OF later ok1] by (simp add: oauth_later_def)
  moreover have "t2 \<in> set (od_refresh (ot_db s2))" using find_SomeD next_use(1) by (fastforce simp: findRefreshTokenByDigest_def)
  ultimately have "rt_revoked_at_ms t2 \<noteq> None" using next_use(2) unfolding family_dead_def by blast
  then show ?thesis using s1(2) dead_refused [where s = s2 and sha = sha and url = url, OF next_use(3,1) _ next_use(4)] by blast
qed

definition sample_replayed :: oauth_state where
  "sample_replayed = fst (oauth_token_route (\<lambda>x. x) (\<lambda>x. x) sample_url 20 (sample_draw ''3'') refresh_form sample_rotated)"

definition second_form :: "string \<rightharpoonup> string" where "second_form = refresh_form(''refresh_token'' \<mapsto> ''ceo_rt_2'')"

definition row_of :: "oauth_state \<Rightarrow> string \<Rightarrow> refresh_token" where
  "row_of s token = the (findRefreshTokenByDigest (ot_db s) token)"

lemma sample_rows:
  "findRefreshTokenByDigest (ot_db sample_rotated) ''ceo_rt_1'' = Some (row_of sample_rotated ''ceo_rt_1'')"
  "rt_consumed_at_ms (row_of sample_rotated ''ceo_rt_1'') = Some 20"
  "findRefreshTokenByDigest (ot_db sample_replayed) ''ceo_rt_2'' = Some (row_of sample_replayed ''ceo_rt_2'')"
  "rt_family_id (row_of sample_replayed ''ceo_rt_2'') = rt_family_id (row_of sample_rotated ''ceo_rt_1'')"
  "refresh_of refresh_form ''ceo_rt_1''" "refresh_of second_form ''ceo_rt_2''" "given (refresh_form ''client_id'')"
  by code_simp+

theorem replay_ends_family_witness:
  "\<exists>c. snd (oauth_token_route (\<lambda>x. x) (\<lambda>x. x) sample_url 20 (sample_draw ''4'') second_form sample_replayed) = TokenRefused c 400"
proof -
  have "oauth_token_route (\<lambda>x. x) (\<lambda>x. x) sample_url 20 (sample_draw ''3'') refresh_form sample_rotated
    = (sample_replayed, snd (oauth_token_route (\<lambda>x. x) (\<lambda>x. x) sample_url 20 (sample_draw ''3'') refresh_form sample_rotated))"
    by (simp add: sample_replayed_def)
  from replay_ends_family [OF sample_reach_rotated [unfolded sample_start_def] sample_rows(1) _ sample_rows(5) _ sample_rows(7) this rtranclp.rtrancl_refl
      sample_rows(3,4,6) prod.collapse [symmetric]]
  show ?thesis by (simp add: sample_rows(2))
qed

section \<open>Access tokens\<close>

text \<open>Nothing but the loss of the user or of the membership ends an access token before it expires: whatever happens after it was accepted,
  also a replay that ends the family of its refresh token, it is accepted again with the same rights.\<close>

theorem access_token_lasts:
  assumes run: "(oauth_step sha sha64 url)\<^sup>*\<^sup>* (start, [], oauth_start sv ttl b0) (now, h, s)"
    and valid: "validateAccessToken sha sv now (ot_identity s) token (ot_db s) = Inr g"
    and later: "(oauth_step sha sha64 url)\<^sup>*\<^sup>* (now, h, s) (now2, h2, s2)"
    and time: "findAccessTokenByDigest (ot_db s) (sha token) = Some a" "now2 < at_expires_at_ms a"
    and member: "isUserActive (ot_identity s2) (gv_user_id g)" "hasWorkspaceAccess (ot_identity s2) (gv_workspace_id g) (gv_user_id g)"
  shows "validateAccessToken sha sv now2 (ot_identity s2) token (ot_db s2) = Inr g"
proof -
  have ok: "oauth_ok sha64 sv ttl (now, h, s)" by (rule oauth_reachable_ok [OF run])
  have ok2: "oauth_ok sha64 sv ttl (now2, h2, s2)" by (rule oauth.inv_star [OF later ok])
  have kept: "set (od_access (ot_db s)) \<subseteq> set (od_access (ot_db s2))" using oauth.le_star [OF later ok] by (simp add: oauth_later_def)
  have a: "a \<in> set (od_access (ot_db s2))" "at_token_digest a = sha token"
    using find_SomeD [OF time(1) [unfolded findAccessTokenByDigest_def]] kept by auto
  have d: "distinct (map at_token_digest (od_access (ot_db s2)))" and ab: "access_backed sha64 sv h2 a"
    using ok2 a(1) by (auto simp: oauth_ok_def db_ok_def tables_ok_def rows_backed_def)
  have "findAccessTokenByDigest (ot_db s2) (sha token) = Some a"
    using find_unique_row [OF d a(1)] a(2) by (simp add: findAccessTokenByDigest_def)
  moreover have "at_revoked_at_ms a = None" using ab by (simp add: access_backed_def)
  ultimately show ?thesis using valid time member unfolding validateAccessToken_def
    by (auto split: option.splits if_splits)
qed

lemma sample_access:
  "findAccessTokenByDigest (ot_db sample_rotated) ''ceo_at_2'' = Some (the (findAccessTokenByDigest (ot_db sample_rotated) ''ceo_at_2''))"
  "20 < at_expires_at_ms (the (findAccessTokenByDigest (ot_db sample_rotated) ''ceo_at_2''))"
  "isUserActive (ot_identity sample_replayed) ''u1''" "hasWorkspaceAccess (ot_identity sample_replayed) ''w1'' ''u1''"
  "validateAccessToken (\<lambda>x. x) sample_sv 20 (ot_identity sample_rotated) ''ceo_at_2'' (ot_db sample_rotated)
     = Inr \<lparr>gv_user_id = ''u1'', gv_workspace_id = ''w1'', gv_scope = ''mcp'', gv_resource = ''https://ceo/mcp''\<rparr>"
  by code_simp+

lemma sample_replay_step: "\<exists>h. sample_step (20, rotated_history, sample_rotated) (20, h, sample_replayed)"
proof -
  have "unused_family (family_of (sample_draw ''3'')) (ot_db sample_rotated)" by code_simp
  from o_token [OF prod.collapse [symmetric] this] show ?thesis unfolding sample_replayed_def by blast
qed

text \<open>The access token of the second pair is accepted after a replay of the first refresh token has ended the family.\<close>

theorem access_token_lasts_witness:
  "validateAccessToken (\<lambda>x. x) sample_sv 20 (ot_identity sample_replayed) ''ceo_at_2'' (ot_db sample_replayed)
     = Inr \<lparr>gv_user_id = ''u1'', gv_workspace_id = ''w1'', gv_scope = ''mcp'', gv_resource = ''https://ceo/mcp''\<rparr>"
proof -
  obtain h where "sample_step (20, rotated_history, sample_rotated) (20, h, sample_replayed)" using sample_replay_step by blast
  from access_token_lasts [OF sample_reach_rotated [unfolded sample_start_def] sample_access(5) r_into_rtranclp [where r = sample_step, OF this] sample_access(1,2)]
  show ?thesis using sample_access(3,4) by simp
qed

section \<open>An undisturbed flow\<close>

lemma initiated:
  assumes "initiateAuthorizationRequest url resolve sv now uuid i db = (db1, Inr (q, m))"
  shows "db1 = db\<lparr>od_requests := od_requests db @ [q]\<rparr>" "oq_id q \<notin> oq_id ` set (od_requests db)" "oq_decision q = None"
    "oq_resource q = canonicalResource sv" "''mcp'' \<in> set (js_words (oq_scope q))"
proof -
  obtain p where p: "check_authorize url resolve sv now uuid i = Inr (p, m)" "createAuthorizationRequest p db = (db1, Inr ())"
    "OAuth_Store.getAuthorizationRequest db1 (ri_id p) = Some q"
    using assms by (auto simp: initiateAuthorizationRequest_def split: sum.splits option.splits prod.splits)
  have new: "ri_id p \<notin> oq_id ` set (od_requests db)" "db1 = db\<lparr>od_requests := od_requests db @ [pending_request p]\<rparr>"
    using create_effect [OF p(2)] by auto
  have "OAuth_Store.getAuthorizationRequest db1 (ri_id p) = Some (pending_request p)"
    unfolding getAuthorizationRequest_def new(2) using fresh_key [OF new(1)] by (auto intro!: find_appended)
  then have q: "q = pending_request p" using p(3) by simp
  show "db1 = db\<lparr>od_requests := od_requests db @ [q]\<rparr>" "oq_id q \<notin> oq_id ` set (od_requests db)" "oq_decision q = None"
    "oq_resource q = canonicalResource sv"
    using new q check_authorizeD(2) [OF p(1)] by (simp_all add: pending_request_def)
  have "''mcp'' \<in> set (requested_scopes (zi_scope i))" "ri_scope p = join_words (requested_scopes (zi_scope i))"
    using p(1) by (auto simp: check_authorize_def ebind_eq_Inr Let_def split: if_splits)
  then show "''mcp'' \<in> set (js_words (oq_scope q))" using q by (simp add: requested_words)
qed

lemma nonce_set:
  assumes "tables_ok db" "r \<in> set (od_requests db)" "oq_decision r = None" "now < oq_expires_at_ms r"
  shows "createConsentNonce sha now nonce (oq_id r) db
    = (db\<lparr>od_requests := replace_row r (r\<lparr>oq_consent_nonce_digest := Some (sha nonce)\<rparr>) (od_requests db)\<rparr>, Inr nonce)"
proof -
  let ?p = "\<lambda>x. oq_id x = oq_id r \<and> oq_decision x = None \<and> oq_expires_at_ms x > now"
  have "update_rows ?p f (od_requests db) = replace_row r (f r) (od_requests db)" "row_changes ?p (od_requests db) = 1" for f
    by (rule request_update [OF assms(1), of r]; use assms in auto)+
  then show ?thesis by (simp add: createConsentNonce_def setConsentNonceDigest_def Let_def)
qed

lemma find_by_key: "distinct (map k xs) \<Longrightarrow> r \<in> set xs \<Longrightarrow> p r \<Longrightarrow> find (\<lambda>x. k x = k r \<and> p x) xs = Some r"
  by (induction xs) (auto split: if_splits)

lemma approval_given:
  assumes "tables_ok db" "r \<in> set (od_requests db)" "oq_decision r = None" "now < oq_expires_at_ms r" "oq_consent_nonce_digest r = Some (sha nonce)" "sha nonce \<noteq> []"
    and "consent_workspace b u = Inr w" "''cd_'' @ cd_uuid d \<notin> oc_id ` set (od_codes db)" "sha (raw_code d) \<notin> oc_code_digest ` set (od_codes db)"
  obtains db' c where "approveConsent sha sv now d b (oq_id r) nonce u db
      = (db', Inr \<lparr>ca_code = raw_code d, ca_redirect_uri = oq_redirect_uri r, ca_state = oq_state r\<rparr>)"
    "c = issued_code (approval_of sha sv now d (oq_id r) nonce u w) r" "od_codes db' = od_codes db @ [c]" "od_access db' = od_access db" "od_refresh db' = od_refresh db"
    "tables_ok db'"
proof -
  let ?i = "approval_of sha sv now d (oq_id r) nonce u w"
  let ?p = "\<lambda>x. oq_id x = oq_id r \<and> oq_decision x = None"
  let ?f = "\<lambda>x. x\<lparr>oq_decision := Some OD_approved, oq_user_id := Some u, oq_workspace_id := Some w\<rparr>"
  let ?db = "db\<lparr>od_requests := replace_row r (?f r) (od_requests db), od_codes := od_codes db @ [issued_code ?i r]\<rparr>"
  have d: "distinct (map oq_id (od_requests db))" using assms(1) by (simp add: tables_ok_def)
  have u: "update_rows ?p f (od_requests db) = replace_row r (f r) (od_requests db)" "row_changes ?p (od_requests db) = 1" for f
    by (rule request_update [OF assms(1), of r]; use assms(2,3) in auto)+
  have found: "undecided_request db (oq_id r) now = Some r"
    using find_by_key [OF d assms(2), of "\<lambda>x. oq_decision x = None \<and> oq_expires_at_ms x > now"] assms(3,4) by (simp add: undecided_request_def)
  have "approveConsentAndIssueCode ?i db = (?db, Inr (Some (issued_code ?i r)))"
    using found u assms(5,6,8,9) by (simp add: approveConsentAndIssueCode_def approval_of_def Let_def insert_code_def issued_code_def)
  moreover have "request_state ?db (oq_id r) = oq_state r"
  proof -
    have "find (\<lambda>x. oq_id x = oq_id (?f r)) (replace_row r (?f r) (od_requests db)) = Some (?f r)"
      by (rule find_unique_row) (use d assms(2) in simp_all)
    then show ?thesis by (simp add: request_state_def getAuthorizationRequest_def)
  qed
  ultimately have run: "approveConsent sha sv now d b (oq_id r) nonce u db
      = (?db, Inr \<lparr>ca_code = raw_code d, ca_redirect_uri = oq_redirect_uri r, ca_state = oq_state r\<rparr>)"
    using assms(7) by (simp add: approveConsent_def issued_code_def)
  have "tables_ok ?db" using assms(1,2,8,9) by (simp add: tables_ok_def issued_code_def approval_of_def)
  then show ?thesis using that [OF run refl] by simp
qed

lemma code_exchanged:
  assumes "tables_ok db" "c \<in> set (od_codes db)" "oc_consumed_at_ms c = None" "now < oc_expires_at_ms c"
    and "gi_code i = Some code" "sha code = oc_code_digest c" "gi_client_id i = Some (oc_client_id c)" "gi_redirect_uri i = Some (oc_redirect_uri c)"
    "gi_code_verifier i = Some v" "sha64 v = oc_code_challenge c" "code \<noteq> []" "v \<noteq> []" "oc_client_id c \<noteq> []" "oc_redirect_uri c \<noteq> []"
    and "validateCanonicalResource url (gi_resource i) (canonicalResource sv) = Inr (oc_resource c)"
    and "''at_'' @ td_access_uuid d \<notin> at_id ` set (od_access db)" "sha (raw_access d) \<notin> at_token_digest ` set (od_access db)"
    and "''rt_'' @ td_refresh_uuid d \<notin> rt_id ` set (od_refresh db)" "sha (raw_refresh d) \<notin> rt_token_digest ` set (od_refresh db)"
  obtains db' where "exchangeAuthorizationCode sha sha64 url sv now d i db = (db', Inr (token_answer_of sv d (oc_scope c)))"
    "od_access db' = od_access db @ [code_access_token (consumption_of sha sv now d (oc_resource c) i) c]"
proof -
  let ?i = "consumption_of sha sv now d (oc_resource c) i"
  let ?p = "\<lambda>x. oc_id x = oc_id c \<and> oc_consumed_at_ms x = None"
  have k: "distinct (map oc_id (od_codes db))" "distinct (map oc_code_digest (od_codes db))" using assms(1) by (simp_all add: tables_ok_def)
  have u: "update_rows ?p f (od_codes db) = replace_row c (f c) (od_codes db)" "row_changes ?p (od_codes db) = 1" for f
    by (rule update_unique_row [where k = oc_id, OF k(1) assms(2)]; use assms(3) in auto)+
  have "find_code db (ci_code_digest ?i) = Some c"
    using find_unique_row [OF k(2) assms(2)] assms(5,6) by (simp add: find_code_def consumption_of_def)
  moreover have "code_refusal sha64 ?i c = None" using assms(3,4,7,8,9,10) by (simp add: code_refusal_def consumption_of_def)
  moreover have "\<exists>db'. insert_tokens (code_access_token ?i c) (code_refresh_token ?i c) (db\<lparr>od_codes := X\<rparr>) = Some db'
      \<and> od_access db' = od_access db @ [code_access_token ?i c]" for X
    using assms(16,17,18,19) by (simp add: insert_tokens_def insert_access_def insert_refresh_def code_access_token_def code_refresh_token_def consumption_of_def)
  then obtain db' where db': "insert_tokens (code_access_token ?i c) (code_refresh_token ?i c)
      (db\<lparr>od_codes := update_rows ?p (\<lambda>r. r\<lparr>oc_consumed_at_ms := Some (ci_now_ms ?i)\<rparr>) (od_codes db)\<rparr>) = Some db'"
      "od_access db' = od_access db @ [code_access_token ?i c]" by blast
  ultimately have "consumeCodeAndIssueTokens sha64 ?i db = (db', Inr (Inr (c, code_access_token ?i c, code_refresh_token ?i c)))"
    using u(2) by (simp add: consumeCodeAndIssueTokens_def Let_def)
  then have "exchangeAuthorizationCode sha sha64 url sv now d i db = (db', Inr (token_answer_of sv d (oc_scope c)))"
    using assms(5,7,8,9,11,12,13,14,15) by (simp add: exchangeAuthorizationCode_def given_def)
  then show ?thesis using that db'(2) by blast
qed

text \<open>C24. An undisturbed flow succeeds: once a request was accepted, showing the page, approving in time by a user with one ready workspace, and
  exchanging the code in time with a verifier of the challenge and the parameters of the request answer with tokens of the requested scope,
  and the access token is accepted for this user and workspace as long as it lives.\<close>

theorem consent_flow_completes:
  assumes db: "tables_ok db"
    and ask: "initiateAuthorizationRequest url resolve sv t0 uuid i db = (db1, Inr (q, m))"
    and page: "createConsentNonce sha t1 nonce (oq_id q) db1 = (db2, r2)" "t1 < oq_expires_at_ms q"
    and approve: "approveConsent sha sv t2 cd b (oq_id q) nonce u db2 = (db3, r3)" "t2 < oq_expires_at_ms q" "consent_workspace b u = Inr w" "sha nonce \<noteq> []"
    and exchange: "exchangeAuthorizationCode sha sha64 url sv t3 td x db3 = (db4, r4)" "t3 < t2 + sv_auth_code_ttl_ms sv"
      "gi_code x = Some (raw_code cd)" "gi_client_id x = Some (oq_client_id q)" "gi_redirect_uri x = Some (oq_redirect_uri q)" "gi_code_verifier x = Some v"
      "sha64 v = oq_code_challenge q" "v \<noteq> []" "oq_client_id q \<noteq> []" "oq_redirect_uri q \<noteq> []"
      "validateCanonicalResource url (gi_resource x) (canonicalResource sv) = Inr (canonicalResource sv)"
    and fresh: "''cd_'' @ cd_uuid cd \<notin> oc_id ` set (od_codes db)" "sha (raw_code cd) \<notin> oc_code_digest ` set (od_codes db)"
      "''at_'' @ td_access_uuid td \<notin> at_id ` set (od_access db)" "sha (raw_access td) \<notin> at_token_digest ` set (od_access db)"
      "''rt_'' @ td_refresh_uuid td \<notin> rt_id ` set (od_refresh db)" "sha (raw_refresh td) \<notin> rt_token_digest ` set (od_refresh db)"
    and valid_use: "t4 < t3 + sv_access_token_ttl_ms sv" "isUserActive b' u" "hasWorkspaceAccess b' w u"
  shows "r2 = Inr nonce \<and> r3 = Inr \<lparr>ca_code = raw_code cd, ca_redirect_uri = oq_redirect_uri q, ca_state = oq_state q\<rparr>
    \<and> r4 = Inr (token_answer_of sv td (oq_scope q))
    \<and> validateAccessToken sha sv t4 b' (raw_access td) db4
        = Inr \<lparr>gv_user_id = u, gv_workspace_id = w, gv_scope = oq_scope q, gv_resource = canonicalResource sv\<rparr>"
proof -
  note q = initiated [OF ask]
  have db1: "tables_ok db1" using db q(1,2) by (simp add: tables_ok_def)
  have m: "q \<in> set (od_requests db1)" by (simp add: q(1))
  let ?q = "q\<lparr>oq_consent_nonce_digest := Some (sha nonce)\<rparr>"
  have r2: "db2 = db1\<lparr>od_requests := replace_row q ?q (od_requests db1)\<rparr>" "r2 = Inr nonce"
    using nonce_set [OF db1 m q(3) page(2), of sha nonce] page(1) by simp_all
  have db2: "tables_ok db2" using db1 by (simp add: r2(1) tables_ok_def)
  have m2: "?q \<in> set (od_requests db2)" using m by (simp add: r2(1))
  have rows: "od_codes db2 = od_codes db" "od_access db2 = od_access db" "od_refresh db2 = od_refresh db" by (simp_all add: r2(1) q(1))
  obtain c where c: "r3 = Inr \<lparr>ca_code = raw_code cd, ca_redirect_uri = oq_redirect_uri q, ca_state = oq_state q\<rparr>"
    "c = issued_code (approval_of sha sv t2 cd (oq_id ?q) nonce u w) ?q" "od_codes db3 = od_codes db @ [c]" "od_access db3 = od_access db"
    "od_refresh db3 = od_refresh db" "tables_ok db3"
    by (rule approval_given [where now = t2 and sv = sv and d = cd and sha = sha and nonce = nonce, OF db2 m2 _ _ _ approve(4,3)])
      (use q(3) approve(1,2) fresh(1,2) rows in auto)
  have cc: "oc_consumed_at_ms c = None" "oc_expires_at_ms c = t2 + sv_auth_code_ttl_ms sv" "oc_code_digest c = sha (raw_code cd)" "oc_client_id c = oq_client_id q"
    "oc_redirect_uri c = oq_redirect_uri q" "oc_code_challenge c = oq_code_challenge q" "oc_scope c = oq_scope q" "oc_user_id c = u" "oc_workspace_id c = w"
    "oc_resource c = canonicalResource sv"
    using q(4) by (simp_all add: c(2) issued_code_def approval_of_def)
  let ?a = "code_access_token (consumption_of sha sv t3 td (oc_resource c) x) c"
  obtain "r4 = Inr (token_answer_of sv td (oc_scope c))" "od_access db4 = od_access db @ [?a]"
    by (rule code_exchanged [where now = t3 and sv = sv and sha = sha and ?sha64.0 = sha64 and d = td and i = x and url = url, OF c(6) _ cc(1) _ exchange(3) _ _ _ exchange(6)])
      (use c(3,4,5) cc exchange fresh in \<open>auto simp: raw_code_def\<close>)
  moreover have "find (\<lambda>r. at_token_digest r = sha (raw_access td)) (od_access db @ [?a]) = Some ?a"
    by (rule find_appended) (use fresh_key [OF fresh(4)] in \<open>auto simp: code_access_token_def consumption_of_def\<close>)
  moreover have "''mcp'' \<in> set (js_split_ws (oq_scope q))" using q(5) by (simp add: js_words_def)
  ultimately show ?thesis using r2(2) c(1) cc(7,8,9,10) valid_use
    by (simp add: validateAccessToken_def findAccessTokenByDigest_def code_access_token_def consumption_of_def)
qed

definition sample_exchange :: exchange_input where
  "sample_exchange = \<lparr>gi_client_id = Some ''https://app/client'', gi_redirect_uri = Some ''https://app/cb'', gi_code = Some (raw_code sample_code_draw),
     gi_code_verifier = Some ''secret'', gi_resource = Some ''https://ceo/mcp''\<rparr>"

definition sample_q :: oauth_request where
  "sample_q = hd (od_requests (ot_db sample_asked))"

lemma sample_asked_request:
  "initiateAuthorizationRequest sample_url sample_resolve sample_sv 10 ''r1'' sample_request empty_oauth_db
     = (ot_db sample_asked, Inr (sample_q, sample_client))"
  by code_simp

lemma sample_q_fields:
  "(10::int) < oq_expires_at_ms sample_q" "(20::int) < oq_expires_at_ms sample_q" "oq_client_id sample_q = ''https://app/client''"
  "oq_redirect_uri sample_q = ''https://app/cb''" "oq_code_challenge sample_q = ''secret''" "consent_workspace sample_identity ''u1'' = Inr ''w1''"
  "validateCanonicalResource sample_url (gi_resource sample_exchange) (canonicalResource sample_sv) = Inr (canonicalResource sample_sv)"
  "(20::int) < 20 + sv_auth_code_ttl_ms sample_sv" "(30::int) < 20 + sv_access_token_ttl_ms sample_sv" "isUserActive sample_identity ''u1''"
  "hasWorkspaceAccess sample_identity ''w1'' ''u1''" "tables_ok empty_oauth_db"
  by code_simp+

definition sample_final :: oauth_db where
  "sample_final = fst (exchangeAuthorizationCode (\<lambda>x. x) (\<lambda>x. x) sample_url sample_sv 20 (sample_draw ''1'') sample_exchange
     (fst (approveConsent (\<lambda>x. x) sample_sv 20 sample_code_draw sample_identity (oq_id sample_q) ''n1'' ''u1''
       (fst (createConsentNonce (\<lambda>x. x) 10 ''n1'' (oq_id sample_q) (ot_db sample_asked))))))"

lemma sample_exchange_fields:
  "gi_code sample_exchange = Some (raw_code sample_code_draw)" "gi_client_id sample_exchange = Some (oq_client_id sample_q)"
  "gi_redirect_uri sample_exchange = Some (oq_redirect_uri sample_q)" "gi_code_verifier sample_exchange = Some ''secret''"
  "''secret'' = oq_code_challenge sample_q" "''secret'' \<noteq> []" "oq_client_id sample_q \<noteq> []" "oq_redirect_uri sample_q \<noteq> []" "''n1'' \<noteq> []"
  by (simp_all add: sample_q_fields(3,4,5)) (simp_all add: sample_exchange_def)

lemma empty_fresh: "x \<notin> oc_id ` set (od_codes empty_oauth_db)" "x \<notin> oc_code_digest ` set (od_codes empty_oauth_db)"
  "x \<notin> at_id ` set (od_access empty_oauth_db)" "x \<notin> at_token_digest ` set (od_access empty_oauth_db)"
  "x \<notin> rt_id ` set (od_refresh empty_oauth_db)" "x \<notin> rt_token_digest ` set (od_refresh empty_oauth_db)"
  by (simp_all add: empty_oauth_db_def)

theorem consent_flow_completes_witness:
  "validateAccessToken (\<lambda>x. x) sample_sv 30 sample_identity (raw_access (sample_draw ''1'')) sample_final
     = Inr \<lparr>gv_user_id = ''u1'', gv_workspace_id = ''w1'', gv_scope = oq_scope sample_q, gv_resource = canonicalResource sample_sv\<rparr>"
  unfolding sample_final_def
  by (rule consent_flow_completes [where sha = "\<lambda>x. x" and ?sha64.0 = "\<lambda>x. x" and nonce = "''n1''" and td = "sample_draw ''1''" and v = "''secret''" and w = "''w1''"
        and x = sample_exchange and cd = sample_code_draw,
      OF sample_q_fields(12) sample_asked_request prod.collapse [symmetric] sample_q_fields(1) prod.collapse [symmetric] sample_q_fields(2,6) sample_exchange_fields(9)
        prod.collapse [symmetric] sample_q_fields(8) sample_exchange_fields(1-8) sample_q_fields(7) empty_fresh sample_q_fields(9,10,11),
      THEN conjunct2, THEN conjunct2, THEN conjunct2])

section \<open>Refusals\<close>

text \<open>A token request that is refused writes nothing, except that it may revoke the family of the presented refresh token.\<close>

theorem refused_request_issues_nothing:
  assumes "(oauth_step sha sha64 url)\<^sup>*\<^sup>* (start, [], oauth_start sv ttl b0) (now, h, s)"
    and "unused_family (family_of d) (ot_db s)" "oauth_token_route sha sha64 url now d form s = (s', TokenRefused c st)"
  shows "s' = s \<or> (\<exists>t \<in> set (od_refresh (ot_db s)). rt_token_digest t = sha (the (form ''refresh_token''))
    \<and> s' = s\<lparr>ot_db := revokeRefreshTokenFamily (rt_family_id t) now (ot_db s)\<rparr>)"
proof -
  have "oauth_ok sha64 sv ttl (now, h, s)" by (rule oauth_reachable_ok [OF assms(1)])
  then have "tables_ok (ot_db s)" by (simp add: oauth_ok_def db_ok_def)
  from assms(3) this assms(2) show ?thesis by (cases rule: token_cases_oauth) auto
qed

end
