(* ===== verification/Client_Registration.thy ===== *)
theory Client_Registration
  imports Client_Metadata Js_Words Control_Owners
begin

text \<open>
  Dynamic registration of OAuth clients (\<^verbatim>\<open>oauth/dcr/store.ts\<close>, \<^verbatim>\<open>oauth/dcr/service.ts\<close>, \<^verbatim>\<open>oauth/dcr/router.ts\<close>) and the resolver
  that picks between a metadata document and a registration (\<^verbatim>\<open>oauth/client-resolver.ts\<close>). The text column of a client is
  its JSON value or a text that is not JSON. Random client ids and the clock are arguments.
\<close>

section \<open>The metadata of a registration\<close>

text \<open>\<^verbatim>\<open>DcrRegistrationError\<close> with its code and status.\<close>

datatype registration_error = DcrRegistrationError string nat

definition bad_metadata :: registration_error where "bad_metadata = DcrRegistrationError ''invalid_client_metadata'' 400"
definition bad_redirect :: registration_error where "bad_redirect = DcrRegistrationError ''invalid_redirect_uri'' 400"

record dcr_metadata =
  dm_client_name :: string
  dm_redirect_uris :: "string list"
  dm_grant_types :: "string list"
  dm_response_types :: "string list"
  dm_application_type :: "string option"
  dm_scope :: "string option"

definition DEFAULT_CLIENT_NAME :: string where "DEFAULT_CLIENT_NAME = ''Dynamic MCP Client''"
definition MAX_CLIENT_NAME_CHARS :: nat where "MAX_CLIENT_NAME_CHARS = 200"
definition MAX_REDIRECT_URIS :: nat where "MAX_REDIRECT_URIS = 10"
definition MAX_REDIRECT_URI_CHARS :: nat where "MAX_REDIRECT_URI_CHARS = 2048"
definition INSERT_ATTEMPTS :: nat where "INSERT_ATTEMPTS = 3"

definition UNSUPPORTED_FIELDS :: "string list" where
  "UNSUPPORTED_FIELDS = [''client_secret'', ''client_id'', ''jwks'', ''jwks_uri'', ''request_uris'', ''sector_identifier_uri'']"

definition ALLOWED_SCOPES :: "string list" where "ALLOWED_SCOPES = [''mcp'', ''offline_access'']"

text \<open>\<^verbatim>\<open>[...value].length\<close>: code points of a text in UTF-8.\<close>

definition unicodeLength :: "string \<Rightarrow> nat" where
  "unicodeLength s = length (filter (\<lambda>c. of_char c < (0x80::nat) \<or> 0xC0 \<le> (of_char c :: nat)) s)"

definition isLoopbackHttpHostname :: "string \<Rightarrow> bool" where
  "isLoopbackHttpHostname h = (let host = map ascii_lower h in host = ''localhost'' \<or> host = ''127.0.0.1'' \<or> host = ''::1'' \<or> host = ''[::1]'')"

definition validateRedirectUri :: "(string \<Rightarrow> url_parts option) \<Rightarrow> string \<Rightarrow> bool" where
  "validateRedirectUri url uri =
     (if js_length uri > MAX_REDIRECT_URI_CHARS then False
      else if CHR ''*'' \<in> set uri then False
      else case url uri of
        None \<Rightarrow> False
      | Some p \<Rightarrow>
         if up_hash p \<noteq> [] then False
         else if up_protocol p = ''https:'' then True
         else up_protocol p = ''http:'' \<and> isLoopbackHttpHostname (up_hostname p))"

text \<open>The multiset comparison, with the counts of the remaining values as a list.\<close>

fun consume_all :: "string list \<Rightarrow> string list \<Rightarrow> bool" where
  "consume_all [] remaining \<longleftrightarrow> remaining = []"
| "consume_all (v # vs) remaining \<longleftrightarrow> v \<in> set remaining \<and> consume_all vs (remove1 v remaining)"

definition sameStringSet :: "string list \<Rightarrow> string list \<Rightarrow> bool" where
  "sameStringSet actual expected \<longleftrightarrow> length actual = length expected \<and> consume_all actual expected"

text \<open>An array whose members are all texts.\<close>

fun texts_of :: "json list \<Rightarrow> string list option" where
  "texts_of [] = Some []"
| "texts_of (v # vs) = (case (v, texts_of vs) of (JStr s, Some ss) \<Rightarrow> Some (s # ss) | _ \<Rightarrow> None)"

definition text_array :: "json option \<Rightarrow> string list option" where
  "text_array v = (case v of Some (JArr xs) \<Rightarrow> texts_of xs | _ \<Rightarrow> None)"

text \<open>\<^verbatim>\<open>[...new Set(raw)]\<close> keeps first occurrences.\<close>

definition unique_texts :: "string list \<Rightarrow> string list" where "unique_texts xs = rev (remdups (rev xs))"

definition normalizeClientName :: "json option \<Rightarrow> registration_error + string" where
  "normalizeClientName raw = (case raw of
      None \<Rightarrow> Inr DEFAULT_CLIENT_NAME
    | Some (JStr s) \<Rightarrow>
       if s = [] then Inr DEFAULT_CLIENT_NAME
       else if unicodeLength s > MAX_CLIENT_NAME_CHARS then Inl bad_metadata
       else Inr s
    | _ \<Rightarrow> Inl bad_metadata)"

definition normalizeRedirectUris :: "(string \<Rightarrow> url_parts option) \<Rightarrow> json option \<Rightarrow> registration_error + string list" where
  "normalizeRedirectUris url raw =
     (if json_array raw = [] then Inl bad_redirect
      else if length (json_array raw) > MAX_REDIRECT_URIS then Inl bad_redirect
      else case text_array raw of
        None \<Rightarrow> Inl bad_redirect
      | Some uris \<Rightarrow>
         if \<not> distinct uris then Inl bad_redirect
         else if \<not> list_all (validateRedirectUri url) uris then Inl bad_redirect
         else Inr uris)"

definition normalizeGrantTypes :: "json option \<Rightarrow> registration_error + string list" where
  "normalizeGrantTypes raw = (if raw = None then Inr [''authorization_code'']
     else case text_array raw of
       None \<Rightarrow> Inl bad_metadata
     | Some ts \<Rightarrow>
        if sameStringSet (unique_texts ts) [''authorization_code''] then Inr [''authorization_code'']
        else if sameStringSet (unique_texts ts) [''authorization_code'', ''refresh_token''] then Inr [''authorization_code'', ''refresh_token'']
        else Inl bad_metadata)"

definition normalizeResponseTypes :: "json option \<Rightarrow> registration_error + string list" where
  "normalizeResponseTypes raw = (if raw = None then Inr [''code'']
     else case text_array raw of
       None \<Rightarrow> Inl bad_metadata
     | Some ts \<Rightarrow> if sameStringSet (unique_texts ts) [''code''] then Inr [''code''] else Inl bad_metadata)"

definition normalizeAuthMethod :: "json option \<Rightarrow> registration_error + unit" where
  "normalizeAuthMethod raw = (if raw = None \<or> raw = Some (JStr ''none'') then Inr () else Inl bad_metadata)"

definition normalizeApplicationType :: "json option \<Rightarrow> registration_error + string option" where
  "normalizeApplicationType raw = (case raw of
      None \<Rightarrow> Inr None
    | Some v \<Rightarrow> if v = JStr ''native'' \<or> v = JStr ''web'' then Inr (Some (jtext v)) else Inl bad_metadata)"

definition normalizeScope :: "json option \<Rightarrow> registration_error + string option" where
  "normalizeScope raw = (case raw of
      None \<Rightarrow> Inr None
    | Some (JStr s) \<Rightarrow>
       (let tokens = js_words (js_trim s)
        in if list_all (\<lambda>t. t \<in> set ALLOWED_SCOPES) tokens then Inr (Some (join_words tokens)) else Inl bad_metadata)
    | Some _ \<Rightarrow> Inl bad_metadata)"

text \<open>An empty text is dropped.\<close>

definition non_empty :: "string option \<Rightarrow> string option" where
  "non_empty x = (case x of None \<Rightarrow> None | Some s \<Rightarrow> if s = [] then None else Some s)"

definition normalizeMetadata :: "(string \<Rightarrow> url_parts option) \<Rightarrow> jobject \<Rightarrow> registration_error + dcr_metadata" where
  "normalizeMetadata url m =
     (if jfield m ''software_statement'' \<noteq> None then Inl (DcrRegistrationError ''invalid_software_statement'' 400)
      else if list_ex (\<lambda>f. jfield m f \<noteq> None) UNSUPPORTED_FIELDS then Inl bad_metadata
      else ebind (normalizeClientName (jfield m ''client_name'')) (\<lambda>name.
       ebind (normalizeRedirectUris url (jfield m ''redirect_uris'')) (\<lambda>uris.
       ebind (normalizeGrantTypes (jfield m ''grant_types'')) (\<lambda>grants.
       ebind (normalizeResponseTypes (jfield m ''response_types'')) (\<lambda>responses.
       ebind (normalizeAuthMethod (jfield m ''token_endpoint_auth_method'')) (\<lambda>_.
       ebind (normalizeApplicationType (jfield m ''application_type'')) (\<lambda>app.
       ebind (normalizeScope (jfield m ''scope'')) (\<lambda>scope.
         Inr \<lparr>dm_client_name = name, dm_redirect_uris = uris, dm_grant_types = grants, dm_response_types = responses,
              dm_application_type = app, dm_scope = non_empty scope\<rparr>))))))))"

section \<open>Storing and reading registrations\<close>

text \<open>\<^verbatim>\<open>JSON.stringify(metadata)\<close>: optional fields are left out when they are absent.\<close>

definition optional_field :: "string \<Rightarrow> string option \<Rightarrow> (string \<times> json) list" where
  "optional_field k v = (case v of None \<Rightarrow> [] | Some s \<Rightarrow> [(k, JStr s)])"

definition metadata_json :: "dcr_metadata \<Rightarrow> jobject" where
  "metadata_json d = fmap_of_list
     ([(''client_name'', JStr (dm_client_name d)), (''redirect_uris'', JArr (map JStr (dm_redirect_uris d))),
       (''grant_types'', JArr (map JStr (dm_grant_types d))), (''response_types'', JArr (map JStr (dm_response_types d))),
       (''token_endpoint_auth_method'', JStr ''none'')]
      @ optional_field ''application_type'' (dm_application_type d) @ optional_field ''scope'' (dm_scope d))"

record dcr_client =
  dc_client_id :: string
  dc_metadata_json :: payload
  dc_issued_at_s :: int
  dc_created_at_ms :: int

text \<open>\<open>None\<close> is the conflict of the primary key.\<close>

definition insertClient :: "dcr_client \<Rightarrow> dcr_client list \<Rightarrow> dcr_client list option" where
  "insertClient r db = (if dc_client_id r \<in> dc_client_id ` set db then None else Some (db @ [r]))"

definition getClient :: "dcr_client list \<Rightarrow> string \<Rightarrow> dcr_client option" where
  "getClient db c = find (\<lambda>r. dc_client_id r = c) db"

definition generateDcrClientId :: "string \<Rightarrow> string" where "generateDcrClientId random = ''dcr_'' @ random"

record registration_response =
  rr_client_id :: string
  rr_client_id_issued_at :: int
  rr_metadata :: dcr_metadata

text \<open>The attempts that are left, with one random text and one reading of the clock for each.\<close>

fun insert_attempts ::
  "(nat \<Rightarrow> string) \<Rightarrow> (nat \<Rightarrow> int) \<Rightarrow> dcr_metadata \<Rightarrow> nat \<Rightarrow> nat \<Rightarrow> dcr_client list \<Rightarrow> dcr_client list \<times> (registration_error + registration_response)" where
  "insert_attempts random clock d attempt 0 db = (db, Inl (DcrRegistrationError ''server_error'' 500))"
| "insert_attempts random clock d attempt (Suc left) db =
     (let clientId = generateDcrClientId (random attempt);
          row = \<lparr>dc_client_id = clientId, dc_metadata_json = Json (JObj (metadata_json d)), dc_issued_at_s = clock attempt div 1000,
                 dc_created_at_ms = clock attempt\<rparr>
      in case insertClient row db of
        Some db' \<Rightarrow> (db', Inr \<lparr>rr_client_id = clientId, rr_client_id_issued_at = clock attempt div 1000, rr_metadata = d\<rparr>)
      | None \<Rightarrow> insert_attempts random clock d (Suc attempt) left db)"

definition register_client ::
  "(string \<Rightarrow> url_parts option) \<Rightarrow> (nat \<Rightarrow> string) \<Rightarrow> (nat \<Rightarrow> int) \<Rightarrow> json option \<Rightarrow> dcr_client list \<Rightarrow>
   dcr_client list \<times> (registration_error + registration_response)" where
  "register_client url random clock input db = (case input of
      Some (JObj m) \<Rightarrow> (case normalizeMetadata url m of
          Inl e \<Rightarrow> (db, Inl e)
        | Inr d \<Rightarrow> insert_attempts random clock d 0 INSERT_ATTEMPTS db)
    | _ \<Rightarrow> (db, Inl bad_metadata))"

definition parseStoredMetadata :: "(string \<Rightarrow> url_parts option) \<Rightarrow> payload \<Rightarrow> resolution_error + dcr_metadata" where
  "parseStoredMetadata url p = (case json_decode p of
      Some (JObj m) \<Rightarrow> (case normalizeMetadata url m of Inl _ \<Rightarrow> Inl Resolution_invalid_client | Inr d \<Rightarrow> Inr d)
    | _ \<Rightarrow> Inl Resolution_invalid_client)"

definition toClientMetadata :: "string \<Rightarrow> dcr_metadata \<Rightarrow> client_metadata" where
  "toClientMetadata clientId d =
     \<lparr>cm_client_id = clientId, cm_client_name = dm_client_name d, cm_redirect_uris = dm_redirect_uris d,
      cm_grant_types = Some (JArr (map JStr (dm_grant_types d))), cm_response_types = Some (JArr (map JStr (dm_response_types d))),
      cm_token_endpoint_auth_method = Some (JStr ''none''), cm_auth_methods_supported = [], cm_jwks_uri = None,
      cm_scope = dm_scope d, cm_logo_uri = None, cm_client_uri = None\<rparr>"

section \<open>Resolution\<close>

text \<open>\<^verbatim>\<open>/^dcr_[A-Za-z0-9_-]{43}$/\<close>.\<close>

definition isDcrClientId :: "string \<Rightarrow> bool" where
  "isDcrClientId c \<longleftrightarrow> starts_with ''dcr_'' c \<and> length c = 47 \<and> list_all (\<lambda>x. x \<in> set (letters @ ''0123456789_-'')) (drop 4 c)"

definition resolve_registered :: "(string \<Rightarrow> url_parts option) \<Rightarrow> dcr_client list \<Rightarrow> string \<Rightarrow> resolution_error + client_metadata" where
  "resolve_registered url db clientId =
     (if \<not> isDcrClientId clientId then Inl Resolution_invalid_client
      else case getClient db clientId of
        None \<Rightarrow> Inl Resolution_invalid_client
      | Some r \<Rightarrow> ebind (parseStoredMetadata url (dc_metadata_json r)) (\<lambda>d. Inr (toClientMetadata clientId d)))"

definition isCimdClientId :: "(string \<Rightarrow> url_parts option) \<Rightarrow> (string \<Rightarrow> bool) \<Rightarrow> bool \<Rightarrow> string \<Rightarrow> bool" where
  "isCimdClientId url is_v6 allowHttp clientId = (case validateClientIdUrl url is_v6 allowHttp clientId of Inl _ \<Rightarrow> False | Inr _ \<Rightarrow> True)"

text \<open>The registrations are absent when dynamic registration is not configured.\<close>

definition resolve_client ::
  "(string \<Rightarrow> url_parts option) \<Rightarrow> (string \<Rightarrow> bool) \<Rightarrow> (string \<Rightarrow> string list option) \<Rightarrow> (url_parts \<Rightarrow> string list \<Rightarrow> http_reply) \<Rightarrow> cimd_options \<Rightarrow> int \<Rightarrow>
   dcr_client list option \<Rightarrow> string \<Rightarrow> metadata_cache \<Rightarrow> metadata_cache \<times> (resolution_error + client_metadata)" where
  "resolve_client url is_v6 dns http opts now dcr clientId cache =
     (if isCimdClientId url is_v6 (co_allow_http opts) clientId
      then (case resolveClientMetadata url is_v6 dns http opts now clientId cache of
          (cache', Inl _) \<Rightarrow> (cache', Inl Resolution_invalid_client)
        | (cache', Inr m) \<Rightarrow> (cache', Inr m))
      else case dcr of
        None \<Rightarrow> (cache, Inl Resolution_invalid_client)
      | Some db \<Rightarrow> if isDcrClientId clientId then (cache, resolve_registered url db clientId) else (cache, Inl Resolution_invalid_client))"

section \<open>The registration route\<close>

text \<open>\<^verbatim>\<open>/^application\/json(?:\s*;|$)/i\<close> on the content type.\<close>

definition json_content_type :: "string option \<Rightarrow> bool" where
  "json_content_type h = (case h of
      None \<Rightarrow> False
    | Some c \<Rightarrow> map ascii_lower (take 16 c) = ''application/json'' \<and> (drop 16 c = [] \<or> starts_with '';'' (js_trim_start (drop 16 c))))"

datatype register_response = RegisterCreated registration_response | RegisterRefused string nat

definition dcr_register_route ::
  "(string \<Rightarrow> url_parts option) \<Rightarrow> (nat \<Rightarrow> string) \<Rightarrow> (nat \<Rightarrow> int) \<Rightarrow> string option \<Rightarrow> json option \<Rightarrow> dcr_client list \<Rightarrow> dcr_client list \<times> register_response" where
  "dcr_register_route url random clock ctype body db =
     (if \<not> json_content_type ctype then (db, RegisterRefused ''invalid_client_metadata'' 415)
      else case register_client url random clock body db of
        (db', Inl (DcrRegistrationError c st)) \<Rightarrow> (db', RegisterRefused c st)
      | (db', Inr r) \<Rightarrow> (db', RegisterCreated r))"

end
