(* ===== verification/Client_Properties.thy ===== *)
theory Client_Properties
  imports Client_Registration OAuth_Properties
begin

text \<open>
  What the registration and resolution of clients promise: reserved addresses are refused exactly, a registration reads
  back, and an authorization request only redirects to a safe URI of its client.
\<close>

section \<open>A stored registration reads back\<close>

lemma texts_of_map [simp]: "texts_of (map JStr xs) = Some xs"
  by (induction xs) simp_all

lemma texts_of_Some: "texts_of vs = Some ss \<Longrightarrow> vs = map JStr ss"
  by (induction vs arbitrary: ss) (auto split: json.splits option.splits)

lemma text_array_Some: "text_array v = Some ss \<longleftrightarrow> v = Some (JArr (map JStr ss))"
  by (auto simp: text_array_def dest: texts_of_Some split: option.splits json.splits)

lemma text_array_map [simp]: "text_array (Some (JArr (map JStr xs))) = Some xs" "json_array (Some (JArr ys)) = ys"
  by (simp_all add: text_array_Some json_array_def)

lemma grants_again: "normalizeGrantTypes raw = Inr gs \<Longrightarrow> normalizeGrantTypes (Some (JArr (map JStr gs))) = Inr gs"
proof -
  assume "normalizeGrantTypes raw = Inr gs"
  then have "gs = [''authorization_code''] \<or> gs = [''authorization_code'', ''refresh_token'']"
    by (auto simp: normalizeGrantTypes_def split: if_splits option.splits)
  then show ?thesis by (elim disjE; hypsubst; code_simp)
qed

lemma responses_again: "normalizeResponseTypes raw = Inr rs \<Longrightarrow> normalizeResponseTypes (Some (JArr (map JStr rs))) = Inr rs"
proof -
  assume "normalizeResponseTypes raw = Inr rs"
  then have "rs = [''code'']" by (auto simp: normalizeResponseTypes_def split: if_splits option.splits)
  then show ?thesis by (hypsubst; code_simp)
qed

lemma name_again: "normalizeClientName raw = Inr n \<Longrightarrow> normalizeClientName (Some (JStr n)) = Inr n"
proof -
  have "unicodeLength DEFAULT_CLIENT_NAME \<le> MAX_CLIENT_NAME_CHARS" "DEFAULT_CLIENT_NAME \<noteq> []" by code_simp+
  then show "normalizeClientName raw = Inr n \<Longrightarrow> normalizeClientName (Some (JStr n)) = Inr n"
    by (auto simp: normalizeClientName_def split: option.splits json.splits if_splits)
qed

lemma redirects_again: "normalizeRedirectUris url raw = Inr us \<Longrightarrow> normalizeRedirectUris url (Some (JArr (map JStr us))) = Inr us"
  by (auto simp: normalizeRedirectUris_def text_array_Some split: if_splits option.splits)

lemma application_again:
  assumes "normalizeApplicationType raw = Inr app"
  shows "normalizeApplicationType (map_option JStr app) = Inr app" "app \<noteq> Some []"
proof -
  have "app = None \<or> app = Some ''native'' \<or> app = Some ''web''"
    using assms by (auto simp: normalizeApplicationType_def jtext_def split: option.splits if_splits)
  then show "normalizeApplicationType (map_option JStr app) = Inr app" "app \<noteq> Some []"
    by (auto simp: normalizeApplicationType_def jtext_def)
qed

lemma join_ends:
  assumes "ws \<noteq> []" "\<forall>w \<in> set ws. w \<noteq> [] \<and> list_all graphic w"
  shows "join_words ws \<noteq> [] \<and> hd (join_words ws) = hd (hd ws) \<and> last (join_words ws) = last (last ws)"
  using assms
proof (induction ws rule: join_words.induct)
  case (3 w v vs)
  then have "join_words (v # vs) \<noteq> []" "last (join_words (v # vs)) = last (last (v # vs))" "w \<noteq> []" by simp_all
  then show ?case by simp
qed simp_all

lemma trim_scope:
  assumes "\<forall>w \<in> set ws. w \<in> set ALLOWED_SCOPES"
  shows "js_trim (join_words ws) = join_words ws"
proof (cases "ws = []")
  case False
  have scopes: "list_all (\<lambda>w. w \<noteq> [] \<and> list_all graphic w) ALLOWED_SCOPES" by code_simp
  have g: "w \<noteq> [] \<and> list_all graphic w" if "w \<in> set ws" for w using assms that scopes unfolding list_all_iff by blast
  have e: "join_words ws \<noteq> []" "hd (join_words ws) = hd (hd ws)" "last (join_words ws) = last (last ws)" using join_ends [OF False] g by blast+
  have "graphic (hd (hd ws))" "graphic (last (last ws))" using g [of "hd ws"] g [of "last ws"] False unfolding list_all_iff by simp_all
  then show ?thesis using trim_graphic [OF e(1)] e(2,3) by simp
qed simp

lemma scope_again:
  assumes "normalizeScope raw = Inr sc"
  shows "normalizeScope (map_option JStr (non_empty sc)) = Inr (non_empty sc)"
proof (cases sc)
  case (Some s)
  obtain t where t: "list_all (\<lambda>x. x \<in> set ALLOWED_SCOPES) (js_words (js_trim t))" "s = join_words (js_words (js_trim t))"
    using assms Some by (auto simp: normalizeScope_def Let_def split: option.splits json.splits if_splits)
  have "js_words (js_trim s) = js_words (js_trim t)"
    using trim_scope [of "js_words (js_trim t)"] t words_join [of "js_words (js_trim t)"] allowed_spaceless [of "js_trim t"] by (simp add: list_all_iff)
  then show ?thesis using t by (auto simp: Some non_empty_def normalizeScope_def Let_def)
qed (simp add: non_empty_def normalizeScope_def)

lemma metadata_fields:
  "jfield (metadata_json d) ''client_name'' = Some (JStr (dm_client_name d))"
  "jfield (metadata_json d) ''redirect_uris'' = Some (JArr (map JStr (dm_redirect_uris d)))"
  "jfield (metadata_json d) ''grant_types'' = Some (JArr (map JStr (dm_grant_types d)))"
  "jfield (metadata_json d) ''response_types'' = Some (JArr (map JStr (dm_response_types d)))"
  "jfield (metadata_json d) ''token_endpoint_auth_method'' = Some (JStr ''none'')"
  "jfield (metadata_json d) ''application_type'' = map_option JStr (dm_application_type d)"
  "jfield (metadata_json d) ''scope'' = map_option JStr (dm_scope d)"
  "jfield (metadata_json d) ''software_statement'' = None"
  "\<not> list_ex (\<lambda>f. jfield (metadata_json d) f \<noteq> None) UNSUPPORTED_FIELDS"
  by (simp_all add: metadata_json_def optional_field_def fmlookup_of_list UNSUPPORTED_FIELDS_def split: option.split)

lemma normalized_again:
  assumes "normalizeMetadata url m = Inr d"
  shows "normalizeMetadata url (metadata_json d) = Inr d"
proof -
  obtain name uris grants responses app sc where n: "normalizeClientName (jfield m ''client_name'') = Inr name"
    "normalizeRedirectUris url (jfield m ''redirect_uris'') = Inr uris" "normalizeGrantTypes (jfield m ''grant_types'') = Inr grants"
    "normalizeResponseTypes (jfield m ''response_types'') = Inr responses" "normalizeApplicationType (jfield m ''application_type'') = Inr app"
    "normalizeScope (jfield m ''scope'') = Inr sc"
    "d = \<lparr>dm_client_name = name, dm_redirect_uris = uris, dm_grant_types = grants, dm_response_types = responses, dm_application_type = app, dm_scope = non_empty sc\<rparr>"
    using assms by (auto simp: normalizeMetadata_def ebind_eq_Inr split: if_splits)
  have "non_empty (non_empty sc) = non_empty sc" by (simp add: non_empty_def split: option.split)
  then show ?thesis
    using name_again [OF n(1)] redirects_again [OF n(2)] grants_again [OF n(3)] responses_again [OF n(4)] application_again(1) [OF n(5)] scope_again [OF n(6)]
    by (simp add: normalizeMetadata_def metadata_fields n(7) normalizeAuthMethod_def del: not_None_eq)
qed

section \<open>Properties\<close>

text \<open>C27. Of the IPv4 addresses, exactly those in the blocks the code names (private, loopback, link-local, shared, documentation, benchmarking,
  multicast and reserved networks) are refused as targets of a fetch: the comparisons of single octets agree with membership in the CIDR
  blocks for every address, the borders of the blocks included.\<close>

theorem special_addresses_are_the_blocks:
  assumes "a < 256" "b < 256" "c < 256" "d < 256"
  shows "isPrivateOrSpecialIp is_v6 (dotted a b c d) \<longleftrightarrow> (\<exists>blk \<in> set special_blocks. in_block (v4_address a b c d) blk)"
  by (simp add: special_dotted [OF assms] special_octets_blocks [OF assms] list_ex_iff)

theorem special_addresses_are_the_blocks_witness:
  "isPrivateOrSpecialIp (\<lambda>_. False) (dotted 172 31 255 255) \<and> \<not> isPrivateOrSpecialIp (\<lambda>_. False) (dotted 172 32 0 0)"
proof -
  have "special_octets 172 31 255 255" "\<not> special_octets 172 32 0 0" by (simp_all add: special_octets_def)
  then have "list_ex (in_block (v4_address 172 31 255 255)) special_blocks" "\<not> list_ex (in_block (v4_address 172 32 0 0)) special_blocks"
    using special_octets_blocks [of 172 31 255 255] special_octets_blocks [of 172 32 0 0] by simp_all
  then show ?thesis
    using special_addresses_are_the_blocks [of 172 31 255 255] special_addresses_are_the_blocks [of 172 32 0 0] by (simp add: list_ex_iff)
qed

lemma insert_attempts_cases:
  assumes "insert_attempts random clock d n left db = (db', r)"
  shows "(db' = db \<and> r = Inl (DcrRegistrationError ''server_error'' 500)) \<or> (\<exists>k. n \<le> k \<and> k < n + left
      \<and> generateDcrClientId (random k) \<notin> dc_client_id ` set db
      \<and> db' = db @ [\<lparr>dc_client_id = generateDcrClientId (random k), dc_metadata_json = Json (JObj (metadata_json d)), dc_issued_at_s = clock k div 1000,
               dc_created_at_ms = clock k\<rparr>]
      \<and> r = Inr \<lparr>rr_client_id = generateDcrClientId (random k), rr_client_id_issued_at = clock k div 1000, rr_metadata = d\<rparr>)"
  using assms
proof (induction left arbitrary: n)
  case (Suc left)
  show ?case
  proof (cases "generateDcrClientId (random n) \<in> dc_client_id ` set db")
    case True
    then have "insert_attempts random clock d (Suc n) left db = (db', r)" using Suc(2) by (simp add: insertClient_def Let_def)
    from Suc(1) [OF this] show ?thesis by (elim disjE exE) (auto intro: Suc_leD)
  next
    case False
    then show ?thesis using Suc(2) by (intro disjI2 exI [of _ n]) (auto simp: insertClient_def Let_def)
  qed
qed simp

text \<open>C26. A registration that is answered with status 201 is stored under a new client id; from then on, whatever is registered later, the id
  resolves to the registered name, redirect URIs, grant types, response types and scope: writing the metadata as JSON and normalising it
  again when it is read is the identity.\<close>

theorem registration_reads_back:
  assumes created: "dcr_register_route url random clock ctype body db = (db1, RegisterCreated r)"
    and ids: "\<And>k. isDcrClientId (generateDcrClientId (random k))"
  shows "rr_client_id r \<notin> dc_client_id ` set db
    \<and> resolve_registered url (db1 @ newer) (rr_client_id r) = Inr (toClientMetadata (rr_client_id r) (rr_metadata r))"
proof -
  obtain m d where m: "body = Some (JObj m)" "normalizeMetadata url m = Inr d" "insert_attempts random clock d 0 INSERT_ATTEMPTS db = (db1, Inr r)"
    using created by (auto simp: dcr_register_route_def register_client_def split: if_splits option.splits json.splits sum.splits prod.splits registration_error.splits)
  obtain k where k: "generateDcrClientId (random k) \<notin> dc_client_id ` set db"
    "db1 = db @ [\<lparr>dc_client_id = generateDcrClientId (random k), dc_metadata_json = Json (JObj (metadata_json d)), dc_issued_at_s = clock k div 1000,
               dc_created_at_ms = clock k\<rparr>]"
    "r = \<lparr>rr_client_id = generateDcrClientId (random k), rr_client_id_issued_at = clock k div 1000, rr_metadata = d\<rparr>"
    using insert_attempts_cases [OF m(3)] by auto
  let ?row = "\<lparr>dc_client_id = generateDcrClientId (random k), dc_metadata_json = Json (JObj (metadata_json d)), dc_issued_at_s = clock k div 1000,
               dc_created_at_ms = clock k\<rparr>"
  have "find (\<lambda>x. dc_client_id x = generateDcrClientId (random k)) (db @ ?row # newer) = Some ?row"
    using fresh_key [OF k(1)] by (induction db) auto
  then have "getClient (db1 @ newer) (rr_client_id r) = Some ?row" by (simp add: getClient_def k(2,3))
  then show ?thesis using ids [of k] k(1) normalized_again [OF m(2)] by (simp add: resolve_registered_def parseStoredMetadata_def k(3))
qed

definition sample_registration :: json where
  "sample_registration = JObj (fmap_of_list [(''redirect_uris'', JArr [JStr ''https://app/cb'']), (''scope'', JStr '' mcp ''), (''grant_types'',
     JArr [JStr ''refresh_token'', JStr ''authorization_code'', JStr ''refresh_token''])])"

definition sample_random :: string where "sample_random = replicate 43 CHR ''a''"

definition sample_registered :: registration_response where
  "sample_registered = \<lparr>rr_client_id = ''dcr_'' @ sample_random, rr_client_id_issued_at = 5,
     rr_metadata = \<lparr>dm_client_name = DEFAULT_CLIENT_NAME, dm_redirect_uris = [''https://app/cb''], dm_grant_types = [''authorization_code'', ''refresh_token''],
       dm_response_types = [''code''], dm_application_type = None, dm_scope = Some ''mcp''\<rparr>\<rparr>"

lemma sample_register:
  "dcr_register_route sample_url (\<lambda>_. sample_random) (\<lambda>_. 5000) (Some ''application/json; charset=utf-8'') (Some sample_registration) []
    = (fst (dcr_register_route sample_url (\<lambda>_. sample_random) (\<lambda>_. 5000) (Some ''application/json; charset=utf-8'') (Some sample_registration) []),
       RegisterCreated sample_registered)"
  "isDcrClientId (generateDcrClientId sample_random)"
  by code_simp+

theorem registration_reads_back_witness:
  "resolve_registered sample_url (fst (dcr_register_route sample_url (\<lambda>_. sample_random) (\<lambda>_. 5000) (Some ''application/json; charset=utf-8'')
      (Some sample_registration) []) @ []) (rr_client_id sample_registered)
    = Inr (toClientMetadata (rr_client_id sample_registered) (rr_metadata sample_registered))"
  using registration_reads_back [OF sample_register(1) sample_register(2)] by blast

lemma loopback_names: "isLoopbackHttpHostname h \<Longrightarrow> loopback_host (map ascii_lower h) \<or> map ascii_lower h = ''::1''"
  unfolding isLoopbackHttpHostname_def loopback_host_def Let_def by blast

lemma registered_uri_safe:
  assumes "validateRedirectUri url uri"
  shows "safe_redirect url allowHttp uri"
proof (cases "url uri")
  case None
  then show ?thesis using assms unfolding validateRedirectUri_def by (simp split: if_splits)
next
  case (Some p)
  then have p: "up_hash p = []" "up_protocol p = ''https:'' \<or> isLoopbackHttpHostname (up_hostname p)"
    using assms unfolding validateRedirectUri_def by (simp_all split: if_splits)
  from p(2) have "up_protocol p = ''http:'' \<longrightarrow> allowHttp \<or> loopback_host (map ascii_lower (up_hostname p)) \<or> map ascii_lower (up_hostname p) = ''::1''"
  proof
    assume "isLoopbackHttpHostname (up_hostname p)"
    from loopback_names [OF this] show ?thesis by blast
  qed simp
  with Some p(1) show ?thesis unfolding safe_redirect_def by (intro exI [of _ p] conjI)
qed

lemma registered_client_ok:
  assumes "resolve_registered url db clientId = Inr m"
  shows "client_ok url allowHttp clientId m"
proof -
  obtain j d where d: "normalizeMetadata url j = Inr d" "m = toClientMetadata clientId d"
    using assms by (auto simp: resolve_registered_def parseStoredMetadata_def ebind_eq_Inr split: if_splits option.splits json.splits sum.splits)
  obtain uris where u: "normalizeRedirectUris url (jfield j ''redirect_uris'') = Inr uris" "dm_redirect_uris d = uris"
    using d(1) by (auto simp: normalizeMetadata_def ebind_eq_Inr split: if_splits)
  then have "uris \<noteq> []" "list_all (validateRedirectUri url) uris"
    by (auto simp: normalizeRedirectUris_def text_array_Some split: if_splits option.splits)
  then show ?thesis using registered_uri_safe u(2) by (auto simp: client_ok_def d(2) toClientMetadata_def list_all_iff)
qed

lemma resolved_client_ok:
  assumes "resolve_client url is_v6 dns http opts now dcr clientId cache = (cache', r)" "cache_ok url (co_allow_http opts) cache"
  shows "cache_ok url (co_allow_http opts) cache' \<and> (\<forall>m. r = Inr m \<longrightarrow> client_ok url (co_allow_http opts) clientId m)"
proof (cases "isCimdClientId url is_v6 (co_allow_http opts) clientId")
  case True
  obtain c q where c: "resolveClientMetadata url is_v6 dns http opts now clientId cache = (c, q)" by fastforce
  show ?thesis using resolve_cache_ok [OF c assms(2)] assms(1) True c by (auto simp: resolve_client_def split: sum.splits)
next
  case False
  then show ?thesis using assms registered_client_ok by (auto simp: resolve_client_def split: option.splits if_splits)
qed

text \<open>C25. An accepted authorization request redirects only to a URI that the resolved client registered, whether the client was fetched, cached or
  registered here; the URI is absolute, has no fragment, and is not plain HTTP to another host unless the test option allows it.\<close>

theorem requests_redirect_safely:
  assumes resolved: "resolve_client url is_v6 dns http opts t dcr (zi_client_id i) cache = (cache', m)"
    and cache: "cache_ok url (co_allow_http opts) cache"
    and accepted: "initiateAuthorizationRequest url (\<lambda>_. m) sv now uuid i db = (db', Inr (q, meta))"
  shows "cache_ok url (co_allow_http opts) cache' \<and> cm_client_id meta = oq_client_id q \<and> oq_redirect_uri q \<in> set (cm_redirect_uris meta)
    \<and> safe_redirect url (co_allow_http opts) (oq_redirect_uri q)"
proof -
  obtain p where p: "check_authorize url (\<lambda>_. m) sv now uuid i = Inr (p, meta)" "createAuthorizationRequest p db = (db', Inr ())"
    "OAuth_Store.getAuthorizationRequest db' (ri_id p) = Some q"
    using accepted by (auto simp: initiateAuthorizationRequest_def split: sum.splits option.splits prod.splits)
  have new: "ri_id p \<notin> oq_id ` set (od_requests db)" "db' = db\<lparr>od_requests := od_requests db @ [pending_request p]\<rparr>"
    using create_effect [OF p(2)] by auto
  have "OAuth_Store.getAuthorizationRequest db' (ri_id p) = Some (pending_request p)"
    unfolding getAuthorizationRequest_def new(2) using fresh_key [OF new(1)] by (auto intro!: find_appended)
  then have q: "q = pending_request p" using p(3) by simp
  have m: "m = Inr meta" "ri_redirect_uri p = zi_redirect_uri i" "ri_client_id p = zi_client_id i" "zi_redirect_uri i \<in> set (cm_redirect_uris meta)"
    using p(1) by (auto simp: check_authorize_def ebind_eq_Inr Let_def split: if_splits sum.splits)
  have "cache_ok url (co_allow_http opts) cache'" "client_ok url (co_allow_http opts) (zi_client_id i) meta"
    using resolved_client_ok [OF resolved cache] m(1) by simp_all
  then show ?thesis using m(2,3,4) by (simp add: q pending_request_def client_ok_def list_all_iff)
qed

definition sample_cimd :: payload where
  "sample_cimd = Json (JObj (fmap_of_list [(''client_id'', JStr ''https://app/client''), (''redirect_uris'', JArr [JStr ''https://app/cb'']),
     (''client_name'', JStr ''App'')]))"

definition cimd_url :: "string \<Rightarrow> url_parts option" where
  "cimd_url u = (if u = ''https://app/client''
     then Some \<lparr>up_protocol = ''https:'', up_origin = ''https://app'', up_hostname = ''app'', up_pathname = ''/client'', up_search = [], up_hash = [],
                up_username = [], up_password = []\<rparr>
     else sample_url u)"

definition fetched_client :: "metadata_cache \<times> (resolution_error + client_metadata)" where
  "fetched_client = resolve_client cimd_url (\<lambda>_. False) (\<lambda>_. Some [''8.8.8.8'']) (\<lambda>_ _. HttpReply 200 ''application/json'' 100 sample_cimd) default_cimd_options 10
     None ''https://app/client'' []"

lemma fetched: "fetched_client = ([(''https://app/client'', sample_client, 600010)], Inr sample_client)"
proof -
  have "isCimdClientId cimd_url (\<lambda>_. False) False ''https://app/client''" "\<not> isDcrClientId ''https://app/client''" by code_simp+
  moreover have "validateClientIdUrl cimd_url (\<lambda>_. False) False ''https://app/client'' = Inr (the (cimd_url ''https://app/client''))" by code_simp
  moreover have "checked_addresses (\<lambda>_. False) default_cimd_options (Some [''8.8.8.8'']) = Inr [''8.8.8.8'']" by code_simp
  moreover have "accept_reply (co_max_bytes default_cimd_options) (HttpReply 200 ''application/json'' 100 sample_cimd) = Inr sample_cimd" by code_simp
  moreover have "validate_document cimd_url False ''https://app/client'' (up_hostname (the (cimd_url ''https://app/client''))) sample_cimd = Inr sample_client"
    by code_simp
  moreover have "\<not> co_allow_http default_cimd_options" "(10::int) + co_cache_ttl_ms default_cimd_options = 600010" by (simp_all add: default_cimd_options_def)
  ultimately show ?thesis by (simp add: fetched_client_def resolve_client_def resolveClientMetadata_def)
qed

lemma fetched_request:
  "initiateAuthorizationRequest cimd_url (\<lambda>_. snd fetched_client) sample_sv 10 ''r1'' sample_request empty_oauth_db
     = (fst (initiateAuthorizationRequest cimd_url (\<lambda>_. snd fetched_client) sample_sv 10 ''r1'' sample_request empty_oauth_db), Inr (sample_q, sample_client))"
  unfolding fetched snd_conv by code_simp

theorem requests_redirect_safely_witness:
  "safe_redirect cimd_url False (oq_redirect_uri sample_q) \<and> fst fetched_client \<noteq> []"
proof -
  have "resolve_client cimd_url (\<lambda>_. False) (\<lambda>_. Some [''8.8.8.8'']) (\<lambda>_ _. HttpReply 200 ''application/json'' 100 sample_cimd) default_cimd_options 10
     None (zi_client_id sample_request) [] = (fst fetched_client, snd fetched_client)"
    by (simp add: fetched_client_def sample_request_def)
  from requests_redirect_safely [OF this _ fetched_request]
  have "safe_redirect cimd_url False (oq_redirect_uri sample_q)" by (simp add: cache_ok_def default_cimd_options_def)
  moreover have "fst fetched_client \<noteq> []" by (simp add: fetched)
  ultimately show ?thesis ..
qed

text \<open>A document that does not come from the cache was requested from exactly the addresses the lookup gave, none of them special.\<close>

theorem fetches_only_public_addresses:
  assumes "resolveClientMetadata url is_v6 dns http opts now clientId cache = (cache', Inr m)" "\<not> co_allow_private opts"
    and "\<nexists>m t. map_of cache clientId = Some (m, t) \<and> now < t"
  shows "\<exists>p as body. validateClientIdUrl url is_v6 (co_allow_http opts) clientId = Inr p \<and> dns (up_hostname p) = Some as \<and> as \<noteq> []
    \<and> list_all (\<lambda>x. \<not> isPrivateOrSpecialIp is_v6 x) as \<and> accept_reply (co_max_bytes opts) (http p as) = Inr body"
  using assms(1)
proof (cases rule: resolve_cases)
  case (3 p as body m')
  then have "dns (up_hostname p) = Some as" "as \<noteq> []" "list_all (\<lambda>x. \<not> isPrivateOrSpecialIp is_v6 x) as"
    using assms(2) by (auto simp: checked_addresses_def list_ex_iff list_all_iff split: option.splits if_splits)
  then show ?thesis using 3 by blast
qed (use assms(3) in auto)

end
