(* ===== verification/Identity_Store.thy ===== *)
theory Identity_Store
  imports Control_Owners Js_Words
begin

text \<open>
  The identity store (\<^verbatim>\<open>identity/store.ts\<close>): users with their external identities, workspaces with their owner,
  GitHub installations and repository bindings, and the bootstrap of a workspace. A table is the list of its rows in
  insertion order; an operation returns an error, in which case nothing was committed, or the new tables with its
  result. The time and the random part of new identifiers are arguments. The tables of devices and targets are those of
  \<open>Control_Store\<close>, which reads a part of the tables here: \<open>control_view\<close>.
\<close>

section \<open>Tables\<close>

record account_row =
  us_id :: user_id
  us_created_at :: int
  us_disabled_at :: "int option"
  us_is_admin :: int

record workspace_row =
  wk_id :: ws_id
  wk_owner_user_id :: user_id
  wk_remote_url :: string
  wk_branch :: string
  wk_created_at :: int

record external_row =
  xt_id :: string
  xt_provider :: string
  xt_provider_subject :: string
  xt_user_id :: user_id
  xt_provider_login :: "string option"
  xt_provider_email :: "string option"
  xt_created_at_ms :: int
  xt_updated_at_ms :: int

record member_row =
  mr_id :: string
  mr_workspace_id :: ws_id
  mr_user_id :: user_id
  mr_role :: string
  mr_created_at :: int

record installation_row =
  gh_id :: string
  gh_installation_id :: string
  gh_app_id :: string
  gh_account_id :: string
  gh_account_login :: string
  gh_account_type :: string
  gh_repository_selection :: string
  gh_suspended_at_ms :: "int option"
  gh_created_at_ms :: int
  gh_updated_at_ms :: int

record installation_user_row =
  gu_id :: string
  gu_installation_row_id :: string
  gu_user_id :: user_id
  gu_created_at_ms :: int
  gu_verified_at_ms :: int

record repository_row =
  rb_id :: string
  rb_workspace_id :: ws_id
  rb_repository_id :: string
  rb_installation_row_id :: string
  rb_owner_account_id :: string
  rb_owner_login :: string
  rb_repository_name :: string
  rb_full_name :: string
  rb_branch :: string
  rb_created_at_ms :: int
  rb_updated_at_ms :: int
  rb_scope_verified_at_ms :: "int option"

datatype bootstrap_state = BS_pending | BS_applying | BS_retryable_failure | BS_manual_recovery | BS_ready
datatype bootstrap_error_kind = BK_retryable | BK_manual

record bootstrap_row =
  wb_workspace_id :: ws_id
  wb_version :: int
  wb_state :: bootstrap_state
  wb_attempt_count :: int
  wb_last_attempt_id :: "string option"
  wb_base_commit_sha :: "string option"
  wb_ready_commit_sha :: "string option"
  wb_error_kind :: "bootstrap_error_kind option"
  wb_error_code :: "string option"
  wb_error_message :: "string option"
  wb_created_at_ms :: int
  wb_updated_at_ms :: int
  wb_ready_at_ms :: "int option"

record identity_data =
  it_users :: "account_row list"
  it_workspaces :: "workspace_row list"
  it_externals :: "external_row list"
  it_members :: "member_row list"
  it_installations :: "installation_row list"
  it_installation_users :: "installation_user_row list"
  it_repositories :: "repository_row list"
  it_bootstraps :: "bootstrap_row list"

definition empty_identity :: identity_data where
  "empty_identity = \<lparr>it_users = [], it_workspaces = [], it_externals = [], it_members = [], it_installations = [],
     it_installation_users = [], it_repositories = [], it_bootstraps = []\<rparr>"

datatype identity_error = IdentityError | IdentityStructureError | IdentityConflictError | IdentityDbUnavailable

type_synonym 'a identity_result = "identity_error + identity_data \<times> 'a"

text \<open>What the control store sees of the identity tables.\<close>

definition control_view :: "identity_data \<Rightarrow> control_db \<Rightarrow> control_db" where
  "control_view it c = c\<lparr>users := map (\<lambda>r. \<lparr>u_id = us_id r, u_disabled_at = us_disabled_at r\<rparr>) (it_users it),
     workspaces := map wk_id (it_workspaces it),
     memberships := map (\<lambda>r. \<lparr>m_workspace_id = mr_workspace_id r, m_user_id = mr_user_id r, m_role = mr_role r\<rparr>) (it_members it),
     repo_bindings := map (\<lambda>r. \<lparr>g_workspace_id = rb_workspace_id r, g_repository_id = rb_repository_id r, g_full_name = rb_full_name r\<rparr>)
       (it_repositories it)\<rparr>"

section \<open>Inserts\<close>

text \<open>\<open>None\<close> is a violated key, unique index or foreign key.\<close>

definition insert_user :: "account_row \<Rightarrow> identity_data \<Rightarrow> identity_data option" where
  "insert_user r it = (if us_id r \<in> us_id ` set (it_users it) then None else Some (it\<lparr>it_users := it_users it @ [r]\<rparr>))"

definition insert_external :: "external_row \<Rightarrow> identity_data \<Rightarrow> identity_data option" where
  "insert_external r it =
     (if xt_id r \<in> xt_id ` set (it_externals it)
         \<or> (xt_provider r, xt_provider_subject r) \<in> (\<lambda>x. (xt_provider x, xt_provider_subject x)) ` set (it_externals it)
         \<or> (xt_provider r, xt_user_id r) \<in> (\<lambda>x. (xt_provider x, xt_user_id x)) ` set (it_externals it)
         \<or> xt_user_id r \<notin> us_id ` set (it_users it) then None
      else Some (it\<lparr>it_externals := it_externals it @ [r]\<rparr>))"

definition insert_workspace :: "workspace_row \<Rightarrow> identity_data \<Rightarrow> identity_data option" where
  "insert_workspace r it =
     (if wk_id r \<in> wk_id ` set (it_workspaces it) \<or> wk_owner_user_id r \<notin> us_id ` set (it_users it) then None
      else Some (it\<lparr>it_workspaces := it_workspaces it @ [r]\<rparr>))"

definition insert_member :: "member_row \<Rightarrow> identity_data \<Rightarrow> identity_data option" where
  "insert_member r it =
     (if mr_id r \<in> mr_id ` set (it_members it)
         \<or> (mr_workspace_id r, mr_user_id r) \<in> (\<lambda>x. (mr_workspace_id x, mr_user_id x)) ` set (it_members it)
         \<or> (mr_role r = ''owner'' \<and> list_ex (\<lambda>x. mr_role x = ''owner'' \<and> mr_workspace_id x = mr_workspace_id r) (it_members it))
         \<or> mr_workspace_id r \<notin> wk_id ` set (it_workspaces it) \<or> mr_user_id r \<notin> us_id ` set (it_users it) then None
      else Some (it\<lparr>it_members := it_members it @ [r]\<rparr>))"

definition insert_installation :: "installation_row \<Rightarrow> identity_data \<Rightarrow> identity_data option" where
  "insert_installation r it =
     (if gh_id r \<in> gh_id ` set (it_installations it) \<or> gh_installation_id r \<in> gh_installation_id ` set (it_installations it) then None
      else Some (it\<lparr>it_installations := it_installations it @ [r]\<rparr>))"

definition insert_installation_user :: "installation_user_row \<Rightarrow> identity_data \<Rightarrow> identity_data option" where
  "insert_installation_user r it =
     (if gu_id r \<in> gu_id ` set (it_installation_users it)
         \<or> (gu_installation_row_id r, gu_user_id r) \<in> (\<lambda>x. (gu_installation_row_id x, gu_user_id x)) ` set (it_installation_users it)
         \<or> gu_installation_row_id r \<notin> gh_id ` set (it_installations it) \<or> gu_user_id r \<notin> us_id ` set (it_users it) then None
      else Some (it\<lparr>it_installation_users := it_installation_users it @ [r]\<rparr>))"

definition insert_repository :: "repository_row \<Rightarrow> identity_data \<Rightarrow> identity_data option" where
  "insert_repository r it =
     (if rb_id r \<in> rb_id ` set (it_repositories it) \<or> rb_workspace_id r \<in> rb_workspace_id ` set (it_repositories it)
         \<or> rb_repository_id r \<in> rb_repository_id ` set (it_repositories it)
         \<or> rb_workspace_id r \<notin> wk_id ` set (it_workspaces it) \<or> rb_installation_row_id r \<notin> gh_id ` set (it_installations it) then None
      else Some (it\<lparr>it_repositories := it_repositories it @ [r]\<rparr>))"

definition insert_bootstrap :: "bootstrap_row \<Rightarrow> identity_data \<Rightarrow> identity_data option" where
  "insert_bootstrap r it =
     (if wb_workspace_id r \<in> wb_workspace_id ` set (it_bootstraps it) \<or> wb_workspace_id r \<notin> wk_id ` set (it_workspaces it) then None
      else Some (it\<lparr>it_bootstraps := it_bootstraps it @ [r]\<rparr>))"

section \<open>Lookups\<close>

definition account_of :: "identity_data \<Rightarrow> user_id \<Rightarrow> account_row option" where
  "account_of it u = find (\<lambda>r. us_id r = u) (it_users it)"

definition findExternalIdentity :: "identity_data \<Rightarrow> string \<Rightarrow> string \<Rightarrow> external_row option" where
  "findExternalIdentity it provider subject = find (\<lambda>r. xt_provider r = provider \<and> xt_provider_subject r = subject) (it_externals it)"

definition findExternalIdentityByUser :: "identity_data \<Rightarrow> string \<Rightarrow> user_id \<Rightarrow> external_row option" where
  "findExternalIdentityByUser it provider u = find (\<lambda>r. xt_provider r = provider \<and> xt_user_id r = u) (it_externals it)"

definition isUserAdmin :: "identity_data \<Rightarrow> user_id \<Rightarrow> bool" where
  "isUserAdmin it u = list_ex (\<lambda>r. us_id r = u \<and> us_disabled_at r = None \<and> us_is_admin r = 1) (it_users it)"

definition account_active :: "identity_data \<Rightarrow> user_id \<Rightarrow> bool" where
  "account_active it u = list_ex (\<lambda>r. us_id r = u \<and> us_disabled_at r = None) (it_users it)"

definition findWorkspaceMembership :: "identity_data \<Rightarrow> ws_id \<Rightarrow> user_id \<Rightarrow> member_row option" where
  "findWorkspaceMembership it w u = find (\<lambda>r. mr_workspace_id r = w \<and> mr_user_id r = u) (it_members it)"

definition getOwnerMembershipForWorkspace :: "identity_data \<Rightarrow> ws_id \<Rightarrow> member_row option" where
  "getOwnerMembershipForWorkspace it w = find (\<lambda>r. mr_workspace_id r = w \<and> mr_role r = ''owner'') (it_members it)"

definition findWorkspaceById :: "identity_data \<Rightarrow> ws_id \<Rightarrow> workspace_row option" where
  "findWorkspaceById it w = find (\<lambda>r. wk_id r = w) (it_workspaces it)"

definition listAllWorkspaces :: "identity_data \<Rightarrow> workspace_row list" where
  "listAllWorkspaces it = sort_key wk_id (it_workspaces it)"

definition findGitHubInstallationById :: "identity_data \<Rightarrow> string \<Rightarrow> installation_row option" where
  "findGitHubInstallationById it i = find (\<lambda>r. gh_installation_id r = i) (it_installations it)"

definition findGitHubInstallationByRowId :: "identity_data \<Rightarrow> string \<Rightarrow> installation_row option" where
  "findGitHubInstallationByRowId it i = find (\<lambda>r. gh_id r = i) (it_installations it)"

definition findGitHubInstallationUser :: "identity_data \<Rightarrow> string \<Rightarrow> user_id \<Rightarrow> installation_user_row option" where
  "findGitHubInstallationUser it i u = find (\<lambda>r. gu_installation_row_id r = i \<and> gu_user_id r = u) (it_installation_users it)"

text \<open>The join of a user's links with their installations, newest verification first.\<close>

definition listGitHubInstallationsForUser :: "identity_data \<Rightarrow> user_id \<Rightarrow> (installation_row \<times> int) list" where
  "listGitHubInstallationsForUser it u = sort_key (\<lambda>p. (- snd p, gh_id (fst p)))
     (concat (map (\<lambda>g. map (\<lambda>l. (g, gu_verified_at_ms l))
        (filter (\<lambda>l. gu_installation_row_id l = gh_id g \<and> gu_user_id l = u) (it_installation_users it))) (it_installations it)))"

definition findRepositoryBindingByWorkspaceId :: "identity_data \<Rightarrow> ws_id \<Rightarrow> repository_row option" where
  "findRepositoryBindingByWorkspaceId it w = find (\<lambda>r. rb_workspace_id r = w) (it_repositories it)"

definition findRepositoryBindingByGitHubRepoId :: "identity_data \<Rightarrow> string \<Rightarrow> repository_row option" where
  "findRepositoryBindingByGitHubRepoId it i = find (\<lambda>r. rb_repository_id r = i) (it_repositories it)"

definition findRepositoryBindingById :: "identity_data \<Rightarrow> string \<Rightarrow> repository_row option" where
  "findRepositoryBindingById it i = find (\<lambda>r. rb_id r = i) (it_repositories it)"

definition listRepositoryBindingsForInstallation :: "identity_data \<Rightarrow> string \<Rightarrow> repository_row list" where
  "listRepositoryBindingsForInstallation it i =
     sort_key (\<lambda>r. (rb_created_at_ms r, rb_id r)) (filter (\<lambda>r. rb_installation_row_id r = i) (it_repositories it))"

definition countOwnedWorkspacesForUser :: "identity_data \<Rightarrow> user_id \<Rightarrow> nat" where
  "countOwnedWorkspacesForUser it u = row_changes (\<lambda>r. mr_user_id r = u \<and> mr_role r = ''owner'') (it_members it)"

definition findWorkspaceBootstrapByWorkspaceId :: "identity_data \<Rightarrow> ws_id \<Rightarrow> bootstrap_row option" where
  "findWorkspaceBootstrapByWorkspaceId it w = find (\<lambda>r. wb_workspace_id r = w) (it_bootstraps it)"

section \<open>Users and external identities\<close>

record login_input =
  lg_provider :: string
  lg_subject :: string
  lg_login :: "string option"
  lg_email :: "string option"

text \<open>A text that is not blank, trimmed.\<close>

definition trimmed_text :: "string option \<Rightarrow> string option" where
  "trimmed_text e = (case e of None \<Rightarrow> None | Some s \<Rightarrow> if js_trim s = [] then None else Some (js_trim s))"

definition first_given :: "'a option \<Rightarrow> 'a option \<Rightarrow> 'a option" where
  "first_given x y = (case x of None \<Rightarrow> y | Some _ \<Rightarrow> x)"

record resolved_user =
  ru_user_id :: user_id
  ru_external_identity_id :: string
  ru_created :: bool
  ru_provider :: string
  ru_subject :: string
  ru_login :: "string option"
  ru_email :: "string option"

definition update_external :: "int \<Rightarrow> string \<Rightarrow> string option \<Rightarrow> string option \<Rightarrow> identity_data \<Rightarrow> identity_data" where
  "update_external now i login email it = it\<lparr>it_externals := update_rows (\<lambda>r. xt_id r = i)
     (\<lambda>r. r\<lparr>xt_provider_login := login, xt_provider_email := email, xt_updated_at_ms := now\<rparr>) (it_externals it)\<rparr>"

definition updateExternalIdentityMetadata ::
  "int \<Rightarrow> string \<Rightarrow> string \<Rightarrow> string option option \<Rightarrow> string option \<Rightarrow> identity_data \<Rightarrow> unit identity_result" where
  "updateExternalIdentityMetadata now provider subject login email it = (case findExternalIdentity it provider subject of
      None \<Rightarrow> Inl IdentityConflictError
    | Some x \<Rightarrow> Inr (update_external now (xt_id x) (case login of None \<Rightarrow> xt_provider_login x | Some l \<Rightarrow> l)
        (first_given (trimmed_text email) (xt_provider_email x)) it, ()))"

definition resolveOrCreateExternalUser :: "int \<Rightarrow> string \<Rightarrow> string \<Rightarrow> login_input \<Rightarrow> identity_data \<Rightarrow> resolved_user identity_result" where
  "resolveOrCreateExternalUser now userUuid extUuid i it = (case findExternalIdentity it (lg_provider i) (lg_subject i) of
      Some x \<Rightarrow> (case account_of it (xt_user_id x) of
          None \<Rightarrow> Inl IdentityStructureError
        | Some u \<Rightarrow>
           if us_disabled_at u \<noteq> None then Inl IdentityConflictError
           else (let login = first_given (lg_login i) (xt_provider_login x);
                     email = first_given (trimmed_text (lg_email i)) (xt_provider_email x)
                 in Inr (update_external now (xt_id x) login email it,
                    \<lparr>ru_user_id = xt_user_id x, ru_external_identity_id = xt_id x, ru_created = False, ru_provider = xt_provider x,
                     ru_subject = xt_provider_subject x, ru_login = login, ru_email = email\<rparr>)))
    | None \<Rightarrow>
       (let u = ''usr_'' @ userUuid; e = ''ext_'' @ extUuid;
            x = \<lparr>xt_id = e, xt_provider = lg_provider i, xt_provider_subject = lg_subject i, xt_user_id = u, xt_provider_login = lg_login i,
                 xt_provider_email = trimmed_text (lg_email i), xt_created_at_ms = now, xt_updated_at_ms = now\<rparr>
        in case Option.bind (insert_user \<lparr>us_id = u, us_created_at = now, us_disabled_at = None, us_is_admin = 0\<rparr> it) (insert_external x) of
          None \<Rightarrow> Inl IdentityDbUnavailable
        | Some it' \<Rightarrow> Inr (it', \<lparr>ru_user_id = u, ru_external_identity_id = e, ru_created = True, ru_provider = lg_provider i,
            ru_subject = lg_subject i, ru_login = lg_login i, ru_email = trimmed_text (lg_email i)\<rparr>)))"

definition setUserAdmin :: "user_id \<Rightarrow> bool \<Rightarrow> identity_data \<Rightarrow> unit identity_result" where
  "setUserAdmin u v it = (if account_of it u = None then Inl IdentityError
     else Inr (it\<lparr>it_users := update_rows (\<lambda>r. us_id r = u) (\<lambda>r. r\<lparr>us_is_admin := if v then 1 else 0\<rparr>) (it_users it)\<rparr>, ()))"

definition grantAdmin :: "user_id \<Rightarrow> identity_data \<Rightarrow> unit identity_result" where
  "grantAdmin u it = (if \<not> account_active it u then Inl IdentityError else setUserAdmin u True it)"

definition revokeAdmin :: "user_id \<Rightarrow> identity_data \<Rightarrow> unit identity_result" where
  "revokeAdmin u it = setUserAdmin u False it"

section \<open>GitHub installations\<close>

text \<open>\<^verbatim>\<open>/^[1-9][0-9]*$/\<close>.\<close>

definition positive_decimal :: "string \<Rightarrow> bool" where
  "positive_decimal s = (case s of [] \<Rightarrow> False | c # cs \<Rightarrow> is_digit c \<and> c \<noteq> CHR ''0'' \<and> list_all is_digit cs)"

definition non_blank :: "string \<Rightarrow> bool" where
  "non_blank s \<longleftrightarrow> js_trim s \<noteq> []"

definition account_types :: "string list" where "account_types = [''User'', ''Organization'']"
definition repository_selections :: "string list" where "repository_selections = [''all'', ''selected'']"

record installation_input =
  ii_installation_id :: string
  ii_app_id :: string
  ii_account_id :: string
  ii_account_login :: string
  ii_account_type :: string
  ii_repository_selection :: string
  ii_suspended_at_ms :: "int option"
  ii_user_id :: user_id

definition installation_input_ok :: "installation_input \<Rightarrow> bool" where
  "installation_input_ok i \<longleftrightarrow> positive_decimal (ii_installation_id i) \<and> positive_decimal (ii_app_id i) \<and> positive_decimal (ii_account_id i)
     \<and> non_blank (ii_account_login i) \<and> ii_account_type i \<in> set account_types \<and> ii_repository_selection i \<in> set repository_selections
     \<and> (case ii_suspended_at_ms i of None \<Rightarrow> True | Some t \<Rightarrow> 0 < t)"

text \<open>\<^verbatim>\<open>INSERT ... ON CONFLICT DO UPDATE ... RETURNING\<close>, for the installation and for the link of the user.\<close>

definition new_installation :: "int \<Rightarrow> string \<Rightarrow> installation_input \<Rightarrow> installation_row" where
  "new_installation now i n = \<lparr>gh_id = i, gh_installation_id = ii_installation_id n, gh_app_id = ii_app_id n, gh_account_id = ii_account_id n,
     gh_account_login = ii_account_login n, gh_account_type = ii_account_type n, gh_repository_selection = ii_repository_selection n,
     gh_suspended_at_ms = ii_suspended_at_ms n, gh_created_at_ms = now, gh_updated_at_ms = now\<rparr>"

definition upsert_installation :: "installation_row \<Rightarrow> identity_data \<Rightarrow> (identity_data \<times> installation_row) option" where
  "upsert_installation n it = (case findGitHubInstallationById it (gh_installation_id n) of
      None \<Rightarrow> map_option (\<lambda>it'. (it', n)) (insert_installation n it)
    | Some old \<Rightarrow>
       (let new = n\<lparr>gh_id := gh_id old, gh_created_at_ms := gh_created_at_ms old\<rparr>
        in if gh_id n \<in> gh_id ` set (it_installations it) then None else Some (it\<lparr>it_installations := update_rows (\<lambda>r. gh_installation_id r = gh_installation_id n) (\<lambda>_. new) (it_installations it)\<rparr>, new)))"

definition upsert_installation_user :: "installation_user_row \<Rightarrow> identity_data \<Rightarrow> (identity_data \<times> installation_user_row) option" where
  "upsert_installation_user n it = (case findGitHubInstallationUser it (gu_installation_row_id n) (gu_user_id n) of
      None \<Rightarrow> map_option (\<lambda>it'. (it', n)) (insert_installation_user n it)
    | Some old \<Rightarrow> if gu_id n \<in> gu_id ` set (it_installation_users it) then None
       else Some (it\<lparr>it_installation_users := update_rows (\<lambda>r. gu_installation_row_id r = gu_installation_row_id n \<and> gu_user_id r = gu_user_id n)
        (\<lambda>r. r\<lparr>gu_verified_at_ms := gu_verified_at_ms n\<rparr>) (it_installation_users it)\<rparr>, old\<lparr>gu_verified_at_ms := gu_verified_at_ms n\<rparr>))"

definition upsertGitHubInstallationWithUser ::
  "int \<Rightarrow> string \<Rightarrow> string \<Rightarrow> installation_input \<Rightarrow> identity_data \<Rightarrow> (installation_row \<times> installation_user_row) identity_result" where
  "upsertGitHubInstallationWithUser now ghiUuid ghiuUuid n it =
     (if \<not> installation_input_ok n then Inl IdentityStructureError
      else case account_of it (ii_user_id n) of
        None \<Rightarrow> Inl IdentityStructureError
      | Some u \<Rightarrow>
         if us_disabled_at u \<noteq> None then Inl IdentityConflictError
         else (case upsert_installation (new_installation now (''ghi_'' @ ghiUuid) n) it of
             None \<Rightarrow> Inl IdentityDbUnavailable
           | Some (it1, g) \<Rightarrow> (case upsert_installation_user \<lparr>gu_id = ''ghiu_'' @ ghiuUuid, gu_installation_row_id = gh_id g,
                 gu_user_id = ii_user_id n, gu_created_at_ms = now, gu_verified_at_ms = now\<rparr> it1 of
               None \<Rightarrow> Inl IdentityDbUnavailable
             | Some (it2, l) \<Rightarrow> Inr (it2, (g, l)))))"

section \<open>Repository bindings and workspaces\<close>

record repository_patch =
  rp_owner_login :: "string option"
  rp_repository_name :: "string option"
  rp_full_name :: "string option"
  rp_branch :: "string option"

definition updateRepositoryBindingMetadata :: "int \<Rightarrow> string \<Rightarrow> repository_patch \<Rightarrow> identity_data \<Rightarrow> identity_data \<times> bool" where
  "updateRepositoryBindingMetadata now i p it = (case findRepositoryBindingByGitHubRepoId it i of
      None \<Rightarrow> (it, False)
    | Some b \<Rightarrow>
       (it\<lparr>it_repositories := update_rows (\<lambda>r. rb_repository_id r = i)
          (\<lambda>r. r\<lparr>rb_owner_login := (case rp_owner_login p of None \<Rightarrow> rb_owner_login b | Some x \<Rightarrow> x),
               rb_repository_name := (case rp_repository_name p of None \<Rightarrow> rb_repository_name b | Some x \<Rightarrow> x),
               rb_full_name := (case rp_full_name p of None \<Rightarrow> rb_full_name b | Some x \<Rightarrow> x),
               rb_branch := (case rp_branch p of None \<Rightarrow> rb_branch b | Some x \<Rightarrow> x), rb_updated_at_ms := now\<rparr>) (it_repositories it)\<rparr>,
        row_changes (\<lambda>r. rb_repository_id r = i) (it_repositories it) > 0))"

definition github_url :: "string \<Rightarrow> string" where
  "github_url fullName = ''https://github.com/'' @ fullName @ ''.git''"

text \<open>The statement on the execution targets is the one of \<open>reconcileExecutionTargetRepositoryMetadata\<close>.\<close>

definition reconcileRepositoryMetadataById ::
  "int \<Rightarrow> string \<Rightarrow> string \<Rightarrow> string \<Rightarrow> string \<Rightarrow> identity_data \<times> control_db \<Rightarrow>
   identity_error + (identity_data \<times> control_db) \<times> (repository_row option \<times> string)" where
  "reconcileRepositoryMetadataById now i ownerLogin repositoryName fullName s = (case s of (it, c) \<Rightarrow>
     (case findRepositoryBindingByGitHubRepoId it i of
       None \<Rightarrow> Inl IdentityError
     | Some b \<Rightarrow>
        (let it1 = it\<lparr>it_repositories := update_rows (\<lambda>r. rb_repository_id r = i)
               (\<lambda>r. r\<lparr>rb_owner_login := ownerLogin, rb_repository_name := repositoryName, rb_full_name := fullName, rb_updated_at_ms := now\<rparr>)
               (it_repositories it)\<rparr>;
             it2 = it1\<lparr>it_workspaces := update_rows (\<lambda>r. wk_id r = rb_workspace_id b) (\<lambda>r. r\<lparr>wk_remote_url := github_url fullName\<rparr>)
               (it_workspaces it1)\<rparr>
         in Inr ((it2, fst (reconcileExecutionTargetRepositoryMetadata now ''github'' i fullName c)),
              (findRepositoryBindingByGitHubRepoId it2 i, github_url fullName)))))"

definition markRepositoryBindingScopeVerified :: "int \<Rightarrow> ws_id \<Rightarrow> identity_data \<Rightarrow> unit identity_result" where
  "markRepositoryBindingScopeVerified now w it =
     (if row_changes (\<lambda>r. rb_workspace_id r = w) (it_repositories it) = 0 then Inl IdentityError
      else Inr (it\<lparr>it_repositories := update_rows (\<lambda>r. rb_workspace_id r = w)
          (\<lambda>r. r\<lparr>rb_scope_verified_at_ms := Some now, rb_updated_at_ms := now\<rparr>) (it_repositories it)\<rparr>, ()))"

definition clearRepositoryBindingScopeVerified :: "int \<Rightarrow> ws_id \<Rightarrow> identity_data \<Rightarrow> identity_data" where
  "clearRepositoryBindingScopeVerified now w it =
     it\<lparr>it_repositories := update_rows (\<lambda>r. rb_workspace_id r = w)
        (\<lambda>r. r\<lparr>rb_scope_verified_at_ms := None, rb_updated_at_ms := now\<rparr>) (it_repositories it)\<rparr>"

record workspace_input =
  wi_user_id :: user_id
  wi_installation_row_id :: string
  wi_repository_id :: string
  wi_owner_account_id :: string
  wi_owner_login :: string
  wi_repository_name :: string
  wi_full_name :: string
  wi_branch :: string
  wi_scope_verified_at_ms :: "int option"

definition workspace_input_ok :: "workspace_input \<Rightarrow> bool" where
  "workspace_input_ok i \<longleftrightarrow> positive_decimal (wi_repository_id i) \<and> positive_decimal (wi_owner_account_id i) \<and> non_blank (wi_owner_login i)
     \<and> non_blank (wi_repository_name i) \<and> non_blank (wi_full_name i) \<and> non_blank (wi_branch i) \<and> CHR 0x00 \<notin> set (wi_branch i)"

text \<open>The rows of a new workspace.\<close>

record workspace_rows =
  nw_workspace :: workspace_row
  nw_member :: member_row
  nw_repository :: repository_row
  nw_bootstrap :: bootstrap_row

definition pending_bootstrap :: "int \<Rightarrow> ws_id \<Rightarrow> bootstrap_row" where
  "pending_bootstrap now w = \<lparr>wb_workspace_id = w, wb_version = 1, wb_state = BS_pending, wb_attempt_count = 0, wb_last_attempt_id = None,
     wb_base_commit_sha = None, wb_ready_commit_sha = None, wb_error_kind = None, wb_error_code = None, wb_error_message = None,
     wb_created_at_ms = now, wb_updated_at_ms = now, wb_ready_at_ms = None\<rparr>"

definition new_workspace :: "int \<Rightarrow> string \<Rightarrow> string \<Rightarrow> string \<Rightarrow> workspace_input \<Rightarrow> workspace_rows" where
  "new_workspace now wsUuid wsmUuid grbUuid i =
     (let w = ''ws_'' @ wsUuid in
      \<lparr>nw_workspace = \<lparr>wk_id = w, wk_owner_user_id = wi_user_id i, wk_remote_url = github_url (js_trim (wi_full_name i)),
         wk_branch = js_trim (wi_branch i), wk_created_at = now\<rparr>,
       nw_member = \<lparr>mr_id = ''wsm_'' @ wsmUuid, mr_workspace_id = w, mr_user_id = wi_user_id i, mr_role = ''owner'', mr_created_at = now\<rparr>,
       nw_repository = \<lparr>rb_id = ''grb_'' @ grbUuid, rb_workspace_id = w, rb_repository_id = wi_repository_id i,
         rb_installation_row_id = wi_installation_row_id i, rb_owner_account_id = wi_owner_account_id i, rb_owner_login = js_trim (wi_owner_login i),
         rb_repository_name = js_trim (wi_repository_name i), rb_full_name = js_trim (wi_full_name i), rb_branch = js_trim (wi_branch i),
         rb_created_at_ms = now, rb_updated_at_ms = now, rb_scope_verified_at_ms = wi_scope_verified_at_ms i\<rparr>,
       nw_bootstrap = pending_bootstrap now w\<rparr>)"

definition insert_workspace_rows :: "workspace_rows \<Rightarrow> identity_data \<Rightarrow> identity_data option" where
  "insert_workspace_rows n it =
     Option.bind (insert_workspace (nw_workspace n) it) (\<lambda>it1.
     Option.bind (insert_member (nw_member n) it1) (\<lambda>it2.
     Option.bind (insert_repository (nw_repository n) it2) (insert_bootstrap (nw_bootstrap n))))"

definition createWorkspaceWithRepositoryBinding ::
  "int \<Rightarrow> string \<Rightarrow> string \<Rightarrow> string \<Rightarrow> workspace_input \<Rightarrow> identity_data \<Rightarrow> workspace_rows identity_result" where
  "createWorkspaceWithRepositoryBinding now wsUuid wsmUuid grbUuid i it =
     (if \<not> workspace_input_ok i then Inl IdentityStructureError
      else case account_of it (wi_user_id i) of
        None \<Rightarrow> Inl IdentityStructureError
      | Some u \<Rightarrow>
         if us_disabled_at u \<noteq> None then Inl IdentityConflictError
         else if findGitHubInstallationByRowId it (wi_installation_row_id i) = None then Inl IdentityStructureError
         else if findGitHubInstallationUser it (wi_installation_row_id i) (wi_user_id i) = None then Inl IdentityConflictError
         else if findRepositoryBindingByGitHubRepoId it (wi_repository_id i) \<noteq> None then Inl IdentityConflictError
         else if countOwnedWorkspacesForUser it (wi_user_id i) > 0 then Inl IdentityConflictError
         else (let n = new_workspace now wsUuid wsmUuid grbUuid i in
           case insert_workspace_rows n it of None \<Rightarrow> Inl IdentityDbUnavailable | Some it' \<Rightarrow> Inr (it', n)))"

end
