(* ===== verification/Bootstrap_Store.thy ===== *)
theory Bootstrap_Store
  imports Identity_Store
begin

text \<open>
  The bootstrap record of a workspace (\<^verbatim>\<open>identity/store.ts\<close>, from \<^verbatim>\<open>beginWorkspaceBootstrapAttempt\<close> on), with the
  texts of its errors: credentials are cut out of a message, and a code is made of letters, digits and underscores.
\<close>

section \<open>Replacements\<close>

text \<open>
  \<^verbatim>\<open>s.replace(pattern, text)\<close> with a global pattern. A pattern is the length of its match at the beginning of a text,
  0 if it does not match there. All patterns here are matched greedily without backtracking.
\<close>

function replace_matches :: "(string \<Rightarrow> nat) \<Rightarrow> string \<Rightarrow> string \<Rightarrow> string" where
  "replace_matches m new [] = []"
| "replace_matches m new (c # cs) =
     (if m (c # cs) = 0 then c # replace_matches m new cs else new @ replace_matches m new (drop (m (c # cs)) (c # cs)))"
  by pat_completeness auto
termination by (relation "measure (\<lambda>(_, _, s). length s)") auto

definition token_chars :: string where
  "token_chars = ''abcdefghijklmnopqrstuvwxyzABCDEFGHIJKLMNOPQRSTUVWXYZ0123456789_''"

definition token_char :: "char \<Rightarrow> bool" where "token_char c \<longleftrightarrow> c \<in> set token_chars"

text \<open>\<^verbatim>\<open>prefix[A-Za-z0-9_]+\<close>.\<close>

definition prefixed_token :: "string \<Rightarrow> string \<Rightarrow> nat" where
  "prefixed_token p s = (let run = length (takeWhile token_char (drop (length p) s))
     in if starts_with p s \<and> run > 0 then length p + run else 0)"

text \<open>The length of the longest beginning without white space and without the given characters.\<close>

fun solid_run :: "string \<Rightarrow> string \<Rightarrow> nat" where
  "solid_run stop [] = 0"
| "solid_run stop (c # cs) = (if c \<in> set stop \<or> ws_prefix (c # cs) \<noteq> None then 0 else Suc (solid_run stop cs))"

text \<open>\<^verbatim>\<open>/word\s+[^\s]+/i\<close>.\<close>

definition word_and_value :: "string \<Rightarrow> string \<Rightarrow> nat" where
  "word_and_value w s =
     (let rest = drop (length w) s; body = js_trim_start rest; spaces = length rest - length body; run = solid_run [] body
      in if map ascii_lower (take (length w) s) = w \<and> spaces > 0 \<and> run > 0 then length w + spaces + run else 0)"

text \<open>\<^verbatim>\<open>https:\/\/[^@/\s]+@\<close>.\<close>

definition url_credentials :: "string \<Rightarrow> nat" where
  "url_credentials s = (let rest = drop 8 s; run = solid_run ''@/'' rest
     in if starts_with ''https://'' s \<and> run > 0 \<and> starts_with ''@'' (drop run rest) then 8 + run + 1 else 0)"

text \<open>
  \<^verbatim>\<open>s.slice(0, n)\<close> counts UTF-16 units. Half of a surrogate pair is stored as the replacement character.
\<close>

definition continuation_byte :: "char \<Rightarrow> bool" where
  "continuation_byte c \<longleftrightarrow> 0x80 \<le> (of_char c :: nat) \<and> of_char c < (0xC0::nat)"

function js_take :: "nat \<Rightarrow> string \<Rightarrow> string" where
  "js_take n [] = []"
| "js_take n (c # cs) =
     (let units = (if 0xF0 \<le> (of_char c :: nat) then 2 else 1)
      in if units \<le> n then c # takeWhile continuation_byte cs @ js_take (n - units) (dropWhile continuation_byte cs)
         else if n = 1 then [CHR 0xEF, CHR 0xBF, CHR 0xBD] else [])"
  by pat_completeness auto
termination by (relation "measure (\<lambda>(_, s). length s)") (auto simp: less_Suc_eq_le length_dropWhile_le)

definition redacted :: string where "redacted = ''[REDACTED]''"

definition redact :: "string \<Rightarrow> string" where
  "redact msg =
     replace_matches url_credentials (''https://'' @ redacted @ ''@'')
      (replace_matches (word_and_value ''token'') (''token '' @ redacted)
       (replace_matches (word_and_value ''bearer'') (''Bearer '' @ redacted)
        (replace_matches (prefixed_token ''github_pat_'') redacted
         (replace_matches (prefixed_token ''ghs_'') redacted
          (replace_matches (prefixed_token ''ghp_'') redacted msg)))))"

definition sanitizeErrorMessage :: "string \<Rightarrow> string" where
  "sanitizeErrorMessage msg = (let cleaned = redact msg in if js_length cleaned > 500 then js_take 497 cleaned @ ''...'' else cleaned)"

text \<open>Each UTF-16 unit that is no letter, digit or underscore becomes an underscore; letters are made upper case.\<close>

definition upper_letter :: "char \<Rightarrow> char" where
  "upper_letter c = (if 97 \<le> (of_char c :: nat) \<and> of_char c \<le> (122::nat) then char_of (of_char c - (32::nat)) else c)"

definition code_unit :: "char \<Rightarrow> string" where
  "code_unit c = (if token_char c then [upper_letter c]
     else if continuation_byte c then []
     else if 0xF0 \<le> (of_char c :: nat) then ''__'' else ''_'')"

definition sanitizeErrorCode :: "string \<Rightarrow> string" where
  "sanitizeErrorCode code = (let cleaned = take 64 (concat (map code_unit (js_trim code))) in if cleaned = [] then ''UNKNOWN_ERROR'' else cleaned)"

definition any_hex_digit :: "char \<Rightarrow> bool" where
  "any_hex_digit c \<longleftrightarrow> c \<in> set ''0123456789abcdefABCDEF''"

definition COMMIT_HEX_REGEX :: "string \<Rightarrow> bool" where
  "COMMIT_HEX_REGEX s \<longleftrightarrow> 40 \<le> length s \<and> length s \<le> 64 \<and> list_all any_hex_digit s"

definition normalizeSha :: "string \<Rightarrow> identity_error + string" where
  "normalizeSha sha = (if COMMIT_HEX_REGEX (js_trim sha) then Inr (map ascii_lower (js_trim sha)) else Inl IdentityStructureError)"

text \<open>An optional commit, where the empty text counts as absent.\<close>

definition optional_sha :: "string option \<Rightarrow> identity_error + string option" where
  "optional_sha s = (case s of None \<Rightarrow> Inr None | Some x \<Rightarrow> if x = [] then Inr None else ebind (normalizeSha x) (\<lambda>y. Inr (Some y)))"

section \<open>Attempts\<close>

definition update_bootstrap :: "(bootstrap_row \<Rightarrow> bool) \<Rightarrow> bootstrap_row \<Rightarrow> identity_data \<Rightarrow> identity_data" where
  "update_bootstrap p new it = it\<lparr>it_bootstraps := update_rows p (\<lambda>_. new) (it_bootstraps it)\<rparr>"

definition begun_attempt :: "int \<Rightarrow> string \<Rightarrow> bootstrap_row \<Rightarrow> bootstrap_row" where
  "begun_attempt now attemptId b = b\<lparr>wb_state := BS_applying, wb_attempt_count := wb_attempt_count b + 1, wb_last_attempt_id := Some attemptId,
     wb_ready_commit_sha := None, wb_ready_at_ms := None, wb_error_kind := None, wb_error_code := None, wb_error_message := None,
     wb_updated_at_ms := now\<rparr>"

definition beginWorkspaceBootstrapAttempt :: "int \<Rightarrow> string \<Rightarrow> ws_id \<Rightarrow> identity_data \<Rightarrow> (string \<times> bootstrap_row) identity_result" where
  "beginWorkspaceBootstrapAttempt now uuid w it = (case findWorkspaceBootstrapByWorkspaceId it w of
      None \<Rightarrow> Inl IdentityStructureError
    | Some b \<Rightarrow>
       (let a = ''wba_'' @ uuid; b' = begun_attempt now a b
        in Inr (update_bootstrap (\<lambda>r. wb_workspace_id r = w) b' it, (a, b'))))"

text \<open>The row of an attempt that is still the current one.\<close>

definition current_attempt :: "ws_id \<Rightarrow> string \<Rightarrow> bootstrap_row \<Rightarrow> bool" where
  "current_attempt w attemptId r \<longleftrightarrow> wb_workspace_id r = w \<and> wb_last_attempt_id r = Some attemptId \<and> wb_state r = BS_applying"

definition end_attempt :: "ws_id \<Rightarrow> string \<Rightarrow> (bootstrap_row \<Rightarrow> bootstrap_row) \<Rightarrow> identity_data \<Rightarrow> bootstrap_row identity_result" where
  "end_attempt w attemptId f it = (case findWorkspaceBootstrapByWorkspaceId it w of
      None \<Rightarrow> Inl IdentityStructureError
    | Some b \<Rightarrow>
       if wb_last_attempt_id b \<noteq> Some attemptId \<or> wb_state b \<noteq> BS_applying then Inl IdentityConflictError
       else if row_changes (current_attempt w attemptId) (it_bootstraps it) \<noteq> 1 then Inl IdentityConflictError
       else Inr (update_bootstrap (current_attempt w attemptId) (f b) it, f b))"

definition markWorkspaceBootstrapReady ::
  "int \<Rightarrow> ws_id \<Rightarrow> string \<Rightarrow> string \<Rightarrow> string option \<Rightarrow> identity_data \<Rightarrow> bootstrap_row identity_result" where
  "markWorkspaceBootstrapReady now w attemptId readySha baseSha it =
     ebind (normalizeSha readySha) (\<lambda>ready. ebind (optional_sha baseSha) (\<lambda>base.
       end_attempt w attemptId (\<lambda>b. b\<lparr>wb_state := BS_ready, wb_ready_commit_sha := Some ready, wb_ready_at_ms := Some now,
         wb_base_commit_sha := first_given base (wb_base_commit_sha b), wb_error_kind := None, wb_error_code := None, wb_error_message := None,
         wb_updated_at_ms := now\<rparr>) it))"

definition failed_attempt ::
  "int \<Rightarrow> bootstrap_state \<Rightarrow> bootstrap_error_kind \<Rightarrow> string \<Rightarrow> string \<Rightarrow> string option \<Rightarrow> bootstrap_row \<Rightarrow> bootstrap_row" where
  "failed_attempt now st k code msg base b = b\<lparr>wb_state := st, wb_error_kind := Some k, wb_error_code := Some code, wb_error_message := Some msg,
     wb_base_commit_sha := first_given base (wb_base_commit_sha b), wb_ready_commit_sha := None, wb_ready_at_ms := None, wb_updated_at_ms := now\<rparr>"

definition markWorkspaceBootstrapRetryableFailure ::
  "int \<Rightarrow> ws_id \<Rightarrow> string \<Rightarrow> string \<Rightarrow> string \<Rightarrow> string option \<Rightarrow> identity_data \<Rightarrow> bootstrap_row identity_result" where
  "markWorkspaceBootstrapRetryableFailure now w attemptId code msg baseSha it = ebind (optional_sha baseSha) (\<lambda>base.
     end_attempt w attemptId (failed_attempt now BS_retryable_failure BK_retryable (sanitizeErrorCode code) (sanitizeErrorMessage msg) base) it)"

definition markWorkspaceBootstrapManualRecovery ::
  "int \<Rightarrow> ws_id \<Rightarrow> string \<Rightarrow> string \<Rightarrow> string \<Rightarrow> string option \<Rightarrow> identity_data \<Rightarrow> bootstrap_row identity_result" where
  "markWorkspaceBootstrapManualRecovery now w attemptId code msg baseSha it = ebind (optional_sha baseSha) (\<lambda>base.
     end_attempt w attemptId (failed_attempt now BS_manual_recovery BK_manual (sanitizeErrorCode code) (sanitizeErrorMessage msg) base) it)"

end
