(* ===== verification/Onboarding_Store.thy ===== *)
theory Onboarding_Store
  imports Bootstrap_Store
begin

text \<open>
  The onboarding flows (\<^verbatim>\<open>onboarding/store.ts\<close>), a table of the identity database: the way of a user from the login to
  a workspace. A table is the list of its rows; an operation returns an error, in which case nothing was committed, or the
  new table with its result. The unique index admits one active flow for a user.
\<close>

datatype onboarding_state =
    OS_awaiting_repository_choice | OS_awaiting_github_access | OS_provisioning | OS_awaiting_repository_restriction
  | OS_ready_to_resume | OS_recovery_required | OS_completed

record onboarding_flow =
  fw_id :: string
  fw_user_id :: user_id
  fw_provider_subject :: string
  fw_mode :: string
  fw_desired_repository_name :: "string option"
  fw_installation_row_id :: "string option"
  fw_repository_id :: "string option"
  fw_workspace_id :: "ws_id option"
  fw_state :: onboarding_state
  fw_last_error_code :: "string option"
  fw_last_error_message :: "string option"
  fw_host_oauth_request_id :: "string option"
  fw_created_at_ms :: int
  fw_updated_at_ms :: int
  fw_expires_at_ms :: int

type_synonym onboarding_table = "onboarding_flow list"

definition DEFAULT_ONBOARDING_TTL_MS :: int where "DEFAULT_ONBOARDING_TTL_MS = 60 * 60 * 1000"

section \<open>Constraints\<close>

definition active_states :: "onboarding_state list" where
  "active_states = [OS_awaiting_repository_choice, OS_awaiting_github_access, OS_provisioning, OS_awaiting_repository_restriction,
     OS_ready_to_resume, OS_recovery_required]"

definition active_flow_of :: "user_id \<Rightarrow> onboarding_flow \<Rightarrow> bool" where
  "active_flow_of u f \<longleftrightarrow> fw_user_id f = u \<and> fw_state f \<in> set active_states"

definition flow_parents_exist :: "identity_data \<Rightarrow> onboarding_flow \<Rightarrow> bool" where
  "flow_parents_exist it f \<longleftrightarrow> fw_user_id f \<in> us_id ` set (it_users it)
     \<and> (case fw_installation_row_id f of None \<Rightarrow> True | Some i \<Rightarrow> i \<in> gh_id ` set (it_installations it))
     \<and> (case fw_workspace_id f of None \<Rightarrow> True | Some w \<Rightarrow> w \<in> wk_id ` set (it_workspaces it))"

text \<open>What the unique index and the foreign keys ask of a row beside the other rows.\<close>

definition flow_fits :: "identity_data \<Rightarrow> onboarding_table \<Rightarrow> onboarding_flow \<Rightarrow> bool" where
  "flow_fits it others f \<longleftrightarrow> flow_parents_exist it f
     \<and> \<not> (active_flow_of (fw_user_id f) f \<and> list_ex (active_flow_of (fw_user_id f)) others)"

definition insert_flow :: "identity_data \<Rightarrow> onboarding_flow \<Rightarrow> onboarding_table \<Rightarrow> identity_error + onboarding_table" where
  "insert_flow it f t = (if fw_id f \<in> fw_id ` set t \<or> \<not> flow_fits it t f then Inl IdentityDbUnavailable else Inr (t @ [f]))"

definition replace_flow :: "identity_data \<Rightarrow> onboarding_flow \<Rightarrow> onboarding_table \<Rightarrow> identity_error + onboarding_table" where
  "replace_flow it f t =
     (if \<not> flow_fits it (filter (\<lambda>r. fw_id r \<noteq> fw_id f) t) f then Inl IdentityDbUnavailable
      else Inr (update_rows (\<lambda>r. fw_id r = fw_id f) (\<lambda>_. f) t))"

section \<open>Operations\<close>

definition getFlow :: "string \<Rightarrow> onboarding_table \<Rightarrow> onboarding_flow option" where
  "getFlow i t = find (\<lambda>r. fw_id r = i) t"

definition findActiveFlowForUser :: "user_id \<Rightarrow> onboarding_table \<Rightarrow> onboarding_flow option" where
  "findActiveFlowForUser u t = find (active_flow_of u) t"

definition given_text_of :: "string option \<Rightarrow> bool" where
  "given_text_of x \<longleftrightarrow> (case x of None \<Rightarrow> False | Some s \<Rightarrow> s \<noteq> [])"

definition new_flow :: "int \<Rightarrow> string \<Rightarrow> user_id \<Rightarrow> string \<Rightarrow> int \<Rightarrow> string option \<Rightarrow> onboarding_flow" where
  "new_flow now i u subject ttl host = \<lparr>fw_id = i, fw_user_id = u, fw_provider_subject = subject, fw_mode = ''create'',
     fw_desired_repository_name = Some ''personal-vault'', fw_installation_row_id = None, fw_repository_id = None, fw_workspace_id = None,
     fw_state = OS_awaiting_github_access, fw_last_error_code = None, fw_last_error_message = None, fw_host_oauth_request_id = host,
     fw_created_at_ms = now, fw_updated_at_ms = now, fw_expires_at_ms = now + ttl\<rparr>"

text \<open>The active flow is kept, with the authorization request that led here; the answer shows its old time of update.\<close>

definition keep_active :: "int \<Rightarrow> string option \<Rightarrow> onboarding_flow \<Rightarrow> onboarding_table \<Rightarrow> onboarding_table \<times> onboarding_flow" where
  "keep_active now host f t =
     (if given_text_of host \<and> fw_host_oauth_request_id f \<noteq> host
      then (update_rows (\<lambda>r. fw_id r = fw_id f) (\<lambda>r. r\<lparr>fw_host_oauth_request_id := host, fw_updated_at_ms := now\<rparr>) t, f\<lparr>fw_host_oauth_request_id := host\<rparr>)
      else (t, f))"

definition getOrCreateActiveFlowInTx ::
  "int \<Rightarrow> string \<Rightarrow> user_id \<Rightarrow> string \<Rightarrow> int \<Rightarrow> string option \<Rightarrow> identity_data \<Rightarrow> onboarding_table \<Rightarrow>
   identity_error + onboarding_table \<times> onboarding_flow" where
  "getOrCreateActiveFlowInTx now uuid u subject ttl host it t =
     (let f = new_flow now (''onb_'' @ uuid) u subject ttl host in
      case findActiveFlowForUser u t of
        None \<Rightarrow> ebind (insert_flow it f t) (\<lambda>t'. Inr (t', f))
      | Some a \<Rightarrow>
         if now > fw_expires_at_ms a \<and> fw_repository_id a = None \<and> fw_workspace_id a = None
         then (let t1 = update_rows (\<lambda>r. fw_id r = fw_id a) (\<lambda>r. r\<lparr>fw_state := OS_completed, fw_updated_at_ms := now\<rparr>) t
               in ebind (insert_flow it f t1) (\<lambda>t'. Inr (t', f)))
         else Inr (keep_active now host a t))"

text \<open>The members of a patch; \<open>None\<close> is \<^verbatim>\<open>undefined\<close>.\<close>

record flow_patch =
  fp_desired_repository_name :: "string option option"
  fp_installation_row_id :: "string option option"
  fp_repository_id :: "string option option"
  fp_workspace_id :: "ws_id option option"
  fp_state :: "onboarding_state option"
  fp_last_error_code :: "string option option"
  fp_last_error_message :: "string option option"
  fp_host_oauth_request_id :: "string option option"
  fp_expires_at_ms :: "int option"

definition no_patch :: flow_patch where
  "no_patch = \<lparr>fp_desired_repository_name = None, fp_installation_row_id = None, fp_repository_id = None, fp_workspace_id = None,
     fp_state = None, fp_last_error_code = None, fp_last_error_message = None, fp_host_oauth_request_id = None, fp_expires_at_ms = None\<rparr>"

definition patched :: "'a option \<Rightarrow> 'a \<Rightarrow> 'a" where
  "patched x old = (case x of None \<Rightarrow> old | Some y \<Rightarrow> y)"

definition patched_flow :: "int \<Rightarrow> flow_patch \<Rightarrow> onboarding_flow \<Rightarrow> onboarding_flow" where
  "patched_flow now p f = f\<lparr>
     fw_desired_repository_name := patched (fp_desired_repository_name p) (fw_desired_repository_name f),
     fw_installation_row_id := patched (fp_installation_row_id p) (fw_installation_row_id f),
     fw_repository_id := patched (fp_repository_id p) (fw_repository_id f),
     fw_workspace_id := patched (fp_workspace_id p) (fw_workspace_id f),
     fw_state := patched (fp_state p) (fw_state f),
     fw_last_error_code := patched (fp_last_error_code p) (fw_last_error_code f),
     fw_last_error_message := patched (fp_last_error_message p) (fw_last_error_message f),
     fw_host_oauth_request_id := patched (fp_host_oauth_request_id p) (fw_host_oauth_request_id f),
     fw_updated_at_ms := now,
     fw_expires_at_ms := patched (fp_expires_at_ms p) (fw_expires_at_ms f)\<rparr>"

definition updateFlow :: "int \<Rightarrow> string \<Rightarrow> flow_patch \<Rightarrow> identity_data \<Rightarrow> onboarding_table \<Rightarrow> identity_error + onboarding_table \<times> onboarding_flow" where
  "updateFlow now i p it t = (case getFlow i t of
      None \<Rightarrow> Inl IdentityDbUnavailable
    | Some f \<Rightarrow> (let f' = patched_flow now p f in ebind (replace_flow it f' t) (\<lambda>t'. Inr (t', f'))))"

definition deleteFlow :: "string \<Rightarrow> onboarding_table \<Rightarrow> onboarding_table \<times> bool" where
  "deleteFlow i t = (filter (\<lambda>r. fw_id r \<noteq> i) t, list_ex (\<lambda>r. fw_id r = i) t)"

definition cleanup_hits :: "int \<Rightarrow> onboarding_flow \<Rightarrow> bool" where
  "cleanup_hits now f \<longleftrightarrow> fw_expires_at_ms f \<le> now \<and> fw_repository_id f = None \<and> fw_workspace_id f = None"

definition cleanupExpired :: "int \<Rightarrow> onboarding_table \<Rightarrow> onboarding_table \<times> nat" where
  "cleanupExpired now t = (filter (\<lambda>r. \<not> cleanup_hits now r) t, length (filter (cleanup_hits now) t))"

end
