(* ===== verification/Server_World.thy ===== *)
theory Server_World
  imports Json Onboarding_Store Enrollment_Flow
begin

text \<open>
  What the server asks of GitHub and what it keeps meanwhile. GitHub itself is an argument: a function from the
  credentials, the request and the state of the world to the new world and a reply. The world holds the state of GitHub,
  the tables, the clock and the maps of the server, so a call also stands for whatever other requests do to them while
  the server waits. \<open>w_log\<close> is the history of the requests of one operation with their replies, newest first. A request
  carries the parts of its URL; their encoding is not modelled. A JavaScript \<^verbatim>\<open>Map\<close> is an association list.
\<close>

section \<open>Requests and replies\<close>

datatype github_auth = App_jwt | Installation_token string | User_access_token string | No_credentials

type_synonym commit_person = "string \<times> string"

datatype github_request =
    Get_installation string
  | Post_installation_token string "(rat option) list" "(string \<times> string) list"
  | Get_repository string string
  | Get_ref string string string
  | List_branches string string
  | Put_contents string string string string string commit_person commit_person
  | Get_commit string string string
  | Get_tree string string string
  | Post_tree string string string "(string \<times> string) list"
  | Post_commit string string "string option" string commit_person commit_person
  | Patch_ref string string string "string option" bool
  | Exchange_code string string
  | Get_user
  | List_user_installations nat
  | List_user_repositories string nat
  | List_installation_repositories
  | Create_user_repository string "string option"
  | Create_organization_repository string string "string option"

text \<open>A reply has a status and a body that is JSON, or the message of the parser; without a reply there is an error.\<close>

datatype github_reply = No_reply string | Reply int "string + json"

record cached_token =
  ct_token :: string
  ct_expires_at_ms :: int

section \<open>What the server keeps\<close>

text \<open>States of the flows that lead through GitHub (\<^verbatim>\<open>github/installation-service.ts\<close>, \<^verbatim>\<open>github/repository-service.ts\<close>).\<close>

record pending_install =
  pi_user_id :: user_id
  pi_provider_subject :: string
  pi_expires_at :: int
  pi_flow_id :: "string option"
  pi_oauth_request :: "string option"

record pending_oauth =
  po_code_verifier :: string
  po_user_id :: user_id
  po_provider_subject :: string
  po_installation_id :: string
  po_expires_at :: int
  po_flow_id :: "string option"
  po_oauth_request :: "string option"

record pending_repository =
  pr_code_verifier :: string
  pr_session_id :: string
  pr_user_id :: user_id
  pr_provider_subject :: string
  pr_installation_row_id :: string
  pr_installation_id :: string
  pr_expires_at :: int
  pr_flow_id :: "string option"
  pr_oauth_request :: "string option"

record repository_grant =
  rg_session_id :: string
  rg_user_id :: user_id
  rg_provider_subject :: string
  rg_installation_row_id :: string
  rg_installation_id :: string
  rg_account_id :: string
  rg_account_login :: string
  rg_account_type :: string
  rg_user_access_token :: string
  rg_expires_at_ms :: int

record 'g server_world =
  w_github :: 'g
  w_identity :: identity_data
  w_control :: control_db
  w_flows :: onboarding_table
  w_now :: int
  w_sessions :: session_manager
  w_tokens :: "(string \<times> cached_token) list"
  w_active :: "ws_id set"
  w_install_states :: "(string \<times> pending_install) list"
  w_oauth_states :: "(string \<times> pending_oauth) list"
  w_repository_states :: "(string \<times> pending_repository) list"
  w_grants :: "(string \<times> repository_grant) list"
  w_creations :: "user_id set"
  w_log :: "(github_request \<times> github_reply) list"

type_synonym 'g github = "github_auth \<Rightarrow> github_request \<Rightarrow> 'g server_world \<Rightarrow> 'g server_world \<times> github_reply"

section \<open>Errors and actions\<close>

record safe_repository =
  sr_id :: string
  sr_name :: string
  sr_full_name :: string
  sr_owner_id :: string
  sr_owner_login :: string
  sr_private :: bool
  sr_archived :: bool
  sr_disabled :: bool
  sr_default_branch :: string
  sr_permissions :: "(bool \<times> bool \<times> bool) option"

datatype installation_error_kind = IK_plain | IK_identity_mismatch | IK_not_found

datatype server_error =
    Bootstrap_error bootstrap_error_kind string string int
  | Identity_failure identity_error
  | GitHub_app_error string "int option"
  | Installation_error installation_error_kind string int
  | Repository_error string int
  | Permission_upgrade_required string
  | Partial_creation string "safe_repository option"
  | Provisioning_incomplete string ws_id "bootstrap_row option"
  | Onboarding_error string string int
  | Other_error string

type_synonym ('g, 'a) action = "'g server_world \<Rightarrow> 'g server_world \<times> (server_error + 'a)"

definition pass :: "'a \<Rightarrow> ('g, 'a) action" where "pass x w = (w, Inr x)"
definition throw :: "server_error \<Rightarrow> ('g, 'a) action" where "throw e w = (w, Inl e)"

definition bind_action :: "('g, 'a) action \<Rightarrow> ('a \<Rightarrow> ('g, 'b) action) \<Rightarrow> ('g, 'b) action" where
  "bind_action m f w = (case m w of (w1, Inl e) \<Rightarrow> (w1, Inl e) | (w1, Inr x) \<Rightarrow> f x w1)"

text \<open>\<^verbatim>\<open>try { m } catch (e) { h(e) }\<close>, and a value that may be an error.\<close>

definition catching :: "('g, 'a) action \<Rightarrow> (server_error \<Rightarrow> ('g, 'a) action) \<Rightarrow> ('g, 'a) action" where
  "catching m h w = (case m w of (w1, Inl e) \<Rightarrow> h e w1 | (w1, Inr x) \<Rightarrow> (w1, Inr x))"

definition lift_result :: "server_error + 'a \<Rightarrow> ('g, 'a) action" where
  "lift_result r w = (w, r)"

definition require :: "bool \<Rightarrow> server_error \<Rightarrow> ('g, unit) action" where
  "require ok e = (if ok then pass () else throw e)"

definition reading :: "('g server_world \<Rightarrow> 'a) \<Rightarrow> ('g, 'a) action" where
  "reading f w = (w, Inr (f w))"

text \<open>\<^verbatim>\<open>fetchFn\<close>: the reply with its status; without a reply the error of the network.\<close>

definition github_fetch :: "'g github \<Rightarrow> github_auth \<Rightarrow> github_request \<Rightarrow> ('g, int \<times> (string + json)) action" where
  "github_fetch gh au q w = (case gh au q w of (w1, r) \<Rightarrow>
     (w1\<lparr>w_log := (q, r) # w_log w\<rparr>, case r of No_reply m \<Rightarrow> Inl (Other_error m) | Reply st b \<Rightarrow> Inr (st, b)))"

definition res_ok :: "int \<Rightarrow> bool" where "res_ok st \<longleftrightarrow> 200 \<le> st \<and> st \<le> 299"

definition res_json :: "string + json \<Rightarrow> server_error + json" where
  "res_json b = (case b of Inl m \<Rightarrow> Inl (Other_error m) | Inr j \<Rightarrow> Inr j)"

section \<open>Members of a reply\<close>

text \<open>
  \<^verbatim>\<open>j.k\<close> throws on \<^verbatim>\<open>null\<close>; \<^verbatim>\<open>x?.k\<close> does not. The casts of the source are taken at their word: a member that is cast
  to a text but is none counts as absent.
\<close>

definition member_of_null :: "string \<Rightarrow> server_error" where
  "member_of_null k = Other_error (''Cannot read properties of null (reading '' @ [CHR 0x27] @ k @ [CHR 0x27] @ '')'')"

definition js_member :: "string \<Rightarrow> json \<Rightarrow> server_error + json option" where
  "js_member k j = (case j of JNull \<Rightarrow> Inl (member_of_null k) | JObj f \<Rightarrow> Inr (jfield f k) | _ \<Rightarrow> Inr None)"

definition js_opt_member :: "string \<Rightarrow> json option \<Rightarrow> json option" where
  "js_opt_member k x = (case x of Some (JObj f) \<Rightarrow> jfield f k | _ \<Rightarrow> None)"

text \<open>\<^verbatim>\<open>j.a?.b\<close>, a text; the empty text is no value for the callers.\<close>

definition nested_text :: "string \<Rightarrow> string \<Rightarrow> json \<Rightarrow> server_error + string option" where
  "nested_text a b j = ebind (js_member a j) (\<lambda>x. Inr (case as_str (js_opt_member b x) of None \<Rightarrow> None | Some s \<Rightarrow> if s = [] then None else Some s))"

end
