(* ===== verification/GitHub_App.thy ===== *)
theory GitHub_App
  imports Server_World
begin

text \<open>
  The client of the GitHub App (\<^verbatim>\<open>github/app-client.ts\<close>): tokens with their cache, and installations. The signing of the
  token of the app is not modelled.
\<close>

section \<open>The client of the app\<close>

definition SKEW_MS :: int where "SKEW_MS = 5 * 60 * 1000"

definition join_comma :: "string list \<Rightarrow> string" where
  "join_comma xs = concat (map (\<lambda>(i, x). if i = 0 then x else CHR '','' # x) (enumerate 0 xs))"

text \<open>The key of the token cache; the order of permissions is that of their names.\<close>

definition buildCacheKey :: "string \<Rightarrow> string list option \<Rightarrow> (string \<times> string) list option \<Rightarrow> string" where
  "buildCacheKey i repos perms =
     i @ ''|repos:'' @ (case repos of None \<Rightarrow> ''*'' | Some rs \<Rightarrow> if rs = [] then ''*'' else join_comma (sort rs))
       @ ''|perms:'' @ (case perms of None \<Rightarrow> ''*'' | Some ps \<Rightarrow> join_comma (map (\<lambda>(k, v). k @ '':'' @ v) (sort_key fst ps)))"

definition cached_installation_token :: "string \<Rightarrow> 'g server_world \<Rightarrow> cached_token option" where
  "cached_installation_token key w = map_of (w_tokens w) key"

definition token_failed :: "int \<Rightarrow> server_error" where
  "token_failed st = GitHub_app_error (''GitHub App installation token request failed with HTTP '' @ show_int st) (Some st)"

text \<open>\<open>date_ms\<close> is \<^verbatim>\<open>new Date(s).getTime()\<close>, \<open>None\<close> for \<^verbatim>\<open>NaN\<close>.\<close>

definition token_reply :: "(string \<Rightarrow> int option) \<Rightarrow> int \<Rightarrow> json \<Rightarrow> server_error + cached_token" where
  "token_reply date_ms now j = (case (as_str (js_opt_member ''token'' (Some j)), as_str (js_opt_member ''expires_at'' (Some j))) of
      (Some t, Some e) \<Rightarrow>
        if js_trim t = [] then Inl (GitHub_app_error ''Invalid installation token response from GitHub: missing or empty token/expires_at'' None)
        else (case date_ms e of
            Some x \<Rightarrow> if x \<le> now then Inl (GitHub_app_error ''Invalid installation token response from GitHub: expires_at must be a finite future timestamp'' None)
              else Inr \<lparr>ct_token = t, ct_expires_at_ms = x\<rparr>
          | None \<Rightarrow> Inl (GitHub_app_error ''Invalid installation token response from GitHub: expires_at must be a finite future timestamp'' None))
    | _ \<Rightarrow> Inl (GitHub_app_error ''Invalid installation token response from GitHub: missing or empty token/expires_at'' None))"

definition mint_token :: "'g github \<Rightarrow> (string \<Rightarrow> int option) \<Rightarrow> int \<Rightarrow> string \<Rightarrow> github_request \<Rightarrow> ('g, string) action" where
  "mint_token gh date_ms now key q =
     bind_action (github_fetch gh App_jwt q) (\<lambda>(st, b).
     bind_action (require (res_ok st) (token_failed st)) (\<lambda>_.
     bind_action (lift_result (ebind (res_json b) (token_reply date_ms now))) (\<lambda>t w1.
       (w1\<lparr>w_tokens := (key, t) # filter (\<lambda>p. fst p \<noteq> key) (w_tokens w1)\<rparr>, Inr (ct_token t)))))"

definition getScopedInstallationToken ::
  "'g github \<Rightarrow> (string \<Rightarrow> int option) \<Rightarrow> string \<Rightarrow> string list option \<Rightarrow> (string \<times> string) list option \<Rightarrow> ('g, string) action" where
  "getScopedInstallationToken gh date_ms i repos perms = (\<lambda>w.
     (let now = w_now w; key = buildCacheKey i repos perms;
          mint = mint_token gh date_ms now key (Post_installation_token i (map js_number (case repos of None \<Rightarrow> [] | Some rs \<Rightarrow> rs))
            (case perms of None \<Rightarrow> [] | Some ps \<Rightarrow> ps))
      in case cached_installation_token key w of
          Some c \<Rightarrow> if ct_expires_at_ms c - now > SKEW_MS then (w, Inr (ct_token c)) else mint w
        | None \<Rightarrow> mint w))"

definition getInstallationToken :: "'g github \<Rightarrow> (string \<Rightarrow> int option) \<Rightarrow> string \<Rightarrow> ('g, string) action" where
  "getInstallationToken gh date_ms i = getScopedInstallationToken gh date_ms i None None"

definition invalidateInstallationTokens :: "string \<Rightarrow> 'g server_world \<Rightarrow> 'g server_world" where
  "invalidateInstallationTokens i w =
     w\<lparr>w_tokens := filter (\<lambda>p. \<not> (fst p = i \<or> starts_with (i @ ''|'') (fst p))) (w_tokens w)\<rparr>"

definition mintInstallationVerificationToken :: "'g github \<Rightarrow> string \<Rightarrow> ('g, string) action" where
  "mintInstallationVerificationToken gh i =
     bind_action (github_fetch gh App_jwt (Post_installation_token i [] [])) (\<lambda>(st, b).
     bind_action (require (res_ok st) (token_failed st)) (\<lambda>_.
     bind_action (lift_result (res_json b)) (\<lambda>j.
       case as_str (js_opt_member ''token'' (Some j)) of
         Some t \<Rightarrow> if js_trim t = [] then throw (GitHub_app_error ''Invalid installation token response from GitHub'' None) else pass t
       | None \<Rightarrow> throw (GitHub_app_error ''Invalid installation token response from GitHub'' None))))"

definition clearTokenCache :: "'g server_world \<Rightarrow> 'g server_world" where
  "clearTokenCache w = w\<lparr>w_tokens := []\<rparr>"

text \<open>The installation a reply describes, if it is the one that was asked for.\<close>

definition installation_reply :: "string \<Rightarrow> json \<Rightarrow> server_error + jobject" where
  "installation_reply i j = (case j of
      JObj f \<Rightarrow> (case as_int (jfield f ''id'') of
          Some n \<Rightarrow>
            if n \<le> 0 \<or> n > MAX_SAFE_INTEGER then Inl (GitHub_app_error ''Invalid installation response from GitHub: id must be a positive safe integer'' None)
            else if show_int n \<noteq> i then Inl (GitHub_app_error (''GitHub installation id mismatch: expected '' @ [CHR 0x27] @ i @ [CHR 0x27] @ '', got '' @ [CHR 0x27] @ show_int n @ [CHR 0x27]) None)
            else (case jfield f ''permissions'' of
                None \<Rightarrow> Inr f
              | Some (JObj _) \<Rightarrow> Inr f
              | Some _ \<Rightarrow> Inl (GitHub_app_error ''Invalid installation response from GitHub: permissions must be an object'' None))
        | None \<Rightarrow> Inl (GitHub_app_error ''Invalid installation response from GitHub: id must be a positive safe integer'' None))
    | _ \<Rightarrow> Inl (GitHub_app_error ''Invalid installation response from GitHub: response is not an object'' None))"

definition getInstallation :: "'g github \<Rightarrow> string \<Rightarrow> ('g, jobject) action" where
  "getInstallation gh i =
     bind_action (github_fetch gh App_jwt (Get_installation i)) (\<lambda>(st, b).
     bind_action (require (res_ok st) (GitHub_app_error (''GitHub App getInstallation failed with HTTP '' @ show_int st) (Some st))) (\<lambda>_.
     bind_action (lift_result (res_json b)) (\<lambda>j. lift_result (installation_reply i j))))"

end
