(* ===== verification/Bootstrap_Service.thy ===== *)
theory Bootstrap_Service
  imports GitHub_App
begin

text \<open>
  The bootstrap of a workspace in its GitHub repository (\<^verbatim>\<open>github/bootstrap-service.ts\<close>): the repository is checked, the
  files that are missing are added in one commit on top of the head of the branch, and the workspace becomes ready after
  the branch has been read again. \<open>bootstrap_env\<close> collects what the service is given: GitHub, the parser of dates, the
  texts of the README, of the errors of the identity store, of numbers and of other values (\<^verbatim>\<open>String(x)\<close>), and the committer.
\<close>

datatype bootstrap_locale = L_en | L_zh

type_synonym bootstrap_file = "string \<times> string"

record 'g bootstrap_env =
  be_github :: "'g github"
  be_date_ms :: "string \<Rightarrow> int option"
  be_readme :: "bootstrap_locale \<Rightarrow> string"
  be_identity_message :: "identity_error \<Rightarrow> string"
  be_number :: "rat option \<Rightarrow> string"
  be_text :: "json \<Rightarrow> string"
  be_committer :: commit_person

section \<open>Errors\<close>

definition retryable_error :: "string \<Rightarrow> string \<Rightarrow> int \<Rightarrow> server_error" where
  "retryable_error code msg st = Bootstrap_error BK_retryable code msg st"

definition manual_error :: "string \<Rightarrow> string \<Rightarrow> int \<Rightarrow> server_error" where
  "manual_error code msg st = Bootstrap_error BK_manual code msg st"

definition quote_text :: "string \<Rightarrow> string" where "quote_text s = CHR 0x27 # s @ [CHR 0x27]"

definition http_text :: "int \<Rightarrow> string" where "http_text st = ''(HTTP '' @ show_int st @ '')''"

definition classifyGitHubResponseError :: "int \<Rightarrow> string \<Rightarrow> server_error" where
  "classifyGitHubResponseError st ctx =
     (if st = 401 \<or> st = 403 then manual_error ''REPOSITORY_UNAVAILABLE'' (''GitHub access revoked or forbidden during '' @ ctx @ '' '' @ http_text st) 403
      else if st = 404 then manual_error ''REPOSITORY_UNAVAILABLE'' (''GitHub object or repository not found during '' @ ctx @ '' (HTTP 404)'') 404
      else if st = 429 then retryable_error ''GITHUB_RATE_LIMITED'' (''GitHub rate limit exceeded during '' @ ctx) 429
      else if st \<ge> 500 then retryable_error ''GITHUB_5XX'' (''GitHub server error during '' @ ctx @ '' '' @ http_text st) 502
      else retryable_error ''NETWORK_ERROR'' (''Failed during '' @ ctx @ '' '' @ http_text st) 500)"

section \<open>The metadata of the repository\<close>

record repository_meta =
  rm_id :: string
  rm_name :: string
  rm_full_name :: string
  rm_owner_id :: string
  rm_owner_login :: string
  rm_owner_type :: "string option"
  rm_default_branch :: string
  rm_size :: "rat option"

definition malformed :: "string \<Rightarrow> server_error" where
  "malformed msg = manual_error ''MALFORMED_REPOSITORY_PAYLOAD'' msg 400"

definition unavailable :: "string \<Rightarrow> server_error" where
  "unavailable msg = manual_error ''REPOSITORY_UNAVAILABLE'' msg 400"

text \<open>A positive safe integer as a number or as its decimal text; what is it called in the errors.\<close>

definition live_id :: "string \<Rightarrow> json option \<Rightarrow> server_error + string" where
  "live_id what v = (case v of
      Some (JNum r) \<Rightarrow> (case as_int v of
          Some n \<Rightarrow> if n > MAX_SAFE_INTEGER \<or> n \<le> 0 then Inl (malformed (what @ '' must be a positive safe integer'')) else Inr (show_int n)
        | None \<Rightarrow> Inl (malformed (what @ '' must be a positive safe integer'')))
    | Some (JStr s) \<Rightarrow>
        if \<not> positive_decimal s \<or> int (read_nat s) > MAX_SAFE_INTEGER then Inl (malformed (what @ '' must be a positive safe integer string'')) else Inr s
    | _ \<Rightarrow> Inl (malformed (what @ '' must be a positive safe integer'')))"

definition exact_text :: "string \<Rightarrow> json option \<Rightarrow> server_error + string" where
  "exact_text what v = (case v of
      Some (JStr s) \<Rightarrow> if js_trim s = [] \<or> js_trim s \<noteq> s then Inl (malformed (what @ '' must be a non-empty string'')) else Inr s
    | _ \<Rightarrow> Inl (malformed (what @ '' must be a non-empty string'')))"

definition flag_is :: "string \<Rightarrow> bool \<Rightarrow> string \<Rightarrow> json option \<Rightarrow> server_error + unit" where
  "flag_is what b wrong v = (case v of
      Some (JBool x) \<Rightarrow> if x \<noteq> b then Inl (unavailable wrong) else Inr ()
    | _ \<Rightarrow> Inl (malformed (what @ '' must be a boolean'')))"

definition live_branch :: "json option \<Rightarrow> server_error + string" where
  "live_branch v = (case v of
      Some (JStr s) \<Rightarrow> if js_trim s = [] \<or> CHR 0x00 \<in> set s
        then Inl (malformed ''Repository default_branch must be a non-empty string without NUL'') else Inr (js_trim s)
    | _ \<Rightarrow> Inl (malformed ''Repository default_branch must be a non-empty string without NUL''))"

definition live_owner :: "repository_row \<Rightarrow> json option \<Rightarrow> server_error + string \<times> string \<times> string option" where
  "live_owner b v = (case v of
      Some (JObj f) \<Rightarrow>
        ebind (live_id ''Repository owner id'' (jfield f ''id'')) (\<lambda>i.
        if i \<noteq> rb_owner_account_id b
        then Inl (manual_error ''REPOSITORY_IDENTITY_MISMATCH''
          (''Repository owner account ID mismatch: expected '' @ rb_owner_account_id b @ '', got '' @ i) 400)
        else ebind (exact_text ''Repository owner login'' (jfield f ''login'')) (\<lambda>l. Inr (i, l, as_str (jfield f ''type''))))
    | _ \<Rightarrow> Inl (malformed ''Repository owner must be an object''))"

definition validateLiveRepositoryMetadata :: "json \<Rightarrow> repository_row \<Rightarrow> server_error + repository_meta" where
  "validateLiveRepositoryMetadata raw b = (case raw of
      JObj f \<Rightarrow>
        ebind (live_id ''Repository id'' (jfield f ''id'')) (\<lambda>i.
        if i \<noteq> rb_repository_id b
        then Inl (manual_error ''REPOSITORY_IDENTITY_MISMATCH'' (''Repository ID mismatch: expected '' @ rb_repository_id b @ '', got '' @ i) 400)
        else ebind (exact_text ''Repository name'' (jfield f ''name'')) (\<lambda>name.
        ebind (exact_text ''Repository full_name'' (jfield f ''full_name'')) (\<lambda>full.
        ebind (live_owner b (jfield f ''owner'')) (\<lambda>(oid, login, otype).
        if full \<noteq> login @ ''/'' @ name
        then Inl (malformed (''Repository full_name '' @ quote_text full @ '' does not match expected '' @ quote_text (login @ ''/'' @ name)))
        else ebind (flag_is ''Repository private'' True ''Bound repository is not private'' (jfield f ''private'')) (\<lambda>_.
        ebind (flag_is ''Repository archived'' False ''Bound repository is archived'' (jfield f ''archived'')) (\<lambda>_.
        ebind (flag_is ''Repository disabled'' False ''Bound repository is disabled'' (jfield f ''disabled'')) (\<lambda>_.
        ebind (live_branch (jfield f ''default_branch'')) (\<lambda>branch.
        Inr \<lparr>rm_id = i, rm_name = name, rm_full_name = full, rm_owner_id = oid, rm_owner_login = login, rm_owner_type = otype,
          rm_default_branch = branch, rm_size = as_num (jfield f ''size'')\<rparr>))))))))
    | _ \<Rightarrow> Inl (malformed ''Repository payload must be a JSON object''))"

section \<open>Status\<close>

datatype provisioning_status = PS_ready | PS_provisioning | PS_retryable_failure | PS_manual_recovery

fun deriveProductProvisioningStatus :: "bootstrap_state \<Rightarrow> provisioning_status" where
  "deriveProductProvisioningStatus BS_ready = PS_ready"
| "deriveProductProvisioningStatus BS_pending = PS_provisioning"
| "deriveProductProvisioningStatus BS_applying = PS_provisioning"
| "deriveProductProvisioningStatus BS_retryable_failure = PS_retryable_failure"
| "deriveProductProvisioningStatus BS_manual_recovery = PS_manual_recovery"

record provisioning_result =
  pv_workspace :: workspace_row
  pv_binding :: repository_row
  pv_bootstrap :: bootstrap_row
  pv_status :: provisioning_status

definition found :: "'a option \<Rightarrow> server_error \<Rightarrow> ('g, 'a) action" where
  "found x e = (case x of None \<Rightarrow> throw e | Some y \<Rightarrow> pass y)"

definition getProvisioningStatus :: "ws_id \<Rightarrow> ('g, provisioning_result) action" where
  "getProvisioningStatus i =
     bind_action (reading w_identity) (\<lambda>it.
     bind_action (found (findWorkspaceById it i) (manual_error ''WORKSPACE_NOT_FOUND'' (''Workspace '' @ quote_text i @ '' not found'') 404)) (\<lambda>w.
     bind_action (found (findRepositoryBindingByWorkspaceId it i)
       (manual_error ''INVALID_BINDING'' (''Workspace '' @ quote_text i @ '' has no repository binding'') 404)) (\<lambda>b.
     bind_action (found (findWorkspaceBootstrapByWorkspaceId it i)
       (manual_error ''INVALID_BINDING'' (''Workspace '' @ quote_text i @ '' has no bootstrap record'') 404)) (\<lambda>s.
     pass \<lparr>pv_workspace = w, pv_binding = b, pv_bootstrap = s, pv_status = deriveProductProvisioningStatus (wb_state s)\<rparr>))))"

section \<open>Files\<close>

definition initial_message :: string where "initial_message = ''chore: initialize CEO workspace''"
definition anchors_message :: string where "anchors_message = ''chore: bootstrap CEO workspace canonical anchors''"

definition backtick_free_readme :: string where
  "backtick_free_readme = ''# Chief Everything Officer (CEO) Workspace'' @ [CHR 0x0A, CHR 0x0A]
     @ ''This repository contains your personal Chief Everything Officer (CEO) canonical workspace.'' @ [CHR 0x0A]
     @ ''Content stored here is user-owned and tracked by Git.'' @ [CHR 0x0A]"

definition BOOTSTRAP_MANIFEST_V1 :: "bootstrap_file list" where
  "BOOTSTRAP_MANIFEST_V1 = [(''README.md'', backtick_free_readme)]"

definition DEFAULT_CEOIGNORE_CONTENT :: string where
  "DEFAULT_CEOIGNORE_CONTENT = ''# Paths listed below are ignored by CEO when reading or searching this workspace.'' @ [CHR 0x0A]
     @ ''# Add one relative file path per line, or a directory ending in /.'' @ [CHR 0x0A]"

definition buildFreshWorkspaceManifest :: "(bootstrap_locale \<Rightarrow> string) \<Rightarrow> bootstrap_locale \<Rightarrow> bootstrap_file list" where
  "buildFreshWorkspaceManifest readme l = [(''README.md'', readme l), (''.ceoignore'', DEFAULT_CEOIGNORE_CONTENT)]"

text \<open>The entries of a tree. A later entry of the same path hides an earlier one.\<close>

record tree_item =
  ti_path :: "string option"
  ti_mode :: "string option"
  ti_type :: "string option"

fun read_items :: "json list \<Rightarrow> server_error + tree_item list" where
  "read_items [] = Inr []"
| "read_items (JNull # js) = Inl (member_of_null ''path'')"
| "read_items (j # js) = ebind (read_items js) (\<lambda>is. Inr
     (\<lparr>ti_path = as_str (js_opt_member ''path'' (Some j)), ti_mode = as_str (js_opt_member ''mode'' (Some j)),
       ti_type = as_str (js_opt_member ''type'' (Some j))\<rparr> # is))"

definition tree_items :: "json \<Rightarrow> server_error + tree_item list" where
  "tree_items j = ebind (js_member ''tree'' j) (\<lambda>t. case t of
      None \<Rightarrow> Inr [] | Some JNull \<Rightarrow> Inr [] | Some (JArr js) \<Rightarrow> read_items js | Some _ \<Rightarrow> Inl (Other_error ''treeItems is not iterable''))"

definition item_at :: "tree_item list \<Rightarrow> string \<Rightarrow> tree_item option" where
  "item_at is p = find (\<lambda>i. ti_path i = Some p) (rev is)"

definition regular_blob :: "tree_item \<Rightarrow> bool" where
  "regular_blob i \<longleftrightarrow> ti_type i = Some ''blob'' \<and> (ti_mode i = Some ''100644'' \<or> ti_mode i = Some ''100755'')"

definition shown :: "string option \<Rightarrow> string" where
  "shown x = (case x of None \<Rightarrow> ''undefined'' | Some s \<Rightarrow> s)"

text \<open>The files of a manifest that a tree lacks; a path that is taken by something else is an error.\<close>

fun missing_files :: "tree_item list \<Rightarrow> bootstrap_file list \<Rightarrow> server_error + bootstrap_file list" where
  "missing_files is [] = Inr []"
| "missing_files is ((p, c) # fs) = (case item_at is p of
      None \<Rightarrow> ebind (missing_files is fs) (\<lambda>ms. Inr ((p, c) # ms))
    | Some i \<Rightarrow>
       if regular_blob i then missing_files is fs
       else Inl (manual_error ''BRANCH_CONFLICT_OBJECT'' (''Required manifest path '' @ quote_text p @ '' conflicts with existing non-regular object (type: ''
         @ shown (ti_type i) @ '', mode: '' @ shown (ti_mode i) @ '')'') 409))"

fun files_present :: "tree_item list \<Rightarrow> bootstrap_file list \<Rightarrow> server_error + unit" where
  "files_present is [] = Inr ()"
| "files_present is ((p, c) # fs) = (case item_at is p of
      None \<Rightarrow> Inl (retryable_error ''POST_WRITE_VERIFICATION_FAILED'' (''Required anchor path '' @ quote_text p @ '' missing from verified tree'') 500)
    | Some i \<Rightarrow>
       if regular_blob i then files_present is fs
       else Inl (manual_error ''BRANCH_CONFLICT_OBJECT'' (''Required anchor path '' @ quote_text p @ '' is not a regular blob in verified tree'') 409))"

end
