(* ===== verification/Installation_Service.thy ===== *)
theory Installation_Service
  imports Bootstrap_Service
begin

text \<open>
  The installation of the GitHub App by a user (\<^verbatim>\<open>github/installation-service.ts\<close>): a redirect to GitHub, the setup
  redirect back, whose installation id nobody can trust, and the OAuth callback that shows that the user of the session may
  see the installation. Random states, verifiers and row ids are arguments, \<open>sha64\<close> is the base64url SHA-256 of PKCE; of the
  URLs only the state and the challenge in them are results.
\<close>

section \<open>Texts of values\<close>

definition number_string :: "'g bootstrap_env \<Rightarrow> rat \<Rightarrow> string" where
  "number_string e r = (case as_int (Some (JNum r)) of
      Some n \<Rightarrow> if \<bar>n\<bar> < 10 ^ 21 then show_int n else be_number e (Some r)
    | None \<Rightarrow> be_number e (Some r))"

definition js_string :: "'g bootstrap_env \<Rightarrow> json option \<Rightarrow> string" where
  "js_string e v = (case v of
      None \<Rightarrow> ''undefined'' | Some JNull \<Rightarrow> ''null'' | Some (JBool b) \<Rightarrow> (if b then ''true'' else ''false'')
    | Some (JNum r) \<Rightarrow> number_string e r | Some (JStr s) \<Rightarrow> s | Some j \<Rightarrow> be_text e j)"

text \<open>\<^verbatim>\<open>a || b\<close> for texts.\<close>

definition or_text :: "string option \<Rightarrow> string \<Rightarrow> string" where
  "or_text a b = (case a of None \<Rightarrow> b | Some s \<Rightarrow> if s = [] then b else s)"

section \<open>The user behind a code\<close>

text \<open>Both callbacks exchange the code and ask who the user is; \<open>err\<close> makes the error of the caller.\<close>

definition exchange_code :: "'g bootstrap_env \<Rightarrow> (string \<Rightarrow> int \<Rightarrow> server_error) \<Rightarrow> string \<Rightarrow> string \<Rightarrow> ('g, string) action" where
  "exchange_code e err code verifier =
     bind_action (github_fetch (be_github e) No_credentials (Exchange_code code verifier)) (\<lambda>(st, b).
     bind_action (require (res_ok st) (err (''Token exchange failed with HTTP '' @ show_int st) st)) (\<lambda>_.
     bind_action (lift_result (res_json b)) (\<lambda>j.
     bind_action (lift_result (js_member ''error'' j)) (\<lambda>x.
       (let failed = err (or_text (as_str (js_opt_member ''error_description'' (Some j))) (or_text (as_str x) ''Token exchange failed'')) 400
        in case as_str (js_opt_member ''access_token'' (Some j)) of
          None \<Rightarrow> throw failed
        | Some t \<Rightarrow> if js_truthy x \<or> t = [] then throw failed else pass t)))))"

definition github_user :: "'g bootstrap_env \<Rightarrow> (string \<Rightarrow> int \<Rightarrow> server_error) \<Rightarrow> string \<Rightarrow> ('g, string \<times> string) action" where
  "github_user e err tok =
     bind_action (github_fetch (be_github e) (User_access_token tok) Get_user) (\<lambda>(st, b).
     bind_action (require (res_ok st) (err (''GitHub user profile fetch failed with HTTP '' @ show_int st) st)) (\<lambda>_.
     bind_action (lift_result (res_json b)) (\<lambda>j.
     bind_action (lift_result (js_member ''id'' j)) (\<lambda>i.
       case (i, js_opt_member ''login'' (Some j)) of
         (Some (JNum r), Some (JStr l)) \<Rightarrow> pass (number_string e r, l)
       | _ \<Rightarrow> throw (err ''Invalid GitHub user response'' 400)))))"

definition user_mismatch :: "string \<times> string \<Rightarrow> string \<Rightarrow> string" where
  "user_mismatch who expected = (case who of (subject, login) \<Rightarrow>
     ''GitHub user mismatch: authenticated as '' @ quote_text subject @ '' ('' @ login @ ''), expected '' @ quote_text expected)"

section \<open>The installations of the user\<close>

definition per_page :: nat where "per_page = 100"
definition max_pages :: nat where "max_pages = 100"

text \<open>\<^verbatim>\<open>data.k\<close> as a list, and the end of the pages.\<close>

definition array_member :: "string \<Rightarrow> json \<Rightarrow> server_error + json list" where
  "array_member k j = ebind (js_member k j) (\<lambda>x. Inr (case x of Some (JArr js) \<Rightarrow> js | _ \<Rightarrow> []))"

definition last_page :: "nat \<Rightarrow> json list \<Rightarrow> json \<Rightarrow> bool" where
  "last_page page xs j \<longleftrightarrow> xs = [] \<or> length xs < per_page
     \<or> (case as_num (js_opt_member ''total_count'' (Some j)) of None \<Rightarrow> False | Some t \<Rightarrow> of_nat (page * per_page) \<ge> t)"

text \<open>Looking for an installation, page by page; the argument counts the pages that may still be read.\<close>

primrec find_installation :: "'g bootstrap_env \<Rightarrow> (string \<Rightarrow> int \<Rightarrow> server_error) \<Rightarrow> string \<Rightarrow> string \<Rightarrow> nat \<Rightarrow> ('g, json option) action" where
  "find_installation e err tok wanted 0 = pass None"
| "find_installation e err tok wanted (Suc k) =
     bind_action (github_fetch (be_github e) (User_access_token tok) (List_user_installations (max_pages - k))) (\<lambda>(st, b).
     bind_action (require (res_ok st) (err (''GitHub user installations fetch failed with HTTP '' @ show_int st) st)) (\<lambda>_.
     bind_action (lift_result (res_json b)) (\<lambda>j.
     bind_action (lift_result (array_member ''installations'' j)) (\<lambda>xs.
       case find (\<lambda>i. js_string e (js_opt_member ''id'' (Some i)) = wanted) xs of
         Some i \<Rightarrow> pass (Some i)
       | None \<Rightarrow> if last_page (max_pages - k) xs j then pass None else find_installation e err tok wanted k))))"

definition need_positive :: "server_error \<Rightarrow> json option \<Rightarrow> server_error + int" where
  "need_positive err v = (case as_int v of
      None \<Rightarrow> Inl err | Some n \<Rightarrow> if n > MAX_SAFE_INTEGER \<or> n \<le> 0 then Inl err else Inr n)"

text \<open>The account of an installation: id, login and type. Only one caller refuses an array at once.\<close>

definition live_account :: "'g bootstrap_env \<Rightarrow> (string \<Rightarrow> int \<Rightarrow> server_error) \<Rightarrow> bool \<Rightarrow> json option \<Rightarrow> server_error + int \<times> string \<times> string" where
  "live_account e err arrays v =
     (if \<not> (case v of Some (JObj f) \<Rightarrow> True | Some (JArr xs) \<Rightarrow> arrays | _ \<Rightarrow> False)
      then Inl (err ''Invalid GitHub installation account payload'' 400)
      else ebind (need_positive (err ''Invalid GitHub installation account id: must be a positive safe integer'' 400) (js_opt_member ''id'' v)) (\<lambda>i.
        case js_opt_member ''login'' v of
          Some (JStr l) \<Rightarrow>
            if js_trim l = [] then Inl (err ''Invalid GitHub installation account login: must be non-empty'' 400)
            else (let t = js_opt_member ''type'' v in case as_str t of
                Some s \<Rightarrow> if s \<in> set account_types then Inr (i, js_trim l, s)
                  else Inl (err (''Invalid GitHub installation account type '' @ quote_text (js_string e t) @ '': must be '' @ quote_text ''User''
                    @ '' or '' @ quote_text ''Organization'') 400)
              | None \<Rightarrow> Inl (err (''Invalid GitHub installation account type '' @ quote_text (js_string e t) @ '': must be '' @ quote_text ''User''
                    @ '' or '' @ quote_text ''Organization'') 400))
        | _ \<Rightarrow> Inl (err ''Invalid GitHub installation account login: must be non-empty'' 400)))"

definition bad_selection :: "'g bootstrap_env \<Rightarrow> json option \<Rightarrow> string" where
  "bad_selection e v = ''Invalid GitHub installation repository_selection '' @ quote_text (js_string e v) @ '': must be '' @ quote_text ''all''
     @ '' or '' @ quote_text ''selected''"

definition live_suspension :: "(string \<Rightarrow> int option) \<Rightarrow> json option \<Rightarrow> server_error + int option" where
  "live_suspension date_ms v = (case v of
      None \<Rightarrow> Inr None | Some JNull \<Rightarrow> Inr None
    | Some (JStr s) \<Rightarrow> (case date_ms s of
        Some t \<Rightarrow> if t \<le> 0 then Inl (Installation_error IK_plain ''Invalid GitHub installation suspended_at: must parse to a finite positive timestamp'' 400)
          else Inr (Some t)
      | None \<Rightarrow> Inl (Installation_error IK_plain ''Invalid GitHub installation suspended_at: must parse to a finite positive timestamp'' 400))
    | Some _ \<Rightarrow> Inl (Installation_error IK_plain ''Invalid GitHub installation suspended_at: must be an ISO string'' 400))"

text \<open>What GitHub says about the installation, as it is stored for the user.\<close>

definition live_installation :: "'g bootstrap_env \<Rightarrow> user_id \<Rightarrow> json \<Rightarrow> server_error + installation_input" where
  "live_installation e u j =
     (let err = Installation_error IK_plain; get = (\<lambda>k. js_opt_member k (Some j)); sel = get ''repository_selection'' in
      ebind (need_positive (err ''Invalid GitHub installation id: must be a positive safe integer'' 400) (get ''id'')) (\<lambda>i.
      ebind (need_positive (err ''Invalid GitHub installation app_id: must be a positive safe integer'' 400) (get ''app_id'')) (\<lambda>app.
      ebind (live_account e err True (get ''account'')) (\<lambda>(account, login, typ).
      if sel \<notin> {Some (JStr ''all''), Some (JStr ''selected'')} then Inl (err (bad_selection e sel) 400)
      else ebind (live_suspension (be_date_ms e) (get ''suspended_at'')) (\<lambda>susp.
        Inr \<lparr>ii_installation_id = show_int i, ii_app_id = show_int app, ii_account_id = show_int account, ii_account_login = login,
          ii_account_type = typ, ii_repository_selection = js_string e sel, ii_suspended_at_ms = susp, ii_user_id = u\<rparr>)))))"

section \<open>Operations\<close>

definition cleanupStates :: "'g server_world \<Rightarrow> 'g server_world" where
  "cleanupStates w = w\<lparr>w_install_states := filter (\<lambda>p. \<not> w_now w > pi_expires_at (snd p)) (w_install_states w),
     w_oauth_states := filter (\<lambda>p. \<not> w_now w > po_expires_at (snd p)) (w_oauth_states w)\<rparr>"

definition createInstallRedirect ::
  "int \<Rightarrow> string \<Rightarrow> user_id \<Rightarrow> string \<Rightarrow> string option \<Rightarrow> string option \<Rightarrow> 'g server_world \<Rightarrow> 'g server_world \<times> string" where
  "createInstallRedirect ttl state u subject flow req w = (let w1 = cleanupStates w in
     (w1\<lparr>w_install_states := AList.update state \<lparr>pi_user_id = u, pi_provider_subject = subject, pi_expires_at = w_now w1 + ttl, pi_flow_id = flow,
        pi_oauth_request = req\<rparr> (w_install_states w1)\<rparr>, state))"

definition startSetupOAuth ::
  "int \<Rightarrow> (string \<Rightarrow> string) \<Rightarrow> string \<Rightarrow> string \<Rightarrow> string \<Rightarrow> string \<Rightarrow> user_id \<Rightarrow> ('g, string \<times> string) action" where
  "startSetupOAuth ttl sha64 verifier oauthState state inst u w =
     (let w1 = cleanupStates w in case map_of (w_install_states w1) state of
        None \<Rightarrow> (w1, Inl (Installation_error IK_plain ''Invalid or expired install state'' 400))
      | Some p \<Rightarrow>
         (let w2 = w1\<lparr>w_install_states := AList.delete state (w_install_states w1)\<rparr> in
          if w_now w2 > pi_expires_at p then (w2, Inl (Installation_error IK_plain ''Install state has expired'' 400))
          else if pi_user_id p \<noteq> u then (w2, Inl (Installation_error IK_plain ''Install state does not match active session user'' 403))
          else if \<not> positive_decimal inst
          then (w2, Inl (Installation_error IK_plain ''Invalid candidate installation_id: must be a positive decimal string'' 400))
          else (w2\<lparr>w_oauth_states := AList.update oauthState \<lparr>po_code_verifier = verifier, po_user_id = pi_user_id p,
              po_provider_subject = pi_provider_subject p, po_installation_id = inst, po_expires_at = w_now w2 + ttl, po_flow_id = pi_flow_id p,
              po_oauth_request = pi_oauth_request p\<rparr> (w_oauth_states w2)\<rparr>, Inr (oauthState, sha64 verifier))))"

definition identity_action :: "(int \<Rightarrow> identity_data \<Rightarrow> 'a identity_result) \<Rightarrow> ('g, 'a) action" where
  "identity_action f w = (case f (w_now w) (w_identity w) of
      Inl err \<Rightarrow> (w, Inl (Identity_failure err)) | Inr (it, x) \<Rightarrow> (w\<lparr>w_identity := it\<rparr>, Inr x))"

text \<open>What the callback hands on, together with the token of the user, and its result.\<close>

record token_context =
  tc_session_id :: string
  tc_user_id :: user_id
  tc_provider_subject :: string
  tc_installation_row_id :: string
  tc_installation_id :: string
  tc_account_id :: string
  tc_account_login :: string
  tc_account_type :: string
  tc_user_access_token :: string

record installation_result =
  ir_installation_id :: string
  ir_account_login :: string
  ir_installation_row_id :: string
  ir_grant_id :: "string option"
  ir_flow_id :: "string option"
  ir_oauth_request :: "string option"

type_synonym 'g handoff = "token_context \<Rightarrow> ('g, string) action"

definition stored_installation ::
  "'g handoff option \<Rightarrow> string \<Rightarrow> string \<Rightarrow> pending_oauth \<Rightarrow> string \<Rightarrow> string \<Rightarrow> installation_input \<Rightarrow> ('g, installation_result) action" where
  "stored_installation handoff ghi ghiu p session tok i =
     bind_action (identity_action (\<lambda>now. upsertGitHubInstallationWithUser now ghi ghiu i)) (\<lambda>(g, l).
     bind_action (case handoff of
         None \<Rightarrow> pass None
       | Some h \<Rightarrow> bind_action (h \<lparr>tc_session_id = session, tc_user_id = po_user_id p, tc_provider_subject = po_provider_subject p,
             tc_installation_row_id = gh_id g, tc_installation_id = ii_installation_id i, tc_account_id = ii_account_id i,
             tc_account_login = ii_account_login i, tc_account_type = ii_account_type i, tc_user_access_token = tok\<rparr>) (\<lambda>x. pass (Some x)))
       (\<lambda>grant. pass \<lparr>ir_installation_id = ii_installation_id i, ir_account_login = ii_account_login i, ir_installation_row_id = gh_id g,
          ir_grant_id = grant, ir_flow_id = po_flow_id p, ir_oauth_request = po_oauth_request p\<rparr>))"

definition verified_installation ::
  "'g bootstrap_env \<Rightarrow> 'g handoff option \<Rightarrow> string \<Rightarrow> string \<Rightarrow> pending_oauth \<Rightarrow> string \<Rightarrow> string \<Rightarrow> ('g, installation_result) action" where
  "verified_installation e handoff ghi ghiu p code session =
     bind_action (exchange_code e (Installation_error IK_plain) code (po_code_verifier p)) (\<lambda>tok.
     bind_action (github_user e (Installation_error IK_plain) tok) (\<lambda>who.
     bind_action (require (fst who = po_provider_subject p)
       (Installation_error IK_identity_mismatch (user_mismatch who (po_provider_subject p)) 403)) (\<lambda>_.
     bind_action (find_installation e (Installation_error IK_plain) tok (po_installation_id p) max_pages) (\<lambda>x.
     bind_action (found x (Installation_error IK_not_found
       (''Candidate installation '' @ quote_text (po_installation_id p) @ '' is not accessible by GitHub user '' @ quote_text (fst who)) 403)) (\<lambda>j.
     bind_action (lift_result (live_installation e (po_user_id p) j)) (\<lambda>i.
     stored_installation handoff ghi ghiu p session tok i))))))"

definition installation_callback ::
  "'g bootstrap_env \<Rightarrow> 'g handoff option \<Rightarrow> string \<Rightarrow> string \<Rightarrow> string \<Rightarrow> string \<Rightarrow> user_id \<Rightarrow> string \<Rightarrow> string \<Rightarrow> ('g, installation_result) action" where
  "installation_callback e handoff ghi ghiu state code u subject session w =
     (let w1 = cleanupStates w in
      if u = [] \<or> subject = [] then (w1, Inl (Installation_error IK_identity_mismatch ''Active CEO session required'' 403))
      else case map_of (w_oauth_states w1) state of
        None \<Rightarrow> (w1, Inl (Installation_error IK_plain ''Invalid or expired OAuth state'' 400))
      | Some p \<Rightarrow>
         (let w2 = w1\<lparr>w_oauth_states := AList.delete state (w_oauth_states w1)\<rparr> in
          if w_now w2 > po_expires_at p then (w2, Inl (Installation_error IK_plain ''OAuth state has expired'' 400))
          else if po_user_id p \<noteq> u \<or> po_provider_subject p \<noteq> subject
          then (w2, Inl (Installation_error IK_identity_mismatch ''OAuth state user mismatch: active session does not match state owner'' 403))
          else if \<not> account_active (w_identity w2) u then (w2, Inl (Installation_error IK_plain ''User is disabled or does not exist'' 401))
          else verified_installation e handoff ghi ghiu p code session w2))"

definition listUserInstallations :: "user_id \<Rightarrow> ('g, (installation_row \<times> int) list) action" where
  "listUserInstallations u = reading (\<lambda>w. listGitHubInstallationsForUser (w_identity w) u)"

end
