(* ===== verification/Bootstrap_Flow.thy ===== *)
theory Bootstrap_Flow
  imports Bootstrap_Service
begin

text \<open>
  One bootstrap attempt (\<^verbatim>\<open>github/bootstrap-service.ts\<close>), from \<^verbatim>\<open>bootstrapWorkspace\<close> to the live verification, request by
  request.
\<close>

section \<open>Requests\<close>

text \<open>A read that must succeed, and a write that also fails when something changed in between.\<close>

definition read_from :: "'g bootstrap_env \<Rightarrow> string \<Rightarrow> github_request \<Rightarrow> string \<Rightarrow> ('g, json) action" where
  "read_from e tok q ctx =
     bind_action (github_fetch (be_github e) (Installation_token tok) q) (\<lambda>(st, b).
     bind_action (require (res_ok st) (classifyGitHubResponseError st ctx)) (\<lambda>_. lift_result (res_json b)))"

definition write_to :: "'g bootstrap_env \<Rightarrow> string \<Rightarrow> github_request \<Rightarrow> string \<Rightarrow> string \<Rightarrow> ('g, string + json) action" where
  "write_to e tok q stale ctx =
     bind_action (github_fetch (be_github e) (Installation_token tok) q) (\<lambda>(st, b).
     bind_action (require (res_ok st) (if st = 409 \<or> st = 422 then retryable_error ''STALE_REMOTE'' stale 409 else classifyGitHubResponseError st ctx))
       (\<lambda>_. pass b))"

text \<open>The text \<^verbatim>\<open>j.a?.b\<close> that a reply must have.\<close>

definition needed_text :: "string \<Rightarrow> string \<Rightarrow> server_error \<Rightarrow> json \<Rightarrow> ('g, string) action" where
  "needed_text a b err j = bind_action (lift_result (nested_text a b j)) (\<lambda>x. found x err)"

definition resolveCommitIdentity :: "'g bootstrap_env \<Rightarrow> ws_id \<Rightarrow> ('g, commit_person \<times> commit_person) action" where
  "resolveCommitIdentity e i = bind_action (reading w_identity) (\<lambda>it.
     bind_action (found (findWorkspaceById it i)
       (manual_error ''WORKSPACE_NOT_FOUND'' (''Workspace '' @ quote_text i @ '' not found during commit attribution.'') 404)) (\<lambda>w.
     pass (case findExternalIdentityByUser it ''github'' (wk_owner_user_id w) of
         None \<Rightarrow> (be_committer e, be_committer e)
       | Some x \<Rightarrow> (case (trimmed_text (xt_provider_login x), trimmed_text (xt_provider_email x)) of
           (Some n, Some m) \<Rightarrow> ((n, m), be_committer e)
         | _ \<Rightarrow> (be_committer e, be_committer e)))))"

section \<open>Verification\<close>

record bootstrap_job =
  bj_workspace_id :: ws_id
  bj_attempt_id :: string
  bj_binding :: repository_row
  bj_token :: string
  bj_owner :: string
  bj_repo :: string
  bj_branch :: string

definition verifyLiveStateAndMarkReady ::
  "'g bootstrap_env \<Rightarrow> bootstrap_job \<Rightarrow> string option \<Rightarrow> bootstrap_file list \<Rightarrow> ('g, bootstrap_row) action" where
  "verifyLiveStateAndMarkReady e k base manifest =
     (let o_r = bj_owner k; n = bj_repo k; tok = bj_token k in
      bind_action (read_from e tok (Get_repository o_r n) ''post-write repository verification'') (\<lambda>repo.
      bind_action (lift_result (validateLiveRepositoryMetadata repo (bj_binding k))) (\<lambda>_.
      bind_action (read_from e tok (Get_ref o_r n (bj_branch k)) ''post-write branch ref verification'') (\<lambda>ref.
      bind_action (needed_text ''object'' ''sha''
        (retryable_error ''POST_WRITE_VERIFICATION_FAILED'' ''Verified branch ref did not return commit SHA'' 500) ref) (\<lambda>head.
      bind_action (read_from e tok (Get_commit o_r n head) ''post-write commit verification'') (\<lambda>commit.
      bind_action (needed_text ''tree'' ''sha''
        (retryable_error ''POST_WRITE_VERIFICATION_FAILED'' ''Verified commit did not return tree SHA'' 500) commit) (\<lambda>tree.
      bind_action (read_from e tok (Get_tree o_r n tree) ''post-write tree verification'') (\<lambda>listing.
      bind_action (lift_result (ebind (tree_items listing) (\<lambda>is. files_present is manifest))) (\<lambda>_ w.
        (case markWorkspaceBootstrapReady (w_now w) (bj_workspace_id k) (bj_attempt_id k) head base (w_identity w) of
           Inl err \<Rightarrow> (w, Inl (Identity_failure err))
         | Inr (it, b) \<Rightarrow> (w\<lparr>w_identity := it\<rparr>, Inr b)))))))))))"

section \<open>Adding the missing files\<close>

definition addMissingFiles ::
  "'g bootstrap_env \<Rightarrow> bootstrap_job \<Rightarrow> string \<Rightarrow> string \<Rightarrow> bootstrap_file list \<Rightarrow> ('g, unit) action" where
  "addMissingFiles e k head tree missing =
     (let o_r = bj_owner k; n = bj_repo k; tok = bj_token k in
      bind_action (write_to e tok (Post_tree o_r n tree missing) ''Git tree creation conflict'' ''Git tree creation'') (\<lambda>b1.
      bind_action (lift_result (ebind (res_json b1) (js_member ''sha''))) (\<lambda>t.
      bind_action (resolveCommitIdentity e (bj_workspace_id k)) (\<lambda>(author, committer).
      bind_action (write_to e tok (Post_commit o_r n (as_str t) head author committer) ''Git commit creation conflict'' ''Git commit creation'') (\<lambda>b2.
      bind_action (lift_result (ebind (res_json b2) (js_member ''sha''))) (\<lambda>c.
      bind_action (write_to e tok (Patch_ref o_r n (bj_branch k) (as_str c) False)
        ''Remote branch moved concurrently during bootstrap'' ''Git ref update'') (\<lambda>_. pass ())))))))"

text \<open>The files a branch gets: those of the caller, or those that fit what is there.\<close>

definition partial_fresh :: "json \<Rightarrow> tree_item list \<Rightarrow> server_error + bool" where
  "partial_fresh commit is = ebind (js_member ''message'' commit) (\<lambda>m.
     Inr (m = Some (JStr initial_message) \<and> length is = 1 \<and> ti_path (hd is) = Some ''README.md''))"

definition effective_manifest ::
  "'g bootstrap_env \<Rightarrow> bootstrap_locale \<Rightarrow> bootstrap_file list option \<Rightarrow> bool \<Rightarrow> bootstrap_file list" where
  "effective_manifest e l given fresh = (case given of
      Some m \<Rightarrow> m
    | None \<Rightarrow> if fresh then buildFreshWorkspaceManifest (be_readme e) l else BOOTSTRAP_MANIFEST_V1)"

definition reconcileFromBranchHead ::
  "'g bootstrap_env \<Rightarrow> bootstrap_job \<Rightarrow> string option \<Rightarrow> string option \<Rightarrow> bootstrap_file list option \<Rightarrow> bootstrap_locale \<Rightarrow>
   ('g, bootstrap_row) action" where
  "reconcileFromBranchHead e k initial base given l =
     (let o_r = bj_owner k; n = bj_repo k; tok = bj_token k in
      bind_action (case initial of
          Some h \<Rightarrow> pass h
        | None \<Rightarrow> bind_action (read_from e tok (Get_ref o_r n (bj_branch k)) ''branch ref read during reconciliation'')
            (needed_text ''object'' ''sha'' (retryable_error ''TEMPORARY_GITHUB_ERROR'' ''Branch ref did not return commit SHA'' 500))) (\<lambda>head.
      bind_action (read_from e tok (Get_commit o_r n head) ''head commit read during reconciliation'') (\<lambda>commit.
      bind_action (needed_text ''tree'' ''sha'' (retryable_error ''TEMPORARY_GITHUB_ERROR'' ''Commit did not return tree SHA'' 500) commit) (\<lambda>tree.
      bind_action (read_from e tok (Get_tree o_r n tree) ''head tree read during reconciliation'') (\<lambda>listing.
      bind_action (lift_result (tree_items listing)) (\<lambda>is.
      bind_action (lift_result (partial_fresh commit is)) (\<lambda>fresh.
      let manifest = effective_manifest e l given fresh in
      bind_action (lift_result (missing_files is manifest)) (\<lambda>missing.
      bind_action (if missing = [] then pass () else addMissingFiles e k head tree missing) (\<lambda>_.
      verifyLiveStateAndMarkReady e k base manifest)))))))))"

section \<open>An empty repository\<close>

definition bootstrapEmptyRepository ::
  "'g bootstrap_env \<Rightarrow> bootstrap_job \<Rightarrow> bootstrap_file list \<Rightarrow> bootstrap_locale \<Rightarrow> ('g, bootstrap_row) action" where
  "bootstrapEmptyRepository e k manifest l = (case first_given (find (\<lambda>f. fst f = ''README.md'') manifest) (find (\<lambda>_. True) manifest) of
      None \<Rightarrow> throw (manual_error ''EMPTY_MANIFEST'' ''No bootstrap anchors provided in manifest'' 400)
    | Some (path, content) \<Rightarrow>
       bind_action (resolveCommitIdentity e (bj_workspace_id k)) (\<lambda>(author, committer).
       bind_action (write_to e (bj_token k) (Put_contents (bj_owner k) (bj_repo k) path content (bj_branch k) author committer)
         ''Repository initialized or branch created concurrently during contents initialization'' ''empty repository contents initialization'') (\<lambda>b.
       bind_action (lift_result (ebind (res_json b) (nested_text ''commit'' ''sha''))) (\<lambda>initial.
       reconcileFromBranchHead e k initial None (Some manifest) l))))"

text \<open>\<^verbatim>\<open>branchesList.some((b) => b.name === branch)\<close> looks no further than the first hit.\<close>

fun some_branch :: "string \<Rightarrow> json list \<Rightarrow> server_error + bool" where
  "some_branch branch [] = Inr False"
| "some_branch branch (JNull # js) = Inl (member_of_null ''name'')"
| "some_branch branch (j # js) = (if js_opt_member ''name'' (Some j) = Some (JStr branch) then Inr True else some_branch branch js)"

definition handleMissingBoundBranch ::
  "'g bootstrap_env \<Rightarrow> bootstrap_job \<Rightarrow> repository_meta \<Rightarrow> bootstrap_locale \<Rightarrow> ('g, bootstrap_row) action" where
  "handleMissingBoundBranch e k meta l =
     bind_action (github_fetch (be_github e) (Installation_token (bj_token k)) (List_branches (bj_owner k) (bj_repo k))) (\<lambda>(st, b).
     bind_action (if st = 409 then pass []
         else if \<not> res_ok st then throw (classifyGitHubResponseError st ''branches inspection'')
         else bind_action (lift_result (res_json b)) (\<lambda>j. case j of JArr js \<Rightarrow> pass js | _ \<Rightarrow> throw (malformed ''Branches listing payload is not an array'')))
       (\<lambda>branches.
     bind_action (lift_result (some_branch (bj_branch k) branches)) (\<lambda>created.
     if created then throw (retryable_error ''STALE_REMOTE'' (''Bound branch '' @ quote_text (bj_branch k) @ '' was created concurrently'') 409)
     else if branches \<noteq> [] then throw (manual_error ''BRANCH_UNAVAILABLE''
       (''Bound branch '' @ quote_text (bj_branch k) @ '' does not exist in populated repository'') 400)
     else if rm_size meta \<noteq> Some 0 then throw (manual_error ''BRANCH_UNAVAILABLE''
       (''Repository cannot be positively verified as empty (reported size: '' @ be_number e (rm_size meta) @ '')'') 400)
     else bootstrapEmptyRepository e k (buildFreshWorkspaceManifest (be_readme e) l) l)))"

section \<open>The attempt\<close>

text \<open>An error of the app's client, by its HTTP status.\<close>

definition error_status :: "server_error \<Rightarrow> int option" where
  "error_status x = (case x of
      GitHub_app_error _ st \<Rightarrow> st | Bootstrap_error _ _ _ st \<Rightarrow> Some st | Installation_error _ _ st \<Rightarrow> Some st | Repository_error _ st \<Rightarrow> Some st
    | Permission_upgrade_required _ \<Rightarrow> Some 403 | Partial_creation _ _ \<Rightarrow> Some 500 | Provisioning_incomplete _ _ _ \<Rightarrow> Some 500
    | Onboarding_error _ _ st \<Rightarrow> Some st | Identity_failure _ \<Rightarrow> None | Other_error _ \<Rightarrow> None)"

definition error_message :: "'g bootstrap_env \<Rightarrow> server_error \<Rightarrow> string" where
  "error_message e x = (case x of
      Bootstrap_error _ _ m _ \<Rightarrow> m | Identity_failure i \<Rightarrow> be_identity_message e i | GitHub_app_error m _ \<Rightarrow> m | Installation_error _ m _ \<Rightarrow> m
    | Repository_error m _ \<Rightarrow> m | Permission_upgrade_required m \<Rightarrow> m | Partial_creation m _ \<Rightarrow> m | Provisioning_incomplete m _ _ \<Rightarrow> m
    | Onboarding_error m _ _ \<Rightarrow> m | Other_error m \<Rightarrow> m)"

definition app_error :: "'g bootstrap_env \<Rightarrow> (int \<Rightarrow> string) \<Rightarrow> string \<Rightarrow> int \<Rightarrow> server_error \<Rightarrow> server_error" where
  "app_error e gone code st x = (case error_status x of
      Some s \<Rightarrow>
        if s = 404 \<or> s = 401 \<or> s = 403 then manual_error ''INSTALLATION_UNAVAILABLE'' (gone s) 403
        else if s = 429 then retryable_error ''GITHUB_RATE_LIMITED'' ''GitHub rate limit exceeded'' 429
        else if s \<ge> 500 then retryable_error ''GITHUB_5XX'' (''GitHub server error HTTP '' @ show_int s) 502
        else retryable_error code (error_message e x) st
    | None \<Rightarrow> retryable_error code (error_message e x) st)"

definition attemptOnBranch :: "'g bootstrap_env \<Rightarrow> bootstrap_job \<Rightarrow> repository_meta \<Rightarrow> bootstrap_locale \<Rightarrow> ('g, bootstrap_row) action" where
  "attemptOnBranch e k meta l =
     bind_action (github_fetch (be_github e) (Installation_token (bj_token k)) (Get_ref (bj_owner k) (bj_repo k) (bj_branch k))) (\<lambda>(st, body).
     if st = 404 \<or> st = 409 then handleMissingBoundBranch e k meta l
     else bind_action (require (res_ok st) (classifyGitHubResponseError st ''branch ref resolution'')) (\<lambda>_.
       bind_action (lift_result (res_json body)) (\<lambda>ref.
       bind_action (needed_text ''object'' ''sha''
         (retryable_error ''TEMPORARY_GITHUB_ERROR'' ''Branch ref did not return commit SHA'' 500) ref) (\<lambda>head.
       reconcileFromBranchHead e k (Some head) (Some head) None l))))"

definition executeBootstrapAttempt ::
  "'g bootstrap_env \<Rightarrow> ws_id \<Rightarrow> string \<Rightarrow> repository_row \<Rightarrow> string \<Rightarrow> bootstrap_locale \<Rightarrow> ('g, bootstrap_row) action" where
  "executeBootstrapAttempt e w a b inst l =
     bind_action (catching (getInstallation (be_github e) inst)
       (\<lambda>x. throw (app_error e (\<lambda>s. ''GitHub installation unavailable '' @ http_text s) ''NETWORK_ERROR'' 503 x))) (\<lambda>details.
     bind_action (require (\<not> js_truthy (jfield details ''suspended_at''))
       (manual_error ''INSTALLATION_UNAVAILABLE'' ''GitHub App installation is suspended'' 403)) (\<lambda>_.
     bind_action (require (js_opt_member ''contents'' (jfield details ''permissions'') = Some (JStr ''write''))
       (manual_error ''CONTENTS_WRITE_REQUIRED'' ''GitHub App requires Contents: write permission'' 403)) (\<lambda>_.
     bind_action (catching (getScopedInstallationToken (be_github e) (be_date_ms e) inst (Some [rb_repository_id b]) None)
       (\<lambda>x. throw (app_error e (\<lambda>s. ''Failed to obtain installation token '' @ http_text s) ''TEMPORARY_GITHUB_ERROR'' 500 x))) (\<lambda>tok.
     bind_action (read_from e tok (Get_repository (rb_owner_login b) (rb_repository_name b)) ''repository preflight check'') (\<lambda>repo.
     bind_action (lift_result (validateLiveRepositoryMetadata repo b)) (\<lambda>meta.
     attemptOnBranch e \<lparr>bj_workspace_id = w, bj_attempt_id = a, bj_binding = b, bj_token = tok, bj_owner = rm_owner_login meta, bj_repo = rm_name meta,
       bj_branch = rb_branch b\<rparr> meta l))))))"

text \<open>The checks of the control plane before the attempt.\<close>

definition preflight :: "ws_id \<Rightarrow> repository_row \<Rightarrow> identity_data \<Rightarrow> server_error + installation_row" where
  "preflight w b it = (case getOwnerMembershipForWorkspace it w of
      None \<Rightarrow> Inl (manual_error ''INVALID_BINDING'' (''Workspace '' @ quote_text w @ '' has no owner membership'') 400)
    | Some m \<Rightarrow>
       if \<not> account_active it (mr_user_id m) then Inl (manual_error ''INVALID_BINDING'' ''Workspace owner user is disabled'' 403)
       else (case findGitHubInstallationByRowId it (rb_installation_row_id b) of
           None \<Rightarrow> Inl (manual_error ''INSTALLATION_UNAVAILABLE'' ''Installation row not found in control-plane'' 404)
         | Some g \<Rightarrow> (case findGitHubInstallationUser it (gh_id g) (mr_user_id m) of
             None \<Rightarrow> Inl (manual_error ''INSTALLATION_UNAVAILABLE'' ''User is not associated with installation'' 403)
           | Some _ \<Rightarrow> Inr g)))"

text \<open>How the end of a failed attempt is recorded.\<close>

definition record_failure :: "'g bootstrap_env \<Rightarrow> ws_id \<Rightarrow> string \<Rightarrow> server_error \<Rightarrow> ('g, bootstrap_row) action" where
  "record_failure e i a x = (\<lambda>w.
     (case (case x of
         Bootstrap_error BK_manual code msg _ \<Rightarrow> markWorkspaceBootstrapManualRecovery (w_now w) i a code msg None (w_identity w)
       | Bootstrap_error BK_retryable code msg _ \<Rightarrow> markWorkspaceBootstrapRetryableFailure (w_now w) i a code msg None (w_identity w)
       | _ \<Rightarrow> markWorkspaceBootstrapRetryableFailure (w_now w) i a ''NETWORK_ERROR'' (error_message e x) None (w_identity w)) of
       Inl err \<Rightarrow> (w, Inl (Identity_failure err))
     | Inr (it, r) \<Rightarrow> (w\<lparr>w_identity := it\<rparr>, Inr r)))"

definition begin_attempt :: "string \<Rightarrow> ws_id \<Rightarrow> ('g, string) action" where
  "begin_attempt uuid i = (\<lambda>w. case beginWorkspaceBootstrapAttempt (w_now w) uuid i (w_identity w) of
      Inl err \<Rightarrow> (w, Inl (Identity_failure err))
    | Inr (it, (a, _)) \<Rightarrow> (w\<lparr>w_identity := it\<rparr>, Inr a))"

definition checked_attempt :: "'g bootstrap_env \<Rightarrow> ws_id \<Rightarrow> string \<Rightarrow> repository_row \<Rightarrow> bootstrap_locale \<Rightarrow> ('g, bootstrap_row) action" where
  "checked_attempt e i a b l = bind_action (reading w_identity) (\<lambda>it. bind_action (lift_result (preflight i b it)) (\<lambda>g.
     executeBootstrapAttempt e i a b (gh_installation_id g) l))"

definition guarded_bootstrap :: "'g bootstrap_env \<Rightarrow> string \<Rightarrow> ws_id \<Rightarrow> bootstrap_locale \<Rightarrow> ('g, provisioning_result) action" where
  "guarded_bootstrap e uuid i l =
     bind_action (getProvisioningStatus i) (\<lambda>existing.
     if wb_state (pv_bootstrap existing) = BS_ready then pass existing
     else bind_action (begin_attempt uuid i) (\<lambda>a.
       bind_action (catching (checked_attempt e i a (pv_binding existing) l) (record_failure e i a)) (\<lambda>r.
       pass (existing\<lparr>pv_bootstrap := r, pv_status := deriveProductProvisioningStatus (wb_state r)\<rparr>))))"

definition bootstrapWorkspace :: "'g bootstrap_env \<Rightarrow> string \<Rightarrow> ws_id \<Rightarrow> bootstrap_locale \<Rightarrow> ('g, provisioning_result) action" where
  "bootstrapWorkspace e uuid i l = (\<lambda>w.
     if i \<in> w_active w then getProvisioningStatus i w
     else (case guarded_bootstrap e uuid i l (w\<lparr>w_active := insert i (w_active w)\<rparr>) of
       (w1, r) \<Rightarrow> (w1\<lparr>w_active := w_active w1 - {i}\<rparr>, r)))"

end
