(* ===== verification/Repository_Service.thy ===== *)
theory Repository_Service
  imports Installation_Service Bootstrap_Flow
begin

text \<open>
  Repositories on behalf of a user (\<^verbatim>\<open>github/repository-service.ts\<close>): an authorization gives the session a short-lived
  grant with the token of the user; with it repositories are listed, imported, or created, and bound to a new workspace.
  The checks of a repository are those of \<open>Bootstrap_Service\<close> with the errors of this file.
\<close>

section \<open>Repositories GitHub reports\<close>

definition repository_failure :: "server_error + 'a \<Rightarrow> server_error + 'a" where
  "repository_failure r = emap_err (\<lambda>x. case x of Bootstrap_error _ _ m st \<Rightarrow> Repository_error m st | _ \<Rightarrow> x) r"

definition flag_of :: "string \<Rightarrow> json option \<Rightarrow> server_error + bool" where
  "flag_of what v = (case v of Some (JBool b) \<Rightarrow> Inr b | _ \<Rightarrow> Inl (Repository_error (what @ '' must be a boolean'') 400))"

definition live_permissions :: "json option \<Rightarrow> server_error + (bool \<times> bool \<times> bool) option" where
  "live_permissions v = (case v of
      None \<Rightarrow> Inr None
    | Some (JObj f) \<Rightarrow>
        (case (jfield f ''admin'', jfield f ''push'', jfield f ''pull'') of (a, p, q) \<Rightarrow>
           if as_bool a = None then Inl (Repository_error ''Repository permissions must contain boolean admin field'' 400)
           else if p \<noteq> None \<and> as_bool p = None then Inl (Repository_error ''Repository permissions push must be a boolean'' 400)
           else if q \<noteq> None \<and> as_bool q = None then Inl (Repository_error ''Repository permissions pull must be a boolean'' 400)
           else Inr (Some (as_bool a = Some True, as_bool p = Some True, as_bool q = Some True)))
    | Some _ \<Rightarrow> Inl (Repository_error ''Repository permissions must be an object when present'' 400))"

definition owner_fields :: "json option \<Rightarrow> server_error + string \<times> string" where
  "owner_fields v = (case v of
      Some (JObj f) \<Rightarrow> ebind (live_id ''Repository owner id'' (jfield f ''id'')) (\<lambda>i.
        ebind (exact_text ''Repository owner login'' (jfield f ''login'')) (\<lambda>l. Inr (i, l)))
    | _ \<Rightarrow> Inl (malformed ''Repository owner must be an object''))"

definition parseStrictRepositoryPayload :: "bool \<Rightarrow> bool \<Rightarrow> json \<Rightarrow> server_error + safe_repository" where
  "parseStrictRepositoryPayload needPermissions needAdmin raw = (case raw of
      JObj f \<Rightarrow>
        ebind (repository_failure (live_id ''Repository id'' (jfield f ''id''))) (\<lambda>i.
        ebind (repository_failure (exact_text ''Repository name'' (jfield f ''name''))) (\<lambda>name.
        ebind (repository_failure (exact_text ''Repository full_name'' (jfield f ''full_name''))) (\<lambda>full.
        ebind (repository_failure (owner_fields (jfield f ''owner''))) (\<lambda>(oid, login).
        if full \<noteq> login @ ''/'' @ name
        then Inl (Repository_error (''Repository full_name '' @ quote_text full @ '' does not match expected '' @ quote_text (login @ ''/'' @ name)) 400)
        else ebind (flag_of ''Repository private'' (jfield f ''private'')) (\<lambda>private.
        ebind (flag_of ''Repository archived'' (jfield f ''archived'')) (\<lambda>archived.
        ebind (flag_of ''Repository disabled'' (jfield f ''disabled'')) (\<lambda>disabled.
        ebind (repository_failure (live_branch (jfield f ''default_branch''))) (\<lambda>branch.
        ebind (live_permissions (jfield f ''permissions'')) (\<lambda>perms.
        if needPermissions \<and> perms = None then Inl (Repository_error ''Repository permissions object is required'' 400)
        else if needAdmin \<and> \<not> (case perms of None \<Rightarrow> False | Some (a, p, q) \<Rightarrow> a)
        then Inl (Repository_error ''ADMIN_PERMISSION_REQUIRED: User must have admin permission on the repository to import'' 403)
        else Inr \<lparr>sr_id = i, sr_name = name, sr_full_name = full, sr_owner_id = oid, sr_owner_login = login, sr_private = private,
          sr_archived = archived, sr_disabled = disabled, sr_default_branch = branch, sr_permissions = perms\<rparr>)))))))))
    | _ \<Rightarrow> Inl (Repository_error ''Repository payload must be a JSON object'' 400))"

definition tryParseStrictRepository :: "json \<Rightarrow> safe_repository option" where
  "tryParseStrictRepository raw = (case parseStrictRepositoryPayload False False raw of Inl _ \<Rightarrow> None | Inr r \<Rightarrow> Some r)"

section \<open>Authorizations and grants\<close>

definition cleanup :: "('g, unit) action" where
  "cleanup w = (w\<lparr>w_repository_states := filter (\<lambda>p. \<not> w_now w > pr_expires_at (snd p)) (w_repository_states w),
     w_grants := filter (\<lambda>p. \<not> w_now w > rg_expires_at_ms (snd p)) (w_grants w)\<rparr>, Inr ())"

text \<open>The session is still live and belongs to the user.\<close>

definition live_session_of :: "string \<Rightarrow> user_id \<Rightarrow> ('g, bool) action" where
  "live_session_of sid u w = (case getSessionFromToken (w_now w) (Some sid) (w_sessions w) of (m, s) \<Rightarrow>
     (w\<lparr>w_sessions := m\<rparr>, Inr (case s of None \<Rightarrow> False | Some s \<Rightarrow> us_user_id s = u)))"

definition require_session :: "string \<Rightarrow> user_id \<Rightarrow> ('g, unit) action" where
  "require_session sid u =
     bind_action (live_session_of sid u) (\<lambda>ok.
     bind_action (require ok (Repository_error ''Active CEO session is invalid or expired'' 401)) (\<lambda>_.
     bind_action (reading w_identity) (\<lambda>it. require (account_active it u) (Repository_error ''User is disabled or does not exist'' 401))))"

record redirect_input =
  di_session_id :: string
  di_user_id :: user_id
  di_provider_subject :: string
  di_installation_id :: string
  di_flow_id :: "string option"
  di_oauth_request :: "string option"

definition session_given :: "string \<Rightarrow> user_id \<Rightarrow> string \<Rightarrow> ('g, unit) action" where
  "session_given sid u subject =
     bind_action (require (non_blank sid) (Repository_error ''Active CEO session required'' 401)) (\<lambda>_.
     require (u \<noteq> [] \<and> subject \<noteq> []) (Repository_error ''Active CEO GitHub session required'' 401))"

definition createAuthorizationRedirect ::
  "int \<Rightarrow> (string \<Rightarrow> string) \<Rightarrow> string \<Rightarrow> string \<Rightarrow> redirect_input \<Rightarrow> ('g, string \<times> string) action" where
  "createAuthorizationRedirect ttl sha64 verifier state i =
     bind_action cleanup (\<lambda>_.
     bind_action (session_given (di_session_id i) (di_user_id i) (di_provider_subject i)) (\<lambda>_.
     bind_action (require_session (di_session_id i) (di_user_id i)) (\<lambda>_.
     bind_action (require (non_blank (di_installation_id i)) (Repository_error ''installation_id is required'' 400)) (\<lambda>_.
     bind_action (reading w_identity) (\<lambda>it.
     let k = js_trim (di_installation_id i) in
     bind_action (found (first_given (findGitHubInstallationById it k) (findGitHubInstallationByRowId it k))
       (Repository_error ''GitHub installation not found'' 404)) (\<lambda>g.
     bind_action (found (findGitHubInstallationUser it (gh_id g) (di_user_id i))
       (Repository_error ''User has no verified association with this installation'' 403)) (\<lambda>_ w.
       (w\<lparr>w_repository_states := AList.update state \<lparr>pr_code_verifier = verifier, pr_session_id = di_session_id i, pr_user_id = di_user_id i,
          pr_provider_subject = di_provider_subject i, pr_installation_row_id = gh_id g, pr_installation_id = gh_installation_id g,
          pr_expires_at = w_now w + ttl, pr_flow_id = di_flow_id i, pr_oauth_request = di_oauth_request i\<rparr> (w_repository_states w)\<rparr>,
        Inr (state, sha64 verifier)))))))))"

text \<open>The pending state of a callback, which is consumed by looking it up.\<close>

definition take_repository_state :: "string \<Rightarrow> ('g, pending_repository) action" where
  "take_repository_state state w = (case map_of (w_repository_states w) state of
      None \<Rightarrow> (w, Inl (Repository_error ''Invalid or expired authorization state'' 400))
    | Some p \<Rightarrow> (w\<lparr>w_repository_states := AList.delete state (w_repository_states w)\<rparr>,
        if w_now w > pr_expires_at p then Inl (Repository_error ''Authorization state has expired'' 400) else Inr p))"

text \<open>The installation as GitHub shows it to the user, against the stored one: account id, login and type.\<close>

definition matching_installation :: "'g bootstrap_env \<Rightarrow> pending_repository \<Rightarrow> json \<Rightarrow> server_error + int \<times> string \<times> string" where
  "matching_installation e p j =
     (let err = Repository_error; get = (\<lambda>k. js_opt_member k (Some j)); sel = get ''repository_selection'';
          bad = err ''Invalid GitHub installation id: must be a positive safe integer matching pending installation'' 400 in
      ebind (need_positive bad (get ''id'')) (\<lambda>i.
      if show_int i \<noteq> pr_installation_id p then Inl bad
      else ebind (need_positive (err ''Invalid GitHub installation app_id: must be a positive safe integer'' 400) (get ''app_id'')) (\<lambda>_.
      ebind (live_account e err False (get ''account'')) (\<lambda>acc.
      if sel \<notin> {None, Some (JStr ''all''), Some (JStr ''selected'')} then Inl (err (bad_selection e sel) 400) else Inr acc))))"

definition account_mismatch :: "string \<Rightarrow> string \<Rightarrow> string \<Rightarrow> server_error" where
  "account_mismatch what live stored = Repository_error (''GitHub installation account '' @ what @ '' mismatch: live '' @ quote_text live
     @ '' does not match persisted '' @ quote_text stored) 400"

definition persisted_account :: "pending_repository \<Rightarrow> int \<times> string \<times> string \<Rightarrow> identity_data \<Rightarrow> server_error + unit" where
  "persisted_account p acc it = (case findGitHubInstallationByRowId it (pr_installation_row_id p) of
      None \<Rightarrow> Inl (Repository_error ''Persisted installation row not found'' 404)
    | Some g \<Rightarrow> (case acc of (i, login, typ) \<Rightarrow>
        if show_int i \<noteq> gh_account_id g then Inl (account_mismatch ''id'' (show_int i) (gh_account_id g))
        else if typ \<noteq> gh_account_type g then Inl (account_mismatch ''type'' typ (gh_account_type g)) else Inr ()))"

definition store_grant :: "string \<Rightarrow> repository_grant \<Rightarrow> ('g, string \<times> int) action" where
  "store_grant i g w = (w\<lparr>w_grants := AList.update i g (w_grants w)\<rparr>, Inr (i, rg_expires_at_ms g))"

record grant_result =
  gr_grant :: string
  gr_expires_at_ms :: int
  gr_flow_id :: "string option"
  gr_oauth_request :: "string option"

definition granted_authorization :: "'g bootstrap_env \<Rightarrow> int \<Rightarrow> string \<Rightarrow> string \<Rightarrow> pending_repository \<Rightarrow> ('g, grant_result) action" where
  "granted_authorization e ttl grantId code p =
     bind_action (exchange_code e Repository_error code (pr_code_verifier p)) (\<lambda>tok.
     bind_action (github_user e Repository_error tok) (\<lambda>who.
     bind_action (require (fst who = pr_provider_subject p) (Repository_error (user_mismatch who (pr_provider_subject p)) 403)) (\<lambda>_.
     bind_action (find_installation e Repository_error tok (pr_installation_id p) max_pages) (\<lambda>x.
     bind_action (found x (Repository_error (''Installation '' @ quote_text (pr_installation_id p) @ '' is not accessible by GitHub user ''
       @ quote_text (fst who)) 403)) (\<lambda>j.
     bind_action (lift_result (matching_installation e p j)) (\<lambda>acc.
     bind_action (reading w_identity) (\<lambda>it.
     bind_action (lift_result (persisted_account p acc it)) (\<lambda>_.
     bind_action (reading w_now) (\<lambda>now.
     bind_action (store_grant grantId \<lparr>rg_session_id = pr_session_id p, rg_user_id = pr_user_id p, rg_provider_subject = pr_provider_subject p,
         rg_installation_row_id = pr_installation_row_id p, rg_installation_id = pr_installation_id p, rg_account_id = show_int (fst acc),
         rg_account_login = fst (snd acc), rg_account_type = snd (snd acc), rg_user_access_token = tok, rg_expires_at_ms = now + ttl\<rparr>) (\<lambda>(i, t).
     pass \<lparr>gr_grant = i, gr_expires_at_ms = t, gr_flow_id = pr_flow_id p, gr_oauth_request = pr_oauth_request p\<rparr>))))))))))"

definition repository_callback ::
  "'g bootstrap_env \<Rightarrow> int \<Rightarrow> string \<Rightarrow> string \<Rightarrow> string \<Rightarrow> string \<Rightarrow> user_id \<Rightarrow> string \<Rightarrow> ('g, grant_result) action" where
  "repository_callback e ttl grantId state code sid u subject =
     bind_action cleanup (\<lambda>_.
     bind_action (session_given sid u subject) (\<lambda>_.
     bind_action (take_repository_state state) (\<lambda>p.
     bind_action (require (pr_session_id p = sid) (Repository_error ''Session mismatch: active session does not match authorization state'' 403)) (\<lambda>_.
     bind_action (require (pr_user_id p = u \<and> pr_provider_subject p = subject)
       (Repository_error ''Session user mismatch: active session does not match authorization state'' 403)) (\<lambda>_.
     bind_action (require_session sid u) (\<lambda>_.
     granted_authorization e ttl grantId code p))))))"

definition createGrantFromLiveToken :: "int \<Rightarrow> string \<Rightarrow> token_context \<Rightarrow> ('g, string \<times> int) action" where
  "createGrantFromLiveToken ttl grantId c =
     bind_action cleanup (\<lambda>_.
     bind_action (reading w_now) (\<lambda>now.
     store_grant grantId \<lparr>rg_session_id = tc_session_id c, rg_user_id = tc_user_id c, rg_provider_subject = tc_provider_subject c,
       rg_installation_row_id = tc_installation_row_id c, rg_installation_id = tc_installation_id c, rg_account_id = tc_account_id c,
       rg_account_login = tc_account_login c, rg_account_type = tc_account_type c, rg_user_access_token = tc_user_access_token c,
       rg_expires_at_ms = now + ttl\<rparr>))"

definition drop_grant :: "string \<Rightarrow> 'g server_world \<Rightarrow> 'g server_world" where
  "drop_grant i w = w\<lparr>w_grants := AList.delete i (w_grants w)\<rparr>"

definition unexpired_grant :: "string \<Rightarrow> ('g, repository_grant) action" where
  "unexpired_grant i w = (case map_of (w_grants w) i of
      None \<Rightarrow> (w, Inl (Repository_error ''Invalid or expired repository grant'' 401))
    | Some g \<Rightarrow> if w_now w > rg_expires_at_ms g then (drop_grant i w, Inl (Repository_error ''Repository grant has expired'' 401)) else (w, Inr g))"

definition getValidGrant :: "string \<Rightarrow> string \<Rightarrow> user_id \<Rightarrow> string \<Rightarrow> ('g, repository_grant) action" where
  "getValidGrant grantId sid u subject =
     bind_action cleanup (\<lambda>_.
     bind_action (require (grantId \<noteq> []) (Repository_error ''Grant id required'' 400)) (\<lambda>_.
     bind_action (require (non_blank sid) (Repository_error ''Active CEO session required'' 401)) (\<lambda>_.
     bind_action (unexpired_grant grantId) (\<lambda>g.
     bind_action (require (rg_session_id g = sid) (Repository_error ''Repository grant does not belong to the active session'' 403)) (\<lambda>_.
     bind_action (require (rg_user_id g = u \<and> rg_provider_subject g = subject)
       (Repository_error ''Repository grant does not belong to the active session user'' 403)) (\<lambda>_.
     bind_action (require_session sid u) (\<lambda>_.
     bind_action (reading w_identity) (\<lambda>it.
     bind_action (found (findGitHubInstallationUser it (rg_installation_row_id g) u)
       (Repository_error ''User has no verified association with this installation'' 403)) (\<lambda>_. pass g)))))))))"

end
