(* ===== verification/Repository_Binding.thy ===== *)
theory Repository_Binding
  imports Repository_Service
begin

text \<open>
  Listing, importing and creating repositories with a grant (\<^verbatim>\<open>github/repository-service.ts\<close>), and binding one to a new
  workspace. \<open>ids\<close> are the random parts of the ids of the three new rows, \<open>uuid\<close> that of the bootstrap attempt.
\<close>

section \<open>Listing\<close>

definition repositories_page :: "'g bootstrap_env \<Rightarrow> repository_grant \<Rightarrow> nat \<Rightarrow> ('g, json \<times> json list) action" where
  "repositories_page e g page =
     bind_action (github_fetch (be_github e) (User_access_token (rg_user_access_token g)) (List_user_repositories (rg_installation_id g) page)) (\<lambda>(st, b).
     bind_action (require (res_ok st) (Repository_error (''GitHub user installation repositories fetch failed with HTTP '' @ show_int st) st)) (\<lambda>_.
     bind_action (lift_result (res_json b)) (\<lambda>j.
     bind_action (lift_result (array_member ''repositories'' j)) (\<lambda>xs. pass (j, xs)))))"

primrec collect_repositories :: "'g bootstrap_env \<Rightarrow> repository_grant \<Rightarrow> nat \<Rightarrow> safe_repository list \<Rightarrow> rat \<Rightarrow> ('g, safe_repository list \<times> rat) action" where
  "collect_repositories e g 0 acc cnt = pass (acc, cnt)"
| "collect_repositories e g (Suc k) acc cnt =
     bind_action (repositories_page e g (max_pages - k)) (\<lambda>(j, xs).
       (let acc' = acc @ List.map_filter tryParseStrictRepository xs;
            cnt' = (case as_num (js_opt_member ''total_count'' (Some j)) of None \<Rightarrow> cnt | Some t \<Rightarrow> t)
        in if last_page (max_pages - k) xs j then pass (acc', cnt') else collect_repositories e g k acc' cnt'))"

definition listRepositories :: "'g bootstrap_env \<Rightarrow> string \<Rightarrow> string \<Rightarrow> user_id \<Rightarrow> string \<Rightarrow> ('g, safe_repository list \<times> rat) action" where
  "listRepositories e grantId sid u subject =
     bind_action (getValidGrant grantId sid u subject) (\<lambda>g.
     bind_action (collect_repositories e g max_pages [] 0) (\<lambda>(rs, cnt). pass (rs, if cnt = 0 then of_nat (length rs) else cnt)))"

primrec find_repository :: "'g bootstrap_env \<Rightarrow> repository_grant \<Rightarrow> string \<Rightarrow> nat \<Rightarrow> ('g, json option) action" where
  "find_repository e g i 0 = pass None"
| "find_repository e g i (Suc k) =
     bind_action (repositories_page e g (max_pages - k)) (\<lambda>(j, xs).
       case find (\<lambda>r. js_truthy (Some r) \<and> js_string e (js_opt_member ''id'' (Some r)) = i) xs of
         Some r \<Rightarrow> pass (Some r)
       | None \<Rightarrow> if last_page (max_pages - k) xs j then pass None else find_repository e g i k)"

definition findUserInstallationRepositoryRaw :: "'g bootstrap_env \<Rightarrow> repository_grant \<Rightarrow> string \<Rightarrow> ('g, json option) action" where
  "findUserInstallationRepositoryRaw e g i = find_repository e g i max_pages"

section \<open>Binding\<close>

text \<open>What differs between two reports of a repository; \<open>what\<close> names the second one.\<close>

definition report_mismatch :: "string \<Rightarrow> safe_repository \<Rightarrow> safe_repository \<Rightarrow> string option" where
  "report_mismatch what old new =
     (if sr_id new \<noteq> sr_id old then Some (what @ '' id mismatch'')
      else if sr_owner_id new \<noteq> sr_owner_id old then Some (what @ '' owner id mismatch'')
      else if sr_owner_login new \<noteq> sr_owner_login old then Some (what @ '' owner login mismatch'')
      else if sr_name new \<noteq> sr_name old then Some (what @ '' name mismatch'')
      else if sr_full_name new \<noteq> sr_full_name old then Some (what @ '' full_name mismatch'')
      else if sr_default_branch new \<noteq> sr_default_branch old then Some (what @ '' default_branch mismatch'')
      else if \<not> sr_private new \<or> sr_archived new \<or> sr_disabled new then Some (what @ '' must be private, not archived, and not disabled'')
      else None)"

definition same_report :: "string \<Rightarrow> (string \<Rightarrow> server_error) \<Rightarrow> safe_repository \<Rightarrow> safe_repository \<Rightarrow> server_error + unit" where
  "same_report what err old new = (case report_mismatch what old new of None \<Rightarrow> Inr () | Some m \<Rightarrow> Inl (err m))"

type_synonym bound_repository = "workspace_rows \<times> provisioning_status"

definition binding_input :: "user_id \<Rightarrow> repository_grant \<Rightarrow> string \<Rightarrow> safe_repository \<Rightarrow> workspace_input" where
  "binding_input u g branch r = \<lparr>wi_user_id = u, wi_installation_row_id = rg_installation_row_id g, wi_repository_id = sr_id r,
     wi_owner_account_id = sr_owner_id r, wi_owner_login = sr_owner_login r, wi_repository_name = sr_name r, wi_full_name = sr_full_name r,
     wi_branch = branch, wi_scope_verified_at_ms = None\<rparr>"

definition bind_repository :: "string \<times> string \<times> string \<Rightarrow> workspace_input \<Rightarrow> ('g, workspace_rows) action" where
  "bind_repository ids i = (case ids of (a, b, c) \<Rightarrow> identity_action (\<lambda>now. createWorkspaceWithRepositoryBinding now a b c i))"

definition consume_grant :: "string \<Rightarrow> ('g, unit) action" where
  "consume_grant i w = (drop_grant i w, Inr ())"

definition bound_status :: "workspace_rows \<Rightarrow> bound_repository" where
  "bound_status r = (r, deriveProductProvisioningStatus (wb_state (nw_bootstrap r)))"

definition owns_nothing :: "user_id \<Rightarrow> ('g, unit) action" where
  "owns_nothing u = bind_action (reading w_identity) (\<lambda>it.
     require (\<not> countOwnedWorkspacesForUser it u > 0) (Repository_error ''USER_ALREADY_OWNS_WORKSPACE: User already owns a workspace'' 409))"

text \<open>The installation grants a permission.\<close>

definition may_write :: "string \<Rightarrow> jobject \<Rightarrow> bool" where
  "may_write k inst \<longleftrightarrow> js_opt_member k (jfield inst ''permissions'') = Some (JStr ''write'')"

definition contents_needed :: server_error where
  "contents_needed = Permission_upgrade_required ''GITHUB_APP_PERMISSION_UPGRADE_REQUIRED: GitHub App requires Contents: write permission''"

section \<open>Importing\<close>

definition importable :: "repository_grant \<Rightarrow> safe_repository \<Rightarrow> server_error + unit" where
  "importable g r =
     (if \<not> sr_private r then Inl (Repository_error ''REPOSITORY_NOT_PRIVATE: Only private repositories may be bound'' 400)
      else if sr_archived r then Inl (Repository_error ''REPOSITORY_ARCHIVED: Archived repositories cannot be bound'' 400)
      else if sr_disabled r then Inl (Repository_error ''REPOSITORY_DISABLED: Disabled repositories cannot be bound'' 400)
      else if sr_owner_id r \<noteq> rg_account_id g
      then Inl (Repository_error ''INSTALLATION_OWNER_MISMATCH: Repository owner does not match installation account'' 400) else Inr ())"

text \<open>The installation can read the repository, and reports the same one.\<close>

definition installation_reads :: "'g bootstrap_env \<Rightarrow> repository_grant \<Rightarrow> safe_repository \<Rightarrow> ('g, safe_repository) action" where
  "installation_reads e g r =
     bind_action (getInstallation (be_github e) (rg_installation_id g)) (\<lambda>inst.
     bind_action (require (may_write ''contents'' inst) (Permission_upgrade_required
       ''GITHUB_APP_PERMISSION_UPGRADE_REQUIRED: GitHub App installation requires Contents: write permission'')) (\<lambda>_.
     bind_action (getInstallationToken (be_github e) (be_date_ms e) (rg_installation_id g)) (\<lambda>tok.
     bind_action (github_fetch (be_github e) (Installation_token tok) (Get_repository (sr_owner_login r) (sr_name r))) (\<lambda>(st, b).
     bind_action (require (res_ok st) (Repository_error (''Installation token failed to access repository with HTTP '' @ show_int st)
       (if st = 404 then 404 else 403))) (\<lambda>_.
     bind_action (lift_result (ebind (res_json b) (parseStrictRepositoryPayload False False))) (\<lambda>v.
     bind_action (lift_result (same_report ''Installation verified repository'' (\<lambda>m. Repository_error m 400) r v)) (\<lambda>_. pass v)))))))"

definition importRepositoryAndBind ::
  "'g bootstrap_env \<Rightarrow> string \<times> string \<times> string \<Rightarrow> string \<Rightarrow> string \<Rightarrow> user_id \<Rightarrow> string \<Rightarrow> string \<Rightarrow> ('g, bound_repository) action" where
  "importRepositoryAndBind e ids grantId sid u subject i =
     bind_action (require (positive_decimal i) (Repository_error ''repository_id must be a positive decimal string'' 400)) (\<lambda>_.
     bind_action (getValidGrant grantId sid u subject) (\<lambda>g.
     bind_action (owns_nothing u) (\<lambda>_.
     bind_action (reading w_identity) (\<lambda>it.
     bind_action (require (findRepositoryBindingByGitHubRepoId it i = None)
       (Repository_error ''REPOSITORY_ALREADY_BOUND: GitHub repository is already bound to a workspace'' 409)) (\<lambda>_.
     bind_action (findUserInstallationRepositoryRaw e g i) (\<lambda>x.
     bind_action (found x (Repository_error ''Repository not found in installation or not accessible by user'' 404)) (\<lambda>raw.
     bind_action (lift_result (parseStrictRepositoryPayload True True raw)) (\<lambda>r.
     bind_action (lift_result (importable g r)) (\<lambda>_.
     bind_action (installation_reads e g r) (\<lambda>v.
     bind_action (catching (bind_repository ids (binding_input u g (sr_default_branch v) v))
       (\<lambda>x. throw (Repository_error (''Failed to bind repository in control plane: '' @ error_message e x) 500))) (\<lambda>rows.
     bind_action (consume_grant grantId) (\<lambda>_. pass (bound_status rows)))))))))))))"

section \<open>Creating\<close>

definition name_chars :: string where
  "name_chars = ''abcdefghijklmnopqrstuvwxyzABCDEFGHIJKLMNOPQRSTUVWXYZ0123456789._-''"

definition repository_name_ok :: "string \<Rightarrow> bool" where
  "repository_name_ok n \<longleftrightarrow> n \<noteq> [] \<and> list_all (\<lambda>c. c \<in> set name_chars) n \<and> n \<noteq> ''.'' \<and> n \<noteq> ''..'' \<and> \<not> length n > 100"

definition creation_permitted :: "'g bootstrap_env \<Rightarrow> repository_grant \<Rightarrow> ('g, unit) action" where
  "creation_permitted e g =
     bind_action (getInstallation (be_github e) (rg_installation_id g)) (\<lambda>inst.
     bind_action (require (may_write ''administration'' inst) (Permission_upgrade_required
       ''GITHUB_APP_PERMISSION_UPGRADE_REQUIRED: GitHub App requires Administration: write permission for repository creation'')) (\<lambda>_.
     bind_action (require (may_write ''contents'' inst) contents_needed) (\<lambda>_.
     require (rg_account_type g = ''User'' \<longrightarrow> rg_account_id g = rg_provider_subject g)
       (Repository_error ''User installation account does not match authenticated user'' 403))))"

definition creation_request :: "repository_grant \<Rightarrow> string \<Rightarrow> string option \<Rightarrow> github_request" where
  "creation_request g name desc = (if rg_account_type g = ''User'' then Create_user_repository name desc
     else Create_organization_repository (rg_account_login g) name desc)"

text \<open>A reply that refuses the creation, with the message of GitHub if there is one.\<close>

definition creation_refused :: "int \<Rightarrow> string + json \<Rightarrow> server_error" where
  "creation_refused st b =
     (let j = (case b of Inl _ \<Rightarrow> JObj fmempty | Inr j \<Rightarrow> j) in case js_member ''message'' j of
        Inl x \<Rightarrow> x
      | Inr m \<Rightarrow> Repository_error (or_text (as_str m) (''GitHub repository creation failed with HTTP '' @ show_int st))
          (if st \<ge> 400 \<and> st < 500 then st else 400))"

text \<open>From here on the repository exists: an error says so.\<close>

definition created_report :: "repository_grant \<Rightarrow> string \<Rightarrow> string + json \<Rightarrow> server_error + safe_repository" where
  "created_report g name b = (case b of
      Inl _ \<Rightarrow> Inl (Other_error ''Creation response body was not valid JSON'')
    | Inr j \<Rightarrow> ebind (parseStrictRepositoryPayload False False j) (\<lambda>r.
        if \<not> sr_private r then Inl (Other_error ''Created repository is not private'')
        else if sr_archived r then Inl (Other_error ''Created repository is archived'')
        else if sr_disabled r then Inl (Other_error ''Created repository is disabled'')
        else if sr_owner_id r \<noteq> rg_account_id g
        then Inl (Other_error (''Created repository owner '' @ quote_text (sr_owner_id r) @ '' does not match installation account '' @ quote_text (rg_account_id g)))
        else if sr_name r \<noteq> name
        then Inl (Other_error (''Created repository name '' @ quote_text (sr_name r) @ '' does not match requested name '' @ quote_text name))
        else Inr r))"

definition bind_created ::
  "'g bootstrap_env \<Rightarrow> string \<times> string \<times> string \<Rightarrow> string \<Rightarrow> user_id \<Rightarrow> repository_grant \<Rightarrow> safe_repository \<Rightarrow> ('g, workspace_rows) action" where
  "bind_created e ids grantId u g r =
     bind_action (github_fetch (be_github e) (User_access_token (rg_user_access_token g)) (Get_repository (sr_owner_login r) (sr_name r))) (\<lambda>(st, b).
     bind_action (require (res_ok st) (Other_error (''User access token failed to verify created repository with HTTP '' @ show_int st))) (\<lambda>_.
     bind_action (lift_result (ebind (res_json b) (parseStrictRepositoryPayload False False))) (\<lambda>v.
     bind_action (lift_result (same_report ''Verified repository'' Other_error r v)) (\<lambda>_.
     bind_action (bind_repository ids (binding_input u g (if sr_default_branch v = [] then ''main'' else sr_default_branch v) v)) (\<lambda>rows.
     bind_action (consume_grant grantId) (\<lambda>_. pass rows))))))"

definition partial_unknown :: "'g bootstrap_env \<Rightarrow> server_error \<Rightarrow> server_error" where
  "partial_unknown e x = Partial_creation (''An external repository may have been created on GitHub, but response payload was malformed and local workspace was not created: ''
     @ error_message e x @ ''. Local workspace was not created.'') None"

definition partial_known :: "'g bootstrap_env \<Rightarrow> safe_repository \<Rightarrow> server_error \<Rightarrow> server_error" where
  "partial_known e r x = Partial_creation (''Repository '' @ quote_text (sr_full_name r) @ '' was created on GitHub, but workspace binding failed: ''
     @ error_message e x @ ''. Please import this repository.'') (Some r)"

definition after_creation ::
  "'g bootstrap_env \<Rightarrow> string \<times> string \<times> string \<Rightarrow> string \<Rightarrow> user_id \<Rightarrow> repository_grant \<Rightarrow> string \<Rightarrow> string + json \<Rightarrow> ('g, bound_repository) action" where
  "after_creation e ids grantId u g name b =
     bind_action (catching (lift_result (created_report g name b)) (\<lambda>x. throw (partial_unknown e x))) (\<lambda>r.
     bind_action (catching (bind_created e ids grantId u g r) (\<lambda>x. throw (partial_known e r x))) (\<lambda>rows. pass (bound_status rows)))"

definition guarded_creation ::
  "'g bootstrap_env \<Rightarrow> string \<times> string \<times> string \<Rightarrow> string \<Rightarrow> string \<Rightarrow> user_id \<Rightarrow> string \<Rightarrow> string \<Rightarrow> string option \<Rightarrow> ('g, bound_repository) action" where
  "guarded_creation e ids grantId sid u subject inputName desc =
     (let name = js_trim inputName in
      bind_action (require (name \<noteq> []) (Repository_error ''Repository name is required'' 400)) (\<lambda>_.
      bind_action (require (repository_name_ok name) (Repository_error ''Invalid repository name'' 400)) (\<lambda>_.
      bind_action (getValidGrant grantId sid u subject) (\<lambda>g.
      bind_action (owns_nothing u) (\<lambda>_.
      bind_action (creation_permitted e g) (\<lambda>_.
      bind_action (github_fetch (be_github e) (User_access_token (rg_user_access_token g)) (creation_request g name (trimmed_text desc))) (\<lambda>(st, b).
      bind_action (require (res_ok st) (creation_refused st b)) (\<lambda>_.
      after_creation e ids grantId u g name b))))))))"

definition createRepositoryAndBind ::
  "'g bootstrap_env \<Rightarrow> string \<times> string \<times> string \<Rightarrow> string \<Rightarrow> string \<Rightarrow> user_id \<Rightarrow> string \<Rightarrow> string \<Rightarrow> string option \<Rightarrow> ('g, bound_repository) action" where
  "createRepositoryAndBind e ids grantId sid u subject name desc w =
     (if u \<in> w_creations w then (w, Inl (Repository_error ''Repository creation already in progress for this user'' 409))
      else case guarded_creation e ids grantId sid u subject name desc (w\<lparr>w_creations := insert u (w_creations w)\<rparr>) of
        (w1, r) \<Rightarrow> (w1\<lparr>w_creations := w_creations w1 - {u}\<rparr>, r))"

section \<open>With the bootstrap\<close>

definition provisioned :: "'g bootstrap_env \<Rightarrow> string \<Rightarrow> bound_repository \<Rightarrow> ('g, workspace_rows \<times> bootstrap_row \<times> provisioning_status) action" where
  "provisioned e uuid b = (case b of (rows, st) \<Rightarrow>
     catching (bind_action (bootstrapWorkspace e uuid (wk_id (nw_workspace rows)) L_en) (\<lambda>v. pass (rows, pv_bootstrap v, pv_status v)))
       (\<lambda>x. throw (Provisioning_incomplete (''Workspace was created and bound, but bootstrap failed: '' @ error_message e x)
          (wk_id (nw_workspace rows)) (Some (nw_bootstrap rows)))))"

definition importRepository ::
  "'g bootstrap_env \<Rightarrow> string \<times> string \<times> string \<Rightarrow> string \<Rightarrow> string \<Rightarrow> string \<Rightarrow> user_id \<Rightarrow> string \<Rightarrow> string \<Rightarrow>
   ('g, workspace_rows \<times> bootstrap_row \<times> provisioning_status) action" where
  "importRepository e ids uuid grantId sid u subject i =
     bind_action (importRepositoryAndBind e ids grantId sid u subject i) (provisioned e uuid)"

definition createRepository ::
  "'g bootstrap_env \<Rightarrow> string \<times> string \<times> string \<Rightarrow> string \<Rightarrow> string \<Rightarrow> string \<Rightarrow> user_id \<Rightarrow> string \<Rightarrow> string \<Rightarrow> string option \<Rightarrow>
   ('g, workspace_rows \<times> bootstrap_row \<times> provisioning_status) action" where
  "createRepository e ids uuid grantId sid u subject name desc =
     bind_action (createRepositoryAndBind e ids grantId sid u subject name desc) (provisioned e uuid)"

end
