(* ===== verification/Onboarding_Service.thy ===== *)
theory Onboarding_Service
  imports Repository_Binding
begin

text \<open>
  The onboarding of a user (\<^verbatim>\<open>onboarding/service.ts\<close>): the wizard that creates a private repository and its workspace, has the
  installation restricted to that repository, and bootstraps it. \<open>str\<close> is \<^verbatim>\<open>String(error)\<close>, which is shown for an error
  without a message; \<open>uuid\<close> and \<open>ids\<close> are random parts of new ids.
\<close>

section \<open>Flows\<close>

text \<open>\<^verbatim>\<open>try { m } catch (e) { .. }\<close> where both ways return a value.\<close>

definition outcome_of :: "('g, 'a) action \<Rightarrow> ('g, server_error + 'a) action" where
  "outcome_of m w = (case m w of (w1, r) \<Rightarrow> (w1, Inr r))"

definition flow_write :: "string \<Rightarrow> flow_patch \<Rightarrow> ('g, onboarding_flow) action" where
  "flow_write i p w = (case updateFlow (w_now w) i p (w_identity w) (w_flows w) of
      Inl err \<Rightarrow> (w, Inl (Identity_failure err)) | Inr (t, f) \<Rightarrow> (w\<lparr>w_flows := t\<rparr>, Inr f))"

definition owned_flow :: "string \<Rightarrow> user_id \<Rightarrow> ('g, onboarding_flow) action" where
  "owned_flow i u = bind_action (reading w_flows) (\<lambda>t. case getFlow i t of
      Some f \<Rightarrow> if fw_user_id f = u then pass f else throw (Onboarding_error ''Onboarding flow not found'' ''FLOW_NOT_FOUND'' 404)
    | None \<Rightarrow> throw (Onboarding_error ''Onboarding flow not found'' ''FLOW_NOT_FOUND'' 404))"

text \<open>\<^verbatim>\<open>{ state, last_error_code: null, last_error_message: null }\<close>, and an error.\<close>

definition clean_state :: "onboarding_state \<Rightarrow> flow_patch" where
  "clean_state s = no_patch\<lparr>fp_state := Some s, fp_last_error_code := Some None, fp_last_error_message := Some None\<rparr>"

definition failed_state :: "onboarding_state \<Rightarrow> string \<Rightarrow> string option \<Rightarrow> flow_patch" where
  "failed_state s code msg = no_patch\<lparr>fp_state := Some s, fp_last_error_code := Some (Some code), fp_last_error_message := Some msg\<rparr>"

definition shown_error :: "'g bootstrap_env \<Rightarrow> (server_error \<Rightarrow> string) \<Rightarrow> server_error \<Rightarrow> string" where
  "shown_error e str x = or_text (Some (error_message e x)) (str x)"

fun state_text :: "onboarding_state \<Rightarrow> string" where
  "state_text OS_awaiting_repository_choice = ''AWAITING_REPOSITORY_CHOICE''"
| "state_text OS_awaiting_github_access = ''AWAITING_GITHUB_ACCESS''"
| "state_text OS_provisioning = ''PROVISIONING''"
| "state_text OS_awaiting_repository_restriction = ''AWAITING_REPOSITORY_RESTRICTION''"
| "state_text OS_ready_to_resume = ''READY_TO_RESUME''"
| "state_text OS_recovery_required = ''RECOVERY_REQUIRED''"
| "state_text OS_completed = ''COMPLETED''"

definition require_state :: "onboarding_state \<Rightarrow> onboarding_flow \<Rightarrow> ('g, unit) action" where
  "require_state s f = require (fw_state f = s)
     (Onboarding_error (''Flow state is '' @ state_text (fw_state f) @ ''; expected '' @ state_text s) ''INVALID_STATE'' 400)"

text \<open>A member of a flow that is set, which the empty text is not.\<close>

definition flow_member :: "string option \<Rightarrow> server_error \<Rightarrow> ('g, string) action" where
  "flow_member x err = found (if given_text_of x then x else None) err"

definition getOrCreateActiveFlow :: "string \<Rightarrow> user_id \<Rightarrow> string \<Rightarrow> ('g, onboarding_flow) action" where
  "getOrCreateActiveFlow uuid u subject w =
     (case getOrCreateActiveFlowInTx (w_now w) uuid u subject DEFAULT_ONBOARDING_TTL_MS None (w_identity w) (w_flows w) of
        Inl err \<Rightarrow> (w, Inl (Identity_failure err)) | Inr (t, f) \<Rightarrow> (w\<lparr>w_flows := t\<rparr>, Inr f))"

definition submitRepositoryChoice :: "string \<Rightarrow> user_id \<Rightarrow> string \<Rightarrow> ('g, onboarding_flow) action" where
  "submitRepositoryChoice i u repositoryName =
     bind_action (owned_flow i u) (\<lambda>_.
     let name = js_trim repositoryName in
     bind_action (require (repository_name_ok name) (Onboarding_error
       ''Invalid repository name: alphanumeric, dash, dot, and underscore up to 100 characters'' ''INVALID_REPOSITORY_NAME'' 400)) (\<lambda>_.
     flow_write i ((clean_state OS_awaiting_github_access)\<lparr>fp_desired_repository_name := Some (Some name)\<rparr>)))"

section \<open>The installation of the user\<close>

datatype installation_state = Need_install | Installation_ready installation_row

definition confirms_installation :: "'g bootstrap_env \<Rightarrow> installation_row \<Rightarrow> jobject \<Rightarrow> bool" where
  "confirms_installation e c live \<longleftrightarrow>
     (let account = jfield live ''account'' in
      js_string e (jfield live ''id'') = gh_installation_id c \<and> js_string e (jfield live ''app_id'') = gh_app_id c
      \<and> js_string e (js_opt_member ''id'' account) = gh_account_id c \<and> js_opt_member ''type'' account = Some (JStr (gh_account_type c))
      \<and> jfield live ''suspended_at'' \<in> {None, Some JNull} \<and> gh_suspended_at_ms c = None)"

primrec live_candidates :: "'g bootstrap_env \<Rightarrow> installation_row list \<Rightarrow> ('g, installation_row list) action" where
  "live_candidates e [] = pass []"
| "live_candidates e (c # cs) =
     bind_action (outcome_of (getInstallation (be_github e) (gh_installation_id c))) (\<lambda>r.
     bind_action (live_candidates e cs) (\<lambda>ls.
     pass (if (case r of Inr live \<Rightarrow> confirms_installation e c live | Inl _ \<Rightarrow> False) then c # ls else ls)))"

definition resolveInstallationState :: "'g bootstrap_env \<Rightarrow> string \<Rightarrow> user_id \<Rightarrow> ('g, installation_state) action" where
  "resolveInstallationState e i u =
     bind_action (owned_flow i u) (\<lambda>_.
     bind_action (listUserInstallations u) (\<lambda>cs.
     bind_action (live_candidates e (map fst cs)) (\<lambda>ls. case ls of
         [] \<Rightarrow> pass Need_install
       | [c] \<Rightarrow> bind_action (flow_write i (no_patch\<lparr>fp_installation_row_id := Some (Some (gh_id c)), fp_last_error_code := Some None,
             fp_last_error_message := Some None\<rparr>)) (\<lambda>_. pass (Installation_ready c))
       | _ \<Rightarrow> throw (Onboarding_error ''Multiple live GitHub App installations found; installation selection required''
             ''INSTALLATION_SELECTION_REQUIRED'' 400))))"

section \<open>Creating the workspace\<close>

datatype provision_outcome = Provisioned ws_id | Provision_failed string

definition recoverPartialCreation ::
  "'g bootstrap_env \<Rightarrow> string \<times> string \<times> string \<Rightarrow> string \<Rightarrow> string \<Rightarrow> user_id \<Rightarrow> string \<Rightarrow> string \<Rightarrow> ('g, provision_outcome) action" where
  "recoverPartialCreation e ids i sid u subject grantId =
     bind_action (owned_flow i u) (\<lambda>f.
     bind_action (flow_member (fw_repository_id f) (Onboarding_error ''No partial repository to recover'' ''NO_PARTIAL_REPOSITORY'' 400)) (\<lambda>repo.
     bind_action (importRepositoryAndBind e ids grantId sid u subject repo) (\<lambda>(rows, _).
     bind_action (flow_write i ((clean_state OS_awaiting_repository_restriction)\<lparr>fp_workspace_id := Some (Some (wk_id (nw_workspace rows))),
       fp_installation_row_id := Some (Some (rb_installation_row_id (nw_repository rows)))\<rparr>)) (\<lambda>_.
     pass (Provisioned (wk_id (nw_workspace rows)))))))"

definition created_patch :: "workspace_rows \<Rightarrow> flow_patch" where
  "created_patch rows = (clean_state OS_awaiting_repository_restriction)\<lparr>fp_workspace_id := Some (Some (wk_id (nw_workspace rows))),
     fp_repository_id := Some (Some (rb_repository_id (nw_repository rows))),
     fp_installation_row_id := Some (Some (rb_installation_row_id (nw_repository rows)))\<rparr>"

definition partial_patch :: "string \<Rightarrow> safe_repository option \<Rightarrow> flow_patch" where
  "partial_patch m r = (failed_state OS_recovery_required ''PARTIAL_REPOSITORY_CREATION'' (Some m))\<lparr>fp_repository_id := Some (map_option sr_id r)\<rparr>"

text \<open>\<^verbatim>\<open>/already exists/i\<close> and \<^verbatim>\<open>/conflict/i\<close>.\<close>

definition name_conflict :: "server_error \<Rightarrow> string \<Rightarrow> bool" where
  "name_conflict x msg \<longleftrightarrow> error_status x = Some 422 \<or> contains ''already exists'' (map ascii_lower msg) \<or> contains ''conflict'' (map ascii_lower msg)"

definition creation_failed ::
  "'g bootstrap_env \<Rightarrow> (server_error \<Rightarrow> string) \<Rightarrow> string \<Rightarrow> onboarding_flow \<Rightarrow> server_error \<Rightarrow> ('g, provision_outcome) action" where
  "creation_failed e str i f x = (case x of
      Partial_creation m r \<Rightarrow> bind_action (flow_write i (partial_patch m r)) (\<lambda>_. pass (Provision_failed ''PARTIAL_REPOSITORY_CREATION''))
    | _ \<Rightarrow> (let msg = shown_error e str x in
        if name_conflict x msg
        then bind_action (flow_write i (failed_state OS_awaiting_repository_choice ''REPOSITORY_NAME_CONFLICT'' (Some (''Repository name ''
            @ quote_text (case fw_desired_repository_name f of None \<Rightarrow> ''null'' | Some n \<Rightarrow> n)
            @ '' already exists on GitHub. Please choose another name.'')))) (\<lambda>_. pass (Provision_failed ''REPOSITORY_NAME_CONFLICT''))
        else bind_action (flow_write i (failed_state OS_recovery_required ''PROVISIONING_FAILED'' (Some msg))) (\<lambda>_. throw x)))"

definition provisionWorkspace ::
  "'g bootstrap_env \<Rightarrow> (server_error \<Rightarrow> string) \<Rightarrow> string \<times> string \<times> string \<Rightarrow> string \<Rightarrow> string \<Rightarrow> user_id \<Rightarrow> string \<Rightarrow> string \<Rightarrow>
   ('g, provision_outcome) action" where
  "provisionWorkspace e str ids i sid u subject grantId =
     bind_action (owned_flow i u) (\<lambda>f.
     bind_action (require (\<not> given_text_of (fw_workspace_id f))
       (Onboarding_error ''Workspace already created for this onboarding flow'' ''WORKSPACE_ALREADY_EXISTS'' 409)) (\<lambda>_.
     if given_text_of (fw_repository_id f) then recoverPartialCreation e ids i sid u subject grantId
     else bind_action (flow_write i (no_patch\<lparr>fp_state := Some OS_provisioning\<rparr>)) (\<lambda>_.
       catching
         (bind_action (createRepositoryAndBind e ids grantId sid u subject (or_text (fw_desired_repository_name f) ''personal-vault'') None) (\<lambda>(rows, _).
          bind_action (flow_write i (created_patch rows)) (\<lambda>_. pass (Provisioned (wk_id (nw_workspace rows))))))
         (creation_failed e str i f))))"

section \<open>The scope of the installation\<close>

datatype scope_failure = Still_all | Scope_mismatch | Verification_failed

fun failure_text :: "scope_failure \<Rightarrow> string" where
  "failure_text Still_all = ''STILL_ALL''"
| "failure_text Scope_mismatch = ''SCOPE_MISMATCH''"
| "failure_text Verification_failed = ''VERIFICATION_FAILED''"

datatype scope_check = Scope_ok repository_row json | Scope_failed scope_failure string

text \<open>The comparison of the listed repositories with the bound one. \<^verbatim>\<open>Number(x)\<close> of a text that is no number equals no id.\<close>

primrec listed_ids :: "json list \<Rightarrow> server_error + (json option) list" where
  "listed_ids [] = Inr []"
| "listed_ids (r # rs) = ebind (js_member ''id'' r) (\<lambda>x. ebind (listed_ids rs) (\<lambda>xs. Inr (x # xs)))"

definition is_number :: "rat option \<Rightarrow> json option \<Rightarrow> bool" where
  "is_number n x \<longleftrightarrow> (case (n, x) of (Some r, Some (JNum q)) \<Rightarrow> r = q | _ \<Rightarrow> False)"

definition compare_scope :: "repository_row \<Rightarrow> json list \<Rightarrow> server_error + scope_check" where
  "compare_scope b repos =
     (let target = js_number (rb_repository_id b) in ebind (listed_ids repos) (\<lambda>accessible. Inr (
       if length accessible = 1 \<and> is_number target (hd accessible) then Scope_ok b (hd repos)
       else if \<not> list_ex (is_number target) accessible then Scope_failed Scope_mismatch
         ''The CEO repository was not found in the selected repositories list. Please ensure your CEO repository is selected.''
       else Scope_failed Scope_mismatch (''Too many repositories selected ('' @ show_int (int (length accessible))
         @ ''). Please restrict access so ONLY your CEO repository is selected.''))))"

text \<open>The repositories of the installation, or the status of a reply that is none.\<close>

definition installation_repositories :: "'g bootstrap_env \<Rightarrow> string \<Rightarrow> ('g, int + json list) action" where
  "installation_repositories e tok =
     bind_action (github_fetch (be_github e) (Installation_token tok) List_installation_repositories) (\<lambda>(st, b).
     if \<not> res_ok st then pass (Inl st)
     else bind_action (lift_result (res_json b)) (\<lambda>j.
       bind_action (lift_result (array_member ''repositories'' j)) (\<lambda>xs. pass (Inr xs))))"

definition listed_scope :: "'g bootstrap_env \<Rightarrow> (server_error \<Rightarrow> string) \<Rightarrow> repository_row \<Rightarrow> string \<Rightarrow> ('g, scope_check) action" where
  "listed_scope e str b tok =
     bind_action (outcome_of (installation_repositories e tok)) (\<lambda>r. case r of
         Inl x \<Rightarrow> pass (Scope_failed Verification_failed (''Failed to enumerate repositories: '' @ shown_error e str x))
       | Inr (Inl st) \<Rightarrow> pass (Scope_failed Verification_failed (''Failed to list installation repositories: HTTP '' @ show_int st))
       | Inr (Inr repos) \<Rightarrow> lift_result (compare_scope b repos))"

definition forget_tokens :: "string \<Rightarrow> ('g, unit) action" where
  "forget_tokens i w = (invalidateInstallationTokens i w, Inr ())"

definition live_scope ::
  "'g bootstrap_env \<Rightarrow> (server_error \<Rightarrow> string) \<Rightarrow> repository_row \<Rightarrow> installation_row \<Rightarrow> jobject \<Rightarrow> ('g, scope_check) action" where
  "live_scope e str b g live =
     (if js_truthy (jfield live ''suspended_at'') then pass (Scope_failed Verification_failed ''GitHub App installation is suspended'')
      else if jfield live ''repository_selection'' \<noteq> Some (JStr ''selected'')
      then pass (Scope_failed Still_all (''GitHub App access is still set to '' @ quote_text ''All repositories'' @ ''. Please restrict it to ''
        @ quote_text ''Only select repositories'' @ '' and choose your CEO repository.''))
      else bind_action (forget_tokens (gh_installation_id g)) (\<lambda>_.
        bind_action (outcome_of (mintInstallationVerificationToken (be_github e) (gh_installation_id g))) (\<lambda>r. case r of
            Inl x \<Rightarrow> pass (Scope_failed Verification_failed (''Failed to obtain verification token: '' @ shown_error e str x))
          | Inr tok \<Rightarrow> listed_scope e str b tok)))"

definition verifyLiveInstallationScope :: "'g bootstrap_env \<Rightarrow> (server_error \<Rightarrow> string) \<Rightarrow> ws_id \<Rightarrow> ('g, scope_check) action" where
  "verifyLiveInstallationScope e str ws = bind_action (reading w_identity) (\<lambda>it.
     case findRepositoryBindingByWorkspaceId it ws of
       None \<Rightarrow> pass (Scope_failed Verification_failed ''Repository binding not found for workspace'')
     | Some b \<Rightarrow> (case findGitHubInstallationByRowId it (rb_installation_row_id b) of
         None \<Rightarrow> pass (Scope_failed Verification_failed ''Installation record not found for binding'')
       | Some g \<Rightarrow> bind_action (outcome_of (getInstallation (be_github e) (gh_installation_id g))) (\<lambda>r. case r of
           Inl x \<Rightarrow> pass (Scope_failed Verification_failed (''Failed to fetch live installation: '' @ shown_error e str x))
         | Inr live \<Rightarrow> live_scope e str b g live)))"

section \<open>Verification and bootstrap\<close>

definition clear_scope :: "ws_id \<Rightarrow> ('g, unit) action" where
  "clear_scope ws w = (w\<lparr>w_identity := clearRepositoryBindingScopeVerified (w_now w) ws (w_identity w)\<rparr>, Inr ())"

definition mark_scope :: "ws_id \<Rightarrow> ('g, unit) action" where
  "mark_scope ws = identity_action (\<lambda>now. markRepositoryBindingScopeVerified now ws)"

text \<open>SQLite refuses an absent value as a parameter.\<close>

definition unbound_parameter :: "string \<Rightarrow> identity_data \<Rightarrow> nat \<Rightarrow> server_error" where
  "unbound_parameter i it k = (if findRepositoryBindingByGitHubRepoId it i = None then Identity_failure IdentityError
     else Other_error (''Provided value cannot be bound to SQLite parameter '' @ show_int (int k) @ ''.''))"

definition reconcile_binding :: "string \<Rightarrow> json \<Rightarrow> ('g, unit) action" where
  "reconcile_binding i live w =
     (case (as_str (js_opt_member ''name'' (Some live)), as_str (js_opt_member ''full_name'' (Some live))) of
        (None, _) \<Rightarrow> (w, Inl (unbound_parameter i (w_identity w) 2))
      | (_, None) \<Rightarrow> (w, Inl (unbound_parameter i (w_identity w) 3))
      | (Some name, Some full) \<Rightarrow>
         (case reconcileRepositoryMetadataById (w_now w) i (or_text (as_str (js_opt_member ''login'' (js_opt_member ''owner'' (Some live)))) [])
             name full (w_identity w, w_control w) of
            Inl err \<Rightarrow> (w, Inl (Identity_failure err))
          | Inr ((it, c), _) \<Rightarrow> (w\<lparr>w_identity := it, w_control := c\<rparr>, Inr ())))"

datatype access_outcome = Access_status provisioning_status | Access_failed scope_failure string

definition record_bootstrap :: "string \<Rightarrow> provisioning_result \<Rightarrow> ('g, access_outcome) action" where
  "record_bootstrap i v =
     (if pv_status v = PS_ready then bind_action (flow_write i (clean_state OS_ready_to_resume)) (\<lambda>_. pass (Access_status PS_ready))
      else bind_action (flow_write i (failed_state OS_recovery_required
          (or_text (wb_error_code (pv_bootstrap v)) ''BOOTSTRAP_RETRYABLE'') (wb_error_message (pv_bootstrap v))))
        (\<lambda>_. pass (Access_status (pv_status v))))"

definition bootstrap_flow ::
  "'g bootstrap_env \<Rightarrow> (server_error \<Rightarrow> string) \<Rightarrow> string \<Rightarrow> string \<Rightarrow> ws_id \<Rightarrow> bootstrap_locale \<Rightarrow> ('g, access_outcome) action" where
  "bootstrap_flow e str uuid i ws l =
     catching (bind_action (bootstrapWorkspace e uuid ws l) (record_bootstrap i))
       (\<lambda>x. bind_action (flow_write i (failed_state OS_recovery_required ''BOOTSTRAP_RETRYABLE'' (Some (shown_error e str x))))
         (\<lambda>_. pass (Access_failed Verification_failed (''Bootstrap failed: '' @ shown_error e str x))))"

definition after_verification ::
  "'g bootstrap_env \<Rightarrow> (server_error \<Rightarrow> string) \<Rightarrow> string \<Rightarrow> string \<Rightarrow> ws_id \<Rightarrow> bootstrap_locale \<Rightarrow> scope_check \<Rightarrow> ('g, access_outcome) action" where
  "after_verification e str uuid i ws l c = (case c of
      Scope_failed reason msg \<Rightarrow>
        bind_action (clear_scope ws) (\<lambda>_.
        bind_action (flow_write i (no_patch\<lparr>fp_last_error_code := Some (Some (failure_text reason)), fp_last_error_message := Some (Some msg)\<rparr>)) (\<lambda>_.
        pass (Access_failed reason msg)))
    | Scope_ok b live \<Rightarrow>
        bind_action (mark_scope ws) (\<lambda>_.
        bind_action (reconcile_binding (rb_repository_id b) live) (\<lambda>_.
        bind_action (flow_write i (no_patch\<lparr>fp_state := Some OS_provisioning\<rparr>)) (\<lambda>_.
        bootstrap_flow e str uuid i ws l))))"

definition verifyRepositoryAccessAndBootstrap ::
  "'g bootstrap_env \<Rightarrow> (server_error \<Rightarrow> string) \<Rightarrow> string \<Rightarrow> string \<Rightarrow> user_id \<Rightarrow> bootstrap_locale \<Rightarrow> ('g, access_outcome) action" where
  "verifyRepositoryAccessAndBootstrap e str uuid i u l =
     bind_action (owned_flow i u) (\<lambda>f.
     bind_action (require_state OS_awaiting_repository_restriction f) (\<lambda>_.
     bind_action (flow_member (fw_workspace_id f)
       (Onboarding_error ''Missing required workspace binding for verification'' ''INCOMPLETE_FLOW'' 400)) (\<lambda>ws.
     bind_action (verifyLiveInstallationScope e str ws) (after_verification e str uuid i ws l))))"

definition retryBootstrap :: "'g bootstrap_env \<Rightarrow> string \<Rightarrow> string \<Rightarrow> user_id \<Rightarrow> bootstrap_locale \<Rightarrow> ('g, provisioning_status) action" where
  "retryBootstrap e uuid i u l =
     bind_action (owned_flow i u) (\<lambda>f.
     bind_action (require_state OS_recovery_required f) (\<lambda>_.
     bind_action (flow_member (fw_workspace_id f) (Onboarding_error ''No workspace to bootstrap'' ''NO_WORKSPACE'' 400)) (\<lambda>ws.
     bind_action (reading w_identity) (\<lambda>it.
     bind_action (require (case findRepositoryBindingByWorkspaceId it ws of None \<Rightarrow> True | Some b \<Rightarrow> rb_scope_verified_at_ms b \<noteq> None)
       (Onboarding_error ''Repository access restriction has not been verified'' ''RESTRICTION_REQUIRED'' 400)) (\<lambda>_.
     bind_action (bootstrapWorkspace e uuid ws l) (\<lambda>v.
     if pv_status v = PS_ready then bind_action (flow_write i (clean_state OS_ready_to_resume)) (\<lambda>_. pass (pv_status v))
     else pass (pv_status v)))))))"

definition deriveProvisioningStatus :: "string \<Rightarrow> user_id \<Rightarrow> ('g, onboarding_flow \<times> provisioning_status option) action" where
  "deriveProvisioningStatus i u =
     bind_action (owned_flow i u) (\<lambda>f.
     case (if given_text_of (fw_workspace_id f) then fw_workspace_id f else None) of
       None \<Rightarrow> pass (f, None)
     | Some ws \<Rightarrow>
         bind_action (getProvisioningStatus ws) (\<lambda>v.
         if pv_status v = PS_ready \<and> fw_state f \<noteq> OS_ready_to_resume \<and> fw_state f \<noteq> OS_completed
         then bind_action (flow_write i (clean_state OS_ready_to_resume)) (\<lambda>f'. pass (f', Some (pv_status v)))
         else pass (f, Some (pv_status v))))"

end
