(* ===== verification/Bootstrap_Trace.thy ===== *)
theory Bootstrap_Trace
  imports Bootstrap_Flow
begin

text \<open>
  The requests of a bootstrap attempt as a trace: every request that writes is founded on the replies before it. A small
  logic of triples over the trace carries what has been seen from one request to the next.
\<close>

section \<open>Founded requests\<close>

type_synonym request_log = "(github_request \<times> github_reply) list"

definition saw :: "github_request \<Rightarrow> json \<Rightarrow> request_log \<Rightarrow> bool" where
  "saw q j L \<longleftrightarrow> (\<exists>st. res_ok st \<and> (q, Reply st (Inr j)) \<in> set L)"

definition was_done :: "github_request \<Rightarrow> request_log \<Rightarrow> bool" where
  "was_done q L \<longleftrightarrow> (\<exists>st b. res_ok st \<and> (q, Reply st b) \<in> set L)"

definition no_ref :: "string \<Rightarrow> string \<Rightarrow> string \<Rightarrow> request_log \<Rightarrow> bool" where
  "no_ref o_r n br L \<longleftrightarrow> (\<exists>st b. (st = 404 \<or> st = 409) \<and> (Get_ref o_r n br, Reply st b) \<in> set L)"

definition no_branches :: "string \<Rightarrow> string \<Rightarrow> request_log \<Rightarrow> bool" where
  "no_branches o_r n L \<longleftrightarrow> (\<exists>st b. (st = 409 \<or> res_ok st \<and> b = Inr (JArr [])) \<and> (List_branches o_r n, Reply st b) \<in> set L)"

definition reported_empty :: "string \<Rightarrow> string \<Rightarrow> request_log \<Rightarrow> bool" where
  "reported_empty o_r n L \<longleftrightarrow> (\<exists>p m repo b meta. saw (Get_repository p m) repo L \<and> validateLiveRepositoryMetadata repo b = Inr meta
     \<and> rm_owner_login meta = o_r \<and> rm_name meta = n \<and> rm_size meta = Some 0)"

definition initialised :: "string \<Rightarrow> string \<Rightarrow> request_log \<Rightarrow> bool" where
  "initialised o_r n L \<longleftrightarrow> (\<exists>p c br x y. was_done (Put_contents o_r n p c br x y) L)"

text \<open>
  A tree only adds files that the tree of the head lacks, and a file that only new workspaces get only where this service
  initialised the repository. A commit goes on top of the head that was read, the branch moves to that commit without
  force, and a repository is initialised only when it has no branch and reports no content.
\<close>

fun founded :: "github_request \<Rightarrow> request_log \<Rightarrow> bool" where
  "founded (Post_tree o_r n base files) L \<longleftrightarrow> (\<exists>head commit listing is. saw (Get_commit o_r n head) commit L
     \<and> nested_text ''tree'' ''sha'' commit = Inr (Some base) \<and> saw (Get_tree o_r n base) listing L \<and> tree_items listing = Inr is
     \<and> (\<forall>f \<in> set files. item_at is (fst f) = None)
     \<and> (''.ceoignore'' \<in> fst ` set files \<longrightarrow> initialised o_r n L \<or> partial_fresh commit is = Inr True))"
| "founded (Post_commit o_r n tree head a c) L \<longleftrightarrow> (\<exists>commit base files j s. saw (Get_commit o_r n head) commit L
     \<and> nested_text ''tree'' ''sha'' commit = Inr (Some base) \<and> saw (Post_tree o_r n base files) j L \<and> js_member ''sha'' j = Inr s \<and> tree = as_str s)"
| "founded (Patch_ref o_r n br sha force) L \<longleftrightarrow> \<not> force \<and> (\<exists>tree head a c j s. saw (Post_commit o_r n tree head a c) j L
     \<and> js_member ''sha'' j = Inr s \<and> sha = as_str s)"
| "founded (Put_contents o_r n p c br a m) L \<longleftrightarrow> no_ref o_r n br L \<and> no_branches o_r n L \<and> reported_empty o_r n L"
| "founded (Get_installation i) L \<longleftrightarrow> True"
| "founded (Post_installation_token i ids ps) L \<longleftrightarrow> True"
| "founded (Get_repository o_r n) L \<longleftrightarrow> True"
| "founded (Get_ref o_r n br) L \<longleftrightarrow> True"
| "founded (List_branches o_r n) L \<longleftrightarrow> True"
| "founded (Get_commit o_r n s) L \<longleftrightarrow> True"
| "founded (Get_tree o_r n s) L \<longleftrightarrow> True"
| "founded (Exchange_code c v) L \<longleftrightarrow> False"
| "founded Get_user L \<longleftrightarrow> True"
| "founded (List_user_installations p) L \<longleftrightarrow> True"
| "founded (List_user_repositories i p) L \<longleftrightarrow> True"
| "founded List_installation_repositories L \<longleftrightarrow> True"
| "founded (Create_user_repository n d) L \<longleftrightarrow> False"
| "founded (Create_organization_repository o_r n d) L \<longleftrightarrow> False"

fun founded_log :: "request_log \<Rightarrow> bool" where
  "founded_log [] \<longleftrightarrow> True"
| "founded_log ((q, r) # L) \<longleftrightarrow> founded q L \<and> founded_log L"

section \<open>Triples\<close>

definition lasting :: "(request_log \<Rightarrow> bool) \<Rightarrow> bool" where
  "lasting P \<longleftrightarrow> (\<forall>L new. P L \<longrightarrow> P (new @ L))"

definition triple :: "(request_log \<Rightarrow> bool) \<Rightarrow> ('g, 'a) action \<Rightarrow> ('a \<Rightarrow> request_log \<Rightarrow> bool) \<Rightarrow> bool" where
  "triple P m Q \<longleftrightarrow> (\<forall>w w' r. m w = (w', r) \<longrightarrow> founded_log (w_log w) \<longrightarrow> P (w_log w) \<longrightarrow>
     founded_log (w_log w') \<and> (\<exists>new. w_log w' = new @ w_log w) \<and> (case r of Inl _ \<Rightarrow> True | Inr x \<Rightarrow> Q x (w_log w')))"

lemma lasting_saw [intro]: "lasting (saw q j)" and lasting_done [intro]: "lasting (was_done q)"
  and lasting_const [intro]: "lasting (\<lambda>L. b)"
  by (auto simp: lasting_def saw_def was_done_def)

lemma lasting_logged [intro]: "lasting (\<lambda>L. e \<in> set L)"
  by (simp add: lasting_def)

lemma lasting_conj [intro]: "lasting P \<Longrightarrow> lasting Q \<Longrightarrow> lasting (\<lambda>L. P L \<and> Q L)"
  by (auto simp: lasting_def)

lemma lasting_disj [intro]: "lasting P \<Longrightarrow> lasting Q \<Longrightarrow> lasting (\<lambda>L. P L \<or> Q L)"
  by (auto simp: lasting_def)

lemma lasting_ex [intro]: "(\<And>x. lasting (P x)) \<Longrightarrow> lasting (\<lambda>L. \<exists>x. P x L)"
  by (auto simp: lasting_def)

lemma lasting_facts [intro]: "lasting (no_ref o_r n br)" "lasting (no_branches o_r n)" "lasting (reported_empty o_r n)" "lasting (initialised o_r n)"
  unfolding no_ref_def [abs_def] no_branches_def [abs_def] reported_empty_def [abs_def] initialised_def [abs_def]
  by (intro lasting_ex lasting_conj lasting_saw lasting_done lasting_const lasting_logged)+

lemma triple_bind:
  assumes "triple P m Q" "\<And>x. triple (\<lambda>L. P L \<and> Q x L) (f x) R" "lasting P"
  shows "triple P (bind_action m f) R"
  unfolding triple_def
proof (intro allI impI)
  fix w w' r assume h: "bind_action m f w = (w', r)" "founded_log (w_log w)" "P (w_log w)"
  obtain w1 r1 where m: "m w = (w1, r1)" by (cases "m w")
  have 1: "founded_log (w_log w1)" "\<exists>new. w_log w1 = new @ w_log w" "case r1 of Inl _ \<Rightarrow> True | Inr x \<Rightarrow> Q x (w_log w1)"
    using assms(1) m h(2,3) unfolding triple_def by blast+
  show "founded_log (w_log w') \<and> (\<exists>new. w_log w' = new @ w_log w) \<and> (case r of Inl _ \<Rightarrow> True | Inr x \<Rightarrow> R x (w_log w'))"
  proof (cases r1)
    case (Inl e)
    then show ?thesis using h(1) m 1 by (auto simp: bind_action_def)
  next
    case (Inr x)
    then have f: "f x w1 = (w', r)" using h(1) m by (simp add: bind_action_def)
    have "P (w_log w1)" using assms(3) h(3) 1(2) by (auto simp: lasting_def)
    then have "founded_log (w_log w') \<and> (\<exists>new. w_log w' = new @ w_log w1) \<and> (case r of Inl _ \<Rightarrow> True | Inr x \<Rightarrow> R x (w_log w'))"
      using assms(2) [of x] f 1(1,3) Inr unfolding triple_def by auto
    then show ?thesis using 1(2) by auto
  qed
qed

lemma triple_pre: "triple P m Q \<Longrightarrow> (\<And>L. P' L \<Longrightarrow> P L) \<Longrightarrow> triple P' m Q"
  unfolding triple_def by meson

lemma triple_post: "triple P m Q \<Longrightarrow> (\<And>x L. Q x L \<Longrightarrow> Q' x L) \<Longrightarrow> triple P m Q'"
  unfolding triple_def by (fastforce split: sum.splits)

text \<open>Actions that send nothing.\<close>

definition silent :: "('g, 'a) action \<Rightarrow> bool" where
  "silent m \<longleftrightarrow> (\<forall>w. w_log (fst (m w)) = w_log w)"

lemma triple_silent:
  assumes "silent m" "\<And>w x. snd (m w) = Inr x \<Longrightarrow> Q x (w_log w)"
  shows "triple P m Q"
  unfolding triple_def
proof (intro allI impI)
  fix w w' r assume h: "m w = (w', r)" "founded_log (w_log w)"
  have "w_log w' = w_log w" using assms(1) h(1) unfolding silent_def by (metis fst_conv)
  then show "founded_log (w_log w') \<and> (\<exists>new. w_log w' = new @ w_log w) \<and> (case r of Inl _ \<Rightarrow> True | Inr x \<Rightarrow> Q x (w_log w'))"
    using assms(2) [of w] h by (simp split: sum.split)
qed

lemma triple_lift [simp]: "triple P (lift_result r) (\<lambda>x L. r = Inr x)"
  by (simp add: triple_def lift_result_def split: sum.split)

lemma triple_require [simp]: "triple P (require ok err) (\<lambda>x L. ok)"
  by (simp add: triple_def require_def pass_def throw_def)

lemma triple_throw [simp]: "triple P (throw err) Q"
  by (simp add: triple_def throw_def)

lemma triple_pass [simp]: "triple P (pass x) (\<lambda>y L. y = x)"
  by (simp add: triple_def pass_def)

lemma triple_found [simp]: "triple P (found x err) (\<lambda>y L. x = Some y)"
  by (simp add: found_def split: option.split) (simp add: triple_def throw_def pass_def)

lemma triple_reading [simp]: "triple P (reading f) (\<lambda>x L. True)"
  by (simp add: triple_def reading_def)

lemma triple_catching:
  assumes "triple P m Q" "\<And>x. triple P (h x) Q" "lasting P"
  shows "triple P (catching m h) Q"
  unfolding triple_def
proof (intro allI impI)
  fix w w' r assume a: "catching m h w = (w', r)" "founded_log (w_log w)" "P (w_log w)"
  obtain w1 r1 where m: "m w = (w1, r1)" by (cases "m w")
  have 1: "founded_log (w_log w1)" "\<exists>new. w_log w1 = new @ w_log w" "case r1 of Inl _ \<Rightarrow> True | Inr x \<Rightarrow> Q x (w_log w1)"
    using assms(1) m a(2,3) unfolding triple_def by blast+
  show "founded_log (w_log w') \<and> (\<exists>new. w_log w' = new @ w_log w) \<and> (case r of Inl _ \<Rightarrow> True | Inr x \<Rightarrow> Q x (w_log w'))"
  proof (cases r1)
    case (Inl x)
    then have f: "h x w1 = (w', r)" using a(1) m by (simp add: catching_def)
    have "P (w_log w1)" using assms(3) a(3) 1(2) by (auto simp: lasting_def)
    then have "founded_log (w_log w') \<and> (\<exists>new. w_log w' = new @ w_log w1) \<and> (case r of Inl _ \<Rightarrow> True | Inr x \<Rightarrow> Q x (w_log w'))"
      using assms(2) [of x] f 1(1) unfolding triple_def by blast
    then show ?thesis using 1(2) by auto
  next
    case (Inr x)
    then have "w' = w1" "r = Inr x" using a(1) m by (simp_all add: catching_def)
    then show ?thesis using 1 Inr by simp
  qed
qed

lemma triple_fetch:
  assumes "\<And>L. P L \<Longrightarrow> founded q L"
  shows "triple P (github_fetch gh au q) (\<lambda>p L. (q, Reply (fst p) (snd p)) \<in> set L)"
  using assms by (auto simp: triple_def github_fetch_def split: prod.splits github_reply.splits)

section \<open>The steps of an attempt\<close>

lemma triple_start: "triple P m Q \<Longrightarrow> (\<And>L. P' L \<Longrightarrow> P L) \<Longrightarrow> (\<And>x L. Q x L \<Longrightarrow> Q' x L) \<Longrightarrow> triple P' m Q'"
  by (rule triple_pre [OF triple_post])

lemma triple_any: "triple P m Q \<Longrightarrow> triple P m (\<lambda>x L. True)"
  by (erule triple_post) simp

definition reads :: "github_request \<Rightarrow> bool" where
  "reads q \<longleftrightarrow> (\<forall>L. founded q L)"

lemma reads_simps [simp]:
  "reads (Get_installation i)" "reads (Post_installation_token i ids ps)" "reads (Get_repository o_r n)" "reads (Get_ref o_r n br)"
  "reads (List_branches o_r n)" "reads (Get_commit o_r n c)" "reads (Get_tree o_r n t)"
  by (simp_all add: reads_def)

lemma read_body:
  "ebind (res_json b) f = Inr x \<Longrightarrow> \<exists>j. b = Inr j \<and> f j = Inr x"
  by (cases b) (simp_all add: res_json_def)

lemma triple_read:
  assumes "lasting P" "reads q"
  shows "triple P (read_from e tok q ctx) (\<lambda>j L. saw q j L)"
  unfolding read_from_def split_beta
proof (rule triple_bind [OF triple_fetch _ assms(1)])
  show "founded q L" for L using assms(2) by (simp add: reads_def)
  fix p :: "int \<times> (string + json)"
  have P: "lasting (\<lambda>L. P L \<and> (q, Reply (fst p) (snd p)) \<in> set L)" using assms(1) by (intro lasting_conj lasting_logged)
  show "triple (\<lambda>L. P L \<and> (q, Reply (fst p) (snd p)) \<in> set L)
      (bind_action (require (res_ok (fst p)) (classifyGitHubResponseError (fst p) ctx)) (\<lambda>_. lift_result (res_json (snd p)))) (saw q)"
    by (rule triple_bind [OF triple_require _ P]) (auto simp: triple_def lift_result_def saw_def res_json_def split: sum.splits)
qed

lemma triple_write:
  assumes "lasting P" "\<And>L. P L \<Longrightarrow> founded q L"
  shows "triple P (write_to e tok q stale ctx) (\<lambda>b L. \<exists>st. res_ok st \<and> (q, Reply st b) \<in> set L)"
  unfolding write_to_def split_beta
  by (rule triple_bind [OF triple_fetch [OF assms(2)] _ assms(1)])
    (auto simp: triple_def bind_action_def require_def pass_def throw_def split: if_splits)

lemma triple_needed: "lasting P \<Longrightarrow> triple P (needed_text a b err j) (\<lambda>x L. nested_text a b j = Inr (Some x))"
  unfolding needed_text_def
  by (rule triple_bind [OF triple_lift]) (simp_all add: triple_def found_def throw_def pass_def split: option.split)

lemma triple_identity: "lasting P \<Longrightarrow> triple P (resolveCommitIdentity e i) (\<lambda>x L. True)"
  unfolding resolveCommitIdentity_def
  by (intro triple_bind [OF triple_reading] triple_bind [OF triple_found] triple_any [OF triple_pass]) auto

lemma triple_add:
  assumes "P = (\<lambda>L. saw (Get_commit (bj_owner k) (bj_repo k) head) commit L \<and> saw (Get_tree (bj_owner k) (bj_repo k) tree) listing L
      \<and> (''.ceoignore'' \<in> fst ` set missing \<longrightarrow> initialised (bj_owner k) (bj_repo k) L \<or> partial_fresh commit xs = Inr True))"
    and "nested_text ''tree'' ''sha'' commit = Inr (Some tree)" "tree_items listing = Inr xs" "\<forall>f \<in> set missing. item_at xs (fst f) = None"
  shows "triple P (addMissingFiles e k head tree missing) (\<lambda>_ _. True)"
proof -
  have P: "lasting P" unfolding assms(1) imp_conv_disj by (intro lasting_conj lasting_saw lasting_disj lasting_const lasting_facts)
  let ?o = "bj_owner k" and ?n = "bj_repo k"
  have 1: "founded (Post_tree ?o ?n tree missing) L" if "P L" for L using that assms unfolding assms(1) by auto
  have 2: "founded (Post_commit ?o ?n (as_str t) head a c) L" if h: "P L" "res_ok st" "(Post_tree ?o ?n tree missing, Reply st b) \<in> set L"
      "ebind (res_json b) (js_member ''sha'') = Inr t" for L st b t a c
  proof -
    obtain j where "b = Inr j" "js_member ''sha'' j = Inr t" using read_body [OF h(4)] by blast
    then have "saw (Post_tree ?o ?n tree missing) j L" using h(2,3) by (auto simp: saw_def)
    then show ?thesis using \<open>js_member ''sha'' j = Inr t\<close> h(1) assms(2) unfolding assms(1) founded.simps by blast
  qed
  have 3: "founded (Patch_ref ?o ?n br (as_str s) False) L" if h: "res_ok st" "(Post_commit ?o ?n t head a c, Reply st b) \<in> set L"
      "ebind (res_json b) (js_member ''sha'') = Inr s" for L st b t a c s br
  proof -
    obtain j where "b = Inr j" "js_member ''sha'' j = Inr s" using read_body [OF h(3)] by blast
    then have "saw (Post_commit ?o ?n t head a c) j L" using h(1,2) by (auto simp: saw_def)
    then show ?thesis using \<open>js_member ''sha'' j = Inr s\<close> unfolding founded.simps by blast
  qed
  show ?thesis unfolding addMissingFiles_def Let_def
    apply (rule triple_bind [OF triple_write [OF P 1] _ P], assumption)
    apply (rule triple_bind [OF triple_lift])
     apply (rule triple_bind [OF triple_identity])
       apply (intro lasting_conj lasting_ex lasting_const lasting_logged P)
      apply (simp only: split_beta)
      apply (rule triple_bind [OF triple_write])
        apply (intro lasting_conj lasting_ex lasting_const lasting_logged P)
       apply (elim conjE exE, rule 2, assumption+)
      apply (rule triple_bind [OF triple_lift])
       apply (rule triple_bind [OF triple_write])
         apply (intro lasting_conj lasting_ex lasting_const lasting_logged P)
        apply (elim conjE exE, rule 3, assumption+)
       apply (rule triple_any [OF triple_pass])
      apply (intro lasting_conj lasting_ex lasting_const lasting_logged P)+
    done
qed

lemmas lasting_rules = lasting_conj lasting_ex lasting_const lasting_logged lasting_saw lasting_facts lasting_disj

lemma triple_verify: "lasting P \<Longrightarrow> triple P (verifyLiveStateAndMarkReady e k base manifest) (\<lambda>_ _. True)"
  unfolding verifyLiveStateAndMarkReady_def Let_def
  by (intro triple_bind [OF triple_read] triple_bind [OF triple_needed] triple_bind [OF triple_lift] reads_simps lasting_rules; assumption?)
    (auto simp: triple_def split: sum.splits prod.splits)

lemma missing_sub: "missing_files is m = Inr ms \<Longrightarrow> f \<in> set ms \<Longrightarrow> f \<in> set m \<and> item_at is (fst f) = None"
proof (induction m arbitrary: ms)
  case (Cons a m)
  obtain p c where a: "a = (p, c)" by (cases a)
  show ?case
  proof (cases "item_at is p")
    case None
    then obtain ns where "missing_files is m = Inr ns" "ms = (p, c) # ns" using Cons(2) by (auto simp: a ebind_eq_Inr)
    then show ?thesis using Cons(1) Cons(3) None by (auto simp: a)
  next
    case (Some i)
    then have "missing_files is m = Inr ms" using Cons(2) by (simp add: a split: if_splits)
    then show ?thesis using Cons(1,3) by simp
  qed
qed simp

lemma readme_only: "''.ceoignore'' \<notin> fst ` set BOOTSTRAP_MANIFEST_V1"
  by (simp add: BOOTSTRAP_MANIFEST_V1_def)

lemma triple_reconcile:
  assumes "given \<noteq> None \<Longrightarrow> P = initialised (bj_owner k) (bj_repo k)" "lasting P"
  shows "triple P (reconcileFromBranchHead e k initial base given l) (\<lambda>_ _. True)"
proof -
  let ?o = "bj_owner k" and ?n = "bj_repo k"
  have head: "triple P (case initial of Some h \<Rightarrow> pass h
        | None \<Rightarrow> bind_action (read_from e (bj_token k) (Get_ref ?o ?n (bj_branch k)) ''branch ref read during reconciliation'')
            (needed_text ''object'' ''sha'' (retryable_error ''TEMPORARY_GITHUB_ERROR'' ''Branch ref did not return commit SHA'' 500))) (\<lambda>_ _. True)"
  proof (cases initial)
    case None
    show ?thesis unfolding None option.case
      by (rule triple_bind [OF triple_read [OF assms(2)] _ assms(2)]) (auto intro: triple_any [OF triple_needed] lasting_rules assms(2))
  qed (simp add: triple_any [OF triple_pass])
  show ?thesis unfolding reconcileFromBranchHead_def Let_def
  proof (rule triple_bind [OF head _ assms(2)])
    fix h
    have P1: "lasting (\<lambda>L. P L \<and> True)" using assms(2) by simp
    show "triple (\<lambda>L. P L \<and> True)
        (bind_action (read_from e (bj_token k) (Get_commit ?o ?n h) ''head commit read during reconciliation'') (\<lambda>commit.
        bind_action (needed_text ''tree'' ''sha'' (retryable_error ''TEMPORARY_GITHUB_ERROR'' ''Commit did not return tree SHA'' 500) commit) (\<lambda>tree.
        bind_action (read_from e (bj_token k) (Get_tree ?o ?n tree) ''head tree read during reconciliation'') (\<lambda>listing.
        bind_action (lift_result (tree_items listing)) (\<lambda>is.
        bind_action (lift_result (partial_fresh commit is)) (\<lambda>fresh.
        bind_action (lift_result (missing_files is (effective_manifest e l given fresh))) (\<lambda>missing.
        bind_action (if missing = [] then pass () else addMissingFiles e k h tree missing) (\<lambda>_.
        verifyLiveStateAndMarkReady e k base (effective_manifest e l given fresh))))))))) (\<lambda>_ _. True)"
    proof (intro triple_bind [OF triple_read] triple_bind [OF triple_needed] triple_bind [OF triple_lift] reads_simps lasting_rules P1 assms(2))
      fix commit tree listing xs fresh missing
      let ?P = "\<lambda>L. ((((((P L \<and> True) \<and> saw (Get_commit ?o ?n h) commit L) \<and> nested_text ''tree'' ''sha'' commit = Inr (Some tree))
        \<and> saw (Get_tree ?o ?n tree) listing L) \<and> tree_items listing = Inr xs) \<and> partial_fresh commit xs = Inr fresh)
        \<and> missing_files xs (effective_manifest e l given fresh) = Inr missing"
      have L: "lasting ?P" by (intro lasting_rules P1 assms(2))
      have add: "triple ?P (addMissingFiles e k h tree missing) (\<lambda>_ _. True)"
      proof (cases "nested_text ''tree'' ''sha'' commit = Inr (Some tree) \<and> tree_items listing = Inr xs
          \<and> partial_fresh commit xs = Inr fresh \<and> missing_files xs (effective_manifest e l given fresh) = Inr missing")
        case True
        then have m: "set missing \<subseteq> set (effective_manifest e l given fresh)" "\<forall>f \<in> set missing. item_at xs (fst f) = None"
          using missing_sub [of xs "effective_manifest e l given fresh" missing] by blast+
        have ign: "initialised ?o ?n L \<or> partial_fresh commit xs = Inr True" if "''.ceoignore'' \<in> fst ` set missing" "P L" for L
        proof (cases given)
          case None
          then show ?thesis using that(1) m(1) readme_only True by (auto simp: effective_manifest_def split: if_splits)
        next
          case (Some g)
          then show ?thesis using assms(1) that(2) by simp
        qed
        show ?thesis
          by (rule triple_pre [OF triple_add [where listing = listing and xs = xs, OF refl]]) (use True m(2) ign in blast)+
      next
        case False
        then have "\<not> ?P L" for L by blast
        then show ?thesis by (simp only: triple_def simp_thms)
      qed
      show "triple ?P (bind_action (if missing = [] then pass () else addMissingFiles e k h tree missing) (\<lambda>_.
          verifyLiveStateAndMarkReady e k base (effective_manifest e l given fresh))) (\<lambda>_ _. True)"
      proof (rule triple_bind [OF _ triple_verify L])
        show "triple ?P (if missing = [] then pass () else addMissingFiles e k h tree missing) (\<lambda>_ _. True)"
          using add by (cases "missing = []") (simp_all add: triple_any [OF triple_pass])
        show "lasting (\<lambda>L. ?P L \<and> True)" using L by simp
      qed
    qed
  qed
qed

lemma triple_empty:
  assumes "P = (\<lambda>L. no_ref (bj_owner k) (bj_repo k) (bj_branch k) L \<and> no_branches (bj_owner k) (bj_repo k) L
    \<and> reported_empty (bj_owner k) (bj_repo k) L)"
  shows "triple P (bootstrapEmptyRepository e k manifest l) (\<lambda>_ _. True)"
proof -
  have P: "lasting P" unfolding assms by (intro lasting_rules)
  show ?thesis
  proof (cases "first_given (find (\<lambda>f. fst f = ''README.md'') manifest) (find (\<lambda>_. True) manifest)")
    case None
    then show ?thesis by (simp add: bootstrapEmptyRepository_def)
  next
    case (Some f)
    have init: "initialised (bj_owner k) (bj_repo k) L" if "res_ok st" "(Put_contents (bj_owner k) (bj_repo k) p c br x y, Reply st b) \<in> set L" for st b p c br x y L
      using that unfolding initialised_def was_done_def by blast
    show ?thesis unfolding bootstrapEmptyRepository_def Some option.case split_beta
      apply (rule triple_bind [OF triple_identity [OF P] _ P])
      apply (rule triple_bind [OF triple_write])
        apply (intro lasting_rules P)
       apply (simp add: assms)
      apply (rule triple_bind [OF triple_lift])
       apply (rule triple_pre [OF triple_reconcile [OF refl]])
        apply (rule lasting_facts)
       apply (elim conjE exE)
       apply (rule init, assumption+)
      apply (intro lasting_rules P)+
      done
  qed
qed

lemma triple_missing:
  assumes "P = (\<lambda>L. no_ref (bj_owner k) (bj_repo k) (bj_branch k) L \<and> (\<exists>p q repo b. saw (Get_repository p q) repo L
    \<and> validateLiveRepositoryMetadata repo b = Inr meta))" "bj_owner k = rm_owner_login meta" "bj_repo k = rm_name meta"
  shows "triple P (handleMissingBoundBranch e k meta l) (\<lambda>_ _. True)"
proof -
  have P: "lasting P" unfolding assms(1) by (intro lasting_rules)
  have rep: "reported_empty (bj_owner k) (bj_repo k) L" if h: "P L" "rm_size meta = Some 0" for L
  proof -
    obtain p q repo b where "saw (Get_repository p q) repo L" "validateLiveRepositoryMetadata repo b = Inr meta" using h(1) assms(1) by blast
    then show ?thesis unfolding reported_empty_def using assms(2,3) h(2) by metis
  qed
  have ref: "no_ref (bj_owner k) (bj_repo k) (bj_branch k) L" if "P L" for L using that assms(1) by blast
  show ?thesis unfolding handleMissingBoundBranch_def split_beta
  proof (rule triple_bind [OF triple_fetch _ P])
    show "founded (List_branches (bj_owner k) (bj_repo k)) L" for L by simp
    fix r :: "int \<times> (string + json)"
    let ?P = "\<lambda>L. P L \<and> (List_branches (bj_owner k) (bj_repo k), Reply (fst r) (snd r)) \<in> set L"
    let ?list = "if fst r = 409 then pass []
         else if \<not> res_ok (fst r) then throw (classifyGitHubResponseError (fst r) ''branches inspection'')
         else bind_action (lift_result (res_json (snd r))) (\<lambda>j. case j of JArr js \<Rightarrow> pass js | _ \<Rightarrow> throw (malformed ''Branches listing payload is not an array''))"
    have L: "lasting ?P" by (intro lasting_rules P)
    have list: "triple ?P ?list (\<lambda>js L. js = [] \<longrightarrow> no_branches (bj_owner k) (bj_repo k) L)"
    proof -
      have "\<exists>st b. (st = 409 \<or> res_ok st \<and> b = Inr (JArr [])) \<and> (List_branches (bj_owner k) (bj_repo k), Reply st b) \<in> set L"
        if "(List_branches (bj_owner k) (bj_repo k), Reply (fst r) (snd r)) \<in> set L" "fst r = 409 \<or> res_ok (fst r) \<and> snd r = Inr (JArr [])" for L
        using that by blast
      then show ?thesis unfolding triple_def no_branches_def
        by (auto simp: pass_def throw_def bind_action_def lift_result_def res_json_def split: if_splits sum.splits json.splits)
    qed
    show "triple ?P (bind_action ?list (\<lambda>branches. bind_action (lift_result (some_branch (bj_branch k) branches)) (\<lambda>created.
       if created then throw (retryable_error ''STALE_REMOTE'' (''Bound branch '' @ quote_text (bj_branch k) @ '' was created concurrently'') 409)
       else if branches \<noteq> [] then throw (manual_error ''BRANCH_UNAVAILABLE''
         (''Bound branch '' @ quote_text (bj_branch k) @ '' does not exist in populated repository'') 400)
       else if rm_size meta \<noteq> Some 0 then throw (manual_error ''BRANCH_UNAVAILABLE''
         (''Repository cannot be positively verified as empty (reported size: '' @ be_number e (rm_size meta) @ '')'') 400)
       else bootstrapEmptyRepository e k (buildFreshWorkspaceManifest (be_readme e) l) l))) (\<lambda>_ _. True)"
    proof (rule triple_bind [OF list _ L])
      fix js :: "json list"
      let ?Q = "\<lambda>L. ?P L \<and> (js = [] \<longrightarrow> no_branches (bj_owner k) (bj_repo k) L)"
      have Q: "lasting ?Q" unfolding imp_conv_disj by (intro lasting_rules L)
      have empty: "triple ?Q (bootstrapEmptyRepository e k m l) (\<lambda>_ _. True)" if "js = []" "rm_size meta = Some 0" for m
        by (rule triple_pre [OF triple_empty [OF refl]]) (use that rep ref in blast)
      show "triple ?Q (bind_action (lift_result (some_branch (bj_branch k) js)) (\<lambda>created.
         if created then throw (retryable_error ''STALE_REMOTE'' (''Bound branch '' @ quote_text (bj_branch k) @ '' was created concurrently'') 409)
         else if js \<noteq> [] then throw (manual_error ''BRANCH_UNAVAILABLE''
           (''Bound branch '' @ quote_text (bj_branch k) @ '' does not exist in populated repository'') 400)
         else if rm_size meta \<noteq> Some 0 then throw (manual_error ''BRANCH_UNAVAILABLE''
           (''Repository cannot be positively verified as empty (reported size: '' @ be_number e (rm_size meta) @ '')'') 400)
         else bootstrapEmptyRepository e k (buildFreshWorkspaceManifest (be_readme e) l) l)) (\<lambda>_ _. True)"
        by (rule triple_bind [OF triple_lift _ Q]) (simp add: triple_pre [OF empty])
    qed
  qed
qed

lemma triple_app: "lasting P \<Longrightarrow> reads q \<Longrightarrow> triple P (github_fetch gh au q) (\<lambda>_ _. True)"
  by (rule triple_any [OF triple_fetch]) (simp add: reads_def)

lemma triple_installation: "lasting P \<Longrightarrow> triple P (getInstallation gh i) (\<lambda>_ _. True)"
  unfolding getInstallation_def split_beta
  by (intro triple_bind [OF triple_app] triple_bind [OF triple_require] triple_bind [OF triple_lift] triple_any [OF triple_lift] reads_simps
      lasting_rules; assumption)

lemma triple_mint: "lasting P \<Longrightarrow> reads q \<Longrightarrow> triple P (mint_token gh date now key q) (\<lambda>_ _. True)"
  unfolding mint_token_def split_beta
  by (intro triple_bind [OF triple_app] triple_bind [OF triple_any [OF triple_require]] triple_bind [OF triple_any [OF triple_lift]] lasting_rules; assumption?)
    (auto simp: triple_def)

lemma triple_token: "lasting P \<Longrightarrow> triple P (getScopedInstallationToken gh date i rs ps) (\<lambda>_ _. True)"
  unfolding triple_def
proof (intro allI impI)
  fix w w' r assume P: "lasting P" and h: "getScopedInstallationToken gh date i rs ps w = (w', r)" "founded_log (w_log w)" "P (w_log w)"
  let ?m = "mint_token gh date (w_now w) (buildCacheKey i rs ps)
    (Post_installation_token i (map js_number (case rs of None \<Rightarrow> [] | Some rs \<Rightarrow> rs)) (case ps of None \<Rightarrow> [] | Some ps \<Rightarrow> ps))"
  have "?m w = (w', r) \<or> w' = w" using h(1) unfolding getScopedInstallationToken_def Let_def by (auto split: option.splits if_splits)
  moreover have "triple P ?m (\<lambda>_ _. True)" by (rule triple_mint [OF P]) simp
  ultimately show "founded_log (w_log w') \<and> (\<exists>new. w_log w' = new @ w_log w) \<and> (case r of Inl _ \<Rightarrow> True | Inr x \<Rightarrow> True)"
    using h(2,3) unfolding triple_def by (auto split: sum.split)
qed

lemma triple_branch:
  assumes "P = (\<lambda>L. \<exists>p q repo b. saw (Get_repository p q) repo L \<and> validateLiveRepositoryMetadata repo b = Inr meta)"
    "bj_owner k = rm_owner_login meta" "bj_repo k = rm_name meta"
  shows "triple P (attemptOnBranch e k meta l) (\<lambda>_ _. True)"
proof -
  have P: "lasting P" unfolding assms(1) by (intro lasting_rules)
  show ?thesis unfolding attemptOnBranch_def split_beta
  proof (rule triple_bind [OF triple_fetch _ P])
    fix r :: "int \<times> (string + json)"
    let ?Q = "\<lambda>L. P L \<and> (Get_ref (bj_owner k) (bj_repo k) (bj_branch k), Reply (fst r) (snd r)) \<in> set L"
    have Q: "lasting ?Q" by (intro lasting_rules P)
    have ref: "no_ref (bj_owner k) (bj_repo k) (bj_branch k) L" if "fst r = 404 \<or> fst r = 409" "?Q L" for L
      using that unfolding no_ref_def by blast
    have miss: "triple ?Q (handleMissingBoundBranch e k meta l) (\<lambda>_ _. True)" if h: "fst r = 404 \<or> fst r = 409"
    proof (rule triple_pre [OF triple_missing [OF refl assms(2,3)]])
      fix L assume q: "?Q L"
      then show "no_ref (bj_owner k) (bj_repo k) (bj_branch k) L \<and> (\<exists>p q repo b. saw (Get_repository p q) repo L
          \<and> validateLiveRepositoryMetadata repo b = Inr meta)" using ref [OF h q] assms(1) by blast
    qed
    have rest: "triple ?Q (bind_action (require (res_ok (fst r)) (classifyGitHubResponseError (fst r) ''branch ref resolution'')) (\<lambda>_.
         bind_action (lift_result (res_json (snd r))) (\<lambda>ref.
         bind_action (needed_text ''object'' ''sha''
           (retryable_error ''TEMPORARY_GITHUB_ERROR'' ''Branch ref did not return commit SHA'' 500) ref) (\<lambda>head.
         reconcileFromBranchHead e k (Some head) (Some head) None l)))) (\<lambda>_ _. True)"
      by (intro triple_bind [OF triple_require] triple_bind [OF triple_lift] triple_bind [OF triple_needed] triple_reconcile lasting_rules P) simp
    show "triple ?Q (if fst r = 404 \<or> fst r = 409 then handleMissingBoundBranch e k meta l
       else bind_action (require (res_ok (fst r)) (classifyGitHubResponseError (fst r) ''branch ref resolution'')) (\<lambda>_.
         bind_action (lift_result (res_json (snd r))) (\<lambda>ref.
         bind_action (needed_text ''object'' ''sha''
           (retryable_error ''TEMPORARY_GITHUB_ERROR'' ''Branch ref did not return commit SHA'' 500) ref) (\<lambda>head.
         reconcileFromBranchHead e k (Some head) (Some head) None l)))) (\<lambda>_ _. True)"
      using miss rest by simp
  qed simp
qed

lemma triple_execute: "triple (\<lambda>L. True) (executeBootstrapAttempt e w a b inst l) (\<lambda>_ _. True)"
  unfolding executeBootstrapAttempt_def
proof (intro triple_bind [OF triple_catching [OF triple_installation triple_throw]] triple_bind [OF triple_any [OF triple_require]]
    triple_bind [OF triple_catching [OF triple_token triple_throw]] triple_bind [OF triple_read] triple_bind [OF triple_lift] reads_simps lasting_rules)
  fix tok repo and meta :: repository_meta
  show "triple (\<lambda>L. (((((True \<and> True) \<and> True) \<and> True) \<and> True) \<and> saw (Get_repository (rb_owner_login b) (rb_repository_name b)) repo L)
        \<and> validateLiveRepositoryMetadata repo b = Inr meta)
      (attemptOnBranch e \<lparr>bj_workspace_id = w, bj_attempt_id = a, bj_binding = b, bj_token = tok, bj_owner = rm_owner_login meta,
         bj_repo = rm_name meta, bj_branch = rb_branch b\<rparr> meta l) (\<lambda>_ _. True)"
    by (rule triple_pre [OF triple_branch [OF refl]]) (simp_all, blast)
qed

end
