(* ===== verification/Identity_Validation.thy ===== *)
theory Identity_Validation
  imports Bootstrap_Store
begin

text \<open>
  The check of the data when the server opens the database: \<^verbatim>\<open>validateData\<close> in \<^verbatim>\<open>identity/store.ts\<close>, table by table.
  Every failure is the same error, so a check is a truth value. That columns have the type of their declaration, which
  the code checks again, is a property of the rows here.
\<close>

section \<open>Identity tables\<close>

definition users_valid :: "identity_data \<Rightarrow> bool" where
  "users_valid it = list_all (\<lambda>r. us_is_admin r = 0 \<or> us_is_admin r = 1) (it_users it)"

definition members_valid :: "identity_data \<Rightarrow> bool" where
  "members_valid it = list_all (\<lambda>r. mr_role r = ''owner'') (it_members it)"

definition workspace_owned :: "identity_data \<Rightarrow> workspace_row \<Rightarrow> bool" where
  "workspace_owned it w = (case filter (\<lambda>m. mr_workspace_id m = wk_id w \<and> mr_role m = ''owner'') (it_members it) of
      [m] \<Rightarrow> mr_user_id m = wk_owner_user_id w
    | _ \<Rightarrow> False)"

definition workspaces_valid :: "identity_data \<Rightarrow> bool" where
  "workspaces_valid it = list_all (workspace_owned it) (it_workspaces it)"

definition time_valid :: "int \<Rightarrow> bool" where "time_valid t \<longleftrightarrow> 0 \<le> t"
definition event_valid :: "int option \<Rightarrow> bool" where "event_valid t = (case t of None \<Rightarrow> True | Some x \<Rightarrow> 0 < x)"
definition optional_time_valid :: "int option \<Rightarrow> bool" where "optional_time_valid t = (case t of None \<Rightarrow> True | Some x \<Rightarrow> 0 \<le> x)"

definition installation_valid :: "installation_row \<Rightarrow> bool" where
  "installation_valid r \<longleftrightarrow> starts_with ''ghi_'' (gh_id r) \<and> positive_decimal (gh_installation_id r) \<and> positive_decimal (gh_app_id r)
     \<and> positive_decimal (gh_account_id r) \<and> non_blank (gh_account_login r) \<and> gh_account_type r \<in> set account_types
     \<and> gh_repository_selection r \<in> set repository_selections \<and> event_valid (gh_suspended_at_ms r)
     \<and> time_valid (gh_created_at_ms r) \<and> time_valid (gh_updated_at_ms r)"

definition installation_user_valid :: "installation_user_row \<Rightarrow> bool" where
  "installation_user_valid r \<longleftrightarrow> starts_with ''ghiu_'' (gu_id r) \<and> time_valid (gu_created_at_ms r) \<and> time_valid (gu_verified_at_ms r)"

definition branch_valid :: "string \<Rightarrow> bool" where
  "branch_valid b \<longleftrightarrow> non_blank b \<and> CHR 0x00 \<notin> set b"

definition repository_valid :: "repository_row \<Rightarrow> bool" where
  "repository_valid r \<longleftrightarrow> starts_with ''grb_'' (rb_id r) \<and> positive_decimal (rb_repository_id r) \<and> positive_decimal (rb_owner_account_id r)
     \<and> non_blank (rb_owner_login r) \<and> non_blank (rb_repository_name r) \<and> non_blank (rb_full_name r) \<and> branch_valid (rb_branch r)
     \<and> time_valid (rb_created_at_ms r) \<and> time_valid (rb_updated_at_ms r) \<and> optional_time_valid (rb_scope_verified_at_ms r)"

definition sha_valid :: "string option \<Rightarrow> bool" where
  "sha_valid s = (case s of None \<Rightarrow> True | Some x \<Rightarrow> COMMIT_HEX_REGEX x)"

definition not_ready :: "bootstrap_row \<Rightarrow> bool" where
  "not_ready r \<longleftrightarrow> wb_ready_commit_sha r = None \<and> wb_ready_at_ms r = None"

definition no_failure :: "bootstrap_row \<Rightarrow> bool" where
  "no_failure r \<longleftrightarrow> wb_error_kind r = None \<and> wb_error_code r = None \<and> wb_error_message r = None"

definition given_text :: "string option \<Rightarrow> bool" where
  "given_text t = (case t of None \<Rightarrow> False | Some s \<Rightarrow> non_blank s)"

definition failure_of :: "bootstrap_error_kind \<Rightarrow> bootstrap_row \<Rightarrow> bool" where
  "failure_of k r \<longleftrightarrow> wb_error_kind r = Some k \<and> given_text (wb_error_code r) \<and> given_text (wb_error_message r)"

text \<open>The fields that go with each state.\<close>

definition bootstrap_state_valid :: "bootstrap_row \<Rightarrow> bool" where
  "bootstrap_state_valid r = (case wb_state r of
      BS_ready \<Rightarrow> wb_ready_commit_sha r \<noteq> None \<and> wb_ready_at_ms r \<noteq> None \<and> no_failure r
    | BS_pending \<Rightarrow> not_ready r \<and> no_failure r
    | BS_applying \<Rightarrow> not_ready r \<and> no_failure r
    | BS_retryable_failure \<Rightarrow> not_ready r \<and> failure_of BK_retryable r
    | BS_manual_recovery \<Rightarrow> not_ready r \<and> failure_of BK_manual r)"

definition bootstrap_valid :: "bootstrap_row \<Rightarrow> bool" where
  "bootstrap_valid r \<longleftrightarrow> starts_with ''ws_'' (wb_workspace_id r) \<and> wb_version r = 1 \<and> 0 \<le> wb_attempt_count r
     \<and> time_valid (wb_created_at_ms r) \<and> time_valid (wb_updated_at_ms r)
     \<and> (wb_last_attempt_id r = None \<or> given_text (wb_last_attempt_id r)) \<and> sha_valid (wb_base_commit_sha r) \<and> sha_valid (wb_ready_commit_sha r)
     \<and> optional_time_valid (wb_ready_at_ms r) \<and> bootstrap_state_valid r"

section \<open>Device tables\<close>

definition device_valid :: "device_row \<Rightarrow> bool" where
  "device_valid d \<longleftrightarrow> starts_with ''dev_'' (d_id d) \<and> non_blank (d_display_name d) \<and> non_blank (d_platform d)
     \<and> time_valid (d_created_at_ms d) \<and> time_valid (d_updated_at_ms d) \<and> event_valid (d_revoked_at_ms d)"

definition credential_valid :: "credential_row \<Rightarrow> bool" where
  "credential_valid k \<longleftrightarrow> starts_with ''dcr_'' (k_id k) \<and> HEX_64_RE (k_secret_digest k) \<and> time_valid (k_issued_at_ms k)
     \<and> k_issued_at_ms k < k_expires_at_ms k \<and> event_valid (k_revoked_at_ms k)"

definition target_valid :: "target_row \<Rightarrow> bool" where
  "target_valid t \<longleftrightarrow> starts_with ''tgt_'' (t_id t) \<and> TARGET_ALIAS_RE (t_alias t) \<and> non_blank (t_display_name t) \<and> non_blank (t_kind t)
     \<and> time_valid (t_created_at_ms t) \<and> time_valid (t_updated_at_ms t) \<and> event_valid (t_disabled_at_ms t) \<and> repository_complete t"

definition binding_valid :: "binding_row \<Rightarrow> bool" where
  "binding_valid b \<longleftrightarrow> starts_with ''dtb_'' (b_id b) \<and> time_valid (b_created_at_ms b) \<and> time_valid (b_updated_at_ms b) \<and> event_valid (b_disabled_at_ms b)"

definition default_valid :: "target_row list \<Rightarrow> default_row \<Rightarrow> bool" where
  "default_valid ts f \<longleftrightarrow> non_blank (df_workspace_id f) \<and> starts_with ''tgt_'' (df_target_id f)
     \<and> (case find (\<lambda>t. t_id t = df_target_id f) ts of None \<Rightarrow> False | Some t \<Rightarrow> t_workspace_id t = df_workspace_id f)
     \<and> time_valid (df_created_at_ms f) \<and> time_valid (df_updated_at_ms f)"

section \<open>Foreign keys and the whole check\<close>

definition parents_exist :: "identity_data \<Rightarrow> bool" where
  "parents_exist it \<longleftrightarrow> wk_owner_user_id ` set (it_workspaces it) \<subseteq> us_id ` set (it_users it)
     \<and> xt_user_id ` set (it_externals it) \<subseteq> us_id ` set (it_users it)
     \<and> mr_workspace_id ` set (it_members it) \<subseteq> wk_id ` set (it_workspaces it) \<and> mr_user_id ` set (it_members it) \<subseteq> us_id ` set (it_users it)
     \<and> gu_installation_row_id ` set (it_installation_users it) \<subseteq> gh_id ` set (it_installations it)
     \<and> gu_user_id ` set (it_installation_users it) \<subseteq> us_id ` set (it_users it)
     \<and> rb_workspace_id ` set (it_repositories it) \<subseteq> wk_id ` set (it_workspaces it)
     \<and> rb_installation_row_id ` set (it_repositories it) \<subseteq> gh_id ` set (it_installations it)
     \<and> wb_workspace_id ` set (it_bootstraps it) \<subseteq> wk_id ` set (it_workspaces it)"

definition device_parents_exist :: "control_db \<Rightarrow> bool" where
  "device_parents_exist c \<longleftrightarrow> d_user_id ` set (devices c) \<subseteq> u_id ` set (users c) \<and> k_device_id ` set (credentials c) \<subseteq> d_id ` set (devices c)
     \<and> t_workspace_id ` set (targets c) \<subseteq> set (workspaces c)
     \<and> b_device_id ` set (bindings c) \<subseteq> d_id ` set (devices c) \<and> b_target_id ` set (bindings c) \<subseteq> t_id ` set (targets c)
     \<and> df_workspace_id ` set (defaults c) \<subseteq> set (workspaces c) \<and> df_target_id ` set (defaults c) \<subseteq> t_id ` set (targets c)"

definition identity_tables_valid :: "identity_data \<Rightarrow> bool" where
  "identity_tables_valid it \<longleftrightarrow> users_valid it \<and> members_valid it \<and> workspaces_valid it \<and> list_all installation_valid (it_installations it)
     \<and> list_all installation_user_valid (it_installation_users it) \<and> list_all repository_valid (it_repositories it)
     \<and> list_all bootstrap_valid (it_bootstraps it) \<and> parents_exist it"

definition device_tables_valid :: "control_db \<Rightarrow> bool" where
  "device_tables_valid c \<longleftrightarrow> list_all device_valid (devices c) \<and> list_all credential_valid (credentials c) \<and> list_all target_valid (targets c)
     \<and> list_all binding_valid (bindings c) \<and> list_all (default_valid (targets c)) (defaults c) \<and> device_parents_exist c"

definition validateData :: "identity_data \<Rightarrow> control_db \<Rightarrow> identity_error + unit" where
  "validateData it c = (if identity_tables_valid it \<and> device_tables_valid c then Inr () else Inl IdentityStructureError)"

end
