(* ===== verification/Identity_Invariant.thy ===== *)
theory Identity_Invariant
  imports Identity_Validation
begin

text \<open>
  The constraints of the identity tables, as an invariant of the operations of the identity store. The tables of a
  workspace grow in lockstep: every workspace has its owner, its repository binding and its bootstrap.
\<close>

section \<open>Texts that are stored\<close>

lemma non_blank_trim [simp]: "non_blank (js_trim s) \<longleftrightarrow> non_blank s"
  by (simp add: non_blank_def)

lemma non_blank_graphic: "c \<in> set s \<Longrightarrow> graphic c \<Longrightarrow> non_blank s"
  by (simp add: non_blank_def graphic_kept)

lemma replaced: "replace_matches m new s = s \<or> set new \<subseteq> set (replace_matches m new s)"
  by (induction m new s rule: replace_matches.induct) auto

lemma replaced_non_blank:
  assumes "non_blank s" "CHR ''['' \<in> set new"
  shows "non_blank (replace_matches m new s)"
proof -
  have "graphic (CHR ''['')" by (simp add: graphic_def)
  then show ?thesis using replaced [of m new s] assms non_blank_graphic by (metis subsetD)
qed

lemma redacted_char: "CHR ''['' \<in> set (xs @ redacted @ ys)" "CHR ''['' \<in> set (xs @ redacted)" "CHR ''['' \<in> set redacted"
  by (simp_all add: redacted_def)

lemma redact_non_blank: "non_blank msg \<Longrightarrow> non_blank (redact msg)"
  unfolding redact_def by (intro replaced_non_blank redacted_char)

lemma dot_non_blank: "non_blank (s @ ''...'')"
  by (rule non_blank_graphic [of "CHR ''.''"]) (simp_all add: graphic_def)

lemma message_non_blank: "non_blank msg \<Longrightarrow> non_blank (sanitizeErrorMessage msg)"
  using redact_non_blank dot_non_blank by (simp add: sanitizeErrorMessage_def Let_def)

lemma upper_graphic: "token_char c \<Longrightarrow> graphic (upper_letter c)"
proof -
  assume "token_char c"
  moreover have "list_all graphic token_chars" by (simp add: token_chars_def graphic_def)
  ultimately have "graphic c" unfolding token_char_def by (simp only: list_all_iff)
  moreover have "(n - 32) mod 256 = n - 32" if "n \<le> 122" for n :: nat using that by (intro mod_less) simp
  ultimately show "graphic (upper_letter c)" by (auto simp: graphic_def upper_letter_def)
qed

lemma code_unit_graphic: "d \<in> set (code_unit c) \<Longrightarrow> graphic d"
  using upper_graphic [of c] by (auto simp: code_unit_def graphic_def split: if_splits)

lemma code_non_blank: "non_blank (sanitizeErrorCode code)"
proof -
  let ?c = "take 64 (concat (map code_unit (js_trim code)))"
  have "non_blank ''UNKNOWN_ERROR''" by (rule non_blank_graphic [of "CHR ''U''"]) (simp_all add: graphic_def)
  moreover have "non_blank ?c" if "?c \<noteq> []"
  proof -
    have "hd ?c \<in> set ?c" using that by (rule hd_in_set)
    moreover have "set ?c \<subseteq> {c. graphic c}" using code_unit_graphic by (auto dest!: in_set_takeD)
    ultimately show ?thesis by (intro non_blank_graphic [of "hd ?c"]) auto
  qed
  ultimately show ?thesis by (simp add: sanitizeErrorCode_def Let_def)
qed

lemma hex_lower: "any_hex_digit c \<Longrightarrow> any_hex_digit (ascii_lower c)"
proof -
  have "list_all (\<lambda>c. any_hex_digit (ascii_lower c)) ''0123456789abcdefABCDEF''" by (simp add: any_hex_digit_def ascii_lower_def char_of_def bit_0)
  then show "any_hex_digit c \<Longrightarrow> any_hex_digit (ascii_lower c)" unfolding any_hex_digit_def [of c] by (simp only: list_all_iff) 
qed

lemma normalized_sha: "normalizeSha s = Inr x \<Longrightarrow> COMMIT_HEX_REGEX x"
  using hex_lower by (auto simp: normalizeSha_def COMMIT_HEX_REGEX_def list_all_iff split: if_splits)

lemma optional_sha_valid: "optional_sha s = Inr x \<Longrightarrow> sha_valid x"
  using normalized_sha by (auto simp: optional_sha_def sha_valid_def ebind_eq_Inr split: option.splits if_splits)

lemma attempt_non_blank: "given_text (Some (''wba_'' @ uuid))"
proof -
  have "non_blank (''wba_'' @ uuid)" by (rule non_blank_graphic [of "CHR ''w''"]) (simp_all add: graphic_def)
  then show ?thesis by (simp add: given_text_def)
qed

section \<open>The constraints\<close>

definition users_ok :: "account_row list \<Rightarrow> bool" where
  "users_ok us \<longleftrightarrow> distinct (map us_id us) \<and> (\<forall>r \<in> set us. us_is_admin r = 0 \<or> us_is_admin r = 1)"

definition subject_key :: "external_row \<Rightarrow> string \<times> string" where "subject_key x = (xt_provider x, xt_provider_subject x)"
definition user_key :: "external_row \<Rightarrow> string \<times> user_id" where "user_key x = (xt_provider x, xt_user_id x)"

definition externals_ok :: "account_row list \<Rightarrow> external_row list \<Rightarrow> bool" where
  "externals_ok us xs \<longleftrightarrow> distinct (map xt_id xs) \<and> distinct (map subject_key xs) \<and> distinct (map user_key xs)
     \<and> xt_user_id ` set xs \<subseteq> us_id ` set us"

definition installations_ok :: "installation_row list \<Rightarrow> bool" where
  "installations_ok gs \<longleftrightarrow> distinct (map gh_id gs) \<and> distinct (map gh_installation_id gs) \<and> (\<forall>r \<in> set gs. installation_valid r)"

definition link_key :: "installation_user_row \<Rightarrow> string \<times> user_id" where "link_key l = (gu_installation_row_id l, gu_user_id l)"

definition links_ok :: "account_row list \<Rightarrow> installation_row list \<Rightarrow> installation_user_row list \<Rightarrow> bool" where
  "links_ok us gs ls \<longleftrightarrow> distinct (map gu_id ls) \<and> distinct (map link_key ls) \<and> gu_installation_row_id ` set ls \<subseteq> gh_id ` set gs
     \<and> gu_user_id ` set ls \<subseteq> us_id ` set us \<and> (\<forall>r \<in> set ls. installation_user_valid r)"

text \<open>Every workspace has one member, its owner, and no user owns two workspaces.\<close>

definition spaces_ok :: "account_row list \<Rightarrow> workspace_row list \<Rightarrow> member_row list \<Rightarrow> bool" where
  "spaces_ok us ws ms \<longleftrightarrow> distinct (map wk_id ws) \<and> distinct (map wk_owner_user_id ws) \<and> wk_owner_user_id ` set ws \<subseteq> us_id ` set us
     \<and> map (\<lambda>m. (mr_workspace_id m, mr_user_id m, mr_role m)) ms = map (\<lambda>w. (wk_id w, wk_owner_user_id w, ''owner'')) ws"

definition repositories_ok :: "installation_row list \<Rightarrow> workspace_row list \<Rightarrow> repository_row list \<Rightarrow> bool" where
  "repositories_ok gs ws rs \<longleftrightarrow> map rb_workspace_id rs = map wk_id ws \<and> distinct (map rb_id rs) \<and> distinct (map rb_repository_id rs)
     \<and> rb_installation_row_id ` set rs \<subseteq> gh_id ` set gs \<and> (\<forall>r \<in> set rs. repository_valid r)"

definition bootstraps_ok :: "workspace_row list \<Rightarrow> bootstrap_row list \<Rightarrow> bool" where
  "bootstraps_ok ws bs \<longleftrightarrow> map wb_workspace_id bs = map wk_id ws \<and> (\<forall>r \<in> set bs. bootstrap_valid r)"

definition identity_ok :: "identity_data \<Rightarrow> bool" where
  "identity_ok it \<longleftrightarrow> users_ok (it_users it) \<and> externals_ok (it_users it) (it_externals it) \<and> installations_ok (it_installations it)
     \<and> links_ok (it_users it) (it_installations it) (it_installation_users it) \<and> spaces_ok (it_users it) (it_workspaces it) (it_members it)
     \<and> repositories_ok (it_installations it) (it_workspaces it) (it_repositories it) \<and> bootstraps_ok (it_workspaces it) (it_bootstraps it)"

lemma empty_identity_ok [simp]: "identity_ok empty_identity"
  by (simp add: identity_ok_def empty_identity_def users_ok_def externals_ok_def installations_ok_def links_ok_def spaces_ok_def
      repositories_ok_def bootstraps_ok_def)

section \<open>They imply the check at the start\<close>

lemma filter_key: "distinct (map k xs) \<Longrightarrow> x \<in> set xs \<Longrightarrow> filter (\<lambda>y. k y = k x) xs = [x]"
proof (induction xs)
  case (Cons y ys)
  show ?case
  proof (cases "x = y")
    case True
    then have "k z \<noteq> k x" if "z \<in> set ys" for z using Cons(2) that True by (metis distinct.simps(2) image_eqI list.set_map list.simps(9))
    then have "filter (\<lambda>z. k z = k x) ys = []" by (simp add: filter_empty_conv)
    then show ?thesis using True by simp
  next
    case False
    then have "x \<in> set ys" "k y \<noteq> k x" using Cons(2,3) by (auto simp: image_iff)
    then show ?thesis using Cons by simp
  qed
qed simp

lemma map_ids: "map f xs = map g ys \<Longrightarrow> f ` set xs = g ` set ys"
  by (metis list.set_map)

lemma member_ids:
  assumes "spaces_ok us ws ms"
  shows "map mr_workspace_id ms = map wk_id ws" "map mr_user_id ms = map wk_owner_user_id ws" "\<forall>m \<in> set ms. mr_role m = ''owner''"
proof -
  have h: "map (\<lambda>m. (mr_workspace_id m, mr_user_id m, mr_role m)) ms = map (\<lambda>w. (wk_id w, wk_owner_user_id w, ''owner'')) ws"
    using assms by (simp add: spaces_ok_def)
  have "map fst (map (\<lambda>m. (mr_workspace_id m, mr_user_id m, mr_role m)) ms) = map fst (map (\<lambda>w. (wk_id w, wk_owner_user_id w, ''owner'')) ws)"
    by (simp only: h)
  then show "map mr_workspace_id ms = map wk_id ws" by (simp add: comp_def)
  have "map (fst \<circ> snd) (map (\<lambda>m. (mr_workspace_id m, mr_user_id m, mr_role m)) ms)
      = map (fst \<circ> snd) (map (\<lambda>w. (wk_id w, wk_owner_user_id w, ''owner'')) ws)" by (simp only: h)
  then show "map mr_user_id ms = map wk_owner_user_id ws" by (simp add: comp_def)
  have "set (map (\<lambda>m. (mr_workspace_id m, mr_user_id m, mr_role m)) ms) = set (map (\<lambda>w. (wk_id w, wk_owner_user_id w, ''owner'')) ws)"
    by (simp only: h)
  then show "\<forall>m \<in> set ms. mr_role m = ''owner''" unfolding set_map by blast
qed

lemma owned:
  assumes "spaces_ok us ws ms" "w \<in> set ws"
  shows "\<exists>m. filter (\<lambda>m. mr_workspace_id m = wk_id w \<and> mr_role m = ''owner'') ms = [m] \<and> mr_user_id m = wk_owner_user_id w"
proof -
  have h: "map (\<lambda>m. (mr_workspace_id m, mr_user_id m, mr_role m)) ms = map (\<lambda>w. (wk_id w, wk_owner_user_id w, ''owner'')) ws"
    using assms by (simp add: spaces_ok_def)
  have "(wk_id w, wk_owner_user_id w, ''owner'') \<in> set (map (\<lambda>m. (mr_workspace_id m, mr_user_id m, mr_role m)) ms)"
    unfolding h using assms(2) by simp
  then obtain m where m: "m \<in> set ms" "mr_workspace_id m = wk_id w" "mr_user_id m = wk_owner_user_id w" by auto
  have "distinct (map mr_workspace_id ms)" using assms(1) member_ids(1) [OF assms(1)] by (simp add: spaces_ok_def)
  from filter_key [OF this m(1)] have "filter (\<lambda>y. mr_workspace_id y = wk_id w) ms = [m]" by (simp add: m(2))
  moreover have "filter (\<lambda>m. mr_workspace_id m = wk_id w \<and> mr_role m = ''owner'') ms = filter (\<lambda>y. mr_workspace_id y = wk_id w) ms"
    by (rule filter_cong [OF refl]) (use member_ids(3) [OF assms(1)] in blast)
  ultimately show ?thesis using m(3) by simp
qed

lemma identity_ok_valid:
  assumes "identity_ok it"
  shows "identity_tables_valid it"
proof -
  have sp: "spaces_ok (it_users it) (it_workspaces it) (it_members it)" using assms by (simp only: identity_ok_def)
  have "workspaces_valid it" unfolding workspaces_valid_def workspace_owned_def list_all_iff using owned [OF sp] by fastforce
  moreover have "members_valid it" unfolding members_valid_def list_all_iff by (rule member_ids(3) [OF sp])
  moreover have "parents_exist it"
    using assms map_ids [OF member_ids(1) [OF sp]] map_ids [OF member_ids(2) [OF sp]]
      map_ids [of rb_workspace_id "it_repositories it" wk_id "it_workspaces it"]
      map_ids [of wb_workspace_id "it_bootstraps it" wk_id "it_workspaces it"]
    by (simp add: identity_ok_def parents_exist_def externals_ok_def links_ok_def spaces_ok_def repositories_ok_def bootstraps_ok_def)
  ultimately show ?thesis using assms
    by (simp add: identity_ok_def identity_tables_valid_def users_valid_def users_ok_def list_all_iff installations_ok_def links_ok_def
        repositories_ok_def bootstraps_ok_def)
qed

end
