(* ===== verification/Identity_Lifecycle.thy ===== *)
theory Identity_Lifecycle
  imports Identity_Invariant
begin

text \<open>
  The identity store as a transition system. A state is the history of the bootstrap attempts, newest first, with the
  tables; a step is one operation, or an administrator who disables or enables an account in the database. What the
  callers owe is written with each step: texts that are not blank, and a clock that is not negative.
\<close>

section \<open>Each operation keeps the constraints\<close>

text \<open>Tables that grow, and the tables that refer to them.\<close>

lemma more_users:
  assumes "users_ok us" "us_id r \<notin> us_id ` set us" "us_is_admin r = 0"
  shows "users_ok (us @ [r])" "externals_ok us xs \<Longrightarrow> externals_ok (us @ [r]) xs" "links_ok us gs ls \<Longrightarrow> links_ok (us @ [r]) gs ls"
    "spaces_ok us ws ms \<Longrightarrow> spaces_ok (us @ [r]) ws ms"
  using assms unfolding users_ok_def externals_ok_def links_ok_def spaces_ok_def by (simp_all add: subset_insertI2)

lemma more_externals:
  "externals_ok us xs \<Longrightarrow> xt_id r \<notin> xt_id ` set xs \<Longrightarrow> subject_key r \<notin> subject_key ` set xs \<Longrightarrow> user_key r \<notin> user_key ` set xs \<Longrightarrow>
    xt_user_id r \<in> us_id ` set us \<Longrightarrow> externals_ok us (xs @ [r])"
  by (simp add: externals_ok_def)

lemma more_installations:
  assumes "installations_ok gs" "gh_id r \<notin> gh_id ` set gs" "gh_installation_id r \<notin> gh_installation_id ` set gs" "installation_valid r"
  shows "installations_ok (gs @ [r])" "links_ok us gs ls \<Longrightarrow> links_ok us (gs @ [r]) ls" "repositories_ok gs ws rs \<Longrightarrow> repositories_ok (gs @ [r]) ws rs"
  using assms unfolding installations_ok_def links_ok_def repositories_ok_def by (simp_all add: subset_insertI2)

lemma insert_user_Some: "insert_user r it = Some it' \<longleftrightarrow> us_id r \<notin> us_id ` set (it_users it) \<and> it' = it\<lparr>it_users := it_users it @ [r]\<rparr>"
  by (auto simp: insert_user_def)

lemma insert_external_Some: "insert_external r it = Some it' \<longleftrightarrow> xt_id r \<notin> xt_id ` set (it_externals it)
    \<and> subject_key r \<notin> subject_key ` set (it_externals it) \<and> user_key r \<notin> user_key ` set (it_externals it)
    \<and> xt_user_id r \<in> us_id ` set (it_users it) \<and> it' = it\<lparr>it_externals := it_externals it @ [r]\<rparr>"
  unfolding insert_external_def subject_key_def [abs_def] user_key_def [abs_def] by auto

lemma insert_user_ok: "insert_user r it = Some it' \<Longrightarrow> us_is_admin r = 0 \<Longrightarrow> identity_ok it \<Longrightarrow> identity_ok it'"
  unfolding identity_ok_def insert_user_Some by (elim conjE) (simp add: more_users)

lemma insert_external_ok: "insert_external r it = Some it' \<Longrightarrow> identity_ok it \<Longrightarrow> identity_ok it'"
  unfolding identity_ok_def insert_external_Some by (elim conjE) (simp add: more_externals)

lemma update_external_ok: "identity_ok it \<Longrightarrow> identity_ok (update_external now i l e it)"
  unfolding identity_ok_def externals_ok_def update_external_def subject_key_def [abs_def] user_key_def [abs_def] by simp

text \<open>What a login does, in its three outcomes.\<close>

lemma resolve_Inr:
  assumes "resolveOrCreateExternalUser now u e i it = Inr (it', r)"
  shows "(\<exists>x a. findExternalIdentity it (lg_provider i) (lg_subject i) = Some x \<and> account_of it (xt_user_id x) = Some a \<and> us_disabled_at a = None
        \<and> it' = update_external now (xt_id x) (first_given (lg_login i) (xt_provider_login x))
            (first_given (trimmed_text (lg_email i)) (xt_provider_email x)) it \<and> ru_user_id r = xt_user_id x \<and> \<not> ru_created r)
    \<or> (\<exists>x it1. findExternalIdentity it (lg_provider i) (lg_subject i) = None
        \<and> insert_user \<lparr>us_id = ''usr_'' @ u, us_created_at = now, us_disabled_at = None, us_is_admin = 0\<rparr> it = Some it1
        \<and> insert_external x it1 = Some it' \<and> xt_provider x = lg_provider i \<and> xt_provider_subject x = lg_subject i \<and> xt_user_id x = ''usr_'' @ u
        \<and> ru_user_id r = ''usr_'' @ u \<and> ru_created r)"
proof (cases "findExternalIdentity it (lg_provider i) (lg_subject i)")
  case None
  then show ?thesis using assms
    by (cases "insert_user \<lparr>us_id = ''usr_'' @ u, us_created_at = now, us_disabled_at = None, us_is_admin = 0\<rparr> it")
      (simp_all add: resolveOrCreateExternalUser_def Let_def split: option.splits, force)
next
  case (Some x)
  then show ?thesis using assms by (auto simp: resolveOrCreateExternalUser_def Let_def split: option.splits if_splits)
qed

lemma resolve_ok: "resolveOrCreateExternalUser now u e i it = Inr (it', r) \<Longrightarrow> identity_ok it \<Longrightarrow> identity_ok it'"
  by (drule resolve_Inr) (elim disjE exE conjE, simp add: update_external_ok, metis account_row.select_convs(4) insert_user_ok insert_external_ok)

lemma metadata_ok: "updateExternalIdentityMetadata now p s l e it = Inr (it', r) \<Longrightarrow> identity_ok it \<Longrightarrow> identity_ok it'"
  unfolding updateExternalIdentityMetadata_def by (auto simp: update_external_ok split: option.splits)

lemma update_users_ok:
  assumes "identity_ok it" "\<And>r. us_id (f r) = us_id r" "\<And>r. us_is_admin (f r) = us_is_admin r \<or> us_is_admin (f r) \<in> {0, 1}"
  shows "identity_ok (it\<lparr>it_users := update_rows p f (it_users it)\<rparr>)"
proof -
  have "\<forall>r \<in> set (update_rows p f (it_users it)). us_is_admin r = 0 \<or> us_is_admin r = 1"
  proof (rule update_rows_all)
    show "\<forall>r \<in> set (it_users it). us_is_admin r = 0 \<or> us_is_admin r = 1" using assms(1) by (simp add: identity_ok_def users_ok_def)
    show "us_is_admin (f r) = 0 \<or> us_is_admin (f r) = 1" if "us_is_admin r = 0 \<or> us_is_admin r = 1" for r using that assms(3) [of r] by auto
  qed
  then show ?thesis using assms(1,2) by (simp add: identity_ok_def users_ok_def externals_ok_def links_ok_def spaces_ok_def)
qed

lemma admin_ok: "setUserAdmin u v it = Inr (it', r) \<Longrightarrow> identity_ok it \<Longrightarrow> identity_ok it'"
  by (auto simp: setUserAdmin_def split: if_splits intro!: update_users_ok)

lemma find_key_None: "find (\<lambda>r. k r = x) rs = None \<longleftrightarrow> x \<notin> k ` set rs"
  by (auto simp: find_None_iff)

lemma new_installation_valid:
  "installation_input_ok n \<Longrightarrow> 0 \<le> now \<Longrightarrow> installation_valid (new_installation now (''ghi_'' @ i) n)"
  unfolding installation_valid_def installation_input_ok_def new_installation_def
  by (simp add: starts_with_def event_valid_def time_valid_def)

lemma replaced_row_valid:
  assumes "installation_valid n" "installation_valid old"
  shows "installation_valid (n\<lparr>gh_id := gh_id old, gh_created_at_ms := gh_created_at_ms old\<rparr>)"
  using assms unfolding installation_valid_def by simp

lemma update_one_map:
  assumes "distinct (map k rs)" "old \<in> set rs" "k n = k old" "g n = g old"
  shows "map g (update_rows (\<lambda>r. k r = k n) (\<lambda>_. n) rs) = map g rs"
proof -
  have "(if k r = k n then n else r) = (if r = old then n else r)" if "r \<in> set rs" for r
    using that assms(1-3) by (metis distinct_map inj_onD)
  then have "update_rows (\<lambda>r. k r = k n) (\<lambda>_. n) rs = map (\<lambda>r. if r = old then n else r) rs" unfolding update_rows_def by simp
  then show ?thesis using assms(4) by simp
qed

lemma upsert_installation_ok:
  assumes "upsert_installation n it = Some (it', g)" "installation_valid n" "identity_ok it"
  shows "identity_ok it'"
proof (cases "findGitHubInstallationById it (gh_installation_id n)")
  case None
  then have "gh_installation_id n \<notin> gh_installation_id ` set (it_installations it)" unfolding findGitHubInstallationById_def find_key_None .
  then show ?thesis using None assms unfolding identity_ok_def
    by (elim conjE) (auto simp: upsert_installation_def insert_installation_def more_installations split: if_splits)
next
  case (Some old)
  define new where "new = n\<lparr>gh_id := gh_id old, gh_created_at_ms := gh_created_at_ms old\<rparr>"
  let ?gs = "it_installations it"
  let ?gs' = "update_rows (\<lambda>r. gh_installation_id r = gh_installation_id new) (\<lambda>_. new) ?gs"
  have old: "old \<in> set ?gs" "gh_installation_id old = gh_installation_id n" using find_SomeD [OF Some [unfolded findGitHubInstallationById_def]] by simp_all
  have it': "it' = it\<lparr>it_installations := ?gs'\<rparr>"
    using assms(1) Some by (auto simp: upsert_installation_def new_def Let_def split: if_splits)
  have ok: "installations_ok ?gs" using assms(3) by (simp only: identity_ok_def)
  have ids: "map gh_id ?gs' = map gh_id ?gs" "map gh_installation_id ?gs' = map gh_installation_id ?gs"
    by (rule update_one_map [where old = old]; use ok old in \<open>simp add: installations_ok_def new_def\<close>)+
  have "installation_valid new" unfolding new_def
    by (rule replaced_row_valid) (use assms(2) ok old in \<open>simp_all add: installations_ok_def\<close>)
  then have "\<forall>r \<in> set ?gs'. installation_valid r" by (intro update_rows_all) (use ok in \<open>simp_all add: installations_ok_def\<close>)
  then have "installations_ok ?gs'" using ok ids by (simp add: installations_ok_def)
  then show ?thesis using assms(3) map_ids [OF ids(1)] unfolding it' identity_ok_def links_ok_def repositories_ok_def by simp
qed

lemma upsert_link_ok:
  assumes "upsert_installation_user n it = Some (it', l)" "installation_user_valid n" "identity_ok it"
  shows "identity_ok it'"
proof -
  have ok: "links_ok (it_users it) (it_installations it) (it_installation_users it)" using assms(3) by (simp only: identity_ok_def)
  let ?ls = "update_rows (\<lambda>r. gu_installation_row_id r = gu_installation_row_id n \<and> gu_user_id r = gu_user_id n)
    (\<lambda>r. r\<lparr>gu_verified_at_ms := gu_verified_at_ms n\<rparr>) (it_installation_users it)"
  have "\<forall>r \<in> set ?ls. installation_user_valid r"
    by (rule update_rows_all) (use ok assms(2) in \<open>simp_all add: links_ok_def installation_user_valid_def\<close>)
  then have upd: "links_ok (it_users it) (it_installations it) ?ls" using ok unfolding links_ok_def link_key_def [abs_def] by simp
  have ins: "links_ok (it_users it) (it_installations it) (it_installation_users it @ [n])"
    if "insert_installation_user n it = Some x" for x
    using that ok assms(2) unfolding links_ok_def link_key_def [abs_def] insert_installation_user_def by (simp split: if_splits)
  show ?thesis
  proof (cases "findGitHubInstallationUser it (gu_installation_row_id n) (gu_user_id n)")
    case None
    then have i: "insert_installation_user n it = Some it'" using assms(1) by (auto simp: upsert_installation_user_def)
    then have "it' = it\<lparr>it_installation_users := it_installation_users it @ [n]\<rparr>" by (auto simp: insert_installation_user_def split: if_splits)
    then show ?thesis using ins [OF i] assms(3) by (simp add: identity_ok_def)
  next
    case (Some old)
    then have "it' = it\<lparr>it_installation_users := ?ls\<rparr>" using assms(1) by (auto simp: upsert_installation_user_def split: if_splits)
    then show ?thesis using upd assms(3) by (simp add: identity_ok_def)
  qed
qed

lemma installation_ok:
  assumes "upsertGitHubInstallationWithUser now gi gu n it = Inr (it', r)" "0 \<le> now" "identity_ok it"
  shows "identity_ok it'"
proof -
  obtain it1 g l where u: "installation_input_ok n" "upsert_installation (new_installation now (''ghi_'' @ gi) n) it = Some (it1, g)"
      "upsert_installation_user \<lparr>gu_id = ''ghiu_'' @ gu, gu_installation_row_id = gh_id g, gu_user_id = ii_user_id n, gu_created_at_ms = now,
        gu_verified_at_ms = now\<rparr> it1 = Some (it', l)"
    using assms(1) by (auto simp: upsertGitHubInstallationWithUser_def split: if_splits option.splits)
  have "identity_ok it1" by (rule upsert_installation_ok [OF u(2) new_installation_valid assms(3)]) (use u assms in simp_all)
  then show ?thesis
    by (rule upsert_link_ok [OF u(3), rotated]) (simp add: installation_user_valid_def starts_with_def time_valid_def assms(2))
qed

text \<open>Repository bindings keep their workspace, repository and installation.\<close>

lemma update_repositories_ok:
  assumes "identity_ok it" "\<And>r. rb_workspace_id (f r) = rb_workspace_id r" "\<And>r. rb_id (f r) = rb_id r"
    "\<And>r. rb_repository_id (f r) = rb_repository_id r" "\<And>r. rb_installation_row_id (f r) = rb_installation_row_id r"
    "\<And>r. repository_valid r \<Longrightarrow> p r \<Longrightarrow> repository_valid (f r)"
  shows "identity_ok (it\<lparr>it_repositories := update_rows p f (it_repositories it)\<rparr>)"
proof -
  have "repositories_ok (it_installations it) (it_workspaces it) (it_repositories it)" using assms(1) by (simp only: identity_ok_def)
  then have "repositories_ok (it_installations it) (it_workspaces it) (update_rows p f (it_repositories it))"
    unfolding repositories_ok_def using update_rows_all [of "it_repositories it" repository_valid p f] assms(2-6) by simp
  then show ?thesis using assms(1) by (simp add: identity_ok_def)
qed

text \<open>What \<open>updateRepositoryBindingMetadata\<close> may be given.\<close>

definition patch_ok :: "repository_patch \<Rightarrow> bool" where
  "patch_ok p \<longleftrightarrow> pred_option non_blank (rp_owner_login p) \<and> pred_option non_blank (rp_repository_name p)
     \<and> pred_option non_blank (rp_full_name p) \<and> pred_option branch_valid (rp_branch p)"

lemma given_or: "pred_option P x \<Longrightarrow> P y \<Longrightarrow> P (case x of None \<Rightarrow> y | Some z \<Rightarrow> z)"
  by (cases x) simp_all

lemma patch_keeps:
  assumes "identity_ok it" "patch_ok p" "0 \<le> now"
  shows "identity_ok (fst (updateRepositoryBindingMetadata now i p it))"
proof (cases "findRepositoryBindingByGitHubRepoId it i")
  case None
  then show ?thesis using assms(1) by (simp add: updateRepositoryBindingMetadata_def)
next
  case (Some b)
  then have "b \<in> set (it_repositories it)" using find_SomeD by (fastforce simp: findRepositoryBindingByGitHubRepoId_def)
  then have b: "repository_valid b" using assms(1) by (simp add: identity_ok_def repositories_ok_def)
  show ?thesis unfolding updateRepositoryBindingMetadata_def Some option.case fst_conv
    by (rule update_repositories_ok [OF assms(1)])
      (use assms(2,3) b in \<open>simp_all add: patch_ok_def repository_valid_def time_valid_def given_or\<close>)
qed

lemma scope_verified_ok:
  assumes "markRepositoryBindingScopeVerified now w it = Inr (it', r)" "0 \<le> now" "identity_ok it"
  shows "identity_ok it'"
proof -
  have it': "it' = it\<lparr>it_repositories := update_rows (\<lambda>r. rb_workspace_id r = w)
      (\<lambda>r. r\<lparr>rb_scope_verified_at_ms := Some now, rb_updated_at_ms := now\<rparr>) (it_repositories it)\<rparr>"
    using assms(1) by (auto simp: markRepositoryBindingScopeVerified_def split: if_splits)
  show ?thesis unfolding it' by (rule update_repositories_ok [OF assms(3)])
      (use assms(2) in \<open>simp_all add: repository_valid_def time_valid_def optional_time_valid_def\<close>)
qed

lemma scope_cleared_ok:
  assumes "0 \<le> now" "identity_ok it"
  shows "identity_ok (clearRepositoryBindingScopeVerified now w it)"
  unfolding clearRepositoryBindingScopeVerified_def
  by (rule update_repositories_ok [OF assms(2)]) (use assms(1) in \<open>simp_all add: repository_valid_def time_valid_def optional_time_valid_def\<close>)

lemma update_workspaces_ok:
  assumes "identity_ok it"
  shows "identity_ok (it\<lparr>it_workspaces := update_rows p (\<lambda>r. r\<lparr>wk_remote_url := u\<rparr>) (it_workspaces it)\<rparr>)"
  using assms unfolding identity_ok_def spaces_ok_def repositories_ok_def bootstraps_ok_def by simp

lemma reconcile_identity:
  assumes "reconcileRepositoryMetadataById now i o_login name full (it, c) = Inr ((it', c'), out)"
  shows "c' = fst (reconcileExecutionTargetRepositoryMetadata now ''github'' i full c)"
    and "\<exists>w. it' = it\<lparr>it_repositories := update_rows (\<lambda>r. rb_repository_id r = i)
               (\<lambda>r. r\<lparr>rb_owner_login := o_login, rb_repository_name := name, rb_full_name := full, rb_updated_at_ms := now\<rparr>) (it_repositories it),
             it_workspaces := update_rows (\<lambda>r. wk_id r = w) (\<lambda>r. r\<lparr>wk_remote_url := github_url full\<rparr>) (it_workspaces it)\<rparr>"
  using assms by (auto simp: reconcileRepositoryMetadataById_def Let_def split: option.splits)

lemma reconcile_identity_ok:
  assumes "reconcileRepositoryMetadataById now i o_login name full (it, c) = Inr ((it', c'), out)" "identity_ok it"
    "0 \<le> now" "non_blank o_login" "non_blank name" "non_blank full"
  shows "identity_ok it'"
proof -
  let ?it = "it\<lparr>it_repositories := update_rows (\<lambda>r. rb_repository_id r = i)
    (\<lambda>r. r\<lparr>rb_owner_login := o_login, rb_repository_name := name, rb_full_name := full, rb_updated_at_ms := now\<rparr>) (it_repositories it)\<rparr>"
  obtain w where it': "it' = it\<lparr>it_repositories := update_rows (\<lambda>r. rb_repository_id r = i)
        (\<lambda>r. r\<lparr>rb_owner_login := o_login, rb_repository_name := name, rb_full_name := full, rb_updated_at_ms := now\<rparr>) (it_repositories it),
      it_workspaces := update_rows (\<lambda>r. wk_id r = w) (\<lambda>r. r\<lparr>wk_remote_url := github_url full\<rparr>) (it_workspaces it)\<rparr>"
    using reconcile_identity(2) [OF assms(1)] by blast
  have "identity_ok ?it" by (rule update_repositories_ok [OF assms(2)]) (use assms(3-6) in \<open>simp_all add: repository_valid_def time_valid_def\<close>)
  from update_workspaces_ok [OF this, of "\<lambda>r. wk_id r = w" "github_url full"] show ?thesis unfolding it' by simp
qed

text \<open>A new workspace appends one row to each of its four tables.\<close>

lemma insert_rows_Some:
  assumes "insert_workspace_rows n it = Some it'"
  shows "it' = it\<lparr>it_workspaces := it_workspaces it @ [nw_workspace n], it_members := it_members it @ [nw_member n],
      it_repositories := it_repositories it @ [nw_repository n], it_bootstraps := it_bootstraps it @ [nw_bootstrap n]\<rparr>"
    and "wk_id (nw_workspace n) \<notin> wk_id ` set (it_workspaces it)" "wk_owner_user_id (nw_workspace n) \<in> us_id ` set (it_users it)"
    and "rb_id (nw_repository n) \<notin> rb_id ` set (it_repositories it)" "rb_repository_id (nw_repository n) \<notin> rb_repository_id ` set (it_repositories it)"
    and "rb_installation_row_id (nw_repository n) \<in> gh_id ` set (it_installations it)"
proof -
  obtain it1 it2 it3 where i: "insert_workspace (nw_workspace n) it = Some it1" "insert_member (nw_member n) it1 = Some it2"
      "insert_repository (nw_repository n) it2 = Some it3" "insert_bootstrap (nw_bootstrap n) it3 = Some it'"
    using assms unfolding insert_workspace_rows_def bind_eq_Some_conv by blast
  have 1: "it1 = it\<lparr>it_workspaces := it_workspaces it @ [nw_workspace n]\<rparr>" "wk_id (nw_workspace n) \<notin> wk_id ` set (it_workspaces it)"
    "wk_owner_user_id (nw_workspace n) \<in> us_id ` set (it_users it)" using i(1) by (auto simp: insert_workspace_def split: if_splits)
  have 2: "it2 = it1\<lparr>it_members := it_members it1 @ [nw_member n]\<rparr>" using i(2) unfolding insert_member_def by (simp split: if_splits)
  have 3: "it3 = it2\<lparr>it_repositories := it_repositories it2 @ [nw_repository n]\<rparr>" "rb_id (nw_repository n) \<notin> rb_id ` set (it_repositories it2)"
    "rb_repository_id (nw_repository n) \<notin> rb_repository_id ` set (it_repositories it2)"
    "rb_installation_row_id (nw_repository n) \<in> gh_id ` set (it_installations it2)"
    using i(3) unfolding insert_repository_def by (simp_all split: if_splits)
  have 4: "it' = it3\<lparr>it_bootstraps := it_bootstraps it3 @ [nw_bootstrap n]\<rparr>" using i(4) unfolding insert_bootstrap_def by (simp split: if_splits)
  show "it' = it\<lparr>it_workspaces := it_workspaces it @ [nw_workspace n], it_members := it_members it @ [nw_member n],
      it_repositories := it_repositories it @ [nw_repository n], it_bootstraps := it_bootstraps it @ [nw_bootstrap n]\<rparr>"
    unfolding 4 3(1) 2 1(1) by simp
  show "wk_id (nw_workspace n) \<notin> wk_id ` set (it_workspaces it)" "wk_owner_user_id (nw_workspace n) \<in> us_id ` set (it_users it)" by (fact 1)+
  show "rb_id (nw_repository n) \<notin> rb_id ` set (it_repositories it)" "rb_repository_id (nw_repository n) \<notin> rb_repository_id ` set (it_repositories it)"
    "rb_installation_row_id (nw_repository n) \<in> gh_id ` set (it_installations it)" using 3(2-4) by (simp_all add: 2 1(1))
qed

lemma create_Inr:
  assumes "createWorkspaceWithRepositoryBinding now a b c i it = Inr (it', n)"
  shows "n = new_workspace now a b c i" "insert_workspace_rows n it = Some it'" "workspace_input_ok i"
    "countOwnedWorkspacesForUser it (wi_user_id i) = 0"
  using assms by (auto simp: createWorkspaceWithRepositoryBinding_def Let_def split: if_splits option.splits)

lemma new_repository_valid:
  assumes "workspace_input_ok i" "0 \<le> now" "optional_time_valid (wi_scope_verified_at_ms i)"
  shows "repository_valid (nw_repository (new_workspace now a b c i))"
proof -
  have "CHR 0x00 \<notin> set (js_trim (wi_branch i))" using assms(1) set_trim by (fastforce simp: workspace_input_ok_def)
  then show ?thesis using assms
    unfolding repository_valid_def workspace_input_ok_def new_workspace_def branch_valid_def by (simp add: Let_def starts_with_def time_valid_def)
qed

lemma pending_valid: "0 \<le> now \<Longrightarrow> bootstrap_valid (pending_bootstrap now (''ws_'' @ a))"
  by (simp add: bootstrap_valid_def pending_bootstrap_def starts_with_def time_valid_def sha_valid_def optional_time_valid_def
      bootstrap_state_valid_def not_ready_def no_failure_def)

lemma not_owner:
  assumes "spaces_ok (it_users it) (it_workspaces it) (it_members it)" "countOwnedWorkspacesForUser it u = 0"
  shows "u \<notin> wk_owner_user_id ` set (it_workspaces it)"
proof -
  have "\<forall>m \<in> set (it_members it). \<not> (mr_user_id m = u \<and> mr_role m = ''owner'')"
    using assms(2) unfolding countOwnedWorkspacesForUser_def row_changes_def by (simp only: length_0_conv filter_empty_conv)
  then have "u \<notin> mr_user_id ` set (it_members it)" using member_ids(3) [OF assms(1)] by blast
  then show ?thesis unfolding map_ids [OF member_ids(2) [OF assms(1)]] .
qed

lemma create_workspace_ok:
  assumes "createWorkspaceWithRepositoryBinding now a b c i it = Inr (it', n)" "0 \<le> now" "optional_time_valid (wi_scope_verified_at_ms i)"
    "identity_ok it"
  shows "identity_ok it'"
proof -
  note n = create_Inr [OF assms(1)] and rows = insert_rows_Some [OF create_Inr(2) [OF assms(1)]]
  have sp: "spaces_ok (it_users it) (it_workspaces it) (it_members it)" using assms(4) by (simp only: identity_ok_def)
  have f: "wk_id (nw_workspace n) = ''ws_'' @ a" "wk_owner_user_id (nw_workspace n) = wi_user_id i" "mr_workspace_id (nw_member n) = ''ws_'' @ a"
      "mr_user_id (nw_member n) = wi_user_id i" "mr_role (nw_member n) = ''owner''" "rb_workspace_id (nw_repository n) = ''ws_'' @ a"
      "nw_bootstrap n = pending_bootstrap now (''ws_'' @ a)" "wb_workspace_id (pending_bootstrap now (''ws_'' @ a)) = ''ws_'' @ a"
    unfolding n(1) new_workspace_def pending_bootstrap_def Let_def by simp_all
  have "spaces_ok (it_users it) (it_workspaces it @ [nw_workspace n]) (it_members it @ [nw_member n])"
    using sp rows(2,3) not_owner [OF sp n(4)] unfolding spaces_ok_def by (simp add: f)
  moreover have "repositories_ok (it_installations it) (it_workspaces it @ [nw_workspace n]) (it_repositories it @ [nw_repository n])"
    using assms(4) rows(4-6) new_repository_valid [OF n(3) assms(2,3), of a b c, folded n(1)]
    unfolding identity_ok_def repositories_ok_def by (simp add: f)
  moreover have "bootstraps_ok (it_workspaces it @ [nw_workspace n]) (it_bootstraps it @ [nw_bootstrap n])"
    using assms(4) pending_valid [OF assms(2), of a] f(8) unfolding identity_ok_def bootstraps_ok_def by (simp add: f(1,7))
  ultimately show ?thesis using assms(4) unfolding rows(1) identity_ok_def by simp
qed

section \<open>Bootstrap attempts\<close>

lemma update_bootstrap_ok:
  assumes "identity_ok it" "\<And>r. p r \<Longrightarrow> wb_workspace_id r = wb_workspace_id new" "bootstrap_valid new"
  shows "identity_ok (update_bootstrap p new it)"
proof -
  have "map wb_workspace_id (update_rows p (\<lambda>_. new) bs) = map wb_workspace_id bs" for bs
    using assms(2) by (auto simp: update_rows_def)
  moreover have "\<forall>r \<in> set (update_rows p (\<lambda>_. new) (it_bootstraps it)). bootstrap_valid r"
    by (rule update_rows_all) (use assms in \<open>simp_all add: identity_ok_def bootstraps_ok_def\<close>)
  ultimately show ?thesis using assms(1) unfolding identity_ok_def bootstraps_ok_def update_bootstrap_def by simp
qed

lemma bootstrap_row:
  assumes "identity_ok it" "findWorkspaceBootstrapByWorkspaceId it w = Some b"
  shows "bootstrap_valid b" "wb_workspace_id b = w" "b \<in> set (it_bootstraps it)"
proof -
  have "find (\<lambda>r. wb_workspace_id r = w) (it_bootstraps it) = Some b" using assms(2) by (simp only: findWorkspaceBootstrapByWorkspaceId_def)
  from find_SomeD [OF this] show "wb_workspace_id b = w" "b \<in> set (it_bootstraps it)" by simp_all
  then show "bootstrap_valid b" using assms(1) by (simp add: identity_ok_def bootstraps_ok_def)
qed

lemma begin_Inr:
  assumes "beginWorkspaceBootstrapAttempt now u w it = Inr (it', x)"
  shows "\<exists>b. findWorkspaceBootstrapByWorkspaceId it w = Some b \<and> x = (''wba_'' @ u, begun_attempt now (''wba_'' @ u) b)
    \<and> it' = update_bootstrap (\<lambda>r. wb_workspace_id r = w) (begun_attempt now (''wba_'' @ u) b) it"
  using assms by (auto simp: beginWorkspaceBootstrapAttempt_def Let_def split: option.splits)

lemma begin_attempt_ok:
  assumes "beginWorkspaceBootstrapAttempt now u w it = Inr (it', x)" "0 \<le> now" "identity_ok it"
  shows "identity_ok it'"
proof -
  obtain b where b: "findWorkspaceBootstrapByWorkspaceId it w = Some b"
      "it' = update_bootstrap (\<lambda>r. wb_workspace_id r = w) (begun_attempt now (''wba_'' @ u) b) it"
    using begin_Inr [OF assms(1)] by blast
  note r = bootstrap_row [OF assms(3) b(1)]
  have "bootstrap_valid (begun_attempt now (''wba_'' @ u) b)"
    using r(1) assms(2) attempt_non_blank unfolding bootstrap_valid_def begun_attempt_def
    by (simp add: time_valid_def sha_valid_def optional_time_valid_def bootstrap_state_valid_def not_ready_def no_failure_def)
  then show ?thesis unfolding b(2) by (rule update_bootstrap_ok [OF assms(3), rotated]) (simp add: r(2) begun_attempt_def)
qed

lemma end_Inr:
  assumes "end_attempt w a f it = Inr (it', x)"
  shows "\<exists>b. findWorkspaceBootstrapByWorkspaceId it w = Some b \<and> wb_last_attempt_id b = Some a \<and> wb_state b = BS_applying \<and> x = f b
    \<and> it' = update_bootstrap (current_attempt w a) (f b) it"
  using assms by (auto simp: end_attempt_def split: option.splits if_splits)

lemma end_ok:
  assumes "end_attempt w a f it = Inr (it', x)" "identity_ok it" "\<And>b. bootstrap_valid b \<Longrightarrow> bootstrap_valid (f b)"
    "\<And>b. wb_workspace_id (f b) = wb_workspace_id b"
  shows "identity_ok it'"
proof -
  obtain b where b: "findWorkspaceBootstrapByWorkspaceId it w = Some b" "it' = update_bootstrap (current_attempt w a) (f b) it"
    using end_Inr [OF assms(1)] by blast
  note r = bootstrap_row [OF assms(2) b(1)]
  show ?thesis unfolding b(2) by (rule update_bootstrap_ok) (use r assms(2-4) in \<open>simp_all add: current_attempt_def\<close>)
qed

lemma first_sha_valid: "sha_valid x \<Longrightarrow> sha_valid y \<Longrightarrow> sha_valid (first_given x y)"
  by (cases x) (simp_all add: first_given_def)

lemma ready_ok:
  assumes "markWorkspaceBootstrapReady now w a s base it = Inr (it', x)" "0 \<le> now" "identity_ok it"
  shows "identity_ok it'"
proof -
  obtain y z where y: "normalizeSha s = Inr y" "optional_sha base = Inr z"
    using assms(1) by (auto simp: markWorkspaceBootstrapReady_def ebind_eq_Inr)
  note v = normalized_sha [OF y(1)] optional_sha_valid [OF y(2)]
  show ?thesis
    by (rule end_ok [OF assms(1) [unfolded markWorkspaceBootstrapReady_def y ebind_simps] assms(3)])
      (use v assms(2) in \<open>simp_all add: bootstrap_valid_def bootstrap_state_valid_def first_sha_valid time_valid_def optional_time_valid_def
        no_failure_def sha_valid_def [of "Some y"]\<close>)
qed

lemma failed_valid:
  assumes "non_blank msg" "sha_valid base" "0 \<le> now" "(st, k) \<in> {(BS_retryable_failure, BK_retryable), (BS_manual_recovery, BK_manual)}"
    "bootstrap_valid b"
  shows "bootstrap_valid (failed_attempt now st k (sanitizeErrorCode code) (sanitizeErrorMessage msg) base b)"
proof -
  have "given_text (Some (sanitizeErrorCode code))" "given_text (Some (sanitizeErrorMessage msg))"
    using code_non_blank message_non_blank [OF assms(1)] by (simp_all add: given_text_def)
  moreover have "sha_valid (first_given base (wb_base_commit_sha b))" using first_sha_valid assms(2,5) by (simp add: bootstrap_valid_def)
  ultimately show ?thesis using assms(3-5)
    by (auto simp: bootstrap_valid_def bootstrap_state_valid_def failed_attempt_def time_valid_def optional_time_valid_def not_ready_def
        failure_of_def sha_valid_def [of None])
qed

lemma failure_ok:
  assumes "end_attempt w a (failed_attempt now st k (sanitizeErrorCode code) (sanitizeErrorMessage msg) base) it = Inr (it', x)"
    "non_blank msg" "sha_valid base" "0 \<le> now" "(st, k) \<in> {(BS_retryable_failure, BK_retryable), (BS_manual_recovery, BK_manual)}" "identity_ok it"
  shows "identity_ok it'"
  by (rule end_ok [OF assms(1,6) failed_valid [OF assms(2-5)]]) (simp_all add: failed_attempt_def)

lemma retryable_Inr:
  assumes "markWorkspaceBootstrapRetryableFailure now w a code msg base it = Inr (it', x)"
  shows "\<exists>z. sha_valid z \<and> end_attempt w a (failed_attempt now BS_retryable_failure BK_retryable (sanitizeErrorCode code) (sanitizeErrorMessage msg) z) it = Inr (it', x)"
  using assms optional_sha_valid by (auto simp: markWorkspaceBootstrapRetryableFailure_def ebind_eq_Inr)

lemma manual_Inr:
  assumes "markWorkspaceBootstrapManualRecovery now w a code msg base it = Inr (it', x)"
  shows "\<exists>z. sha_valid z \<and> end_attempt w a (failed_attempt now BS_manual_recovery BK_manual (sanitizeErrorCode code) (sanitizeErrorMessage msg) z) it = Inr (it', x)"
  using assms optional_sha_valid by (auto simp: markWorkspaceBootstrapManualRecovery_def ebind_eq_Inr)

lemma retryable_ok:
  "markWorkspaceBootstrapRetryableFailure now w a code msg base it = Inr (it', x) \<Longrightarrow> non_blank msg \<Longrightarrow> 0 \<le> now \<Longrightarrow> identity_ok it \<Longrightarrow> identity_ok it'"
  by (drule retryable_Inr) (elim exE conjE, rule failure_ok, assumption+, simp_all)

lemma manual_ok:
  "markWorkspaceBootstrapManualRecovery now w a code msg base it = Inr (it', x) \<Longrightarrow> non_blank msg \<Longrightarrow> 0 \<le> now \<Longrightarrow> identity_ok it \<Longrightarrow> identity_ok it'"
  by (drule manual_Inr) (elim exE conjE, rule failure_ok, assumption+, simp_all)

end
