(* ===== verification/Identity_Protocol.thy ===== *)
theory Identity_Protocol
  imports Identity_Lifecycle Control_Owners
begin

text \<open>
  The steps of the identity store, the history of the bootstrap attempts they leave behind, and the one database the
  identity store shares with the control store.
\<close>

section \<open>Attempts\<close>

datatype attempt_event = Attempt_opened ws_id | Attempt_begun ws_id string | Attempt_ended ws_id bootstrap_state

primrec event_workspace :: "attempt_event \<Rightarrow> ws_id" where
  "event_workspace (Attempt_opened w) = w"
| "event_workspace (Attempt_begun w a) = w"
| "event_workspace (Attempt_ended w s) = w"

definition last_event :: "ws_id \<Rightarrow> attempt_event list \<Rightarrow> attempt_event option" where
  "last_event w h = find (\<lambda>e. event_workspace e = w) h"

type_synonym attempt_view = "bootstrap_state \<times> int \<times> string option"

text \<open>The attempts of a workspace as its history, newest first, tells them: state, number of attempts and the last one.\<close>

fun attempts :: "ws_id \<Rightarrow> attempt_event list \<Rightarrow> attempt_view option" where
  "attempts w [] = None"
| "attempts w (e # h) = (if event_workspace e \<noteq> w then attempts w h else (case e of
      Attempt_opened _ \<Rightarrow> Some (BS_pending, 0, None)
    | Attempt_begun _ a \<Rightarrow> map_option (\<lambda>(s, n, l). (BS_applying, n + 1, Some a)) (attempts w h)
    | Attempt_ended _ s \<Rightarrow> map_option (\<lambda>(_, n, l). (s, n, l)) (attempts w h)))"

definition row_attempts :: "bootstrap_row \<Rightarrow> attempt_view" where
  "row_attempts b = (wb_state b, wb_attempt_count b, wb_last_attempt_id b)"

text \<open>Only an attempt under way ends, and only a workspace that was opened has attempts.\<close>

fun history_ok :: "attempt_event list \<Rightarrow> bool" where
  "history_ok [] = True"
| "history_ok (e # h) \<longleftrightarrow> history_ok h \<and> (case e of
      Attempt_opened w \<Rightarrow> attempts w h = None
    | Attempt_begun w a \<Rightarrow> attempts w h \<noteq> None
    | Attempt_ended w s \<Rightarrow> s \<noteq> BS_applying \<and> s \<noteq> BS_pending \<and> attempts w h \<noteq> None)"

section \<open>Steps\<close>

type_synonym identity_state = "attempt_event list \<times> identity_data"

inductive identity_step :: "identity_state \<Rightarrow> identity_state \<Rightarrow> bool" where
  login: "resolveOrCreateExternalUser now u e i it = Inr (it', r) \<Longrightarrow> identity_step (h, it) (h, it')"
| metadata: "updateExternalIdentityMetadata now p s l e it = Inr (it', r') \<Longrightarrow> identity_step (h, it) (h, it')"
| admin: "setUserAdmin u v it = Inr (it', r') \<Longrightarrow> identity_step (h, it) (h, it')"
| account: "identity_step (h, it) (h, it\<lparr>it_users := update_rows (\<lambda>r. us_id r = u) (\<lambda>r. r\<lparr>us_disabled_at := t\<rparr>) (it_users it)\<rparr>)"
| installation: "upsertGitHubInstallationWithUser now gi gu n it = Inr (it', g) \<Longrightarrow> 0 \<le> now \<Longrightarrow> identity_step (h, it) (h, it')"
| patch: "patch_ok q \<Longrightarrow> 0 \<le> now \<Longrightarrow> identity_step (h, it) (h, fst (updateRepositoryBindingMetadata now k q it))"
| verified: "markRepositoryBindingScopeVerified now w it = Inr (it', r') \<Longrightarrow> 0 \<le> now \<Longrightarrow> identity_step (h, it) (h, it')"
| cleared: "0 \<le> now \<Longrightarrow> identity_step (h, it) (h, clearRepositoryBindingScopeVerified now w it)"
| renamed: "reconcileRepositoryMetadataById now k oo n f (it, c) = Inr ((it', c'), out) \<Longrightarrow> 0 \<le> now \<Longrightarrow> non_blank oo \<Longrightarrow> non_blank n \<Longrightarrow>
    non_blank f \<Longrightarrow> identity_step (h, it) (h, it')"
| opened: "createWorkspaceWithRepositoryBinding now wu mu gu wi it = Inr (it', rows) \<Longrightarrow> 0 \<le> now \<Longrightarrow>
    optional_time_valid (wi_scope_verified_at_ms wi) \<Longrightarrow> identity_step (h, it) (Attempt_opened (wk_id (nw_workspace rows)) # h, it')"
| begun: "beginWorkspaceBootstrapAttempt now bu w it = Inr (it', (a, b)) \<Longrightarrow> 0 \<le> now \<Longrightarrow> identity_step (h, it) (Attempt_begun w a # h, it')"
| ready: "markWorkspaceBootstrapReady now w a s base it = Inr (it', b) \<Longrightarrow> 0 \<le> now \<Longrightarrow> identity_step (h, it) (Attempt_ended w BS_ready # h, it')"
| retryable: "markWorkspaceBootstrapRetryableFailure now w a code msg base it = Inr (it', b) \<Longrightarrow> 0 \<le> now \<Longrightarrow> non_blank msg \<Longrightarrow>
    identity_step (h, it) (Attempt_ended w BS_retryable_failure # h, it')"
| manual: "markWorkspaceBootstrapManualRecovery now w a code msg base it = Inr (it', b) \<Longrightarrow> 0 \<le> now \<Longrightarrow> non_blank msg \<Longrightarrow>
    identity_step (h, it) (Attempt_ended w BS_manual_recovery # h, it')"

lemma account_ok: "identity_ok it \<Longrightarrow> identity_ok (it\<lparr>it_users := update_rows p (\<lambda>r. r\<lparr>us_disabled_at := t\<rparr>) (it_users it)\<rparr>)"
  by (rule update_users_ok) simp_all

lemma identity_step_ok: "identity_step s s' \<Longrightarrow> identity_ok (snd s) \<Longrightarrow> identity_ok (snd s')"
proof (induction rule: identity_step.induct)
  case login
  then show ?case by (auto dest: resolve_ok)
next
  case metadata
  then show ?case by (auto dest: metadata_ok)
next
  case admin
  then show ?case by (auto dest: admin_ok)
next
  case installation
  then show ?case by (auto dest: installation_ok)
next
  case verified
  then show ?case by (auto dest: scope_verified_ok)
next
  case renamed
  then show ?case by (auto dest: reconcile_identity_ok)
next
  case opened
  then show ?case by (auto dest: create_workspace_ok)
next
  case begun
  then show ?case by (auto dest: begin_attempt_ok)
next
  case ready
  then show ?case by (auto dest: ready_ok)
next
  case retryable
  then show ?case by (auto dest: retryable_ok)
next
  case manual
  then show ?case by (auto dest: manual_ok)
qed (simp_all add: account_ok patch_keeps scope_cleared_ok)

section \<open>The history tells the bootstrap rows\<close>

definition follows :: "identity_state \<Rightarrow> bool" where
  "follows s \<longleftrightarrow> history_ok (fst s)
     \<and> (\<forall>w. map_option row_attempts (findWorkspaceBootstrapByWorkspaceId (snd s) w) = attempts w (fst s))"

lemma same_bootstraps:
  assumes "it_bootstraps it' = it_bootstraps it"
  shows "findWorkspaceBootstrapByWorkspaceId it' = findWorkspaceBootstrapByWorkspaceId it"
  by (rule ext) (simp only: findWorkspaceBootstrapByWorkspaceId_def assms)

lemma follows_same: "follows (h, it) \<Longrightarrow> it_bootstraps it' = it_bootstraps it \<Longrightarrow> follows (h, it')"
  unfolding follows_def snd_conv fst_conv by (simp add: same_bootstraps [of it' it])

lemma find_updated:
  assumes "\<And>r. p r \<Longrightarrow> wb_workspace_id r = wb_workspace_id new" "findWorkspaceBootstrapByWorkspaceId it (wb_workspace_id new) = Some b" "p b"
  shows "findWorkspaceBootstrapByWorkspaceId (update_bootstrap p new it) w
    = (if w = wb_workspace_id new then Some new else findWorkspaceBootstrapByWorkspaceId it w)"
proof -
  have "find (\<lambda>r. wb_workspace_id r = w) (update_rows p (\<lambda>_. new) bs) = map_option (\<lambda>r. if p r then new else r) (find (\<lambda>r. wb_workspace_id r = w) bs)" for bs
    using assms(1) by (induction bs) (auto simp: update_rows_def)
  then have u: "findWorkspaceBootstrapByWorkspaceId (update_bootstrap p new it) w
      = map_option (\<lambda>r. if p r then new else r) (findWorkspaceBootstrapByWorkspaceId it w)"
    by (simp add: findWorkspaceBootstrapByWorkspaceId_def update_bootstrap_def)
  show ?thesis
  proof (cases "w = wb_workspace_id new")
    case False
    have "\<not> p r" if "findWorkspaceBootstrapByWorkspaceId it w = Some r" for r
      using assms(1) [of r] find_SomeD [OF that [unfolded findWorkspaceBootstrapByWorkspaceId_def]] False by auto
    then show ?thesis using False u by (cases "findWorkspaceBootstrapByWorkspaceId it w") simp_all
  qed (use u assms(2,3) in simp)
qed

text \<open>An attempt that begins or ends changes the row of its own workspace.\<close>

lemma follows_update:
  assumes "follows (h, it)" "findWorkspaceBootstrapByWorkspaceId it w = Some b" "p b" "\<And>r. p r \<Longrightarrow> wb_workspace_id r = w"
    "wb_workspace_id new = w" "event_workspace e = w" "history_ok (e # h)" "attempts w (e # h) = Some (row_attempts new)"
  shows "follows (e # h, update_bootstrap p new it)"
proof -
  have f: "findWorkspaceBootstrapByWorkspaceId (update_bootstrap p new it) v
      = (if v = w then Some new else findWorkspaceBootstrapByWorkspaceId it v)" for v
    using find_updated [of p new it b v] assms(2-5) by simp
  have "map_option row_attempts (findWorkspaceBootstrapByWorkspaceId (update_bootstrap p new it) v) = attempts v (e # h)" for v
    using assms(1,6,8) f [of v] by (cases "v = w") (simp_all add: follows_def)
  then show ?thesis using assms(7) by (simp add: follows_def)
qed

lemma attempts_row: "follows (h, it) \<Longrightarrow> findWorkspaceBootstrapByWorkspaceId it w = Some b \<Longrightarrow> attempts w h = Some (row_attempts b)"
  unfolding follows_def by (metis fst_conv option.simps(9) snd_conv)

lemma follows_begin:
  assumes "beginWorkspaceBootstrapAttempt now u w it = Inr (it', (a, c))" "follows (h, it)"
  shows "follows (Attempt_begun w a # h, it')"
proof -
  obtain b where b: "findWorkspaceBootstrapByWorkspaceId it w = Some b" "a = ''wba_'' @ u"
      "it' = update_bootstrap (\<lambda>r. wb_workspace_id r = w) (begun_attempt now a b) it" using begin_Inr [OF assms(1)] by blast
  have w: "wb_workspace_id b = w" using find_SomeD [OF b(1) [unfolded findWorkspaceBootstrapByWorkspaceId_def]] by simp
  note at = attempts_row [OF assms(2) b(1)]
  show ?thesis unfolding b(3)
    by (rule follows_update [OF assms(2) b(1)])
      (use w at assms(2) in \<open>simp_all add: begun_attempt_def row_attempts_def follows_def\<close>)
qed

lemma follows_end:
  assumes "end_attempt w a f it = Inr (it', c)" "follows (h, it)" "\<And>b. wb_state (f b) = st" "\<And>b. wb_attempt_count (f b) = wb_attempt_count b"
    "\<And>b. wb_last_attempt_id (f b) = wb_last_attempt_id b" "\<And>b. wb_workspace_id (f b) = wb_workspace_id b" "st \<noteq> BS_applying" "st \<noteq> BS_pending"
  shows "follows (Attempt_ended w st # h, it')"
proof -
  obtain b where b: "findWorkspaceBootstrapByWorkspaceId it w = Some b" "wb_last_attempt_id b = Some a" "wb_state b = BS_applying"
      "it' = update_bootstrap (current_attempt w a) (f b) it" using end_Inr [OF assms(1)] by blast
  have w: "wb_workspace_id b = w" using find_SomeD [OF b(1) [unfolded findWorkspaceBootstrapByWorkspaceId_def]] by simp
  note at = attempts_row [OF assms(2) b(1)]
  show ?thesis unfolding b(4)
    by (rule follows_update [OF assms(2) b(1)])
      (use w at b assms(2-8) in \<open>simp_all add: current_attempt_def row_attempts_def follows_def\<close>)
qed

lemma follows_open:
  assumes "createWorkspaceWithRepositoryBinding now a b c i it = Inr (it', n)" "follows (h, it)" "identity_ok it"
  shows "follows (Attempt_opened (wk_id (nw_workspace n)) # h, it')"
proof -
  note rows = insert_rows_Some [OF create_Inr(2) [OF assms(1)]]
  have n: "nw_bootstrap n = pending_bootstrap now (wk_id (nw_workspace n))"
    unfolding create_Inr(1) [OF assms(1)] new_workspace_def Let_def by simp
  have "map wb_workspace_id (it_bootstraps it) = map wk_id (it_workspaces it)" using assms(3) by (simp add: identity_ok_def bootstraps_ok_def)
  then have fresh: "wk_id (nw_workspace n) \<notin> wb_workspace_id ` set (it_bootstraps it)" using rows(2) map_ids by fastforce
  then have none: "findWorkspaceBootstrapByWorkspaceId it (wk_id (nw_workspace n)) = None"
    unfolding findWorkspaceBootstrapByWorkspaceId_def find_key_None .
  then have "attempts (wk_id (nw_workspace n)) h = None" using assms(2) unfolding follows_def by (metis fst_conv option.simps(8) snd_conv)
  moreover have "findWorkspaceBootstrapByWorkspaceId it' v = (if v = wk_id (nw_workspace n) then Some (nw_bootstrap n)
      else findWorkspaceBootstrapByWorkspaceId it v)" for v
    using none unfolding rows(1) findWorkspaceBootstrapByWorkspaceId_def
    by (auto simp: find_snoc n pending_bootstrap_def split: option.split)
  ultimately show ?thesis using assms(2) by (simp add: follows_def n pending_bootstrap_def row_attempts_def)
qed

lemma step_follows: "identity_step s s' \<Longrightarrow> identity_ok (snd s) \<Longrightarrow> follows s \<Longrightarrow> follows s'"
proof (induction rule: identity_step.induct)
  case (login now u e i it it' r h)
  have "it_bootstraps it' = it_bootstraps it"
    using resolve_Inr [OF login(1)] by (auto simp: update_external_def insert_user_Some insert_external_Some)
  then show ?case using login(3) by (rule follows_same [rotated])
next
  case (metadata now p s l e it it' r' h)
  have "it_bootstraps it' = it_bootstraps it"
    using metadata(1) by (auto simp: updateExternalIdentityMetadata_def update_external_def split: option.splits)
  then show ?case using metadata(3) by (rule follows_same [rotated])
next
  case (admin u v it it' r' h)
  have "it_bootstraps it' = it_bootstraps it" using admin(1) by (auto simp: setUserAdmin_def split: if_splits)
  then show ?case using admin(3) by (rule follows_same [rotated])
next
  case (account h it u t)
  show ?case by (rule follows_same [OF account(2)]) simp
next
  case (installation now gi gu n it it' g h)
  have "it_bootstraps it' = it_bootstraps it" using installation(1)
    by (auto simp: upsertGitHubInstallationWithUser_def upsert_installation_def upsert_installation_user_def insert_installation_def
        insert_installation_user_def Let_def split: if_splits option.splits)
  then show ?case using installation(4) by (rule follows_same [rotated])
next
  case (patch q now h it k)
  show ?case by (rule follows_same [OF patch(4)]) (simp add: updateRepositoryBindingMetadata_def split: option.split)
next
  case (verified now w it it' r' h)
  have "it_bootstraps it' = it_bootstraps it" using verified(1) by (auto simp: markRepositoryBindingScopeVerified_def split: if_splits)
  then show ?case using verified(4) by (rule follows_same [rotated])
next
  case (cleared now h it w)
  show ?case by (rule follows_same [OF cleared(3)]) (simp add: clearRepositoryBindingScopeVerified_def)
next
  case (renamed now k oo n f it c it' c' out h)
  have "it_bootstraps it' = it_bootstraps it" using reconcile_identity(2) [OF renamed(1)] by auto
  then show ?case using renamed(7) by (rule follows_same [rotated])
next
  case opened
  then show ?case by (auto intro: follows_open)
next
  case begun
  then show ?case by (auto intro: follows_begin)
next
  case (ready now w a s base it it' b h)
  obtain y z where "normalizeSha s = Inr y" "optional_sha base = Inr z"
    using ready(1) by (auto simp: markWorkspaceBootstrapReady_def ebind_eq_Inr)
  from ready(1) [unfolded markWorkspaceBootstrapReady_def this ebind_simps] ready(4) show ?case by (rule follows_end) simp_all
next
  case (retryable now w a code msg base it it' b h)
  obtain z where "end_attempt w a (failed_attempt now BS_retryable_failure BK_retryable (sanitizeErrorCode code) (sanitizeErrorMessage msg) z) it = Inr (it', b)"
    using retryable_Inr [OF retryable(1)] by blast
  then show ?case using retryable(5) by (rule follows_end) (simp_all add: failed_attempt_def)
next
  case (manual now w a code msg base it it' b h)
  obtain z where "end_attempt w a (failed_attempt now BS_manual_recovery BK_manual (sanitizeErrorCode code) (sanitizeErrorMessage msg) z) it = Inr (it', b)"
    using manual_Inr [OF manual(1)] by blast
  then show ?case using manual(5) by (rule follows_end) (simp_all add: failed_attempt_def)
qed

definition protocol_ok :: "identity_state \<Rightarrow> bool" where
  "protocol_ok s \<longleftrightarrow> identity_ok (snd s) \<and> follows s"

definition no_identity :: identity_state where "no_identity = ([], empty_identity)"

lemma no_identity_ok [simp]: "protocol_ok no_identity"
  by (simp add: protocol_ok_def follows_def no_identity_def empty_identity_def findWorkspaceBootstrapByWorkspaceId_def
      empty_identity_ok [unfolded empty_identity_def])

interpretation identity: preserved_by identity_step protocol_ok
  by unfold_locales (use identity_step_ok step_follows in \<open>auto simp: protocol_ok_def\<close>)

section \<open>What no step takes away\<close>

definition identity_key :: "external_row \<Rightarrow> string \<times> string \<times> user_id" where
  "identity_key x = (xt_provider x, xt_provider_subject x, xt_user_id x)"

definition keeps_identity :: "identity_state \<Rightarrow> identity_state \<Rightarrow> bool" where
  "keeps_identity s s' \<longleftrightarrow> us_id ` set (it_users (snd s)) \<subseteq> us_id ` set (it_users (snd s'))
     \<and> wk_id ` set (it_workspaces (snd s)) \<subseteq> wk_id ` set (it_workspaces (snd s'))
     \<and> identity_key ` set (it_externals (snd s)) \<subseteq> identity_key ` set (it_externals (snd s'))"

lemma keeps_identity_same:
  "it_users it' = it_users it \<Longrightarrow> it_workspaces it' = it_workspaces it \<Longrightarrow> it_externals it' = it_externals it \<Longrightarrow> keeps_identity (h, it) (h', it')"
  by (simp add: keeps_identity_def)

lemma update_external_keys: "keeps_identity (h, it) (h', update_external now i l e it)"
  unfolding keeps_identity_def update_external_def identity_key_def [abs_def] by simp

lemma step_keeps_identity: "identity_step s s' \<Longrightarrow> keeps_identity s s'"
proof (induction rule: identity_step.induct)
  case (login now u e i it it' r h)
  show ?case using resolve_Inr [OF login]
    by (elim disjE exE conjE, simp add: update_external_keys, auto simp: insert_user_Some insert_external_Some keeps_identity_def)
next
  case (metadata now p s l e it it' r' h)
  then show ?case by (auto simp: updateExternalIdentityMetadata_def update_external_keys split: option.splits)
next
  case (admin u v it it' r' h)
  then show ?case by (auto simp: setUserAdmin_def keeps_identity_def split: if_splits)
next
  case (installation now gi gu n it it' g h)
  then show ?case by (intro keeps_identity_same; auto simp: upsertGitHubInstallationWithUser_def upsert_installation_def
        upsert_installation_user_def insert_installation_def insert_installation_user_def Let_def split: if_splits option.splits)
next
  case (patch q now h it k)
  show ?case by (intro keeps_identity_same) (simp_all add: updateRepositoryBindingMetadata_def split: option.split)
next
  case (verified now w it it' r' h)
  then show ?case by (intro keeps_identity_same; auto simp: markRepositoryBindingScopeVerified_def split: if_splits)
next
  case (renamed now k oo n f it c it' c' out h)
  then show ?case using reconcile_identity(2) [OF renamed(1)] by (auto simp: keeps_identity_def)
next
  case (opened now wu mu gu wi it it' rows h)
  show ?case unfolding insert_rows_Some(1) [OF create_Inr(2) [OF opened(1)]] keeps_identity_def by auto
next
  case (begun now bu w it it' a b h)
  then show ?case using begin_Inr [OF begun(1)] by (auto simp: keeps_identity_def update_bootstrap_def)
next
  case (ready now w a s base it it' b h)
  then show ?case by (intro keeps_identity_same; auto simp: markWorkspaceBootstrapReady_def ebind_eq_Inr update_bootstrap_def dest!: end_Inr)
next
  case (retryable now w a code msg base it it' b h)
  then show ?case by (intro keeps_identity_same; auto simp: update_bootstrap_def dest!: retryable_Inr end_Inr)
next
  case (manual now w a code msg base it it' b h)
  then show ?case by (intro keeps_identity_same; auto simp: update_bootstrap_def dest!: manual_Inr end_Inr)
qed (simp_all add: keeps_identity_def clearRepositoryBindingScopeVerified_def)

lemma keeps_identity_refl: "keeps_identity s s"
  by (simp add: keeps_identity_def)

lemma keeps_identity_trans: "keeps_identity s t \<Longrightarrow> keeps_identity t u \<Longrightarrow> keeps_identity s u"
  unfolding keeps_identity_def by (meson order_trans)

interpretation kept_identity: monotone_by identity_step protocol_ok keeps_identity
  by unfold_locales (rule keeps_identity_refl, erule (1) keeps_identity_trans, erule step_keeps_identity)

section \<open>One database for both stores\<close>

text \<open>
  A step of the identity store, which the control store sees through \<open>control_view\<close>; a step of the control store, which
  leaves the identity tables alone; or the new name of a repository, which is written to the tables of both.
\<close>

inductive database_step :: "identity_state \<times> control_db \<Rightarrow> identity_state \<times> control_db \<Rightarrow> bool" where
  identity_side: "identity_step s s' \<Longrightarrow> database_step (s, c) (s', control_view (snd s') c)"
| control_side: "control_step c c' \<Longrightarrow> control_view (snd s) c' = c' \<Longrightarrow> database_step (s, c) (s, c')"
| both_sides: "reconcileRepositoryMetadataById now k oo n f (it, c) = Inr ((it', c'), out) \<Longrightarrow> 0 \<le> now \<Longrightarrow> non_blank oo \<Longrightarrow> non_blank n \<Longrightarrow>
    non_blank f \<Longrightarrow> database_step ((h, it), c) ((h, it'), control_view it' c')"

definition database_ok :: "identity_state \<times> control_db \<Rightarrow> bool" where
  "database_ok s \<longleftrightarrow> protocol_ok (fst s) \<and> control_ok (snd s) \<and> control_view (snd (fst s)) (snd s) = snd s"

lemma view_view [simp]: "control_view it (control_view it' c) = control_view it c"
  by (simp add: control_view_def)

lemma view_step:
  assumes "identity_ok it'" "us_id ` set (it_users it) \<subseteq> us_id ` set (it_users it')" "wk_id ` set (it_workspaces it) \<subseteq> wk_id ` set (it_workspaces it')"
    "control_view it c = c"
  shows "control_step c (control_view it' c)"
proof -
  let ?us = "map (\<lambda>r. \<lparr>u_id = us_id r, u_disabled_at = us_disabled_at r\<rparr>)"
    and ?ms = "map (\<lambda>r. \<lparr>m_workspace_id = mr_workspace_id r, m_user_id = mr_user_id r, m_role = mr_role r\<rparr>)"
  have sp: "spaces_ok (it_users it') (it_workspaces it') (it_members it')" and us: "users_ok (it_users it')"
    using assms(1) by (simp_all only: identity_ok_def)
  have "users c = ?us (it_users it)" "workspaces c = map wk_id (it_workspaces it)"
    using arg_cong [OF assms(4), of users] arg_cong [OF assms(4), of workspaces] by (simp_all add: control_view_def)
  moreover have "distinct (map u_id (?us (it_users it')))" using us by (simp add: users_ok_def comp_def)
  moreover have "distinct (map member_key (?ms (it_members it')))"
  proof -
    have "distinct (map mr_workspace_id (it_members it'))" using sp member_ids(1) [OF sp] by (simp add: spaces_ok_def)
    then show ?thesis by (simp add: comp_def member_key_def distinct_map inj_on_def)
  qed
  ultimately show ?thesis unfolding control_view_def
    by (intro control_step.identity) (use assms(2,3) in \<open>simp_all add: image_image\<close>)
qed

lemma control_view_reconcile:
  "control_view it (fst (reconcileExecutionTargetRepositoryMetadata now p e n c)) = fst (reconcileExecutionTargetRepositoryMetadata now p e n (control_view it c))"
  by (simp add: control_view_def reconcileExecutionTargetRepositoryMetadata_def Let_def)

lemma database_step_ok: "database_step s s' \<Longrightarrow> database_ok s \<Longrightarrow> database_ok s'"
proof (induction rule: database_step.induct)
  case (identity_side s s' c)
  have p: "protocol_ok s'" using identity.inv_step [OF _ identity_side(1)] identity_side(2) by (simp add: database_ok_def)
  then have "control_step c (control_view (snd s') c)"
    using step_keeps_identity [OF identity_side(1)] identity_side(2)
    by (intro view_step [of "snd s'" "snd s"]) (simp_all add: database_ok_def protocol_ok_def keeps_identity_def)
  then show ?case using p control_step_ok identity_side(2) by (simp add: database_ok_def)
next
  case (control_side c c' s)
  then show ?case using control_step_ok by (simp add: database_ok_def)
next
  case (both_sides now k oo n f it c it' c' out h)
  have st: "identity_step (h, it) (h, it')" by (rule renamed [OF both_sides(1-5)])
  then have p: "protocol_ok (h, it')" using identity.inv_step [OF _ st] both_sides(6) by (simp add: database_ok_def)
  then have "control_step c (control_view it' c)"
    using step_keeps_identity [OF st] both_sides(6)
    by (intro view_step [of it' it]) (simp_all add: database_ok_def protocol_ok_def keeps_identity_def)
  then have "control_ok (control_view it' c)" using control_step_ok both_sides(6) by (simp add: database_ok_def)
  then have "control_ok (control_view it' c')"
    unfolding reconcile_identity(1) [OF both_sides(1)] control_view_reconcile by (rule reconcile_ok)
  then show ?case using p by (simp add: database_ok_def)
qed

interpretation database: preserved_by database_step database_ok
  by unfold_locales (rule database_step_ok)

end
