(* ===== verification/Identity_Properties.thy ===== *)
theory Identity_Properties
  imports Identity_Protocol OAuth_Service
begin

text \<open>
  What the identity store guarantees: its database passes the check at the start, an external identity stays with its
  user, an attempt that has been replaced cannot end, and the OAuth service grants a workspace exactly to its owner once
  its repository and its bootstrap are in order.
\<close>

section \<open>Reachable states\<close>

abbreviation reachable_state :: "identity_state \<Rightarrow> bool" where
  "reachable_state s \<equiv> identity_step\<^sup>*\<^sup>* no_identity s"

lemma reachable_identity_ok: "reachable_state s \<Longrightarrow> protocol_ok s"
  by (erule identity.inv_star) simp

lemma protocol_parts: "protocol_ok (h, it) \<Longrightarrow> identity_ok it \<and> follows (h, it)"
  by (simp add: protocol_ok_def)


section \<open>Logins\<close>

lemma resolved_identity:
  assumes "resolveOrCreateExternalUser now u e i it = Inr (it', r)"
  shows "(lg_provider i, lg_subject i, ru_user_id r) \<in> identity_key ` set (it_externals it')"
  using resolve_Inr [OF assms]
proof (elim disjE exE conjE)
  fix x a assume x: "findExternalIdentity it (lg_provider i) (lg_subject i) = Some x" "ru_user_id r = xt_user_id x"
    "it' = update_external now (xt_id x) (first_given (lg_login i) (xt_provider_login x))
            (first_given (trimmed_text (lg_email i)) (xt_provider_email x)) it"
  have "x \<in> set (it_externals it)" "xt_provider x = lg_provider i" "xt_provider_subject x = lg_subject i"
    using find_SomeD [OF x(1) [unfolded findExternalIdentity_def]] by simp_all
  then have "(lg_provider i, lg_subject i, ru_user_id r) \<in> identity_key ` set (it_externals it)"
    unfolding x(2) identity_key_def by (intro image_eqI [of _ _ x]) simp_all
  then show ?thesis unfolding x(3) update_external_def identity_key_def [abs_def] by simp
next
  fix x it1 assume "insert_external x it1 = Some it'" "xt_provider x = lg_provider i" "xt_provider_subject x = lg_subject i"
    "xt_user_id x = ''usr_'' @ u" "ru_user_id r = ''usr_'' @ u"
  then show ?thesis by (auto simp: insert_external_Some identity_key_def)
qed

lemma find_of_filter: "filter P xs = y # ys \<Longrightarrow> find P xs = Some y"
  by (induction xs) (auto split: if_splits)

lemma known_identity:
  assumes "identity_ok it" "(p, s, v) \<in> identity_key ` set (it_externals it)"
  shows "\<exists>x. findExternalIdentity it p s = Some x \<and> xt_user_id x = v"
proof -
  obtain y where y: "y \<in> set (it_externals it)" "xt_provider y = p" "xt_provider_subject y = s" "xt_user_id y = v"
    using assms(2) by (auto simp: identity_key_def)
  have "distinct (map subject_key (it_externals it))" using assms(1) by (simp add: identity_ok_def externals_ok_def)
  then have one: "filter (\<lambda>z. subject_key z = subject_key y) (it_externals it) = [y]" using y(1) by (rule filter_key)
  have "(\<lambda>r. xt_provider r = p \<and> xt_provider_subject r = s) = (\<lambda>z. subject_key z = subject_key y)"
    using y by (auto simp: subject_key_def)
  then have "findExternalIdentity it p s = Some y" unfolding findExternalIdentity_def using find_of_filter [OF one] by simp
  then show ?thesis using y(4) by blast
qed

text \<open>C29. An external identity stays with its user: once a login has resolved it, every later login with the same provider
  and subject resolves to the same user and creates nobody, or is refused because an administrator disabled the account.\<close>

theorem login_is_stable:
  assumes "reachable_state (h, it)" "resolveOrCreateExternalUser now u e i it = Inr (it1, r)" "identity_step\<^sup>*\<^sup>* (h, it1) (h2, it2)"
    and "lg_provider j = lg_provider i" "lg_subject j = lg_subject i"
  shows "(case resolveOrCreateExternalUser now2 u2 e2 j it2 of
      Inr (_, q) \<Rightarrow> ru_user_id q = ru_user_id r \<and> \<not> ru_created q
    | Inl x \<Rightarrow> x = IdentityConflictError \<and> \<not> account_active it2 (ru_user_id r))"
proof -
  have "protocol_ok (h, it1)" by (rule identity.inv_step [OF reachable_identity_ok [OF assms(1)] login [OF assms(2)]])
  then have ok: "identity_ok it2" and keep: "keeps_identity (h, it1) (h2, it2)"
    using identity.inv_star [OF assms(3)] kept_identity.le_star [OF assms(3)] by (simp_all add: protocol_ok_def)
  have "(lg_provider j, lg_subject j, ru_user_id r) \<in> identity_key ` set (it_externals it2)"
    using resolved_identity [OF assms(2)] keep unfolding assms(4,5) keeps_identity_def snd_conv by blast
  from known_identity [OF ok this]
  obtain x where x: "findExternalIdentity it2 (lg_provider j) (lg_subject j) = Some x" "xt_user_id x = ru_user_id r" by blast
  have "x \<in> set (it_externals it2)" using find_SomeD [OF x(1) [unfolded findExternalIdentity_def]] by simp
  moreover have "xt_user_id ` set (it_externals it2) \<subseteq> us_id ` set (it_users it2)" using ok by (simp add: identity_ok_def externals_ok_def)
  ultimately have "ru_user_id r \<in> us_id ` set (it_users it2)" unfolding x(2) [symmetric] by blast
  then obtain a where a: "account_of it2 (ru_user_id r) = Some a"
    unfolding account_of_def by (cases "find (\<lambda>s. us_id s = ru_user_id r) (it_users it2)") (auto simp: find_key_None)
  have mem: "a \<in> set (it_users it2)" "us_id a = ru_user_id r" using find_SomeD [OF a [unfolded account_of_def]] by simp_all
  have d: "distinct (map us_id (it_users it2))" using ok by (simp add: identity_ok_def users_ok_def)
  have "\<not> account_active it2 (ru_user_id r)" if "us_disabled_at a \<noteq> None"
  proof -
    have "b = a" if "b \<in> set (it_users it2)" "us_id b = ru_user_id r" for b
      using d mem that by (metis distinct_map inj_onD)
    then show ?thesis using \<open>us_disabled_at a \<noteq> None\<close> by (auto simp: account_active_def list_ex_iff)
  qed
  then show ?thesis by (simp add: resolveOrCreateExternalUser_def x a Let_def)
qed

section \<open>Attempts\<close>

lemma last_event_Cons: "last_event w (e # h) = (if event_workspace e = w then Some e else last_event w h)"
  by (simp add: last_event_def)

lemma begun_last:
  assumes "history_ok h"
  shows "(\<exists>n. attempts w h = Some (BS_applying, n, Some a)) \<longleftrightarrow> last_event w h = Some (Attempt_begun w a)"
  using assms
proof (induction h)
  case Nil
  then show ?case by (simp add: last_event_def)
next
  case (Cons e h)
  show ?case
  proof (cases "event_workspace e = w")
    case True
    then show ?thesis using Cons(2) by (cases e) (auto simp: last_event_Cons)
  qed (use Cons in \<open>auto simp: last_event_Cons\<close>)
qed

lemma ended_last:
  assumes "history_ok h" "st \<noteq> BS_applying" "st \<noteq> BS_pending"
  shows "(\<exists>n l. attempts w h = Some (st, n, l)) \<longleftrightarrow> last_event w h = Some (Attempt_ended w st)"
  using assms
proof (induction h)
  case Nil
  then show ?case by (simp add: last_event_def)
next
  case (Cons e h)
  show ?case
  proof (cases "event_workspace e = w")
    case True
    then show ?thesis using Cons(2-4) by (cases e) (auto simp: last_event_Cons)
  qed (use Cons in \<open>auto simp: last_event_Cons\<close>)
qed

lemma end_succeeds:
  assumes "identity_ok it" "follows (h, it)"
  shows "(\<exists>x. end_attempt w a f it = Inr x) \<longleftrightarrow> last_event w h = Some (Attempt_begun w a)"
proof -
  have bs: "distinct (map wb_workspace_id (it_bootstraps it))" using assms(1) by (simp add: identity_ok_def bootstraps_ok_def spaces_ok_def)
  have one: "row_changes (current_attempt w a) (it_bootstraps it) = 1"
    if "findWorkspaceBootstrapByWorkspaceId it w = Some b" "wb_last_attempt_id b = Some a" "wb_state b = BS_applying" for b
  proof -
    note b = bootstrap_row(2,3) [OF assms(1) that(1)]
    have "current_attempt w a r \<longleftrightarrow> wb_workspace_id r = wb_workspace_id b" if "r \<in> set (it_bootstraps it)" for r
      using that b bs \<open>wb_last_attempt_id b = Some a\<close> \<open>wb_state b = BS_applying\<close> unfolding current_attempt_def by (metis distinct_map inj_onD)
    then have "filter (current_attempt w a) (it_bootstraps it) = filter (\<lambda>r. wb_workspace_id r = wb_workspace_id b) (it_bootstraps it)"
      by (rule filter_cong [OF refl])
    then show ?thesis using filter_key [OF bs b(2)] by (simp add: row_changes_def)
  qed
  have "(\<exists>x. end_attempt w a f it = Inr x)
      \<longleftrightarrow> (\<exists>b. findWorkspaceBootstrapByWorkspaceId it w = Some b \<and> wb_last_attempt_id b = Some a \<and> wb_state b = BS_applying)"
    using one by (auto simp: end_attempt_def split: option.split)
  also have "\<dots> \<longleftrightarrow> (\<exists>n. attempts w h = Some (BS_applying, n, Some a))"
  proof -
    have "attempts w h = map_option row_attempts (findWorkspaceBootstrapByWorkspaceId it w)" using assms(2) by (simp add: follows_def)
    then show ?thesis by (auto simp: row_attempts_def)
  qed
  also have "\<dots> \<longleftrightarrow> last_event w h = Some (Attempt_begun w a)" using assms(2) by (intro begun_last) (simp add: follows_def)
  finally show ?thesis .
qed

text \<open>C30. The bootstrap row of a workspace is its history of attempts: the state, the number of attempts and the last
  attempt are those of the abstract machine, whatever else the identity store does in between.\<close>

theorem bootstrap_rows_follow_attempts:
  assumes "reachable_state (h, it)"
  shows "map_option row_attempts (findWorkspaceBootstrapByWorkspaceId it w) = attempts w h"
  using reachable_identity_ok [OF assms] by (simp add: protocol_ok_def follows_def)

text \<open>C31. An attempt ends, well or badly, exactly while it is the last thing that happened to the workspace: an attempt
  that a newer one replaced, or that ended before, changes nothing, and the current one is never refused.\<close>

theorem only_the_current_attempt_ends:
  assumes "reachable_state (h, it)" "COMMIT_HEX_REGEX (js_trim sha)"
  shows "((\<exists>x. markWorkspaceBootstrapReady now w a sha None it = Inr x) \<longleftrightarrow> last_event w h = Some (Attempt_begun w a))
    \<and> ((\<exists>x. markWorkspaceBootstrapRetryableFailure now w a code msg None it = Inr x) \<longleftrightarrow> last_event w h = Some (Attempt_begun w a))
    \<and> ((\<exists>x. markWorkspaceBootstrapManualRecovery now w a code msg None it = Inr x) \<longleftrightarrow> last_event w h = Some (Attempt_begun w a))"
proof -
  have p: "identity_ok it" "follows (h, it)" using reachable_identity_ok [OF assms(1)] by (simp_all add: protocol_ok_def)
  note e = end_succeeds [OF p, of w a]
  have sha: "normalizeSha sha = Inr (map ascii_lower (js_trim sha))" using assms(2) by (simp add: normalizeSha_def)
  show ?thesis
    by (simp only: markWorkspaceBootstrapReady_def markWorkspaceBootstrapRetryableFailure_def markWorkspaceBootstrapManualRecovery_def
        sha optional_sha_def option.case ebind_simps e)
qed

section \<open>The workspace the OAuth service grants\<close>

fun state_name :: "bootstrap_state \<Rightarrow> string" where
  "state_name BS_pending = ''PENDING''"
| "state_name BS_applying = ''APPLYING''"
| "state_name BS_retryable_failure = ''RETRYABLE_FAILURE''"
| "state_name BS_manual_recovery = ''MANUAL_RECOVERY''"
| "state_name BS_ready = ''READY''"

definition oauth_view :: "identity_data \<Rightarrow> control_db \<Rightarrow> identity_db" where
  "oauth_view it c = \<lparr>ib_control = control_view it c,
     ib_scope_verified = concat (map (\<lambda>r. case rb_scope_verified_at_ms r of None \<Rightarrow> [] | Some t \<Rightarrow> [(rb_workspace_id r, t)]) (it_repositories it)),
     ib_bootstraps = map (\<lambda>b. (wb_workspace_id b, state_name (wb_state b))) (it_bootstraps it)\<rparr>"

lemma state_name_ready [simp]: "state_name s = ''READY'' \<longleftrightarrow> s = BS_ready"
  by (cases s) simp_all

lemma view_bootstrap: "map_of (ib_bootstraps (oauth_view it c)) w = map_option (\<lambda>b. state_name (wb_state b)) (findWorkspaceBootstrapByWorkspaceId it w)"
proof -
  have "map_of (map (\<lambda>b. (wb_workspace_id b, state_name (wb_state b))) bs) w
      = map_option (\<lambda>b. state_name (wb_state b)) (find (\<lambda>r. wb_workspace_id r = w) bs)" for bs
    by (induction bs) auto
  then show ?thesis by (simp add: oauth_view_def findWorkspaceBootstrapByWorkspaceId_def)
qed

lemma view_binding: "repo_binding_of (ib_control (oauth_view it c)) w \<noteq> None \<longleftrightarrow> findRepositoryBindingByWorkspaceId it w \<noteq> None"
proof -
  have "find (\<lambda>g. g_workspace_id g = w) (map (\<lambda>r. \<lparr>g_workspace_id = rb_workspace_id r, g_repository_id = rb_repository_id r, g_full_name = rb_full_name r\<rparr>) rs) \<noteq> None
      \<longleftrightarrow> find (\<lambda>r. rb_workspace_id r = w) rs \<noteq> None" for rs
    by (induction rs) simp_all
  then show ?thesis by (simp add: oauth_view_def control_view_def repo_binding_of_def findRepositoryBindingByWorkspaceId_def)
qed

lemma view_scope:
  assumes "distinct (map rb_workspace_id (it_repositories it))"
  shows "map_of (ib_scope_verified (oauth_view it c)) w = Option.bind (findRepositoryBindingByWorkspaceId it w) rb_scope_verified_at_ms"
proof -
  have none: "map_of (concat (map (\<lambda>r. case rb_scope_verified_at_ms r of None \<Rightarrow> [] | Some t \<Rightarrow> [(rb_workspace_id r, t)]) rs)) w = None"
    if "w \<notin> rb_workspace_id ` set rs" for rs
    using that by (induction rs) (auto split: option.splits)
  have "distinct (map rb_workspace_id rs) \<Longrightarrow>
      map_of (concat (map (\<lambda>r. case rb_scope_verified_at_ms r of None \<Rightarrow> [] | Some t \<Rightarrow> [(rb_workspace_id r, t)]) rs)) w
      = Option.bind (find (\<lambda>r. rb_workspace_id r = w) rs) rb_scope_verified_at_ms" for rs
    by (induction rs) (auto simp: none iffD2 [OF find_key_None] split: option.splits)
  then show ?thesis using assms by (simp add: oauth_view_def findRepositoryBindingByWorkspaceId_def)
qed

lemma unique_binding: "identity_ok it \<Longrightarrow> distinct (map rb_workspace_id (it_repositories it))"
  by (simp add: identity_ok_def spaces_ok_def repositories_ok_def)

text \<open>Every workspace has a binding and a bootstrap, so it is ready exactly when both are in order.\<close>

lemma workspace_rows:
  assumes "identity_ok it" "w \<in> wk_id ` set (it_workspaces it)"
  shows "findRepositoryBindingByWorkspaceId it w \<noteq> None" "findWorkspaceBootstrapByWorkspaceId it w \<noteq> None"
proof -
  have "map rb_workspace_id (it_repositories it) = map wk_id (it_workspaces it)" "map wb_workspace_id (it_bootstraps it) = map wk_id (it_workspaces it)"
    using assms(1) by (simp_all add: identity_ok_def repositories_ok_def bootstraps_ok_def)
  then have "w \<in> rb_workspace_id ` set (it_repositories it)" "w \<in> wb_workspace_id ` set (it_bootstraps it)"
    using assms(2) map_ids by metis+
  then show "findRepositoryBindingByWorkspaceId it w \<noteq> None" "findWorkspaceBootstrapByWorkspaceId it w \<noteq> None"
    unfolding findRepositoryBindingByWorkspaceId_def findWorkspaceBootstrapByWorkspaceId_def find_key_None by simp_all
qed

lemma ready_for_host:
  assumes "identity_ok it" "follows (h, it)" "w \<in> wk_id ` set (it_workspaces it)"
  shows "isWorkspaceReadyForHost (oauth_view it c) w
    \<longleftrightarrow> Option.bind (findRepositoryBindingByWorkspaceId it w) rb_scope_verified_at_ms \<noteq> None \<and> last_event w h = Some (Attempt_ended w BS_ready)"
proof -
  obtain b where b: "findWorkspaceBootstrapByWorkspaceId it w = Some b" using workspace_rows(2) [OF assms(1,3)] by blast
  have "last_event w h = Some (Attempt_ended w BS_ready) \<longleftrightarrow> wb_state b = BS_ready"
    using ended_last [of h BS_ready w] attempts_row [OF assms(2) b] assms(2) by (simp add: follows_def row_attempts_def)
  moreover have "repo_binding_of (ib_control (oauth_view it c)) w \<noteq> None" using view_binding workspace_rows(1) [OF assms(1,3)] by simp
  ultimately show ?thesis
    by (simp add: isWorkspaceReadyForHost_def Let_def view_bootstrap view_scope [OF unique_binding [OF assms(1)]] b del: not_None_eq)
qed

lemma view_memberships:
  assumes "identity_ok it"
  shows "membershipsForUser (oauth_view it c) u = (case find (\<lambda>w. wk_owner_user_id w = u) (it_workspaces it) of
      None \<Rightarrow> [] | Some w \<Rightarrow> [\<lparr>m_workspace_id = wk_id w, m_user_id = u, m_role = ''owner''\<rparr>])"
proof -
  let ?f = "\<lambda>w. \<lparr>m_workspace_id = wk_id w, m_user_id = wk_owner_user_id w, m_role = ''owner''\<rparr>"
  have sp: "spaces_ok (it_users it) (it_workspaces it) (it_members it)" using assms by (simp only: identity_ok_def)
  have "map (\<lambda>(a, b, r). \<lparr>m_workspace_id = a, m_user_id = b, m_role = r\<rparr>) (map (\<lambda>m. (mr_workspace_id m, mr_user_id m, mr_role m)) (it_members it))
      = map (\<lambda>(a, b, r). \<lparr>m_workspace_id = a, m_user_id = b, m_role = r\<rparr>) (map (\<lambda>w. (wk_id w, wk_owner_user_id w, ''owner'')) (it_workspaces it))"
    using sp by (simp only: spaces_ok_def)
  then have "memberships (ib_control (oauth_view it c)) = map ?f (it_workspaces it)" by (simp add: oauth_view_def control_view_def comp_def)
  then have m: "membershipsForUser (oauth_view it c) u = map ?f (filter (\<lambda>w. wk_owner_user_id w = u) (it_workspaces it))"
    by (simp add: membershipsForUser_def filter_map comp_def)
  show ?thesis
  proof (cases "find (\<lambda>w. wk_owner_user_id w = u) (it_workspaces it)")
    case None
    then have "filter (\<lambda>w. wk_owner_user_id w = u) (it_workspaces it) = []" by (simp add: find_None_iff filter_empty_conv)
    then show ?thesis using m None by simp
  next
    case (Some w)
    have "filter (\<lambda>x. wk_owner_user_id x = wk_owner_user_id w) (it_workspaces it) = [w]"
      by (rule filter_key) (use sp find_SomeD [OF Some] in \<open>simp_all add: spaces_ok_def\<close>)
    then show ?thesis using m Some find_SomeD [OF Some] by simp
  qed
qed

lemma view_active:
  assumes "identity_ok it"
  shows "isUserActive (oauth_view it c) u \<longleftrightarrow> account_active it u"
proof -
  have d: "distinct (map us_id (it_users it))" using assms by (simp add: identity_ok_def users_ok_def)
  have "(case find (\<lambda>r. u_id r = u) (map (\<lambda>r. \<lparr>u_id = us_id r, u_disabled_at = us_disabled_at r\<rparr>) us) of None \<Rightarrow> False | Some r \<Rightarrow> u_disabled_at r = None)
      = list_ex (\<lambda>r. us_id r = u \<and> us_disabled_at r = None) us" if "distinct (map us_id us)" for us
    using that
  proof (induction us)
    case (Cons a us)
    show ?case
    proof (cases "us_id a = u")
      case True
      then have "\<forall>r \<in> set us. us_id r \<noteq> u" using Cons(2) True by (metis distinct.simps(2) image_eqI list.set_map list.simps(9))
      then have "\<not> list_ex (\<lambda>r. us_id r = u \<and> us_disabled_at r = None) us" by (simp add: list_ex_iff)
      then show ?thesis using True by simp
    qed (use Cons in simp)
  qed simp
  then show ?thesis using d by (simp add: isUserActive_def active_user_def user_of_def oauth_view_def control_view_def account_active_def)
qed

text \<open>C32. The OAuth service grants a user the workspace the user owns, and nothing else, exactly while the account is
  active, the access of the GitHub installation to the repository has been verified, and the last thing that happened to
  the workspace is a bootstrap attempt that ended well.\<close>

theorem granted_workspace_is_in_order:
  assumes "reachable_state (h, it)"
  shows "consent_workspace (oauth_view it c) u = Inr w \<longleftrightarrow>
      account_active it u \<and> (\<exists>x \<in> set (it_workspaces it). wk_id x = w \<and> wk_owner_user_id x = u)
      \<and> Option.bind (findRepositoryBindingByWorkspaceId it w) rb_scope_verified_at_ms \<noteq> None
      \<and> last_event w h = Some (Attempt_ended w BS_ready)"
proof -
  have p: "identity_ok it" "follows (h, it)" using reachable_identity_ok [OF assms] by (simp_all add: protocol_ok_def)
  have own: "distinct (map wk_owner_user_id (it_workspaces it))" using p(1) by (simp add: identity_ok_def spaces_ok_def)
  show ?thesis
  proof (cases "find (\<lambda>w. wk_owner_user_id w = u) (it_workspaces it)")
    case None
    then have "\<not> (\<exists>x \<in> set (it_workspaces it). wk_id x = w \<and> wk_owner_user_id x = u)" by (auto simp: find_None_iff)
    then show ?thesis by (simp add: consent_workspace_def view_memberships [OF p(1)] None)
  next
    case (Some x)
    note x = find_SomeD [OF Some]
    have one: "(\<exists>y \<in> set (it_workspaces it). wk_id y = w \<and> wk_owner_user_id y = u) \<longleftrightarrow> wk_id x = w"
      using x own by (metis distinct_map inj_onD)
    have "wk_id x \<in> wk_id ` set (it_workspaces it)" using x by blast
    note r = ready_for_host [OF p this, of c]
    show ?thesis unfolding one consent_workspace_def view_active [OF p(1)] view_memberships [OF p(1)] Some
      by (auto simp: r simp del: not_None_eq)
  qed
qed

section \<open>Texts the store accepts and the check refuses\<close>

lemma blank_message: "sanitizeErrorMessage [] = []"
  by (simp add: sanitizeErrorMessage_def redact_def js_length_def Let_def)

lemma blank_repository_invalid:
  assumes "r \<in> set (it_repositories it)" "rb_owner_login r = []"
  shows "validateData it c = Inl IdentityStructureError"
proof -
  have "\<not> repository_valid r" using assms(2) by (simp add: repository_valid_def non_blank_def)
  then have "\<not> list_all repository_valid (it_repositories it)" using assms(1) by (auto simp: list_all_iff)
  then show ?thesis by (simp add: validateData_def identity_tables_valid_def)
qed

lemma blank_failure_invalid:
  assumes "r \<in> set (it_bootstraps it)" "wb_state r = BS_retryable_failure" "wb_error_message r = Some []"
  shows "validateData it c = Inl IdentityStructureError"
proof -
  have "\<not> bootstrap_valid r" using assms(2,3) by (simp add: bootstrap_valid_def bootstrap_state_valid_def failure_of_def given_text_def non_blank_def)
  then have "\<not> list_all bootstrap_valid (it_bootstraps it)" using assms(1) by (auto simp: list_all_iff)
  then show ?thesis by (simp add: validateData_def identity_tables_valid_def)
qed

lemma update_member: "x \<in> set rows \<Longrightarrow> p x \<Longrightarrow> f x \<in> set (update_rows p f rows)"
  by (auto simp: update_rows_def image_iff intro: bexI [of _ x])

text \<open>Two texts are stored unchecked although the check at the start refuses them. A repository that GitHub reports
  without an owner login is reconciled with the empty text, and a failed attempt is recorded with an empty message; either
  leaves a database that the server does not open again.\<close>

theorem blank_texts_are_stored_and_refused:
  assumes "reachable_state (h, it)" "findRepositoryBindingByGitHubRepoId it i = Some b" "last_event w h = Some (Attempt_begun w a)"
  shows "(\<exists>it' c' out. reconcileRepositoryMetadataById now i [] n f (it, c) = Inr ((it', c'), out) \<and> validateData it' c' = Inl IdentityStructureError)
    \<and> (\<exists>it' r. markWorkspaceBootstrapRetryableFailure now w a code [] None it = Inr (it', r) \<and> validateData it' c = Inl IdentityStructureError)"
proof
  have b: "b \<in> set (it_repositories it)" "rb_repository_id b = i"
    using find_SomeD [OF assms(2) [unfolded findRepositoryBindingByGitHubRepoId_def]] by simp_all
  let ?f = "\<lambda>r. r\<lparr>rb_owner_login := [], rb_repository_name := n, rb_full_name := f, rb_updated_at_ms := now\<rparr>"
  obtain it' c' out where r: "reconcileRepositoryMetadataById now i [] n f (it, c) = Inr ((it', c'), out)"
    by (simp add: reconcileRepositoryMetadataById_def assms(2) Let_def)
  have "it_repositories it' = update_rows (\<lambda>r. rb_repository_id r = i) ?f (it_repositories it)"
    using reconcile_identity(2) [OF r] by auto
  then have "?f b \<in> set (it_repositories it')" using update_member [of b _ "\<lambda>r. rb_repository_id r = i" ?f] b by simp
  then have "validateData it' c' = Inl IdentityStructureError" by (rule blank_repository_invalid) simp
  with r show "\<exists>it' c' out. reconcileRepositoryMetadataById now i [] n f (it, c) = Inr ((it', c'), out) \<and> validateData it' c' = Inl IdentityStructureError"
    by blast
next
  have p: "identity_ok it" "follows (h, it)" using reachable_identity_ok [OF assms(1)] by (simp_all add: protocol_ok_def)
  let ?g = "failed_attempt now BS_retryable_failure BK_retryable (sanitizeErrorCode code) [] None"
  obtain it' r where r: "end_attempt w a ?g it = Inr (it', r)" using end_succeeds [OF p, of w a ?g] assms(3) by auto
  obtain v where v: "findWorkspaceBootstrapByWorkspaceId it w = Some v" "wb_last_attempt_id v = Some a" "wb_state v = BS_applying"
      "it' = update_bootstrap (current_attempt w a) (?g v) it" using end_Inr [OF r] by blast
  have "v \<in> set (it_bootstraps it)" "current_attempt w a v" using bootstrap_row [OF p(1) v(1)] v(2,3) by (simp_all add: current_attempt_def)
  then have "?g v \<in> set (it_bootstraps it')" unfolding v(4) update_bootstrap_def using update_member by fastforce
  then have "validateData it' c = Inl IdentityStructureError" by (rule blank_failure_invalid) (simp_all add: failed_attempt_def)
  moreover have "markWorkspaceBootstrapRetryableFailure now w a code [] None it = Inr (it', r)"
    using r by (simp add: markWorkspaceBootstrapRetryableFailure_def optional_sha_def blank_message)
  ultimately show "\<exists>it' r. markWorkspaceBootstrapRetryableFailure now w a code [] None it = Inr (it', r) \<and> validateData it' c = Inl IdentityStructureError"
    by blast
qed

section \<open>A user with a workspace\<close>

definition sample_login :: login_input where
  "sample_login = \<lparr>lg_provider = ''github'', lg_subject = ''7'', lg_login = Some ''octo'', lg_email = None\<rparr>"

definition sample_installation :: installation_input where
  "sample_installation = \<lparr>ii_installation_id = ''11'', ii_app_id = ''12'', ii_account_id = ''7'', ii_account_login = ''octo'',
     ii_account_type = ''User'', ii_repository_selection = ''selected'', ii_suspended_at_ms = None, ii_user_id = ''usr_a''\<rparr>"

definition sample_workspace :: workspace_input where
  "sample_workspace = \<lparr>wi_user_id = ''usr_a'', wi_installation_row_id = ''ghi_c'', wi_repository_id = ''21'', wi_owner_account_id = ''7'',
     wi_owner_login = ''octo'', wi_repository_name = ''vault'', wi_full_name = ''octo/vault'', wi_branch = ''main'', wi_scope_verified_at_ms = Some 3\<rparr>"

definition sample_sha :: string where "sample_sha = replicate 40 CHR ''a''"

definition "sample_i1 = fst (projr (resolveOrCreateExternalUser 1 ''a'' ''b'' sample_login empty_identity))"
definition "sample_i2 = fst (projr (upsertGitHubInstallationWithUser 2 ''c'' ''d'' sample_installation sample_i1))"
definition "sample_i3 = fst (projr (createWorkspaceWithRepositoryBinding 3 ''e'' ''f'' ''g'' sample_workspace sample_i2))"
definition "sample_i4 = fst (projr (beginWorkspaceBootstrapAttempt 4 ''h'' ''ws_e'' sample_i3))"
definition "sample_i5 = fst (projr (markWorkspaceBootstrapReady 5 ''ws_e'' ''wba_h'' sample_sha None sample_i4))"

definition sample_history :: "attempt_event list" where
  "sample_history = [Attempt_begun ''ws_e'' ''wba_h'', Attempt_opened ''ws_e'']"

lemma sample_runs:
  "isl (resolveOrCreateExternalUser 1 ''a'' ''b'' sample_login empty_identity) = False"
  "isl (upsertGitHubInstallationWithUser 2 ''c'' ''d'' sample_installation sample_i1) = False"
  "isl (createWorkspaceWithRepositoryBinding 3 ''e'' ''f'' ''g'' sample_workspace sample_i2) = False"
  "isl (beginWorkspaceBootstrapAttempt 4 ''h'' ''ws_e'' sample_i3) = False"
  "isl (markWorkspaceBootstrapReady 5 ''ws_e'' ''wba_h'' sample_sha None sample_i4) = False"
  by code_simp+

lemma projr_eq: "isl x = False \<Longrightarrow> x = Inr (fst (projr x), snd (projr x))"
  by (cases x) simp_all

definition "sample_rows = snd (projr (createWorkspaceWithRepositoryBinding 3 ''e'' ''f'' ''g'' sample_workspace sample_i2))"
definition "sample_begun = snd (snd (projr (beginWorkspaceBootstrapAttempt 4 ''h'' ''ws_e'' sample_i3)))"

lemma sample_names: "wk_id (nw_workspace sample_rows) = ''ws_e''" "fst (snd (projr (beginWorkspaceBootstrapAttempt 4 ''h'' ''ws_e'' sample_i3))) = ''wba_h''"
  by code_simp+

lemma sample_steps:
  "identity_step no_identity ([], sample_i1)" "identity_step ([], sample_i1) ([], sample_i2)"
  "identity_step ([], sample_i2) ([Attempt_opened ''ws_e''], sample_i3)"
  "identity_step ([Attempt_opened ''ws_e''], sample_i3) (sample_history, sample_i4)"
  "identity_step (sample_history, sample_i4) (Attempt_ended ''ws_e'' BS_ready # sample_history, sample_i5)"
proof -
  note runs = sample_runs [THEN projr_eq]
  show "identity_step no_identity ([], sample_i1)" unfolding no_identity_def by (rule login) (use runs(1) in \<open>simp only: sample_i1_def [symmetric]\<close>)
  show "identity_step ([], sample_i1) ([], sample_i2)" by (rule installation) (use runs(2) in \<open>simp only: sample_i2_def [symmetric]\<close>, simp)
  have "createWorkspaceWithRepositoryBinding 3 ''e'' ''f'' ''g'' sample_workspace sample_i2 = Inr (sample_i3, sample_rows)"
    using runs(3) by (simp only: sample_i3_def [symmetric] sample_rows_def [symmetric])
  from opened [OF this, of "[]"] show "identity_step ([], sample_i2) ([Attempt_opened ''ws_e''], sample_i3)"
    by (simp add: sample_names(1) sample_workspace_def optional_time_valid_def)
  have "beginWorkspaceBootstrapAttempt 4 ''h'' ''ws_e'' sample_i3 = Inr (sample_i4, (''wba_h'', sample_begun))"
    using runs(4) sample_names(2) by (metis prod.collapse sample_begun_def sample_i4_def)
  from begun [OF this, of "[Attempt_opened ''ws_e'']"] show "identity_step ([Attempt_opened ''ws_e''], sample_i3) (sample_history, sample_i4)"
    by (simp add: sample_history_def)
  show "identity_step (sample_history, sample_i4) (Attempt_ended ''ws_e'' BS_ready # sample_history, sample_i5)"
    by (rule ready) (use runs(5) in \<open>simp only: sample_i5_def [symmetric]\<close>, simp)
qed

lemma sample_reachable:
  "reachable_state ([], sample_i1)" "reachable_state ([], sample_i2)" "reachable_state (sample_history, sample_i4)"
  "reachable_state (Attempt_ended ''ws_e'' BS_ready # sample_history, sample_i5)"
proof -
  show 1: "reachable_state ([], sample_i1)" using sample_steps(1) by (rule r_into_rtranclp)
  show 2: "reachable_state ([], sample_i2)" using 1 sample_steps(2) by (rule rtranclp.rtrancl_into_rtrancl)
  have "reachable_state ([Attempt_opened ''ws_e''], sample_i3)" using 2 sample_steps(3) by (rule rtranclp.rtrancl_into_rtrancl)
  then show 4: "reachable_state (sample_history, sample_i4)" using sample_steps(4) by (rule rtranclp.rtrancl_into_rtrancl)
  show "reachable_state (Attempt_ended ''ws_e'' BS_ready # sample_history, sample_i5)"
    using 4 sample_steps(5) by (rule rtranclp.rtrancl_into_rtrancl)
qed

definition "sample_device_db = fst (projr (createDevice id 9 ''dev_1'' ''usr_a'' ''Laptop'' ''macos'' (control_view sample_i1 empty_control)))"

lemma sample_device:
  "isl (createDevice id 9 ''dev_1'' ''usr_a'' ''Laptop'' ''macos'' (control_view sample_i1 empty_control)) = False"
  "control_view sample_i1 sample_device_db = sample_device_db" "length (devices sample_device_db) = 1"
  by code_simp+

lemma sample_database: "database_step\<^sup>*\<^sup>* (no_identity, control_view empty_identity empty_control) (([], sample_i1), sample_device_db)"
proof -
  have "database_step (no_identity, control_view empty_identity empty_control) (([], sample_i1), control_view sample_i1 empty_control)"
    using identity_side [OF sample_steps(1), of "control_view empty_identity empty_control"] by simp
  moreover have "control_step (control_view sample_i1 empty_control) sample_device_db"
    by (rule create_device) (use projr_eq [OF sample_device(1)] in \<open>simp only: sample_device_db_def [symmetric]\<close>)
  then have "database_step (([], sample_i1), control_view sample_i1 empty_control) (([], sample_i1), sample_device_db)"
    by (rule control_side) (simp add: sample_device(2))
  ultimately show ?thesis by (meson converse_rtranclp_into_rtranclp r_into_rtranclp)
qed


lemma login_is_stable_witness:
  "(case resolveOrCreateExternalUser 8 ''x'' ''y'' sample_login sample_i2 of Inr (_, q) \<Rightarrow> ru_user_id q = ''usr_a'' \<and> \<not> ru_created q | Inl _ \<Rightarrow> False)"
proof -
  have r: "reachable_state ([], empty_identity)" by (simp add: no_identity_def)
  have s: "identity_step\<^sup>*\<^sup>* ([], sample_i1) ([], sample_i2)" using sample_steps(2) by (rule r_into_rtranclp)
  have u: "ru_user_id (snd (projr (resolveOrCreateExternalUser 1 ''a'' ''b'' sample_login empty_identity))) = ''usr_a''"
    "isl (resolveOrCreateExternalUser 8 ''x'' ''y'' sample_login sample_i2) = False" by code_simp+
  have run: "resolveOrCreateExternalUser 1 ''a'' ''b'' sample_login empty_identity
      = Inr (sample_i1, snd (projr (resolveOrCreateExternalUser 1 ''a'' ''b'' sample_login empty_identity)))"
    using projr_eq [OF sample_runs(1)] by (simp only: sample_i1_def)
  from login_is_stable [OF r run s refl refl, of 8 "''x''" "''y''"] show ?thesis
    using u by (cases "resolveOrCreateExternalUser 8 ''x'' ''y'' sample_login sample_i2") simp_all
qed

lemma bootstrap_rows_follow_attempts_witness:
  "map_option row_attempts (findWorkspaceBootstrapByWorkspaceId sample_i4 ''ws_e'') = Some (BS_applying, 1, Some ''wba_h'')"
  using bootstrap_rows_follow_attempts [OF sample_reachable(3), of "''ws_e''"] by (simp add: sample_history_def)

lemma only_the_current_attempt_ends_witness:
  "(\<exists>x. markWorkspaceBootstrapReady 6 ''ws_e'' ''wba_h'' sample_sha None sample_i4 = Inr x)
    \<and> \<not> (\<exists>x. markWorkspaceBootstrapReady 6 ''ws_e'' ''wba_old'' sample_sha None sample_i4 = Inr x)"
proof -
  have sha: "COMMIT_HEX_REGEX (js_trim sample_sha)" by code_simp
  show ?thesis
    using only_the_current_attempt_ends [OF sample_reachable(3) sha, where w = "''ws_e''" and now = 6 and code = "[]" and msg = "[]" and a = "''wba_h''"]
      only_the_current_attempt_ends [OF sample_reachable(3) sha, where w = "''ws_e''" and now = 6 and code = "[]" and msg = "[]" and a = "''wba_old''"]
    by (simp add: sample_history_def last_event_def)
qed

lemma granted_workspace_is_in_order_witness: "consent_workspace (oauth_view sample_i5 empty_control) ''usr_a'' = Inr ''ws_e''"
proof -
  have "account_active sample_i5 ''usr_a''" "\<exists>x \<in> set (it_workspaces sample_i5). wk_id x = ''ws_e'' \<and> wk_owner_user_id x = ''usr_a''"
    "Option.bind (findRepositoryBindingByWorkspaceId sample_i5 ''ws_e'') rb_scope_verified_at_ms \<noteq> None" by code_simp+
  then show ?thesis using granted_workspace_is_in_order [OF sample_reachable(4), of empty_control "''usr_a''" "''ws_e''"]
    by (simp add: last_event_def)
qed

lemma blank_texts_are_stored_and_refused_witness:
  "\<exists>it' c' out. reconcileRepositoryMetadataById 6 ''21'' [] ''vault'' ''octo/vault'' (sample_i4, empty_control) = Inr ((it', c'), out)
    \<and> validateData it' c' = Inl IdentityStructureError"
proof -
  have "findRepositoryBindingByGitHubRepoId sample_i4 ''21'' = Some (nw_repository sample_rows)" by code_simp
  then show ?thesis
    using blank_texts_are_stored_and_refused [OF sample_reachable(3), of "''21''" _ "''ws_e''" "''wba_h''" 6 "''vault''" "''octo/vault''" empty_control]
    by (simp add: sample_history_def last_event_def)
qed

end
