(* ===== verification/Bootstrap_Properties.thy ===== *)
theory Bootstrap_Properties
  imports Bootstrap_Trace Identity_Properties
begin

text \<open>
  What the bootstrap of a workspace guarantees, whatever GitHub answers: it only adds what is missing, a workspace becomes
  ready only after a look at the branch as it is then, and an attempt that nobody disturbs ends.
\<close>

section \<open>Every write is founded\<close>

lemma triple_status: "triple P (getProvisioningStatus i) (\<lambda>_ _. True)"
  by (auto simp: triple_def getProvisioningStatus_def bind_action_def reading_def found_def pass_def throw_def split: option.splits)

lemma triple_failure: "triple P (record_failure e i a x) (\<lambda>_ _. True)"
  by (auto simp: triple_def record_failure_def split: sum.splits prod.splits)

lemma triple_begin: "triple P (begin_attempt uuid i) (\<lambda>_ _. True)"
  by (simp add: triple_def begin_attempt_def split: sum.split prod.split)

lemma triple_checked: "triple (\<lambda>L. True) (checked_attempt e i a b l) (\<lambda>_ _. True)"
  unfolding checked_attempt_def
  by (intro triple_bind [OF triple_reading] triple_bind [OF triple_any [OF triple_lift]] lasting_rules) (rule triple_pre [OF triple_execute], simp)

lemma triple_guarded: "triple (\<lambda>L. True) (guarded_bootstrap e uuid i l) (\<lambda>_ _. True)"
proof -
  have attempt: "triple (\<lambda>L. True) (catching (checked_attempt e i a b l) (record_failure e i a)) (\<lambda>_ _. True)" for a b
    by (intro triple_catching triple_checked triple_failure lasting_rules)
  have rest: "triple (\<lambda>L. True) (bind_action (begin_attempt uuid i) (\<lambda>a.
       bind_action (catching (checked_attempt e i a b l) (record_failure e i a)) (\<lambda>r. pass (f r)))) (\<lambda>_ _. True)"
    for b and f :: "bootstrap_row \<Rightarrow> provisioning_result"
    by (rule triple_bind [OF triple_begin]) (auto intro!: triple_bind [OF attempt [THEN triple_pre]] triple_any [OF triple_pass] lasting_rules)
  show ?thesis unfolding guarded_bootstrap_def
    by (rule triple_bind [OF triple_status]) (use rest in \<open>auto intro: triple_any [OF triple_pass] lasting_rules\<close>)
qed

text \<open>C33. Whatever GitHub answers, every request of a bootstrap that writes is founded on replies before it: files are added
  only where the tree of the head lacks them, the commit goes on top of that head, the branch moves to that commit without
  force, a file is put into a repository only if it has no branch and reports no content, and the ignore file that new
  workspaces get is never added to a repository that was in use before.\<close>

theorem bootstrap_only_adds:
  assumes "founded_log (w_log w)"
  shows "founded_log (w_log (fst (bootstrapWorkspace e uuid i l w)))"
proof -
  obtain w1 r where g: "guarded_bootstrap e uuid i l (w\<lparr>w_active := insert i (w_active w)\<rparr>) = (w1, r)" by fastforce
  have "founded_log (w_log w1)" using triple_guarded g assms unfolding triple_def by fastforce
  moreover have "w_log (fst (getProvisioningStatus i w)) = w_log w"
    by (simp add: getProvisioningStatus_def bind_action_def reading_def found_def pass_def throw_def split: option.split)
  ultimately show ?thesis using g assms by (simp add: bootstrapWorkspace_def)
qed

section \<open>Ready after a live check\<close>

definition yields :: "('g, 'a) action \<Rightarrow> ('a \<Rightarrow> 'g server_world \<Rightarrow> bool) \<Rightarrow> bool" where
  "yields m R \<longleftrightarrow> (\<forall>w w' x. m w = (w', Inr x) \<longrightarrow> R x w')"

lemma yields_bind: "(\<And>x. yields (f x) R) \<Longrightarrow> yields (bind_action m f) R"
  unfolding yields_def bind_action_def by (auto split: prod.splits sum.splits)

lemma yields_throw: "yields (throw err) R"
  by (simp add: yields_def throw_def)

definition verified_end :: "repository_row \<Rightarrow> string \<Rightarrow> bootstrap_row \<Rightarrow> 'g server_world \<Rightarrow> bool" where
  "verified_end b br r w \<longleftrightarrow> (\<exists>o_r n repo ref head commit tree listing items st1 st2 st3 st4 rest meta f.
     w_log w = (Get_tree o_r n tree, Reply st4 (Inr listing)) # (Get_commit o_r n head, Reply st3 (Inr commit))
       # (Get_ref o_r n br, Reply st2 (Inr ref)) # (Get_repository o_r n, Reply st1 (Inr repo)) # rest
     \<and> res_ok st1 \<and> res_ok st2 \<and> res_ok st3 \<and> res_ok st4 \<and> validateLiveRepositoryMetadata repo b = Inr meta
     \<and> nested_text ''object'' ''sha'' ref = Inr (Some head) \<and> nested_text ''tree'' ''sha'' commit = Inr (Some tree)
     \<and> tree_items listing = Inr items \<and> item_at items ''README.md'' = Some f \<and> regular_blob f
     \<and> wb_ready_commit_sha r = Some (map ascii_lower (js_trim head)) \<and> wb_state r = BS_ready)"

lemma read_Inr:
  assumes "read_from e tok q ctx w = (w', Inr j)"
  shows "\<exists>st. res_ok st \<and> w_log w' = (q, Reply st (Inr j)) # w_log w"
  using assms by (auto simp: read_from_def bind_action_def github_fetch_def require_def pass_def throw_def lift_result_def res_json_def
      split: prod.splits sum.splits github_reply.splits if_splits)

lemma bind_Inr: "bind_action m f w = (w', Inr y) \<longleftrightarrow> (\<exists>w1 x. m w = (w1, Inr x) \<and> f x w1 = (w', Inr y))"
  unfolding bind_action_def by (auto split: prod.splits sum.splits)

lemma lift_Inr: "lift_result r w = (w', Inr x) \<longleftrightarrow> w' = w \<and> r = Inr x"
  by (auto simp: lift_result_def)

lemma needed_Inr: "needed_text a b err j w = (w', Inr x) \<longleftrightarrow> w' = w \<and> nested_text a b j = Inr (Some x)"
  by (auto simp: needed_text_def bind_Inr lift_Inr found_def pass_def throw_def split: option.splits)

lemma present_file: "files_present xs m = Inr () \<Longrightarrow> p \<in> fst ` set m \<Longrightarrow> \<exists>f. item_at xs p = Some f \<and> regular_blob f"
  by (induction m) (force split: option.splits if_splits)+

lemma verify_yields:
  assumes "''README.md'' \<in> fst ` set m"
  shows "yields (verifyLiveStateAndMarkReady e k base m) (verified_end (bj_binding k) (bj_branch k))"
  unfolding yields_def
proof (intro allI impI)
  fix w w' r assume "verifyLiveStateAndMarkReady e k base m w = (w', Inr r)"
  then obtain w1 repo meta w2 ref head w3 commit tree w4 listing where
    s: "read_from e (bj_token k) (Get_repository (bj_owner k) (bj_repo k)) ''post-write repository verification'' w = (w1, Inr repo)"
      "validateLiveRepositoryMetadata repo (bj_binding k) = Inr meta"
      "read_from e (bj_token k) (Get_ref (bj_owner k) (bj_repo k) (bj_branch k)) ''post-write branch ref verification'' w1 = (w2, Inr ref)"
      "nested_text ''object'' ''sha'' ref = Inr (Some head)"
      "read_from e (bj_token k) (Get_commit (bj_owner k) (bj_repo k) head) ''post-write commit verification'' w2 = (w3, Inr commit)"
      "nested_text ''tree'' ''sha'' commit = Inr (Some tree)"
      "read_from e (bj_token k) (Get_tree (bj_owner k) (bj_repo k) tree) ''post-write tree verification'' w3 = (w4, Inr listing)"
      "ebind (tree_items listing) (\<lambda>is. files_present is m) = Inr ()"
    and mark: "(case markWorkspaceBootstrapReady (w_now w4) (bj_workspace_id k) (bj_attempt_id k) head base (w_identity w4) of
           Inl err \<Rightarrow> (w4, Inl (Identity_failure err)) | Inr (it, b) \<Rightarrow> (w4\<lparr>w_identity := it\<rparr>, Inr b)) = (w', Inr r)"
    by (auto simp: verifyLiveStateAndMarkReady_def Let_def bind_Inr lift_Inr needed_Inr)
  obtain xs where xs: "tree_items listing = Inr xs" "files_present xs m = Inr ()" using s(8) by (auto simp: ebind_eq_Inr)
  obtain f where f: "item_at xs ''README.md'' = Some f" "regular_blob f" using present_file [OF xs(2) assms] by blast
  obtain it where it: "markWorkspaceBootstrapReady (w_now w4) (bj_workspace_id k) (bj_attempt_id k) head base (w_identity w4) = Inr (it, r)"
      "w' = w4\<lparr>w_identity := it\<rparr>" using mark by (auto split: sum.splits)
  obtain y z where y: "normalizeSha head = Inr y" "optional_sha base = Inr z"
    using it(1) by (auto simp: markWorkspaceBootstrapReady_def ebind_eq_Inr)
  have r: "wb_ready_commit_sha r = Some (map ascii_lower (js_trim head))" "wb_state r = BS_ready"
    using end_Inr [OF it(1) [unfolded markWorkspaceBootstrapReady_def y ebind_simps]] y(1) by (auto simp: normalizeSha_def split: if_splits)
  show "verified_end (bj_binding k) (bj_branch k) r w'"
    using read_Inr [OF s(1)] read_Inr [OF s(3)] read_Inr [OF s(5)] read_Inr [OF s(7)] s(2,4,6) xs(1) f r it(2)
    unfolding verified_end_def by auto
qed

lemma manifests_with_readme:
  "''README.md'' \<in> fst ` set (buildFreshWorkspaceManifest readme l)" "''README.md'' \<in> fst ` set BOOTSTRAP_MANIFEST_V1"
  by (simp_all add: buildFreshWorkspaceManifest_def BOOTSTRAP_MANIFEST_V1_def)

lemma reconcile_yields:
  assumes "fs = None \<or> (\<exists>m. fs = Some m \<and> ''README.md'' \<in> fst ` set m)"
  shows "yields (reconcileFromBranchHead e k initial base fs l) (verified_end (bj_binding k) (bj_branch k))"
proof -
  have "''README.md'' \<in> fst ` set (effective_manifest e l fs fresh)" for fresh
    using assms manifests_with_readme by (auto simp only: effective_manifest_def option.case split: if_splits)
  then show ?thesis unfolding reconcileFromBranchHead_def Let_def by (intro yields_bind verify_yields)
qed

lemma missing_yields: "yields (handleMissingBoundBranch e k meta l) (verified_end (bj_binding k) (bj_branch k))"
proof -
  have "yields (bootstrapEmptyRepository e k (buildFreshWorkspaceManifest (be_readme e) l) l) (verified_end (bj_binding k) (bj_branch k))"
    unfolding bootstrapEmptyRepository_def split_beta
    by (auto split: option.split intro!: yields_bind yields_throw reconcile_yields manifests_with_readme)
  then show ?thesis unfolding handleMissingBoundBranch_def split_beta by (intro yields_bind) (auto intro: yields_throw)
qed

lemma execute_yields: "yields (executeBootstrapAttempt e w a b inst l) (verified_end b (rb_branch b))"
proof -
  have "yields (attemptOnBranch e k meta l) (verified_end (bj_binding k) (bj_branch k))" for k meta
    unfolding attemptOnBranch_def split_beta
    by (intro yields_bind) (auto intro!: missing_yields yields_bind reconcile_yields)
  then have "yields (attemptOnBranch e \<lparr>bj_workspace_id = w, bj_attempt_id = a, bj_binding = b, bj_token = tok, bj_owner = o_r, bj_repo = n,
      bj_branch = rb_branch b\<rparr> meta l) (verified_end b (rb_branch b))" for tok o_r n meta
    by (metis bootstrap_job.select_convs(3,7))
  then show ?thesis unfolding executeBootstrapAttempt_def by (intro yields_bind)
qed

lemma failure_state:
  assumes "record_failure e i a x w = (w', Inr r)"
  shows "wb_state r \<in> {BS_retryable_failure, BS_manual_recovery}"
proof -
  have "wb_state (f b) = st" if "f = failed_attempt now st k c m base" for f b now st k c m base using that by (simp add: failed_attempt_def)
  then show ?thesis using assms
    by (auto simp: record_failure_def failed_attempt_def split: sum.splits prod.splits server_error.splits bootstrap_error_kind.splits
        dest!: retryable_Inr manual_Inr end_Inr)
qed


section \<open>Attempts end\<close>

abbreviation boots :: "'g server_world \<Rightarrow> bootstrap_row list" where
  "boots w \<equiv> it_bootstraps (w_identity w)"

definition undisturbed :: "'g bootstrap_env \<Rightarrow> bool" where
  "undisturbed e \<longleftrightarrow> (\<forall>au q w. boots (fst (be_github e au q w)) = boots w)"

text \<open>An action that leaves a part of the world alone, and one that does so when it fails.\<close>

definition leaves :: "('g server_world \<Rightarrow> 'x) \<Rightarrow> ('g, 'a) action \<Rightarrow> bool" where
  "leaves v m \<longleftrightarrow> (\<forall>w. v (fst (m w)) = v w)"

definition leaves_failing :: "('g server_world \<Rightarrow> 'x) \<Rightarrow> ('g, 'a) action \<Rightarrow> bool" where
  "leaves_failing v m \<longleftrightarrow> (\<forall>w w' x. m w = (w', Inl x) \<longrightarrow> v w' = v w)"

abbreviation calm :: "('g, 'a) action \<Rightarrow> bool" where "calm \<equiv> leaves (\<lambda>w. boots w)"
abbreviation calm_failing :: "('g, 'a) action \<Rightarrow> bool" where "calm_failing \<equiv> leaves_failing (\<lambda>w. boots w)"

lemma calm_failing_bind: "leaves v m \<Longrightarrow> (\<And>x. leaves_failing v (f x)) \<Longrightarrow> leaves_failing v (bind_action m f)"
  unfolding leaves_failing_def
proof (intro allI impI)
  fix w w' x assume m: "leaves v m" and f: "\<And>x. \<forall>w w' y. f x w = (w', Inl y) \<longrightarrow> v w' = v w" and h: "bind_action m f w = (w', Inl x)"
  obtain w1 r where w1: "m w = (w1, r)" by fastforce
  then have "v w1 = v w" using m unfolding leaves_def by (metis fst_conv)
  moreover have "v w' = v w1"
  proof (cases r)
    case (Inr y)
    then have "f y w1 = (w', Inl x)" using h w1 by (simp add: bind_action_def)
    then show ?thesis using f [of y] by blast
  qed (use h w1 in \<open>simp add: bind_action_def\<close>)
  ultimately show "v w' = v w" by simp
qed

lemma calm_bind: "leaves v m \<Longrightarrow> (\<And>x. leaves v (f x)) \<Longrightarrow> leaves v (bind_action m f)"
  unfolding leaves_def bind_action_def by (auto split: prod.split sum.split) (metis fst_conv)+

lemma calm_catching: "leaves v m \<Longrightarrow> (\<And>x. leaves v (h x)) \<Longrightarrow> leaves v (catching m h)"
  unfolding leaves_def catching_def by (auto split: prod.split sum.split) (metis fst_conv)+

lemma calm_basic [simp]: "leaves v (pass x)" "leaves v (throw err)" "leaves v (lift_result r)" "leaves v (require ok err)" "leaves v (reading f)"
  "leaves v (found y err)"
  by (simp_all add: leaves_def pass_def throw_def lift_result_def require_def reading_def found_def split: option.split)

lemma calm_is_calm_failing: "leaves v m \<Longrightarrow> leaves_failing v m"
  unfolding leaves_def leaves_failing_def by (metis fst_conv)

lemma calm_fetch: "undisturbed e \<Longrightarrow> calm (github_fetch (be_github e) au q)"
  unfolding undisturbed_def leaves_def github_fetch_def by (auto split: prod.split) (metis fst_conv)

lemma calm_read: "undisturbed e \<Longrightarrow> calm (read_from e tok q ctx)"
  unfolding read_from_def split_beta by (intro calm_bind calm_fetch calm_basic)

lemma calm_write: "undisturbed e \<Longrightarrow> calm (write_to e tok q stale ctx)"
  unfolding write_to_def split_beta by (intro calm_bind calm_fetch calm_basic)

lemma calm_needed: "calm (needed_text a b err j)"
  unfolding needed_text_def by (intro calm_bind calm_basic)

lemma calm_commit_identity: "calm (resolveCommitIdentity e i)"
  unfolding resolveCommitIdentity_def by (intro calm_bind calm_basic)

lemma calm_add: "undisturbed e \<Longrightarrow> calm (addMissingFiles e k head tree missing)"
  unfolding addMissingFiles_def Let_def split_beta by (intro calm_bind calm_write calm_commit_identity calm_basic)

lemma calm_verify: "undisturbed e \<Longrightarrow> calm_failing (verifyLiveStateAndMarkReady e k base m)"
  unfolding verifyLiveStateAndMarkReady_def Let_def
  by (intro calm_failing_bind calm_read calm_needed calm_basic) (auto simp: leaves_failing_def split: sum.splits prod.splits)

lemma calm_reconcile: "undisturbed e \<Longrightarrow> calm_failing (reconcileFromBranchHead e k initial base fs l)"
proof -
  assume u: "undisturbed e"
  have "calm (case initial of Some h \<Rightarrow> pass h
        | None \<Rightarrow> bind_action (read_from e (bj_token k) (Get_ref (bj_owner k) (bj_repo k) (bj_branch k)) ''branch ref read during reconciliation'')
            (needed_text ''object'' ''sha'' (retryable_error ''TEMPORARY_GITHUB_ERROR'' ''Branch ref did not return commit SHA'' 500)))"
    by (cases initial) (simp_all add: calm_bind calm_read calm_needed u)
  moreover have "calm (if missing = [] then pass () else addMissingFiles e k head tree missing)" for missing head tree
    by (simp add: calm_add u)
  ultimately show ?thesis unfolding reconcileFromBranchHead_def Let_def
    by (intro calm_failing_bind calm_read calm_needed calm_basic calm_verify u)
qed

lemma calm_missing: "undisturbed e \<Longrightarrow> calm_failing (handleMissingBoundBranch e k meta l)"
proof -
  assume u: "undisturbed e"
  have empty: "calm_failing (bootstrapEmptyRepository e k m l)" for m
    unfolding bootstrapEmptyRepository_def split_beta
    by (auto split: option.split intro!: calm_failing_bind calm_is_calm_failing [OF calm_basic(2)] calm_reconcile calm_write calm_commit_identity u)
  have js: "calm (case j of JArr js \<Rightarrow> pass js | _ \<Rightarrow> throw err)" for j and err :: server_error by (cases j) simp_all
  have list: "calm (if fst r = 409 then pass []
         else if \<not> res_ok (fst r) then throw (classifyGitHubResponseError (fst r) ''branches inspection'')
         else bind_action (lift_result (res_json (snd r))) (\<lambda>j. case j of JArr js \<Rightarrow> pass js | _ \<Rightarrow> throw (malformed ''Branches listing payload is not an array'')))"
    for r :: "int \<times> (string + json)"
    by (auto intro!: calm_bind js)
  show ?thesis unfolding handleMissingBoundBranch_def split_beta
    by (intro calm_failing_bind calm_fetch calm_basic list u) (auto intro: calm_is_calm_failing empty)
qed

lemma calm_execute: "undisturbed e \<Longrightarrow> calm_failing (executeBootstrapAttempt e w a b inst l)"
proof -
  assume u: "undisturbed e"
  have "calm_failing (attemptOnBranch e k meta l)" for k meta
    unfolding attemptOnBranch_def split_beta
    by (intro calm_failing_bind calm_fetch u) (auto intro!: calm_failing_bind calm_needed calm_reconcile calm_missing u)
  moreover have "calm (getInstallation (be_github e) inst)"
    unfolding getInstallation_def split_beta by (intro calm_bind calm_fetch calm_basic u)
  moreover have "calm (getScopedInstallationToken (be_github e) (be_date_ms e) inst rs ps)" for rs ps
  proof -
    have m: "calm (mint_token (be_github e) (be_date_ms e) now key q)" for now key q
    proof -
      have "calm (\<lambda>w1. (w1\<lparr>w_tokens := (key, t) # filter (\<lambda>p. fst p \<noteq> key) (w_tokens w1)\<rparr>, Inr (ct_token t)))" for t
        by (simp add: leaves_def)
      then show ?thesis unfolding mint_token_def split_beta by (intro calm_bind calm_fetch calm_basic u)
    qed
    then show ?thesis unfolding leaves_def getScopedInstallationToken_def Let_def by (auto split: option.split)
  qed
  ultimately show ?thesis unfolding executeBootstrapAttempt_def
    by (intro calm_failing_bind calm_catching calm_read calm_basic u)
qed

lemma end_needs_bootstraps:
  assumes "end_attempt w a f it = Inr (it1, b)" "it_bootstraps it' = it_bootstraps it"
  shows "\<exists>b'. end_attempt w a g it' = Inr (update_bootstrap (current_attempt w a) b' it', b') \<and> (\<exists>c. b' = g c)"
proof -
  have "findWorkspaceBootstrapByWorkspaceId it' = findWorkspaceBootstrapByWorkspaceId it" by (rule same_bootstraps [OF assms(2)])
  then show ?thesis using assms by (auto simp: end_attempt_def split: option.splits if_splits)
qed

lemma failure_recorded:
  assumes "end_attempt i a f it = Inr y" "boots w = it_bootstraps it"
  shows "\<exists>w' r. record_failure e i a x w = (w', Inr r)"
proof -
  have r: "\<exists>z. markWorkspaceBootstrapRetryableFailure (w_now w) i a code msg None (w_identity w) = Inr z"
      "\<exists>z. markWorkspaceBootstrapManualRecovery (w_now w) i a code msg None (w_identity w) = Inr z" for code msg
    unfolding markWorkspaceBootstrapRetryableFailure_def markWorkspaceBootstrapManualRecovery_def optional_sha_def option.case ebind_simps
    using end_needs_bootstraps [of i a f it "fst y" "snd y" "w_identity w"] assms by (metis prod.collapse)+
  have "\<exists>z. (case x of
         Bootstrap_error BK_manual code msg _ \<Rightarrow> markWorkspaceBootstrapManualRecovery (w_now w) i a code msg None (w_identity w)
       | Bootstrap_error BK_retryable code msg _ \<Rightarrow> markWorkspaceBootstrapRetryableFailure (w_now w) i a code msg None (w_identity w)
       | _ \<Rightarrow> markWorkspaceBootstrapRetryableFailure (w_now w) i a ''NETWORK_ERROR'' (error_message e x) None (w_identity w)) = Inr z"
    using r by (auto split: server_error.split bootstrap_error_kind.split)
  then show ?thesis unfolding record_failure_def by (metis (no_types, lifting) old.sum.simps(6) prod.case_eq_if)
qed

lemma bind_step: "m w = (w1, Inr x) \<Longrightarrow> bind_action m f w = f x w1"
  by (simp add: bind_action_def)

text \<open>An attempt ends once its error, if any, can be recorded.\<close>

lemma attempt_ends:
  assumes "undisturbed e" and current: "\<And>f. \<exists>y. end_attempt i a f (w_identity w) = Inr y"
  shows "\<exists>w' r. catching (checked_attempt e i a b l) (record_failure e i a) w = (w', Inr r)
    \<and> wb_state r \<in> {BS_ready, BS_retryable_failure, BS_manual_recovery}"
proof -
  let ?m = "checked_attempt e i a b l"
  have calm: "calm_failing ?m" unfolding checked_attempt_def by (intro calm_failing_bind calm_basic calm_execute assms(1))
  obtain w2 r2 where t: "?m w = (w2, r2)" by fastforce
  show ?thesis
  proof (cases r2)
    case (Inl err)
    then have "boots w2 = it_bootstraps (w_identity w)" using calm t unfolding leaves_failing_def by fastforce
    moreover obtain y where "end_attempt i a id (w_identity w) = Inr y" using current by blast
    ultimately obtain w3 r where r: "record_failure e i a err w2 = (w3, Inr r)" using failure_recorded by blast
    then show ?thesis using failure_state [OF r] Inl t by (simp add: catching_def)
  next
    case (Inr r)
    have "yields ?m (verified_end b (rb_branch b))" unfolding checked_attempt_def by (intro yields_bind execute_yields)
    then have "verified_end b (rb_branch b) r w2" using t Inr unfolding yields_def by blast
    then have "wb_state r = BS_ready" unfolding verified_end_def by blast
    then show ?thesis using Inr t by (simp add: catching_def)
  qed
qed

lemma begun_can_end:
  assumes "reachable_state (h, w_identity w)" "0 \<le> w_now w" "findWorkspaceBootstrapByWorkspaceId (w_identity w) i \<noteq> None"
  shows "\<exists>w1 a. begin_attempt uuid i w = (w1, Inr a) \<and> (\<forall>f. \<exists>y. end_attempt i a f (w_identity w1) = Inr y)"
proof -
  obtain s where s: "findWorkspaceBootstrapByWorkspaceId (w_identity w) i = Some s" using assms(3) by blast
  obtain it1 a r where bg: "beginWorkspaceBootstrapAttempt (w_now w) uuid i (w_identity w) = Inr (it1, (a, r))"
    by (simp add: beginWorkspaceBootstrapAttempt_def s Let_def)
  have "identity_step (h, w_identity w) (Attempt_begun i a # h, it1)" by (rule begun [OF bg assms(2)])
  then have "identity_ok it1" "follows (Attempt_begun i a # h, it1)"
    using identity.inv_step [of "(h, w_identity w)"] reachable_identity_ok [OF assms(1)] by (auto simp: protocol_ok_def)
  then have "\<exists>y. end_attempt i a f it1 = Inr y" for f using end_succeeds [of it1 _ i a f] by (simp add: last_event_Cons)
  then show ?thesis by (simp add: begin_attempt_def bg)
qed

lemma status_of_workspace:
  assumes "identity_ok (w_identity w)" "i \<in> wk_id ` set (it_workspaces (w_identity w))"
  shows "\<exists>v. getProvisioningStatus i w = (w, Inr v) \<and> findWorkspaceBootstrapByWorkspaceId (w_identity w) i = Some (pv_bootstrap v)"
proof -
  obtain x where x: "findWorkspaceById (w_identity w) i = Some x"
    using assms(2) unfolding findWorkspaceById_def by (cases "find (\<lambda>r. wk_id r = i) (it_workspaces (w_identity w))") (auto simp: find_key_None)
  obtain b s where "findRepositoryBindingByWorkspaceId (w_identity w) i = Some b" "findWorkspaceBootstrapByWorkspaceId (w_identity w) i = Some s"
    using workspace_rows [OF assms] by blast
  then show ?thesis by (simp add: getProvisioningStatus_def bind_action_def reading_def found_def pass_def x)
qed


section \<open>A bootstrap\<close>

definition sample_repository :: json where
  "sample_repository = JObj (fmap_of_list [(''id'', JStr ''21''), (''name'', JStr ''vault''), (''full_name'', JStr ''octo/vault''),
     (''owner'', JObj (fmap_of_list [(''id'', JStr ''7''), (''login'', JStr ''octo'')])), (''private'', JBool True), (''archived'', JBool False),
     (''disabled'', JBool False), (''default_branch'', JStr ''main'')])"

text \<open>A repository whose branch lacks the README until the branch is moved.\<close>

fun sample_reply :: "github_request \<Rightarrow> bool \<Rightarrow> bool \<times> github_reply" where
  "sample_reply (Get_installation i) g = (g, Reply 200 (Inr (JObj (fmap_of_list [(''id'', jint 11),
     (''permissions'', JObj (fmap_of_list [(''contents'', JStr ''write'')]))]))))"
| "sample_reply (Post_installation_token i ids ps) g = (g, Reply 201 (Inr (JObj (fmap_of_list [(''token'', JStr ''t''), (''expires_at'', JStr ''later'')]))))"
| "sample_reply (Get_repository o_r n) g = (g, Reply 200 (Inr sample_repository))"
| "sample_reply (Get_ref o_r n br) g = (g, Reply 200 (Inr (JObj (fmap_of_list [(''object'', JObj (fmap_of_list [(''sha'', JStr sample_sha)]))]))))"
| "sample_reply (Get_commit o_r n c) g = (g, Reply 200 (Inr (JObj (fmap_of_list [(''tree'', JObj (fmap_of_list [(''sha'', JStr ''t1'')]))]))))"
| "sample_reply (Get_tree o_r n t) g = (g, Reply 200 (Inr (JObj (fmap_of_list [(''tree'', JArr (if g then [JObj (fmap_of_list
     [(''path'', JStr ''README.md''), (''mode'', JStr ''100644''), (''type'', JStr ''blob'')])] else []))]))))"
| "sample_reply (Post_tree o_r n b fs) g = (g, Reply 201 (Inr (JObj (fmap_of_list [(''sha'', JStr ''t2'')]))))"
| "sample_reply (Post_commit o_r n t h a c) g = (g, Reply 201 (Inr (JObj (fmap_of_list [(''sha'', JStr ''c2'')]))))"
| "sample_reply (Patch_ref o_r n br c f) g = (True, Reply 200 (Inr (JObj fmempty)))"
| "sample_reply _ g = (g, Reply 500 (Inr JNull))"

definition sample_github :: "bool github" where
  "sample_github au q w = (let (g, r) = sample_reply q (w_github w) in (w\<lparr>w_github := g\<rparr>, r))"

definition sample_env :: "bool bootstrap_env" where
  "sample_env = \<lparr>be_github = sample_github, be_date_ms = (\<lambda>_. Some 1000000), be_readme = (\<lambda>_. ''hello''), be_identity_message = (\<lambda>_. ''error''),
     be_number = (\<lambda>_. ''0''), be_text = (\<lambda>_. ''value''), be_committer = (''CEO'', ''ceo@example.org'')\<rparr>"

definition sample_world :: "bool server_world" where
  "sample_world = \<lparr>w_github = False, w_identity = sample_i3, w_control = empty_control, w_flows = [], w_now = 4,
     w_sessions = \<lparr>sm_ttl_ms = DEFAULT_TTL_MS, sm_sessions = []\<rparr>, w_tokens = [], w_active = {}, w_install_states = [], w_oauth_states = [],
     w_repository_states = [], w_grants = [], w_creations = {}, w_log = []\<rparr>"

lemma sample_bootstrap:
  "(case bootstrapWorkspace sample_env ''h'' ''ws_e'' L_en sample_world of (w, Inr v) \<Rightarrow> pv_status v = PS_ready \<and> length (w_log w) = 13 | _ \<Rightarrow> False)"
  by code_simp

lemma bootstrap_only_adds_witness:
  "founded_log (w_log (fst (bootstrapWorkspace sample_env ''h'' ''ws_e'' L_en sample_world)))
    \<and> length (w_log (fst (bootstrapWorkspace sample_env ''h'' ''ws_e'' L_en sample_world))) = 13"
proof -
  have "founded_log (w_log sample_world)" by (simp add: sample_world_def)
  then show ?thesis using bootstrap_only_adds [of sample_world sample_env "''h''" "''ws_e''" L_en] sample_bootstrap
    by (auto split: prod.splits sum.splits)
qed



end
