(* ===== verification/Repository_Properties.thy ===== *)
theory Repository_Properties
  imports Repository_Binding Bootstrap_Properties
begin

text \<open>
  What the repository service guarantees, whatever GitHub answers and whatever other requests do meanwhile: an error tells
  whether a repository was created, and a repository is bound only for the user of a live grant.
\<close>

section \<open>Creations in the log\<close>

fun creates :: "github_request \<Rightarrow> bool" where
  "creates (Create_user_repository n d) = True"
| "creates (Create_organization_repository o_r n d) = True"
| "creates _ = False"

fun is_partial :: "server_error \<Rightarrow> bool" where
  "is_partial (Partial_creation m r) = True"
| "is_partial _ = False"

definition creations :: "request_log \<Rightarrow> request_log" where
  "creations L = filter (\<lambda>p. creates (fst p)) L"

definition created :: "request_log \<Rightarrow> bool" where
  "created L \<longleftrightarrow> (\<exists>q st b. creates q \<and> res_ok st \<and> (q, Reply st b) \<in> set L)"

lemma created_none: "creations L = [] \<Longrightarrow> \<not> created L"
  by (force simp: creations_def created_def filter_empty_conv)

lemma creations_append [simp]: "creations (L @ M) = creations L @ creations M" and creations_Nil [simp]: "creations [] = []"
  by (simp_all add: creations_def)

lemma created_append [simp]: "created (L @ M) \<longleftrightarrow> created L \<or> created M"
  by (auto simp: created_def)

text \<open>What an action adds to the log, and the errors it may end with.\<close>

definition adds :: "(request_log \<Rightarrow> server_error + 'a \<Rightarrow> bool) \<Rightarrow> ('g, 'a) action \<Rightarrow> bool" where
  "adds Q m \<longleftrightarrow> (\<forall>w w' r. m w = (w', r) \<longrightarrow> (\<exists>new. w_log w' = new @ w_log w \<and> Q new r))"

definition no_creation :: "(server_error \<Rightarrow> bool) \<Rightarrow> request_log \<Rightarrow> server_error + 'a \<Rightarrow> bool" where
  "no_creation P new r \<longleftrightarrow> creations new = [] \<and> (\<forall>x. r = Inl x \<longrightarrow> P x)"

lemma adds_bind:
  assumes "adds (no_creation P) m" "\<And>x. adds (no_creation P) (f x)"
  shows "adds (no_creation P) (bind_action m f)"
  unfolding adds_def
proof (intro allI impI)
  fix w w' r assume h: "bind_action m f w = (w', r)"
  obtain w1 r1 where m: "m w = (w1, r1)" by fastforce
  then obtain n1 where n1: "w_log w1 = n1 @ w_log w" "no_creation P n1 r1" using assms(1) unfolding adds_def by blast
  show "\<exists>new. w_log w' = new @ w_log w \<and> no_creation P new r"
  proof (cases r1)
    case (Inl x)
    then show ?thesis using h m n1 by (auto simp: bind_action_def no_creation_def)
  next
    case (Inr x)
    then have "f x w1 = (w', r)" using h m by (simp add: bind_action_def)
    then obtain n2 where "w_log w' = n2 @ w_log w1" "no_creation P n2 r" using assms(2) unfolding adds_def by blast
    then show ?thesis using n1 by (intro exI [of _ "n2 @ n1"]) (simp add: no_creation_def)
  qed
qed

lemma adds_silent: "(\<And>w. w_log (fst (m w)) = w_log w) \<Longrightarrow> (\<And>w x. snd (m w) = Inl x \<Longrightarrow> P x) \<Longrightarrow> adds (no_creation P) m"
  unfolding adds_def no_creation_def by (metis append_Nil creations_Nil fst_conv snd_conv)

lemma adds_basic [intro]:
  "adds (no_creation P) (pass z)" "adds (no_creation P) (reading f)"
  "P x \<Longrightarrow> adds (no_creation P) (throw x)" "P x \<Longrightarrow> adds (no_creation P) (require ok x)" "P x \<Longrightarrow> adds (no_creation P) (found y x)"
  "(\<And>x. r = Inl x \<Longrightarrow> P x) \<Longrightarrow> adds (no_creation P) (lift_result r)"
  by (rule adds_silent; auto simp: pass_def reading_def throw_def require_def found_def lift_result_def split: if_splits option.splits)+

lemma adds_fetch: "\<not> creates q \<Longrightarrow> (\<And>m. P (Other_error m)) \<Longrightarrow> adds (no_creation P) (github_fetch gh au q)"
  by (auto simp: adds_def github_fetch_def no_creation_def creations_def split: prod.splits github_reply.splits)

lemma adds_throwing: "adds (no_creation (\<lambda>_. True)) m \<Longrightarrow> (\<And>x. P (f x)) \<Longrightarrow> adds (no_creation P) (catching m (\<lambda>x. throw (f x)))"
  by (fastforce simp: adds_def catching_def throw_def no_creation_def split: prod.splits sum.splits)

lemma adds_any: "adds (no_creation P) m \<Longrightarrow> adds (no_creation (\<lambda>_. True)) m"
  by (auto simp: adds_def no_creation_def) blast

section \<open>The parts of a creation\<close>

lemma adds_identity_action: "(\<And>x. P (Identity_failure x)) \<Longrightarrow> adds (no_creation P) (identity_action f)"
  by (rule adds_silent) (auto simp: identity_action_def split: sum.splits)

lemma adds_grant: "(\<And>m st. P (Repository_error m st)) \<Longrightarrow> adds (no_creation P) (getValidGrant i sid u subject)"
  unfolding getValidGrant_def require_session_def
  by (intro adds_bind adds_basic; assumption?) (rule adds_silent; auto simp: cleanup_def unexpired_grant_def drop_grant_def live_session_of_def
      split: option.splits if_splits prod.splits)+

lemma res_json_error: "res_json b = Inl x \<Longrightarrow> \<exists>m. x = Other_error m"
  by (auto simp: res_json_def split: sum.splits)

lemma installation_reply_error: "installation_reply i j = Inl x \<Longrightarrow> \<exists>m st. x = GitHub_app_error m st"
  by (auto simp: installation_reply_def split: json.splits option.splits if_splits)

lemma adds_installation:
  assumes "\<And>m. P (Other_error m)" "\<And>m st. P (GitHub_app_error m st)"
  shows "adds (no_creation P) (getInstallation gh i)"
  unfolding getInstallation_def split_beta
  using assms by (intro adds_bind adds_fetch adds_basic) (auto dest!: res_json_error installation_reply_error)

lemma plain_before:
  "adds (no_creation (\<lambda>x. \<not> is_partial x)) (getValidGrant i sid u subject)"
  "adds (no_creation (\<lambda>x. \<not> is_partial x)) (owns_nothing u)"
  "adds (no_creation (\<lambda>x. \<not> is_partial x)) (creation_permitted e g)"
  unfolding owns_nothing_def creation_permitted_def contents_needed_def
  by (intro adds_grant adds_bind adds_installation adds_basic; simp)+

lemma adds_bind_created: "adds (no_creation (\<lambda>_. True)) (bind_created e ids i u g r)"
proof -
  have c: "adds (no_creation (\<lambda>_. True)) (consume_grant i)" by (rule adds_silent) (simp_all add: consume_grant_def drop_grant_def)
  have b: "adds (no_creation (\<lambda>_. True)) (bind_repository ids x)" for x
    unfolding bind_repository_def split_beta by (rule adds_identity_action) simp
  show ?thesis unfolding bind_created_def split_beta
    by (intro adds_bind adds_fetch adds_basic b c) simp_all
qed

lemma adds_after_creation: "adds (no_creation is_partial) (after_creation e ids i u g name b)"
  unfolding after_creation_def
  by (intro adds_bind adds_throwing adds_bind_created adds_basic) (simp_all add: partial_unknown_def partial_known_def)

lemma refused_plain: "\<not> is_partial (creation_refused st b)"
  by (auto simp: creation_refused_def Let_def js_member_def member_of_null_def split: sum.splits json.splits)

text \<open>The log and the result of a creation agree.\<close>

definition tells :: "request_log \<Rightarrow> server_error + 'a \<Rightarrow> bool" where
  "tells new r \<longleftrightarrow> length (creations new) \<le> 1 \<and> (case r of Inr _ \<Rightarrow> created new | Inl x \<Rightarrow> created new \<longleftrightarrow> is_partial x)"

lemma tells_bind:
  assumes "adds (no_creation (\<lambda>x. \<not> is_partial x)) m" "\<And>x. adds tells (f x)"
  shows "adds tells (bind_action m f)"
  unfolding adds_def
proof (intro allI impI)
  fix w w' r assume h: "bind_action m f w = (w', r)"
  obtain w1 r1 where m: "m w = (w1, r1)" by fastforce
  then obtain n1 where n1: "w_log w1 = n1 @ w_log w" "creations n1 = []" "\<forall>x. r1 = Inl x \<longrightarrow> \<not> is_partial x"
    using assms(1) [unfolded adds_def, rule_format, OF m] by (auto simp: no_creation_def)
  show "\<exists>new. w_log w' = new @ w_log w \<and> tells new r"
  proof (cases r1)
    case (Inl x)
    then show ?thesis using h m n1 created_none [of n1] by (auto simp: bind_action_def tells_def)
  next
    case (Inr x)
    then have "f x w1 = (w', r)" using h m by (simp add: bind_action_def)
    then obtain n2 where "w_log w' = n2 @ w_log w1" "tells n2 r" using assms(2) unfolding adds_def by blast
    then show ?thesis using n1 created_none [of n1] by (intro exI [of _ "n2 @ n1"]) (simp add: tells_def split: sum.splits)
  qed
qed

lemma tells_creation:
  assumes "creates q"
  shows "adds tells (bind_action (github_fetch gh au q) (\<lambda>(st, b). bind_action (require (res_ok st) (creation_refused st b))
    (\<lambda>_. after_creation e ids i u g name b)))"
  unfolding adds_def
proof (intro allI impI)
  fix w w' r
  assume h: "bind_action (github_fetch gh au q) (\<lambda>(st, b). bind_action (require (res_ok st) (creation_refused st b))
    (\<lambda>_. after_creation e ids i u g name b)) w = (w', r)"
  obtain w1 p where p: "gh au q w = (w1, p)" by fastforce
  let ?w = "w1\<lparr>w_log := (q, p) # w_log w\<rparr>"
  show "\<exists>new. w_log w' = new @ w_log w \<and> tells new r"
  proof (cases p)
    case (No_reply m)
    then have "w' = ?w" "r = Inl (Other_error m)" using h p by (simp_all add: bind_action_def github_fetch_def)
    then show ?thesis using No_reply by (intro exI [of _ "[(q, p)]"]) (simp add: tells_def created_def creations_def)
  next
    case (Reply st b)
    show ?thesis
    proof (cases "res_ok st")
      case False
      then have "w' = ?w" "r = Inl (creation_refused st b)" using h p Reply by (simp_all add: bind_action_def github_fetch_def require_def throw_def)
      then show ?thesis using Reply False refused_plain by (intro exI [of _ "[(q, p)]"]) (simp add: tells_def created_def creations_def)
    next
      case True
      then have "after_creation e ids i u g name b ?w = (w', r)" using h p Reply by (simp add: bind_action_def github_fetch_def require_def pass_def)
      from adds_after_creation [unfolded adds_def, rule_format, OF this]
      obtain n where n: "w_log w' = n @ w_log ?w" "creations n = []" "\<forall>x. r = Inl x \<longrightarrow> is_partial x" by (auto simp: no_creation_def)
      have "created (n @ [(q, p)])" using assms True Reply by (auto simp: created_def)
      then show ?thesis using n assms by (intro exI [of _ "n @ [(q, p)]"]) (auto simp: tells_def creations_def split: sum.splits)
    qed
  qed
qed

lemma guarded_tells: "adds tells (guarded_creation e ids i sid u subject name desc)"
proof -
  have "creates (creation_request g n d)" for g n d by (simp add: creation_request_def)
  then show ?thesis unfolding guarded_creation_def Let_def
    by (intro tells_bind [OF adds_basic(4)] tells_bind [OF plain_before(1)] tells_bind [OF plain_before(2)] tells_bind [OF plain_before(3)] tells_creation) simp_all
qed

lemma creation_tells: "adds tells (createRepositoryAndBind e ids i sid u subject name desc)"
  unfolding adds_def
proof (intro allI impI)
  fix w w' r assume h: "createRepositoryAndBind e ids i sid u subject name desc w = (w', r)"
  show "\<exists>new. w_log w' = new @ w_log w \<and> tells new r"
  proof (cases "u \<in> w_creations w")
    case True
    then show ?thesis using h by (auto simp: createRepositoryAndBind_def created_def tells_def)
  next
    case False
    obtain w1 r1 where g: "guarded_creation e ids i sid u subject name desc (w\<lparr>w_creations := insert u (w_creations w)\<rparr>) = (w1, r1)" by fastforce
    then have "w' = w1\<lparr>w_creations := w_creations w1 - {u}\<rparr>" "r = r1" using h False by (simp_all add: createRepositoryAndBind_def)
    moreover have "\<exists>new. w_log w1 = new @ w_log w \<and> tells new r1" using guarded_tells g unfolding adds_def by fastforce
    ultimately show ?thesis by simp
  qed
qed

text \<open>C36. The answer to a creation tells whether there is a new repository: at most one request to create one is sent, and GitHub
  has confirmed it exactly if the answer is a success or the error of a partial creation, which asks the user to import
  the repository. This holds whatever GitHub answers and other requests do.\<close>

theorem creation_tells_the_truth:
  assumes "createRepositoryAndBind e ids i sid u subject name desc w = (w', r)"
  shows "\<exists>new. w_log w' = new @ w_log w \<and> length (creations new) \<le> 1
    \<and> (case r of Inr _ \<Rightarrow> created new | Inl x \<Rightarrow> created new \<longleftrightarrow> is_partial x)"
  using creation_tells assms unfolding adds_def tells_def by blast

section \<open>The grant behind a binding\<close>

text \<open>The grant is live, belongs to this session of this user, and the user may use the installation.\<close>

definition grant_holds :: "'g server_world \<Rightarrow> string \<Rightarrow> string \<Rightarrow> user_id \<Rightarrow> string \<Rightarrow> repository_grant \<Rightarrow> bool" where
  "grant_holds w i sid u subject g \<longleftrightarrow> (i, g) \<in> set (w_grants w) \<and> w_now w \<le> rg_expires_at_ms g \<and> rg_session_id g = sid
     \<and> rg_user_id g = u \<and> rg_provider_subject g = subject
     \<and> (\<exists>s. map_of (sm_sessions (w_sessions w)) sid = Some s \<and> us_user_id s = u \<and> w_now w \<le> us_expires_at s)
     \<and> account_active (w_identity w) u \<and> findGitHubInstallationUser (w_identity w) (rg_installation_row_id g) u \<noteq> None"

lemma require_Inr: "require ok x w = (w', Inr y) \<longleftrightarrow> ok \<and> w' = w"
  by (auto simp: require_def pass_def throw_def)

lemma reading_Inr: "reading f w = (w', Inr y) \<longleftrightarrow> w' = w \<and> y = f w"
  by (auto simp: reading_def)

lemma found_Inr: "found z x w = (w', Inr y) \<longleftrightarrow> z = Some y \<and> w' = w"
  by (auto simp: found_def pass_def throw_def split: option.splits)

lemma pass_Inr: "pass x w = (w', Inr y) \<longleftrightarrow> w' = w \<and> y = x"
  by (auto simp: pass_def)

lemma catching_throw_Inr: "catching m (\<lambda>x. throw (f x)) w = (w', Inr y) \<longleftrightarrow> m w = (w', Inr y)"
  by (auto simp: catching_def throw_def split: prod.splits sum.splits)

lemma fetch_Inr: "github_fetch gh au q w = (w', Inr (st, b)) \<longleftrightarrow>
    (\<exists>w1. gh au q w = (w1, Reply st b) \<and> w' = w1\<lparr>w_log := (q, Reply st b) # w_log w\<rparr>)"
  by (auto simp: github_fetch_def split: prod.splits github_reply.splits)

lemmas action_Inr = bind_Inr lift_Inr require_Inr reading_Inr found_Inr pass_Inr catching_throw_Inr

lemma grant_Inr:
  assumes "getValidGrant i sid u subject w = (w', Inr g)"
  shows "grant_holds w i sid u subject g \<and> w_log w' = w_log w \<and> w_identity w' = w_identity w"
proof -
  have s: "\<exists>s. map_of (sm_sessions m) sid = Some s \<and> us_user_id s = u \<and> now \<le> us_expires_at s"
    if "(case snd (getSessionFromToken now (Some sid) m) of None \<Rightarrow> False | Some s \<Rightarrow> us_user_id s = u)" for m now
    using that by (auto simp: getSessionFromToken_def split: if_splits option.splits)
  show ?thesis using assms
    by (auto simp: getValidGrant_def action_Inr require_session_def cleanup_def unexpired_grant_def live_session_of_def split_beta
        grant_holds_def split: option.splits if_splits dest!: map_of_SomeD intro!: s)
qed

text \<open>A binding of the user to the repository a report describes.\<close>

definition bound_to :: "user_id \<Rightarrow> repository_grant \<Rightarrow> safe_repository \<Rightarrow> workspace_rows \<Rightarrow> bool" where
  "bound_to u g v rows \<longleftrightarrow> wk_owner_user_id (nw_workspace rows) = u \<and> rb_installation_row_id (nw_repository rows) = rg_installation_row_id g
     \<and> rb_repository_id (nw_repository rows) = sr_id v \<and> rb_owner_account_id (nw_repository rows) = rg_account_id g
     \<and> sr_private v \<and> \<not> sr_archived v \<and> \<not> sr_disabled v"

lemma bind_repository_Inr:
  assumes "bind_repository ids (binding_input u g br v) w = (w', Inr rows)" "sr_owner_id v = rg_account_id g"
    "sr_private v" "\<not> sr_archived v" "\<not> sr_disabled v"
  shows "w_log w' = w_log w \<and> w_grants w' = w_grants w \<and> bound_to u g v rows
    \<and> countOwnedWorkspacesForUser (w_identity w) u = 0 \<and> wk_id (nw_workspace rows) \<in> wk_id ` set (it_workspaces (w_identity w'))"
proof -
  obtain a b c where ids: "ids = (a, b, c)" by (cases ids)
  obtain it where it: "createWorkspaceWithRepositoryBinding (w_now w) a b c (binding_input u g br v) (w_identity w) = Inr (it, rows)"
      "w' = w\<lparr>w_identity := it\<rparr>"
    using assms(1) by (auto simp: bind_repository_def identity_action_def ids split: sum.splits)
  have n: "rows = new_workspace (w_now w) a b c (binding_input u g br v)" "insert_workspace_rows rows (w_identity w) = Some it"
      "countOwnedWorkspacesForUser (w_identity w) u = 0"
    using it(1) by (auto simp: createWorkspaceWithRepositoryBinding_def binding_input_def Let_def split: if_splits option.splits)
  have "nw_workspace rows \<in> set (it_workspaces it)"
    using n(2) by (auto simp: insert_workspace_rows_def insert_workspace_def insert_member_def insert_repository_def insert_bootstrap_def
        bind_eq_Some_conv split: if_splits)
  moreover have "bound_to u g v rows" unfolding n(1) using assms(2-) by (simp add: bound_to_def new_workspace_def binding_input_def Let_def)
  ultimately show ?thesis using it(2) n(3) by simp
qed

lemma report_Inr:
  assumes "same_report what err old new = Inr ()"
  shows "sr_id new = sr_id old \<and> sr_owner_id new = sr_owner_id old \<and> sr_private new \<and> \<not> sr_archived new \<and> \<not> sr_disabled new"
proof -
  have "report_mismatch what old new = None" using assms by (simp add: same_report_def split: option.splits)
  then show ?thesis by (simp add: report_mismatch_def split: if_splits)
qed

section \<open>Importing\<close>

text \<open>GitHub reported the repository to the user, who administers it, as one the installation may use.\<close>

definition listed_to_admin :: "'g bootstrap_env \<Rightarrow> repository_grant \<Rightarrow> string \<Rightarrow> safe_repository \<Rightarrow> request_log \<Rightarrow> bool" where
  "listed_to_admin e g i r L \<longleftrightarrow> (\<exists>page j xs raw. saw (List_user_repositories (rg_installation_id g) page) j L
     \<and> array_member ''repositories'' j = Inr xs \<and> raw \<in> set xs \<and> js_string e (js_opt_member ''id'' (Some raw)) = i
     \<and> parseStrictRepositoryPayload True True raw = Inr r)"

text \<open>The installation itself reports the repository as private and in use.\<close>

definition read_by_installation :: "safe_repository \<Rightarrow> safe_repository \<Rightarrow> request_log \<Rightarrow> bool" where
  "read_by_installation r v L \<longleftrightarrow> (\<exists>j. saw (Get_repository (sr_owner_login r) (sr_name r)) j L \<and> parseStrictRepositoryPayload False False j = Inr v
     \<and> sr_id v = sr_id r \<and> sr_owner_id v = sr_owner_id r \<and> sr_private v \<and> \<not> sr_archived v \<and> \<not> sr_disabled v)"

lemma page_Inr:
  assumes "repositories_page e g page w = (w', Inr (j, xs))"
  shows "saw (List_user_repositories (rg_installation_id g) page) j (w_log w') \<and> array_member ''repositories'' j = Inr xs
    \<and> (\<exists>new. w_log w' = new @ w_log w)"
proof -
  obtain st b where "github_fetch (be_github e) (User_access_token (rg_user_access_token g)) (List_user_repositories (rg_installation_id g) page) w
      = (w', Inr (st, b))" "res_ok st" "res_json b = Inr j" and xs: "array_member ''repositories'' j = Inr xs"
    using assms by (auto simp: repositories_page_def action_Inr)
  then have "w_log w' = [(List_user_repositories (rg_installation_id g) page, Reply st (Inr j))] @ w_log w" "res_ok st"
    by (auto simp: fetch_Inr res_json_def split: sum.splits)
  then show ?thesis using xs by (auto simp: saw_def)
qed

lemma find_repository_Inr:
  "find_repository e g i k w = (w', Inr (Some raw)) \<Longrightarrow>
    \<exists>page j xs. saw (List_user_repositories (rg_installation_id g) page) j (w_log w') \<and> array_member ''repositories'' j = Inr xs
      \<and> raw \<in> set xs \<and> js_string e (js_opt_member ''id'' (Some raw)) = i"
proof (induction k arbitrary: w)
  case 0
  then show ?case by (simp add: pass_def)
next
  case (Suc k)
  obtain w1 j xs where p: "repositories_page e g (max_pages - k) w = (w1, Inr (j, xs))"
    and rest: "(case find (\<lambda>r. js_truthy (Some r) \<and> js_string e (js_opt_member ''id'' (Some r)) = i) xs of
         Some r \<Rightarrow> pass (Some r)
       | None \<Rightarrow> if last_page (max_pages - k) xs j then pass None else find_repository e g i k) w1 = (w', Inr (Some raw))"
  proof -
    obtain w1 p where p: "repositories_page e g (max_pages - k) w = (w1, Inr p)"
      "(case p of (j, xs) \<Rightarrow> case find (\<lambda>r. js_truthy (Some r) \<and> js_string e (js_opt_member ''id'' (Some r)) = i) xs of
         Some r \<Rightarrow> pass (Some r)
       | None \<Rightarrow> if last_page (max_pages - k) xs j then pass None else find_repository e g i k) w1 = (w', Inr (Some raw))"
      using Suc.prems unfolding find_repository.simps bind_Inr by blast
    then show thesis using that by (cases p) simp
  qed
  show ?case
  proof (cases "find (\<lambda>r. js_truthy (Some r) \<and> js_string e (js_opt_member ''id'' (Some r)) = i) xs")
    case None
    then show ?thesis using rest Suc.IH [of w1] by (auto simp: pass_def split: if_splits)
  next
    case (Some r)
    then have "w' = w1" "raw = r" using rest by (auto simp: pass_def)
    then show ?thesis using page_Inr [OF p] find_SomeD [OF Some] by blast
  qed
qed

lemma adds_kept: "adds Q m \<Longrightarrow> m w = (w', r) \<Longrightarrow> \<exists>new. w_log w' = new @ w_log w"
  unfolding adds_def by blast

lemma saw_later: "saw q j L \<Longrightarrow> L' = new @ L \<Longrightarrow> saw q j L'"
  by (auto simp: saw_def)

lemma adds_token: "adds (no_creation (\<lambda>_. True)) (getInstallationToken gh d i)"
proof -
  have "adds (no_creation (\<lambda>_. True)) (mint_token gh d now key (Post_installation_token i ids ps))" for now key ids ps
    unfolding mint_token_def split_beta by (intro adds_bind adds_fetch adds_basic) (simp_all add: adds_silent)
  then have "adds (no_creation (\<lambda>_. True)) (\<lambda>w. mint_token gh d (w_now w) key (Post_installation_token i ids ps) w)" for key ids ps
    unfolding adds_def by blast
  then show ?thesis unfolding getInstallationToken_def getScopedInstallationToken_def Let_def adds_def
    by (auto simp: no_creation_def split: option.splits if_splits)
qed

lemma installation_reads_Inr:
  assumes "installation_reads e g r w = (w', Inr v)"
  shows "read_by_installation r v (w_log w') \<and> (\<exists>new. w_log w' = new @ w_log w)"
proof -
  obtain w1 inst w2 tok w3 st b where s: "getInstallation (be_github e) (rg_installation_id g) w = (w1, Inr inst)"
      "getInstallationToken (be_github e) (be_date_ms e) (rg_installation_id g) w1 = (w2, Inr tok)"
      "github_fetch (be_github e) (Installation_token tok) (Get_repository (sr_owner_login r) (sr_name r)) w2 = (w3, Inr (st, b))"
      "res_ok st" "ebind (res_json b) (parseStrictRepositoryPayload False False) = Inr v"
      "same_report ''Installation verified repository'' (\<lambda>m. Repository_error m 400) r v = Inr ()" "w' = w3"
    using assms by (auto simp: installation_reads_def action_Inr)
  have "adds (no_creation (\<lambda>_. True)) (getInstallation (be_github e) (rg_installation_id g))" by (rule adds_installation) simp_all
  then have l: "\<exists>new. w_log w1 = new @ w_log w" "\<exists>new. w_log w2 = new @ w_log w1"
    using adds_kept s(1) adds_kept [OF adds_token s(2)] by blast+
  obtain j where j: "b = Inr j" "parseStrictRepositoryPayload False False j = Inr v" using read_body [OF s(5)] by blast
  then have "saw (Get_repository (sr_owner_login r) (sr_name r)) j (w_log w')" using s(3,4,7) by (auto simp: saw_def fetch_Inr)
  then have "read_by_installation r v (w_log w')" using j(2) report_Inr [OF s(6)] unfolding read_by_installation_def by blast
  moreover have "\<exists>new. w_log w3 = new @ w_log w2" using s(3) by (auto simp: fetch_Inr)
  ultimately show ?thesis using l s(7) by (metis append_assoc)
qed

lemma importable_Inr: "importable g r = Inr () \<Longrightarrow> sr_owner_id r = rg_account_id g"
  by (auto simp: importable_def split: if_splits)


section \<open>An account with one repository\<close>

text \<open>The repository cannot be read while the flag is set.\<close>

fun account_reply :: "github_request \<Rightarrow> bool \<Rightarrow> github_reply" where
  "account_reply (Get_installation i) g = Reply 200 (Inr (JObj (fmap_of_list [(''id'', jint 11),
     (''permissions'', JObj (fmap_of_list [(''contents'', JStr ''write''), (''administration'', JStr ''write'')]))])))"
| "account_reply (Post_installation_token i ids ps) g = Reply 201 (Inr (JObj (fmap_of_list [(''token'', JStr ''t''), (''expires_at'', JStr ''later'')])))"
| "account_reply (Exchange_code c v) g = Reply 200 (Inr (JObj (fmap_of_list [(''access_token'', JStr ''u'')])))"
| "account_reply Get_user g = Reply 200 (Inr (JObj (fmap_of_list [(''id'', jint 7), (''login'', JStr ''octo'')])))"
| "account_reply (List_user_installations page) g = Reply 200 (Inr (JObj (fmap_of_list [(''installations'', JArr [JObj (fmap_of_list
     [(''id'', jint 11), (''app_id'', jint 12), (''repository_selection'', JStr ''selected''), (''account'', JObj (fmap_of_list
       [(''id'', jint 7), (''login'', JStr ''octo''), (''type'', JStr ''User'')]))])])])))"
| "account_reply (List_user_repositories i page) g = Reply 200 (Inr (JObj (fmap_of_list [(''repositories'', JArr [JObj (fmupd ''permissions''
     (JObj (fmap_of_list [(''admin'', JBool True)])) (case sample_repository of JObj f \<Rightarrow> f | _ \<Rightarrow> fmempty))])])))"
| "account_reply (Create_user_repository n d) g = Reply 201 (Inr sample_repository)"
| "account_reply (Get_repository o_r n) g = (if g then Reply 500 (Inr JNull) else Reply 200 (Inr sample_repository))"
| "account_reply _ g = Reply 404 (Inr JNull)"

definition account_github :: "bool github" where
  "account_github au q w = (w, account_reply q (w_github w))"

definition account_env :: "bool bootstrap_env" where
  "account_env = sample_env\<lparr>be_github := account_github\<rparr>"

definition account_world :: "bool \<Rightarrow> bool server_world" where
  "account_world g = sample_world\<lparr>w_github := g, w_identity := sample_i2,
     w_sessions := \<lparr>sm_ttl_ms = DEFAULT_TTL_MS, sm_sessions = [(''s'', \<lparr>us_session_id = ''s'', us_user_id = ''usr_a'', us_provider = ''github'',
       us_provider_subject = ''7'', us_provider_login = Some ''octo'', us_expires_at = 1000\<rparr>)]\<rparr>,
     w_oauth_states := [(''o'', \<lparr>po_code_verifier = ''v'', po_user_id = ''usr_a'', po_provider_subject = ''7'', po_installation_id = ''11'',
       po_expires_at = 1000, po_flow_id = None, po_oauth_request = None\<rparr>)],
     w_grants := [(''k'', \<lparr>rg_session_id = ''s'', rg_user_id = ''usr_a'', rg_provider_subject = ''7'', rg_installation_row_id = ''ghi_c'',
       rg_installation_id = ''11'', rg_account_id = ''7'', rg_account_login = ''octo'', rg_account_type = ''User'', rg_user_access_token = ''u'',
       rg_expires_at_ms = 1000\<rparr>)]\<rparr>"

definition account_creation :: "bool \<Rightarrow> bool server_world \<times> (server_error + bound_repository)" where
  "account_creation g = createRepositoryAndBind account_env (''e'', ''f'', ''g'') ''k'' ''s'' ''usr_a'' ''7'' '' vault '' None (account_world g)"

definition account_import :: "bool server_world \<times> (server_error + bound_repository)" where
  "account_import = importRepositoryAndBind account_env (''e'', ''f'', ''g'') ''k'' ''s'' ''usr_a'' ''7'' ''21'' (account_world False)"

lemma account_results:
  "isl (snd (account_creation False)) = False" "(case snd (account_creation True) of Inl x \<Rightarrow> is_partial x | _ \<Rightarrow> False)"
  "isl (snd account_import) = False" "w_log (account_world g) = []"
  by code_simp+

lemma creation_tells_the_truth_witness:
  "isl (snd (account_creation False)) = False \<and> created (w_log (fst (account_creation False)))
    \<and> isl (snd (account_creation True)) \<and> created (w_log (fst (account_creation True)))"
proof -
  have "\<exists>new. w_log (fst (account_creation g)) = new @ w_log (account_world g) \<and> length (creations new) \<le> 1
      \<and> (case snd (account_creation g) of Inr _ \<Rightarrow> created new | Inl x \<Rightarrow> created new \<longleftrightarrow> is_partial x)" for g
    by (rule creation_tells_the_truth) (simp add: account_creation_def)
  from this [of False] this [of True] show ?thesis using account_results
    by (auto split: sum.splits)
qed


end
