(* ===== verification/Installation_Properties.thy ===== *)
theory Installation_Properties
  imports Repository_Properties
begin

text \<open>
  Which installations the server stores: only those GitHub shows to the very user whose session asked for them, whatever
  installation id the setup redirect carried.
\<close>

text \<open>The hand-over of the router (\<^verbatim>\<open>github/router.ts\<close>): the token of the user becomes a grant.\<close>

definition onTokenVerified :: "int \<Rightarrow> string \<Rightarrow> 'g handoff" where
  "onTokenVerified ttl grantId c = bind_action (createGrantFromLiveToken ttl grantId c) (\<lambda>p. pass (fst p))"

lemma handoff_result:
  assumes "onTokenVerified ttl i c w = (w', r)"
  shows "r = Inr i \<and> w_identity w' = w_identity w \<and> w_log w' = w_log w"
  using assms by (auto simp: onTokenVerified_def createGrantFromLiveToken_def bind_action_def cleanup_def reading_def store_grant_def pass_def)

section \<open>What the callback has seen\<close>

text \<open>The state was handed to this user in this session's name and has not expired, and the account is active.\<close>

definition state_holds :: "'g server_world \<Rightarrow> string \<Rightarrow> user_id \<Rightarrow> string \<Rightarrow> pending_oauth \<Rightarrow> bool" where
  "state_holds w state u subject p \<longleftrightarrow> (state, p) \<in> set (w_oauth_states w) \<and> w_now w \<le> po_expires_at p \<and> po_user_id p = u
     \<and> po_provider_subject p = subject \<and> account_active (w_identity w) u"

text \<open>GitHub named the subject as the user behind the code.\<close>

definition identified :: "'g bootstrap_env \<Rightarrow> string \<Rightarrow> string \<Rightarrow> string \<Rightarrow> request_log \<Rightarrow> bool" where
  "identified e code verifier subject L \<longleftrightarrow> was_done (Exchange_code code verifier) L
     \<and> (\<exists>j x. saw Get_user j L \<and> js_member ''id'' j = Inr (Some (JNum x)) \<and> number_string e x = subject)"

text \<open>GitHub listed the installation to that user, with what is stored about it.\<close>

definition listed_installation :: "'g bootstrap_env \<Rightarrow> string \<Rightarrow> user_id \<Rightarrow> installation_input \<Rightarrow> request_log \<Rightarrow> bool" where
  "listed_installation e wanted u i L \<longleftrightarrow> (\<exists>page j xs x. saw (List_user_installations page) j L \<and> array_member ''installations'' j = Inr xs
     \<and> x \<in> set xs \<and> js_string e (js_opt_member ''id'' (Some x)) = wanted \<and> live_installation e u x = Inr i)"

lemma was_done_later: "was_done q L \<Longrightarrow> L' = new @ L \<Longrightarrow> was_done q L'"
  by (auto simp: was_done_def)

lemma fetched_log: "github_fetch gh au q w = (w', Inr (st, b)) \<Longrightarrow> w_log w' = [(q, Reply st b)] @ w_log w"
  by (auto simp: fetch_Inr)

lemma exchange_Inr:
  assumes "exchange_code e err code verifier w = (w', Inr tok)"
  shows "was_done (Exchange_code code verifier) (w_log w') \<and> (\<exists>new. w_log w' = new @ w_log w)"
proof -
  obtain st b w1 where f: "github_fetch (be_github e) No_credentials (Exchange_code code verifier) w = (w1, Inr (st, b))" "res_ok st" "w' = w1"
    using assms by (auto simp: exchange_code_def action_Inr Let_def throw_def split: option.splits if_splits)
  then show ?thesis using fetched_log [OF f(1)] by (auto simp: was_done_def)
qed

lemma user_Inr:
  assumes "github_user e err tok w = (w', Inr who)"
  shows "(\<exists>j x. saw Get_user j (w_log w') \<and> js_member ''id'' j = Inr (Some (JNum x)) \<and> number_string e x = fst who)
    \<and> (\<exists>new. w_log w' = new @ w_log w)"
proof -
  obtain st b w1 j i where f: "github_fetch (be_github e) (User_access_token tok) Get_user w = (w1, Inr (st, b))" "res_ok st"
      "res_json b = Inr j" "js_member ''id'' j = Inr i"
    and r: "(case (i, js_opt_member ''login'' (Some j)) of
         (Some (JNum r), Some (JStr l)) \<Rightarrow> pass (number_string e r, l) | _ \<Rightarrow> throw (err ''Invalid GitHub user response'' 400)) w1 = (w', Inr who)"
    using assms by (auto simp: github_user_def action_Inr)
  obtain x where x: "i = Some (JNum x)" "number_string e x = fst who" "w' = w1"
    using r by (auto simp: throw_def pass_def split: option.splits json.splits)
  have "b = Inr j" using f(3) by (auto simp: res_json_def split: sum.splits)
  then show ?thesis using fetched_log [OF f(1)] f(2,4) x by (auto simp: saw_def)
qed

lemma find_installation_Inr:
  "find_installation e err tok wanted k w = (w', Inr z) \<Longrightarrow>
    (\<exists>new. w_log w' = new @ w_log w) \<and> (\<forall>x. z = Some x \<longrightarrow> (\<exists>page j xs. saw (List_user_installations page) j (w_log w')
      \<and> array_member ''installations'' j = Inr xs \<and> x \<in> set xs \<and> js_string e (js_opt_member ''id'' (Some x)) = wanted))"
proof (induction k arbitrary: w)
  case 0
  then show ?case by (simp add: pass_def)
next
  case (Suc k)
  let ?q = "List_user_installations (max_pages - k)"
  obtain w1 st b j xs where f: "github_fetch (be_github e) (User_access_token tok) ?q w = (w1, Inr (st, b))" "res_ok st" "res_json b = Inr j"
      "array_member ''installations'' j = Inr xs"
    and rest: "(case find (\<lambda>i. js_string e (js_opt_member ''id'' (Some i)) = wanted) xs of
         Some i \<Rightarrow> pass (Some i)
       | None \<Rightarrow> if last_page (max_pages - k) xs j then pass None else find_installation e err tok wanted k) w1 = (w', Inr z)"
    using Suc.prems by (auto simp: action_Inr)
  have "b = Inr j" using f(3) by (auto simp: res_json_def split: sum.splits)
  then have l: "w_log w1 = [(?q, Reply st (Inr j))] @ w_log w" using fetched_log [OF f(1)] by simp
  then have s: "saw ?q j (w_log w1)" using f(2) by (auto simp: saw_def)
  show ?case
  proof (cases "find (\<lambda>i. js_string e (js_opt_member ''id'' (Some i)) = wanted) xs")
    case None
    show ?thesis
    proof (cases "last_page (max_pages - k) xs j")
      case True
      then show ?thesis using rest None l by (auto simp: pass_def)
    next
      case False
      then have "find_installation e err tok wanted k w1 = (w', Inr z)" using rest None by simp
      from Suc.IH [OF this] show ?thesis using l by auto
    qed
  next
    case (Some i)
    then have "w' = w1" "z = Some i" using rest by (auto simp: pass_def)
    then show ?thesis using s l f(4) find_SomeD [OF Some] by blast
  qed
qed

section \<open>What is stored\<close>

lemma live_installation_id:
  assumes "live_installation e u x = Inr i" "js_string e (js_opt_member ''id'' (Some x)) = wanted"
  shows "ii_installation_id i = wanted"
proof -
  obtain n where n: "need_positive (Installation_error IK_plain ''Invalid GitHub installation id: must be a positive safe integer'' 400)
      (js_opt_member ''id'' (Some x)) = Inr n" "ii_installation_id i = show_int n"
    using assms(1) by (auto simp: live_installation_def Let_def ebind_eq_Inr split: if_splits)
  obtain y where y: "js_opt_member ''id'' (Some x) = Some (JNum y)" "as_int (Some (JNum y)) = Some n" "n \<le> MAX_SAFE_INTEGER" "0 < n"
    using n(1) by (auto simp: need_positive_def as_int_def as_num_def split: option.splits if_splits json.splits)
  have "\<bar>n\<bar> < 10 ^ 21" using y(3,4) by (simp add: MAX_SAFE_INTEGER_def)
  then show ?thesis using assms(2) n(2) y(1,2) by (simp add: js_string_def number_string_def)
qed

lemma upsert_links:
  assumes "upsertGitHubInstallationWithUser now a b i it = Inr (it', (g, l))"
  shows "findGitHubInstallationUser it' (gh_id g) (ii_user_id i) \<noteq> None"
proof -
  let ?n = "\<lparr>gu_id = ''ghiu_'' @ b, gu_installation_row_id = gh_id g, gu_user_id = ii_user_id i, gu_created_at_ms = now, gu_verified_at_ms = now\<rparr>"
  obtain it1 where u: "upsert_installation_user ?n it1 = Some (it', l)"
    using assms by (auto simp: upsertGitHubInstallationWithUser_def split: if_splits option.splits)
  have "\<exists>r \<in> set (it_installation_users it'). gu_installation_row_id r = gh_id g \<and> gu_user_id r = ii_user_id i"
  proof (cases "findGitHubInstallationUser it1 (gh_id g) (ii_user_id i)")
    case None
    then have "it_installation_users it' = it_installation_users it1 @ [?n]"
      using u by (auto simp: upsert_installation_user_def insert_installation_user_def split: if_splits)
    then show ?thesis by simp
  next
    case (Some old)
    let ?p = "\<lambda>r. gu_installation_row_id r = gh_id g \<and> gu_user_id r = ii_user_id i" and ?f = "\<lambda>r. r\<lparr>gu_verified_at_ms := now\<rparr>"
    have "it_installation_users it' = update_rows ?p ?f (it_installation_users it1)"
      using u Some by (auto simp: upsert_installation_user_def split: if_splits)
    moreover have "old \<in> set (it_installation_users it1)" "?p old" using find_SomeD [OF Some [unfolded findGitHubInstallationUser_def]] by simp_all
    ultimately have "?f old \<in> set (it_installation_users it')" using update_member [of old _ ?p ?f] by simp
    then show ?thesis using \<open>?p old\<close> by (intro bexI [of _ "?f old"]) simp_all
  qed
  then show ?thesis by (auto simp: findGitHubInstallationUser_def find_None_iff)
qed

lemma handoff_Inr:
  assumes "(case h of None \<Rightarrow> pass None | Some k \<Rightarrow> bind_action (k c) (\<lambda>x. pass (Some x))) w = (w', z)" "h = None \<or> h = Some (onTokenVerified ttl gid)"
  shows "w_identity w' = w_identity w \<and> w_log w' = w_log w \<and> (\<exists>x. z = Inr x)"
  using assms handoff_result [of ttl gid c w] by (cases "onTokenVerified ttl gid c w") (auto simp: pass_def bind_action_def)

lemma stored_Inr:
  assumes "stored_installation h ghi ghiu p session tok i w = (w', Inr res)" "h = None \<or> h = Some (onTokenVerified ttl gid)"
  shows "w_log w' = w_log w \<and> ir_installation_id res = ii_installation_id i
    \<and> findGitHubInstallationUser (w_identity w') (ir_installation_row_id res) (ii_user_id i) \<noteq> None"
proof -
  obtain w1 g l where s: "identity_action (\<lambda>now. upsertGitHubInstallationWithUser now ghi ghiu i) w = (w1, Inr (g, l))"
      "w_identity w' = w_identity w1" "w_log w' = w_log w1" "ir_installation_id res = ii_installation_id i" "ir_installation_row_id res = gh_id g"
    using assms(1) by (force simp: stored_installation_def bind_Inr pass_Inr dest!: handoff_Inr [OF _ assms(2)])
  obtain it where it: "upsertGitHubInstallationWithUser (w_now w) ghi ghiu i (w_identity w) = Inr (it, (g, l))" "w1 = w\<lparr>w_identity := it\<rparr>"
    using s(1) by (auto simp: identity_action_def split: sum.splits)
  then show ?thesis using upsert_links [OF it(1)] s(2-) by simp
qed

section \<open>Failures write nothing\<close>

text \<open>While GitHub answers nobody writes the identity tables.\<close>

definition still :: "'g bootstrap_env \<Rightarrow> bool" where
  "still e \<longleftrightarrow> (\<forall>au q w. w_identity (fst (be_github e au q w)) = w_identity w)"

lemma still_fetch: "still e \<Longrightarrow> leaves w_identity (github_fetch (be_github e) au q)"
  unfolding still_def leaves_def github_fetch_def by (auto split: prod.split) (metis fst_conv)

lemma still_find: "still e \<Longrightarrow> leaves w_identity (find_installation e err tok wanted k)"
  by (induction k) (auto intro!: calm_bind still_fetch split: option.split)

lemma bind_Inl: "bind_action m f w = (w', Inl x) \<longleftrightarrow> m w = (w', Inl x) \<or> (\<exists>w1 y. m w = (w1, Inr y) \<and> f y w1 = (w', Inl x))"
  by (auto simp: bind_action_def split: prod.splits sum.splits)

lemma still_stored:
  assumes "h = None \<or> h = Some (onTokenVerified ttl gid)"
  shows "leaves_failing w_identity (stored_installation h ghi ghiu p session tok i)"
proof -
  have "w_identity w' = w_identity w" if a: "stored_installation h ghi ghiu p session tok i w = (w', Inl x)" for w w' x
  proof -
    have "identity_action (\<lambda>now. upsertGitHubInstallationWithUser now ghi ghiu i) w = (w', Inl x)"
      using a unfolding stored_installation_def split_beta bind_Inl
      by (auto simp: pass_def dest!: handoff_Inr [OF _ assms])
    then show ?thesis by (auto simp: identity_action_def split: sum.splits)
  qed
  then show ?thesis unfolding leaves_failing_def by blast
qed

lemma still_verified:
  assumes "still e" "h = None \<or> h = Some (onTokenVerified ttl gid)"
  shows "leaves_failing w_identity (verified_installation e h ghi ghiu p code session)"
proof -
  have "leaves w_identity (exchange_code e err c v)" for err c v
    unfolding exchange_code_def Let_def by (auto intro!: calm_bind still_fetch assms(1) split: option.split)
  moreover have "leaves w_identity (github_user e err tok)" for err tok
  proof -
    have "leaves w_identity (case (i, l) of (Some (JNum r), Some (JStr s)) \<Rightarrow> pass (f r s) | _ \<Rightarrow> throw x)"
      for i l and f :: "rat \<Rightarrow> string \<Rightarrow> string \<times> string" and x by (auto split: option.split json.split)
    then show ?thesis unfolding github_user_def by (auto intro!: calm_bind still_fetch assms(1))
  qed
  ultimately show ?thesis unfolding verified_installation_def
    by (intro calm_failing_bind calm_basic still_find still_stored [OF assms(2)] assms(1))
qed

text \<open>C38. An installation is stored for a user only if the state belongs to the live session of that user, GitHub named the subject of
  the session as the user behind the code, and listed the installation to that user; the installation id of the setup redirect
  alone gives nothing. A refused callback writes nothing into the identity tables.\<close>

theorem installation_needs_its_user:
  assumes "installation_callback e h ghi ghiu state code u subject session w = (w', r)" "h = None \<or> h = Some (onTokenVerified ttl gid)"
  shows "case r of
      Inr res \<Rightarrow> \<exists>p i. state_holds w state u subject p \<and> identified e code (po_code_verifier p) subject (w_log w')
        \<and> listed_installation e (po_installation_id p) u i (w_log w') \<and> ir_installation_id res = po_installation_id p
        \<and> findGitHubInstallationUser (w_identity w') (ir_installation_row_id res) u \<noteq> None
    | Inl x \<Rightarrow> still e \<longrightarrow> w_identity w' = w_identity w"
proof -
  have same: "w_identity (cleanupStates w) = w_identity w" "w_now (cleanupStates w) = w_now w" by (simp_all add: cleanupStates_def)
  have "set (w_oauth_states (cleanupStates w)) \<subseteq> set (w_oauth_states w)" by (auto simp: cleanupStates_def)
  then consider (refused) x where "r = Inl x" "w_identity w' = w_identity w"
    | (verified) p where "state_holds w state u subject p"
        "verified_installation e h ghi ghiu p code session ((cleanupStates w)\<lparr>w_oauth_states := AList.delete state (w_oauth_states (cleanupStates w))\<rparr>) = (w', r)"
    using assms(1) unfolding installation_callback_def Let_def
    by (cases "map_of (w_oauth_states (cleanupStates w)) state")
      (auto simp: same state_holds_def subset_iff not_less split: if_splits dest!: map_of_SomeD)
  then show ?thesis
  proof cases
    case verified
    let ?w = "(cleanupStates w)\<lparr>w_oauth_states := AList.delete state (w_oauth_states (cleanupStates w))\<rparr>"
    show ?thesis
    proof (cases r)
      case (Inl x)
      then show ?thesis using still_verified [OF _ assms(2)] verified(2) same unfolding leaves_failing_def by fastforce
    next
      case (Inr res)
      obtain w1 tok w2 who w3 x i where s: "exchange_code e (Installation_error IK_plain) code (po_code_verifier p) ?w = (w1, Inr tok)"
          "github_user e (Installation_error IK_plain) tok w1 = (w2, Inr who)" "fst who = po_provider_subject p"
          "find_installation e (Installation_error IK_plain) tok (po_installation_id p) max_pages w2 = (w3, Inr (Some x))"
          "live_installation e (po_user_id p) x = Inr i" "stored_installation h ghi ghiu p session tok i w3 = (w', Inr res)"
        using verified(2) Inr by (auto simp: verified_installation_def action_Inr)
      have p: "po_user_id p = u" "po_provider_subject p = subject" using verified(1) by (simp_all add: state_holds_def)
      note st = stored_Inr [OF s(6) assms(2)] and fi = find_installation_Inr [OF s(4)] and us = user_Inr [OF s(2)] and ex = exchange_Inr [OF s(1)]
      obtain n2 n3 where n: "w_log w2 = n2 @ w_log w1" "w_log w' = n3 @ w_log w2" using us fi st by auto
      have "identified e code (po_code_verifier p) subject (w_log w')"
        using ex us was_done_later [of _ "w_log w1" "w_log w'" "n3 @ n2"] saw_later [of _ _ "w_log w2" "w_log w'" n3] n s(3) p(2)
        unfolding identified_def by (metis append_assoc)
      moreover obtain page j xs where l: "saw (List_user_installations page) j (w_log w3)" "array_member ''installations'' j = Inr xs" "x \<in> set xs"
          "js_string e (js_opt_member ''id'' (Some x)) = po_installation_id p" using fi by blast
      moreover have "ii_user_id i = u" using s(5) p(1) by (auto simp: live_installation_def Let_def ebind_eq_Inr split: if_splits)
      moreover have "listed_installation e (po_installation_id p) u i (w_log w')" using l s(5) p(1) st unfolding listed_installation_def by metis
      ultimately show ?thesis using verified(1) st live_installation_id [OF s(5) l(4)] Inr
        by (simp only: sum.case) (intro exI [of _ p] exI [of _ i] conjI; simp)
    qed
  qed simp
qed

definition account_callback :: "bool server_world \<times> (server_error + installation_result)" where
  "account_callback = installation_callback account_env (Some (onTokenVerified 600 ''n'')) ''c2'' ''d2'' ''o'' ''code'' ''usr_a'' ''7'' ''s'' (account_world False)"

lemma account_callback_result: "isl (snd account_callback) = False"
  by code_simp

lemma installation_needs_its_user_witness:
  "\<exists>w res p i. account_callback = (w, Inr res) \<and> state_holds (account_world False) ''o'' ''usr_a'' ''7'' p
    \<and> listed_installation account_env (po_installation_id p) ''usr_a'' i (w_log w)
    \<and> findGitHubInstallationUser (w_identity w) (ir_installation_row_id res) ''usr_a'' \<noteq> None"
proof -
  obtain w res where r: "account_callback = (w, Inr res)"
    using account_callback_result by (cases account_callback) (metis snd_conv sum.disc(1) sum.exhaust)
  from installation_needs_its_user [OF r [unfolded account_callback_def], of 600 "''n''"] show ?thesis using r by auto
qed

end
