(* ===== verification/Bootstrap_Frame.thy ===== *)
theory Bootstrap_Frame
  imports Onboarding_Service Installation_Properties
begin

text \<open>
  What an action may change beside its result: an order on the states of the server that every step respects. Two orders
  are used: one keeps the identity tables, one lets a bootstrap change its own rows; both let the log only grow, and say
  nothing about the tables when other requests write them while GitHub answers.
\<close>

definition stays :: "('g server_world \<Rightarrow> 'g server_world \<Rightarrow> bool) \<Rightarrow> ('g, 'a) action \<Rightarrow> bool" where
  "stays R m \<longleftrightarrow> (\<forall>w. R w (fst (m w)))"

locale world_order =
  fixes R :: "'g server_world \<Rightarrow> 'g server_world \<Rightarrow> bool"
  assumes refl: "R w w" and trans: "R w w' \<Longrightarrow> R w' w'' \<Longrightarrow> R w w''"
begin

lemma bind: "stays R m \<Longrightarrow> (\<And>x. stays R (f x)) \<Longrightarrow> stays R (bind_action m f)"
  unfolding stays_def bind_action_def by (auto split: prod.split sum.split) (metis fst_conv trans)+

lemma caught: "stays R m \<Longrightarrow> (\<And>x. stays R (h x)) \<Longrightarrow> stays R (catching m h)"
  unfolding stays_def catching_def by (auto split: prod.split sum.split) (metis fst_conv trans)+

lemma outcome: "stays R m \<Longrightarrow> stays R (outcome_of m)"
  by (simp add: stays_def outcome_of_def split_beta)

lemma basic [simp]: "stays R (pass x)" "stays R (throw err)" "stays R (lift_result r)" "stays R (require ok err)" "stays R (reading f)"
  "stays R (found y err)"
  by (simp_all add: stays_def pass_def throw_def lift_result_def require_def reading_def found_def refl split: option.split)

end

locale github_order = world_order R for R :: "'g server_world \<Rightarrow> 'g server_world \<Rightarrow> bool" +
  fixes e :: "'g bootstrap_env"
  assumes fetch: "stays R (github_fetch (be_github e) au q)" and tokens: "R w (w\<lparr>w_tokens := t\<rparr>)"
begin

lemma installation: "stays R (getInstallation (be_github e) i)"
  unfolding getInstallation_def split_beta by (intro bind fetch basic)

lemma scoped_token: "stays R (getScopedInstallationToken (be_github e) d i rs ps)"
proof -
  have m: "stays R (mint_token (be_github e) d now key q)" for now key q
  proof -
    have "stays R (\<lambda>w1. (w1\<lparr>w_tokens := (key, t) # filter (\<lambda>p. fst p \<noteq> key) (w_tokens w1)\<rparr>, Inr (ct_token t)))" for t
      by (simp add: stays_def tokens)
    then show ?thesis unfolding mint_token_def split_beta by (intro bind fetch basic)
  qed
  then show ?thesis unfolding stays_def getScopedInstallationToken_def Let_def by (auto simp: refl split: option.split)
qed

lemma verification_token: "stays R (mintInstallationVerificationToken (be_github e) i)"
  unfolding mintInstallationVerificationToken_def split_beta by (intro bind fetch basic) (auto split: option.split)

lemma forgotten: "stays R (forget_tokens i)"
  by (simp add: stays_def forget_tokens_def invalidateInstallationTokens_def tokens)

lemma read: "stays R (read_from e tok q ctx)"
  unfolding read_from_def split_beta by (intro bind fetch basic)

lemma written: "stays R (write_to e tok q stale ctx)"
  unfolding write_to_def split_beta by (intro bind fetch basic)

lemma needed: "stays R (needed_text a b err j)"
  unfolding needed_text_def by (intro bind basic)

lemma person: "stays R (resolveCommitIdentity e i)"
  unfolding resolveCommitIdentity_def by (intro bind basic)

lemma adding: "stays R (addMissingFiles e k head tree missing)"
  unfolding addMissingFiles_def Let_def split_beta by (intro bind written person basic)

lemma live: "stays R (live_scope e str b g live)"
proof -
  have "stays R (installation_repositories e tok)" for tok
    unfolding installation_repositories_def split_beta by (auto intro!: bind fetch)
  then have "stays R (listed_scope e str b tok)" for tok
    unfolding listed_scope_def by (intro bind outcome) (auto split: sum.split)
  then show ?thesis
    unfolding live_scope_def by (auto intro!: bind outcome forgotten verification_token split: sum.split)
qed

lemma scope: "stays R (verifyLiveInstallationScope e str ws)"
  unfolding verifyLiveInstallationScope_def by (auto intro!: bind outcome installation live split: option.split sum.split)

end

locale bootstrap_order = github_order R e for R :: "'g server_world \<Rightarrow> 'g server_world \<Rightarrow> bool" and e +
  assumes bootstraps: "R w (w\<lparr>w_identity := (w_identity w)\<lparr>it_bootstraps := bs\<rparr>\<rparr>)" and active: "R w (w\<lparr>w_active := a\<rparr>)"
begin

lemma ended: "end_attempt i a f (w_identity w) = Inr (it, b) \<Longrightarrow> R w (w\<lparr>w_identity := it\<rparr>)"
  by (auto simp: end_attempt_def update_bootstrap_def bootstraps split: option.splits if_splits)

lemma marked: "markWorkspaceBootstrapReady n i a s t (w_identity w) = Inr (it, b) \<Longrightarrow> R w (w\<lparr>w_identity := it\<rparr>)"
  "markWorkspaceBootstrapRetryableFailure n i a s m t (w_identity w) = Inr (it, b) \<Longrightarrow> R w (w\<lparr>w_identity := it\<rparr>)"
  "markWorkspaceBootstrapManualRecovery n i a s m t (w_identity w) = Inr (it, b) \<Longrightarrow> R w (w\<lparr>w_identity := it\<rparr>)"
  unfolding markWorkspaceBootstrapReady_def markWorkspaceBootstrapRetryableFailure_def markWorkspaceBootstrapManualRecovery_def
  by (auto simp: ebind_eq_Inr dest: ended)

lemma verify: "stays R (verifyLiveStateAndMarkReady e k base m)"
  unfolding verifyLiveStateAndMarkReady_def Let_def
  by (intro bind read needed basic) (auto simp: stays_def refl marked split: sum.split)

lemma reconcile: "stays R (reconcileFromBranchHead e k initial base fs l)"
  unfolding reconcileFromBranchHead_def Let_def
  by (intro bind read needed basic verify) (auto intro!: bind read needed adding split: option.split)

lemma missing_branch: "stays R (handleMissingBoundBranch e k meta l)"
proof -
  have "stays R (bootstrapEmptyRepository e k m l)" for m
    unfolding bootstrapEmptyRepository_def split_beta
    by (auto intro!: bind person written reconcile split: option.split)
  then show ?thesis unfolding handleMissingBoundBranch_def split_beta
    by (intro bind fetch basic) (auto intro!: bind split: json.split)
qed

lemma execute: "stays R (executeBootstrapAttempt e w a b inst l)"
proof -
  have "stays R (attemptOnBranch e k meta l)" for k meta
    unfolding attemptOnBranch_def split_beta by (auto intro!: bind fetch needed reconcile missing_branch)
  then show ?thesis unfolding executeBootstrapAttempt_def by (intro bind caught read installation scoped_token basic)
qed

lemma failure: "stays R (record_failure e i a x)"
  unfolding stays_def record_failure_def by (auto simp: refl intro: marked split: sum.split server_error.split bootstrap_error_kind.split)

lemma bootstrap: "stays R (bootstrapWorkspace e uuid i l)"
proof -
  have s: "stays R (getProvisioningStatus i)" unfolding getProvisioningStatus_def by (intro bind basic)
  have b: "stays R (begin_attempt uuid i)"
    by (auto simp: stays_def begin_attempt_def beginWorkspaceBootstrapAttempt_def update_bootstrap_def Let_def refl bootstraps split: option.split)
  have g: "stays R (guarded_bootstrap e uuid i l)"
    unfolding guarded_bootstrap_def checked_attempt_def by (auto intro!: bind s b caught execute failure)
  show ?thesis
  proof (unfold stays_def, rule allI)
    fix w :: "'g server_world"
    let ?w = "w\<lparr>w_active := insert i (w_active w)\<rparr>"
    obtain w1 r where w1: "guarded_bootstrap e uuid i l ?w = (w1, r)" by fastforce
    have "R ?w w1" using g w1 unfolding stays_def by (metis fst_conv)
    then have "R w (w1\<lparr>w_active := w_active w1 - {i}\<rparr>)" using active trans by blast
    moreover have "R w (fst (getProvisioningStatus i w))" using s by (simp add: stays_def)
    ultimately show "R w (fst (bootstrapWorkspace e uuid i l w))" using w1 by (simp add: bootstrapWorkspace_def)
  qed
qed

end

section \<open>The two orders\<close>

definition grown :: "'g server_world \<Rightarrow> 'g server_world \<Rightarrow> bool" where
  "grown w w' \<longleftrightarrow> (\<exists>new. w_log w' = new @ w_log w)"

definition same_tables :: "'g bootstrap_env \<Rightarrow> 'g server_world \<Rightarrow> 'g server_world \<Rightarrow> bool" where
  "same_tables e w w' \<longleftrightarrow> grown w w' \<and> (still e \<longrightarrow> w_identity w' = w_identity w)"

definition same_bindings :: "'g bootstrap_env \<Rightarrow> 'g server_world \<Rightarrow> 'g server_world \<Rightarrow> bool" where
  "same_bindings e w w' \<longleftrightarrow> grown w w' \<and> (still e \<longrightarrow> it_repositories (w_identity w') = it_repositories (w_identity w))"

lemma grown_refl: "grown w w" and grown_trans: "grown w w' \<Longrightarrow> grown w' w'' \<Longrightarrow> grown w w''"
  by (auto simp: grown_def)

lemma stays_result: "stays R m \<Longrightarrow> m w = (w', r) \<Longrightarrow> R w w'"
  unfolding stays_def by (metis fst_conv)

lemma fetch_tables: "same_tables e w (fst (github_fetch (be_github e) au q w))"
proof -
  have "still e \<Longrightarrow> w_identity (fst (github_fetch (be_github e) au q w)) = w_identity w"
    using still_fetch unfolding leaves_def by blast
  then show ?thesis by (simp add: same_tables_def grown_def github_fetch_def split_beta)
qed

interpretation tables: github_order "same_tables e" e for e
proof
  show "stays (same_tables e) (github_fetch (be_github e) au q)" for au q by (simp add: stays_def fetch_tables)
qed (auto simp: same_tables_def grown_def)

interpretation bindings: bootstrap_order "same_bindings e" e for e
proof
  show "stays (same_bindings e) (github_fetch (be_github e) au q)" for au q
    using fetch_tables by (auto simp: stays_def same_tables_def same_bindings_def)
qed (auto simp: same_bindings_def grown_def)

end
