(* ===== verification/Onboarding_Properties.thy ===== *)
theory Onboarding_Properties
  imports Bootstrap_Frame
begin

text \<open>
  What the onboarding guarantees: a workspace counts as restricted only after GitHub has listed its repository, and nothing
  else, as what the installation may use; and a flow creates at most one repository.
\<close>

section \<open>The restriction GitHub shows\<close>

definition restricted_installation :: "installation_row \<Rightarrow> request_log \<Rightarrow> bool" where
  "restricted_installation g L \<longleftrightarrow> (\<exists>j live. saw (Get_installation (gh_installation_id g)) j L
     \<and> installation_reply (gh_installation_id g) j = Inr live \<and> \<not> js_truthy (jfield live ''suspended_at'')
     \<and> jfield live ''repository_selection'' = Some (JStr ''selected''))"

definition only_repository :: "repository_row \<Rightarrow> request_log \<Rightarrow> bool" where
  "only_repository b L \<longleftrightarrow> (\<exists>j x n. saw List_installation_repositories j L \<and> array_member ''repositories'' j = Inr [x]
     \<and> js_number (rb_repository_id b) = Some n \<and> js_member ''id'' x = Inr (Some (JNum n)))"

definition scope_shown :: "identity_data \<Rightarrow> ws_id \<Rightarrow> request_log \<Rightarrow> bool" where
  "scope_shown it ws L \<longleftrightarrow> (\<exists>b g. findRepositoryBindingByWorkspaceId it ws = Some b
     \<and> findGitHubInstallationByRowId it (rb_installation_row_id b) = Some g \<and> restricted_installation g L \<and> only_repository b L)"

text \<open>A workspace that counts as restricted.\<close>

definition scope_verified :: "identity_data \<Rightarrow> ws_id \<Rightarrow> bool" where
  "scope_verified it ws \<longleftrightarrow> (\<exists>b \<in> set (it_repositories it). rb_workspace_id b = ws \<and> rb_scope_verified_at_ms b \<noteq> None)"

lemma saw_grown: "saw q j (w_log w) \<Longrightarrow> grown w w' \<Longrightarrow> saw q j (w_log w')"
  by (auto simp: saw_def grown_def)

lemma shown_grown: "scope_shown it ws (w_log w) \<Longrightarrow> grown w w' \<Longrightarrow> scope_shown it ws (w_log w')"
  unfolding scope_shown_def restricted_installation_def only_repository_def using saw_grown by meson

lemma outcome_Inr: "outcome_of m w = (w', Inr r) \<longleftrightarrow> m w = (w', r)"
  by (auto simp: outcome_of_def split: prod.splits)

lemma listed_ids_length: "listed_ids xs = Inr ys \<Longrightarrow> length ys = length xs"
  by (induction xs arbitrary: ys) (auto simp: ebind_eq_Inr)

lemma compared:
  assumes "compare_scope b xs = Inr (Scope_ok b' live)"
  shows "b' = b \<and> xs = [live] \<and> (\<exists>n. js_number (rb_repository_id b) = Some n \<and> js_member ''id'' live = Inr (Some (JNum n)))"
proof -
  obtain ys where y: "listed_ids xs = Inr ys" "length ys = 1" "is_number (js_number (rb_repository_id b)) (hd ys)" "b' = b" "live = hd xs"
    using assms by (auto simp: compare_scope_def ebind_eq_Inr Let_def split: if_splits)
  then obtain x where x: "xs = [x]" using listed_ids_length [OF y(1)] by (cases xs; cases "tl xs") auto
  then have "js_member ''id'' x = Inr (hd ys)" using y(1) by (auto simp: ebind_eq_Inr)
  then show ?thesis using y x by (auto simp: is_number_def split: option.splits json.splits)
qed

lemma installation_seen:
  assumes "getInstallation gh i w = (w', Inr live)"
  shows "\<exists>j. saw (Get_installation i) j (w_log w') \<and> installation_reply i j = Inr live"
proof -
  obtain st b w1 j where f: "github_fetch gh App_jwt (Get_installation i) w = (w1, Inr (st, b))" "res_ok st" "res_json b = Inr j"
      "installation_reply i j = Inr live" "w' = w1"
    using assms by (auto simp: getInstallation_def action_Inr)
  then have "b = Inr j" by (auto simp: res_json_def split: sum.splits)
  then show ?thesis using fetched_log [OF f(1)] f(2,4,5) by (auto simp: saw_def)
qed

lemma repositories_seen:
  assumes "installation_repositories e tok w = (w', Inr (Inr xs))"
  shows "\<exists>j. saw List_installation_repositories j (w_log w') \<and> array_member ''repositories'' j = Inr xs"
proof -
  obtain st b w1 j where f: "github_fetch (be_github e) (Installation_token tok) List_installation_repositories w = (w1, Inr (st, b))" "res_ok st"
      "res_json b = Inr j" "array_member ''repositories'' j = Inr xs" "w' = w1"
    using assms by (auto simp: installation_repositories_def action_Inr split: if_splits)
  then have "b = Inr j" by (auto simp: res_json_def split: sum.splits)
  then show ?thesis using fetched_log [OF f(1)] f(2,4,5) by (auto simp: saw_def)
qed

lemma listed_ok:
  assumes "listed_scope e str b tok w = (w', Inr (Scope_ok b' live))"
  shows "b' = b \<and> only_repository b (w_log w')"
proof -
  obtain w1 r where r: "installation_repositories e tok w = (w1, r)"
      "(case r of
         Inl x \<Rightarrow> pass (Scope_failed Verification_failed (''Failed to enumerate repositories: '' @ shown_error e str x))
       | Inr (Inl st) \<Rightarrow> pass (Scope_failed Verification_failed (''Failed to list installation repositories: HTTP '' @ show_int st))
       | Inr (Inr repos) \<Rightarrow> lift_result (compare_scope b repos)) w1 = (w', Inr (Scope_ok b' live))"
    using assms unfolding listed_scope_def bind_Inr outcome_Inr by blast
  then obtain xs where xs: "r = Inr (Inr xs)" "compare_scope b xs = Inr (Scope_ok b' live)" "w' = w1"
    by (auto simp: pass_def lift_result_def split: sum.splits)
  show ?thesis using compared [OF xs(2)] repositories_seen [OF r(1) [unfolded xs(1)]] xs(3) unfolding only_repository_def by blast
qed

lemma live_ok:
  assumes "live_scope e str b g live w = (w', Inr (Scope_ok b' x))"
  shows "b' = b \<and> \<not> js_truthy (jfield live ''suspended_at'') \<and> jfield live ''repository_selection'' = Some (JStr ''selected'')
    \<and> only_repository b (w_log w')"
proof -
  have c: "\<not> js_truthy (jfield live ''suspended_at'')" "jfield live ''repository_selection'' = Some (JStr ''selected'')"
    using assms unfolding live_scope_def pass_def by (simp_all only: split: if_splits) simp_all
  obtain w1 r where r: "(case r of
            Inl x \<Rightarrow> pass (Scope_failed Verification_failed (''Failed to obtain verification token: '' @ shown_error e str x))
          | Inr tok \<Rightarrow> listed_scope e str b tok) w1 = (w', Inr (Scope_ok b' x))"
    using assms c unfolding live_scope_def by (simp only: if_False if_True bind_Inr simp_thms) blast
  then obtain tok where "listed_scope e str b tok w1 = (w', Inr (Scope_ok b' x))" by (cases r) (simp_all add: pass_def)
  then show ?thesis using listed_ok c by blast
qed

lemma live_grows: "live_scope e str b g live w = (w', r) \<Longrightarrow> grown w w'"
  using stays_result [OF tables.live] unfolding same_tables_def by blast

lemma pass_bind: "bind_action (pass x) m = m x"
  by (simp add: bind_action_def pass_def fun_eq_iff)

lemma reading_bind: "bind_action (reading f) m w = m (f w) w"
  by (simp add: bind_action_def reading_def)

lemma scope_is_shown:
  assumes "verifyLiveInstallationScope e str ws w = (w', Inr (Scope_ok b live))"
  shows "scope_shown (w_identity w) ws (w_log w') \<and> findRepositoryBindingByWorkspaceId (w_identity w) ws = Some b"
proof -
  obtain c where c: "findRepositoryBindingByWorkspaceId (w_identity w) ws = Some c"
    using assms by (cases "findRepositoryBindingByWorkspaceId (w_identity w) ws")
      (simp_all add: verifyLiveInstallationScope_def bind_action_def reading_def pass_def)
  obtain g where g: "findGitHubInstallationByRowId (w_identity w) (rb_installation_row_id c) = Some g"
    using assms by (cases "findGitHubInstallationByRowId (w_identity w) (rb_installation_row_id c)")
      (simp_all add: verifyLiveInstallationScope_def bind_action_def reading_def pass_def c)
  obtain w1 r where r: "getInstallation (be_github e) (gh_installation_id g) w = (w1, r)"
      "(case r of
           Inl x \<Rightarrow> pass (Scope_failed Verification_failed (''Failed to fetch live installation: '' @ shown_error e str x))
         | Inr live \<Rightarrow> live_scope e str c g live) w1 = (w', Inr (Scope_ok b live))"
    using assms unfolding verifyLiveInstallationScope_def reading_bind c g option.case bind_Inr outcome_Inr by blast
  then obtain inst where i: "r = Inr inst" "live_scope e str c g inst w1 = (w', Inr (Scope_ok b live))" by (cases r) (simp_all add: pass_def)
  obtain j where j: "saw (Get_installation (gh_installation_id g)) j (w_log w1)" "installation_reply (gh_installation_id g) j = Inr inst"
    using installation_seen [OF r(1) [unfolded i(1)]] by blast
  note l = live_ok [OF i(2)]
  have "saw (Get_installation (gh_installation_id g)) j (w_log w')" using saw_grown j(1) live_grows [OF i(2)] by blast
  then show ?thesis using l j(2) c g unfolding scope_shown_def restricted_installation_def by blast
qed

section \<open>What is recorded\<close>

lemma scope_verified_cong: "it_repositories it' = it_repositories it \<Longrightarrow> scope_verified it' = scope_verified it"
  by (simp add: scope_verified_def fun_eq_iff)

lemma flow_write_keeps: "flow_write i p w = (w', r) \<Longrightarrow> w_identity w' = w_identity w \<and> w_log w' = w_log w"
  by (auto simp: flow_write_def split: sum.splits)

lemma flow_write_stays: "stays (same_bindings e) (flow_write i p)"
  by (auto simp: stays_def flow_write_def same_bindings_def grown_def split: sum.split)

lemma scope_verified_update:
  assumes "it_repositories it' = update_rows p f (it_repositories it)" "\<And>b. rb_workspace_id (f b) = rb_workspace_id b"
  shows "scope_verified it' v \<longleftrightarrow> (\<exists>b \<in> set (it_repositories it). rb_workspace_id b = v \<and> rb_scope_verified_at_ms (if p b then f b else b) \<noteq> None)"
proof -
  define g where "g = (\<lambda>b. if p b then f b else b)"
  have "rb_workspace_id (g b) = rb_workspace_id b" for b using assms(2) by (simp add: g_def)
  moreover have "it_repositories it' = map g (it_repositories it)" by (simp add: assms(1) update_rows_def g_def)
  ultimately have "scope_verified it' v \<longleftrightarrow> (\<exists>b \<in> set (it_repositories it). rb_workspace_id b = v \<and> rb_scope_verified_at_ms (g b) \<noteq> None)"
    by (simp add: scope_verified_def)
  then show ?thesis by (simp add: g_def)
qed

lemma marked_scope:
  assumes "mark_scope ws w = (w', r)"
  shows "r = Inr y \<Longrightarrow> scope_verified (w_identity w') ws"
    "scope_verified (w_identity w') v \<Longrightarrow> v = ws \<or> scope_verified (w_identity w) v"
    "w_log w' = w_log w"
proof -
  let ?p = "\<lambda>b. rb_workspace_id b = ws" and ?f = "\<lambda>b. b\<lparr>rb_scope_verified_at_ms := Some (w_now w), rb_updated_at_ms := w_now w\<rparr>"
  show log: "w_log w' = w_log w" using assms by (auto simp: mark_scope_def identity_action_def split: sum.splits)
  have c: "isl r \<and> w' = w \<or> \<not> isl r \<and> (\<exists>b \<in> set (it_repositories (w_identity w)). ?p b)
      \<and> it_repositories (w_identity w') = update_rows ?p ?f (it_repositories (w_identity w))"
    using assms by (auto simp: mark_scope_def identity_action_def markRepositoryBindingScopeVerified_def row_changes_def filter_empty_conv
        split: if_splits)
  have u: "scope_verified (w_identity w') v' \<longleftrightarrow> (\<exists>b \<in> set (it_repositories (w_identity w)). rb_workspace_id b = v'
      \<and> rb_scope_verified_at_ms (if ?p b then ?f b else b) \<noteq> None)"
    if "it_repositories (w_identity w') = update_rows ?p ?f (it_repositories (w_identity w))" for v'
    using that by (rule scope_verified_update) simp
  show "scope_verified (w_identity w') ws" if "r = Inr y" using c that u [of ws] by auto
  show "v = ws \<or> scope_verified (w_identity w) v" if v: "scope_verified (w_identity w') v"
  proof (cases "isl r")
    case True
    then show ?thesis using c v by simp
  next
    case False
    then have up: "it_repositories (w_identity w') = update_rows ?p ?f (it_repositories (w_identity w))" using c by blast
    obtain b where "b \<in> set (it_repositories (w_identity w))" "rb_workspace_id b = v" "rb_scope_verified_at_ms (if ?p b then ?f b else b) \<noteq> None"
      using iffD1 [OF u [OF up] v] by blast
    then show ?thesis unfolding scope_verified_def by (cases "v = ws") auto
  qed
qed

lemma cleared_scope:
  assumes "clear_scope ws w = (w', r)"
  shows "\<not> scope_verified (w_identity w') ws" "scope_verified (w_identity w') v \<Longrightarrow> scope_verified (w_identity w) v"
    "w_log w' = w_log w"
proof -
  let ?p = "\<lambda>b. rb_workspace_id b = ws" and ?f = "\<lambda>b. b\<lparr>rb_scope_verified_at_ms := None, rb_updated_at_ms := w_now w\<rparr>"
  have "it_repositories (w_identity w') = update_rows ?p ?f (it_repositories (w_identity w))"
    using assms by (auto simp: clear_scope_def clearRepositoryBindingScopeVerified_def)
  then have u: "scope_verified (w_identity w') v' \<longleftrightarrow> (\<exists>b \<in> set (it_repositories (w_identity w)). rb_workspace_id b = v'
      \<and> rb_scope_verified_at_ms (if ?p b then ?f b else b) \<noteq> None)" for v'
    by (rule scope_verified_update) simp
  show "\<not> scope_verified (w_identity w') ws" using u [of ws] by auto
  show "scope_verified (w_identity w) v" if "scope_verified (w_identity w') v"
    using that u [of v] by (auto simp: scope_verified_def split: if_splits)
  show "w_log w' = w_log w" using assms by (auto simp: clear_scope_def)
qed

lemma reconciled_scope:
  assumes "reconcile_binding i live w = (w', r)"
  shows "scope_verified (w_identity w') = scope_verified (w_identity w)" "w_log w' = w_log w"
proof -
  consider "w' = w" | p f where "w_log w' = w_log w" "it_repositories (w_identity w') = update_rows p f (it_repositories (w_identity w))"
      "\<And>b. rb_workspace_id (f b) = rb_workspace_id b" "\<And>b. rb_scope_verified_at_ms (f b) = rb_scope_verified_at_ms b"
  proof -
    have "w' = w \<or> (\<exists>name full owner it c x. reconcileRepositoryMetadataById (w_now w) i owner name full (w_identity w, w_control w) = Inr ((it, c), x)
        \<and> w' = w\<lparr>w_identity := it, w_control := c\<rparr>)"
      using assms unfolding reconcile_binding_def by (auto split: option.splits sum.splits) blast
    moreover have update: "\<exists>p f. it_repositories it = update_rows p f (it_repositories (w_identity w)) \<and> (\<forall>b. rb_workspace_id (f b) = rb_workspace_id b)
        \<and> (\<forall>b. rb_scope_verified_at_ms (f b) = rb_scope_verified_at_ms b)"
      if "reconcileRepositoryMetadataById (w_now w) i owner name full (w_identity w, w_control w) = Inr ((it, c), x)" for name full owner it c x
    proof -
      let ?f = "\<lambda>r. r\<lparr>rb_owner_login := owner, rb_repository_name := name, rb_full_name := full, rb_updated_at_ms := w_now w\<rparr>"
      have "it_repositories it = update_rows (\<lambda>r. rb_repository_id r = i) ?f (it_repositories (w_identity w))"
        using that by (auto simp: reconcileRepositoryMetadataById_def Let_def split: option.splits)
      then show ?thesis by (intro exI conjI) (assumption, simp_all)
    qed
    ultimately show thesis
    proof (elim disjE exE conjE)
      assume "w' = w"
      then show thesis by (rule that(1))
    next
      fix name full owner it c x
      assume h: "reconcileRepositoryMetadataById (w_now w) i owner name full (w_identity w, w_control w) = Inr ((it, c), x)"
        "w' = w\<lparr>w_identity := it, w_control := c\<rparr>"
      obtain p f where "it_repositories it = update_rows p f (it_repositories (w_identity w))" "\<And>b. rb_workspace_id (f b) = rb_workspace_id b"
          "\<And>b. rb_scope_verified_at_ms (f b) = rb_scope_verified_at_ms b" using update [OF h(1)] by blast
      then show thesis using that(2) [of p f] h(2) by simp
    qed
  qed
  then have "scope_verified (w_identity w') = scope_verified (w_identity w) \<and> w_log w' = w_log w"
  proof cases
    case 2
    have "scope_verified (w_identity w') v = scope_verified (w_identity w) v" for v
      using scope_verified_update [OF 2(2,3), of v] 2(4) by (simp add: scope_verified_def)
    then show ?thesis using 2(1) by blast
  qed simp
  then show "scope_verified (w_identity w') = scope_verified (w_identity w)" "w_log w' = w_log w" by simp_all
qed

lemma bootstrap_flow_stays: "stays (same_bindings e) (bootstrap_flow e str uuid i ws l)"
proof -
  have "stays (same_bindings e) (record_bootstrap i v)" for v
    unfolding record_bootstrap_def by (auto intro: bindings.bind flow_write_stays)
  then show ?thesis unfolding bootstrap_flow_def by (intro bindings.caught bindings.bind bindings.bootstrap flow_write_stays bindings.basic)
qed

lemma bootstrap_flow_Inr:
  "bootstrap_flow e str uuid i ws l w = (w', Inr out) \<Longrightarrow> case out of Access_failed reason m \<Rightarrow> reason = Verification_failed | Access_status st \<Rightarrow> True"
  unfolding bootstrap_flow_def record_bootstrap_def catching_def bind_action_def pass_def
  by (auto split: prod.splits sum.splits if_splits)

lemma refused_verification:
  assumes "after_verification e str uuid i ws l (Scope_failed reason msg) w = (w', r)"
  shows "\<not> scope_verified (w_identity w') ws \<and> (\<forall>v. scope_verified (w_identity w') v \<longrightarrow> scope_verified (w_identity w) v) \<and> w_log w' = w_log w
    \<and> (\<forall>out. r = Inr out \<longrightarrow> out = Access_failed reason msg)"
proof -
  obtain w1 where c: "clear_scope ws w = (w1, Inr ())" by (simp add: clear_scope_def)
  obtain w2 r2 where f: "flow_write i (no_patch\<lparr>fp_last_error_code := Some (Some (failure_text reason)), fp_last_error_message := Some (Some msg)\<rparr>) w1
      = (w2, r2)" by fastforce
  have "w' = w2" "\<forall>out. r = Inr out \<longrightarrow> out = Access_failed reason msg"
    using assms by (auto simp: after_verification_def bind_action_def c f pass_def split: sum.splits)
  then show ?thesis using cleared_scope [OF c] flow_write_keeps [OF f] by simp
qed

lemma accepted_verification:
  assumes "after_verification e str uuid i ws l (Scope_ok b live) w = (w', r)"
  shows "grown w w' \<and> (still e \<longrightarrow> (\<forall>v. scope_verified (w_identity w') v \<longrightarrow> v = ws \<or> scope_verified (w_identity w) v)
    \<and> (\<forall>out. r = Inr out \<longrightarrow> scope_verified (w_identity w') ws
      \<and> (case out of Access_failed reason m \<Rightarrow> reason = Verification_failed | Access_status st \<Rightarrow> True)))"
proof -
  obtain w1 r1 where m: "mark_scope ws w = (w1, r1)" by fastforce
  show ?thesis
  proof (cases r1)
    case (Inl x)
    then have "w' = w1" "r = Inl x" using assms m by (simp_all add: after_verification_def bind_action_def)
    then show ?thesis using marked_scope(2,3) [OF m] by (auto simp: grown_def)
  next
    case (Inr y)
    obtain w2 r2 where k: "reconcile_binding (rb_repository_id b) live w1 = (w2, r2)" by fastforce
    note k' = reconciled_scope [OF k]
    have here: "scope_verified (w_identity w2) ws" "\<And>v. scope_verified (w_identity w2) v \<Longrightarrow> v = ws \<or> scope_verified (w_identity w) v"
      "w_log w2 = w_log w" using marked_scope(1) [OF m Inr] marked_scope(2,3) [OF m] k' by simp_all
    show ?thesis
    proof (cases r2)
      case (Inl x)
      then have "w' = w2" "r = Inl x" using assms m Inr k by (simp_all add: after_verification_def bind_action_def)
      then show ?thesis using here by (auto simp: grown_def)
    next
      case z: (Inr z)
      let ?m = "bind_action (flow_write i (no_patch\<lparr>fp_state := Some OS_provisioning\<rparr>)) (\<lambda>_. bootstrap_flow e str uuid i ws l)"
      have rest: "?m w2 = (w', r)" using assms m Inr k z by (simp add: after_verification_def bind_action_def)
      have "stays (same_bindings e) ?m" by (intro bindings.bind flow_write_stays bootstrap_flow_stays)
      from stays_result [OF this rest] have s: "grown w2 w'" "still e \<Longrightarrow> scope_verified (w_identity w') = scope_verified (w_identity w2)"
        by (auto simp: same_bindings_def intro: scope_verified_cong)
      have "case out of Access_failed reason m \<Rightarrow> reason = Verification_failed | Access_status st \<Rightarrow> True" if "r = Inr out" for out
        using rest that bootstrap_flow_Inr by (auto simp: bind_Inr)
      then show ?thesis using s here by (auto simp: grown_def)
    qed
  qed
qed

lemma owned_flow_Inr: "owned_flow i u w = (w', Inr f) \<Longrightarrow> w' = w \<and> getFlow i (w_flows w) = Some f \<and> fw_user_id f = u"
  by (auto simp: owned_flow_def reading_bind pass_def throw_def split: option.splits if_splits)

text \<open>C39. Onboarding records that a workspace is restricted only after GitHub has shown it: the installation is not suspended and
  selects its repositories, and the bound repository, and no other, is listed as what the installation may use. A
  verification that GitHub's answers refuse clears the record. This holds as long as nobody else writes the tables meanwhile.\<close>

theorem scope_follows_github:
  assumes "verifyRepositoryAccessAndBootstrap e str uuid i u l w = (w', r)" "still e"
  shows "(\<forall>v. scope_verified (w_identity w') v \<longrightarrow> scope_verified (w_identity w) v \<or> scope_shown (w_identity w) v (w_log w'))
    \<and> (\<forall>out. r = Inr out \<longrightarrow> (\<exists>f ws. getFlow i (w_flows w) = Some f \<and> fw_user_id f = u \<and> fw_workspace_id f = Some ws
      \<and> fw_state f = OS_awaiting_repository_restriction
      \<and> (scope_verified (w_identity w') ws \<longrightarrow> scope_shown (w_identity w) ws (w_log w'))
      \<and> (case out of Access_status st \<Rightarrow> scope_verified (w_identity w') ws
         | Access_failed reason msg \<Rightarrow> reason \<noteq> Verification_failed \<longrightarrow> \<not> scope_verified (w_identity w') ws)))"
proof -
  consider (early) x where "r = Inl x" "w_identity w' = w_identity w"
    | (started) f ws where "getFlow i (w_flows w) = Some f" "fw_user_id f = u" "fw_workspace_id f = Some ws" "fw_state f = OS_awaiting_repository_restriction"
        "bind_action (verifyLiveInstallationScope e str ws) (after_verification e str uuid i ws l) w = (w', r)"
  proof (cases "owned_flow i u w")
    case (Pair w1 r1)
    have same: "w1 = w" using Pair by (auto simp: owned_flow_def reading_bind pass_def throw_def split: option.splits if_splits)
    let ?m = "\<lambda>f. bind_action (require_state OS_awaiting_repository_restriction f) (\<lambda>_. bind_action (flow_member (fw_workspace_id f)
       (Onboarding_error ''Missing required workspace binding for verification'' ''INCOMPLETE_FLOW'' 400)) (\<lambda>ws.
       bind_action (verifyLiveInstallationScope e str ws) (after_verification e str uuid i ws l)))"
    show thesis
    proof (cases r1)
      case (Inl x)
      then show thesis using assms(1) Pair same early [of x] by (simp add: verifyRepositoryAccessAndBootstrap_def bind_action_def)
    next
      case (Inr f)
      note f = owned_flow_Inr [OF Pair [unfolded Inr]]
      have m: "?m f w = (w', r)" using assms(1) Pair Inr same by (simp add: verifyRepositoryAccessAndBootstrap_def bind_action_def [of "owned_flow i u"])
      show thesis
      proof (cases "fw_state f = OS_awaiting_repository_restriction \<and> given_text_of (fw_workspace_id f)")
        case True
        then obtain ws where ws: "fw_workspace_id f = Some ws" by (auto simp: given_text_of_def split: option.splits)
        then show thesis using m f True started [of f ws]
          by (simp add: require_state_def require_def flow_member_def found_def bind_step [of "pass x" for x] pass_def)
      next
        case False
        then have "\<exists>x. r = Inl x \<and> w' = w" using m
          by (auto simp: require_state_def require_def flow_member_def found_def pass_def throw_def bind_action_def split: if_splits)
        then show thesis using early by auto
      qed
    qed
  qed
  then show ?thesis
  proof cases
    case started
    obtain w1 r1 where v: "verifyLiveInstallationScope e str ws w = (w1, r1)" by fastforce
    have same: "w_identity w1 = w_identity w" using stays_result [OF tables.scope v] assms(2) by (simp add: same_tables_def)
    show ?thesis
    proof (cases r1)
      case (Inl x)
      then have "w' = w1" "r = Inl x" using started(5) v by (simp_all add: bind_action_def)
      then show ?thesis using same by simp
    next
      case (Inr c)
      then have rest: "after_verification e str uuid i ws l c w1 = (w', r)" using started(5) v by (simp add: bind_action_def)
      show ?thesis
      proof (cases c)
        case (Scope_failed reason msg)
        from refused_verification [OF rest [unfolded this]] show ?thesis using started(1-4) same by auto
      next
        case (Scope_ok b live)
        note a = accepted_verification [OF rest [unfolded Scope_ok]]
        have "scope_shown (w_identity w) ws (w_log w')"
          using scope_is_shown [OF v [unfolded Inr Scope_ok]] a shown_grown by blast
        then show ?thesis using a assms(2) started(1-4) same by (auto split: access_outcome.splits)
      qed
    qed
  qed simp
qed

section \<open>One repository for a flow\<close>

lemma find_written: "find p rows = Some x \<Longrightarrow> p y \<Longrightarrow> find p (update_rows p (\<lambda>_. y) rows) = Some y"
  by (induction rows) (auto simp: update_rows_def split: if_splits)

lemma flow_written:
  assumes "flow_write i p w = (w', Inr f)"
  shows "getFlow i (w_flows w') = Some f \<and> (\<exists>old now. f = patched_flow now p old)"
proof -
  obtain old t where o: "getFlow i (w_flows w) = Some old" "f = patched_flow (w_now w) p old"
      "replace_flow (w_identity w) f (w_flows w) = Inr t" "w' = w\<lparr>w_flows := t\<rparr>"
    using assms by (auto simp: flow_write_def updateFlow_def Let_def ebind_eq_Inr split: sum.splits option.splits)
  have "fw_id old = i" using find_SomeD [OF o(1) [unfolded getFlow_def]] by simp
  then have "fw_id f = i" by (simp add: o(2) patched_flow_def)
  then have "t = update_rows (\<lambda>r. fw_id r = i) (\<lambda>_. f) (w_flows w)" using o(3) by (auto simp: replace_flow_def split: if_splits)
  then have "getFlow i t = Some f" using find_written [OF o(1) [unfolded getFlow_def], of f] \<open>fw_id f = i\<close> by (simp add: getFlow_def)
  then show ?thesis using o by auto
qed

lemma adds_flow_write: "adds (no_creation (\<lambda>_. True)) (flow_write i p)"
  by (rule adds_silent) (auto simp: flow_write_def split: sum.splits)

lemma adds_import: "adds (no_creation (\<lambda>_. True)) (importRepositoryAndBind e ids k sid u subject repo)"
proof -
  have page: "adds (no_creation (\<lambda>_. True)) (repositories_page e g n)" for g n
    unfolding repositories_page_def split_beta by (intro adds_bind adds_fetch adds_basic) simp_all
  have find: "adds (no_creation (\<lambda>_. True)) (find_repository e g repo n)" for g n
    by (induction n) (auto intro!: adds_bind page split: option.split)
  have reads: "adds (no_creation (\<lambda>_. True)) (installation_reads e g r)" for g r
    unfolding installation_reads_def split_beta by (intro adds_bind adds_installation adds_token adds_fetch adds_basic) simp_all
  have bound: "adds (no_creation (\<lambda>_. True)) (bind_repository ids x)" for x
    unfolding bind_repository_def split_beta by (rule adds_identity_action) simp
  have used: "adds (no_creation (\<lambda>_. True)) (consume_grant k)" by (rule adds_silent) (simp_all add: consume_grant_def drop_grant_def)
  show ?thesis unfolding importRepositoryAndBind_def owns_nothing_def findUserInstallationRepositoryRaw_def
    by (intro adds_bind adds_grant adds_throwing find reads bound used adds_basic) simp_all
qed

lemma failed_flow:
  assumes "creation_failed e str i f x w = (w', r)"
  shows "w_log w' = w_log w \<and> (\<forall>ws. r \<noteq> Inr (Provisioned ws))
    \<and> (r = Inr (Provision_failed ''PARTIAL_REPOSITORY_CREATION'') \<longrightarrow> is_partial x
      \<and> (\<exists>g. getFlow i (w_flows w') = Some g \<and> fw_state g = OS_recovery_required \<and> fw_last_error_code g = Some ''PARTIAL_REPOSITORY_CREATION''))"
proof (cases "is_partial x")
  case True
  then obtain m rep where x: "x = Partial_creation m rep" by (cases x) simp_all
  obtain w1 r1 where f: "flow_write i (partial_patch m rep) w = (w1, r1)" by fastforce
  show ?thesis
  proof (cases r1)
    case (Inl y)
    then show ?thesis using assms f flow_write_keeps [OF f] by (auto simp: creation_failed_def x bind_action_def)
  next
    case (Inr g)
    then have r: "w' = w1" "r = Inr (Provision_failed ''PARTIAL_REPOSITORY_CREATION'')"
      using assms f by (simp_all add: creation_failed_def x bind_action_def pass_def)
    have "fw_state g = OS_recovery_required \<and> fw_last_error_code g = Some ''PARTIAL_REPOSITORY_CREATION''"
      using flow_written [OF f [unfolded Inr]] by (auto simp: partial_patch_def failed_state_def no_patch_def patched_flow_def patched_def)
    then show ?thesis using r flow_written [OF f [unfolded Inr]] flow_write_keeps [OF f] True by simp
  qed
next
  case False
  define msg where "msg = shown_error e str x"
  define busy where "busy = failed_state OS_awaiting_repository_choice ''REPOSITORY_NAME_CONFLICT'' (Some (''Repository name ''
            @ quote_text (case fw_desired_repository_name f of None \<Rightarrow> ''null'' | Some n \<Rightarrow> n)
            @ '' already exists on GitHub. Please choose another name.''))"
  have "(if name_conflict x msg then bind_action (flow_write i busy) (\<lambda>_. pass (Provision_failed ''REPOSITORY_NAME_CONFLICT''))
      else bind_action (flow_write i (failed_state OS_recovery_required ''PROVISIONING_FAILED'' (Some msg))) (\<lambda>_. throw x)) w = (w', r)"
    using assms False unfolding creation_failed_def msg_def busy_def Let_def by (cases x) (simp_all only: server_error.case is_partial.simps simp_thms)
  then obtain p where "(\<exists>w1 r1. flow_write i p w = (w1, r1) \<and> w' = w1
      \<and> (r = Inr (Provision_failed ''REPOSITORY_NAME_CONFLICT'') \<or> (\<exists>y. r = Inl y)))"
    by (auto simp: bind_action_def pass_def throw_def split: if_splits prod.splits sum.splits)
  then show ?thesis using flow_write_keeps by fastforce
qed

text \<open>What a finished request leaves in the flow.\<close>

definition recorded :: "string \<Rightarrow> 'g server_world \<Rightarrow> request_log \<Rightarrow> server_error + provision_outcome \<Rightarrow> bool" where
  "recorded i w new r \<longleftrightarrow>
     (\<forall>ws. r = Inr (Provisioned ws) \<longrightarrow>
       (\<exists>f. getFlow i (w_flows w) = Some f \<and> fw_workspace_id f = Some ws \<and> fw_state f = OS_awaiting_repository_restriction))
   \<and> (r = Inr (Provision_failed ''PARTIAL_REPOSITORY_CREATION'') \<longrightarrow> created new
      \<and> (\<exists>f. getFlow i (w_flows w) = Some f \<and> fw_state f = OS_recovery_required \<and> fw_last_error_code f = Some ''PARTIAL_REPOSITORY_CREATION''))"

lemma recorded_error [simp]: "recorded i w new (Inl x)"
  by (simp add: recorded_def)

lemma created_flow:
  assumes "catching (bind_action (createRepositoryAndBind e ids k sid u subject name None) (\<lambda>(rows, _).
      bind_action (flow_write i (created_patch rows)) (\<lambda>_. pass (Provisioned (wk_id (nw_workspace rows)))))) (creation_failed e str i f) w = (w', r)"
  shows "\<exists>new. w_log w' = new @ w_log w \<and> length (creations new) \<le> 1 \<and> recorded i w' new r"
proof -
  obtain w1 r1 where c: "createRepositoryAndBind e ids k sid u subject name None w = (w1, r1)" by fastforce
  obtain new where new: "w_log w1 = new @ w_log w" "tells new r1" using creation_tells c unfolding adds_def by blast
  have len: "length (creations new) \<le> 1" using new(2) by (simp add: tells_def)
  show ?thesis
  proof (cases r1)
    case (Inl x)
    have h: "creation_failed e str i f x w1 = (w', r)" using assms c Inl by (simp add: catching_def bind_action_def)
    have "is_partial x \<Longrightarrow> created new" using new(2) Inl by (simp add: tells_def)
    then have "recorded i w' new r" using failed_flow [OF h] unfolding recorded_def by blast
    then show ?thesis using failed_flow [OF h] new(1) len by auto
  next
    case (Inr p)
    obtain rows st where p: "p = (rows, st)" by (cases p)
    obtain w2 r2 where g: "flow_write i (created_patch rows) w1 = (w2, r2)" by fastforce
    show ?thesis
    proof (cases r2)
      case (Inl x)
      have h: "creation_failed e str i f x w2 = (w', r)" using assms c Inr p g Inl by (simp add: catching_def bind_action_def)
      have "\<not> is_partial x" using g Inl by (auto simp: flow_write_def split: sum.splits)
      then have "recorded i w' new r" using failed_flow [OF h] unfolding recorded_def by blast
      then show ?thesis using failed_flow [OF h] new(1) len flow_write_keeps [OF g] by auto
    next
      case w: (Inr fl)
      have r: "w' = w2" "r = Inr (Provisioned (wk_id (nw_workspace rows)))"
        using assms c Inr p g w by (simp_all add: catching_def bind_action_def pass_def)
      have "fw_workspace_id fl = Some (wk_id (nw_workspace rows)) \<and> fw_state fl = OS_awaiting_repository_restriction"
        using flow_written [OF g [unfolded w]] by (auto simp: created_patch_def clean_state_def no_patch_def patched_flow_def patched_def)
      then have "recorded i w' new r" using flow_written [OF g [unfolded w]] r by (simp add: recorded_def)
      then show ?thesis using new(1) len flow_write_keeps [OF g] r(1) by auto
    qed
  qed
qed

lemma recovered_flow:
  assumes "recoverPartialCreation e ids i sid u subject k w = (w', r)"
  shows "\<exists>new. w_log w' = new @ w_log w \<and> creations new = [] \<and> recorded i w' new r"
proof -
  have "adds (no_creation (\<lambda>_. True)) (recoverPartialCreation e ids i sid u subject k)"
    unfolding recoverPartialCreation_def owned_flow_def flow_member_def split_beta
    by (intro adds_bind adds_import adds_flow_write adds_basic) (auto intro: adds_basic split: option.split)
  then obtain new where new: "w_log w' = new @ w_log w" "creations new = []" using assms unfolding adds_def no_creation_def by blast
  have "recorded i w' new r"
  proof (cases r)
    case (Inr x)
    obtain w1 fl and rows :: workspace_rows where g: "flow_write i ((clean_state OS_awaiting_repository_restriction)\<lparr>fp_workspace_id := Some (Some (wk_id (nw_workspace rows))),
        fp_installation_row_id := Some (Some (rb_installation_row_id (nw_repository rows)))\<rparr>) w1 = (w', Inr fl)"
        "x = Provisioned (wk_id (nw_workspace rows))"
      using assms Inr by (auto simp: recoverPartialCreation_def bind_Inr pass_Inr)
    have "fw_workspace_id fl = Some (wk_id (nw_workspace rows)) \<and> fw_state fl = OS_awaiting_repository_restriction"
      using flow_written [OF g(1)] by (auto simp: clean_state_def no_patch_def patched_flow_def patched_def)
    then show ?thesis using flow_written [OF g(1)] g(2) Inr by (simp add: recorded_def)
  qed simp
  then show ?thesis using new by blast
qed


section \<open>An onboarding\<close>

text \<open>A repository is created for the flow of a user; then the installation is restricted to the listed repositories.\<close>

definition account_flow :: onboarding_flow where
  "account_flow = (new_flow 1 ''onb_a'' ''usr_a'' ''7'' DEFAULT_ONBOARDING_TTL_MS None)\<lparr>fw_desired_repository_name := Some ''vault''\<rparr>"

definition account_provision :: "bool \<Rightarrow> bool server_world \<times> (server_error + provision_outcome)" where
  "account_provision g = provisionWorkspace account_env (\<lambda>_. ''Error'') (''e'', ''f'', ''g'') ''onb_a'' ''s'' ''usr_a'' ''7'' ''k''
     ((account_world g)\<lparr>w_flows := [account_flow]\<rparr>)"

lemma account_provisions:
  "(case snd (account_provision False) of Inr (Provisioned ws) \<Rightarrow> ws = ''ws_e'' | _ \<Rightarrow> False)"
  "(case snd (account_provision True) of Inr (Provision_failed c) \<Rightarrow> c = ''PARTIAL_REPOSITORY_CREATION'' | _ \<Rightarrow> False)"
  by code_simp+


fun restricted_reply :: "json list \<Rightarrow> github_request \<Rightarrow> bool \<Rightarrow> bool \<times> github_reply" where
  "restricted_reply xs (Get_installation i) g = (g, Reply 200 (Inr (JObj (fmap_of_list [(''id'', jint 11),
     (''repository_selection'', JStr ''selected''), (''permissions'', JObj (fmap_of_list [(''contents'', JStr ''write'')]))]))))"
| "restricted_reply xs List_installation_repositories g = (g, Reply 200 (Inr (JObj (fmap_of_list [(''repositories'', JArr xs)]))))"
| "restricted_reply xs q g = sample_reply q g"

definition listed_repository :: "int \<Rightarrow> json" where
  "listed_repository i = JObj (fmap_of_list [(''id'', jint i), (''name'', JStr ''vault''), (''full_name'', JStr ''octo/vault''),
     (''owner'', JObj (fmap_of_list [(''login'', JStr ''octo'')]))])"

definition restricted_env :: "int list \<Rightarrow> bool bootstrap_env" where
  "restricted_env ks = sample_env\<lparr>be_github := (\<lambda>au q w. let (g, r) = restricted_reply (map listed_repository ks) q (w_github w) in (w\<lparr>w_github := g\<rparr>, r))\<rparr>"

definition restricted_access :: "int list \<Rightarrow> bool server_world \<times> (server_error + access_outcome)" where
  "restricted_access ks = verifyRepositoryAccessAndBootstrap (restricted_env ks) (\<lambda>_. ''Error'') ''h'' ''onb_a'' ''usr_a'' L_en
     (sample_world\<lparr>w_flows := [account_flow\<lparr>fw_workspace_id := Some ''ws_e'', fw_state := OS_awaiting_repository_restriction\<rparr>]\<rparr>)"

lemma restricted_accesses:
  "(case snd (restricted_access [21]) of Inr (Access_status st) \<Rightarrow> st = PS_ready | _ \<Rightarrow> False)"
  "(case snd (restricted_access [21, 22]) of Inr (Access_failed reason m) \<Rightarrow> reason = Scope_mismatch | _ \<Rightarrow> False)"
  "scope_verified (w_identity sample_world) ''ws_e''"
  by code_simp+

lemma restricted_still: "still (restricted_env ks)"
  by (simp add: still_def restricted_env_def Let_def split_beta)

lemma scope_follows_github_witness:
  "scope_verified (w_identity (fst (restricted_access [21]))) ''ws_e'' \<and> scope_shown sample_i3 ''ws_e'' (w_log (fst (restricted_access [21])))
    \<and> \<not> scope_verified (w_identity (fst (restricted_access [21, 22]))) ''ws_e''"
proof -
  let ?w = "sample_world\<lparr>w_flows := [account_flow\<lparr>fw_workspace_id := Some ''ws_e'', fw_state := OS_awaiting_repository_restriction\<rparr>]\<rparr>"
  have r: "verifyRepositoryAccessAndBootstrap (restricted_env ks) (\<lambda>_. ''Error'') ''h'' ''onb_a'' ''usr_a'' L_en ?w
      = (fst (restricted_access ks), snd (restricted_access ks))" for ks by (simp add: restricted_access_def)
  have f: "getFlow ''onb_a'' (w_flows ?w) = Some (account_flow\<lparr>fw_workspace_id := Some ''ws_e'', fw_state := OS_awaiting_repository_restriction\<rparr>)"
    by code_simp
  obtain m where out: "snd (restricted_access [21]) = Inr (Access_status PS_ready)" "snd (restricted_access [21, 22]) = Inr (Access_failed Scope_mismatch m)"
    using restricted_accesses(1,2) by (auto split: sum.splits access_outcome.splits)
  have i: "w_identity ?w = sample_i3" by (simp add: sample_world_def)
  from scope_follows_github [OF r [of "[21]"] restricted_still] scope_follows_github [OF r [of "[21, 22]"] restricted_still]
  show ?thesis unfolding f i out by simp
qed

end
