(* ===== verification/Spec2Isabelle.thy ===== *)
theory Spec2Isabelle
  imports Job_Properties Job_Guarantees Fence_Properties Schema_Properties Control_Properties Coordinator_Operations Deletion_Properties Device_Properties OAuth_Properties Client_Properties Onboarding_Properties
begin

text \<open>
  A model of the job system of the server (\<^verbatim>\<open>src/services/server/src\<close>): people and agents submit jobs for an
  execution target, devices that are bound to the target claim and run them, report and deliver results, and
  operators cancel jobs, read them, and delete targets. Devices enroll with the approval of a user and then
  authenticate with the credential they were issued; hosts get access tokens through OAuth. Users log in, install the GitHub
  App and bind a repository as their workspace, which the server then fills with the files it needs.

  \<^bold>\<open>How the program is put together.\<close> Two stores hold the state. The \<^emph>\<open>job store\<close> is Redis:
  \<^verbatim>\<open>jobs/v2-store.ts\<close> sends the Lua scripts of \<^verbatim>\<open>jobs/v2-assignment-script.ts\<close>, each of which runs
  atomically, and some plain commands through \<^verbatim>\<open>jobs/redis-runner.ts\<close>. The \<^emph>\<open>control store\<close> is SQLite:
  \<^verbatim>\<open>connector/control-store.ts\<close> keeps devices, credentials, execution targets, bindings and defaults, and
  reads the users, workspaces, memberships and repository bindings of \<^verbatim>\<open>identity/store.ts\<close>. The coordinator
  \<^verbatim>\<open>jobs/v2-service.ts\<close> decides over both stores: who may submit, claim, read and cancel; the deletion
  \<^verbatim>\<open>jobs/target-delete.ts\<close> takes a fence in the job store, scans the job stream and deletes the row in the
  control store. The connector routes of \<^verbatim>\<open>connector/router.ts\<close> are the way in for devices: an enrollment
  (\<^verbatim>\<open>connector/enrollment-store.ts\<close>, in memory) is begun by a device, approved or denied by a user with a session
  (\<^verbatim>\<open>auth/user-session.ts\<close>), and turned into a device with a credential by a poll; later requests are authenticated by
  \<^verbatim>\<open>connector/device-auth.ts\<close>. The OAuth service (\<^verbatim>\<open>oauth/service.ts\<close> over the tables of \<^verbatim>\<open>oauth/store.ts\<close>) grants hosts
  access to the workspace of a user who consents; its clients are registered (\<^verbatim>\<open>oauth/dcr\<close>) or described by a document at
  their own URL (\<^verbatim>\<open>oauth/client-metadata.ts\<close>). \<^verbatim>\<open>identity/store.ts\<close> is the same SQLite database as the control store: it
  also keeps external identities, GitHub installations and the state of the bootstrap of each workspace, which
  \<^verbatim>\<open>github/bootstrap-service.ts\<close> carries out through the GitHub API. Record formats and checks are in \<^verbatim>\<open>jobs/v2-schema.ts\<close> and \<^verbatim>\<open>jobs/execution-contract.ts\<close>.

  \<^bold>\<open>Theories and what they model.\<close>
  \<^item> \<open>Prelude\<close>, \<open>Json\<close>, \<open>Id_Patterns\<close>: strings as lists of UTF-8 bytes (\<^verbatim>\<open>trim\<close>, UTF-16 lengths), JSON
    values with rational numbers and finite maps for objects, the identifier patterns of the schema, decimal numbers.
  \<^item> \<open>Execution_Contract\<close> (\<^verbatim>\<open>execution-contract.ts\<close>) and \<open>Job_Schema\<close> (\<^verbatim>\<open>v2-schema.ts\<close>): the records, the zod
    schemas as parsers from JSON, the serialisers, keys and constants; errors are values of a sum type.
  \<^item> \<open>Redis\<close> (\<^verbatim>\<open>redis-runner.ts\<close>): the key space as a map from keys to typed values with expiry times, one
    definition per command, with its type errors. \<open>Lua_Values\<close>: what Lua and cjson do with nil, null, numbers and tables.
  \<^item> \<open>Job_Scripts\<close>: the seven scripts reply by reply and write by write; \<open>Job_Store\<close>: every method of
    \<^verbatim>\<open>RedisJobStoreV2\<close>, from arguments to the error class thrown.
  \<^item> \<open>Job_Machine\<close>: the specification, a queue of job records with one function per operation and its
    invariant \<open>machine_inv\<close>; \<open>Job_Invariant\<close> shows that every operation keeps it, \<open>Job_Refinement\<close> and
    \<open>Store_Refinement\<close> that scripts and store simulate it (\<open>represents\<close> relates a key space to an abstract queue).
  \<^item> \<open>Job_Lifecycle\<close>: concurrent clients as an inductive step relation \<open>job_step\<close> on the Redis clock and the key space,
    simulated by \<open>machine_step\<close>; \<open>Job_Frame\<close> says which keys an operation leaves alone.
  \<^item> \<open>Control_Store\<close>: the tables as lists of rows in a record, one definition per method, statements, constraints and
    transactions included; \<open>Control_Invariant\<close> and \<open>Control_Lifecycle\<close>: its constraints over all reachable databases.
  \<^item> \<open>Business_Digest\<close>, \<open>Iso_Date\<close>: \<^verbatim>\<open>JSON.stringify\<close> of the digested parameters, \<^verbatim>\<open>Date.toISOString\<close>.
  \<^item> \<open>Job_Coordinator\<close>: every method of \<^verbatim>\<open>JobCoordinatorV2\<close>. \<open>Coordinator_Listing\<close>, \<open>Coordinator_Views\<close> and
    \<open>Coordinator_Operations\<close> prove what hosts and devices see and may do.
  \<^item> \<open>Target_Deletion\<close>: every method of \<^verbatim>\<open>TargetDeleteCoordinator\<close>; \<open>Deletion_Fence\<close>, \<open>Deletion_Scan\<close> and
    \<open>Deletion_Properties\<close> prove it safe under interference and that it ends when undisturbed.
  \<^item> \<open>Enrollment_Store\<close>: every operation of \<^verbatim>\<open>DeviceEnrollmentStore\<close>, a JavaScript \<^verbatim>\<open>Map\<close> being an association
    list; \<open>Enrollment_Flow\<close>: the session table and the four enrollment routes. \<open>Enrollment_Invariant\<close>: indexes, codes and bounds
    of the store; \<open>Enrollment_Protocol\<close>: all clients as an inductive step relation \<open>flow_step\<close> with a history of logins, pages
    and decisions, and its invariant; \<open>Enrollment_Properties\<close> reads the security properties off it.
  \<^item> \<open>Device_Auth\<close> (\<^verbatim>\<open>device-auth.ts\<close>), \<open>Target_Schema\<close> (\<^verbatim>\<open>target-schema.ts\<close>), \<open>Device_Routes\<close> (the routes of
    authenticated devices, with the answer to every error): \<open>Device_Properties\<close> shows the reach of a request, that issued
    credentials work and that revoked devices are locked out. \<open>Control_Owners\<close>: what no operation on devices ever changes.

  \<^item> \<open>OAuth_Store\<close>: every operation on the four tables of \<^verbatim>\<open>oauth/store.ts\<close>; \<open>OAuth_Service\<close>: the service and the token and
    decision routes of \<^verbatim>\<open>oauth/service.ts\<close> and \<^verbatim>\<open>oauth/router.ts\<close>. \<open>OAuth_Effects\<close> says what each operation does to the
    tables, \<open>OAuth_Protocol\<close> has all clients as a step relation with a history of pages, decisions and exchanges,
    \<open>OAuth_Properties\<close> the theorems. \<open>Js_Words\<close>: \<^verbatim>\<open>trim\<close>, \<^verbatim>\<open>split\<close> and \<^verbatim>\<open>join\<close> of texts.
  \<^item> \<open>Client_Metadata\<close> (\<^verbatim>\<open>oauth/client-metadata.ts\<close>, \<^verbatim>\<open>oauth/client-resolver.ts\<close>) and \<open>Client_Registration\<close> (\<^verbatim>\<open>oauth/dcr\<close>):
    which clients exist, where they may be redirected to and which addresses the server fetches documents from;
    \<open>Client_Properties\<close>.
  \<^item> \<open>Identity_Store\<close> and \<open>Bootstrap_Store\<close>: the tables and every operation of \<^verbatim>\<open>identity/store.ts\<close>; \<open>Identity_Validation\<close>:
    the check of all rows that the server makes when it opens the database. \<open>Identity_Invariant\<close> and \<open>Identity_Lifecycle\<close>:
    an invariant stronger than that check and its preservation by each operation; \<open>Identity_Protocol\<close>: the steps of the store with
    the history of the bootstrap attempts, and the steps of the database it shares with the control store
    (\<open>control_view\<close> gives the control store its part of the identity tables); \<open>Identity_Properties\<close>, with the link to OAuth.
  \<^item> \<open>Onboarding_Store\<close> (\<^verbatim>\<open>onboarding/store.ts\<close>): the flow that leads a user to a workspace, as rows of the identity database.
  \<^item> \<open>Server_World\<close>: the requests to GitHub with their replies, the state of the server they interleave with, and its actions.
  \<^item> \<open>GitHub_App\<close> (\<^verbatim>\<open>github/app-client.ts\<close>), \<open>Bootstrap_Service\<close> and \<open>Bootstrap_Flow\<close>
    (\<^verbatim>\<open>github/bootstrap-service.ts\<close>, \<^verbatim>\<open>bootstrap/manifest.ts\<close>): the bootstrap request by request. \<open>Bootstrap_Trace\<close>: a logic of
    triples over the log of requests; \<open>Bootstrap_Properties\<close>.
  \<^item> \<open>Installation_Service\<close> (\<^verbatim>\<open>github/installation-service.ts\<close>): the installation of the GitHub App by a user;
    \<open>Repository_Service\<close> and \<open>Repository_Binding\<close> (\<^verbatim>\<open>github/repository-service.ts\<close>): authorizations and grants, and with a grant the
    listing, import and creation of repositories. Lists are read in at most 100 pages, by recursion on the pages left;
    \<open>Repository_Properties\<close> and \<open>Installation_Properties\<close>.
  \<^item> \<open>Onboarding_Service\<close> (\<^verbatim>\<open>onboarding/service.ts\<close>): the wizard from the name of a repository to a workspace that is
    ready; \<open>Bootstrap_Frame\<close>: what its calls leave unchanged; \<open>Onboarding_Properties\<close>.

  \<^bold>\<open>Concurrency.\<close> A script or a single command is one step. Between two awaited calls other clients may run: operations
  that read first and write later take what happens in between as an argument (\<open>env\<close>, \<open>submit_env\<close>, \<open>cancel_env\<close>,
  \<open>delete_env\<close>), and the theorems quantify over it, most often as any sequence of \<open>job_step\<close>. SQLite calls are
  synchronous, so they are one step each. GitHub is a function that takes the state of the whole server world to a new one and a reply, so
  that whatever other requests do while the server waits for GitHub is part of it; \<open>undisturbed\<close> says that they leave the workspace alone.

  \<^bold>\<open>Interfaces.\<close> \<open>preserved_by\<close> and \<open>monotone_by\<close> in \<open>Transition_Systems\<close> (an invariant of a step relation, an
  order that every step respects) are interpreted for the job store, the control store (twice), the enrollment protocol, OAuth, the identity store (twice), the shared
  database and the steps of other clients while a delete
  fence is held; \<open>backward_stream\<close> in \<open>Coordinator_Listing\<close> (a stream read from a cursor towards its beginning) is
  interpreted by the job stream; \<open>world_order\<close>, \<open>github_order\<close> and \<open>bootstrap_order\<close> in \<open>Bootstrap_Frame\<close> (an order on the states
  of the server that every action respects) by two orders, which keep the identity tables and the repository bindings.

  \<^bold>\<open>What the properties show.\<close> The scripts refine the abstract queue, which keeps its invariant; so every stored record parses, is
  linked to its attempt and never changes once it has ended; a claim is exclusive and a submission idempotent; a cancelled job stays
  cancelled; a fresh fence closes its target. Parsers and serialisers are inverse, and the schemas accept exactly their contract. The
  control database keeps its constraints; eligibility, revocation, registration and defaults do what callers rely on. Claims and
  submissions through the coordinator are authorised, listings are exact, isolated pages, every job stays readable, and a deletion that
  reports success leaves nothing that could still run. A device credential is issued only at the end of an approval chain, a denial
  is final, enrollments are found by every spelling of their code, and beginning one always gets an answer. An issued credential
  authenticates its device until it expires or is revoked, a revoked device never authenticates again, and a request changes nothing
  beyond the device and the workspaces of its user. An access token needs the consent of the active owner of the workspace, the code and
  the refresh tokens are used once, and a replay ends the family. The database shared by identity and control store always passes its own check; a
  login always finds the same user; only the current bootstrap attempt of a workspace can end, a workspace is granted only after one
  ended well, and the bootstrap only ever adds files on top of what it has read, makes a workspace ready only after reading it
  again, and ends when nobody disturbs it. The answer to a creation tells whether a repository exists; a repository is imported only for
  its administrator, with a live grant, and an installation is stored only for the user GitHub shows it to. The onboarding
  records a workspace as restricted only after GitHub has shown it, and creates one repository for a flow.

  \<^bold>\<open>Parameters.\<close> Code outside the repository is an argument: SHA-256 (\<open>sha\<close>), the canonical JSON hash (\<open>jcs\<close>), Unicode lower and upper
  case (\<open>lc\<close>, \<open>uc\<close>), the resource transaction of a managed result (\<open>apply_result\<close>), the server clock, random identifiers and tokens, the digests of PKCE and of tokens (\<open>sha64\<close>), the parser of URLs (\<open>url\<close>),
  name resolution (\<open>dns\<close>), the fetching of documents (\<open>http\<close>), \<^verbatim>\<open>net.isIPv6\<close> (\<open>is_v6\<close>), GitHub (\<open>be_github\<close>), the parser of dates, the
  texts of the README, of identity errors and of numbers in messages. Members of GitHub's replies that the source casts to a text
  without a check are taken to be texts or absent.

  \<^bold>\<open>Bounds.\<close> Times are integers. \<open>short t\<close> says that a time has at most fourteen digits, because cjson rounds larger numbers;
  the refinement theorems are stated for such times. Stream entry ids are pairs of naturals, without the limit of 64 bits.
  A cancellation makes three rounds as the code does; a page of the listing reads at most 256 entries; the
  scan of a deletion is a partial function, shown to end when the stream does not grow.
  \<open>prompt\<close> states the timing that a deletion needs: a fence lasts 60 seconds, a batch makes at most 258 calls
  between two touches, so 200 milliseconds for a call and 4.8 seconds of clock skew are enough.
  The search for an unused user code is a partial function; it ends once more different codes were drawn than the store may hold.
  A handler that reads the clock several times takes the readings as a function.

  \<^bold>\<open>Not modelled.\<close> The adapters of the job API (\<^verbatim>\<open>v2-router.ts\<close>, \<^verbatim>\<open>v2-tools.ts\<close>) and the zod schemas of request
  bodies they parse; the workspace list of the connector; the routes \<^verbatim>\<open>GET /authorize\<close> and \<^verbatim>\<open>GET /authorize/resume\<close> of OAuth, which
  lead through login and onboarding pages, and its constant metadata documents; HTML, cookies, origin checks, logs
  and failures of the database files, their migrations and the checks of their schema; the signing of the token of the GitHub App and the
  encoding of URLs; the loading of scripts by digest; connection management of Redis; a listing reads the stores at one
  moment; the GitHub login, the routes and pages of GitHub installations and of onboarding (but not the services behind them), workspace files, resources and the web
  console, which are mostly I/O around external services.
\<close>

end
